(* ===== verification/Prelude.thy ===== *)
theory Prelude
  imports Main "HOL-Library.Word" "HOL-Library.Signed_Division"
begin

unbundle bit_operations_syntax

text \<open>
  Shared vocabulary of the development: the C integer types as words, pointers that the
  code compares with \<open>NULL\<close>, the byte order of the wire format, \<open>memcpy\<close> on arrays,
  truncating signed division, and the theorem collections the component theories fill.
\<close>

section \<open>Machine types\<close>

type_synonym u8 = "8 word"
type_synonym u16 = "16 word"
type_synonym u32 = "32 word"

text \<open>A pointer argument that the code compares with \<open>NULL\<close>.\<close>

type_synonym 'a ptr = "'a option"

abbreviation NULL :: "'a ptr" where "NULL \<equiv> None"

named_theorems wire_simps \<open>evaluation of wire codes and of the validators' tests\<close>
named_theorems invar_intro \<open>operations that keep a component's invariant\<close>

section \<open>Bytes and little-endian integers\<close>

definition lo8 :: "u16 \<Rightarrow> u8" where
  "lo8 w = ucast (w AND 0xFF)"

definition hi8 :: "u16 \<Rightarrow> u8" where
  "hi8 w = ucast (drop_bit 8 w)"

definition u16_le :: "u8 \<Rightarrow> u8 \<Rightarrow> u16" where
  "u16_le lo hi = ucast lo OR push_bit 8 (ucast hi)"

definition byte_of_u32 :: "nat \<Rightarrow> u32 \<Rightarrow> u8" where
  "byte_of_u32 k w = ucast (drop_bit (8 * k) w AND 0xFF)"

definition u32_le :: "u8 \<Rightarrow> u8 \<Rightarrow> u8 \<Rightarrow> u8 \<Rightarrow> u32" where
  "u32_le a b c d =
     ucast a OR push_bit 8 (ucast b) OR push_bit 16 (ucast c) OR push_bit 24 (ucast d)"

lemma byte_mask: "(255 :: 'a::len word) = mask 8"
  by (simp add: mask_eq_exp_minus_1)

lemma bit_u8_ge: "8 \<le> n \<Longrightarrow> \<not> bit (b :: u8) n"
  using bit_imp_le_length [of b n] by auto

lemma u16_le_split [simp]: "u16_le (lo8 w) (hi8 w) = w"
proof (rule bit_word_eqI)
  fix n
  assume "n < LENGTH(16)"
  then show "bit (u16_le (lo8 w) (hi8 w)) n \<longleftrightarrow> bit w n"
    by (cases "n < 8") (auto simp: u16_le_def lo8_def hi8_def byte_mask bit_simps not_less)
qed

lemma lo8_u16_le [simp]: "lo8 (u16_le a b) = a"
  by (rule bit_word_eqI) (auto simp: u16_le_def lo8_def byte_mask bit_simps)

lemma hi8_u16_le [simp]: "hi8 (u16_le a b) = b"
  by (rule bit_word_eqI) (auto simp: u16_le_def hi8_def bit_simps bit_u8_ge)

definition u16_bytes :: "u16 \<Rightarrow> u8 list" where
  "u16_bytes w = [lo8 w, hi8 w]"

lemma u16_le_eq_iff: "u16_le a b = u16_le c d \<longleftrightarrow> a = c \<and> b = d"
  by (metis lo8_u16_le hi8_u16_le)

lemma u32_le_split [simp]:
  "u32_le (byte_of_u32 0 w) (byte_of_u32 1 w) (byte_of_u32 2 w) (byte_of_u32 3 w) = w"
proof (rule bit_word_eqI)
  fix n
  assume "n < LENGTH(32)"
  then consider "n < 8" | "8 \<le> n" "n < 16" | "16 \<le> n" "n < 24" | "24 \<le> n" "n < 32"
    by force
  then show "bit (u32_le (byte_of_u32 0 w) (byte_of_u32 1 w) (byte_of_u32 2 w)
               (byte_of_u32 3 w)) n \<longleftrightarrow> bit w n"
    by cases (auto simp: u32_le_def byte_of_u32_def byte_mask bit_simps)
qed

section \<open>Widening\<close>

text \<open>The casts \<open>(uint32_t)x\<close> and \<open>(uint16_t)x\<close> of a narrower unsigned value.\<close>

definition to_u32 :: "'a::len word \<Rightarrow> u32" where
  "to_u32 b = ucast b"

definition to_u16 :: "u8 \<Rightarrow> u16" where
  "to_u16 b = ucast b"

lemma unat_u8_less [simp]: "unat (b :: u8) < 256"
  using unsigned_less [of b, where ?'a = nat] by simp

lemma unat_u16_less [simp]: "unat (b :: u16) < 65536"
  using unsigned_less [of b, where ?'a = nat] by simp

lemma unat_u32_less [simp]: "unat (b :: u32) < 4294967296"
  using unsigned_less [of b, where ?'a = nat] by simp

lemma unat_to_u32_u8 [simp]: "unat (to_u32 (b :: u8)) = unat b"
  using unat_u8_less [of b]
  by (simp add: to_u32_def unsigned_ucast_eq take_bit_nat_eq_self_iff del: unat_u8_less)

lemma unat_to_u32_u16 [simp]: "unat (to_u32 (b :: u16)) = unat b"
  using unat_u16_less [of b]
  by (simp add: to_u32_def unsigned_ucast_eq take_bit_nat_eq_self_iff del: unat_u16_less)

lemma unat_to_u16 [simp]: "unat (to_u16 b) = unat b"
  using unat_u8_less [of b]
  by (simp add: to_u16_def unsigned_ucast_eq take_bit_nat_eq_self_iff del: unat_u8_less)

lemma to_u32_u8_eq_iff [simp]: "to_u32 (a :: u8) = to_u32 (b :: u8) \<longleftrightarrow> a = b"
  by (metis unat_to_u32_u8 word_unat_eq_iff)

lemma to_u32_u16_eq_iff [simp]: "to_u32 (a :: u16) = to_u32 (b :: u16) \<longleftrightarrow> a = b"
  by (metis unat_to_u32_u16 word_unat_eq_iff)

lemma to_u32_eq_numeral [simp]:
  assumes "numeral n < (256 :: nat)"
  shows "to_u32 (a :: u8) = numeral n \<longleftrightarrow> a = numeral n"
proof -
  have "numeral n < (2 :: nat) ^ LENGTH(32)" "numeral n < (2 :: nat) ^ LENGTH(8)"
    by (rule less_le_trans [OF assms], simp)+
  then have "unat (numeral n :: u32) = numeral n" "unat (numeral n :: u8) = numeral n"
    by (simp_all only: unat_numeral mod_less)
  then show ?thesis by (simp only: word_unat_eq_iff unat_to_u32_u8)
qed

lemma to_u32_eq_0 [simp]: "to_u32 (a :: u8) = 0 \<longleftrightarrow> a = 0"
  by (simp add: word_unat_eq_iff)

lemma to_u32_eq_1 [simp]: "to_u32 (a :: u8) = 1 \<longleftrightarrow> a = 1"
  by (simp add: word_unat_eq_iff)

lemma to_u32_numeral [simp]: "to_u32 (numeral n :: u8) = ucast (numeral n :: u8)"
  by (simp add: to_u32_def)

lemma to_u32_0 [simp]: "to_u32 (0 :: u8) = 0"
  by (simp add: to_u32_def)

lemma to_u32_1 [simp]: "to_u32 (1 :: u8) = 1"
  by (simp add: to_u32_def)

section \<open>Arrays\<close>

text \<open>
  \<open>memcpy dst off src soff n\<close> is \<open>memcpy(&dst[off], &src[soff], n)\<close> on arrays as lists.
  The copy stays inside both arrays wherever the lemmas below have their hypotheses; the
  callers' theories prove those.
\<close>

definition memcpy :: "'a list \<Rightarrow> nat \<Rightarrow> 'a list \<Rightarrow> nat \<Rightarrow> nat \<Rightarrow> 'a list" where
  "memcpy dst off src soff n = take off dst @ take n (drop soff src) @ drop (off + n) dst"

lemma length_memcpy [simp]:
  "off + n \<le> length dst \<Longrightarrow> soff + n \<le> length src \<Longrightarrow>
     length (memcpy dst off src soff n) = length dst"
  by (simp add: memcpy_def)

lemma memcpy_nth_inside:
  "off + n \<le> length dst \<Longrightarrow> soff + n \<le> length src \<Longrightarrow> i < n \<Longrightarrow>
     memcpy dst off src soff n ! (off + i) = src ! (soff + i)"
  by (simp add: memcpy_def nth_append)

lemma take_memcpy [simp]:
  "soff + n \<le> length src \<Longrightarrow> take n (memcpy dst 0 src soff n) = take n (drop soff src)"
  by (simp add: memcpy_def)

lemma take_list_update_length:
  "i < length xs \<Longrightarrow> take (Suc i) (xs[i := x]) = take i xs @ [x]"
  by (simp add: take_Suc_conv_app_nth)

text \<open>Short buffers, byte by byte.\<close>

lemma list_of_length_10:
  "length xs = 10 \<Longrightarrow>
     \<exists>a b c d e f g h i j. xs = [a, b, c, d, e, f, g, h, i, j]"
  by (auto simp: length_Suc_conv eval_nat_numeral)

lemma list_of_length_5: "length xs = 5 \<Longrightarrow> \<exists>a b c d e. xs = [a, b, c, d, e]"
  by (auto simp: length_Suc_conv eval_nat_numeral)

lemma list_of_length_2: "length xs = 2 \<Longrightarrow> \<exists>a b. xs = [a, b]"
  by (auto simp: length_Suc_conv eval_nat_numeral)

lemma list_of_length_3: "length xs = 3 \<Longrightarrow> \<exists>a b c. xs = [a, b, c]"
  by (auto simp: length_Suc_conv eval_nat_numeral)

lemma list_of_length_1: "length xs = 1 \<Longrightarrow> \<exists>a. xs = [a]"
  by (auto simp: length_Suc_conv)

section \<open>C signed division\<close>

text \<open>
  C's \<open>/\<close> on \<open>int32_t\<close> truncates towards zero: \<open>sdiv\<close> of the library. A fraction
  \<open>e / d\<close> of at most one moves a value at most to its end, on the side it started from.
\<close>

lemma sdiv_fraction_nonneg:
  assumes "0 \<le> x" "0 \<le> e" "e \<le> d" "0 < d"
  shows "0 \<le> (x * e) sdiv d \<and> (x * e) sdiv d \<le> (x :: int)"
proof -
  have "x * e \<le> x * d" using assms by (simp add: mult_left_mono)
  then have "(x * e) div d \<le> x"
    using zdiv_mono1 [of "x * e" "x * d" d] assms by simp
  moreover have "0 \<le> (x * e) div d"
    using assms by (simp add: pos_imp_zdiv_nonneg_iff)
  moreover have "(x * e) sdiv d = (x * e) div d"
    using assms by (cases "x * e = 0") (auto simp: signed_divide_int_def sgn_if abs_mult mult_less_0_iff)
  ultimately show ?thesis by simp
qed

lemma sdiv_minus_left: "(- x) sdiv d = - (x sdiv (d :: int))"
  by (simp add: signed_divide_int_def)

lemma sdiv_full [simp]: "0 < (d :: int) \<Longrightarrow> (x * d) sdiv d = x"
  by (cases "x = 0") (auto simp: signed_divide_int_def sgn_mult abs_mult mult.commute [of "sgn x"] abs_mult_sgn)

lemma sdiv_fraction_between:
  assumes "0 \<le> e" "e \<le> d" "0 < (d :: int)"
  shows "min s t \<le> s + ((t - s) * e) sdiv d \<and> s + ((t - s) * e) sdiv d \<le> max s t"
proof (cases "s \<le> t")
  case True
  then show ?thesis
    using sdiv_fraction_nonneg [of "t - s" e d] assms by auto
next
  case False
  have "((t - s) * e) sdiv d = - (((s - t) * e) sdiv d)"
    by (metis minus_diff_eq mult_minus_left sdiv_minus_left)
  then show ?thesis
    using False sdiv_fraction_nonneg [of "s - t" e d] assms by auto
qed

end
