(* ===== verification/Uart_Protocol.thy ===== *)
theory Uart_Protocol
  imports Prelude
begin

text \<open>
  The common part of the UART contract, \<open>shared/include/logistics/contracts/uart_protocol.h\<close>:
  frame layout constants, the command, status, error and device-state codes, the frame
  structure, and the validators of commands and payload lengths that codec, parser and
  every device share.
\<close>

section \<open>Frame layout and timing constants\<close>

abbreviation (input) UART_SOF :: "'a::numeral" where "UART_SOF \<equiv> 0xAA"
abbreviation (input) UART_PROTOCOL_VERSION :: "'a::one" where "UART_PROTOCOL_VERSION \<equiv> 1"
abbreviation (input) UART_MAX_PAYLOAD_SIZE :: "'a::numeral" where "UART_MAX_PAYLOAD_SIZE \<equiv> 128"
abbreviation (input) UART_FRAME_HEADER_SIZE :: "'a::numeral" where "UART_FRAME_HEADER_SIZE \<equiv> 5"
abbreviation (input) UART_FRAME_OVERHEAD_SIZE :: "'a::numeral" where "UART_FRAME_OVERHEAD_SIZE \<equiv> 7"
abbreviation (input) UART_MAX_FRAME_SIZE :: "'a::numeral" where "UART_MAX_FRAME_SIZE \<equiv> 135"
abbreviation (input) UART_RETRY_INTERVAL_MS :: "'a::numeral" where "UART_RETRY_INTERVAL_MS \<equiv> 20"
abbreviation (input) UART_MAX_RETRY_COUNT :: "'a::numeral" where "UART_MAX_RETRY_COUNT \<equiv> 3"

section \<open>Codes\<close>

text \<open>
  Each C enumeration is a datatype with the source's enumerators and a function that gives
  the code of each, at whatever integer width the code compares it.
\<close>

datatype uart_command_t =
    UART_CMD_NONE
  | UART_CMD_PING | UART_CMD_GET_STATUS | UART_CMD_RESET_DEVICE
  | UART_CMD_SENSOR_STATUS | UART_CMD_DEVICE_STATUS | UART_CMD_OPERATION_RESULT
  | UART_CMD_RESPONSE | UART_CMD_ACK | UART_CMD_EVENT
  | UART_CMD_EMERGENCY_STOP

primrec cmd_code :: "uart_command_t \<Rightarrow> 'a::len word" where
  "cmd_code UART_CMD_NONE = 0x00"
| "cmd_code UART_CMD_PING = 0x01"
| "cmd_code UART_CMD_GET_STATUS = 0x02"
| "cmd_code UART_CMD_RESET_DEVICE = 0x03"
| "cmd_code UART_CMD_SENSOR_STATUS = 0x50"
| "cmd_code UART_CMD_DEVICE_STATUS = 0x51"
| "cmd_code UART_CMD_OPERATION_RESULT = 0x52"
| "cmd_code UART_CMD_RESPONSE = 0xE0"
| "cmd_code UART_CMD_ACK = 0xE1"
| "cmd_code UART_CMD_EVENT = 0xE2"
| "cmd_code UART_CMD_EMERGENCY_STOP = 0xF0"

datatype uart_status_t =
  UART_STATUS_ACK | UART_STATUS_NACK | UART_STATUS_BUSY | UART_STATUS_SUCCESS | UART_STATUS_ERROR

primrec status_code :: "uart_status_t \<Rightarrow> 'a::len word" where
  "status_code UART_STATUS_ACK = 0x00"
| "status_code UART_STATUS_NACK = 0x01"
| "status_code UART_STATUS_BUSY = 0x02"
| "status_code UART_STATUS_SUCCESS = 0x03"
| "status_code UART_STATUS_ERROR = 0x04"

datatype uart_error_t =
    UART_ERROR_NONE | UART_ERROR_INVALID_VERSION | UART_ERROR_INVALID_COMMAND
  | UART_ERROR_INVALID_LENGTH | UART_ERROR_CRC_MISMATCH | UART_ERROR_SEQUENCE
  | UART_ERROR_TIMEOUT | UART_ERROR_BUSY | UART_ERROR_SENSOR | UART_ERROR_MOTOR
  | UART_ERROR_SERVO | UART_ERROR_EMERGENCY_STOP | UART_ERROR_UNSUPPORTED_COMMAND
  | UART_ERROR_INVALID_PAYLOAD | UART_ERROR_SPEED_NOT_CONFIGURED | UART_ERROR_INTERNAL

primrec error_code :: "uart_error_t \<Rightarrow> 'a::len word" where
  "error_code UART_ERROR_NONE = 0x00"
| "error_code UART_ERROR_INVALID_VERSION = 0x01"
| "error_code UART_ERROR_INVALID_COMMAND = 0x02"
| "error_code UART_ERROR_INVALID_LENGTH = 0x03"
| "error_code UART_ERROR_CRC_MISMATCH = 0x04"
| "error_code UART_ERROR_SEQUENCE = 0x05"
| "error_code UART_ERROR_TIMEOUT = 0x06"
| "error_code UART_ERROR_BUSY = 0x07"
| "error_code UART_ERROR_SENSOR = 0x08"
| "error_code UART_ERROR_MOTOR = 0x09"
| "error_code UART_ERROR_SERVO = 0x0A"
| "error_code UART_ERROR_EMERGENCY_STOP = 0x0B"
| "error_code UART_ERROR_UNSUPPORTED_COMMAND = 0x0C"
| "error_code UART_ERROR_INVALID_PAYLOAD = 0x0D"
| "error_code UART_ERROR_SPEED_NOT_CONFIGURED = 0x0E"
| "error_code UART_ERROR_INTERNAL = 0xFF"

datatype uart_device_state_t =
    UART_DEVICE_IDLE | UART_DEVICE_READY | UART_DEVICE_RUNNING | UART_DEVICE_STOPPED
  | UART_DEVICE_BUSY | UART_DEVICE_ERROR | UART_DEVICE_EMERGENCY_STOP

primrec device_code :: "uart_device_state_t \<Rightarrow> 'a::len word" where
  "device_code UART_DEVICE_IDLE = 0x00"
| "device_code UART_DEVICE_READY = 0x01"
| "device_code UART_DEVICE_RUNNING = 0x02"
| "device_code UART_DEVICE_STOPPED = 0x03"
| "device_code UART_DEVICE_BUSY = 0x04"
| "device_code UART_DEVICE_ERROR = 0x05"
| "device_code UART_DEVICE_EMERGENCY_STOP = 0x06"

datatype uart_sensor_state_t = UART_SENSOR_OK | UART_SENSOR_FAULT

primrec sensor_code :: "uart_sensor_state_t \<Rightarrow> 'a::len word" where
  "sensor_code UART_SENSOR_OK = 0x00"
| "sensor_code UART_SENSOR_FAULT = 0x02"

definition uart_sensor_state_is_valid :: "u32 \<Rightarrow> bool" where
  "uart_sensor_state_is_valid state \<longleftrightarrow>
     state = sensor_code UART_SENSOR_OK \<or> state = sensor_code UART_SENSOR_FAULT"

section \<open>Payload layouts\<close>

abbreviation (input) UART_SENSOR_ID_INDEX :: "'a::zero" where "UART_SENSOR_ID_INDEX \<equiv> 0"
abbreviation (input) UART_SENSOR_STATE_INDEX :: "'a::one" where "UART_SENSOR_STATE_INDEX \<equiv> 1"
abbreviation (input) UART_SENSOR_STATUS_PAYLOAD_SIZE :: "'a::numeral"
  where "UART_SENSOR_STATUS_PAYLOAD_SIZE \<equiv> 4"
abbreviation (input) UART_SENSOR_DISTANCE_UNKNOWN :: "'a::numeral"
  where "UART_SENSOR_DISTANCE_UNKNOWN \<equiv> 0xFFFF"
abbreviation (input) UART_DEVICE_STATUS_PAYLOAD_SIZE :: "'a::numeral"
  where "UART_DEVICE_STATUS_PAYLOAD_SIZE \<equiv> 3"
abbreviation (input) UART_OPERATION_RESULT_PAYLOAD_SIZE :: "'a::numeral"
  where "UART_OPERATION_RESULT_PAYLOAD_SIZE \<equiv> 2"
abbreviation (input) UART_RESPONSE_STATUS_INDEX :: "'a::zero" where "UART_RESPONSE_STATUS_INDEX \<equiv> 0"
abbreviation (input) UART_RESPONSE_COMMAND_INDEX :: "'a::one" where "UART_RESPONSE_COMMAND_INDEX \<equiv> 1"
abbreviation (input) UART_RESPONSE_ERROR_INDEX :: "'a::numeral" where "UART_RESPONSE_ERROR_INDEX \<equiv> 2"
abbreviation (input) UART_RESPONSE_HEADER_SIZE :: "'a::numeral" where "UART_RESPONSE_HEADER_SIZE \<equiv> 3"
abbreviation (input) UART_ACK_PAYLOAD_SIZE :: "'a::numeral" where "UART_ACK_PAYLOAD_SIZE \<equiv> 5"
abbreviation (input) UART_EVENT_ID_INDEX :: "'a::zero" where "UART_EVENT_ID_INDEX \<equiv> 0"
abbreviation (input) UART_EVENT_HEADER_SIZE :: "'a::one" where "UART_EVENT_HEADER_SIZE \<equiv> 1"

section \<open>The frame structure\<close>

record uart_frame_t =
  frame_version :: u8
  frame_sequence :: u8
  frame_command :: u8
  frame_length :: u8
  frame_payload :: "u8 list" \<comment> \<open>\<open>uint8_t payload[128]\<close>\<close>
  frame_crc :: u16

definition frame_array_ok :: "uart_frame_t \<Rightarrow> bool" where
  "frame_array_ok f \<longleftrightarrow> length (frame_payload f) = UART_MAX_PAYLOAD_SIZE"

definition zero_frame :: uart_frame_t where
  "zero_frame = \<lparr>frame_version = 0, frame_sequence = 0, frame_command = 0, frame_length = 0,
     frame_payload = replicate 128 0, frame_crc = 0\<rparr>"

lemma frame_array_ok_zero [simp]: "frame_array_ok zero_frame"
  by (simp add: frame_array_ok_def zero_frame_def)

section \<open>Validators\<close>

definition uart_is_device_command :: "u32 \<Rightarrow> bool" where
  "uart_is_device_command command \<longleftrightarrow> 0x10 \<le> command \<and> command \<le> 0x4F"

definition uart_payload_length_is_valid :: "u32 \<Rightarrow> bool" where
  "uart_payload_length_is_valid n \<longleftrightarrow> n \<le> UART_MAX_PAYLOAD_SIZE"

definition uart_command_is_common :: "u32 \<Rightarrow> bool" where
  "uart_command_is_common command \<longleftrightarrow> command \<in>
     {cmd_code UART_CMD_PING, cmd_code UART_CMD_GET_STATUS, cmd_code UART_CMD_RESET_DEVICE,
      cmd_code UART_CMD_SENSOR_STATUS, cmd_code UART_CMD_DEVICE_STATUS,
      cmd_code UART_CMD_OPERATION_RESULT, cmd_code UART_CMD_RESPONSE, cmd_code UART_CMD_ACK,
      cmd_code UART_CMD_EVENT, cmd_code UART_CMD_EMERGENCY_STOP}"

definition uart_command_is_valid :: "u32 \<Rightarrow> bool" where
  "uart_command_is_valid command \<longleftrightarrow>
     (if uart_command_is_common command then True
      else if uart_is_device_command command then True
      else False)"

definition uart_command_payload_length_is_valid :: "u32 \<Rightarrow> u32 \<Rightarrow> bool" where
  "uart_command_payload_length_is_valid command n =
     (if \<not> uart_command_is_valid command then False
      else if \<not> uart_payload_length_is_valid n then False
      else if command \<in> {cmd_code UART_CMD_PING, cmd_code UART_CMD_GET_STATUS,
                         cmd_code UART_CMD_RESET_DEVICE, cmd_code UART_CMD_EMERGENCY_STOP}
        then n = 0
      else if command = cmd_code UART_CMD_SENSOR_STATUS then n = UART_SENSOR_STATUS_PAYLOAD_SIZE
      else if command = cmd_code UART_CMD_DEVICE_STATUS then n = UART_DEVICE_STATUS_PAYLOAD_SIZE
      else if command = cmd_code UART_CMD_OPERATION_RESULT
        then n = UART_OPERATION_RESULT_PAYLOAD_SIZE
      else if command = cmd_code UART_CMD_RESPONSE then UART_RESPONSE_HEADER_SIZE \<le> n
      else if command = cmd_code UART_CMD_ACK then n = UART_ACK_PAYLOAD_SIZE
      else if command = cmd_code UART_CMD_EVENT then UART_EVENT_HEADER_SIZE \<le> n
      else uart_is_device_command command)"

text \<open>The macros that cast their arguments to \<open>uint32_t\<close>.\<close>

definition UART_IS_VALID_PAYLOAD_LENGTH :: "u8 \<Rightarrow> bool" where
  "UART_IS_VALID_PAYLOAD_LENGTH n = uart_payload_length_is_valid (to_u32 n)"

definition UART_IS_VALID_COMMAND :: "u8 \<Rightarrow> bool" where
  "UART_IS_VALID_COMMAND command = uart_command_is_valid (to_u32 command)"

definition UART_IS_VALID_COMMAND_PAYLOAD_LENGTH :: "u8 \<Rightarrow> u8 \<Rightarrow> bool" where
  "UART_IS_VALID_COMMAND_PAYLOAD_LENGTH command n =
     uart_command_payload_length_is_valid (to_u32 command) (to_u32 n)"

definition UART_IS_EMERGENCY_COMMAND :: "u8 \<Rightarrow> bool" where
  "UART_IS_EMERGENCY_COMMAND command \<longleftrightarrow> to_u32 command = cmd_code UART_CMD_EMERGENCY_STOP"

section \<open>Facts about the validators\<close>

lemma payload_length_valid_iff: "UART_IS_VALID_PAYLOAD_LENGTH n \<longleftrightarrow> unat n \<le> 128"
  by (simp add: UART_IS_VALID_PAYLOAD_LENGTH_def uart_payload_length_is_valid_def word_le_nat_alt)

lemma command_payload_length_valid_command:
  "UART_IS_VALID_COMMAND_PAYLOAD_LENGTH c n \<Longrightarrow> UART_IS_VALID_COMMAND c"
  by (auto simp: UART_IS_VALID_COMMAND_PAYLOAD_LENGTH_def uart_command_payload_length_is_valid_def
      UART_IS_VALID_COMMAND_def split: if_splits)

lemma command_payload_length_valid_length:
  "UART_IS_VALID_COMMAND_PAYLOAD_LENGTH c n \<Longrightarrow> UART_IS_VALID_PAYLOAD_LENGTH n"
  by (auto simp: UART_IS_VALID_COMMAND_PAYLOAD_LENGTH_def uart_command_payload_length_is_valid_def
      UART_IS_VALID_PAYLOAD_LENGTH_def split: if_splits)

lemma sof_not_command: "\<not> UART_IS_VALID_COMMAND UART_SOF"
  by (simp add: UART_IS_VALID_COMMAND_def uart_command_is_valid_def uart_command_is_common_def
      uart_is_device_command_def)

lemma common_command_not_device:
  "uart_command_is_common c \<Longrightarrow> \<not> uart_is_device_command c"
  by (auto simp: uart_command_is_common_def uart_is_device_command_def word_le_nat_alt)

end
