(* ===== verification/Uart_Crc16.thy ===== *)
theory Uart_Crc16
  imports Uart_Protocol
begin

text \<open>
  The frame checksum, \<open>shared/contracts/uart/uart_crc16.c\<close>: CRC16-CCITT-FALSE. The code's
  loop is compared with the bit-serial shift register of the specification, and the step
  functions are shown injective, which is what the error detection of the codec rests on.
\<close>

section \<open>The routine\<close>

abbreviation (input) UART_CRC16_POLYNOMIAL :: "'a::numeral" where "UART_CRC16_POLYNOMIAL \<equiv> 0x1021"
abbreviation (input) UART_CRC16_INITIAL_VALUE :: "'a::numeral"
  where "UART_CRC16_INITIAL_VALUE \<equiv> 0xFFFF"
abbreviation (input) UART_CRC16_XOR_OUT :: "'a::zero" where "UART_CRC16_XOR_OUT \<equiv> 0"

definition crc16_bit :: "u16 \<Rightarrow> u16" where
  "crc16_bit crc =
     (if crc AND 0x8000 \<noteq> 0 then push_bit 1 crc XOR UART_CRC16_POLYNOMIAL
      else push_bit 1 crc)"

primrec crc16_bits :: "nat \<Rightarrow> u16 \<Rightarrow> u16" where
  "crc16_bits 0 crc = crc"
| "crc16_bits (Suc n) crc = crc16_bits n (crc16_bit crc)"

definition crc16_byte :: "u16 \<Rightarrow> u8 \<Rightarrow> u16" where
  "crc16_byte crc byte = crc16_bits 8 (crc XOR push_bit 8 (to_u16 byte))"

definition uart_crc16_ccitt :: "u8 list ptr \<Rightarrow> nat \<Rightarrow> u16" where
  "uart_crc16_ccitt data n =
     (case data of
        None \<Rightarrow> (if n \<noteq> 0 then 0 else UART_CRC16_INITIAL_VALUE XOR UART_CRC16_XOR_OUT)
      | Some d \<Rightarrow> foldl crc16_byte UART_CRC16_INITIAL_VALUE (take n d) XOR UART_CRC16_XOR_OUT)"

definition UART_CRC_LOW_BYTE :: "u16 \<Rightarrow> u8" where
  "UART_CRC_LOW_BYTE crc = ucast (crc AND 0xFF)"

definition UART_CRC_HIGH_BYTE :: "u16 \<Rightarrow> u8" where
  "UART_CRC_HIGH_BYTE crc = ucast (drop_bit 8 crc AND 0xFF)"

lemma crc_low_byte [simp]: "UART_CRC_LOW_BYTE crc = lo8 crc"
  by (simp add: UART_CRC_LOW_BYTE_def lo8_def)

lemma crc_high_byte [simp]: "UART_CRC_HIGH_BYTE crc = hi8 crc"
  by (rule bit_word_eqI) (auto simp: UART_CRC_HIGH_BYTE_def hi8_def byte_mask bit_simps)

lemma uart_crc16_ccitt_Some [simp]:
  "uart_crc16_ccitt (Some d) n = foldl crc16_byte UART_CRC16_INITIAL_VALUE (take n d)"
  by (simp add: uart_crc16_ccitt_def)

section \<open>The bit-serial reference\<close>

text \<open>
  The specification of the CRC: a shift register that takes the message one bit at a time,
  most significant bit of each byte first, and feeds the polynomial back whenever the bit
  shifted out differs from the message bit.
\<close>

definition lfsr_step :: "u16 \<Rightarrow> bool \<Rightarrow> u16" where
  "lfsr_step r b = push_bit 1 r XOR (if bit r 15 \<noteq> b then UART_CRC16_POLYNOMIAL else 0)"

definition byte_bits :: "u8 \<Rightarrow> bool list" where
  "byte_bits b = map (bit b) [7, 6, 5, 4, 3, 2, 1, 0]"

definition crc16_reference :: "u8 list \<Rightarrow> u16" where
  "crc16_reference ds = foldl lfsr_step 0xFFFF (concat (map byte_bits ds))"

lemma crc16_bit_alt: "crc16_bit x = lfsr_step x False"
  using and_exp_eq_0_iff_not_bit [of x 15] by (simp add: crc16_bit_def lfsr_step_def)

lemma lfsr_step_linear:
  "lfsr_step (x XOR y) (b \<noteq> c) = lfsr_step x b XOR lfsr_step y c"
  by (rule bit_word_eqI) (auto simp: lfsr_step_def bit_simps)

lemma xor_cancel [simp]:
  "(s XOR m = t XOR m) \<longleftrightarrow> s = t" "(m XOR s = m XOR t) \<longleftrightarrow> s = t"
  for s t m :: "'a::len word"
  by (metis xor.assoc xor.left_neutral xor_self_eq xor.commute)+

lemma bit_shift_left_1: "bit (push_bit 1 r) j \<longleftrightarrow> 0 < j \<and> j < 16 \<and> bit r (j - 1)"
  for r :: u16
  by (simp only: bit_push_bit_iff possible_bit_word) auto

lemma bit_lfsr_step:
  "bit (lfsr_step r b) j \<longleftrightarrow> j < 16 \<and>
     ((0 < j \<and> bit r (j - 1)) \<noteq> ((bit r 15 \<noteq> b) \<and> bit (0x1021 :: u16) j))"
proof (cases "j < 16")
  case True
  then show ?thesis
    by (simp only: lfsr_step_def bit_xor_iff bit_shift_left_1 bit_0_eq split: if_splits) auto
next
  case False
  then show ?thesis by (auto dest: bit_imp_le_length)
qed

lemma crc16_bit_xor: "crc16_bit (x XOR y) = crc16_bit x XOR crc16_bit y"
  using lfsr_step_linear [of x y False False] by (simp add: crc16_bit_alt)

lemma crc16_bits_xor: "crc16_bits n (x XOR y) = crc16_bits n x XOR crc16_bits n y"
  by (induction n arbitrary: x y) (simp_all add: crc16_bit_xor)

lemma crc16_bit_inject: "crc16_bit x = crc16_bit y \<longleftrightarrow> x = y"
proof
  assume eq: "crc16_bit x = crc16_bit y"
  then have "bit (crc16_bit x) 0 = bit (crc16_bit y) 0"
    by simp
  then have msb: "bit x 15 = bit y 15"
    by (simp add: crc16_bit_alt bit_lfsr_step)
  show "x = y"
  proof (rule bit_word_eqI)
    fix n
    assume "n < LENGTH(16)"
    then consider "n = 15" | "n < 15" by force
    then show "bit x n = bit y n"
    proof cases
      case 2
      from eq have "bit (crc16_bit x) (Suc n) = bit (crc16_bit y) (Suc n)" by simp
      with 2 msb show ?thesis by (auto simp: crc16_bit_alt bit_lfsr_step)
    qed (simp add: msb)
  qed
qed simp

lemma crc16_bits_inject: "crc16_bits n x = crc16_bits n y \<longleftrightarrow> x = y"
  by (induction n arbitrary: x y) (simp_all add: crc16_bit_inject)

lemma crc16_byte_inject_state: "crc16_byte s b = crc16_byte t b \<longleftrightarrow> s = t"
  by (simp add: crc16_byte_def crc16_bits_inject)

lemma crc16_byte_inject_byte: "crc16_byte s b = crc16_byte s c \<longleftrightarrow> b = c"
proof
  assume "crc16_byte s b = crc16_byte s c"
  then have "push_bit 8 (to_u16 b) = (push_bit 8 (to_u16 c))"
    by (simp add: crc16_byte_def crc16_bits_inject)
  then have "hi8 (push_bit 8 (to_u16 b)) = hi8 (push_bit 8 (to_u16 c))"
    by simp
  moreover have "hi8 (push_bit 8 (to_u16 d)) = d" for d
    by (rule bit_word_eqI) (auto simp: hi8_def to_u16_def bit_simps bit_u8_ge)
  ultimately show "b = c" by simp
qed simp

lemma crc16_fold_inject: "foldl crc16_byte s ds = foldl crc16_byte t ds \<longleftrightarrow> s = t"
  by (induction ds arbitrary: s t) (simp_all add: crc16_byte_inject_state)

text \<open>
  The byte-wise step feeds the eight bits of the byte to the register. While \<open>n\<close> bits
  are still to come, the code's register is the reference register with those bits already
  added at the top.
\<close>

lemma crc16_bit_pending:
  assumes "0 < n" "n \<le> 8"
  shows "crc16_bit (r XOR push_bit (16 - n) (take_bit n w)) =
    lfsr_step r (bit w (n - 1)) XOR push_bit (16 - (n - 1)) (take_bit (n - 1) w)"
proof (rule bit_word_eqI)
  fix j
  assume j: "j < LENGTH(16)"
  have top: "bit (push_bit (16 - n) (take_bit n w)) 15 \<longleftrightarrow> bit w (n - 1)"
    using assms by (auto simp: bit_simps)
  have pending: "(0 < j \<and> bit (push_bit (16 - n) (take_bit n w)) (j - 1)) \<longleftrightarrow>
      bit (push_bit (16 - (n - 1)) (take_bit (n - 1) w)) j"
    using assms j by (auto simp: bit_simps)
  show "bit (crc16_bit (r XOR push_bit (16 - n) (take_bit n w))) j \<longleftrightarrow>
     bit (lfsr_step r (bit w (n - 1)) XOR push_bit (16 - (n - 1)) (take_bit (n - 1) w)) j"
    using j by (simp only: crc16_bit_alt bit_lfsr_step top bit_xor_iff pending [symmetric]) auto
qed

lemma crc16_bits_pending:
  "n \<le> 8 \<Longrightarrow> crc16_bits n (r XOR push_bit (16 - n) (take_bit n w)) =
     foldl lfsr_step r (map (bit w) (rev [0..<n]))"
proof (induction n arbitrary: r)
  case (Suc n)
  then have "crc16_bits (Suc n) (r XOR push_bit (16 - Suc n) (take_bit (Suc n) w)) =
      crc16_bits n (lfsr_step r (bit w n) XOR push_bit (16 - n) (take_bit n w))"
    using crc16_bit_pending [of "Suc n" r w] by simp
  then show ?case using Suc by simp
qed simp

lemma crc16_byte_bits: "crc16_byte s b = foldl lfsr_step s (byte_bits b)"
proof -
  have "take_bit 8 (to_u16 b) = to_u16 b"
    by (rule bit_word_eqI) (auto simp: to_u16_def bit_simps dest: bit_imp_le_length)
  moreover have "map (bit (to_u16 b)) (rev [0..<8]) = byte_bits b"
    by (simp add: byte_bits_def to_u16_def bit_simps upt_rec eval_nat_numeral)
  ultimately show ?thesis
    using crc16_bits_pending [of 8 s "to_u16 b"] by (simp add: crc16_byte_def)
qed

lemma crc16_fold_bits:
  "foldl crc16_byte s ds = foldl lfsr_step s (concat (map byte_bits ds))"
  by (induction ds arbitrary: s) (simp_all add: crc16_byte_bits)

lemma crc16_fold_reference: "foldl crc16_byte 0xFFFF ds = crc16_reference ds"
  by (simp add: crc16_reference_def crc16_fold_bits)

text \<open>
  C28: The checksum loop, a byte XORed into the top of the register and eight conditional
  shifts, computes the bit-serial CRC-16/CCITT-FALSE of the same data, a shift register fed one
  message bit at a time.
\<close>

theorem uart_crc16_is_reference:
  "uart_crc16_ccitt (Some d) n = crc16_reference (take n d)"
  by (simp add: crc16_fold_reference)

text \<open>Two messages that differ in exactly one byte have different checksums.\<close>

lemma crc16_single_byte:
  "b \<noteq> c \<Longrightarrow> foldl crc16_byte s (xs @ b # ys) \<noteq> foldl crc16_byte s (xs @ c # ys)"
  by (simp add: crc16_fold_inject crc16_byte_inject_byte)

text \<open>
  Bursts: two messages of the same length that agree outside a window of sixteen bits have
  different checksums. Sixteen steps from the zero register show all sixteen message bits.
\<close>

lemma lfsr_fold_linear:
  "length us = length vs \<Longrightarrow>
     foldl lfsr_step s us XOR foldl lfsr_step t vs =
     foldl lfsr_step (s XOR t) (map2 (\<noteq>) us vs)"
proof (induction us vs arbitrary: s t rule: list_induct2)
  case (Cons u us v vs)
  then show ?case by (simp only: foldl.simps zip_Cons_Cons list.map prod.case lfsr_step_linear)
qed simp

lemma lfsr_step_zero_low:
  assumes "0 < m" "\<And>j. j < m \<Longrightarrow> \<not> bit (lfsr_step r b) j" "m \<le> 16"
  shows "bit r 15 = b \<and> (\<forall>j < m - 1. \<not> bit r j)"
proof -
  have fb: "bit r 15 = b"
    using assms(1) assms(2) [of 0] by (simp add: bit_lfsr_step)
  have "\<not> bit r j" if "j < m - 1" for j
    using assms(2) [of "Suc j"] assms(3) that fb by (auto simp: bit_lfsr_step)
  with fb show ?thesis by blast
qed

lemma lfsr_fold_kernel:
  assumes "length es \<le> m" "m \<le> 16" "\<And>j. j < m \<Longrightarrow> \<not> bit (foldl lfsr_step 0 es) j"
  shows "foldl lfsr_step 0 es = 0 \<and> es = replicate (length es) False"
  using assms
proof (induction es arbitrary: m rule: rev_induct)
  case (snoc b es)
  have m: "0 < m" "m \<le> 16" using snoc.prems by auto
  have step: "bit (foldl lfsr_step 0 es) 15 = b \<and> (\<forall>j < m - 1. \<not> bit (foldl lfsr_step 0 es) j)"
    by (rule lfsr_step_zero_low [OF m(1) _ m(2)]) (use snoc.prems(3) in simp)
  then have es: "foldl lfsr_step 0 es = 0" "es = replicate (length es) False"
    using snoc.IH [of "m - 1"] snoc.prems by auto
  then have "b = False" using step by simp
  moreover have "es @ [False] = replicate (Suc (length es)) False"
    by (subst es(2)) (simp add: replicate_append_same)
  moreover have "lfsr_step 0 False = 0" by (simp add: lfsr_step_def)
  ultimately show ?case using es by simp
qed simp

lemma lfsr_fold_inject: "foldl lfsr_step s ys = foldl lfsr_step t ys \<longleftrightarrow> s = t"
proof (induction ys arbitrary: s t)
  case (Cons b ys)
  have "lfsr_step s b = lfsr_step t b \<longleftrightarrow> crc16_bit s = crc16_bit t"
    using lfsr_step_linear [of s 0 False b] lfsr_step_linear [of t 0 False b]
    by (simp add: crc16_bit_alt)
  with Cons show ?case by (simp add: crc16_bit_inject)
qed simp

lemma crc16_burst:
  assumes "length us = length vs" "length us \<le> 16" "us \<noteq> vs"
  shows "foldl lfsr_step s (xs @ us @ ys) \<noteq> foldl lfsr_step s (xs @ vs @ ys)"
proof
  assume "foldl lfsr_step s (xs @ us @ ys) = foldl lfsr_step s (xs @ vs @ ys)"
  then have "foldl lfsr_step 0 (map2 (\<noteq>) us vs) = 0"
    using lfsr_fold_linear [OF assms(1), of "foldl lfsr_step s xs" "foldl lfsr_step s xs"]
    by (simp add: lfsr_fold_inject)
  then have same: "map2 (\<noteq>) us vs = replicate (length us) False"
    using lfsr_fold_kernel [of "map2 (\<noteq>) us vs" 16] assms by simp
  have "us ! i = vs ! i" if "i < length us" for i
    using arg_cong [OF same, of "\<lambda>bs. bs ! i"] that assms(1) by simp
  then show False using assms by (auto simp: list_eq_iff_nth_eq)
qed

end
