(* ===== verification/Uart_Codec.thy ===== *)
theory Uart_Codec
  imports Uart_Crc16
begin

text \<open>
  The frame codec, \<open>shared/contracts/uart/uart_codec.c\<close>: \<open>uart_encode_frame\<close> writes a
  frame into a caller's buffer, \<open>uart_decode_frame\<close> checks and unpacks one complete frame.
  The wire image \<open>frame_bytes\<close> is the abstract specification of both.
\<close>

section \<open>The code\<close>

datatype uart_codec_result_t =
    UART_CODEC_OK | UART_CODEC_INVALID_ARGUMENT | UART_CODEC_OUTPUT_TOO_SMALL
  | UART_CODEC_INCOMPLETE_FRAME | UART_CODEC_INVALID_SOF | UART_CODEC_INVALID_VERSION
  | UART_CODEC_INVALID_LENGTH | UART_CODEC_INVALID_COMMAND | UART_CODEC_CRC_MISMATCH
  | UART_CODEC_TRAILING_DATA

text \<open>
  \<open>output\<close> is the caller's buffer and \<open>output_length\<close> the variable the length is stored
  to; both come back as the call leaves them.
\<close>

definition uart_encode_frame ::
  "uart_frame_t ptr \<Rightarrow> u8 list ptr \<Rightarrow> nat \<Rightarrow> nat ptr \<Rightarrow>
     uart_codec_result_t \<times> u8 list ptr \<times> nat ptr" where
  "uart_encode_frame frame output output_capacity output_length =
     (case (frame, output, output_length) of
        (Some f, Some out, Some _) \<Rightarrow>
          (if \<not> UART_IS_VALID_PAYLOAD_LENGTH (frame_length f)
           then (UART_CODEC_INVALID_LENGTH, Some out, Some 0)
           else if \<not> UART_IS_VALID_COMMAND (frame_command f)
           then (UART_CODEC_INVALID_COMMAND, Some out, Some 0)
           else if \<not> UART_IS_VALID_COMMAND_PAYLOAD_LENGTH (frame_command f) (frame_length f)
           then (UART_CODEC_INVALID_LENGTH, Some out, Some 0)
           else if frame_version f \<noteq> UART_PROTOCOL_VERSION
           then (UART_CODEC_INVALID_VERSION, Some out, Some 0)
           else
             (let n = unat (frame_length f);
                  total = UART_FRAME_OVERHEAD_SIZE + n
              in if output_capacity < total
                 then (UART_CODEC_OUTPUT_TOO_SMALL, Some out, Some 0)
                 else
                   (let out = out[0 := UART_SOF, 1 := frame_version f, 2 := frame_sequence f,
                                  3 := frame_command f, 4 := frame_length f];
                        out = (if 0 < n then memcpy out UART_FRAME_HEADER_SIZE (frame_payload f) 0 n
                               else out);
                        crc = uart_crc16_ccitt (Some (drop 1 out)) (4 + n);
                        out = out[5 + n := UART_CRC_LOW_BYTE crc, 6 + n := UART_CRC_HIGH_BYTE crc]
                    in (UART_CODEC_OK, Some out, Some total))))
      | _ \<Rightarrow> (UART_CODEC_INVALID_ARGUMENT, output, output_length))"

definition uart_decode_frame ::
  "u8 list ptr \<Rightarrow> nat \<Rightarrow> uart_frame_t ptr \<Rightarrow> uart_codec_result_t \<times> uart_frame_t ptr" where
  "uart_decode_frame input input_length frame =
     (case (input, frame) of
        (Some inp, Some f) \<Rightarrow>
          (if input_length < UART_FRAME_OVERHEAD_SIZE then (UART_CODEC_INCOMPLETE_FRAME, frame)
           else if inp ! 0 \<noteq> UART_SOF then (UART_CODEC_INVALID_SOF, frame)
           else if inp ! 1 \<noteq> UART_PROTOCOL_VERSION then (UART_CODEC_INVALID_VERSION, frame)
           else if \<not> UART_IS_VALID_COMMAND (inp ! 3) then (UART_CODEC_INVALID_COMMAND, frame)
           else
             (let payload_length = inp ! 4
              in if \<not> UART_IS_VALID_PAYLOAD_LENGTH payload_length
                 then (UART_CODEC_INVALID_LENGTH, frame)
                 else if \<not> UART_IS_VALID_COMMAND_PAYLOAD_LENGTH (inp ! 3) payload_length
                 then (UART_CODEC_INVALID_LENGTH, frame)
                 else
                   (let n = unat payload_length;
                        expected_length = UART_FRAME_OVERHEAD_SIZE + n
                    in if input_length < expected_length
                       then (UART_CODEC_INCOMPLETE_FRAME, frame)
                       else if expected_length < input_length
                       then (UART_CODEC_TRAILING_DATA, frame)
                       else
                         (let received_crc = u16_le (inp ! (5 + n)) (inp ! (6 + n));
                              calculated_crc = uart_crc16_ccitt (Some (drop 1 inp)) (4 + n)
                          in if received_crc \<noteq> calculated_crc
                             then (UART_CODEC_CRC_MISMATCH, frame)
                             else
                               (UART_CODEC_OK, Some (f\<lparr>
                                  frame_version := inp ! 1,
                                  frame_sequence := inp ! 2,
                                  frame_command := inp ! 3,
                                  frame_length := payload_length,
                                  frame_payload :=
                                    (if 0 < n
                                     then memcpy (frame_payload f) 0 inp UART_FRAME_HEADER_SIZE n
                                     else frame_payload f),
                                  frame_crc := received_crc\<rparr>))))))
      | _ \<Rightarrow> (UART_CODEC_INVALID_ARGUMENT, frame))"

section \<open>The wire image\<close>

definition used_payload :: "uart_frame_t \<Rightarrow> u8 list" where
  "used_payload f = take (unat (frame_length f)) (frame_payload f)"

definition body_bytes :: "uart_frame_t \<Rightarrow> u8 list" where
  "body_bytes f =
     [frame_version f, frame_sequence f, frame_command f, frame_length f] @ used_payload f"

definition body_crc :: "uart_frame_t \<Rightarrow> u16" where
  "body_crc f = crc16_reference (body_bytes f)"

definition frame_bytes :: "uart_frame_t \<Rightarrow> u8 list" where
  "frame_bytes f = UART_SOF # body_bytes f @ [lo8 (body_crc f), hi8 (body_crc f)]"

text \<open>What makes a frame acceptable to the protocol.\<close>

definition frame_valid :: "uart_frame_t \<Rightarrow> bool" where
  "frame_valid f \<longleftrightarrow> frame_array_ok f \<and> frame_version f = UART_PROTOCOL_VERSION \<and>
     UART_IS_VALID_COMMAND_PAYLOAD_LENGTH (frame_command f) (frame_length f)"

lemma frame_valid_length: "frame_valid f \<Longrightarrow> unat (frame_length f) \<le> 128"
  by (auto simp: frame_valid_def payload_length_valid_iff
      dest: command_payload_length_valid_length)

lemma frame_valid_checks:
  assumes "frame_valid f"
  shows "UART_IS_VALID_COMMAND (frame_command f)" "UART_IS_VALID_PAYLOAD_LENGTH (frame_length f)"
    "UART_IS_VALID_COMMAND_PAYLOAD_LENGTH (frame_command f) (frame_length f)"
    "frame_version f = UART_PROTOCOL_VERSION"
  using assms command_payload_length_valid_command command_payload_length_valid_length
  by (auto simp: frame_valid_def)

lemma length_used_payload: "frame_valid f \<Longrightarrow> length (used_payload f) = unat (frame_length f)"
  using frame_valid_length [of f] by (simp add: used_payload_def frame_valid_def frame_array_ok_def)

lemma length_frame_bytes: "frame_valid f \<Longrightarrow> length (frame_bytes f) = 7 + unat (frame_length f)"
  by (simp add: frame_bytes_def body_bytes_def length_used_payload)

section \<open>Length-prefixed wire codes\<close>

text \<open>
  What a receiver relies on: the size of a message can be read off the front of the bytes,
  whatever follows. Then a stream of messages has one reading.
\<close>

locale prefix_code =
  fixes encode :: "'m \<Rightarrow> 'b list"
    and wf :: "'m \<Rightarrow> bool"
    and size_at :: "'b list \<Rightarrow> nat"
  assumes size_at: "wf m \<Longrightarrow> size_at (encode m @ rest) = length (encode m)"
    and encode_not_Nil: "wf m \<Longrightarrow> encode m \<noteq> []"
begin

lemma head_unique:
  assumes "wf m" "wf m'" "encode m @ xs = encode m' @ ys"
  shows "encode m = encode m' \<and> xs = ys"
proof -
  have "length (encode m) = length (encode m')"
    using assms size_at by metis
  then show ?thesis using assms(3) by simp
qed

lemma stream_unique:
  assumes "list_all wf ms" "list_all wf ms'"
    and "concat (map encode ms) = concat (map encode ms')"
  shows "map encode ms = map encode ms'"
  using assms
proof (induction ms arbitrary: ms')
  case Nil
  then show ?case using encode_not_Nil by (cases ms') auto
next
  case (Cons m ms)
  then obtain m' rest where "ms' = m' # rest"
    using encode_not_Nil by (cases ms') auto
  then show ?case using Cons head_unique [of m m'] by auto
qed

lemma stream_split:
  assumes "wf m" "list_all wf ms" "concat (map encode ms) = encode m @ rest"
  shows "\<exists>m' ms'. ms = m' # ms' \<and> encode m' = encode m \<and> concat (map encode ms') = rest"
proof (cases ms)
  case Nil
  then show ?thesis using assms encode_not_Nil by auto
next
  case (Cons m' ms')
  then show ?thesis using assms head_unique [of m' m] by auto
qed

end

section \<open>The shape of a wire image\<close>

lemma length_body_bytes: "frame_valid f \<Longrightarrow> length (body_bytes f) = 4 + unat (frame_length f)"
  by (simp add: body_bytes_def length_used_payload)

lemma frame_bytes_header:
  "frame_bytes f ! 0 = UART_SOF" "frame_bytes f ! 1 = frame_version f"
  "frame_bytes f ! 2 = frame_sequence f" "frame_bytes f ! 3 = frame_command f"
  "frame_bytes f ! 4 = frame_length f"
  by (simp_all add: frame_bytes_def body_bytes_def nth_Cons')

lemma frame_bytes_body: "frame_valid f \<Longrightarrow> take (4 + unat (frame_length f)) (drop 1 (frame_bytes f)) = body_bytes f"
  by (simp add: frame_bytes_def length_body_bytes)

lemma frame_bytes_crc:
  assumes "frame_valid f"
  shows "frame_bytes f ! (5 + unat (frame_length f)) = lo8 (body_crc f)"
    "frame_bytes f ! (6 + unat (frame_length f)) = hi8 (body_crc f)"
  using length_body_bytes [OF assms] by (simp_all add: frame_bytes_def nth_append nth_Cons')

lemma frame_bytes_payload:
  "frame_valid f \<Longrightarrow> take (unat (frame_length f)) (drop 5 (frame_bytes f)) = used_payload f"
  using length_used_payload [of f] by (simp add: frame_bytes_def body_bytes_def)

text \<open>The wire image determines the fields and the payload bytes in use.\<close>

lemma frame_bytes_inject:
  assumes "frame_valid f" "frame_valid g" "frame_bytes f = frame_bytes g"
  shows "frame_version f = frame_version g \<and> frame_sequence f = frame_sequence g \<and>
    frame_command f = frame_command g \<and> frame_length f = frame_length g \<and>
    used_payload f = used_payload g"
  using assms frame_bytes_header [of f] frame_bytes_header [of g] frame_bytes_payload [of f]
    frame_bytes_payload [of g] by simp

definition wire_size :: "u8 list \<Rightarrow> nat" where
  "wire_size bs = 7 + unat (bs ! 4)"

interpretation wire: prefix_code frame_bytes frame_valid wire_size
proof
  show "wire_size (frame_bytes m @ rest) = length (frame_bytes m)" if "frame_valid m" for m rest
    using that length_frame_bytes [of m] frame_bytes_header(5) [of m]
    by (simp add: wire_size_def nth_append)
qed (simp add: frame_bytes_def)

section \<open>Encoding\<close>

lemma header_writes:
  assumes "7 \<le> length out"
  shows "out[0 := a, 1 := b, 2 := c, 3 := d, 4 := e] = [a, b, c, d, e] @ drop 5 out"
proof -
  obtain p q r s t rest where "out = p # q # r # s # t # rest"
    using assms by (auto simp: Suc_le_length_iff eval_nat_numeral)
  then show ?thesis by (simp add: eval_nat_numeral)
qed

lemma payload_write:
  assumes "length hdr = 5" "n \<le> length pl" "n \<le> length post"
  shows "(if 0 < n then memcpy (hdr @ post) 5 pl 0 n else hdr @ post) = hdr @ take n pl @ drop n post"
  using assms by (simp add: memcpy_def)

lemma crc_writes:
  assumes "length pre = 5 + n" "2 \<le> length post"
  shows "(pre @ post)[5 + n := x, 6 + n := y] = pre @ [x, y] @ drop 2 post"
proof -
  obtain p q rest where "post = p # q # rest"
    using assms by (auto simp: Suc_le_length_iff eval_nat_numeral)
  then show ?thesis using assms by (simp add: list_update_append eval_nat_numeral)
qed

text \<open>The stores of the encoder, in the order the code makes them, leave the wire image.\<close>

lemma encode_writes:
  fixes out :: "u8 list" and f :: uart_frame_t
  defines "n \<equiv> unat (frame_length f)"
  defines "o1 \<equiv> out[0 := UART_SOF, 1 := frame_version f, 2 := frame_sequence f,
                     3 := frame_command f, 4 := frame_length f]"
  defines "o2 \<equiv> if 0 < n then memcpy o1 5 (frame_payload f) 0 n else o1"
  assumes "frame_valid f" "7 + n \<le> length out"
  shows "o2[5 + n := lo8 (uart_crc16_ccitt (Some (drop 1 o2)) (4 + n)),
            6 + n := hi8 (uart_crc16_ccitt (Some (drop 1 o2)) (4 + n))] =
         frame_bytes f @ drop (7 + n) out"
proof -
  define hdr where "hdr = [UART_SOF, frame_version f, frame_sequence f, frame_command f, frame_length f]"
  have n: "n \<le> length (frame_payload f)"
    using frame_valid_length assms by (simp add: n_def frame_valid_def frame_array_ok_def)
  have room: "7 + n \<le> length out" by (fact assms(5))
  have "o1 = hdr @ drop 5 out"
    unfolding o1_def hdr_def by (rule header_writes) (use room in simp)
  then have "o2 = hdr @ take n (frame_payload f) @ drop n (drop 5 out)"
    unfolding o2_def using room n by (simp only:) (rule payload_write, simp_all add: hdr_def)
  then have o2: "o2 = (UART_SOF # body_bytes f) @ drop (5 + n) out"
    by (simp add: hdr_def body_bytes_def used_payload_def n_def add.commute)
  moreover have "take (4 + n) (drop 1 o2) = body_bytes f"
    using length_body_bytes [OF assms(4)] by (simp add: o2 n_def)
  then have "uart_crc16_ccitt (Some (drop 1 o2)) (4 + n) = body_crc f"
    by (simp add: crc16_fold_reference body_crc_def)
  ultimately show ?thesis
    using crc_writes [of "UART_SOF # body_bytes f" n "drop (5 + n) out"]
      length_body_bytes [OF assms(4)] assms
    by (simp add: n_def frame_bytes_def add.commute)
qed

lemma encode_ok:
  assumes "frame_valid f" "length (frame_bytes f) \<le> capacity" "length out = capacity"
  shows "uart_encode_frame (Some f) (Some out) capacity (Some len) =
    (UART_CODEC_OK, Some (frame_bytes f @ drop (length (frame_bytes f)) out),
     Some (length (frame_bytes f)))"
proof -
  have "7 + unat (frame_length f) \<le> length out"
    using assms by (simp add: length_frame_bytes)
  note writes = encode_writes [OF assms(1) this]
  have tests: "(frame_version f \<noteq> 1) = False" "(capacity < 7 + unat (frame_length f)) = False"
    using frame_valid_checks(4) [OF assms(1)] assms by (simp_all add: length_frame_bytes)
  show ?thesis
    by (simp only: uart_encode_frame_def Let_def option.case prod.case tests writes
        frame_valid_checks(1-3) [OF assms(1)] not_True_eq_False if_False crc_low_byte crc_high_byte
        length_frame_bytes [OF assms(1)])
qed

lemma encode_frame_cases:
  assumes "frame_array_ok f" "length out = capacity"
  obtains (ok) "frame_valid f" "7 + unat (frame_length f) \<le> capacity"
      "uart_encode_frame (Some f) (Some out) capacity (Some len) =
         (UART_CODEC_OK, Some (frame_bytes f @ drop (length (frame_bytes f)) out),
          Some (length (frame_bytes f)))"
  | (refused) r where "r \<noteq> UART_CODEC_OK" "\<not> (frame_valid f \<and> 7 + unat (frame_length f) \<le> capacity)"
      "uart_encode_frame (Some f) (Some out) capacity (Some len) = (r, Some out, Some 0)"
proof (cases "frame_valid f \<and> 7 + unat (frame_length f) \<le> capacity")
  case True
  then show thesis using encode_ok [of f capacity out len] assms by (intro ok) (simp_all add: length_frame_bytes)
next
  case False
  then have "\<exists>r. r \<noteq> UART_CODEC_OK \<and>
      uart_encode_frame (Some f) (Some out) capacity (Some len) = (r, Some out, Some 0)"
    using assms by (auto simp: uart_encode_frame_def frame_valid_def Let_def)
  then show thesis using refused False by blast
qed

text \<open>
  uart_encode_frame succeeds exactly on valid frames that fit the buffer, then writes the
  wire image and its length and leaves the rest of the buffer alone; on any refusal it writes
  nothing and reports length 0.
\<close>

theorem encode_frame_spec:
  assumes "frame_array_ok f" "length out = capacity"
  shows "case uart_encode_frame (Some f) (Some out) capacity (Some len) of
      (r, out', len') \<Rightarrow>
        (r = UART_CODEC_OK \<longleftrightarrow> frame_valid f \<and> 7 + unat (frame_length f) \<le> capacity) \<and>
        (r = UART_CODEC_OK \<longrightarrow>
           out' = Some (frame_bytes f @ drop (length (frame_bytes f)) out) \<and>
           len' = Some (length (frame_bytes f))) \<and>
        (r \<noteq> UART_CODEC_OK \<longrightarrow> out' = Some out \<and> len' = Some 0)"
proof (cases "frame_valid f \<and> 7 + unat (frame_length f) \<le> capacity")
  case True
  then show ?thesis using encode_ok [of f capacity out len] assms by (simp add: length_frame_bytes)
next
  case False
  then show ?thesis
    using assms by (auto simp: uart_encode_frame_def frame_valid_def Let_def)
qed

section \<open>Decoding\<close>

text \<open>How an accepted frame lands in the caller's structure.\<close>

definition decoded_into :: "uart_frame_t \<Rightarrow> uart_frame_t \<Rightarrow> uart_frame_t" where
  "decoded_into old f = f\<lparr>
     frame_payload := used_payload f @ drop (unat (frame_length f)) (frame_payload old),
     frame_crc := body_crc f\<rparr>"

lemma decode_payload_copy:
  assumes "frame_valid f"
  shows "(if 0 < unat (frame_length f)
          then memcpy (frame_payload old) 0 (frame_bytes f) 5 (unat (frame_length f))
          else frame_payload old) =
         used_payload f @ drop (unat (frame_length f)) (frame_payload old)"
  using assms frame_bytes_payload [OF assms] length_used_payload [OF assms]
  by (auto simp: memcpy_def)

lemma decode_frame_bytes:
  assumes "frame_valid f"
  shows "uart_decode_frame (Some (frame_bytes f)) (length (frame_bytes f)) (Some old) =
    (UART_CODEC_OK, Some (decoded_into old f))"
proof -
  have "uart_crc16_ccitt (Some (drop 1 (frame_bytes f))) (4 + unat (frame_length f)) = body_crc f"
    using frame_bytes_body [OF assms]
    by (simp add: crc16_fold_reference body_crc_def)
  then show ?thesis
    using frame_valid_checks [OF assms] frame_bytes_header [of f] frame_bytes_crc [OF assms] decode_payload_copy [OF assms, of old]
    by (simp add: uart_decode_frame_def Let_def length_frame_bytes [OF assms] decoded_into_def
        del: uart_crc16_ccitt_Some)
qed

text \<open>The decoder reads the first \<open>input_length\<close> bytes of its input only.\<close>

lemma decode_take:
  assumes "m \<le> length inp"
  shows "uart_decode_frame (Some inp) m frame = uart_decode_frame (Some (take m inp)) m frame"
proof (cases "m < 7 \<or> m \<noteq> 7 + unat (inp ! 4) \<or> frame = None")
  case True
  then consider "m < 7 \<or> frame = None" | f where "\<not> m < 7" "frame = Some f"
      "m < 7 + unat (inp ! 4) \<or> 7 + unat (inp ! 4) < m"
    by fastforce
  then show ?thesis
  proof cases
    case 1
    then show ?thesis by (auto simp: uart_decode_frame_def split: option.split)
  next
    case 2
    then have "take m inp ! 0 = inp ! 0" "take m inp ! 1 = inp ! 1" "take m inp ! 3 = inp ! 3"
      "take m inp ! 4 = inp ! 4"
      by simp_all
    note bytes = this
    from 2(3) show ?thesis
    proof
      assume short: "m < 7 + unat (inp ! 4)"
      show ?thesis
        by (simp only: uart_decode_frame_def Let_def bytes 2 short option.case prod.case if_True)
    next
      assume long: "7 + unat (inp ! 4) < m"
      then have "(m < 7 + unat (inp ! 4)) = False" by simp
      with long show ?thesis
        by (simp only: uart_decode_frame_def Let_def bytes 2 option.case prod.case if_True if_False)
    qed
  qed
next
  case False
  define n where "n = unat (inp ! 4)"
  have m: "m = 7 + n" using False by (auto simp: n_def)
  obtain f where some: "frame = Some f" using False by auto
  have bytes: "take m inp ! 0 = inp ! 0" "take m inp ! 1 = inp ! 1" "take m inp ! 2 = inp ! 2"
      "take m inp ! 3 = inp ! 3" "take m inp ! 4 = inp ! 4"
      "take m inp ! (5 + n) = inp ! (5 + n)" "take m inp ! (6 + n) = inp ! (6 + n)"
    by (simp_all add: m)
  have crc: "uart_crc16_ccitt (Some (drop 1 (take m inp))) (4 + n) =
      uart_crc16_ccitt (Some (drop 1 inp)) (4 + n)"
    by (simp add: m drop_take min_def)
  have copy: "memcpy p 0 (take m inp) 5 n = memcpy p 0 inp 5 n" for p
    by (simp add: memcpy_def m drop_take min_def)
  show ?thesis
    by (simp only: uart_decode_frame_def Let_def some option.case prod.case bytes n_def [symmetric]
        crc copy)
qed

lemma split_raw_frame:
  assumes "length inp = 7 + n"
  shows "inp = [inp ! 0, inp ! 1, inp ! 2, inp ! 3, inp ! 4] @ take n (drop 5 inp) @
    [inp ! (5 + n), inp ! (6 + n)]"
proof -
  obtain a b c d e rest where inp: "inp = a # b # c # d # e # rest"
    using assms by (auto simp: Suc_le_length_iff eval_nat_numeral length_Suc_conv)
  then have len: "length rest = n + 2" using assms by simp
  then have "rest = take n rest @ [rest ! n, rest ! Suc n]"
    by (metis (no_types, lifting) Cons_nth_drop_Suc add_2_eq_Suc' append_take_drop_id drop_all lessI
        less_SucI order_refl)
  then show ?thesis using inp by (simp add: nth_Cons' eval_nat_numeral)
qed

text \<open>The frame a raw image of the right size stands for.\<close>

definition raw_to_frame :: "u8 list \<Rightarrow> uart_frame_t" where
  "raw_to_frame inp =
     (let n = unat (inp ! 4)
      in \<lparr>frame_version = inp ! 1, frame_sequence = inp ! 2, frame_command = inp ! 3,
          frame_length = inp ! 4,
          frame_payload = take n (drop 5 inp) @ replicate (128 - n) 0,
          frame_crc = u16_le (inp ! (5 + n)) (inp ! (6 + n))\<rparr>)"

lemma decode_ok_image:
  assumes "fst (uart_decode_frame (Some inp) (length inp) (Some old)) = UART_CODEC_OK"
  shows "frame_valid (raw_to_frame inp) \<and> frame_bytes (raw_to_frame inp) = inp"
proof -
  define n where "n = unat (inp ! 4)"
  define crc where "crc = uart_crc16_ccitt (Some (drop 1 inp)) (4 + n)"
  have checks: "inp ! 0 = UART_SOF" "inp ! 1 = UART_PROTOCOL_VERSION"
      "UART_IS_VALID_COMMAND_PAYLOAD_LENGTH (inp ! 3) (inp ! 4)"
      "UART_IS_VALID_PAYLOAD_LENGTH (inp ! 4)" "length inp = 7 + n"
      "u16_le (inp ! (5 + n)) (inp ! (6 + n)) = crc"
    using assms by (auto simp: uart_decode_frame_def Let_def n_def crc_def split: if_splits)
  have n: "n \<le> 128" using checks(4) by (simp add: payload_length_valid_iff n_def)
  have valid: "frame_valid (raw_to_frame inp)"
    using checks n by (simp add: frame_valid_def frame_array_ok_def raw_to_frame_def n_def Let_def)
  note inp = split_raw_frame [OF checks(5)]
  have body': "take (4 + n) (drop 1 (h # [a, b, c, d] @ xs @ t)) = [a, b, c, d] @ xs"
    if "length xs = n" for h a b c d t and xs :: "u8 list"
    using that by (simp add: eval_nat_numeral)
  have "take (4 + n) (drop 1 inp) = [inp ! 1, inp ! 2, inp ! 3, inp ! 4] @ take n (drop 5 inp)"
    using body' [of "take n (drop 5 inp)" "inp ! 0"] checks(5)
    by (intro trans [OF arg_cong [OF inp, of "\<lambda>x. take (4 + n) (drop 1 x)"]]) simp
  then have body: "body_bytes (raw_to_frame inp) = take (4 + n) (drop 1 inp)"
    using n checks(5) by (simp add: body_bytes_def used_payload_def raw_to_frame_def Let_def n_def)
  then have "body_crc (raw_to_frame inp) = crc"
    by (simp add: body_crc_def crc_def crc16_fold_reference)
  then have "lo8 (body_crc (raw_to_frame inp)) = inp ! (5 + n)"
      "hi8 (body_crc (raw_to_frame inp)) = inp ! (6 + n)"
    using checks(6) by (metis lo8_u16_le hi8_u16_le)+
  then have "frame_bytes (raw_to_frame inp) = inp"
    using checks n unfolding frame_bytes_def body_bytes_def
    using inp by (simp add: used_payload_def raw_to_frame_def Let_def n_def)
  with valid show ?thesis by blast
qed

text \<open>
  C27: uart_decode_frame accepts a byte string if and only if it is the wire image of a valid
  frame, and on any refusal leaves the caller's frame untouched.
\<close>

theorem decode_frame_spec:
  "case uart_decode_frame (Some inp) (length inp) (Some old) of
     (r, out) \<Rightarrow>
       (r = UART_CODEC_OK \<longleftrightarrow> (\<exists>f. frame_valid f \<and> inp = frame_bytes f)) \<and>
       (r \<noteq> UART_CODEC_OK \<longrightarrow> out = Some old)"
proof (cases "fst (uart_decode_frame (Some inp) (length inp) (Some old)) = UART_CODEC_OK")
  case True
  then show ?thesis
    using decode_ok_image [OF True] by (auto simp: split_beta)
next
  case False
  then have "\<not> (\<exists>f. frame_valid f \<and> inp = frame_bytes f)"
    by (auto simp: decode_frame_bytes)
  moreover have "snd (uart_decode_frame (Some inp) (length inp) (Some old)) = Some old"
    using False by (auto simp: uart_decode_frame_def Let_def)
  ultimately show ?thesis using False by (auto simp: split_beta)
qed

lemma decoded_into_fields:
  assumes "frame_valid f"
  shows "used_payload (decoded_into old f) = used_payload f"
    "frame_length (decoded_into old f) = frame_length f"
    "frame_command (decoded_into old f) = frame_command f"
    "frame_sequence (decoded_into old f) = frame_sequence f"
    "frame_version (decoded_into old f) = frame_version f"
    "frame_crc (decoded_into old f) = body_crc f"
  using length_used_payload [OF assms]
  by (simp_all add: decoded_into_def used_payload_def [of "f\<lparr>frame_payload := _, frame_crc := _\<rparr>"])

lemma decoded_into_bytes:
  assumes "frame_valid f"
  shows "frame_bytes (decoded_into old f) = frame_bytes f"
  by (simp add: frame_bytes_def body_bytes_def body_crc_def decoded_into_fields [OF assms])

lemma decoded_into_valid:
  assumes "frame_valid f" "frame_array_ok old"
  shows "frame_valid (decoded_into old f)"
proof -
  have "length (used_payload f) = unat (frame_length f)" "unat (frame_length f) \<le> 128"
    using assms(1) length_used_payload frame_valid_length by auto
  then show ?thesis
    using assms by (simp add: frame_valid_def frame_array_ok_def decoded_into_def)
qed

text \<open>
  C23: uart_encode_frame accepts exactly the valid frames that fit the buffer, and whatever
  frame it accepts, uart_decode_frame reads back from the bytes produced, with the same version,
  sequence, command, length and payload.
\<close>

theorem encode_decode_roundtrip:
  assumes "frame_array_ok f" "length out = capacity"
  shows "(fst (uart_encode_frame (Some f) (Some out) capacity (Some len)) = UART_CODEC_OK \<longleftrightarrow>
       frame_valid f \<and> 7 + unat (frame_length f) \<le> capacity) \<and>
     (\<forall>buffer n. uart_encode_frame (Some f) (Some out) capacity (Some len) = (UART_CODEC_OK, Some buffer, Some n) \<longrightarrow>
        (\<exists>g. uart_decode_frame (Some buffer) n (Some old) = (UART_CODEC_OK, Some g) \<and>
           frame_version g = frame_version f \<and> frame_sequence g = frame_sequence f \<and>
           frame_command g = frame_command f \<and> frame_length g = frame_length f \<and>
           used_payload g = used_payload f))"
  using assms
proof (cases rule: encode_frame_cases [where len = len])
  case ok
  have "uart_decode_frame (Some (frame_bytes f @ drop (length (frame_bytes f)) out))
      (length (frame_bytes f)) (Some old) = (UART_CODEC_OK, Some (decoded_into old f))"
    using decode_frame_bytes [OF ok(1)] by (subst decode_take) simp_all
  then show ?thesis
    using ok decoded_into_fields [OF ok(1), of old] by simp
next
  case (refused r)
  then show ?thesis by simp
qed

text \<open>
  Re-encoding a decoded frame gives back the very bytes it was decoded from: each frame has
  one wire image.
\<close>

theorem decode_encode_canonical:
  assumes "uart_decode_frame (Some inp) (length inp) (Some old) = (UART_CODEC_OK, Some g)"
    and "frame_array_ok old" "length out = length inp"
  shows "uart_encode_frame (Some g) (Some out) (length inp) (Some len) =
     (UART_CODEC_OK, Some inp, Some (length inp))"
proof -
  have raw: "frame_valid (raw_to_frame inp)" "frame_bytes (raw_to_frame inp) = inp"
    using decode_ok_image [of inp old] assms(1) by auto
  then have g: "g = decoded_into old (raw_to_frame inp)"
    using decode_frame_bytes [OF raw(1), of old] assms(1) by simp
  have "frame_valid g" "frame_bytes g = inp"
    using decoded_into_valid [OF raw(1) assms(2)] decoded_into_bytes [OF raw(1)] raw(2)
    by (simp_all add: g)
  then show ?thesis using encode_ok [of g "length inp" out len] assms(3) by simp
qed

section \<open>Error detection\<close>

lemma frame_bytes_parts:
  assumes "frame_valid f"
  shows "frame_bytes f = UART_SOF # body_bytes f @ [lo8 (body_crc f), hi8 (body_crc f)]"
    "length (body_bytes f) = 4 + unat (body_bytes f ! 3)"
  using length_body_bytes [OF assms] by (simp_all add: frame_bytes_def) (simp add: body_bytes_def)

lemma body_single_byte_crc:
  assumes "j < length body" "b \<noteq> body ! j"
  shows "crc16_reference (body[j := b]) \<noteq> crc16_reference body"
proof -
  have "body = take j body @ body ! j # drop (Suc j) body"
    by (rule id_take_nth_drop [OF assms(1)])
  moreover have "body[j := b] = take j body @ b # drop (Suc j) body"
    by (rule upd_conv_take_nth_drop [OF assms(1)])
  ultimately show ?thesis
    using crc16_single_byte [OF assms(2)] by (metis crc16_fold_reference)
qed

text \<open>Two different wire images of the same length differ in at least two bytes.\<close>

lemma wire_images_differ_twice:
  assumes f: "frame_valid f" and g: "frame_valid g"
    and upd: "frame_bytes g = (frame_bytes f)[i := b]"
    and i: "i < length (frame_bytes f)"
  shows "b = frame_bytes f ! i"
proof (rule ccontr)
  assume neq: "b \<noteq> frame_bytes f ! i"
  let ?n = "length (body_bytes f)"
  have "length (frame_bytes g) = length (frame_bytes f)"
    using upd by simp
  then have len: "length (body_bytes g) = ?n"
    by (simp add: frame_bytes_parts(1) [OF f] frame_bytes_parts(1) [OF g])
  have *: "UART_SOF # body_bytes g @ [lo8 (body_crc g), hi8 (body_crc g)] =
      (UART_SOF # body_bytes f @ [lo8 (body_crc f), hi8 (body_crc f)])[i := b]"
    using upd by (simp add: frame_bytes_parts(1) [OF f] frame_bytes_parts(1) [OF g])
  consider "i = 0" | "0 < i" "i < Suc ?n" | "Suc ?n \<le> i"
    by linarith
  then show False
  proof cases
    case 1
    then show ?thesis using * neq by (simp add: frame_bytes_parts(1) [OF f])
  next
    case 2
    then obtain j where j: "i = Suc j" "j < ?n" by (cases i) auto
    then have "body_bytes g = (body_bytes f)[j := b]" "body_crc g = body_crc f"
      using * len by (auto simp: list_update_append1 dest!: arg_cong [where f = "\<lambda>p. u16_le (fst p) (snd p)", of "(_, _)"])
        (metis u16_le_split)
    moreover have "b \<noteq> body_bytes f ! j"
      using neq j by (simp add: frame_bytes_parts(1) [OF f] nth_append)
    ultimately show ?thesis
      using body_single_byte_crc [OF j(2)] by (simp add: body_crc_def)
  next
    case 3
    then obtain j where j: "i = Suc (?n + j)" by (metis add_Suc le_Suc_ex)
    then have same: "body_bytes g = body_bytes f"
      using * len by (simp add: list_update_append)
    then have "frame_bytes g = frame_bytes f"
      by (simp add: frame_bytes_parts(1) [OF f] frame_bytes_parts(1) [OF g] body_crc_def)
    then show ?thesis using upd i neq by (metis nth_list_update_eq)
  qed
qed

text \<open>
  Replacing any one byte of a valid frame's wire image by any other value makes
  uart_decode_frame refuse it.
\<close>

theorem single_byte_corruption_rejected:
  assumes "frame_valid f" "i < length (frame_bytes f)" "b \<noteq> frame_bytes f ! i"
  shows "fst (uart_decode_frame (Some ((frame_bytes f)[i := b])) (length (frame_bytes f)) (Some old))
     \<noteq> UART_CODEC_OK"
proof
  let ?inp = "(frame_bytes f)[i := b]"
  assume "fst (uart_decode_frame (Some ?inp) (length (frame_bytes f)) (Some old)) = UART_CODEC_OK"
  then have "frame_valid (raw_to_frame ?inp) \<and> frame_bytes (raw_to_frame ?inp) = ?inp"
    by (intro decode_ok_image [of _ old]) simp
  then show False using wire_images_differ_twice [of f "raw_to_frame ?inp" i b] assms by auto
qed

text \<open>
  C26: A burst error of at most 16 consecutive bits anywhere in the checksummed body of a frame
  is always detected by uart_decode_frame.
\<close>

theorem burst_corruption_rejected:
  assumes "frame_valid f" "length body = length (body_bytes f)"
    and "concat (map byte_bits (body_bytes f)) = xs @ us @ ys"
    and "concat (map byte_bits body) = xs @ vs @ ys"
    and "length us = length vs" "length us \<le> 16" "us \<noteq> vs"
  shows "fst (uart_decode_frame
       (Some (UART_SOF # body @ [lo8 (body_crc f), hi8 (body_crc f)])) (7 + unat (frame_length f))
       (Some old)) \<noteq> UART_CODEC_OK"
proof
  let ?inp = "UART_SOF # body @ [lo8 (body_crc f), hi8 (body_crc f)]"
  let ?g = "raw_to_frame ?inp"
  have len: "length ?inp = 7 + unat (frame_length f)"
    using assms(1,2) length_body_bytes by simp
  assume "fst (uart_decode_frame (Some ?inp) (7 + unat (frame_length f)) (Some old)) = UART_CODEC_OK"
  then have g: "frame_valid ?g" "frame_bytes ?g = ?inp"
    using decode_ok_image [of ?inp old] by (simp_all only: len)
  then have "length (body_bytes ?g) = length body"
    by (simp add: frame_bytes_def)
  then have "body_bytes ?g = body" "body_crc ?g = body_crc f"
    using g(2) by (auto simp: frame_bytes_def) (metis u16_le_split)
  then have "crc16_reference body = crc16_reference (body_bytes f)"
    by (simp add: body_crc_def)
  then show False
    using crc16_burst [OF assms(5-7), of "0xFFFF" xs ys] assms(3,4)
    by (simp only: crc16_reference_def)
qed

text \<open>A byte stream is the image of one sequence of frames only.\<close>

lemma frame_stream_unique:
  assumes "list_all frame_valid fs" "list_all frame_valid gs"
    and "concat (map frame_bytes fs) = concat (map frame_bytes gs)"
  shows "map frame_bytes fs = map frame_bytes gs"
  by (rule wire.stream_unique [OF assms])

section \<open>Concrete instances\<close>

definition ping_frame :: uart_frame_t where
  "ping_frame = zero_frame\<lparr>frame_version := 1, frame_sequence := 7, frame_command := 1\<rparr>"

lemma ping_frame_valid: "frame_valid ping_frame"
  by (simp add: ping_frame_def zero_frame_def frame_valid_def frame_array_ok_def
      UART_IS_VALID_COMMAND_PAYLOAD_LENGTH_def uart_command_payload_length_is_valid_def
      uart_command_is_valid_def uart_command_is_common_def uart_payload_length_is_valid_def)

lemma ping_frame_length: "length (frame_bytes ping_frame) = 7"
  using length_frame_bytes [OF ping_frame_valid] by (simp add: ping_frame_def zero_frame_def)

lemma ping_frame_array: "frame_array_ok ping_frame"
  using ping_frame_valid by (simp add: frame_valid_def)

theorem encode_frame_spec_witness:
  "fst (uart_encode_frame (Some ping_frame) (Some (replicate 135 0)) 135 (Some 0)) = UART_CODEC_OK"
  using encode_frame_spec [of ping_frame "replicate 135 0" 135 0] ping_frame_array ping_frame_valid
  by (auto simp: ping_frame_def zero_frame_def split: prod.splits)

theorem decode_frame_spec_witness:
  "fst (uart_decode_frame (Some (frame_bytes ping_frame)) (length (frame_bytes ping_frame))
     (Some zero_frame)) = UART_CODEC_OK"
  using decode_frame_spec [of "frame_bytes ping_frame" zero_frame] ping_frame_valid
  by (auto split: prod.splits)

theorem encode_decode_roundtrip_witness:
  "\<exists>buffer n g.
     uart_encode_frame (Some ping_frame) (Some (replicate 135 0)) 135 (Some 0) =
       (UART_CODEC_OK, Some buffer, Some n) \<and>
     uart_decode_frame (Some buffer) n (Some zero_frame) = (UART_CODEC_OK, Some g) \<and>
     frame_sequence g = 7"
proof -
  have fields: "7 + unat (frame_length ping_frame) \<le> 135" "frame_sequence ping_frame = 7"
    by (simp_all add: ping_frame_def zero_frame_def)
  have "length (replicate 135 (0 :: u8)) = 135" by simp
  note trip = encode_decode_roundtrip [OF ping_frame_array this, of 0 zero_frame]
  obtain buffer n where "uart_encode_frame (Some ping_frame) (Some (replicate 135 0)) 135 (Some 0) =
      (UART_CODEC_OK, Some buffer, Some n)"
    using encode_frame_cases [OF ping_frame_array, of "replicate 135 0" 135 0] fields ping_frame_valid
    by (metis length_replicate)
  then show ?thesis using trip fields by auto
qed

theorem decode_encode_canonical_witness:
  "fst (uart_encode_frame (Some (decoded_into zero_frame ping_frame)) (Some (replicate 7 0)) 7 (Some 0))
     = UART_CODEC_OK"
proof -
  have "uart_decode_frame (Some (frame_bytes ping_frame)) (length (frame_bytes ping_frame)) (Some zero_frame) =
      (UART_CODEC_OK, Some (decoded_into zero_frame ping_frame))"
    by (rule decode_frame_bytes [OF ping_frame_valid])
  then show ?thesis
    using decode_encode_canonical [of "frame_bytes ping_frame" zero_frame
        "decoded_into zero_frame ping_frame" "replicate 7 0" 0]
    by (simp add: ping_frame_length)
qed

theorem single_byte_corruption_rejected_witness:
  "fst (uart_decode_frame (Some ((frame_bytes ping_frame)[2 := 8])) 7 (Some zero_frame)) \<noteq> UART_CODEC_OK"
proof -
  have "(8 :: u8) \<noteq> frame_bytes ping_frame ! 2"
    by (simp add: frame_bytes_header ping_frame_def zero_frame_def)
  then show ?thesis
    using single_byte_corruption_rejected [OF ping_frame_valid, of 2 8 zero_frame] ping_frame_length
    by simp
qed

theorem burst_corruption_rejected_witness:
  "fst (uart_decode_frame (Some (UART_SOF # [1, 4, 1, 0] @ [lo8 (body_crc ping_frame), hi8 (body_crc ping_frame)]))
     (7 + unat (frame_length ping_frame)) (Some zero_frame)) \<noteq> UART_CODEC_OK"
proof -
  have body: "body_bytes ping_frame = [1, 7, 1, 0]"
    by (simp add: body_bytes_def used_payload_def ping_frame_def zero_frame_def)
  have bits: "byte_bits 1 = [False, False, False, False, False, False, False, True]"
    "byte_bits 7 = [False, False, False, False, False, True, True, True]"
    "byte_bits 4 = [False, False, False, False, False, True, False, False]"
    by (simp_all add: byte_bits_def)
  show ?thesis
    by (rule burst_corruption_rejected [OF ping_frame_valid, where xs = "byte_bits 1 @ replicate 5 False @ [True]"
          and us = "[True, True]" and vs = "[False, False]" and ys = "byte_bits 1 @ byte_bits 0"])
      (simp_all add: body bits eval_nat_numeral)
qed

end
