(* ===== verification/Uart_Parser.thy ===== *)
theory Uart_Parser
  imports Uart_Codec
begin

text \<open>
  The incremental frame parser, \<open>shared/contracts/uart/uart_parser.c\<close> and its header: one
  byte at a time, a state per field, resynchronisation on the start byte, and a timeout on
  partial frames. The abstract parser at the end works on the list of bytes received so far
  and is what the code is shown to refine.
\<close>

section \<open>State\<close>

datatype uart_parser_state_t =
    UART_PARSER_WAIT_SOF | UART_PARSER_READ_VERSION | UART_PARSER_READ_SEQUENCE
  | UART_PARSER_READ_COMMAND | UART_PARSER_READ_LENGTH | UART_PARSER_READ_PAYLOAD
  | UART_PARSER_READ_CRC_LOW | UART_PARSER_READ_CRC_HIGH

datatype uart_parser_result_t =
    UART_PARSER_NO_FRAME | UART_PARSER_FRAME_READY | UART_PARSER_INVALID_ARGUMENT
  | UART_PARSER_INVALID_SOF | UART_PARSER_INVALID_VERSION | UART_PARSER_INVALID_LENGTH
  | UART_PARSER_INVALID_COMMAND | UART_PARSER_CRC_ERROR | UART_PARSER_TIMEOUT

record uart_parser_t =
  parser_state :: uart_parser_state_t
  raw_frame :: "u8 list" \<comment> \<open>\<open>uint8_t raw_frame[135]\<close>\<close>
  raw_length :: u16
  expected_length :: u16
  payload_length :: u8
  payload_index :: u8
  elapsed_ms :: u32

abbreviation (input) UART_PARSER_TIMEOUT_MS :: u32 where "UART_PARSER_TIMEOUT_MS \<equiv> 100"

section \<open>Operations\<close>

definition parser_reset_internal :: "uart_parser_t \<Rightarrow> uart_parser_t" where
  "parser_reset_internal parser = parser\<lparr>parser_state := UART_PARSER_WAIT_SOF,
     raw_length := 0, expected_length := 0, payload_length := 0, payload_index := 0,
     elapsed_ms := 0\<rparr>"

definition parser_start_frame :: "uart_parser_t \<Rightarrow> uart_parser_t" where
  "parser_start_frame parser =
     (let parser = parser_reset_internal parser
      in parser\<lparr>raw_frame := (raw_frame parser)[0 := UART_SOF], raw_length := 1,
           parser_state := UART_PARSER_READ_VERSION\<rparr>)"

definition parser_reset_and_resync :: "uart_parser_t \<Rightarrow> u8 \<Rightarrow> uart_parser_t" where
  "parser_reset_and_resync parser byte =
     (let parser = parser_reset_internal parser
      in if byte = UART_SOF then parser_start_frame parser else parser)"

definition parser_store_byte :: "uart_parser_t \<Rightarrow> u8 \<Rightarrow> bool \<times> uart_parser_t" where
  "parser_store_byte parser byte =
     (if UART_MAX_FRAME_SIZE \<le> raw_length parser then (False, parser)
      else (True, parser\<lparr>raw_frame := (raw_frame parser)[unat (raw_length parser) := byte],
              raw_length := raw_length parser + 1\<rparr>))"

primrec map_codec_result :: "uart_codec_result_t \<Rightarrow> uart_parser_result_t" where
  "map_codec_result UART_CODEC_OK = UART_PARSER_FRAME_READY"
| "map_codec_result UART_CODEC_INVALID_ARGUMENT = UART_PARSER_INVALID_ARGUMENT"
| "map_codec_result UART_CODEC_INVALID_SOF = UART_PARSER_INVALID_SOF"
| "map_codec_result UART_CODEC_INVALID_VERSION = UART_PARSER_INVALID_VERSION"
| "map_codec_result UART_CODEC_INVALID_LENGTH = UART_PARSER_INVALID_LENGTH"
| "map_codec_result UART_CODEC_INVALID_COMMAND = UART_PARSER_INVALID_COMMAND"
| "map_codec_result UART_CODEC_CRC_MISMATCH = UART_PARSER_CRC_ERROR"
| "map_codec_result UART_CODEC_INCOMPLETE_FRAME = UART_PARSER_INVALID_LENGTH"
| "map_codec_result UART_CODEC_TRAILING_DATA = UART_PARSER_INVALID_LENGTH"
| "map_codec_result UART_CODEC_OUTPUT_TOO_SMALL = UART_PARSER_INVALID_LENGTH"

definition zero_parser :: uart_parser_t where
  "zero_parser = \<lparr>parser_state = UART_PARSER_WAIT_SOF, raw_frame = replicate 135 0,
     raw_length = 0, expected_length = 0, payload_length = 0, payload_index = 0,
     elapsed_ms = 0\<rparr>"

definition uart_parser_init :: "uart_parser_t ptr \<Rightarrow> uart_parser_t ptr" where
  "uart_parser_init parser =
     (case parser of None \<Rightarrow> None
      | Some _ \<Rightarrow> let parser = zero_parser in Some (parser_reset_internal parser))"

definition uart_parser_reset :: "uart_parser_t ptr \<Rightarrow> uart_parser_t ptr" where
  "uart_parser_reset parser =
     (case parser of None \<Rightarrow> None | Some parser \<Rightarrow> Some (parser_reset_internal parser))"

text \<open>
  The cases of \<open>uart_parser_feed\<close>'s switch, on pointers known to be valid. The switch has a
  \<open>default\<close> for values outside the enumeration, which the type \<open>uart_parser_state_t\<close>
  does not have.
\<close>

definition feed_byte ::
  "uart_parser_t \<Rightarrow> u8 \<Rightarrow> uart_frame_t \<Rightarrow> uart_parser_result_t \<times> uart_parser_t \<times> uart_frame_t" where
  "feed_byte parser byte frame =
     (case parser_state parser of
        UART_PARSER_WAIT_SOF \<Rightarrow>
          (if byte \<noteq> UART_SOF then (UART_PARSER_NO_FRAME, parser, frame)
           else (UART_PARSER_NO_FRAME, parser_start_frame parser, frame))
      | UART_PARSER_READ_VERSION \<Rightarrow>
          (if byte \<noteq> UART_PROTOCOL_VERSION
           then (UART_PARSER_INVALID_VERSION, parser_reset_and_resync parser byte, frame)
           else (case parser_store_byte parser byte of
               (False, parser) \<Rightarrow> (UART_PARSER_INVALID_LENGTH, parser_reset_internal parser, frame)
             | (True, parser) \<Rightarrow>
                 (UART_PARSER_NO_FRAME,
                  parser\<lparr>elapsed_ms := 0, parser_state := UART_PARSER_READ_SEQUENCE\<rparr>, frame)))
      | UART_PARSER_READ_SEQUENCE \<Rightarrow>
          (case parser_store_byte parser byte of
             (False, parser) \<Rightarrow> (UART_PARSER_INVALID_LENGTH, parser_reset_internal parser, frame)
           | (True, parser) \<Rightarrow>
               (UART_PARSER_NO_FRAME,
                parser\<lparr>elapsed_ms := 0, parser_state := UART_PARSER_READ_COMMAND\<rparr>, frame))
      | UART_PARSER_READ_COMMAND \<Rightarrow>
          (if \<not> UART_IS_VALID_COMMAND byte
           then (UART_PARSER_INVALID_COMMAND, parser_reset_and_resync parser byte, frame)
           else (case parser_store_byte parser byte of
               (False, parser) \<Rightarrow> (UART_PARSER_INVALID_LENGTH, parser_reset_internal parser, frame)
             | (True, parser) \<Rightarrow>
                 (UART_PARSER_NO_FRAME,
                  parser\<lparr>elapsed_ms := 0, parser_state := UART_PARSER_READ_LENGTH\<rparr>, frame)))
      | UART_PARSER_READ_LENGTH \<Rightarrow>
          (let command = raw_frame parser ! 3
           in if \<not> UART_IS_VALID_PAYLOAD_LENGTH byte
              then (UART_PARSER_INVALID_LENGTH, parser_reset_and_resync parser byte, frame)
              else if \<not> UART_IS_VALID_COMMAND_PAYLOAD_LENGTH command byte
              then (UART_PARSER_INVALID_LENGTH, parser_reset_and_resync parser byte, frame)
              else (case parser_store_byte parser byte of
                  (False, parser) \<Rightarrow>
                    (UART_PARSER_INVALID_LENGTH, parser_reset_internal parser, frame)
                | (True, parser) \<Rightarrow>
                    (UART_PARSER_NO_FRAME,
                     parser\<lparr>payload_length := byte, payload_index := 0,
                       expected_length := UART_FRAME_OVERHEAD_SIZE + to_u16 byte,
                       elapsed_ms := 0,
                       parser_state :=
                         (if byte = 0 then UART_PARSER_READ_CRC_LOW
                          else UART_PARSER_READ_PAYLOAD)\<rparr>, frame)))
      | UART_PARSER_READ_PAYLOAD \<Rightarrow>
          (if payload_length parser \<le> payload_index parser
           then (UART_PARSER_INVALID_LENGTH, parser_reset_internal parser, frame)
           else (case parser_store_byte parser byte of
               (False, parser) \<Rightarrow> (UART_PARSER_INVALID_LENGTH, parser_reset_internal parser, frame)
             | (True, parser) \<Rightarrow>
                 (let parser = parser\<lparr>payload_index := payload_index parser + 1, elapsed_ms := 0\<rparr>
                  in (UART_PARSER_NO_FRAME,
                      (if payload_length parser \<le> payload_index parser
                       then parser\<lparr>parser_state := UART_PARSER_READ_CRC_LOW\<rparr>
                       else parser), frame))))
      | UART_PARSER_READ_CRC_LOW \<Rightarrow>
          (case parser_store_byte parser byte of
             (False, parser) \<Rightarrow> (UART_PARSER_INVALID_LENGTH, parser_reset_internal parser, frame)
           | (True, parser) \<Rightarrow>
               (UART_PARSER_NO_FRAME,
                parser\<lparr>elapsed_ms := 0, parser_state := UART_PARSER_READ_CRC_HIGH\<rparr>, frame))
      | UART_PARSER_READ_CRC_HIGH \<Rightarrow>
          (case parser_store_byte parser byte of
             (False, parser) \<Rightarrow> (UART_PARSER_INVALID_LENGTH, parser_reset_internal parser, frame)
           | (True, parser) \<Rightarrow>
               (let parser = parser\<lparr>elapsed_ms := 0\<rparr>;
                    (codec_result, decoded) =
                      uart_decode_frame (Some (raw_frame parser)) (unat (raw_length parser)) (Some frame);
                    parser = parser_reset_internal parser;
                    parser = (if codec_result \<noteq> UART_CODEC_OK \<and> byte = UART_SOF
                              then parser_start_frame parser else parser)
                in (map_codec_result codec_result, parser, the decoded))))"

definition uart_parser_feed ::
  "uart_parser_t ptr \<Rightarrow> u8 \<Rightarrow> uart_frame_t ptr \<Rightarrow>
     uart_parser_result_t \<times> uart_parser_t ptr \<times> uart_frame_t ptr" where
  "uart_parser_feed parser byte frame =
     (case (parser, frame) of
        (Some p, Some f) \<Rightarrow>
          (case feed_byte p byte f of (result, p, f) \<Rightarrow> (result, Some p, Some f))
      | _ \<Rightarrow> (UART_PARSER_INVALID_ARGUMENT, parser, frame))"

definition uart_parser_tick :: "uart_parser_t ptr \<Rightarrow> u32 \<Rightarrow> uart_parser_result_t \<times> uart_parser_t ptr" where
  "uart_parser_tick parser elapsed =
     (case parser of
        None \<Rightarrow> (UART_PARSER_INVALID_ARGUMENT, None)
      | Some p \<Rightarrow>
          (if parser_state p = UART_PARSER_WAIT_SOF then (UART_PARSER_NO_FRAME, Some p)
           else if UART_PARSER_TIMEOUT_MS \<le> elapsed_ms p \<or>
                   UART_PARSER_TIMEOUT_MS - elapsed_ms p \<le> elapsed
           then (UART_PARSER_TIMEOUT, Some (parser_reset_internal p))
           else (UART_PARSER_NO_FRAME, Some (p\<lparr>elapsed_ms := elapsed_ms p + elapsed\<rparr>))))"

section \<open>The abstract parser\<close>

text \<open>
  Its state is the list of bytes of the frame in progress. A rejected byte is dropped
  together with that list, unless it is a start byte and begins the next frame.
\<close>

definition resync :: "u8 \<Rightarrow> u8 list" where
  "resync b = (if b = UART_SOF then [b] else [])"

definition wire_crc_ok :: "u8 list \<Rightarrow> bool" where
  "wire_crc_ok w \<longleftrightarrow>
     (let n = unat (w ! 4)
      in u16_le (w ! (5 + n)) (w ! (6 + n)) = crc16_reference (take (4 + n) (drop 1 w)))"

definition abs_feed :: "u8 list \<Rightarrow> u8 \<Rightarrow> uart_parser_result_t \<times> u8 list" where
  "abs_feed bs b =
     (let w = bs @ [b]
      in if bs = [] then (UART_PARSER_NO_FRAME, resync b)
         else if length bs = 1 \<and> b \<noteq> UART_PROTOCOL_VERSION
           then (UART_PARSER_INVALID_VERSION, resync b)
         else if length bs = 3 \<and> \<not> UART_IS_VALID_COMMAND b
           then (UART_PARSER_INVALID_COMMAND, resync b)
         else if length bs = 4 \<and> \<not> UART_IS_VALID_COMMAND_PAYLOAD_LENGTH (bs ! 3) b
           then (UART_PARSER_INVALID_LENGTH, resync b)
         else if 5 \<le> length bs \<and> length w = wire_size bs
           then (if wire_crc_ok w then (UART_PARSER_FRAME_READY, [])
                 else (UART_PARSER_CRC_ERROR, resync b))
         else (UART_PARSER_NO_FRAME, w))"

text \<open>The beginnings of wire images that the parser can hold.\<close>

definition wire_prefix :: "u8 list \<Rightarrow> bool" where
  "wire_prefix bs \<longleftrightarrow> bs \<noteq> [] \<and> bs ! 0 = UART_SOF \<and>
     (1 < length bs \<longrightarrow> bs ! 1 = UART_PROTOCOL_VERSION) \<and>
     (3 < length bs \<longrightarrow> UART_IS_VALID_COMMAND (bs ! 3)) \<and>
     (4 < length bs \<longrightarrow> UART_IS_VALID_COMMAND_PAYLOAD_LENGTH (bs ! 3) (bs ! 4) \<and>
        length bs < wire_size bs)"

definition state_after :: "u8 list \<Rightarrow> uart_parser_state_t" where
  "state_after bs =
     (if bs = [] then UART_PARSER_WAIT_SOF
      else if length bs = 1 then UART_PARSER_READ_VERSION
      else if length bs = 2 then UART_PARSER_READ_SEQUENCE
      else if length bs = 3 then UART_PARSER_READ_COMMAND
      else if length bs = 4 then UART_PARSER_READ_LENGTH
      else if length bs < 5 + unat (bs ! 4) then UART_PARSER_READ_PAYLOAD
      else if length bs = 5 + unat (bs ! 4) then UART_PARSER_READ_CRC_LOW
      else UART_PARSER_READ_CRC_HIGH)"

definition parser_holds :: "uart_parser_t \<Rightarrow> u8 list \<Rightarrow> bool" where
  "parser_holds p bs \<longleftrightarrow> length (raw_frame p) = 135 \<and> unat (raw_length p) = length bs \<and>
     length bs < 135 \<and> take (length bs) (raw_frame p) = bs \<and> elapsed_ms p < UART_PARSER_TIMEOUT_MS"

definition parser_rel :: "uart_parser_t \<Rightarrow> u8 list \<Rightarrow> bool" where
  "parser_rel p bs \<longleftrightarrow> parser_holds p bs \<and> parser_state p = state_after bs \<and>
     (bs = [] \<or> wire_prefix bs) \<and>
     (parser_state p = UART_PARSER_READ_PAYLOAD \<longrightarrow>
        payload_length p = bs ! 4 \<and> unat (payload_index p) = length bs - 5)"

lemma state_after_simps:
  "length w = 1 \<Longrightarrow> state_after w = UART_PARSER_READ_VERSION"
  "length w = 2 \<Longrightarrow> state_after w = UART_PARSER_READ_SEQUENCE"
  "length w = 3 \<Longrightarrow> state_after w = UART_PARSER_READ_COMMAND"
  "length w = 4 \<Longrightarrow> state_after w = UART_PARSER_READ_LENGTH"
  "5 \<le> length w \<Longrightarrow> state_after w =
     (if length w < 5 + unat (w ! 4) then UART_PARSER_READ_PAYLOAD
      else if length w = 5 + unat (w ! 4) then UART_PARSER_READ_CRC_LOW
      else UART_PARSER_READ_CRC_HIGH)"
  by (auto simp: state_after_def)

lemma state_after_payload: "state_after w = UART_PARSER_READ_PAYLOAD \<Longrightarrow> 5 \<le> length w"
proof (rule ccontr)
  assume payload: "state_after w = UART_PARSER_READ_PAYLOAD" and "\<not> 5 \<le> length w"
  then consider "w = []" | "length w = 1" | "length w = 2" | "length w = 3" | "length w = 4"
    by (cases "length w") force+
  then show False by cases (use payload in \<open>simp_all add: state_after_simps, simp add: state_after_def\<close>)
qed

lemma parser_holds_nth: "parser_holds p bs \<Longrightarrow> i < length bs \<Longrightarrow> raw_frame p ! i = bs ! i"
  by (metis nth_take parser_holds_def)

lemma wire_prefix_size:
  assumes "wire_prefix bs"
  shows "length bs < 135"
proof (cases "4 < length bs")
  case True
  then have "unat (bs ! 4) \<le> 128" "length bs < 7 + unat (bs ! 4)"
    using assms command_payload_length_valid_length [of "bs ! 3" "bs ! 4"]
    by (auto simp: wire_prefix_def wire_size_def payload_length_valid_iff)
  then show ?thesis by simp
qed simp

lemma parser_holds_reset:
  "length (raw_frame p) = 135 \<Longrightarrow> parser_rel (parser_reset_internal p) []"
  by (simp add: parser_rel_def parser_holds_def parser_reset_internal_def state_after_def)

lemma parser_holds_start:
  assumes "length (raw_frame p) = 135"
  shows "parser_rel (parser_start_frame p) [UART_SOF]"
proof -
  obtain x xs where "raw_frame p = x # xs" using assms by (cases "raw_frame p") auto
  then show ?thesis using assms
    by (simp add: parser_rel_def parser_holds_def parser_start_frame_def parser_reset_internal_def
        state_after_def wire_prefix_def)
qed

lemma parser_rel_resync:
  assumes "length (raw_frame p) = 135"
  shows "parser_rel (parser_reset_and_resync p b) (resync b)"
  using assms parser_holds_start [of "parser_reset_internal p"] parser_holds_reset
  by (auto simp: parser_reset_and_resync_def resync_def Let_def parser_reset_internal_def)

text \<open>A byte always fits: the store never overruns the buffer.\<close>

lemma parser_store_ok:
  assumes "parser_holds p bs"
  obtains p' where "parser_store_byte p b = (True, p')"
    and "length (raw_frame p') = 135" "unat (raw_length p') = length bs + 1"
      "take (length bs + 1) (raw_frame p') = bs @ [b]"
      "p' = p\<lparr>raw_frame := raw_frame p', raw_length := raw_length p'\<rparr>"
proof
  let ?p = "p\<lparr>raw_frame := (raw_frame p)[unat (raw_length p) := b], raw_length := raw_length p + 1\<rparr>"
  note holds = assms [unfolded parser_holds_def]
  show "parser_store_byte p b = (True, ?p)"
    using holds by (simp add: parser_store_byte_def word_le_nat_alt)
  show "length (raw_frame ?p) = 135" using holds by simp
  show "unat (raw_length ?p) = length bs + 1"
    using holds by (simp add: unat_word_ariths)
  show "take (length bs + 1) (raw_frame ?p) = bs @ [b]"
    using holds by (simp add: take_list_update_length)
  show "?p = p\<lparr>raw_frame := raw_frame ?p, raw_length := raw_length ?p\<rparr>" by simp
qed

lemma wire_size_append: "5 \<le> length bs \<Longrightarrow> wire_size (bs @ cs) = wire_size bs"
  by (simp add: wire_size_def nth_append)

lemma wire_prefix_snoc:
  assumes "wire_prefix bs" "abs_feed bs b = (UART_PARSER_NO_FRAME, bs @ [b])"
  shows "wire_prefix (bs @ [b])"
proof -
  have ne: "bs \<noteq> []" using assms(1) by (simp add: wire_prefix_def)
  consider "length bs = 1" | "length bs = 2" | "length bs = 3" | "length bs = 4" | "5 \<le> length bs"
    using ne by (cases "length bs") force+
  then show ?thesis
  proof cases
    case 5
    then have "length (bs @ [b]) \<noteq> wire_size bs"
      using assms(2) by (auto simp: abs_feed_def Let_def split: if_splits)
    then show ?thesis
      using assms(1) 5 by (auto simp: wire_prefix_def nth_append wire_size_append)
  qed (use assms in \<open>auto simp: wire_prefix_def abs_feed_def Let_def nth_append resync_def wire_size_def split: if_splits\<close>)
qed

lemma parser_rel_push:
  assumes "length (raw_frame q) = 135" "unat (raw_length q) = length w"
    "take (length w) (raw_frame q) = w" "elapsed_ms q = 0" "wire_prefix w"
    "parser_state q = state_after w"
    "state_after w = UART_PARSER_READ_PAYLOAD \<Longrightarrow>
       payload_length q = w ! 4 \<and> unat (payload_index q) = length w - 5"
  shows "parser_rel q w"
  using assms wire_prefix_size [of w] by (simp add: parser_rel_def parser_holds_def)

definition step_refines ::
  "uart_parser_t \<Rightarrow> u8 list \<Rightarrow> u8 \<Rightarrow> uart_frame_t \<Rightarrow> bool" where
  "step_refines p bs b fr \<longleftrightarrow>
     (case feed_byte p b fr of (r, p', fr') \<Rightarrow>
        r = fst (abs_feed bs b) \<and> parser_rel p' (snd (abs_feed bs b)) \<and>
        fr' = (if r = UART_PARSER_FRAME_READY then decoded_into fr (raw_to_frame (bs @ [b])) else fr))"

lemma refine_wait_sof:
  assumes "parser_rel p []"
  shows "step_refines p [] b fr"
  using assms parser_holds_start [of p] 
  by (auto simp: step_refines_def feed_byte_def abs_feed_def resync_def parser_rel_def
      parser_holds_def state_after_def Let_def)

lemma refine_header:
  assumes rel: "parser_rel p bs" and len: "length bs \<in> {1, 2, 3}"
  shows "step_refines p bs b fr"
proof -
  have holds: "parser_holds p bs" "length (raw_frame p) = 135" "wire_prefix bs" "bs \<noteq> []"
    using rel len by (auto simp: parser_rel_def parser_holds_def)
  have st: "parser_state p = state_after bs" using rel by (simp add: parser_rel_def)
  show ?thesis
  proof (cases "abs_feed bs b = (UART_PARSER_NO_FRAME, bs @ [b])")
    case True
    obtain p' where p': "parser_store_byte p b = (True, p')"
      "length (raw_frame p') = 135" "unat (raw_length p') = length bs + 1"
      "take (length bs + 1) (raw_frame p') = bs @ [b]"
      using parser_store_ok [OF holds(1)] by metis
    have rel': "parser_rel (p'\<lparr>elapsed_ms := 0, parser_state := state_after (bs @ [b])\<rparr>) (bs @ [b])"
      by (rule parser_rel_push)
        (use p' len wire_prefix_snoc [OF holds(3) True] state_after_payload [of "bs @ [b]"] in auto)
    have ok: "length bs = 1 \<longrightarrow> b = 1" "length bs = 3 \<longrightarrow> UART_IS_VALID_COMMAND b"
      using True len holds(4) by (auto simp: abs_feed_def Let_def split: if_splits)
    consider "length bs = 1" | "length bs = 2" | "length bs = 3" using len by auto
    then have "feed_byte p b fr = (UART_PARSER_NO_FRAME,
        p'\<lparr>elapsed_ms := 0, parser_state := state_after (bs @ [b])\<rparr>, fr)"
      by cases (use ok p'(1) st in \<open>simp_all add: feed_byte_def state_after_simps(1-4)\<close>)
    then show ?thesis
      using True rel' by (simp add: step_refines_def)
  next
    case False
    then consider "length bs = 1" "b \<noteq> 1" | "length bs = 3" "\<not> UART_IS_VALID_COMMAND b"
      using len holds(4) by (auto simp: abs_feed_def Let_def split: if_splits)
    then show ?thesis
    proof cases
      case 1
      then have "feed_byte p b fr = (UART_PARSER_INVALID_VERSION, parser_reset_and_resync p b, fr)"
        "abs_feed bs b = (UART_PARSER_INVALID_VERSION, resync b)"
        using st holds(4) by (simp_all add: feed_byte_def state_after_simps(1) abs_feed_def)
      then show ?thesis
        using parser_rel_resync [OF holds(2), of b] by (simp add: step_refines_def)
    next
      case 2
      then have "feed_byte p b fr = (UART_PARSER_INVALID_COMMAND, parser_reset_and_resync p b, fr)"
        "abs_feed bs b = (UART_PARSER_INVALID_COMMAND, resync b)"
        using st holds(4) by (simp_all add: feed_byte_def state_after_simps(3) abs_feed_def)
      then show ?thesis
        using parser_rel_resync [OF holds(2), of b] by (simp add: step_refines_def)
    qed
  qed
qed

lemma refine_length:
  assumes rel: "parser_rel p bs" and len: "length bs = 4"
  shows "step_refines p bs b fr"
proof -
  have holds: "parser_holds p bs" "length (raw_frame p) = 135" "wire_prefix bs" "bs \<noteq> []"
    using rel len by (auto simp: parser_rel_def parser_holds_def)
  have st: "parser_state p = state_after bs" using rel by (simp add: parser_rel_def)
  have cmd: "raw_frame p ! 3 = bs ! 3" using parser_holds_nth [OF holds(1)] len by simp
  show ?thesis
  proof (cases "UART_IS_VALID_COMMAND_PAYLOAD_LENGTH (bs ! 3) b")
    case True
    then have abs: "abs_feed bs b = (UART_PARSER_NO_FRAME, bs @ [b])"
      using len holds(4) by (auto simp: abs_feed_def Let_def)
    obtain p' where p': "parser_store_byte p b = (True, p')"
      "length (raw_frame p') = 135" "unat (raw_length p') = length bs + 1"
      "take (length bs + 1) (raw_frame p') = bs @ [b]"
      using parser_store_ok [OF holds(1)] by metis
    have rel': "parser_rel (p'\<lparr>payload_length := b, payload_index := 0, expected_length := e,
         elapsed_ms := 0, parser_state := state_after (bs @ [b])\<rparr>) (bs @ [b])" for e
      by (rule parser_rel_push)
        (use p' len wire_prefix_snoc [OF holds(3) abs] in \<open>auto simp: nth_append\<close>)
    have "state_after (bs @ [b]) = (if b = 0 then UART_PARSER_READ_CRC_LOW else UART_PARSER_READ_PAYLOAD)"
      using len by (simp add: state_after_simps nth_append unat_gt_0)
    then have "feed_byte p b fr = (UART_PARSER_NO_FRAME,
        p'\<lparr>payload_length := b, payload_index := 0, expected_length := 7 + to_u16 b,
         elapsed_ms := 0, parser_state := state_after (bs @ [b])\<rparr>, fr)"
      using p'(1) len st True cmd command_payload_length_valid_length [OF True]
      by (simp add: feed_byte_def state_after_simps(4) Let_def)
    then show ?thesis
      using abs rel' by (simp add: step_refines_def)
  next
    case False
    then have "feed_byte p b fr = (UART_PARSER_INVALID_LENGTH, parser_reset_and_resync p b, fr)"
      "abs_feed bs b = (UART_PARSER_INVALID_LENGTH, resync b)"
      using st holds(4) len cmd by (simp_all add: feed_byte_def state_after_simps(4) abs_feed_def)
    then show ?thesis
      using parser_rel_resync [OF holds(2), of b] by (simp add: step_refines_def)
  qed
qed

lemma refine_payload:
  assumes rel: "parser_rel p bs" and len: "5 \<le> length bs" "length bs < 5 + unat (bs ! 4)"
  shows "step_refines p bs b fr"
proof -
  have holds: "parser_holds p bs" "wire_prefix bs"
    using rel len by (auto simp: parser_rel_def)
  have st: "parser_state p = UART_PARSER_READ_PAYLOAD"
    "payload_length p = bs ! 4" "unat (payload_index p) = length bs - 5"
    using rel len by (auto simp: parser_rel_def state_after_simps(5))
  have abs: "abs_feed bs b = (UART_PARSER_NO_FRAME, bs @ [b])"
    using len by (auto simp: abs_feed_def Let_def wire_size_def)
  obtain p' where p': "parser_store_byte p b = (True, p')"
    "length (raw_frame p') = 135" "unat (raw_length p') = length bs + 1"
    "take (length bs + 1) (raw_frame p') = bs @ [b]"
    "p' = p\<lparr>raw_frame := raw_frame p', raw_length := raw_length p'\<rparr>"
    using parser_store_ok [OF holds(1)] by metis
  have p'_same: "payload_length p' = bs ! 4" "payload_index p' = payload_index p"
    "parser_state p' = UART_PARSER_READ_PAYLOAD"
    using st by (subst p'(5), simp)+
  have idx: "unat (payload_index p + 1) = length bs - 4"
  proof -
    have "Suc (length bs - 5) < 256"
      using len wire_prefix_size [OF holds(2)] by simp
    then show ?thesis using st(3) len by (simp add: unat_word_ariths)
  qed
  have nth4: "(bs @ [b]) ! 4 = bs ! 4" using len by (simp add: nth_append)
  let ?q = "p'\<lparr>payload_index := payload_index p + 1, elapsed_ms := 0,
      parser_state := state_after (bs @ [b])\<rparr>"
  have rel': "parser_rel ?q (bs @ [b])"
    by (rule parser_rel_push)
      (use p' p'_same len wire_prefix_snoc [OF holds(2) abs] idx nth4 in auto)
  have lt: "(bs ! 4 \<le> payload_index p) = False"
    using st(3) len by (simp add: word_le_nat_alt)
  have le: "(bs ! 4 \<le> payload_index p + 1) = (length bs + 1 = 5 + unat (bs ! 4))"
    using idx len by (auto simp: word_le_nat_alt)
  have state: "state_after (bs @ [b]) = (if bs ! 4 \<le> payload_index p + 1
      then UART_PARSER_READ_CRC_LOW else UART_PARSER_READ_PAYLOAD)"
    using len nth4 by (simp add: state_after_simps(5) le)
  have "feed_byte p b fr = (UART_PARSER_NO_FRAME, ?q, fr)"
    by (cases "bs ! 4 \<le> payload_index p + 1")
      (use p'(1) st(1,2) lt p'_same state in
        \<open>simp_all add: feed_byte_def Let_def\<close>)
  then show ?thesis using abs rel' by (simp add: step_refines_def)
qed

lemma refine_crc_low:
  assumes rel: "parser_rel p bs" and len: "5 \<le> length bs" "length bs = 5 + unat (bs ! 4)"
  shows "step_refines p bs b fr"
proof -
  have holds: "parser_holds p bs" "wire_prefix bs"
    using rel len by (auto simp: parser_rel_def)
  have st: "parser_state p = UART_PARSER_READ_CRC_LOW"
    using rel len(2) state_after_simps(5) [OF len(1)] by (simp add: parser_rel_def)
  have abs: "abs_feed bs b = (UART_PARSER_NO_FRAME, bs @ [b])"
    using len by (auto simp: abs_feed_def Let_def wire_size_def)
  obtain p' where p': "parser_store_byte p b = (True, p')"
    "length (raw_frame p') = 135" "unat (raw_length p') = length bs + 1"
    "take (length bs + 1) (raw_frame p') = bs @ [b]"
    using parser_store_ok [OF holds(1)] by metis
  have nth4: "(bs @ [b]) ! 4 = bs ! 4" using len(1) by (simp add: nth_append)
  have state: "state_after (bs @ [b]) = UART_PARSER_READ_CRC_HIGH"
    using len(2) nth4 state_after_simps(5) [of "bs @ [b]"] by simp
  have "parser_rel (p'\<lparr>elapsed_ms := 0, parser_state := UART_PARSER_READ_CRC_HIGH\<rparr>) (bs @ [b])"
    by (rule parser_rel_push) (use p' wire_prefix_snoc [OF holds(2) abs] state in auto)
  moreover have "feed_byte p b fr = (UART_PARSER_NO_FRAME,
      p'\<lparr>elapsed_ms := 0, parser_state := UART_PARSER_READ_CRC_HIGH\<rparr>, fr)"
    using st p'(1) by (simp add: feed_byte_def)
  ultimately show ?thesis using abs by (simp add: step_refines_def)
qed

text \<open>A complete image with a good header decodes exactly when its checksum agrees.\<close>

lemma decode_complete_image:
  assumes "wire_prefix bs" "5 \<le> length bs" "length (bs @ [b]) = wire_size bs"
  shows "uart_decode_frame (Some (bs @ [b])) (length (bs @ [b])) (Some fr) =
    (if wire_crc_ok (bs @ [b])
     then (UART_CODEC_OK, Some (decoded_into fr (raw_to_frame (bs @ [b]))))
     else (UART_CODEC_CRC_MISMATCH, Some fr))"
proof -
  let ?w = "bs @ [b]"
  define n where "n = unat (?w ! 4)"
  have w: "?w ! 0 = UART_SOF" "?w ! 1 = 1" "UART_IS_VALID_COMMAND (?w ! 3)"
      "UART_IS_VALID_COMMAND_PAYLOAD_LENGTH (?w ! 3) (?w ! 4)"
    using assms(1,2) by (auto simp: wire_prefix_def nth_append)
  have len: "length ?w = 7 + n"
    using assms(2,3) by (simp add: wire_size_def n_def nth_append)
  have crc: "wire_crc_ok ?w \<longleftrightarrow>
      u16_le (?w ! (5 + n)) (?w ! (6 + n)) = uart_crc16_ccitt (Some (drop 1 ?w)) (4 + n)"
    by (simp only: wire_crc_ok_def n_def Let_def crc16_fold_reference uart_crc16_ccitt_Some)
  have bad: "uart_decode_frame (Some ?w) (length ?w) (Some fr) = (UART_CODEC_CRC_MISMATCH, Some fr)"
    if "\<not> wire_crc_ok ?w"
    using w that len command_payload_length_valid_length [OF w(4)] unfolding crc
    by (simp only: uart_decode_frame_def Let_def option.case prod.case n_def [symmetric]) simp
  have good: "fst (uart_decode_frame (Some ?w) (length ?w) (Some fr)) = UART_CODEC_OK"
    if "wire_crc_ok ?w"
    using w that len command_payload_length_valid_length [OF w(4)] unfolding crc
    by (simp only: uart_decode_frame_def Let_def option.case prod.case n_def [symmetric]) simp
  show ?thesis
  proof (cases "wire_crc_ok ?w")
    case True
    note image = decode_ok_image [OF good [OF True]]
    then show ?thesis
      using True decode_frame_bytes [of "raw_to_frame ?w" fr] by simp
  next
    case False
    then show ?thesis using bad [OF False] by (simp only: if_False)
  qed
qed

lemma refine_crc_high:
  assumes rel: "parser_rel p bs" and len: "5 \<le> length bs" "5 + unat (bs ! 4) < length bs"
  shows "step_refines p bs b fr"
proof -
  have holds: "parser_holds p bs" "wire_prefix bs" "length (raw_frame p) = 135" "bs \<noteq> []"
    using rel len by (auto simp: parser_rel_def parser_holds_def)
  have st: "parser_state p = UART_PARSER_READ_CRC_HIGH"
    using rel len(2) state_after_simps(5) [OF len(1)] by (simp add: parser_rel_def)
  have full: "length (bs @ [b]) = wire_size bs"
    using holds(2) len by (auto simp: wire_prefix_def wire_size_def)
  have abs: "abs_feed bs b = (if wire_crc_ok (bs @ [b]) then (UART_PARSER_FRAME_READY, [])
      else (UART_PARSER_CRC_ERROR, resync b))"
    using len(1) full holds(4) by (auto simp: abs_feed_def Let_def)
  obtain p' where p': "parser_store_byte p b = (True, p')"
    "length (raw_frame p') = 135" "unat (raw_length p') = length bs + 1"
    "take (length bs + 1) (raw_frame p') = bs @ [b]"
    using parser_store_ok [OF holds(1)] by metis
  let ?q = "parser_reset_internal (p'\<lparr>elapsed_ms := 0\<rparr>)"
  have q: "length (raw_frame ?q) = 135" using p'(2) by (simp add: parser_reset_internal_def)
  have "uart_decode_frame (Some (raw_frame p')) (unat (raw_length p')) (Some fr) =
      uart_decode_frame (Some (bs @ [b])) (length (bs @ [b])) (Some fr)"
    using p'(2-4) holds(1) by (subst decode_take) (simp_all add: parser_holds_def)
  then have "feed_byte p b fr = (if wire_crc_ok (bs @ [b])
      then (UART_PARSER_FRAME_READY, ?q, decoded_into fr (raw_to_frame (bs @ [b])))
      else (UART_PARSER_CRC_ERROR, parser_reset_and_resync (p'\<lparr>elapsed_ms := 0\<rparr>) b, fr))"
    using st p'(1) decode_complete_image [OF holds(2) len(1) full, of fr]
    by (simp add: feed_byte_def Let_def parser_reset_and_resync_def)
  then show ?thesis
    using abs parser_rel_resync [of "p'\<lparr>elapsed_ms := 0\<rparr>" b] parser_holds_reset [of "p'\<lparr>elapsed_ms := 0\<rparr>"] p'(2)
    by (simp add: step_refines_def)
qed

lemma feed_refines:
  assumes "parser_rel p bs"
  shows "step_refines p bs b fr"
proof -
  consider "bs = []" | "length bs \<in> {1, 2, 3}" | "length bs = 4"
    | "5 \<le> length bs" "length bs < 5 + unat (bs ! 4)"
    | "5 \<le> length bs" "length bs = 5 + unat (bs ! 4)"
    | "5 \<le> length bs" "5 + unat (bs ! 4) < length bs"
  proof (cases "length bs < 5")
    case True
    then show ?thesis using that(1-3) by (cases "length bs") force+
  next
    case False
    then show ?thesis using that(4-6) by linarith
  qed
  then show ?thesis
  proof cases
    case 1
    then show ?thesis using refine_wait_sof assms by simp
  next
    case 2
    show ?thesis by (rule refine_header [OF assms 2])
  next
    case 3
    show ?thesis by (rule refine_length [OF assms 3])
  next
    case 4
    show ?thesis by (rule refine_payload [OF assms 4])
  next
    case 5
    show ?thesis by (rule refine_crc_low [OF assms 5])
  next
    case 6
    show ?thesis by (rule refine_crc_high [OF assms 6])
  qed
qed

lemma uart_parser_feed_refines:
  assumes "parser_rel p bs"
  obtains p' fr' where
    "uart_parser_feed (Some p) b (Some fr) = (fst (abs_feed bs b), Some p', Some fr')"
    "parser_rel p' (snd (abs_feed bs b))"
    "fr' = (if fst (abs_feed bs b) = UART_PARSER_FRAME_READY
            then decoded_into fr (raw_to_frame (bs @ [b])) else fr)"
  using feed_refines [OF assms, of b fr]
  by (auto simp: step_refines_def uart_parser_feed_def split: prod.splits)

lemma parser_rel_zero: "parser_rel (parser_reset_internal zero_parser) []"
  by (rule parser_holds_reset) (simp add: zero_parser_def)

section \<open>Streams\<close>

text \<open>
  A receiver feeds the bytes of a stream in order and keeps the frame of every
  \<open>FRAME_READY\<close>; \<open>abs_run\<close> keeps the images.
\<close>

fun parser_run :: "uart_parser_t \<Rightarrow> uart_frame_t \<Rightarrow> u8 list \<Rightarrow> uart_frame_t list \<times> uart_parser_t" where
  "parser_run p fr [] = ([], p)"
| "parser_run p fr (b # input) =
     (case uart_parser_feed (Some p) b (Some fr) of
        (r, Some p', Some fr') \<Rightarrow>
          (case parser_run p' fr' input of
             (frames, q) \<Rightarrow> (if r = UART_PARSER_FRAME_READY then fr' # frames else frames, q))
      | _ \<Rightarrow> ([], p))"

primrec abs_run :: "u8 list \<Rightarrow> u8 list \<Rightarrow> u8 list list \<times> u8 list" where
  "abs_run bs [] = ([], bs)"
| "abs_run bs (b # input) =
     (case abs_feed bs b of (r, bs') \<Rightarrow>
        (case abs_run bs' input of (ws, rest) \<Rightarrow>
           (if r = UART_PARSER_FRAME_READY then (bs @ [b]) # ws else ws, rest)))"

lemma abs_feed_ready:
  assumes "bs = [] \<or> wire_prefix bs" "fst (abs_feed bs b) = UART_PARSER_FRAME_READY"
  shows "snd (abs_feed bs b) = [] \<and>
    frame_valid (raw_to_frame (bs @ [b])) \<and> frame_bytes (raw_to_frame (bs @ [b])) = bs @ [b]"
proof -
  have bs: "wire_prefix bs" "5 \<le> length bs" "length (bs @ [b]) = wire_size bs"
      "wire_crc_ok (bs @ [b])" "snd (abs_feed bs b) = []"
    using assms by (auto simp: abs_feed_def Let_def split: if_splits)
  then have "fst (uart_decode_frame (Some (bs @ [b])) (length (bs @ [b])) (Some zero_frame)) = UART_CODEC_OK"
    using decode_complete_image [OF bs(1-3), of zero_frame] by simp
  then show ?thesis using decode_ok_image bs(5) by blast
qed

lemma parser_run_refines:
  assumes "parser_rel p bs" "frame_array_ok fr"
  shows "map frame_bytes (fst (parser_run p fr input)) = fst (abs_run bs input) \<and>
    list_all frame_valid (fst (parser_run p fr input)) \<and>
    parser_rel (snd (parser_run p fr input)) (snd (abs_run bs input))"
  using assms
proof (induction input arbitrary: p bs fr)
  case (Cons b input)
  obtain p' fr' where feed:
    "uart_parser_feed (Some p) b (Some fr) = (fst (abs_feed bs b), Some p', Some fr')"
    "parser_rel p' (snd (abs_feed bs b))"
    "fr' = (if fst (abs_feed bs b) = UART_PARSER_FRAME_READY
            then decoded_into fr (raw_to_frame (bs @ [b])) else fr)"
    using uart_parser_feed_refines [OF Cons.prems(1)] by metis
  have ready: "frame_valid fr' \<and> frame_bytes fr' = bs @ [b]"
    if "fst (abs_feed bs b) = UART_PARSER_FRAME_READY"
    using abs_feed_ready [OF _ that] that Cons.prems feed(3) decoded_into_bytes decoded_into_valid
    by (auto simp: parser_rel_def)
  then have "frame_array_ok fr'"
    using feed(3) Cons.prems(2) by (cases "fst (abs_feed bs b) = UART_PARSER_FRAME_READY")
      (auto simp: frame_valid_def)
  note IH = Cons.IH [OF feed(2) this]
  then show ?case
    using ready by (auto simp: feed(1) split: prod.splits)
qed simp

text \<open>A stream of wire images, from the idle parser: every frame arrives, in order.\<close>

lemma frame_bytes_prefix_step:
  assumes f: "frame_valid f" and fb: "frame_bytes f = bs @ b # rest"
  shows "abs_feed bs b = (if rest = [] then (UART_PARSER_FRAME_READY, [])
    else (UART_PARSER_NO_FRAME, bs @ [b]))"
proof -
  have len: "length (frame_bytes f) = 7 + unat (frame_length f)"
    by (rule length_frame_bytes [OF f])
  have nth: "(bs @ [b]) ! i = frame_bytes f ! i" if "i \<le> length bs" for i
    using that by (simp add: fb nth_append)
  have byte: "frame_bytes f ! length bs = b" by (simp add: fb)
  have rest: "rest = [] \<longleftrightarrow> length (bs @ [b]) = 7 + unat (frame_length f)"
    using len by (auto simp: fb)
  consider "bs = []" | "length bs = 1" | "length bs = 2" | "length bs = 3" | "length bs = 4"
    | "5 \<le> length bs"
    by (cases "length bs") force+
  then show ?thesis
  proof cases
    case 1
    then show ?thesis using byte rest by (auto simp: abs_feed_def frame_bytes_header resync_def Let_def)
  next
    case 2
    then show ?thesis using byte rest frame_valid_checks [OF f] frame_bytes_header(2) [of f]
      by (auto simp: abs_feed_def Let_def)
  next
    case 3
    then show ?thesis using rest by (auto simp: abs_feed_def Let_def)
  next
    case 4
    then show ?thesis using byte rest frame_valid_checks [OF f] frame_bytes_header(4) [of f]
      by (auto simp: abs_feed_def Let_def)
  next
    case 5
    then have "bs ! 3 = frame_command f" using nth [of 3] frame_bytes_header(4) [of f]
      by (simp add: nth_append)
    then show ?thesis using 5 byte rest frame_valid_checks [OF f] frame_bytes_header(5) [of f]
      by (auto simp: abs_feed_def Let_def)
  next
    case 6
    then have size: "wire_size bs = 7 + unat (frame_length f)"
      using nth [of 4] frame_bytes_header(5) [of f] by (simp add: wire_size_def nth_append)
    have "wire_crc_ok (frame_bytes f)"
      using frame_bytes_crc [OF f] frame_bytes_body [OF f] frame_bytes_header(5) [of f]
      by (simp add: wire_crc_ok_def Let_def body_crc_def)
    then have "rest = [] \<Longrightarrow> wire_crc_ok (bs @ [b])" by (simp add: fb)
    then show ?thesis using 6 rest size by (auto simp: abs_feed_def Let_def)
  qed
qed

lemma abs_run_frame:
  assumes "frame_valid f" "frame_bytes f = bs @ rest" "rest \<noteq> []"
  shows "abs_run bs (rest @ input) =
    (frame_bytes f # fst (abs_run [] input), snd (abs_run [] input))"
  using assms(2,3)
proof (induction rest arbitrary: bs)
  case (Cons b rest)
  then show ?case
    using frame_bytes_prefix_step [OF assms(1), of bs b rest]
    by (cases "rest = []") (auto simp: split_beta)
qed simp

lemma abs_run_frames:
  "list_all frame_valid fs \<Longrightarrow>
     abs_run [] (concat (map frame_bytes fs) @ input) =
     (map frame_bytes fs @ fst (abs_run [] input), snd (abs_run [] input))"
proof (induction fs)
  case (Cons f fs)
  then show ?case
    using abs_run_frame [of f "[]" "frame_bytes f" "concat (map frame_bytes fs) @ input"]
      wire.encode_not_Nil [of f]
    by simp
qed simp

text \<open>What is delivered is cut out of the stream.\<close>

lemma abs_run_segments:
  "\<exists>gaps rest. length gaps = length (fst (abs_run bs input)) \<and>
     bs @ input = concat (map2 (@) gaps (fst (abs_run bs input))) @ rest"
proof (induction input arbitrary: bs)
  case (Cons b input)
  obtain r bs' where feed: "abs_feed bs b = (r, bs')" by (cases "abs_feed bs b")
  obtain ws q where run: "abs_run bs' input = (ws, q)" by (cases "abs_run bs' input")
  obtain gaps rest where IH: "length gaps = length ws" "bs' @ input = concat (map2 (@) gaps ws) @ rest"
    using Cons.IH [of bs'] run by auto
  show ?case
  proof (cases "r = UART_PARSER_FRAME_READY")
    case True
    then have "bs' = []" using feed by (auto simp: abs_feed_def Let_def split: if_splits)
    then show ?thesis
      using IH True feed run by (intro exI [of _ "[] # gaps"] exI [of _ rest]) simp
  next
    case False
    have "\<exists>dropped. bs @ [b] = dropped @ bs'"
      using feed by (auto simp: abs_feed_def resync_def Let_def split: if_splits)
    then obtain dropped where dropped: "bs @ b # input = dropped @ bs' @ input"
      by (metis append.assoc append_Cons append_Nil)
    show ?thesis
    proof (cases gaps)
      case Nil
      then show ?thesis using IH False feed dropped run
        by (intro exI [of _ "[]"] exI [of _ "dropped @ rest"]) simp
    next
      case (Cons g gaps')
      then obtain w ws' where "ws = w # ws'" using IH(1) by (cases ws) auto
      with Cons show ?thesis using IH False feed dropped run
        by (intro exI [of _ "(dropped @ g) # gaps'"] exI [of _ rest]) simp
    qed
  qed
qed simp

text \<open>
  C24: The byte-at-a-time state machine of uart_parser_feed simulates an abstract parser that
  keeps the list of bytes received since the start byte: every byte gives the same result and a
  related state, whatever was received before, errors and resynchronisation included, and the
  caller's frame is written exactly on FRAME_READY.
\<close>

theorem parser_feed_refines:
  assumes "parser_rel p bs"
  shows "case uart_parser_feed (Some p) b (Some fr) of (r, p', fr') \<Rightarrow>
     (\<exists>q. p' = Some q \<and> parser_rel q (snd (abs_feed bs b))) \<and>
     r = fst (abs_feed bs b) \<and>
     fr' = Some (if r = UART_PARSER_FRAME_READY
                 then decoded_into fr (raw_to_frame (bs @ [b])) else fr)"
proof -
  obtain p' fr' where
    "uart_parser_feed (Some p) b (Some fr) = (fst (abs_feed bs b), Some p', Some fr')"
    "parser_rel p' (snd (abs_feed bs b))"
    "fr' = (if fst (abs_feed bs b) = UART_PARSER_FRAME_READY
            then decoded_into fr (raw_to_frame (bs @ [b])) else fr)"
    using uart_parser_feed_refines [OF assms] by metis
  then show ?thesis by simp
qed

text \<open>
  C1: A freshly initialised parser that is fed the concatenated wire images of any list of valid
  frames reports exactly those frames, in order, and ends waiting for a start byte: nothing is
  lost, duplicated or invented at frame boundaries.
\<close>

theorem parser_delivers_stream:
  assumes "list_all frame_valid fs" "frame_array_ok fr" "uart_parser_init (Some q) = Some p"
  shows "case parser_run p fr (concat (map frame_bytes fs)) of
      (delivered, p') \<Rightarrow>
        map frame_bytes delivered = map frame_bytes fs \<and> list_all frame_valid delivered \<and>
        parser_state p' = UART_PARSER_WAIT_SOF"
proof -
  have "parser_rel p []" using assms(3) parser_rel_zero by (simp add: uart_parser_init_def Let_def)
  note run = parser_run_refines [OF this assms(2), of "concat (map frame_bytes fs)"]
  moreover have "abs_run [] (concat (map frame_bytes fs)) = (map frame_bytes fs, [])"
    using abs_run_frames [OF assms(1), of "[]"] by simp
  ultimately show ?thesis by (auto simp: parser_rel_def state_after_def split_beta)
qed

text \<open>
  C25: On an arbitrary byte stream, garbage included, every frame the parser delivers is valid
  and its wire image is a contiguous segment of the input; the delivered frames are disjoint
  segments in input order, so no byte is used for two frames and no frame is made up.
\<close>

theorem parser_delivers_only_segments:
  assumes "frame_array_ok fr" "uart_parser_init (Some q) = Some p"
  shows "case parser_run p fr input of (delivered, p') \<Rightarrow>
     list_all frame_valid delivered \<and>
     (\<exists>gaps rest. length gaps = length delivered \<and>
        input = concat (map2 (\<lambda>gap f. gap @ frame_bytes f) gaps delivered) @ rest)"
proof -
  have "parser_rel p []" using assms(2) parser_rel_zero by (simp add: uart_parser_init_def Let_def)
  note run = parser_run_refines [OF this assms(1), of input]
  obtain delivered p' where pr: "parser_run p fr input = (delivered, p')"
    by (cases "parser_run p fr input")
  obtain gaps rest where seg: "length gaps = length (map frame_bytes delivered)"
    "input = concat (map2 (@) gaps (map frame_bytes delivered)) @ rest"
    using abs_run_segments [of "[]" input, folded run [THEN conjunct1]] unfolding pr fst_conv
    by (metis append_Nil length_map)
  then have "input = concat (map2 (\<lambda>gap f. gap @ frame_bytes f) gaps delivered) @ rest"
    by (simp only: zip_map2 map_map comp_def split_def fst_conv snd_conv)
  moreover have "list_all frame_valid delivered" using run by (simp only: pr fst_conv)
  ultimately show ?thesis using seg(1) unfolding pr prod.case length_map by blast
qed

section \<open>The timeout\<close>

lemma tick_partial:
  assumes "parser_rel p bs" "bs \<noteq> []"
  shows "uart_parser_tick (Some p) e =
     (if 100 \<le> unat (elapsed_ms p) + unat e
      then (UART_PARSER_TIMEOUT, Some (parser_reset_internal p))
      else (UART_PARSER_NO_FRAME, Some (p\<lparr>elapsed_ms := elapsed_ms p + e\<rparr>)))"
proof -
  have st: "parser_state p \<noteq> UART_PARSER_WAIT_SOF"
    using assms by (auto simp: parser_rel_def state_after_def)
  have lt: "unat (elapsed_ms p) < 100"
    using assms by (simp add: parser_rel_def parser_holds_def word_less_nat_alt)
  then have "unat (100 - elapsed_ms p) = 100 - unat (elapsed_ms p)"
    by (subst unat_sub) (simp_all add: word_le_nat_alt)
  then have "(100 - elapsed_ms p \<le> e) = (100 \<le> unat (elapsed_ms p) + unat e)"
    using lt by (auto simp: word_le_nat_alt)
  then show ?thesis using st lt by (simp add: uart_parser_tick_def word_le_nat_alt)
qed

lemma tick_rel:
  assumes "parser_rel p bs" "bs \<noteq> []" "unat (elapsed_ms p) + unat e < 100"
  shows "parser_rel (p\<lparr>elapsed_ms := elapsed_ms p + e\<rparr>) bs \<and>
    unat (elapsed_ms p + e) = unat (elapsed_ms p) + unat e"
proof -
  have "unat (elapsed_ms p + e) = unat (elapsed_ms p) + unat e"
    using assms(3) by (simp add: unat_word_ariths)
  then show ?thesis using assms by (simp add: parser_rel_def parser_holds_def word_less_nat_alt)
qed

text \<open>
  C29: uart_parser_tick abandons a partial frame exactly when the silence adds up to 100 ms or
  more, without the sum wrapping, and otherwise keeps the partial frame and accumulates the
  time; an idle parser never times out.
\<close>

theorem parser_tick_timeout:
  assumes "parser_rel p bs"
  shows "case uart_parser_tick (Some p) e of (r, p') \<Rightarrow>
     (r = UART_PARSER_TIMEOUT \<longleftrightarrow> bs \<noteq> [] \<and> 100 \<le> unat (elapsed_ms p) + unat e) \<and>
     (r = UART_PARSER_TIMEOUT \<longrightarrow> parser_rel (the p') []) \<and>
     (r \<noteq> UART_PARSER_TIMEOUT \<longrightarrow> r = UART_PARSER_NO_FRAME \<and> parser_rel (the p') bs \<and>
        (bs \<noteq> [] \<longrightarrow> unat (elapsed_ms (the p')) = unat (elapsed_ms p) + unat e))"
proof (cases "bs = []")
  case True
  then show ?thesis
    using assms by (simp add: uart_parser_tick_def parser_rel_def state_after_def)
next
  case False
  have "parser_rel (parser_reset_internal p) []"
    using assms by (intro parser_holds_reset) (simp add: parser_rel_def parser_holds_def)
  then show ?thesis
    using False tick_partial [OF assms False, of e] tick_rel [OF assms False, of e] by auto
qed

text \<open>The ticks of a silence, one per expired wait of the receive task.\<close>

definition parser_ticks :: "u32 list \<Rightarrow> uart_parser_t \<Rightarrow> uart_parser_t" where
  "parser_ticks es p = foldl (\<lambda>p e. the (snd (uart_parser_tick (Some p) e))) p es"

lemma parser_ticks_Cons:
  "parser_ticks (e # es) p = parser_ticks es (the (snd (uart_parser_tick (Some p) e)))"
  by (simp add: parser_ticks_def)

lemma ticks_reset:
  assumes "parser_rel p bs" "bs = [] \<or> es \<noteq> [] \<and> 100 \<le> unat (elapsed_ms p) + sum_list (map unat es)"
  shows "parser_rel (parser_ticks es p) []"
  using assms
proof (induction es arbitrary: p bs)
  case Nil
  then show ?case by (simp add: parser_ticks_def)
next
  case (Cons e es)
  show ?case
  proof (cases "bs = []")
    case True
    then have "uart_parser_tick (Some p) e = (UART_PARSER_NO_FRAME, Some p)"
      using Cons.prems(1) by (simp add: uart_parser_tick_def parser_rel_def state_after_def)
    then show ?thesis using Cons.IH [of p "[]"] Cons.prems(1) True by (simp add: parser_ticks_Cons)
  next
    case False
    note tick = tick_partial [OF Cons.prems(1) False, of e] tick_rel [OF Cons.prems(1) False, of e]
    have idle: "parser_rel (parser_reset_internal p) []"
      using Cons.prems(1) by (intro parser_holds_reset) (simp add: parser_rel_def parser_holds_def)
    show ?thesis
    proof (cases "100 \<le> unat (elapsed_ms p) + unat e")
      case True
      then show ?thesis using tick Cons.IH [OF idle] by (simp add: parser_ticks_Cons)
    next
      case less: False
      define q where "q = the (snd (uart_parser_tick (Some p) e))"
      have q: "parser_rel q bs" "unat (elapsed_ms q) = unat (elapsed_ms p) + unat e"
        using tick less by (auto simp: q_def)
      then have "es \<noteq> [] \<and> 100 \<le> unat (elapsed_ms q) + sum_list (map unat es)"
        using Cons.prems(2) False less by (cases es) auto
      then show ?thesis using Cons.IH [OF q(1)] by (simp add: parser_ticks_Cons flip: q_def)
    qed
  qed
qed

text \<open>
  C30: From any reachable parser state, after ticks that add up to 100 ms or more, in whatever
  steps, the next valid frame is delivered whatever was received before: a truncated frame
  cannot block the link.
\<close>

theorem parser_recovers_after_silence:
  assumes "parser_rel p bs" "100 \<le> sum_list (map unat es)"
    and "frame_valid f" "frame_array_ok fr"
  shows "map frame_bytes (fst (parser_run (parser_ticks es p) fr (frame_bytes f))) = [frame_bytes f]"
proof -
  have "es \<noteq> []" using assms(2) by auto
  then have "parser_rel (parser_ticks es p) []" using ticks_reset [OF assms(1)] assms(2) by simp
  moreover have "abs_run [] (frame_bytes f) = ([frame_bytes f], [])"
    using abs_run_frames [of "[f]" "[]"] assms(3) by simp
  ultimately show ?thesis using parser_run_refines [of "parser_ticks es p" "[]" fr] assms(4) by simp
qed

section \<open>Concrete instances\<close>

theorem parser_feed_refines_witness:
  "fst (uart_parser_feed (Some (parser_reset_internal zero_parser)) UART_SOF (Some zero_frame)) = UART_PARSER_NO_FRAME"
  using parser_feed_refines [OF parser_rel_zero, of UART_SOF zero_frame]
  by (auto simp: abs_feed_def split: prod.splits)

theorem parser_delivers_stream_witness:
  "map frame_bytes (fst (parser_run (parser_reset_internal zero_parser) zero_frame
     (concat (map frame_bytes [ping_frame, ping_frame])))) = [frame_bytes ping_frame, frame_bytes ping_frame]"
  using parser_delivers_stream [of "[ping_frame, ping_frame]" zero_frame zero_parser
      "parser_reset_internal zero_parser"] ping_frame_valid
  by (auto simp: uart_parser_init_def Let_def split: prod.splits)

theorem parser_delivers_only_segments_witness:
  "list_all frame_valid (fst (parser_run (parser_reset_internal zero_parser) zero_frame (0x55 # frame_bytes ping_frame)))"
  using parser_delivers_only_segments [of zero_frame zero_parser "parser_reset_internal zero_parser"
      "0x55 # frame_bytes ping_frame"]
  by (auto simp: uart_parser_init_def Let_def split: prod.splits)

lemma parser_rel_started: "parser_rel (parser_start_frame zero_parser) [UART_SOF]"
  by (rule parser_holds_start) (simp add: zero_parser_def)

theorem parser_tick_timeout_witness:
  "fst (uart_parser_tick (Some (parser_start_frame zero_parser)) 100) = UART_PARSER_TIMEOUT"
  using parser_tick_timeout [OF parser_rel_started, of 100] by (auto split: prod.splits)

theorem parser_recovers_after_silence_witness:
  "map frame_bytes (fst (parser_run (parser_ticks (replicate 10 10) (parser_start_frame zero_parser)) zero_frame
     (frame_bytes ping_frame))) = [frame_bytes ping_frame]"
  using parser_recovers_after_silence [OF parser_rel_started, of "replicate 10 10" ping_frame zero_frame] ping_frame_valid
  by (simp add: sum_list_replicate)

end
