(* ===== verification/Device_Contract.thy ===== *)
theory Device_Contract
  imports Uart_Codec
begin

text \<open>
  What a device contract promises: its commands are device commands, an accepted payload
  fits a frame, and acceptance depends on no byte beyond the declared length.
\<close>

locale device_contract =
  fixes is_command :: "u32 \<Rightarrow> bool"
    and payload_ok :: "u32 \<Rightarrow> u8 list ptr \<Rightarrow> u32 \<Rightarrow> bool"
  assumes command_range: "is_command c \<Longrightarrow> uart_is_device_command c"
    and payload_command: "payload_ok c p n \<Longrightarrow> is_command c"
    and payload_fits: "payload_ok c p n \<Longrightarrow> n \<le> UART_MAX_PAYLOAD_SIZE"
    and payload_local: "unat n \<le> length bytes \<Longrightarrow>
      payload_ok c (Some bytes) n = payload_ok c (Some (take (unat n) bytes)) n"
begin

lemma length_accepted:
  assumes "payload_ok c p n"
  shows "uart_command_payload_length_is_valid c n"
proof -
  have dev: "uart_is_device_command c"
    using assms payload_command command_range by blast
  then have "\<not> uart_command_is_common c"
    using common_command_not_device by blast
  then show ?thesis
    using dev payload_fits [OF assms]
    by (auto simp: uart_command_payload_length_is_valid_def uart_command_is_valid_def
        uart_payload_length_is_valid_def uart_command_is_common_def)
qed

lemma frame_accepted:
  assumes "payload_ok (to_u32 (frame_command f)) p (to_u32 (frame_length f))"
    and "frame_array_ok f" "frame_version f = UART_PROTOCOL_VERSION"
  shows "frame_valid f"
  using length_accepted [OF assms(1)] assms(2,3)
  by (simp add: frame_valid_def UART_IS_VALID_COMMAND_PAYLOAD_LENGTH_def)

lemma same_bytes_same_verdict:
  assumes "unat n \<le> length p" "unat n \<le> length q" "take (unat n) p = take (unat n) q"
  shows "payload_ok c (Some p) n = payload_ok c (Some q) n"
  using assms payload_local by metis

end

end
