(* ===== verification/Linetracer_Commands.thy ===== *)
theory Linetracer_Commands
  imports Device_Contract
begin

text \<open>
  The line tracer's part of the UART contract,
  \<open>shared/include/logistics/contracts/uart/linetracer_commands.h\<close>: command and event
  codes, payload layouts, field readers, the payload validators, and the requests they accept.
\<close>

section \<open>Codes\<close>

datatype uart_linetracer_command_t =
    UART_CMD_LINETRACER_START_ROUTE | UART_CMD_LINETRACER_STOP | UART_CMD_LINETRACER_GET_STATUS
  | UART_CMD_LINETRACER_RESET | UART_CMD_LINETRACER_SET_CURRENT_POSITION
  | UART_CMD_LINETRACER_RESUME_DRIVE | UART_CMD_LINETRACER_MANUAL_UNLOAD

primrec linetracer_cmd_code :: "uart_linetracer_command_t \<Rightarrow> 'a::len word" where
  "linetracer_cmd_code UART_CMD_LINETRACER_START_ROUTE = 0x40"
| "linetracer_cmd_code UART_CMD_LINETRACER_STOP = 0x41"
| "linetracer_cmd_code UART_CMD_LINETRACER_GET_STATUS = 0x42"
| "linetracer_cmd_code UART_CMD_LINETRACER_RESET = 0x43"
| "linetracer_cmd_code UART_CMD_LINETRACER_SET_CURRENT_POSITION = 0x44"
| "linetracer_cmd_code UART_CMD_LINETRACER_RESUME_DRIVE = 0x45"
| "linetracer_cmd_code UART_CMD_LINETRACER_MANUAL_UNLOAD = 0x46"

datatype uart_linetracer_route_t =
    UART_LINETRACER_ROUTE_NONE | UART_LINETRACER_ROUTE_1 | UART_LINETRACER_ROUTE_2
  | UART_LINETRACER_ROUTE_3

primrec route_code :: "uart_linetracer_route_t \<Rightarrow> 'a::len word" where
  "route_code UART_LINETRACER_ROUTE_NONE = 0"
| "route_code UART_LINETRACER_ROUTE_1 = 1"
| "route_code UART_LINETRACER_ROUTE_2 = 2"
| "route_code UART_LINETRACER_ROUTE_3 = 3"

datatype uart_linetracer_position_t =
    UART_LINETRACER_POSITION_NONE | UART_LINETRACER_POSITION_DEST_A
  | UART_LINETRACER_POSITION_DEST_B | UART_LINETRACER_POSITION_DEST_C

primrec position_code :: "uart_linetracer_position_t \<Rightarrow> 'a::len word" where
  "position_code UART_LINETRACER_POSITION_NONE = 0"
| "position_code UART_LINETRACER_POSITION_DEST_A = 1"
| "position_code UART_LINETRACER_POSITION_DEST_B = 2"
| "position_code UART_LINETRACER_POSITION_DEST_C = 3"

datatype uart_linetracer_sensor_id_t =
  UART_LINETRACER_SENSOR_FRONT | UART_LINETRACER_SENSOR_LEFT | UART_LINETRACER_SENSOR_RIGHT

primrec linetracer_sensor_code :: "uart_linetracer_sensor_id_t \<Rightarrow> 'a::len word" where
  "linetracer_sensor_code UART_LINETRACER_SENSOR_FRONT = 1"
| "linetracer_sensor_code UART_LINETRACER_SENSOR_LEFT = 3"
| "linetracer_sensor_code UART_LINETRACER_SENSOR_RIGHT = 4"

datatype uart_linetracer_state_t =
    UART_LINETRACER_STATE_IDLE | UART_LINETRACER_STATE_LOAD_WAIT
  | UART_LINETRACER_STATE_FOLLOWING_LINE | UART_LINETRACER_STATE_CORRECTING
  | UART_LINETRACER_STATE_ARRIVED | UART_LINETRACER_STATE_UNLOADING
  | UART_LINETRACER_STATE_STOPPED | UART_LINETRACER_STATE_FAULT
  | UART_LINETRACER_STATE_EMERGENCY_STOP

primrec linetracer_state_code :: "uart_linetracer_state_t \<Rightarrow> 'a::len word" where
  "linetracer_state_code UART_LINETRACER_STATE_IDLE = 0"
| "linetracer_state_code UART_LINETRACER_STATE_LOAD_WAIT = 1"
| "linetracer_state_code UART_LINETRACER_STATE_FOLLOWING_LINE = 2"
| "linetracer_state_code UART_LINETRACER_STATE_CORRECTING = 3"
| "linetracer_state_code UART_LINETRACER_STATE_ARRIVED = 4"
| "linetracer_state_code UART_LINETRACER_STATE_UNLOADING = 5"
| "linetracer_state_code UART_LINETRACER_STATE_STOPPED = 6"
| "linetracer_state_code UART_LINETRACER_STATE_FAULT = 7"
| "linetracer_state_code UART_LINETRACER_STATE_EMERGENCY_STOP = 8"

datatype uart_linetracer_load_state_t =
  UART_LINETRACER_LOAD_EMPTY | UART_LINETRACER_LOAD_PRESENT | UART_LINETRACER_LOAD_UNLOADING

primrec load_code :: "uart_linetracer_load_state_t \<Rightarrow> 'a::len word" where
  "load_code UART_LINETRACER_LOAD_EMPTY = 0"
| "load_code UART_LINETRACER_LOAD_PRESENT = 1"
| "load_code UART_LINETRACER_LOAD_UNLOADING = 2"

datatype uart_linetracer_event_t =
    UART_LINETRACER_EVENT_ARRIVED | UART_LINETRACER_EVENT_LOAD_DETECTED
  | UART_LINETRACER_EVENT_UNLOAD_COMPLETE | UART_LINETRACER_EVENT_STATE_CHANGED
  | UART_LINETRACER_EVENT_FAULT | UART_LINETRACER_EVENT_STARTED | UART_LINETRACER_EVENT_HEARTBEAT

primrec linetracer_event_code :: "uart_linetracer_event_t \<Rightarrow> 'a::len word" where
  "linetracer_event_code UART_LINETRACER_EVENT_ARRIVED = 1"
| "linetracer_event_code UART_LINETRACER_EVENT_LOAD_DETECTED = 2"
| "linetracer_event_code UART_LINETRACER_EVENT_UNLOAD_COMPLETE = 3"
| "linetracer_event_code UART_LINETRACER_EVENT_STATE_CHANGED = 4"
| "linetracer_event_code UART_LINETRACER_EVENT_FAULT = 5"
| "linetracer_event_code UART_LINETRACER_EVENT_STARTED = 6"
| "linetracer_event_code UART_LINETRACER_EVENT_HEARTBEAT = 7"

definition UART_LINETRACER_HEARTBEAT_KNOWN_FLAGS :: u8 where
  "UART_LINETRACER_HEARTBEAT_KNOWN_FLAGS =
     push_bit 0 1 OR push_bit 1 1 OR push_bit 2 1 OR push_bit 3 1"

section \<open>Validators of single fields\<close>

definition uart_linetracer_command_is_valid :: "u32 \<Rightarrow> bool" where
  "uart_linetracer_command_is_valid command \<longleftrightarrow> command \<in>
     {linetracer_cmd_code UART_CMD_LINETRACER_START_ROUTE,
      linetracer_cmd_code UART_CMD_LINETRACER_STOP,
      linetracer_cmd_code UART_CMD_LINETRACER_GET_STATUS,
      linetracer_cmd_code UART_CMD_LINETRACER_RESET,
      linetracer_cmd_code UART_CMD_LINETRACER_SET_CURRENT_POSITION,
      linetracer_cmd_code UART_CMD_LINETRACER_RESUME_DRIVE,
      linetracer_cmd_code UART_CMD_LINETRACER_MANUAL_UNLOAD}"

definition uart_linetracer_route_is_valid :: "u32 \<Rightarrow> bool" where
  "uart_linetracer_route_is_valid route_id \<longleftrightarrow>
     route_code UART_LINETRACER_ROUTE_1 \<le> route_id \<and> route_id \<le> route_code UART_LINETRACER_ROUTE_3"

definition uart_linetracer_status_route_is_valid :: "u32 \<Rightarrow> bool" where
  "uart_linetracer_status_route_is_valid route_id \<longleftrightarrow>
     (if route_id = route_code UART_LINETRACER_ROUTE_NONE then True
      else uart_linetracer_route_is_valid route_id)"

definition uart_linetracer_position_is_valid :: "u32 \<Rightarrow> bool" where
  "uart_linetracer_position_is_valid position \<longleftrightarrow>
     position_code UART_LINETRACER_POSITION_DEST_A \<le> position \<and>
     position \<le> position_code UART_LINETRACER_POSITION_DEST_C"

definition uart_linetracer_status_position_is_valid :: "u32 \<Rightarrow> bool" where
  "uart_linetracer_status_position_is_valid position \<longleftrightarrow>
     (if position = position_code UART_LINETRACER_POSITION_NONE then True
      else uart_linetracer_position_is_valid position)"

definition uart_linetracer_sensor_id_is_valid :: "u32 \<Rightarrow> bool" where
  "uart_linetracer_sensor_id_is_valid sensor_id \<longleftrightarrow>
     sensor_id = linetracer_sensor_code UART_LINETRACER_SENSOR_FRONT \<or>
     sensor_id = linetracer_sensor_code UART_LINETRACER_SENSOR_LEFT \<or>
     sensor_id = linetracer_sensor_code UART_LINETRACER_SENSOR_RIGHT"

definition uart_linetracer_job_id_is_valid :: "u32 \<Rightarrow> bool" where
  "uart_linetracer_job_id_is_valid job_id \<longleftrightarrow> 0x0001 \<le> job_id \<and> job_id \<le> 0xFFFF"

definition uart_linetracer_state_is_valid :: "u32 \<Rightarrow> bool" where
  "uart_linetracer_state_is_valid state \<longleftrightarrow>
     state \<le> linetracer_state_code UART_LINETRACER_STATE_EMERGENCY_STOP"

definition uart_linetracer_load_state_is_valid :: "u32 \<Rightarrow> bool" where
  "uart_linetracer_load_state_is_valid state \<longleftrightarrow> state \<le> load_code UART_LINETRACER_LOAD_UNLOADING"

definition uart_linetracer_event_is_valid :: "u32 \<Rightarrow> bool" where
  "uart_linetracer_event_is_valid event_id \<longleftrightarrow> event_id \<in>
     {linetracer_event_code UART_LINETRACER_EVENT_ARRIVED,
      linetracer_event_code UART_LINETRACER_EVENT_LOAD_DETECTED,
      linetracer_event_code UART_LINETRACER_EVENT_UNLOAD_COMPLETE,
      linetracer_event_code UART_LINETRACER_EVENT_STATE_CHANGED,
      linetracer_event_code UART_LINETRACER_EVENT_FAULT,
      linetracer_event_code UART_LINETRACER_EVENT_STARTED,
      linetracer_event_code UART_LINETRACER_EVENT_HEARTBEAT}"

definition uart_linetracer_fault_error_is_valid :: "u32 \<Rightarrow> bool" where
  "uart_linetracer_fault_error_is_valid e \<longleftrightarrow> e \<in>
     {error_code UART_ERROR_TIMEOUT, error_code UART_ERROR_BUSY, error_code UART_ERROR_SENSOR,
      error_code UART_ERROR_MOTOR, error_code UART_ERROR_SERVO,
      error_code UART_ERROR_EMERGENCY_STOP, error_code UART_ERROR_INTERNAL}"

section \<open>Field readers\<close>

definition uart_linetracer_read_job_id :: "u8 list ptr \<Rightarrow> nat \<Rightarrow> nat \<Rightarrow> u16" where
  "uart_linetracer_read_job_id payload low_index high_index =
     (case payload of None \<Rightarrow> 0 | Some p \<Rightarrow> u16_le (p ! low_index) (p ! high_index))"

definition uart_linetracer_start_job_id :: "u8 list ptr \<Rightarrow> u16" where
  "uart_linetracer_start_job_id payload = uart_linetracer_read_job_id payload 0 1"

definition uart_linetracer_stop_job_id :: "u8 list ptr \<Rightarrow> u16" where
  "uart_linetracer_stop_job_id payload = uart_linetracer_read_job_id payload 0 1"

definition uart_linetracer_event_job_id :: "u8 list ptr \<Rightarrow> u16" where
  "uart_linetracer_event_job_id payload = uart_linetracer_read_job_id payload 1 2"

definition uart_linetracer_heartbeat_uptime_ms :: "u8 list ptr \<Rightarrow> u32" where
  "uart_linetracer_heartbeat_uptime_ms payload =
     (case payload of None \<Rightarrow> 0 | Some p \<Rightarrow> u32_le (p ! 5) (p ! 6) (p ! 7) (p ! 8))"

lemmas linetracer_readers = uart_linetracer_start_job_id_def uart_linetracer_stop_job_id_def
  uart_linetracer_event_job_id_def uart_linetracer_read_job_id_def

section \<open>Payload validators\<close>

definition uart_linetracer_payload_is_valid :: "u32 \<Rightarrow> u8 list ptr \<Rightarrow> u32 \<Rightarrow> bool" where
  "uart_linetracer_payload_is_valid command payload n =
     (if \<not> uart_linetracer_command_is_valid command \<or> UART_MAX_PAYLOAD_SIZE < n then False
      else if command = linetracer_cmd_code UART_CMD_LINETRACER_GET_STATUS then n = 0
      else if command = linetracer_cmd_code UART_CMD_LINETRACER_RESET then n = 0
      else if command = linetracer_cmd_code UART_CMD_LINETRACER_RESUME_DRIVE then n = 0
      else if command = linetracer_cmd_code UART_CMD_LINETRACER_MANUAL_UNLOAD then n = 0
      else if command = linetracer_cmd_code UART_CMD_LINETRACER_SET_CURRENT_POSITION then
        (case payload of
           None \<Rightarrow> False
         | Some p \<Rightarrow> (if n \<noteq> 1 then False else uart_linetracer_position_is_valid (to_u32 (p ! 0))))
      else if command = linetracer_cmd_code UART_CMD_LINETRACER_START_ROUTE then
        (case payload of
           None \<Rightarrow> False
         | Some p \<Rightarrow>
             (if n \<noteq> 3 then False
              else if \<not> uart_linetracer_job_id_is_valid (to_u32 (uart_linetracer_start_job_id payload))
              then False
              else uart_linetracer_route_is_valid (to_u32 (p ! 2))))
      else if command = linetracer_cmd_code UART_CMD_LINETRACER_STOP then
        (if n \<noteq> 2 \<or> payload = NULL then False
         else uart_linetracer_job_id_is_valid (to_u32 (uart_linetracer_stop_job_id payload)))
      else False)"

definition uart_linetracer_event_payload_is_valid :: "u8 list ptr \<Rightarrow> u32 \<Rightarrow> bool" where
  "uart_linetracer_event_payload_is_valid payload n =
     (case payload of
        None \<Rightarrow> False
      | Some p \<Rightarrow>
          (if n < UART_EVENT_HEADER_SIZE \<or> UART_MAX_PAYLOAD_SIZE < n then False
           else
             (let event_id = to_u32 (p ! 0);
                  job_event = event_id \<in>
                    {linetracer_event_code UART_LINETRACER_EVENT_STARTED,
                     linetracer_event_code UART_LINETRACER_EVENT_ARRIVED,
                     linetracer_event_code UART_LINETRACER_EVENT_LOAD_DETECTED,
                     linetracer_event_code UART_LINETRACER_EVENT_UNLOAD_COMPLETE};
                  length_ok =
                    (if job_event then n = 4
                     else if event_id = linetracer_event_code UART_LINETRACER_EVENT_STATE_CHANGED
                     then n = 5
                     else if event_id = linetracer_event_code UART_LINETRACER_EVENT_FAULT then n = 5
                     else if event_id = linetracer_event_code UART_LINETRACER_EVENT_HEARTBEAT
                     then n = 12
                     else False);
                  job_id = uart_linetracer_event_job_id payload;
                  job_ok = uart_linetracer_job_id_is_valid (to_u32 job_id)
              in if \<not> uart_linetracer_event_is_valid event_id then False
                 else if \<not> length_ok then False
                 else if job_event then
                   job_ok \<and> uart_linetracer_route_is_valid (to_u32 (p ! 3))
                 else if event_id = linetracer_event_code UART_LINETRACER_EVENT_STATE_CHANGED then
                   job_ok \<and> uart_linetracer_route_is_valid (to_u32 (p ! 3)) \<and>
                   uart_linetracer_state_is_valid (to_u32 (p ! 4))
                 else if event_id = linetracer_event_code UART_LINETRACER_EVENT_FAULT then
                   (if \<not> (job_id = 0 \<and> p ! 3 = route_code UART_LINETRACER_ROUTE_NONE \<or>
                           job_ok \<and> uart_linetracer_route_is_valid (to_u32 (p ! 3)))
                    then False
                    else uart_linetracer_fault_error_is_valid (to_u32 (p ! 4)))
                 else if event_id = linetracer_event_code UART_LINETRACER_EVENT_HEARTBEAT then
                   (let job_id = uart_linetracer_read_job_id payload 9 10
                    in if \<not> (job_id = 0 \<and> p ! 11 = route_code UART_LINETRACER_ROUTE_NONE \<or>
                              uart_linetracer_job_id_is_valid (to_u32 job_id) \<and>
                              uart_linetracer_route_is_valid (to_u32 (p ! 11)))
                       then False
                       else if \<not> uart_linetracer_state_is_valid (to_u32 (p ! 1)) \<or>
                               \<not> uart_linetracer_load_state_is_valid (to_u32 (p ! 4)) \<or>
                               p ! 3 AND NOT UART_LINETRACER_HEARTBEAT_KNOWN_FLAGS \<noteq> 0
                       then False
                       else if p ! 2 \<noteq> error_code UART_ERROR_NONE \<and>
                               \<not> uart_linetracer_fault_error_is_valid (to_u32 (p ! 2))
                       then False
                       else True)
                 else False)))"

section \<open>The contract holds\<close>

lemma linetracer_payload_local:
  assumes "unat n \<le> length p"
  shows "uart_linetracer_payload_is_valid c (Some p) n =
    uart_linetracer_payload_is_valid c (Some (take (unat n) p)) n"
  by (auto simp: uart_linetracer_payload_is_valid_def linetracer_readers)

interpretation linetracer_wire:
  device_contract uart_linetracer_command_is_valid uart_linetracer_payload_is_valid
proof
  show "uart_is_device_command c" if "uart_linetracer_command_is_valid c" for c
    using that by (auto simp: uart_linetracer_command_is_valid_def uart_is_device_command_def
        word_le_nat_alt)
  show "uart_linetracer_command_is_valid c" "n \<le> 128"
    if "uart_linetracer_payload_is_valid c p n" for c p n
    using that by (auto simp: uart_linetracer_payload_is_valid_def not_less split: if_splits)
qed (rule linetracer_payload_local)

section \<open>The requests of the contract\<close>

datatype linetracer_request =
    Start_Route (start_job: u16) (start_route: u8)
  | Stop_Job (stop_job: u16)
  | Get_Route_Status
  | Reset_Route
  | Set_Current_Position (set_position_id: u8)
  | Resume_Drive
  | Manual_Unload

primrec linetracer_request_code :: "linetracer_request \<Rightarrow> u32" where
  "linetracer_request_code (Start_Route j r) = linetracer_cmd_code UART_CMD_LINETRACER_START_ROUTE"
| "linetracer_request_code (Stop_Job j) = linetracer_cmd_code UART_CMD_LINETRACER_STOP"
| "linetracer_request_code Get_Route_Status = linetracer_cmd_code UART_CMD_LINETRACER_GET_STATUS"
| "linetracer_request_code Reset_Route = linetracer_cmd_code UART_CMD_LINETRACER_RESET"
| "linetracer_request_code (Set_Current_Position p) =
     linetracer_cmd_code UART_CMD_LINETRACER_SET_CURRENT_POSITION"
| "linetracer_request_code Resume_Drive = linetracer_cmd_code UART_CMD_LINETRACER_RESUME_DRIVE"
| "linetracer_request_code Manual_Unload = linetracer_cmd_code UART_CMD_LINETRACER_MANUAL_UNLOAD"

primrec linetracer_request_bytes :: "linetracer_request \<Rightarrow> u8 list" where
  "linetracer_request_bytes (Start_Route j r) = u16_bytes j @ [r]"
| "linetracer_request_bytes (Stop_Job j) = u16_bytes j"
| "linetracer_request_bytes Get_Route_Status = []"
| "linetracer_request_bytes Reset_Route = []"
| "linetracer_request_bytes (Set_Current_Position p) = [p]"
| "linetracer_request_bytes Resume_Drive = []"
| "linetracer_request_bytes Manual_Unload = []"

primrec linetracer_request_ok :: "linetracer_request \<Rightarrow> bool" where
  "linetracer_request_ok (Start_Route j r) \<longleftrightarrow> j \<noteq> 0 \<and> unat r \<in> {1..3}"
| "linetracer_request_ok (Stop_Job j) \<longleftrightarrow> j \<noteq> 0"
| "linetracer_request_ok Get_Route_Status \<longleftrightarrow> True"
| "linetracer_request_ok Reset_Route \<longleftrightarrow> True"
| "linetracer_request_ok (Set_Current_Position p) \<longleftrightarrow> unat p \<in> {1..3}"
| "linetracer_request_ok Resume_Drive \<longleftrightarrow> True"
| "linetracer_request_ok Manual_Unload \<longleftrightarrow> True"

lemma job_id_valid_u16: "uart_linetracer_job_id_is_valid (to_u32 (i :: u16)) \<longleftrightarrow> i \<noteq> 0"
proof -
  have "unat i \<le> 65535" using unat_u16_less [of i] by linarith
  then show ?thesis
    by (auto simp: uart_linetracer_job_id_is_valid_def word_le_nat_alt unat_gt_0 Suc_le_eq)
qed

lemma linetracer_ranges:
  "uart_linetracer_route_is_valid (to_u32 (r :: u8)) \<longleftrightarrow> unat r \<in> {1..3}"
  "uart_linetracer_position_is_valid (to_u32 (r :: u8)) \<longleftrightarrow> unat r \<in> {1..3}"
  by (simp_all add: uart_linetracer_route_is_valid_def uart_linetracer_position_is_valid_def
      word_le_nat_alt)

lemma linetracer_request_accepted:
  assumes "linetracer_request_ok r" "length (linetracer_request_bytes r) = unat n"
  shows "uart_linetracer_payload_is_valid (linetracer_request_code r)
    (Some (linetracer_request_bytes r)) n"
proof -
  have n: "n = of_nat (length (linetracer_request_bytes r))"
    using assms(2) by simp
  show ?thesis
    using assms(1) unfolding n
    by (cases r) (simp_all add: uart_linetracer_payload_is_valid_def
        uart_linetracer_command_is_valid_def linetracer_readers u16_bytes_def job_id_valid_u16
        linetracer_ranges)
qed

lemma linetracer_valid_cases:
  assumes "uart_linetracer_payload_is_valid c (Some p) n" "unat n \<le> length p"
  shows "\<exists>r. linetracer_request_ok r \<and> c = linetracer_request_code r \<and>
    take (unat n) p = linetracer_request_bytes r"
proof -
  have valid: "uart_linetracer_payload_is_valid c (Some (take (unat n) p)) n"
    using assms linetracer_payload_local by blast
  let ?q = "take (unat n) p"
  have len: "length ?q = unat n" using assms(2) by simp
  note unfold = uart_linetracer_payload_is_valid_def linetracer_readers u16_bytes_def
    job_id_valid_u16 linetracer_ranges
  have "uart_linetracer_command_is_valid c"
    using valid linetracer_wire.payload_command by blast
  then consider "c = 0x40" | "c = 0x41" | "c = 0x42" | "c = 0x43" | "c = 0x44" | "c = 0x45" | "c = 0x46"
    by (auto simp: uart_linetracer_command_is_valid_def)
  then show ?thesis
  proof cases
    case 1
    then have "n = 3" using valid by (simp add: unfold split: if_splits)
    then obtain a b d where q: "?q = [a, b, d]" using list_of_length_3 [of ?q] len by auto
    show ?thesis
      by (rule exI [of _ "Start_Route (u16_le a b) d"])
        (use valid 1 in \<open>simp add: q unfold split: if_splits\<close>)
  next
    case 2
    then have "n = 2" using valid by (simp add: unfold split: if_splits)
    then obtain a b where q: "?q = [a, b]" using list_of_length_2 [of ?q] len by auto
    show ?thesis
      by (rule exI [of _ "Stop_Job (u16_le a b)"])
        (use valid 2 in \<open>simp add: q unfold split: if_splits\<close>)
  next
    case 3
    then show ?thesis using valid by (intro exI [of _ Get_Route_Status]) (simp add: unfold split: if_splits)
  next
    case 4
    then show ?thesis using valid by (intro exI [of _ Reset_Route]) (simp add: unfold split: if_splits)
  next
    case 5
    then have "n = 1" using valid by (simp add: unfold split: if_splits)
    then obtain a where q: "?q = [a]" using list_of_length_1 [of ?q] len by auto
    show ?thesis
      by (rule exI [of _ "Set_Current_Position a"])
        (use valid 5 in \<open>simp add: q unfold split: if_splits\<close>)
  next
    case 6
    then show ?thesis using valid by (intro exI [of _ Resume_Drive]) (simp add: unfold split: if_splits)
  next
    case 7
    then show ?thesis using valid by (intro exI [of _ Manual_Unload]) (simp add: unfold split: if_splits)
  qed
qed

text \<open>
  The linetracer's payload validator accepts exactly the wire images of the requests of the
  contract within their field ranges.
\<close>

theorem linetracer_payload_valid_iff:
  assumes "unat n \<le> length p"
  shows "uart_linetracer_payload_is_valid c (Some p) n \<longleftrightarrow>
    (\<exists>r. linetracer_request_ok r \<and> c = linetracer_request_code r \<and>
         take (unat n) p = linetracer_request_bytes r)"
proof
  assume "uart_linetracer_payload_is_valid c (Some p) n"
  then show "\<exists>r. linetracer_request_ok r \<and> c = linetracer_request_code r \<and>
      take (unat n) p = linetracer_request_bytes r"
    using linetracer_valid_cases assms by blast
next
  assume "\<exists>r. linetracer_request_ok r \<and> c = linetracer_request_code r \<and>
      take (unat n) p = linetracer_request_bytes r"
  then obtain r where r: "linetracer_request_ok r" "c = linetracer_request_code r"
    "take (unat n) p = linetracer_request_bytes r"
    by blast
  then have "length (linetracer_request_bytes r) = unat n"
    using assms by (metis length_take min_absorb2)
  then show "uart_linetracer_payload_is_valid c (Some p) n"
    using linetracer_request_accepted [OF r(1)] linetracer_payload_local [OF assms] r by simp
qed

section \<open>Concrete instances\<close>

theorem linetracer_payload_valid_iff_witness:
  "uart_linetracer_payload_is_valid 0x41 (Some [5, 0]) 2"
proof -
  have request: "\<exists>r. linetracer_request_ok r \<and> 0x41 = linetracer_request_code r \<and>
      take (unat (2 :: u32)) [5, 0] = linetracer_request_bytes r"
    by (rule exI [of _ "Stop_Job 5"]) (simp add: u16_bytes_def lo8_def hi8_def)
  have "unat (2 :: u32) \<le> length [5 :: u8, 0]" by simp
  from iffD2 [OF linetracer_payload_valid_iff [OF this] request] show ?thesis .
qed

end
