(* ===== verification/Sorting_Commands.thy ===== *)
theory Sorting_Commands
  imports Device_Contract
begin

text \<open>
  The sorting gate's part of the UART contract,
  \<open>shared/include/logistics/contracts/uart/sorting_commands.h\<close>: codes, payload layouts,
  field readers, the payload validators, and the requests they accept.
\<close>

section \<open>Codes\<close>

datatype uart_sorting_command_t =
    UART_CMD_SORTING_ROUTE_ITEM | UART_CMD_SORTING_GET_STATUS | UART_CMD_SORTING_CANCEL
  | UART_CMD_SORTING_RESET | UART_CMD_SORTING_CONVEYOR_START | UART_CMD_SORTING_CONVEYOR_STOP
  | UART_CMD_SORTING_CONVEYOR_SET_SPEED | UART_CMD_SORTING_CONVEYOR_GET_STATUS
  | UART_CMD_SORTING_RETURN_HOME

primrec sorting_cmd_code :: "uart_sorting_command_t \<Rightarrow> 'a::len word" where
  "sorting_cmd_code UART_CMD_SORTING_ROUTE_ITEM = 0x30"
| "sorting_cmd_code UART_CMD_SORTING_GET_STATUS = 0x31"
| "sorting_cmd_code UART_CMD_SORTING_CANCEL = 0x32"
| "sorting_cmd_code UART_CMD_SORTING_RESET = 0x33"
| "sorting_cmd_code UART_CMD_SORTING_CONVEYOR_START = 0x34"
| "sorting_cmd_code UART_CMD_SORTING_CONVEYOR_STOP = 0x35"
| "sorting_cmd_code UART_CMD_SORTING_CONVEYOR_SET_SPEED = 0x36"
| "sorting_cmd_code UART_CMD_SORTING_CONVEYOR_GET_STATUS = 0x37"
| "sorting_cmd_code UART_CMD_SORTING_RETURN_HOME = 0x38"

datatype uart_sorting_destination_t =
    UART_SORTING_DESTINATION_NONE | UART_SORTING_DESTINATION_1 | UART_SORTING_DESTINATION_2
  | UART_SORTING_DESTINATION_3

primrec destination_code :: "uart_sorting_destination_t \<Rightarrow> 'a::len word" where
  "destination_code UART_SORTING_DESTINATION_NONE = 0"
| "destination_code UART_SORTING_DESTINATION_1 = 1"
| "destination_code UART_SORTING_DESTINATION_2 = 2"
| "destination_code UART_SORTING_DESTINATION_3 = 3"

datatype uart_sorting_sensor_id_t =
  UART_SORTING_SENSOR_ID_1 | UART_SORTING_SENSOR_ID_2 | UART_SORTING_SENSOR_ID_3

primrec sorting_sensor_code :: "uart_sorting_sensor_id_t \<Rightarrow> 'a::len word" where
  "sorting_sensor_code UART_SORTING_SENSOR_ID_1 = destination_code UART_SORTING_DESTINATION_1"
| "sorting_sensor_code UART_SORTING_SENSOR_ID_2 = destination_code UART_SORTING_DESTINATION_2"
| "sorting_sensor_code UART_SORTING_SENSOR_ID_3 = destination_code UART_SORTING_DESTINATION_3"

datatype uart_sorting_conveyor_state_t =
  UART_SORTING_CONVEYOR_STOPPED | UART_SORTING_CONVEYOR_RUNNING | UART_SORTING_CONVEYOR_FAULT

primrec sorting_conveyor_code :: "uart_sorting_conveyor_state_t \<Rightarrow> 'a::len word" where
  "sorting_conveyor_code UART_SORTING_CONVEYOR_STOPPED = 0"
| "sorting_conveyor_code UART_SORTING_CONVEYOR_RUNNING = 1"
| "sorting_conveyor_code UART_SORTING_CONVEYOR_FAULT = 2"

datatype uart_sorting_gate_state_t =
    UART_SORTING_GATE_HOME | UART_SORTING_GATE_MOVING | UART_SORTING_GATE_WAIT_ITEM
  | UART_SORTING_GATE_RETURNING | UART_SORTING_GATE_FAULT

primrec gate_code :: "uart_sorting_gate_state_t \<Rightarrow> 'a::len word" where
  "gate_code UART_SORTING_GATE_HOME = 0"
| "gate_code UART_SORTING_GATE_MOVING = 1"
| "gate_code UART_SORTING_GATE_WAIT_ITEM = 2"
| "gate_code UART_SORTING_GATE_RETURNING = 3"
| "gate_code UART_SORTING_GATE_FAULT = 4"

datatype uart_sorting_event_t = UART_SORTING_EVENT_CYCLE_COMPLETE

primrec sorting_event_code :: "uart_sorting_event_t \<Rightarrow> 'a::len word" where
  "sorting_event_code UART_SORTING_EVENT_CYCLE_COMPLETE = 2"

section \<open>Validators of single fields\<close>

definition uart_sorting_command_is_valid :: "u32 \<Rightarrow> bool" where
  "uart_sorting_command_is_valid command \<longleftrightarrow> command \<in>
     {sorting_cmd_code UART_CMD_SORTING_ROUTE_ITEM, sorting_cmd_code UART_CMD_SORTING_GET_STATUS,
      sorting_cmd_code UART_CMD_SORTING_CANCEL, sorting_cmd_code UART_CMD_SORTING_RESET,
      sorting_cmd_code UART_CMD_SORTING_CONVEYOR_START,
      sorting_cmd_code UART_CMD_SORTING_CONVEYOR_STOP,
      sorting_cmd_code UART_CMD_SORTING_CONVEYOR_SET_SPEED,
      sorting_cmd_code UART_CMD_SORTING_CONVEYOR_GET_STATUS,
      sorting_cmd_code UART_CMD_SORTING_RETURN_HOME}"

definition uart_sorting_destination_is_valid :: "u32 \<Rightarrow> bool" where
  "uart_sorting_destination_is_valid destination_id \<longleftrightarrow>
     destination_code UART_SORTING_DESTINATION_1 \<le> destination_id \<and>
     destination_id \<le> destination_code UART_SORTING_DESTINATION_3"

definition uart_sorting_cycle_id_is_valid :: "u32 \<Rightarrow> bool" where
  "uart_sorting_cycle_id_is_valid cycle_id \<longleftrightarrow> 1 \<le> cycle_id \<and> cycle_id \<le> 65535"

definition uart_sorting_status_destination_is_valid :: "u32 \<Rightarrow> bool" where
  "uart_sorting_status_destination_is_valid destination_id \<longleftrightarrow>
     (if destination_id = destination_code UART_SORTING_DESTINATION_NONE then True
      else uart_sorting_destination_is_valid destination_id)"

definition uart_sorting_sensor_id_is_valid :: "u32 \<Rightarrow> bool" where
  "uart_sorting_sensor_id_is_valid sensor_id \<longleftrightarrow>
     sorting_sensor_code UART_SORTING_SENSOR_ID_1 \<le> sensor_id \<and>
     sensor_id \<le> sorting_sensor_code UART_SORTING_SENSOR_ID_3"

definition uart_sorting_gate_state_is_valid :: "u32 \<Rightarrow> bool" where
  "uart_sorting_gate_state_is_valid state \<longleftrightarrow> state \<le> gate_code UART_SORTING_GATE_FAULT"

definition uart_sorting_conveyor_state_is_valid :: "u32 \<Rightarrow> bool" where
  "uart_sorting_conveyor_state_is_valid state \<longleftrightarrow>
     state \<le> sorting_conveyor_code UART_SORTING_CONVEYOR_FAULT"

definition uart_sorting_event_is_valid :: "u32 \<Rightarrow> bool" where
  "uart_sorting_event_is_valid event_id \<longleftrightarrow>
     event_id = sorting_event_code UART_SORTING_EVENT_CYCLE_COMPLETE"

section \<open>Field readers\<close>

definition uart_sorting_route_cycle_id :: "u8 list ptr \<Rightarrow> u16" where
  "uart_sorting_route_cycle_id payload =
     (case payload of None \<Rightarrow> 0 | Some p \<Rightarrow> u16_le (p ! 0) (p ! 1))"

definition uart_sorting_cancel_cycle_id :: "u8 list ptr \<Rightarrow> u16" where
  "uart_sorting_cancel_cycle_id payload =
     (case payload of None \<Rightarrow> 0 | Some p \<Rightarrow> u16_le (p ! 0) (p ! 1))"

definition uart_sorting_return_home_cycle_id :: "u8 list ptr \<Rightarrow> u16" where
  "uart_sorting_return_home_cycle_id payload =
     (case payload of None \<Rightarrow> 0 | Some p \<Rightarrow> u16_le (p ! 0) (p ! 1))"

lemmas sorting_readers = uart_sorting_route_cycle_id_def uart_sorting_cancel_cycle_id_def
  uart_sorting_return_home_cycle_id_def

section \<open>Payload validators\<close>

definition uart_sorting_payload_is_valid :: "u32 \<Rightarrow> u8 list ptr \<Rightarrow> u32 \<Rightarrow> bool" where
  "uart_sorting_payload_is_valid command payload n =
     (if \<not> uart_sorting_command_is_valid command \<or> UART_MAX_PAYLOAD_SIZE < n then False
      else if command = sorting_cmd_code UART_CMD_SORTING_GET_STATUS then n = 0
      else if command = sorting_cmd_code UART_CMD_SORTING_RESET then n = 0
      else if command \<in> {sorting_cmd_code UART_CMD_SORTING_CONVEYOR_START,
                         sorting_cmd_code UART_CMD_SORTING_CONVEYOR_STOP,
                         sorting_cmd_code UART_CMD_SORTING_CONVEYOR_GET_STATUS} then n = 0
      else if command = sorting_cmd_code UART_CMD_SORTING_CONVEYOR_SET_SPEED then
        (case payload of
           None \<Rightarrow> False | Some p \<Rightarrow> (if n \<noteq> 1 then False else p ! 0 \<le> 100))
      else if command = sorting_cmd_code UART_CMD_SORTING_ROUTE_ITEM then
        (case payload of
           None \<Rightarrow> False
         | Some p \<Rightarrow>
             (if n \<noteq> 3 then False
              else uart_sorting_cycle_id_is_valid (to_u32 (uart_sorting_route_cycle_id payload)) \<and>
                   uart_sorting_destination_is_valid (to_u32 (p ! 2))))
      else if command = sorting_cmd_code UART_CMD_SORTING_CANCEL then
        n = 2 \<and> payload \<noteq> NULL \<and>
        uart_sorting_cycle_id_is_valid (to_u32 (uart_sorting_cancel_cycle_id payload))
      else if command = sorting_cmd_code UART_CMD_SORTING_RETURN_HOME then
        n = 2 \<and> payload \<noteq> NULL \<and>
        uart_sorting_cycle_id_is_valid (to_u32 (uart_sorting_return_home_cycle_id payload))
      else False)"

definition uart_sorting_event_payload_is_valid :: "u8 list ptr \<Rightarrow> u32 \<Rightarrow> bool" where
  "uart_sorting_event_payload_is_valid payload n =
     (case payload of
        None \<Rightarrow> False
      | Some p \<Rightarrow>
          (if n < UART_EVENT_HEADER_SIZE \<or> UART_MAX_PAYLOAD_SIZE < n then False
           else if \<not> uart_sorting_event_is_valid (to_u32 (p ! 0)) then False
           else if to_u32 (p ! 0) = (sorting_event_code UART_SORTING_EVENT_CYCLE_COMPLETE :: u32)
           then (if n \<noteq> 4 then False else uart_sorting_destination_is_valid (to_u32 (p ! 3)))
           else False))"

definition uart_sorting_sensor_status_is_valid :: "u8 list ptr \<Rightarrow> u32 \<Rightarrow> bool" where
  "uart_sorting_sensor_status_is_valid payload n =
     (case payload of
        None \<Rightarrow> False
      | Some p \<Rightarrow>
          (if n \<noteq> UART_SENSOR_STATUS_PAYLOAD_SIZE then False
           else if \<not> uart_sorting_sensor_id_is_valid (to_u32 (p ! UART_SENSOR_ID_INDEX)) then False
           else uart_sensor_state_is_valid (to_u32 (p ! UART_SENSOR_STATE_INDEX))))"

section \<open>The contract holds\<close>

lemma sorting_payload_local:
  assumes "unat n \<le> length p"
  shows "uart_sorting_payload_is_valid c (Some p) n =
    uart_sorting_payload_is_valid c (Some (take (unat n) p)) n"
  by (auto simp: uart_sorting_payload_is_valid_def sorting_readers)

interpretation sorting_wire:
  device_contract uart_sorting_command_is_valid uart_sorting_payload_is_valid
proof
  show "uart_is_device_command c" if "uart_sorting_command_is_valid c" for c
    using that by (auto simp: uart_sorting_command_is_valid_def uart_is_device_command_def
        word_le_nat_alt)
  show "uart_sorting_command_is_valid c" "n \<le> 128"
    if "uart_sorting_payload_is_valid c p n" for c p n
    using that by (auto simp: uart_sorting_payload_is_valid_def not_less split: if_splits)
qed (rule sorting_payload_local)

section \<open>The requests of the contract\<close>

datatype sorting_request =
    Route_Item (route_cycle: u16) (route_destination: u8)
  | Get_Gate_Status | Cancel_Item (cancel_cycle: u16) | Reset_Gate
  | Conveyor_Start | Conveyor_Stop | Conveyor_Set_Speed (sorting_speed: u8)
  | Conveyor_Get_Status | Return_Home (return_cycle: u16)

primrec sorting_request_code :: "sorting_request \<Rightarrow> u32" where
  "sorting_request_code (Route_Item c d) = sorting_cmd_code UART_CMD_SORTING_ROUTE_ITEM"
| "sorting_request_code Get_Gate_Status = sorting_cmd_code UART_CMD_SORTING_GET_STATUS"
| "sorting_request_code (Cancel_Item c) = sorting_cmd_code UART_CMD_SORTING_CANCEL"
| "sorting_request_code Reset_Gate = sorting_cmd_code UART_CMD_SORTING_RESET"
| "sorting_request_code Conveyor_Start = sorting_cmd_code UART_CMD_SORTING_CONVEYOR_START"
| "sorting_request_code Conveyor_Stop = sorting_cmd_code UART_CMD_SORTING_CONVEYOR_STOP"
| "sorting_request_code (Conveyor_Set_Speed s) =
     sorting_cmd_code UART_CMD_SORTING_CONVEYOR_SET_SPEED"
| "sorting_request_code Conveyor_Get_Status =
     sorting_cmd_code UART_CMD_SORTING_CONVEYOR_GET_STATUS"
| "sorting_request_code (Return_Home c) = sorting_cmd_code UART_CMD_SORTING_RETURN_HOME"

primrec sorting_request_bytes :: "sorting_request \<Rightarrow> u8 list" where
  "sorting_request_bytes (Route_Item c d) = u16_bytes c @ [d]"
| "sorting_request_bytes Get_Gate_Status = []"
| "sorting_request_bytes (Cancel_Item c) = u16_bytes c"
| "sorting_request_bytes Reset_Gate = []"
| "sorting_request_bytes Conveyor_Start = []"
| "sorting_request_bytes Conveyor_Stop = []"
| "sorting_request_bytes (Conveyor_Set_Speed s) = [s]"
| "sorting_request_bytes Conveyor_Get_Status = []"
| "sorting_request_bytes (Return_Home c) = u16_bytes c"

primrec sorting_request_ok :: "sorting_request \<Rightarrow> bool" where
  "sorting_request_ok (Route_Item c d) \<longleftrightarrow> c \<noteq> 0 \<and> unat d \<in> {1..3}"
| "sorting_request_ok Get_Gate_Status \<longleftrightarrow> True"
| "sorting_request_ok (Cancel_Item c) \<longleftrightarrow> c \<noteq> 0"
| "sorting_request_ok Reset_Gate \<longleftrightarrow> True"
| "sorting_request_ok Conveyor_Start \<longleftrightarrow> True"
| "sorting_request_ok Conveyor_Stop \<longleftrightarrow> True"
| "sorting_request_ok (Conveyor_Set_Speed s) \<longleftrightarrow> unat s \<le> 100"
| "sorting_request_ok Conveyor_Get_Status \<longleftrightarrow> True"
| "sorting_request_ok (Return_Home c) \<longleftrightarrow> c \<noteq> 0"

lemma cycle_id_valid_u16: "uart_sorting_cycle_id_is_valid (to_u32 (i :: u16)) \<longleftrightarrow> i \<noteq> 0"
proof -
  have "unat i \<le> 65535" using unat_u16_less [of i] by linarith
  then show ?thesis
    by (auto simp: uart_sorting_cycle_id_is_valid_def word_le_nat_alt unat_gt_0 Suc_le_eq)
qed

lemma sorting_ranges:
  "uart_sorting_destination_is_valid (to_u32 (r :: u8)) \<longleftrightarrow> unat r \<in> {1..3}"
  "(r :: u8) \<le> 100 \<longleftrightarrow> unat r \<le> 100"
  by (simp_all add: uart_sorting_destination_is_valid_def word_le_nat_alt)

lemma sorting_request_accepted:
  assumes "sorting_request_ok r" "length (sorting_request_bytes r) = unat n"
  shows "uart_sorting_payload_is_valid (sorting_request_code r) (Some (sorting_request_bytes r)) n"
proof -
  have n: "n = of_nat (length (sorting_request_bytes r))"
    using assms(2) by simp
  show ?thesis
    using assms(1) unfolding n
    by (cases r) (simp_all add: uart_sorting_payload_is_valid_def uart_sorting_command_is_valid_def
        sorting_readers u16_bytes_def cycle_id_valid_u16 sorting_ranges)
qed

lemma sorting_valid_cases:
  assumes "uart_sorting_payload_is_valid c (Some p) n" "unat n \<le> length p"
  shows "\<exists>r. sorting_request_ok r \<and> c = sorting_request_code r \<and>
    take (unat n) p = sorting_request_bytes r"
proof -
  have valid: "uart_sorting_payload_is_valid c (Some (take (unat n) p)) n"
    using assms sorting_payload_local by blast
  let ?q = "take (unat n) p"
  have len: "length ?q = unat n" using assms(2) by simp
  note unfold = uart_sorting_payload_is_valid_def sorting_readers u16_bytes_def
    cycle_id_valid_u16 sorting_ranges
  have "uart_sorting_command_is_valid c"
    using valid sorting_wire.payload_command by blast
  then consider "c = 0x30" | "c = 0x31" | "c = 0x32" | "c = 0x33" | "c = 0x34" | "c = 0x35"
    | "c = 0x36" | "c = 0x37" | "c = 0x38"
    by (auto simp: uart_sorting_command_is_valid_def)
  then show ?thesis
  proof cases
    case 1
    then have "n = 3" using valid by (simp add: unfold split: if_splits)
    then obtain a b d where q: "?q = [a, b, d]" using list_of_length_3 [of ?q] len by auto
    show ?thesis
      by (rule exI [of _ "Route_Item (u16_le a b) d"])
        (use valid 1 in \<open>simp add: q unfold split: if_splits\<close>)
  next
    case 2
    then show ?thesis using valid by (intro exI [of _ Get_Gate_Status]) (simp add: unfold split: if_splits)
  next
    case 3
    then have "n = 2" using valid by (simp add: unfold split: if_splits)
    then obtain a b where q: "?q = [a, b]" using list_of_length_2 [of ?q] len by auto
    show ?thesis
      by (rule exI [of _ "Cancel_Item (u16_le a b)"])
        (use valid 3 in \<open>simp add: q unfold split: if_splits\<close>)
  next
    case 4
    then show ?thesis using valid by (intro exI [of _ Reset_Gate]) (simp add: unfold split: if_splits)
  next
    case 5
    then show ?thesis using valid by (intro exI [of _ Conveyor_Start]) (simp add: unfold split: if_splits)
  next
    case 6
    then show ?thesis using valid by (intro exI [of _ Conveyor_Stop]) (simp add: unfold split: if_splits)
  next
    case 7
    then have "n = 1" using valid by (simp add: unfold split: if_splits)
    then obtain a where q: "?q = [a]" using list_of_length_1 [of ?q] len by auto
    show ?thesis
      by (rule exI [of _ "Conveyor_Set_Speed a"])
        (use valid 7 in \<open>simp add: q unfold split: if_splits\<close>)
  next
    case 8
    then show ?thesis using valid by (intro exI [of _ Conveyor_Get_Status]) (simp add: unfold split: if_splits)
  next
    case 9
    then have "n = 2" using valid by (simp add: unfold split: if_splits)
    then obtain a b where q: "?q = [a, b]" using list_of_length_2 [of ?q] len by auto
    show ?thesis
      by (rule exI [of _ "Return_Home (u16_le a b)"])
        (use valid 9 in \<open>simp add: q unfold split: if_splits\<close>)
  qed
qed

text \<open>
  The sorting conveyor's payload validator accepts exactly the wire images of the requests
  of the contract within their field ranges.
\<close>

theorem sorting_payload_valid_iff:
  assumes "unat n \<le> length p"
  shows "uart_sorting_payload_is_valid c (Some p) n \<longleftrightarrow>
    (\<exists>r. sorting_request_ok r \<and> c = sorting_request_code r \<and>
         take (unat n) p = sorting_request_bytes r)"
proof
  assume "uart_sorting_payload_is_valid c (Some p) n"
  then show "\<exists>r. sorting_request_ok r \<and> c = sorting_request_code r \<and>
      take (unat n) p = sorting_request_bytes r"
    using sorting_valid_cases assms by blast
next
  assume "\<exists>r. sorting_request_ok r \<and> c = sorting_request_code r \<and>
      take (unat n) p = sorting_request_bytes r"
  then obtain r where r: "sorting_request_ok r" "c = sorting_request_code r"
    "take (unat n) p = sorting_request_bytes r"
    by blast
  then have "length (sorting_request_bytes r) = unat n"
    using assms by (metis length_take min_absorb2)
  then show "uart_sorting_payload_is_valid c (Some p) n"
    using sorting_request_accepted [OF r(1)] sorting_payload_local [OF assms] r by simp
qed

section \<open>Concrete instances\<close>

theorem sorting_payload_valid_iff_witness:
  "uart_sorting_payload_is_valid 0x32 (Some [5, 0]) 2"
proof -
  have request: "\<exists>r. sorting_request_ok r \<and> 0x32 = sorting_request_code r \<and>
      take (unat (2 :: u32)) [5, 0] = sorting_request_bytes r"
    by (rule exI [of _ "Cancel_Item 5"]) (simp add: u16_bytes_def lo8_def hi8_def)
  have "unat (2 :: u32) \<le> length [5 :: u8, 0]" by simp
  from iffD2 [OF sorting_payload_valid_iff [OF this] request] show ?thesis .
qed

end
