(* ===== verification/Input_Commands.thy ===== *)
theory Input_Commands
  imports Device_Contract
begin

text \<open>
  The input conveyor's part of the UART contract,
  \<open>shared/include/logistics/contracts/uart/input_commands.h\<close>: codes, and the validators
  of commands, payloads and sensor reports.
\<close>

datatype uart_input_command_t =
    UART_CMD_INPUT_CONVEYOR_START | UART_CMD_INPUT_CONVEYOR_STOP
  | UART_CMD_INPUT_CONVEYOR_SET_SPEED | UART_CMD_INPUT_CONVEYOR_GET_STATUS
  | UART_CMD_INPUT_CONTROL_RESET

primrec input_cmd_code :: "uart_input_command_t \<Rightarrow> 'a::len word" where
  "input_cmd_code UART_CMD_INPUT_CONVEYOR_START = 0x10"
| "input_cmd_code UART_CMD_INPUT_CONVEYOR_STOP = 0x11"
| "input_cmd_code UART_CMD_INPUT_CONVEYOR_SET_SPEED = 0x12"
| "input_cmd_code UART_CMD_INPUT_CONVEYOR_GET_STATUS = 0x13"
| "input_cmd_code UART_CMD_INPUT_CONTROL_RESET = 0x14"

datatype uart_input_sensor_id_t = UART_INPUT_SENSOR_ID_1

primrec input_sensor_code :: "uart_input_sensor_id_t \<Rightarrow> 'a::len word" where
  "input_sensor_code UART_INPUT_SENSOR_ID_1 = 1"

datatype uart_input_conveyor_state_t =
  UART_INPUT_CONVEYOR_STOPPED | UART_INPUT_CONVEYOR_RUNNING | UART_INPUT_CONVEYOR_FAULT

primrec input_conveyor_code :: "uart_input_conveyor_state_t \<Rightarrow> 'a::len word" where
  "input_conveyor_code UART_INPUT_CONVEYOR_STOPPED = 0"
| "input_conveyor_code UART_INPUT_CONVEYOR_RUNNING = 1"
| "input_conveyor_code UART_INPUT_CONVEYOR_FAULT = 2"

definition uart_input_command_is_valid :: "u32 \<Rightarrow> bool" where
  "uart_input_command_is_valid command \<longleftrightarrow> command \<in>
     {input_cmd_code UART_CMD_INPUT_CONVEYOR_START, input_cmd_code UART_CMD_INPUT_CONVEYOR_STOP,
      input_cmd_code UART_CMD_INPUT_CONVEYOR_SET_SPEED,
      input_cmd_code UART_CMD_INPUT_CONVEYOR_GET_STATUS,
      input_cmd_code UART_CMD_INPUT_CONTROL_RESET}"

definition uart_input_sensor_id_is_valid :: "u32 \<Rightarrow> bool" where
  "uart_input_sensor_id_is_valid sensor_id \<longleftrightarrow>
     sensor_id = input_sensor_code UART_INPUT_SENSOR_ID_1"

definition uart_input_conveyor_state_is_valid :: "u32 \<Rightarrow> bool" where
  "uart_input_conveyor_state_is_valid state \<longleftrightarrow>
     state \<le> input_conveyor_code UART_INPUT_CONVEYOR_FAULT"

definition uart_input_payload_is_valid :: "u32 \<Rightarrow> u8 list ptr \<Rightarrow> u32 \<Rightarrow> bool" where
  "uart_input_payload_is_valid command payload n =
     (if \<not> uart_input_command_is_valid command then False
      else if UART_MAX_PAYLOAD_SIZE < n then False
      else if command = input_cmd_code UART_CMD_INPUT_CONTROL_RESET then n = 0
      else if command \<in> {input_cmd_code UART_CMD_INPUT_CONVEYOR_START,
                         input_cmd_code UART_CMD_INPUT_CONVEYOR_STOP,
                         input_cmd_code UART_CMD_INPUT_CONVEYOR_GET_STATUS} then n = 0
      else if command = input_cmd_code UART_CMD_INPUT_CONVEYOR_SET_SPEED then
        (case payload of
           None \<Rightarrow> False | Some p \<Rightarrow> (if n \<noteq> 1 then False else p ! 0 \<le> 100))
      else False)"

definition uart_input_sensor_status_is_valid :: "u8 list ptr \<Rightarrow> u32 \<Rightarrow> bool" where
  "uart_input_sensor_status_is_valid payload n =
     (case payload of
        None \<Rightarrow> False
      | Some p \<Rightarrow>
          (if n \<noteq> UART_SENSOR_STATUS_PAYLOAD_SIZE then False
           else if \<not> uart_input_sensor_id_is_valid (to_u32 (p ! UART_SENSOR_ID_INDEX)) then False
           else uart_sensor_state_is_valid (to_u32 (p ! UART_SENSOR_STATE_INDEX))))"

lemma input_payload_local:
  assumes "unat n \<le> length p"
  shows "uart_input_payload_is_valid c (Some p) n =
    uart_input_payload_is_valid c (Some (take (unat n) p)) n"
  by (auto simp: uart_input_payload_is_valid_def)

interpretation input_wire: device_contract uart_input_command_is_valid uart_input_payload_is_valid
proof
  show "uart_is_device_command c" if "uart_input_command_is_valid c" for c
    using that by (auto simp: uart_input_command_is_valid_def uart_is_device_command_def
        word_le_nat_alt)
  show "uart_input_command_is_valid c" "n \<le> 128"
    if "uart_input_payload_is_valid c p n" for c p n
    using that by (auto simp: uart_input_payload_is_valid_def not_less split: if_splits)
qed (rule input_payload_local)

end
