(* ===== verification/Conveyor_Events.thy ===== *)
theory Conveyor_Events
  imports Device_Contract
begin

text \<open>
  The conveyor application's events,
  \<open>shared/include/logistics/contracts/uart/conveyor_events.h\<close>: heartbeat, safety and
  health payloads and their validators.
\<close>

datatype app_event_id_t = APP_EVENT_HEARTBEAT | APP_EVENT_SAFETY | APP_EVENT_HEALTH

primrec app_event_code :: "app_event_id_t \<Rightarrow> 'a::len word" where
  "app_event_code APP_EVENT_HEARTBEAT = 1"
| "app_event_code APP_EVENT_SAFETY = 3"
| "app_event_code APP_EVENT_HEALTH = 4"

datatype safety_cause_t =
    SAFETY_CAUSE_NONE | SAFETY_CAUSE_ESTOP_INPUT_PI | SAFETY_CAUSE_ESTOP_SORTING_PI
  | SAFETY_CAUSE_FATAL_ERROR

primrec safety_cause_code :: "safety_cause_t \<Rightarrow> 'a::len word" where
  "safety_cause_code SAFETY_CAUSE_NONE = 0"
| "safety_cause_code SAFETY_CAUSE_ESTOP_INPUT_PI = 1"
| "safety_cause_code SAFETY_CAUSE_ESTOP_SORTING_PI = 2"
| "safety_cause_code SAFETY_CAUSE_FATAL_ERROR = 3"

datatype safety_event_kind_t =
  SAFETY_EVENT_ESTOP_LATCHED | SAFETY_EVENT_RESET_COMPLETE | SAFETY_EVENT_RESET_REJECTED

primrec safety_kind_code :: "safety_event_kind_t \<Rightarrow> 'a::len word" where
  "safety_kind_code SAFETY_EVENT_ESTOP_LATCHED = 1"
| "safety_kind_code SAFETY_EVENT_RESET_COMPLETE = 2"
| "safety_kind_code SAFETY_EVENT_RESET_REJECTED = 3"

datatype safety_reset_result_t =
    SAFETY_RESET_OK | SAFETY_RESET_INPUT_NOT_READY | SAFETY_RESET_SORTING_NOT_READY
  | SAFETY_RESET_TIMEOUT

primrec safety_reset_code :: "safety_reset_result_t \<Rightarrow> 'a::len word" where
  "safety_reset_code SAFETY_RESET_OK = 0"
| "safety_reset_code SAFETY_RESET_INPUT_NOT_READY = 1"
| "safety_reset_code SAFETY_RESET_SORTING_NOT_READY = 2"
| "safety_reset_code SAFETY_RESET_TIMEOUT = 3"

abbreviation (input) HEALTH_ISSUE_CAUSE_DEVICE_WIDE :: u8
  where "HEALTH_ISSUE_CAUSE_DEVICE_WIDE \<equiv> 0xFF"
abbreviation (input) HEALTH_ISSUE_SENSOR_ID_NONE :: u8
  where "HEALTH_ISSUE_SENSOR_ID_NONE \<equiv> 0xFF"

datatype health_issue_kind_t =
    HEALTH_ISSUE_UART_CHANNEL_TIMEOUT | HEALTH_ISSUE_QUEUE_OVERFLOW_TRANSIENT
  | HEALTH_ISSUE_SENSOR_STALE | HEALTH_ISSUE_UART_RECOVERY

primrec health_kind_code :: "health_issue_kind_t \<Rightarrow> 'a::len word" where
  "health_kind_code HEALTH_ISSUE_UART_CHANNEL_TIMEOUT = 1"
| "health_kind_code HEALTH_ISSUE_QUEUE_OVERFLOW_TRANSIENT = 2"
| "health_kind_code HEALTH_ISSUE_SENSOR_STALE = 3"
| "health_kind_code HEALTH_ISSUE_UART_RECOVERY = 4"

definition uart_app_error_is_valid :: "u32 \<Rightarrow> bool" where
  "uart_app_error_is_valid e \<longleftrightarrow>
     e \<le> error_code UART_ERROR_SPEED_NOT_CONFIGURED \<or> e = error_code UART_ERROR_INTERNAL"

definition uart_app_heartbeat_payload_is_valid :: "u8 list ptr \<Rightarrow> u32 \<Rightarrow> bool" where
  "uart_app_heartbeat_payload_is_valid payload n =
     (case payload of
        None \<Rightarrow> False
      | Some p \<Rightarrow>
          (if n \<noteq> 9 \<or> p ! 0 \<noteq> app_event_code APP_EVENT_HEARTBEAT then False
           else p ! 1 \<le> device_code UART_DEVICE_EMERGENCY_STOP \<and>
                uart_app_error_is_valid (to_u32 (p ! 2)) \<and>
                uart_sensor_state_is_valid (to_u32 (p ! 7)) \<and>
                uart_sensor_state_is_valid (to_u32 (p ! 8))))"

definition uart_app_safety_payload_is_valid :: "u8 list ptr \<Rightarrow> u32 \<Rightarrow> bool" where
  "uart_app_safety_payload_is_valid payload n =
     (case payload of
        None \<Rightarrow> False
      | Some p \<Rightarrow>
          (if n \<noteq> 8 \<or> p ! 0 \<noteq> app_event_code APP_EVENT_SAFETY \<or>
              safety_cause_code SAFETY_CAUSE_FATAL_ERROR < p ! 2 then False
           else
             (let kind = p ! 1; result = p ! 7
              in if kind = safety_kind_code SAFETY_EVENT_ESTOP_LATCHED \<or>
                    kind = safety_kind_code SAFETY_EVENT_RESET_COMPLETE
                 then result = safety_reset_code SAFETY_RESET_OK
                 else if kind = safety_kind_code SAFETY_EVENT_RESET_REJECTED
                 then safety_reset_code SAFETY_RESET_INPUT_NOT_READY \<le> result \<and>
                      result \<le> safety_reset_code SAFETY_RESET_TIMEOUT
                 else False)))"

definition uart_app_health_payload_is_valid :: "u8 list ptr \<Rightarrow> u32 \<Rightarrow> bool" where
  "uart_app_health_payload_is_valid payload n =
     (case payload of
        None \<Rightarrow> False
      | Some p \<Rightarrow>
          (if n \<noteq> 8 \<or> p ! 0 \<noteq> app_event_code APP_EVENT_HEALTH then False
           else
             (let kind = p ! 1; cause = p ! 2; sensor_id = p ! 3
              in if kind < health_kind_code HEALTH_ISSUE_UART_CHANNEL_TIMEOUT \<or>
                    health_kind_code HEALTH_ISSUE_UART_RECOVERY < kind \<or>
                    (cause \<noteq> 0 \<and> cause \<noteq> 1 \<and> cause \<noteq> HEALTH_ISSUE_CAUSE_DEVICE_WIDE)
                 then False
                 else if kind = health_kind_code HEALTH_ISSUE_SENSOR_STALE
                 then cause \<noteq> HEALTH_ISSUE_CAUSE_DEVICE_WIDE \<and> 1 \<le> sensor_id \<and> sensor_id \<le> 3
                 else sensor_id = HEALTH_ISSUE_SENSOR_ID_NONE)))"

end
