(* ===== verification/Rtos_Queue.thy ===== *)
theory Rtos_Queue
  imports Prelude
begin

text \<open>
  The message queues of CMSIS-RTOS2 as the firmware uses them: the wrapper
  \<open>osMessageQueuePut\<close> / \<open>osMessageQueueGet\<close> of
  \<open>Middlewares/Third_Party/FreeRTOS/Source/CMSIS_RTOS_V2/cmsis_os2.c\<close> over a FreeRTOS queue,
  which is a bounded list. The firmware's puts never wait (timeout 0); a get that waits is
  modelled at the moment its wait ends.
\<close>

datatype osStatus_t =
    osOK | osError | osErrorTimeout | osErrorResource | osErrorParameter | osErrorNoMemory
  | osErrorISR

record 'a os_queue =
  queue_capacity :: nat
  queue_items :: "'a list" \<comment> \<open>oldest first\<close>

text \<open>\<open>heap_ok\<close>: the kernel's heap had room for the queue.\<close>

definition osMessageQueueNew :: "bool \<Rightarrow> nat \<Rightarrow> 'a os_queue ptr" where
  "osMessageQueueNew heap_ok depth =
     (if 0 < depth \<and> heap_ok then Some \<lparr>queue_capacity = depth, queue_items = []\<rparr> else None)"

text \<open>The priority argument is accepted and ignored, as in the wrapper.\<close>

definition osMessageQueuePut :: "'a os_queue ptr \<Rightarrow> 'a \<Rightarrow> u8 \<Rightarrow> osStatus_t \<times> 'a os_queue ptr" where
  "osMessageQueuePut mq_id msg msg_prio =
     (case mq_id of
        None \<Rightarrow> (osErrorParameter, None)
      | Some q \<Rightarrow>
          (if length (queue_items q) < queue_capacity q
           then (osOK, Some (q\<lparr>queue_items := queue_items q @ [msg]\<rparr>))
           else (osErrorResource, Some q)))"

definition osMessageQueueGet :: "'a os_queue ptr \<Rightarrow> u32 \<Rightarrow> osStatus_t \<times> 'a option \<times> 'a os_queue ptr" where
  "osMessageQueueGet mq_id timeout =
     (case mq_id of
        None \<Rightarrow> (osErrorParameter, None, None)
      | Some q \<Rightarrow>
          (case queue_items q of
             [] \<Rightarrow> ((if timeout \<noteq> 0 then osErrorTimeout else osErrorResource), None, Some q)
           | x # xs \<Rightarrow> (osOK, Some x, Some (q\<lparr>queue_items := xs\<rparr>))))"

section \<open>The contract of a message queue\<close>

text \<open>
  What the tasks rely on, whatever the queue is made of: a put appends or reports that
  nothing changed, a get takes the oldest message.
\<close>

locale message_queue =
  fixes put :: "'q \<Rightarrow> 'a \<Rightarrow> bool \<times> 'q"
    and get :: "'q \<Rightarrow> 'a option \<times> 'q"
    and contents :: "'q \<Rightarrow> 'a list"
    and room :: "'q \<Rightarrow> nat"
  assumes put_contents: "contents (snd (put q x)) = contents q @ (if fst (put q x) then [x] else [])"
    and put_room: "fst (put q x) \<longleftrightarrow> length (contents q) < room q"
    and room_put: "room (snd (put q x)) = room q"
    and room_get: "room (snd (get q)) = room q"
    and get_contents: "contents q = (case fst (get q) of None \<Rightarrow> [] | Some x \<Rightarrow> [x]) @ contents (snd (get q))"
    and get_None: "fst (get q) = None \<longleftrightarrow> contents q = []"
begin

primrec put_all :: "'q \<Rightarrow> 'a list \<Rightarrow> 'q" where
  "put_all q [] = q"
| "put_all q (x # xs) = put_all (snd (put q x)) xs"

primrec get_many :: "nat \<Rightarrow> 'q \<Rightarrow> 'a list \<times> 'q" where
  "get_many 0 q = ([], q)"
| "get_many (Suc n) q =
     (case fst (get q) of
        None \<Rightarrow> ([], snd (get q))
      | Some x \<Rightarrow> (x # fst (get_many n (snd (get q))), snd (get_many n (snd (get q)))))"

lemma put_all_contents:
  "length (contents q) + length xs \<le> room q \<Longrightarrow>
     contents (put_all q xs) = contents q @ xs \<and> room (put_all q xs) = room q"
proof (induction xs arbitrary: q)
  case (Cons x xs)
  then have "fst (put q x)" by (simp add: put_room)
  then show ?case
    using Cons put_contents [of q x] by (simp add: room_put)
qed simp

lemma get_many_contents:
  "fst (get_many n q) = take n (contents q) \<and> contents (snd (get_many n q)) = drop n (contents q)"
proof (induction n arbitrary: q)
  case (Suc n)
  show ?case
  proof (cases "fst (get q)")
    case None
    then have "contents q = []" by (simp add: get_None)
    then show ?thesis using None get_contents [of q] by simp
  next
    case (Some x)
    then show ?thesis using Suc get_contents [of q] by simp
  qed
qed simp

text \<open>Everything that fits comes out once, in the order it went in.\<close>

lemma in_order:
  assumes "contents q = []" "length xs \<le> room q"
  shows "fst (get_many (length xs) (put_all q xs)) = xs"
  using assms put_all_contents [of q xs] get_many_contents [of "length xs" "put_all q xs"] by simp

lemma bounded:
  assumes "length (contents q) \<le> room q"
  shows "length (contents (put_all q xs)) \<le> room q"
  using assms
proof (induction xs arbitrary: q)
  case (Cons x xs)
  then have "length (contents (snd (put q x))) \<le> room (snd (put q x))"
    using put_contents [of q x] put_room [of q x] by (simp add: room_put)
  then show ?case using Cons.IH [of "snd (put q x)"] by (simp add: room_put)
qed simp

end

definition os_put :: "u8 \<Rightarrow> 'a os_queue \<Rightarrow> 'a \<Rightarrow> bool \<times> 'a os_queue" where
  "os_put prio q x =
     (case osMessageQueuePut (Some q) x prio of (status, q') \<Rightarrow> (status = osOK, the q'))"

definition os_get :: "'a os_queue \<Rightarrow> 'a option \<times> 'a os_queue" where
  "os_get q = (case osMessageQueueGet (Some q) 0 of (status, x, q') \<Rightarrow> (x, the q'))"

interpretation os: message_queue "os_put prio" os_get queue_items queue_capacity
  by unfold_locales
    (auto simp: os_put_def os_get_def osMessageQueuePut_def osMessageQueueGet_def split: list.splits)

text \<open>
  Messages put into an RTOS queue within its depth come out oldest first whatever
  priorities they were put with: the urgent priority of the firmware does not overtake.
\<close>

theorem os_queue_is_fifo:
  assumes "0 < depth" "length msgs \<le> depth"
  shows "let q = foldl (\<lambda>q (x, prio). snd (osMessageQueuePut q x prio)) (osMessageQueueNew True depth) msgs
    in queue_items (the q) = map fst msgs \<and>
       (msgs \<noteq> [] \<longrightarrow> fst (osMessageQueueGet q t) = osOK \<and>
          fst (snd (osMessageQueueGet q t)) = Some (fst (hd msgs)))"
proof -
  have fold: "foldl (\<lambda>q (x, prio). snd (osMessageQueuePut q x prio)) (Some q) ms =
      Some (q\<lparr>queue_items := queue_items q @ map fst ms\<rparr>)"
    if "length (queue_items q) + length ms \<le> queue_capacity q" for q :: "'a os_queue" and ms
    using that by (induction ms arbitrary: q) (auto simp: osMessageQueuePut_def)
  show ?thesis
    using assms fold [of "\<lparr>queue_capacity = depth, queue_items = []\<rparr>" msgs]
    by (cases msgs) (simp_all add: osMessageQueueNew_def osMessageQueueGet_def Let_def)
qed

section \<open>Concrete instances\<close>

theorem os_queue_is_fifo_witness:
  "fst (snd (osMessageQueueGet (foldl (\<lambda>q (x, prio). snd (osMessageQueuePut q x prio))
     (osMessageQueueNew True 8) [(1 :: nat, 0), (2, 3)]) 0)) = Some 1"
  using os_queue_is_fifo [of 8 "[(1 :: nat, 0), (2, 3)]" 0] by (simp add: Let_def)

end
