(* ===== verification/Gripper_Commands.thy ===== *)
theory Gripper_Commands
  imports Device_Contract
begin

text \<open>
  The gripper's part of the UART contract,
  \<open>shared/include/logistics/contracts/uart/gripper_commands.h\<close>: command codes, payload
  layouts, field readers, the payload validators, and the requests they accept.
\<close>

section \<open>Commands and payload layouts\<close>

datatype uart_gripper_command_t =
    UART_CMD_GRIPPER_MOVE_ARM | UART_CMD_GRIPPER_SET_GRIPPER | UART_CMD_GRIPPER_HOME
  | UART_CMD_GRIPPER_STOP | UART_CMD_GRIPPER_GET_STATUS | UART_CMD_GRIPPER_RESET

primrec gripper_cmd_code :: "uart_gripper_command_t \<Rightarrow> 'a::len word" where
  "gripper_cmd_code UART_CMD_GRIPPER_MOVE_ARM = 0x20"
| "gripper_cmd_code UART_CMD_GRIPPER_SET_GRIPPER = 0x21"
| "gripper_cmd_code UART_CMD_GRIPPER_HOME = 0x22"
| "gripper_cmd_code UART_CMD_GRIPPER_STOP = 0x23"
| "gripper_cmd_code UART_CMD_GRIPPER_GET_STATUS = 0x24"
| "gripper_cmd_code UART_CMD_GRIPPER_RESET = 0x25"

abbreviation (input) UART_GRIPPER_MOTION_ID_NONE :: "'a::zero"
  where "UART_GRIPPER_MOTION_ID_NONE \<equiv> 0"
abbreviation (input) UART_GRIPPER_ERROR_NOT_HOMED :: "'a::numeral"
  where "UART_GRIPPER_ERROR_NOT_HOMED \<equiv> 0x20"
abbreviation (input) UART_GRIPPER_MOVE_ARM_PAYLOAD_SIZE :: "'a::numeral"
  where "UART_GRIPPER_MOVE_ARM_PAYLOAD_SIZE \<equiv> 10"
abbreviation (input) UART_GRIPPER_SET_POSITION_INDEX :: nat
  where "UART_GRIPPER_SET_POSITION_INDEX \<equiv> 2"
abbreviation (input) UART_GRIPPER_SET_GRIPPER_PAYLOAD_SIZE :: "'a::numeral"
  where "UART_GRIPPER_SET_GRIPPER_PAYLOAD_SIZE \<equiv> 5"
abbreviation (input) UART_GRIPPER_HOME_PAYLOAD_SIZE :: "'a::numeral"
  where "UART_GRIPPER_HOME_PAYLOAD_SIZE \<equiv> 2"

datatype uart_gripper_state_t =
    UART_GRIPPER_STATE_IDLE | UART_GRIPPER_STATE_MOVING_ARM | UART_GRIPPER_STATE_MOVING_GRIPPER
  | UART_GRIPPER_STATE_HOMING | UART_GRIPPER_STATE_STOPPED | UART_GRIPPER_STATE_FAULT
  | UART_GRIPPER_STATE_EMERGENCY_STOP

primrec gripper_state_code :: "uart_gripper_state_t \<Rightarrow> 'a::len word" where
  "gripper_state_code UART_GRIPPER_STATE_IDLE = 0"
| "gripper_state_code UART_GRIPPER_STATE_MOVING_ARM = 1"
| "gripper_state_code UART_GRIPPER_STATE_MOVING_GRIPPER = 2"
| "gripper_state_code UART_GRIPPER_STATE_HOMING = 3"
| "gripper_state_code UART_GRIPPER_STATE_STOPPED = 4"
| "gripper_state_code UART_GRIPPER_STATE_FAULT = 5"
| "gripper_state_code UART_GRIPPER_STATE_EMERGENCY_STOP = 6"

abbreviation (input) UART_GRIPPER_STATUS_DATA_SIZE :: "'a::numeral"
  where "UART_GRIPPER_STATUS_DATA_SIZE \<equiv> 11"
abbreviation (input) UART_GRIPPER_STATUS_PAYLOAD_SIZE :: "'a::numeral"
  where "UART_GRIPPER_STATUS_PAYLOAD_SIZE \<equiv> 14"

datatype uart_gripper_motion_type_t =
  UART_GRIPPER_MOTION_ARM | UART_GRIPPER_MOTION_GRIPPER | UART_GRIPPER_MOTION_HOME

primrec gripper_motion_code :: "uart_gripper_motion_type_t \<Rightarrow> 'a::len word" where
  "gripper_motion_code UART_GRIPPER_MOTION_ARM = 1"
| "gripper_motion_code UART_GRIPPER_MOTION_GRIPPER = 2"
| "gripper_motion_code UART_GRIPPER_MOTION_HOME = 3"

datatype uart_gripper_event_t = UART_GRIPPER_EVENT_MOTION_COMPLETE | UART_GRIPPER_EVENT_FAULT

primrec gripper_event_code :: "uart_gripper_event_t \<Rightarrow> 'a::len word" where
  "gripper_event_code UART_GRIPPER_EVENT_MOTION_COMPLETE = 1"
| "gripper_event_code UART_GRIPPER_EVENT_FAULT = 2"

abbreviation (input) UART_GRIPPER_MOTION_EVENT_PAYLOAD_SIZE :: "'a::numeral"
  where "UART_GRIPPER_MOTION_EVENT_PAYLOAD_SIZE \<equiv> 4"
abbreviation (input) UART_GRIPPER_FAULT_EVENT_PAYLOAD_SIZE :: "'a::numeral"
  where "UART_GRIPPER_FAULT_EVENT_PAYLOAD_SIZE \<equiv> 5"

section \<open>Field readers\<close>

definition uart_gripper_read_u16 :: "u8 list ptr \<Rightarrow> nat \<Rightarrow> nat \<Rightarrow> u16" where
  "uart_gripper_read_u16 payload low_index high_index =
     (case payload of None \<Rightarrow> 0 | Some p \<Rightarrow> u16_le (p ! low_index) (p ! high_index))"

definition uart_gripper_move_motion_id :: "u8 list ptr \<Rightarrow> u16" where
  "uart_gripper_move_motion_id payload = uart_gripper_read_u16 payload 0 1"

definition uart_gripper_move_base_angle :: "u8 list ptr \<Rightarrow> u16" where
  "uart_gripper_move_base_angle payload = uart_gripper_read_u16 payload 2 3"

definition uart_gripper_move_shoulder_angle :: "u8 list ptr \<Rightarrow> u16" where
  "uart_gripper_move_shoulder_angle payload = uart_gripper_read_u16 payload 4 5"

definition uart_gripper_move_elbow_angle :: "u8 list ptr \<Rightarrow> u16" where
  "uart_gripper_move_elbow_angle payload = uart_gripper_read_u16 payload 6 7"

definition uart_gripper_move_duration_ms :: "u8 list ptr \<Rightarrow> u16" where
  "uart_gripper_move_duration_ms payload = uart_gripper_read_u16 payload 8 9"

definition uart_gripper_set_motion_id :: "u8 list ptr \<Rightarrow> u16" where
  "uart_gripper_set_motion_id payload = uart_gripper_read_u16 payload 0 1"

definition uart_gripper_set_duration_ms :: "u8 list ptr \<Rightarrow> u16" where
  "uart_gripper_set_duration_ms payload = uart_gripper_read_u16 payload 3 4"

definition uart_gripper_home_motion_id :: "u8 list ptr \<Rightarrow> u16" where
  "uart_gripper_home_motion_id payload = uart_gripper_read_u16 payload 0 1"

section \<open>Validators\<close>

definition uart_gripper_command_is_valid :: "u32 \<Rightarrow> bool" where
  "uart_gripper_command_is_valid command \<longleftrightarrow> command \<in>
     {gripper_cmd_code UART_CMD_GRIPPER_MOVE_ARM, gripper_cmd_code UART_CMD_GRIPPER_SET_GRIPPER,
      gripper_cmd_code UART_CMD_GRIPPER_HOME, gripper_cmd_code UART_CMD_GRIPPER_STOP,
      gripper_cmd_code UART_CMD_GRIPPER_GET_STATUS, gripper_cmd_code UART_CMD_GRIPPER_RESET}"

definition uart_gripper_motion_id_is_valid :: "u32 \<Rightarrow> bool" where
  "uart_gripper_motion_id_is_valid motion_id \<longleftrightarrow> 0x0001 \<le> motion_id \<and> motion_id \<le> 0xFFFF"

definition uart_gripper_angle_is_valid :: "u32 \<Rightarrow> bool" where
  "uart_gripper_angle_is_valid angle_deci_deg \<longleftrightarrow> angle_deci_deg \<le> 1800"

definition uart_gripper_duration_is_valid :: "u32 \<Rightarrow> bool" where
  "uart_gripper_duration_is_valid duration_ms \<longleftrightarrow> 100 \<le> duration_ms \<and> duration_ms \<le> 10000"

definition uart_gripper_position_is_valid :: "u32 \<Rightarrow> bool" where
  "uart_gripper_position_is_valid position_percent \<longleftrightarrow> position_percent \<le> 100"

definition uart_gripper_state_is_valid :: "u32 \<Rightarrow> bool" where
  "uart_gripper_state_is_valid state \<longleftrightarrow>
     state \<le> gripper_state_code UART_GRIPPER_STATE_EMERGENCY_STOP"

definition uart_gripper_motion_type_is_valid :: "u32 \<Rightarrow> bool" where
  "uart_gripper_motion_type_is_valid motion_type \<longleftrightarrow>
     gripper_motion_code UART_GRIPPER_MOTION_ARM \<le> motion_type \<and>
     motion_type \<le> gripper_motion_code UART_GRIPPER_MOTION_HOME"

definition uart_gripper_fault_error_is_valid :: "u32 \<Rightarrow> bool" where
  "uart_gripper_fault_error_is_valid e \<longleftrightarrow> e \<in>
     {error_code UART_ERROR_TIMEOUT, error_code UART_ERROR_SERVO,
      error_code UART_ERROR_EMERGENCY_STOP, error_code UART_ERROR_INTERNAL}"

definition uart_gripper_payload_is_valid :: "u32 \<Rightarrow> u8 list ptr \<Rightarrow> u32 \<Rightarrow> bool" where
  "uart_gripper_payload_is_valid command payload n =
     (if \<not> uart_gripper_command_is_valid command \<or> UART_MAX_PAYLOAD_SIZE < n then False
      else if command = gripper_cmd_code UART_CMD_GRIPPER_STOP then n = 0
      else if command = gripper_cmd_code UART_CMD_GRIPPER_GET_STATUS then n = 0
      else if command = gripper_cmd_code UART_CMD_GRIPPER_RESET then n = 0
      else if command = gripper_cmd_code UART_CMD_GRIPPER_HOME then
        (if n \<noteq> UART_GRIPPER_HOME_PAYLOAD_SIZE \<or> payload = NULL then False
         else uart_gripper_motion_id_is_valid (to_u32 (uart_gripper_home_motion_id payload)))
      else if command = gripper_cmd_code UART_CMD_GRIPPER_MOVE_ARM then
        (if n \<noteq> UART_GRIPPER_MOVE_ARM_PAYLOAD_SIZE \<or> payload = NULL then False
         else uart_gripper_motion_id_is_valid (to_u32 (uart_gripper_move_motion_id payload)) \<and>
              uart_gripper_angle_is_valid (to_u32 (uart_gripper_move_base_angle payload)) \<and>
              uart_gripper_angle_is_valid (to_u32 (uart_gripper_move_shoulder_angle payload)) \<and>
              uart_gripper_angle_is_valid (to_u32 (uart_gripper_move_elbow_angle payload)) \<and>
              uart_gripper_duration_is_valid (to_u32 (uart_gripper_move_duration_ms payload)))
      else if command = gripper_cmd_code UART_CMD_GRIPPER_SET_GRIPPER then
        (case payload of
           None \<Rightarrow> False
         | Some p \<Rightarrow>
             (if n \<noteq> UART_GRIPPER_SET_GRIPPER_PAYLOAD_SIZE then False
              else uart_gripper_motion_id_is_valid (to_u32 (uart_gripper_set_motion_id payload)) \<and>
                   uart_gripper_position_is_valid (to_u32 (p ! UART_GRIPPER_SET_POSITION_INDEX)) \<and>
                   uart_gripper_duration_is_valid (to_u32 (uart_gripper_set_duration_ms payload))))
      else False)"

definition uart_gripper_event_payload_is_valid :: "u8 list ptr \<Rightarrow> u32 \<Rightarrow> bool" where
  "uart_gripper_event_payload_is_valid payload n =
     (case payload of
        None \<Rightarrow> False
      | Some p \<Rightarrow>
          (if n < UART_EVENT_HEADER_SIZE \<or> UART_MAX_PAYLOAD_SIZE < n then False
           else
             (let shape_ok =
                (if p ! 0 = gripper_event_code UART_GRIPPER_EVENT_MOTION_COMPLETE
                 then n = UART_GRIPPER_MOTION_EVENT_PAYLOAD_SIZE
                 else if p ! 0 = gripper_event_code UART_GRIPPER_EVENT_FAULT
                 then n = UART_GRIPPER_FAULT_EVENT_PAYLOAD_SIZE \<and>
                      uart_gripper_fault_error_is_valid (to_u32 (p ! 4))
                 else False)
              in if \<not> shape_ok then False
                 else uart_gripper_motion_id_is_valid (to_u32 (uart_gripper_read_u16 payload 1 2)) \<and>
                      uart_gripper_motion_type_is_valid (to_u32 (p ! 3)))))"

section \<open>The contract holds\<close>

lemma gripper_payload_local:
  assumes "unat n \<le> length p"
  shows "uart_gripper_payload_is_valid c (Some p) n =
    uart_gripper_payload_is_valid c (Some (take (unat n) p)) n"
  by (auto simp: uart_gripper_payload_is_valid_def uart_gripper_home_motion_id_def
      uart_gripper_move_motion_id_def uart_gripper_move_base_angle_def
      uart_gripper_move_shoulder_angle_def uart_gripper_move_elbow_angle_def
      uart_gripper_move_duration_ms_def uart_gripper_set_motion_id_def
      uart_gripper_set_duration_ms_def uart_gripper_read_u16_def)

interpretation gripper_wire: device_contract uart_gripper_command_is_valid uart_gripper_payload_is_valid
proof
  show "uart_is_device_command c" if "uart_gripper_command_is_valid c" for c
    using that by (auto simp: uart_gripper_command_is_valid_def uart_is_device_command_def
        word_le_nat_alt)
  show "uart_gripper_command_is_valid c" "n \<le> 128" if "uart_gripper_payload_is_valid c p n" for c p n
    using that by (auto simp: uart_gripper_payload_is_valid_def not_less split: if_splits)
qed (rule gripper_payload_local)

section \<open>The requests of the contract\<close>

text \<open>
  The commands a client can ask for, with their parameters; what the validator accepts is
  exactly the wire form of these with every parameter in its range.
\<close>

datatype gripper_request =
    Move_Arm (request_id: u16) (move_base: u16) (move_shoulder: u16) (move_elbow: u16)
      (request_duration: u16)
  | Set_Gripper (request_id: u16) (set_position: u8) (request_duration: u16)
  | Home (request_id: u16)
  | Stop
  | Get_Status
  | Reset

primrec gripper_request_code :: "gripper_request \<Rightarrow> u32" where
  "gripper_request_code (Move_Arm i b s e d) = gripper_cmd_code UART_CMD_GRIPPER_MOVE_ARM"
| "gripper_request_code (Set_Gripper i p d) = gripper_cmd_code UART_CMD_GRIPPER_SET_GRIPPER"
| "gripper_request_code (Home i) = gripper_cmd_code UART_CMD_GRIPPER_HOME"
| "gripper_request_code Stop = gripper_cmd_code UART_CMD_GRIPPER_STOP"
| "gripper_request_code Get_Status = gripper_cmd_code UART_CMD_GRIPPER_GET_STATUS"
| "gripper_request_code Reset = gripper_cmd_code UART_CMD_GRIPPER_RESET"

primrec gripper_request_bytes :: "gripper_request \<Rightarrow> u8 list" where
  "gripper_request_bytes (Move_Arm i b s e d) =
     u16_bytes i @ u16_bytes b @ u16_bytes s @ u16_bytes e @ u16_bytes d"
| "gripper_request_bytes (Set_Gripper i p d) = u16_bytes i @ p # u16_bytes d"
| "gripper_request_bytes (Home i) = u16_bytes i"
| "gripper_request_bytes Stop = []"
| "gripper_request_bytes Get_Status = []"
| "gripper_request_bytes Reset = []"

definition duration_in_range :: "u16 \<Rightarrow> bool" where
  "duration_in_range d \<longleftrightarrow> 100 \<le> unat d \<and> unat d \<le> 10000"

primrec gripper_request_ok :: "gripper_request \<Rightarrow> bool" where
  "gripper_request_ok (Move_Arm i b s e d) \<longleftrightarrow>
     i \<noteq> 0 \<and> unat b \<le> 1800 \<and> unat s \<le> 1800 \<and> unat e \<le> 1800 \<and> duration_in_range d"
| "gripper_request_ok (Set_Gripper i p d) \<longleftrightarrow> i \<noteq> 0 \<and> unat p \<le> 100 \<and> duration_in_range d"
| "gripper_request_ok (Home i) \<longleftrightarrow> i \<noteq> 0"
| "gripper_request_ok Stop \<longleftrightarrow> True"
| "gripper_request_ok Get_Status \<longleftrightarrow> True"
| "gripper_request_ok Reset \<longleftrightarrow> True"

lemma motion_id_valid_u16: "uart_gripper_motion_id_is_valid (to_u32 (i :: u16)) \<longleftrightarrow> i \<noteq> 0"
proof -
  have "unat i \<le> 65535" using unat_u16_less [of i] by linarith
  then show ?thesis
    by (auto simp: uart_gripper_motion_id_is_valid_def word_le_nat_alt unat_gt_0 Suc_le_eq)
qed

lemma gripper_ranges:
  "uart_gripper_angle_is_valid (to_u32 (a :: u16)) \<longleftrightarrow> unat a \<le> 1800"
  "uart_gripper_duration_is_valid (to_u32 (a :: u16)) \<longleftrightarrow> duration_in_range a"
  "uart_gripper_position_is_valid (to_u32 (p :: u8)) \<longleftrightarrow> unat p \<le> 100"
  by (simp_all add: uart_gripper_angle_is_valid_def uart_gripper_duration_is_valid_def
      uart_gripper_position_is_valid_def duration_in_range_def word_le_nat_alt)

lemmas gripper_readers = uart_gripper_home_motion_id_def uart_gripper_move_motion_id_def
  uart_gripper_move_base_angle_def uart_gripper_move_shoulder_angle_def
  uart_gripper_move_elbow_angle_def uart_gripper_move_duration_ms_def
  uart_gripper_set_motion_id_def uart_gripper_set_duration_ms_def uart_gripper_read_u16_def

lemma gripper_request_accepted:
  assumes "gripper_request_ok r" "length (gripper_request_bytes r) = unat n"
  shows "uart_gripper_payload_is_valid (gripper_request_code r) (Some (gripper_request_bytes r)) n"
proof -
  have n: "n = of_nat (length (gripper_request_bytes r))"
    using assms(2) by simp
  show ?thesis
    using assms(1) unfolding n
    by (cases r) (simp_all add: uart_gripper_payload_is_valid_def uart_gripper_command_is_valid_def
        gripper_readers u16_bytes_def motion_id_valid_u16 gripper_ranges)
qed


lemma gripper_valid_cases:
  assumes "uart_gripper_payload_is_valid c (Some p) n" "unat n \<le> length p"
  shows "\<exists>r. gripper_request_ok r \<and> c = gripper_request_code r \<and>
    take (unat n) p = gripper_request_bytes r"
proof -
  have valid: "uart_gripper_payload_is_valid c (Some (take (unat n) p)) n"
    using assms gripper_payload_local by blast
  let ?q = "take (unat n) p"
  have len: "length ?q = unat n" using assms(2) by simp
  have "uart_gripper_command_is_valid c"
    using valid gripper_wire.payload_command by blast
  then consider "c = gripper_cmd_code UART_CMD_GRIPPER_MOVE_ARM"
    | "c = gripper_cmd_code UART_CMD_GRIPPER_SET_GRIPPER"
    | "c = gripper_cmd_code UART_CMD_GRIPPER_HOME"
    | "c = gripper_cmd_code UART_CMD_GRIPPER_STOP"
    | "c = gripper_cmd_code UART_CMD_GRIPPER_GET_STATUS"
    | "c = gripper_cmd_code UART_CMD_GRIPPER_RESET"
    by (auto simp: uart_gripper_command_is_valid_def)
  then show ?thesis
  proof cases
    case 1
    then have "n = 10" using valid by (simp add: uart_gripper_payload_is_valid_def split: if_splits)
    then obtain a b d e f g h i j k where q: "?q = [a, b, d, e, f, g, h, i, j, k]"
      using list_of_length_10 [of ?q] len by auto
    show ?thesis
      by (rule exI [of _ "Move_Arm (u16_le a b) (u16_le d e) (u16_le f g) (u16_le h i) (u16_le j k)"])
        (use valid 1 in \<open>simp add: q uart_gripper_payload_is_valid_def gripper_readers u16_bytes_def
           motion_id_valid_u16 gripper_ranges split: if_splits\<close>)
  next
    case 2
    then have "n = 5" using valid by (simp add: uart_gripper_payload_is_valid_def split: if_splits)
    then obtain a b d e f where q: "?q = [a, b, d, e, f]"
      using list_of_length_5 [of ?q] len by auto
    show ?thesis
      by (rule exI [of _ "Set_Gripper (u16_le a b) d (u16_le e f)"])
        (use valid 2 in \<open>simp add: q uart_gripper_payload_is_valid_def gripper_readers u16_bytes_def
           motion_id_valid_u16 gripper_ranges split: if_splits\<close>)
  next
    case 3
    then have "n = 2" using valid by (simp add: uart_gripper_payload_is_valid_def split: if_splits)
    then obtain a b where q: "?q = [a, b]"
      using list_of_length_2 [of ?q] len by auto
    show ?thesis
      by (rule exI [of _ "Home (u16_le a b)"])
        (use valid 3 in \<open>simp add: q uart_gripper_payload_is_valid_def gripper_readers u16_bytes_def
           motion_id_valid_u16 split: if_splits\<close>)
  next
    case 4
    then have "n = 0" using valid by (simp add: uart_gripper_payload_is_valid_def split: if_splits)
    then show ?thesis using 4 by (intro exI [of _ Stop]) simp
  next
    case 5
    then have "n = 0" using valid by (simp add: uart_gripper_payload_is_valid_def split: if_splits)
    then show ?thesis using 5 by (intro exI [of _ Get_Status]) simp
  next
    case 6
    then have "n = 0" using valid by (simp add: uart_gripper_payload_is_valid_def split: if_splits)
    then show ?thesis using 6 by (intro exI [of _ Reset]) simp
  qed
qed

lemma gripper_payload_valid:
  assumes "unat n \<le> length p"
  shows "uart_gripper_payload_is_valid c (Some p) n \<longleftrightarrow>
    (\<exists>r. gripper_request_ok r \<and> c = gripper_request_code r \<and>
         take (unat n) p = gripper_request_bytes r)"
proof
  assume "uart_gripper_payload_is_valid c (Some p) n"
  then show "\<exists>r. gripper_request_ok r \<and> c = gripper_request_code r \<and>
      take (unat n) p = gripper_request_bytes r"
    using gripper_valid_cases assms by blast
next
  assume "\<exists>r. gripper_request_ok r \<and> c = gripper_request_code r \<and>
      take (unat n) p = gripper_request_bytes r"
  then obtain r where r: "gripper_request_ok r" "c = gripper_request_code r"
    "take (unat n) p = gripper_request_bytes r"
    by blast
  then have "length (gripper_request_bytes r) = unat n"
    using assms by (metis length_take min_absorb2)
  then show "uart_gripper_payload_is_valid c (Some p) n"
    using gripper_request_accepted [OF r(1)] gripper_payload_local [OF assms] r by simp
qed

text \<open>
  The gripper's payload validator accepts exactly the wire images of the requests of the
  contract (move, set gripper, home, stop, status, reset) within their field ranges.
\<close>

theorem gripper_payload_valid_iff:
  assumes "unat n \<le> length p"
  shows "uart_gripper_payload_is_valid c (Some p) n \<longleftrightarrow>
    (\<exists>r. gripper_request_ok r \<and> c = gripper_request_code r \<and>
         take (unat n) p = gripper_request_bytes r)"
  by (rule gripper_payload_valid [OF assms])

section \<open>Concrete instances\<close>

theorem gripper_payload_valid_iff_witness:
  "uart_gripper_payload_is_valid 0x22 (Some [5, 0]) 2"
proof -
  have request: "\<exists>r. gripper_request_ok r \<and> 0x22 = gripper_request_code r \<and>
      take (unat (2 :: u32)) [5, 0] = gripper_request_bytes r"
    by (rule exI [of _ "Home 5"]) (simp add: u16_bytes_def lo8_def hi8_def)
  have "unat (2 :: u32) \<le> length [5 :: u8, 0]" by simp
  from iffD2 [OF gripper_payload_valid_iff [OF this] request] show ?thesis .
qed

end
