(* ===== verification/Gripper_Servo.thy ===== *)
theory Gripper_Servo
  imports Gripper_Commands
begin

text \<open>
  The servo port of the gripper (\<open>gripper_servo.h\<close>), its MG90S implementation on timer 3
  (\<open>gripper_servo.c\<close>) and the calibration constants (\<open>gripper_calibration.h\<close>), all of
  \<open>stm32/gripper-controller/Application\<close>. The HAL's answer to \<open>HAL_TIM_PWM_Start\<close> is a
  parameter of the model.
\<close>

section \<open>Calibration\<close>

abbreviation (input) GRIPPER_BASE_MIN_ANGLE_DECI_DEG :: "'a::numeral"
  where "GRIPPER_BASE_MIN_ANGLE_DECI_DEG \<equiv> 100"
abbreviation (input) GRIPPER_BASE_MAX_ANGLE_DECI_DEG :: "'a::numeral"
  where "GRIPPER_BASE_MAX_ANGLE_DECI_DEG \<equiv> 1800"
abbreviation (input) GRIPPER_BASE_HOME_ANGLE_DECI_DEG :: "'a::numeral"
  where "GRIPPER_BASE_HOME_ANGLE_DECI_DEG \<equiv> 1000"
abbreviation (input) GRIPPER_SHOULDER_MIN_ANGLE_DECI_DEG :: "'a::numeral"
  where "GRIPPER_SHOULDER_MIN_ANGLE_DECI_DEG \<equiv> 300"
abbreviation (input) GRIPPER_SHOULDER_MAX_ANGLE_DECI_DEG :: "'a::numeral"
  where "GRIPPER_SHOULDER_MAX_ANGLE_DECI_DEG \<equiv> 1500"
abbreviation (input) GRIPPER_SHOULDER_HOME_ANGLE_DECI_DEG :: "'a::numeral"
  where "GRIPPER_SHOULDER_HOME_ANGLE_DECI_DEG \<equiv> 700"
abbreviation (input) GRIPPER_ELBOW_MIN_ANGLE_DECI_DEG :: "'a::numeral"
  where "GRIPPER_ELBOW_MIN_ANGLE_DECI_DEG \<equiv> 300"
abbreviation (input) GRIPPER_ELBOW_MAX_ANGLE_DECI_DEG :: "'a::numeral"
  where "GRIPPER_ELBOW_MAX_ANGLE_DECI_DEG \<equiv> 1800"
abbreviation (input) GRIPPER_ELBOW_HOME_ANGLE_DECI_DEG :: "'a::numeral"
  where "GRIPPER_ELBOW_HOME_ANGLE_DECI_DEG \<equiv> 1200"
abbreviation (input) GRIPPER_BASE_MAX_SPEED_DECI_DEG_PER_SEC :: "'a::numeral"
  where "GRIPPER_BASE_MAX_SPEED_DECI_DEG_PER_SEC \<equiv> 300"
abbreviation (input) GRIPPER_SHOULDER_MAX_SPEED_DECI_DEG_PER_SEC :: "'a::numeral"
  where "GRIPPER_SHOULDER_MAX_SPEED_DECI_DEG_PER_SEC \<equiv> 120"
abbreviation (input) GRIPPER_ELBOW_MAX_SPEED_DECI_DEG_PER_SEC :: "'a::numeral"
  where "GRIPPER_ELBOW_MAX_SPEED_DECI_DEG_PER_SEC \<equiv> 200"
abbreviation (input) GRIPPER_CLAW_MAX_SPEED_PERCENT_PER_SEC :: "'a::numeral"
  where "GRIPPER_CLAW_MAX_SPEED_PERCENT_PER_SEC \<equiv> 40"
abbreviation (input) GRIPPER_SERVO_MIN_PULSE_US :: "'a::numeral"
  where "GRIPPER_SERVO_MIN_PULSE_US \<equiv> 600" \<comment> \<open>base, shoulder and elbow; also the closed claw\<close>
abbreviation (input) GRIPPER_SERVO_MAX_PULSE_US :: "'a::numeral"
  where "GRIPPER_SERVO_MAX_PULSE_US \<equiv> 2400" \<comment> \<open>base, shoulder and elbow; also the open claw\<close>
abbreviation (input) GRIPPER_MIN_POSITION_PERCENT :: "'a::numeral"
  where "GRIPPER_MIN_POSITION_PERCENT \<equiv> 50"
abbreviation (input) GRIPPER_MAX_POSITION_PERCENT :: "'a::numeral"
  where "GRIPPER_MAX_POSITION_PERCENT \<equiv> 65"
abbreviation (input) GRIPPER_INITIAL_POSITION_PERCENT :: "'a::numeral"
  where "GRIPPER_INITIAL_POSITION_PERCENT \<equiv> 65"
abbreviation (input) GRIPPER_HOME_POSITION_PERCENT :: "'a::numeral"
  where "GRIPPER_HOME_POSITION_PERCENT \<equiv> 65"
abbreviation (input) GRIPPER_CONTROL_UPDATE_PERIOD_MS :: "'a::numeral"
  where "GRIPPER_CONTROL_UPDATE_PERIOD_MS \<equiv> 20"
abbreviation (input) GRIPPER_HOME_DURATION_MS :: "'a::numeral"
  where "GRIPPER_HOME_DURATION_MS \<equiv> 2000"

section \<open>The port\<close>

text \<open>
  A table of functions on what \<open>context\<close> points to, together with the hardware behind it;
  a function pointer may be \<open>NULL\<close>. Each returns zero or a negative error.
\<close>

record 'hw gripper_servo_port_t =
  port_enable :: "('hw \<Rightarrow> int \<times> 'hw) ptr"
  port_write_arm :: "('hw \<Rightarrow> u16 \<Rightarrow> u16 \<Rightarrow> u16 \<Rightarrow> int \<times> 'hw) ptr"
  port_write_gripper :: "('hw \<Rightarrow> u8 \<Rightarrow> int \<times> 'hw) ptr"

section \<open>MG90S servos on timer 3\<close>

datatype tim_channel = TIM_CHANNEL_1 | TIM_CHANNEL_2 | TIM_CHANNEL_3 | TIM_CHANNEL_4

record servo_hw =
  servo_enabled :: bool \<comment> \<open>\<open>gripper_servo_mg90s_t.enabled\<close>\<close>
  tim3_compare :: "tim_channel \<Rightarrow> u32" \<comment> \<open>the compare registers, pulse width in microseconds\<close>
  tim3_running :: "tim_channel \<Rightarrow> bool"

definition set_compare :: "tim_channel \<Rightarrow> u32 \<Rightarrow> servo_hw \<Rightarrow> servo_hw" where
  "set_compare ch pulse hw = hw\<lparr>tim3_compare := (tim3_compare hw)(ch := pulse)\<rparr>"

definition gripper_servo_angle_to_pulse :: "u16 \<Rightarrow> u32 \<Rightarrow> u32 \<Rightarrow> u32" where
  "gripper_servo_angle_to_pulse angle_deci_deg minimum_pulse_us maximum_pulse_us =
     (let pulse_range = maximum_pulse_us - minimum_pulse_us
      in minimum_pulse_us + (to_u32 angle_deci_deg * pulse_range) div 1800)"

definition gripper_servo_position_to_pulse :: "u8 \<Rightarrow> u32" where
  "gripper_servo_position_to_pulse position_percent =
     (let pulse_range = GRIPPER_SERVO_MAX_PULSE_US - GRIPPER_SERVO_MIN_PULSE_US
      in GRIPPER_SERVO_MIN_PULSE_US + (to_u32 position_percent * pulse_range) div 100)"

definition pwm_start :: "(tim_channel \<Rightarrow> bool) \<Rightarrow> tim_channel \<Rightarrow> servo_hw \<Rightarrow> bool \<times> servo_hw" where
  "pwm_start hal_ok ch hw =
     (if hal_ok ch then (True, hw\<lparr>tim3_running := (tim3_running hw)(ch := True)\<rparr>) else (False, hw))"

definition pwm_stop :: "tim_channel \<Rightarrow> servo_hw \<Rightarrow> servo_hw" where
  "pwm_stop ch hw = hw\<lparr>tim3_running := (tim3_running hw)(ch := False)\<rparr>"

definition gripper_servo_enable ::
  "(tim_channel \<Rightarrow> bool) \<Rightarrow> servo_hw ptr \<Rightarrow> int \<times> servo_hw ptr" where
  "gripper_servo_enable hal_ok context =
     (case context of
        None \<Rightarrow> (-1, None)
      | Some hw \<Rightarrow>
          (if servo_enabled hw then (0, Some hw)
           else
             (let arm = (\<lambda>angle. gripper_servo_angle_to_pulse angle GRIPPER_SERVO_MIN_PULSE_US
                         GRIPPER_SERVO_MAX_PULSE_US);
                  hw = set_compare TIM_CHANNEL_1 (arm GRIPPER_BASE_HOME_ANGLE_DECI_DEG) hw;
                  hw = set_compare TIM_CHANNEL_2 (arm GRIPPER_SHOULDER_HOME_ANGLE_DECI_DEG) hw;
                  hw = set_compare TIM_CHANNEL_3 (arm GRIPPER_ELBOW_HOME_ANGLE_DECI_DEG) hw;
                  hw = set_compare TIM_CHANNEL_4
                         (gripper_servo_position_to_pulse GRIPPER_INITIAL_POSITION_PERCENT) hw;
                  (ok, hw) = pwm_start hal_ok TIM_CHANNEL_1 hw
              in if \<not> ok then (-2, Some hw)
                 else
                   (let (ok, hw) = pwm_start hal_ok TIM_CHANNEL_2 hw
                    in if \<not> ok then (-2, Some (pwm_stop TIM_CHANNEL_1 hw))
                       else
                         (let (ok, hw) = pwm_start hal_ok TIM_CHANNEL_3 hw
                          in if \<not> ok
                             then (-2, Some (pwm_stop TIM_CHANNEL_1 (pwm_stop TIM_CHANNEL_2 hw)))
                             else
                               (let (ok, hw) = pwm_start hal_ok TIM_CHANNEL_4 hw
                                in if \<not> ok
                                   then (-2, Some (pwm_stop TIM_CHANNEL_1 (pwm_stop TIM_CHANNEL_2
                                               (pwm_stop TIM_CHANNEL_3 hw))))
                                   else (0, Some (hw\<lparr>servo_enabled := True\<rparr>))))))))"

definition gripper_servo_write_arm :: "servo_hw ptr \<Rightarrow> u16 \<Rightarrow> u16 \<Rightarrow> u16 \<Rightarrow> int \<times> servo_hw ptr" where
  "gripper_servo_write_arm context base_angle shoulder_angle elbow_angle =
     (case context of
        None \<Rightarrow> (-1, None)
      | Some hw \<Rightarrow>
          (if \<not> servo_enabled hw then (-1, Some hw)
           else
             (let arm = (\<lambda>angle. gripper_servo_angle_to_pulse angle GRIPPER_SERVO_MIN_PULSE_US
                         GRIPPER_SERVO_MAX_PULSE_US)
              in (0, Some (set_compare TIM_CHANNEL_3 (arm elbow_angle)
                    (set_compare TIM_CHANNEL_2 (arm shoulder_angle)
                      (set_compare TIM_CHANNEL_1 (arm base_angle) hw)))))))"

definition gripper_servo_write_gripper :: "servo_hw ptr \<Rightarrow> u8 \<Rightarrow> int \<times> servo_hw ptr" where
  "gripper_servo_write_gripper context position_percent =
     (case context of
        None \<Rightarrow> (-1, None)
      | Some hw \<Rightarrow>
          (if \<not> servo_enabled hw then (-1, Some hw)
           else (0, Some (set_compare TIM_CHANNEL_4 (gripper_servo_position_to_pulse position_percent) hw))))"

definition gripper_servo_mg90s_port :: "(tim_channel \<Rightarrow> bool) \<Rightarrow> servo_hw ptr gripper_servo_port_t" where
  "gripper_servo_mg90s_port hal_ok =
     \<lparr>port_enable = Some (gripper_servo_enable hal_ok),
      port_write_arm = Some gripper_servo_write_arm,
      port_write_gripper = Some gripper_servo_write_gripper\<rparr>"

section \<open>Pulse widths\<close>

lemma angle_to_pulse_nat:
  assumes "unat a \<le> 1800"
  shows "unat (gripper_servo_angle_to_pulse a 600 2400) = 600 + unat a"
proof -
  have "unat (to_u32 a * 1800) = unat a * 1800"
    using assms by (simp add: unat_word_ariths)
  then have "unat (to_u32 a * 1800 div 1800) = unat a"
    by (simp add: unat_div)
  then show ?thesis
    using assms by (simp add: gripper_servo_angle_to_pulse_def unat_word_ariths)
qed

lemma position_to_pulse_nat:
  assumes "unat p \<le> 100"
  shows "unat (gripper_servo_position_to_pulse p) = 600 + unat p * 18"
proof -
  have "unat (to_u32 p * 1800) = unat p * 1800"
    using assms by (simp add: unat_word_ariths)
  then have "unat (to_u32 p * 1800 div 100) = unat p * 18"
    by (simp add: unat_div)
  then show ?thesis
    using assms by (simp add: gripper_servo_position_to_pulse_def unat_word_ariths)
qed

text \<open>What the joints can take, in microseconds: the calibrated limits of each channel.\<close>

definition joint_range :: "tim_channel \<Rightarrow> nat \<times> nat" where
  "joint_range ch = (case ch of
     TIM_CHANNEL_1 \<Rightarrow> (700, 2400) | TIM_CHANNEL_2 \<Rightarrow> (900, 2100)
   | TIM_CHANNEL_3 \<Rightarrow> (900, 2400) | TIM_CHANNEL_4 \<Rightarrow> (1500, 1770))"

definition pulses_safe :: "servo_hw ptr \<Rightarrow> bool" where
  "pulses_safe hw = (case hw of None \<Rightarrow> True | Some h \<Rightarrow>
     (\<exists>ch. tim3_running h ch) \<or> servo_enabled h \<longrightarrow>
       (\<forall>ch. fst (joint_range ch) \<le> unat (tim3_compare h ch) \<and>
             unat (tim3_compare h ch) \<le> snd (joint_range ch)))"

end
