(* ===== verification/Gripper_Control.thy ===== *)
theory Gripper_Control
  imports Gripper_Servo
begin

text \<open>
  The motion controller of the gripper, \<open>Application/Src/gripper_control.c\<close>: commands start
  motions, \<open>gripper_control_tick\<close> interpolates towards the target and writes the servos, a
  safety stop latches. 32-bit signed arithmetic of the interpolation is on \<open>int\<close>; the bounds
  lemmas show that it stays in \<open>int32_t\<close>.
\<close>

section \<open>State\<close>

datatype gripper_control_result_t =
    GRIPPER_CONTROL_OK | GRIPPER_CONTROL_INVALID_ARGUMENT | GRIPPER_CONTROL_INVALID_PAYLOAD
  | GRIPPER_CONTROL_BUSY | GRIPPER_CONTROL_NOT_HOMED | GRIPPER_CONTROL_SAFETY_STOP
  | GRIPPER_CONTROL_SERVO_ERROR

record gripper_control_completion_t =
  completion_valid :: bool
  completion_fault :: bool
  completion_motion_id :: u16
  completion_motion_type :: uart_gripper_motion_type_t
  completion_error :: uart_error_t

record gripper_control_snapshot_t =
  snap_state :: uart_gripper_state_t
  snap_active_motion_id :: u16
  snap_base_angle :: u16
  snap_shoulder_angle :: u16
  snap_elbow_angle :: u16
  snap_gripper_position :: u8
  snap_homed :: bool
  snap_safety_latched :: bool

record 'hw gripper_control_t =
  ctl_servo :: "'hw gripper_servo_port_t"
  ctl_state :: uart_gripper_state_t
  ctl_motion_type :: uart_gripper_motion_type_t
  active_motion_id :: u16
  base_angle :: u16
  shoulder_angle :: u16
  elbow_angle :: u16
  gripper_position :: u8
  start_base_angle :: u16
  start_shoulder_angle :: u16
  start_elbow_angle :: u16
  start_gripper_position :: u8
  target_base_angle :: u16
  target_shoulder_angle :: u16
  target_elbow_angle :: u16
  target_gripper_position :: u8
  motion_start_tick :: u32
  motion_duration_ms :: u32
  outputs_enabled :: bool
  homed :: bool
  safety_latched :: bool
  ctl_completion :: gripper_control_completion_t

text \<open>
  The static controller before initialisation, all bits zero. The motion type has no zero
  enumerator; nothing reads it before a command sets it.
\<close>

definition zero_completion :: gripper_control_completion_t where
  "zero_completion = \<lparr>completion_valid = False, completion_fault = False,
     completion_motion_id = 0, completion_motion_type = UART_GRIPPER_MOTION_ARM,
     completion_error = UART_ERROR_NONE\<rparr>"

definition zero_controller :: "'hw gripper_control_t" where
  "zero_controller = \<lparr>
     ctl_servo = \<lparr>port_enable = NULL, port_write_arm = NULL, port_write_gripper = NULL\<rparr>,
     ctl_state = UART_GRIPPER_STATE_IDLE, ctl_motion_type = UART_GRIPPER_MOTION_ARM,
     active_motion_id = 0, base_angle = 0, shoulder_angle = 0, elbow_angle = 0,
     gripper_position = 0, start_base_angle = 0, start_shoulder_angle = 0,
     start_elbow_angle = 0, start_gripper_position = 0, target_base_angle = 0,
     target_shoulder_angle = 0, target_elbow_angle = 0, target_gripper_position = 0,
     motion_start_tick = 0, motion_duration_ms = 0, outputs_enabled = False, homed = False,
     safety_latched = False, ctl_completion = zero_completion\<rparr>"

section \<open>Helpers\<close>

definition gripper_control_is_moving :: "'hw gripper_control_t \<Rightarrow> bool" where
  "gripper_control_is_moving controller \<longleftrightarrow>
     ctl_state controller = UART_GRIPPER_STATE_MOVING_ARM \<or>
     ctl_state controller = UART_GRIPPER_STATE_MOVING_GRIPPER \<or>
     ctl_state controller = UART_GRIPPER_STATE_HOMING"

definition gripper_control_arm_target_is_safe :: "u16 \<Rightarrow> u16 \<Rightarrow> u16 \<Rightarrow> bool" where
  "gripper_control_arm_target_is_safe base shoulder elbow \<longleftrightarrow>
     GRIPPER_BASE_MIN_ANGLE_DECI_DEG \<le> base \<and> base \<le> GRIPPER_BASE_MAX_ANGLE_DECI_DEG \<and>
     GRIPPER_SHOULDER_MIN_ANGLE_DECI_DEG \<le> shoulder \<and>
     shoulder \<le> GRIPPER_SHOULDER_MAX_ANGLE_DECI_DEG \<and>
     GRIPPER_ELBOW_MIN_ANGLE_DECI_DEG \<le> elbow \<and> elbow \<le> GRIPPER_ELBOW_MAX_ANGLE_DECI_DEG"

definition gripper_control_absolute_difference :: "u32 \<Rightarrow> u32 \<Rightarrow> u32" where
  "gripper_control_absolute_difference a b = (if b \<le> a then a - b else b - a)"

definition gripper_control_duration_for_delta :: "u32 \<Rightarrow> u32 \<Rightarrow> u32" where
  "gripper_control_duration_for_delta delta units_per_second =
     (if delta = 0 then 0
      else (delta * 1000 + units_per_second - 1) div units_per_second)"

definition gripper_control_max_u32 :: "u32 \<Rightarrow> u32 \<Rightarrow> u32" where
  "gripper_control_max_u32 a b = (if b \<le> a then a else b)"

definition gripper_control_arm_minimum_duration ::
  "'hw gripper_control_t \<Rightarrow> u16 \<Rightarrow> u16 \<Rightarrow> u16 \<Rightarrow> u32" where
  "gripper_control_arm_minimum_duration controller base shoulder elbow =
     (let duration = gripper_control_duration_for_delta
            (gripper_control_absolute_difference (to_u32 (base_angle controller)) (to_u32 base))
            GRIPPER_BASE_MAX_SPEED_DECI_DEG_PER_SEC;
          duration = gripper_control_max_u32 duration
            (gripper_control_duration_for_delta
              (gripper_control_absolute_difference (to_u32 (shoulder_angle controller)) (to_u32 shoulder))
              GRIPPER_SHOULDER_MAX_SPEED_DECI_DEG_PER_SEC)
      in gripper_control_max_u32 duration
           (gripper_control_duration_for_delta
             (gripper_control_absolute_difference (to_u32 (elbow_angle controller)) (to_u32 elbow))
             GRIPPER_ELBOW_MAX_SPEED_DECI_DEG_PER_SEC))"

definition gripper_control_claw_minimum_duration :: "'hw gripper_control_t \<Rightarrow> u8 \<Rightarrow> u32" where
  "gripper_control_claw_minimum_duration controller position_percent =
     gripper_control_duration_for_delta
       (gripper_control_absolute_difference (to_u32 (gripper_position controller))
          (to_u32 position_percent))
       GRIPPER_CLAW_MAX_SPEED_PERCENT_PER_SEC"

definition gripper_control_enable_outputs ::
  "'hw gripper_control_t \<Rightarrow> 'hw \<Rightarrow> int \<times> 'hw gripper_control_t \<times> 'hw" where
  "gripper_control_enable_outputs controller hw =
     (if outputs_enabled controller then (0, controller, hw)
      else
        (let (status, hw) = the (port_enable (ctl_servo controller)) hw
         in if status \<noteq> 0 then (-1, controller, hw)
            else (0, controller\<lparr>outputs_enabled := True\<rparr>, hw)))"

definition gripper_control_set_fault ::
  "'hw gripper_control_t \<Rightarrow> uart_error_t \<Rightarrow> 'hw gripper_control_t" where
  "gripper_control_set_fault controller e =
     controller\<lparr>ctl_state := UART_GRIPPER_STATE_FAULT, homed := False,
       ctl_completion := (ctl_completion controller)\<lparr>completion_valid := True,
         completion_fault := True, completion_motion_id := active_motion_id controller,
         completion_motion_type := ctl_motion_type controller, completion_error := e\<rparr>,
       active_motion_id := UART_GRIPPER_MOTION_ID_NONE\<rparr>"

definition invalidate_completion :: "'hw gripper_control_t \<Rightarrow> 'hw gripper_control_t" where
  "invalidate_completion controller =
     controller\<lparr>ctl_completion := (ctl_completion controller)\<lparr>completion_valid := False\<rparr>\<rparr>"

definition gripper_control_start_arm_motion ::
  "'hw gripper_control_t \<Rightarrow> 'hw \<Rightarrow> u16 \<Rightarrow> uart_gripper_motion_type_t \<Rightarrow> u16 \<Rightarrow> u16 \<Rightarrow> u16 \<Rightarrow>
     u32 \<Rightarrow> u32 \<Rightarrow> gripper_control_result_t \<times> 'hw gripper_control_t \<times> 'hw" where
  "gripper_control_start_arm_motion controller hw motion_id motion_type base shoulder elbow
     duration_ms now_ms =
     (if \<not> gripper_control_arm_target_is_safe base shoulder elbow
      then (GRIPPER_CONTROL_INVALID_PAYLOAD, controller, hw)
      else
        (let (status, controller, hw) = gripper_control_enable_outputs controller hw
         in if status \<noteq> 0
            then (GRIPPER_CONTROL_SERVO_ERROR,
                  controller\<lparr>ctl_state := UART_GRIPPER_STATE_FAULT\<rparr>, hw)
            else
              (let minimum = gripper_control_arm_minimum_duration controller base shoulder elbow;
                   minimum = (if motion_type = UART_GRIPPER_MOTION_HOME
                     then gripper_control_max_u32 minimum
                       (gripper_control_claw_minimum_duration controller
                          (target_gripper_position controller))
                     else minimum)
               in (GRIPPER_CONTROL_OK,
                   (invalidate_completion controller)\<lparr>
                     start_base_angle := base_angle controller,
                     start_shoulder_angle := shoulder_angle controller,
                     start_elbow_angle := elbow_angle controller,
                     target_base_angle := base,
                     target_shoulder_angle := shoulder,
                     target_elbow_angle := elbow,
                     motion_start_tick := now_ms,
                     motion_duration_ms := gripper_control_max_u32 duration_ms minimum,
                     active_motion_id := motion_id,
                     ctl_motion_type := motion_type,
                     ctl_state := (if motion_type = UART_GRIPPER_MOTION_HOME
                       then UART_GRIPPER_STATE_HOMING else UART_GRIPPER_STATE_MOVING_ARM)\<rparr>,
                   hw))))"

text \<open>\<open>difference\<close>, the product and the quotient are \<open>int32_t\<close> values in the code.\<close>

definition interpolate :: "int \<Rightarrow> int \<Rightarrow> u32 \<Rightarrow> u32 \<Rightarrow> int" where
  "interpolate start target elapsed duration =
     (let difference = target - start
      in start + (difference * sint elapsed) sdiv sint duration)"

definition gripper_control_interpolate_u16 :: "u16 \<Rightarrow> u16 \<Rightarrow> u32 \<Rightarrow> u32 \<Rightarrow> u16" where
  "gripper_control_interpolate_u16 start target elapsed duration =
     word_of_int (interpolate (uint start) (uint target) elapsed duration)"

definition gripper_control_interpolate_u8 :: "u8 \<Rightarrow> u8 \<Rightarrow> u32 \<Rightarrow> u32 \<Rightarrow> u8" where
  "gripper_control_interpolate_u8 start target elapsed duration =
     word_of_int (interpolate (uint start) (uint target) elapsed duration)"

section \<open>Operations\<close>

definition gripper_control_init ::
  "'hw gripper_control_t ptr \<Rightarrow> 'hw gripper_servo_port_t ptr \<Rightarrow>
     gripper_control_result_t \<times> 'hw gripper_control_t ptr" where
  "gripper_control_init controller servo =
     (case (controller, servo) of
        (Some _, Some port) \<Rightarrow>
          (if port_enable port = None \<or> port_write_arm port = None \<or> port_write_gripper port = None
           then (GRIPPER_CONTROL_INVALID_ARGUMENT, controller)
           else (GRIPPER_CONTROL_OK, Some (zero_controller\<lparr>ctl_servo := port,
                  ctl_state := UART_GRIPPER_STATE_STOPPED,
                  base_angle := GRIPPER_BASE_HOME_ANGLE_DECI_DEG,
                  shoulder_angle := GRIPPER_SHOULDER_HOME_ANGLE_DECI_DEG,
                  elbow_angle := GRIPPER_ELBOW_HOME_ANGLE_DECI_DEG,
                  gripper_position := GRIPPER_INITIAL_POSITION_PERCENT\<rparr>)))
      | _ \<Rightarrow> (GRIPPER_CONTROL_INVALID_ARGUMENT, controller))"

definition command_set_gripper ::
  "'hw gripper_control_t \<Rightarrow> 'hw \<Rightarrow> u8 list ptr \<Rightarrow> u32 \<Rightarrow>
     gripper_control_result_t \<times> 'hw gripper_control_t \<times> 'hw" where
  "command_set_gripper controller hw payload now_ms =
     (let position = the payload ! UART_GRIPPER_SET_POSITION_INDEX
      in if gripper_control_is_moving controller then (GRIPPER_CONTROL_BUSY, controller, hw)
         else if position < GRIPPER_MIN_POSITION_PERCENT \<or> GRIPPER_MAX_POSITION_PERCENT < position
         then (GRIPPER_CONTROL_INVALID_PAYLOAD, controller, hw)
         else
           (let (status, controller, hw) = gripper_control_enable_outputs controller hw
            in if status \<noteq> 0
               then (GRIPPER_CONTROL_SERVO_ERROR,
                     controller\<lparr>ctl_state := UART_GRIPPER_STATE_FAULT\<rparr>, hw)
               else (GRIPPER_CONTROL_OK,
                     (invalidate_completion controller)\<lparr>
                       start_gripper_position := gripper_position controller,
                       target_gripper_position := position,
                       motion_start_tick := now_ms,
                       motion_duration_ms := gripper_control_max_u32
                         (to_u32 (uart_gripper_set_duration_ms payload))
                         (gripper_control_claw_minimum_duration controller position),
                       active_motion_id := uart_gripper_set_motion_id payload,
                       ctl_motion_type := UART_GRIPPER_MOTION_GRIPPER,
                       ctl_state := UART_GRIPPER_STATE_MOVING_GRIPPER\<rparr>,
                     hw)))"

definition gripper_control_process_command ::
  "'hw gripper_control_t ptr \<Rightarrow> 'hw \<Rightarrow> u8 \<Rightarrow> u8 list ptr \<Rightarrow> u8 \<Rightarrow> u32 \<Rightarrow>
     gripper_control_result_t \<times> 'hw gripper_control_t ptr \<times> 'hw" where
  "gripper_control_process_command controller hw command payload n now_ms =
     (case controller of
        None \<Rightarrow> (GRIPPER_CONTROL_INVALID_ARGUMENT, None, hw)
      | Some c \<Rightarrow>
          (if \<not> uart_gripper_payload_is_valid (to_u32 command) payload (to_u32 n)
           then (GRIPPER_CONTROL_INVALID_PAYLOAD, Some c, hw)
           else if safety_latched c \<and> command \<noteq> gripper_cmd_code UART_CMD_GRIPPER_GET_STATUS
           then (GRIPPER_CONTROL_SAFETY_STOP, Some c, hw)
           else if command = gripper_cmd_code UART_CMD_GRIPPER_MOVE_ARM then
             (if \<not> homed c then (GRIPPER_CONTROL_NOT_HOMED, Some c, hw)
              else if gripper_control_is_moving c then (GRIPPER_CONTROL_BUSY, Some c, hw)
              else (case gripper_control_start_arm_motion c hw
                      (uart_gripper_move_motion_id payload) UART_GRIPPER_MOTION_ARM
                      (uart_gripper_move_base_angle payload)
                      (uart_gripper_move_shoulder_angle payload)
                      (uart_gripper_move_elbow_angle payload)
                      (to_u32 (uart_gripper_move_duration_ms payload)) now_ms of
                    (r, c, hw) \<Rightarrow> (r, Some c, hw)))
           else if command = gripper_cmd_code UART_CMD_GRIPPER_SET_GRIPPER then
             (case command_set_gripper c hw payload now_ms of (r, c, hw) \<Rightarrow> (r, Some c, hw))
           else if command = gripper_cmd_code UART_CMD_GRIPPER_HOME then
             (if gripper_control_is_moving c then (GRIPPER_CONTROL_BUSY, Some c, hw)
              else
                (let motion_id = uart_gripper_home_motion_id payload;
                     c = c\<lparr>start_gripper_position := gripper_position c,
                           target_gripper_position := GRIPPER_HOME_POSITION_PERCENT\<rparr>
                 in case gripper_control_start_arm_motion c hw motion_id UART_GRIPPER_MOTION_HOME
                      GRIPPER_BASE_HOME_ANGLE_DECI_DEG GRIPPER_SHOULDER_HOME_ANGLE_DECI_DEG
                      GRIPPER_ELBOW_HOME_ANGLE_DECI_DEG GRIPPER_HOME_DURATION_MS now_ms of
                    (r, c, hw) \<Rightarrow> (r, Some c, hw)))
           else if command = gripper_cmd_code UART_CMD_GRIPPER_STOP then
             (GRIPPER_CONTROL_OK,
              Some ((invalidate_completion c)\<lparr>ctl_state := UART_GRIPPER_STATE_STOPPED,
                active_motion_id := UART_GRIPPER_MOTION_ID_NONE\<rparr>), hw)
           else if command = gripper_cmd_code UART_CMD_GRIPPER_GET_STATUS then
             (GRIPPER_CONTROL_OK, Some c, hw)
           else if command = gripper_cmd_code UART_CMD_GRIPPER_RESET then
             (GRIPPER_CONTROL_OK,
              Some ((invalidate_completion c)\<lparr>ctl_state := UART_GRIPPER_STATE_STOPPED,
                active_motion_id := UART_GRIPPER_MOTION_ID_NONE, homed := False\<rparr>), hw)
           else (GRIPPER_CONTROL_INVALID_PAYLOAD, Some c, hw)))"

text \<open>
  \<open>gripper_control_tick\<close> past its guard: the position update with the servo writes, which
  may end in a fault, and the completion. \<open>Inl\<close> is the early return of a fault.
\<close>

definition tick_write_gripper ::
  "'hw gripper_control_t \<Rightarrow> 'hw \<Rightarrow> u32 \<Rightarrow> ('hw gripper_control_t + 'hw gripper_control_t) \<times> 'hw" where
  "tick_write_gripper c hw elapsed =
     (let c = c\<lparr>gripper_position := gripper_control_interpolate_u8 (start_gripper_position c)
                 (target_gripper_position c) elapsed (motion_duration_ms c)\<rparr>;
          (status, hw) = the (port_write_gripper (ctl_servo c)) hw (gripper_position c)
      in if status \<noteq> 0 then (Inl (gripper_control_set_fault c UART_ERROR_SERVO), hw)
         else (Inr c, hw))"

definition tick_write_arm ::
  "'hw gripper_control_t \<Rightarrow> 'hw \<Rightarrow> u32 \<Rightarrow> ('hw gripper_control_t + 'hw gripper_control_t) \<times> 'hw" where
  "tick_write_arm c hw elapsed =
     (let c = c\<lparr>base_angle := gripper_control_interpolate_u16 (start_base_angle c)
                 (target_base_angle c) elapsed (motion_duration_ms c)\<rparr>;
          c = c\<lparr>shoulder_angle := gripper_control_interpolate_u16 (start_shoulder_angle c)
                 (target_shoulder_angle c) elapsed (motion_duration_ms c)\<rparr>;
          c = c\<lparr>elbow_angle := gripper_control_interpolate_u16 (start_elbow_angle c)
                 (target_elbow_angle c) elapsed (motion_duration_ms c)\<rparr>;
          (status, hw) = the (port_write_arm (ctl_servo c)) hw (base_angle c) (shoulder_angle c)
                           (elbow_angle c)
      in if status \<noteq> 0 then (Inl (gripper_control_set_fault c UART_ERROR_SERVO), hw)
         else if ctl_motion_type c = UART_GRIPPER_MOTION_HOME then tick_write_gripper c hw elapsed
         else (Inr c, hw))"

definition tick_complete :: "'hw gripper_control_t \<Rightarrow> 'hw gripper_control_t" where
  "tick_complete c =
     (let c = (if ctl_motion_type c = UART_GRIPPER_MOTION_HOME then c\<lparr>homed := True\<rparr> else c)
      in c\<lparr>ctl_completion := \<lparr>completion_valid = True, completion_fault = False,
             completion_motion_id = active_motion_id c,
             completion_motion_type = ctl_motion_type c, completion_error = UART_ERROR_NONE\<rparr>,
           active_motion_id := UART_GRIPPER_MOTION_ID_NONE,
           ctl_state := UART_GRIPPER_STATE_IDLE\<rparr>)"

definition tick_elapsed :: "'hw gripper_control_t \<Rightarrow> u32 \<Rightarrow> u32" where
  "tick_elapsed c now_ms =
     (let elapsed = now_ms - motion_start_tick c
      in if motion_duration_ms c \<le> elapsed then motion_duration_ms c else elapsed)"

definition gripper_control_tick ::
  "'hw gripper_control_t ptr \<Rightarrow> 'hw \<Rightarrow> u32 \<Rightarrow> 'hw gripper_control_t ptr \<times> 'hw" where
  "gripper_control_tick controller hw now_ms =
     (case controller of
        None \<Rightarrow> (None, hw)
      | Some c \<Rightarrow>
          (if \<not> gripper_control_is_moving c \<or> safety_latched c then (Some c, hw)
           else
             (let elapsed = tick_elapsed c now_ms;
                  (moved, hw) = (if ctl_motion_type c = UART_GRIPPER_MOTION_GRIPPER
                    then tick_write_gripper c hw elapsed else tick_write_arm c hw elapsed)
              in case moved of
                   Inl c \<Rightarrow> (Some c, hw)
                 | Inr c \<Rightarrow> (Some (if elapsed = motion_duration_ms c then tick_complete c else c), hw))))"

definition gripper_control_take_completion ::
  "'hw gripper_control_t ptr \<Rightarrow> gripper_control_completion_t ptr \<Rightarrow>
     bool \<times> 'hw gripper_control_t ptr \<times> gripper_control_completion_t ptr" where
  "gripper_control_take_completion controller completion =
     (case (controller, completion) of
        (Some c, Some _) \<Rightarrow>
          (if \<not> completion_valid (ctl_completion c) then (False, controller, completion)
           else (True, Some (invalidate_completion c), Some (ctl_completion c)))
      | _ \<Rightarrow> (False, controller, completion))"

definition gripper_control_apply_safety_stop ::
  "'hw gripper_control_t ptr \<Rightarrow> 'hw gripper_control_t ptr" where
  "gripper_control_apply_safety_stop controller =
     (case controller of
        None \<Rightarrow> None
      | Some c \<Rightarrow> Some ((invalidate_completion c)\<lparr>safety_latched := True, homed := False,
          ctl_state := UART_GRIPPER_STATE_EMERGENCY_STOP,
          active_motion_id := UART_GRIPPER_MOTION_ID_NONE\<rparr>))"

definition gripper_control_release_safety ::
  "'hw gripper_control_t ptr \<Rightarrow> 'hw gripper_control_t ptr" where
  "gripper_control_release_safety controller =
     (case controller of
        None \<Rightarrow> None
      | Some c \<Rightarrow> Some ((invalidate_completion c)\<lparr>safety_latched := False,
          ctl_state := UART_GRIPPER_STATE_STOPPED,
          active_motion_id := UART_GRIPPER_MOTION_ID_NONE\<rparr>))"

definition gripper_control_get_snapshot ::
  "'hw gripper_control_t ptr \<Rightarrow> gripper_control_snapshot_t ptr \<Rightarrow> gripper_control_snapshot_t ptr" where
  "gripper_control_get_snapshot controller snapshot =
     (case (controller, snapshot) of
        (Some c, Some _) \<Rightarrow> Some \<lparr>snap_state = ctl_state c,
          snap_active_motion_id = active_motion_id c, snap_base_angle = base_angle c,
          snap_shoulder_angle = shoulder_angle c, snap_elbow_angle = elbow_angle c,
          snap_gripper_position = gripper_position c, snap_homed = homed c,
          snap_safety_latched = safety_latched c\<rparr>
      | _ \<Rightarrow> snapshot)"

section \<open>Interpolation\<close>

lemma sint_u32_small:
  assumes "uint (w :: u32) < 2147483648"
  shows "sint w = uint w"
proof -
  have "- (2 ^ 31) \<le> (0 :: int)" by simp
  then have "- (2 ^ 31) \<le> uint w" by (rule order_trans) (rule uint_ge_0)
  then have "signed_take_bit 31 (uint w) = uint w"
    using assms by (intro signed_take_bit_int_eq_self) simp_all
  then show ?thesis by (simp add: sint_uint)
qed

lemma interpolate_between:
  assumes "uint e \<le> uint d" "0 < uint d" "uint d < 2147483648"
  shows "min s t \<le> interpolate s t e d \<and> interpolate s t e d \<le> max s t"
proof -
  have "uint e < 2147483648" using assms by linarith
  then have "interpolate s t e d = s + ((t - s) * uint e) sdiv uint d"
    using assms(3) by (simp only: interpolate_def Let_def sint_u32_small)
  then show ?thesis
    using sdiv_fraction_between [of "uint e" "uint d" s t] assms(1,2) by simp
qed

lemma interpolate_end: "0 < uint d \<Longrightarrow> uint d < 2147483648 \<Longrightarrow> interpolate s t d d = t"
  using sdiv_full [of "uint d" "t - s"] by (simp only: interpolate_def Let_def sint_u32_small)

lemma interpolate_u16_between:
  assumes "uint e \<le> uint d" "0 < uint d" "uint d < 2147483648"
  shows "min (uint s) (uint t) \<le> uint (gripper_control_interpolate_u16 s t e d) \<and>
    uint (gripper_control_interpolate_u16 s t e d) \<le> max (uint s) (uint t)"
proof -
  let ?v = "interpolate (uint s) (uint t) e d"
  have v: "min (uint s) (uint t) \<le> ?v" "?v \<le> max (uint s) (uint t)"
    using interpolate_between [OF assms] by blast+
  have "max (uint s) (uint t) < 65536" "0 \<le> min (uint s) (uint t)"
    using uint_bounded [of s] uint_bounded [of t] by simp_all
  then have "0 \<le> ?v" "?v < 65536" using v by linarith+
  then have "uint (gripper_control_interpolate_u16 s t e d) = ?v"
    by (simp only: gripper_control_interpolate_u16_def uint_word_of_int) simp
  then show ?thesis using v by simp
qed

lemma interpolate_u8_between:
  assumes "uint e \<le> uint d" "0 < uint d" "uint d < 2147483648"
  shows "min (uint s) (uint t) \<le> uint (gripper_control_interpolate_u8 s t e d) \<and>
    uint (gripper_control_interpolate_u8 s t e d) \<le> max (uint s) (uint t)"
proof -
  let ?v = "interpolate (uint s) (uint t) e d"
  have v: "min (uint s) (uint t) \<le> ?v" "?v \<le> max (uint s) (uint t)"
    using interpolate_between [OF assms] by blast+
  have "max (uint s) (uint t) < 256" "0 \<le> min (uint s) (uint t)"
    using uint_bounded [of s] uint_bounded [of t] by simp_all
  then have "0 \<le> ?v" "?v < 256" using v by linarith+
  then have "uint (gripper_control_interpolate_u8 s t e d) = ?v"
    by (simp only: gripper_control_interpolate_u8_def uint_word_of_int) simp
  then show ?thesis using v by simp
qed

lemma interpolate_u16_end [simp]:
  "0 < uint d \<Longrightarrow> uint d < 2147483648 \<Longrightarrow> gripper_control_interpolate_u16 s t d d = t"
  by (simp only: gripper_control_interpolate_u16_def interpolate_end word_of_int_uint)

lemma interpolate_u8_end [simp]:
  "0 < uint d \<Longrightarrow> uint d < 2147483648 \<Longrightarrow> gripper_control_interpolate_u8 s t d d = t"
  by (simp only: gripper_control_interpolate_u8_def interpolate_end word_of_int_uint)

section \<open>Durations\<close>

lemma max_u32_nat: "unat (gripper_control_max_u32 a b) = max (unat a) (unat b)"
  by (auto simp: gripper_control_max_u32_def word_le_nat_alt max_def)

lemma absolute_difference_nat:
  "unat (gripper_control_absolute_difference a b) =
     (if unat b \<le> unat a then unat a - unat b else unat b - unat a)"
  by (auto simp: gripper_control_absolute_difference_def word_le_nat_alt unat_sub)

lemma duration_for_delta_nat:
  assumes "unat delta \<le> 65535" "0 < unat speed" "unat speed \<le> 1000" "unat delta \<noteq> 0"
  shows "unat (gripper_control_duration_for_delta delta speed) =
    (unat delta * 1000 + unat speed - 1) div unat speed"
proof -
  have "unat (delta * 1000) = unat delta * 1000"
    using assms(1) by (simp add: unat_word_ariths)
  then have "unat (delta * 1000 + speed) = unat delta * 1000 + unat speed"
    using assms(1,3) by (simp add: unat_word_ariths)
  moreover from this have "(1 :: u32) \<le> delta * 1000 + speed"
    using assms(2) by (simp add: word_le_nat_alt)
  ultimately have "unat (delta * 1000 + speed - 1) = unat delta * 1000 + unat speed - 1"
    by (simp add: unat_sub)
  moreover have "delta \<noteq> 0" using assms(4) by auto
  ultimately show ?thesis
    by (simp only: gripper_control_duration_for_delta_def if_False unat_div)
qed

lemma ceiling_div:
  assumes "0 < (s :: nat)" "0 < a"
  shows "a \<le> s * ((a + s - 1) div s) \<and> s * ((a + s - 1) div s) \<le> a + s - 1"
proof -
  have "s * ((a + s - 1) div s) + (a + s - 1) mod s = a + s - 1" by simp
  moreover have "(a + s - 1) mod s < s" using assms by simp
  ultimately show ?thesis using assms by linarith
qed

text \<open>The duration is long enough for the joint's speed limit, and not much longer.\<close>

lemma duration_for_delta_speed:
  assumes "unat delta \<le> 65535" "0 < unat speed" "unat speed \<le> 1000"
  shows "unat delta * 1000 \<le> unat speed * unat (gripper_control_duration_for_delta delta speed) \<and>
    unat speed * unat (gripper_control_duration_for_delta delta speed) \<le> unat delta * 1000 + unat speed"
proof (cases "unat delta = 0")
  case True
  then have "delta = 0" by (simp only: unat_eq_0)
  then show ?thesis by (simp add: gripper_control_duration_for_delta_def)
next
  case False
  then have "0 < unat delta * 1000" by simp
  from ceiling_div [OF assms(2) this] show ?thesis
    unfolding duration_for_delta_nat [OF assms False] by linarith
qed


section \<open>The invariant\<close>

definition claw_in_limits :: "u8 \<Rightarrow> bool" where
  "claw_in_limits p \<longleftrightarrow> GRIPPER_MIN_POSITION_PERCENT \<le> p \<and> p \<le> GRIPPER_MAX_POSITION_PERCENT"

definition arm_motion_ok :: "'hw gripper_control_t \<Rightarrow> bool" where
  "arm_motion_ok c \<longleftrightarrow>
     gripper_control_arm_target_is_safe (start_base_angle c) (start_shoulder_angle c) (start_elbow_angle c) \<and>
     gripper_control_arm_target_is_safe (target_base_angle c) (target_shoulder_angle c) (target_elbow_angle c)"

definition claw_motion_ok :: "'hw gripper_control_t \<Rightarrow> bool" where
  "claw_motion_ok c \<longleftrightarrow>
     claw_in_limits (start_gripper_position c) \<and> claw_in_limits (target_gripper_position c)"

text \<open>How long a motion may be planned: more than nothing, far below where \<open>int32_t\<close> ends.\<close>

definition duration_ok :: "u32 \<Rightarrow> bool" where
  "duration_ok d \<longleftrightarrow> 100 \<le> uint d \<and> uint d \<le> 15000"

definition controller_ok :: "'hw gripper_control_t \<Rightarrow> bool" where
  "controller_ok c \<longleftrightarrow>
     gripper_control_arm_target_is_safe (base_angle c) (shoulder_angle c) (elbow_angle c) \<and>
     claw_in_limits (gripper_position c) \<and>
     (homed c \<longrightarrow> outputs_enabled c) \<and>
     (safety_latched c \<longleftrightarrow> ctl_state c = UART_GRIPPER_STATE_EMERGENCY_STOP) \<and>
     (safety_latched c \<longrightarrow> \<not> homed c) \<and>
     (gripper_control_is_moving c \<longleftrightarrow> active_motion_id c \<noteq> 0) \<and>
     (gripper_control_is_moving c \<longrightarrow> outputs_enabled c \<and> duration_ok (motion_duration_ms c)) \<and>
     (ctl_state c = UART_GRIPPER_STATE_MOVING_ARM \<longrightarrow>
        ctl_motion_type c = UART_GRIPPER_MOTION_ARM \<and> homed c \<and> arm_motion_ok c) \<and>
     (ctl_state c = UART_GRIPPER_STATE_MOVING_GRIPPER \<longrightarrow>
        ctl_motion_type c = UART_GRIPPER_MOTION_GRIPPER \<and> claw_motion_ok c) \<and>
     (ctl_state c = UART_GRIPPER_STATE_HOMING \<longrightarrow>
        ctl_motion_type c = UART_GRIPPER_MOTION_HOME \<and> arm_motion_ok c \<and> claw_motion_ok c)"

lemma arm_safe_uint:
  "gripper_control_arm_target_is_safe b s e \<longleftrightarrow>
     100 \<le> uint b \<and> uint b \<le> 1800 \<and> 300 \<le> uint s \<and> uint s \<le> 1500 \<and>
     300 \<le> uint e \<and> uint e \<le> 1800"
  by (simp add: gripper_control_arm_target_is_safe_def word_le_def)

lemma claw_uint: "claw_in_limits p \<longleftrightarrow> 50 \<le> uint p \<and> uint p \<le> 65"
  by (simp add: claw_in_limits_def word_le_def)

lemma duration_uint:
  "duration_ok d \<Longrightarrow> 0 < uint d \<and> uint d < 2147483648"
  by (simp add: duration_ok_def)

lemma interpolate_arm_safe:
  assumes "gripper_control_arm_target_is_safe b0 s0 e0" "gripper_control_arm_target_is_safe b1 s1 e1"
    and "uint t \<le> uint d" "duration_ok d"
  shows "gripper_control_arm_target_is_safe (gripper_control_interpolate_u16 b0 b1 t d)
    (gripper_control_interpolate_u16 s0 s1 t d) (gripper_control_interpolate_u16 e0 e1 t d)"
proof -
  note between = interpolate_u16_between [OF assms(3)]
  have "0 < uint d" "uint d < 2147483648" using duration_uint [OF assms(4)] by auto
  note b = between [OF this, of b0 b1] and s = between [OF this, of s0 s1]
    and e = between [OF this, of e0 e1]
  show ?thesis using b s e assms(1,2) unfolding arm_safe_uint by linarith
qed

lemma interpolate_claw_safe:
  assumes "claw_in_limits p0" "claw_in_limits p1" "uint t \<le> uint d" "duration_ok d"
  shows "claw_in_limits (gripper_control_interpolate_u8 p0 p1 t d)"
  using interpolate_u8_between [OF assms(3), of p0 p1] duration_uint [OF assms(4)] assms(1,2)
  unfolding claw_uint by linarith

lemma tick_elapsed_le: "uint (tick_elapsed c now) \<le> uint (motion_duration_ms c)"
  by (auto simp: tick_elapsed_def Let_def word_le_def)

lemma invalidate_fields [simp]:
  "ctl_servo (invalidate_completion c) = ctl_servo c"
  "ctl_state (invalidate_completion c) = ctl_state c"
  "ctl_motion_type (invalidate_completion c) = ctl_motion_type c"
  "active_motion_id (invalidate_completion c) = active_motion_id c"
  "base_angle (invalidate_completion c) = base_angle c"
  "shoulder_angle (invalidate_completion c) = shoulder_angle c"
  "elbow_angle (invalidate_completion c) = elbow_angle c"
  "gripper_position (invalidate_completion c) = gripper_position c"
  "start_base_angle (invalidate_completion c) = start_base_angle c"
  "start_shoulder_angle (invalidate_completion c) = start_shoulder_angle c"
  "start_elbow_angle (invalidate_completion c) = start_elbow_angle c"
  "start_gripper_position (invalidate_completion c) = start_gripper_position c"
  "target_base_angle (invalidate_completion c) = target_base_angle c"
  "target_shoulder_angle (invalidate_completion c) = target_shoulder_angle c"
  "target_elbow_angle (invalidate_completion c) = target_elbow_angle c"
  "target_gripper_position (invalidate_completion c) = target_gripper_position c"
  "motion_duration_ms (invalidate_completion c) = motion_duration_ms c"
  "outputs_enabled (invalidate_completion c) = outputs_enabled c"
  "homed (invalidate_completion c) = homed c"
  "safety_latched (invalidate_completion c) = safety_latched c"
  "completion_valid (ctl_completion (invalidate_completion c)) = False"
  by (simp_all add: invalidate_completion_def)

lemma max_u32_duration_ok:
  assumes "100 \<le> unat a" "unat a \<le> 15000" "unat b \<le> 15000"
  shows "duration_ok (gripper_control_max_u32 a b)"
proof -
  have "unat (gripper_control_max_u32 a b) = max (unat a) (unat b)"
    by (rule max_u32_nat)
  then have "100 \<le> unat (gripper_control_max_u32 a b)" "unat (gripper_control_max_u32 a b) \<le> 15000"
    using assms by auto
  then show ?thesis unfolding duration_ok_def uint_nat by (intro conjI; linarith)
qed

lemma delta_duration_bound:
  assumes "unat delta \<le> 1700" "unat speed \<in> {120, 200, 300}"
  shows "unat (gripper_control_duration_for_delta delta speed) \<le> 15000"
proof -
  have "unat speed * unat (gripper_control_duration_for_delta delta speed) \<le> unat delta * 1000 + unat speed"
    using duration_for_delta_speed [of delta speed] assms by auto
  then have "unat speed * unat (gripper_control_duration_for_delta delta speed) \<le> 1700 * 1000 + unat speed"
    using assms(1) by linarith
  with assms(2) show ?thesis by auto
qed


lemma claw_delta_duration_bound:
  assumes "unat delta \<le> 255"
  shows "unat (gripper_control_duration_for_delta delta 40) \<le> 15000"
  using duration_for_delta_speed [of delta 40] assms by simp

lemma absolute_difference_bound:
  assumes "unat a \<le> n" "unat b \<le> n"
  shows "unat (gripper_control_absolute_difference a b) \<le> n"
  using assms by (auto simp: absolute_difference_nat)

lemma arm_minimum_bound:
  assumes "gripper_control_arm_target_is_safe (base_angle c) (shoulder_angle c) (elbow_angle c)"
    and "gripper_control_arm_target_is_safe b s e"
  shows "unat (gripper_control_arm_minimum_duration c b s e) \<le> 15000"
proof -
  have diff: "unat (gripper_control_absolute_difference x y) \<le> 1700"
    if "100 \<le> unat x" "unat x \<le> 1800" "100 \<le> unat y" "unat y \<le> 1800" for x y
    using that by (auto simp: absolute_difference_nat)
  show ?thesis
    unfolding gripper_control_arm_minimum_duration_def Let_def max_u32_nat max.bounded_iff
    using assms by (intro conjI delta_duration_bound diff)
      (simp_all add: gripper_control_arm_target_is_safe_def word_le_nat_alt)
qed

lemma claw_minimum_bound: "unat (gripper_control_claw_minimum_duration c p) \<le> 15000"
  unfolding gripper_control_claw_minimum_duration_def
  using unat_u8_less [of "gripper_position c"] unat_u8_less [of p]
  by (intro claw_delta_duration_bound absolute_difference_bound) (simp_all del: unat_u8_less)

text \<open>The outputs are enabled before a motion starts, and nothing else changes.\<close>

lemma enable_outputs_cases:
  obtains (failed) hw' status where "status \<noteq> 0"
      "gripper_control_enable_outputs c hw = (status, c, hw')"
  | (ok) hw' where "gripper_control_enable_outputs c hw = (0, c\<lparr>outputs_enabled := True\<rparr>, hw')"
proof (cases "outputs_enabled c")
  case True
  then have same: "c\<lparr>outputs_enabled := True\<rparr> = c" by (cases c) simp
  show ?thesis
    by (rule ok [of hw]) (simp only: same gripper_control_enable_outputs_def True if_True)
next
  case False
  obtain status hw' where en: "the (port_enable (ctl_servo c)) hw = (status, hw')"
    by (cases "the (port_enable (ctl_servo c)) hw")
  have out: "gripper_control_enable_outputs c hw =
      (if status \<noteq> 0 then (-1, c, hw') else (0, c\<lparr>outputs_enabled := True\<rparr>, hw'))"
    by (simp only: gripper_control_enable_outputs_def False if_False Let_def en prod.case)
  show ?thesis
  proof (cases "status = 0")
    case True
    show ?thesis by (rule ok [of hw']) (simp only: out True simp_thms if_False)
  next
    case False
    show ?thesis by (rule failed [of "-1" hw']) (simp_all add: out False)
  qed
qed

lemma moving_updates [simp]:
  "gripper_control_is_moving (c\<lparr>outputs_enabled := x\<rparr>) = gripper_control_is_moving c"
  "gripper_control_is_moving (c\<lparr>start_gripper_position := p\<rparr>) = gripper_control_is_moving c"
  "gripper_control_is_moving (c\<lparr>target_gripper_position := p\<rparr>) = gripper_control_is_moving c"
  by (simp_all add: gripper_control_is_moving_def)

lemma start_arm_motion_ok:
  assumes ok: "controller_ok c" and idle: "\<not> gripper_control_is_moving c" "\<not> safety_latched c"
    and type: "motion_type = UART_GRIPPER_MOTION_ARM \<and> homed c \<or>
               motion_type = UART_GRIPPER_MOTION_HOME \<and> claw_motion_ok c"
    and dur: "100 \<le> unat dur" "unat dur \<le> 15000" and mid: "mid \<noteq> 0"
  shows "controller_ok (fst (snd (gripper_control_start_arm_motion c hw mid motion_type b s e dur now)))"
proof (cases "gripper_control_arm_target_is_safe b s e")
  case False
  then show ?thesis using ok by (simp add: gripper_control_start_arm_motion_def)
next
  case True
  have pos: "gripper_control_arm_target_is_safe (base_angle c) (shoulder_angle c) (elbow_angle c)"
    using ok by (simp add: controller_ok_def)
  note arm_fields = controller_ok_def gripper_control_is_moving_def arm_motion_ok_def claw_motion_ok_def
  note inv = ok [unfolded controller_ok_def]
  show ?thesis
  proof (cases rule: enable_outputs_cases [of c hw])
    case (failed hw2 status)
    then show ?thesis
      using True inv idle
      by (simp add: gripper_control_start_arm_motion_def Let_def arm_fields)
  next
    case (ok hw2)
    note started = this
    let ?c1 = "c\<lparr>outputs_enabled := True\<rparr>"
    have "duration_ok (gripper_control_max_u32 dur
        (if motion_type = UART_GRIPPER_MOTION_HOME
         then gripper_control_max_u32 (gripper_control_arm_minimum_duration ?c1 b s e)
           (gripper_control_claw_minimum_duration ?c1 (target_gripper_position ?c1))
         else gripper_control_arm_minimum_duration ?c1 b s e))"
      using arm_minimum_bound [of ?c1 b s e] pos True dur
      by (intro max_u32_duration_ok) (simp_all add: max_u32_nat claw_minimum_bound)
    note planned = this
    from type show ?thesis
    proof
      assume "motion_type = UART_GRIPPER_MOTION_ARM \<and> homed c"
      then show ?thesis
        using True started planned mid pos inv idle
        by (simp add: gripper_control_start_arm_motion_def Let_def arm_fields)
    next
      assume "motion_type = UART_GRIPPER_MOTION_HOME \<and> claw_motion_ok c"
      then show ?thesis
        using True started planned mid pos inv idle
        by (simp add: gripper_control_start_arm_motion_def Let_def arm_fields)
    qed
  qed
qed


lemma to_u32_cmd [simp]: "to_u32 (gripper_cmd_code k :: u8) = gripper_cmd_code k"
  by (cases k) simp_all

lemma move_payload_fields:
  assumes "uart_gripper_payload_is_valid (gripper_cmd_code UART_CMD_GRIPPER_MOVE_ARM) payload n"
  shows "uart_gripper_move_motion_id payload \<noteq> 0 \<and>
    duration_in_range (uart_gripper_move_duration_ms payload)"
  using assms by (simp add: uart_gripper_payload_is_valid_def motion_id_valid_u16 gripper_ranges
      split: if_splits)

lemma set_payload_fields:
  assumes "uart_gripper_payload_is_valid (gripper_cmd_code UART_CMD_GRIPPER_SET_GRIPPER) payload n"
  shows "uart_gripper_set_motion_id payload \<noteq> 0 \<and>
    duration_in_range (uart_gripper_set_duration_ms payload)"
  using assms by (simp add: uart_gripper_payload_is_valid_def motion_id_valid_u16 gripper_ranges
      split: if_splits option.splits)

lemma home_payload_fields:
  assumes "uart_gripper_payload_is_valid (gripper_cmd_code UART_CMD_GRIPPER_HOME) payload n"
  shows "uart_gripper_home_motion_id payload \<noteq> 0"
  using assms by (simp add: uart_gripper_payload_is_valid_def motion_id_valid_u16 split: if_splits)

lemma set_gripper_ok:
  assumes ok: "controller_ok c" and idle: "\<not> safety_latched c"
    and valid: "uart_gripper_payload_is_valid (gripper_cmd_code UART_CMD_GRIPPER_SET_GRIPPER) payload n"
  shows "controller_ok (fst (snd (command_set_gripper c hw payload now)))"
proof (cases "gripper_control_is_moving c \<or> \<not> claw_in_limits (the payload ! 2)")
  case True
  then show ?thesis using ok
    by (auto simp: command_set_gripper_def Let_def claw_in_limits_def not_le)
next
  case False
  then have idle2: "\<not> gripper_control_is_moving c" and claw: "claw_in_limits (the payload ! 2)" by auto
  then have in_limits: "\<not> (the payload ! 2 < 50 \<or> 65 < the payload ! 2)"
    by (auto simp: claw_in_limits_def not_less)
  note fields = controller_ok_def gripper_control_is_moving_def claw_motion_ok_def
  note inv = ok [unfolded controller_ok_def]
  show ?thesis
  proof (cases rule: enable_outputs_cases [of c hw])
    case (failed hw2 status)
    then show ?thesis
      using in_limits inv idle idle2 by (simp add: command_set_gripper_def Let_def fields)
  next
    case started: (ok hw2)
    have planned: "duration_ok (gripper_control_max_u32 (to_u32 (uart_gripper_set_duration_ms payload))
        (gripper_control_claw_minimum_duration (c\<lparr>outputs_enabled := True\<rparr>) (the payload ! 2)))"
      using set_payload_fields [OF valid]
      by (intro max_u32_duration_ok) (simp_all add: duration_in_range_def claw_minimum_bound)
    show ?thesis
      using in_limits inv idle idle2 started planned claw set_payload_fields [OF valid]
      by (simp add: command_set_gripper_def Let_def fields)
  qed
qed

lemma stopped_ok:
  assumes "controller_ok c" "\<not> safety_latched c"
  shows "controller_ok ((invalidate_completion c)\<lparr>ctl_state := UART_GRIPPER_STATE_STOPPED, active_motion_id := 0\<rparr>)"
    "controller_ok ((invalidate_completion c)\<lparr>ctl_state := UART_GRIPPER_STATE_STOPPED, active_motion_id := 0, homed := False\<rparr>)"
  using assms by (simp_all add: controller_ok_def gripper_control_is_moving_def)

lemma home_start_ok:
  assumes ok: "controller_ok c" and idle: "\<not> gripper_control_is_moving c" "\<not> safety_latched c"
  shows "controller_ok (c\<lparr>start_gripper_position := gripper_position c, target_gripper_position := 65\<rparr>) \<and>
    claw_motion_ok (c\<lparr>start_gripper_position := gripper_position c, target_gripper_position := 65\<rparr>)"
proof -
  have "claw_in_limits 65" by (simp add: claw_in_limits_def)
  then show ?thesis
    using ok idle by (simp add: controller_ok_def gripper_control_is_moving_def claw_motion_ok_def
        arm_motion_ok_def)
qed

lemma process_command_ok [invar_intro]:
  assumes ok: "controller_ok c"
  shows "controller_ok (the (fst (snd (gripper_control_process_command (Some c) hw command payload n now))))"
proof (cases "uart_gripper_payload_is_valid (to_u32 command) payload (to_u32 n) \<and>
    \<not> (safety_latched c \<and> command \<noteq> gripper_cmd_code UART_CMD_GRIPPER_GET_STATUS)")
  case False
  then show ?thesis using ok by (auto simp: gripper_control_process_command_def)
next
  case True
  then have valid: "uart_gripper_payload_is_valid (to_u32 command) payload (to_u32 n)" by blast
  note unfold = gripper_control_process_command_def option.case valid not_True_eq_False if_False
  consider (status) "command = gripper_cmd_code UART_CMD_GRIPPER_GET_STATUS"
    | (move) "command = gripper_cmd_code UART_CMD_GRIPPER_MOVE_ARM" "\<not> safety_latched c"
    | (set) "command = gripper_cmd_code UART_CMD_GRIPPER_SET_GRIPPER" "\<not> safety_latched c"
    | (home) "command = gripper_cmd_code UART_CMD_GRIPPER_HOME" "\<not> safety_latched c"
    | (stop) "command = gripper_cmd_code UART_CMD_GRIPPER_STOP" "\<not> safety_latched c"
    | (reset) "command = gripper_cmd_code UART_CMD_GRIPPER_RESET" "\<not> safety_latched c"
    using True gripper_wire.payload_command [OF valid]
    by (auto simp: uart_gripper_command_is_valid_def)
  then show ?thesis
  proof cases
    case status
    then show ?thesis using ok valid by (simp add: gripper_control_process_command_def)
  next
    case move
    have f: "uart_gripper_move_motion_id payload \<noteq> 0"
      "duration_in_range (uart_gripper_move_duration_ms payload)"
      using move_payload_fields [of payload "to_u32 n"] valid move by auto
    show ?thesis
      using start_arm_motion_ok [OF ok, of UART_GRIPPER_MOTION_ARM
          "to_u32 (uart_gripper_move_duration_ms payload)" "uart_gripper_move_motion_id payload"
          hw "uart_gripper_move_base_angle payload" "uart_gripper_move_shoulder_angle payload"
          "uart_gripper_move_elbow_angle payload" now]
        move f ok valid
      by (simp add: gripper_control_process_command_def duration_in_range_def split_beta)
  next
    case set
    then show ?thesis
      using set_gripper_ok [OF ok, of payload "to_u32 n" hw now] valid
      by (simp add: gripper_control_process_command_def split_beta)
  next
    case home
    have f: "uart_gripper_home_motion_id payload \<noteq> 0"
      using home_payload_fields [of payload "to_u32 n"] valid home by auto
    show ?thesis
    proof (cases "gripper_control_is_moving c")
      case True
      then show ?thesis using ok valid home by (simp add: gripper_control_process_command_def)
    next
      case False
      let ?c = "c\<lparr>start_gripper_position := gripper_position c, target_gripper_position := 65\<rparr>"
      have "controller_ok (fst (snd (gripper_control_start_arm_motion ?c hw
          (uart_gripper_home_motion_id payload) UART_GRIPPER_MOTION_HOME 1000 700 1200 2000 now)))"
        using home_start_ok [OF ok False home(2)] False home(2) f
        by (intro start_arm_motion_ok) simp_all
      then show ?thesis
        using False home valid
        by (simp add: gripper_control_process_command_def Let_def split_beta)
    qed
  next
    case stop
    then show ?thesis using stopped_ok(1) [OF ok] valid
      by (simp add: gripper_control_process_command_def)
  next
    case reset
    then show ?thesis using stopped_ok(2) [OF ok] valid
      by (simp add: gripper_control_process_command_def)
  qed
qed


lemma set_fault_ok:
  assumes "gripper_control_arm_target_is_safe (base_angle c) (shoulder_angle c) (elbow_angle c)"
    "claw_in_limits (gripper_position c)" "\<not> safety_latched c"
  shows "controller_ok (gripper_control_set_fault c e)"
  using assms by (simp add: gripper_control_set_fault_def controller_ok_def gripper_control_is_moving_def)

lemma tick_complete_ok:
  assumes "gripper_control_arm_target_is_safe (base_angle c) (shoulder_angle c) (elbow_angle c)"
    "claw_in_limits (gripper_position c)" "\<not> safety_latched c" "outputs_enabled c"
  shows "controller_ok (tick_complete c)"
  using assms by (simp add: tick_complete_def Let_def controller_ok_def gripper_control_is_moving_def)

lemma set_fault_fields [simp]:
  "ctl_servo (gripper_control_set_fault c e) = ctl_servo c"
  "base_angle (gripper_control_set_fault c e) = base_angle c"
  "shoulder_angle (gripper_control_set_fault c e) = shoulder_angle c"
  "elbow_angle (gripper_control_set_fault c e) = elbow_angle c"
  "gripper_position (gripper_control_set_fault c e) = gripper_position c"
  "ctl_state (gripper_control_set_fault c e) = UART_GRIPPER_STATE_FAULT"
  "homed (gripper_control_set_fault c e) = False"
  "outputs_enabled (gripper_control_set_fault c e) = outputs_enabled c"
  "safety_latched (gripper_control_set_fault c e) = safety_latched c"
  by (simp_all add: gripper_control_set_fault_def)

text \<open>What a tick of a moving controller writes: positions on the planned line.\<close>

definition moved_claw :: "'hw gripper_control_t \<Rightarrow> u32 \<Rightarrow> 'hw gripper_control_t" where
  "moved_claw c elapsed = c\<lparr>gripper_position := gripper_control_interpolate_u8
     (start_gripper_position c) (target_gripper_position c) elapsed (motion_duration_ms c)\<rparr>"

definition moved_arm :: "'hw gripper_control_t \<Rightarrow> u32 \<Rightarrow> 'hw gripper_control_t" where
  "moved_arm c elapsed = c\<lparr>
     base_angle := gripper_control_interpolate_u16 (start_base_angle c) (target_base_angle c)
       elapsed (motion_duration_ms c),
     shoulder_angle := gripper_control_interpolate_u16 (start_shoulder_angle c)
       (target_shoulder_angle c) elapsed (motion_duration_ms c),
     elbow_angle := gripper_control_interpolate_u16 (start_elbow_angle c) (target_elbow_angle c)
       elapsed (motion_duration_ms c)\<rparr>"

lemma tick_write_gripper_alt:
  "tick_write_gripper c hw elapsed =
     (case the (port_write_gripper (ctl_servo c)) hw (gripper_position (moved_claw c elapsed)) of
        (status, hw) \<Rightarrow>
          (if status \<noteq> 0 then Inl (gripper_control_set_fault (moved_claw c elapsed) UART_ERROR_SERVO)
           else Inr (moved_claw c elapsed), hw))"
  by (simp add: tick_write_gripper_def Let_def moved_claw_def split: prod.split)

lemma tick_write_arm_alt:
  "tick_write_arm c hw elapsed =
     (let c' = moved_arm c elapsed
      in case the (port_write_arm (ctl_servo c)) hw (base_angle c') (shoulder_angle c') (elbow_angle c') of
        (status, hw) \<Rightarrow>
          (if status \<noteq> 0 then (Inl (gripper_control_set_fault c' UART_ERROR_SERVO), hw)
           else if ctl_motion_type c = UART_GRIPPER_MOTION_HOME then tick_write_gripper c' hw elapsed
           else (Inr c', hw)))"
  by (simp add: tick_write_arm_def Let_def moved_arm_def split: prod.split)

lemma moved_fields [simp]:
  "ctl_servo (moved_claw c e) = ctl_servo c" "ctl_servo (moved_arm c e) = ctl_servo c"
  "ctl_state (moved_claw c e) = ctl_state c" "ctl_state (moved_arm c e) = ctl_state c"
  "ctl_motion_type (moved_claw c e) = ctl_motion_type c"
  "ctl_motion_type (moved_arm c e) = ctl_motion_type c"
  "active_motion_id (moved_claw c e) = active_motion_id c"
  "active_motion_id (moved_arm c e) = active_motion_id c"
  "motion_duration_ms (moved_claw c e) = motion_duration_ms c"
  "motion_duration_ms (moved_arm c e) = motion_duration_ms c"
  "outputs_enabled (moved_claw c e) = outputs_enabled c"
  "outputs_enabled (moved_arm c e) = outputs_enabled c"
  "homed (moved_claw c e) = homed c" "homed (moved_arm c e) = homed c"
  "safety_latched (moved_claw c e) = safety_latched c"
  "safety_latched (moved_arm c e) = safety_latched c"
  "base_angle (moved_claw c e) = base_angle c" "shoulder_angle (moved_claw c e) = shoulder_angle c"
  "elbow_angle (moved_claw c e) = elbow_angle c" "gripper_position (moved_arm c e) = gripper_position c"
  "moved_claw (moved_arm c e) e' = (moved_arm c e)\<lparr>gripper_position := gripper_position (moved_claw c e')\<rparr>"
  by (simp_all add: moved_claw_def moved_arm_def)

text \<open>The tick, by kind of motion and by what the servos answer.\<close>

definition moved_to :: "'hw gripper_control_t \<Rightarrow> u32 \<Rightarrow> 'hw gripper_control_t" where
  "moved_to c elapsed =
     (case ctl_motion_type c of
        UART_GRIPPER_MOTION_GRIPPER \<Rightarrow> moved_claw c elapsed
      | UART_GRIPPER_MOTION_ARM \<Rightarrow> moved_arm c elapsed
      | UART_GRIPPER_MOTION_HOME \<Rightarrow> moved_claw (moved_arm c elapsed) elapsed)"

lemma moving_motion_type:
  assumes "controller_ok c" "gripper_control_is_moving c"
  shows "ctl_motion_type c = UART_GRIPPER_MOTION_GRIPPER \<and> claw_motion_ok c \<or>
    ctl_motion_type c = UART_GRIPPER_MOTION_ARM \<and> arm_motion_ok c \<or>
    ctl_motion_type c = UART_GRIPPER_MOTION_HOME \<and> arm_motion_ok c \<and> claw_motion_ok c"
  using assms by (auto simp: controller_ok_def gripper_control_is_moving_def)

lemma moved_safe:
  assumes "controller_ok c" "gripper_control_is_moving c" "uint e \<le> uint (motion_duration_ms c)"
  shows "arm_motion_ok c \<Longrightarrow> gripper_control_arm_target_is_safe (base_angle (moved_arm c e))
      (shoulder_angle (moved_arm c e)) (elbow_angle (moved_arm c e))"
    and "claw_motion_ok c \<Longrightarrow> claw_in_limits (gripper_position (moved_claw c e))"
proof -
  have d: "duration_ok (motion_duration_ms c)" using assms by (simp add: controller_ok_def)
  show "arm_motion_ok c \<Longrightarrow> gripper_control_arm_target_is_safe (base_angle (moved_arm c e))
      (shoulder_angle (moved_arm c e)) (elbow_angle (moved_arm c e))"
    using interpolate_arm_safe [OF _ _ assms(3) d] by (simp add: moved_arm_def arm_motion_ok_def)
  show "claw_motion_ok c \<Longrightarrow> claw_in_limits (gripper_position (moved_claw c e))"
    using interpolate_claw_safe [OF _ _ assms(3) d] by (simp add: moved_claw_def claw_motion_ok_def)
qed

definition positions_safe :: "'hw gripper_control_t \<Rightarrow> bool" where
  "positions_safe c \<longleftrightarrow>
     gripper_control_arm_target_is_safe (base_angle c) (shoulder_angle c) (elbow_angle c) \<and>
     claw_in_limits (gripper_position c)"

lemma moved_positions_safe:
  assumes "controller_ok c" "gripper_control_is_moving c" "uint e \<le> uint (motion_duration_ms c)"
  shows "arm_motion_ok c \<Longrightarrow> positions_safe (moved_arm c e)"
    "claw_motion_ok c \<Longrightarrow> positions_safe (moved_claw c e)"
    "arm_motion_ok c \<Longrightarrow> claw_motion_ok c \<Longrightarrow> positions_safe (moved_claw (moved_arm c e) e)"
  using moved_safe [OF assms] assms(1) by (simp_all add: positions_safe_def controller_ok_def)

definition tick_writes ::
  "'hw gripper_control_t \<Rightarrow> 'hw \<Rightarrow> u32 \<Rightarrow> ('hw gripper_control_t + 'hw gripper_control_t) \<times> 'hw" where
  "tick_writes c hw e = (if ctl_motion_type c = UART_GRIPPER_MOTION_GRIPPER
     then tick_write_gripper c hw e else tick_write_arm c hw e)"

lemma tick_writes_cases:
  assumes "controller_ok c" "gripper_control_is_moving c" "uint e \<le> uint (motion_duration_ms c)"
  shows "positions_safe (moved_to c e) \<and>
    (fst (tick_writes c hw e) = Inr (moved_to c e) \<or>
     (\<exists>m. fst (tick_writes c hw e) = Inl (gripper_control_set_fault m UART_ERROR_SERVO) \<and>
        positions_safe m \<and> ctl_servo m = ctl_servo c \<and> safety_latched m = safety_latched c \<and>
        active_motion_id m = active_motion_id c \<and> ctl_motion_type m = ctl_motion_type c))"
proof -
  note safe = moved_positions_safe [OF assms]
  from moving_motion_type [OF assms(1,2)] consider
    (claw) "ctl_motion_type c = UART_GRIPPER_MOTION_GRIPPER" "claw_motion_ok c"
    | (arm) "ctl_motion_type c = UART_GRIPPER_MOTION_ARM" "arm_motion_ok c"
    | (home) "ctl_motion_type c = UART_GRIPPER_MOTION_HOME" "arm_motion_ok c" "claw_motion_ok c"
    by blast
  then show ?thesis
  proof cases
    case claw
    have "fst (tick_writes c hw e) = Inr (moved_claw c e) \<or>
        fst (tick_writes c hw e) = Inl (gripper_control_set_fault (moved_claw c e) UART_ERROR_SERVO)"
      using claw by (simp add: tick_writes_def tick_write_gripper_alt split_beta)
    then show ?thesis using claw safe(2) by (auto simp: moved_to_def)
  next
    case arm
    have "fst (tick_writes c hw e) = Inr (moved_arm c e) \<or>
        fst (tick_writes c hw e) = Inl (gripper_control_set_fault (moved_arm c e) UART_ERROR_SERVO)"
      using arm by (simp add: tick_writes_def tick_write_arm_alt Let_def split_beta)
    then show ?thesis using arm safe(1) by (auto simp: moved_to_def)
  next
    case home
    have "fst (tick_writes c hw e) = Inr (moved_claw (moved_arm c e) e) \<or>
        fst (tick_writes c hw e) = Inl (gripper_control_set_fault (moved_arm c e) UART_ERROR_SERVO) \<or>
        fst (tick_writes c hw e) = Inl (gripper_control_set_fault (moved_claw (moved_arm c e) e) UART_ERROR_SERVO)"
      using home by (simp add: tick_writes_def tick_write_arm_alt tick_write_gripper_alt Let_def split_beta
          del: moved_fields(21))
    then show ?thesis
    proof (elim disjE)
      assume "fst (tick_writes c hw e) = Inr (moved_claw (moved_arm c e) e)"
      then show ?thesis using home safe(3) by (simp only: moved_to_def uart_gripper_motion_type_t.case) simp
    next
      assume "fst (tick_writes c hw e) = Inl (gripper_control_set_fault (moved_arm c e) UART_ERROR_SERVO)"
      then show ?thesis using home safe by (auto simp only: moved_to_def uart_gripper_motion_type_t.case moved_fields)
    next
      assume "fst (tick_writes c hw e) =
        Inl (gripper_control_set_fault (moved_claw (moved_arm c e) e) UART_ERROR_SERVO)"
      moreover have "positions_safe (moved_claw (moved_arm c e) e)" using safe(3) home by blast
      moreover have "moved_to c e = moved_claw (moved_arm c e) e"
        by (simp only: moved_to_def home uart_gripper_motion_type_t.case)
      moreover have "ctl_servo (moved_claw (moved_arm c e) e) = ctl_servo c"
        "safety_latched (moved_claw (moved_arm c e) e) = safety_latched c"
        "active_motion_id (moved_claw (moved_arm c e) e) = active_motion_id c"
        "ctl_motion_type (moved_claw (moved_arm c e) e) = ctl_motion_type c"
        by (simp_all only: moved_fields(1-20))
      ultimately show ?thesis by metis
    qed
  qed
qed

lemma tick_alt:
  "gripper_control_tick (Some c) hw now =
     (if \<not> gripper_control_is_moving c \<or> safety_latched c then (Some c, hw)
      else (case tick_writes c hw (tick_elapsed c now) of
          (Inl c', hw') \<Rightarrow> (Some c', hw')
        | (Inr c', hw') \<Rightarrow>
            (Some (if tick_elapsed c now = motion_duration_ms c' then tick_complete c' else c'), hw')))"
  by (auto simp: gripper_control_tick_def Let_def tick_writes_def split: prod.splits sum.splits)

lemma moved_to_ok:
  assumes "controller_ok c" "positions_safe (moved_to c e)"
  shows "controller_ok (moved_to c e)"
  using assms by (cases "ctl_motion_type c")
    (auto simp: controller_ok_def positions_safe_def moved_to_def gripper_control_is_moving_def
      arm_motion_ok_def claw_motion_ok_def moved_arm_def moved_claw_def)

lemma tick_ok [invar_intro]:
  assumes ok: "controller_ok c"
  shows "controller_ok (the (fst (gripper_control_tick (Some c) hw now)))"
proof (cases "gripper_control_is_moving c \<and> \<not> safety_latched c")
  case False
  then show ?thesis using ok by (auto simp: tick_alt)
next
  case True
  let ?e = "tick_elapsed c now"
  have safe: "positions_safe (moved_to c ?e)"
    using tick_writes_cases [OF ok _ tick_elapsed_le] True by blast
  have "outputs_enabled (moved_to c ?e) \<and> safety_latched (moved_to c ?e) = safety_latched c"
    using ok True by (cases "ctl_motion_type c") (simp_all add: moved_to_def controller_ok_def del: moved_fields(21))
  then have complete: "controller_ok (tick_complete (moved_to c ?e))"
    using safe True by (intro tick_complete_ok) (simp_all add: positions_safe_def)
  consider "fst (tick_writes c hw ?e) = Inr (moved_to c ?e)"
    | m where "fst (tick_writes c hw ?e) = Inl (gripper_control_set_fault m UART_ERROR_SERVO)"
      "positions_safe m" "\<not> safety_latched m"
    using tick_writes_cases [OF ok _ tick_elapsed_le, of now hw] True by blast
  then show ?thesis
  proof cases
    case 1
    then show ?thesis
      using True complete moved_to_ok [OF ok safe] by (auto simp: tick_alt split_beta)
  next
    case 2
    then have "controller_ok (gripper_control_set_fault m UART_ERROR_SERVO)"
      by (intro set_fault_ok) (simp_all add: positions_safe_def)
    then show ?thesis using True 2 by (auto simp: tick_alt split_beta)
  qed
qed


section \<open>The servo port's contract\<close>

text \<open>
  What the controller needs of a port: enabling it and writing positions inside the
  calibrated limits keep the hardware safe; once enabled it stays so and accepts writes.
\<close>

locale servo_port =
  fixes port :: "'hw gripper_servo_port_t"
    and safe :: "'hw \<Rightarrow> bool"
    and powered :: "'hw \<Rightarrow> bool"
  assumes enable_safe: "safe hw \<Longrightarrow> safe (snd (the (port_enable port) hw))"
    and enable_powers: "fst (the (port_enable port) hw) = 0 \<Longrightarrow> powered (snd (the (port_enable port) hw))"
    and write_arm_safe: "safe hw \<Longrightarrow> gripper_control_arm_target_is_safe b s e \<Longrightarrow>
      safe (snd (the (port_write_arm port) hw b s e))"
    and write_arm_powered: "powered hw \<Longrightarrow>
      fst (the (port_write_arm port) hw b s e) = 0 \<and> powered (snd (the (port_write_arm port) hw b s e))"
    and write_gripper_safe: "safe hw \<Longrightarrow> claw_in_limits p \<Longrightarrow>
      safe (snd (the (port_write_gripper port) hw p))"
    and write_gripper_powered: "powered hw \<Longrightarrow>
      fst (the (port_write_gripper port) hw p) = 0 \<and> powered (snd (the (port_write_gripper port) hw p))"
begin

text \<open>Controller and hardware together.\<close>

definition system_ok :: "'hw gripper_control_t \<Rightarrow> 'hw \<Rightarrow> bool" where
  "system_ok c hw \<longleftrightarrow> controller_ok c \<and> ctl_servo c = port \<and> safe hw \<and>
     (outputs_enabled c \<longrightarrow> powered hw)"

lemma enable_system:
  assumes "ctl_servo c = port" "safe hw" "outputs_enabled c \<longrightarrow> powered hw"
    and "gripper_control_enable_outputs c hw = (status, c', hw')"
  shows "safe hw' \<and> (outputs_enabled c' \<longrightarrow> powered hw') \<and> ctl_servo c' = port"
  using assms enable_safe [of hw] enable_powers [of hw]
  by (auto simp: gripper_control_enable_outputs_def Let_def split: if_splits prod.splits)

lemma start_arm_motion_system:
  assumes "ctl_servo c = port" "safe hw" "outputs_enabled c \<longrightarrow> powered hw"
    and "gripper_control_start_arm_motion c hw mid ty b s e dur now = (r, c', hw')"
  shows "safe hw' \<and> (outputs_enabled c' \<longrightarrow> powered hw') \<and> ctl_servo c' = port"
proof (cases "gripper_control_arm_target_is_safe b s e")
  case True
  obtain status c1 hw1 where en: "gripper_control_enable_outputs c hw = (status, c1, hw1)"
    by (cases "gripper_control_enable_outputs c hw") auto
  note enabled = enable_system [OF assms(1-3) en]
  show ?thesis
    using assms(4) True en enabled
    by (auto simp: gripper_control_start_arm_motion_def Let_def split: if_splits)
qed (use assms in \<open>auto simp: gripper_control_start_arm_motion_def\<close>)

lemma command_set_gripper_system:
  assumes "ctl_servo c = port" "safe hw" "outputs_enabled c \<longrightarrow> powered hw"
    and "command_set_gripper c hw payload now = (r, c', hw')"
  shows "safe hw' \<and> (outputs_enabled c' \<longrightarrow> powered hw') \<and> ctl_servo c' = port"
proof -
  obtain status c1 hw1 where en: "gripper_control_enable_outputs c hw = (status, c1, hw1)"
    by (cases "gripper_control_enable_outputs c hw") auto
  note enabled = enable_system [OF assms(1-3) en]
  show ?thesis
    using assms(1-4) en enabled
    by (auto simp: command_set_gripper_def Let_def split: if_splits)
qed

lemma process_command_system:
  assumes "system_ok c hw"
    and run: "gripper_control_process_command (Some c) hw command payload n now = (r, Some c', hw')"
  shows "system_ok c' hw'"
proof -
  have st: "ctl_servo c = port" "safe hw" "outputs_enabled c \<longrightarrow> powered hw" "controller_ok c"
    using assms(1) by (auto simp: system_ok_def)
  have st': "ctl_servo (c\<lparr>start_gripper_position := x, target_gripper_position := y\<rparr>) = port"
    "outputs_enabled (c\<lparr>start_gripper_position := x, target_gripper_position := y\<rparr>) \<longrightarrow> powered hw" for x y
    using st by simp_all
  note start = start_arm_motion_system [OF st(1-3)]
    and home = start_arm_motion_system [OF st'(1) st(2) st'(2)]
    and claw = command_set_gripper_system [OF st(1-3)]
  have "controller_ok c'"
    using process_command_ok [OF st(4), of hw command payload n now] run by simp
  moreover have "safe hw' \<and> (outputs_enabled c' \<longrightarrow> powered hw') \<and> ctl_servo c' = port"
    using run st unfolding gripper_control_process_command_def option.case Let_def
    by (auto dest: start home claw split: if_splits prod.splits)
  ultimately show ?thesis by (simp add: system_ok_def)
qed

lemma tick_writes_system:
  assumes sys: "system_ok c hw" and mov: "gripper_control_is_moving c"
    and e: "uint e \<le> uint (motion_duration_ms c)"
  shows "fst (tick_writes c hw e) = Inr (moved_to c e) \<and> safe (snd (tick_writes c hw e)) \<and>
    powered (snd (tick_writes c hw e))"
proof -
  have ok: "controller_ok c" "ctl_servo c = port" "safe hw" "powered hw"
    using sys mov by (auto simp: system_ok_def controller_ok_def)
  note pos = moved_positions_safe [OF ok(1) mov e, unfolded positions_safe_def]
  from moving_motion_type [OF ok(1) mov] consider
    (claw) "ctl_motion_type c = UART_GRIPPER_MOTION_GRIPPER" "claw_motion_ok c"
    | (arm) "ctl_motion_type c = UART_GRIPPER_MOTION_ARM" "arm_motion_ok c"
    | (home) "ctl_motion_type c = UART_GRIPPER_MOTION_HOME" "arm_motion_ok c" "claw_motion_ok c"
    by blast
  then show ?thesis
  proof cases
    case claw
    have "claw_in_limits (gripper_position (moved_claw c e))" using pos(2) claw by blast
    then show ?thesis using claw ok write_gripper_powered write_gripper_safe
      by (simp add: tick_writes_def tick_write_gripper_alt moved_to_def split_beta)
  next
    case arm
    then show ?thesis using pos(1) ok write_arm_powered write_arm_safe
      by (simp add: tick_writes_def tick_write_arm_alt Let_def moved_to_def split_beta)
  next
    case home
    let ?a = "moved_arm c e" and ?h = "moved_claw (moved_arm c e) e"
    obtain status hw1 where w: "the (port_write_arm port) hw (base_angle ?a) (shoulder_angle ?a)
        (elbow_angle ?a) = (status, hw1)"
      by (cases "the (port_write_arm port) hw (base_angle ?a) (shoulder_angle ?a) (elbow_angle ?a)")
    have hw1: "status = 0" "safe hw1" "powered hw1"
      using w pos(1) home ok write_arm_powered [of hw "base_angle ?a" "shoulder_angle ?a" "elbow_angle ?a"]
        write_arm_safe [of hw "base_angle ?a" "shoulder_angle ?a" "elbow_angle ?a"] by auto
    have claw: "claw_in_limits (gripper_position ?h)" using pos(3) home by blast
    have "tick_writes c hw e = tick_write_gripper ?a hw1 e"
      using w hw1(1) home ok(2) by (simp add: tick_writes_def tick_write_arm_alt Let_def)
    moreover have "fst (tick_write_gripper ?a hw1 e) = Inr ?h \<and>
        safe (snd (tick_write_gripper ?a hw1 e)) \<and> powered (snd (tick_write_gripper ?a hw1 e))"
      using write_gripper_powered [OF hw1(3), of "gripper_position ?h"]
        write_gripper_safe [OF hw1(2) claw] ok(2)
      by (simp add: tick_write_gripper_alt split_beta del: moved_fields(21))
    moreover have "moved_to c e = ?h"
      by (simp only: moved_to_def home uart_gripper_motion_type_t.case)
    ultimately show ?thesis by metis
  qed
qed

lemma moved_to_fields:
  "ctl_servo (moved_to c e) = ctl_servo c" "outputs_enabled (moved_to c e) = outputs_enabled c"
  "motion_duration_ms (moved_to c e) = motion_duration_ms c"
  "active_motion_id (moved_to c e) = active_motion_id c"
  "ctl_motion_type (moved_to c e) = ctl_motion_type c"
  by (cases "ctl_motion_type c"; simp add: moved_to_def del: moved_fields(21))+

lemma tick_system_alt:
  assumes "system_ok c hw"
  shows "fst (gripper_control_tick (Some c) hw now) = Some
    (if \<not> gripper_control_is_moving c then c
     else if tick_elapsed c now = motion_duration_ms c
     then tick_complete (moved_to c (motion_duration_ms c))
     else moved_to c (tick_elapsed c now))"
proof (cases "gripper_control_is_moving c")
  case True
  then have "\<not> safety_latched c"
    using assms by (auto simp: system_ok_def controller_ok_def gripper_control_is_moving_def)
  then show ?thesis
    using True tick_writes_system [OF assms True tick_elapsed_le, of now]
    by (auto simp: tick_alt split_beta moved_to_fields)
qed (simp add: tick_alt)

lemma tick_system:
  assumes "system_ok c hw"
    and "gripper_control_tick (Some c) hw now = (Some c', hw')"
  shows "system_ok c' hw'"
proof (cases "gripper_control_is_moving c")
  case False
  then show ?thesis using assms by (simp add: tick_alt)
next
  case True
  have "controller_ok c'"
    using tick_ok [of c hw now] assms by (simp add: system_ok_def)
  moreover have "\<not> safety_latched c"
    using assms True by (auto simp: system_ok_def controller_ok_def gripper_control_is_moving_def)
  then have "hw' = snd (tick_writes c hw (tick_elapsed c now))"
    using assms(2) True tick_writes_system [OF assms(1) True tick_elapsed_le, of now]
    by (auto simp: tick_alt split_beta)
  moreover have "ctl_servo c' = ctl_servo c"
    using tick_system_alt [OF assms(1), of now] assms(2) True
    by (auto simp: moved_to_fields tick_complete_def Let_def)
  ultimately show ?thesis
    using tick_writes_system [OF assms(1) True tick_elapsed_le, of now] assms(1)
    by (simp add: system_ok_def)
qed

lemma tick_completes:
  assumes sys: "system_ok c hw" and mov: "gripper_control_is_moving c"
    and late: "motion_duration_ms c \<le> now - motion_start_tick c"
  shows "\<exists>c'. fst (gripper_control_tick (Some c) hw now) = Some c' \<and>
    ctl_state c' = UART_GRIPPER_STATE_IDLE \<and> active_motion_id c' = 0 \<and>
    ctl_completion c' = \<lparr>completion_valid = True, completion_fault = False,
      completion_motion_id = active_motion_id c, completion_motion_type = ctl_motion_type c,
      completion_error = UART_ERROR_NONE\<rparr> \<and>
    (ctl_motion_type c \<noteq> UART_GRIPPER_MOTION_GRIPPER \<longrightarrow>
       base_angle c' = target_base_angle c \<and> shoulder_angle c' = target_shoulder_angle c \<and>
       elbow_angle c' = target_elbow_angle c) \<and>
    (ctl_motion_type c \<noteq> UART_GRIPPER_MOTION_ARM \<longrightarrow> gripper_position c' = target_gripper_position c) \<and>
    (ctl_motion_type c = UART_GRIPPER_MOTION_HOME \<longrightarrow> homed c')"
proof -
  have d: "0 < uint (motion_duration_ms c)" "uint (motion_duration_ms c) < 2147483648"
    using sys mov duration_uint by (auto simp: system_ok_def controller_ok_def)
  have "tick_elapsed c now = motion_duration_ms c"
    using late by (simp add: tick_elapsed_def)
  then have "fst (gripper_control_tick (Some c) hw now) =
      Some (tick_complete (moved_to c (motion_duration_ms c)))"
    using tick_system_alt [OF sys, of now] mov by simp
  then show ?thesis
    by (cases "ctl_motion_type c")
      (simp_all add: tick_complete_def Let_def moved_to_def moved_arm_def moved_claw_def
        interpolate_u16_end [OF d] interpolate_u8_end [OF d])
qed

end

end
