(* ===== verification/Gripper_System.thy ===== *)
theory Gripper_System
  imports Gripper_Control
begin

text \<open>
  The motion controller on the MG90S servos: the port of \<open>gripper_servo.c\<close> keeps the
  contract, every sequence of controller calls keeps the system invariant, and the
  properties of the whole follow.
\<close>

section \<open>The MG90S port keeps the contract\<close>

definition servos_powered :: "servo_hw ptr \<Rightarrow> bool" where
  "servos_powered hw = (case hw of None \<Rightarrow> False | Some h \<Rightarrow> servo_enabled h)"

lemma pulse_word:
  "uint (gripper_servo_angle_to_pulse a 600 2400) = 600 + uint a" if "uint a \<le> 1800"
proof -
  have "unat a \<le> 1800" using that unfolding uint_nat by linarith
  then show ?thesis unfolding uint_nat using angle_to_pulse_nat [of a] by linarith
qed

lemma claw_pulse_word:
  "uint (gripper_servo_position_to_pulse p) = 600 + uint p * 18" if "uint p \<le> 100"
proof -
  have "unat p \<le> 100" using that unfolding uint_nat by linarith
  then show ?thesis unfolding uint_nat using position_to_pulse_nat [of p] by linarith
qed

definition pulse_ok :: "tim_channel \<Rightarrow> u32 \<Rightarrow> bool" where
  "pulse_ok ch w \<longleftrightarrow> fst (joint_range ch) \<le> unat w \<and> unat w \<le> snd (joint_range ch)"

lemma pulse_ok_uint: "pulse_ok ch w \<longleftrightarrow> int (fst (joint_range ch)) \<le> uint w \<and> uint w \<le> int (snd (joint_range ch))"
  by (simp only: pulse_ok_def uint_nat of_nat_le_iff)

lemma arm_pulses_ok:
  assumes "gripper_control_arm_target_is_safe b s e"
  shows "pulse_ok TIM_CHANNEL_1 (gripper_servo_angle_to_pulse b 600 2400)"
    "pulse_ok TIM_CHANNEL_2 (gripper_servo_angle_to_pulse s 600 2400)"
    "pulse_ok TIM_CHANNEL_3 (gripper_servo_angle_to_pulse e 600 2400)"
  using assms by (simp_all add: arm_safe_uint pulse_ok_uint pulse_word joint_range_def)

lemma claw_pulse_ok:
  assumes "claw_in_limits p"
  shows "pulse_ok TIM_CHANNEL_4 (gripper_servo_position_to_pulse p)"
  using assms by (simp add: claw_uint pulse_ok_uint claw_pulse_word joint_range_def)

lemma home_pulses_ok:
  "pulse_ok TIM_CHANNEL_1 (gripper_servo_angle_to_pulse 1000 600 2400)"
  "pulse_ok TIM_CHANNEL_2 (gripper_servo_angle_to_pulse 700 600 2400)"
  "pulse_ok TIM_CHANNEL_3 (gripper_servo_angle_to_pulse 1200 600 2400)"
  "pulse_ok TIM_CHANNEL_4 (gripper_servo_position_to_pulse 65)"
proof -
  have "gripper_control_arm_target_is_safe 1000 700 1200" "claw_in_limits 65"
    by (simp_all add: gripper_control_arm_target_is_safe_def claw_in_limits_def)
  then show "pulse_ok TIM_CHANNEL_1 (gripper_servo_angle_to_pulse 1000 600 2400)"
    "pulse_ok TIM_CHANNEL_2 (gripper_servo_angle_to_pulse 700 600 2400)"
    "pulse_ok TIM_CHANNEL_3 (gripper_servo_angle_to_pulse 1200 600 2400)"
    "pulse_ok TIM_CHANNEL_4 (gripper_servo_position_to_pulse 65)"
    using arm_pulses_ok claw_pulse_ok by blast+
qed

lemma pulses_safe_all: "(\<forall>ch. pulse_ok ch (tim3_compare h ch)) \<Longrightarrow> pulses_safe (Some h)"
  by (simp add: pulses_safe_def pulse_ok_def)

lemma all_channels: "(\<forall>ch. P ch) \<longleftrightarrow> P TIM_CHANNEL_1 \<and> P TIM_CHANNEL_2 \<and> P TIM_CHANNEL_3 \<and> P TIM_CHANNEL_4"
  by (metis tim_channel.exhaust)

lemma enable_compare:
  assumes "\<not> servo_enabled h" "gripper_servo_enable hal_ok (Some h) = (status, Some h')"
  shows "\<forall>ch. pulse_ok ch (tim3_compare h' ch)"
  using assms home_pulses_ok
  by (auto simp: all_channels gripper_servo_enable_def pwm_start_def pwm_stop_def set_compare_def Let_def
      split: if_splits)

lemma enable_some:
  obtains status h' where "gripper_servo_enable hal_ok (Some h) = (status, Some h')"
    "status = 0 \<Longrightarrow> servo_enabled h'"
proof -
  have "\<exists>status h'. gripper_servo_enable hal_ok (Some h) = (status, Some h') \<and>
      (status = 0 \<longrightarrow> servo_enabled h')"
    by (cases "servo_enabled h"; cases "hal_ok TIM_CHANNEL_1"; cases "hal_ok TIM_CHANNEL_2";
        cases "hal_ok TIM_CHANNEL_3"; cases "hal_ok TIM_CHANNEL_4")
      (simp_all add: gripper_servo_enable_def pwm_start_def Let_def)
  then show ?thesis using that by blast
qed

lemma mg90s_enable_contract:
  "pulses_safe hw \<Longrightarrow> pulses_safe (snd (gripper_servo_enable hal_ok hw))"
  "fst (gripper_servo_enable hal_ok hw) = 0 \<Longrightarrow> servos_powered (snd (gripper_servo_enable hal_ok hw))"
proof -
  show "pulses_safe (snd (gripper_servo_enable hal_ok hw))" if safe: "pulses_safe hw"
  proof (cases hw)
    case None
    then show ?thesis by (simp add: gripper_servo_enable_def pulses_safe_def)
  next
    case (Some h)
    obtain status h' where en: "gripper_servo_enable hal_ok (Some h) = (status, Some h')"
      by (rule enable_some)
    show ?thesis
    proof (cases "servo_enabled h")
      case True
      then show ?thesis using safe Some by (simp add: gripper_servo_enable_def)
    next
      case False
      show ?thesis using pulses_safe_all [OF enable_compare [OF False en]] Some en by simp
    qed
  qed
  show "servos_powered (snd (gripper_servo_enable hal_ok hw))"
    if "fst (gripper_servo_enable hal_ok hw) = 0"
  proof (cases hw)
    case None
    then show ?thesis using that by (simp add: gripper_servo_enable_def)
  next
    case (Some h)
    obtain status h' where "gripper_servo_enable hal_ok (Some h) = (status, Some h')"
      "status = 0 \<Longrightarrow> servo_enabled h'"
      using enable_some by blast
    then show ?thesis using that Some by (simp add: servos_powered_def)
  qed
qed

interpretation mg90s: servo_port "gripper_servo_mg90s_port hal_ok" pulses_safe servos_powered
proof
  fix hw :: "servo_hw ptr" and b s e :: u16 and p :: u8
  show "pulses_safe hw \<Longrightarrow> pulses_safe (snd (the (port_enable (gripper_servo_mg90s_port hal_ok)) hw))"
    "fst (the (port_enable (gripper_servo_mg90s_port hal_ok)) hw) = 0 \<Longrightarrow>
       servos_powered (snd (the (port_enable (gripper_servo_mg90s_port hal_ok)) hw))"
    using mg90s_enable_contract by (simp_all add: gripper_servo_mg90s_port_def)
  show "pulses_safe (snd (the (port_write_arm (gripper_servo_mg90s_port hal_ok)) hw b s e))"
    if "pulses_safe hw" "gripper_control_arm_target_is_safe b s e"
  proof (cases "servos_powered hw")
    case True
    then obtain h where h: "hw = Some h" "servo_enabled h"
      by (auto simp: servos_powered_def split: option.splits)
    then have "\<forall>ch. pulse_ok ch (tim3_compare h ch)"
      using that(1) by (simp add: pulses_safe_def pulse_ok_def)
    then show ?thesis
      using h arm_pulses_ok [OF that(2)]
      by (auto simp: gripper_servo_mg90s_port_def gripper_servo_write_arm_def set_compare_def Let_def
          intro!: pulses_safe_all)
  next
    case False
    then show ?thesis using that(1)
      by (auto simp: gripper_servo_mg90s_port_def gripper_servo_write_arm_def servos_powered_def
          split: option.splits)
  qed
  show "fst (the (port_write_arm (gripper_servo_mg90s_port hal_ok)) hw b s e) = 0 \<and>
      servos_powered (snd (the (port_write_arm (gripper_servo_mg90s_port hal_ok)) hw b s e))"
    if "servos_powered hw"
    using that by (auto simp: gripper_servo_mg90s_port_def gripper_servo_write_arm_def Let_def
        servos_powered_def set_compare_def split: option.splits)
  show "pulses_safe (snd (the (port_write_gripper (gripper_servo_mg90s_port hal_ok)) hw p))"
    if "pulses_safe hw" "claw_in_limits p"
  proof (cases "servos_powered hw")
    case True
    then obtain h where h: "hw = Some h" "servo_enabled h"
      by (auto simp: servos_powered_def split: option.splits)
    then have "\<forall>ch. pulse_ok ch (tim3_compare h ch)"
      using that(1) by (simp add: pulses_safe_def pulse_ok_def)
    then show ?thesis
      using h claw_pulse_ok [OF that(2)]
      by (auto simp: gripper_servo_mg90s_port_def gripper_servo_write_gripper_def set_compare_def
          intro!: pulses_safe_all)
  next
    case False
    then show ?thesis using that(1)
      by (auto simp: gripper_servo_mg90s_port_def gripper_servo_write_gripper_def servos_powered_def
          split: option.splits)
  qed
  show "fst (the (port_write_gripper (gripper_servo_mg90s_port hal_ok)) hw p) = 0 \<and>
      servos_powered (snd (the (port_write_gripper (gripper_servo_mg90s_port hal_ok)) hw p))"
    if "servos_powered hw"
    using that by (auto simp: gripper_servo_mg90s_port_def gripper_servo_write_gripper_def
        servos_powered_def set_compare_def split: option.splits)
qed

section \<open>The system of controller and servos\<close>

text \<open>
  One call of a controller operation, in whatever order the callers make them. The hardware
  only changes through the port.
\<close>

type_synonym gripper_system = "servo_hw ptr gripper_control_t \<times> servo_hw ptr"

inductive gripper_step :: "gripper_system \<Rightarrow> gripper_system \<Rightarrow> bool" where
  step_command: "gripper_control_process_command (Some c) hw command payload n now = (r, Some c', hw') \<Longrightarrow>
     gripper_step (c, hw) (c', hw')"
| step_tick: "gripper_control_tick (Some c) hw now = (Some c', hw') \<Longrightarrow> gripper_step (c, hw) (c', hw')"
| step_take: "gripper_control_take_completion (Some c) (Some d) = (b, Some c', d') \<Longrightarrow>
     gripper_step (c, hw) (c', hw)"
| step_stop: "gripper_control_apply_safety_stop (Some c) = Some c' \<Longrightarrow> gripper_step (c, hw) (c', hw)"
| step_release: "gripper_control_release_safety (Some c) = Some c' \<Longrightarrow> gripper_step (c, hw) (c', hw)"

inductive_cases gripper_stepE: "gripper_step s s'"

inductive gripper_reachable :: "(tim_channel \<Rightarrow> bool) \<Rightarrow> gripper_system \<Rightarrow> bool" for hal_ok where
  reach_init: "gripper_control_init (Some c0) (Some (gripper_servo_mg90s_port hal_ok)) = (GRIPPER_CONTROL_OK, Some c) \<Longrightarrow>
     hw = Some h \<Longrightarrow> \<not> servo_enabled h \<Longrightarrow> (\<forall>ch. \<not> tim3_running h ch) \<Longrightarrow>
     gripper_reachable hal_ok (c, hw)"
| reach_step: "gripper_reachable hal_ok s \<Longrightarrow> gripper_step s s' \<Longrightarrow> gripper_reachable hal_ok s'"

lemma init_ok:
  assumes "gripper_control_init (Some c0) (Some port) = (GRIPPER_CONTROL_OK, Some c)"
  shows "controller_ok c \<and> ctl_servo c = port \<and> \<not> outputs_enabled c"
  using assms by (auto simp: gripper_control_init_def zero_controller_def controller_ok_def
      gripper_control_is_moving_def claw_in_limits_def gripper_control_arm_target_is_safe_def
      split: if_splits)

lemma safety_ops_ok:
  assumes "controller_ok c"
  shows "controller_ok (the (gripper_control_apply_safety_stop (Some c)))"
    "controller_ok (the (gripper_control_release_safety (Some c)))"
    "controller_ok (invalidate_completion c)"
proof -
  note inv = assms [unfolded controller_ok_def]
  show "controller_ok (the (gripper_control_apply_safety_stop (Some c)))"
    "controller_ok (the (gripper_control_release_safety (Some c)))"
    using inv by (simp_all add: controller_ok_def gripper_control_apply_safety_stop_def
      gripper_control_release_safety_def gripper_control_is_moving_def)
  have "gripper_control_is_moving (invalidate_completion c) = gripper_control_is_moving c"
    "arm_motion_ok (invalidate_completion c) = arm_motion_ok c"
    "claw_motion_ok (invalidate_completion c) = claw_motion_ok c"
    by (simp_all add: gripper_control_is_moving_def arm_motion_ok_def claw_motion_ok_def)
  then show "controller_ok (invalidate_completion c)"
    using inv by (simp only: controller_ok_def invalidate_fields) simp
qed

lemma gripper_step_system:
  assumes "gripper_step s s'" "mg90s.system_ok hal_ok (fst s) (snd s)"
  shows "mg90s.system_ok hal_ok (fst s') (snd s')"
  using assms
proof (induction rule: gripper_step.induct)
  case step_command
  then show ?case using mg90s.process_command_system by simp
next
  case step_tick
  then show ?case using mg90s.tick_system by simp
next
  case (step_take c d b c' d' hw)
  then have "c' = c \<or> c' = invalidate_completion c"
    by (auto simp: gripper_control_take_completion_def split: if_splits)
  then show ?case using step_take safety_ops_ok(3) [of c] by (auto simp: mg90s.system_ok_def)
next
  case (step_stop c c' hw)
  then show ?case using safety_ops_ok(1) [of c]
    by (auto simp: mg90s.system_ok_def gripper_control_apply_safety_stop_def)
next
  case (step_release c c' hw)
  then show ?case using safety_ops_ok(2) [of c]
    by (auto simp: mg90s.system_ok_def gripper_control_release_safety_def)
qed

lemma gripper_reachable_system:
  "gripper_reachable hal_ok s \<Longrightarrow> mg90s.system_ok hal_ok (fst s) (snd s)"
proof (induction rule: gripper_reachable.induct)
  case (reach_init c0 c hw h)
  then have "pulses_safe hw" by (auto simp: pulses_safe_def)
  then show ?case using init_ok [OF reach_init(1)]
    by (simp only: mg90s.system_ok_def fst_conv snd_conv) simp
next
  case (reach_step s s')
  then show ?case using gripper_step_system by blast
qed


section \<open>Properties\<close>

definition between_u :: "'a::len word \<Rightarrow> 'a word \<Rightarrow> 'a word \<Rightarrow> bool" where
  "between_u s x t \<longleftrightarrow> min (uint s) (uint t) \<le> uint x \<and> uint x \<le> max (uint s) (uint t)"

text \<open>
  In every state the gripper controller can reach by any commands, ticks, safety stops,
  releases and HAL failures, as soon as the servos are enabled or a PWM channel runs, the pulse
  width of each channel lies inside the mechanical range of its joint.
\<close>

theorem gripper_outputs_within_limits:
  assumes "gripper_reachable hal_ok (c, Some h)"
    and "servo_enabled h \<or> tim3_running h ch'"
  shows "fst (joint_range ch) \<le> unat (tim3_compare h ch) \<and>
    unat (tim3_compare h ch) \<le> snd (joint_range ch)"
  using gripper_reachable_system [OF assms(1)] assms(2)
  by (auto simp: mg90s.system_ok_def pulses_safe_def)

text \<open>
  In every reachable state: homed implies outputs enabled, enabled outputs mean powered
  servos, the safety latch coincides with the EMERGENCY_STOP state and excludes homed and any
  active motion, and a motion is running exactly when it has a motion id.
\<close>

theorem gripper_controller_consistent:
  assumes "gripper_reachable hal_ok (c, hw)"
  shows "(homed c \<longrightarrow> outputs_enabled c) \<and>
    (outputs_enabled c \<longrightarrow> servos_powered hw) \<and>
    (safety_latched c \<longleftrightarrow> ctl_state c = UART_GRIPPER_STATE_EMERGENCY_STOP) \<and>
    (safety_latched c \<longrightarrow> \<not> homed c \<and> active_motion_id c = 0) \<and>
    (gripper_control_is_moving c \<longleftrightarrow> active_motion_id c \<noteq> 0) \<and>
    (ctl_state c = UART_GRIPPER_STATE_MOVING_ARM \<longrightarrow> homed c)"
  using gripper_reachable_system [OF assms]
  by (auto simp: mg90s.system_ok_def controller_ok_def gripper_control_is_moving_def)

text \<open>
  A tick at or after the end of a motion makes the controller idle with its joint values on
  the target and records the completion with the motion's id and type; a HOME motion sets homed.
  Time differences are modulo 2^32. What the servos get is the subject of the theorems on
  the outputs.
\<close>

theorem gripper_motion_completes:
  assumes "gripper_reachable hal_ok (c, hw)" "gripper_control_is_moving c"
    and "motion_duration_ms c \<le> now - motion_start_tick c"
  shows "\<exists>c'. fst (gripper_control_tick (Some c) hw now) = Some c' \<and>
    ctl_state c' = UART_GRIPPER_STATE_IDLE \<and> active_motion_id c' = 0 \<and>
    ctl_completion c' = \<lparr>completion_valid = True, completion_fault = False,
      completion_motion_id = active_motion_id c, completion_motion_type = ctl_motion_type c,
      completion_error = UART_ERROR_NONE\<rparr> \<and>
    (ctl_motion_type c \<noteq> UART_GRIPPER_MOTION_GRIPPER \<longrightarrow>
       base_angle c' = target_base_angle c \<and> shoulder_angle c' = target_shoulder_angle c \<and>
       elbow_angle c' = target_elbow_angle c) \<and>
    (ctl_motion_type c \<noteq> UART_GRIPPER_MOTION_ARM \<longrightarrow> gripper_position c' = target_gripper_position c) \<and>
    (ctl_motion_type c = UART_GRIPPER_MOTION_HOME \<longrightarrow> homed c')"
proof -
  have "mg90s.system_ok hal_ok c hw" using gripper_reachable_system [OF assms(1)] by simp
  then show ?thesis using mg90s.tick_completes assms(2,3) by blast
qed

text \<open>
  A tick before the end of a motion leaves it active and puts every moving joint between
  its start and its target: the interpolation never overshoots.
\<close>

theorem gripper_motion_on_the_way:
  assumes "gripper_reachable hal_ok (c, hw)" "gripper_control_is_moving c"
    and "now - motion_start_tick c < motion_duration_ms c"
  shows "\<exists>c'. fst (gripper_control_tick (Some c) hw now) = Some c' \<and>
    ctl_state c' = ctl_state c \<and> active_motion_id c' = active_motion_id c \<and>
    ctl_completion c' = ctl_completion c \<and>
    (ctl_motion_type c \<noteq> UART_GRIPPER_MOTION_GRIPPER \<longrightarrow>
       between_u (start_base_angle c) (base_angle c') (target_base_angle c) \<and>
       between_u (start_shoulder_angle c) (shoulder_angle c') (target_shoulder_angle c) \<and>
       between_u (start_elbow_angle c) (elbow_angle c') (target_elbow_angle c)) \<and>
    (ctl_motion_type c \<noteq> UART_GRIPPER_MOTION_ARM \<longrightarrow>
       between_u (start_gripper_position c) (gripper_position c') (target_gripper_position c))"
proof -
  have sys: "mg90s.system_ok hal_ok c hw" using gripper_reachable_system [OF assms(1)] by simp
  have d: "0 < uint (motion_duration_ms c)" "uint (motion_duration_ms c) < 2147483648"
    using sys assms(2) duration_uint by (auto simp: mg90s.system_ok_def controller_ok_def)
  have e: "tick_elapsed c now = now - motion_start_tick c" "tick_elapsed c now \<noteq> motion_duration_ms c"
    using assms(3) by (auto simp: tick_elapsed_def Let_def not_le)
  have "fst (gripper_control_tick (Some c) hw now) = Some (moved_to c (tick_elapsed c now))"
    using mg90s.tick_system_alt [OF sys, of now] assms(2) e(2) by simp
  then show ?thesis
    using interpolate_u16_between [OF tick_elapsed_le d] interpolate_u8_between [OF tick_elapsed_le d]
    by (cases "ctl_motion_type c") (simp_all add: moved_to_def moved_arm_def moved_claw_def between_u_def)
qed

text \<open>
  C31: In every reachable state with a motion the signed 32-bit interpolation is free of
  undefined behaviour: the divisor is not zero, the casts keep their values and no product
  reaches 2^31.
\<close>

theorem gripper_interpolation_no_overflow:
  assumes "gripper_reachable hal_ok (c, hw)" "gripper_control_is_moving c"
  shows "uint (motion_duration_ms c) \<noteq> 0 \<and>
    sint (tick_elapsed c now) = uint (tick_elapsed c now) \<and>
    sint (motion_duration_ms c) = uint (motion_duration_ms c) \<and>
    (ctl_motion_type c \<noteq> UART_GRIPPER_MOTION_GRIPPER \<longrightarrow>
      (\<forall>(s, t) \<in> {(start_base_angle c, target_base_angle c),
                   (start_shoulder_angle c, target_shoulder_angle c),
                   (start_elbow_angle c, target_elbow_angle c)}.
         \<bar>(uint t - uint s) * uint (tick_elapsed c now)\<bar> < 2 ^ 31)) \<and>
    (ctl_motion_type c \<noteq> UART_GRIPPER_MOTION_ARM \<longrightarrow>
       \<bar>(uint (target_gripper_position c) - uint (start_gripper_position c)) * uint (tick_elapsed c now)\<bar> < 2 ^ 31)"
proof -
  have ok: "controller_ok c" using gripper_reachable_system [OF assms(1)] by (simp add: mg90s.system_ok_def)
  have d: "100 \<le> uint (motion_duration_ms c)" "uint (motion_duration_ms c) \<le> 15000"
    using ok assms(2) by (simp_all add: controller_ok_def duration_ok_def)
  have e: "0 \<le> uint (tick_elapsed c now)" "uint (tick_elapsed c now) \<le> 15000"
    using tick_elapsed_le [of c now] d by auto
  have product: "\<bar>(y - x) * uint (tick_elapsed c now)\<bar> < 2147483648"
    if "0 \<le> x" "x \<le> 1800" "0 \<le> y" "y \<le> 1800" for x y :: int
  proof -
    have "\<bar>y - x\<bar> * uint (tick_elapsed c now) \<le> 1800 * 15000"
      using that e by (intro mult_mono) auto
    then show ?thesis using e(1) by (simp add: abs_mult)
  qed
  from moving_motion_type [OF ok assms(2)] show ?thesis
    using d e by (auto simp: arm_motion_ok_def claw_motion_ok_def arm_safe_uint claw_uint sint_u32_small
        intro!: product)
qed


text \<open>
  A command refused as busy, not homed, latched or malformed changes neither the controller
  nor the servos.
\<close>

theorem gripper_refused_commands_change_nothing:
  assumes "gripper_control_process_command (Some c) hw command payload n now = (r, c', hw')"
    and "r \<in> {GRIPPER_CONTROL_BUSY, GRIPPER_CONTROL_NOT_HOMED, GRIPPER_CONTROL_SAFETY_STOP,
              GRIPPER_CONTROL_INVALID_ARGUMENT} \<or>
         \<not> uart_gripper_payload_is_valid (to_u32 command) payload (to_u32 n)"
  shows "c' = Some c \<and> hw' = hw"
  using assms
  by (auto simp: gripper_control_process_command_def gripper_control_start_arm_motion_def
      command_set_gripper_def Let_def split: if_splits prod.splits)

text \<open>
  An accepted command leaves the controller moving only if it was not moving and not
  latched before, the servos are powered, and it was SET_GRIPPER, HOME, or MOVE_ARM on a homed
  arm.
\<close>

theorem gripper_motion_gate:
  assumes "gripper_reachable hal_ok (c, hw)"
    and "gripper_control_process_command (Some c) hw command payload n now = (GRIPPER_CONTROL_OK, Some c', hw')"
    and "gripper_control_is_moving c'" "command \<noteq> gripper_cmd_code UART_CMD_GRIPPER_GET_STATUS"
  shows "\<not> gripper_control_is_moving c \<and> \<not> safety_latched c \<and> servos_powered hw' \<and>
    (command = gripper_cmd_code UART_CMD_GRIPPER_MOVE_ARM \<and> homed c \<or>
     command = gripper_cmd_code UART_CMD_GRIPPER_SET_GRIPPER \<or>
     command = gripper_cmd_code UART_CMD_GRIPPER_HOME)"
proof -
  have "gripper_reachable hal_ok (c', hw')"
    using assms(1,2) by (intro reach_step [OF assms(1)] step_command)
  then have "servos_powered hw'"
    using gripper_reachable_system assms(3) by (force simp: mg90s.system_ok_def controller_ok_def)
  moreover have "\<not> gripper_control_is_moving ((invalidate_completion c)\<lparr>ctl_state := UART_GRIPPER_STATE_STOPPED, active_motion_id := x\<rparr>)"
    "\<not> gripper_control_is_moving ((invalidate_completion c)\<lparr>ctl_state := UART_GRIPPER_STATE_STOPPED, active_motion_id := x, homed := False\<rparr>)" for x
    by (simp_all add: gripper_control_is_moving_def)
  ultimately show ?thesis
    using assms(2-4)
    by (auto simp: gripper_control_process_command_def command_set_gripper_def Let_def
        split: if_splits prod.splits)
qed

lemma delta_speed:
  assumes "unat a \<le> 1800" "unat b \<le> 1800" "0 < unat speed" "unat speed \<le> 1000"
    and "unat (gripper_control_duration_for_delta (gripper_control_absolute_difference a b) speed) \<le> d"
  shows "\<bar>int (unat b) - int (unat a)\<bar> * 1000 \<le> int (unat speed) * int d"
proof -
  let ?delta = "gripper_control_absolute_difference a b"
  have bound: "unat ?delta \<le> 65535" using absolute_difference_bound [OF assms(1,2)] by simp
  have "unat ?delta * 1000 \<le> unat speed * unat (gripper_control_duration_for_delta ?delta speed)"
    using duration_for_delta_speed [OF bound assms(3,4)] by blast
  also have "\<dots> \<le> unat speed * d" using assms(5) by simp
  finally have "int (unat ?delta) * 1000 \<le> int (unat speed) * int d"
    by (metis of_nat_le_iff of_nat_mult of_nat_numeral)
  moreover have "int (unat ?delta) = \<bar>int (unat b) - int (unat a)\<bar>"
    by (auto simp only: absolute_difference_nat split: if_split)
  ultimately show ?thesis by simp
qed

text \<open>
  An accepted MOVE_ARM gets a duration, stretched if necessary, for which no joint exceeds
  its calibrated maximum speed.
\<close>

theorem gripper_move_respects_speed_limits:
  assumes "gripper_reachable hal_ok (c, hw)"
    and "gripper_control_process_command (Some c) hw (gripper_cmd_code UART_CMD_GRIPPER_MOVE_ARM)
           payload n now = (GRIPPER_CONTROL_OK, Some c', hw')"
  shows "\<bar>uint (target_base_angle c') - uint (base_angle c)\<bar> * 1000 \<le> 300 * uint (motion_duration_ms c') \<and>
    \<bar>uint (target_shoulder_angle c') - uint (shoulder_angle c)\<bar> * 1000 \<le> 120 * uint (motion_duration_ms c') \<and>
    \<bar>uint (target_elbow_angle c') - uint (elbow_angle c)\<bar> * 1000 \<le> 200 * uint (motion_duration_ms c')"
proof -
  let ?b = "uart_gripper_move_base_angle payload" and ?s = "uart_gripper_move_shoulder_angle payload"
    and ?e = "uart_gripper_move_elbow_angle payload"
  have pos: "gripper_control_arm_target_is_safe (base_angle c) (shoulder_angle c) (elbow_angle c)"
    using gripper_reachable_system [OF assms(1)] by (simp add: mg90s.system_ok_def controller_ok_def)
  have run: "\<exists>hw2. gripper_control_start_arm_motion c hw (uart_gripper_move_motion_id payload)
      UART_GRIPPER_MOTION_ARM ?b ?s ?e (to_u32 (uart_gripper_move_duration_ms payload)) now =
      (GRIPPER_CONTROL_OK, c', hw2)"
    using assms(2) by (auto simp: gripper_control_process_command_def split: if_splits prod.splits)
  then have safe: "gripper_control_arm_target_is_safe ?b ?s ?e"
    by (auto simp: gripper_control_start_arm_motion_def split: if_splits)
  obtain hw2 where "gripper_control_enable_outputs c hw = (0, c\<lparr>outputs_enabled := True\<rparr>, hw2)"
    using run safe by (cases rule: enable_outputs_cases [of c hw])
      (auto simp: gripper_control_start_arm_motion_def Let_def)
  then have c': "target_base_angle c' = ?b" "target_shoulder_angle c' = ?s" "target_elbow_angle c' = ?e"
    "motion_duration_ms c' = gripper_control_max_u32 (to_u32 (uart_gripper_move_duration_ms payload))
       (gripper_control_arm_minimum_duration (c\<lparr>outputs_enabled := True\<rparr>) ?b ?s ?e)"
    using run safe by (auto simp: gripper_control_start_arm_motion_def Let_def)
  define d where "d = unat (motion_duration_ms c')"
  have d: "unat (gripper_control_duration_for_delta (gripper_control_absolute_difference
        (to_u32 (base_angle c)) (to_u32 ?b)) 300) \<le> d"
    "unat (gripper_control_duration_for_delta (gripper_control_absolute_difference
        (to_u32 (shoulder_angle c)) (to_u32 ?s)) 120) \<le> d"
    "unat (gripper_control_duration_for_delta (gripper_control_absolute_difference
        (to_u32 (elbow_angle c)) (to_u32 ?e)) 200) \<le> d"
    by (simp_all add: d_def c'(4) max_u32_nat gripper_control_arm_minimum_duration_def Let_def)
  have range: "unat (base_angle c) \<le> 1800" "unat (shoulder_angle c) \<le> 1800" "unat (elbow_angle c) \<le> 1800"
    "unat ?b \<le> 1800" "unat ?s \<le> 1800" "unat ?e \<le> 1800"
    using pos safe by (simp_all add: gripper_control_arm_target_is_safe_def word_le_nat_alt)
  show ?thesis
    unfolding uint_nat c'(1-3) d_def [symmetric]
    using delta_speed [OF _ _ _ _ d(1)] delta_speed [OF _ _ _ _ d(2)] delta_speed [OF _ _ _ _ d(3)] range
    by (simp only: unat_to_u32_u16) simp
qed

section \<open>Concrete instances\<close>

definition demo_servos :: "servo_hw ptr" where
  "demo_servos = Some \<lparr>servo_enabled = False, tim3_compare = (\<lambda>_. 0), tim3_running = (\<lambda>_. False)\<rparr>"

definition demo_start :: "servo_hw ptr gripper_control_t" where
  "demo_start = the (snd (gripper_control_init (Some zero_controller)
     (Some (gripper_servo_mg90s_port (\<lambda>_. True)))))"

definition demo_home :: "gripper_control_result_t \<times> servo_hw ptr gripper_control_t ptr \<times> servo_hw ptr" where
  "demo_home = gripper_control_process_command (Some demo_start) demo_servos 0x22 (Some [1, 0]) 2 5"

definition demo_homing :: "servo_hw ptr gripper_control_t" where
  "demo_homing = the (fst (snd demo_home))"

definition demo_powered :: "servo_hw ptr" where
  "demo_powered = snd (snd demo_home)"

lemma demo_start_reachable: "gripper_reachable (\<lambda>_. True) (demo_start, demo_servos)"
  by (rule reach_init [of zero_controller _ _ _
        "\<lparr>servo_enabled = False, tim3_compare = (\<lambda>_. 0), tim3_running = (\<lambda>_. False)\<rparr>"])
    (simp_all add: demo_start_def demo_servos_def gripper_control_init_def gripper_servo_mg90s_port_def)

lemma demo_enable:
  "fst (gripper_servo_enable (\<lambda>_. True) demo_servos) = 0"
  by (simp add: gripper_servo_enable_def demo_servos_def pwm_start_def Let_def)

lemma demo_home_eq:
  "demo_home = (GRIPPER_CONTROL_OK, Some demo_homing, demo_powered) \<and>
   ctl_state demo_homing = UART_GRIPPER_STATE_HOMING \<and> motion_duration_ms demo_homing = 2000 \<and>
   motion_start_tick demo_homing = 5 \<and> active_motion_id demo_homing = 1 \<and>
   ctl_motion_type demo_homing = UART_GRIPPER_MOTION_HOME"
proof -
  obtain hw where "gripper_servo_enable (\<lambda>_. True) demo_servos = (0, hw)"
    using demo_enable by (cases "gripper_servo_enable (\<lambda>_. True) demo_servos") auto
  then show ?thesis
    by (simp add: demo_home_def demo_homing_def demo_powered_def gripper_control_process_command_def
        uart_gripper_payload_is_valid_def uart_gripper_command_is_valid_def
        motion_id_valid_u16 gripper_readers u16_le_def demo_start_def
        gripper_control_init_def gripper_servo_mg90s_port_def zero_controller_def
        gripper_control_is_moving_def gripper_control_start_arm_motion_def Let_def
        gripper_control_arm_target_is_safe_def gripper_control_enable_outputs_def
        gripper_control_arm_minimum_duration_def gripper_control_claw_minimum_duration_def
        gripper_control_absolute_difference_def gripper_control_duration_for_delta_def
        gripper_control_max_u32_def)
qed

lemma demo_homing_reachable: "gripper_reachable (\<lambda>_. True) (demo_homing, demo_powered)"
  by (rule reach_step [OF demo_start_reachable
        step_command [where command = "0x22" and payload = "Some [1, 0]" and n = 2 and now = 5
          and r = GRIPPER_CONTROL_OK]])
    (use demo_home_eq in \<open>simp add: demo_home_def\<close>)

lemma demo_homing_moving: "gripper_control_is_moving demo_homing"
  using demo_home_eq by (simp add: gripper_control_is_moving_def)

theorem gripper_motion_completes_witness:
  "\<exists>c. fst (gripper_control_tick (Some demo_homing) demo_powered 2005) = Some c \<and> homed c \<and>
     completion_motion_id (ctl_completion c) = 1"
  using gripper_motion_completes [OF demo_homing_reachable demo_homing_moving, of 2005] demo_home_eq
  by auto

theorem gripper_motion_on_the_way_witness:
  "\<exists>c. fst (gripper_control_tick (Some demo_homing) demo_powered 1000) = Some c \<and>
     ctl_state c = UART_GRIPPER_STATE_HOMING"
  using gripper_motion_on_the_way [OF demo_homing_reachable demo_homing_moving, of 1000] demo_home_eq
  by auto

theorem gripper_interpolation_no_overflow_witness:
  "uint (motion_duration_ms demo_homing) \<noteq> 0 \<and>
   sint (tick_elapsed demo_homing 1000) = uint (tick_elapsed demo_homing 1000)"
  using gripper_interpolation_no_overflow [OF demo_homing_reachable demo_homing_moving, of 1000] by blast

theorem gripper_controller_consistent_witness:
  "gripper_control_is_moving demo_homing \<and> active_motion_id demo_homing \<noteq> 0 \<and> \<not> safety_latched demo_homing"
  using gripper_controller_consistent [OF demo_homing_reachable] demo_homing_moving by blast

theorem gripper_outputs_within_limits_witness:
  "\<exists>h. demo_powered = Some h \<and> 700 \<le> unat (tim3_compare h TIM_CHANNEL_1)"
proof -
  have "outputs_enabled demo_homing" "servos_powered demo_powered"
    using gripper_reachable_system [OF demo_homing_reachable] demo_homing_moving
    by (auto simp: mg90s.system_ok_def controller_ok_def)
  then obtain h where h: "demo_powered = Some h" "servo_enabled h"
    by (auto simp: servos_powered_def split: option.splits)
  then show ?thesis
    using gripper_outputs_within_limits [of "\<lambda>_. True" demo_homing h TIM_CHANNEL_1 TIM_CHANNEL_1]
      demo_homing_reachable by (intro exI [of _ h]) (simp add: joint_range_def)
qed

theorem gripper_motion_gate_witness: "\<not> gripper_control_is_moving demo_start"
  using gripper_motion_gate [OF demo_start_reachable, where command = "0x22" and payload = "Some [1, 0]" and
      n = 2 and now = 5 and c' = demo_homing and hw' = demo_powered]
    demo_home_eq demo_homing_moving by (simp add: demo_home_def)

theorem gripper_refused_commands_change_nothing_witness:
  "snd (gripper_control_process_command (Some demo_homing) demo_powered 0x22 (Some [1, 0]) 2 7) =
     (Some demo_homing, demo_powered)"
proof -
  obtain r c' hw' where run: "gripper_control_process_command (Some demo_homing) demo_powered 0x22 (Some [1, 0]) 2 7 =
      (r, c', hw')" by (cases "gripper_control_process_command (Some demo_homing) demo_powered 0x22 (Some [1, 0]) 2 7")
  have "\<not> safety_latched demo_homing"
    using gripper_reachable_system [OF demo_homing_reachable] demo_home_eq
    by (auto simp: mg90s.system_ok_def controller_ok_def)
  then have "r = GRIPPER_CONTROL_BUSY"
    using run demo_homing_moving
    by (simp add: gripper_control_process_command_def uart_gripper_payload_is_valid_def
        uart_gripper_command_is_valid_def motion_id_valid_u16 gripper_readers u16_le_def)
  then show ?thesis
    using gripper_refused_commands_change_nothing [OF run] run by simp
qed

definition demo_tick :: "servo_hw ptr gripper_control_t ptr \<times> servo_hw ptr" where
  "demo_tick = gripper_control_tick (Some demo_homing) demo_powered 2005"

definition demo_homed :: "servo_hw ptr gripper_control_t" where
  "demo_homed = the (fst demo_tick)"

lemma demo_homed_facts:
  "demo_tick = (Some demo_homed, snd demo_tick) \<and> ctl_state demo_homed = UART_GRIPPER_STATE_IDLE \<and>
   homed demo_homed \<and> outputs_enabled demo_homed"
proof -
  have sys: "mg90s.system_ok (\<lambda>_. True) demo_homing demo_powered"
    using gripper_reachable_system [OF demo_homing_reachable] by simp
  have "\<exists>c'. fst demo_tick = Some c' \<and> ctl_state c' = UART_GRIPPER_STATE_IDLE \<and> homed c'"
    using mg90s.tick_completes [OF sys demo_homing_moving, of 2005] demo_home_eq
    by (auto simp: demo_tick_def)
  then have facts: "fst demo_tick = Some demo_homed" "ctl_state demo_homed = UART_GRIPPER_STATE_IDLE"
    "homed demo_homed"
    by (auto simp: demo_homed_def)
  moreover have "controller_ok demo_homed"
    using tick_ok [of demo_homing demo_powered 2005] sys
    by (simp add: demo_homed_def demo_tick_def mg90s.system_ok_def)
  ultimately show ?thesis by (simp add: controller_ok_def prod_eq_iff)
qed

lemma demo_homed_reachable: "gripper_reachable (\<lambda>_. True) (demo_homed, snd demo_tick)"
  by (rule reach_step [OF demo_homing_reachable step_tick [where now = 2005]])
    (use demo_homed_facts in \<open>simp add: demo_tick_def\<close>)

theorem gripper_move_respects_speed_limits_witness:
  "\<exists>c. fst (snd (gripper_control_process_command (Some demo_homed) (snd demo_tick) 0x20
        (Some [2, 0, 0xE8, 3, 0x20, 3, 0xB0, 4, 100, 0]) 10 3000)) = Some c \<and>
     \<bar>uint (target_base_angle c) - uint (base_angle demo_homed)\<bar> * 1000 \<le> 300 * uint (motion_duration_ms c)"
proof -
  let ?run = "gripper_control_process_command (Some demo_homed) (snd demo_tick) 0x20
        (Some [2, 0, 0xE8, 3, 0x20, 3, 0xB0, 4, 100, 0]) 10 3000"
  have "\<not> safety_latched demo_homed"
    using gripper_reachable_system [OF demo_homed_reachable] demo_homed_facts
    by (auto simp: mg90s.system_ok_def controller_ok_def)
  moreover have "\<not> gripper_control_is_moving demo_homed"
    using demo_homed_facts by (simp add: gripper_control_is_moving_def)
  ultimately have "\<exists>c'. ?run = (GRIPPER_CONTROL_OK, Some c', snd demo_tick)"
    using demo_homed_facts
    by (simp add: gripper_control_process_command_def uart_gripper_payload_is_valid_def
        uart_gripper_command_is_valid_def motion_id_valid_u16 gripper_readers
        gripper_ranges duration_in_range_def u16_le_def
        gripper_control_start_arm_motion_def gripper_control_arm_target_is_safe_def
        gripper_control_enable_outputs_def Let_def)
  then obtain c' where run: "?run = (GRIPPER_CONTROL_OK, Some c', snd demo_tick)" ..
  then show ?thesis
    using gripper_move_respects_speed_limits [OF demo_homed_reachable, where n = 10 and now = 3000
        and payload = "Some [2, 0, 0xE8, 3, 0x20, 3, 0xB0, 4, 100, 0]" and c' = c' and hw' = "snd demo_tick"]
    by simp
qed

end
