(* ===== verification/Gripper_Messages.thy ===== *)
theory Gripper_Messages
  imports Uart_Protocol Rtos_Queue
begin

text \<open>
  What the gripper controller's tasks send each other, \<open>Application/Inc/app_messages.h\<close>, and
  the four queues of \<open>Application/Src/app_queues.c\<close>.
\<close>

abbreviation (input) UART_RX_CHUNK_SIZE :: "'a::numeral" where "UART_RX_CHUNK_SIZE \<equiv> 64"

record uart_rx_chunk_t =
  chunk_length :: u16
  chunk_data :: "u8 list" \<comment> \<open>\<open>uint8_t data[UART_RX_CHUNK_SIZE]\<close>\<close>

datatype app_control_message_kind_t =
    APP_CONTROL_MESSAGE_UART_COMMAND
  | APP_CONTROL_MESSAGE_SAFETY_STOP
  | APP_CONTROL_MESSAGE_SAFETY_RELEASE

record control_command_t =
  msg_frame :: uart_frame_t
  msg_kind :: app_control_message_kind_t
  msg_safety_epoch :: u32

text \<open>\<open>memset(&message, 0, sizeof(message))\<close>\<close>

definition zero_control_command :: control_command_t where
  "zero_control_command = \<lparr>msg_frame = zero_frame, msg_kind = APP_CONTROL_MESSAGE_UART_COMMAND,
     msg_safety_epoch = 0\<rparr>"

record comm_tx_message_t =
  txm_command :: u8
  txm_length :: u8
  txm_sequence :: u8
  txm_use_provided_sequence :: bool
  txm_payload :: "u8 list" \<comment> \<open>\<open>uint8_t payload[UART_MAX_PAYLOAD_SIZE]\<close>\<close>

definition zero_tx_message :: comm_tx_message_t where
  "zero_tx_message = \<lparr>txm_command = 0, txm_length = 0, txm_sequence = 0,
     txm_use_provided_sequence = False, txm_payload = replicate 128 0\<rparr>"

section \<open>The queues\<close>

abbreviation (input) UART_RX_QUEUE_DEPTH :: nat where "UART_RX_QUEUE_DEPTH \<equiv> 8"
abbreviation (input) GRIPPER_CONTROL_QUEUE_DEPTH :: nat where "GRIPPER_CONTROL_QUEUE_DEPTH \<equiv> 8"
abbreviation (input) SAFETY_COMMAND_QUEUE_DEPTH :: nat where "SAFETY_COMMAND_QUEUE_DEPTH \<equiv> 4"
abbreviation (input) COMM_TX_QUEUE_DEPTH :: nat where "COMM_TX_QUEUE_DEPTH \<equiv> 12"

record app_queues =
  uartRxQueue :: "uart_rx_chunk_t os_queue ptr"
  gripperControlQueue :: "control_command_t os_queue ptr"
  safetyCommandQueue :: "control_command_t os_queue ptr"
  commTxQueue :: "comm_tx_message_t os_queue ptr"

text \<open>\<open>heap_ok k\<close>: the heap has room for the \<open>k\<close>-th queue.\<close>

definition app_queues_init :: "(nat \<Rightarrow> bool) \<Rightarrow> osStatus_t \<times> app_queues" where
  "app_queues_init heap_ok =
     (let qs = \<lparr>uartRxQueue = osMessageQueueNew (heap_ok 0) UART_RX_QUEUE_DEPTH,
                gripperControlQueue = osMessageQueueNew (heap_ok 1) GRIPPER_CONTROL_QUEUE_DEPTH,
                safetyCommandQueue = osMessageQueueNew (heap_ok 2) SAFETY_COMMAND_QUEUE_DEPTH,
                commTxQueue = osMessageQueueNew (heap_ok 3) COMM_TX_QUEUE_DEPTH\<rparr>
      in if uartRxQueue qs = NULL \<or> gripperControlQueue qs = NULL \<or>
            safetyCommandQueue qs = NULL \<or> commTxQueue qs = NULL
         then (osErrorNoMemory, qs)
         else (osOK, qs))"

lemma app_queues_init_ok:
  "fst (app_queues_init heap_ok) = osOK \<longleftrightarrow> (\<forall>k < 4. heap_ok k)"
  by (auto simp: app_queues_init_def osMessageQueueNew_def Let_def less_Suc_eq eval_nat_numeral)

text \<open>One queue's put and get seen from a task, with the queue's contents.\<close>

lemma queue_put_cases:
  obtains (full) q where "mq = Some q" "osMessageQueuePut mq x prio = (osErrorResource, mq)"
      "queue_capacity q \<le> length (queue_items q)"
  | (ok) q where "mq = Some q" "length (queue_items q) < queue_capacity q"
      "osMessageQueuePut mq x prio = (osOK, Some (q\<lparr>queue_items := queue_items q @ [x]\<rparr>))"
  | (missing) "mq = None" "osMessageQueuePut mq x prio = (osErrorParameter, None)"
proof (cases mq)
  case (Some q)
  then show thesis
    using full [of q] ok [of q] by (cases "length (queue_items q) < queue_capacity q")
      (simp_all add: osMessageQueuePut_def)
qed (simp add: osMessageQueuePut_def missing)

end
