(* ===== verification/Gripper_Tx.thy ===== *)
theory Gripper_Tx
  imports Uart_Codec Gripper_Messages
begin

text \<open>
  The transmit task of the gripper controller, \<open>Application/Src/app_comm_tx.c\<close>: the queue
  of outgoing messages and the loop that encodes one, hands it to the DMA of USART1, waits
  for the completion interrupt and retries. The interrupts of one attempt, and whether the
  HAL starts or aborts a transfer, are inputs (\<open>dma_attempt\<close>); the callbacks that the
  interrupts run are the code's.
\<close>

section \<open>State\<close>

abbreviation (input) COMM_TX_NORMAL_PRIORITY :: "'a::zero" where "COMM_TX_NORMAL_PRIORITY \<equiv> 0"
abbreviation (input) COMM_TX_URGENT_PRIORITY :: "'a::numeral" where "COMM_TX_URGENT_PRIORITY \<equiv> 3"
abbreviation (input) COMM_TX_HEARTBEAT_PERIOD_MS :: "'a::numeral"
  where "COMM_TX_HEARTBEAT_PERIOD_MS \<equiv> 1000"
abbreviation (input) COMM_TX_FLAG_COMPLETE :: u32 where "COMM_TX_FLAG_COMPLETE \<equiv> 1"
abbreviation (input) COMM_TX_FLAG_ERROR :: u32 where "COMM_TX_FLAG_ERROR \<equiv> 2"
abbreviation (input) COMM_TX_FLAG_ABORT_COMPLETE :: u32 where "COMM_TX_FLAG_ABORT_COMPLETE \<equiv> 4"
abbreviation (input) osFlagsError :: u32 where "osFlagsError \<equiv> 0x80000000"
abbreviation (input) osFlagsErrorTimeout :: u32 where "osFlagsErrorTimeout \<equiv> 0xFFFFFFFE"

abbreviation (input) APP_EVENT_HEARTBEAT :: "'a::one" where "APP_EVENT_HEARTBEAT \<equiv> 1"
abbreviation (input) APP_EVENT_SAFETY :: "'a::numeral" where "APP_EVENT_SAFETY \<equiv> 2"
abbreviation (input) APP_HEARTBEAT_PAYLOAD_SIZE :: "'a::numeral" where "APP_HEARTBEAT_PAYLOAD_SIZE \<equiv> 7"

datatype comm_tx_state_t =
  COMM_TX_STATE_IDLE | COMM_TX_STATE_IN_FLIGHT | COMM_TX_STATE_ABORTING

record comm_tx_stats_t =
  tx_enqueued :: u32
  tx_urgent_enqueued :: u32
  tx_dropped :: u32
  tx_encode_errors :: u32
  tx_transmit_errors :: u32
  tx_dma_start_errors :: u32
  tx_dma_timeouts :: u32
  tx_dma_errors :: u32
  tx_aborts :: u32
  tx_abort_timeouts :: u32
  tx_retries :: u32
  tx_sent :: u32
  tx_heartbeats :: u32

definition zero_tx_stats :: comm_tx_stats_t where
  "zero_tx_stats = \<lparr>tx_enqueued = 0, tx_urgent_enqueued = 0, tx_dropped = 0,
     tx_encode_errors = 0, tx_transmit_errors = 0, tx_dma_start_errors = 0, tx_dma_timeouts = 0,
     tx_dma_errors = 0, tx_aborts = 0, tx_abort_timeouts = 0, tx_retries = 0, tx_sent = 0,
     tx_heartbeats = 0\<rparr>"

text \<open>
  The statics of the file, the queue handle, the notification value of the task (its thread
  flags), and the transfers that the DMA of USART1 has been given, oldest first.
\<close>

record comm_tx =
  commTxStats :: comm_tx_stats_t
  commTxSequence :: u8
  commTxDeviceState :: u8
  commTxError :: u8
  commTxTaskId :: "nat ptr"
  commTxState :: comm_tx_state_t
  commTxEncodedBuffer :: "u8 list"
  commTxQueueHandle :: "comm_tx_message_t os_queue ptr"
  txThreadFlags :: u32
  uart1_started :: "u8 list list"

abbreviation (input) tx_count where
  "tx_count counter tx \<equiv> commTxStats_update (counter (\<lambda>n. n + 1)) tx"

section \<open>Queueing\<close>

text \<open>\<open>memset\<close> and the field assignments of \<open>comm_tx_enqueue\<close>.\<close>

definition comm_tx_message :: "u8 \<Rightarrow> bool \<Rightarrow> u8 \<Rightarrow> u8 list ptr \<Rightarrow> u8 \<Rightarrow> comm_tx_message_t" where
  "comm_tx_message sequence use_sequence command payload len =
     (let message = zero_tx_message\<lparr>txm_sequence := sequence,
            txm_use_provided_sequence := use_sequence, txm_command := command,
            txm_length := len\<rparr>
      in if 0 < len
         then message\<lparr>txm_payload := memcpy (txm_payload message) 0 (the payload) 0 (unat len)\<rparr>
         else message)"

definition comm_tx_enqueue ::
  "u8 \<Rightarrow> bool \<Rightarrow> u8 \<Rightarrow> u8 list ptr \<Rightarrow> u8 \<Rightarrow> u8 \<Rightarrow> comm_tx \<Rightarrow> int \<times> comm_tx" where
  "comm_tx_enqueue sequence use_sequence command payload len priority tx =
     (if commTxQueueHandle tx = NULL \<or> 128 < len \<or> (0 < len \<and> payload = NULL) \<or>
         \<not> UART_IS_VALID_COMMAND command
      then (-1, tx_count tx_dropped_update tx)
      else
        (let message = comm_tx_message sequence use_sequence command payload len;
             (status, queue) = osMessageQueuePut (commTxQueueHandle tx) message priority;
             tx = tx\<lparr>commTxQueueHandle := queue\<rparr>
         in if status \<noteq> osOK then (-1, tx_count tx_dropped_update tx)
            else if priority = COMM_TX_URGENT_PRIORITY then (0, tx_count tx_urgent_enqueued_update tx)
            else (0, tx_count tx_enqueued_update tx)))"

definition CommTx_Send :: "u8 \<Rightarrow> u8 list ptr \<Rightarrow> u8 \<Rightarrow> comm_tx \<Rightarrow> int \<times> comm_tx" where
  "CommTx_Send command payload len tx =
     comm_tx_enqueue 0 False command payload len COMM_TX_NORMAL_PRIORITY tx"

definition CommTx_SendWithSequence ::
  "u8 \<Rightarrow> u8 \<Rightarrow> u8 list ptr \<Rightarrow> u8 \<Rightarrow> comm_tx \<Rightarrow> int \<times> comm_tx" where
  "CommTx_SendWithSequence sequence command payload len tx =
     comm_tx_enqueue sequence True command payload len COMM_TX_NORMAL_PRIORITY tx"

definition CommTx_SendUrgent :: "u8 \<Rightarrow> u8 list ptr \<Rightarrow> u8 \<Rightarrow> comm_tx \<Rightarrow> int \<times> comm_tx" where
  "CommTx_SendUrgent command payload len tx =
     comm_tx_enqueue 0 False command payload len COMM_TX_URGENT_PRIORITY tx"

definition CommTx_SendUrgentWithSequence ::
  "u8 \<Rightarrow> u8 \<Rightarrow> u8 list ptr \<Rightarrow> u8 \<Rightarrow> comm_tx \<Rightarrow> int \<times> comm_tx" where
  "CommTx_SendUrgentWithSequence sequence command payload len tx =
     comm_tx_enqueue sequence True command payload len COMM_TX_URGENT_PRIORITY tx"

definition CommTx_SetDeviceStatus :: "u8 \<Rightarrow> u8 \<Rightarrow> comm_tx \<Rightarrow> comm_tx" where
  "CommTx_SetDeviceStatus state error tx = tx\<lparr>commTxDeviceState := state, commTxError := error\<rparr>"

definition CommTx_GetStats :: "comm_tx_stats_t ptr \<Rightarrow> comm_tx \<Rightarrow> comm_tx_stats_t ptr" where
  "CommTx_GetStats stats tx = (if stats \<noteq> NULL then Some (commTxStats tx) else stats)"

section \<open>Interrupts\<close>

datatype usart_instance = USART1 | USART2 | USART6

text \<open>The fields of \<open>UART_HandleTypeDef\<close> that the callbacks read.\<close>

record uart_handle =
  huart_Instance :: usart_instance
  huart_ErrorCode :: u32
  hdmatx_ErrorCode :: "u32 ptr"
  hdmarx_ErrorCode :: "u32 ptr"

abbreviation (input) HAL_UART_ERROR_DMA :: u32 where "HAL_UART_ERROR_DMA \<equiv> 0x10"
abbreviation (input) HAL_DMA_ERROR_NONE :: u32 where "HAL_DMA_ERROR_NONE \<equiv> 0"

definition osThreadFlagsSet :: "u32 \<Rightarrow> comm_tx \<Rightarrow> comm_tx" where
  "osThreadFlagsSet flags tx = tx\<lparr>txThreadFlags := txThreadFlags tx OR flags\<rparr>"

definition osThreadFlagsClear :: "u32 \<Rightarrow> comm_tx \<Rightarrow> comm_tx" where
  "osThreadFlagsClear flags tx = tx\<lparr>txThreadFlags := txThreadFlags tx AND NOT flags\<rparr>"

definition HAL_UART_TxCpltCallback :: "uart_handle ptr \<Rightarrow> comm_tx \<Rightarrow> comm_tx" where
  "HAL_UART_TxCpltCallback huart tx =
     (if huart \<noteq> NULL \<and> huart_Instance (the huart) = USART1 \<and> commTxTaskId tx \<noteq> NULL \<and>
         commTxState tx = COMM_TX_STATE_IN_FLIGHT
      then osThreadFlagsSet COMM_TX_FLAG_COMPLETE tx
      else tx)"

definition HAL_UART_AbortTransmitCpltCallback :: "uart_handle ptr \<Rightarrow> comm_tx \<Rightarrow> comm_tx" where
  "HAL_UART_AbortTransmitCpltCallback huart tx =
     (if huart \<noteq> NULL \<and> huart_Instance (the huart) = USART1 \<and> commTxTaskId tx \<noteq> NULL \<and>
         commTxState tx = COMM_TX_STATE_ABORTING
      then osThreadFlagsSet COMM_TX_FLAG_ABORT_COMPLETE tx
      else tx)"

definition CommTx_HandleUartError :: "uart_handle ptr \<Rightarrow> comm_tx \<Rightarrow> bool \<times> comm_tx" where
  "CommTx_HandleUartError huart tx =
     (if huart = NULL \<or> huart_Instance (the huart) \<noteq> USART1 \<or> commTxTaskId tx = NULL \<or>
         commTxState tx \<noteq> COMM_TX_STATE_IN_FLIGHT \<or>
         huart_ErrorCode (the huart) AND HAL_UART_ERROR_DMA = 0 \<or>
         hdmatx_ErrorCode (the huart) = NULL \<or>
         the (hdmatx_ErrorCode (the huart)) = HAL_DMA_ERROR_NONE
      then (False, tx)
      else (True, osThreadFlagsSet COMM_TX_FLAG_ERROR tx))"

datatype tx_irq =
    TX_COMPLETE "uart_handle ptr"
  | TX_ABORT_COMPLETE "uart_handle ptr"
  | UART_ERROR "uart_handle ptr"

primrec serve_irq :: "tx_irq \<Rightarrow> comm_tx \<Rightarrow> comm_tx" where
  "serve_irq (TX_COMPLETE h) tx = HAL_UART_TxCpltCallback h tx"
| "serve_irq (TX_ABORT_COMPLETE h) tx = HAL_UART_AbortTransmitCpltCallback h tx"
| "serve_irq (UART_ERROR h) tx = snd (CommTx_HandleUartError h tx)"

text \<open>
  \<open>osThreadFlagsWait\<close> with \<open>osFlagsWaitAny\<close>: it returns at the first moment one of the
  flags is set, with the value before clearing them, or times out. The interrupts of the
  list come in while the task is in the call, those after the wake-up included.
\<close>

primrec osThreadFlagsWait :: "u32 \<Rightarrow> tx_irq list \<Rightarrow> comm_tx \<Rightarrow> u32 \<times> comm_tx" where
  "osThreadFlagsWait flags [] tx =
     (if txThreadFlags tx AND flags \<noteq> 0 then (txThreadFlags tx, osThreadFlagsClear flags tx)
      else (osFlagsErrorTimeout, tx))"
| "osThreadFlagsWait flags (irq # irqs) tx =
     (if txThreadFlags tx AND flags \<noteq> 0
      then (txThreadFlags tx, foldl (\<lambda>tx i. serve_irq i tx) (osThreadFlagsClear flags tx) (irq # irqs))
      else osThreadFlagsWait flags irqs (serve_irq irq tx))"

section \<open>Sending one message\<close>

text \<open>What the HAL and the line do during one attempt.\<close>

record dma_attempt =
  hal_start_ok :: bool \<comment> \<open>\<open>HAL_UART_Transmit_DMA\<close> returns \<open>HAL_OK\<close>\<close>
  wait_irqs :: "tx_irq list"
  hal_abort_ok :: bool \<comment> \<open>\<open>HAL_UART_AbortTransmit_IT\<close> returns \<open>HAL_OK\<close>\<close>
  abort_irqs :: "tx_irq list"

definition comm_tx_abort_transmit :: "dma_attempt \<Rightarrow> comm_tx \<Rightarrow> comm_tx" where
  "comm_tx_abort_transmit hal tx =
     (let tx = tx\<lparr>commTxState := COMM_TX_STATE_ABORTING\<rparr>;
          tx = osThreadFlagsClear COMM_TX_FLAG_ABORT_COMPLETE tx
      in if \<not> hal_abort_ok hal then tx\<lparr>commTxState := COMM_TX_STATE_IDLE\<rparr>
         else
           (let tx = tx_count tx_aborts_update tx;
                (flags, tx) = osThreadFlagsWait COMM_TX_FLAG_ABORT_COMPLETE (abort_irqs hal) tx;
                tx = (if flags AND osFlagsError \<noteq> 0 then tx_count tx_abort_timeouts_update tx else tx)
            in tx\<lparr>commTxState := COMM_TX_STATE_IDLE\<rparr>))"

definition comm_tx_transmit_dma :: "dma_attempt \<Rightarrow> nat \<Rightarrow> comm_tx \<Rightarrow> bool \<times> comm_tx" where
  "comm_tx_transmit_dma hal encoded_length tx =
     (let tx = osThreadFlagsClear
                 (COMM_TX_FLAG_COMPLETE OR COMM_TX_FLAG_ERROR OR COMM_TX_FLAG_ABORT_COMPLETE) tx;
          tx = tx\<lparr>commTxState := COMM_TX_STATE_IN_FLIGHT\<rparr>
      in if \<not> hal_start_ok hal
         then (False, (tx_count tx_dma_start_errors_update tx)\<lparr>commTxState := COMM_TX_STATE_IDLE\<rparr>)
         else
           (let tx = tx\<lparr>uart1_started :=
                       uart1_started tx @ [take encoded_length (commTxEncodedBuffer tx)]\<rparr>;
                (flags, tx) = osThreadFlagsWait (COMM_TX_FLAG_COMPLETE OR COMM_TX_FLAG_ERROR)
                                (wait_irqs hal) tx
            in if flags AND osFlagsError = 0 \<and> flags AND COMM_TX_FLAG_ERROR = 0 \<and>
                  flags AND COMM_TX_FLAG_COMPLETE \<noteq> 0
               then (True, tx\<lparr>commTxState := COMM_TX_STATE_IDLE\<rparr>)
               else
                 (let tx = (if flags = osFlagsErrorTimeout then tx_count tx_dma_timeouts_update tx
                            else tx_count tx_dma_errors_update tx)
                  in (False, comm_tx_abort_transmit hal tx))))"

text \<open>The retry loop, by the attempts it has left; \<open>hal i\<close> is attempt \<open>i\<close>.\<close>

primrec comm_tx_attempts :: "nat \<Rightarrow> (nat \<Rightarrow> dma_attempt) \<Rightarrow> nat \<Rightarrow> comm_tx \<Rightarrow> comm_tx" where
  "comm_tx_attempts 0 hal encoded_length tx = tx_count tx_transmit_errors_update tx"
| "comm_tx_attempts (Suc left) hal encoded_length tx =
     (let attempt = UART_MAX_RETRY_COUNT - left;
          (done, tx) = comm_tx_transmit_dma (hal attempt) encoded_length tx
      in if done then tx_count tx_sent_update tx
         else comm_tx_attempts left hal encoded_length
                (if attempt < UART_MAX_RETRY_COUNT then tx_count tx_retries_update tx else tx))"

definition comm_tx_frame :: "comm_tx_message_t \<Rightarrow> u8 \<Rightarrow> uart_frame_t" where
  "comm_tx_frame message sequence =
     (let frame = zero_frame\<lparr>frame_version := UART_PROTOCOL_VERSION,
            frame_sequence := (if txm_use_provided_sequence message then txm_sequence message
                               else sequence),
            frame_command := txm_command message, frame_length := txm_length message\<rparr>
      in if 0 < txm_length message
         then frame\<lparr>frame_payload :=
                memcpy (frame_payload frame) 0 (txm_payload message) 0 (unat (txm_length message))\<rparr>
         else frame)"

definition comm_tx_send_message ::
  "(nat \<Rightarrow> dma_attempt) \<Rightarrow> comm_tx_message_t \<Rightarrow> comm_tx \<Rightarrow> comm_tx" where
  "comm_tx_send_message hal message tx =
     (let frame = comm_tx_frame message (commTxSequence tx);
          tx = (if txm_use_provided_sequence message then tx
                else tx\<lparr>commTxSequence := commTxSequence tx + 1\<rparr>);
          (result, buffer, encoded_length) =
            uart_encode_frame (Some frame) (Some (commTxEncodedBuffer tx)) UART_MAX_FRAME_SIZE (Some 0);
          tx = tx\<lparr>commTxEncodedBuffer := the buffer\<rparr>
      in if result \<noteq> UART_CODEC_OK then tx_count tx_encode_errors_update tx
         else comm_tx_attempts (UART_MAX_RETRY_COUNT + 1) hal (the encoded_length) tx)"

section \<open>Heartbeat and the task's loop\<close>

definition comm_tx_enqueue_heartbeat :: "u32 \<Rightarrow> comm_tx \<Rightarrow> comm_tx" where
  "comm_tx_enqueue_heartbeat now tx =
     (let uptime = now div 1000;
          payload = [APP_EVENT_HEARTBEAT, commTxDeviceState tx, commTxError tx,
                     byte_of_u32 0 uptime, byte_of_u32 1 uptime, byte_of_u32 2 uptime,
                     byte_of_u32 3 uptime];
          (r, tx) = CommTx_Send (cmd_code UART_CMD_EVENT) (Some payload) APP_HEARTBEAT_PAYLOAD_SIZE tx
      in if r = 0 then tx_count tx_heartbeats_update tx else tx)"

definition comm_tx_task_init :: "nat \<Rightarrow> comm_tx \<Rightarrow> comm_tx" where
  "comm_tx_task_init thread tx =
     tx\<lparr>commTxStats := zero_tx_stats, commTxTaskId := Some thread, commTxState := COMM_TX_STATE_IDLE\<rparr>"

text \<open>
  One round of the loop of \<open>StartCommTxTask\<close>; \<open>now\<close>, \<open>now'\<close> and \<open>now''\<close> are the three
  readings of the clock, and \<open>last_heartbeat\<close> the task's local variable.
\<close>

definition comm_tx_task_body ::
  "u32 \<Rightarrow> u32 \<Rightarrow> u32 \<Rightarrow> (nat \<Rightarrow> dma_attempt) \<Rightarrow> u32 \<times> comm_tx \<Rightarrow> u32 \<times> comm_tx" where
  "comm_tx_task_body now now' now'' hal = (\<lambda>(last_heartbeat, tx).
     let (last_heartbeat, tx) =
           (if COMM_TX_HEARTBEAT_PERIOD_MS \<le> now - last_heartbeat
            then (now'', comm_tx_enqueue_heartbeat now' tx)
            else (last_heartbeat, tx));
         (status, message, queue) = osMessageQueueGet (commTxQueueHandle tx) 10
     in if commTxQueueHandle tx = NULL \<or> status \<noteq> osOK then (last_heartbeat, tx)
        else (last_heartbeat, comm_tx_send_message hal (the message) (tx\<lparr>commTxQueueHandle := queue\<rparr>)))"


section \<open>The queue of outgoing messages\<close>

definition tx_message :: "u8 \<Rightarrow> bool \<Rightarrow> u8 \<Rightarrow> u8 list \<Rightarrow> comm_tx_message_t" where
  "tx_message sequence use_sequence command bytes = \<lparr>txm_command = command,
     txm_length = of_nat (length bytes), txm_sequence = sequence,
     txm_use_provided_sequence = use_sequence,
     txm_payload = bytes @ replicate (128 - length bytes) 0\<rparr>"

definition tx_queue :: "comm_tx \<Rightarrow> comm_tx_message_t list" where
  "tx_queue tx = (case commTxQueueHandle tx of None \<Rightarrow> [] | Some q \<Rightarrow> queue_items q)"

definition encodable :: "comm_tx_message_t \<Rightarrow> bool" where
  "encodable m \<longleftrightarrow> length (txm_payload m) = 128 \<and>
     UART_IS_VALID_COMMAND_PAYLOAD_LENGTH (txm_command m) (txm_length m)"

lemma tx_message_built:
  assumes "unat len \<le> length p" "unat len \<le> 128"
  shows "comm_tx_message sequence use_sequence command (Some p) len =
    tx_message sequence use_sequence command (take (unat len) p)"
proof (cases "len = 0")
  case True
  then show ?thesis by (simp add: tx_message_def zero_tx_message_def comm_tx_message_def)
next
  case False
  then have "0 < len" by (simp add: word_gt_0)
  moreover have "min (length p) (unat len) = unat len" using assms by simp
  ultimately show ?thesis
    using assms by (simp add: tx_message_def zero_tx_message_def comm_tx_message_def memcpy_def)
qed

text \<open>
  A send either appends exactly the message asked for, or reports failure and changes
  nothing but the drop counter.
\<close>

lemma comm_tx_enqueue_cases:
  assumes "unat len \<le> length p" "unat len \<le> 128" "UART_IS_VALID_COMMAND command"
  obtains (sent) q stats where "commTxQueueHandle tx = Some q"
      "length (queue_items q) < queue_capacity q"
      "comm_tx_enqueue sequence use_sequence command (Some p) len prio tx =
         (0, tx\<lparr>commTxQueueHandle := Some (q\<lparr>queue_items := queue_items q @
               [tx_message sequence use_sequence command (take (unat len) p)]\<rparr>),
              commTxStats := stats\<rparr>)"
  | (refused) "commTxQueueHandle tx = None \<or>
        queue_capacity (the (commTxQueueHandle tx)) \<le> length (queue_items (the (commTxQueueHandle tx)))"
      "comm_tx_enqueue sequence use_sequence command (Some p) len prio tx =
         (-1, tx_count tx_dropped_update tx)"
proof -
  note built = tx_message_built [OF assms(1,2)]
  have len: "\<not> 128 < len" using assms(2) by (simp add: word_less_nat_alt)
  show thesis
  proof (rule queue_put_cases [of "commTxQueueHandle tx"
        "tx_message sequence use_sequence command (take (unat len) p)" prio])
    fix q
    assume q: "commTxQueueHandle tx = Some q" "queue_capacity q \<le> length (queue_items q)"
      "osMessageQueuePut (commTxQueueHandle tx)
         (tx_message sequence use_sequence command (take (unat len) p)) prio = (osErrorResource, commTxQueueHandle tx)"
    show thesis
      by (rule refused) (use q len assms(3) built in \<open>simp_all add: comm_tx_enqueue_def Let_def\<close>)
  next
    fix q
    assume q: "commTxQueueHandle tx = Some q" "length (queue_items q) < queue_capacity q"
      "osMessageQueuePut (commTxQueueHandle tx)
         (tx_message sequence use_sequence command (take (unat len) p)) prio =
       (osOK, Some (q\<lparr>queue_items := queue_items q @ [tx_message sequence use_sequence command (take (unat len) p)]\<rparr>))"
    show thesis
      by (rule sent [of q "(if prio = 3 then tx_urgent_enqueued_update else tx_enqueued_update) (\<lambda>n. n + 1) (commTxStats tx)"])
        (use q len assms(3) built in \<open>simp_all add: comm_tx_enqueue_def Let_def\<close>)
  next
    assume "commTxQueueHandle tx = None"
    then show thesis by (intro refused) (simp_all add: comm_tx_enqueue_def)
  qed
qed

lemma encodable_tx_message:
  assumes "length bytes \<le> 128" "UART_IS_VALID_COMMAND_PAYLOAD_LENGTH command (of_nat (length bytes))"
  shows "encodable (tx_message sequence use_sequence command bytes)"
  using assms by (simp add: encodable_def tx_message_def)

lemma comm_tx_frame_valid: "encodable m \<longleftrightarrow> length (txm_payload m) = 128 \<and> frame_valid (comm_tx_frame m s)"
  using command_payload_length_valid_length [of "txm_command m" "txm_length m"]
  by (auto simp: encodable_def comm_tx_frame_def frame_valid_def frame_array_ok_def zero_frame_def
      memcpy_def Let_def payload_length_valid_iff)

text \<open>The frame carries the message's command, length and payload bytes.\<close>

lemma comm_tx_frame_fields:
  assumes "encodable m"
  shows "frame_command (comm_tx_frame m s) = txm_command m"
    "frame_sequence (comm_tx_frame m s) = (if txm_use_provided_sequence m then txm_sequence m else s)"
    "frame_length (comm_tx_frame m s) = txm_length m"
    "used_payload (comm_tx_frame m s) = take (unat (txm_length m)) (txm_payload m)"
  using assms
  by (auto simp: comm_tx_frame_def Let_def used_payload_def zero_frame_def memcpy_def encodable_def
      word_gt_0)


section \<open>One attempt\<close>

text \<open>The flag an interrupt raises while a transfer of USART1 is in flight, 0 for none.\<close>

primrec irq_flag :: "tx_irq \<Rightarrow> u32" where
  "irq_flag (TX_COMPLETE h) = (if h \<noteq> NULL \<and> huart_Instance (the h) = USART1 then 1 else 0)"
| "irq_flag (TX_ABORT_COMPLETE h) = 0"
| "irq_flag (UART_ERROR h) =
     (if h \<noteq> NULL \<and> huart_Instance (the h) = USART1 \<and>
         huart_ErrorCode (the h) AND HAL_UART_ERROR_DMA \<noteq> 0 \<and>
         hdmatx_ErrorCode (the h) \<noteq> NULL \<and> the (hdmatx_ErrorCode (the h)) \<noteq> HAL_DMA_ERROR_NONE
      then 2 else 0)"

text \<open>The transfer started and its completion came before any error and before the timeout.\<close>

definition attempt_completes :: "dma_attempt \<Rightarrow> bool" where
  "attempt_completes hal \<longleftrightarrow> hal_start_ok hal \<and>
     (case filter (\<lambda>i. irq_flag i \<noteq> 0) (wait_irqs hal) of [] \<Rightarrow> False | i # _ \<Rightarrow> irq_flag i = 1)"

definition tx_idle :: "comm_tx \<Rightarrow> bool" where
  "tx_idle tx \<longleftrightarrow> commTxTaskId tx \<noteq> None \<and> commTxState tx = COMM_TX_STATE_IDLE \<and>
     txThreadFlags tx AND NOT 7 = 0 \<and> length (commTxEncodedBuffer tx) = 135"

lemma serve_in_flight:
  "commTxTaskId tx \<noteq> None \<Longrightarrow> commTxState tx = COMM_TX_STATE_IN_FLIGHT \<Longrightarrow>
     serve_irq i tx = tx\<lparr>txThreadFlags := txThreadFlags tx OR irq_flag i\<rparr>"
  by (cases i) (auto simp: HAL_UART_TxCpltCallback_def HAL_UART_AbortTransmitCpltCallback_def
      CommTx_HandleUartError_def osThreadFlagsSet_def)

text \<open>Interrupts and waiting touch only the thread flags, and of those only the three bits.\<close>

lemma serve_irq_flags:
  "\<exists>fl. serve_irq i tx = tx\<lparr>txThreadFlags := txThreadFlags tx OR fl\<rparr> \<and> fl AND NOT 7 = 0"
proof (cases i)
  case (TX_COMPLETE h)
  then show ?thesis
    by (cases "HAL_UART_TxCpltCallback h tx = tx")
      (auto simp: HAL_UART_TxCpltCallback_def osThreadFlagsSet_def intro: exI [of _ 1] exI [of _ 0])
next
  case (TX_ABORT_COMPLETE h)
  then show ?thesis
    by (cases "HAL_UART_AbortTransmitCpltCallback h tx = tx")
      (auto simp: HAL_UART_AbortTransmitCpltCallback_def osThreadFlagsSet_def intro: exI [of _ 4] exI [of _ 0])
next
  case (UART_ERROR h)
  then show ?thesis
    by (cases "snd (CommTx_HandleUartError h tx) = tx")
      (auto simp: CommTx_HandleUartError_def osThreadFlagsSet_def intro: exI [of _ 2] exI [of _ 0])
qed

definition only_flags :: "comm_tx \<Rightarrow> comm_tx \<Rightarrow> bool" where
  "only_flags tx tx' \<longleftrightarrow> (\<exists>fl. tx' = tx\<lparr>txThreadFlags := fl\<rparr>) \<and>
     (txThreadFlags tx AND NOT 7 = 0 \<longrightarrow> txThreadFlags tx' AND NOT 7 = 0)"

lemma only_flags_refl [simp]: "only_flags tx tx"
  by (auto simp: only_flags_def intro: exI [of _ "txThreadFlags tx"])

lemma only_flags_trans: "only_flags a b \<Longrightarrow> only_flags b c \<Longrightarrow> only_flags a c"
  by (auto simp: only_flags_def)

lemma only_flags_serve: "only_flags tx (serve_irq i tx)"
proof -
  obtain fl where fl: "serve_irq i tx = tx\<lparr>txThreadFlags := txThreadFlags tx OR fl\<rparr>" "fl AND NOT 7 = 0"
    using serve_irq_flags by blast
  then show ?thesis by (auto simp: only_flags_def bit.conj_disj_distrib2)
qed

lemma only_flags_clear: "only_flags tx (osThreadFlagsClear m tx)"
proof -
  have "(txThreadFlags tx AND NOT m) AND NOT 7 = (txThreadFlags tx AND NOT 7) AND NOT m"
    by (simp add: ac_simps)
  then show ?thesis by (auto simp: only_flags_def osThreadFlagsClear_def)
qed

lemma only_flags_serve_all: "only_flags tx (foldl (\<lambda>tx i. serve_irq i tx) tx is)"
  by (induction "is" arbitrary: tx) (auto intro: only_flags_trans only_flags_serve)

lemma only_flags_wait: "only_flags tx (snd (osThreadFlagsWait m is tx))"
proof (induction "is" arbitrary: tx)
  case (Cons i "is")
  then show ?case
    using only_flags_serve_all [of "osThreadFlagsClear m tx" "i # is"]
    by (auto intro: only_flags_trans only_flags_clear only_flags_serve simp del: foldl_Cons)
qed (auto intro: only_flags_clear)

lemma flags_wait_in_flight:
  assumes "commTxTaskId tx \<noteq> None" "commTxState tx = COMM_TX_STATE_IN_FLIGHT" "txThreadFlags tx = 0"
  shows "fst (osThreadFlagsWait 3 is tx) =
    (case filter (\<lambda>i. irq_flag i \<noteq> 0) is of [] \<Rightarrow> osFlagsErrorTimeout | i # _ \<Rightarrow> irq_flag i)"
  using assms
proof (induction "is" arbitrary: tx)
  case (Cons i "is")
  have serve: "serve_irq i tx = tx\<lparr>txThreadFlags := irq_flag i\<rparr>"
    using serve_in_flight Cons.prems by simp
  show ?case
  proof (cases "irq_flag i = 0")
    case True
    then have "serve_irq i tx = tx" using serve Cons.prems by simp
    then show ?thesis using True Cons by simp
  next
    case False
    then have "irq_flag i = 1 \<or> irq_flag i = 2" by (cases i) (auto split: if_splits)
    then show ?thesis using serve False Cons.prems by (cases "is") auto
  qed
qed simp

lemma abort_transmit_effect:
  obtains fl st where "comm_tx_abort_transmit hal tx =
      tx\<lparr>txThreadFlags := fl, commTxStats := st, commTxState := COMM_TX_STATE_IDLE\<rparr>"
    "txThreadFlags tx AND NOT 7 = 0 \<longrightarrow> fl AND NOT 7 = 0"
    "tx_sent st = tx_sent (commTxStats tx)" "tx_transmit_errors st = tx_transmit_errors (commTxStats tx)"
    "tx_encode_errors st = tx_encode_errors (commTxStats tx)"
proof -
  let ?tx = "tx_count tx_aborts_update (osThreadFlagsClear 4 (tx\<lparr>commTxState := COMM_TX_STATE_ABORTING\<rparr>))"
  obtain flags tx' where wait: "osThreadFlagsWait 4 (abort_irqs hal) ?tx = (flags, tx')"
    by fastforce
  then have "only_flags ?tx tx'" using only_flags_wait [of ?tx 4 "abort_irqs hal"] by simp
  then obtain fl where fl: "tx' = ?tx\<lparr>txThreadFlags := fl\<rparr>"
      "txThreadFlags tx AND NOT 7 = 0 \<longrightarrow> fl AND NOT 7 = 0"
    using only_flags_clear [of "tx\<lparr>commTxState := COMM_TX_STATE_ABORTING\<rparr>" 4] by (auto simp: only_flags_def)
  show thesis
  proof (cases "hal_abort_ok hal")
    case False
    then show ?thesis
      using only_flags_clear [of "tx\<lparr>commTxState := COMM_TX_STATE_ABORTING\<rparr>" 4]
      by (intro that [of "commTxStats tx" "txThreadFlags tx AND NOT 4"])
        (auto simp: comm_tx_abort_transmit_def osThreadFlagsClear_def only_flags_def)
  next
    case True
    show ?thesis
      by (rule that [of "(if flags AND osFlagsError \<noteq> 0 then tx_abort_timeouts_update (\<lambda>n. n + 1)
              else id) (tx_aborts_update (\<lambda>n. n + 1) (commTxStats tx))" fl])
        (use wait fl True in \<open>simp_all add: comm_tx_abort_transmit_def osThreadFlagsClear_def Let_def\<close>)
  qed
qed

lemma irq_flag_completes: "irq_flag i AND 2 = 0 \<Longrightarrow> irq_flag i AND 1 \<noteq> 0 \<Longrightarrow> irq_flag i = 1"
  by (cases i) (simp_all split: if_splits)

lemma transmit_dma_effect:
  assumes "tx_idle tx"
  obtains fl st where "comm_tx_transmit_dma hal n tx =
      (attempt_completes hal, tx\<lparr>txThreadFlags := fl, commTxStats := st,
         uart1_started := uart1_started tx @
           (if hal_start_ok hal then [take n (commTxEncodedBuffer tx)] else [])\<rparr>)"
    "fl AND NOT 7 = 0"
    "tx_sent st = tx_sent (commTxStats tx)" "tx_transmit_errors st = tx_transmit_errors (commTxStats tx)"
    "tx_encode_errors st = tx_encode_errors (commTxStats tx)"
proof -
  let ?t0 = "(osThreadFlagsClear 7 tx)\<lparr>commTxState := COMM_TX_STATE_IN_FLIGHT\<rparr>"
  let ?t1 = "?t0\<lparr>uart1_started := uart1_started tx @ [take n (commTxEncodedBuffer tx)]\<rparr>"
  have cleared: "txThreadFlags tx AND NOT 7 = 0" and idle: "commTxState tx = COMM_TX_STATE_IDLE"
    and task: "commTxTaskId tx \<noteq> None"
    using assms by (simp_all add: tx_idle_def)
  show thesis
  proof (cases "hal_start_ok hal")
    case False
    then show ?thesis
      using cleared idle
      by (intro that [of "tx_dma_start_errors_update (\<lambda>n. n + 1) (commTxStats tx)" 0])
        (cases tx, simp_all add: comm_tx_transmit_dma_def osThreadFlagsClear_def attempt_completes_def Let_def)
  next
    case True
    obtain flags tx2 where wait: "osThreadFlagsWait 3 (wait_irqs hal) ?t1 = (flags, tx2)" by fastforce
    have flags: "flags = (case filter (\<lambda>i. irq_flag i \<noteq> 0) (wait_irqs hal) of
        [] \<Rightarrow> osFlagsErrorTimeout | i # _ \<Rightarrow> irq_flag i)"
      using flags_wait_in_flight [of ?t1 "wait_irqs hal"] wait task cleared
      by (simp add: osThreadFlagsClear_def)
    have outcome: "flags AND osFlagsError = 0 \<and> flags AND 2 = 0 \<and> flags AND 1 \<noteq> 0 \<longleftrightarrow> attempt_completes hal"
      using True unfolding flags attempt_completes_def
      by (auto split: list.splits dest: irq_flag_completes)
    obtain fl where fl: "tx2 = ?t1\<lparr>txThreadFlags := fl\<rparr>" "fl AND NOT 7 = 0"
      using only_flags_wait [of ?t1 3 "wait_irqs hal"] wait cleared
      by (auto simp: only_flags_def osThreadFlagsClear_def)
    show ?thesis
    proof (cases "attempt_completes hal")
      case complete: True
      have "tx2\<lparr>commTxState := COMM_TX_STATE_IDLE\<rparr> = tx\<lparr>txThreadFlags := fl, commTxStats := commTxStats tx,
          uart1_started := uart1_started tx @ [take n (commTxEncodedBuffer tx)]\<rparr>"
        using fl idle by (cases tx) (simp add: osThreadFlagsClear_def)
      then show ?thesis
        using True complete wait fl outcome
        by (intro that [of "commTxStats tx" fl])
          (simp_all add: comm_tx_transmit_dma_def osThreadFlagsClear_def Let_def)
    next
      case incomplete: False
      let ?st = "(if flags = osFlagsErrorTimeout then tx_dma_timeouts_update else tx_dma_errors_update)
                   (\<lambda>n. n + 1) (commTxStats tx)"
      let ?t3 = "tx2\<lparr>commTxStats := ?st\<rparr>"
      obtain fl3 st3 where a: "comm_tx_abort_transmit hal ?t3 =
            ?t3\<lparr>txThreadFlags := fl3, commTxStats := st3, commTxState := COMM_TX_STATE_IDLE\<rparr>"
          "txThreadFlags ?t3 AND NOT 7 = 0 \<longrightarrow> fl3 AND NOT 7 = 0"
          "tx_sent st3 = tx_sent (commTxStats ?t3)"
          "tx_transmit_errors st3 = tx_transmit_errors (commTxStats ?t3)"
          "tx_encode_errors st3 = tx_encode_errors (commTxStats ?t3)"
        by (rule abort_transmit_effect)
      have "(if flags = osFlagsErrorTimeout then tx_count tx_dma_timeouts_update tx2
             else tx_count tx_dma_errors_update tx2) = ?t3"
        using fl(1) by (simp add: osThreadFlagsClear_def)
      then have run: "comm_tx_transmit_dma hal n tx = (False, comm_tx_abort_transmit hal ?t3)"
        using True incomplete wait outcome
        by (simp add: comm_tx_transmit_dma_def osThreadFlagsClear_def Let_def)
      have "?t3\<lparr>txThreadFlags := fl3, commTxStats := st3, commTxState := COMM_TX_STATE_IDLE\<rparr> =
          tx\<lparr>txThreadFlags := fl3, commTxStats := st3,
            uart1_started := uart1_started tx @ [take n (commTxEncodedBuffer tx)]\<rparr>"
        using fl(1) idle by (cases tx) (simp add: osThreadFlagsClear_def)
      then show ?thesis
        using True incomplete run a fl by (intro that [of st3 fl3]) simp_all
    qed
  qed
qed

lemma tx_idle_fields:
  "tx_idle tx \<Longrightarrow> fl AND NOT 7 = 0 \<Longrightarrow>
     tx_idle (tx\<lparr>txThreadFlags := fl, commTxStats := st, uart1_started := u\<rparr>)"
  by (simp add: tx_idle_def)

lemma attempts_effect:
  assumes "tx_idle tx" "left \<le> 4"
  shows "\<exists>k fl st. k \<le> left \<and> fl AND NOT 7 = 0 \<and>
    comm_tx_attempts left hal n tx = tx\<lparr>txThreadFlags := fl, commTxStats := st,
       uart1_started := uart1_started tx @ replicate k (take n (commTxEncodedBuffer tx))\<rparr> \<and>
    tx_encode_errors st = tx_encode_errors (commTxStats tx) \<and>
    (if \<exists>i \<in> {4 - left..<4}. attempt_completes (hal i)
     then 0 < k \<and> tx_sent st = tx_sent (commTxStats tx) + 1 \<and>
       tx_transmit_errors st = tx_transmit_errors (commTxStats tx)
     else tx_sent st = tx_sent (commTxStats tx) \<and>
       tx_transmit_errors st = tx_transmit_errors (commTxStats tx) + 1)"
  using assms
proof (induction left arbitrary: tx)
  case 0
  then have "txThreadFlags tx AND NOT 7 = 0" by (simp add: tx_idle_def)
  then show ?case
    by (intro exI [of _ 0] exI [of _ "txThreadFlags tx"]
        exI [of _ "tx_transmit_errors_update (\<lambda>n. n + 1) (commTxStats tx)"])
      (cases tx, simp)
next
  case (Suc left)
  let ?i = "3 - left"
  have range: "{3 - left..<4} = insert ?i {4 - left..<4}" using Suc.prems(2) by auto
  obtain fl st where run: "comm_tx_transmit_dma (hal ?i) n tx = (attempt_completes (hal ?i),
        tx\<lparr>txThreadFlags := fl, commTxStats := st, uart1_started := uart1_started tx @
          (if hal_start_ok (hal ?i) then [take n (commTxEncodedBuffer tx)] else [])\<rparr>)"
      "fl AND NOT 7 = 0" "tx_sent st = tx_sent (commTxStats tx)"
      "tx_transmit_errors st = tx_transmit_errors (commTxStats tx)"
      "tx_encode_errors st = tx_encode_errors (commTxStats tx)"
    using transmit_dma_effect [OF Suc.prems(1), of "hal ?i" n] by metis
  show ?case
  proof (cases "attempt_completes (hal ?i)")
    case True
    then have "hal_start_ok (hal ?i)" by (simp add: attempt_completes_def)
    then show ?thesis
      using True run
      by (intro exI [of _ 1] exI [of _ fl] exI [of _ "tx_sent_update (\<lambda>n. n + 1) st"])
        (cases tx, auto simp: range)
  next
    case False
    let ?st = "(if ?i < 3 then tx_retries_update (\<lambda>n. n + 1) else id) st"
    let ?u = "uart1_started tx @ (if hal_start_ok (hal ?i) then [take n (commTxEncodedBuffer tx)] else [])"
    let ?tx = "tx\<lparr>txThreadFlags := fl, commTxStats := ?st, uart1_started := ?u\<rparr>"
    have idle: "tx_idle ?tx" using Suc.prems(1) run(2) by (rule tx_idle_fields)
    obtain k fl' st' where rest: "k \<le> left" "fl' AND NOT 7 = 0"
      "comm_tx_attempts left hal n ?tx = ?tx\<lparr>txThreadFlags := fl', commTxStats := st',
         uart1_started := ?u @ replicate k (take n (commTxEncodedBuffer tx))\<rparr>"
      "tx_encode_errors st' = tx_encode_errors ?st"
      "if \<exists>i \<in> {4 - left..<4}. attempt_completes (hal i)
       then 0 < k \<and> tx_sent st' = tx_sent ?st + 1 \<and> tx_transmit_errors st' = tx_transmit_errors ?st
       else tx_sent st' = tx_sent ?st \<and> tx_transmit_errors st' = tx_transmit_errors ?st + 1"
      using Suc.IH [OF idle] Suc.prems(2) by auto
    have step: "comm_tx_attempts (Suc left) hal n tx = comm_tx_attempts left hal n ?tx"
      using False run(1) by (cases tx) (simp add: Let_def)
    have stats: "tx_encode_errors ?st = tx_encode_errors (commTxStats tx)"
      "tx_sent ?st = tx_sent (commTxStats tx)"
      "tx_transmit_errors ?st = tx_transmit_errors (commTxStats tx)"
      using run by simp_all
    let ?k = "if hal_start_ok (hal ?i) then Suc k else k"
    have "?u @ replicate k (take n (commTxEncodedBuffer tx)) =
        uart1_started tx @ replicate ?k (take n (commTxEncodedBuffer tx))"
      by simp
    then have "comm_tx_attempts (Suc left) hal n tx = tx\<lparr>txThreadFlags := fl', commTxStats := st',
         uart1_started := uart1_started tx @ replicate ?k (take n (commTxEncodedBuffer tx))\<rparr>"
      unfolding step rest(3) by simp
    then show ?thesis
      using False rest(1,2,4,5) stats
      by (intro exI [of _ ?k] exI [of _ fl'] exI [of _ st']) (auto simp: range split: if_splits)
  qed
qed

section \<open>What becomes of a message\<close>

text \<open>
  Whatever the DMA and the interrupts do, the transmit task hands an encodable message to
  the UART at most four times, always the same wire image, and accounts for it once: as sent if
  and only if some attempt's completion interrupt came before any error and the timeout, else as
  a transmit error; an unencodable one is counted and not started. The transmitter ends idle and
  a provided sequence number does not consume the counter.
\<close>

theorem tx_message_accounted:
  assumes "tx_idle tx" "length (txm_payload m) = 128" "unat (txm_length m) \<le> 128"
  shows "let tx' = comm_tx_send_message hal m tx; f = comm_tx_frame m (commTxSequence tx);
           st = commTxStats tx; st' = commTxStats tx'
    in tx_idle tx' \<and> commTxQueueHandle tx' = commTxQueueHandle tx \<and>
       commTxSequence tx' = commTxSequence tx + (if txm_use_provided_sequence m then 0 else 1) \<and>
       (if encodable m
        then (\<exists>k \<le> 4. uart1_started tx' = uart1_started tx @ replicate k (frame_bytes f) \<and>
               ((\<exists>i < 4. attempt_completes (hal i)) \<longrightarrow> 0 < k)) \<and>
             tx_encode_errors st' = tx_encode_errors st \<and>
             tx_sent st' = tx_sent st + (if \<exists>i < 4. attempt_completes (hal i) then 1 else 0) \<and>
             tx_transmit_errors st' = tx_transmit_errors st + (if \<exists>i < 4. attempt_completes (hal i) then 0 else 1)
        else uart1_started tx' = uart1_started tx \<and>
             st' = st\<lparr>tx_encode_errors := tx_encode_errors st + 1\<rparr>)"
proof -
  let ?f = "comm_tx_frame m (commTxSequence tx)"
  let ?tx0 = "if txm_use_provided_sequence m then tx else tx\<lparr>commTxSequence := commTxSequence tx + 1\<rparr>"
  have idle: "tx_idle ?tx0" and buffer: "length (commTxEncodedBuffer tx) = 135"
    using assms(1) by (simp_all add: tx_idle_def)
  have array: "frame_array_ok ?f"
    using assms(2,3) by (simp add: comm_tx_frame_def Let_def frame_array_ok_def zero_frame_def memcpy_def)
  have tx0: "uart1_started ?tx0 = uart1_started tx" "commTxStats ?tx0 = commTxStats tx"
    "commTxQueueHandle ?tx0 = commTxQueueHandle tx" "commTxEncodedBuffer ?tx0 = commTxEncodedBuffer tx"
    "commTxSequence ?tx0 = commTxSequence tx + (if txm_use_provided_sequence m then 0 else 1)"
    by simp_all
  have lt: "(\<exists>i < 4. attempt_completes (hal i)) \<longleftrightarrow> (\<exists>i \<in> {0..<4}. attempt_completes (hal i))"
    by auto
  show ?thesis
  proof (cases "encodable m")
    case True
    then have valid: "frame_valid ?f" using comm_tx_frame_valid by blast
    then have size: "length (frame_bytes ?f) \<le> 135"
      using frame_valid_length [OF valid] length_frame_bytes by simp
    let ?buf = "frame_bytes ?f @ drop (length (frame_bytes ?f)) (commTxEncodedBuffer tx)"
    let ?tx1 = "?tx0\<lparr>commTxEncodedBuffer := ?buf\<rparr>"
    have "tx_idle ?tx1" using idle buffer size by (simp add: tx_idle_def)
    from attempts_effect [OF this order_refl, of hal "length (frame_bytes ?f)"]
    obtain k fl st where r: "k \<le> 4" "fl AND NOT 7 = 0"
      "comm_tx_attempts 4 hal (length (frame_bytes ?f)) ?tx1 = ?tx1\<lparr>txThreadFlags := fl, commTxStats := st,
         uart1_started := uart1_started tx @ replicate k (frame_bytes ?f)\<rparr>"
      "tx_encode_errors st = tx_encode_errors (commTxStats tx)"
      "if \<exists>i < 4. attempt_completes (hal i)
       then 0 < k \<and> tx_sent st = tx_sent (commTxStats tx) + 1 \<and>
         tx_transmit_errors st = tx_transmit_errors (commTxStats tx)
       else tx_sent st = tx_sent (commTxStats tx) \<and>
         tx_transmit_errors st = tx_transmit_errors (commTxStats tx) + 1"
      unfolding lt by (auto simp: tx0)
    have "comm_tx_send_message hal m tx = comm_tx_attempts 4 hal (length (frame_bytes ?f)) ?tx1"
      using encode_ok [OF valid size, of "commTxEncodedBuffer tx" 0] buffer
      by (simp add: comm_tx_send_message_def Let_def)
    moreover have "tx_idle (comm_tx_attempts 4 hal (length (frame_bytes ?f)) ?tx1)"
      unfolding r(3) by (rule tx_idle_fields [OF \<open>tx_idle ?tx1\<close> r(2)])
    ultimately show ?thesis
      using True r by (simp add: Let_def tx0 split: if_splits)
  next
    case False
    then have "\<not> frame_valid ?f" using comm_tx_frame_valid assms(2) by blast
    then have "\<exists>r. r \<noteq> UART_CODEC_OK \<and> uart_encode_frame (Some ?f) (Some (commTxEncodedBuffer tx)) 135 (Some 0) =
        (r, Some (commTxEncodedBuffer tx), Some 0)"
      using encode_frame_cases [OF array buffer, of 0] by fastforce
    then show ?thesis
      using False assms(1) by (auto simp: comm_tx_send_message_def Let_def tx_idle_def)
  qed
qed

text \<open>What the task takes from the queue is sent; nothing else leaves the queue.\<close>

lemma tx_task_takes_oldest:
  assumes "now - last_heartbeat < COMM_TX_HEARTBEAT_PERIOD_MS" "commTxQueueHandle tx = Some q"
    "queue_items q = m # ms"
  shows "comm_tx_task_body now now' now'' hal (last_heartbeat, tx) =
    (last_heartbeat, comm_tx_send_message hal m (tx\<lparr>commTxQueueHandle := Some (q\<lparr>queue_items := ms\<rparr>)\<rparr>))"
proof -
  have "\<not> (COMM_TX_HEARTBEAT_PERIOD_MS :: u32) \<le> now - last_heartbeat" using assms(1) by simp
  then show ?thesis using assms(2,3) by (simp add: comm_tx_task_body_def osMessageQueueGet_def)
qed

section \<open>A concrete run\<close>

text \<open>
  A success response to request 7, answered by a line that stays silent on the first attempt
  and completes on the second.
\<close>

definition demo_tx :: comm_tx where
  "demo_tx = \<lparr>commTxStats = zero_tx_stats, commTxSequence = 0, commTxDeviceState = 0,
     commTxError = 0, commTxTaskId = Some 1, commTxState = COMM_TX_STATE_IDLE,
     commTxEncodedBuffer = replicate 135 0, commTxQueueHandle = osMessageQueueNew True 12,
     txThreadFlags = 0, uart1_started = []\<rparr>"

definition demo_line :: "nat \<Rightarrow> dma_attempt" where
  "demo_line i = \<lparr>hal_start_ok = True,
     wait_irqs = (if i = 0 then []
       else [TX_COMPLETE (Some \<lparr>huart_Instance = USART1, huart_ErrorCode = 0,
               hdmatx_ErrorCode = Some 0, hdmarx_ErrorCode = Some 0\<rparr>)]),
     hal_abort_ok = True, abort_irqs = []\<rparr>"

lemma demo_tx_idle: "tx_idle demo_tx"
  by (simp add: tx_idle_def demo_tx_def)

theorem tx_message_accounted_witness:
  "tx_sent (commTxStats (comm_tx_send_message demo_line (tx_message 7 True 0xE0 [3, 1, 0]) demo_tx)) = 1 \<and>
   (\<exists>k \<in> {1..4}. uart1_started (comm_tx_send_message demo_line (tx_message 7 True 0xE0 [3, 1, 0]) demo_tx) =
      replicate k (frame_bytes (comm_tx_frame (tx_message 7 True 0xE0 [3, 1, 0]) 0)))"
proof -
  let ?m = "tx_message 7 True 0xE0 [3, 1, 0]"
  have "attempt_completes (demo_line 1)"
    by (simp add: attempt_completes_def demo_line_def)
  then have ok: "\<exists>i < 4. attempt_completes (demo_line i)"
    by (intro exI [of _ 1]) simp
  have "UART_IS_VALID_COMMAND_PAYLOAD_LENGTH 0xE0 3" by code_simp
  then have enc: "encodable ?m"
    by (intro encodable_tx_message) simp_all
  have "length (txm_payload ?m) = 128" "unat (txm_length ?m) \<le> 128"
    by (simp_all add: tx_message_def)
  from tx_message_accounted [OF demo_tx_idle this, of demo_line]
  show ?thesis
    using ok enc by (auto simp: Let_def demo_tx_def zero_tx_stats_def Suc_le_eq)
qed

end
