(* ===== verification/Gripper_App.thy ===== *)
theory Gripper_App
  imports Gripper_System Gripper_Tx
begin

text \<open>
  The statics that the tasks of the gripper controller share, as one record: those of
  \<open>gripper_control_task.c\<close>, \<open>safety_task.c\<close>, \<open>comm_rx_task.c\<close> and \<open>app_comm_tx.c\<close>, the two
  command queues, and the hardware behind the servo port. A task's operation takes the whole
  and returns it updated.
\<close>

section \<open>Control task\<close>

record gripper_control_task_stats_t =
  st_commands :: u32
  st_duplicate_commands :: u32
  st_sequence_conflicts :: u32
  st_stale_commands :: u32
  st_busy_commands :: u32
  st_response_retries :: u32
  st_response_drops :: u32
  st_event_retries :: u32
  st_motion_completions :: u32
  st_servo_faults :: u32
  st_safety_queue_drops :: u32

definition zero_task_stats :: gripper_control_task_stats_t where
  "zero_task_stats = \<lparr>st_commands = 0, st_duplicate_commands = 0, st_sequence_conflicts = 0,
     st_stale_commands = 0, st_busy_commands = 0, st_response_retries = 0, st_response_drops = 0,
     st_event_retries = 0, st_motion_completions = 0, st_servo_faults = 0, st_safety_queue_drops = 0\<rparr>"

record gripper_transaction_cache_t =
  cache_valid :: bool
  cache_sequence :: u8
  cache_command :: u8
  cache_length :: u8
  cache_payload :: "u8 list"
  cache_safety_epoch :: u32
  cache_result :: gripper_control_result_t
  cache_response_length :: u8
  cache_response :: "u8 list"

definition zero_cache :: gripper_transaction_cache_t where
  "zero_cache = \<lparr>cache_valid = False, cache_sequence = 0, cache_command = 0, cache_length = 0,
     cache_payload = replicate 128 0, cache_safety_epoch = 0, cache_result = GRIPPER_CONTROL_OK,
     cache_response_length = 0, cache_response = replicate 128 0\<rparr>"

text \<open>The pending flags are a \<open>uint_fast8_t\<close>, a 32-bit word on this target.\<close>

abbreviation (input) GRIPPER_TASK_SAFETY_STOP_PENDING :: u32
  where "GRIPPER_TASK_SAFETY_STOP_PENDING \<equiv> 1"
abbreviation (input) GRIPPER_TASK_SAFETY_RELEASE_PENDING :: u32
  where "GRIPPER_TASK_SAFETY_RELEASE_PENDING \<equiv> 2"

record 'hw gripper_task =
  gripperController :: "'hw gripper_control_t"
  gripperSnapshot :: gripper_control_snapshot_t
  gripperTaskStats :: gripper_control_task_stats_t
  gripperCache :: gripper_transaction_cache_t
  gripperSafetyPendingFlags :: u32
  gripperPendingResponseValid :: bool
  gripperPendingSequence :: u8
  gripperPendingLength :: u8
  gripperPendingResponse :: "u8 list"
  gripperPendingEventValid :: bool
  gripperPendingEventLength :: u8
  gripperPendingEvent :: "u8 list"

section \<open>Safety task\<close>

datatype safety_request_t = SAFETY_REQUEST_NONE | SAFETY_REQUEST_STOP | SAFETY_REQUEST_RELEASE

record safety_task_stats_t =
  sf_emergency_stops :: u32
  sf_releases :: u32
  sf_queue_drops :: u32
  sf_notifications_failed :: u32

record safety_task =
  safetyEpoch :: u32
  safetyLatched :: bool
  safetyPendingRequest :: safety_request_t
  safetyStats :: safety_task_stats_t
  safetyReleasePending :: bool
  safetyReleaseCause :: u8
  safetyEventPending :: bool
  safetyEventLatched :: bool
  safetyEventCause :: u8

section \<open>Receive task\<close>

record comm_rx_stats_t =
  rx_received_frames :: u32
  rx_gripper_commands :: u32
  rx_safety_commands :: u32
  rx_parser_errors :: u32
  rx_invalid_payloads :: u32
  rx_unsupported_commands :: u32
  rx_queue_drops :: u32
  rx_uart_restarts :: u32

section \<open>The whole\<close>

record 'hw gripper_app =
  app_tx :: comm_tx
  app_task :: "'hw gripper_task"
  app_safety :: safety_task
  app_rx_stats :: comm_rx_stats_t
  gripperControlQueueHandle :: "control_command_t os_queue ptr"
  safetyCommandQueueHandle :: "control_command_t os_queue ptr"
  app_servo :: 'hw

text \<open>A call into the transmit component, with its result.\<close>

definition tx_call :: "(comm_tx \<Rightarrow> int \<times> comm_tx) \<Rightarrow> 'hw gripper_app \<Rightarrow> int \<times> 'hw gripper_app" where
  "tx_call send app = (case send (app_tx app) of (r, tx) \<Rightarrow> (r, app\<lparr>app_tx := tx\<rparr>))"

definition safety_task_get_epoch :: "'hw gripper_app \<Rightarrow> u32" where
  "safety_task_get_epoch app = safetyEpoch (app_safety app)"

definition safety_task_is_latched :: "'hw gripper_app \<Rightarrow> bool" where
  "safety_task_is_latched app = safetyLatched (app_safety app)"

text \<open>The commands of a queue, oldest first; none when the queue was not created.\<close>

definition queued :: "'a os_queue ptr \<Rightarrow> 'a list" where
  "queued mq = (case mq of None \<Rightarrow> [] | Some q \<Rightarrow> queue_items q)"

lemma queued_put:
  "queued (snd (osMessageQueuePut mq x prio)) =
     queued mq @ (if fst (osMessageQueuePut mq x prio) = osOK then [x] else [])"
  by (auto simp: queued_def osMessageQueuePut_def split: option.split)

end
