(* ===== verification/Gripper_Task.thy ===== *)
theory Gripper_Task
  imports Gripper_App "HOL-Library.Multiset"
begin

text \<open>
  The control task of the gripper, \<open>Application/Src/gripper_control_task.c\<close>: it applies what
  the safety task asked for, retries pending responses and events, runs the controller, and
  answers each command once per sequence number from a one-entry transaction cache.
\<close>

section \<open>Helpers of the task\<close>

abbreviation (input) task_count where
  "task_count counter task \<equiv> gripperTaskStats_update (counter (\<lambda>n. n + 1)) task"

definition gripper_control_task_publish_snapshot :: "'hw gripper_app \<Rightarrow> 'hw gripper_app" where
  "gripper_control_task_publish_snapshot app =
     (let task = app_task app;
          snapshot = gripper_control_get_snapshot (Some (gripperController task)) (Some (gripperSnapshot task))
      in app\<lparr>app_task := task\<lparr>gripperSnapshot := the snapshot\<rparr>\<rparr>)"

definition gripper_control_task_safety_marker ::
  "app_control_message_kind_t \<Rightarrow> u8 \<Rightarrow> 'hw gripper_app \<Rightarrow> control_command_t" where
  "gripper_control_task_safety_marker kind command app =
     zero_control_command\<lparr>msg_kind := kind,
       msg_frame := zero_frame\<lparr>frame_version := UART_PROTOCOL_VERSION, frame_command := command\<rparr>,
       msg_safety_epoch := safety_task_get_epoch app\<rparr>"

definition gripper_control_task_enqueue_safety ::
  "app_control_message_kind_t \<Rightarrow> u8 \<Rightarrow> 'hw gripper_app \<Rightarrow> bool \<times> 'hw gripper_app" where
  "gripper_control_task_enqueue_safety kind command app =
     (let message = gripper_control_task_safety_marker kind command app;
          (status, queue) = osMessageQueuePut (gripperControlQueueHandle app) message 3
      in if gripperControlQueueHandle app = NULL \<or> status \<noteq> osOK
         then (False, app\<lparr>app_task := task_count st_safety_queue_drops_update (app_task app)\<rparr>)
         else (True, app\<lparr>gripperControlQueueHandle := queue\<rparr>))"

definition gripper_control_task_notify_safety_stop :: "'hw gripper_app \<Rightarrow> bool \<times> 'hw gripper_app" where
  "gripper_control_task_notify_safety_stop app =
     (let flags = gripperSafetyPendingFlags (app_task app);
          flags = flags AND NOT GRIPPER_TASK_SAFETY_RELEASE_PENDING;
          flags = flags OR GRIPPER_TASK_SAFETY_STOP_PENDING
      in gripper_control_task_enqueue_safety APP_CONTROL_MESSAGE_SAFETY_STOP
           (cmd_code UART_CMD_EMERGENCY_STOP)
           (app\<lparr>app_task := (app_task app)\<lparr>gripperSafetyPendingFlags := flags\<rparr>\<rparr>))"

definition gripper_control_task_notify_safety_release :: "'hw gripper_app \<Rightarrow> bool \<times> 'hw gripper_app" where
  "gripper_control_task_notify_safety_release app =
     (let flags = gripperSafetyPendingFlags (app_task app) OR GRIPPER_TASK_SAFETY_RELEASE_PENDING
      in gripper_control_task_enqueue_safety APP_CONTROL_MESSAGE_SAFETY_RELEASE
           (cmd_code UART_CMD_RESET_DEVICE)
           (app\<lparr>app_task := (app_task app)\<lparr>gripperSafetyPendingFlags := flags\<rparr>\<rparr>))"

text \<open>The two halves of \<open>gripper_control_task_service_tx\<close>; \<open>False\<close> is the early return 0.\<close>

definition service_tx_response :: "'hw gripper_app \<Rightarrow> bool \<times> 'hw gripper_app" where
  "service_tx_response app =
     (let task = app_task app
      in if gripperPendingResponseValid task
         then
           (let (r, app) = tx_call (CommTx_SendWithSequence (gripperPendingSequence task)
                  (cmd_code UART_CMD_RESPONSE) (Some (gripperPendingResponse task))
                  (gripperPendingLength task)) app
            in if r \<noteq> 0
               then (False, app\<lparr>app_task := task_count st_response_retries_update task\<rparr>)
               else (True, app\<lparr>app_task := task\<lparr>gripperPendingResponseValid := False\<rparr>\<rparr>))
         else (True, app))"

definition service_tx_event :: "'hw gripper_app \<Rightarrow> bool \<times> 'hw gripper_app" where
  "service_tx_event app =
     (let task = app_task app
      in if gripperPendingEventValid task
         then
           (let (r, app) = tx_call (CommTx_Send (cmd_code UART_CMD_EVENT)
                  (Some (gripperPendingEvent task)) (gripperPendingEventLength task)) app
            in if r \<noteq> 0
               then (False, app\<lparr>app_task := task_count st_event_retries_update task\<rparr>)
               else (True, app\<lparr>app_task := task\<lparr>gripperPendingEventValid := False\<rparr>\<rparr>))
         else (True, app))"

definition gripper_control_task_service_tx :: "'hw gripper_app \<Rightarrow> bool \<times> 'hw gripper_app" where
  "gripper_control_task_service_tx app =
     (case service_tx_response app of
        (False, app) \<Rightarrow> (False, app)
      | (True, app) \<Rightarrow> service_tx_event app)"

definition gripper_control_task_schedule_response ::
  "u8 \<Rightarrow> u8 list \<Rightarrow> u8 \<Rightarrow> 'hw gripper_app \<Rightarrow> 'hw gripper_app" where
  "gripper_control_task_schedule_response sequence payload n app =
     (let (r, app) = tx_call (CommTx_SendWithSequence sequence (cmd_code UART_CMD_RESPONSE)
            (Some payload) n) app;
          task = app_task app
      in if r = 0 then app
         else app\<lparr>app_task := task_count st_response_drops_update (task\<lparr>
                gripperPendingSequence := sequence, gripperPendingLength := n,
                gripperPendingResponse := memcpy (gripperPendingResponse task) 0 payload 0 (unat n),
                gripperPendingResponseValid := True\<rparr>)\<rparr>)"

definition gripper_control_task_result_error :: "gripper_control_result_t \<Rightarrow> u8" where
  "gripper_control_task_result_error result =
     (case result of
        GRIPPER_CONTROL_OK \<Rightarrow> error_code UART_ERROR_NONE
      | GRIPPER_CONTROL_INVALID_ARGUMENT \<Rightarrow> error_code UART_ERROR_INVALID_PAYLOAD
      | GRIPPER_CONTROL_INVALID_PAYLOAD \<Rightarrow> error_code UART_ERROR_INVALID_PAYLOAD
      | GRIPPER_CONTROL_BUSY \<Rightarrow> error_code UART_ERROR_BUSY
      | GRIPPER_CONTROL_NOT_HOMED \<Rightarrow> UART_GRIPPER_ERROR_NOT_HOMED
      | GRIPPER_CONTROL_SAFETY_STOP \<Rightarrow> error_code UART_ERROR_EMERGENCY_STOP
      | GRIPPER_CONTROL_SERVO_ERROR \<Rightarrow> error_code UART_ERROR_SERVO)"

definition gripper_control_task_result_status :: "u8 \<Rightarrow> gripper_control_result_t \<Rightarrow> u8" where
  "gripper_control_task_result_status command result =
     (if result = GRIPPER_CONTROL_BUSY then status_code UART_STATUS_BUSY
      else if result \<noteq> GRIPPER_CONTROL_OK then status_code UART_STATUS_ERROR
      else if command = gripper_cmd_code UART_CMD_GRIPPER_MOVE_ARM \<or>
              command = gripper_cmd_code UART_CMD_GRIPPER_SET_GRIPPER \<or>
              command = gripper_cmd_code UART_CMD_GRIPPER_HOME
      then status_code UART_STATUS_ACK
      else status_code UART_STATUS_SUCCESS)"

text \<open>The response buffer is a local array of 128 bytes; \<open>payload\<close> is what it holds before.\<close>

definition gripper_control_task_build_response ::
  "control_command_t \<Rightarrow> gripper_control_result_t \<Rightarrow> u8 list \<Rightarrow> 'hw gripper_app \<Rightarrow> u8 list \<times> u8" where
  "gripper_control_task_build_response message result payload app =
     (let command = frame_command (msg_frame message);
          payload = payload[UART_RESPONSE_STATUS_INDEX := gripper_control_task_result_status command result,
                            UART_RESPONSE_COMMAND_INDEX := command,
                            UART_RESPONSE_ERROR_INDEX := gripper_control_task_result_error result]
      in if result = GRIPPER_CONTROL_OK \<and>
            (command = gripper_cmd_code UART_CMD_GRIPPER_GET_STATUS \<or> command = cmd_code UART_CMD_GET_STATUS)
         then
           (let task = app_task app;
                s = the (gripper_control_get_snapshot (Some (gripperController task)) (Some (gripperSnapshot task)));
                payload = payload[3 := gripper_state_code (snap_state s),
                  4 := lo8 (snap_active_motion_id s), 5 := hi8 (snap_active_motion_id s),
                  6 := lo8 (snap_base_angle s), 7 := hi8 (snap_base_angle s),
                  8 := lo8 (snap_shoulder_angle s), 9 := hi8 (snap_shoulder_angle s),
                  10 := lo8 (snap_elbow_angle s), 11 := hi8 (snap_elbow_angle s),
                  12 := snap_gripper_position s, 13 := (if snap_homed s then 1 else 0)]
            in (payload, UART_GRIPPER_STATUS_PAYLOAD_SIZE))
         else (payload, UART_RESPONSE_HEADER_SIZE))"

definition gripper_control_task_same_request :: "control_command_t \<Rightarrow> gripper_transaction_cache_t \<Rightarrow> bool" where
  "gripper_control_task_same_request message cache \<longleftrightarrow>
     cache_valid cache \<and> cache_sequence cache = frame_sequence (msg_frame message) \<and>
     cache_command cache = frame_command (msg_frame message) \<and>
     cache_length cache = frame_length (msg_frame message) \<and>
     (frame_length (msg_frame message) = 0 \<or>
      take (unat (frame_length (msg_frame message))) (cache_payload cache) =
      take (unat (frame_length (msg_frame message))) (frame_payload (msg_frame message)))"

definition gripper_control_task_cache ::
  "control_command_t \<Rightarrow> gripper_control_result_t \<Rightarrow> u8 list \<Rightarrow> u8 \<Rightarrow>
     gripper_transaction_cache_t \<Rightarrow> gripper_transaction_cache_t" where
  "gripper_control_task_cache message result response response_length cache =
     (let frame = msg_frame message;
          cache = cache\<lparr>cache_valid := True, cache_sequence := frame_sequence frame,
                    cache_command := frame_command frame, cache_length := frame_length frame,
                    cache_safety_epoch := msg_safety_epoch message, cache_result := result,
                    cache_response_length := response_length\<rparr>;
          cache = (if 0 < frame_length frame
                   then cache\<lparr>cache_payload :=
                          memcpy (cache_payload cache) 0 (frame_payload frame) 0 (unat (frame_length frame))\<rparr>
                   else cache)
      in cache\<lparr>cache_response := memcpy (cache_response cache) 0 response 0 (unat response_length)\<rparr>)"

section \<open>Safety requests\<close>

definition gripper_control_task_apply_pending_safety :: "'hw gripper_app \<Rightarrow> 'hw gripper_app" where
  "gripper_control_task_apply_pending_safety app =
     (let task = app_task app;
          pending = gripperSafetyPendingFlags task;
          task = task\<lparr>gripperSafetyPendingFlags := 0\<rparr>;
          task = (if pending AND GRIPPER_TASK_SAFETY_STOP_PENDING \<noteq> 0
                  then task\<lparr>gripperController :=
                         the (gripper_control_apply_safety_stop (Some (gripperController task))),
                       gripperCache := (gripperCache task)\<lparr>cache_valid := False\<rparr>\<rparr>
                  else task);
          task = (if pending AND GRIPPER_TASK_SAFETY_RELEASE_PENDING \<noteq> 0
                  then task\<lparr>gripperController :=
                         the (gripper_control_release_safety (Some (gripperController task))),
                       gripperCache := (gripperCache task)\<lparr>cache_valid := False\<rparr>\<rparr>
                  else task);
          app = app\<lparr>app_task := task\<rparr>
      in if pending \<noteq> 0 then gripper_control_task_publish_snapshot app else app)"

section \<open>Commands\<close>

text \<open>
  \<open>gripper_control_task_process_message\<close> past the cache: run the command, or refuse it as
  stale; count, build, cache and send the response.
\<close>

definition execute_command ::
  "control_command_t \<Rightarrow> u32 \<Rightarrow> 'hw gripper_app \<Rightarrow> gripper_control_result_t \<times> 'hw gripper_app" where
  "execute_command message now app =
     (let frame = msg_frame message; task = app_task app
      in if frame_command frame \<noteq> gripper_cmd_code UART_CMD_GRIPPER_GET_STATUS \<and>
            frame_command frame \<noteq> cmd_code UART_CMD_GET_STATUS \<and>
            msg_safety_epoch message \<noteq> safety_task_get_epoch app
         then (GRIPPER_CONTROL_SAFETY_STOP, app\<lparr>app_task := task_count st_stale_commands_update task\<rparr>)
         else if frame_command frame = cmd_code UART_CMD_GET_STATUS then (GRIPPER_CONTROL_OK, app)
         else
           (case gripper_control_process_command (Some (gripperController task)) (app_servo app)
                   (frame_command frame) (Some (frame_payload frame)) (frame_length frame) now of
              (result, controller, hw) \<Rightarrow>
                (result, app\<lparr>app_task := task\<lparr>gripperController := the controller\<rparr>, app_servo := hw\<rparr>)))"

definition count_result :: "gripper_control_result_t \<Rightarrow> 'hw gripper_app \<Rightarrow> 'hw gripper_app" where
  "count_result result app =
     (let task = task_count st_commands_update (app_task app)
      in app\<lparr>app_task :=
           (if result = GRIPPER_CONTROL_BUSY then task_count st_busy_commands_update task
            else if result = GRIPPER_CONTROL_SERVO_ERROR then task_count st_servo_faults_update task
            else task)\<rparr>)"

definition gripper_control_task_process_message ::
  "u8 list \<Rightarrow> control_command_t ptr \<Rightarrow> u32 \<Rightarrow> 'hw gripper_app \<Rightarrow> gripper_control_result_t \<times> 'hw gripper_app" where
  "gripper_control_task_process_message response_buffer message_ptr now app =
     (case message_ptr of
        None \<Rightarrow> (GRIPPER_CONTROL_INVALID_ARGUMENT, app)
      | Some message \<Rightarrow>
          (let app = gripper_control_task_apply_pending_safety app;
               frame = msg_frame message; cache = gripperCache (app_task app)
           in if msg_kind message \<noteq> APP_CONTROL_MESSAGE_UART_COMMAND then (GRIPPER_CONTROL_OK, app)
              else if cache_valid cache \<and> cache_sequence cache = frame_sequence frame
              then
                (if gripper_control_task_same_request message cache \<and>
                    cache_safety_epoch cache = msg_safety_epoch message
                 then
                   (let app = app\<lparr>app_task := task_count st_duplicate_commands_update (app_task app)\<rparr>
                    in (cache_result cache,
                        gripper_control_task_schedule_response (frame_sequence frame)
                          (cache_response cache) (cache_response_length cache) app))
                 else
                   (let app = app\<lparr>app_task := task_count st_sequence_conflicts_update (app_task app)\<rparr>;
                        response = response_buffer[
                          UART_RESPONSE_STATUS_INDEX := status_code UART_STATUS_NACK,
                          UART_RESPONSE_COMMAND_INDEX := frame_command frame,
                          UART_RESPONSE_ERROR_INDEX := error_code UART_ERROR_SEQUENCE]
                    in (GRIPPER_CONTROL_INVALID_PAYLOAD,
                        gripper_control_task_schedule_response (frame_sequence frame) response
                          UART_RESPONSE_HEADER_SIZE app)))
              else
                (let (result, app) = execute_command message now app;
                     app = count_result result app;
                     (response, response_length) =
                       gripper_control_task_build_response message result response_buffer app;
                     app = app\<lparr>app_task := (app_task app)\<lparr>gripperCache :=
                       gripper_control_task_cache message result response response_length
                         (gripperCache (app_task app))\<rparr>\<rparr>
                 in (result,
                     gripper_control_task_schedule_response (frame_sequence frame) response
                       response_length app))))"

section \<open>Completion events\<close>

definition completion_event :: "u8 list \<Rightarrow> gripper_control_completion_t \<Rightarrow> u8 list \<times> u8" where
  "completion_event payload completion =
     (let payload = payload[
            0 := (if completion_fault completion then gripper_event_code UART_GRIPPER_EVENT_FAULT
                  else gripper_event_code UART_GRIPPER_EVENT_MOTION_COMPLETE),
            1 := lo8 (completion_motion_id completion), 2 := hi8 (completion_motion_id completion),
            3 := gripper_motion_code (completion_motion_type completion)]
      in if completion_fault completion
         then (payload[4 := error_code (completion_error completion)], UART_GRIPPER_FAULT_EVENT_PAYLOAD_SIZE)
         else (payload, UART_GRIPPER_MOTION_EVENT_PAYLOAD_SIZE))"

definition gripper_control_task_emit_completion :: "u8 list \<Rightarrow> 'hw gripper_app \<Rightarrow> 'hw gripper_app" where
  "gripper_control_task_emit_completion buffer app =
     (let task = app_task app;
          (taken, controller, completion) =
            gripper_control_take_completion (Some (gripperController task)) (Some zero_completion);
          app = app\<lparr>app_task := task\<lparr>gripperController := the controller\<rparr>\<rparr>
      in if \<not> taken then app
         else
           (let (payload, n) = completion_event buffer (the completion);
                app = app\<lparr>app_task :=
                  (if completion_fault (the completion)
                   then task_count st_servo_faults_update (app_task app)
                   else task_count st_motion_completions_update (app_task app))\<rparr>;
                (r, app) = tx_call (CommTx_Send (cmd_code UART_CMD_EVENT) (Some payload) n) app;
                task = app_task app
            in if r \<noteq> 0
               then app\<lparr>app_task := task\<lparr>
                      gripperPendingEvent := memcpy (gripperPendingEvent task) 0 payload 0 (unat n),
                      gripperPendingEventLength := n, gripperPendingEventValid := True\<rparr>\<rparr>
               else app))"

definition gripper_control_task_get_snapshot ::
  "gripper_control_snapshot_t ptr \<Rightarrow> 'hw gripper_app \<Rightarrow> gripper_control_snapshot_t ptr" where
  "gripper_control_task_get_snapshot snapshot app =
     (if snapshot \<noteq> NULL then Some (gripperSnapshot (app_task app)) else snapshot)"

definition gripper_control_task_get_stats ::
  "gripper_control_task_stats_t ptr \<Rightarrow> 'hw gripper_app \<Rightarrow> gripper_control_task_stats_t ptr" where
  "gripper_control_task_get_stats stats app =
     (if stats \<noteq> NULL then Some (gripperTaskStats (app_task app)) else stats)"

section \<open>The task\<close>

definition control_task_init :: "'hw gripper_servo_port_t ptr \<Rightarrow> 'hw gripper_app \<Rightarrow> 'hw gripper_app" where
  "control_task_init port app =
     (let task = (app_task app)\<lparr>gripperTaskStats := zero_task_stats, gripperCache := zero_cache\<rparr>;
          (_, controller) = gripper_control_init (Some (gripperController task)) port
      in gripper_control_task_publish_snapshot
           (app\<lparr>app_task := task\<lparr>gripperController := the controller\<rparr>\<rparr>))"

text \<open>
  One round of the loop of \<open>StartGripperControlTask\<close>. \<open>clock\<close> gives the successive readings
  of \<open>HAL_GetTick\<close>, \<open>buffer\<close> what the local arrays hold; the state has the task's local
  variable \<open>last_update\<close> beside the statics.
\<close>

definition control_task_update ::
  "(nat \<Rightarrow> u32) \<Rightarrow> u8 list \<Rightarrow> u32 \<times> 'hw gripper_app \<Rightarrow> u32 \<times> 'hw gripper_app" where
  "control_task_update clock buffer = (\<lambda>(last_update, app).
     if GRIPPER_CONTROL_UPDATE_PERIOD_MS \<le> clock 0 - last_update
     then
       (let task = app_task app;
            (controller, hw) = gripper_control_tick (Some (gripperController task)) (app_servo app) (clock 1);
            app = app\<lparr>app_task := task\<lparr>gripperController := the controller\<rparr>, app_servo := hw\<rparr>;
            app = gripper_control_task_emit_completion (take 5 buffer) app;
            app = gripper_control_task_publish_snapshot app
        in (clock 2, app))
     else (last_update, app))"

definition control_task_receive :: "u32 \<Rightarrow> u8 list \<Rightarrow> 'hw gripper_app \<Rightarrow> 'hw gripper_app" where
  "control_task_receive now buffer app =
     (let (status, message, queue) = osMessageQueueGet (gripperControlQueueHandle app) 5
      in if gripperControlQueueHandle app \<noteq> NULL \<and> status = osOK
         then gripper_control_task_publish_snapshot
                (snd (gripper_control_task_process_message buffer message now
                        (app\<lparr>gripperControlQueueHandle := queue\<rparr>)))
         else app)"

definition control_task_body ::
  "(nat \<Rightarrow> u32) \<Rightarrow> u8 list \<Rightarrow> u32 \<times> 'hw gripper_app \<Rightarrow> u32 \<times> 'hw gripper_app" where
  "control_task_body clock buffer = (\<lambda>(last_update, app).
     let app = gripper_control_task_apply_pending_safety app
     in case gripper_control_task_service_tx app of
          (False, app) \<Rightarrow> (last_update, app)
        | (True, app) \<Rightarrow>
            (case control_task_update clock buffer (last_update, app) of
               (last_update, app) \<Rightarrow> (last_update, control_task_receive (clock 3) buffer app)))"


section \<open>Messages on their way to the host\<close>

lemma tx_call_enqueue:
  assumes "unat n \<le> length p" "unat n \<le> 128" "UART_IS_VALID_COMMAND command"
  obtains r tx' where "tx_call (comm_tx_enqueue s u command (Some p) n prio) app = (r, app\<lparr>app_tx := tx'\<rparr>)"
    "tx_queue tx' = tx_queue (app_tx app) @ (if r = 0 then [tx_message s u command (take (unat n) p)] else [])"
    "tx_idle (app_tx app) \<Longrightarrow> tx_idle tx'"
proof (rule comm_tx_enqueue_cases [OF assms, where sequence = s and use_sequence = u and prio = prio and tx = "app_tx app"])
  fix q stats
  assume sent: "commTxQueueHandle (app_tx app) = Some q"
    "comm_tx_enqueue s u command (Some p) n prio (app_tx app) =
       (0, (app_tx app)\<lparr>commTxQueueHandle := Some (q\<lparr>queue_items := queue_items q @
          [tx_message s u command (take (unat n) p)]\<rparr>), commTxStats := stats\<rparr>)"
  show thesis
    by (rule that [of 0 "snd (comm_tx_enqueue s u command (Some p) n prio (app_tx app))"])
      (use sent in \<open>simp_all add: tx_call_def tx_queue_def tx_idle_def\<close>)
next
  assume refused: "comm_tx_enqueue s u command (Some p) n prio (app_tx app) =
      (-1, tx_count tx_dropped_update (app_tx app))"
  show thesis
    by (rule that [of "-1" "snd (comm_tx_enqueue s u command (Some p) n prio (app_tx app))"])
      (use refused in \<open>simp_all add: tx_call_def tx_queue_def tx_idle_def\<close>)
qed

lemma valid_codes [simp]:
  "UART_IS_VALID_COMMAND 0xE0" "UART_IS_VALID_COMMAND 0xE2"
  by (simp_all add: UART_IS_VALID_COMMAND_def uart_command_is_valid_def uart_command_is_common_def)

text \<open>
  What the task still owes the host: the response and the event it could not queue, as the
  messages they will be.
\<close>

definition pending_messages :: "'hw gripper_task \<Rightarrow> comm_tx_message_t list" where
  "pending_messages task =
     (if gripperPendingResponseValid task
      then [tx_message (gripperPendingSequence task) True (cmd_code UART_CMD_RESPONSE)
              (take (unat (gripperPendingLength task)) (gripperPendingResponse task))] else []) @
     (if gripperPendingEventValid task
      then [tx_message 0 False (cmd_code UART_CMD_EVENT)
              (take (unat (gripperPendingEventLength task)) (gripperPendingEvent task))] else [])"

definition outbox :: "'hw gripper_app \<Rightarrow> comm_tx_message_t multiset" where
  "outbox app = mset (tx_queue (app_tx app) @ pending_messages (app_task app))"

definition buffers_ok :: "'hw gripper_task \<Rightarrow> bool" where
  "buffers_ok task \<longleftrightarrow> length (gripperPendingResponse task) = 128 \<and> length (gripperPendingEvent task) = 128 \<and>
     unat (gripperPendingLength task) \<le> 128 \<and> unat (gripperPendingEventLength task) \<le> 128"

definition cache_ok :: "gripper_transaction_cache_t \<Rightarrow> bool" where
  "cache_ok c \<longleftrightarrow> length (cache_payload c) = 128 \<and> length (cache_response c) = 128 \<and>
     unat (cache_length c) \<le> 128 \<and>
     (cache_valid c \<longrightarrow> cache_response_length c \<in> {3, 14} \<and>
        cache_response c ! 0 = gripper_control_task_result_status (cache_command c) (cache_result c) \<and>
        cache_response c ! 1 = cache_command c \<and>
        cache_response c ! 2 = gripper_control_task_result_error (cache_result c))"

text \<open>What sending leaves alone.\<close>

definition same_core :: "'hw gripper_task \<Rightarrow> 'hw gripper_task \<Rightarrow> bool" where
  "same_core t t' \<longleftrightarrow> gripperController t' = gripperController t \<and> gripperSnapshot t' = gripperSnapshot t \<and>
     gripperCache t' = gripperCache t \<and> gripperSafetyPendingFlags t' = gripperSafetyPendingFlags t"

lemma same_core_refl [simp]: "same_core t t"
  by (simp add: same_core_def)

lemma same_core_trans: "same_core t u \<Longrightarrow> same_core u v \<Longrightarrow> same_core t v"
  by (simp add: same_core_def)

text \<open>A response is queued or kept, and the task's other state stays.\<close>

lemma schedule_response_effect:
  assumes "\<not> gripperPendingResponseValid (app_task app)" "buffers_ok (app_task app)"
    and "unat n \<le> length p" "unat n \<le> 128"
  obtains tx' task' where
    "gripper_control_task_schedule_response s p n app = app\<lparr>app_tx := tx', app_task := task'\<rparr>"
    "outbox (gripper_control_task_schedule_response s p n app) =
       outbox app + {#tx_message s True (cmd_code UART_CMD_RESPONSE) (take (unat n) p)#}"
    "same_core (app_task app) task'"
    "gripperPendingEventValid task' = gripperPendingEventValid (app_task app)"
    "buffers_ok task'" "tx_idle (app_tx app) \<Longrightarrow> tx_idle tx'"
proof -
  let ?m = "tx_message s True (cmd_code UART_CMD_RESPONSE) (take (unat n) p)"
  obtain r tx' where call: "tx_call (comm_tx_enqueue s True (cmd_code UART_CMD_RESPONSE) (Some p) n 0) app =
        (r, app\<lparr>app_tx := tx'\<rparr>)"
      "tx_queue tx' = tx_queue (app_tx app) @ (if r = 0 then [?m] else [])"
      "tx_idle (app_tx app) \<Longrightarrow> tx_idle tx'"
    using tx_call_enqueue [OF assms(3,4), where command = "cmd_code UART_CMD_RESPONSE" and s = s and u = True and prio = 0 and app = app] by auto
  have send: "tx_call (CommTx_SendWithSequence s (cmd_code UART_CMD_RESPONSE) (Some p) n) app =
      tx_call (comm_tx_enqueue s True (cmd_code UART_CMD_RESPONSE) (Some p) n 0) app"
    by (simp add: tx_call_def CommTx_SendWithSequence_def)
  show thesis
  proof (cases "r = 0")
    case True
    then have "gripper_control_task_schedule_response s p n app = app\<lparr>app_tx := tx', app_task := app_task app\<rparr>"
      using call(1) send by (simp add: gripper_control_task_schedule_response_def)
    then show ?thesis
      using True call(2,3) assms(2) by (intro that) (simp_all add: outbox_def)
  next
    case False
    let ?t = "task_count st_response_drops_update ((app_task app)\<lparr>gripperPendingSequence := s,
        gripperPendingLength := n, gripperPendingResponse := memcpy (gripperPendingResponse (app_task app)) 0 p 0 (unat n),
        gripperPendingResponseValid := True\<rparr>)"
    have eq: "gripper_control_task_schedule_response s p n app = app\<lparr>app_tx := tx', app_task := ?t\<rparr>"
      using False call(1) send by (simp add: gripper_control_task_schedule_response_def Let_def)
    have "pending_messages ?t = ?m # pending_messages (app_task app)"
      using assms by (simp add: pending_messages_def)
    then show ?thesis
      using False call(2,3) assms eq by (intro that [OF eq]) (simp_all add: outbox_def buffers_ok_def same_core_def)
  qed
qed

lemma service_tx_response_effect:
  assumes "buffers_ok (app_task app)"
  obtains b tx' task' where "service_tx_response app = (b, app\<lparr>app_tx := tx', app_task := task'\<rparr>)"
    "outbox (app\<lparr>app_tx := tx', app_task := task'\<rparr>) = outbox app"
    "same_core (app_task app) task'" "buffers_ok task'" "b \<longleftrightarrow> \<not> gripperPendingResponseValid task'"
    "gripperPendingEventValid task' = gripperPendingEventValid (app_task app)"
    "tx_idle (app_tx app) \<Longrightarrow> tx_idle tx'"
proof (cases "gripperPendingResponseValid (app_task app)")
  case False
  then show ?thesis
    using assms by (intro that [of True "app_task app" "app_tx app"]) (simp_all add: service_tx_response_def)
next
  case True
  let ?t = "app_task app"
  have len: "unat (gripperPendingLength ?t) \<le> length (gripperPendingResponse ?t)"
    "unat (gripperPendingLength ?t) \<le> 128"
    using assms by (simp_all add: buffers_ok_def)
  obtain r tx' where call: "tx_call (comm_tx_enqueue (gripperPendingSequence ?t) True (cmd_code UART_CMD_RESPONSE)
        (Some (gripperPendingResponse ?t)) (gripperPendingLength ?t) 0) app = (r, app\<lparr>app_tx := tx'\<rparr>)"
      "tx_queue tx' = tx_queue (app_tx app) @ (if r = 0 then [tx_message (gripperPendingSequence ?t) True
        (cmd_code UART_CMD_RESPONSE) (take (unat (gripperPendingLength ?t)) (gripperPendingResponse ?t))] else [])"
      "tx_idle (app_tx app) \<Longrightarrow> tx_idle tx'"
    using tx_call_enqueue [OF len, where command = "cmd_code UART_CMD_RESPONSE" and u = True and prio = 0 and
        s = "gripperPendingSequence ?t" and app = app] by auto
  have send: "tx_call (CommTx_SendWithSequence (gripperPendingSequence ?t) (cmd_code UART_CMD_RESPONSE)
        (Some (gripperPendingResponse ?t)) (gripperPendingLength ?t)) app = (r, app\<lparr>app_tx := tx'\<rparr>)"
    using call(1) by (simp add: tx_call_def CommTx_SendWithSequence_def)
  show ?thesis
  proof (cases "r = 0")
    case True
    then show ?thesis
      using send call(2,3) assms \<open>gripperPendingResponseValid ?t\<close>
      by (intro that [of True "?t\<lparr>gripperPendingResponseValid := False\<rparr>" tx'])
        (simp_all add: service_tx_response_def outbox_def pending_messages_def same_core_def buffers_ok_def)
  next
    case False
    then show ?thesis
      using send call(2,3) assms \<open>gripperPendingResponseValid ?t\<close>
      by (intro that [of False "task_count st_response_retries_update ?t" tx'])
        (simp_all add: service_tx_response_def outbox_def pending_messages_def same_core_def buffers_ok_def)
  qed
qed

lemma service_tx_event_effect:
  assumes "buffers_ok (app_task app)"
  obtains b tx' task' where "service_tx_event app = (b, app\<lparr>app_tx := tx', app_task := task'\<rparr>)"
    "outbox (app\<lparr>app_tx := tx', app_task := task'\<rparr>) = outbox app"
    "same_core (app_task app) task'" "buffers_ok task'" "b \<longleftrightarrow> \<not> gripperPendingEventValid task'"
    "gripperPendingResponseValid task' = gripperPendingResponseValid (app_task app)"
    "tx_idle (app_tx app) \<Longrightarrow> tx_idle tx'"
proof (cases "gripperPendingEventValid (app_task app)")
  case False
  then show ?thesis
    using assms by (intro that [of True "app_task app" "app_tx app"]) (simp_all add: service_tx_event_def)
next
  case True
  let ?t = "app_task app"
  have len: "unat (gripperPendingEventLength ?t) \<le> length (gripperPendingEvent ?t)"
    "unat (gripperPendingEventLength ?t) \<le> 128"
    using assms by (simp_all add: buffers_ok_def)
  obtain r tx' where call: "tx_call (comm_tx_enqueue 0 False (cmd_code UART_CMD_EVENT)
        (Some (gripperPendingEvent ?t)) (gripperPendingEventLength ?t) 0) app = (r, app\<lparr>app_tx := tx'\<rparr>)"
      "tx_queue tx' = tx_queue (app_tx app) @ (if r = 0 then [tx_message 0 False
        (cmd_code UART_CMD_EVENT) (take (unat (gripperPendingEventLength ?t)) (gripperPendingEvent ?t))] else [])"
      "tx_idle (app_tx app) \<Longrightarrow> tx_idle tx'"
    using tx_call_enqueue [OF len, where command = "cmd_code UART_CMD_EVENT" and u = False and prio = 0 and
        s = 0 and app = app] by auto
  have send: "tx_call (CommTx_Send (cmd_code UART_CMD_EVENT)
        (Some (gripperPendingEvent ?t)) (gripperPendingEventLength ?t)) app = (r, app\<lparr>app_tx := tx'\<rparr>)"
    using call(1) by (simp add: tx_call_def CommTx_Send_def)
  show ?thesis
  proof (cases "r = 0")
    case True
    then show ?thesis
      using send call(2,3) assms \<open>gripperPendingEventValid ?t\<close>
      by (intro that [of True "?t\<lparr>gripperPendingEventValid := False\<rparr>" tx'])
        (simp_all add: service_tx_event_def outbox_def pending_messages_def same_core_def buffers_ok_def)
  next
    case False
    then show ?thesis
      using send call(2,3) assms \<open>gripperPendingEventValid ?t\<close>
      by (intro that [of False "task_count st_event_retries_update ?t" tx'])
        (simp_all add: service_tx_event_def outbox_def pending_messages_def same_core_def buffers_ok_def)
  qed
qed

text \<open>
  Servicing loses nothing; when it reports success nothing is pending, so what follows in
  the round finds both slots free.
\<close>

lemma service_tx_effect:
  assumes "buffers_ok (app_task app)"
  obtains b tx' task' where "gripper_control_task_service_tx app = (b, app\<lparr>app_tx := tx', app_task := task'\<rparr>)"
    "outbox (app\<lparr>app_tx := tx', app_task := task'\<rparr>) = outbox app"
    "same_core (app_task app) task'" "buffers_ok task'"
    "b \<longleftrightarrow> \<not> gripperPendingResponseValid task' \<and> \<not> gripperPendingEventValid task'"
    "tx_idle (app_tx app) \<Longrightarrow> tx_idle tx'"
proof -
  obtain b1 tx1 t1 where 1: "service_tx_response app = (b1, app\<lparr>app_tx := tx1, app_task := t1\<rparr>)"
    "outbox (app\<lparr>app_tx := tx1, app_task := t1\<rparr>) = outbox app" "same_core (app_task app) t1"
    "buffers_ok t1" "b1 \<longleftrightarrow> \<not> gripperPendingResponseValid t1" "tx_idle (app_tx app) \<Longrightarrow> tx_idle tx1"
    using service_tx_response_effect [OF assms] by metis
  show ?thesis
  proof (cases b1)
    case False
    then show ?thesis
      using 1 by (intro that [of False t1 tx1]) (auto simp: gripper_control_task_service_tx_def)
  next
    case True
    let ?app = "app\<lparr>app_tx := tx1, app_task := t1\<rparr>"
    have ok: "buffers_ok (app_task ?app)" using 1(4) by simp
    obtain b2 tx2 t2 where 2: "service_tx_event ?app = (b2, ?app\<lparr>app_tx := tx2, app_task := t2\<rparr>)"
      "outbox (?app\<lparr>app_tx := tx2, app_task := t2\<rparr>) = outbox ?app" "same_core (app_task ?app) t2"
      "buffers_ok t2" "b2 \<longleftrightarrow> \<not> gripperPendingEventValid t2"
      "gripperPendingResponseValid t2 = gripperPendingResponseValid (app_task ?app)"
      "tx_idle (app_tx ?app) \<Longrightarrow> tx_idle tx2"
      using service_tx_event_effect [OF ok] by metis
    show ?thesis
      using True 1 2 by (intro that [of b2 t2 tx2])
        (auto simp: gripper_control_task_service_tx_def intro: same_core_trans)
  qed
qed


section \<open>Applying safety requests\<close>

lemma publish_effect:
  "gripper_control_task_publish_snapshot app =
     app\<lparr>app_task := (app_task app)\<lparr>gripperSnapshot :=
       \<lparr>snap_state = ctl_state (gripperController (app_task app)),
        snap_active_motion_id = active_motion_id (gripperController (app_task app)),
        snap_base_angle = base_angle (gripperController (app_task app)),
        snap_shoulder_angle = shoulder_angle (gripperController (app_task app)),
        snap_elbow_angle = elbow_angle (gripperController (app_task app)),
        snap_gripper_position = gripper_position (gripperController (app_task app)),
        snap_homed = homed (gripperController (app_task app)),
        snap_safety_latched = safety_latched (gripperController (app_task app))\<rparr>\<rparr>\<rparr>"
  by (simp add: gripper_control_task_publish_snapshot_def gripper_control_get_snapshot_def Let_def)

lemma outbox_core [simp]:
  "outbox (app\<lparr>app_task := (app_task app)\<lparr>gripperSnapshot := s\<rparr>\<rparr>) = outbox app"
  "outbox (app\<lparr>app_task := (app_task app)\<lparr>gripperController := c\<rparr>\<rparr>) = outbox app"
  "outbox (app\<lparr>app_task := (app_task app)\<lparr>gripperCache := k\<rparr>\<rparr>) = outbox app"
  "outbox (app\<lparr>app_task := gripperTaskStats_update g (app_task app)\<rparr>) = outbox app"
  "outbox (app\<lparr>app_servo := hw\<rparr>) = outbox app"
  "outbox (app\<lparr>gripperControlQueueHandle := q\<rparr>) = outbox app"
  by (simp_all add: outbox_def pending_messages_def)

text \<open>The controller after the stop and the release that the two flag bits ask for.\<close>

definition after_flags :: "u32 \<Rightarrow> 'hw gripper_control_t \<Rightarrow> 'hw gripper_control_t" where
  "after_flags flags c =
     (let c = (if flags AND GRIPPER_TASK_SAFETY_STOP_PENDING \<noteq> 0
               then the (gripper_control_apply_safety_stop (Some c)) else c)
      in if flags AND GRIPPER_TASK_SAFETY_RELEASE_PENDING \<noteq> 0
         then the (gripper_control_release_safety (Some c)) else c)"

lemma apply_pending_none:
  assumes "gripperSafetyPendingFlags (app_task app) = 0"
  shows "gripper_control_task_apply_pending_safety app = app"
proof -
  have "(app_task app)\<lparr>gripperSafetyPendingFlags := 0\<rparr> = app_task app"
    using assms by (metis gripper_task.surjective gripper_task.update_convs(5))
  then show ?thesis
    using assms by (simp add: gripper_control_task_apply_pending_safety_def)
qed

lemma apply_pending_effect:
  obtains task' where "gripper_control_task_apply_pending_safety app = app\<lparr>app_task := task'\<rparr>"
    "outbox (app\<lparr>app_task := task'\<rparr>) = outbox app"
    "gripperSafetyPendingFlags task' = 0"
    "gripperController task' = after_flags (gripperSafetyPendingFlags (app_task app)) (gripperController (app_task app))"
    "gripperPendingResponseValid task' = gripperPendingResponseValid (app_task app)"
    "gripperPendingEventValid task' = gripperPendingEventValid (app_task app)"
    "buffers_ok task' = buffers_ok (app_task app)"
    "cache_ok (gripperCache (app_task app)) \<Longrightarrow> cache_ok (gripperCache task')"
    "cache_valid (gripperCache task') \<Longrightarrow> gripperCache task' = gripperCache (app_task app)"
    "gripperSafetyPendingFlags (app_task app) = 0 \<Longrightarrow> task' = app_task app"
    "gripperSafetyPendingFlags (app_task app) \<noteq> 0 \<Longrightarrow>
       snap_safety_latched (gripperSnapshot task') = safety_latched (gripperController task') \<and>
       snap_state (gripperSnapshot task') = ctl_state (gripperController task')"
proof (cases "gripperSafetyPendingFlags (app_task app) = 0")
  case True
  then show ?thesis
    by (intro that [of "app_task app"]) (simp_all add: apply_pending_none after_flags_def)
next
  case False
  let ?task' = "app_task (gripper_control_task_apply_pending_safety app)"
  show ?thesis
  proof (rule that [of ?task'])
    show "gripper_control_task_apply_pending_safety app = app\<lparr>app_task := ?task'\<rparr>"
      by (simp add: gripper_control_task_apply_pending_safety_def publish_effect Let_def)
  qed (use False in \<open>auto simp: gripper_control_task_apply_pending_safety_def publish_effect Let_def
        outbox_def pending_messages_def buffers_ok_def cache_ok_def after_flags_def split: if_splits\<close>)
qed

section \<open>Executing a command\<close>

lemma process_status:
  "gripper_control_process_command (Some c) hw (gripper_cmd_code UART_CMD_GRIPPER_GET_STATUS) payload n now =
     (r, c', hw') \<Longrightarrow> c' = Some c \<and> hw' = hw"
  by (auto simp: gripper_control_process_command_def split: if_splits)

lemma process_Some:
  "\<exists>c'. fst (snd (gripper_control_process_command (Some c) hw command payload n now)) = Some c'"
  by (auto simp: gripper_control_process_command_def split: if_splits prod.splits)

text \<open>What executing changes: the controller, the servos and the counters.\<close>

lemma execute_effect:
  obtains r task' hw' where "execute_command m now app = (r, app\<lparr>app_task := task', app_servo := hw'\<rparr>)"
    "same_core (app_task app) (task'\<lparr>gripperController := gripperController (app_task app)\<rparr>)"
    "pending_messages task' = pending_messages (app_task app)"
    "gripperPendingResponseValid task' = gripperPendingResponseValid (app_task app)"
    "gripperPendingEventValid task' = gripperPendingEventValid (app_task app)"
    "buffers_ok task' = buffers_ok (app_task app)"
    "gripperController task' \<noteq> gripperController (app_task app) \<or> hw' \<noteq> app_servo app \<Longrightarrow>
       msg_safety_epoch m = safety_task_get_epoch app \<and>
       gripper_control_process_command (Some (gripperController (app_task app))) (app_servo app)
         (frame_command (msg_frame m)) (Some (frame_payload (msg_frame m))) (frame_length (msg_frame m)) now =
         (r, Some (gripperController task'), hw')"
    "(gripperController task', hw') = (gripperController (app_task app), app_servo app) \<or>
       (\<exists>r'. gripper_control_process_command (Some (gripperController (app_task app))) (app_servo app)
         (frame_command (msg_frame m)) (Some (frame_payload (msg_frame m))) (frame_length (msg_frame m)) now =
         (r', Some (gripperController task'), hw'))"
proof -
  let ?t = "app_task app" and ?f = "msg_frame m"
  consider (stale) "frame_command ?f \<noteq> gripper_cmd_code UART_CMD_GRIPPER_GET_STATUS"
      "frame_command ?f \<noteq> cmd_code UART_CMD_GET_STATUS" "msg_safety_epoch m \<noteq> safety_task_get_epoch app"
    | (status) "frame_command ?f = cmd_code UART_CMD_GET_STATUS"
    | (run) "frame_command ?f \<noteq> cmd_code UART_CMD_GET_STATUS"
      "frame_command ?f = gripper_cmd_code UART_CMD_GRIPPER_GET_STATUS \<or> msg_safety_epoch m = safety_task_get_epoch app"
    by blast
  then show ?thesis
  proof cases
    case stale
    then show ?thesis
      by (intro that [of GRIPPER_CONTROL_SAFETY_STOP "app_servo app" "task_count st_stale_commands_update ?t"])
        (simp_all add: execute_command_def same_core_def pending_messages_def buffers_ok_def)
  next
    case status
    then show ?thesis
      by (intro that [of GRIPPER_CONTROL_OK "app_servo app" ?t]) (simp_all add: execute_command_def same_core_def)
  next
    case run
    obtain r c' hw' where pc: "gripper_control_process_command (Some (gripperController ?t)) (app_servo app)
        (frame_command ?f) (Some (frame_payload ?f)) (frame_length ?f) now = (r, Some c', hw')"
      using process_Some by (metis prod.collapse)
    have "execute_command m now app = (r, app\<lparr>app_task := ?t\<lparr>gripperController := c'\<rparr>, app_servo := hw'\<rparr>)"
      using run pc by (auto simp: execute_command_def Let_def)
    then show ?thesis
      using run pc process_status [of "gripperController ?t" "app_servo app" "Some (frame_payload ?f)" "frame_length ?f" now r "Some c'" hw']
      by (intro that [of r hw' "?t\<lparr>gripperController := c'\<rparr>"])
        (auto simp: same_core_def pending_messages_def buffers_ok_def)
  qed
qed

lemma count_result_effect:
  obtains g where "count_result r app = app\<lparr>app_task := gripperTaskStats_update g (app_task app)\<rparr>"
proof -
  have "count_result r app = app\<lparr>app_task := gripperTaskStats_update
      (\<lambda>s. (if r = GRIPPER_CONTROL_BUSY then st_busy_commands_update (\<lambda>n. n + 1)
            else if r = GRIPPER_CONTROL_SERVO_ERROR then st_servo_faults_update (\<lambda>n. n + 1) else id)
           (st_commands_update (\<lambda>n. n + 1) s)) (app_task app)\<rparr>"
    by (cases "app_task app") (simp add: count_result_def Let_def)
  then show ?thesis using that by blast
qed

text \<open>The response to a command, by its result.\<close>

lemma build_response_effect:
  assumes "length buffer = 128" "gripper_control_task_build_response m r buffer app = (response, n)"
  shows "length response = 128" "n \<in> {3, 14}"
    "response ! 0 = gripper_control_task_result_status (frame_command (msg_frame m)) r"
    "response ! 1 = frame_command (msg_frame m)"
    "response ! 2 = gripper_control_task_result_error r"
  using assms by (auto simp: gripper_control_task_build_response_def Let_def split: if_splits)

section \<open>One message\<close>

definition same_sequence :: "control_command_t \<Rightarrow> gripper_transaction_cache_t \<Rightarrow> bool" where
  "same_sequence m c \<longleftrightarrow> cache_valid c \<and> cache_sequence c = frame_sequence (msg_frame m)"

definition same_transaction :: "control_command_t \<Rightarrow> gripper_transaction_cache_t \<Rightarrow> bool" where
  "same_transaction m c \<longleftrightarrow> gripper_control_task_same_request m c \<and> cache_safety_epoch c = msg_safety_epoch m"

definition message_ok :: "control_command_t \<Rightarrow> bool" where
  "message_ok m \<longleftrightarrow> length (frame_payload (msg_frame m)) = 128 \<and> unat (frame_length (msg_frame m)) \<le> 128"

lemma cache_entry:
  assumes "cache_ok c" "message_ok m" "length response = 128" "n \<in> {3, 14}"
    and "response ! 0 = gripper_control_task_result_status (frame_command (msg_frame m)) r"
    and "response ! 1 = frame_command (msg_frame m)" "response ! 2 = gripper_control_task_result_error r"
  defines "c' \<equiv> gripper_control_task_cache m r response n c"
  shows "cache_ok c'" "same_sequence m c'" "same_transaction m c'" "cache_result c' = r"
    "cache_response_length c' = n" "take (unat n) (cache_response c') = take (unat n) response"
proof -
  have n: "unat n \<le> 128" "3 \<le> unat n" using assms(4) by auto
  have first: "take (unat n) (cache_response c') = take (unat n) response"
    using n assms(1,3) by (simp add: c'_def gripper_control_task_cache_def Let_def cache_ok_def)
  then show "take (unat n) (cache_response c') = take (unat n) response" .
  have nth: "cache_response c' ! i = response ! i" if "i < 3" for i
    using first that n(2) by (metis nth_take less_le_trans)
  show "cache_ok c'"
    using assms n nth [of 0] nth [of 1] nth [of 2]
    by (simp add: cache_ok_def gripper_control_task_cache_def Let_def message_ok_def)
  have len: "0 < frame_length (msg_frame m) \<longleftrightarrow> frame_length (msg_frame m) \<noteq> 0"
    by (simp add: word_gt_0)
  show "same_transaction m c'" "same_sequence m c'"
    using assms(1,2)
    by (auto simp: same_transaction_def same_sequence_def gripper_control_task_same_request_def len
        c'_def gripper_control_task_cache_def Let_def cache_ok_def message_ok_def)
qed (simp_all add: c'_def gripper_control_task_cache_def Let_def)

text \<open>
  A command is answered from the cache, refused as a sequence conflict, or executed; in each
  case one response leaves.
\<close>

lemma process_message_cases:
  assumes m: "msg_kind m = APP_CONTROL_MESSAGE_UART_COMMAND" "message_ok m" "length buffer = 128"
    and free: "\<not> gripperPendingResponseValid (app_task app)" "buffers_ok (app_task app)"
      "cache_ok (gripperCache (app_task app))"
    and flags: "gripperSafetyPendingFlags (app_task app) = 0"
  obtains (replay) app' where "same_sequence m (gripperCache (app_task app))"
      "same_transaction m (gripperCache (app_task app))"
      "gripper_control_task_process_message buffer (Some m) now app = (cache_result (gripperCache (app_task app)), app')"
      "outbox app' = outbox app + {#tx_message (frame_sequence (msg_frame m)) True (cmd_code UART_CMD_RESPONSE)
         (take (unat (cache_response_length (gripperCache (app_task app)))) (cache_response (gripperCache (app_task app))))#}"
      "same_core (app_task app) (app_task app')" "app_servo app' = app_servo app"
      "buffers_ok (app_task app')"
  | (conflict) app' where "same_sequence m (gripperCache (app_task app))"
      "\<not> same_transaction m (gripperCache (app_task app))"
      "gripper_control_task_process_message buffer (Some m) now app = (GRIPPER_CONTROL_INVALID_PAYLOAD, app')"
      "outbox app' = outbox app + {#tx_message (frame_sequence (msg_frame m)) True (cmd_code UART_CMD_RESPONSE)
         [status_code UART_STATUS_NACK, frame_command (msg_frame m), error_code UART_ERROR_SEQUENCE]#}"
      "same_core (app_task app) (app_task app')" "app_servo app' = app_servo app"
      "buffers_ok (app_task app')"
  | (fresh) r app1 response n app' where "\<not> same_sequence m (gripperCache (app_task app))"
      "execute_command m now app = (r, app1)"
      "gripper_control_task_process_message buffer (Some m) now app = (r, app')"
      "length response = 128" "n \<in> {3, 14}"
      "response ! 0 = gripper_control_task_result_status (frame_command (msg_frame m)) r"
      "response ! 1 = frame_command (msg_frame m)" "response ! 2 = gripper_control_task_result_error r"
      "outbox app' = outbox app + {#tx_message (frame_sequence (msg_frame m)) True (cmd_code UART_CMD_RESPONSE)
         (take (unat n) response)#}"
      "gripperController (app_task app') = gripperController (app_task app1)" "app_servo app' = app_servo app1"
      "gripperCache (app_task app') =
         gripper_control_task_cache m r response n (gripperCache (app_task app))"
      "gripperSafetyPendingFlags (app_task app') = 0"
      "buffers_ok (app_task app')"
proof -
  let ?t = "app_task app" and ?f = "msg_frame m" and ?c = "gripperCache (app_task app)"
  note pending = apply_pending_none [OF flags]
  consider (1) "same_sequence m ?c" "same_transaction m ?c" | (2) "same_sequence m ?c" "\<not> same_transaction m ?c"
    | (3) "\<not> same_sequence m ?c" by blast
  then show thesis
  proof cases
    case 1
    let ?app = "app\<lparr>app_task := task_count st_duplicate_commands_update ?t\<rparr>"
    have size: "unat (cache_response_length ?c) \<le> length (cache_response ?c)" "unat (cache_response_length ?c) \<le> 128"
      using free(3) 1(1) by (auto simp: cache_ok_def same_sequence_def)
    have ok: "\<not> gripperPendingResponseValid (app_task ?app)" "buffers_ok (app_task ?app)"
      using free by (simp_all add: buffers_ok_def)
    obtain tx' task' where s: "gripper_control_task_schedule_response (frame_sequence ?f) (cache_response ?c)
          (cache_response_length ?c) ?app = ?app\<lparr>app_tx := tx', app_task := task'\<rparr>"
        "outbox (gripper_control_task_schedule_response (frame_sequence ?f) (cache_response ?c)
          (cache_response_length ?c) ?app) = outbox ?app + {#tx_message (frame_sequence ?f) True
             (cmd_code UART_CMD_RESPONSE) (take (unat (cache_response_length ?c)) (cache_response ?c))#}"
        "same_core (app_task ?app) task'" "buffers_ok task'"
      by (rule schedule_response_effect [OF ok size]) blast
    show thesis
      by (rule replay [OF 1, of "gripper_control_task_schedule_response (frame_sequence ?f) (cache_response ?c)
          (cache_response_length ?c) ?app"])
        (use 1 m s in \<open>simp_all add: gripper_control_task_process_message_def pending Let_def
          same_sequence_def same_transaction_def same_core_def\<close>)
  next
    case 2
    let ?app = "app\<lparr>app_task := task_count st_sequence_conflicts_update ?t\<rparr>"
    let ?p = "buffer[0 := status_code UART_STATUS_NACK, 1 := frame_command ?f, 2 := error_code UART_ERROR_SEQUENCE]"
    have size: "unat (3 :: u8) \<le> length ?p" "unat (3 :: u8) \<le> 128" using m(3) by simp_all
    have unat3: "unat (3 :: u8) = Suc (Suc (Suc 0))" by simp
    have head: "take (unat (3 :: u8)) ?p = [status_code UART_STATUS_NACK, frame_command ?f, error_code UART_ERROR_SEQUENCE]"
    proof -
      obtain a b c rest where "buffer = a # b # c # rest"
        using m(3) by (auto simp: length_Suc_conv eval_nat_numeral Suc_length_conv)
      then show ?thesis using unat3 by (simp only: unat3) simp
    qed
    have ok: "\<not> gripperPendingResponseValid (app_task ?app)" "buffers_ok (app_task ?app)"
      using free by (simp_all add: buffers_ok_def)
    obtain tx' task' where s: "gripper_control_task_schedule_response (frame_sequence ?f) ?p 3 ?app =
          ?app\<lparr>app_tx := tx', app_task := task'\<rparr>"
        "outbox (gripper_control_task_schedule_response (frame_sequence ?f) ?p 3 ?app) = outbox ?app +
           {#tx_message (frame_sequence ?f) True (cmd_code UART_CMD_RESPONSE) (take (unat (3 :: u8)) ?p)#}"
        "same_core (app_task ?app) task'" "buffers_ok task'"
      by (rule schedule_response_effect [OF ok size]) blast
    have run: "gripper_control_task_process_message buffer (Some m) now app =
        (GRIPPER_CONTROL_INVALID_PAYLOAD, gripper_control_task_schedule_response (frame_sequence ?f) ?p 3 ?app)"
      using 2 m by (auto simp: gripper_control_task_process_message_def pending Let_def
          same_sequence_def same_transaction_def)
    show thesis
      by (rule conflict [OF 2 run]) (use s head in \<open>simp_all add: same_core_def\<close>)
  next
    case 3
    obtain r t1 hw1 where e: "execute_command m now app = (r, app\<lparr>app_task := t1, app_servo := hw1\<rparr>)"
      "same_core ?t (t1\<lparr>gripperController := gripperController ?t\<rparr>)"
      "pending_messages t1 = pending_messages ?t"
      "gripperPendingResponseValid t1 = gripperPendingResponseValid ?t" "buffers_ok t1 = buffers_ok ?t"
      using execute_effect [of m now app] by metis
    let ?app1 = "app\<lparr>app_task := t1, app_servo := hw1\<rparr>"
    obtain g where g: "count_result r ?app1 = ?app1\<lparr>app_task := gripperTaskStats_update g t1\<rparr>"
      using count_result_effect [of r ?app1] by auto
    let ?app2 = "?app1\<lparr>app_task := gripperTaskStats_update g t1\<rparr>"
    obtain response n where b: "gripper_control_task_build_response m r buffer ?app2 = (response, n)"
      by fastforce
    note br = build_response_effect [OF m(3) b]
    let ?k = "gripper_control_task_cache m r response n ?c"
    let ?app3 = "?app2\<lparr>app_task := (gripperTaskStats_update g t1)\<lparr>gripperCache := ?k\<rparr>\<rparr>"
    have size: "unat n \<le> length response" "unat n \<le> 128" using br by auto
    have ok: "\<not> gripperPendingResponseValid (app_task ?app3)" "buffers_ok (app_task ?app3)"
      using free e by (simp_all add: buffers_ok_def)
    have cache1: "gripperCache t1 = ?c" "gripperSafetyPendingFlags t1 = 0"
      using e(2) flags by (simp_all add: same_core_def)
    obtain tx' task' where s: "gripper_control_task_schedule_response (frame_sequence ?f) response n ?app3 =
          ?app3\<lparr>app_tx := tx', app_task := task'\<rparr>"
        "outbox (gripper_control_task_schedule_response (frame_sequence ?f) response n ?app3) = outbox ?app3 +
           {#tx_message (frame_sequence ?f) True (cmd_code UART_CMD_RESPONSE) (take (unat n) response)#}"
        "same_core (app_task ?app3) task'" "buffers_ok task'"
      by (rule schedule_response_effect [OF ok size]) blast
    have "pending_messages ((gripperTaskStats_update g t1)\<lparr>gripperCache := ?k\<rparr>) = pending_messages t1"
      by (simp add: pending_messages_def)
    then have box: "outbox ?app3 = outbox app" using e(3) by (simp add: outbox_def)
    have run: "gripper_control_task_process_message buffer (Some m) now app =
        (r, gripper_control_task_schedule_response (frame_sequence ?f) response n ?app3)"
      using 3 m e(1) g b cache1 by (auto simp: gripper_control_task_process_message_def pending Let_def same_sequence_def)
    show thesis
      by (rule fresh [OF 3 e(1) run br(1,2)])
        (use br s box cache1 in \<open>simp_all add: same_core_def\<close>)
  qed
qed
end
