(* ===== verification/Gripper_Safety.thy ===== *)
theory Gripper_Safety
  imports Gripper_Task
begin

text \<open>
  The safety task of the gripper, \<open>Application/Src/safety_task.c\<close>, and the health task,
  \<open>Application/Src/health_task.c\<close>: the emergency-stop latch, the epoch that makes older
  commands stale, the handshake of a release with the control task, and the device status.
\<close>

abbreviation (input) safety_count where
  "safety_count counter s \<equiv> safetyStats_update (counter (\<lambda>n. n + 1)) s"

abbreviation (input) on_safety where
  "on_safety f app \<equiv> app_safety_update f app"

section \<open>Events to the host\<close>

definition safety_task_service_event :: "'hw gripper_app \<Rightarrow> 'hw gripper_app" where
  "safety_task_service_event app =
     (let s = app_safety app
      in if \<not> safetyEventPending s then app
         else
           (let payload = [APP_EVENT_SAFETY, (if safetyEventLatched s then 1 else 0), safetyEventCause s];
                (r, app) = tx_call (CommTx_SendUrgent (cmd_code UART_CMD_EVENT) (Some payload) 3) app
            in if r = 0 then app\<lparr>app_safety := s\<lparr>safetyEventPending := False\<rparr>\<rparr> else app))"

definition safety_task_emit_state :: "bool \<Rightarrow> u8 \<Rightarrow> 'hw gripper_app \<Rightarrow> 'hw gripper_app" where
  "safety_task_emit_state latched cause app =
     (let app = app\<lparr>app_tx := CommTx_SetDeviceStatus
            (if latched then device_code UART_DEVICE_EMERGENCY_STOP else device_code UART_DEVICE_STOPPED)
            (if latched then error_code UART_ERROR_EMERGENCY_STOP else error_code UART_ERROR_NONE)
            (app_tx app)\<rparr>
      in safety_task_service_event (app\<lparr>app_safety := (app_safety app)\<lparr>safetyEventLatched := latched,
            safetyEventCause := cause, safetyEventPending := True\<rparr>\<rparr>))"

section \<open>Stop and release\<close>

definition safety_task_enter_estop :: "u8 \<Rightarrow> 'hw gripper_app \<Rightarrow> 'hw gripper_app" where
  "safety_task_enter_estop cause app =
     (let already_latched = safetyLatched (app_safety app);
          app = app\<lparr>app_safety := (app_safety app)\<lparr>safetyLatched := True\<rparr>\<rparr>
      in if already_latched \<and> \<not> safetyReleasePending (app_safety app)
         then safety_task_emit_state True cause app
         else
           (let s = app_safety app;
                s = s\<lparr>safetyReleasePending := False, safetyEpoch := safetyEpoch s + 1\<rparr>;
                app = app\<lparr>app_safety := safety_count sf_emergency_stops_update s\<rparr>;
                (notified, app) = gripper_control_task_notify_safety_stop app;
                app = (if notified then app
                       else app\<lparr>app_safety := safety_count sf_notifications_failed_update (app_safety app)\<rparr>)
            in safety_task_emit_state True cause app))"

definition safety_task_release :: "u8 \<Rightarrow> 'hw gripper_app \<Rightarrow> 'hw gripper_app" where
  "safety_task_release cause app =
     (let s = app_safety app
      in if safetyReleasePending s then app
         else if \<not> safetyLatched s then safety_task_emit_state False cause app
         else
           (let s = s\<lparr>safetyEpoch := safetyEpoch s + 1, safetyReleasePending := True,
                      safetyReleaseCause := cause\<rparr>;
                (notified, app) = gripper_control_task_notify_safety_release (app\<lparr>app_safety := s\<rparr>)
            in if notified then app
               else app\<lparr>app_safety := safety_count sf_notifications_failed_update (app_safety app)\<rparr>))"

definition safety_task_service_release :: "'hw gripper_app \<Rightarrow> 'hw gripper_app" where
  "safety_task_service_release app =
     (let s = app_safety app
      in if \<not> safetyReleasePending s then app
         else
           (let snapshot = the (gripper_control_task_get_snapshot (Some (gripperSnapshot (app_task app))) app)
            in if snap_safety_latched snapshot \<or> snap_state snapshot \<noteq> UART_GRIPPER_STATE_STOPPED then app
               else
                 (let s = s\<lparr>safetyReleasePending := False, safetyLatched := False\<rparr>
                  in safety_task_emit_state False (safetyReleaseCause s)
                       (app\<lparr>app_safety := safety_count sf_releases_update s\<rparr>))))"

definition safety_task_request_local_estop :: "'hw gripper_app \<Rightarrow> bool \<times> 'hw gripper_app" where
  "safety_task_request_local_estop app =
     (let app = app\<lparr>app_safety := (app_safety app)\<lparr>safetyPendingRequest := SAFETY_REQUEST_STOP\<rparr>\<rparr>;
          message = zero_control_command\<lparr>msg_kind := APP_CONTROL_MESSAGE_SAFETY_STOP,
            msg_frame := zero_frame\<lparr>frame_version := UART_PROTOCOL_VERSION,
              frame_command := cmd_code UART_CMD_EMERGENCY_STOP\<rparr>,
            msg_safety_epoch := safety_task_get_epoch app\<rparr>;
          (status, queue) = osMessageQueuePut (safetyCommandQueueHandle app) message 3
      in if safetyCommandQueueHandle app = NULL \<or> status \<noteq> osOK
         then (False, app\<lparr>app_safety := safety_count sf_queue_drops_update (app_safety app)\<rparr>)
         else (True, app\<lparr>safetyCommandQueueHandle := queue\<rparr>))"

definition safety_task_get_stats ::
  "safety_task_stats_t ptr \<Rightarrow> 'hw gripper_app \<Rightarrow> safety_task_stats_t ptr" where
  "safety_task_get_stats stats app =
     (if stats \<noteq> NULL then Some (safetyStats (app_safety app)) else stats)"

text \<open>\<open>ESTOP_TEST_BUTTON_Pin\<close> is the only pin the callback reacts to.\<close>

definition HAL_GPIO_EXTI_Callback :: "u16 \<Rightarrow> u16 \<Rightarrow> 'hw gripper_app \<Rightarrow> 'hw gripper_app" where
  "HAL_GPIO_EXTI_Callback estop_test_button_pin gpio_pin app =
     (if gpio_pin = estop_test_button_pin then snd (safety_task_request_local_estop app) else app)"

section \<open>The task\<close>

definition SafetyTask_Init :: "'hw gripper_app \<Rightarrow> 'hw gripper_app" where
  "SafetyTask_Init app =
     app\<lparr>app_safety := (app_safety app)\<lparr>
       safetyStats := \<lparr>sf_emergency_stops = 0, sf_releases = 0, sf_queue_drops = 0,
         sf_notifications_failed = 0\<rparr>,
       safetyEpoch := 0, safetyLatched := False, safetyReleasePending := False,
       safetyReleaseCause := 0, safetyEventPending := False, safetyEventLatched := False,
       safetyEventCause := 0\<rparr>\<rparr>"

definition SafetyTask_HandleSafetyCommand :: "control_command_t ptr \<Rightarrow> 'hw gripper_app \<Rightarrow> 'hw gripper_app" where
  "SafetyTask_HandleSafetyCommand message app =
     (case message of
        None \<Rightarrow> app
      | Some m \<Rightarrow>
          (if msg_kind m = APP_CONTROL_MESSAGE_SAFETY_STOP
           then safety_task_enter_estop (frame_command (msg_frame m)) app
           else if msg_kind m = APP_CONTROL_MESSAGE_SAFETY_RELEASE
           then safety_task_release (frame_command (msg_frame m)) app
           else app))"

definition SafetyTask_ServicePending :: "'hw gripper_app \<Rightarrow> 'hw gripper_app" where
  "SafetyTask_ServicePending app =
     (let pending = safetyPendingRequest (app_safety app);
          app = app\<lparr>app_safety := (app_safety app)\<lparr>safetyPendingRequest := SAFETY_REQUEST_NONE\<rparr>\<rparr>;
          app = (case pending of
              SAFETY_REQUEST_STOP \<Rightarrow> safety_task_enter_estop (cmd_code UART_CMD_EMERGENCY_STOP) app
            | SAFETY_REQUEST_RELEASE \<Rightarrow> safety_task_release (cmd_code UART_CMD_RESET_DEVICE) app
            | SAFETY_REQUEST_NONE \<Rightarrow> app);
          app = safety_task_service_release app
      in safety_task_service_event app)"

text \<open>One round of the loop of \<open>StartSafetyTask\<close>.\<close>

definition safety_task_receive :: "'hw gripper_app \<Rightarrow> 'hw gripper_app" where
  "safety_task_receive app =
     (let (status, message, queue) = osMessageQueueGet (safetyCommandQueueHandle app) 10
      in if safetyCommandQueueHandle app \<noteq> NULL \<and> status = osOK
         then SafetyTask_HandleSafetyCommand message (app\<lparr>safetyCommandQueueHandle := queue\<rparr>)
         else app)"

definition safety_task_body :: "'hw gripper_app \<Rightarrow> 'hw gripper_app" where
  "safety_task_body app = SafetyTask_ServicePending (safety_task_receive app)"

section \<open>The health task\<close>

definition health_task_body :: "'hw gripper_app \<Rightarrow> 'hw gripper_app" where
  "health_task_body app =
     (let snapshot = the (gripper_control_task_get_snapshot (Some (gripperSnapshot (app_task app))) app);
          status = (\<lambda>state e. app\<lparr>app_tx := CommTx_SetDeviceStatus state e (app_tx app)\<rparr>)
      in if safety_task_is_latched app
         then status (device_code UART_DEVICE_EMERGENCY_STOP) (error_code UART_ERROR_EMERGENCY_STOP)
         else if snap_state snapshot = UART_GRIPPER_STATE_FAULT
         then status (device_code UART_DEVICE_ERROR) (error_code UART_ERROR_SERVO)
         else if snap_state snapshot = UART_GRIPPER_STATE_MOVING_ARM \<or>
                 snap_state snapshot = UART_GRIPPER_STATE_MOVING_GRIPPER \<or>
                 snap_state snapshot = UART_GRIPPER_STATE_HOMING
         then status (device_code UART_DEVICE_RUNNING) (error_code UART_ERROR_NONE)
         else if snap_state snapshot = UART_GRIPPER_STATE_STOPPED
         then status (device_code UART_DEVICE_STOPPED) (error_code UART_ERROR_NONE)
         else status (device_code UART_DEVICE_READY) (error_code UART_ERROR_NONE))"

end
