(* ===== verification/Gripper_Uart_Rx.thy ===== *)
theory Gripper_Uart_Rx
  imports Gripper_Tx
begin

text \<open>
  Reception on USART1, \<open>Application/Src/uart_rx.c\<close> of the gripper controller: a circular DMA
  buffer of 256 bytes, and the interrupt callback that cuts what arrived since the last
  event into chunks of at most 64 bytes for the receive task's queue.
\<close>

section \<open>State and operations\<close>

abbreviation (input) UART_RX_DMA_BUFFER_SIZE :: "'a::numeral" where "UART_RX_DMA_BUFFER_SIZE \<equiv> 256"

record uart_rx =
  uartRxDmaBuffer :: "u8 list"
  uartRxLastPosition :: u16
  uartRxError :: u32
  uartRxDroppedChunks :: u32
  uartRxQueueHandle :: "uart_rx_chunk_t os_queue ptr"

text \<open>
  The loop of \<open>uart_rx_enqueue_range\<close>. The local \<open>chunk\<close> starts as whatever the stack
  holds and keeps, past \<open>chunk_length\<close>, what the previous round left in it.
\<close>

function rx_range_loop :: "u16 \<Rightarrow> u16 \<Rightarrow> uart_rx_chunk_t \<Rightarrow> uart_rx \<Rightarrow> uart_rx" where
  "rx_range_loop position stop chunk rx =
     (if position < stop
      then
        (let remaining = stop - position;
             n = (if UART_RX_CHUNK_SIZE < remaining then UART_RX_CHUNK_SIZE else remaining);
             chunk = \<lparr>chunk_length = n,
                      chunk_data = memcpy (chunk_data chunk) 0 (uartRxDmaBuffer rx) (unat position) (unat n)\<rparr>;
             (status, queue) = osMessageQueuePut (uartRxQueueHandle rx) chunk 0;
             rx = rx\<lparr>uartRxQueueHandle := queue\<rparr>;
             rx = (if status \<noteq> osOK then rx\<lparr>uartRxDroppedChunks := uartRxDroppedChunks rx + 1\<rparr> else rx)
         in rx_range_loop (position + n) stop chunk rx)
      else rx)"
  by pat_completeness auto

text \<open>A step of at most the remaining distance neither wraps nor stays put.\<close>

lemma rx_step_position:
  assumes "position < (stop :: u16)"
    and "n = (if 64 < stop - position then 64 else stop - position)"
  shows "unat (position + n) = unat position + unat n" "0 < unat n" "unat n \<le> 64"
    "unat position + unat n \<le> unat stop"
proof -
  have sub: "unat (stop - position) = unat stop - unat position"
    using assms(1) by (simp add: unat_sub word_less_nat_alt word_le_nat_alt)
  have lt: "unat position < unat stop" using assms(1) by (simp add: word_less_nat_alt)
  have n: "unat n = min 64 (unat stop - unat position)"
    using assms(2) sub by (simp add: word_less_nat_alt min_def)
  then show "0 < unat n" "unat n \<le> 64" "unat position + unat n \<le> unat stop"
    using lt by auto
  then have "unat position + unat n < 65536"
    by (rule_tac le_less_trans [OF _ unat_u16_less])
  then show "unat (position + n) = unat position + unat n"
    by (simp add: unat_word_ariths del: unat_u16_less)
qed

termination rx_range_loop
proof (relation "measure (\<lambda>(position, stop, _). unat stop - unat position)", goal_cases)
  case (2 position stop chunk rx remaining n)
  then show ?case using rx_step_position [of position stop n] by auto
qed simp

declare rx_range_loop.simps [simp del]

definition uart_rx_enqueue_range :: "uart_rx_chunk_t \<Rightarrow> u16 \<Rightarrow> u16 \<Rightarrow> uart_rx \<Rightarrow> uart_rx" where
  "uart_rx_enqueue_range stack start stop rx = rx_range_loop start stop stack rx"

text \<open>\<open>hal_ok\<close>: \<open>HAL_UARTEx_ReceiveToIdle_DMA\<close> returned \<open>HAL_OK\<close>.\<close>

definition uart_rx_start :: "bool \<Rightarrow> uart_rx \<Rightarrow> bool \<times> uart_rx" where
  "uart_rx_start hal_ok rx = (hal_ok, rx\<lparr>uartRxLastPosition := 0\<rparr>)"

definition uart_rx_restart :: "bool \<Rightarrow> uart_rx \<Rightarrow> bool \<times> uart_rx" where
  "uart_rx_restart hal_ok rx = uart_rx_start hal_ok rx"

definition uart_rx_take_error :: "uart_rx \<Rightarrow> u32 \<times> uart_rx" where
  "uart_rx_take_error rx = (uartRxError rx, rx\<lparr>uartRxError := 0\<rparr>)"

definition uart_rx_get_dropped_chunk_count :: "uart_rx \<Rightarrow> u32" where
  "uart_rx_get_dropped_chunk_count rx = uartRxDroppedChunks rx"

definition HAL_UARTEx_RxEventCallback ::
  "uart_rx_chunk_t \<Rightarrow> uart_handle ptr \<Rightarrow> u16 \<Rightarrow> uart_rx \<Rightarrow> uart_rx" where
  "HAL_UARTEx_RxEventCallback stack huart event_size rx =
     (if huart = NULL \<or> huart_Instance (the huart) \<noteq> USART1 \<or> UART_RX_DMA_BUFFER_SIZE < event_size then rx
      else if event_size = UART_RX_DMA_BUFFER_SIZE
      then (uart_rx_enqueue_range stack (uartRxLastPosition rx) UART_RX_DMA_BUFFER_SIZE rx)
             \<lparr>uartRxLastPosition := 0\<rparr>
      else
        (let position = event_size;
             rx = (if uartRxLastPosition rx < position
                   then uart_rx_enqueue_range stack (uartRxLastPosition rx) position rx
                   else if position < uartRxLastPosition rx
                   then uart_rx_enqueue_range stack 0 position
                          (uart_rx_enqueue_range stack (uartRxLastPosition rx) UART_RX_DMA_BUFFER_SIZE rx)
                   else rx)
         in rx\<lparr>uartRxLastPosition := position\<rparr>))"

definition HAL_UART_ErrorCallback :: "uart_handle ptr \<Rightarrow> comm_tx \<Rightarrow> uart_rx \<Rightarrow> comm_tx \<times> uart_rx" where
  "HAL_UART_ErrorCallback huart tx rx =
     (if huart \<noteq> NULL \<and> huart_Instance (the huart) = USART1
      then
        (let error = huart_ErrorCode (the huart);
             (tx_dma_error, tx) = CommTx_HandleUartError huart tx;
             rx_error = error AND NOT HAL_UART_ERROR_DMA;
             rx_error =
               (if error AND HAL_UART_ERROR_DMA \<noteq> 0 \<and>
                   (\<not> tx_dma_error \<or>
                    (hdmarx_ErrorCode (the huart) \<noteq> NULL \<and>
                     the (hdmarx_ErrorCode (the huart)) \<noteq> HAL_DMA_ERROR_NONE))
                then rx_error OR HAL_UART_ERROR_DMA else rx_error)
         in (tx, rx\<lparr>uartRxError := uartRxError rx OR rx_error\<rparr>))
      else (tx, rx))"

section \<open>What a range becomes\<close>

definition chunk_bytes :: "uart_rx_chunk_t \<Rightarrow> u8 list" where
  "chunk_bytes c = take (unat (chunk_length c)) (chunk_data c)"

definition chunk_ok :: "uart_rx_chunk_t \<Rightarrow> bool" where
  "chunk_ok c \<longleftrightarrow> length (chunk_data c) = 64 \<and> 0 < unat (chunk_length c) \<and> unat (chunk_length c) \<le> 64"

text \<open>What a full queue does to a burst of puts: the first fit, the rest are counted.\<close>

definition rx_offer :: "uart_rx_chunk_t list \<Rightarrow> uart_rx \<Rightarrow> uart_rx" where
  "rx_offer cs rx =
     (case uartRxQueueHandle rx of
        None \<Rightarrow> rx\<lparr>uartRxDroppedChunks := uartRxDroppedChunks rx + of_nat (length cs)\<rparr>
      | Some q \<Rightarrow>
          (let room = queue_capacity q - length (queue_items q)
           in rx\<lparr>uartRxQueueHandle := Some (q\<lparr>queue_items := queue_items q @ take room cs\<rparr>),
                 uartRxDroppedChunks := uartRxDroppedChunks rx + of_nat (length cs - room)\<rparr>))"

lemma rx_offer_Nil [simp]: "rx_offer [] rx = rx"
  by (cases rx) (simp add: rx_offer_def split: option.split)

lemma rx_offer_Cons:
  "rx_offer (c # cs) rx =
     (case osMessageQueuePut (uartRxQueueHandle rx) c 0 of (status, queue) \<Rightarrow>
        (let rx = rx\<lparr>uartRxQueueHandle := queue\<rparr>
         in rx_offer cs (if status \<noteq> osOK then rx\<lparr>uartRxDroppedChunks := uartRxDroppedChunks rx + 1\<rparr> else rx)))"
proof (cases rule: queue_put_cases [of "uartRxQueueHandle rx" c 0])
  case (full q)
  then show ?thesis by (simp add: rx_offer_def algebra_simps)
next
  case (ok q)
  then obtain d where "queue_capacity q = Suc (length (queue_items q) + d)"
    using less_imp_Suc_add by blast
  then show ?thesis using ok by (simp add: rx_offer_def)
next
  case missing
  then show ?thesis by (simp add: rx_offer_def algebra_simps)
qed

lemma rx_offer_append: "rx_offer (cs @ ds) rx = rx_offer ds (rx_offer cs rx)"
  by (induction cs arbitrary: rx) (simp_all add: rx_offer_Cons Let_def split: prod.split)

lemma rx_offer_fields [simp]:
  "uartRxDmaBuffer (rx_offer cs rx) = uartRxDmaBuffer rx"
  "uartRxLastPosition (rx_offer cs rx) = uartRxLastPosition rx"
  "uartRxError (rx_offer cs rx) = uartRxError rx"
  by (simp_all add: rx_offer_def Let_def split: option.split)

definition segment :: "nat \<Rightarrow> nat \<Rightarrow> 'a list \<Rightarrow> 'a list" where
  "segment i j xs = take (j - i) (drop i xs)"

lemma segment_split: "i \<le> j \<Longrightarrow> j \<le> k \<Longrightarrow> segment i j xs @ segment j k xs = segment i k xs"
proof -
  assume "i \<le> j" "j \<le> k"
  then have "take (k - i) (drop i xs) = take (j - i) (drop i xs) @ take (k - j) (drop (j - i) (drop i xs))"
    by (metis (no_types, lifting) add_diff_cancel_right' le_add_diff_inverse2 diff_add_assoc2 take_add add.commute)
  then show ?thesis using \<open>i \<le> j\<close> by (simp add: segment_def)
qed

lemma segment_suffix:
  "length a + length m = p \<Longrightarrow> length b = k - p \<Longrightarrow> segment p k (a @ m @ b) = b"
  by (auto simp: segment_def)

lemma segment_prefix: "length a = q \<Longrightarrow> segment 0 q (a @ rest) = a"
  by (auto simp: segment_def)

text \<open>
  The loop offers the queue a list of well-formed chunks whose bytes, put end to end, are
  the buffer's bytes of the range, and changes nothing else.
\<close>

lemma rx_range_chunks:
  assumes "length (uartRxDmaBuffer rx) = 256" "unat stop \<le> 256" "length (chunk_data chunk) = 64"
    and "position \<le> stop"
  shows "\<exists>cs. rx_range_loop position stop chunk rx = rx_offer cs rx \<and> list_all chunk_ok cs \<and>
    concat (map chunk_bytes cs) = segment (unat position) (unat stop) (uartRxDmaBuffer rx) \<and>
    64 * length cs < unat stop - unat position + 64"
  using assms
proof (induction position stop chunk rx rule: rx_range_loop.induct)
  case (1 position stop chunk rx)
  show ?case
  proof (cases "position < stop")
    case False
    then have "position = stop" using 1(5) by simp
    then show ?thesis
      by (intro exI [of _ "[]"]) (simp add: rx_range_loop.simps segment_def)
  next
    case True
    define n where "n = (if 64 < stop - position then 64 else stop - position)"
    define c where "c = \<lparr>chunk_length = n,
      chunk_data = memcpy (chunk_data chunk) 0 (uartRxDmaBuffer rx) (unat position) (unat n)\<rparr>"
    define rx' where "rx' = (case osMessageQueuePut (uartRxQueueHandle rx) c 0 of (status, queue) \<Rightarrow>
        (let rx = rx\<lparr>uartRxQueueHandle := queue\<rparr>
         in if status \<noteq> osOK then rx\<lparr>uartRxDroppedChunks := uartRxDroppedChunks rx + 1\<rparr> else rx))"
    note pos = rx_step_position [OF True n_def]
    have step: "rx_range_loop position stop chunk rx = rx_range_loop (position + n) stop c rx'"
      using True by (subst rx_range_loop.simps) (simp add: n_def c_def rx'_def Let_def split_beta)
    have ok: "chunk_ok c" and bytes: "chunk_bytes c = segment (unat position) (unat position + unat n) (uartRxDmaBuffer rx)"
      using pos 1(2-4) by (simp_all add: chunk_ok_def chunk_bytes_def c_def segment_def)
    have buf: "uartRxDmaBuffer rx' = uartRxDmaBuffer rx"
      by (simp add: rx'_def Let_def split_beta)
    obtain status queue where put: "osMessageQueuePut (uartRxQueueHandle rx) c 0 = (status, queue)"
      by fastforce
    have rx'_eq: "rx' = (if status \<noteq> osOK
        then rx\<lparr>uartRxQueueHandle := queue, uartRxDroppedChunks := uartRxDroppedChunks (rx\<lparr>uartRxQueueHandle := queue\<rparr>) + 1\<rparr>
        else rx\<lparr>uartRxQueueHandle := queue\<rparr>)"
      unfolding rx'_def put by (simp add: Let_def)
    have "\<exists>cs. rx_range_loop (position + n) stop c rx' = rx_offer cs rx' \<and> list_all chunk_ok cs \<and>
        concat (map chunk_bytes cs) = segment (unat (position + n)) (unat stop) (uartRxDmaBuffer rx') \<and>
        64 * length cs < unat stop - unat (position + n) + 64"
    proof (rule 1(1) [OF True refl n_def c_def put [symmetric] refl])
      show "length (uartRxDmaBuffer rx') = 256" using 1(2) buf by simp
      show "unat stop \<le> 256" by fact
      show "length (chunk_data c) = 64" using ok by (simp add: chunk_ok_def)
      show "position + n \<le> stop" using pos by (simp add: word_le_nat_alt)
    qed (rule refl, rule rx'_eq)
    then obtain cs where cs: "rx_range_loop (position + n) stop c rx' = rx_offer cs rx'"
      "list_all chunk_ok cs"
      "concat (map chunk_bytes cs) = segment (unat position + unat n) (unat stop) (uartRxDmaBuffer rx)"
      "64 * length cs < unat stop - (unat position + unat n) + 64"
      unfolding buf pos(1) by blast
    have "64 * length (c # cs) < unat stop - unat position + 64"
    proof (cases "cs = []")
      case True
      then show ?thesis using pos by simp
    next
      case False
      then have "unat n = 64"
        using cs(4) pos True n_def by (cases "64 < stop - position") (auto simp: unat_sub word_less_nat_alt word_le_nat_alt)
      then show ?thesis using cs(4) pos by simp
    qed
    moreover have "rx_offer (c # cs) rx = rx_offer cs rx'"
      by (simp add: rx_offer_Cons rx'_def split_beta Let_def)
    moreover have "concat (map chunk_bytes (c # cs)) = segment (unat position) (unat stop) (uartRxDmaBuffer rx)"
      using cs(3) bytes segment_split [of "unat position" "unat position + unat n" "unat stop" "uartRxDmaBuffer rx"] pos
      by simp
    ultimately show ?thesis
      using step cs(1,2) ok by (intro exI [of _ "c # cs"]) simp
  qed
qed


section \<open>Reception of a byte stream\<close>

text \<open>
  The DMA writes byte \<open>n\<close> of the stream to place \<open>n mod 256\<close>. The event that follows reports
  256 at the end of the buffer, and the place after the last byte otherwise.
\<close>

primrec dma_receive :: "u8 list \<Rightarrow> nat \<Rightarrow> u8 list \<Rightarrow> u8 list" where
  "dma_receive [] n buf = buf"
| "dma_receive (b # bs) n buf = dma_receive bs (Suc n) (buf[n mod 256 := b])"

definition rx_event_size :: "nat \<Rightarrow> u16" where
  "rx_event_size n = (if n mod 256 = 0 then 256 else of_nat (n mod 256))"

lemma length_dma_receive [simp]: "length (dma_receive bs n buf) = length buf"
  by (induction bs arbitrary: n buf) simp_all

lemma dma_receive_append:
  "dma_receive (as @ bs) n buf = dma_receive bs (n + length as) (dma_receive as n buf)"
  by (induction as arbitrary: n buf) simp_all

lemma dma_receive_inside:
  "length buf = 256 \<Longrightarrow> n mod 256 + length bs \<le> 256 \<Longrightarrow>
     dma_receive bs n buf = take (n mod 256) buf @ bs @ drop (n mod 256 + length bs) buf"
proof (induction bs arbitrary: n buf)
  case (Cons b bs)
  let ?p = "n mod 256"
  have p: "?p < 256" by simp
  show ?case
  proof (cases "bs = []")
    case True
    then show ?thesis using Cons.prems p by (simp add: upd_conv_take_nth_drop)
  next
    case False
    then have "0 < length bs" by simp
    then have "?p \<noteq> 255" using Cons.prems(2) by (simp only: list.size)
    then have next_pos: "Suc n mod 256 = Suc ?p" by (simp add: mod_Suc)
    have "dma_receive bs (Suc n) (buf[?p := b]) =
        take (Suc ?p) (buf[?p := b]) @ bs @ drop (Suc ?p + length bs) (buf[?p := b])"
      using Cons.IH [of "buf[?p := b]" "Suc n"] Cons.prems next_pos by simp
    then show ?thesis
      using Cons.prems p by (simp add: take_list_update_length)
  qed
qed simp

lemma dma_receive_wrap:
  assumes "length buf = 256" "n mod 256 = p" "p + d = 256" "d \<le> length new" "length new - d < p"
  shows "segment p 256 (dma_receive new n buf) = take d new"
    "segment 0 (length new - d) (dma_receive new n buf) = drop d new"
proof -
  let ?q = "length new - d"
  have next0: "(n + d) mod 256 = 0"
    using assms(2,3) by (metis mod_add_left_eq mod_self)
  have len: "length (take d new) = d" using assms(4) by simp
  have "dma_receive new n buf = dma_receive (drop d new) (n + d) (dma_receive (take d new) n buf)"
    using dma_receive_append [of "take d new" "drop d new" n buf] len by simp
  also have "dma_receive (take d new) n buf = take p buf @ take d new"
    using dma_receive_inside [of buf n "take d new"] assms(1-3) len by simp
  also have "dma_receive (drop d new) (n + d) (take p buf @ take d new) =
      drop d new @ drop ?q (take p buf @ take d new)"
    using dma_receive_inside [of "take p buf @ take d new" "n + d" "drop d new"] next0 assms(1,3,5) len
    by (simp only: length_append length_take length_drop) simp
  also have "drop ?q (take p buf @ take d new) = drop ?q (take p buf) @ take d new"
    using assms(1,3,5) by simp
  finally have buf: "dma_receive new n buf = drop d new @ drop ?q (take p buf) @ take d new" .
  have "length (drop ?q (take p buf)) = p - ?q" using assms(1,3) by simp
  then have "length (drop d new) + length (drop ?q (take p buf)) = p" using assms(5) by simp
  then show "segment p 256 (dma_receive new n buf) = take d new"
    unfolding buf by (rule segment_suffix) (use len assms(3) in linarith)
  show "segment 0 ?q (dma_receive new n buf) = drop d new"
    unfolding buf by (rule segment_prefix) simp
qed

lemma rx_event_size_inside:
  "n mod 256 \<noteq> 0 \<Longrightarrow>
     \<exists>sz. rx_event_size n = sz \<and> of_nat (n mod 256) = sz \<and> unat sz = n mod 256"
  by (simp add: rx_event_size_def unat_of_nat)

text \<open>
  After the circular DMA wrote fewer than 256 new bytes, wrapping or not, the receive event
  callback offers the queue exactly these bytes, in order, in at most five chunks of at most 64
  bytes, and remembers where the next byte goes.
\<close>

theorem rx_event_delivers:
  assumes "length (uartRxDmaBuffer rx) = 256" "unat (uartRxLastPosition rx) = n mod 256"
    and "0 < length new" "length new < 256" "length (chunk_data stack) = 64"
    and "huart_Instance h = USART1"
  defines "rx1 \<equiv> rx\<lparr>uartRxDmaBuffer := dma_receive new n (uartRxDmaBuffer rx)\<rparr>"
  shows "\<exists>cs. HAL_UARTEx_RxEventCallback stack (Some h) (rx_event_size (n + length new)) rx1 =
      (rx_offer cs rx1)\<lparr>uartRxLastPosition := of_nat ((n + length new) mod 256)\<rparr> \<and>
    list_all chunk_ok cs \<and> concat (map chunk_bytes cs) = new \<and> length cs \<le> 5"
proof -
  let ?p = "n mod 256" and ?k = "length new"
  let ?buf = "uartRxDmaBuffer rx" and ?last = "uartRxLastPosition rx"
  have p: "?p < 256" by simp
  have len1: "length (uartRxDmaBuffer rx1) = 256" using assms(1) by (simp add: rx1_def)
  have last1: "uartRxLastPosition rx1 = ?last" by (simp add: rx1_def)
  consider (inside) "?p + ?k < 256" | (full) "?p + ?k = 256" | (wrap) "256 < ?p + ?k" by linarith
  then show ?thesis
  proof cases
    case inside
    then have m: "(n + ?k) mod 256 = ?p + ?k" by (metis mod_add_left_eq mod_less)
    obtain sz where sz: "rx_event_size (n + ?k) = sz" "of_nat ((n + ?k) mod 256) = sz" "unat sz = ?p + ?k"
      using rx_event_size_inside [of "n + ?k"] assms(3) m by auto
    have seg: "segment ?p (?p + ?k) (uartRxDmaBuffer rx1) = new"
      using dma_receive_inside [of ?buf n new] inside assms(1) by (simp add: rx1_def segment_def)
    have less: "?last < sz" using sz assms(2,3) by (simp add: word_less_nat_alt)
    obtain cs where "rx_range_loop ?last sz stack rx1 = rx_offer cs rx1" "list_all chunk_ok cs"
        "concat (map chunk_bytes cs) = new" "64 * length cs < ?k + 64"
      using rx_range_chunks [OF len1 _ assms(5), of sz ?last] less_imp_le [OF less] sz assms(2) seg inside by auto
    then show ?thesis
      using sz less last1 assms(6) inside assms(4)
      by (intro exI [of _ cs])
        (auto simp: HAL_UARTEx_RxEventCallback_def uart_rx_enqueue_range_def Let_def word_less_nat_alt)
  next
    case full
    then have m: "(n + ?k) mod 256 = 0" by (metis mod_add_left_eq mod_self)
    have segment: "segment ?p 256 (uartRxDmaBuffer rx1) = new"
      using dma_receive_inside [of ?buf n new] full assms(1) by (simp add: rx1_def segment_def)
    have le: "?last \<le> 256" using assms(2) by (simp add: word_le_nat_alt)
    obtain cs where "rx_range_loop ?last 256 stack rx1 = rx_offer cs rx1" "list_all chunk_ok cs"
        "concat (map chunk_bytes cs) = new" "64 * length cs < 256 - ?p + 64"
      using rx_range_chunks [OF len1 _ assms(5), of 256 ?last] le assms(2) segment by auto
    then show ?thesis
      using m last1 assms(6) full assms(4)
      by (intro exI [of _ cs])
        (auto simp: HAL_UARTEx_RxEventCallback_def uart_rx_enqueue_range_def rx_event_size_def)
  next
    case wrap
    let ?q = "?p + ?k - 256" and ?d = "256 - ?p"
    have q: "0 < ?q" "?q < ?p" using wrap assms(4) by linarith+
    have m: "(n + ?k) mod 256 = ?q"
    proof -
      have "(n + ?k) mod 256 = (?p + ?k) mod 256" by (simp add: mod_add_left_eq)
      also have "\<dots> = ?q mod 256" using wrap by (simp add: le_mod_geq)
      finally show ?thesis using q p by simp
    qed
    obtain sz where sz: "rx_event_size (n + ?k) = sz" "of_nat ((n + ?k) mod 256) = sz" "unat sz = ?q"
      using rx_event_size_inside [of "n + ?k"] q m by auto
    define d where "d = ?d"
    have d: "?p + d = 256" "d \<le> ?k" "?k - d = ?q" using wrap p by (simp_all add: d_def)
    note buf = dma_receive_wrap [OF assms(1) refl d(1,2)]
    have seg1: "segment ?p 256 (uartRxDmaBuffer rx1) = take d new"
      using buf(1) q(2) d(3) by (simp add: rx1_def)
    have seg2: "segment 0 ?q (uartRxDmaBuffer rx1) = drop d new"
      using buf(2) q(2) d(3) by (simp add: rx1_def)
    have le: "?last \<le> 256" using assms(2) by (simp add: word_le_nat_alt)
    obtain cs where cs: "rx_range_loop ?last 256 stack rx1 = rx_offer cs rx1" "list_all chunk_ok cs"
        "concat (map chunk_bytes cs) = take d new" "64 * length cs < d + 64"
      using rx_range_chunks [OF len1 _ assms(5) le] assms(2) seg1 d_def by auto
    have size256: "unat sz \<le> 256" using sz(3) q(2) p by linarith
    obtain ds where ds: "rx_range_loop 0 sz stack (rx_offer cs rx1) = rx_offer ds (rx_offer cs rx1)"
        "list_all chunk_ok ds" "concat (map chunk_bytes ds) = drop d new" "64 * length ds < ?q + 64"
      using rx_range_chunks [of "rx_offer cs rx1" sz stack 0] len1 sz(3) size256 assms(5) seg2 by auto
    have "\<not> ?last < sz" "sz < ?last"
      using sz q assms(2) by (auto simp: word_less_nat_alt)
    then have "HAL_UARTEx_RxEventCallback stack (Some h) (rx_event_size (n + ?k)) rx1 =
        (rx_offer (cs @ ds) rx1)\<lparr>uartRxLastPosition := of_nat ((n + ?k) mod 256)\<rparr>"
      using sz last1 assms(6) cs(1) ds(1) q p
      by (auto simp: HAL_UARTEx_RxEventCallback_def uart_rx_enqueue_range_def Let_def rx_offer_append
          word_less_nat_alt)
    then show ?thesis
      using cs ds assms(4) d by (intro exI [of _ "cs @ ds"]) auto
  qed
qed


section \<open>A concrete instance\<close>

definition demo_uart_rx :: uart_rx where
  "demo_uart_rx = \<lparr>uartRxDmaBuffer = replicate 256 0, uartRxLastPosition = 250, uartRxError = 0,
     uartRxDroppedChunks = 0, uartRxQueueHandle = osMessageQueueNew True 16\<rparr>"

definition demo_handle :: uart_handle where
  "demo_handle = \<lparr>huart_Instance = USART1, huart_ErrorCode = 0, hdmatx_ErrorCode = None, hdmarx_ErrorCode = None\<rparr>"

theorem rx_event_delivers_witness:
  "\<exists>cs. uartRxQueueHandle (HAL_UARTEx_RxEventCallback \<lparr>chunk_length = 0, chunk_data = replicate 64 0\<rparr>
       (Some demo_handle) (rx_event_size (250 + length (replicate 10 (7 :: u8))))
       (demo_uart_rx\<lparr>uartRxDmaBuffer := dma_receive (replicate 10 7) 250 (uartRxDmaBuffer demo_uart_rx)\<rparr>)) =
     Some \<lparr>queue_capacity = 16, queue_items = cs\<rparr> \<and> concat (map chunk_bytes cs) = replicate 10 7"
proof -
  let ?stack = "\<lparr>chunk_length = 0, chunk_data = replicate 64 0\<rparr> :: uart_rx_chunk_t"
  have pre: "length (uartRxDmaBuffer demo_uart_rx) = 256" "unat (uartRxLastPosition demo_uart_rx) = 250 mod 256"
    "0 < length (replicate 10 (7 :: u8))" "length (replicate 10 (7 :: u8)) < 256" "length (chunk_data ?stack) = 64"
    "huart_Instance demo_handle = USART1"
    by (simp_all add: demo_uart_rx_def demo_handle_def)
  obtain cs where cs: "HAL_UARTEx_RxEventCallback ?stack (Some demo_handle) (rx_event_size (250 + length (replicate 10 (7 :: u8))))
       (demo_uart_rx\<lparr>uartRxDmaBuffer := dma_receive (replicate 10 7) 250 (uartRxDmaBuffer demo_uart_rx)\<rparr>) =
      (rx_offer cs (demo_uart_rx\<lparr>uartRxDmaBuffer := dma_receive (replicate 10 7) 250 (uartRxDmaBuffer demo_uart_rx)\<rparr>))
        \<lparr>uartRxLastPosition := of_nat ((250 + length (replicate 10 (7 :: u8))) mod 256)\<rparr>"
    "concat (map chunk_bytes cs) = replicate 10 7" "length cs \<le> 5"
    using rx_event_delivers [OF pre] by blast
  then show ?thesis
    by (intro exI [of _ cs]) (simp add: rx_offer_def demo_uart_rx_def osMessageQueueNew_def)
qed

end
