(* ===== verification/Gripper_Rx.thy ===== *)
theory Gripper_Rx
  imports Gripper_Safety Gripper_Uart_Rx Uart_Parser
begin

text \<open>
  The receive task of the gripper, \<open>Application/Src/comm_rx_task.c\<close>: chunks of bytes go
  through the parser, each frame is answered at once or routed to the queue of the control
  task or of the safety task, stamped with the safety epoch.
\<close>

section \<open>Routing a frame\<close>

abbreviation (input) rx_count where
  "rx_count counter app \<equiv> app_rx_stats_update (counter (\<lambda>n. n + 1)) app"

definition comm_rx_send_response :: "u8 \<Rightarrow> u8 \<Rightarrow> u8 \<Rightarrow> u8 \<Rightarrow> 'hw gripper_app \<Rightarrow> 'hw gripper_app" where
  "comm_rx_send_response sequence original_command status e app =
     (let payload = [status, original_command, e];
          (r, app) = tx_call (CommTx_SendWithSequence sequence (cmd_code UART_CMD_RESPONSE) (Some payload)
                       UART_RESPONSE_HEADER_SIZE) app
      in if r \<noteq> 0 then rx_count rx_queue_drops_update app else app)"

definition comm_rx_common_payload_is_valid :: "uart_frame_t \<Rightarrow> bool" where
  "comm_rx_common_payload_is_valid frame \<longleftrightarrow> frame_length frame = 0"

datatype command_queue = GRIPPER_CONTROL_QUEUE | SAFETY_COMMAND_QUEUE

primrec queue_handle :: "command_queue \<Rightarrow> 'hw gripper_app \<Rightarrow> control_command_t os_queue ptr" where
  "queue_handle GRIPPER_CONTROL_QUEUE app = gripperControlQueueHandle app"
| "queue_handle SAFETY_COMMAND_QUEUE app = safetyCommandQueueHandle app"

primrec set_queue_handle :: "command_queue \<Rightarrow> control_command_t os_queue ptr \<Rightarrow> 'hw gripper_app \<Rightarrow> 'hw gripper_app" where
  "set_queue_handle GRIPPER_CONTROL_QUEUE q app = app\<lparr>gripperControlQueueHandle := q\<rparr>"
| "set_queue_handle SAFETY_COMMAND_QUEUE q app = app\<lparr>safetyCommandQueueHandle := q\<rparr>"

definition comm_rx_enqueue ::
  "command_queue \<Rightarrow> uart_frame_t \<Rightarrow> app_control_message_kind_t \<Rightarrow> 'hw gripper_app \<Rightarrow> bool \<times> 'hw gripper_app" where
  "comm_rx_enqueue queue frame kind app =
     (let message = zero_control_command\<lparr>msg_frame := frame, msg_kind := kind,
            msg_safety_epoch := safety_task_get_epoch app\<rparr>;
          (status, handle) = osMessageQueuePut (queue_handle queue app) message 0
      in if queue_handle queue app = NULL \<or> status \<noteq> osOK
         then (False, comm_rx_send_response (frame_sequence frame) (frame_command frame)
                 (status_code UART_STATUS_BUSY) (error_code UART_ERROR_BUSY)
                 (rx_count rx_queue_drops_update app))
         else (True, set_queue_handle queue handle app))"

text \<open>The answer to a malformed payload, and the end of the branches that queue a command.\<close>

definition refuse_payload :: "uart_frame_t \<Rightarrow> 'hw gripper_app \<Rightarrow> 'hw gripper_app" where
  "refuse_payload frame app =
     comm_rx_send_response (frame_sequence frame) (frame_command frame) (status_code UART_STATUS_NACK)
       (error_code UART_ERROR_INVALID_PAYLOAD) (rx_count rx_invalid_payloads_update app)"

definition queue_gripper_command :: "uart_frame_t \<Rightarrow> 'hw gripper_app \<Rightarrow> 'hw gripper_app" where
  "queue_gripper_command frame app =
     (case comm_rx_enqueue GRIPPER_CONTROL_QUEUE frame APP_CONTROL_MESSAGE_UART_COMMAND app of
        (accepted, app) \<Rightarrow> if accepted then rx_count rx_gripper_commands_update app else app)"

definition comm_rx_process_frame :: "uart_frame_t ptr \<Rightarrow> 'hw gripper_app \<Rightarrow> 'hw gripper_app" where
  "comm_rx_process_frame frame_ptr app =
     (case frame_ptr of
        None \<Rightarrow> app
      | Some frame \<Rightarrow>
          (let app = rx_count rx_received_frames_update app; command = frame_command frame
           in if command = cmd_code UART_CMD_PING
              then
                (if \<not> comm_rx_common_payload_is_valid frame then refuse_payload frame app
                 else comm_rx_send_response (frame_sequence frame) command
                        (status_code UART_STATUS_SUCCESS) (error_code UART_ERROR_NONE) app)
              else if command = cmd_code UART_CMD_EMERGENCY_STOP \<or> command = cmd_code UART_CMD_RESET_DEVICE
              then
                (if \<not> comm_rx_common_payload_is_valid frame then refuse_payload frame app
                 else
                   (let kind = (if command = cmd_code UART_CMD_EMERGENCY_STOP
                                then APP_CONTROL_MESSAGE_SAFETY_STOP else APP_CONTROL_MESSAGE_SAFETY_RELEASE)
                    in case comm_rx_enqueue SAFETY_COMMAND_QUEUE frame kind app of
                         (accepted, app) \<Rightarrow> if accepted then rx_count rx_safety_commands_update app else app))
              else if command = cmd_code UART_CMD_GET_STATUS
              then
                (if \<not> comm_rx_common_payload_is_valid frame then refuse_payload frame app
                 else queue_gripper_command frame app)
              else if uart_gripper_command_is_valid (to_u32 command)
              then
                (if \<not> uart_gripper_payload_is_valid (to_u32 command) (Some (frame_payload frame))
                        (to_u32 (frame_length frame))
                 then refuse_payload frame app
                 else queue_gripper_command frame app)
              else
                comm_rx_send_response (frame_sequence frame) command (status_code UART_STATUS_NACK)
                  (error_code UART_ERROR_UNSUPPORTED_COMMAND) (rx_count rx_unsupported_commands_update app)))"

definition comm_rx_get_stats :: "comm_rx_stats_t ptr \<Rightarrow> 'hw gripper_app \<Rightarrow> comm_rx_stats_t ptr" where
  "comm_rx_get_stats stats app = (if stats \<noteq> NULL then Some (app_rx_stats app) else stats)"

section \<open>Chunks\<close>

text \<open>
  The receive task's own state: the parser, the tick of the last chunk, and the local
  \<open>frame\<close> that the parser fills. It works beside the shared statics.
\<close>

record 'hw comm_rx =
  commRxParser :: uart_parser_t
  commRxLastTick :: u32
  rx_frame :: uart_frame_t
  rx_app :: "'hw gripper_app"
  rx_uart :: uart_rx

text \<open>The negative results of the parser: \<open>result < UART_PARSER_NO_FRAME\<close>.\<close>

definition parser_result_is_error :: "uart_parser_result_t \<Rightarrow> bool" where
  "parser_result_is_error r \<longleftrightarrow> r \<noteq> UART_PARSER_NO_FRAME \<and> r \<noteq> UART_PARSER_FRAME_READY"

definition comm_rx_process_byte :: "u8 \<Rightarrow> 'hw comm_rx \<Rightarrow> 'hw comm_rx" where
  "comm_rx_process_byte byte rx =
     (case uart_parser_feed (Some (commRxParser rx)) byte (Some (rx_frame rx)) of
        (result, parser, frame) \<Rightarrow>
          (let rx = rx\<lparr>commRxParser := the parser, rx_frame := the frame\<rparr>
           in if result = UART_PARSER_FRAME_READY
              then rx\<lparr>rx_app := comm_rx_process_frame (Some (rx_frame rx)) (rx_app rx)\<rparr>
              else if parser_result_is_error result
              then rx\<lparr>rx_app := rx_count rx_parser_errors_update (rx_app rx)\<rparr>
              else rx))"

definition comm_rx_process_chunk :: "uart_rx_chunk_t ptr \<Rightarrow> u32 \<Rightarrow> 'hw comm_rx \<Rightarrow> 'hw comm_rx" where
  "comm_rx_process_chunk chunk_ptr now rx =
     (case chunk_ptr of
        None \<Rightarrow> rx
      | Some chunk \<Rightarrow>
          (if UART_RX_CHUNK_SIZE < chunk_length chunk then rx
           else
             (foldl (\<lambda>rx byte. comm_rx_process_byte byte rx) rx
                (take (unat (chunk_length chunk)) (chunk_data chunk)))\<lparr>commRxLastTick := now\<rparr>))"

definition comm_rx_get_last_rx_tick :: "'hw comm_rx \<Rightarrow> u32" where
  "comm_rx_get_last_rx_tick rx = commRxLastTick rx"

section \<open>The task\<close>

definition comm_rx_task_init :: "'hw comm_rx \<Rightarrow> 'hw comm_rx" where
  "comm_rx_task_init rx =
     rx\<lparr>commRxParser := the (uart_parser_init (Some (commRxParser rx))),
        rx_app := (rx_app rx)\<lparr>app_rx_stats := \<lparr>rx_received_frames = 0, rx_gripper_commands = 0,
          rx_safety_commands = 0, rx_parser_errors = 0, rx_invalid_payloads = 0,
          rx_unsupported_commands = 0, rx_queue_drops = 0, rx_uart_restarts = 0\<rparr>\<rparr>\<rparr>"

text \<open>
  \<open>while (uart_rx_start() != HAL_OK)\<close>: the outcomes of the successive starts are given;
  \<open>None\<close> when all of them fail.
\<close>

primrec comm_rx_start_loop :: "bool list \<Rightarrow> 'hw comm_rx \<Rightarrow> 'hw comm_rx option" where
  "comm_rx_start_loop [] rx = None"
| "comm_rx_start_loop (ok # oks) rx =
     (case uart_rx_start ok (rx_uart rx) of
        (started, uart) \<Rightarrow>
          (let rx = rx\<lparr>rx_uart := uart\<rparr>
           in if started then Some rx
              else comm_rx_start_loop oks (rx\<lparr>rx_app := rx_count rx_uart_restarts_update (rx_app rx)\<rparr>)))"

text \<open>
  One round of the loop; \<open>hal_ok\<close> is what a restart returns, \<open>now\<close> the clock after a chunk.
\<close>

definition comm_rx_service_error :: "bool \<Rightarrow> 'hw comm_rx \<Rightarrow> 'hw comm_rx" where
  "comm_rx_service_error hal_ok rx =
     (let (err, uart) = uart_rx_take_error (rx_uart rx); rx = rx\<lparr>rx_uart := uart\<rparr>
      in if err \<noteq> 0
         then
           (let rx = rx\<lparr>commRxParser := the (uart_parser_reset (Some (commRxParser rx)))\<rparr>;
                (restarted, uart) = uart_rx_restart hal_ok (rx_uart rx);
                rx = rx\<lparr>rx_uart := uart\<rparr>
            in if restarted then rx\<lparr>rx_app := rx_count rx_uart_restarts_update (rx_app rx)\<rparr> else rx)
         else rx)"

definition comm_rx_receive :: "u32 \<Rightarrow> 'hw comm_rx \<Rightarrow> 'hw comm_rx" where
  "comm_rx_receive now rx =
     (case osMessageQueueGet (uartRxQueueHandle (rx_uart rx)) 10 of
        (status, chunk, queue) \<Rightarrow>
          (if uartRxQueueHandle (rx_uart rx) \<noteq> NULL \<and> status = osOK
           then comm_rx_process_chunk chunk now
                  (rx\<lparr>rx_uart := (rx_uart rx)\<lparr>uartRxQueueHandle := queue\<rparr>\<rparr>)
           else
             (case uart_parser_tick (Some (commRxParser rx)) 10 of
                (result, parser) \<Rightarrow>
                  (let rx = rx\<lparr>commRxParser := the parser\<rparr>
                   in if parser_result_is_error result
                      then rx\<lparr>rx_app := rx_count rx_parser_errors_update (rx_app rx)\<rparr>
                      else rx))))"

definition comm_rx_task_body :: "bool \<Rightarrow> u32 \<Rightarrow> 'hw comm_rx \<Rightarrow> 'hw comm_rx" where
  "comm_rx_task_body hal_ok now rx = comm_rx_receive now (comm_rx_service_error hal_ok rx)"

end
