(* ===== verification/Gripper_Transactions.thy ===== *)
theory Gripper_Transactions
  imports Gripper_Task
begin

text \<open>
  What the control task of the gripper promises the host: one response per command, no command
  executed twice, no stale command executed, and no response or event lost while the transmit
  queue is full.
\<close>

section \<open>The state between two messages\<close>

definition task_ok :: "'hw gripper_app \<Rightarrow> bool" where
  "task_ok app \<longleftrightarrow> buffers_ok (app_task app) \<and> cache_ok (gripperCache (app_task app)) \<and>
     list_all message_ok (queued (gripperControlQueueHandle app))"

definition is_request :: "control_command_t \<Rightarrow> bool" where
  "is_request m \<longleftrightarrow> msg_kind m = APP_CONTROL_MESSAGE_UART_COMMAND \<and> message_ok m"

text \<open>The state in which the loop processes a message: the pending response went out before.\<close>

definition accepts_messages :: "'hw gripper_app \<Rightarrow> bool" where
  "accepts_messages app \<longleftrightarrow> \<not> gripperPendingResponseValid (app_task app) \<and>
     buffers_ok (app_task app) \<and> cache_ok (gripperCache (app_task app))"

lemma process_message_pending:
  "gripper_control_task_process_message b (Some m) now app =
     gripper_control_task_process_message b (Some m) now (gripper_control_task_apply_pending_safety app)"
proof -
  obtain t where "gripper_control_task_apply_pending_safety app = app\<lparr>app_task := t\<rparr>"
    "gripperSafetyPendingFlags t = 0" using apply_pending_effect by metis
  then have "gripper_control_task_apply_pending_safety (gripper_control_task_apply_pending_safety app) =
      gripper_control_task_apply_pending_safety app"
    by (simp add: apply_pending_none)
  then show ?thesis by (simp add: gripper_control_task_process_message_def)
qed

lemma accepts_after_pending:
  assumes "accepts_messages app"
  shows "accepts_messages (gripper_control_task_apply_pending_safety app)"
    "gripperSafetyPendingFlags (app_task (gripper_control_task_apply_pending_safety app)) = 0"
    "outbox (gripper_control_task_apply_pending_safety app) = outbox app"
    "app_servo (gripper_control_task_apply_pending_safety app) = app_servo app"
    "safety_task_get_epoch (gripper_control_task_apply_pending_safety app) = safety_task_get_epoch app"
    "gripperController (app_task (gripper_control_task_apply_pending_safety app)) =
       after_flags (gripperSafetyPendingFlags (app_task app)) (gripperController (app_task app))"
    "gripperControlQueueHandle (gripper_control_task_apply_pending_safety app) = gripperControlQueueHandle app"
    "gripperPendingEventValid (app_task (gripper_control_task_apply_pending_safety app)) =
       gripperPendingEventValid (app_task app)"
proof -
  obtain t where t: "gripper_control_task_apply_pending_safety app = app\<lparr>app_task := t\<rparr>"
    "outbox (app\<lparr>app_task := t\<rparr>) = outbox app" "gripperSafetyPendingFlags t = 0"
    "gripperController t = after_flags (gripperSafetyPendingFlags (app_task app)) (gripperController (app_task app))"
    "gripperPendingResponseValid t = gripperPendingResponseValid (app_task app)"
    "gripperPendingEventValid t = gripperPendingEventValid (app_task app)"
    "buffers_ok t = buffers_ok (app_task app)"
    "cache_ok (gripperCache (app_task app)) \<Longrightarrow> cache_ok (gripperCache t)"
    using apply_pending_effect [of app] by metis
  let ?a = "gripper_control_task_apply_pending_safety app"
  show "accepts_messages ?a" "gripperSafetyPendingFlags (app_task ?a) = 0" "outbox ?a = outbox app"
    "app_servo ?a = app_servo app" "safety_task_get_epoch ?a = safety_task_get_epoch app"
    "gripperController (app_task ?a) =
       after_flags (gripperSafetyPendingFlags (app_task app)) (gripperController (app_task app))"
    "gripperControlQueueHandle ?a = gripperControlQueueHandle app"
    "gripperPendingEventValid (app_task ?a) = gripperPendingEventValid (app_task app)"
    using t assms by (simp_all add: accepts_messages_def safety_task_get_epoch_def)
qed

lemma cache_kept_by_pending:
  "cache_valid (gripperCache (app_task (gripper_control_task_apply_pending_safety app))) \<Longrightarrow>
     gripperCache (app_task (gripper_control_task_apply_pending_safety app)) = gripperCache (app_task app)"
  by (rule apply_pending_effect [of app]) simp

section \<open>What the control task never touches\<close>

text \<open>The queues and the statics of the other tasks.\<close>

definition same_rest :: "'hw gripper_app \<Rightarrow> 'hw gripper_app \<Rightarrow> bool" where
  "same_rest app app' \<longleftrightarrow> gripperControlQueueHandle app' = gripperControlQueueHandle app \<and>
     safetyCommandQueueHandle app' = safetyCommandQueueHandle app \<and>
     app_safety app' = app_safety app \<and> app_rx_stats app' = app_rx_stats app"

lemma same_rest_intros [simp]:
  "same_rest app app" "same_rest app (app\<lparr>app_tx := tx\<rparr>)" "same_rest app (app\<lparr>app_task := t\<rparr>)"
  "same_rest app (app\<lparr>app_servo := hw\<rparr>)"
  "same_rest app (app'\<lparr>app_tx := tx\<rparr>) = same_rest app app'"
  "same_rest app (app'\<lparr>app_task := t\<rparr>) = same_rest app app'"
  "same_rest app (app'\<lparr>app_servo := hw\<rparr>) = same_rest app app'"
  by (simp_all add: same_rest_def)

lemma same_rest_trans: "same_rest a b \<Longrightarrow> same_rest b c \<Longrightarrow> same_rest a c"
  by (simp add: same_rest_def)

lemma same_rest_step [simp]:
  "same_rest a (snd (tx_call f b)) = same_rest a b"
  "same_rest a (gripper_control_task_publish_snapshot b) = same_rest a b"
  "same_rest a (gripper_control_task_schedule_response s p n b) = same_rest a b"
  "same_rest a (gripper_control_task_apply_pending_safety b) = same_rest a b"
  "same_rest a (snd (execute_command m now b)) = same_rest a b"
  "same_rest a (count_result r b) = same_rest a b"
  by (simp_all add: tx_call_def publish_effect gripper_control_task_schedule_response_def
      gripper_control_task_apply_pending_safety_def execute_command_def count_result_def Let_def split_def)

lemma process_message_rest [simp]:
  "same_rest a (snd (gripper_control_task_process_message buffer mp now b)) = same_rest a b"
  by (cases mp)
    (simp_all add: gripper_control_task_process_message_def Let_def split_def)

section \<open>Properties of one message\<close>

lemma message_response:
  assumes "is_request m" "length buffer = 128" "accepts_messages app"
    and run: "gripper_control_task_process_message buffer (Some m) now app = (r, app')"
  shows "\<exists>p. outbox app' = outbox app + {#tx_message (frame_sequence (msg_frame m)) True (cmd_code UART_CMD_RESPONSE) p#} \<and>
     length p \<in> {3, 14} \<and> p ! 1 = frame_command (msg_frame m) \<and>
     ((p ! 0, p ! 2) = (gripper_control_task_result_status (frame_command (msg_frame m)) r,
                        gripper_control_task_result_error r) \<or>
      (p ! 0, p ! 2) = (status_code UART_STATUS_NACK, error_code UART_ERROR_SEQUENCE))"
proof -
  let ?a = "gripper_control_task_apply_pending_safety app"
  note a = accepts_after_pending [OF assms(3)]
  have pre: "msg_kind m = APP_CONTROL_MESSAGE_UART_COMMAND" "message_ok m" "length buffer = 128"
    "\<not> gripperPendingResponseValid (app_task ?a)" "buffers_ok (app_task ?a)"
    "cache_ok (gripperCache (app_task ?a))" "gripperSafetyPendingFlags (app_task ?a) = 0"
    using assms(1,2) a(1,2) by (simp_all add: is_request_def accepts_messages_def)
  note run' = run [unfolded process_message_pending [of buffer m now app]]
  show ?thesis
  proof (cases rule: process_message_cases [OF pre, of now, case_names replay conflict fresh])
    case (replay app2)
    let ?c = "gripperCache (app_task ?a)"
    let ?p = "take (unat (cache_response_length ?c)) (cache_response ?c)"
    have c: "cache_response_length ?c \<in> {3, 14}" "cache_command ?c = frame_command (msg_frame m)"
      "cache_response ?c ! 0 = gripper_control_task_result_status (cache_command ?c) (cache_result ?c)"
      "cache_response ?c ! 1 = cache_command ?c" "length (cache_response ?c) = 128"
      "cache_response ?c ! 2 = gripper_control_task_result_error (cache_result ?c)"
      using pre(6) replay(1,2)
      by (simp_all add: cache_ok_def same_sequence_def same_transaction_def gripper_control_task_same_request_def)
    then show ?thesis
      using replay run' a(3) by (intro exI [of _ ?p]) auto
  next
    case (conflict app2)
    then show ?thesis using run' a(3) by (intro exI conjI) auto
  next
    case (fresh r2 app1 response n app2)
    then show ?thesis
      using run' a(3) by (intro exI [of _ "take (unat n) response"]) auto
  qed
qed


lemma process_message_keeps:
  assumes "length buffer = 128" "message_ok m" "accepts_messages app"
    and run: "gripper_control_task_process_message buffer (Some m) now app = (r, app')"
  shows "buffers_ok (app_task app') \<and> cache_ok (gripperCache (app_task app')) \<and> same_rest app app' \<and>
     (msg_kind m \<noteq> APP_CONTROL_MESSAGE_UART_COMMAND \<longrightarrow> outbox app' = outbox app)"
proof -
  let ?a = "gripper_control_task_apply_pending_safety app"
  note a = accepts_after_pending [OF assms(3)]
  have rest: "same_rest app app'"
    using process_message_rest [of app buffer "Some m" now app] run by simp
  show ?thesis
  proof (cases "msg_kind m = APP_CONTROL_MESSAGE_UART_COMMAND")
    case False
    then have "app' = ?a" using run by (simp add: gripper_control_task_process_message_def Let_def)
    then show ?thesis using a(1,3) rest False by (simp add: accepts_messages_def)
  next
    case True
    have pre: "msg_kind m = APP_CONTROL_MESSAGE_UART_COMMAND" "message_ok m" "length buffer = 128"
      "\<not> gripperPendingResponseValid (app_task ?a)" "buffers_ok (app_task ?a)"
      "cache_ok (gripperCache (app_task ?a))" "gripperSafetyPendingFlags (app_task ?a) = 0"
      using True assms(1,2) a(1,2) by (simp_all add: accepts_messages_def)
    note run' = run [unfolded process_message_pending [of buffer m now app]]
    show ?thesis
    proof (cases rule: process_message_cases [OF pre, of now, case_names replay conflict fresh])
      case (replay app2)
      then show ?thesis using run' pre rest True by (simp add: same_core_def)
    next
      case (conflict app2)
      then show ?thesis using run' pre rest True by (simp add: same_core_def)
    next
      case (fresh r2 app1 response n app2)
      note entry = cache_entry [OF pre(6,2) fresh(4-8)]
      show ?thesis using fresh run' rest entry True by simp
    qed
  qed
qed

lemma message_executes:
  assumes "message_ok m" "length buffer = 128" "accepts_messages app"
    and run: "gripper_control_task_process_message buffer (Some m) now app = (r, app')"
  defines "c \<equiv> after_flags (gripperSafetyPendingFlags (app_task app)) (gripperController (app_task app))"
  shows "gripperController (app_task app') = c \<and> app_servo app' = app_servo app \<or>
     msg_kind m = APP_CONTROL_MESSAGE_UART_COMMAND \<and>
     msg_safety_epoch m = safety_task_get_epoch app \<and>
     \<not> (gripperSafetyPendingFlags (app_task app) = 0 \<and> same_sequence m (gripperCache (app_task app))) \<and>
     gripper_control_process_command (Some c) (app_servo app) (frame_command (msg_frame m))
       (Some (frame_payload (msg_frame m))) (frame_length (msg_frame m)) now =
       (r, Some (gripperController (app_task app')), app_servo app')"
proof (cases "msg_kind m = APP_CONTROL_MESSAGE_UART_COMMAND")
  case False
  then show ?thesis
    using run accepts_after_pending [OF assms(3)]
    by (auto simp: gripper_control_task_process_message_def Let_def c_def)
next
  case True
  let ?a = "gripper_control_task_apply_pending_safety app"
  note a = accepts_after_pending [OF assms(3)]
  have pre: "msg_kind m = APP_CONTROL_MESSAGE_UART_COMMAND" "message_ok m" "length buffer = 128"
    "\<not> gripperPendingResponseValid (app_task ?a)" "buffers_ok (app_task ?a)"
    "cache_ok (gripperCache (app_task ?a))" "gripperSafetyPendingFlags (app_task ?a) = 0"
    using True assms(1,2) a(1,2) by (simp_all add: accepts_messages_def)
  note run' = run [unfolded process_message_pending [of buffer m now app]]
  show ?thesis
  proof (cases rule: process_message_cases [OF pre, of now, case_names replay conflict fresh])
    case (replay app2)
    then show ?thesis using run' a(4,6) by (simp add: same_core_def c_def)
  next
    case (conflict app2)
    then show ?thesis using run' a(4,6) by (simp add: same_core_def c_def)
  next
    case (fresh r2 app1 response n app2)
    obtain r3 t hw where e: "execute_command m now ?a = (r3, ?a\<lparr>app_task := t, app_servo := hw\<rparr>)"
      "gripperController t \<noteq> gripperController (app_task ?a) \<or> hw \<noteq> app_servo ?a \<Longrightarrow>
        msg_safety_epoch m = safety_task_get_epoch ?a \<and>
        gripper_control_process_command (Some (gripperController (app_task ?a))) (app_servo ?a)
          (frame_command (msg_frame m)) (Some (frame_payload (msg_frame m))) (frame_length (msg_frame m)) now =
          (r3, Some (gripperController t), hw)"
      by (rule execute_effect [of m now ?a]) (rule that; blast)
    have app': "gripperController (app_task app') = gripperController t" "app_servo app' = hw" "r3 = r"
      using fresh(2,3,10,11) run' e(1) by auto
    have sequence: "\<not> (gripperSafetyPendingFlags (app_task app) = 0 \<and> same_sequence m (gripperCache (app_task app)))"
      using fresh(1) apply_pending_none by metis
    show ?thesis
    proof (cases "gripperController t = gripperController (app_task ?a) \<and> hw = app_servo ?a")
      case True
      then show ?thesis using app' a(4,6) by (simp add: c_def)
    next
      case False
      then have "msg_safety_epoch m = safety_task_get_epoch ?a \<and>
        gripper_control_process_command (Some (gripperController (app_task ?a))) (app_servo ?a)
          (frame_command (msg_frame m)) (Some (frame_payload (msg_frame m))) (frame_length (msg_frame m)) now =
          (r3, Some (gripperController t), hw)" using e(2) by blast
      then have "msg_safety_epoch m = safety_task_get_epoch app"
        "gripper_control_process_command (Some c) (app_servo app) (frame_command (msg_frame m))
           (Some (frame_payload (msg_frame m))) (frame_length (msg_frame m)) now =
           (r, Some (gripperController (app_task app')), app_servo app')"
        by (simp_all only: a(4,5,6) app' c_def)
      then show ?thesis using sequence True by blast
    qed
  qed
qed

text \<open>
  C18: A command delivered a second time, while its transaction is the cached one and no safety
  request intervened, gives the same result and the same response again and changes neither the
  controller nor the servos.
\<close>

theorem duplicate_command_not_reexecuted:
  assumes "is_request m" "length buffer = 128" "accepts_messages app"
    and first: "gripper_control_task_process_message buffer (Some m) now app = (r, app')"
    and new: "\<not> same_sequence m (gripperCache (app_task app))"
    and "length buffer2 = 128" "accepts_messages app2"
    and same: "gripperCache (app_task app2) = gripperCache (app_task app')"
      "gripperSafetyPendingFlags (app_task app2) = 0"
  shows "\<exists>response app3. outbox app' = outbox app + {#response#} \<and>
     gripper_control_task_process_message buffer2 (Some m) now2 app2 = (r, app3) \<and>
     outbox app3 = outbox app2 + {#response#} \<and>
     gripperController (app_task app3) = gripperController (app_task app2) \<and> app_servo app3 = app_servo app2"
proof -
  let ?a = "gripper_control_task_apply_pending_safety app"
  note a = accepts_after_pending [OF assms(3)]
  have pre: "msg_kind m = APP_CONTROL_MESSAGE_UART_COMMAND" "message_ok m" "length buffer = 128"
    "\<not> gripperPendingResponseValid (app_task ?a)" "buffers_ok (app_task ?a)"
    "cache_ok (gripperCache (app_task ?a))" "gripperSafetyPendingFlags (app_task ?a) = 0"
    using assms(1,2) a(1,2) by (simp_all add: is_request_def accepts_messages_def)
  note run' = first [unfolded process_message_pending [of buffer m now app]]
  have new': "\<not> same_sequence m (gripperCache (app_task ?a))"
    using new cache_kept_by_pending [of app] by (auto simp: same_sequence_def)
  let ?c = "gripperCache (app_task app')" and ?s = "frame_sequence (msg_frame m)"
  let ?response = "tx_message ?s True (cmd_code UART_CMD_RESPONSE)
      (take (unat (cache_response_length ?c)) (cache_response ?c))"
  have known: "same_sequence m ?c \<and> same_transaction m ?c \<and> cache_result ?c = r \<and>
      outbox app' = outbox app + {#?response#}"
  proof (cases rule: process_message_cases [OF pre, of now, case_names replay conflict fresh])
    case (replay app3)
    then show ?thesis using new' by simp
  next
    case (conflict app3)
    then show ?thesis using new' by simp
  next
    case (fresh r2 app1 response n app3)
    note entry = cache_entry [OF pre(6,2) fresh(4-8)]
    show ?thesis using fresh run' a(3) entry by simp
  qed
  have pre2: "msg_kind m = APP_CONTROL_MESSAGE_UART_COMMAND" "message_ok m" "length buffer2 = 128"
    "\<not> gripperPendingResponseValid (app_task app2)" "buffers_ok (app_task app2)"
    "cache_ok (gripperCache (app_task app2))" "gripperSafetyPendingFlags (app_task app2) = 0"
    using assms by (simp_all add: is_request_def accepts_messages_def)
  show ?thesis
  proof (cases rule: process_message_cases [OF pre2, of now2, case_names replay conflict fresh])
    case (replay app3)
    then show ?thesis using known same by (intro exI [of _ ?response] exI [of _ app3]) (auto simp: same_core_def)
  next
    case (conflict app3)
    then show ?thesis using known same by simp
  next
    case (fresh r2 app1 response n app3)
    then show ?thesis using known same by simp
  qed
qed


section \<open>A round of the loop\<close>

definition completion_bytes :: "gripper_control_completion_t \<Rightarrow> u8 list" where
  "completion_bytes k =
     (if completion_fault k
      then [gripper_event_code UART_GRIPPER_EVENT_FAULT, lo8 (completion_motion_id k), hi8 (completion_motion_id k),
            gripper_motion_code (completion_motion_type k), error_code (completion_error k)]
      else [gripper_event_code UART_GRIPPER_EVENT_MOTION_COMPLETE, lo8 (completion_motion_id k),
            hi8 (completion_motion_id k), gripper_motion_code (completion_motion_type k)])"

definition completion_messages :: "gripper_control_completion_t \<Rightarrow> comm_tx_message_t list" where
  "completion_messages k =
     (if completion_valid k then [tx_message 0 False (cmd_code UART_CMD_EVENT) (completion_bytes k)] else [])"

lemma completion_event_bytes:
  assumes "length buffer = 5" "completion_event buffer k = (payload, n)"
  shows "take (unat n) payload = completion_bytes k" "length payload = 5" "unat n \<le> 5"
proof -
  obtain a b c d e where b: "buffer = [a, b, c, d, e]"
    using assms(1) by (auto simp: length_Suc_conv eval_nat_numeral)
  have four: "unat (4 :: u8) = Suc (Suc (Suc (Suc 0)))" and five: "unat (5 :: u8) = Suc (Suc (Suc (Suc (Suc 0))))"
    by simp_all
  show "length payload = 5" "unat n \<le> 5"
    using assms by (auto simp: completion_event_def Let_def split: if_splits)
  show "take (unat n) payload = completion_bytes k"
    using assms(2) four five unfolding b completion_event_def completion_bytes_def
    by (auto simp: Let_def simp del: unat_numeral split: if_splits)
qed

lemma send_event_effect:
  assumes "unat n \<le> length p" "unat n \<le> 128"
  obtains r tx' where "tx_call (CommTx_Send (cmd_code UART_CMD_EVENT) (Some p) n) app = (r, app\<lparr>app_tx := tx'\<rparr>)"
    "tx_queue tx' = tx_queue (app_tx app) @
       (if r = 0 then [tx_message 0 False (cmd_code UART_CMD_EVENT) (take (unat n) p)] else [])"
proof -
  have send: "tx_call (CommTx_Send (cmd_code UART_CMD_EVENT) (Some p) n) app =
      tx_call (comm_tx_enqueue 0 False (cmd_code UART_CMD_EVENT) (Some p) n 0) app"
    by (simp add: tx_call_def CommTx_Send_def)
  have code: "UART_IS_VALID_COMMAND (cmd_code UART_CMD_EVENT)" by simp
  show thesis
    by (rule tx_call_enqueue [OF assms code, of 0 False 0 app]) (rule that; simp only: send)
qed

lemma emit_completion_effect:
  fixes app :: "'hw gripper_app"
  defines "c \<equiv> gripperController (app_task app)"
  assumes "length buffer = 5" "\<not> gripperPendingEventValid (app_task app)" "buffers_ok (app_task app)"
  obtains tx' task' where
    "gripper_control_task_emit_completion buffer app = app\<lparr>app_tx := tx', app_task := task'\<rparr>"
    "outbox (app\<lparr>app_tx := tx', app_task := task'\<rparr>) = outbox app + mset (completion_messages (ctl_completion c))"
    "same_core (app_task app) (task'\<lparr>gripperController := c\<rparr>)"
    "gripperController task' = (if completion_valid (ctl_completion c) then invalidate_completion c else c)"
    "gripperPendingResponseValid task' = gripperPendingResponseValid (app_task app)"
    "buffers_ok task'"
proof (cases "completion_valid (ctl_completion c)")
  case False
  have "app = app\<lparr>app_tx := app_tx app, app_task := (app_task app)\<lparr>gripperController := c\<rparr>\<rparr>"
    by (simp add: c_def)
  then show ?thesis
    using False assms
    by (intro that [of "app_task app" "app_tx app"])
      (simp_all add: gripper_control_task_emit_completion_def gripper_control_take_completion_def completion_messages_def c_def)
next
  case True
  let ?k = "ctl_completion c"
  obtain payload n where p: "completion_event buffer ?k = (payload, n)" by fastforce
  note bytes = completion_event_bytes [OF assms(2) p]
  define t1 where "t1 = (if completion_fault ?k
      then task_count st_servo_faults_update ((app_task app)\<lparr>gripperController := invalidate_completion c\<rparr>)
      else task_count st_motion_completions_update ((app_task app)\<lparr>gripperController := invalidate_completion c\<rparr>))"
  have n: "unat n \<le> length payload" "unat n \<le> 128" using bytes by simp_all
  obtain r tx' where call: "tx_call (CommTx_Send (cmd_code UART_CMD_EVENT) (Some payload) n) (app\<lparr>app_task := t1\<rparr>) =
      (r, app\<lparr>app_task := t1, app_tx := tx'\<rparr>)"
    "tx_queue tx' = tx_queue (app_tx app) @ (if r = 0 then [tx_message 0 False (cmd_code UART_CMD_EVENT) (take (unat n) payload)] else [])"
    using send_event_effect [OF n, of "app\<lparr>app_task := t1\<rparr>"] by auto
  let ?t2 = "if r = 0 then t1 else t1\<lparr>gripperPendingEvent := memcpy (gripperPendingEvent t1) 0 payload 0 (unat n),
      gripperPendingEventLength := n, gripperPendingEventValid := True\<rparr>"
  have eq: "gripper_control_task_emit_completion buffer app = app\<lparr>app_tx := tx', app_task := ?t2\<rparr>"
    using True p call(1)
    by (cases "completion_fault ?k"; cases "r = 0")
      (simp_all add: gripper_control_task_emit_completion_def gripper_control_take_completion_def Let_def c_def t1_def)
  have t1: "pending_messages t1 = pending_messages (app_task app)" "buffers_ok t1"
     "\<not> gripperPendingEventValid t1"
    using assms by (auto simp: pending_messages_def buffers_ok_def t1_def)
  have t2: "mset (pending_messages ?t2) = mset (pending_messages (app_task app)) +
      (if r = 0 then {#} else {#tx_message 0 False (cmd_code UART_CMD_EVENT) (completion_bytes ?k)#})"
    using assms bytes n by (auto simp: pending_messages_def buffers_ok_def t1_def)
  show ?thesis
  proof (rule that [OF eq])
    show "outbox (app\<lparr>app_tx := tx', app_task := ?t2\<rparr>) = outbox app + mset (completion_messages (ctl_completion c))"
      using True t2 call(2) bytes(1) by (simp add: outbox_def completion_messages_def)
    show "buffers_ok ?t2" using assms(4) n bytes by (auto simp: buffers_ok_def t1_def)
  qed (use True in \<open>auto simp: same_core_def c_def t1_def\<close>)
qed


lemma pending_core [simp]:
  "pending_messages (t\<lparr>gripperSnapshot := s\<rparr>) = pending_messages t"
  "pending_messages (t\<lparr>gripperController := c\<rparr>) = pending_messages t"
  by (simp_all add: pending_messages_def)

text \<open>The event that a round owes: that of the motion which the tick of this round finds completed.\<close>

definition due_completion :: "(nat \<Rightarrow> u32) \<Rightarrow> u32 \<Rightarrow> 'hw gripper_app \<Rightarrow> comm_tx_message_t list" where
  "due_completion clock last_update app =
     (if GRIPPER_CONTROL_UPDATE_PERIOD_MS \<le> clock 0 - last_update
      then completion_messages (ctl_completion (the (fst
             (gripper_control_tick (Some (gripperController (app_task app))) (app_servo app) (clock 1)))))
      else [])"

lemma control_task_update_effect:
  fixes app :: "'hw gripper_app"
  assumes "length buffer = 128" "\<not> gripperPendingEventValid (app_task app)" "buffers_ok (app_task app)"
  obtains last_update' task' tx' hw' es where
    "control_task_update clock buffer (last_update, app) =
       (last_update', app\<lparr>app_tx := tx', app_task := task', app_servo := hw'\<rparr>)"
    "outbox (app\<lparr>app_tx := tx', app_task := task', app_servo := hw'\<rparr>) = outbox app + mset es"
    "es = due_completion clock last_update app"
    "buffers_ok task'" "gripperCache task' = gripperCache (app_task app)"
    "gripperSafetyPendingFlags task' = gripperSafetyPendingFlags (app_task app)"
    "gripperPendingResponseValid task' = gripperPendingResponseValid (app_task app)"
proof (cases "GRIPPER_CONTROL_UPDATE_PERIOD_MS \<le> clock 0 - last_update")
  case False
  then have "control_task_update clock buffer (last_update, app) =
      (last_update, app\<lparr>app_tx := app_tx app, app_task := app_task app, app_servo := app_servo app\<rparr>)"
    by (simp add: control_task_update_def)
  then show ?thesis by (rule that [where es = "[]"]) (use False in \<open>simp_all add: assms due_completion_def\<close>)
next
  case True
  obtain c1 hw1 where tick: "gripper_control_tick (Some (gripperController (app_task app))) (app_servo app) (clock 1) = (c1, hw1)"
    by fastforce
  let ?app1 = "app\<lparr>app_task := (app_task app)\<lparr>gripperController := the c1\<rparr>, app_servo := hw1\<rparr>"
  have pre: "length (take 5 buffer) = 5" "\<not> gripperPendingEventValid (app_task ?app1)" "buffers_ok (app_task ?app1)"
    using assms by (simp_all add: buffers_ok_def)
  let ?es = "completion_messages (ctl_completion (gripperController (app_task ?app1)))"
  obtain tx2 t2 where e: "gripper_control_task_emit_completion (take 5 buffer) ?app1 = ?app1\<lparr>app_tx := tx2, app_task := t2\<rparr>"
    "outbox (?app1\<lparr>app_tx := tx2, app_task := t2\<rparr>) = outbox ?app1 + mset ?es"
    "same_core (app_task ?app1) (t2\<lparr>gripperController := gripperController (app_task ?app1)\<rparr>)"
    "gripperPendingResponseValid t2 = gripperPendingResponseValid (app_task ?app1)" "buffers_ok t2"
    by (rule emit_completion_effect [OF pre]) (rule that; assumption)
  let ?s = "the (gripper_control_get_snapshot (Some (gripperController t2)) (Some (gripperSnapshot t2)))"
  have eq: "control_task_update clock buffer (last_update, app) =
      (clock 2, app\<lparr>app_tx := tx2, app_task := t2\<lparr>gripperSnapshot := ?s\<rparr>, app_servo := hw1\<rparr>)"
    using True tick e(1) by (simp add: control_task_update_def gripper_control_task_publish_snapshot_def Let_def)
  have box: "outbox ?app1 = outbox app" by (simp add: outbox_def)
  show ?thesis
  proof (rule that [OF eq])
    show "outbox (app\<lparr>app_tx := tx2, app_task := t2\<lparr>gripperSnapshot := ?s\<rparr>, app_servo := hw1\<rparr>) = outbox app + mset ?es"
      using e(2) box by (simp add: outbox_def)
    show "?es = due_completion clock last_update app"
      using True tick by (simp add: due_completion_def)
    show "buffers_ok (t2\<lparr>gripperSnapshot := ?s\<rparr>)" using e(5) by (simp add: buffers_ok_def)
  qed (use e in \<open>auto simp: same_core_def\<close>)
qed

lemma queue_get_queued:
  assumes "osMessageQueueGet mq timeout = (status, x, mq')"
  shows "mq \<noteq> NULL \<and> status = osOK \<longleftrightarrow> (\<exists>m. x = Some m \<and> queued mq = m # queued mq')"
    "\<not> (mq \<noteq> NULL \<and> status = osOK) \<Longrightarrow> queued mq = []"
  using assms by (auto simp: osMessageQueueGet_def queued_def split: option.splits list.splits if_splits)


text \<open>
  The queue was empty, or the task took its oldest message, and \<open>responses\<close> answers it: once when
  it is a command from the host, not at all when it only wakes the task.
\<close>

definition consumes :: "'hw gripper_app \<Rightarrow> 'hw gripper_app \<Rightarrow> comm_tx_message_t list \<Rightarrow> bool" where
  "consumes app app' responses \<longleftrightarrow>
     queued (gripperControlQueueHandle app) = [] \<and> queued (gripperControlQueueHandle app') = [] \<and> responses = [] \<or>
     (\<exists>m. queued (gripperControlQueueHandle app) = m # queued (gripperControlQueueHandle app') \<and>
       (if msg_kind m = APP_CONTROL_MESSAGE_UART_COMMAND
        then \<exists>p. responses = [tx_message (frame_sequence (msg_frame m)) True (cmd_code UART_CMD_RESPONSE) p]
        else responses = []))"

lemma control_task_receive_effect:
  fixes app :: "'hw gripper_app" and now :: u32 and buffer :: "u8 list"
  assumes "length buffer = 128" "accepts_messages app" "list_all message_ok (queued (gripperControlQueueHandle app))"
  defines "app' \<equiv> control_task_receive now buffer app"
  obtains responses where "outbox app' = outbox app + mset responses" "consumes app app' responses"
    "buffers_ok (app_task app')" "cache_ok (gripperCache (app_task app'))"
proof -
  obtain status x mq where get: "osMessageQueueGet (gripperControlQueueHandle app) 5 = (status, x, mq)"
    by (metis prod_cases3)
  note q = queue_get_queued [OF get]
  show thesis
  proof (cases "gripperControlQueueHandle app \<noteq> NULL \<and> status = osOK")
    case False
    then have "app' = app" using get by (auto simp: app'_def control_task_receive_def)
    then show ?thesis
      using assms(2) q(2) [OF False] by (intro that [of "[]"]) (simp_all add: accepts_messages_def consumes_def)
  next
    case True
    then obtain m where m: "x = Some m" "queued (gripperControlQueueHandle app) = m # queued mq" using q by blast
    let ?app1 = "app\<lparr>gripperControlQueueHandle := mq\<rparr>"
    obtain r app2 where run: "gripper_control_task_process_message buffer (Some m) now ?app1 = (r, app2)" by fastforce
    have app': "app' = gripper_control_task_publish_snapshot app2"
      using True get m run by (simp add: app'_def control_task_receive_def)
    have ok: "message_ok m" "accepts_messages ?app1" using assms m by (simp_all add: accepts_messages_def)
    have box': "outbox app' = outbox app2" "gripperControlQueueHandle app' = gripperControlQueueHandle app2"
      "buffers_ok (app_task app') = buffers_ok (app_task app2)" "gripperCache (app_task app') = gripperCache (app_task app2)"
      by (simp_all add: app' publish_effect buffers_ok_def)
    note kept = process_message_keeps [OF assms(1) ok run]
    have queue: "queued (gripperControlQueueHandle app) = m # queued (gripperControlQueueHandle app')"
      using kept m(2) box'(2) by (simp add: same_rest_def)
    show ?thesis
    proof (cases "msg_kind m = APP_CONTROL_MESSAGE_UART_COMMAND")
      case True
      then have req: "is_request m" using ok by (simp add: is_request_def)
      obtain p where p: "outbox app2 = outbox ?app1 + {#tx_message (frame_sequence (msg_frame m)) True (cmd_code UART_CMD_RESPONSE) p#}"
        using message_response [OF req assms(1) ok(2) run] by blast
      show ?thesis
        by (rule that [of "[tx_message (frame_sequence (msg_frame m)) True (cmd_code UART_CMD_RESPONSE) p]"])
          (use p box' kept True queue in \<open>auto simp: consumes_def\<close>)
    next
      case False
      show ?thesis by (rule that [of "[]"]) (use box' kept False queue in \<open>auto simp: consumes_def\<close>)
    qed
  qed
qed

text \<open>
  C5: A round of the control task neither loses nor duplicates an answer. When nothing is kept
  for a retry after the retries at its start, what is queued for transmission or kept afterwards
  is what was there before, exactly the completion event of the motion if the round's tick ends
  one, and exactly one response for the command taken, which is the oldest one whenever the
  queue is not empty; while something is still kept for a retry no event is added, no command is
  taken, and the queue is unchanged.
\<close>

theorem control_task_round_loses_nothing:
  assumes ok: "task_ok app" "length buffer = 128"
    and round: "control_task_body clock buffer (last_update, app) = (last_update', app')"
    and service: "gripper_control_task_service_tx (gripper_control_task_apply_pending_safety app) = (free, serviced)"
  shows "task_ok app' \<and> (free \<longleftrightarrow> pending_messages (app_task serviced) = []) \<and>
    (if free
     then \<exists>responses. outbox app' = outbox app + mset (due_completion clock last_update serviced) + mset responses \<and>
            consumes app app' responses
     else outbox app' = outbox app \<and>
          queued (gripperControlQueueHandle app') = queued (gripperControlQueueHandle app))"
proof -
  let ?a = "gripper_control_task_apply_pending_safety app"
  obtain t1 where a: "?a = app\<lparr>app_task := t1\<rparr>" "outbox ?a = outbox app" "buffers_ok t1" "cache_ok (gripperCache t1)"
    using apply_pending_effect [of app] ok(1) unfolding task_ok_def by metis
  have buffers: "buffers_ok (app_task ?a)" using a by simp
  obtain tx2 t2 where s: "serviced = ?a\<lparr>app_tx := tx2, app_task := t2\<rparr>"
    "outbox (?a\<lparr>app_tx := tx2, app_task := t2\<rparr>) = outbox ?a" "same_core (app_task ?a) t2" "buffers_ok t2"
    "free \<longleftrightarrow> \<not> gripperPendingResponseValid t2 \<and> \<not> gripperPendingEventValid t2"
    using service_tx_effect [OF buffers] service by (metis prod.inject)
  let ?app2 = "app\<lparr>app_tx := tx2, app_task := t2\<rparr>"
  have s': "serviced = ?app2" "outbox ?app2 = outbox app" "cache_ok (gripperCache t2)"
    using s a by (simp_all add: same_core_def)
  have kept_iff: "free \<longleftrightarrow> pending_messages (app_task serviced) = []"
    using s(5) s'(1) by (simp add: pending_messages_def)
  show ?thesis
  proof (cases free)
    case False
    then have "app' = ?app2" using round service s'(1) by (simp add: control_task_body_def)
    then have "task_ok app'" "outbox app' = outbox app"
      "queued (gripperControlQueueHandle app') = queued (gripperControlQueueHandle app)"
      using s(4) s'(2,3) ok(1) unfolding task_ok_def by simp_all
    then show ?thesis using False kept_iff by simp
  next
    case True
    have pre: "\<not> gripperPendingEventValid (app_task ?app2)" "buffers_ok (app_task ?app2)" using True s by simp_all
    obtain l3 t3 tx3 hw3 events where u: "control_task_update clock buffer (last_update, ?app2) =
        (l3, ?app2\<lparr>app_tx := tx3, app_task := t3, app_servo := hw3\<rparr>)"
      "outbox (?app2\<lparr>app_tx := tx3, app_task := t3, app_servo := hw3\<rparr>) = outbox ?app2 + mset events"
      "events = due_completion clock last_update ?app2" "buffers_ok t3"
      "gripperCache t3 = gripperCache (app_task ?app2)"
      "gripperSafetyPendingFlags t3 = gripperSafetyPendingFlags (app_task ?app2)"
      "gripperPendingResponseValid t3 = gripperPendingResponseValid (app_task ?app2)"
      by (rule control_task_update_effect [OF ok(2) pre]) (rule that; assumption)
    let ?app3 = "app\<lparr>app_tx := tx3, app_task := t3, app_servo := hw3\<rparr>"
    have app': "app' = control_task_receive (clock 3) buffer ?app3"
      using round service s'(1) u(1) True by (simp add: control_task_body_def)
    have pre3: "accepts_messages ?app3" "list_all message_ok (queued (gripperControlQueueHandle ?app3))"
      using True s(5) u(4,5,7) s'(3) ok(1) by (simp_all add: accepts_messages_def task_ok_def)
    obtain responses where r: "outbox app' = outbox ?app3 + mset responses" "consumes ?app3 app' responses"
      "buffers_ok (app_task app')" "cache_ok (gripperCache (app_task app'))"
      unfolding app' by (rule control_task_receive_effect [OF ok(2) pre3])
    have box: "outbox app' = outbox app + mset (due_completion clock last_update serviced) + mset responses"
      using u(2,3) s'(1,2) r(1) by simp
    have used: "consumes app app' responses" using r(2) by (simp add: consumes_def)
    then have "list_all message_ok (queued (gripperControlQueueHandle app'))"
      using ok(1) by (auto simp: consumes_def task_ok_def)
    then have "task_ok app'" using r(3,4) by (simp add: task_ok_def)
    then show ?thesis using True box used kept_iff by auto
  qed
qed


text \<open>
  Processing a message changes the controller (beyond the pending stop and release) or the
  servos only if it is a command of the current safety epoch whose sequence number is not the
  cached one, and then exactly as the controller's process_command does: stale, duplicate and
  conflicting commands never reach the controller.
\<close>

theorem control_task_executes_only_fresh:
  assumes "message_ok m" "length buffer = 128" "accepts_messages app"
    and "gripper_control_task_process_message buffer (Some m) now app = (r, app')"
  defines "c \<equiv> after_flags (gripperSafetyPendingFlags (app_task app)) (gripperController (app_task app))"
  shows "gripperController (app_task app') = c \<and> app_servo app' = app_servo app \<or>
     msg_kind m = APP_CONTROL_MESSAGE_UART_COMMAND \<and>
     msg_safety_epoch m = safety_task_get_epoch app \<and>
     \<not> (gripperSafetyPendingFlags (app_task app) = 0 \<and> same_sequence m (gripperCache (app_task app))) \<and>
     gripper_control_process_command (Some c) (app_servo app) (frame_command (msg_frame m))
       (Some (frame_payload (msg_frame m))) (frame_length (msg_frame m)) now =
       (r, Some (gripperController (app_task app')), app_servo app')"
  unfolding c_def by (rule message_executes [OF assms(1-4)])

text \<open>
  Processing a command adds exactly one response, with the command's sequence number, to
  what is queued or kept for transmission; it carries the command and the status and error of
  the result, or NACK and SEQUENCE for a reused sequence number.
\<close>

theorem control_task_answers_every_command:
  assumes "is_request m" "length buffer = 128" "accepts_messages app"
    and "gripper_control_task_process_message buffer (Some m) now app = (r, app')"
  shows "\<exists>p. outbox app' = outbox app + {#tx_message (frame_sequence (msg_frame m)) True (cmd_code UART_CMD_RESPONSE) p#} \<and>
     length p \<in> {3, 14} \<and> p ! 1 = frame_command (msg_frame m) \<and>
     ((p ! 0, p ! 2) = (gripper_control_task_result_status (frame_command (msg_frame m)) r,
                        gripper_control_task_result_error r) \<or>
      (p ! 0, p ! 2) = (status_code UART_STATUS_NACK, error_code UART_ERROR_SEQUENCE))"
  by (rule message_response [OF assms])

section \<open>Concrete instances\<close>

text \<open>A freshly started application that received one HOME request.\<close>

definition demo_request :: control_command_t where
  "demo_request = zero_control_command\<lparr>msg_frame := zero_frame\<lparr>frame_version := 1, frame_sequence := 9,
     frame_command := 0x22, frame_length := 2, frame_payload := [1, 0] @ replicate 126 0\<rparr>\<rparr>"

definition zero_snapshot :: gripper_control_snapshot_t where
  "zero_snapshot = \<lparr>snap_state = UART_GRIPPER_STATE_IDLE, snap_active_motion_id = 0, snap_base_angle = 0,
     snap_shoulder_angle = 0, snap_elbow_angle = 0, snap_gripper_position = 0, snap_homed = False,
     snap_safety_latched = False\<rparr>"

definition demo_task :: "servo_hw ptr gripper_task" where
  "demo_task = \<lparr>gripperController = demo_start, gripperSnapshot = zero_snapshot,
     gripperTaskStats = zero_task_stats, gripperCache = zero_cache, gripperSafetyPendingFlags = 0,
     gripperPendingResponseValid = False, gripperPendingSequence = 0, gripperPendingLength = 0,
     gripperPendingResponse = replicate 128 0, gripperPendingEventValid = False,
     gripperPendingEventLength = 0, gripperPendingEvent = replicate 128 0\<rparr>"

definition demo_safety :: safety_task where
  "demo_safety = \<lparr>safetyEpoch = 0, safetyLatched = False, safetyPendingRequest = SAFETY_REQUEST_NONE,
     safetyStats = \<lparr>sf_emergency_stops = 0, sf_releases = 0, sf_queue_drops = 0, sf_notifications_failed = 0\<rparr>,
     safetyReleasePending = False, safetyReleaseCause = 0, safetyEventPending = False,
     safetyEventLatched = False, safetyEventCause = 0\<rparr>"

definition demo_app :: "servo_hw ptr gripper_app" where
  "demo_app = \<lparr>app_tx = demo_tx, app_task = demo_task, app_safety = demo_safety,
     app_rx_stats = \<lparr>rx_received_frames = 0, rx_gripper_commands = 0, rx_safety_commands = 0,
       rx_parser_errors = 0, rx_invalid_payloads = 0, rx_unsupported_commands = 0, rx_queue_drops = 0,
       rx_uart_restarts = 0\<rparr>,
     gripperControlQueueHandle = Some \<lparr>queue_capacity = 12, queue_items = [demo_request]\<rparr>,
     safetyCommandQueueHandle = Some \<lparr>queue_capacity = 8, queue_items = []\<rparr>,
     app_servo = demo_servos\<rparr>"

lemma demo_message: "is_request demo_request" "message_ok demo_request"
  by (simp_all add: is_request_def message_ok_def demo_request_def zero_control_command_def zero_frame_def)

lemma demo_accepts: "accepts_messages demo_app"
  by (simp add: accepts_messages_def demo_app_def demo_task_def buffers_ok_def cache_ok_def zero_cache_def)

lemma demo_app_ok: "task_ok demo_app"
  using demo_accepts demo_message by (simp add: task_ok_def accepts_messages_def queued_def demo_app_def)

definition demo_processed :: "gripper_control_result_t \<times> servo_hw ptr gripper_app" where
  "demo_processed = gripper_control_task_process_message (replicate 128 0) (Some demo_request) 5 demo_app"

theorem control_task_answers_every_command_witness:
  "\<exists>p. outbox (snd demo_processed) = outbox demo_app + {#tx_message 9 True (cmd_code UART_CMD_RESPONSE) p#} \<and> p ! 1 = 0x22"
  using control_task_answers_every_command [OF demo_message(1) _ demo_accepts, of "replicate 128 0" 5 "fst demo_processed" "snd demo_processed"]
  by (auto simp: demo_processed_def demo_request_def)

theorem control_task_executes_only_fresh_witness:
  "(gripperController (app_task (snd demo_processed)) = after_flags 0 demo_start \<and> app_servo (snd demo_processed) = demo_servos) \<or>
   gripper_control_process_command (Some (after_flags 0 demo_start)) demo_servos 0x22 (Some ([1, 0] @ replicate 126 0)) 2 5 =
     (fst demo_processed, Some (gripperController (app_task (snd demo_processed))), app_servo (snd demo_processed))"
  using control_task_executes_only_fresh [OF demo_message(2) _ demo_accepts, of "replicate 128 0" 5 "fst demo_processed" "snd demo_processed"]
  by (auto simp: demo_processed_def demo_request_def demo_app_def demo_task_def)

definition demo_later :: "servo_hw ptr gripper_app" where
  "demo_later = demo_app\<lparr>app_task := demo_task\<lparr>gripperCache := gripperCache (app_task (snd demo_processed))\<rparr>\<rparr>"

theorem duplicate_command_not_reexecuted_witness:
  "fst (gripper_control_task_process_message (replicate 128 7) (Some demo_request) 700 demo_later) = fst demo_processed \<and>
   app_servo (snd (gripper_control_task_process_message (replicate 128 7) (Some demo_request) 700 demo_later)) = app_servo demo_later"
proof -
  have run: "gripper_control_task_process_message (replicate 128 0) (Some demo_request) 5 demo_app =
      (fst demo_processed, snd demo_processed)" by (simp add: demo_processed_def)
  have len: "length (replicate 128 (0 :: u8)) = 128" "length (replicate 128 (7 :: u8)) = 128" by simp_all
  have new: "\<not> same_sequence demo_request (gripperCache (app_task demo_app))"
    by (simp add: same_sequence_def demo_app_def demo_task_def zero_cache_def)
  have later: "accepts_messages demo_later"
    "gripperCache (app_task demo_later) = gripperCache (app_task (snd demo_processed))"
    "gripperSafetyPendingFlags (app_task demo_later) = 0"
    using process_message_keeps [OF len(1) demo_message(2) demo_accepts run]
    by (simp_all add: accepts_messages_def demo_later_def demo_task_def buffers_ok_def)
  show ?thesis
    using duplicate_command_not_reexecuted [OF demo_message(1) len(1) demo_accepts run new len(2) later, where ?now2.0 = 700] by auto
qed

theorem control_task_round_loses_nothing_witness:
  "let round = control_task_body (\<lambda>i. of_nat i) (replicate 128 0) (0, demo_app);
       serviced = gripper_control_task_service_tx (gripper_control_task_apply_pending_safety demo_app)
   in task_ok (snd round) \<and> (fst serviced \<longrightarrow> queued (gripperControlQueueHandle (snd round)) = [])"
  using control_task_round_loses_nothing [OF demo_app_ok, of "replicate 128 0" "\<lambda>i. of_nat i" 0
      "fst (control_task_body (\<lambda>i. of_nat i) (replicate 128 0) (0, demo_app))"
      "snd (control_task_body (\<lambda>i. of_nat i) (replicate 128 0) (0, demo_app))"
      "fst (gripper_control_task_service_tx (gripper_control_task_apply_pending_safety demo_app))"
      "snd (gripper_control_task_service_tx (gripper_control_task_apply_pending_safety demo_app))"]
  by (auto simp: Let_def consumes_def queued_def demo_app_def)

end
