(* ===== verification/Gripper_Latch.thy ===== *)
theory Gripper_Latch
  imports Gripper_Rx Gripper_Transactions
begin

text \<open>
  The emergency stop of the gripper as the host sees it is spread over two tasks: the latch and
  the release handshake of \<open>safety_task.c\<close>, the two pending flags and the controller's own latch
  in \<open>gripper_control_task.c\<close>. This theory abstracts both to five booleans, shows that every
  operation of the firmware acts on them as a step of a small latch machine, and derives what
  an emergency stop guarantees.
\<close>

section \<open>The latch machine\<close>

record latch =
  latched :: bool
  releasing :: bool
  stop_requested :: bool
  release_requested :: bool
  controller_latched :: bool

definition latch_of :: "'hw gripper_app \<Rightarrow> latch" where
  "latch_of app =
     \<lparr>latched = safetyLatched (app_safety app), releasing = safetyReleasePending (app_safety app),
      stop_requested = (gripperSafetyPendingFlags (app_task app) AND GRIPPER_TASK_SAFETY_STOP_PENDING \<noteq> 0),
      release_requested = (gripperSafetyPendingFlags (app_task app) AND GRIPPER_TASK_SAFETY_RELEASE_PENDING \<noteq> 0),
      controller_latched = safety_latched (gripperController (app_task app))\<rparr>"

inductive latch_step :: "latch \<Rightarrow> latch \<Rightarrow> bool" where
  latch_stop: "\<not> latched l \<or> releasing l \<Longrightarrow>
     latch_step l (l\<lparr>latched := True, releasing := False, stop_requested := True, release_requested := False\<rparr>)"
| latch_release: "latched l \<Longrightarrow> \<not> releasing l \<Longrightarrow>
     latch_step l (l\<lparr>releasing := True, release_requested := True\<rparr>)"
| latch_apply: "latch_step l (l\<lparr>stop_requested := False, release_requested := False,
     controller_latched := (\<not> release_requested l \<and> (stop_requested l \<or> controller_latched l))\<rparr>)"
| latch_released: "releasing l \<Longrightarrow> latch_step l (l\<lparr>latched := False, releasing := False\<rparr>)"

inductive_cases latch_stepE: "latch_step l l'"

text \<open>
  While a stop holds and no release has been asked for, it has reached the controller or is on
  its way there and nothing undoes it; the controller is not stopped behind the latch's back;
  a release under way is on its way to the controller or has arrived.
\<close>

definition latch_ok :: "latch \<Rightarrow> bool" where
  "latch_ok l \<longleftrightarrow>
     (latched l \<and> \<not> releasing l \<longrightarrow> \<not> release_requested l \<and> (stop_requested l \<or> controller_latched l)) \<and>
     (stop_requested l \<or> controller_latched l \<longrightarrow> latched l \<or> release_requested l) \<and>
     (releasing l \<longrightarrow> latched l \<and> (release_requested l \<or> \<not> stop_requested l \<and> \<not> controller_latched l))"

lemma latch_step_ok: "latch_step l l' \<Longrightarrow> latch_ok l \<Longrightarrow> latch_ok l'"
  by (induction rule: latch_step.induct) (auto simp: latch_ok_def)

lemma latch_steps_ok: "latch_step\<^sup>*\<^sup>* l l' \<Longrightarrow> latch_ok l \<Longrightarrow> latch_ok l'"
  by (induction rule: rtranclp_induct) (auto intro: latch_step_ok)

section \<open>The controller's part\<close>

lemma flag_bits [simp]:
  fixes f :: u32
  shows "((f AND NOT 2) OR 1) AND 1 \<noteq> 0" "((f AND NOT 2) OR 1) AND 2 = 0" "(f OR 2) AND 2 \<noteq> 0"
    "(f OR 2) AND 1 = f AND 1"
proof -
  have *: "((f AND NOT 2) OR 1) AND 1 = 1" "((f AND NOT 2) OR 1) AND 2 = 0" "(f OR 2) AND 2 = 2"
    "(f OR 2) AND 1 = f AND 1"
    by (rule bit_word_eqI; auto simp: bit_simps)+
  then show "((f AND NOT 2) OR 1) AND 1 \<noteq> 0" "((f AND NOT 2) OR 1) AND 2 = 0" "(f OR 2) AND 2 \<noteq> 0"
    "(f OR 2) AND 1 = f AND 1" by simp_all
qed

lemma flag_bits_numeral [simp]: "((f AND - 3) OR 1) AND (2 :: u32) = 0"
  using flag_bits(2) [of f] by simp

lemma enable_latched:
  "gripper_control_enable_outputs c hw = (status, c', hw') \<Longrightarrow> safety_latched c' = safety_latched c"
  by (auto simp: gripper_control_enable_outputs_def split: prod.splits if_splits)

lemma start_latched:
  "gripper_control_start_arm_motion c hw i t b s e d now = (r, c', hw') \<Longrightarrow> safety_latched c' = safety_latched c"
  by (auto simp: gripper_control_start_arm_motion_def Let_def split: prod.splits if_splits dest: enable_latched)

lemma set_latched:
  "command_set_gripper c hw payload now = (r, c', hw') \<Longrightarrow> safety_latched c' = safety_latched c"
  by (auto simp: command_set_gripper_def Let_def split: prod.splits if_splits dest: enable_latched)

lemma process_latched:
  "gripper_control_process_command (Some c) hw command payload n now = (r, Some c', hw') \<Longrightarrow>
     safety_latched c' = safety_latched c"
  by (auto simp: gripper_control_process_command_def Let_def split: if_splits prod.splits
      dest!: start_latched set_latched)

lemma write_latched:
  "safety_latched (case fst (tick_write_gripper c hw e) of Inl m \<Rightarrow> m | Inr m \<Rightarrow> m) = safety_latched c"
  "safety_latched (case fst (tick_write_arm c hw e) of Inl m \<Rightarrow> m | Inr m \<Rightarrow> m) = safety_latched c"
  by (simp_all add: tick_write_arm_def tick_write_gripper_def Let_def split_def)

lemma tick_latched:
  "gripper_control_tick (Some c) hw now = (Some c', hw') \<Longrightarrow> safety_latched c' = safety_latched c"
  using write_latched [of c hw "tick_elapsed c now"]
  by (cases "fst (tick_write_gripper c hw (tick_elapsed c now))"; cases "fst (tick_write_arm c hw (tick_elapsed c now))")
    (auto simp: gripper_control_tick_def tick_complete_def Let_def split_def split: if_splits)


section \<open>Every operation is a latch step\<close>

lemma latch_same [simp]:
  "latch_of (app\<lparr>app_tx := tx\<rparr>) = latch_of app"
  "latch_of (app\<lparr>app_servo := hw\<rparr>) = latch_of app"
  "latch_of (app\<lparr>app_rx_stats := rs\<rparr>) = latch_of app"
  "latch_of (app_rx_stats_update g app) = latch_of app"
  "latch_of (app\<lparr>gripperControlQueueHandle := q\<rparr>) = latch_of app"
  "latch_of (app\<lparr>safetyCommandQueueHandle := q\<rparr>) = latch_of app"
  "latch_of (snd (tx_call f app)) = latch_of app"
  "latch_of (gripper_control_task_publish_snapshot app) = latch_of app"
  by (simp_all add: latch_of_def tx_call_def publish_effect split: prod.split)

lemma latch_task [simp]:
  "latch_of (app\<lparr>app_task := gripperTaskStats_update g (app_task app)\<rparr>) = latch_of app"
  "latch_of (app\<lparr>app_task := (app_task app)\<lparr>gripperCache := k\<rparr>\<rparr>) = latch_of app"
  by (simp_all add: latch_of_def)

lemma latch_core: "same_core (app_task app) t \<Longrightarrow> latch_of (app\<lparr>app_tx := tx, app_task := t\<rparr>) = latch_of app"
  by (simp add: latch_of_def same_core_def)

lemma latch_rx [simp]:
  "latch_of (comm_rx_send_response s c st e app) = latch_of app"
  "latch_of (snd (comm_rx_enqueue q f k app)) = latch_of app"
  "latch_of (queue_gripper_command f app) = latch_of app"
  "latch_of (refuse_payload f app) = latch_of app"
  "latch_of (comm_rx_process_frame fp app) = latch_of app"
proof -
  show send: "latch_of (comm_rx_send_response s c st e app) = latch_of app" for s c st e and app :: "'a gripper_app"
    using latch_same(7) [of "CommTx_SendWithSequence s (cmd_code UART_CMD_RESPONSE) (Some [st, c, e]) UART_RESPONSE_HEADER_SIZE" app]
    by (auto simp: comm_rx_send_response_def Let_def split_def simp del: latch_same(7))
  show enqueue: "latch_of (snd (comm_rx_enqueue q f k app)) = latch_of app" for q f k and app :: "'a gripper_app"
    by (cases q) (simp_all add: comm_rx_enqueue_def Let_def send split: prod.split)
  show queue: "latch_of (queue_gripper_command f app) = latch_of app" for f and app :: "'a gripper_app"
    using enqueue [of GRIPPER_CONTROL_QUEUE f APP_CONTROL_MESSAGE_UART_COMMAND app]
    by (auto simp: queue_gripper_command_def split_def)
  show refuse: "latch_of (refuse_payload f app) = latch_of app" for f and app :: "'a gripper_app"
    by (simp add: refuse_payload_def send)
  show "latch_of (comm_rx_process_frame fp app) = latch_of app"
    by (cases fp) (simp_all add: comm_rx_process_frame_def Let_def send queue refuse enqueue split_def)
qed

lemma latch_health [simp]: "latch_of (health_task_body app) = latch_of app"
  by (simp add: health_task_body_def Let_def)

lemma latch_button [simp]: "latch_of (HAL_GPIO_EXTI_Callback b p app) = latch_of app"
  by (simp add: HAL_GPIO_EXTI_Callback_def safety_task_request_local_estop_def Let_def split: prod.split)
    (simp add: latch_of_def)


text \<open>The safety task.\<close>

lemma latch_event [simp]:
  "latch_of (safety_task_service_event app) = latch_of app"
  "latch_of (safety_task_emit_state b cause app) = latch_of app"
proof -
  have safety: "latch_of (app\<lparr>app_tx := tx, app_safety := s\<rparr>) = latch_of app"
    if "safetyLatched s = safetyLatched (app_safety app)"
      "safetyReleasePending s = safetyReleasePending (app_safety app)"
    for s tx and app :: "'a gripper_app"
    using that by (simp add: latch_of_def)
  show service: "latch_of (safety_task_service_event app) = latch_of app" for app :: "'a gripper_app"
    by (auto simp: safety_task_service_event_def Let_def tx_call_def split_def safety)
  show "latch_of (safety_task_emit_state b cause app) = latch_of app"
    by (simp add: safety_task_emit_state_def service safety)
qed

lemma latch_enqueue_safety [simp]:
  "latch_of (snd (gripper_control_task_enqueue_safety k c app)) = latch_of app"
  by (simp add: gripper_control_task_enqueue_safety_def Let_def split: prod.split)

lemma latch_count [simp]:
  "latch_of (app\<lparr>app_safety := safetyStats_update g (app_safety app)\<rparr>) = latch_of app"
  by (simp add: latch_of_def)

lemma latch_notify:
  "latch_of (snd (gripper_control_task_notify_safety_stop app)) =
     (latch_of app)\<lparr>stop_requested := True, release_requested := False\<rparr>"
  "latch_of (snd (gripper_control_task_notify_safety_release app)) =
     (latch_of app)\<lparr>release_requested := True\<rparr>"
  by (simp_all add: gripper_control_task_notify_safety_stop_def gripper_control_task_notify_safety_release_def Let_def)
    (simp_all add: latch_of_def)

lemma latch_estop:
  "latch_of (safety_task_enter_estop cause app) =
     (if latched (latch_of app) \<and> \<not> releasing (latch_of app) then latch_of app
      else (latch_of app)\<lparr>latched := True, releasing := False, stop_requested := True, release_requested := False\<rparr>)"
proof -
  have "latch_of (app\<lparr>app_safety := (app_safety app)\<lparr>safetyLatched := True\<rparr>\<rparr>) = (latch_of app)\<lparr>latched := True\<rparr>"
    by (simp add: latch_of_def)
  moreover have "latch_of (app\<lparr>app_safety := safety_count sf_emergency_stops_update ((app_safety app)\<lparr>
      safetyLatched := True, safetyReleasePending := False, safetyEpoch := e\<rparr>)\<rparr>) =
      (latch_of app)\<lparr>latched := True, releasing := False\<rparr>" for e
    by (simp add: latch_of_def)
  moreover have "latched (latch_of app) = safetyLatched (app_safety app)"
    "releasing (latch_of app) = safetyReleasePending (app_safety app)"
    by (simp_all add: latch_of_def)
  ultimately show ?thesis
    by (auto simp: safety_task_enter_estop_def Let_def split_def latch_notify)
qed

lemma latch_release_op:
  "latch_of (safety_task_release cause app) =
     (if releasing (latch_of app) \<or> \<not> latched (latch_of app) then latch_of app
      else (latch_of app)\<lparr>releasing := True, release_requested := True\<rparr>)"
proof -
  have "latch_of (app\<lparr>app_safety := (app_safety app)\<lparr>safetyEpoch := e, safetyReleasePending := True,
      safetyReleaseCause := k\<rparr>\<rparr>) = (latch_of app)\<lparr>releasing := True\<rparr>" for e k
    by (simp add: latch_of_def)
  moreover have "latched (latch_of app) = safetyLatched (app_safety app)"
    "releasing (latch_of app) = safetyReleasePending (app_safety app)"
    by (simp_all add: latch_of_def)
  ultimately show ?thesis
    by (auto simp: safety_task_release_def Let_def split_def latch_notify)
qed

lemma latch_service_release:
  "latch_of (safety_task_service_release app) = latch_of app \<or>
   releasing (latch_of app) \<and>
   latch_of (safety_task_service_release app) = (latch_of app)\<lparr>latched := False, releasing := False\<rparr>"
proof -
  have "latch_of (app\<lparr>app_safety := safety_count sf_releases_update ((app_safety app)\<lparr>
      safetyReleasePending := False, safetyLatched := False\<rparr>)\<rparr>) =
      (latch_of app)\<lparr>latched := False, releasing := False\<rparr>"
    by (simp add: latch_of_def)
  moreover have "releasing (latch_of app) = safetyReleasePending (app_safety app)"
    by (simp add: latch_of_def)
  ultimately show ?thesis
    by (auto simp: safety_task_service_release_def Let_def)
qed

lemma latch_steps_estop: "latch_step\<^sup>*\<^sup>* (latch_of app) (latch_of (safety_task_enter_estop cause app))"
  by (auto simp: latch_estop intro!: r_into_rtranclp latch_stop)

lemma latch_steps_release: "latch_step\<^sup>*\<^sup>* (latch_of app) (latch_of (safety_task_release cause app))"
  by (auto simp: latch_release_op intro!: r_into_rtranclp latch_release)

lemma latch_steps_service_release:
  "latch_step\<^sup>*\<^sup>* (latch_of app) (latch_of (safety_task_service_release app))"
  using latch_service_release [of app] by (metis r_into_rtranclp rtranclp.rtrancl_refl latch_released)

lemma latch_steps_receive: "latch_step\<^sup>*\<^sup>* (latch_of app) (latch_of (safety_task_receive app))"
proof -
  have "latch_step\<^sup>*\<^sup>* (latch_of app) (latch_of (SafetyTask_HandleSafetyCommand m app))" for m and app :: "'a gripper_app"
    by (cases m) (simp_all add: SafetyTask_HandleSafetyCommand_def latch_steps_estop latch_steps_release)
  from this [where app = "app\<lparr>safetyCommandQueueHandle := q\<rparr>" for q] show ?thesis
    by (simp add: safety_task_receive_def split_def Let_def)
qed

lemma latch_steps_service: "latch_step\<^sup>*\<^sup>* (latch_of app) (latch_of (SafetyTask_ServicePending app))"
proof -
  let ?a = "app\<lparr>app_safety := (app_safety app)\<lparr>safetyPendingRequest := SAFETY_REQUEST_NONE\<rparr>\<rparr>"
  have a: "latch_of ?a = latch_of app" by (simp add: latch_of_def)
  let ?b = "case safetyPendingRequest (app_safety app) of
      SAFETY_REQUEST_STOP \<Rightarrow> safety_task_enter_estop (cmd_code UART_CMD_EMERGENCY_STOP) ?a
    | SAFETY_REQUEST_RELEASE \<Rightarrow> safety_task_release (cmd_code UART_CMD_RESET_DEVICE) ?a
    | SAFETY_REQUEST_NONE \<Rightarrow> ?a"
  have "latch_step\<^sup>*\<^sup>* (latch_of app) (latch_of ?b)"
    using latch_steps_estop [of ?a] latch_steps_release [of ?a] by (simp add: a split: safety_request_t.split)
  from rtranclp_trans [OF this latch_steps_service_release] show ?thesis
    by (simp add: SafetyTask_ServicePending_def Let_def)
qed

text \<open>The control task.\<close>

lemma latch_pending:
  "latch_of (gripper_control_task_apply_pending_safety app) =
     (latch_of app)\<lparr>stop_requested := False, release_requested := False,
       controller_latched := (\<not> release_requested (latch_of app) \<and>
         (stop_requested (latch_of app) \<or> controller_latched (latch_of app)))\<rparr>"
  by (simp add: gripper_control_task_apply_pending_safety_def Let_def)
    (simp add: latch_of_def gripper_control_apply_safety_stop_def gripper_control_release_safety_def)

lemma latch_service_tx:
  "buffers_ok (app_task app) \<Longrightarrow> latch_of (snd (gripper_control_task_service_tx app)) = latch_of app"
  by (rule service_tx_effect [of app]) (simp_all add: latch_core)


lemma tick_Some: "\<exists>c'. fst (gripper_control_tick (Some c) hw now) = Some c'"
  by (auto simp: gripper_control_tick_def Let_def split: prod.split sum.split)

lemma latch_update:
  assumes "length buffer = 128" "\<not> gripperPendingEventValid (app_task app)" "buffers_ok (app_task app)"
  shows "latch_of (snd (control_task_update clock buffer (last_update, app))) = latch_of app"
proof -
  obtain c1 hw1 where tick: "gripper_control_tick (Some (gripperController (app_task app))) (app_servo app) (clock 1) = (Some c1, hw1)"
    using tick_Some by (metis prod.collapse)
  let ?app1 = "app\<lparr>app_task := (app_task app)\<lparr>gripperController := c1\<rparr>, app_servo := hw1\<rparr>"
  have app1: "latch_of ?app1 = latch_of app" using tick_latched [OF tick] by (simp add: latch_of_def)
  have pre: "length (take 5 buffer) = 5" "\<not> gripperPendingEventValid (app_task ?app1)" "buffers_ok (app_task ?app1)"
    using assms by (simp_all add: buffers_ok_def)
  have "latch_of (gripper_control_task_emit_completion (take 5 buffer) ?app1) = latch_of ?app1"
    by (rule emit_completion_effect [OF pre]) (auto simp: latch_of_def same_core_def)
  then show ?thesis using tick app1 by (simp add: control_task_update_def Let_def)
qed

lemma latch_execute: "latch_of (snd (execute_command m now app)) = latch_of app"
proof -
  obtain r task' hw' where e: "execute_command m now app = (r, app\<lparr>app_task := task', app_servo := hw'\<rparr>)"
    "same_core (app_task app) (task'\<lparr>gripperController := gripperController (app_task app)\<rparr>)"
    "(gripperController task', hw') = (gripperController (app_task app), app_servo app) \<or>
       (\<exists>r'. gripper_control_process_command (Some (gripperController (app_task app))) (app_servo app)
         (frame_command (msg_frame m)) (Some (frame_payload (msg_frame m))) (frame_length (msg_frame m)) now =
         (r', Some (gripperController task'), hw'))"
    by (rule execute_effect [of m now app]) (rule that; assumption)
  then show ?thesis by (auto simp: latch_of_def same_core_def dest: process_latched)
qed

lemma latch_message:
  assumes "length buffer = 128" "message_ok m" "accepts_messages app"
  shows "latch_of (snd (gripper_control_task_process_message buffer (Some m) now app)) =
     latch_of (gripper_control_task_apply_pending_safety app)"
proof (cases "msg_kind m = APP_CONTROL_MESSAGE_UART_COMMAND")
  case False
  then show ?thesis by (simp add: gripper_control_task_process_message_def Let_def)
next
  case True
  let ?a = "gripper_control_task_apply_pending_safety app"
  note a = accepts_after_pending [OF assms(3)]
  have pre: "msg_kind m = APP_CONTROL_MESSAGE_UART_COMMAND" "message_ok m" "length buffer = 128"
    "\<not> gripperPendingResponseValid (app_task ?a)" "buffers_ok (app_task ?a)"
    "cache_ok (gripperCache (app_task ?a))" "gripperSafetyPendingFlags (app_task ?a) = 0"
    using True assms(1,2) a(1,2) by (simp_all add: accepts_messages_def)
  have rest: "app_safety (snd (gripper_control_task_process_message buffer (Some m) now ?a)) = app_safety ?a"
    using process_message_rest [of ?a buffer "Some m" now ?a] by (simp add: same_rest_def)
  show ?thesis
    unfolding process_message_pending [of buffer m now app]
  proof (cases rule: process_message_cases [OF pre, of now, case_names replay conflict fresh])
    case (replay app2)
    then show "latch_of (snd (gripper_control_task_process_message buffer (Some m) now ?a)) = latch_of ?a"
      using rest by (simp add: latch_of_def same_core_def)
  next
    case (conflict app2)
    then show "latch_of (snd (gripper_control_task_process_message buffer (Some m) now ?a)) = latch_of ?a"
      using rest by (simp add: latch_of_def same_core_def)
  next
    case (fresh r app1 response n app2)
    then show "latch_of (snd (gripper_control_task_process_message buffer (Some m) now ?a)) = latch_of ?a"
      using rest latch_execute [of m now ?a] pre(7) by (simp add: latch_of_def)
  qed
qed

lemma latch_receive:
  assumes "length buffer = 128" "accepts_messages app" "list_all message_ok (queued (gripperControlQueueHandle app))"
  shows "latch_of (control_task_receive now buffer app) \<in>
     {latch_of app, latch_of (gripper_control_task_apply_pending_safety app)}"
proof -
  obtain status x mq where get: "osMessageQueueGet (gripperControlQueueHandle app) 5 = (status, x, mq)"
    by (metis prod_cases3)
  show ?thesis
  proof (cases "gripperControlQueueHandle app \<noteq> NULL \<and> status = osOK")
    case False
    then show ?thesis using get by (auto simp: control_task_receive_def)
  next
    case True
    then obtain m where m: "x = Some m" "queued (gripperControlQueueHandle app) = m # queued mq"
      using queue_get_queued [OF get] by blast
    let ?app1 = "app\<lparr>gripperControlQueueHandle := mq\<rparr>"
    have "message_ok m" "accepts_messages ?app1" using assms m by (simp_all add: accepts_messages_def)
    then have "latch_of (snd (gripper_control_task_process_message buffer (Some m) now ?app1)) =
        latch_of (gripper_control_task_apply_pending_safety ?app1)"
      using latch_message [OF assms(1)] by blast
    then show ?thesis using True get m by (simp add: control_task_receive_def latch_pending)
  qed
qed

end
