(* ===== verification/Gripper_Firmware.thy ===== *)
theory Gripper_Firmware
  imports Gripper_Latch
begin

text \<open>
  The gripper firmware as a whole: its tasks and interrupt handlers interleave, each operation
  between two blocking calls being one step. The invariants of the tasks hold together in
  every reachable state; from them follow what an emergency stop does to the servos, what
  waits in the queues, and how a release can get stuck.
\<close>

section \<open>Steps\<close>

text \<open>
  The control task's round is split at the points where other tasks run in between; the guards
  of the later parts are what \<open>gripper_control_task_service_tx\<close> returning 1 means.
\<close>

definition frame_fits :: "uart_frame_t \<Rightarrow> bool" where
  "frame_fits f \<longleftrightarrow> length (frame_payload f) = 128 \<and> unat (frame_length f) \<le> 128"

inductive app_step :: "'hw gripper_app \<Rightarrow> 'hw gripper_app \<Rightarrow> bool" where
  rx_frame: "frame_fits f \<Longrightarrow> app_step app (comm_rx_process_frame (Some f) app)"
| rx_error: "app_step app (rx_count rx_parser_errors_update app)"
| button: "app_step app (HAL_GPIO_EXTI_Callback b p app)"
| safety_message: "app_step app (safety_task_receive app)"
| safety_service: "app_step app (SafetyTask_ServicePending app)"
| control_pending: "app_step app (gripper_control_task_apply_pending_safety app)"
| control_tx: "app_step app (snd (gripper_control_task_service_tx app))"
| control_update: "\<not> gripperPendingResponseValid (app_task app) \<Longrightarrow> \<not> gripperPendingEventValid (app_task app) \<Longrightarrow>
     length buffer = 128 \<Longrightarrow> app_step app (snd (control_task_update clock buffer (last_update, app)))"
| control_message: "\<not> gripperPendingResponseValid (app_task app) \<Longrightarrow> length buffer = 128 \<Longrightarrow>
     app_step app (control_task_receive now buffer app)"
| health: "app_step app (health_task_body app)"
| transmit: "app_step app (app\<lparr>app_tx := snd (comm_tx_task_body now now' now'' hal (last_heartbeat, app_tx app))\<rparr>)"

inductive_cases app_stepE: "app_step app app'"

section \<open>The state at start-up\<close>

definition zero_gripper_task :: "'hw gripper_task" where
  "zero_gripper_task = \<lparr>gripperController = zero_controller,
     gripperSnapshot = \<lparr>snap_state = UART_GRIPPER_STATE_IDLE, snap_active_motion_id = 0, snap_base_angle = 0,
       snap_shoulder_angle = 0, snap_elbow_angle = 0, snap_gripper_position = 0, snap_homed = False,
       snap_safety_latched = False\<rparr>,
     gripperTaskStats = zero_task_stats, gripperCache = zero_cache, gripperSafetyPendingFlags = 0,
     gripperPendingResponseValid = False, gripperPendingSequence = 0, gripperPendingLength = 0,
     gripperPendingResponse = replicate 128 0, gripperPendingEventValid = False,
     gripperPendingEventLength = 0, gripperPendingEvent = replicate 128 0\<rparr>"

definition zero_safety_task :: safety_task where
  "zero_safety_task = \<lparr>safetyEpoch = 0, safetyLatched = False, safetyPendingRequest = SAFETY_REQUEST_NONE,
     safetyStats = \<lparr>sf_emergency_stops = 0, sf_releases = 0, sf_queue_drops = 0, sf_notifications_failed = 0\<rparr>,
     safetyReleasePending = False, safetyReleaseCause = 0, safetyEventPending = False,
     safetyEventLatched = False, safetyEventCause = 0\<rparr>"

definition cold :: "servo_hw ptr gripper_app \<Rightarrow> bool" where
  "cold app \<longleftrightarrow> app_task app = zero_gripper_task \<and> app_safety app = zero_safety_task \<and> queued (gripperControlQueueHandle app) = [] \<and>
     queued (safetyCommandQueueHandle app) = [] \<and> tx_queue (app_tx app) = [] \<and>
     (\<exists>h. app_servo app = Some h \<and> \<not> servo_enabled h \<and> (\<forall>ch. \<not> tim3_running h ch))"

inductive app_reachable :: "(tim_channel \<Rightarrow> bool) \<Rightarrow> servo_hw ptr gripper_app \<Rightarrow> bool" for hal_ok where
  app_boot: "cold app \<Longrightarrow>
     app_reachable hal_ok (SafetyTask_Init (control_task_init (Some (gripper_servo_mg90s_port hal_ok)) app))"
| app_run: "app_reachable hal_ok app \<Longrightarrow> app_step app app' \<Longrightarrow> app_reachable hal_ok app'"

section \<open>Messages between the tasks\<close>

lemma task_ok_same:
  assumes "app_task app' = app_task app" "gripperControlQueueHandle app' = gripperControlQueueHandle app"
  shows "task_ok app' = task_ok app"
  using assms by (simp add: task_ok_def)

text \<open>Receiving a frame appends at most one well-formed message to the control queue.\<close>

lemma task_ok_send [simp]:
  "task_ok (comm_rx_send_response s c st e app) = task_ok app"
  "task_ok (snd (tx_call f app)) = task_ok app"
  "task_ok (app_rx_stats_update g app) = task_ok app"
  by (simp_all add: comm_rx_send_response_def Let_def split_def task_ok_def tx_call_def)

lemma task_ok_enqueue:
  assumes "task_ok app" "frame_fits f"
  shows "task_ok (snd (comm_rx_enqueue q f k app))"
proof -
  let ?m = "zero_control_command\<lparr>msg_frame := f, msg_kind := k, msg_safety_epoch := safety_task_get_epoch app\<rparr>"
  have m: "message_ok ?m" using assms(2) by (simp add: message_ok_def frame_fits_def)
  let ?put = "osMessageQueuePut (queue_handle q app) ?m 0"
  show ?thesis
  proof (cases "queue_handle q app = NULL \<or> fst ?put \<noteq> osOK")
    case True
    then show ?thesis using assms(1) by (auto simp: comm_rx_enqueue_def Let_def split_def)
  next
    case False
    then have "comm_rx_enqueue q f k app = (True, set_queue_handle q (snd ?put) app)"
      by (simp add: comm_rx_enqueue_def Let_def split_def)
    then show ?thesis
      using False m assms(1) queued_put [of "gripperControlQueueHandle app" ?m 0]
      by (cases q) (auto simp: task_ok_def)
  qed
qed

lemma task_ok_frame:
  assumes "task_ok app" "frame_fits f"
  shows "task_ok (comm_rx_process_frame (Some f) app)"
proof -
  have queue: "task_ok (queue_gripper_command f app)" if "task_ok app" for app :: "'a gripper_app"
    using task_ok_enqueue [OF that assms(2), of GRIPPER_CONTROL_QUEUE APP_CONTROL_MESSAGE_UART_COMMAND]
    by (simp add: queue_gripper_command_def split_def)
  show ?thesis
    using assms by (simp add: comm_rx_process_frame_def Let_def refuse_payload_def split_def queue task_ok_enqueue)
qed


lemma task_ok_fields [simp]:
  "task_ok (app\<lparr>app_tx := tx\<rparr>) = task_ok app"
  "task_ok (app\<lparr>app_safety := s\<rparr>) = task_ok app"
  "task_ok (app\<lparr>safetyCommandQueueHandle := q\<rparr>) = task_ok app"
  "task_ok (app\<lparr>app_task := gripperTaskStats_update g (app_task app)\<rparr>) = task_ok app"
  "task_ok (app\<lparr>app_task := (app_task app)\<lparr>gripperSafetyPendingFlags := w\<rparr>\<rparr>) = task_ok app"
  by (simp_all add: task_ok_def buffers_ok_def)

lemma task_ok_event [simp]:
  "task_ok (safety_task_service_event app) = task_ok app"
  "task_ok (safety_task_emit_state b cause app) = task_ok app"
proof -
  show service: "task_ok (safety_task_service_event app) = task_ok app" for app :: "'a gripper_app"
    by (auto simp: safety_task_service_event_def Let_def tx_call_def split_def)
  show "task_ok (safety_task_emit_state b cause app) = task_ok app"
    by (simp add: safety_task_emit_state_def service)
qed

lemma marker_ok: "message_ok (gripper_control_task_safety_marker k c app)"
  by (simp add: message_ok_def gripper_control_task_safety_marker_def zero_frame_def)

lemma task_ok_enqueue_safety:
  assumes "task_ok app"
  shows "task_ok (snd (gripper_control_task_enqueue_safety k c app))"
proof -
  let ?m = "gripper_control_task_safety_marker k c app"
  let ?put = "osMessageQueuePut (gripperControlQueueHandle app) ?m 3"
  show ?thesis
  proof (cases "gripperControlQueueHandle app = NULL \<or> fst ?put \<noteq> osOK")
    case True
    then show ?thesis using assms by (auto simp: gripper_control_task_enqueue_safety_def Let_def split_def)
  next
    case False
    then have "gripper_control_task_enqueue_safety k c app = (True, app\<lparr>gripperControlQueueHandle := snd ?put\<rparr>)"
      by (simp add: gripper_control_task_enqueue_safety_def Let_def split_def)
    then show ?thesis
      using False marker_ok assms queued_put [of "gripperControlQueueHandle app" ?m 3] by (auto simp: task_ok_def)
  qed
qed

lemma task_ok_notify:
  assumes "task_ok app"
  shows "task_ok (snd (gripper_control_task_notify_safety_stop app))"
    "task_ok (snd (gripper_control_task_notify_safety_release app))"
  using assms by (simp_all add: gripper_control_task_notify_safety_stop_def
      gripper_control_task_notify_safety_release_def Let_def task_ok_enqueue_safety)

lemma task_ok_safety:
  assumes "task_ok app"
  shows "task_ok (safety_task_enter_estop cause app)" "task_ok (safety_task_release cause app)"
    "task_ok (safety_task_service_release app)" "task_ok (safety_task_receive app)"
    "task_ok (SafetyTask_ServicePending app)"
proof -
  have estop: "task_ok (safety_task_enter_estop cause app)" if "task_ok app" for cause and app :: "'a gripper_app"
    using that by (simp add: safety_task_enter_estop_def Let_def split_def task_ok_notify)
  have release: "task_ok (safety_task_release cause app)" if "task_ok app" for cause and app :: "'a gripper_app"
    using that by (simp add: safety_task_release_def Let_def split_def task_ok_notify)
  have service: "task_ok (safety_task_service_release app)" if "task_ok app" for app :: "'a gripper_app"
    using that by (simp add: safety_task_service_release_def Let_def)
  show "task_ok (SafetyTask_ServicePending app)"
    using assms by (simp add: SafetyTask_ServicePending_def Let_def estop release service split: safety_request_t.split)
  show "task_ok (safety_task_receive app)"
    using assms by (simp add: safety_task_receive_def SafetyTask_HandleSafetyCommand_def Let_def split_def
        estop release split: option.split)
  show "task_ok (safety_task_enter_estop cause app)" "task_ok (safety_task_release cause app)"
    "task_ok (safety_task_service_release app)"
    using assms estop release service by blast+
qed

text \<open>The control task's own steps.\<close>

lemma task_ok_pending: "task_ok app \<Longrightarrow> task_ok (gripper_control_task_apply_pending_safety app)"
  by (rule apply_pending_effect [of app]) (simp add: task_ok_def)

lemma task_ok_tx: "task_ok app \<Longrightarrow> task_ok (snd (gripper_control_task_service_tx app))"
  unfolding task_ok_def by (rule service_tx_effect [of app]) (auto simp: same_core_def)

lemma task_ok_update:
  assumes "task_ok app" "length buffer = 128" "\<not> gripperPendingEventValid (app_task app)"
  shows "task_ok (snd (control_task_update clock buffer (last_update, app)))"
proof -
  have ok: "buffers_ok (app_task app)" using assms by (simp add: task_ok_def)
  show ?thesis
    by (rule control_task_update_effect [OF assms(2,3) ok, of clock last_update])
      (use assms(1) in \<open>auto simp: task_ok_def\<close>)
qed

lemma task_ok_receive:
  assumes "task_ok app" "length buffer = 128" "\<not> gripperPendingResponseValid (app_task app)"
  shows "task_ok (control_task_receive now buffer app)"
proof -
  have ok: "accepts_messages app" "list_all message_ok (queued (gripperControlQueueHandle app))"
    using assms by (simp_all add: task_ok_def accepts_messages_def)
  show ?thesis
    by (rule control_task_receive_effect [OF assms(2) ok, of now])
      (use ok in \<open>auto simp: task_ok_def consumes_def\<close>)
qed

lemma task_ok_button: "task_ok app \<Longrightarrow> task_ok (HAL_GPIO_EXTI_Callback b p app)"
  by (simp add: HAL_GPIO_EXTI_Callback_def safety_task_request_local_estop_def Let_def split_def)

lemma app_step_task_ok: "app_step app app' \<Longrightarrow> task_ok app \<Longrightarrow> task_ok app'"
proof (induction rule: app_step.induct)
  case (health app)
  then show ?case by (simp add: health_task_body_def Let_def)
qed (simp_all add: task_ok_frame task_ok_button task_ok_safety task_ok_pending task_ok_tx task_ok_update task_ok_receive)

lemma app_step_latch: "app_step app app' \<Longrightarrow> task_ok app \<Longrightarrow> latch_step\<^sup>*\<^sup>* (latch_of app) (latch_of app')"
proof (induction rule: app_step.induct)
  case (control_pending app)
  show ?case unfolding latch_pending by (rule r_into_rtranclp) (rule latch_apply)
next
  case (control_message app buffer now)
  then have ok: "accepts_messages app" "list_all message_ok (queued (gripperControlQueueHandle app))"
    by (simp_all add: task_ok_def accepts_messages_def)
  have applied: "latch_step\<^sup>*\<^sup>* (latch_of app) (latch_of (gripper_control_task_apply_pending_safety app))"
    unfolding latch_pending by (rule r_into_rtranclp) (rule latch_apply)
  then show ?case using latch_receive [OF control_message(2) ok, of now] by auto
qed (simp_all add: latch_steps_receive latch_steps_service latch_service_tx latch_update task_ok_def)


section \<open>The controller and the servos\<close>

definition system_of :: "'hw gripper_app \<Rightarrow> 'hw gripper_control_t \<times> 'hw" where
  "system_of app = (gripperController (app_task app), app_servo app)"

lemma system_same [simp]:
  "system_of (app\<lparr>app_tx := tx\<rparr>) = system_of app"
  "system_of (app\<lparr>app_safety := sf\<rparr>) = system_of app"
  "system_of (app_rx_stats_update g app) = system_of app"
  "system_of (app\<lparr>gripperControlQueueHandle := q\<rparr>) = system_of app"
  "system_of (app\<lparr>safetyCommandQueueHandle := q\<rparr>) = system_of app"
  "system_of (snd (tx_call f app)) = system_of app"
  "system_of (gripper_control_task_publish_snapshot app) = system_of app"
  "system_of (app\<lparr>app_task := gripperTaskStats_update u (app_task app)\<rparr>) = system_of app"
  "system_of (app\<lparr>app_task := (app_task app)\<lparr>gripperSafetyPendingFlags := w\<rparr>\<rparr>) = system_of app"
  by (simp_all add: system_of_def tx_call_def publish_effect split: prod.split)

lemma system_rx [simp]: "system_of (comm_rx_process_frame fp app) = system_of app"
proof -
  have send: "system_of (comm_rx_send_response s c st e app) = system_of app" for s c st e and app :: "'a gripper_app"
    by (auto simp: comm_rx_send_response_def Let_def split_def)
  have enqueue: "system_of (snd (comm_rx_enqueue q f k app)) = system_of app" for q f k and app :: "'a gripper_app"
    by (cases q) (simp_all add: comm_rx_enqueue_def Let_def send split: prod.split)
  show ?thesis
    by (cases fp) (simp_all add: comm_rx_process_frame_def queue_gripper_command_def refuse_payload_def
        Let_def send enqueue split_def)
qed

lemma system_safety [simp]:
  "system_of (HAL_GPIO_EXTI_Callback b p app) = system_of app"
  "system_of (safety_task_receive app) = system_of app"
  "system_of (SafetyTask_ServicePending app) = system_of app"
  "system_of (health_task_body app) = system_of app"
proof -
  have event: "system_of (safety_task_service_event app) = system_of app" for app :: "'a gripper_app"
    by (auto simp: safety_task_service_event_def Let_def tx_call_def split_def)
  have emit: "system_of (safety_task_emit_state b cause app) = system_of app" for b cause and app :: "'a gripper_app"
    by (simp add: safety_task_emit_state_def event)
  have queue: "system_of (snd (gripper_control_task_enqueue_safety k c app)) = system_of app"
    for k c and app :: "'a gripper_app"
    by (simp add: gripper_control_task_enqueue_safety_def Let_def split: prod.split)
  have notify: "system_of (snd (gripper_control_task_notify_safety_stop app)) = system_of app"
    "system_of (snd (gripper_control_task_notify_safety_release app)) = system_of app" for app :: "'a gripper_app"
    by (simp_all add: gripper_control_task_notify_safety_stop_def gripper_control_task_notify_safety_release_def
        Let_def queue)
  have estop: "system_of (safety_task_enter_estop cause app) = system_of app"
    and release: "system_of (safety_task_release cause app) = system_of app"
    and service: "system_of (safety_task_service_release app) = system_of app" for cause and app :: "'a gripper_app"
    by (simp_all add: safety_task_enter_estop_def safety_task_release_def safety_task_service_release_def
        Let_def split_def notify emit)
  show "system_of (HAL_GPIO_EXTI_Callback b p app) = system_of app"
    by (simp add: HAL_GPIO_EXTI_Callback_def safety_task_request_local_estop_def Let_def split_def)
  show "system_of (safety_task_receive app) = system_of app"
    by (simp add: safety_task_receive_def SafetyTask_HandleSafetyCommand_def Let_def split_def estop release
        split: option.split)
  show "system_of (SafetyTask_ServicePending app) = system_of app"
    by (simp add: SafetyTask_ServicePending_def Let_def event estop release service split: safety_request_t.split)
  show "system_of (health_task_body app) = system_of app"
    by (simp add: health_task_body_def Let_def)
qed

lemma system_pending:
  fixes app :: "servo_hw ptr gripper_app"
  shows "gripper_step\<^sup>*\<^sup>* (system_of app) (system_of (gripper_control_task_apply_pending_safety app))"
proof -
  let ?c = "gripperController (app_task app)" and ?hw = "app_servo app"
  have stop: "gripper_step (c, ?hw) (the (gripper_control_apply_safety_stop (Some c)), ?hw)" for c
    by (rule step_stop) (simp add: gripper_control_apply_safety_stop_def)
  have release: "gripper_step (c, ?hw) (the (gripper_control_release_safety (Some c)), ?hw)" for c
    by (rule step_release) (simp add: gripper_control_release_safety_def)
  have "gripper_step\<^sup>*\<^sup>* (?c, ?hw) (after_flags (gripperSafetyPendingFlags (app_task app)) ?c, ?hw)"
    using stop [of ?c] release [of ?c] release [of "the (gripper_control_apply_safety_stop (Some ?c))"]
    by (auto simp: after_flags_def Let_def intro: converse_rtranclp_into_rtranclp)
  moreover have "system_of (gripper_control_task_apply_pending_safety app) =
      (after_flags (gripperSafetyPendingFlags (app_task app)) ?c, ?hw)"
    by (rule apply_pending_effect [of app]) (simp add: system_of_def)
  ultimately show ?thesis by (simp add: system_of_def)
qed

lemma system_update:
  fixes app :: "servo_hw ptr gripper_app"
  assumes "length buffer = 128" "\<not> gripperPendingEventValid (app_task app)" "buffers_ok (app_task app)"
  shows "gripper_step\<^sup>*\<^sup>* (system_of app) (system_of (snd (control_task_update clock buffer (last_update, app))))"
proof (cases "GRIPPER_CONTROL_UPDATE_PERIOD_MS \<le> clock 0 - last_update")
  case False
  then show ?thesis by (simp add: control_task_update_def)
next
  case True
  obtain c1 hw1 where tick: "gripper_control_tick (Some (gripperController (app_task app))) (app_servo app) (clock 1) = (Some c1, hw1)"
    using tick_Some by (metis prod.collapse)
  let ?app1 = "app\<lparr>app_task := (app_task app)\<lparr>gripperController := c1\<rparr>, app_servo := hw1\<rparr>"
  have pre: "length (take 5 buffer) = 5" "\<not> gripperPendingEventValid (app_task ?app1)" "buffers_ok (app_task ?app1)"
    using assms by (simp_all add: buffers_ok_def)
  let ?c2 = "if completion_valid (ctl_completion c1) then invalidate_completion c1 else c1"
  have "system_of (gripper_control_task_emit_completion (take 5 buffer) ?app1) = (?c2, hw1)"
    by (rule emit_completion_effect [OF pre]) (simp add: system_of_def)
  then have result: "system_of (snd (control_task_update clock buffer (last_update, app))) = (?c2, hw1)"
    using True tick by (simp add: control_task_update_def Let_def)
  have 1: "gripper_step (system_of app) (c1, hw1)" using step_tick [OF tick] by (simp add: system_of_def)
  have 2: "gripper_step (c1, hw1) (?c2, hw1)"
    by (rule step_take [where d = zero_completion and b = "completion_valid (ctl_completion c1)" and
          d' = "Some (if completion_valid (ctl_completion c1) then ctl_completion c1 else zero_completion)"])
      (simp add: gripper_control_take_completion_def)
  show ?thesis unfolding result using 1 2 by (meson r_into_rtranclp rtranclp.rtrancl_into_rtrancl)
qed


lemma system_message:
  fixes app :: "servo_hw ptr gripper_app"
  assumes "length buffer = 128" "message_ok m" "accepts_messages app"
    and run: "gripper_control_task_process_message buffer (Some m) now app = (r, app')"
  shows "gripper_step\<^sup>*\<^sup>* (system_of app) (system_of app')"
proof -
  let ?c = "after_flags (gripperSafetyPendingFlags (app_task app)) (gripperController (app_task app))"
  have "system_of (gripper_control_task_apply_pending_safety app) = (?c, app_servo app)"
    by (rule apply_pending_effect [of app]) (simp add: system_of_def)
  then have start: "gripper_step\<^sup>*\<^sup>* (system_of app) (?c, app_servo app)" using system_pending [of app] by simp
  consider "system_of app' = (?c, app_servo app)"
    | "gripper_control_process_command (Some ?c) (app_servo app) (frame_command (msg_frame m))
       (Some (frame_payload (msg_frame m))) (frame_length (msg_frame m)) now =
       (r, Some (gripperController (app_task app')), app_servo app')"
    using message_executes [OF assms(2,1,3) run] by (auto simp: system_of_def)
  then show ?thesis
  proof cases
    case 1
    then show ?thesis using start by simp
  next
    case 2
    then have "gripper_step (?c, app_servo app) (system_of app')"
      unfolding system_of_def by (rule step_command)
    then show ?thesis using start by (rule rtranclp.rtrancl_into_rtrancl [rotated])
  qed
qed

lemma system_receive:
  fixes app :: "servo_hw ptr gripper_app"
  assumes "length buffer = 128" "accepts_messages app" "list_all message_ok (queued (gripperControlQueueHandle app))"
  shows "gripper_step\<^sup>*\<^sup>* (system_of app) (system_of (control_task_receive now buffer app))"
proof -
  obtain status x mq where get: "osMessageQueueGet (gripperControlQueueHandle app) 5 = (status, x, mq)"
    by (metis prod_cases3)
  show ?thesis
  proof (cases "gripperControlQueueHandle app \<noteq> NULL \<and> status = osOK")
    case False
    then show ?thesis using get by (auto simp: control_task_receive_def)
  next
    case True
    then obtain m where m: "x = Some m" "queued (gripperControlQueueHandle app) = m # queued mq"
      using queue_get_queued [OF get] by blast
    let ?app1 = "app\<lparr>gripperControlQueueHandle := mq\<rparr>"
    obtain r app2 where run: "gripper_control_task_process_message buffer (Some m) now ?app1 = (r, app2)" by fastforce
    have "message_ok m" "accepts_messages ?app1" using assms m by (simp_all add: accepts_messages_def)
    from system_message [OF assms(1) this run] show ?thesis
      using True get m run by (simp add: control_task_receive_def)
  qed
qed

lemma app_step_system:
  fixes app :: "servo_hw ptr gripper_app"
  shows "app_step app app' \<Longrightarrow> task_ok app \<Longrightarrow> gripper_step\<^sup>*\<^sup>* (system_of app) (system_of app')"
proof (induction rule: app_step.induct)
  case (control_message app buffer now)
  then have "accepts_messages app" "list_all message_ok (queued (gripperControlQueueHandle app))"
    by (simp_all add: task_ok_def accepts_messages_def)
  then show ?case using system_receive control_message(2) by blast
next
  case (control_tx app)
  then have "buffers_ok (app_task app)" by (simp add: task_ok_def)
  then show ?case by (rule service_tx_effect) (simp add: system_of_def same_core_def)
qed (simp_all add: system_pending system_update task_ok_def)

section \<open>Requests of the button\<close>

text \<open>
  The safety task's request word only ever asks for a stop, and the epoch only moves with a
  stop or a release.
\<close>

definition request_of :: "'hw gripper_app \<Rightarrow> safety_request_t \<times> u32" where
  "request_of app = (safetyPendingRequest (app_safety app), safetyEpoch (app_safety app))"

lemma request_same [simp]:
  "request_of (app\<lparr>app_tx := tx\<rparr>) = request_of app"
  "request_of (app\<lparr>app_task := t\<rparr>) = request_of app"
  "request_of (app\<lparr>app_servo := hw\<rparr>) = request_of app"
  "request_of (app_rx_stats_update g app) = request_of app"
  "request_of (app\<lparr>gripperControlQueueHandle := q\<rparr>) = request_of app"
  "request_of (app\<lparr>safetyCommandQueueHandle := q\<rparr>) = request_of app"
  "request_of (app\<lparr>app_safety := safetyStats_update h (app_safety app)\<rparr>) = request_of app"
  "request_of (snd (tx_call f app)) = request_of app"
  by (simp_all add: request_of_def tx_call_def split: prod.split)

lemma request_rest: "same_rest app app' \<Longrightarrow> request_of app' = request_of app"
  by (simp add: same_rest_def request_of_def)

lemma request_rx [simp]: "request_of (comm_rx_process_frame fp app) = request_of app"
proof -
  have send: "request_of (comm_rx_send_response s c st e app) = request_of app" for s c st e and app :: "'a gripper_app"
    by (auto simp: comm_rx_send_response_def Let_def split_def)
  have enqueue: "request_of (snd (comm_rx_enqueue q f k app)) = request_of app" for q f k and app :: "'a gripper_app"
    by (cases q) (simp_all add: comm_rx_enqueue_def Let_def send split: prod.split)
  show ?thesis
    by (cases fp) (simp_all add: comm_rx_process_frame_def queue_gripper_command_def refuse_payload_def
        Let_def send enqueue split_def)
qed

lemma request_emit [simp]:
  "request_of (safety_task_service_event app) = request_of app"
  "request_of (safety_task_emit_state b cause app) = request_of app"
proof -
  have event: "request_of (safety_task_service_event app) = request_of app" for app :: "'a gripper_app"
    by (auto simp: safety_task_service_event_def Let_def tx_call_def split_def request_of_def)
  then show "request_of (safety_task_service_event app) = request_of app"
    "request_of (safety_task_emit_state b cause app) = request_of app"
    by (simp_all add: safety_task_emit_state_def event) (simp add: request_of_def)
qed

lemma request_notify [simp]:
  "request_of (snd (gripper_control_task_notify_safety_stop app)) = request_of app"
  "request_of (snd (gripper_control_task_notify_safety_release app)) = request_of app"
  by (simp_all add: gripper_control_task_notify_safety_stop_def gripper_control_task_notify_safety_release_def
      gripper_control_task_enqueue_safety_def Let_def split_def)

lemma request_estop:
  "request_of (safety_task_enter_estop cause app) =
     (safetyPendingRequest (app_safety app),
      safetyEpoch (app_safety app) +
        (if safetyLatched (app_safety app) \<and> \<not> safetyReleasePending (app_safety app) then 0 else 1))"
  by (simp add: safety_task_enter_estop_def Let_def split_def) (simp add: request_of_def)

lemma request_estop_word: "fst (request_of (safety_task_enter_estop cause app)) = fst (request_of app)"
  by (simp add: request_estop) (simp add: request_of_def)

lemma request_release:
  "fst (request_of (safety_task_release cause app)) = fst (request_of app)"
  by (simp add: safety_task_release_def Let_def split_def) (simp add: request_of_def)

lemma request_service_release [simp]: "request_of (safety_task_service_release app) = request_of app"
  by (simp add: safety_task_service_release_def Let_def) (simp add: request_of_def)

lemma request_service: "fst (request_of (SafetyTask_ServicePending app)) = SAFETY_REQUEST_NONE"
  by (simp add: SafetyTask_ServicePending_def Let_def request_estop request_release split: safety_request_t.split)
    (simp add: request_of_def)

lemma request_receive: "fst (request_of (safety_task_receive app)) = fst (request_of app)"
proof -
  have "fst (request_of (SafetyTask_HandleSafetyCommand m app)) = fst (request_of app)" for m and app :: "'a gripper_app"
    by (cases m) (simp_all add: SafetyTask_HandleSafetyCommand_def request_estop_word request_release)
  then show ?thesis by (simp add: safety_task_receive_def split_def Let_def)
qed

lemma request_button:
  "fst (request_of (HAL_GPIO_EXTI_Callback b p app)) \<in> {fst (request_of app), SAFETY_REQUEST_STOP}"
  by (simp add: HAL_GPIO_EXTI_Callback_def safety_task_request_local_estop_def Let_def split_def) (simp add: request_of_def)

lemma request_control:
  "request_of (gripper_control_task_apply_pending_safety app) = request_of app"
  "request_of (snd (control_task_update clock buffer (last_update, app))) = request_of app"
  "request_of (control_task_receive now buffer app) = request_of app"
  "request_of (snd (gripper_control_task_service_tx app)) = request_of app"
  "request_of (health_task_body app) = request_of app"
proof -
  show "request_of (gripper_control_task_apply_pending_safety app) = request_of app"
    by (rule request_rest) simp
  have emit: "request_of (gripper_control_task_emit_completion b app) = request_of app" for b and app :: "'a gripper_app"
    by (simp add: gripper_control_task_emit_completion_def Let_def split_def)
  show "request_of (snd (control_task_update clock buffer (last_update, app))) = request_of app"
    by (simp add: control_task_update_def Let_def split_def emit publish_effect)
  have message: "request_of (snd (gripper_control_task_process_message buffer mp now app)) = request_of app"
    for mp and app :: "'a gripper_app"
    by (rule request_rest) simp
  show "request_of (control_task_receive now buffer app) = request_of app"
    by (simp add: control_task_receive_def Let_def split_def message publish_effect)
  have tx: "request_of (snd (service_tx_response app)) = request_of app" "request_of (snd (service_tx_event app)) = request_of app"
    for app :: "'a gripper_app"
    by (simp_all add: service_tx_response_def service_tx_event_def Let_def split_def)
  show "request_of (snd (gripper_control_task_service_tx app)) = request_of app"
    using tx by (auto simp: gripper_control_task_service_tx_def split: prod.split bool.split) (metis snd_conv)+
  show "request_of (health_task_body app) = request_of app"
    by (simp add: health_task_body_def Let_def)
qed

lemma app_step_request:
  "app_step app app' \<Longrightarrow> fst (request_of app) \<noteq> SAFETY_REQUEST_RELEASE \<Longrightarrow> fst (request_of app') \<noteq> SAFETY_REQUEST_RELEASE"
proof (induction rule: app_step.induct)
  case (button app b p)
  then show ?case using request_button [of b p app] by auto
qed (simp_all add: request_receive request_service request_control)

section \<open>The invariants together\<close>

definition firmware_ok :: "(tim_channel \<Rightarrow> bool) \<Rightarrow> servo_hw ptr gripper_app \<Rightarrow> bool" where
  "firmware_ok hal_ok app \<longleftrightarrow> task_ok app \<and> latch_ok (latch_of app) \<and>
     fst (request_of app) \<noteq> SAFETY_REQUEST_RELEASE \<and>
     mg90s.system_ok hal_ok (gripperController (app_task app)) (app_servo app)"

lemma gripper_steps_system:
  "gripper_step\<^sup>*\<^sup>* s s' \<Longrightarrow> mg90s.system_ok hal_ok (fst s) (snd s) \<Longrightarrow> mg90s.system_ok hal_ok (fst s') (snd s')"
  by (induction rule: rtranclp_induct) (auto intro: gripper_step_system)

lemma app_step_ok: "app_step app app' \<Longrightarrow> firmware_ok hal_ok app \<Longrightarrow> firmware_ok hal_ok app'"
  using app_step_task_ok [of app app'] latch_steps_ok [OF app_step_latch [of app app']]
    gripper_steps_system [OF app_step_system [of app app'], of hal_ok] app_step_request [of app app']
  by (simp add: firmware_ok_def system_of_def)

lemma boot_ok:
  assumes "cold app"
  shows "firmware_ok hal_ok (SafetyTask_Init (control_task_init (Some (gripper_servo_mg90s_port hal_ok)) app))"
proof -
  let ?port = "gripper_servo_mg90s_port hal_ok"
  obtain h where h: "app_servo app = Some h" "\<not> servo_enabled h" "\<forall>ch. \<not> tim3_running h ch"
    using assms by (auto simp: cold_def)
  obtain c where c: "gripper_control_init (Some zero_controller) (Some ?port) = (GRIPPER_CONTROL_OK, Some c)"
    by (simp add: gripper_control_init_def gripper_servo_mg90s_port_def)
  have "gripper_reachable hal_ok (c, app_servo app)" by (rule reach_init [OF c h])
  then have system: "mg90s.system_ok hal_ok c (app_servo app)" using gripper_reachable_system by fastforce
  have unlatched: "\<not> safety_latched c"
    using c by (auto simp: gripper_control_init_def zero_controller_def split: if_splits)
  have task: "app_task app = zero_gripper_task" "app_safety app = zero_safety_task" "queued (gripperControlQueueHandle app) = []"
    using assms by (simp_all add: cold_def)
  show ?thesis
    using system unlatched task c
    by (simp add: firmware_ok_def task_ok_def latch_ok_def latch_of_def SafetyTask_Init_def control_task_init_def
        publish_effect zero_gripper_task_def buffers_ok_def cache_ok_def zero_cache_def
        zero_safety_task_def request_of_def Let_def)
qed

lemma reachable_ok: "app_reachable hal_ok app \<Longrightarrow> firmware_ok hal_ok app"
  by (induction rule: app_reachable.induct) (auto intro: boot_ok app_step_ok)


section \<open>A round of the control task\<close>

lemma control_round_steps:
  assumes "task_ok app" "length buffer = 128"
  shows "app_step\<^sup>*\<^sup>* app (snd (control_task_body clock buffer (last_update, app)))"
proof -
  let ?a = "gripper_control_task_apply_pending_safety app"
  obtain b app2 where tx: "gripper_control_task_service_tx ?a = (b, app2)" by fastforce
  have 1: "app_step app ?a" by (rule control_pending)
  have 2: "app_step ?a app2" using control_tx [of ?a] tx by simp
  have ok: "task_ok ?a" "task_ok app2" using assms(1) task_ok_pending task_ok_tx [of ?a] tx by auto
  show ?thesis
  proof (cases b)
    case False
    then have "snd (control_task_body clock buffer (last_update, app)) = app2"
      using tx by (simp add: control_task_body_def)
    then show ?thesis using 1 2 by (auto intro: converse_rtranclp_into_rtranclp)
  next
    case True
    have free: "\<not> gripperPendingResponseValid (app_task app2)" "\<not> gripperPendingEventValid (app_task app2)"
    proof -
      have "buffers_ok (app_task ?a)" using ok(1) by (simp add: task_ok_def)
      then show "\<not> gripperPendingResponseValid (app_task app2)" "\<not> gripperPendingEventValid (app_task app2)"
        using True tx by (auto elim!: service_tx_effect)
    qed
    let ?app3 = "snd (control_task_update clock buffer (last_update, app2))"
    have 3: "app_step app2 ?app3" using free assms(2) by (rule control_update)
    have "\<not> gripperPendingResponseValid (app_task ?app3)"
    proof -
      have "buffers_ok (app_task app2)" using ok(2) by (simp add: task_ok_def)
      then show ?thesis
        using free by (auto elim!: control_task_update_effect [OF assms(2) free(2), where clock = clock and last_update = last_update])
    qed
    then have 4: "app_step ?app3 (control_task_receive (clock 3) buffer ?app3)" using assms(2) by (rule control_message)
    have "snd (control_task_body clock buffer (last_update, app)) = control_task_receive (clock 3) buffer ?app3"
      using tx True by (simp add: control_task_body_def split_def)
    then show ?thesis using 1 2 3 4 by (auto intro: converse_rtranclp_into_rtranclp)
  qed
qed

lemma app_steps_reachable: "app_step\<^sup>*\<^sup>* app app' \<Longrightarrow> app_reachable hal_ok app \<Longrightarrow> app_reachable hal_ok app'"
  by (induction rule: rtranclp_induct) (auto intro: app_run)

text \<open>A controller that is stopped does not move the servos.\<close>

lemma latched_process:
  "gripper_control_process_command (Some c) hw command payload n now = (r, Some c', hw') \<Longrightarrow> safety_latched c \<Longrightarrow>
     hw' = hw"
  by (auto simp: gripper_control_process_command_def split: if_splits)

lemma latched_update:
  assumes "safety_latched (gripperController (app_task app))" "length buffer = 128"
    "\<not> gripperPendingEventValid (app_task app)" "buffers_ok (app_task app)"
  shows "app_servo (snd (control_task_update clock buffer (last_update, app))) = app_servo app"
proof -
  let ?c = "gripperController (app_task app)"
  have tick: "gripper_control_tick (Some ?c) (app_servo app) (clock 1) = (Some ?c, app_servo app)"
    using assms(1) by (simp add: gripper_control_tick_def)
  have pre: "length (take 5 buffer) = 5" using assms(2) by simp
  have "app_servo (gripper_control_task_emit_completion (take 5 buffer) app) = app_servo app"
    by (rule emit_completion_effect [OF pre assms(3,4)]) simp
  then show ?thesis using tick by (simp add: control_task_update_def Let_def publish_effect)
qed

lemma latched_receive:
  assumes "safety_latched (gripperController (app_task app))" "\<not> release_requested (latch_of app)"
    and "length buffer = 128" "accepts_messages app" "list_all message_ok (queued (gripperControlQueueHandle app))"
  shows "app_servo (control_task_receive now buffer app) = app_servo app"
proof -
  obtain status x mq where get: "osMessageQueueGet (gripperControlQueueHandle app) 5 = (status, x, mq)"
    by (metis prod_cases3)
  show ?thesis
  proof (cases "gripperControlQueueHandle app \<noteq> NULL \<and> status = osOK")
    case False
    then show ?thesis using get by (auto simp: control_task_receive_def)
  next
    case True
    then obtain m where m: "x = Some m" "queued (gripperControlQueueHandle app) = m # queued mq"
      using queue_get_queued [OF get] by blast
    let ?app1 = "app\<lparr>gripperControlQueueHandle := mq\<rparr>"
    obtain r app2 where run: "gripper_control_task_process_message buffer (Some m) now ?app1 = (r, app2)" by fastforce
    let ?c = "after_flags (gripperSafetyPendingFlags (app_task app)) (gripperController (app_task app))"
    have c: "safety_latched ?c"
      using assms(1,2) by (simp add: after_flags_def latch_of_def gripper_control_apply_safety_stop_def)
    have "message_ok m" "accepts_messages ?app1" using assms m by (simp_all add: accepts_messages_def)
    from message_executes [OF this(1) assms(3) this(2) run] have "app_servo app2 = app_servo app"
      using latched_process c by auto
    then show ?thesis using True get m run by (simp add: control_task_receive_def publish_effect)
  qed
qed

lemma stopped_round:
  fixes clock :: "nat \<Rightarrow> u32" and buffer :: "u8 list" and last_update :: u32
  assumes ok: "firmware_ok hal_ok app" "length buffer = 128"
    and stop: "latched (latch_of app)" "\<not> releasing (latch_of app)"
  defines "app' \<equiv> snd (control_task_body clock buffer (last_update, app))"
  shows "app_servo app' = app_servo app \<and> controller_latched (latch_of app')"
proof -
  let ?a = "gripper_control_task_apply_pending_safety app"
  have task: "task_ok ?a" using ok(1) by (simp add: firmware_ok_def task_ok_pending)
  then have buffers: "buffers_ok (app_task ?a)" by (simp add: task_ok_def)
  have latch: "controller_latched (latch_of ?a)" "\<not> release_requested (latch_of ?a)"
    using ok(1) stop by (auto simp: latch_pending firmware_ok_def latch_ok_def)
  have servo: "app_servo ?a = app_servo app" by (rule apply_pending_effect [of app]) simp
  obtain b tx2 t2 where s: "gripper_control_task_service_tx ?a = (b, ?a\<lparr>app_tx := tx2, app_task := t2\<rparr>)"
    "same_core (app_task ?a) t2" "buffers_ok t2"
    "b \<longleftrightarrow> \<not> gripperPendingResponseValid t2 \<and> \<not> gripperPendingEventValid t2"
    using service_tx_effect [OF buffers] by metis
  define app2 where "app2 = ?a\<lparr>app_tx := tx2, app_task := t2\<rparr>"
  have latch2: "latch_of app2 = latch_of ?a" "app_servo app2 = app_servo app" "task_ok app2"
    using s(2) servo task_ok_tx [OF task] s(1) by (simp_all add: app2_def latch_core)
  show ?thesis
  proof (cases b)
    case False
    then have "app' = app2" using s(1) by (simp add: app'_def control_task_body_def app2_def)
    then show ?thesis using latch latch2 by simp
  next
    case True
    have pre: "safety_latched (gripperController (app_task app2))" "\<not> gripperPendingEventValid (app_task app2)"
      "buffers_ok (app_task app2)" "\<not> gripperPendingResponseValid (app_task app2)"
      using True s latch latch2(1) by (simp_all add: app2_def latch_of_def same_core_def)
    define app3 where "app3 = snd (control_task_update clock buffer (last_update, app2))"
    have app3: "app_servo app3 = app_servo app" "latch_of app3 = latch_of ?a" "task_ok app3"
      using latched_update [OF pre(1) ok(2) pre(2,3)] latch_update [OF ok(2) pre(2,3)] latch2
        task_ok_update [OF latch2(3) ok(2) pre(2)] by (simp_all add: app3_def)
    have free: "\<not> gripperPendingResponseValid (app_task app3)"
      unfolding app3_def
      by (rule control_task_update_effect [OF ok(2) pre(2,3), where clock = clock and last_update = last_update])
        (use pre(4) in simp)
    have app': "app' = control_task_receive (clock 3) buffer app3"
      using s(1) True by (simp add: app'_def control_task_body_def app2_def app3_def split_def Let_def)
    have pre3: "accepts_messages app3" "list_all message_ok (queued (gripperControlQueueHandle app3))"
      using app3(3) free by (simp_all add: accepts_messages_def task_ok_def)
    have latched3: "safety_latched (gripperController (app_task app3))" "\<not> release_requested (latch_of app3)"
      using latch app3(2) by (simp_all add: latch_of_def)
    have "controller_latched (latch_of app')"
      using latch_receive [OF ok(2) pre3, of "clock 3"] app3(2) latch by (auto simp: app' latch_pending)
    then show ?thesis using latched_receive [OF latched3 ok(2) pre3, of "clock 3"] app3(1) by (simp add: app')
  qed
qed

end
