(* ===== verification/Gripper_Emergency.thy ===== *)
theory Gripper_Emergency
  imports Gripper_Firmware
begin

text \<open>
  What the host may rely on when it sends an emergency stop or a reset, over every interleaving
  of the firmware's tasks, and the way a release can get stuck.
\<close>

section \<open>The guarantee of a stop\<close>

text \<open>
  C4: Every step of the firmware's tasks acts on the distributed emergency-stop state (latch,
  release handshake, two request flags, controller latch) as a sequence of steps of a latch
  machine with four transitions, and keeps its invariant: a stop without release is at the
  controller or on its way there.
\<close>

theorem emergency_stop_latch_refines:
  assumes "app_reachable hal_ok app" "app_step app app'"
  shows "latch_step\<^sup>*\<^sup>* (latch_of app) (latch_of app') \<and> latch_ok (latch_of app')"
proof -
  have "firmware_ok hal_ok app" using assms(1) by (rule reachable_ok)
  then show ?thesis
    using app_step_latch [OF assms(2)] app_step_ok [OF assms(2), of hal_ok] by (simp add: firmware_ok_def)
qed

text \<open>
  C21: In every reachable state of the whole firmware, over every interleaving of its tasks and
  every received frame, the pulse width of each channel lies inside the mechanical range of its
  joint as soon as the servos are enabled or a channel runs.
\<close>

theorem firmware_outputs_within_limits:
  assumes "app_reachable hal_ok app" "app_servo app = Some h" "servo_enabled h \<or> tim3_running h ch'"
  shows "fst (joint_range ch) \<le> unat (tim3_compare h ch) \<and> unat (tim3_compare h ch) \<le> snd (joint_range ch)"
  using reachable_ok [OF assms(1)] assms(2,3)
  by (auto simp: firmware_ok_def mg90s.system_ok_def pulses_safe_def)

lemma stopped_state:
  "firmware_ok hal_ok app \<Longrightarrow> controller_latched (latch_of app) \<Longrightarrow>
     ctl_state (gripperController (app_task app)) = UART_GRIPPER_STATE_EMERGENCY_STOP"
  by (simp add: firmware_ok_def mg90s.system_ok_def latch_of_def controller_ok_def)

lemma control_round_ok:
  assumes "firmware_ok hal_ok app" "length buffer = 128"
  shows "firmware_ok hal_ok (snd (control_task_body clock buffer (last_update, app)))"
proof -
  have "task_ok app" using assms(1) by (simp add: firmware_ok_def)
  from control_round_steps [OF this assms(2)] show ?thesis
    using assms(1) by (induction rule: rtranclp_induct) (auto intro: app_step_ok)
qed

lemma halts_motion:
  fixes clock :: "nat \<Rightarrow> u32" and buffer :: "u8 list" and last_update :: u32
  assumes "firmware_ok hal_ok app" "latched (latch_of app)" "\<not> releasing (latch_of app)" "length buffer = 128"
  defines "app' \<equiv> snd (control_task_body clock buffer (last_update, app))"
  shows "app_servo app' = app_servo app \<and>
     ctl_state (gripperController (app_task app')) = UART_GRIPPER_STATE_EMERGENCY_STOP"
  using stopped_round [OF assms(1,4,2,3), of clock last_update] stopped_state [of hal_ok app']
    control_round_ok [OF assms(1,4), of clock last_update] by (simp add: app'_def)

text \<open>
  C3: In every reachable state of the firmware in which the safety latch holds and no release is
  under way, a round of the control task writes no servo and ends with the controller in
  EMERGENCY_STOP, whatever commands, ticks and retries the round contains.
\<close>

theorem emergency_stop_halts_motion:
  assumes "app_reachable hal_ok app" "safetyLatched (app_safety app)" "\<not> safetyReleasePending (app_safety app)"
    and "length buffer = 128" "control_task_body clock buffer (last_update, app) = (last_update', app')"
  shows "app_servo app' = app_servo app \<and>
     ctl_state (gripperController (app_task app')) = UART_GRIPPER_STATE_EMERGENCY_STOP"
  using halts_motion [OF reachable_ok [OF assms(1)] _ _ assms(4), of clock last_update] assms(2,3,5)
  by (simp add: latch_of_def)

section \<open>From the frame to the servos\<close>

lemma stop_frame_queued:
  assumes "frame_command f = cmd_code UART_CMD_EMERGENCY_STOP" "frame_length f = 0"
    and "safetyCommandQueueHandle app = Some q" "length (queue_items q) < queue_capacity q"
  obtains m where "msg_kind m = APP_CONTROL_MESSAGE_SAFETY_STOP"
    "safetyCommandQueueHandle (comm_rx_process_frame (Some f) app) = Some (q\<lparr>queue_items := queue_items q @ [m]\<rparr>)"
    "app_safety (comm_rx_process_frame (Some f) app) = app_safety app"
proof -
  let ?m = "zero_control_command\<lparr>msg_frame := f, msg_kind := APP_CONTROL_MESSAGE_SAFETY_STOP,
      msg_safety_epoch := safety_task_get_epoch (rx_count rx_received_frames_update app)\<rparr>"
  have "comm_rx_process_frame (Some f) app = rx_count rx_safety_commands_update ((rx_count rx_received_frames_update app)
      \<lparr>safetyCommandQueueHandle := Some (q\<lparr>queue_items := queue_items q @ [?m]\<rparr>)\<rparr>)"
    using assms by (simp add: comm_rx_process_frame_def comm_rx_common_payload_is_valid_def comm_rx_enqueue_def
        osMessageQueuePut_def Let_def)
  then show thesis by (intro that [of ?m]) simp_all
qed

lemma stop_message_latches:
  assumes "msg_kind m = APP_CONTROL_MESSAGE_SAFETY_STOP" "safetyCommandQueueHandle app = Some q"
    "queue_items q = [m]" "fst (request_of app) \<noteq> SAFETY_REQUEST_RELEASE"
  shows "latched (latch_of (safety_task_body app)) \<and> \<not> releasing (latch_of (safety_task_body app))"
proof -
  let ?a = "safety_task_receive app"
  have a: "?a = safety_task_enter_estop (frame_command (msg_frame m))
      (app\<lparr>safetyCommandQueueHandle := Some (q\<lparr>queue_items := []\<rparr>)\<rparr>)"
    using assms(1-3) by (simp add: safety_task_receive_def osMessageQueueGet_def SafetyTask_HandleSafetyCommand_def)
  then have latch: "latched (latch_of ?a)" "\<not> releasing (latch_of ?a)" by (simp_all add: latch_estop)
  have request: "safetyPendingRequest (app_safety ?a) \<noteq> SAFETY_REQUEST_RELEASE"
    using assms(4) request_receive [of app] by (simp add: request_of_def)
  let ?b = "?a\<lparr>app_safety := (app_safety ?a)\<lparr>safetyPendingRequest := SAFETY_REQUEST_NONE\<rparr>\<rparr>"
  have b: "latch_of ?b = latch_of ?a" by (simp add: latch_of_def)
  let ?c = "case safetyPendingRequest (app_safety ?a) of
      SAFETY_REQUEST_STOP \<Rightarrow> safety_task_enter_estop (cmd_code UART_CMD_EMERGENCY_STOP) ?b
    | SAFETY_REQUEST_RELEASE \<Rightarrow> safety_task_release (cmd_code UART_CMD_RESET_DEVICE) ?b
    | SAFETY_REQUEST_NONE \<Rightarrow> ?b"
  have c: "latched (latch_of ?c) \<and> \<not> releasing (latch_of ?c)"
    using latch request b by (simp add: latch_estop split: safety_request_t.split)
  then have "latch_of (safety_task_service_release ?c) = latch_of ?c" using latch_service_release by blast
  then show ?thesis using c by (simp add: safety_task_body_def SafetyTask_ServicePending_def Let_def)
qed

text \<open>
  C2: In every reachable state of the firmware, once an EMERGENCY_STOP frame is received with
  room in the empty safety queue and the safety task takes it, the device is latched and the
  next round of the control task, whatever waits in its queue and whatever the clock, leaves the
  servos alone and the controller in EMERGENCY_STOP.
\<close>

theorem emergency_stop_end_to_end:
  assumes "app_reachable hal_ok app"
    and frame: "frame_fits f" "frame_command f = cmd_code UART_CMD_EMERGENCY_STOP" "frame_length f = 0"
    and queue: "safetyCommandQueueHandle app = Some q" "queue_items q = []" "0 < queue_capacity q"
    and buffer: "length buffer = 128"
  defines "stopped \<equiv> safety_task_body (comm_rx_process_frame (Some f) app)"
  shows "safety_task_is_latched stopped \<and>
     (\<forall>clock last_update. let app' = snd (control_task_body clock buffer (last_update, stopped)) in
        app_servo app' = app_servo app \<and>
        ctl_state (gripperController (app_task app')) = UART_GRIPPER_STATE_EMERGENCY_STOP)"
proof -
  let ?a = "comm_rx_process_frame (Some f) app"
  have step1: "app_step app ?a" using frame(1) by (rule rx_frame)
  have ok: "firmware_ok hal_ok ?a" using reachable_ok [OF assms(1)] app_step_ok step1 by blast
  obtain m where m: "msg_kind m = APP_CONTROL_MESSAGE_SAFETY_STOP"
    "safetyCommandQueueHandle ?a = Some (q\<lparr>queue_items := [m]\<rparr>)"
    using stop_frame_queued [OF frame(2,3) queue(1)] queue(2,3) by auto
  have latch: "latched (latch_of stopped)" "\<not> releasing (latch_of stopped)"
    using stop_message_latches [OF m(1) m(2)] ok by (simp_all add: stopped_def firmware_ok_def)
  have ok': "firmware_ok hal_ok stopped"
    unfolding stopped_def safety_task_body_def by (intro app_step_ok [OF safety_service] app_step_ok [OF safety_message] ok)
  have "app_servo stopped = app_servo app"
    using system_safety(2,3) system_rx [of "Some f" app] unfolding stopped_def safety_task_body_def system_of_def
    by (metis prod.inject)
  then show ?thesis
    using halts_motion [OF ok' latch buffer] latch(1) by (simp add: safety_task_is_latched_def latch_of_def Let_def)
qed

section \<open>A release that gets stuck\<close>

definition demo_frame :: "u8 \<Rightarrow> u8 \<Rightarrow> u8 list \<Rightarrow> uart_frame_t" where
  "demo_frame sequence command payload =
     zero_frame\<lparr>frame_version := 1, frame_sequence := sequence, frame_command := command,
       frame_length := of_nat (length payload), frame_payload := payload @ replicate (128 - length payload) 0\<rparr>"

definition demo_cold :: "servo_hw ptr gripper_app" where
  "demo_cold = \<lparr>app_tx = demo_tx, app_task = zero_gripper_task, app_safety = zero_safety_task,
     app_rx_stats = app_rx_stats demo_app,
     gripperControlQueueHandle = osMessageQueueNew True 12,
     safetyCommandQueueHandle = osMessageQueueNew True 8, app_servo = demo_servos\<rparr>"

definition demo_boot :: "servo_hw ptr gripper_app" where
  "demo_boot = SafetyTask_Init (control_task_init (Some (gripper_servo_mg90s_port (\<lambda>_. True))) demo_cold)"

text \<open>
  An emergency stop, applied; a reset and a HOME right behind it; then the control task takes
  the two wake-up messages and the HOME before the safety task looks again.
\<close>

definition demo_stopped :: "servo_hw ptr gripper_app" where
  "demo_stopped = gripper_control_task_apply_pending_safety (safety_task_receive
     (comm_rx_process_frame (Some (demo_frame 1 (cmd_code UART_CMD_EMERGENCY_STOP) [])) demo_boot))"

definition demo_reset :: "servo_hw ptr gripper_app" where
  "demo_reset = comm_rx_process_frame (Some (demo_frame 3 (gripper_cmd_code UART_CMD_GRIPPER_HOME) [1, 0]))
     (safety_task_receive (comm_rx_process_frame (Some (demo_frame 2 (cmd_code UART_CMD_RESET_DEVICE) [])) demo_stopped))"

primrec demo_rounds :: "nat \<Rightarrow> servo_hw ptr gripper_app" where
  "demo_rounds 0 = demo_reset"
| "demo_rounds (Suc n) = control_task_receive 100 (replicate 128 0) (demo_rounds n)"

lemma demo_cold_ok: "cold demo_cold"
  by (simp add: cold_def demo_cold_def queued_def osMessageQueueNew_def tx_queue_def demo_tx_def demo_servos_def)

lemma demo_frame_fits: "length payload \<le> 128 \<Longrightarrow> frame_fits (demo_frame sequence command payload)"
  by (simp add: frame_fits_def demo_frame_def unat_of_nat take_bit_nat_eq_self)

lemma demo_boot_reachable: "app_reachable (\<lambda>_. True) demo_boot"
  unfolding demo_boot_def by (rule app_boot [OF demo_cold_ok])

lemma demo_stopped_reachable: "app_reachable (\<lambda>_. True) demo_stopped"
  unfolding demo_stopped_def
  by (intro app_run [OF _ control_pending] app_run [OF _ safety_message]
      app_run [OF _ rx_frame [OF demo_frame_fits]] demo_boot_reachable) simp

lemma demo_rounds_reachable:
  "(\<And>k. k < n \<Longrightarrow> \<not> gripperPendingResponseValid (app_task (demo_rounds k))) \<Longrightarrow> app_reachable (\<lambda>_. True) (demo_rounds n)"
proof (induction n)
  case 0
  show ?case
    unfolding demo_rounds.simps demo_reset_def
    by (intro app_run [OF _ safety_message] app_run [OF _ rx_frame [OF demo_frame_fits]] demo_stopped_reachable) simp_all
next
  case (Suc n)
  have "app_reachable (\<lambda>_. True) (demo_rounds n)"
    by (rule Suc.IH) (rule Suc.prems, rule less_SucI)
  moreover have "app_step (demo_rounds n) (control_task_receive 100 (replicate 128 0) (demo_rounds n))"
    by (rule control_message) (rule Suc.prems, rule lessI, rule length_replicate)
  ultimately show ?case unfolding demo_rounds.simps by (rule app_run)
qed

definition demo_summary ::
  "servo_hw ptr gripper_app \<Rightarrow> bool \<times> bool \<times> u32 \<times> control_command_t list \<times> uart_gripper_state_t \<times>
     uart_gripper_state_t \<times> bool option" where
  "demo_summary app = (safetyLatched (app_safety app), safetyReleasePending (app_safety app),
     gripperSafetyPendingFlags (app_task app), queued (gripperControlQueueHandle app),
     ctl_state (gripperController (app_task app)), snap_state (gripperSnapshot (app_task app)),
     map_option servo_enabled (app_servo app))"

lemma demo_stall:
  "demo_summary (demo_rounds 3) = (True, True, 0, [], UART_GRIPPER_STATE_HOMING, UART_GRIPPER_STATE_HOMING, Some True)"
  by code_simp

lemma demo_rounds_idle: "k < 3 \<Longrightarrow> \<not> gripperPendingResponseValid (app_task (demo_rounds k))"
proof -
  have "\<not> gripperPendingResponseValid (app_task (demo_rounds 0))" by code_simp
  moreover have "\<not> gripperPendingResponseValid (app_task (demo_rounds (Suc 0)))" by code_simp
  moreover have "\<not> gripperPendingResponseValid (app_task (demo_rounds (Suc (Suc 0))))" by code_simp
  moreover assume "k < 3"
  then have "k = 0 \<or> k = Suc 0 \<or> k = Suc (Suc 0)" by linarith
  ultimately show ?thesis by metis
qed

text \<open>
  C22: A reset followed at once by a HOME can leave the release handshake open: a reachable
  state exists with the latch still set, nothing pending for the controller, the arm homing, and
  neither the safety task's polling nor another reset changing anything.
\<close>

theorem release_handshake_can_stall:
  "\<exists>app. app_reachable (\<lambda>_. True) app \<and> safetyLatched (app_safety app) \<and>
     gripperSafetyPendingFlags (app_task app) = 0 \<and> queued (gripperControlQueueHandle app) = [] \<and>
     ctl_state (gripperController (app_task app)) = UART_GRIPPER_STATE_HOMING \<and>
     (\<forall>cause. safety_task_release cause app = app) \<and> safety_task_service_release app = app"
proof (rule exI [of _ "demo_rounds 3"], intro conjI allI)
  let ?app = "demo_rounds 3"
  show "app_reachable (\<lambda>_. True) ?app" by (rule demo_rounds_reachable) (rule demo_rounds_idle)
  note facts = demo_stall [unfolded demo_summary_def prod.inject]
  show "safetyLatched (app_safety ?app)" "gripperSafetyPendingFlags (app_task ?app) = 0"
    "queued (gripperControlQueueHandle ?app) = []"
    "ctl_state (gripperController (app_task ?app)) = UART_GRIPPER_STATE_HOMING"
    using facts by blast+
  show "safety_task_release cause ?app = ?app" for cause
    using facts unfolding safety_task_release_def Let_def by metis
  have "snap_state (the (gripper_control_task_get_snapshot (Some (gripperSnapshot (app_task ?app))) ?app)) =
      UART_GRIPPER_STATE_HOMING"
    using facts unfolding gripper_control_task_get_snapshot_def by (metis option.sel option.distinct(1))
  then show "safety_task_service_release ?app = ?app"
    unfolding safety_task_service_release_def Let_def by (metis uart_gripper_state_t.distinct)
qed


section \<open>Concrete instances\<close>

theorem emergency_stop_latch_refines_witness:
  "latch_ok (latch_of (gripper_control_task_apply_pending_safety demo_boot))"
  using emergency_stop_latch_refines [OF demo_boot_reachable control_pending] by blast

theorem firmware_outputs_within_limits_witness:
  "fst (joint_range TIM_CHANNEL_1) \<le> unat (tim3_compare (the (app_servo (demo_rounds 3))) TIM_CHANNEL_1)"
proof -
  have "map_option servo_enabled (app_servo (demo_rounds 3)) = Some True"
    using demo_stall unfolding demo_summary_def prod.inject by blast
  then obtain h where h: "app_servo (demo_rounds 3) = Some h" "servo_enabled h" by blast
  have reach: "app_reachable (\<lambda>_. True) (demo_rounds 3)" by (rule demo_rounds_reachable) (rule demo_rounds_idle)
  show ?thesis
    using firmware_outputs_within_limits [OF reach h(1) disjI1, OF h(2), of TIM_CHANNEL_1] unfolding h(1) option.sel
    by (rule conjunct1)
qed

lemma demo_stopped_latched:
  "safetyLatched (app_safety demo_stopped)" "\<not> safetyReleasePending (app_safety demo_stopped)"
proof -
  have "(safetyLatched (app_safety demo_stopped), safetyReleasePending (app_safety demo_stopped)) = (True, False)"
    by code_simp
  then show "safetyLatched (app_safety demo_stopped)" "\<not> safetyReleasePending (app_safety demo_stopped)" by simp_all
qed

theorem emergency_stop_halts_motion_witness:
  "app_servo (snd (control_task_body (\<lambda>_. 100) (replicate 128 0) (0, demo_stopped))) = app_servo demo_stopped"
proof -
  obtain l app' where round: "control_task_body (\<lambda>_. 100) (replicate 128 0) (0, demo_stopped) = (l, app')"
    by fastforce
  show ?thesis
    using emergency_stop_halts_motion [OF demo_stopped_reachable demo_stopped_latched length_replicate round] round by simp
qed

theorem emergency_stop_end_to_end_witness:
  "safety_task_is_latched (safety_task_body
     (comm_rx_process_frame (Some (demo_frame 1 (cmd_code UART_CMD_EMERGENCY_STOP) [])) demo_boot))"
proof -
  let ?f = "demo_frame 1 (cmd_code UART_CMD_EMERGENCY_STOP) []"
  have f: "frame_fits ?f" "frame_command ?f = cmd_code UART_CMD_EMERGENCY_STOP" "frame_length ?f = 0"
    using demo_frame_fits [of "[]"] by (simp_all add: demo_frame_def)
  have q: "safetyCommandQueueHandle demo_boot = Some \<lparr>queue_capacity = 8, queue_items = []\<rparr>"
    by (simp add: demo_boot_def SafetyTask_Init_def control_task_init_def Let_def split_def publish_effect demo_cold_def
        osMessageQueueNew_def)
  have len: "length (replicate 128 (0 :: u8)) = 128" by simp
  have "queue_items \<lparr>queue_capacity = 8, queue_items = []\<rparr> = ([] :: control_command_t list)"
    "0 < queue_capacity \<lparr>queue_capacity = 8, queue_items = [] :: control_command_t list\<rparr>" by simp_all
  from emergency_stop_end_to_end [OF demo_boot_reachable f q this len] show ?thesis by (rule conjunct1)
qed

end
