(* ===== verification/Gripper_Reception.thy ===== *)
theory Gripper_Reception
  imports Gripper_Emergency
begin

text \<open>
  What the receive task makes of the bytes on the wire: any stream of bytes keeps the firmware
  within its reachable states, a stream of valid frames is processed frame by frame however the
  DMA cut it into chunks, and each frame is answered or queued once.
\<close>

section \<open>Bytes\<close>

definition rx_parsing :: "u8 list \<Rightarrow> 'hw comm_rx \<Rightarrow> bool" where
  "rx_parsing bs rx \<longleftrightarrow> parser_rel (commRxParser rx) bs \<and> frame_array_ok (rx_frame rx)"

lemma process_byte_effect:
  assumes "rx_parsing bs rx"
  obtains p f where "parser_rel p (snd (abs_feed bs b))" "frame_array_ok f"
    "fst (abs_feed bs b) = UART_PARSER_FRAME_READY \<Longrightarrow> frame_valid f \<and> frame_bytes f = bs @ [b]"
    "comm_rx_process_byte b rx = rx\<lparr>commRxParser := p, rx_frame := f,
       rx_app := (if fst (abs_feed bs b) = UART_PARSER_FRAME_READY then comm_rx_process_frame (Some f) (rx_app rx)
                  else if parser_result_is_error (fst (abs_feed bs b))
                  then rx_count rx_parser_errors_update (rx_app rx) else rx_app rx)\<rparr>"
proof -
  have rel: "parser_rel (commRxParser rx) bs" and arr: "frame_array_ok (rx_frame rx)"
    using assms by (simp_all add: rx_parsing_def)
  obtain p f where feed:
    "uart_parser_feed (Some (commRxParser rx)) b (Some (rx_frame rx)) = (fst (abs_feed bs b), Some p, Some f)"
    "parser_rel p (snd (abs_feed bs b))"
    "f = (if fst (abs_feed bs b) = UART_PARSER_FRAME_READY
          then decoded_into (rx_frame rx) (raw_to_frame (bs @ [b])) else rx_frame rx)"
    using uart_parser_feed_refines [OF rel] by metis
  have ready: "frame_valid f \<and> frame_bytes f = bs @ [b]" if "fst (abs_feed bs b) = UART_PARSER_FRAME_READY"
    using abs_feed_ready [OF _ that] that rel arr feed(3) decoded_into_bytes decoded_into_valid
    by (auto simp: parser_rel_def)
  then have "frame_array_ok f"
    using feed(3) arr by (cases "fst (abs_feed bs b) = UART_PARSER_FRAME_READY") (auto simp: frame_valid_def)
  then show thesis
    using feed(1,2) ready
    by (intro that [of p f]) (auto simp: comm_rx_process_byte_def Let_def)
qed

lemma frame_valid_fits: "frame_valid f \<Longrightarrow> frame_fits f"
  using command_payload_length_valid_length [of "frame_command f" "frame_length f"]
  by (auto simp: frame_fits_def frame_valid_def frame_array_ok_def payload_length_valid_iff)

lemma process_byte_steps:
  assumes "rx_parsing bs rx"
  shows "app_step\<^sup>*\<^sup>* (rx_app rx) (rx_app (comm_rx_process_byte b rx)) \<and>
     rx_parsing (snd (abs_feed bs b)) (comm_rx_process_byte b rx)"
proof -
  obtain p f where *: "parser_rel p (snd (abs_feed bs b))" "frame_array_ok f"
    "fst (abs_feed bs b) = UART_PARSER_FRAME_READY \<Longrightarrow> frame_valid f \<and> frame_bytes f = bs @ [b]"
    "comm_rx_process_byte b rx = rx\<lparr>commRxParser := p, rx_frame := f,
       rx_app := (if fst (abs_feed bs b) = UART_PARSER_FRAME_READY then comm_rx_process_frame (Some f) (rx_app rx)
                  else if parser_result_is_error (fst (abs_feed bs b))
                  then rx_count rx_parser_errors_update (rx_app rx) else rx_app rx)\<rparr>"
    using process_byte_effect [OF assms, of b] by metis
  then show ?thesis
    using frame_valid_fits [of f] by (auto simp: rx_parsing_def intro: rx_frame rx_error)
qed

lemma process_bytes_steps:
  "rx_parsing bs rx \<Longrightarrow>
     app_step\<^sup>*\<^sup>* (rx_app rx) (rx_app (foldl (\<lambda>rx b. comm_rx_process_byte b rx) rx input)) \<and>
     (\<exists>bs'. rx_parsing bs' (foldl (\<lambda>rx b. comm_rx_process_byte b rx) rx input))"
proof (induction input arbitrary: bs rx)
  case (Cons b input)
  note step = process_byte_steps [OF Cons.prems, of b]
  then show ?case
    using Cons.IH [of "snd (abs_feed bs b)" "comm_rx_process_byte b rx"] by (auto intro: rtranclp_trans)
qed auto

text \<open>A valid frame, byte by byte.\<close>

lemma process_frame_bytes:
  assumes f: "frame_valid f"
  shows "frame_bytes f = bs @ rest \<Longrightarrow> rest \<noteq> [] \<Longrightarrow> rx_parsing bs rx \<Longrightarrow>
    \<exists>f'. frame_valid f' \<and> frame_bytes f' = frame_bytes f \<and>
      rx_app (foldl (\<lambda>rx b. comm_rx_process_byte b rx) rx rest) = comm_rx_process_frame (Some f') (rx_app rx) \<and>
      rx_parsing [] (foldl (\<lambda>rx b. comm_rx_process_byte b rx) rx rest)"
proof (induction rest arbitrary: bs rx)
  case (Cons b rest)
  have feed: "abs_feed bs b = (if rest = [] then (UART_PARSER_FRAME_READY, []) else (UART_PARSER_NO_FRAME, bs @ [b]))"
    by (rule frame_bytes_prefix_step [OF f Cons.prems(1)])
  obtain p f' where *: "parser_rel p (snd (abs_feed bs b))" "frame_array_ok f'"
    "fst (abs_feed bs b) = UART_PARSER_FRAME_READY \<Longrightarrow> frame_valid f' \<and> frame_bytes f' = bs @ [b]"
    "comm_rx_process_byte b rx = rx\<lparr>commRxParser := p, rx_frame := f',
       rx_app := (if fst (abs_feed bs b) = UART_PARSER_FRAME_READY then comm_rx_process_frame (Some f') (rx_app rx)
                  else if parser_result_is_error (fst (abs_feed bs b))
                  then rx_count rx_parser_errors_update (rx_app rx) else rx_app rx)\<rparr>"
    using process_byte_effect [OF Cons.prems(3), of b] by metis
  show ?case
  proof (cases "rest = []")
    case True
    then show ?thesis using * feed Cons.prems(1) by (intro exI [of _ f']) (auto simp: rx_parsing_def)
  next
    case False
    have "rx_parsing (bs @ [b]) (comm_rx_process_byte b rx)" "rx_app (comm_rx_process_byte b rx) = rx_app rx"
      using * feed False by (auto simp: rx_parsing_def parser_result_is_error_def)
    then show ?thesis using Cons.IH [of "bs @ [b]" "comm_rx_process_byte b rx"] Cons.prems(1) False by simp
  qed
qed simp

lemma process_stream:
  "list_all frame_valid fs \<Longrightarrow> rx_parsing [] rx \<Longrightarrow>
    \<exists>fs'. map frame_bytes fs' = map frame_bytes fs \<and>
      rx_app (foldl (\<lambda>rx b. comm_rx_process_byte b rx) rx (concat (map frame_bytes fs))) =
        foldl (\<lambda>app f. comm_rx_process_frame (Some f) app) (rx_app rx) fs' \<and>
      rx_parsing [] (foldl (\<lambda>rx b. comm_rx_process_byte b rx) rx (concat (map frame_bytes fs)))"
proof (induction fs arbitrary: rx)
  case (Cons f fs)
  obtain f' where f': "frame_bytes f' = frame_bytes f"
    "rx_app (foldl (\<lambda>rx b. comm_rx_process_byte b rx) rx (frame_bytes f)) = comm_rx_process_frame (Some f') (rx_app rx)"
    "rx_parsing [] (foldl (\<lambda>rx b. comm_rx_process_byte b rx) rx (frame_bytes f))"
    using process_frame_bytes [of f "[]" "frame_bytes f" rx] Cons.prems wire.encode_not_Nil [of f] by auto
  obtain fs' where "map frame_bytes fs' = map frame_bytes fs"
      "rx_app (foldl (\<lambda>rx b. comm_rx_process_byte b rx) (foldl (\<lambda>rx b. comm_rx_process_byte b rx) rx (frame_bytes f)) (concat (map frame_bytes fs))) =
        foldl (\<lambda>app f. comm_rx_process_frame (Some f) app) (comm_rx_process_frame (Some f') (rx_app rx)) fs'"
      "rx_parsing [] (foldl (\<lambda>rx b. comm_rx_process_byte b rx) (foldl (\<lambda>rx b. comm_rx_process_byte b rx) rx (frame_bytes f)) (concat (map frame_bytes fs)))"
    using Cons.IH [OF _ f'(3)] Cons.prems(1) f'(2) by auto
  then show ?case using f'(1) by (intro exI [of _ "f' # fs'"]) simp
qed simp

section \<open>Chunks\<close>

text \<open>The chunks of the receive queue, each well-formed, are their bytes.\<close>

definition process_chunks :: "u32 \<Rightarrow> uart_rx_chunk_t list \<Rightarrow> 'hw comm_rx \<Rightarrow> 'hw comm_rx" where
  "process_chunks now cs rx = foldl (\<lambda>rx c. comm_rx_process_chunk (Some c) now rx) rx cs"

lemma process_byte_tick:
  "comm_rx_process_byte b (rx\<lparr>commRxLastTick := t\<rparr>) = (comm_rx_process_byte b rx)\<lparr>commRxLastTick := t\<rparr>"
  by (simp add: comm_rx_process_byte_def Let_def split: prod.split)

lemma process_bytes_tick:
  "foldl (\<lambda>rx b. comm_rx_process_byte b rx) (rx\<lparr>commRxLastTick := t\<rparr>) input =
     (foldl (\<lambda>rx b. comm_rx_process_byte b rx) rx input)\<lparr>commRxLastTick := t\<rparr>"
  by (induction input arbitrary: rx) (simp_all add: process_byte_tick)

lemma process_chunks_bytes:
  "list_all chunk_ok cs \<Longrightarrow>
     \<exists>t. process_chunks now cs rx =
       (foldl (\<lambda>rx b. comm_rx_process_byte b rx) rx (concat (map chunk_bytes cs)))\<lparr>commRxLastTick := t\<rparr>"
proof (induction cs arbitrary: rx)
  case Nil
  show ?case by (intro exI [of _ "commRxLastTick rx"]) (simp add: process_chunks_def)
next
  case (Cons c cs)
  have chunk: "comm_rx_process_chunk (Some c) now rx =
      (foldl (\<lambda>rx b. comm_rx_process_byte b rx) rx (chunk_bytes c))\<lparr>commRxLastTick := now\<rparr>"
    using Cons.prems by (auto simp: comm_rx_process_chunk_def chunk_ok_def chunk_bytes_def word_less_nat_alt)
  obtain t where "process_chunks now cs (comm_rx_process_chunk (Some c) now rx) =
      (foldl (\<lambda>rx b. comm_rx_process_byte b rx) (comm_rx_process_chunk (Some c) now rx) (concat (map chunk_bytes cs)))
        \<lparr>commRxLastTick := t\<rparr>"
    using Cons by auto
  then show ?case unfolding chunk process_bytes_tick
    by (intro exI [of _ t]) (simp add: process_chunks_def chunk)
qed


text \<open>
  When the chunks taken from the receive queue carry the wire images of valid frames, cut
  anywhere, the receive task processes exactly these frames, once each and in order.
\<close>

theorem received_stream_processed_in_order:
  assumes "list_all frame_valid fs" "list_all chunk_ok cs" "concat (map chunk_bytes cs) = concat (map frame_bytes fs)"
    and "frame_array_ok (rx_frame rx)"
  shows "\<exists>fs'. map frame_bytes fs' = map frame_bytes fs \<and>
    rx_app (process_chunks now cs (comm_rx_task_init rx)) =
      foldl (\<lambda>app f. comm_rx_process_frame (Some f) app) (rx_app (comm_rx_task_init rx)) fs'"
proof -
  have "rx_parsing [] (comm_rx_task_init rx)"
    using assms(4) parser_rel_zero by (simp add: rx_parsing_def comm_rx_task_init_def uart_parser_init_def Let_def)
  from process_stream [OF assms(1) this] show ?thesis
    using process_chunks_bytes [OF assms(2), of now "comm_rx_task_init rx"] assms(3) by auto
qed

text \<open>
  Whatever bytes arrive, valid frames, garbage or both, processing them keeps the firmware
  within its reachable states, where all its invariants hold.
\<close>

theorem received_bytes_keep_firmware_reachable:
  assumes "app_reachable hal_ok (rx_app rx)" "rx_parsing bs rx" "list_all chunk_ok cs"
  shows "app_reachable hal_ok (rx_app (process_chunks now cs rx))"
  using process_bytes_steps [OF assms(2), of "concat (map chunk_bytes cs)"] process_chunks_bytes [OF assms(3), of now rx]
    app_steps_reachable [OF _ assms(1)] by auto

section \<open>Where a frame goes\<close>

text \<open>The immediate answer is queued for transmission, or without room counted as dropped.\<close>

definition tx_room :: "'hw gripper_app \<Rightarrow> bool" where
  "tx_room app \<longleftrightarrow>
     (case commTxQueueHandle (app_tx app) of None \<Rightarrow> False | Some q \<Rightarrow> length (queue_items q) < queue_capacity q)"

definition replied :: "u8 list \<Rightarrow> uart_frame_t \<Rightarrow> 'hw gripper_app \<Rightarrow> 'hw gripper_app \<Rightarrow> bool" where
  "replied payload f app app' \<longleftrightarrow>
     gripperControlQueueHandle app' = gripperControlQueueHandle app \<and>
     safetyCommandQueueHandle app' = safetyCommandQueueHandle app \<and>
     (if tx_room app
      then tx_queue (app_tx app') =
             tx_queue (app_tx app) @ [tx_message (frame_sequence f) True (cmd_code UART_CMD_RESPONSE) payload]
      else tx_queue (app_tx app') = tx_queue (app_tx app) \<and>
           tx_dropped (commTxStats (app_tx app')) = tx_dropped (commTxStats (app_tx app)) + 1)"

lemma send_response_replied:
  "replied [st, frame_command f, e] f app
     (comm_rx_send_response (frame_sequence f) (frame_command f) st e (app_rx_stats_update g app))"
proof -
  let ?p = "[st, frame_command f, e]" and ?a = "app_rx_stats_update g app"
  have len: "unat (3 :: u8) \<le> length ?p" "unat (3 :: u8) \<le> 128" "UART_IS_VALID_COMMAND (cmd_code UART_CMD_RESPONSE)" by simp_all
  have send: "tx_call (CommTx_SendWithSequence (frame_sequence f) (cmd_code UART_CMD_RESPONSE) (Some ?p) 3) ?a =
      tx_call (comm_tx_enqueue (frame_sequence f) True (cmd_code UART_CMD_RESPONSE) (Some ?p) 3 0) ?a"
    by (simp add: tx_call_def CommTx_SendWithSequence_def)
  have take3: "take (unat (3 :: u8)) ?p = ?p" by simp
  show ?thesis
  proof (rule comm_tx_enqueue_cases [OF len, where sequence = "frame_sequence f" and use_sequence = True and prio = 0
        and tx = "app_tx app"])
    fix q stats
    assume "commTxQueueHandle (app_tx app) = Some q" "length (queue_items q) < queue_capacity q"
      "comm_tx_enqueue (frame_sequence f) True (cmd_code UART_CMD_RESPONSE) (Some ?p) 3 0 (app_tx app) =
        (0, (app_tx app)\<lparr>commTxQueueHandle := Some (q\<lparr>queue_items := queue_items q @
          [tx_message (frame_sequence f) True (cmd_code UART_CMD_RESPONSE) (take (unat (3 :: u8)) ?p)]\<rparr>), commTxStats := stats\<rparr>)"
    then show ?thesis
      unfolding replied_def comm_rx_send_response_def Let_def send take3 by (simp add: tx_call_def tx_queue_def tx_room_def)
  next
    assume "commTxQueueHandle (app_tx app) = None \<or>
        queue_capacity (the (commTxQueueHandle (app_tx app))) \<le> length (queue_items (the (commTxQueueHandle (app_tx app))))"
      "comm_tx_enqueue (frame_sequence f) True (cmd_code UART_CMD_RESPONSE) (Some ?p) 3 0 (app_tx app) =
        (-1, tx_count tx_dropped_update (app_tx app))"
    then show ?thesis
      unfolding replied_def comm_rx_send_response_def Let_def send by (auto simp: tx_call_def tx_queue_def tx_room_def split: option.split)
  qed
qed


text \<open>The message of a queued frame, at the end of its queue; the other queues stay.\<close>

definition queued_frame ::
  "command_queue \<Rightarrow> app_control_message_kind_t \<Rightarrow> uart_frame_t \<Rightarrow> 'hw gripper_app \<Rightarrow> 'hw gripper_app \<Rightarrow> bool" where
  "queued_frame q kind f app app' \<longleftrightarrow>
     queued (queue_handle q app') = queued (queue_handle q app) @
       [zero_control_command\<lparr>msg_frame := f, msg_kind := kind, msg_safety_epoch := safety_task_get_epoch app\<rparr>] \<and>
     (\<forall>q'. q' \<noteq> q \<longrightarrow> queue_handle q' app' = queue_handle q' app) \<and>
     tx_queue (app_tx app') = tx_queue (app_tx app)"

definition queue_room :: "command_queue \<Rightarrow> 'hw gripper_app \<Rightarrow> bool" where
  "queue_room q app \<longleftrightarrow>
     (case queue_handle q app of None \<Rightarrow> False | Some mq \<Rightarrow> length (queue_items mq) < queue_capacity mq)"

lemma queue_room_put: "queue_room q app \<longleftrightarrow> queue_handle q app \<noteq> NULL \<and> fst (osMessageQueuePut (queue_handle q app) m p) = osOK"
  by (auto simp: queue_room_def osMessageQueuePut_def split: option.splits)

lemma enqueue_routes:
  "(queue_room q app \<and> fst (comm_rx_enqueue q f k (app_rx_stats_update g app)) \<and>
    queued_frame q k f app (snd (comm_rx_enqueue q f k (app_rx_stats_update g app)))) \<or>
   (\<not> queue_room q app \<and> \<not> fst (comm_rx_enqueue q f k (app_rx_stats_update g app)) \<and>
    replied [status_code UART_STATUS_BUSY, frame_command f, error_code UART_ERROR_BUSY] f app
      (snd (comm_rx_enqueue q f k (app_rx_stats_update g app))))"
proof -
  let ?a = "app_rx_stats_update g app"
  let ?m = "zero_control_command\<lparr>msg_frame := f, msg_kind := k, msg_safety_epoch := safety_task_get_epoch app\<rparr>"
  let ?put = "osMessageQueuePut (queue_handle q app) ?m 0"
  have epoch: "safety_task_get_epoch ?a = safety_task_get_epoch app" by (simp add: safety_task_get_epoch_def)
  have handle: "queue_handle q ?a = queue_handle q app" by (cases q) simp_all
  show ?thesis
  proof (cases "queue_handle q app = NULL \<or> fst ?put \<noteq> osOK")
    case True
    then have "comm_rx_enqueue q f k ?a = (False, comm_rx_send_response (frame_sequence f) (frame_command f)
        (status_code UART_STATUS_BUSY) (error_code UART_ERROR_BUSY) (app_rx_stats_update
          (rx_queue_drops_update (\<lambda>n. n + 1) \<circ> g) app))"
      by (auto simp: comm_rx_enqueue_def Let_def split_def epoch handle)
    moreover have "\<not> queue_room q app" using True queue_room_put [of q app ?m 0] by blast
    ultimately show ?thesis using send_response_replied by simp
  next
    case False
    then have "comm_rx_enqueue q f k ?a = (True, set_queue_handle q (snd ?put) ?a)"
      by (simp add: comm_rx_enqueue_def Let_def split_def epoch handle)
    moreover have "queue_handle q' (set_queue_handle q (snd ?put) ?a) = queue_handle q' app" if "q' \<noteq> q" for q'
      using that by (cases q; cases q') simp_all
    moreover have "queue_handle q (set_queue_handle q (snd ?put) ?a) = snd ?put" by (cases q) simp_all
    moreover have "app_tx (set_queue_handle q (snd ?put) ?a) = app_tx app" by (cases q) simp_all
    ultimately show ?thesis
      using False queued_put [of "queue_handle q app" ?m 0] queue_room_put [of q app ?m 0]
      by (simp add: queued_frame_def)
  qed
qed

lemma routed_stats [simp]:
  "replied p f app (app_rx_stats_update g app') = replied p f app app'"
  "queued_frame q k f app (app_rx_stats_update g app') = queued_frame q k f app app'"
proof -
  have "queue_handle q (app_rx_stats_update g app') = queue_handle q app'" for q by (cases q) simp_all
  then show "replied p f app (app_rx_stats_update g app') = replied p f app app'"
    "queued_frame q k f app (app_rx_stats_update g app') = queued_frame q k f app app'"
    by (simp_all add: replied_def queued_frame_def tx_room_def)
qed

text \<open>What the contract calls a request to the controller: a gripper request, or GET_STATUS.\<close>

definition gripper_request_frame :: "uart_frame_t \<Rightarrow> bool" where
  "gripper_request_frame f \<longleftrightarrow>
     frame_command f = cmd_code UART_CMD_GET_STATUS \<and> frame_length f = 0 \<or>
     (\<exists>r. gripper_request_ok r \<and> to_u32 (frame_command f) = gripper_request_code r \<and>
          take (unat (frame_length f)) (frame_payload f) = gripper_request_bytes r)"

lemma request_frame_iff:
  assumes "frame_fits f" "frame_command f \<noteq> cmd_code UART_CMD_GET_STATUS"
  shows "gripper_request_frame f \<longleftrightarrow>
     uart_gripper_payload_is_valid (to_u32 (frame_command f)) (Some (frame_payload f)) (to_u32 (frame_length f))"
  using gripper_payload_valid [of "to_u32 (frame_length f)" "frame_payload f" "to_u32 (frame_command f)"] assms
  by (simp add: gripper_request_frame_def frame_fits_def)

lemma request_command_valid:
  "uart_gripper_payload_is_valid (to_u32 c) p n \<Longrightarrow> uart_gripper_command_is_valid (to_u32 c)"
  by (auto simp: uart_gripper_payload_is_valid_def uart_gripper_command_is_valid_def split: if_splits)

lemma gripper_request_codes:
  fixes c :: u8
  assumes "to_u32 c = gripper_request_code r"
    "c \<in> {cmd_code UART_CMD_PING, cmd_code UART_CMD_EMERGENCY_STOP, cmd_code UART_CMD_RESET_DEVICE, cmd_code UART_CMD_GET_STATUS}"
  shows False
  using assms by (cases r) (auto simp: to_u32_def)

lemma common_not_request:
  "frame_command f \<in> {cmd_code UART_CMD_PING, cmd_code UART_CMD_EMERGENCY_STOP, cmd_code UART_CMD_RESET_DEVICE} \<Longrightarrow>
     \<not> gripper_request_frame f"
  by (auto simp: gripper_request_frame_def dest: gripper_request_codes)

lemma status_request:
  assumes "frame_command f = cmd_code UART_CMD_GET_STATUS"
  shows "gripper_request_frame f \<longleftrightarrow> frame_length f = 0"
proof -
  have "to_u32 (frame_command f) \<noteq> gripper_request_code r" for r
    using gripper_request_codes [of "frame_command f" r] assms by blast
  then show ?thesis using assms by (simp add: gripper_request_frame_def)
qed

text \<open>
  Where a frame belongs: a stop and a reset without payload to the safety task, a request of the
  contract to the control task, and everything else to nobody.
\<close>

definition frame_route :: "uart_frame_t \<Rightarrow> (command_queue \<times> app_control_message_kind_t) option" where
  "frame_route f =
     (if frame_command f = cmd_code UART_CMD_EMERGENCY_STOP \<and> frame_length f = 0
      then Some (SAFETY_COMMAND_QUEUE, APP_CONTROL_MESSAGE_SAFETY_STOP)
      else if frame_command f = cmd_code UART_CMD_RESET_DEVICE \<and> frame_length f = 0
      then Some (SAFETY_COMMAND_QUEUE, APP_CONTROL_MESSAGE_SAFETY_RELEASE)
      else if gripper_request_frame f then Some (GRIPPER_CONTROL_QUEUE, APP_CONTROL_MESSAGE_UART_COMMAND)
      else None)"

text \<open>The answer to a frame that belongs to nobody.\<close>

definition immediate_answer :: "uart_frame_t \<Rightarrow> u8 list" where
  "immediate_answer f =
     (if frame_command f = cmd_code UART_CMD_PING \<and> frame_length f = 0
      then [status_code UART_STATUS_SUCCESS, frame_command f, error_code UART_ERROR_NONE]
      else if frame_command f \<in> {cmd_code UART_CMD_PING, cmd_code UART_CMD_EMERGENCY_STOP,
                cmd_code UART_CMD_RESET_DEVICE, cmd_code UART_CMD_GET_STATUS}
              \<or> uart_gripper_command_is_valid (to_u32 (frame_command f))
      then [status_code UART_STATUS_NACK, frame_command f, error_code UART_ERROR_INVALID_PAYLOAD]
      else [status_code UART_STATUS_NACK, frame_command f, error_code UART_ERROR_UNSUPPORTED_COMMAND])"

text \<open>
  C20: A received frame whose payload lies in its buffer is queued once, unchanged and stamped
  with the safety epoch, in the queue of the task it is for (gripper requests and GET_STATUS for
  the control task, stop and reset for the safety task) whenever that queue has room, and
  nothing is answered; only without room is it answered BUSY; a frame that is for no queue gets
  exactly the answer of the contract (PING its SUCCESS, a wrong payload or an unknown command
  its NACK). The answer is queued for transmission, and counted as dropped only if the transmit
  queue is full.
\<close>

theorem rx_frame_answered_or_queued:
  fixes app :: "'hw gripper_app"
  assumes "frame_fits f"
  shows "case frame_route f of
      Some (q, kind) \<Rightarrow>
        if queue_room q app then queued_frame q kind f app (comm_rx_process_frame (Some f) app)
        else replied [status_code UART_STATUS_BUSY, frame_command f, error_code UART_ERROR_BUSY] f app
               (comm_rx_process_frame (Some f) app)
    | None \<Rightarrow> replied (immediate_answer f) f app (comm_rx_process_frame (Some f) app)"
proof -
  let ?a = "rx_count rx_received_frames_update app" and ?c = "frame_command f"
  let ?busy = "[status_code UART_STATUS_BUSY, ?c, error_code UART_ERROR_BUSY]"
  have refuse: "replied [status_code UART_STATUS_NACK, ?c, error_code UART_ERROR_INVALID_PAYLOAD] f app (refuse_payload f ?a)"
    unfolding refuse_payload_def using send_response_replied
      [of "status_code UART_STATUS_NACK" f "error_code UART_ERROR_INVALID_PAYLOAD" app
        "rx_invalid_payloads_update (\<lambda>n. n + 1) \<circ> rx_received_frames_update (\<lambda>n. n + 1)"] by simp
  have control: "if queue_room GRIPPER_CONTROL_QUEUE app
      then queued_frame GRIPPER_CONTROL_QUEUE APP_CONTROL_MESSAGE_UART_COMMAND f app (queue_gripper_command f ?a)
      else replied ?busy f app (queue_gripper_command f ?a)"
    using enqueue_routes [of GRIPPER_CONTROL_QUEUE app f APP_CONTROL_MESSAGE_UART_COMMAND "rx_received_frames_update (\<lambda>n. n + 1)"]
    by (auto simp: queue_gripper_command_def split_def)
  have safety: "if queue_room SAFETY_COMMAND_QUEUE app
      then queued_frame SAFETY_COMMAND_QUEUE k f app (case comm_rx_enqueue SAFETY_COMMAND_QUEUE f k ?a of
        (accepted, app) \<Rightarrow> if accepted then rx_count rx_safety_commands_update app else app)
      else replied ?busy f app (case comm_rx_enqueue SAFETY_COMMAND_QUEUE f k ?a of
        (accepted, app) \<Rightarrow> if accepted then rx_count rx_safety_commands_update app else app)" for k
    using enqueue_routes [of SAFETY_COMMAND_QUEUE app f k "rx_received_frames_update (\<lambda>n. n + 1)"]
    by (auto simp: split_def)
  have ping: "replied [status_code UART_STATUS_SUCCESS, ?c, error_code UART_ERROR_NONE] f app
      (comm_rx_send_response (frame_sequence f) ?c (status_code UART_STATUS_SUCCESS) (error_code UART_ERROR_NONE) ?a)"
    by (rule send_response_replied)
  have unsupported: "replied [status_code UART_STATUS_NACK, ?c, error_code UART_ERROR_UNSUPPORTED_COMMAND] f app
      (comm_rx_send_response (frame_sequence f) ?c (status_code UART_STATUS_NACK) (error_code UART_ERROR_UNSUPPORTED_COMMAND)
        (rx_count rx_unsupported_commands_update ?a))"
    using send_response_replied [of "status_code UART_STATUS_NACK" f "error_code UART_ERROR_UNSUPPORTED_COMMAND" app
        "rx_unsupported_commands_update (\<lambda>n. n + 1) \<circ> rx_received_frames_update (\<lambda>n. n + 1)"] by simp
  consider "?c = cmd_code UART_CMD_PING" | "?c = cmd_code UART_CMD_EMERGENCY_STOP" | "?c = cmd_code UART_CMD_RESET_DEVICE"
    | "?c = cmd_code UART_CMD_GET_STATUS"
    | "?c \<notin> {cmd_code UART_CMD_PING, cmd_code UART_CMD_EMERGENCY_STOP, cmd_code UART_CMD_RESET_DEVICE, cmd_code UART_CMD_GET_STATUS}"
    by blast
  then show ?thesis
  proof cases
    case 1
    then show ?thesis using ping refuse common_not_request [of f]
      by (cases "frame_length f = 0")
        (simp_all add: frame_route_def immediate_answer_def comm_rx_process_frame_def comm_rx_common_payload_is_valid_def Let_def)
  next
    case 2
    then show ?thesis using safety [of APP_CONTROL_MESSAGE_SAFETY_STOP] refuse common_not_request [of f]
      by (cases "frame_length f = 0"; cases "queue_room SAFETY_COMMAND_QUEUE app")
        (simp_all add: frame_route_def immediate_answer_def comm_rx_process_frame_def comm_rx_common_payload_is_valid_def Let_def)
  next
    case 3
    then show ?thesis using safety [of APP_CONTROL_MESSAGE_SAFETY_RELEASE] refuse common_not_request [of f]
      by (cases "frame_length f = 0"; cases "queue_room SAFETY_COMMAND_QUEUE app")
        (simp_all add: frame_route_def immediate_answer_def comm_rx_process_frame_def comm_rx_common_payload_is_valid_def Let_def)
  next
    case 4
    then show ?thesis using control refuse status_request [of f]
      by (cases "frame_length f = 0"; cases "queue_room GRIPPER_CONTROL_QUEUE app")
        (simp_all add: frame_route_def immediate_answer_def comm_rx_process_frame_def comm_rx_common_payload_is_valid_def Let_def)
  next
    case 5
    have request: "gripper_request_frame f \<longleftrightarrow>
        uart_gripper_payload_is_valid (to_u32 ?c) (Some (frame_payload f)) (to_u32 (frame_length f))"
      using request_frame_iff [OF assms(1)] 5 by blast
    have "comm_rx_process_frame (Some f) app = (if uart_gripper_command_is_valid (to_u32 ?c)
        then (if \<not> gripper_request_frame f then refuse_payload f ?a else queue_gripper_command f ?a)
        else comm_rx_send_response (frame_sequence f) ?c (status_code UART_STATUS_NACK) (error_code UART_ERROR_UNSUPPORTED_COMMAND)
          (rx_count rx_unsupported_commands_update ?a))"
      using 5 by (simp add: comm_rx_process_frame_def Let_def request)
    moreover have "gripper_request_frame f \<Longrightarrow> uart_gripper_command_is_valid (to_u32 ?c)"
      using request request_command_valid by blast
    moreover have "frame_route f = (if gripper_request_frame f
        then Some (GRIPPER_CONTROL_QUEUE, APP_CONTROL_MESSAGE_UART_COMMAND) else None)"
      using 5 by (simp add: frame_route_def)
    moreover have "immediate_answer f = (if uart_gripper_command_is_valid (to_u32 ?c)
        then [status_code UART_STATUS_NACK, ?c, error_code UART_ERROR_INVALID_PAYLOAD]
        else [status_code UART_STATUS_NACK, ?c, error_code UART_ERROR_UNSUPPORTED_COMMAND])"
      using 5 by (simp add: immediate_answer_def)
    ultimately show ?thesis
      using control refuse unsupported
      by (cases "gripper_request_frame f"; cases "queue_room GRIPPER_CONTROL_QUEUE app") simp_all
  qed
qed


section \<open>Concrete instances\<close>

definition demo_rx :: "servo_hw ptr comm_rx" where
  "demo_rx = \<lparr>commRxParser = zero_parser, commRxLastTick = 0, rx_frame = zero_frame, rx_app = demo_app,
     rx_uart = demo_uart_rx\<rparr>"

definition demo_chunk :: uart_rx_chunk_t where
  "demo_chunk = \<lparr>chunk_length = 7, chunk_data = frame_bytes ping_frame @ replicate 57 0\<rparr>"

lemma demo_chunk_ok: "chunk_ok demo_chunk" "chunk_bytes demo_chunk = frame_bytes ping_frame"
proof -
  have "length (frame_bytes ping_frame) = 7"
    using length_frame_bytes [OF ping_frame_valid] by (simp add: ping_frame_def zero_frame_def)
  then show "chunk_ok demo_chunk" "chunk_bytes demo_chunk = frame_bytes ping_frame"
    by (simp_all add: chunk_ok_def chunk_bytes_def demo_chunk_def)
qed

theorem received_stream_processed_in_order_witness:
  "\<exists>f. frame_bytes f = frame_bytes ping_frame \<and>
     rx_app (process_chunks 5 [demo_chunk] (comm_rx_task_init demo_rx)) =
       comm_rx_process_frame (Some f) (rx_app (comm_rx_task_init demo_rx))"
proof -
  have "concat (map chunk_bytes [demo_chunk]) = concat (map frame_bytes [ping_frame])" using demo_chunk_ok by simp
  then show ?thesis
    using received_stream_processed_in_order [of "[ping_frame]" "[demo_chunk]" demo_rx 5] demo_chunk_ok ping_frame_valid
    by (auto simp: demo_rx_def Cons_eq_map_conv)
qed

theorem rx_frame_answered_or_queued_witness:
  "replied [status_code UART_STATUS_SUCCESS, 1, error_code UART_ERROR_NONE] ping_frame demo_app
     (comm_rx_process_frame (Some ping_frame) demo_app)"
proof -
  have ping: "frame_command ping_frame = cmd_code UART_CMD_PING" "frame_length ping_frame = 0"
    by (simp_all add: ping_frame_def zero_frame_def)
  then have "\<not> gripper_request_frame ping_frame" by (intro common_not_request) simp
  then have "frame_route ping_frame = None" "immediate_answer ping_frame = [status_code UART_STATUS_SUCCESS, 1, error_code UART_ERROR_NONE]"
    using ping by (simp_all add: frame_route_def immediate_answer_def)
  then show ?thesis
    using rx_frame_answered_or_queued [OF frame_valid_fits [OF ping_frame_valid], of demo_app] by simp
qed

theorem received_bytes_keep_firmware_reachable_witness:
  "app_reachable (\<lambda>_. True) (rx_app (process_chunks 5 [demo_chunk] (demo_rx\<lparr>rx_app := demo_boot, commRxParser := parser_reset_internal zero_parser\<rparr>)))"
proof -
  have start: "app_reachable (\<lambda>_. True) (rx_app (demo_rx\<lparr>rx_app := demo_boot, commRxParser := parser_reset_internal zero_parser\<rparr>))"
    using demo_boot_reachable by simp
  have idle: "rx_parsing [] (demo_rx\<lparr>rx_app := demo_boot, commRxParser := parser_reset_internal zero_parser\<rparr>)"
    using parser_rel_zero by (simp add: rx_parsing_def demo_rx_def)
  have "list_all chunk_ok [demo_chunk]" using demo_chunk_ok(1) by simp
  from received_bytes_keep_firmware_reachable [OF start idle this] show ?thesis .
qed

end
