(* ===== verification/Conveyor_Filter.thy ===== *)
theory Conveyor_Filter
  imports Uart_Protocol "HOL-Library.Sublist" "HOL-Library.Multiset"
begin

text \<open>
  The filter between the ultrasonic driver and the reports of the conveyor controller
  (\<open>sensor_filter.c\<close> and \<open>.h\<close> of \<open>stm32/conveyor-controller/Application\<close>): a median over the
  last three valid distances and a latch on the health of the measurement. The lemmas relate
  the ring buffer to a sliding window and the latch to the history of measurements.
\<close>

section \<open>State\<close>

abbreviation (input) SENSOR_FILTER_FAULT_THRESHOLD :: "'a::numeral"
  where "SENSOR_FILTER_FAULT_THRESHOLD \<equiv> 10"
abbreviation (input) SENSOR_FILTER_RECOVERY_COUNT :: "'a::numeral"
  where "SENSOR_FILTER_RECOVERY_COUNT \<equiv> 3"

record sensor_filter_t =
  filter_samples :: "u16 list" \<comment> \<open>\<open>samples[3]\<close>\<close>
  sample_count :: u8
  sample_index :: u8
  filter_faulted :: u8
  consecutive_faults :: u8
  consecutive_valid :: u8
  last_distance_cm :: u16

section \<open>Operations\<close>

definition median_of_3 :: "u16 \<Rightarrow> u16 \<Rightarrow> u16 \<Rightarrow> u16" where
  "median_of_3 a b c =
     (let (a, b) = (if a > b then (b, a) else (a, b));
          (b, c) = (if b > c then (c, b) else (b, c));
          (a, b) = (if a > b then (b, a) else (a, b))
      in b)"

definition sensor_filter_init :: "sensor_filter_t ptr \<Rightarrow> sensor_filter_t ptr" where
  "sensor_filter_init flt = map_option (\<lambda>f.
     f\<lparr>filter_samples := (filter_samples f)[0 := 0, 1 := 0, 2 := 0],
       sample_count := 0, sample_index := 0, filter_faulted := 0,
       consecutive_faults := 0, consecutive_valid := 0,
       last_distance_cm := UART_SENSOR_DISTANCE_UNKNOWN\<rparr>) flt"

definition sensor_filter_store :: "u16 \<Rightarrow> sensor_filter_t \<Rightarrow> sensor_filter_t" where
  "sensor_filter_store distance_cm f =
     (if sample_count f = 0
      then f\<lparr>filter_samples := (filter_samples f)[0 := distance_cm, 1 := distance_cm, 2 := distance_cm],
             sample_count := 3\<rparr>
      else f\<lparr>filter_samples := (filter_samples f)[unat (sample_index f) := distance_cm],
             sample_index := (sample_index f + 1) mod 3\<rparr>)"

definition sensor_filter_recover :: "sensor_filter_t \<Rightarrow> sensor_filter_t" where
  "sensor_filter_recover f =
     (if filter_faulted f \<noteq> 0
      then (let f = (if consecutive_valid f < 0xFF
                     then f\<lparr>consecutive_valid := consecutive_valid f + 1\<rparr> else f)
            in if consecutive_valid f \<ge> SENSOR_FILTER_RECOVERY_COUNT
               then f\<lparr>filter_faulted := 0, consecutive_valid := 0\<rparr> else f)
      else f)"

definition sensor_filter_record_sample :: "u16 \<Rightarrow> sensor_filter_t ptr \<Rightarrow> sensor_filter_t ptr" where
  "sensor_filter_record_sample distance_cm flt = map_option (\<lambda>f.
     (let f = f\<lparr>consecutive_faults := 0\<rparr>;
          f = sensor_filter_store distance_cm f;
          f = f\<lparr>last_distance_cm := median_of_3 (filter_samples f ! 0) (filter_samples f ! 1)
                                                (filter_samples f ! 2)\<rparr>
      in sensor_filter_recover f)) flt"

definition sensor_filter_record_fault :: "sensor_filter_t ptr \<Rightarrow> sensor_filter_t ptr" where
  "sensor_filter_record_fault flt = map_option (\<lambda>f.
     (let f = f\<lparr>consecutive_valid := 0\<rparr>;
          f = (if consecutive_faults f < 0xFF
               then f\<lparr>consecutive_faults := consecutive_faults f + 1\<rparr> else f)
      in if consecutive_faults f \<ge> SENSOR_FILTER_FAULT_THRESHOLD
         then f\<lparr>filter_faulted := 1, sample_count := 0, sample_index := 0,
                last_distance_cm := UART_SENSOR_DISTANCE_UNKNOWN\<rparr>
         else f)) flt"

definition sensor_filter_get_state :: "sensor_filter_t ptr \<Rightarrow> u8" where
  "sensor_filter_get_state flt =
     (case flt of None \<Rightarrow> sensor_code UART_SENSOR_FAULT
      | Some f \<Rightarrow> if filter_faulted f \<noteq> 0 then sensor_code UART_SENSOR_FAULT
                   else sensor_code UART_SENSOR_OK)"

definition sensor_filter_get_distance_cm :: "sensor_filter_t ptr \<Rightarrow> u16" where
  "sensor_filter_get_distance_cm flt =
     (case flt of None \<Rightarrow> UART_SENSOR_DISTANCE_UNKNOWN
      | Some f \<Rightarrow> if filter_faulted f \<noteq> 0 then UART_SENSOR_DISTANCE_UNKNOWN
                   else last_distance_cm f)"

section \<open>The median\<close>

definition median :: "u16 list \<Rightarrow> u16" where
  "median xs = sort xs ! (length xs div 2)"

lemma median_of_3_median: "median_of_3 a b c = median [a, b, c]"
proof -
  have "median_of_3 a b c = sort [a, b, c] ! 1"
    by (auto simp: median_of_3_def not_less)
  then show ?thesis by (simp only: median_def list.size) simp
qed

lemma median_mset: "mset xs = mset ys \<Longrightarrow> median xs = median ys"
proof -
  assume eq: "mset xs = mset ys"
  have "sort xs = sort ys"
    by (rule properties_for_sort) (simp_all add: eq)
  then show "median xs = median ys"
    using mset_eq_length [OF eq] by (simp add: median_def)
qed

section \<open>Histories of measurements\<close>

text \<open>
  A measurement is a distance or a failure. The filter after a history, from any memory
  that \<open>sensor_filter_init\<close> was given:
\<close>

type_synonym measurement = "u16 option"

definition filter_step :: "measurement \<Rightarrow> sensor_filter_t \<Rightarrow> sensor_filter_t" where
  "filter_step m f = the (case m of Some d \<Rightarrow> sensor_filter_record_sample d (Some f)
                                  | None \<Rightarrow> sensor_filter_record_fault (Some f))"

definition filter_after :: "sensor_filter_t \<Rightarrow> measurement list \<Rightarrow> sensor_filter_t" where
  "filter_after mem ms = fold filter_step ms (the (sensor_filter_init (Some mem)))"

lemma filter_after_simps [simp]:
  "filter_after mem [] = the (sensor_filter_init (Some mem))"
  "filter_after mem (ms @ [m]) = filter_step m (filter_after mem ms)"
  by (simp_all add: filter_after_def)

text \<open>The measurements of the history that end it: failures, and valid ones.\<close>

definition trailing_faults :: "measurement list \<Rightarrow> nat" where
  "trailing_faults ms = length (takeWhile (\<lambda>m. m = None) (rev ms))"

definition trailing_valid :: "measurement list \<Rightarrow> nat" where
  "trailing_valid ms = length (takeWhile (\<lambda>m. m \<noteq> None) (rev ms))"

lemma trailing_simps [simp]:
  "trailing_faults [] = 0" "trailing_faults (ms @ [None]) = Suc (trailing_faults ms)"
  "trailing_faults (ms @ [Some d]) = 0"
  "trailing_valid [] = 0" "trailing_valid (ms @ [None]) = 0"
  "trailing_valid (ms @ [Some d]) = Suc (trailing_valid ms)"
  by (simp_all add: trailing_faults_def trailing_valid_def)

text \<open>
  What the latch is meant to say, over the whole history: ten failures in a row were seen,
  and no three valid distances in a row since.
\<close>

definition fault_latched :: "measurement list \<Rightarrow> bool" where
  "fault_latched ms \<longleftrightarrow>
     (\<exists>xs ys. ms = xs @ replicate 10 None @ ys \<and>
        \<not> (\<exists>a b c. sublist [Some a, Some b, Some c] ys))"

text \<open>And as a machine on the two trailing counts, the form the code has.\<close>

fun latch_machine :: "measurement list \<Rightarrow> bool" where
  "latch_machine [] = False"
| "latch_machine (None # rms) = (latch_machine rms \<or> 9 \<le> trailing_faults (rev rms))"
| "latch_machine (Some d # rms) = (latch_machine rms \<and> trailing_valid (rev rms) < 2)"

text \<open>The window of valid distances since the latch was last set, oldest first.\<close>

fun window :: "measurement list \<Rightarrow> u16 list" where
  "window [] = []"
| "window (None # rms) = (if 9 \<le> trailing_faults (rev rms) then [] else window rms)"
| "window (Some d # rms) = (if window rms = [] then [d, d, d] else tl (window rms) @ [d])"


section \<open>The latch and the history\<close>

lemma trailing_faults_ge:
  "n \<le> trailing_faults ms \<longleftrightarrow> (\<exists>xs. ms = xs @ replicate n None)"
proof (induction n arbitrary: ms)
  case (Suc n)
  show ?case
  proof (cases ms rule: rev_cases)
    case (snoc ms' m)
    then show ?thesis
      using Suc.IH [of ms'] by (cases m) (auto simp: replicate_append_same [symmetric])
  qed simp
qed simp

lemma trailing_valid_ge:
  "n \<le> trailing_valid ms \<longleftrightarrow> (\<exists>xs ds. ms = xs @ map Some ds \<and> length ds = n)"
proof (induction n arbitrary: ms)
  case (Suc n)
  show ?case
  proof (cases ms rule: rev_cases)
    case (snoc ms' m)
    have "(\<exists>xs ds. ms' @ [m] = xs @ map Some ds \<and> length ds = Suc n) \<longleftrightarrow>
          (\<exists>d. m = Some d) \<and> (\<exists>xs ds. ms' = xs @ map Some ds \<and> length ds = n)"
    proof (intro iffI; elim conjE exE)
      fix d xs ds
      assume "m = Some d" "ms' = xs @ map Some ds" "length ds = n"
      then show "\<exists>xs ds. ms' @ [m] = xs @ map Some ds \<and> length ds = Suc n"
        by (intro exI [of _ xs] exI [of _ "ds @ [d]"]) simp
    qed (auto simp: length_Suc_conv_rev intro!: exI [of _ "_ :: u16 list"])
    then show ?thesis
      using Suc.IH [of ms'] snoc by (cases m) auto
  qed simp
qed simp

lemma fault_latched_None:
  "fault_latched (ms @ [None]) \<longleftrightarrow> fault_latched ms \<or> 9 \<le> trailing_faults ms"
proof
  assume "fault_latched (ms @ [None])"
  then obtain xs ys where eq: "ms @ [None] = xs @ replicate 10 None @ ys"
    and no: "\<not> (\<exists>a b c. sublist [Some a, Some b, Some c] ys)"
    by (auto simp: fault_latched_def)
  show "fault_latched ms \<or> 9 \<le> trailing_faults ms"
  proof (cases ys rule: rev_cases)
    case Nil
    then have "ms = xs @ replicate 9 None"
      using eq by (simp add: eval_nat_numeral)
    then show ?thesis by (auto simp: trailing_faults_ge)
  next
    case (snoc ys' m)
    then have "ms = xs @ replicate 10 None @ ys'" using eq by simp
    moreover have "\<not> (\<exists>a b c. sublist [Some a, Some b, Some c] ys')"
      using no snoc by (metis sublist_appendI sublist_append)
    ultimately show ?thesis by (auto simp: fault_latched_def)
  qed
next
  assume "fault_latched ms \<or> 9 \<le> trailing_faults ms"
  then show "fault_latched (ms @ [None])"
  proof
    assume "fault_latched ms"
    then obtain xs ys where eq: "ms = xs @ replicate 10 None @ ys"
      and no: "\<not> (\<exists>a b c. sublist [Some a, Some b, Some c] ys)"
      by (auto simp: fault_latched_def)
    have "\<not> sublist [Some a, Some b, Some c] (ys @ [None])" for a b c
      using no by (simp add: sublist_snoc)
    then show ?thesis using eq unfolding fault_latched_def by (metis append_assoc)
  next
    assume "9 \<le> trailing_faults ms"
    then obtain xs where "ms = xs @ replicate 9 None" by (auto simp: trailing_faults_ge)
    then have "ms @ [None] = xs @ replicate 10 None @ []" by (simp add: eval_nat_numeral)
    then show ?thesis unfolding fault_latched_def by (metis sublist_Nil_right list.distinct(1))
  qed
qed

lemma fault_latched_Some:
  "fault_latched (ms @ [Some d]) \<longleftrightarrow> fault_latched ms \<and> trailing_valid ms < 2"
proof
  assume "fault_latched (ms @ [Some d])"
  then obtain xs ys where eq: "ms @ [Some d] = xs @ replicate 10 None @ ys"
    and no: "\<not> (\<exists>a b c. sublist [Some a, Some b, Some c] ys)"
    by (auto simp: fault_latched_def)
  obtain ys' where ys: "ys = ys' @ [Some d]"
    using eq by (cases ys rule: rev_cases) (auto simp: replicate_append_same [symmetric] eval_nat_numeral)
  have ms: "ms = xs @ replicate 10 None @ ys'"
    using eq ys by simp
  have "\<not> (\<exists>a b c. sublist [Some a, Some b, Some c] ys')"
    using no ys by (simp add: sublist_snoc)
  then have "fault_latched ms"
    using ms by (auto simp: fault_latched_def)
  moreover have "trailing_valid ms < 2"
  proof (rule ccontr)
    assume "\<not> ?thesis"
    then obtain zs a b where "ms = zs @ [Some a, Some b]"
      using trailing_valid_ge [of 2 ms] by (auto simp: numeral_2_eq_2 length_Suc_conv)
    then have "\<exists>us. ys' = us @ [Some a, Some b]"
      using ms by (cases ys' rule: rev_cases; cases "butlast ys'" rule: rev_cases)
        (auto simp: eval_nat_numeral)
    then show False
      using no ys by (metis append_Cons append_Nil append_assoc sublist_append_leftI)
  qed
  ultimately show "fault_latched ms \<and> trailing_valid ms < 2" by simp
next
  assume *: "fault_latched ms \<and> trailing_valid ms < 2"
  then obtain xs ys where eq: "ms = xs @ replicate 10 None @ ys"
    and no: "\<not> (\<exists>a b c. sublist [Some a, Some b, Some c] ys)"
    by (auto simp: fault_latched_def)
  have "\<not> sublist [Some a, Some b, Some c] (ys @ [Some d])" for a b c
  proof
    assume "sublist [Some a, Some b, Some c] (ys @ [Some d])"
    then obtain us where "ys = us @ [Some a, Some b]"
      using no by (auto simp: sublist_snoc suffix_def Cons_eq_append_conv append_eq_append_conv2)
    then have "2 \<le> trailing_valid ms"
      using eq trailing_valid_ge [of 2 ms]
      by (auto intro!: exI [of _ "xs @ replicate 10 None @ us"] exI [of _ "[a, b]"])
    then show False using * by simp
  qed
  then show "fault_latched (ms @ [Some d])"
    using eq unfolding fault_latched_def by (metis append_assoc)
qed

lemma fault_latched_machine: "fault_latched ms \<longleftrightarrow> latch_machine (rev ms)"
proof (induction ms rule: rev_induct)
  case Nil
  show ?case by (simp add: fault_latched_def)
next
  case (snoc m ms)
  then show ?case
    by (cases m) (simp_all add: fault_latched_None fault_latched_Some)
qed

section \<open>The code and the history\<close>

definition filter_ok :: "measurement list \<Rightarrow> sensor_filter_t \<Rightarrow> bool" where
  "filter_ok ms f \<longleftrightarrow>
     length (filter_samples f) = 3 \<and>
     (filter_faulted f \<noteq> 0 \<longleftrightarrow> latch_machine (rev ms)) \<and>
     unat (consecutive_faults f) = min 255 (trailing_faults ms) \<and>
     unat (consecutive_valid f) = (if latch_machine (rev ms) then trailing_valid ms else 0) \<and>
     unat (consecutive_valid f) < 3 \<and>
     (sample_count f = 0 \<longleftrightarrow> window (rev ms) = []) \<and>
     sample_index f \<in> {0, 1, 2} \<and>
     (if window (rev ms) = []
      then sample_index f = 0 \<and> last_distance_cm f = UART_SENSOR_DISTANCE_UNKNOWN
      else window (rev ms) = rotate (unat (sample_index f)) (filter_samples f) \<and>
           last_distance_cm f = median (window (rev ms)))"

lemma filter_ok_init:
  "length (filter_samples mem) = 3 \<Longrightarrow> filter_ok [] (the (sensor_filter_init (Some mem)))"
  by (simp add: filter_ok_def sensor_filter_init_def)


lemma filter_ok_fault:
  assumes "filter_ok ms f"
  shows "filter_ok (ms @ [None]) (filter_step None f)"
proof -
  have cf: "consecutive_faults f < 255 \<longleftrightarrow> trailing_faults ms < 255"
    using assms by (simp add: filter_ok_def word_less_nat_alt min_def split: if_splits)
  have un: "unat (consecutive_faults f + 1) = Suc (trailing_faults ms)" if "trailing_faults ms < 255"
    using assms that by (simp add: filter_ok_def unat_word_ariths)
  have ge: "consecutive_faults f + 1 \<ge> 10 \<longleftrightarrow> 9 \<le> trailing_faults ms" if "trailing_faults ms < 255"
    using un [OF that] by (simp add: word_le_nat_alt)
  have "consecutive_faults f \<ge> 10" if "\<not> trailing_faults ms < 255"
    using assms that by (simp add: filter_ok_def word_le_nat_alt)
  then show ?thesis
    using assms cf un ge
    by (cases "trailing_faults ms < 255"; cases "9 \<le> trailing_faults ms")
      (auto simp: filter_ok_def filter_step_def sensor_filter_record_fault_def Let_def)
qed


lemma filter_okD:
  assumes "filter_ok ms f"
  shows "sample_count f = 0 \<longleftrightarrow> window (rev ms) = []"
    and "window (rev ms) = [] \<Longrightarrow> sample_index f = 0"
    and "window (rev ms) \<noteq> [] \<Longrightarrow>
      window (rev ms) = rotate (unat (sample_index f)) (filter_samples f) \<and>
      (sample_index f = 0 \<or> sample_index f = 1 \<or> sample_index f = 2)"
    and "length (filter_samples f) = 3"
    and "filter_faulted f \<noteq> 0 \<longleftrightarrow> latch_machine (rev ms)"
    and "unat (consecutive_valid f) = (if latch_machine (rev ms) then trailing_valid ms else 0)"
    and "unat (consecutive_valid f) < 3"
  using assms by (simp_all add: filter_ok_def)

lemma rotate_3: "rotate 0 [a, b, c] = [a, b, c]" "rotate (Suc 0) [a, b, c] = [b, c, a]"
  "rotate 2 [a, b, c] = [c, a, b]"
  by (simp_all add: rotate_def numeral_2_eq_2)

lemma next_index: "(0 + 1 :: u8) mod 3 = 1" "(1 + 1 :: u8) mod 3 = 2" "(2 + 1 :: u8) mod 3 = 0"
  by simp_all

lemma filter_ok_store:
  assumes "filter_ok ms f"
  shows "length (filter_samples (sensor_filter_store d f)) = 3"
    and "sample_count (sensor_filter_store d f) \<noteq> 0"
    and "sample_index (sensor_filter_store d f) \<in> {0, 1, 2}"
    and "window (Some d # rev ms) =
      rotate (unat (sample_index (sensor_filter_store d f))) (filter_samples (sensor_filter_store d f))"
proof -
  obtain a b c where s: "filter_samples f = [a, b, c]"
    using filter_okD(4) [OF assms] list_of_length_3 by blast
  consider (empty) "sample_count f = 0" "window (rev ms) = []" "sample_index f = 0"
    | (full) "sample_count f \<noteq> 0" "window (rev ms) = rotate (unat (sample_index f)) [a, b, c]"
       "sample_index f = 0 \<or> sample_index f = 1 \<or> sample_index f = 2"
    using filter_okD(1,2,3) [OF assms] s by metis
  then have "length (filter_samples (sensor_filter_store d f)) = 3 \<and>
      sample_count (sensor_filter_store d f) \<noteq> 0 \<and>
      sample_index (sensor_filter_store d f) \<in> {0, 1, 2} \<and>
      window (Some d # rev ms) =
        rotate (unat (sample_index (sensor_filter_store d f))) (filter_samples (sensor_filter_store d f))"
  proof cases
    case empty
    then show ?thesis by (simp add: sensor_filter_store_def s rotate_3)
  next
    case full
    then show ?thesis
      by (elim disjE) (simp_all add: sensor_filter_store_def s rotate_3 next_index)
  qed
  then show "length (filter_samples (sensor_filter_store d f)) = 3"
    and "sample_count (sensor_filter_store d f) \<noteq> 0"
    and "sample_index (sensor_filter_store d f) \<in> {0, 1, 2}"
    and "window (Some d # rev ms) =
      rotate (unat (sample_index (sensor_filter_store d f))) (filter_samples (sensor_filter_store d f))"
    by blast+
qed

lemma unat_numeral_2: "unat (2 :: u8) = 2"
  by simp

lemma median_of_window:
  assumes "length s = 3" and "i \<in> {0, 1, 2 :: u8}"
  shows "median_of_3 (s ! 0) (s ! 1) (s ! 2) = median (rotate (unat i) s)"
proof -
  obtain a b c where s: "s = [a, b, c]"
    using list_of_length_3 [OF assms(1)] by auto
  have "i = 0 \<or> i = 1 \<or> i = 2"
    using assms(2) by blast
  then have "rotate (unat i) s \<in> {[a, b, c], [b, c, a], [c, a, b]}"
    by (elim disjE) (simp_all only: s unat_0 unat_1 unat_numeral_2 rotate_3 insert_iff One_nat_def simp_thms)
  then have "mset (rotate (unat i) s) = mset [a, b, c]"
    by (elim insertE emptyE) simp_all
  from median_mset [OF this] show ?thesis
    by (simp add: s median_of_3_median)
qed

lemma filter_store_other [simp]:
  "filter_faulted (sensor_filter_store d f) = filter_faulted f"
  "consecutive_faults (sensor_filter_store d f) = consecutive_faults f"
  "consecutive_valid (sensor_filter_store d f) = consecutive_valid f"
  "last_distance_cm (sensor_filter_store d f) = last_distance_cm f"
  by (simp_all add: sensor_filter_store_def)

lemma filter_store_commute [simp]:
  "sensor_filter_store d (f\<lparr>consecutive_faults := n\<rparr>) = (sensor_filter_store d f)\<lparr>consecutive_faults := n\<rparr>"
  by (simp add: sensor_filter_store_def)

lemma filter_ok_sample:
  assumes "filter_ok ms f"
  shows "filter_ok (ms @ [Some d]) (filter_step (Some d) f)"
proof -
  let ?g = "sensor_filter_store d f"
  have med: "median_of_3 (filter_samples ?g ! 0) (filter_samples ?g ! 1) (filter_samples ?g ! 2) =
      median (window (Some d # rev ms))"
    using median_of_window filter_ok_store [OF assms, of d] by metis
  have ne: "window (Some d # rev ms) \<noteq> []" by simp
  have cv: "consecutive_valid f < 0xFF" "unat (consecutive_valid f) < 3"
    "unat (consecutive_valid f + 1) = Suc (unat (consecutive_valid f))"
    using filter_okD(7) [OF assms] by (simp_all add: word_less_nat_alt unat_word_ariths)
  have ge: "consecutive_valid f + 1 \<ge> 3 \<longleftrightarrow> 2 \<le> unat (consecutive_valid f)"
    using cv by (simp add: word_le_nat_alt)
  have latch: "filter_faulted f \<noteq> 0 \<longleftrightarrow> latch_machine (rev ms)"
    "latch_machine (rev ms) \<Longrightarrow> unat (consecutive_valid f) = trailing_valid ms"
    "\<not> latch_machine (rev ms) \<Longrightarrow> consecutive_valid f = 0"
    using filter_okD(5,6) [OF assms] by (simp_all add: unat_eq_0)
  show ?thesis
    using latch cv ge med ne filter_ok_store [OF assms, of d]
    by (cases "latch_machine (rev ms)"; cases "trailing_valid ms < 2")
      (simp_all add: filter_ok_def filter_step_def sensor_filter_record_sample_def
        sensor_filter_recover_def Let_def del: window.simps)
qed

lemma filter_ok_after:
  assumes "length (filter_samples mem) = 3"
  shows "filter_ok ms (filter_after mem ms)"
proof (induction ms rule: rev_induct)
  case Nil
  show ?case using filter_ok_init [OF assms] by simp
next
  case (snoc m ms)
  then show ?case
    by (cases m) (simp_all add: filter_ok_fault filter_ok_sample)
qed


section \<open>What is reported\<close>

text \<open>
  The valid distances since the memory of the filter was last cleared by ten failures in a
  row, and the last three of them, the first one counting three times.
\<close>

fun valid_since :: "measurement list \<Rightarrow> u16 list" where
  "valid_since [] = []"
| "valid_since (None # rms) = (if 9 \<le> trailing_faults (rev rms) then [] else valid_since rms)"
| "valid_since (Some d # rms) = valid_since rms @ [d]"

definition last_three :: "u16 list \<Rightarrow> u16 list" where
  "last_three ds = (if ds = [] then [] else drop (length ds - 1) (hd ds # hd ds # ds))"

lemma last_three_snoc:
  "last_three (ds @ [d]) = (if ds = [] then [d, d, d] else tl (last_three ds) @ [d])"
proof (cases ds)
  case (Cons e es)
  have "tl (drop (length es) (e # e # e # es)) = drop (Suc (length es)) (e # e # e # es)"
    by (simp only: drop_Suc tl_drop)
  moreover have "drop (length es) (e # e # es @ [d]) = drop (length es) (e # e # es) @ [d]"
    using drop_append [of "length es" "e # e # es" "[d]"] by simp
  ultimately show ?thesis by (simp add: last_three_def Cons)
qed (simp add: last_three_def)

lemma last_three_Nil: "last_three ds = [] \<longleftrightarrow> ds = []"
  by (cases ds) (simp_all add: last_three_def)

lemma window_last_three: "window rms = last_three (valid_since rms)"
  by (induction rms rule: window.induct)
    (simp_all add: last_three_snoc last_three_Nil, simp_all add: last_three_def)

text \<open>
  C36: After any history of samples and faults the filter reports FAULT exactly if ten faults in
  a row occurred with no three valid samples in a row after them, and its distance is then
  unknown; otherwise it is the median of the last three valid samples (the first one counted
  three times) since the window was cleared.
\<close>

theorem sensor_filter_reports:
  assumes "length (filter_samples mem) = 3"
  shows "sensor_filter_get_state (Some (filter_after mem ms)) =
           sensor_code (if fault_latched ms then UART_SENSOR_FAULT else UART_SENSOR_OK) \<and>
         sensor_filter_get_distance_cm (Some (filter_after mem ms)) =
           (let ds = valid_since (rev ms)
            in if fault_latched ms \<or> ds = [] then UART_SENSOR_DISTANCE_UNKNOWN
               else median (last_three ds))"
  using filter_ok_after [OF assms, of ms]
  by (auto simp: filter_ok_def fault_latched_machine sensor_filter_get_state_def Let_def
      sensor_filter_get_distance_cm_def window_last_three last_three_Nil)

definition demo_filter :: sensor_filter_t where
  "demo_filter = \<lparr>filter_samples = [7, 7, 7], sample_count = 9, sample_index = 9, filter_faulted = 9,
     consecutive_faults = 9, consecutive_valid = 9, last_distance_cm = 9\<rparr>"

theorem sensor_filter_reports_witness:
  "sensor_filter_get_distance_cm (Some (filter_after demo_filter
     (replicate 10 None @ [Some 60, Some 650, Some 52]))) = 60"
proof -
  let ?ms = "replicate 10 None @ [Some 60, Some 650, Some 52] :: measurement list"
  have rs: "rev ?ms = [Some 52, Some 650, Some 60] @ replicate 10 None"
    by simp
  have "length (filter_samples demo_filter) = 3"
    by (simp add: demo_filter_def)
  moreover have "valid_since (rev ?ms) = [60, 650, 52]"
    unfolding rs by (simp add: eval_nat_numeral trailing_faults_def)
  moreover have "\<not> fault_latched ?ms"
    unfolding fault_latched_machine rs by (simp add: trailing_valid_def)
  moreover have "median (last_three [60, 650, 52]) = 60"
    by (simp add: last_three_def median_def)
  ultimately show ?thesis
    using sensor_filter_reports [of demo_filter ?ms] by (simp add: Let_def)
qed

end
