(* ===== verification/Conveyor_Echo.thy ===== *)
theory Conveyor_Echo
  imports Uart_Protocol
begin

text \<open>
  The HC-SR04 ultrasonic driver of the conveyor controller (\<open>hc_sr04.c\<close> and \<open>.h\<close> of
  \<open>stm32/conveyor-controller/Application\<close>): trigger pulse, echo capture, conversion. The
  timers it reads are the free-running counters that \<open>Core/Src/tim.c\<close> sets up, of 32 bits
  (\<open>TIM2\<close>) and of 16 bits (\<open>TIM10\<close>).
\<close>

section \<open>Timers, pins and sensors\<close>

datatype tim_handle = htim2 | htim10

text \<open>\<open>Init.Period\<close> of the two counters: the last value before they wrap to zero.\<close>

primrec counter_period :: "tim_handle \<Rightarrow> u32" where
  "counter_period htim2 = 4294967295"
| "counter_period htim10 = 65535"

abbreviation (input) TIM_CHANNEL_1 :: u32 where "TIM_CHANNEL_1 \<equiv> 0x00"
abbreviation (input) TIM_CHANNEL_2 :: u32 where "TIM_CHANNEL_2 \<equiv> 0x04"
abbreviation (input) TIM_CHANNEL_3 :: u32 where "TIM_CHANNEL_3 \<equiv> 0x08"

datatype trig_pin = US1_TRIG | US2_TRIG | US3_TRIG | US4_TRIG

datatype ic_polarity = TIM_ICPOLARITY_RISING | TIM_ICPOLARITY_FALLING

datatype hc_sr04_result_t = HC_SR04_OK | HC_SR04_BUSY | HC_SR04_TIMEOUT | HC_SR04_OUT_OF_RANGE

datatype hc_sr04_capture_state_t =
    HC_SR04_STATE_IDLE | HC_SR04_STATE_ARMED_RISING | HC_SR04_STATE_ARMED_FALLING
  | HC_SR04_STATE_DONE

abbreviation (input) HC_SR04_TRIG_PULSE_US :: "'a::numeral" where "HC_SR04_TRIG_PULSE_US \<equiv> 10"
abbreviation (input) HC_SR04_MIN_PULSE_US :: "'a::numeral" where "HC_SR04_MIN_PULSE_US \<equiv> 60"
abbreviation (input) HC_SR04_MAX_PULSE_US :: "'a::numeral" where "HC_SR04_MAX_PULSE_US \<equiv> 38000"
abbreviation (input) HC_SR04_MAX_SENSORS :: "'a::numeral" where "HC_SR04_MAX_SENSORS \<equiv> 4"

record hc_sr04_sensor_t =
  sr_timer :: tim_handle
  sr_channel :: u32
  sr_active_channel :: u32
  sr_trig :: trig_pin \<comment> \<open>\<open>trigPort\<close> and \<open>trigPin\<close>\<close>
  sr_state :: hc_sr04_capture_state_t
  rising_capture :: u32
  pulse_width_us :: u32
  capture_ready :: u8

text \<open>
  The sensors live in the channel table of the task; a pointer to one is its index there.
  \<open>registered_sensors\<close> lists the pointers that \<open>registeredSensors\<close> holds, up to
  \<open>registeredSensorCount\<close>. The last three fields are the hardware.
\<close>

record echo =
  sensors :: "hc_sr04_sensor_t list"
  registered_sensors :: "nat list"
  trig_level :: "trig_pin \<Rightarrow> bool"
  ic_polarity :: "tim_handle \<Rightarrow> u32 \<Rightarrow> ic_polarity"
  ic_started :: "tim_handle \<Rightarrow> u32 \<Rightarrow> bool"

definition update_sensor :: "nat \<Rightarrow> (hc_sr04_sensor_t \<Rightarrow> hc_sr04_sensor_t) \<Rightarrow> echo \<Rightarrow> echo" where
  "update_sensor i f e = e\<lparr>sensors := (sensors e)[i := f (sensors e ! i)]\<rparr>"

definition write_trig :: "trig_pin \<Rightarrow> bool \<Rightarrow> echo \<Rightarrow> echo" where
  "write_trig pin level e = e\<lparr>trig_level := (trig_level e)(pin := level)\<rparr>"

section \<open>Operations\<close>

definition hc_sr04_active_channel_for :: "u32 \<Rightarrow> u32" where
  "hc_sr04_active_channel_for channel = push_bit (unat (drop_bit 2 channel)) 1"

definition hc_sr04_set_polarity :: "nat \<Rightarrow> ic_polarity \<Rightarrow> echo \<Rightarrow> echo" where
  "hc_sr04_set_polarity i polarity e =
     (let s = sensors e ! i
      in e\<lparr>ic_polarity := (ic_polarity e)(sr_timer s := (ic_polarity e (sr_timer s))
                                            (sr_channel s := polarity))\<rparr>)"

text \<open>
  The busy wait reads the counter again and again: \<open>counter k\<close> is its \<open>k\<close>-th reading. The
  result is the reading that ended the wait, and no result means that none does.
\<close>

partial_function (option) delay_loop :: "(nat \<Rightarrow> u32) \<Rightarrow> u32 \<Rightarrow> u32 \<Rightarrow> nat \<Rightarrow> nat option" where
  "delay_loop counter start us k =
     (if counter k - start < us then delay_loop counter start us (Suc k) else Some k)"

definition hc_sr04_delay_us :: "(nat \<Rightarrow> u32) \<Rightarrow> u32 \<Rightarrow> nat option" where
  "hc_sr04_delay_us counter us = delay_loop counter (counter 0) us 1"

definition hc_sr04_init :: "nat ptr \<Rightarrow> tim_handle \<Rightarrow> u32 \<Rightarrow> trig_pin \<Rightarrow> echo \<Rightarrow> echo" where
  "hc_sr04_init sensor timer channel trig e =
     (case sensor of
        None \<Rightarrow> e
      | Some i \<Rightarrow>
          (let e = update_sensor i (\<lambda>s. s\<lparr>sr_timer := timer, sr_channel := channel,
                     sr_active_channel := hc_sr04_active_channel_for channel, sr_trig := trig,
                     sr_state := HC_SR04_STATE_IDLE, rising_capture := 0, pulse_width_us := 0,
                     capture_ready := 0\<rparr>) e;
               e = write_trig trig False e;
               e = e\<lparr>ic_started := (ic_started e)(timer := (ic_started e timer)(channel := True))\<rparr>
           in if length (registered_sensors e) < HC_SR04_MAX_SENSORS
              then e\<lparr>registered_sensors := registered_sensors e @ [i]\<rparr> else e))"

definition hc_sr04_trigger :: "(nat \<Rightarrow> u32) \<Rightarrow> nat ptr \<Rightarrow> echo \<Rightarrow> (hc_sr04_result_t \<times> echo) option" where
  "hc_sr04_trigger counter sensor e =
     (case sensor of
        None \<Rightarrow> Some (HC_SR04_BUSY, e)
      | Some i \<Rightarrow>
          if sr_state (sensors e ! i) = HC_SR04_STATE_ARMED_RISING
             \<or> sr_state (sensors e ! i) = HC_SR04_STATE_ARMED_FALLING
          then Some (HC_SR04_BUSY, e)
          else
            (let e = update_sensor i (\<lambda>s. s\<lparr>capture_ready := 0, pulse_width_us := 0\<rparr>) e;
                 e = hc_sr04_set_polarity i TIM_ICPOLARITY_RISING e;
                 e = update_sensor i (\<lambda>s. s\<lparr>sr_state := HC_SR04_STATE_ARMED_RISING\<rparr>) e;
                 e = write_trig (sr_trig (sensors e ! i)) True e
             in case hc_sr04_delay_us counter HC_SR04_TRIG_PULSE_US of
                  None \<Rightarrow> None
                | Some _ \<Rightarrow> Some (HC_SR04_OK, write_trig (sr_trig (sensors e ! i)) False e)))"

definition hc_sr04_is_ready :: "nat ptr \<Rightarrow> echo \<Rightarrow> bool" where
  "hc_sr04_is_ready sensor e \<longleftrightarrow>
     (case sensor of None \<Rightarrow> False | Some i \<Rightarrow> capture_ready (sensors e ! i) \<noteq> 0)"

definition hc_sr04_pulse_to_cm :: "u32 \<Rightarrow> u16" where
  "hc_sr04_pulse_to_cm pulse_us =
     (let distance_cm = (pulse_us * 343) div 20000;
          distance_cm = (if distance_cm > 0xFFFF then 0xFFFF else distance_cm)
      in ucast distance_cm)"

text \<open>The distance is written through a pointer, and only on success.\<close>

definition hc_sr04_read :: "nat ptr \<Rightarrow> u16 ptr \<Rightarrow> echo \<Rightarrow> hc_sr04_result_t \<times> u16 ptr \<times> echo" where
  "hc_sr04_read sensor distance_cm e =
     (case (sensor, distance_cm) of
        (Some i, Some d) \<Rightarrow>
          if capture_ready (sensors e ! i) = 0 then (HC_SR04_TIMEOUT, distance_cm, e)
          else
            (let pulse_us = pulse_width_us (sensors e ! i);
                 e = update_sensor i (\<lambda>s. s\<lparr>sr_state := HC_SR04_STATE_IDLE, capture_ready := 0\<rparr>) e
             in if pulse_us < HC_SR04_MIN_PULSE_US \<or> pulse_us > HC_SR04_MAX_PULSE_US
                then (HC_SR04_OUT_OF_RANGE, distance_cm, e)
                else (HC_SR04_OK, Some (hc_sr04_pulse_to_cm pulse_us), e))
      | _ \<Rightarrow> (HC_SR04_TIMEOUT, distance_cm, e))"

definition hc_sr04_abort :: "nat ptr \<Rightarrow> echo \<Rightarrow> echo" where
  "hc_sr04_abort sensor e =
     (case sensor of
        None \<Rightarrow> e
      | Some i \<Rightarrow> update_sensor i (\<lambda>s. s\<lparr>sr_state := HC_SR04_STATE_IDLE, capture_ready := 0\<rparr>) e)"

text \<open>The interrupt: timer, active channel of the handle, and the captured counter value.\<close>

record capture =
  cap_timer :: tim_handle
  cap_channel :: u32
  cap_value :: u32

definition capture_edge :: "u32 \<Rightarrow> nat \<Rightarrow> echo \<Rightarrow> echo" where
  "capture_edge captured i e =
     (case sr_state (sensors e ! i) of
        HC_SR04_STATE_ARMED_RISING \<Rightarrow>
          hc_sr04_set_polarity i TIM_ICPOLARITY_FALLING
            (update_sensor i (\<lambda>s. s\<lparr>rising_capture := captured,
                                      sr_state := HC_SR04_STATE_ARMED_FALLING\<rparr>) e)
      | HC_SR04_STATE_ARMED_FALLING \<Rightarrow>
          update_sensor i (\<lambda>s. s\<lparr>pulse_width_us := captured - rising_capture s,
                                   sr_state := HC_SR04_STATE_DONE, capture_ready := 1\<rparr>) e
      | _ \<Rightarrow> e)"

fun capture_loop :: "capture \<Rightarrow> nat list \<Rightarrow> echo \<Rightarrow> echo" where
  "capture_loop c [] e = e"
| "capture_loop c (i # is) e =
     (if sr_timer (sensors e ! i) \<noteq> cap_timer c \<or> cap_channel c \<noteq> sr_active_channel (sensors e ! i)
      then capture_loop c is e
      else capture_edge (cap_value c) i e)"

definition HAL_TIM_IC_CaptureCallback :: "capture \<Rightarrow> echo \<Rightarrow> echo" where
  "HAL_TIM_IC_CaptureCallback c e = capture_loop c (registered_sensors e) e"


section \<open>The counters\<close>

text \<open>What a free-running counter of one microsecond per step reads at time \<open>t\<close>.\<close>

definition counter_at :: "tim_handle \<Rightarrow> nat \<Rightarrow> u32" where
  "counter_at tim t = of_nat (t mod (unat (counter_period tim) + 1))"

lemma counter_at_10: "counter_at htim10 t = of_nat (t mod 65536)"
  by (simp add: counter_at_def)

lemma unat_counter_diff:
  assumes "s \<le> t" and "t - s < 65536"
  shows "unat (counter_at htim2 t - counter_at htim2 s) = t - s"
    and "s mod 65536 + (t - s) < 65536 \<Longrightarrow> unat (counter_at htim10 t - counter_at htim10 s) = t - s"
    and "65536 \<le> s mod 65536 + (t - s) \<Longrightarrow>
      unat (counter_at htim10 t - counter_at htim10 s) = 2 ^ 32 - 65536 + (t - s)"
proof -
  have mod32: "of_nat (n mod 4294967296) = (of_nat n :: u32)" for n
    by (simp add: word_unat_eq_iff unat_of_nat)
  have "counter_at htim2 t - counter_at htim2 s = of_nat (t - s)"
    using assms by (simp add: counter_at_def mod32 of_nat_diff)
  then show "unat (counter_at htim2 t - counter_at htim2 s) = t - s"
    using assms(2) by (simp only: unat_of_nat) simp
  have t: "t mod 65536 = (s mod 65536 + (t - s)) mod 65536"
    by (metis assms(1) le_add_diff_inverse mod_add_left_eq)
  { assume "s mod 65536 + (t - s) < 65536"
    then have "t mod 65536 = s mod 65536 + (t - s)" using t by simp
    then have "counter_at htim10 t - counter_at htim10 s = of_nat (t - s)"
      by (simp add: counter_at_def)
    then show "unat (counter_at htim10 t - counter_at htim10 s) = t - s"
      using assms(2) by (simp only: unat_of_nat) simp }
  { assume wrap: "65536 \<le> s mod 65536 + (t - s)"
    then have "t mod 65536 + 65536 = s mod 65536 + (t - s)"
      using t assms(2) by (simp add: mod_if [of "s mod 65536 + (t - s)"] le_mod_geq)
    then have "of_nat (t mod 65536) + 65536 = (of_nat (s mod 65536) + of_nat (t - s) :: u32)"
      by (metis of_nat_add of_nat_numeral)
    then have "counter_at htim10 t - counter_at htim10 s = of_nat (t - s) - 65536"
      by (simp add: counter_at_10 algebra_simps)
    also have "\<dots> = of_nat (2 ^ 32 - 65536 + (t - s))"
      by simp
    finally show "unat (counter_at htim10 t - counter_at htim10 s) = 2 ^ 32 - 65536 + (t - s)"
      using assms(2) by (simp only: unat_of_nat) simp }
qed


section \<open>The trigger pulse\<close>

lemma delay_loop_finds:
  assumes "i \<le> n" and "us \<le> counter n - start"
  shows "\<exists>k. delay_loop counter start us i = Some k \<and> i \<le> k \<and> k \<le> n \<and> us \<le> counter k - start"
  using assms
proof (induction "n - i" arbitrary: i)
  case 0
  then show ?case
    by (auto simp: delay_loop.simps [of _ _ _ i] not_le)
next
  case (Suc m)
  show ?case
  proof (cases "counter i - start < us")
    case True
    then have "Suc i \<le> n"
      using Suc.prems by (metis le_neq_implies_less Suc_leI not_le)
    moreover have "m = n - Suc i"
      using Suc.hyps(2) by simp
    ultimately obtain k where "delay_loop counter start us (Suc i) = Some k" "Suc i \<le> k" "k \<le> n"
        "us \<le> counter k - start"
      using Suc.hyps(1) [of "Suc i"] Suc.prems(2) by blast
    then show ?thesis
      using True by (auto simp: delay_loop.simps [of _ _ _ i])
  next
    case False
    then show ?thesis
      using Suc.prems by (auto simp: delay_loop.simps [of _ _ _ i])
  qed
qed

text \<open>The times at which the counter is read: they go up, and no gap reaches 60 ms.\<close>

definition reading_times :: "(nat \<Rightarrow> nat) \<Rightarrow> bool" where
  "reading_times at \<longleftrightarrow> (\<forall>k. at k < at (Suc k) \<and> at (Suc k) \<le> at k + 60000)"

lemma reading_times_mono:
  assumes "reading_times at"
  shows "at 0 + k \<le> at k"
proof (induction k)
  case (Suc k)
  have "at k < at (Suc k)" using assms by (simp add: reading_times_def)
  then show ?case using Suc by simp
qed simp

lemma first_reading_after:
  assumes "reading_times at"
  obtains n where "1 \<le> n" "n \<le> 10" "at 0 + 10 \<le> at n" "at n < at 0 + 60010"
proof -
  define n where "n = (LEAST k. at 0 + 10 \<le> at k)"
  have ten: "at 0 + 10 \<le> at 10" by (rule reading_times_mono [OF assms])
  have n: "at 0 + 10 \<le> at n" "n \<le> 10" "\<And>k. k < n \<Longrightarrow> at k < at 0 + 10"
    using ten unfolding n_def by (auto intro: LeastI Least_le dest: not_less_Least)
  obtain m where m: "n = Suc m" using n(1) by (cases n) auto
  have "at n \<le> at m + 60000" using assms m by (simp add: reading_times_def)
  moreover have "at m < at 0 + 10" using n(3) m by blast
  ultimately have "at n < at 0 + 60010" by simp
  moreover have "1 \<le> n" using m by simp
  ultimately show ?thesis using that n by blast
qed

lemma delay_us_returns:
  assumes "reading_times at"
  obtains k where "hc_sr04_delay_us (\<lambda>k. counter_at tim (at k)) 10 = Some k" "k \<le> 10"
    "tim = htim2 \<Longrightarrow> at 0 + 10 \<le> at k"
proof -
  obtain n where n: "1 \<le> n" "n \<le> 10" "at 0 + 10 \<le> at n" "at n < at 0 + 60010"
    by (rule first_reading_after [OF assms])
  have d: "at 0 \<le> at n" "at n - at 0 < 65536" using n by auto
  have "10 \<le> unat (counter_at tim (at n) - counter_at tim (at 0))"
    using n unat_counter_diff [OF d] by (cases tim; cases "at 0 mod 65536 + (at n - at 0) < 65536") auto
  then have "10 \<le> counter_at tim (at n) - counter_at tim (at 0)"
    by (simp add: word_le_nat_alt)
  from delay_loop_finds [where counter = "\<lambda>k. counter_at tim (at k)", OF n(1) this]
  obtain k where k: "hc_sr04_delay_us (\<lambda>k. counter_at tim (at k)) 10 = Some k" "k \<le> n"
    "10 \<le> counter_at tim (at k) - counter_at tim (at 0)"
    by (auto simp: hc_sr04_delay_us_def)
  have "at 0 + 10 \<le> at k" if "tim = htim2"
  proof (rule ccontr)
    assume short: "\<not> ?thesis"
    have "at 0 \<le> at k" using reading_times_mono [OF assms, of k] by simp
    with short have "unat (counter_at htim2 (at k) - counter_at htim2 (at 0)) < 10"
      using unat_counter_diff(1) [of "at 0" "at k"] by simp
    then show False using k(3) that by (simp add: word_le_nat_alt)
  qed
  then show ?thesis using that k n by simp
qed


lemma update_sensor_other [simp]:
  "registered_sensors (update_sensor i f e) = registered_sensors e"
  "trig_level (update_sensor i f e) = trig_level e"
  "length (sensors (update_sensor i f e)) = length (sensors e)"
  "i < length (sensors e) \<Longrightarrow> sensors (update_sensor i f e) ! i = f (sensors e ! i)"
  "i \<noteq> j \<Longrightarrow> sensors (update_sensor i f e) ! j = sensors e ! j"
  by (simp_all add: update_sensor_def)

lemma write_trig_other [simp]:
  "sensors (write_trig p l e) = sensors e"
  "registered_sensors (write_trig p l e) = registered_sensors e"
  "trig_level (write_trig p l e) = (trig_level e)(p := l)"
  by (simp_all add: write_trig_def)

lemma set_polarity_other [simp]:
  "sensors (hc_sr04_set_polarity i p e) = sensors e"
  "registered_sensors (hc_sr04_set_polarity i p e) = registered_sensors e"
  "trig_level (hc_sr04_set_polarity i p e) = trig_level e"
  by (simp_all add: hc_sr04_set_polarity_def Let_def)

text \<open>
  Triggering an idle sensor ends: as long as the counter advances between two reads by at
  least one and at most 60000 counts, the busy-wait leaves its loop after at most ten reads, on
  the 32-bit timer not before 10 us, and the driver waits for the rising edge with the trigger
  pin low.
\<close>

theorem trigger_returns:
  assumes "reading_times at" and "i < length (sensors e)"
    and "sr_state (sensors e ! i) \<in> {HC_SR04_STATE_IDLE, HC_SR04_STATE_DONE}"
  shows "\<exists>k e'. hc_sr04_delay_us (\<lambda>k. counter_at tim (at k)) HC_SR04_TRIG_PULSE_US = Some k \<and>
           k \<le> 10 \<and> (tim = htim2 \<longrightarrow> 10 \<le> at k - at 0) \<and>
           hc_sr04_trigger (\<lambda>k. counter_at tim (at k)) (Some i) e = Some (HC_SR04_OK, e') \<and>
           sr_state (sensors e' ! i) = HC_SR04_STATE_ARMED_RISING \<and>
           \<not> trig_level e' (sr_trig (sensors e ! i))"
proof -
  obtain k where "hc_sr04_delay_us (\<lambda>k. counter_at tim (at k)) 10 = Some k" "k \<le> 10"
    "tim = htim2 \<Longrightarrow> at 0 + 10 \<le> at k"
    using delay_us_returns [OF assms(1), of tim] by blast
  then show ?thesis
    using assms(2,3) by (auto simp: hc_sr04_trigger_def Let_def)
qed

definition idle_sensor :: "tim_handle \<Rightarrow> hc_sr04_sensor_t" where
  "idle_sensor tim = \<lparr>sr_timer = tim, sr_channel = 0, sr_active_channel = 1, sr_trig = US4_TRIG,
     sr_state = HC_SR04_STATE_IDLE, rising_capture = 0, pulse_width_us = 0, capture_ready = 0\<rparr>"

definition demo_echo :: "tim_handle \<Rightarrow> echo" where
  "demo_echo tim = \<lparr>sensors = [idle_sensor tim], registered_sensors = [0], trig_level = (\<lambda>_. False),
     ic_polarity = (\<lambda>_ _. TIM_ICPOLARITY_RISING), ic_started = (\<lambda>_ _. True)\<rparr>"

theorem trigger_returns_witness:
  "\<exists>k e'. hc_sr04_delay_us (\<lambda>k. counter_at htim2 (4294967290 + 3 * k)) 10 = Some k \<and> k \<le> 10 \<and>
     10 \<le> 3 * k \<and>
     hc_sr04_trigger (\<lambda>k. counter_at htim2 (4294967290 + 3 * k)) (Some 0) (demo_echo htim2) =
       Some (HC_SR04_OK, e')"
proof -
  have "reading_times (\<lambda>k. 4294967290 + 3 * k)"
    by (simp add: reading_times_def)
  moreover have "0 < length (sensors (demo_echo htim2))"
    "sr_state (sensors (demo_echo htim2) ! 0) \<in> {HC_SR04_STATE_IDLE, HC_SR04_STATE_DONE}"
    by (simp_all add: demo_echo_def idle_sensor_def)
  ultimately show ?thesis
    using trigger_returns [of "\<lambda>k. 4294967290 + 3 * k" 0 "demo_echo htim2" htim2] by auto
qed

text \<open>On the 16-bit counter a wrap during the pulse ends it early, here after one microsecond.\<close>

lemma htim10_trigger_pulse_cut_short:
  "hc_sr04_delay_us (\<lambda>k. counter_at htim10 (65535 + k)) HC_SR04_TRIG_PULSE_US = Some 1"
  by (simp add: hc_sr04_delay_us_def counter_at_def delay_loop.simps)

section \<open>The echo\<close>

lemma pulse_to_cm_nat:
  assumes "unat p \<le> 38000"
  shows "unat (hc_sr04_pulse_to_cm p) = unat p * 343 div 20000"
proof -
  have "unat (p * 343) = unat p * 343"
    using assms by (simp add: unat_word_ariths)
  then have cm: "unat ((p * 343) div 20000) = unat p * 343 div 20000"
    by (simp add: unat_div)
  also have "\<dots> \<le> 38000 * 343 div 20000"
    using assms by (intro div_le_mono mult_right_mono) simp_all
  finally have le: "unat ((p * 343) div 20000) \<le> 651" by simp
  then have "\<not> (p * 343) div 20000 > 0xFFFF"
    by (simp add: word_less_nat_alt)
  then show ?thesis
    using cm le by (simp add: hc_sr04_pulse_to_cm_def unsigned_ucast_eq take_bit_nat_eq_self_iff)
qed

text \<open>The sensors are registered once each, and no two share a timer channel.\<close>

definition echo_wired :: "echo \<Rightarrow> bool" where
  "echo_wired e \<longleftrightarrow>
     (\<forall>i\<in>set (registered_sensors e). i < length (sensors e)) \<and>
     distinct (map (\<lambda>i. (sr_timer (sensors e ! i), sr_active_channel (sensors e ! i)))
                 (registered_sensors e))"

definition edge_of :: "echo \<Rightarrow> nat \<Rightarrow> u32 \<Rightarrow> capture" where
  "edge_of e i v = \<lparr>cap_timer = sr_timer (sensors e ! i), cap_channel = sr_active_channel (sensors e ! i),
     cap_value = v\<rparr>"

lemma capture_loop_hits:
  assumes "i \<in> set is"
    and "distinct (map (\<lambda>i. (sr_timer (sensors e ! i), sr_active_channel (sensors e ! i))) is)"
  shows "capture_loop (edge_of e i v) is e = capture_edge v i e"
  using assms
proof (induction "is")
  case (Cons j js)
  show ?case
  proof (cases "j = i")
    case False
    then have "i \<in> set js" using Cons.prems by simp
    moreover have "(sr_timer (sensors e ! j), sr_active_channel (sensors e ! j)) \<noteq>
        (sr_timer (sensors e ! i), sr_active_channel (sensors e ! i))"
      using Cons.prems(2) \<open>i \<in> set js\<close> by (metis (no_types, lifting) distinct.simps(2) list.simps(9) image_eqI image_set)
    ultimately show ?thesis
      using Cons by (auto simp: edge_of_def)
  qed (simp add: edge_of_def)
qed simp

lemma capture_hits:
  assumes "echo_wired e" and "i \<in> set (registered_sensors e)"
  shows "HAL_TIM_IC_CaptureCallback (edge_of e i v) e = capture_edge v i e"
  using assms by (simp add: HAL_TIM_IC_CaptureCallback_def echo_wired_def capture_loop_hits)


lemma echo_wired_update:
  assumes "echo_wired e"
    and "\<And>s. sr_timer (f s) = sr_timer s" "\<And>s. sr_active_channel (f s) = sr_active_channel s"
  shows "echo_wired (update_sensor i f e)"
proof -
  have "(sr_timer (sensors (update_sensor i f e) ! j), sr_active_channel (sensors (update_sensor i f e) ! j)) =
        (sr_timer (sensors e ! j), sr_active_channel (sensors e ! j))" for j
    using assms(2,3) by (cases "i = j"; cases "i < length (sensors e)")
        (simp_all add: update_sensor_def list_update_beyond)
  then show ?thesis
    using assms(1) by (simp add: echo_wired_def)
qed

lemma echo_wired_polarity [simp]: "echo_wired (hc_sr04_set_polarity i p e) \<longleftrightarrow> echo_wired e"
  by (simp add: echo_wired_def)

text \<open>
  C37: An echo of 60 to 38000 us whose two edges are captured is read as its distance in cm and
  the sensor is idle again, whatever the free-running counter does on the 32-bit timer; on the
  16-bit timer an echo during which the counter wraps is refused as OUT_OF_RANGE.
\<close>

theorem echo_measured:
  fixes t w :: nat
  assumes wired: "echo_wired e" and i: "i \<in> set (registered_sensors e)"
    and armed: "sr_state (sensors e ! i) = HC_SR04_STATE_ARMED_RISING"
    and w: "60 \<le> w" "w \<le> 38000"
  defines "tim \<equiv> sr_timer (sensors e ! i)"
  defines "e1 \<equiv> HAL_TIM_IC_CaptureCallback (edge_of e i (counter_at tim t)) e"
  defines "e2 \<equiv> HAL_TIM_IC_CaptureCallback (edge_of e i (counter_at tim (t + w))) e1"
  shows "hc_sr04_is_ready (Some i) e2 \<and>
         (case hc_sr04_read (Some i) (Some d) e2 of
            (result, distance, e3) \<Rightarrow>
              sr_state (sensors e3 ! i) = HC_SR04_STATE_IDLE \<and> \<not> hc_sr04_is_ready (Some i) e3 \<and>
              (if tim = htim10 \<and> 65536 \<le> t mod 65536 + w
               then result = HC_SR04_OUT_OF_RANGE \<and> distance = Some d
               else result = HC_SR04_OK \<and> distance = Some (of_nat (w * 343 div 20000))))"
proof -
  have len: "i < length (sensors e)"
    using wired i by (simp add: echo_wired_def)
  let ?rise = "\<lambda>s. s\<lparr>rising_capture := counter_at tim t, sr_state := HC_SR04_STATE_ARMED_FALLING\<rparr>"
  have e1: "e1 = hc_sr04_set_polarity i TIM_ICPOLARITY_FALLING (update_sensor i ?rise e)"
    using capture_hits [OF wired i] armed by (simp add: e1_def capture_edge_def)
  have "echo_wired (update_sensor i ?rise e)"
    by (rule echo_wired_update [OF wired]) simp_all
  then have wired1: "echo_wired e1" "i \<in> set (registered_sensors e1)" "i < length (sensors e1)"
    using i len by (simp_all add: e1)
  have sens1: "sensors e1 ! i = ?rise (sensors e ! i)"
    using len by (simp add: e1)
  have edge: "edge_of e i v = edge_of e1 i v" for v
    by (simp add: edge_of_def sens1)
  define p where "p = counter_at tim (t + w) - counter_at tim t"
  have e2: "e2 = update_sensor i (\<lambda>s. s\<lparr>pulse_width_us := counter_at tim (t + w) - rising_capture s,
      sr_state := HC_SR04_STATE_DONE, capture_ready := 1\<rparr>) e1"
    using capture_hits [OF wired1(1,2)] by (simp add: e2_def edge capture_edge_def sens1)
  have len2: "i < length (sensors e2)" and sens2: "pulse_width_us (sensors e2 ! i) = p"
    "capture_ready (sensors e2 ! i) = 1"
    using wired1(3) by (simp_all add: e2 sens1 p_def)
  have p: "unat p = (if tim = htim10 \<and> 65536 \<le> t mod 65536 + w then 2 ^ 32 - 65536 + w else w)"
    using unat_counter_diff [of t "t + w"] w unfolding p_def by (cases tim) auto
  then have range: "(p < 60 \<or> p > 38000) \<longleftrightarrow> tim = htim10 \<and> 65536 \<le> t mod 65536 + w"
    using w by (simp add: word_less_nat_alt)
  have cm: "hc_sr04_pulse_to_cm p = of_nat (w * 343 div 20000)"
    if "\<not> (tim = htim10 \<and> 65536 \<le> t mod 65536 + w)"
  proof -
    have "w * 343 div 20000 \<le> 38000 * 343 div 20000"
      using w by (intro div_le_mono mult_right_mono) simp_all
    moreover have "unat (hc_sr04_pulse_to_cm p) = w * 343 div 20000"
      using pulse_to_cm_nat [of p] p that w by simp
    ultimately show ?thesis
      by (simp add: word_unat_eq_iff unat_of_nat)
  qed
  show ?thesis
    using sens2 len2 range cm by (auto simp: hc_sr04_read_def hc_sr04_is_ready_def Let_def)
qed


definition armed_echo :: "tim_handle \<Rightarrow> echo" where
  "armed_echo tim =
     update_sensor 0 (\<lambda>s. s\<lparr>sr_state := HC_SR04_STATE_ARMED_RISING\<rparr>) (demo_echo tim)"

theorem echo_measured_witness:
  "(let e1 = HAL_TIM_IC_CaptureCallback (edge_of (armed_echo htim10) 0 65000) (armed_echo htim10);
        e2 = HAL_TIM_IC_CaptureCallback (edge_of (armed_echo htim10) 0 464) e1
    in fst (hc_sr04_read (Some 0) (Some 0) e2) = HC_SR04_OUT_OF_RANGE)"
proof -
  have "echo_wired (armed_echo htim10)" "0 \<in> set (registered_sensors (armed_echo htim10))"
    "sr_state (sensors (armed_echo htim10) ! 0) = HC_SR04_STATE_ARMED_RISING"
    "sr_timer (sensors (armed_echo htim10) ! 0) = htim10"
    by (simp_all add: armed_echo_def demo_echo_def idle_sensor_def echo_wired_def update_sensor_def)
  then show ?thesis
    using echo_measured [where e = "armed_echo htim10" and i = 0 and w = 1000 and d = 0 and t = 65000]
    by (simp add: counter_at_10 Let_def split_def)
qed

end
