(* ===== verification/Conveyor_Messages.thy ===== *)
theory Conveyor_Messages
  imports Uart_Protocol Rtos_Queue
begin

text \<open>
  What the conveyor controller's tasks send each other
  (\<open>stm32/conveyor-controller/Application/Inc/app_messages.h\<close>). Two hosts are attached, the one
  of the input conveyor on UART 1 and the one of the sorting line on UART 6.
\<close>

datatype app_uart_channel_t = APP_UART_CHANNEL_1 | APP_UART_CHANNEL_6

abbreviation (input) UART_RX_CHUNK_SIZE :: "'a::numeral" where "UART_RX_CHUNK_SIZE \<equiv> 64"

record uart_rx_chunk_t =
  chunk_channel :: app_uart_channel_t
  chunk_length :: u16
  chunk_data :: "u8 list" \<comment> \<open>\<open>uint8_t data[UART_RX_CHUNK_SIZE]\<close>\<close>

datatype app_control_message_kind_t =
    APP_CONTROL_MESSAGE_UART_COMMAND
  | APP_CONTROL_MESSAGE_SAFETY_STOP
  | APP_CONTROL_MESSAGE_SAFETY_RELEASE

record control_command_t =
  msg_source :: app_uart_channel_t
  msg_frame :: uart_frame_t
  msg_kind :: app_control_message_kind_t
  msg_safety_epoch :: u32

end
