(* ===== verification/Conveyor_Drives.thy ===== *)
theory Conveyor_Drives
  imports Sorting_Commands Input_Commands
begin

text \<open>
  The actuators of the conveyor controller (\<open>stm32/conveyor-controller/Application\<close>): the
  motor power latch on the shared standby pin (\<open>conveyor_motor_power.c\<close>), the two TB6612FNG
  motor channels (\<open>input_motor_tb6612.c\<close>, \<open>sorting_motor_tb6612.c\<close>), the sorting gate
  with its two servos (\<open>sorting_gate_mg90s.c\<close>) and the ports behind which the controllers see
  them. The timer periods are those of \<open>Core/Src/tim.c\<close>.
\<close>

section \<open>Hardware and driver state\<close>

datatype pwm_output = TIM1_CH1 | TIM11_CH1 | TIM3_CH2 | TIM3_CH3

datatype motor_pin =
    MOTOR_STBY | INPUT_MOTOR_AIN1 | INPUT_MOTOR_AIN2 | SORTING_MOTOR_BIN1 | SORTING_MOTOR_BIN2

text \<open>\<open>__HAL_TIM_GET_AUTORELOAD\<close> of the timer of an output.\<close>

primrec autoreload :: "pwm_output \<Rightarrow> u32" where
  "autoreload TIM1_CH1 = 4199"
| "autoreload TIM11_CH1 = 4199"
| "autoreload TIM3_CH2 = 19999"
| "autoreload TIM3_CH3 = 19999"

text \<open>
  The statics of the drivers and the registers they write. What the HAL answers is part of the
  state that the steps of the environment set: the tick count, and for each output whether
  \<open>HAL_TIM_PWM_Start\<close> succeeds.
\<close>

record sorting_gate_mg90s_context_t =
  gate_initialized :: u8
  motion_active :: u8
  motion_started_at :: u32

record drives =
  motor_power_disable_latched :: u8
  input_motor_context :: u8 \<comment> \<open>\<open>inputMotorContext.initialized\<close>\<close>
  sorting_motor_context :: u8 \<comment> \<open>\<open>sortingMotorContext.initialized\<close>\<close>
  sorting_gate_context :: sorting_gate_mg90s_context_t
  gpio :: "motor_pin \<Rightarrow> bool"
  pwm_compare :: "pwm_output \<Rightarrow> u32"
  pwm_running :: "pwm_output \<Rightarrow> bool"
  hal_tick :: u32
  hal_pwm_ok :: "pwm_output \<Rightarrow> bool"

definition write_pin :: "motor_pin \<Rightarrow> bool \<Rightarrow> drives \<Rightarrow> drives" where
  "write_pin pin level d = d\<lparr>gpio := (gpio d)(pin := level)\<rparr>"

definition pwm_set_compare :: "pwm_output \<Rightarrow> u32 \<Rightarrow> drives \<Rightarrow> drives" where
  "pwm_set_compare out pulse d = d\<lparr>pwm_compare := (pwm_compare d)(out := pulse)\<rparr>"

definition HAL_TIM_PWM_Start :: "pwm_output \<Rightarrow> drives \<Rightarrow> bool \<times> drives" where
  "HAL_TIM_PWM_Start out d =
     (if hal_pwm_ok d out then (True, d\<lparr>pwm_running := (pwm_running d)(out := True)\<rparr>) else (False, d))"

section \<open>Motor power\<close>

definition conveyor_motor_power_enable :: "drives \<Rightarrow> u8 \<times> drives" where
  "conveyor_motor_power_enable d =
     (if motor_power_disable_latched d = 0 then (1, write_pin MOTOR_STBY True d) else (0, d))"

definition conveyor_motor_power_latch_disable :: "drives \<Rightarrow> drives" where
  "conveyor_motor_power_latch_disable d =
     write_pin MOTOR_STBY False (d\<lparr>motor_power_disable_latched := 1\<rparr>)"

definition conveyor_motor_power_release_latch :: "drives \<Rightarrow> drives" where
  "conveyor_motor_power_release_latch d =
     write_pin MOTOR_STBY False (d\<lparr>motor_power_disable_latched := 0\<rparr>)"

section \<open>The ports\<close>

text \<open>
  A port holds function pointers; its context is the driver's static, part of the hardware
  state here. The type variable stands for that state.
\<close>

datatype input_motor_result_t = INPUT_MOTOR_OK | INPUT_MOTOR_ERROR
datatype sorting_motor_result_t = SORTING_MOTOR_OK | SORTING_MOTOR_ERROR
datatype sorting_gate_result_t = SORTING_GATE_OK | SORTING_GATE_ERROR

record 'hw input_motor_port_t =
  input_motor_initialize :: "('hw \<Rightarrow> input_motor_result_t \<times> 'hw) ptr"
  input_motor_apply :: "('hw \<Rightarrow> u8 \<Rightarrow> u8 \<Rightarrow> input_motor_result_t \<times> 'hw) ptr"

record 'hw sorting_motor_port_t =
  sorting_motor_initialize :: "('hw \<Rightarrow> sorting_motor_result_t \<times> 'hw) ptr"
  sorting_motor_apply :: "('hw \<Rightarrow> u8 \<Rightarrow> u8 \<Rightarrow> sorting_motor_result_t \<times> 'hw) ptr"

text \<open>\<open>motion_complete\<close> writes its answer through a pointer, left alone on an error.\<close>

record 'hw sorting_gate_port_t =
  sorting_gate_initialize :: "('hw \<Rightarrow> sorting_gate_result_t \<times> 'hw) ptr"
  sorting_gate_move :: "('hw \<Rightarrow> uart_sorting_destination_t \<Rightarrow> sorting_gate_result_t \<times> 'hw) ptr"
  sorting_gate_motion_complete :: "('hw \<Rightarrow> u8 ptr \<Rightarrow> sorting_gate_result_t \<times> u8 ptr \<times> 'hw) ptr"

section \<open>The input motor\<close>

definition input_motor_tb6612_initialize :: "unit ptr \<Rightarrow> drives \<Rightarrow> input_motor_result_t \<times> drives" where
  "input_motor_tb6612_initialize context d =
     (case context of
        None \<Rightarrow> (INPUT_MOTOR_ERROR, d)
      | Some _ \<Rightarrow>
          (let d = pwm_set_compare TIM1_CH1 0 d;
               d = write_pin INPUT_MOTOR_AIN1 False d;
               d = write_pin INPUT_MOTOR_AIN2 False d
           in if input_motor_context d = 0
              then (let (ok, d) = HAL_TIM_PWM_Start TIM1_CH1 d
                    in if \<not> ok then (INPUT_MOTOR_ERROR, d)
                       else (INPUT_MOTOR_OK, d\<lparr>input_motor_context := 1\<rparr>))
              else (INPUT_MOTOR_OK, d)))"

definition input_motor_tb6612_apply ::
  "unit ptr \<Rightarrow> drives \<Rightarrow> u8 \<Rightarrow> u8 \<Rightarrow> input_motor_result_t \<times> drives" where
  "input_motor_tb6612_apply context d running speed =
     (if context = NULL \<or> input_motor_context d = 0 \<or> speed > 100 then (INPUT_MOTOR_ERROR, d)
      else
        (let period_counts = autoreload TIM1_CH1 + 1;
             pulse_counts = (period_counts * to_u32 speed + 50) div 100;
             d = pwm_set_compare TIM1_CH1 0 d;
             d = write_pin INPUT_MOTOR_AIN1 False d;
             d = write_pin INPUT_MOTOR_AIN2 False d
         in if running \<noteq> 0 \<and> speed \<noteq> 0
            then (let (enabled, d) = conveyor_motor_power_enable d
                  in if enabled = 0 then (INPUT_MOTOR_ERROR, d)
                     else (let d = write_pin INPUT_MOTOR_AIN1 True d
                           in (INPUT_MOTOR_OK, pwm_set_compare TIM1_CH1 pulse_counts d)))
            else (INPUT_MOTOR_OK, d)))"

definition input_motor_tb6612_port :: "drives input_motor_port_t" where
  "input_motor_tb6612_port =
     \<lparr>input_motor_initialize = Some (input_motor_tb6612_initialize (Some ())),
      input_motor_apply = Some (input_motor_tb6612_apply (Some ()))\<rparr>"

section \<open>The sorting motor\<close>

definition sorting_motor_tb6612_initialize ::
  "unit ptr \<Rightarrow> drives \<Rightarrow> sorting_motor_result_t \<times> drives" where
  "sorting_motor_tb6612_initialize context d =
     (case context of
        None \<Rightarrow> (SORTING_MOTOR_ERROR, d)
      | Some _ \<Rightarrow>
          (let d = pwm_set_compare TIM11_CH1 0 d;
               d = write_pin SORTING_MOTOR_BIN1 False d;
               d = write_pin SORTING_MOTOR_BIN2 False d
           in if sorting_motor_context d = 0
              then (let (ok, d) = HAL_TIM_PWM_Start TIM11_CH1 d
                    in if \<not> ok then (SORTING_MOTOR_ERROR, d)
                       else (SORTING_MOTOR_OK, d\<lparr>sorting_motor_context := 1\<rparr>))
              else (SORTING_MOTOR_OK, d)))"

definition sorting_motor_tb6612_apply ::
  "unit ptr \<Rightarrow> drives \<Rightarrow> u8 \<Rightarrow> u8 \<Rightarrow> sorting_motor_result_t \<times> drives" where
  "sorting_motor_tb6612_apply context d running speed =
     (if context = NULL \<or> sorting_motor_context d = 0 \<or> speed > 100 then (SORTING_MOTOR_ERROR, d)
      else
        (let period_counts = autoreload TIM11_CH1 + 1;
             pulse_counts = (period_counts * to_u32 speed + 50) div 100;
             d = pwm_set_compare TIM11_CH1 0 d;
             d = write_pin SORTING_MOTOR_BIN1 False d;
             d = write_pin SORTING_MOTOR_BIN2 False d
         in if running \<noteq> 0 \<and> speed \<noteq> 0
            then (let (enabled, d) = conveyor_motor_power_enable d
                  in if enabled = 0 then (SORTING_MOTOR_ERROR, d)
                     else (let d = write_pin SORTING_MOTOR_BIN1 True d
                           in (SORTING_MOTOR_OK, pwm_set_compare TIM11_CH1 pulse_counts d)))
            else (SORTING_MOTOR_OK, d)))"

definition sorting_motor_tb6612_port :: "drives sorting_motor_port_t" where
  "sorting_motor_tb6612_port =
     \<lparr>sorting_motor_initialize = Some (sorting_motor_tb6612_initialize (Some ())),
      sorting_motor_apply = Some (sorting_motor_tb6612_apply (Some ()))\<rparr>"

section \<open>The sorting gate\<close>

abbreviation (input) SORTING_GATE_MG90S_HOME_PULSE_US :: u32
  where "SORTING_GATE_MG90S_HOME_PULSE_US \<equiv> 1500"
abbreviation (input) SORTING_GATE_MG90S_DESTINATION_1_PULSE_US :: u32
  where "SORTING_GATE_MG90S_DESTINATION_1_PULSE_US \<equiv> 850"
abbreviation (input) SORTING_GATE_MG90S_DESTINATION_2_PULSE_US :: u32
  where "SORTING_GATE_MG90S_DESTINATION_2_PULSE_US \<equiv> SORTING_GATE_MG90S_HOME_PULSE_US"
abbreviation (input) SORTING_GATE_MG90S_DESTINATION_3_PULSE_US :: u32
  where "SORTING_GATE_MG90S_DESTINATION_3_PULSE_US \<equiv> SORTING_GATE_MG90S_HOME_PULSE_US"
abbreviation (input) SORTING_GATE_SG90_HOME_PULSE_US :: u32
  where "SORTING_GATE_SG90_HOME_PULSE_US \<equiv> 1500"
abbreviation (input) SORTING_GATE_SG90_DESTINATION_1_PULSE_US :: u32
  where "SORTING_GATE_SG90_DESTINATION_1_PULSE_US \<equiv> SORTING_GATE_SG90_HOME_PULSE_US"
abbreviation (input) SORTING_GATE_SG90_DESTINATION_2_PULSE_US :: u32
  where "SORTING_GATE_SG90_DESTINATION_2_PULSE_US \<equiv> 1100"
abbreviation (input) SORTING_GATE_SG90_DESTINATION_3_PULSE_US :: u32
  where "SORTING_GATE_SG90_DESTINATION_3_PULSE_US \<equiv> SORTING_GATE_SG90_HOME_PULSE_US"
abbreviation (input) SORTING_GATE_SETTLE_TIME_MS :: "'a::numeral"
  where "SORTING_GATE_SETTLE_TIME_MS \<equiv> 500"

record sorting_gate_pulses_t =
  mg90s_pulse :: u32
  sg90_pulse :: u32

primrec sorting_gate_pulses :: "uart_sorting_destination_t \<Rightarrow> sorting_gate_pulses_t" where
  "sorting_gate_pulses UART_SORTING_DESTINATION_NONE =
     \<lparr>mg90s_pulse = SORTING_GATE_MG90S_HOME_PULSE_US, sg90_pulse = SORTING_GATE_SG90_HOME_PULSE_US\<rparr>"
| "sorting_gate_pulses UART_SORTING_DESTINATION_1 =
     \<lparr>mg90s_pulse = SORTING_GATE_MG90S_DESTINATION_1_PULSE_US,
      sg90_pulse = SORTING_GATE_SG90_DESTINATION_1_PULSE_US\<rparr>"
| "sorting_gate_pulses UART_SORTING_DESTINATION_2 =
     \<lparr>mg90s_pulse = SORTING_GATE_MG90S_DESTINATION_2_PULSE_US,
      sg90_pulse = SORTING_GATE_SG90_DESTINATION_2_PULSE_US\<rparr>"
| "sorting_gate_pulses UART_SORTING_DESTINATION_3 =
     \<lparr>mg90s_pulse = SORTING_GATE_MG90S_DESTINATION_3_PULSE_US,
      sg90_pulse = SORTING_GATE_SG90_DESTINATION_3_PULSE_US\<rparr>"

definition sorting_gate_mg90s_move ::
  "unit ptr \<Rightarrow> drives \<Rightarrow> uart_sorting_destination_t \<Rightarrow> sorting_gate_result_t \<times> drives" where
  "sorting_gate_mg90s_move context d destination =
     (let pulses = sorting_gate_pulses destination;
          period_counts = autoreload TIM3_CH2 + 1
      in if context = NULL \<or> gate_initialized (sorting_gate_context d) = 0
            \<or> mg90s_pulse pulses = 0 \<or> sg90_pulse pulses = 0
            \<or> mg90s_pulse pulses \<ge> period_counts \<or> sg90_pulse pulses \<ge> period_counts
         then (SORTING_GATE_ERROR, d)
         else
           (let d = pwm_set_compare TIM3_CH2 (mg90s_pulse pulses) d;
                d = pwm_set_compare TIM3_CH3 (sg90_pulse pulses) d;
                gate = (sorting_gate_context d)\<lparr>motion_started_at := hal_tick d, motion_active := 1\<rparr>
            in (SORTING_GATE_OK, d\<lparr>sorting_gate_context := gate\<rparr>)))"

definition sorting_gate_mg90s_initialize ::
  "unit ptr \<Rightarrow> drives \<Rightarrow> sorting_gate_result_t \<times> drives" where
  "sorting_gate_mg90s_initialize context d =
     (case context of
        None \<Rightarrow> (SORTING_GATE_ERROR, d)
      | Some _ \<Rightarrow>
          if gate_initialized (sorting_gate_context d) = 0
          then
            (let d = pwm_set_compare TIM3_CH2 SORTING_GATE_MG90S_HOME_PULSE_US d;
                 d = pwm_set_compare TIM3_CH3 SORTING_GATE_SG90_HOME_PULSE_US d;
                 (ok, d) = HAL_TIM_PWM_Start TIM3_CH2 d
             in if \<not> ok
                then (SORTING_GATE_ERROR, pwm_set_compare TIM3_CH3 0 (pwm_set_compare TIM3_CH2 0 d))
                else
                  (let (ok, d) = HAL_TIM_PWM_Start TIM3_CH3 d
                   in if \<not> ok
                      then (SORTING_GATE_ERROR, pwm_set_compare TIM3_CH3 0 (pwm_set_compare TIM3_CH2 0 d))
                      else
                        (let gate = (sorting_gate_context d)\<lparr>gate_initialized := 1\<rparr>
                         in sorting_gate_mg90s_move context (d\<lparr>sorting_gate_context := gate\<rparr>)
                              UART_SORTING_DESTINATION_NONE)))
          else sorting_gate_mg90s_move context d UART_SORTING_DESTINATION_NONE)"

definition sorting_gate_mg90s_motion_complete ::
  "unit ptr \<Rightarrow> drives \<Rightarrow> u8 ptr \<Rightarrow> sorting_gate_result_t \<times> u8 ptr \<times> drives" where
  "sorting_gate_mg90s_motion_complete context d complete =
     (let gate = sorting_gate_context d
      in if context = NULL \<or> complete = NULL \<or> gate_initialized gate = 0
         then (SORTING_GATE_ERROR, complete, d)
         else if motion_active gate \<noteq> 0
                 \<and> hal_tick d - motion_started_at gate < SORTING_GATE_SETTLE_TIME_MS
         then (SORTING_GATE_OK, Some 0, d)
         else (SORTING_GATE_OK, Some 1, d\<lparr>sorting_gate_context := gate\<lparr>motion_active := 0\<rparr>\<rparr>))"

definition sorting_gate_mg90s_port :: "drives sorting_gate_port_t" where
  "sorting_gate_mg90s_port =
     \<lparr>sorting_gate_initialize = Some (sorting_gate_mg90s_initialize (Some ())),
      sorting_gate_move = Some (sorting_gate_mg90s_move (Some ())),
      sorting_gate_motion_complete = Some (sorting_gate_mg90s_motion_complete (Some ()))\<rparr>"


section \<open>What the controllers rely on\<close>

text \<open>
  A motor behind its port, with the duty it is driven at: starting it up leaves it standing; a
  run that is accepted leaves it driven at the commanded percentage; a call with speed zero or
  not asking to run leaves it standing, even when it is refused.
\<close>

locale conveyor_motor =
  fixes start_up :: "'hw \<Rightarrow> 'r \<times> 'hw"
    and run :: "'hw \<Rightarrow> u8 \<Rightarrow> u8 \<Rightarrow> 'r \<times> 'hw"
    and accepted :: 'r
    and motor_inv :: "'hw \<Rightarrow> bool"
    and duty :: "'hw \<Rightarrow> nat"
  assumes start_up_inv: "motor_inv hw \<Longrightarrow> motor_inv (snd (start_up hw))"
    and start_up_stands: "motor_inv hw \<Longrightarrow> duty (snd (start_up hw)) = 0"
    and run_inv: "motor_inv hw \<Longrightarrow> motor_inv (snd (run hw r s))"
    and run_stands: "motor_inv hw \<Longrightarrow> r = 0 \<or> s = 0 \<Longrightarrow> s \<le> 100 \<Longrightarrow> duty (snd (run hw r s)) = 0"
    and run_drives: "motor_inv hw \<Longrightarrow> fst (run hw r s) = accepted \<Longrightarrow> r \<noteq> 0 \<Longrightarrow>
      duty (snd (run hw r s)) = 42 * unat s"

text \<open>
  A gate behind its port: a move that is accepted points it to its destination, a refused one
  leaves it where it was, starting it up points it home, and asking about the motion moves
  nothing and answers zero or one.
\<close>

locale gate_port =
  fixes start_gate :: "'hw \<Rightarrow> 'r \<times> 'hw"
    and move :: "'hw \<Rightarrow> uart_sorting_destination_t \<Rightarrow> 'r \<times> 'hw"
    and ask :: "'hw \<Rightarrow> u8 ptr \<Rightarrow> 'r \<times> u8 ptr \<times> 'hw"
    and accepted :: 'r
    and pointing :: "'hw \<Rightarrow> uart_sorting_destination_t \<Rightarrow> bool"
    and settled :: "'hw \<Rightarrow> bool"
  assumes start_gate_home: "fst (start_gate hw) = accepted \<Longrightarrow>
      pointing (snd (start_gate hw)) UART_SORTING_DESTINATION_NONE"
    and move_points: "fst (move hw dest) = accepted \<Longrightarrow> pointing (snd (move hw dest)) dest"
    and move_refused: "fst (move hw dest) \<noteq> accepted \<Longrightarrow> snd (move hw dest) = hw"
    and ask_points: "pointing (snd (snd (ask hw c))) dest \<longleftrightarrow> pointing hw dest"
    and ask_answer: "fst (ask hw (Some v)) = accepted \<Longrightarrow> fst (snd (ask hw (Some v))) \<in> {Some 0, Some 1}"
    and ask_settled: "fst (ask hw (Some v)) = accepted \<Longrightarrow> fst (snd (ask hw (Some v))) = Some 1 \<Longrightarrow>
      settled hw"

section \<open>The drivers keep their promises\<close>

text \<open>
  The joint invariant: a motor not yet initialised is not driven, no duty exceeds its period,
  the reverse pins stay low, and the latch holds the standby pin low.
\<close>

definition drives_ok :: "drives \<Rightarrow> bool" where
  "drives_ok d \<longleftrightarrow>
     (input_motor_context d = 0 \<longrightarrow> pwm_compare d TIM1_CH1 = 0) \<and>
     (sorting_motor_context d = 0 \<longrightarrow> pwm_compare d TIM11_CH1 = 0) \<and>
     pwm_compare d TIM1_CH1 \<le> autoreload TIM1_CH1 + 1 \<and>
     pwm_compare d TIM11_CH1 \<le> autoreload TIM11_CH1 + 1 \<and>
     \<not> gpio d INPUT_MOTOR_AIN2 \<and> \<not> gpio d SORTING_MOTOR_BIN2 \<and>
     (motor_power_disable_latched d \<noteq> 0 \<longrightarrow> \<not> gpio d MOTOR_STBY)"

definition input_duty :: "drives \<Rightarrow> nat" where
  "input_duty d = (if gpio d INPUT_MOTOR_AIN1 then unat (pwm_compare d TIM1_CH1) else 0)"

definition sorting_duty :: "drives \<Rightarrow> nat" where
  "sorting_duty d = (if gpio d SORTING_MOTOR_BIN1 then unat (pwm_compare d TIM11_CH1) else 0)"

definition gate_pointing :: "drives \<Rightarrow> uart_sorting_destination_t \<Rightarrow> bool" where
  "gate_pointing d dest \<longleftrightarrow>
     gate_initialized (sorting_gate_context d) \<noteq> 0 \<and>
     pwm_compare d TIM3_CH2 = mg90s_pulse (sorting_gate_pulses dest) \<and>
     pwm_compare d TIM3_CH3 = sg90_pulse (sorting_gate_pulses dest)"

definition gate_settled :: "drives \<Rightarrow> bool" where
  "gate_settled d \<longleftrightarrow> motion_active (sorting_gate_context d) = 0 \<or>
     SORTING_GATE_SETTLE_TIME_MS \<le> hal_tick d - motion_started_at (sorting_gate_context d)"

text \<open>The duty is the commanded percentage of the period, exactly: 42 counts per percent.\<close>

lemma motor_duty:
  assumes "\<not> speed > (100 :: u8)"
  shows "unat ((4200 * to_u32 speed + 50) div 100) = 42 * unat speed"
    and "(4200 * to_u32 speed + 50) div 100 \<le> (4200 :: u32)"
    and "speed \<noteq> 0 \<Longrightarrow> (4200 * to_u32 speed + 50) div 100 \<noteq> (0 :: u32)"
proof -
  have s: "unat speed \<le> 100"
    using assms by (simp add: not_less word_le_nat_alt)
  then have "unat (4200 * to_u32 speed + 50) = 4200 * unat speed + 50"
    by (simp add: unat_word_ariths)
  then show duty: "unat ((4200 * to_u32 speed + 50) div 100) = 42 * unat speed"
    by (simp add: unat_div)
  show "(4200 * to_u32 speed + 50) div 100 \<le> (4200 :: u32)"
    using duty s by (simp add: word_le_nat_alt)
  show "(4200 * to_u32 speed + 50) div 100 \<noteq> (0 :: u32)" if "speed \<noteq> 0"
    using duty that by (metis mult_eq_0_iff unat_eq_0 unat_0 zero_neq_numeral)
qed

lemmas drive_defs = drives_ok_def input_duty_def sorting_duty_def gate_pointing_def gate_settled_def
  write_pin_def pwm_set_compare_def HAL_TIM_PWM_Start_def conveyor_motor_power_enable_def
  conveyor_motor_power_latch_disable_def conveyor_motor_power_release_latch_def

lemmas input_motor_defs = input_motor_tb6612_initialize_def input_motor_tb6612_apply_def drive_defs
lemmas sorting_motor_defs = sorting_motor_tb6612_initialize_def sorting_motor_tb6612_apply_def drive_defs
lemmas gate_defs = sorting_gate_mg90s_move_def sorting_gate_mg90s_initialize_def
  sorting_gate_mg90s_motion_complete_def drive_defs

interpretation input_tb6612: conveyor_motor "input_motor_tb6612_initialize (Some ())"
  "input_motor_tb6612_apply (Some ())" INPUT_MOTOR_OK drives_ok input_duty
  by unfold_locales (auto simp: input_motor_defs Let_def motor_duty split: if_splits)

interpretation sorting_tb6612: conveyor_motor "sorting_motor_tb6612_initialize (Some ())"
  "sorting_motor_tb6612_apply (Some ())" SORTING_MOTOR_OK drives_ok sorting_duty
  by unfold_locales (auto simp: sorting_motor_defs Let_def motor_duty split: if_splits)

interpretation mg90s_gate: gate_port "sorting_gate_mg90s_initialize (Some ())"
  "sorting_gate_mg90s_move (Some ())" "sorting_gate_mg90s_motion_complete (Some ())"
  SORTING_GATE_OK gate_pointing gate_settled
  by unfold_locales (auto simp: gate_defs Let_def split: if_splits)


section \<open>What an operation leaves alone\<close>

lemma input_motor_frame:
  "sorting_duty (snd (input_motor_tb6612_initialize c d)) = sorting_duty d"
  "sorting_duty (snd (input_motor_tb6612_apply c d r s)) = sorting_duty d"
  "gate_pointing (snd (input_motor_tb6612_initialize c d)) dest \<longleftrightarrow> gate_pointing d dest"
  "gate_pointing (snd (input_motor_tb6612_apply c d r s)) dest \<longleftrightarrow> gate_pointing d dest"
  "motor_power_disable_latched (snd (input_motor_tb6612_initialize c d)) = motor_power_disable_latched d"
  "motor_power_disable_latched (snd (input_motor_tb6612_apply c d r s)) = motor_power_disable_latched d"
  by (auto simp: input_motor_defs Let_def split: option.split)

lemma sorting_motor_frame:
  "input_duty (snd (sorting_motor_tb6612_initialize c d)) = input_duty d"
  "input_duty (snd (sorting_motor_tb6612_apply c d r s)) = input_duty d"
  "gate_pointing (snd (sorting_motor_tb6612_initialize c d)) dest \<longleftrightarrow> gate_pointing d dest"
  "gate_pointing (snd (sorting_motor_tb6612_apply c d r s)) dest \<longleftrightarrow> gate_pointing d dest"
  "motor_power_disable_latched (snd (sorting_motor_tb6612_initialize c d)) = motor_power_disable_latched d"
  "motor_power_disable_latched (snd (sorting_motor_tb6612_apply c d r s)) = motor_power_disable_latched d"
  by (auto simp: sorting_motor_defs Let_def split: option.split)

lemma gate_frame:
  "drives_ok (snd (sorting_gate_mg90s_initialize c d)) \<longleftrightarrow> drives_ok d"
  "drives_ok (snd (sorting_gate_mg90s_move c d dest)) \<longleftrightarrow> drives_ok d"
  "drives_ok (snd (snd (sorting_gate_mg90s_motion_complete c d p))) \<longleftrightarrow> drives_ok d"
  "input_duty (snd (sorting_gate_mg90s_initialize c d)) = input_duty d"
  "input_duty (snd (sorting_gate_mg90s_move c d dest)) = input_duty d"
  "input_duty (snd (snd (sorting_gate_mg90s_motion_complete c d p))) = input_duty d"
  "sorting_duty (snd (sorting_gate_mg90s_initialize c d)) = sorting_duty d"
  "sorting_duty (snd (sorting_gate_mg90s_move c d dest)) = sorting_duty d"
  "sorting_duty (snd (snd (sorting_gate_mg90s_motion_complete c d p))) = sorting_duty d"
  "motor_power_disable_latched (snd (sorting_gate_mg90s_initialize c d)) = motor_power_disable_latched d"
  "motor_power_disable_latched (snd (sorting_gate_mg90s_move c d dest)) = motor_power_disable_latched d"
  "motor_power_disable_latched (snd (snd (sorting_gate_mg90s_motion_complete c d p))) =
     motor_power_disable_latched d"
  by (auto simp: gate_defs Let_def split: option.split)

section \<open>The latch on the motor power\<close>

text \<open>
  Everything that happens to the drives while nobody releases the latch: the calls of the two
  controllers through their ports, another disable, and the environment.
\<close>

inductive latched_step :: "drives \<Rightarrow> drives \<Rightarrow> bool" where
  input_initialize: "latched_step d (snd (input_motor_tb6612_initialize c d))"
| input_apply: "latched_step d (snd (input_motor_tb6612_apply c d r s))"
| sorting_initialize: "latched_step d (snd (sorting_motor_tb6612_initialize c d))"
| sorting_apply: "latched_step d (snd (sorting_motor_tb6612_apply c d r s))"
| gate_initialize: "latched_step d (snd (sorting_gate_mg90s_initialize c d))"
| gate_move: "latched_step d (snd (sorting_gate_mg90s_move c d dest))"
| gate_ask: "latched_step d (snd (snd (sorting_gate_mg90s_motion_complete c d p)))"
| power_enable: "latched_step d (snd (conveyor_motor_power_enable d))"
| disable: "latched_step d (conveyor_motor_power_latch_disable d)"
| environment: "latched_step d (d\<lparr>hal_tick := t, hal_pwm_ok := ok\<rparr>)"

lemma drives_ok_null:
  "input_motor_tb6612_initialize None d = (INPUT_MOTOR_ERROR, d)"
  "input_motor_tb6612_apply None d r s = (INPUT_MOTOR_ERROR, d)"
  "sorting_motor_tb6612_initialize None d = (SORTING_MOTOR_ERROR, d)"
  "sorting_motor_tb6612_apply None d r s = (SORTING_MOTOR_ERROR, d)"
  by (simp_all add: input_motor_tb6612_initialize_def input_motor_tb6612_apply_def
      sorting_motor_tb6612_initialize_def sorting_motor_tb6612_apply_def)

lemma drives_ok_calls:
  assumes "drives_ok d"
  shows "drives_ok (snd (input_motor_tb6612_initialize c d))"
    "drives_ok (snd (input_motor_tb6612_apply c d r s))"
    "drives_ok (snd (sorting_motor_tb6612_initialize c d))"
    "drives_ok (snd (sorting_motor_tb6612_apply c d r s))"
  using assms input_tb6612.start_up_inv input_tb6612.run_inv sorting_tb6612.start_up_inv
    sorting_tb6612.run_inv
  by (cases c; simp add: drives_ok_null)+

lemma latched_step_keeps:
  assumes "latched_step d d'" and "drives_ok d" and "motor_power_disable_latched d \<noteq> 0"
  shows "drives_ok d' \<and> motor_power_disable_latched d' \<noteq> 0"
  using assms
proof (induction rule: latched_step.induct)
  case (power_enable d)
  then show ?case by (simp add: conveyor_motor_power_enable_def)
next
  case (disable d)
  then show ?case by (simp add: drive_defs)
next
  case (environment d t ok)
  then show ?case by (simp add: drives_ok_def)
qed (simp_all add: input_motor_frame sorting_motor_frame gate_frame drives_ok_calls)

text \<open>
  C35: Once the motor power is latched off, no sequence of motor, gate and power calls other
  than the release raises the standby pin of the motor driver again: both conveyors stay without
  power.
\<close>

theorem disabled_power_stays_off:
  assumes "drives_ok d" and "latched_step\<^sup>*\<^sup>* (conveyor_motor_power_latch_disable d) d'"
  shows "\<not> gpio d' MOTOR_STBY \<and> drives_ok d' \<and> fst (conveyor_motor_power_enable d') = 0"
proof -
  have "drives_ok (conveyor_motor_power_latch_disable d)"
    "motor_power_disable_latched (conveyor_motor_power_latch_disable d) \<noteq> 0"
    using assms(1) by (simp_all add: drive_defs)
  with assms(2) have "drives_ok d' \<and> motor_power_disable_latched d' \<noteq> 0"
    by (induction rule: rtranclp_induct) (blast dest: latched_step_keeps)+
  then show ?thesis
    by (simp add: drives_ok_def conveyor_motor_power_enable_def)
qed

definition zero_drives :: drives where
  "zero_drives = \<lparr>motor_power_disable_latched = 0, input_motor_context = 0, sorting_motor_context = 0,
     sorting_gate_context = \<lparr>gate_initialized = 0, motion_active = 0, motion_started_at = 0\<rparr>,
     gpio = (\<lambda>_. False), pwm_compare = (\<lambda>_. 0), pwm_running = (\<lambda>_. False), hal_tick = 0,
     hal_pwm_ok = (\<lambda>_. True)\<rparr>"

lemma zero_drives_ok: "drives_ok zero_drives"
  by (simp add: drives_ok_def zero_drives_def)

theorem disabled_power_stays_off_witness:
  "\<not> gpio (snd (input_motor_tb6612_apply (Some ())
        (snd (input_motor_tb6612_initialize (Some ()) (conveyor_motor_power_latch_disable zero_drives)))
        1 50)) MOTOR_STBY"
proof -
  let ?d = "conveyor_motor_power_latch_disable zero_drives"
  let ?d1 = "snd (input_motor_tb6612_initialize (Some ()) ?d)"
  have "latched_step\<^sup>*\<^sup>* ?d (snd (input_motor_tb6612_apply (Some ()) ?d1 1 50))"
    by (meson converse_rtranclp_into_rtranclp rtranclp.rtrancl_refl latched_step.intros)
  then show ?thesis
    using disabled_power_stays_off [OF zero_drives_ok] by blast
qed

end
