(* ===== verification/Input_Control.thy ===== *)
theory Input_Control
  imports Conveyor_Messages Conveyor_Drives
begin

text \<open>
  The controller of the input conveyor
  (\<open>stm32/conveyor-controller/Application/Src/input_control.c\<close> and \<open>Inc/input_control.h\<close>):
  commands, faults, the safety stop and its release over a motor port, and the status report.
\<close>

section \<open>State\<close>

datatype input_control_result_t =
    INPUT_CONTROL_OK | INPUT_CONTROL_INVALID_ARGUMENT | INPUT_CONTROL_INVALID_SOURCE
  | INPUT_CONTROL_UNSUPPORTED_COMMAND | INPUT_CONTROL_INVALID_PAYLOAD
  | INPUT_CONTROL_SPEED_NOT_CONFIGURED | INPUT_CONTROL_FAULT_LATCHED | INPUT_CONTROL_MOTOR_ERROR
  | INPUT_CONTROL_STALE_COMMAND | INPUT_CONTROL_SEQUENCE_CONFLICT | INPUT_CONTROL_TX_BUSY

record input_control_state_t =
  inp_conveyor :: uart_input_conveyor_state_t
  inp_speed :: u8
  inp_last_error :: uart_error_t

record 'hw input_control_t =
  inp_state :: input_control_state_t
  inp_motor :: "'hw input_motor_port_t"
  inp_motor_initialized :: u8
  inp_safety_stop_latched :: u8

text \<open>Calls through the function pointers of the controller's port, whose \<open>NULL\<close> was refused at the start.\<close>

definition motor_initialize :: "'hw input_control_t \<Rightarrow> 'hw \<Rightarrow> input_motor_result_t \<times> 'hw" where
  "motor_initialize c = the (input_motor_initialize (inp_motor c))"

definition motor_apply :: "'hw input_control_t \<Rightarrow> 'hw \<Rightarrow> u8 \<Rightarrow> u8 \<Rightarrow> input_motor_result_t \<times> 'hw" where
  "motor_apply c = the (input_motor_apply (inp_motor c))"

section \<open>Operations\<close>

definition input_control_set_motor_fault :: "'hw input_control_t \<Rightarrow> 'hw input_control_t" where
  "input_control_set_motor_fault c =
     c\<lparr>inp_state := (inp_state c)\<lparr>inp_conveyor := UART_INPUT_CONVEYOR_FAULT,
                                      inp_last_error := UART_ERROR_MOTOR\<rparr>,
       inp_motor_initialized := 0\<rparr>"

definition input_control_set_emergency_stop_fault :: "'hw input_control_t \<Rightarrow> 'hw input_control_t" where
  "input_control_set_emergency_stop_fault c =
     c\<lparr>inp_state := (inp_state c)\<lparr>inp_conveyor := UART_INPUT_CONVEYOR_FAULT,
                                      inp_last_error := UART_ERROR_EMERGENCY_STOP\<rparr>\<rparr>"

definition input_control_apply_state ::
  "'hw input_control_t \<Rightarrow> 'hw \<Rightarrow> input_control_state_t \<Rightarrow>
     input_control_result_t \<times> 'hw input_control_t \<times> 'hw" where
  "input_control_apply_state c hw candidate =
     (let running = (if inp_conveyor candidate = UART_INPUT_CONVEYOR_RUNNING then 1 else 0);
          (failed, hw) =
            (if inp_motor_initialized c = 0 then (True, hw)
             else (let (r, hw) = motor_apply c hw running (inp_speed candidate)
                   in (r \<noteq> INPUT_MOTOR_OK, hw)))
      in if failed
         then (let (_, hw) = motor_apply c hw 0 0
               in (INPUT_CONTROL_MOTOR_ERROR, input_control_set_motor_fault c, hw))
         else (INPUT_CONTROL_OK, c\<lparr>inp_state := candidate\<rparr>, hw))"

text \<open>The lazy start of the motor that the reset, the stop and the release share.\<close>

definition input_ensure_motor ::
  "'hw input_control_t \<Rightarrow> 'hw \<Rightarrow> bool \<times> 'hw input_control_t \<times> 'hw" where
  "input_ensure_motor c hw =
     (if inp_motor_initialized c = 0
      then (let (r, hw) = motor_initialize c hw
            in if r \<noteq> INPUT_MOTOR_OK then (False, input_control_set_motor_fault c, hw)
               else (True, c\<lparr>inp_motor_initialized := 1\<rparr>, hw))
      else (True, c, hw))"

definition input_control_reset ::
  "'hw input_control_t \<Rightarrow> 'hw \<Rightarrow> input_control_result_t \<times> 'hw input_control_t \<times> 'hw" where
  "input_control_reset c hw =
     (if inp_safety_stop_latched c \<noteq> 0 then (INPUT_CONTROL_FAULT_LATCHED, c, hw)
      else
        (let (ok, c, hw) = input_ensure_motor c hw
         in if \<not> ok then (INPUT_CONTROL_MOTOR_ERROR, c, hw)
            else input_control_apply_state c hw
                   ((inp_state c)\<lparr>inp_conveyor := UART_INPUT_CONVEYOR_STOPPED,
                                     inp_last_error := UART_ERROR_NONE\<rparr>)))"

text \<open>\<open>memset(controller, 0, sizeof(*controller))\<close>\<close>

definition zero_input_control :: "'hw input_control_t" where
  "zero_input_control =
     \<lparr>inp_state = \<lparr>inp_conveyor = UART_INPUT_CONVEYOR_STOPPED, inp_speed = 0,
                    inp_last_error = UART_ERROR_NONE\<rparr>,
      inp_motor = \<lparr>input_motor_initialize = NULL, input_motor_apply = NULL\<rparr>,
      inp_motor_initialized = 0, inp_safety_stop_latched = 0\<rparr>"

definition input_control_init ::
  "'hw input_control_t ptr \<Rightarrow> 'hw input_motor_port_t ptr \<Rightarrow> 'hw \<Rightarrow>
     input_control_result_t \<times> 'hw input_control_t ptr \<times> 'hw" where
  "input_control_init controller motor hw =
     (case (controller, motor) of
        (Some _, Some port) \<Rightarrow>
          if input_motor_initialize port = NULL \<or> input_motor_apply port = NULL
          then (INPUT_CONTROL_INVALID_ARGUMENT, controller, hw)
          else
            (let c = zero_input_control\<lparr>inp_motor := port\<rparr>;
                 c = c\<lparr>inp_state := (inp_state c)\<lparr>inp_conveyor := UART_INPUT_CONVEYOR_STOPPED,
                                                     inp_last_error := UART_ERROR_NONE\<rparr>\<rparr>;
                 (r, hw) = motor_initialize c hw
             in if r \<noteq> INPUT_MOTOR_OK
                then (INPUT_CONTROL_MOTOR_ERROR, Some (input_control_set_motor_fault c), hw)
                else
                  (let c = c\<lparr>inp_motor_initialized := 1\<rparr>;
                       (r, hw) = motor_apply c hw 0 0
                   in if r \<noteq> INPUT_MOTOR_OK
                      then (INPUT_CONTROL_MOTOR_ERROR, Some (input_control_set_motor_fault c), hw)
                      else (INPUT_CONTROL_OK, Some c, hw)))
      | _ \<Rightarrow> (INPUT_CONTROL_INVALID_ARGUMENT, controller, hw))"

definition input_fault_latched :: "'hw input_control_t \<Rightarrow> bool" where
  "input_fault_latched c \<longleftrightarrow>
     inp_safety_stop_latched c \<noteq> 0 \<or> inp_conveyor (inp_state c) = UART_INPUT_CONVEYOR_FAULT"

definition input_start ::
  "'hw input_control_t \<Rightarrow> 'hw \<Rightarrow> input_control_result_t \<times> 'hw input_control_t \<times> 'hw" where
  "input_start c hw =
     (if input_fault_latched c then (INPUT_CONTROL_FAULT_LATCHED, c, hw)
      else if inp_speed (inp_state c) = 0 then (INPUT_CONTROL_SPEED_NOT_CONFIGURED, c, hw)
      else input_control_apply_state c hw ((inp_state c)\<lparr>inp_conveyor := UART_INPUT_CONVEYOR_RUNNING\<rparr>))"

definition input_stop ::
  "'hw input_control_t \<Rightarrow> 'hw \<Rightarrow> input_control_result_t \<times> 'hw input_control_t \<times> 'hw" where
  "input_stop c hw =
     (if input_fault_latched c
      then (let (_, hw) = motor_apply c hw 0 0 in (INPUT_CONTROL_FAULT_LATCHED, c, hw))
      else input_control_apply_state c hw ((inp_state c)\<lparr>inp_conveyor := UART_INPUT_CONVEYOR_STOPPED\<rparr>))"

definition input_set_speed ::
  "'hw input_control_t \<Rightarrow> 'hw \<Rightarrow> u8 \<Rightarrow> input_control_result_t \<times> 'hw input_control_t \<times> 'hw" where
  "input_set_speed c hw speed =
     (if input_fault_latched c then (INPUT_CONTROL_FAULT_LATCHED, c, hw)
      else
        (let candidate = (inp_state c)\<lparr>inp_speed := speed\<rparr>;
             candidate =
               (if inp_speed candidate = 0 \<and> inp_conveyor candidate = UART_INPUT_CONVEYOR_RUNNING
                then candidate\<lparr>inp_conveyor := UART_INPUT_CONVEYOR_STOPPED\<rparr> else candidate)
         in input_control_apply_state c hw candidate))"

definition input_control_process_command ::
  "'hw input_control_t ptr \<Rightarrow> control_command_t ptr \<Rightarrow> 'hw \<Rightarrow>
     input_control_result_t \<times> 'hw input_control_t ptr \<times> 'hw" where
  "input_control_process_command controller message hw =
     (case (controller, message) of
        (Some c, Some m) \<Rightarrow>
          (let frame = msg_frame m; command = frame_command frame
           in if msg_source m \<noteq> APP_UART_CHANNEL_1 then (INPUT_CONTROL_INVALID_SOURCE, controller, hw)
              else if \<not> uart_input_command_is_valid (to_u32 command)
              then (INPUT_CONTROL_UNSUPPORTED_COMMAND, controller, hw)
              else if \<not> uart_input_payload_is_valid (to_u32 command) (Some (frame_payload frame))
                         (to_u32 (frame_length frame))
              then (INPUT_CONTROL_INVALID_PAYLOAD, controller, hw)
              else
                (let (result, c, hw) =
                   (if command = input_cmd_code UART_CMD_INPUT_CONVEYOR_START then input_start c hw
                    else if command = input_cmd_code UART_CMD_INPUT_CONVEYOR_STOP then input_stop c hw
                    else if command = input_cmd_code UART_CMD_INPUT_CONVEYOR_SET_SPEED
                    then input_set_speed c hw (frame_payload frame ! 0)
                    else if command = input_cmd_code UART_CMD_INPUT_CONVEYOR_GET_STATUS
                    then (INPUT_CONTROL_OK, c, hw)
                    else if command = input_cmd_code UART_CMD_INPUT_CONTROL_RESET
                    then input_control_reset c hw
                    else (INPUT_CONTROL_UNSUPPORTED_COMMAND, c, hw))
                 in (result, Some c, hw)))
      | _ \<Rightarrow> (INPUT_CONTROL_INVALID_ARGUMENT, controller, hw))"


definition input_control_handle_safety_stop ::
  "'hw input_control_t ptr \<Rightarrow> 'hw \<Rightarrow> input_control_result_t \<times> 'hw input_control_t ptr \<times> 'hw" where
  "input_control_handle_safety_stop controller hw =
     (case controller of
        None \<Rightarrow> (INPUT_CONTROL_INVALID_ARGUMENT, controller, hw)
      | Some c \<Rightarrow>
          if input_motor_initialize (inp_motor c) = NULL \<or> input_motor_apply (inp_motor c) = NULL
          then (INPUT_CONTROL_INVALID_ARGUMENT, controller, hw)
          else
            (let c = c\<lparr>inp_safety_stop_latched := 1\<rparr>;
                 (ok, c, hw) = input_ensure_motor c hw
             in if \<not> ok then (INPUT_CONTROL_MOTOR_ERROR, Some c, hw)
                else
                  (let (r, hw) = motor_apply c hw 0 0
                   in if r \<noteq> INPUT_MOTOR_OK
                      then (INPUT_CONTROL_MOTOR_ERROR, Some (input_control_set_motor_fault c), hw)
                      else (INPUT_CONTROL_OK, Some (input_control_set_emergency_stop_fault c), hw))))"

definition input_control_handle_safety_release ::
  "'hw input_control_t ptr \<Rightarrow> 'hw \<Rightarrow> input_control_result_t \<times> 'hw input_control_t ptr \<times> 'hw" where
  "input_control_handle_safety_release controller hw =
     (case controller of
        None \<Rightarrow> (INPUT_CONTROL_INVALID_ARGUMENT, controller, hw)
      | Some c \<Rightarrow>
          if input_motor_initialize (inp_motor c) = NULL \<or> input_motor_apply (inp_motor c) = NULL
          then (INPUT_CONTROL_INVALID_ARGUMENT, controller, hw)
          else if inp_safety_stop_latched c = 0 then (INPUT_CONTROL_OK, controller, hw)
          else
            (let (ok, c, hw) = input_ensure_motor c hw
             in if \<not> ok then (INPUT_CONTROL_MOTOR_ERROR, Some c, hw)
                else
                  (let (r, hw) = motor_apply c hw 0 0
                   in if r \<noteq> INPUT_MOTOR_OK
                      then (INPUT_CONTROL_MOTOR_ERROR, Some (input_control_set_motor_fault c), hw)
                      else
                        (INPUT_CONTROL_OK,
                         Some (c\<lparr>inp_state := (inp_state c)\<lparr>inp_conveyor := UART_INPUT_CONVEYOR_STOPPED,
                                                                inp_last_error := UART_ERROR_NONE\<rparr>,
                                 inp_safety_stop_latched := 0\<rparr>),
                         hw))))"

definition input_control_build_status_payload ::
  "input_control_state_t ptr \<Rightarrow> u8 list ptr \<Rightarrow> u8 list ptr" where
  "input_control_build_status_payload state payload =
     (case (state, payload) of
        (Some st, Some p) \<Rightarrow>
          Some (p[UART_RESPONSE_STATUS_INDEX :=
                    (if inp_conveyor st = UART_INPUT_CONVEYOR_FAULT \<or> inp_last_error st \<noteq> UART_ERROR_NONE
                     then status_code UART_STATUS_ERROR else status_code UART_STATUS_SUCCESS),
                  UART_RESPONSE_COMMAND_INDEX := input_cmd_code UART_CMD_INPUT_CONVEYOR_GET_STATUS,
                  UART_RESPONSE_ERROR_INDEX := error_code (inp_last_error st),
                  3 := input_conveyor_code (inp_conveyor st),
                  4 := inp_speed st])
      | _ \<Rightarrow> payload)"

section \<open>Invariant\<close>

text \<open>
  Running means an initialised motor, no safety stop and a speed; a lost motor means a fault;
  a latched stop means a fault with an error. The speed stays a percentage.
\<close>

definition input_ok :: "'hw input_control_t \<Rightarrow> bool" where
  "input_ok c \<longleftrightarrow>
     inp_speed (inp_state c) \<le> 100 \<and>
     (inp_conveyor (inp_state c) = UART_INPUT_CONVEYOR_RUNNING \<longrightarrow>
        inp_motor_initialized c \<noteq> 0 \<and> inp_safety_stop_latched c = 0 \<and> inp_speed (inp_state c) \<noteq> 0) \<and>
     (inp_motor_initialized c = 0 \<longrightarrow> inp_conveyor (inp_state c) = UART_INPUT_CONVEYOR_FAULT) \<and>
     (inp_safety_stop_latched c \<noteq> 0 \<longrightarrow> inp_conveyor (inp_state c) = UART_INPUT_CONVEYOR_FAULT) \<and>
     (inp_conveyor (inp_state c) = UART_INPUT_CONVEYOR_FAULT \<longleftrightarrow>
        inp_last_error (inp_state c) \<noteq> UART_ERROR_NONE)"

lemmas input_faults = input_control_set_motor_fault_def input_control_set_emergency_stop_fault_def

lemma input_ok_speed: "input_ok c \<Longrightarrow> inp_speed (inp_state c) \<le> 100"
  by (simp add: input_ok_def)

lemma input_ok_running:
  assumes "input_ok c" "inp_conveyor (inp_state c) = UART_INPUT_CONVEYOR_RUNNING"
  shows "inp_safety_stop_latched c = 0" "inp_motor_initialized c \<noteq> 0" "inp_speed (inp_state c) \<noteq> 0"
  using assms unfolding input_ok_def by blast+

lemma input_ok_no_fault:
  assumes "input_ok c" "\<not> input_fault_latched c"
  shows "inp_safety_stop_latched c = 0" "inp_conveyor (inp_state c) \<noteq> UART_INPUT_CONVEYOR_FAULT"
    "inp_last_error (inp_state c) = UART_ERROR_NONE" "inp_motor_initialized c \<noteq> 0"
    "inp_speed (inp_state c) = 0 \<Longrightarrow> inp_conveyor (inp_state c) \<noteq> UART_INPUT_CONVEYOR_RUNNING"
  using assms unfolding input_ok_def input_fault_latched_def by blast+

lemma apply_state_ok:
  assumes "input_ok c" and "inp_safety_stop_latched c = 0"
    and "inp_conveyor st \<noteq> UART_INPUT_CONVEYOR_FAULT" "inp_last_error st = UART_ERROR_NONE"
    and "inp_speed st \<le> 100"
    and "inp_conveyor st = UART_INPUT_CONVEYOR_RUNNING \<Longrightarrow> inp_speed st \<noteq> 0"
  shows "input_ok (fst (snd (input_control_apply_state c hw st)))"
  using assms
  by (auto simp: input_control_apply_state_def input_ok_def input_faults Let_def split_def)


lemma input_init_ok:
  "fst (input_control_init (Some c0) (Some port) hw) \<noteq> INPUT_CONTROL_INVALID_ARGUMENT \<Longrightarrow>
     (case fst (snd (input_control_init (Some c0) (Some port) hw)) of
        None \<Rightarrow> False | Some c \<Rightarrow> input_ok c \<and> inp_motor c = port)"
  by (auto simp: input_control_init_def input_ok_def input_faults zero_input_control_def Let_def split_def
      split: if_splits)

lemma input_motor_fault_ok:
  "inp_speed (inp_state c) \<le> 100 \<Longrightarrow> input_ok (input_control_set_motor_fault c)"
  by (simp add: input_ok_def input_faults)

lemma ensure_ok:
  assumes "input_ok c"
  shows "input_ok (fst (snd (input_ensure_motor c hw)))"
    and "inp_safety_stop_latched (fst (snd (input_ensure_motor c hw))) = inp_safety_stop_latched c"
    and "inp_motor (fst (snd (input_ensure_motor c hw))) = inp_motor c"
    and "inp_speed (inp_state (fst (snd (input_ensure_motor c hw)))) = inp_speed (inp_state c)"
    and "fst (input_ensure_motor c hw) \<Longrightarrow> inp_motor_initialized (fst (snd (input_ensure_motor c hw))) \<noteq> 0"
  using assms
  by (cases "inp_motor_initialized c = 0"; cases "motor_initialize c hw"; cases "fst (motor_initialize c hw)";
      simp add: input_ensure_motor_def input_ok_def input_faults; fail)+

lemma input_reset_ok:
  assumes "input_ok c"
  shows "input_ok (fst (snd (input_control_reset c hw)))"
proof -
  obtain ok c1 hw1 where en: "input_ensure_motor c hw = (ok, c1, hw1)"
    by (cases "input_ensure_motor c hw") auto
  have c1: "input_ok c1" "inp_safety_stop_latched c1 = inp_safety_stop_latched c"
    "inp_speed (inp_state c1) \<le> 100"
    using ensure_ok [OF assms, of hw] input_ok_speed [OF assms] by (simp_all add: en)
  have "input_ok (fst (snd (input_control_apply_state c1 hw1
      ((inp_state c1)\<lparr>inp_conveyor := UART_INPUT_CONVEYOR_STOPPED, inp_last_error := UART_ERROR_NONE\<rparr>))))"
    if "inp_safety_stop_latched c = 0"
    using c1 that by (intro apply_state_ok) simp_all
  then show ?thesis
    using assms c1 by (auto simp: input_control_reset_def en)
qed

lemma start_ok:
  assumes "input_ok c"
  shows "input_ok (fst (snd (input_start c hw)))"
proof (cases "input_fault_latched c \<or> inp_speed (inp_state c) = 0")
  case False
  then have nf: "\<not> input_fault_latched c" by simp
  from False have "input_ok (fst (snd (input_control_apply_state c hw
      ((inp_state c)\<lparr>inp_conveyor := UART_INPUT_CONVEYOR_RUNNING\<rparr>))))"
    using input_ok_no_fault [OF assms nf] input_ok_speed [OF assms] by (intro apply_state_ok [OF assms]) simp_all
  then show ?thesis using False by (simp add: input_start_def)
qed (use assms in \<open>auto simp: input_start_def\<close>)

lemma stop_ok:
  assumes "input_ok c"
  shows "input_ok (fst (snd (input_stop c hw)))"
proof (cases "input_fault_latched c")
  case False
  then have nf: "\<not> input_fault_latched c" by simp
  from False have "input_ok (fst (snd (input_control_apply_state c hw
      ((inp_state c)\<lparr>inp_conveyor := UART_INPUT_CONVEYOR_STOPPED\<rparr>))))"
    using input_ok_no_fault [OF assms nf] input_ok_speed [OF assms] by (intro apply_state_ok [OF assms]) simp_all
  then show ?thesis using False by (simp add: input_stop_def)
qed (use assms in \<open>simp add: input_stop_def split_def Let_def\<close>)

lemma set_speed_ok:
  assumes "input_ok c" "s \<le> 100"
  shows "input_ok (fst (snd (input_set_speed c hw s)))"
proof -
  define st where "st = (if s = 0 \<and> inp_conveyor (inp_state c) = UART_INPUT_CONVEYOR_RUNNING
    then (inp_state c)\<lparr>inp_speed := s, inp_conveyor := UART_INPUT_CONVEYOR_STOPPED\<rparr>
    else (inp_state c)\<lparr>inp_speed := s\<rparr>)"
  have eq: "input_set_speed c hw s =
      (if input_fault_latched c then (INPUT_CONTROL_FAULT_LATCHED, c, hw)
       else input_control_apply_state c hw st)"
    by (simp add: input_set_speed_def st_def Let_def)
  have "input_ok (fst (snd (input_control_apply_state c hw st)))" if "\<not> input_fault_latched c"
    using assms that
    by (intro apply_state_ok [OF assms(1)])
      (simp_all add: st_def input_ok_no_fault [OF assms(1) that] input_ok_speed split: if_splits)
  then show ?thesis using assms by (simp add: eq)
qed

text \<open>The validated payload is where the bound on the speed comes from.\<close>

lemma input_speed_payload:
  assumes "uart_input_payload_is_valid (input_cmd_code UART_CMD_INPUT_CONVEYOR_SET_SPEED) (Some p) n"
  shows "p ! 0 \<le> 100"
  using assms by (auto simp: uart_input_payload_is_valid_def uart_input_command_is_valid_def split: if_splits)

lemma input_process_cases:
  assumes "input_control_process_command (Some c) message hw = (r, Some c', hw')"
  obtains (refused) "c' = c" "hw' = hw" "r \<noteq> INPUT_CONTROL_OK"
  | (start) "(r, c', hw') = input_start c hw"
  | (stop) "(r, c', hw') = input_stop c hw"
  | (set_speed) s where "(r, c', hw') = input_set_speed c hw s" "s \<le> 100"
  | (status) "c' = c" "hw' = hw" "r = INPUT_CONTROL_OK"
  | (reset) "(r, c', hw') = input_control_reset c hw"
proof (cases message)
  case None
  then show ?thesis using assms refused by (simp add: input_control_process_command_def)
next
  case (Some m)
  let ?f = "msg_frame m"
  show ?thesis
  proof (cases "msg_source m = APP_UART_CHANNEL_1 \<and> uart_input_command_is_valid (to_u32 (frame_command ?f)) \<and>
      uart_input_payload_is_valid (to_u32 (frame_command ?f)) (Some (frame_payload ?f)) (to_u32 (frame_length ?f))")
    case False
    then show ?thesis
      using assms refused by (auto simp: input_control_process_command_def Some Let_def split: if_splits)
  next
    case True
    note valid = this
    have speed: "frame_payload ?f ! 0 \<le> 100"
      if "frame_command ?f = input_cmd_code UART_CMD_INPUT_CONVEYOR_SET_SPEED"
      using valid that input_speed_payload [of "frame_payload ?f" "to_u32 (frame_length ?f)"] by simp
    show ?thesis
      using assms valid speed start stop set_speed status reset refused
      by (auto simp: input_control_process_command_def Some Let_def split_def split: if_splits
          simp del: input_cmd_code.simps)
  qed
qed


section \<open>The motor follows the state\<close>

locale input_motor = conveyor_motor start_up run INPUT_MOTOR_OK motor_inv duty
  for start_up :: "'hw \<Rightarrow> input_motor_result_t \<times> 'hw"
    and run :: "'hw \<Rightarrow> u8 \<Rightarrow> u8 \<Rightarrow> input_motor_result_t \<times> 'hw"
    and motor_inv :: "'hw \<Rightarrow> bool"
    and duty :: "'hw \<Rightarrow> nat"
begin

definition on_port :: "'hw input_control_t \<Rightarrow> 'hw \<Rightarrow> bool" where
  "on_port c hw \<longleftrightarrow> input_ok c \<and> motor_inv hw \<and>
     inp_motor c = \<lparr>input_motor_initialize = Some start_up, input_motor_apply = Some run\<rparr>"

text \<open>The duty is that of the configured speed while the conveyor runs, and zero otherwise.\<close>

definition follows :: "'hw input_control_t \<Rightarrow> 'hw \<Rightarrow> bool" where
  "follows c hw \<longleftrightarrow> on_port c hw \<and>
     duty hw = (if inp_conveyor (inp_state c) = UART_INPUT_CONVEYOR_RUNNING
                then 42 * unat (inp_speed (inp_state c)) else 0)"

lemma port_calls:
  assumes "on_port c hw"
  shows "motor_initialize c = start_up" "motor_apply c = run"
  using assms by (simp_all add: on_port_def motor_initialize_def motor_apply_def)

lemma ensure_follows:
  assumes "on_port c hw" and "input_ensure_motor c hw = (ok, c', hw')"
  shows "on_port c' hw'" and "\<not> ok \<Longrightarrow> follows c' hw'"
proof -
  have calls: "motor_initialize c = start_up" using port_calls [OF assms(1)] by simp
  have inv: "motor_inv hw" "input_ok c" using assms(1) by (simp_all add: on_port_def)
  have ok': "input_ok c'" "inp_motor c' = inp_motor c"
    using ensure_ok [OF inv(2), of hw] assms(2) by simp_all
  have "motor_inv hw'"
    using assms(2) start_up_inv [OF inv(1)] inv(1)
    by (auto simp: input_ensure_motor_def calls Let_def split_def split: if_splits)
  then show on: "on_port c' hw'"
    using assms(1) ok' by (simp add: on_port_def)
  show "follows c' hw'" if "\<not> ok"
  proof -
    have "duty hw' = 0" "inp_conveyor (inp_state c') = UART_INPUT_CONVEYOR_FAULT"
      using assms(2) start_up_stands [OF inv(1)] that
      by (auto simp: input_ensure_motor_def calls input_faults Let_def split_def split: if_splits)
    then show ?thesis using on by (simp add: follows_def)
  qed
qed

lemma fault_follows:
  assumes "on_port c hw" "duty hw = 0"
  shows "follows (input_control_set_motor_fault c) hw"
  using assms input_motor_fault_ok [OF input_ok_speed, of c]
  by (simp add: follows_def on_port_def input_control_set_motor_fault_def)

lemma apply_state_follows:
  assumes "on_port c hw" and st: "inp_speed st \<le> 100"
    and run: "input_control_apply_state c hw st = (r, c', hw')" and "input_ok c'"
  shows "follows c' hw'"
proof -
  note calls = port_calls [OF assms(1)]
  have inv: "motor_inv hw" using assms(1) by (simp add: on_port_def)
  have stands: "duty (snd (run h 0 0)) = 0" "motor_inv (snd (run h 0 0))" if "motor_inv h" for h
    using run_stands [OF that, of 0 0] run_inv [OF that] by simp_all
  let ?running = "if inp_conveyor st = UART_INPUT_CONVEYOR_RUNNING then 1 else 0"
  show ?thesis
  proof (cases "inp_motor_initialized c = 0 \<or> fst (run hw ?running (inp_speed st)) \<noteq> INPUT_MOTOR_OK")
    case True
    then have "\<exists>h. motor_inv h \<and> hw' = snd (run h 0 0) \<and> c' = input_control_set_motor_fault c"
      using run inv run_inv [OF inv]
      by (auto simp: input_control_apply_state_def calls Let_def split_def split: if_splits)
    then obtain h where h: "motor_inv h" "hw' = snd (run h 0 0)" "c' = input_control_set_motor_fault c"
      by blast
    have "on_port c hw'" using assms(1) stands [OF h(1)] h(2) by (simp add: on_port_def)
    then show ?thesis using fault_follows stands [OF h(1)] h by simp
  next
    case False
    then have eq: "c' = c\<lparr>inp_state := st\<rparr>" "hw' = snd (run hw ?running (inp_speed st))"
      "fst (run hw ?running (inp_speed st)) = INPUT_MOTOR_OK"
      using run by (auto simp: input_control_apply_state_def calls Let_def split_def split: if_splits)
    have "duty hw' = (if inp_conveyor st = UART_INPUT_CONVEYOR_RUNNING then 42 * unat (inp_speed st) else 0)"
      using run_drives [OF inv eq(3)] run_stands [OF inv _ st] eq(2) by auto
    then show ?thesis
      using assms(1,4) eq run_inv [OF inv] by (simp add: follows_def on_port_def)
  qed
qed


lemma followsD:
  assumes "follows c hw"
  shows "on_port c hw" "input_ok c" "inp_speed (inp_state c) \<le> 100"
  using assms input_ok_speed unfolding follows_def on_port_def by blast+

lemma start_follows:
  assumes "follows c hw" and "input_start c hw = (r, c', hw')"
  shows "follows c' hw'"
proof (cases "input_fault_latched c \<or> inp_speed (inp_state c) = 0")
  case False
  then have "input_control_apply_state c hw ((inp_state c)\<lparr>inp_conveyor := UART_INPUT_CONVEYOR_RUNNING\<rparr>) =
      (r, c', hw')"
    using assms(2) by (simp add: input_start_def)
  moreover have "input_ok c'"
    using start_ok [OF followsD(2) [OF assms(1)], of hw] assms(2) by simp
  ultimately show ?thesis
    using followsD(3) [OF assms(1)] by (intro apply_state_follows [OF followsD(1) [OF assms(1)]]) simp_all
qed (use assms in \<open>auto simp: input_start_def split: if_splits\<close>)

lemma stop_follows:
  assumes "follows c hw" and "input_stop c hw = (r, c', hw')"
  shows "follows c' hw'"
proof (cases "input_fault_latched c")
  case False
  then have "input_control_apply_state c hw ((inp_state c)\<lparr>inp_conveyor := UART_INPUT_CONVEYOR_STOPPED\<rparr>) =
      (r, c', hw')"
    using assms(2) by (simp add: input_stop_def)
  moreover have "input_ok c'"
    using stop_ok [OF followsD(2) [OF assms(1)], of hw] assms(2) by simp
  ultimately show ?thesis
    using followsD(3) [OF assms(1)] by (intro apply_state_follows [OF followsD(1) [OF assms(1)]]) simp_all
next
  case True
  have on: "on_port c hw" using assms(1) by (simp add: follows_def)
  then have inv: "motor_inv hw" "input_ok c" by (simp_all add: on_port_def)
  have eq: "c' = c" "hw' = snd (run hw 0 0)"
    using assms(2) True port_calls(2) [OF on] by (simp_all add: input_stop_def split_def Let_def)
  have "inp_conveyor (inp_state c) \<noteq> UART_INPUT_CONVEYOR_RUNNING"
    using True input_ok_running [OF inv(2)] by (auto simp: input_fault_latched_def)
  moreover have "on_port c hw'"
    using on eq(2) run_inv [OF inv(1)] unfolding on_port_def by blast
  moreover have "duty hw' = 0"
    using eq(2) run_stands [OF inv(1), of 0 0] by simp
  ultimately show ?thesis
    unfolding follows_def eq(1) by simp
qed

lemma set_speed_follows:
  assumes "follows c hw" and "input_set_speed c hw s = (r, c', hw')" and "s \<le> 100"
  shows "follows c' hw'"
proof (cases "input_fault_latched c")
  case False
  have "\<exists>st. input_control_apply_state c hw st = (r, c', hw') \<and> inp_speed st = s"
    using assms(2) False by (auto simp: input_set_speed_def Let_def split: if_splits)
  then obtain st where "input_control_apply_state c hw st = (r, c', hw')" "inp_speed st \<le> 100"
    using assms(3) by auto
  moreover have "input_ok c'"
    using set_speed_ok [OF followsD(2) [OF assms(1)] assms(3), of hw] assms(2) by simp
  ultimately show ?thesis
    by (intro apply_state_follows [OF followsD(1) [OF assms(1)]])
qed (use assms in \<open>simp add: input_set_speed_def\<close>)

lemma reset_follows:
  assumes "follows c hw" and "input_control_reset c hw = (r, c', hw')"
  shows "follows c' hw'"
proof (cases "inp_safety_stop_latched c = 0")
  case True
  obtain ok c1 hw1 where en: "input_ensure_motor c hw = (ok, c1, hw1)"
    by (cases "input_ensure_motor c hw") auto
  note ens = ensure_follows [OF followsD(1) [OF assms(1)] en]
  have ok': "input_ok c'"
    using input_reset_ok [OF followsD(2) [OF assms(1)], of hw] assms(2) by simp
  show ?thesis
  proof (cases ok)
    case True
    have "inp_speed (inp_state c1) \<le> 100"
      using ens(1) input_ok_speed unfolding on_port_def by blast
    then show ?thesis
      using assms(2) \<open>inp_safety_stop_latched c = 0\<close> en True
      by (intro apply_state_follows [OF ens(1) _ _ ok', where st = "(inp_state c1)
          \<lparr>inp_conveyor := UART_INPUT_CONVEYOR_STOPPED, inp_last_error := UART_ERROR_NONE\<rparr>"])
        (simp_all add: input_control_reset_def)
  next
    case False
    then show ?thesis
      using assms(2) \<open>inp_safety_stop_latched c = 0\<close> en ens(2) by (simp add: input_control_reset_def)
  qed
qed (use assms in \<open>simp add: input_control_reset_def\<close>)

lemma process_follows:
  assumes "follows c hw"
    and "input_control_process_command (Some c) message hw = (r, Some c', hw')"
  shows "follows c' hw'"
  using assms(2)
proof (cases rule: input_process_cases)
  case start
  then show ?thesis by (rule start_follows [OF assms(1) sym])
next
  case stop
  then show ?thesis by (rule stop_follows [OF assms(1) sym])
next
  case (set_speed s)
  then show ?thesis using set_speed_follows [OF assms(1), of s r c' hw'] by simp
next
  case reset
  then show ?thesis by (rule reset_follows [OF assms(1) sym])
qed (use assms(1) in simp_all)


lemma stop_apply:
  assumes "on_port c hw" "motor_apply c hw 0 0 = (r, hw')"
  shows "on_port c hw'" "duty hw' = 0"
proof -
  have inv: "motor_inv hw" using assms(1) by (simp add: on_port_def)
  have "hw' = snd (run hw 0 0)" using assms(2) port_calls(2) [OF assms(1)] by simp
  then show "on_port c hw'" "duty hw' = 0"
    using assms(1) run_inv [OF inv] run_stands [OF inv, of 0 0] unfolding on_port_def by simp_all
qed

lemma emergency_follows:
  assumes "on_port c hw" "duty hw = 0" "inp_motor_initialized c \<noteq> 0"
  shows "follows (input_control_set_emergency_stop_fault c) hw"
  using assms by (simp add: follows_def on_port_def input_ok_def input_faults)

text \<open>Setting and clearing the latch, on the way into the two handlers.\<close>

lemma latch_ensure:
  assumes "on_port c hw" and "input_ensure_motor (c\<lparr>inp_safety_stop_latched := 1\<rparr>) hw = (ok, c', hw')"
  obtains c1 where "input_ensure_motor c hw = (ok, c1, hw')" "c' = c1\<lparr>inp_safety_stop_latched := 1\<rparr>"
  using assms(2)
  by (auto simp: input_ensure_motor_def motor_initialize_def input_faults Let_def split_def split: if_splits)


lemma latch_follows:
  assumes "follows c hw" "inp_conveyor (inp_state c) = UART_INPUT_CONVEYOR_FAULT"
  shows "follows (c\<lparr>inp_safety_stop_latched := 1\<rparr>) hw"
  using assms by (simp add: follows_def on_port_def input_ok_def)

lemma latch_commutes:
  "input_control_set_motor_fault (c\<lparr>inp_safety_stop_latched := n\<rparr>) =
     (input_control_set_motor_fault c)\<lparr>inp_safety_stop_latched := n\<rparr>"
  "input_control_set_emergency_stop_fault (c\<lparr>inp_safety_stop_latched := n\<rparr>) =
     (input_control_set_emergency_stop_fault c)\<lparr>inp_safety_stop_latched := n\<rparr>"
  "motor_apply (c\<lparr>inp_safety_stop_latched := n\<rparr>) = motor_apply c"
  by (simp_all add: input_faults motor_apply_def)

lemma fault_state:
  "inp_conveyor (inp_state (input_control_set_motor_fault c)) = UART_INPUT_CONVEYOR_FAULT"
  "inp_conveyor (inp_state (input_control_set_emergency_stop_fault c)) = UART_INPUT_CONVEYOR_FAULT"
  by (simp_all add: input_faults)

lemma ensure_fault:
  assumes "input_ensure_motor c hw = (False, c', hw')"
  shows "inp_conveyor (inp_state c') = UART_INPUT_CONVEYOR_FAULT"
  using assms by (auto simp: input_ensure_motor_def fault_state Let_def split_def split: if_splits)

lemma safety_stop_follows:
  assumes "follows c hw" and "input_control_handle_safety_stop (Some c) hw = (r, Some c', hw')"
  shows "follows c' hw'" and "inp_safety_stop_latched c' \<noteq> 0" and "duty hw' = 0"
proof -
  note on = followsD(1) [OF assms(1)]
  have port: "input_motor_initialize (inp_motor c) \<noteq> NULL" "input_motor_apply (inp_motor c) \<noteq> NULL"
    using on by (simp_all add: on_port_def)
  obtain ok cl hw1 where enl: "input_ensure_motor (c\<lparr>inp_safety_stop_latched := 1\<rparr>) hw = (ok, cl, hw1)"
    by (cases "input_ensure_motor (c\<lparr>inp_safety_stop_latched := 1\<rparr>) hw") auto
  obtain c1 where en: "input_ensure_motor c hw = (ok, c1, hw1)" and cl: "cl = c1\<lparr>inp_safety_stop_latched := 1\<rparr>"
    by (rule latch_ensure [OF on enl])
  note ens = ensure_follows [OF on en]
  have "follows c' hw' \<and> inp_conveyor (inp_state c') = UART_INPUT_CONVEYOR_FAULT \<and> inp_safety_stop_latched c' \<noteq> 0"
  proof (cases ok)
    case False
    then have "c' = cl" "hw' = hw1"
      using assms(2) port enl by (auto simp: input_control_handle_safety_stop_def)
    moreover have "inp_conveyor (inp_state c1) = UART_INPUT_CONVEYOR_FAULT"
      using False en ensure_fault by simp
    ultimately show ?thesis
      using latch_follows [OF ens(2)] False by (simp add: cl)
  next
    case True
    obtain r2 hw2 where ap: "motor_apply c1 hw1 0 0 = (r2, hw2)"
      by (cases "motor_apply c1 hw1 0 0") auto
    note on2 = stop_apply [OF ens(1) ap]
    have init: "inp_motor_initialized c1 \<noteq> 0"
      using ensure_ok(5) [OF followsD(2) [OF assms(1)], of hw] en True by simp
    have "c' = (if r2 \<noteq> INPUT_MOTOR_OK then (input_control_set_motor_fault c1)\<lparr>inp_safety_stop_latched := 1\<rparr>
                else (input_control_set_emergency_stop_fault c1)\<lparr>inp_safety_stop_latched := 1\<rparr>)" "hw' = hw2"
      using assms(2) port enl True ap by (auto simp: input_control_handle_safety_stop_def cl latch_commutes split: if_splits)
    then show ?thesis
      using latch_follows [OF fault_follows [OF on2] fault_state(1)]
        latch_follows [OF emergency_follows [OF on2 init] fault_state(2)]
      by (simp add: fault_state)
  qed
  then show "follows c' hw'" "inp_safety_stop_latched c' \<noteq> 0" "duty hw' = 0"
    by (simp_all add: follows_def)
qed

lemma safety_release_follows:
  assumes "follows c hw" and "input_control_handle_safety_release (Some c) hw = (r, Some c', hw')"
  shows "follows c' hw'"
proof (cases "inp_safety_stop_latched c = 0")
  case False
  note on = followsD(1) [OF assms(1)]
  have port: "input_motor_initialize (inp_motor c) \<noteq> NULL" "input_motor_apply (inp_motor c) \<noteq> NULL"
    using on by (simp_all add: on_port_def)
  obtain ok c1 hw1 where en: "input_ensure_motor c hw = (ok, c1, hw1)"
    by (cases "input_ensure_motor c hw") auto
  note ens = ensure_follows [OF on en]
  show ?thesis
  proof (cases ok)
    case ok: True
    obtain r2 hw2 where ap: "motor_apply c1 hw1 0 0 = (r2, hw2)"
      by (cases "motor_apply c1 hw1 0 0") auto
    note on2 = stop_apply [OF ens(1) ap]
    have init: "inp_motor_initialized c1 \<noteq> 0"
      using ensure_ok(5) [OF followsD(2) [OF assms(1)], of hw] en ok by simp
    show ?thesis
    proof (cases "r2 = INPUT_MOTOR_OK")
      case True
      then have "c' = c1\<lparr>inp_state := (inp_state c1)\<lparr>inp_conveyor := UART_INPUT_CONVEYOR_STOPPED,
          inp_last_error := UART_ERROR_NONE\<rparr>, inp_safety_stop_latched := 0\<rparr>" "hw' = hw2"
        using assms(2) port en ok ap False by (auto simp: input_control_handle_safety_release_def)
      then show ?thesis
        using on2 init by (simp add: follows_def on_port_def input_ok_def)
    next
      case err: False
      then have "c' = input_control_set_motor_fault c1" "hw' = hw2"
        using assms(2) port en ok ap False by (auto simp: input_control_handle_safety_release_def)
      then show ?thesis using fault_follows [OF on2] by simp
    qed
  next
    case nok: False
    then have "c' = c1" "hw' = hw1"
      using assms(2) port en False by (auto simp: input_control_handle_safety_release_def)
    then show ?thesis using ens(2) nok by simp
  qed
qed (use assms in \<open>auto simp: input_control_handle_safety_release_def split: if_splits\<close>)


lemma init_follows:
  assumes "motor_inv hw"
    and "input_control_init (Some c0) (Some \<lparr>input_motor_initialize = Some start_up, input_motor_apply = Some run\<rparr>) hw
      = (r, Some c, hw')"
  shows "follows c hw'"
proof -
  obtain r1 hw1 where st: "start_up hw = (r1, hw1)" by (cases "start_up hw") auto
  have inv1: "motor_inv hw1" "duty hw1 = 0"
    using start_up_inv [OF assms(1)] start_up_stands [OF assms(1)] st by simp_all
  obtain r2 hw2 where ap: "run hw1 0 0 = (r2, hw2)" by (cases "run hw1 0 0") auto
  have inv2: "motor_inv hw2" "duty hw2 = 0"
    using run_inv [OF inv1(1), of 0 0] run_stands [OF inv1(1), of 0 0] ap by simp_all
  show ?thesis
    using assms(2) st ap inv1 inv2
    by (auto simp: input_control_init_def motor_initialize_def motor_apply_def zero_input_control_def
        input_faults follows_def on_port_def input_ok_def Let_def split: if_splits)
qed

end

section \<open>The controller on its motor\<close>

interpretation input_drive: input_motor "input_motor_tb6612_initialize (Some ())"
  "input_motor_tb6612_apply (Some ())" drives_ok input_duty
  by (rule input_motor.intro) (rule input_tb6612.conveyor_motor_axioms)

text \<open>
  What can happen to the input controller and the drives: initialisation, commands, whatever
  they contain, the safety stop and its release, and steps of the rest of the firmware, which
  keep the invariant of the drives and do not touch this motor.
\<close>

inductive input_reachable :: "drives input_control_t \<times> drives \<Rightarrow> bool" where
  init: "drives_ok d \<Longrightarrow>
    input_control_init (Some c0) (Some input_motor_tb6612_port) d = (r, Some c, d') \<Longrightarrow> input_reachable (c, d')"
| command: "input_reachable (c, d) \<Longrightarrow>
    input_control_process_command (Some c) message d = (r, Some c', d') \<Longrightarrow> input_reachable (c', d')"
| safety_stop: "input_reachable (c, d) \<Longrightarrow>
    input_control_handle_safety_stop (Some c) d = (r, Some c', d') \<Longrightarrow> input_reachable (c', d')"
| safety_release: "input_reachable (c, d) \<Longrightarrow>
    input_control_handle_safety_release (Some c) d = (r, Some c', d') \<Longrightarrow> input_reachable (c', d')"
| elsewhere: "input_reachable (c, d) \<Longrightarrow> drives_ok d' \<Longrightarrow> input_duty d' = input_duty d \<Longrightarrow>
    input_reachable (c, d')"

lemma reachable_follows: "input_reachable s \<Longrightarrow> input_drive.follows (fst s) (snd s)"
proof (induction rule: input_reachable.induct)
  case (init d c0 r c d')
  then show ?case
    using input_drive.init_follows [OF init(1), of c0 r c d'] by (simp add: input_motor_tb6612_port_def)
next
  case (elsewhere c d d')
  then show ?case by (simp add: input_drive.follows_def input_drive.on_port_def)
next
  case (command c d message r c' d')
  then show ?case using input_drive.process_follows [of c d] by simp
next
  case (safety_stop c d r c' d')
  then show ?case using input_drive.safety_stop_follows(1) [of c d] by simp
next
  case (safety_release c d r c' d')
  then show ?case using input_drive.safety_release_follows [of c d] by simp
qed

text \<open>
  In every reachable state of the input conveyor the motor's duty cycle is the configured
  speed if the controller says RUNNING and zero in every other state, faults of the motor driver
  included.
\<close>

theorem input_motor_follows_state:
  assumes "input_reachable (c, d)"
  shows "input_ok c \<and> drives_ok d \<and>
         input_duty d = (if inp_conveyor (inp_state c) = UART_INPUT_CONVEYOR_RUNNING
                         then 42 * unat (inp_speed (inp_state c)) else 0)"
  using reachable_follows [OF assms] by (simp add: input_drive.follows_def input_drive.on_port_def)

text \<open>
  After a safety stop of the input conveyor, successful or not, the motor has no duty and
  the command that comes next, be it a reset, neither starts it nor clears the fault.
\<close>

theorem input_safety_stop_holds:
  assumes "input_reachable (c, d)"
    and "input_control_handle_safety_stop (Some c) d = (r, Some c', d')"
    and "input_control_process_command (Some c') message d' = (r2, Some c2, d2)"
  shows "input_duty d' = 0 \<and> input_duty d2 = 0 \<and> inp_safety_stop_latched c2 \<noteq> 0 \<and>
         inp_conveyor (inp_state c2) = UART_INPUT_CONVEYOR_FAULT"
proof -
  have fol: "input_drive.follows c d" using reachable_follows [OF assms(1)] by simp
  note stop = input_drive.safety_stop_follows [OF fol assms(2)]
  have fol2: "input_drive.follows c2 d2" by (rule input_drive.process_follows [OF stop(1) assms(3)])
  have "inp_safety_stop_latched c2 = inp_safety_stop_latched c'"
    using assms(3)
  proof (cases rule: input_process_cases)
    case start
    then show ?thesis using stop(2) by (simp add: input_start_def input_fault_latched_def)
  next
    case stop': stop
    then show ?thesis using stop(2) by (simp add: input_stop_def input_fault_latched_def split_def Let_def)
  next
    case (set_speed s)
    then show ?thesis using stop(2) by (simp add: input_set_speed_def input_fault_latched_def)
  next
    case reset
    then show ?thesis using stop(2) by (simp add: input_control_reset_def)
  qed simp_all
  then have latched: "inp_safety_stop_latched c2 \<noteq> 0" using stop(2) by simp
  then have "inp_conveyor (inp_state c2) = UART_INPUT_CONVEYOR_FAULT"
    using input_drive.followsD(2) [OF fol2] unfolding input_ok_def by blast
  then show ?thesis
    using stop(3) fol2 latched by (simp add: input_drive.follows_def)
qed


text \<open>A short run: the speed is set to 40 percent and the conveyor started.\<close>

definition demo_message :: "u8 \<Rightarrow> u8 \<Rightarrow> u8 list \<Rightarrow> control_command_t" where
  "demo_message command n payload =
     \<lparr>msg_source = APP_UART_CHANNEL_1,
      msg_frame = zero_frame\<lparr>frame_command := command, frame_length := n, frame_payload := payload\<rparr>,
      msg_kind = APP_CONTROL_MESSAGE_UART_COMMAND, msg_safety_epoch = 0\<rparr>"

definition demo_init :: "input_control_result_t \<times> drives input_control_t ptr \<times> drives" where
  "demo_init = input_control_init (Some zero_input_control) (Some input_motor_tb6612_port) zero_drives"

definition demo_speed :: "input_control_result_t \<times> drives input_control_t ptr \<times> drives" where
  "demo_speed = input_control_process_command (fst (snd demo_init)) (Some (demo_message 0x12 1 [40]))
     (snd (snd demo_init))"

definition demo_start :: "input_control_result_t \<times> drives input_control_t ptr \<times> drives" where
  "demo_start = input_control_process_command (fst (snd demo_speed)) (Some (demo_message 0x10 0 []))
     (snd (snd demo_speed))"

definition demo_stop :: "input_control_result_t \<times> drives input_control_t ptr \<times> drives" where
  "demo_stop = input_control_handle_safety_stop (fst (snd demo_start)) (snd (snd demo_start))"

definition demo_restart :: "input_control_result_t \<times> drives input_control_t ptr \<times> drives" where
  "demo_restart = input_control_process_command (fst (snd demo_stop)) (Some (demo_message 0x10 0 []))
     (snd (snd demo_stop))"

lemma input_demo_runs:
  "fst (snd demo_init) \<noteq> None \<and> fst (snd demo_speed) \<noteq> None \<and> fst (snd demo_start) \<noteq> None \<and>
   fst (snd demo_stop) \<noteq> None \<and> fst (snd demo_restart) \<noteq> None \<and>
   inp_conveyor (inp_state (the (fst (snd demo_start)))) = UART_INPUT_CONVEYOR_RUNNING \<and>
   inp_speed (inp_state (the (fst (snd demo_start)))) = 40"
  by code_simp

lemma input_as_triple: "fst (snd t) \<noteq> None \<Longrightarrow> t = (fst t, Some (the (fst (snd t))), snd (snd t))"
  by (cases t) auto

lemma demo_reachable:
  "input_reachable (the (fst (snd demo_start)), snd (snd demo_start))"
proof -
  have i: "fst (snd demo_init) \<noteq> None" and s: "fst (snd demo_speed) \<noteq> None"
    and t: "fst (snd demo_start) \<noteq> None" using input_demo_runs by blast+
  have "input_reachable (the (fst (snd demo_init)), snd (snd demo_init))"
    using input_as_triple [OF i] unfolding demo_init_def
    by (rule input_reachable.init [OF zero_drives_ok])
  moreover have "input_control_process_command (Some (the (fst (snd demo_init)))) (Some (demo_message 0x12 1 [40]))
      (snd (snd demo_init)) = (fst demo_speed, Some (the (fst (snd demo_speed))), snd (snd demo_speed))"
    using input_as_triple [OF s] i by (simp add: demo_speed_def)
  ultimately have "input_reachable (the (fst (snd demo_speed)), snd (snd demo_speed))"
    by (rule input_reachable.command)
  moreover have "input_control_process_command (Some (the (fst (snd demo_speed)))) (Some (demo_message 0x10 0 []))
      (snd (snd demo_speed)) = (fst demo_start, Some (the (fst (snd demo_start))), snd (snd demo_start))"
    using input_as_triple [OF t] s by (simp add: demo_start_def)
  ultimately show ?thesis by (rule input_reachable.command)
qed

theorem input_motor_follows_state_witness:
  "input_duty (snd (snd demo_start)) = 1680"
  using input_motor_follows_state [OF demo_reachable] input_demo_runs by simp

theorem input_safety_stop_holds_witness:
  "input_duty (snd (snd demo_restart)) = 0"
proof -
  have s: "fst (snd demo_start) \<noteq> None" and t: "fst (snd demo_stop) \<noteq> None"
    and u: "fst (snd demo_restart) \<noteq> None" using input_demo_runs by blast+
  have "input_control_handle_safety_stop (Some (the (fst (snd demo_start)))) (snd (snd demo_start)) =
      (fst demo_stop, Some (the (fst (snd demo_stop))), snd (snd demo_stop))"
    using input_as_triple [OF t] s by (simp add: demo_stop_def)
  moreover have "input_control_process_command (Some (the (fst (snd demo_stop)))) (Some (demo_message 0x10 0 []))
      (snd (snd demo_stop)) = (fst demo_restart, Some (the (fst (snd demo_restart))), snd (snd demo_restart))"
    using input_as_triple [OF u] t by (simp add: demo_restart_def)
  ultimately show ?thesis
    using input_safety_stop_holds [OF demo_reachable] by blast
qed

end
