(* ===== verification/Sorting_Control.thy ===== *)
theory Sorting_Control
  imports Conveyor_Messages Conveyor_Drives "HOL-Library.Sublist"
begin

text \<open>
  The controller of the sorting line
  (\<open>stm32/conveyor-controller/Application/Src/sorting_control.c\<close> and \<open>Inc/sorting_control.h\<close>):
  the conveyor and the gate over their ports, the cycle of an item from its route to the
  completion report, faults, the safety stop and its release.
\<close>

section \<open>State\<close>

datatype sorting_control_result_t =
    SORTING_CONTROL_OK | SORTING_CONTROL_INVALID_ARGUMENT | SORTING_CONTROL_INVALID_SOURCE
  | SORTING_CONTROL_UNSUPPORTED_COMMAND | SORTING_CONTROL_INVALID_PAYLOAD
  | SORTING_CONTROL_SPEED_NOT_CONFIGURED | SORTING_CONTROL_FAULT_LATCHED
  | SORTING_CONTROL_MOTOR_ERROR | SORTING_CONTROL_GATE_ERROR | SORTING_CONTROL_BUSY
  | SORTING_CONTROL_NO_ACTIVE_CYCLE | SORTING_CONTROL_CYCLE_MISMATCH
  | SORTING_CONTROL_MOTION_PENDING | SORTING_CONTROL_STALE_COMMAND
  | SORTING_CONTROL_SEQUENCE_CONFLICT | SORTING_CONTROL_TX_BUSY

record sorting_control_state_t =
  srt_conveyor :: uart_sorting_conveyor_state_t
  srt_speed :: u8
  srt_gate_state :: uart_sorting_gate_state_t
  active_cycle_id :: u16
  active_destination :: uart_sorting_destination_t
  srt_last_error :: uart_error_t

record sorting_cycle_complete_t =
  cycle_valid :: u8
  cycle_id :: u16
  cycle_destination :: uart_sorting_destination_t

record 'hw sorting_control_t =
  srt_state :: sorting_control_state_t
  srt_motor :: "'hw sorting_motor_port_t"
  srt_gate :: "'hw sorting_gate_port_t"
  srt_motor_initialized :: u8
  srt_gate_initialized :: u8
  srt_safety_stop_latched :: u8
  complete_cycle_on_home :: u8

text \<open>Calls through the function pointers, whose \<open>NULL\<close> was refused at the start.\<close>

definition motor_initialize :: "'hw sorting_control_t \<Rightarrow> 'hw \<Rightarrow> sorting_motor_result_t \<times> 'hw" where
  "motor_initialize c = the (sorting_motor_initialize (srt_motor c))"

definition motor_apply :: "'hw sorting_control_t \<Rightarrow> 'hw \<Rightarrow> u8 \<Rightarrow> u8 \<Rightarrow> sorting_motor_result_t \<times> 'hw" where
  "motor_apply c = the (sorting_motor_apply (srt_motor c))"

definition gate_initialize :: "'hw sorting_control_t \<Rightarrow> 'hw \<Rightarrow> sorting_gate_result_t \<times> 'hw" where
  "gate_initialize c = the (sorting_gate_initialize (srt_gate c))"

definition gate_move ::
  "'hw sorting_control_t \<Rightarrow> 'hw \<Rightarrow> uart_sorting_destination_t \<Rightarrow> sorting_gate_result_t \<times> 'hw" where
  "gate_move c = the (sorting_gate_move (srt_gate c))"

definition gate_motion_complete ::
  "'hw sorting_control_t \<Rightarrow> 'hw \<Rightarrow> u8 ptr \<Rightarrow> sorting_gate_result_t \<times> u8 ptr \<times> 'hw" where
  "gate_motion_complete c = the (sorting_gate_motion_complete (srt_gate c))"

section \<open>Helpers\<close>

definition sorting_control_is_status_command :: "u8 \<Rightarrow> bool" where
  "sorting_control_is_status_command command \<longleftrightarrow>
     command = sorting_cmd_code UART_CMD_SORTING_GET_STATUS \<or>
     command = sorting_cmd_code UART_CMD_SORTING_CONVEYOR_GET_STATUS"

definition sorting_control_clear_cycle :: "'hw sorting_control_t \<Rightarrow> 'hw sorting_control_t" where
  "sorting_control_clear_cycle c =
     c\<lparr>srt_state := (srt_state c)\<lparr>active_cycle_id := 0,
                                      active_destination := UART_SORTING_DESTINATION_NONE\<rparr>,
       complete_cycle_on_home := 0\<rparr>"

definition sorting_control_set_motor_fault :: "'hw sorting_control_t \<Rightarrow> 'hw sorting_control_t" where
  "sorting_control_set_motor_fault c =
     c\<lparr>srt_state := (srt_state c)\<lparr>srt_conveyor := UART_SORTING_CONVEYOR_FAULT,
                                      srt_last_error := UART_ERROR_MOTOR\<rparr>,
       srt_motor_initialized := 0\<rparr>"

definition sorting_control_set_gate_fault :: "'hw sorting_control_t \<Rightarrow> 'hw sorting_control_t" where
  "sorting_control_set_gate_fault c =
     c\<lparr>srt_state := (srt_state c)\<lparr>srt_gate_state := UART_SORTING_GATE_FAULT,
                                      srt_last_error := UART_ERROR_SERVO\<rparr>,
       srt_gate_initialized := 0\<rparr>"

definition sorting_control_apply_motor ::
  "'hw sorting_control_t \<Rightarrow> 'hw \<Rightarrow> sorting_control_state_t \<Rightarrow>
     sorting_control_result_t \<times> 'hw sorting_control_t \<times> 'hw" where
  "sorting_control_apply_motor c hw candidate =
     (let running = (if srt_conveyor candidate = UART_SORTING_CONVEYOR_RUNNING then 1 else 0);
          (failed, hw) =
            (if srt_motor_initialized c = 0 then (True, hw)
             else (let (r, hw) = motor_apply c hw running (srt_speed candidate)
                   in (r \<noteq> SORTING_MOTOR_OK, hw)))
      in if failed
         then (let (_, hw) = motor_apply c hw 0 0
               in (SORTING_CONTROL_MOTOR_ERROR, sorting_control_set_motor_fault c, hw))
         else (SORTING_CONTROL_OK,
               c\<lparr>srt_state := (srt_state c)\<lparr>srt_conveyor := srt_conveyor candidate,
                                                srt_speed := srt_speed candidate\<rparr>\<rparr>, hw))"

definition sorting_control_move_gate ::
  "'hw sorting_control_t \<Rightarrow> 'hw \<Rightarrow> uart_sorting_destination_t \<Rightarrow> uart_sorting_gate_state_t \<Rightarrow>
     sorting_control_result_t \<times> 'hw sorting_control_t \<times> 'hw" where
  "sorting_control_move_gate c hw destination moving_state =
     (let (failed, hw) =
            (if srt_gate_initialized c = 0 then (True, hw)
             else (let (r, hw) = gate_move c hw destination in (r \<noteq> SORTING_GATE_OK, hw)))
      in if failed then (SORTING_CONTROL_GATE_ERROR, sorting_control_set_gate_fault c, hw)
         else (SORTING_CONTROL_OK,
               c\<lparr>srt_state := (srt_state c)\<lparr>srt_gate_state := moving_state\<rparr>\<rparr>, hw))"

text \<open>The lazy starts of the motor and of the gate, as the reset and the safety handlers have them.\<close>

definition sorting_ensure_motor ::
  "'hw sorting_control_t \<Rightarrow> 'hw \<Rightarrow> bool \<times> 'hw sorting_control_t \<times> 'hw" where
  "sorting_ensure_motor c hw =
     (if srt_motor_initialized c = 0
      then (let (r, hw) = motor_initialize c hw
            in if r \<noteq> SORTING_MOTOR_OK then (False, sorting_control_set_motor_fault c, hw)
               else (True, c\<lparr>srt_motor_initialized := 1\<rparr>, hw))
      else (True, c, hw))"

definition sorting_start_gate ::
  "'hw sorting_control_t \<Rightarrow> 'hw \<Rightarrow> bool \<times> 'hw sorting_control_t \<times> 'hw" where
  "sorting_start_gate c hw =
     (let (r, hw) = gate_initialize c hw
      in if r \<noteq> SORTING_GATE_OK then (False, sorting_control_set_gate_fault c, hw)
         else (True, c\<lparr>srt_gate_initialized := 1,
                        srt_state := (srt_state c)\<lparr>srt_gate_state := UART_SORTING_GATE_RETURNING\<rparr>\<rparr>, hw))"

section \<open>Operations\<close>

definition reset_gate ::
  "'hw sorting_control_t \<Rightarrow> 'hw \<Rightarrow> bool \<times> 'hw sorting_control_t \<times> 'hw" where
  "reset_gate c hw =
     (if srt_gate_initialized c = 0 then sorting_start_gate c hw
      else (let (r, c, hw) = sorting_control_move_gate c hw
                  UART_SORTING_DESTINATION_NONE UART_SORTING_GATE_RETURNING
            in (r = SORTING_CONTROL_OK, c, hw)))"

definition sorting_control_reset ::
  "'hw sorting_control_t \<Rightarrow> 'hw \<Rightarrow> sorting_control_result_t \<times> 'hw sorting_control_t \<times> 'hw" where
  "sorting_control_reset c hw =
     (if srt_safety_stop_latched c \<noteq> 0 then (SORTING_CONTROL_FAULT_LATCHED, c, hw)
      else
        (let (ok, c, hw) = sorting_ensure_motor c hw
         in if \<not> ok then (SORTING_CONTROL_MOTOR_ERROR, c, hw)
            else
              (let (ok, c, hw) = reset_gate c hw
               in if \<not> ok then (SORTING_CONTROL_GATE_ERROR, c, hw)
                  else
                    (let (r, c, hw) = sorting_control_apply_motor c hw
                           ((srt_state c)\<lparr>srt_conveyor := UART_SORTING_CONVEYOR_STOPPED\<rparr>)
                     in if r \<noteq> SORTING_CONTROL_OK then (SORTING_CONTROL_MOTOR_ERROR, c, hw)
                        else
                          (let c = sorting_control_clear_cycle c
                           in (SORTING_CONTROL_OK,
                               c\<lparr>srt_state := (srt_state c)\<lparr>srt_last_error := UART_ERROR_NONE\<rparr>\<rparr>, hw))))))"

text \<open>\<open>memset(controller, 0, sizeof(*controller))\<close>\<close>

definition zero_sorting_control :: "'hw sorting_control_t" where
  "zero_sorting_control =
     \<lparr>srt_state = \<lparr>srt_conveyor = UART_SORTING_CONVEYOR_STOPPED, srt_speed = 0,
                    srt_gate_state = UART_SORTING_GATE_HOME, active_cycle_id = 0,
                    active_destination = UART_SORTING_DESTINATION_NONE,
                    srt_last_error = UART_ERROR_NONE\<rparr>,
      srt_motor = \<lparr>sorting_motor_initialize = NULL, sorting_motor_apply = NULL\<rparr>,
      srt_gate = \<lparr>sorting_gate_initialize = NULL, sorting_gate_move = NULL,
                   sorting_gate_motion_complete = NULL\<rparr>,
      srt_motor_initialized = 0, srt_gate_initialized = 0, srt_safety_stop_latched = 0,
      complete_cycle_on_home = 0\<rparr>"

definition sorting_control_init ::
  "'hw sorting_control_t ptr \<Rightarrow> 'hw sorting_motor_port_t ptr \<Rightarrow> 'hw sorting_gate_port_t ptr \<Rightarrow> 'hw \<Rightarrow>
     sorting_control_result_t \<times> 'hw sorting_control_t ptr \<times> 'hw" where
  "sorting_control_init controller motor gate hw =
     (case (controller, motor, gate) of
        (Some _, Some m, Some g) \<Rightarrow>
          if sorting_motor_initialize m = NULL \<or> sorting_motor_apply m = NULL
             \<or> sorting_gate_initialize g = NULL \<or> sorting_gate_move g = NULL
             \<or> sorting_gate_motion_complete g = NULL
          then (SORTING_CONTROL_INVALID_ARGUMENT, controller, hw)
          else
            (let c = zero_sorting_control\<lparr>srt_motor := m, srt_gate := g\<rparr>;
                 c = c\<lparr>srt_state := (srt_state c)\<lparr>srt_conveyor := UART_SORTING_CONVEYOR_STOPPED,
                         srt_gate_state := UART_SORTING_GATE_RETURNING,
                         active_destination := UART_SORTING_DESTINATION_NONE,
                         srt_last_error := UART_ERROR_NONE\<rparr>\<rparr>;
                 (r, hw) = motor_initialize c hw;
                 (result, c, hw) =
                   (if r = SORTING_MOTOR_OK
                    then (let c = c\<lparr>srt_motor_initialized := 1\<rparr>;
                              (r, hw) = motor_apply c hw 0 0
                          in if r \<noteq> SORTING_MOTOR_OK
                             then (SORTING_CONTROL_MOTOR_ERROR, sorting_control_set_motor_fault c, hw)
                             else (SORTING_CONTROL_OK, c, hw))
                    else (SORTING_CONTROL_MOTOR_ERROR, sorting_control_set_motor_fault c, hw));
                 (ok, c, hw) = sorting_start_gate c hw
             in (if ok then result else SORTING_CONTROL_GATE_ERROR, Some c, hw))
      | _ \<Rightarrow> (SORTING_CONTROL_INVALID_ARGUMENT, controller, hw))"

definition zero_cycle_complete :: sorting_cycle_complete_t where
  "zero_cycle_complete = \<lparr>cycle_valid = 0, cycle_id = 0, cycle_destination = UART_SORTING_DESTINATION_NONE\<rparr>"

text \<open>The gate has arrived: at the destination, or home again.\<close>

definition sorting_motion_done ::
  "'hw sorting_control_t \<Rightarrow> sorting_cycle_complete_t \<times> 'hw sorting_control_t" where
  "sorting_motion_done c =
     (let st = srt_state c
      in if srt_gate_state st = UART_SORTING_GATE_MOVING
         then (zero_cycle_complete, c\<lparr>srt_state := st\<lparr>srt_gate_state := UART_SORTING_GATE_WAIT_ITEM\<rparr>\<rparr>)
         else
           (let completion =
              (if complete_cycle_on_home c \<noteq> 0 \<and> active_cycle_id st \<noteq> 0
                  \<and> uart_sorting_destination_is_valid (destination_code (active_destination st))
               then \<lparr>cycle_valid = 1, cycle_id = active_cycle_id st,
                     cycle_destination = active_destination st\<rparr>
               else zero_cycle_complete)
            in (completion, sorting_control_clear_cycle
                  (c\<lparr>srt_state := st\<lparr>srt_gate_state := UART_SORTING_GATE_HOME\<rparr>\<rparr>))))"

definition sorting_control_service_motion ::
  "'hw sorting_control_t ptr \<Rightarrow> sorting_cycle_complete_t ptr \<Rightarrow> 'hw \<Rightarrow>
     sorting_control_result_t \<times> sorting_cycle_complete_t ptr \<times> 'hw sorting_control_t ptr \<times> 'hw" where
  "sorting_control_service_motion controller completion hw =
     (case (controller, completion) of
        (Some c, Some _) \<Rightarrow>
          if srt_gate_state (srt_state c) \<noteq> UART_SORTING_GATE_MOVING
             \<and> srt_gate_state (srt_state c) \<noteq> UART_SORTING_GATE_RETURNING
          then (SORTING_CONTROL_OK, Some zero_cycle_complete, controller, hw)
          else
            (let (failed, complete, hw) =
                   (if srt_gate_initialized c = 0 then (True, Some 0, hw)
                    else (let (r, complete, hw) = gate_motion_complete c hw (Some 0)
                          in (r \<noteq> SORTING_GATE_OK, complete, hw)))
             in if failed
                then (SORTING_CONTROL_GATE_ERROR, Some zero_cycle_complete,
                      Some (sorting_control_set_gate_fault c), hw)
                else if complete = Some 0
                then (SORTING_CONTROL_MOTION_PENDING, Some zero_cycle_complete, controller, hw)
                else (let (report, c) = sorting_motion_done c
                      in (SORTING_CONTROL_OK, Some report, Some c, hw)))
      | _ \<Rightarrow> (SORTING_CONTROL_INVALID_ARGUMENT, completion, controller, hw))"


text \<open>The cast \<open>(uart_sorting_destination_t)\<close> of a validated byte.\<close>

definition destination_of :: "u8 \<Rightarrow> uart_sorting_destination_t" where
  "destination_of b =
     (if b = destination_code UART_SORTING_DESTINATION_1 then UART_SORTING_DESTINATION_1
      else if b = destination_code UART_SORTING_DESTINATION_2 then UART_SORTING_DESTINATION_2
      else if b = destination_code UART_SORTING_DESTINATION_3 then UART_SORTING_DESTINATION_3
      else UART_SORTING_DESTINATION_NONE)"

definition sorting_any_fault :: "'hw sorting_control_t \<Rightarrow> bool" where
  "sorting_any_fault c \<longleftrightarrow>
     srt_conveyor (srt_state c) = UART_SORTING_CONVEYOR_FAULT \<or>
     srt_gate_state (srt_state c) = UART_SORTING_GATE_FAULT \<or>
     srt_last_error (srt_state c) \<noteq> UART_ERROR_NONE"

definition sorting_start ::
  "'hw sorting_control_t \<Rightarrow> 'hw \<Rightarrow> sorting_control_result_t \<times> 'hw sorting_control_t \<times> 'hw" where
  "sorting_start c hw =
     (if sorting_any_fault c then (SORTING_CONTROL_FAULT_LATCHED, c, hw)
      else if srt_speed (srt_state c) = 0 then (SORTING_CONTROL_SPEED_NOT_CONFIGURED, c, hw)
      else sorting_control_apply_motor c hw
             ((srt_state c)\<lparr>srt_conveyor := UART_SORTING_CONVEYOR_RUNNING\<rparr>))"

definition sorting_stop ::
  "'hw sorting_control_t \<Rightarrow> 'hw \<Rightarrow> sorting_control_result_t \<times> 'hw sorting_control_t \<times> 'hw" where
  "sorting_stop c hw =
     (let candidate = (srt_state c)\<lparr>srt_conveyor := UART_SORTING_CONVEYOR_STOPPED\<rparr>;
          (r, c, hw) = sorting_control_apply_motor c hw candidate
      in if r \<noteq> SORTING_CONTROL_OK then (SORTING_CONTROL_MOTOR_ERROR, c, hw)
         else (if srt_last_error candidate = UART_ERROR_NONE then SORTING_CONTROL_OK
               else SORTING_CONTROL_FAULT_LATCHED, c, hw))"

definition sorting_set_speed ::
  "'hw sorting_control_t \<Rightarrow> 'hw \<Rightarrow> u8 \<Rightarrow> sorting_control_result_t \<times> 'hw sorting_control_t \<times> 'hw" where
  "sorting_set_speed c hw speed =
     (if sorting_any_fault c then (SORTING_CONTROL_FAULT_LATCHED, c, hw)
      else
        (let candidate = (srt_state c)\<lparr>srt_speed := speed\<rparr>;
             candidate =
               (if srt_speed candidate = 0 \<and> srt_conveyor candidate = UART_SORTING_CONVEYOR_RUNNING
                then candidate\<lparr>srt_conveyor := UART_SORTING_CONVEYOR_STOPPED\<rparr> else candidate)
         in sorting_control_apply_motor c hw candidate))"

definition sorting_route_item ::
  "'hw sorting_control_t \<Rightarrow> 'hw \<Rightarrow> u8 list \<Rightarrow> sorting_control_result_t \<times> 'hw sorting_control_t \<times> 'hw" where
  "sorting_route_item c hw payload =
     (if srt_gate_state (srt_state c) = UART_SORTING_GATE_FAULT
         \<or> srt_last_error (srt_state c) \<noteq> UART_ERROR_NONE
      then (SORTING_CONTROL_FAULT_LATCHED, c, hw)
      else if active_cycle_id (srt_state c) \<noteq> 0 \<or> srt_gate_state (srt_state c) \<noteq> UART_SORTING_GATE_HOME
      then (SORTING_CONTROL_BUSY, c, hw)
      else
        (let cycle = uart_sorting_route_cycle_id (Some payload);
             destination = destination_of (payload ! 2);
             (r, c, hw) = sorting_control_move_gate c hw destination UART_SORTING_GATE_MOVING
         in if r \<noteq> SORTING_CONTROL_OK then (SORTING_CONTROL_GATE_ERROR, c, hw)
            else (SORTING_CONTROL_OK,
                  c\<lparr>srt_state := (srt_state c)\<lparr>active_cycle_id := cycle, active_destination := destination\<rparr>,
                    complete_cycle_on_home := 0\<rparr>, hw)))"

definition sorting_return_home ::
  "'hw sorting_control_t \<Rightarrow> 'hw \<Rightarrow> u8 list \<Rightarrow> sorting_control_result_t \<times> 'hw sorting_control_t \<times> 'hw" where
  "sorting_return_home c hw payload =
     (let cycle = uart_sorting_return_home_cycle_id (Some payload)
      in if active_cycle_id (srt_state c) = 0 then (SORTING_CONTROL_NO_ACTIVE_CYCLE, c, hw)
         else if cycle \<noteq> active_cycle_id (srt_state c) then (SORTING_CONTROL_CYCLE_MISMATCH, c, hw)
         else if srt_gate_state (srt_state c) \<noteq> UART_SORTING_GATE_WAIT_ITEM
         then (SORTING_CONTROL_BUSY, c, hw)
         else
           (let (r, c, hw) = sorting_control_move_gate c hw UART_SORTING_DESTINATION_NONE
                               UART_SORTING_GATE_RETURNING
            in if r \<noteq> SORTING_CONTROL_OK then (SORTING_CONTROL_GATE_ERROR, c, hw)
               else (SORTING_CONTROL_OK, c\<lparr>complete_cycle_on_home := 1\<rparr>, hw)))"

definition sorting_cancel ::
  "'hw sorting_control_t \<Rightarrow> 'hw \<Rightarrow> u8 list \<Rightarrow> sorting_control_result_t \<times> 'hw sorting_control_t \<times> 'hw" where
  "sorting_cancel c hw payload =
     (let cycle = uart_sorting_cancel_cycle_id (Some payload)
      in if active_cycle_id (srt_state c) = 0 then (SORTING_CONTROL_NO_ACTIVE_CYCLE, c, hw)
         else if cycle \<noteq> active_cycle_id (srt_state c) then (SORTING_CONTROL_CYCLE_MISMATCH, c, hw)
         else
           (let (r, c, hw) = sorting_control_move_gate c hw UART_SORTING_DESTINATION_NONE
                               UART_SORTING_GATE_RETURNING
            in if r \<noteq> SORTING_CONTROL_OK then (SORTING_CONTROL_GATE_ERROR, c, hw)
               else (SORTING_CONTROL_OK, c\<lparr>complete_cycle_on_home := 0\<rparr>, hw)))"

definition sorting_dispatch ::
  "'hw sorting_control_t \<Rightarrow> 'hw \<Rightarrow> u8 \<Rightarrow> u8 list \<Rightarrow>
     sorting_control_result_t \<times> 'hw sorting_control_t \<times> 'hw" where
  "sorting_dispatch c hw command payload =
     (if command = sorting_cmd_code UART_CMD_SORTING_CONVEYOR_START then sorting_start c hw
      else if command = sorting_cmd_code UART_CMD_SORTING_CONVEYOR_STOP then sorting_stop c hw
      else if command = sorting_cmd_code UART_CMD_SORTING_CONVEYOR_SET_SPEED
      then sorting_set_speed c hw (payload ! 0)
      else if command = sorting_cmd_code UART_CMD_SORTING_CONVEYOR_GET_STATUS
              \<or> command = sorting_cmd_code UART_CMD_SORTING_GET_STATUS
      then (SORTING_CONTROL_OK, c, hw)
      else if command = sorting_cmd_code UART_CMD_SORTING_ROUTE_ITEM then sorting_route_item c hw payload
      else if command = sorting_cmd_code UART_CMD_SORTING_RETURN_HOME then sorting_return_home c hw payload
      else if command = sorting_cmd_code UART_CMD_SORTING_CANCEL then sorting_cancel c hw payload
      else if command = sorting_cmd_code UART_CMD_SORTING_RESET then sorting_control_reset c hw
      else (SORTING_CONTROL_UNSUPPORTED_COMMAND, c, hw))"

definition sorting_control_process_command ::
  "'hw sorting_control_t ptr \<Rightarrow> control_command_t ptr \<Rightarrow> 'hw \<Rightarrow>
     sorting_control_result_t \<times> 'hw sorting_control_t ptr \<times> 'hw" where
  "sorting_control_process_command controller message hw =
     (case (controller, message) of
        (Some c, Some m) \<Rightarrow>
          (let frame = msg_frame m; command = frame_command frame
           in if msg_source m \<noteq> APP_UART_CHANNEL_6 then (SORTING_CONTROL_INVALID_SOURCE, controller, hw)
              else if \<not> uart_sorting_command_is_valid (to_u32 command)
              then (SORTING_CONTROL_UNSUPPORTED_COMMAND, controller, hw)
              else if \<not> uart_sorting_payload_is_valid (to_u32 command) (Some (frame_payload frame))
                         (to_u32 (frame_length frame))
              then (SORTING_CONTROL_INVALID_PAYLOAD, controller, hw)
              else if srt_safety_stop_latched c \<noteq> 0 \<and> \<not> sorting_control_is_status_command command
              then (SORTING_CONTROL_FAULT_LATCHED, controller, hw)
              else (let (result, c, hw) = sorting_dispatch c hw command (frame_payload frame)
                    in (result, Some c, hw)))
      | _ \<Rightarrow> (SORTING_CONTROL_INVALID_ARGUMENT, controller, hw))"

text \<open>The safety stop: the motor part, the gate part, and the gate's motion.\<close>

definition safety_stop_motor ::
  "'hw sorting_control_t \<Rightarrow> 'hw \<Rightarrow> sorting_control_result_t \<times> 'hw sorting_control_t \<times> 'hw" where
  "safety_stop_motor c hw =
     (let (ok, c, hw) = sorting_ensure_motor c hw;
          result = (if ok then SORTING_CONTROL_OK else SORTING_CONTROL_MOTOR_ERROR)
      in if srt_motor_initialized c \<noteq> 0
         then (let (r, hw) = motor_apply c hw 0 0
               in if r \<noteq> SORTING_MOTOR_OK
                  then (SORTING_CONTROL_MOTOR_ERROR, sorting_control_set_motor_fault c, hw)
                  else (result, c, hw))
         else (result, c, hw))"

definition safety_stop_gate ::
  "sorting_control_result_t \<Rightarrow> 'hw sorting_control_t \<Rightarrow> 'hw \<Rightarrow>
     sorting_control_result_t \<times> 'hw sorting_control_t \<times> 'hw" where
  "safety_stop_gate result c hw =
     (if srt_gate_initialized c = 0
      then (let (ok, c, hw) = sorting_start_gate c hw
            in (if ok then result else SORTING_CONTROL_GATE_ERROR, c, hw))
      else if srt_gate_state (srt_state c) \<noteq> UART_SORTING_GATE_HOME
              \<and> srt_gate_state (srt_state c) \<noteq> UART_SORTING_GATE_RETURNING
      then (let (r, c, hw) = sorting_control_move_gate c hw UART_SORTING_DESTINATION_NONE
                               UART_SORTING_GATE_RETURNING
            in (if r \<noteq> SORTING_CONTROL_OK then SORTING_CONTROL_GATE_ERROR else result, c, hw))
      else (result, c, hw))"

definition safety_stop_latch :: "'hw sorting_control_t \<Rightarrow> 'hw sorting_control_t" where
  "safety_stop_latch c =
     (if srt_safety_stop_latched c = 0
      then sorting_control_clear_cycle (c\<lparr>srt_safety_stop_latched := 1, complete_cycle_on_home := 0\<rparr>)
      else c)"

definition safety_stop_fault :: "'hw sorting_control_t \<Rightarrow> 'hw sorting_control_t" where
  "safety_stop_fault c =
     c\<lparr>srt_state := (srt_state c)\<lparr>srt_conveyor := UART_SORTING_CONVEYOR_FAULT,
                                      srt_last_error := UART_ERROR_EMERGENCY_STOP\<rparr>\<rparr>"

definition sorting_control_handle_safety_stop ::
  "'hw sorting_control_t ptr \<Rightarrow> 'hw \<Rightarrow> sorting_control_result_t \<times> 'hw sorting_control_t ptr \<times> 'hw" where
  "sorting_control_handle_safety_stop controller hw =
     (case controller of
        None \<Rightarrow> (SORTING_CONTROL_INVALID_ARGUMENT, controller, hw)
      | Some c \<Rightarrow>
          if sorting_motor_initialize (srt_motor c) = NULL \<or> sorting_motor_apply (srt_motor c) = NULL
             \<or> sorting_gate_initialize (srt_gate c) = NULL \<or> sorting_gate_move (srt_gate c) = NULL
             \<or> sorting_gate_motion_complete (srt_gate c) = NULL
          then (SORTING_CONTROL_INVALID_ARGUMENT, controller, hw)
          else
            (let (result, c, hw) = safety_stop_motor c hw;
                 c = safety_stop_latch c;
                 (result, c, hw) = safety_stop_gate result c hw;
                 c = safety_stop_fault c
             in if srt_gate_state (srt_state c) = UART_SORTING_GATE_RETURNING
                then
                  (let (motion_result, _, c, hw) =
                         sorting_control_service_motion (Some c) (Some zero_cycle_complete) hw
                   in if motion_result = SORTING_CONTROL_MOTION_PENDING
                      then (SORTING_CONTROL_MOTION_PENDING, c, hw)
                      else if motion_result \<noteq> SORTING_CONTROL_OK then (motion_result, c, hw)
                      else (result, c, hw))
                else (result, Some c, hw)))"

definition sorting_control_handle_safety_release ::
  "'hw sorting_control_t ptr \<Rightarrow> 'hw \<Rightarrow> sorting_control_result_t \<times> 'hw sorting_control_t ptr \<times> 'hw" where
  "sorting_control_handle_safety_release controller hw =
     (case controller of
        None \<Rightarrow> (SORTING_CONTROL_INVALID_ARGUMENT, controller, hw)
      | Some c \<Rightarrow>
          if sorting_motor_initialize (srt_motor c) = NULL \<or> sorting_motor_apply (srt_motor c) = NULL
             \<or> sorting_gate_initialize (srt_gate c) = NULL \<or> sorting_gate_move (srt_gate c) = NULL
          then (SORTING_CONTROL_INVALID_ARGUMENT, controller, hw)
          else if srt_safety_stop_latched c = 0 then (SORTING_CONTROL_OK, controller, hw)
          else if srt_gate_state (srt_state c) \<noteq> UART_SORTING_GATE_HOME
          then (SORTING_CONTROL_MOTION_PENDING, controller, hw)
          else
            (let (ok, c, hw) = sorting_ensure_motor c hw
             in if \<not> ok then (SORTING_CONTROL_MOTOR_ERROR, Some c, hw)
                else
                  (let (r, hw) = motor_apply c hw 0 0
                   in if r \<noteq> SORTING_MOTOR_OK
                      then (SORTING_CONTROL_MOTOR_ERROR, Some (sorting_control_set_motor_fault c), hw)
                      else
                        (SORTING_CONTROL_OK,
                         Some (sorting_control_clear_cycle
                           (c\<lparr>srt_state := (srt_state c)\<lparr>srt_conveyor := UART_SORTING_CONVEYOR_STOPPED,
                                                             srt_last_error := UART_ERROR_NONE\<rparr>,
                              srt_safety_stop_latched := 0\<rparr>)),
                         hw))))"

definition sorting_control_build_status_payload ::
  "sorting_control_state_t ptr \<Rightarrow> u8 list ptr \<Rightarrow> u8 list ptr" where
  "sorting_control_build_status_payload state payload =
     (case (state, payload) of
        (Some st, Some p) \<Rightarrow>
          Some (p[UART_RESPONSE_STATUS_INDEX :=
                    (if srt_gate_state st = UART_SORTING_GATE_FAULT \<or> srt_last_error st \<noteq> UART_ERROR_NONE
                     then status_code UART_STATUS_ERROR else status_code UART_STATUS_SUCCESS),
                  UART_RESPONSE_COMMAND_INDEX := sorting_cmd_code UART_CMD_SORTING_GET_STATUS,
                  UART_RESPONSE_ERROR_INDEX := error_code (srt_last_error st),
                  3 := gate_code (srt_gate_state st),
                  4 := lo8 (active_cycle_id st),
                  5 := hi8 (active_cycle_id st),
                  6 := destination_code (active_destination st)])
      | _ \<Rightarrow> payload)"

definition sorting_control_build_conveyor_status_payload ::
  "sorting_control_state_t ptr \<Rightarrow> u8 list ptr \<Rightarrow> u8 list ptr" where
  "sorting_control_build_conveyor_status_payload state payload =
     (case (state, payload) of
        (Some st, Some p) \<Rightarrow>
          Some (p[UART_RESPONSE_STATUS_INDEX :=
                    (if srt_conveyor st = UART_SORTING_CONVEYOR_FAULT \<or> srt_last_error st \<noteq> UART_ERROR_NONE
                     then status_code UART_STATUS_ERROR else status_code UART_STATUS_SUCCESS),
                  UART_RESPONSE_COMMAND_INDEX := sorting_cmd_code UART_CMD_SORTING_CONVEYOR_GET_STATUS,
                  UART_RESPONSE_ERROR_INDEX := error_code (srt_last_error st),
                  3 := sorting_conveyor_code (srt_conveyor st),
                  4 := srt_speed st])
      | _ \<Rightarrow> payload)"


section \<open>Invariant\<close>

text \<open>
  The drives: the speed is a percentage; running means an initialised motor and a speed; a lost
  motor or gate shows as a fault, and a fault as an error.
\<close>

definition core_ok :: "'hw sorting_control_t \<Rightarrow> bool" where
  "core_ok c \<longleftrightarrow>
     srt_speed (srt_state c) \<le> 100 \<and>
     (srt_conveyor (srt_state c) = UART_SORTING_CONVEYOR_RUNNING \<longrightarrow>
        srt_motor_initialized c \<noteq> 0 \<and> srt_speed (srt_state c) \<noteq> 0) \<and>
     (srt_motor_initialized c = 0 \<longrightarrow> srt_conveyor (srt_state c) = UART_SORTING_CONVEYOR_FAULT) \<and>
     (srt_gate_initialized c = 0 \<longrightarrow> srt_gate_state (srt_state c) = UART_SORTING_GATE_FAULT) \<and>
     (srt_gate_state (srt_state c) = UART_SORTING_GATE_FAULT \<longrightarrow> srt_gate_initialized c = 0)"

text \<open>Faults show as errors, and the latched safety stop as both.\<close>

definition errors_ok :: "'hw sorting_control_t \<Rightarrow> bool" where
  "errors_ok c \<longleftrightarrow>
     (srt_conveyor (srt_state c) = UART_SORTING_CONVEYOR_FAULT \<longrightarrow>
        srt_last_error (srt_state c) \<noteq> UART_ERROR_NONE) \<and>
     (srt_gate_state (srt_state c) = UART_SORTING_GATE_FAULT \<longrightarrow>
        srt_last_error (srt_state c) \<noteq> UART_ERROR_NONE) \<and>
     (srt_safety_stop_latched c \<noteq> 0 \<longrightarrow> srt_conveyor (srt_state c) = UART_SORTING_CONVEYOR_FAULT)"

text \<open>
  The cycle: it has a destination exactly while it is active, the gate is out or waiting only
  for an active cycle, none is active with the gate home, and the completion is pending only
  on the way home (or where that way failed).
\<close>

definition cycle_ok :: "'hw sorting_control_t \<Rightarrow> bool" where
  "cycle_ok c \<longleftrightarrow>
     (active_cycle_id (srt_state c) = 0 \<longleftrightarrow>
        active_destination (srt_state c) = UART_SORTING_DESTINATION_NONE) \<and>
     (srt_gate_state (srt_state c) = UART_SORTING_GATE_HOME \<longrightarrow> active_cycle_id (srt_state c) = 0) \<and>
     (srt_gate_state (srt_state c) \<in> {UART_SORTING_GATE_MOVING, UART_SORTING_GATE_WAIT_ITEM} \<longrightarrow>
        active_cycle_id (srt_state c) \<noteq> 0 \<and> complete_cycle_on_home c = 0 \<and> srt_safety_stop_latched c = 0) \<and>
     (complete_cycle_on_home c \<noteq> 0 \<longrightarrow> active_cycle_id (srt_state c) \<noteq> 0)"

definition sorting_ok :: "'hw sorting_control_t \<Rightarrow> bool" where
  "sorting_ok c \<longleftrightarrow> core_ok c \<and> errors_ok c \<and> cycle_ok c"

lemmas sorting_helpers = sorting_control_clear_cycle_def sorting_control_set_motor_fault_def
  sorting_control_set_gate_fault_def

lemma motor_fault_ok:
  "core_ok c \<Longrightarrow> core_ok (sorting_control_set_motor_fault c)"
  "errors_ok (sorting_control_set_motor_fault c)"
  "cycle_ok (sorting_control_set_motor_fault c) \<longleftrightarrow> cycle_ok c"
  by (simp_all add: core_ok_def errors_ok_def cycle_ok_def sorting_helpers)

lemma gate_fault_ok:
  "core_ok c \<Longrightarrow> core_ok (sorting_control_set_gate_fault c)"
  "errors_ok c \<Longrightarrow> errors_ok (sorting_control_set_gate_fault c)"
  "cycle_ok c \<Longrightarrow> cycle_ok (sorting_control_set_gate_fault c)"
  by (auto simp: core_ok_def errors_ok_def cycle_ok_def sorting_helpers)

text \<open>The two operations on the drives, by their outcome.\<close>

lemma apply_motor_cases:
  assumes "sorting_control_apply_motor c hw st = (r, c', hw')"
  obtains (failed) "r = SORTING_CONTROL_MOTOR_ERROR" "c' = sorting_control_set_motor_fault c"
  | (applied) "r = SORTING_CONTROL_OK" "srt_motor_initialized c \<noteq> 0"
      "c' = c\<lparr>srt_state := (srt_state c)\<lparr>srt_conveyor := srt_conveyor st, srt_speed := srt_speed st\<rparr>\<rparr>"
  using assms by (auto simp: sorting_control_apply_motor_def Let_def split_def split: if_splits)

lemma move_gate_cases:
  assumes "sorting_control_move_gate c hw dest st = (r, c', hw')"
  obtains (failed) "r = SORTING_CONTROL_GATE_ERROR" "c' = sorting_control_set_gate_fault c"
  | (moved) "r = SORTING_CONTROL_OK" "srt_gate_initialized c \<noteq> 0" "hw' = snd (gate_move c hw dest)"
      "fst (gate_move c hw dest) = SORTING_GATE_OK"
      "c' = c\<lparr>srt_state := (srt_state c)\<lparr>srt_gate_state := st\<rparr>\<rparr>"
  using assms by (auto simp: sorting_control_move_gate_def Let_def split_def split: if_splits)

lemma ensure_motor_cases:
  assumes "sorting_ensure_motor c hw = (ok, c', hw')"
  obtains (failed) "\<not> ok" "c' = sorting_control_set_motor_fault c"
  | (ready) "ok" "srt_motor_initialized c' \<noteq> 0" "c' = c \<or> c' = c\<lparr>srt_motor_initialized := 1\<rparr>"
  using assms by (auto simp: sorting_ensure_motor_def Let_def split_def split: if_splits)

lemma start_gate_cases:
  assumes "sorting_start_gate c hw = (ok, c', hw')"
  obtains (failed) "\<not> ok" "c' = sorting_control_set_gate_fault c"
  | (started) "ok" "hw' = snd (gate_initialize c hw)" "fst (gate_initialize c hw) = SORTING_GATE_OK"
      "c' = c\<lparr>srt_gate_initialized := 1,
               srt_state := (srt_state c)\<lparr>srt_gate_state := UART_SORTING_GATE_RETURNING\<rparr>\<rparr>"
  using assms by (auto simp: sorting_start_gate_def Let_def split_def split: if_splits)


text \<open>The gate sent home, and the motor part without an operation of its own.\<close>

lemma gate_home_ok:
  assumes "srt_gate_initialized c' \<noteq> 0"
    and "c' = c\<lparr>srt_gate_initialized := g, srt_state := (srt_state c)\<lparr>srt_gate_state := UART_SORTING_GATE_RETURNING\<rparr>\<rparr>"
  shows "core_ok c \<Longrightarrow> core_ok c'" "errors_ok c \<Longrightarrow> errors_ok c'" "cycle_ok c \<Longrightarrow> cycle_ok c'"
  using assms by (auto simp: core_ok_def errors_ok_def cycle_ok_def)

lemma ensure_motor_ok:
  assumes "sorting_ensure_motor c hw = (ok, c', hw')"
  shows "core_ok c \<Longrightarrow> core_ok c'" "errors_ok c \<Longrightarrow> errors_ok c'" "cycle_ok c' \<longleftrightarrow> cycle_ok c"
    "srt_safety_stop_latched c' = srt_safety_stop_latched c" "srt_motor c' = srt_motor c" "srt_gate c' = srt_gate c"
    "srt_gate_initialized c' = srt_gate_initialized c"
    "srt_gate_state (srt_state c') = srt_gate_state (srt_state c)"
    "active_cycle_id (srt_state c') = active_cycle_id (srt_state c)"
    "active_destination (srt_state c') = active_destination (srt_state c)"
    "complete_cycle_on_home c' = complete_cycle_on_home c"
  using assms by (cases rule: ensure_motor_cases; auto simp: motor_fault_ok sorting_helpers;
      auto simp: core_ok_def errors_ok_def cycle_ok_def)+

lemma start_gate_ok:
  assumes "sorting_start_gate c hw = (ok, c', hw')"
  shows "core_ok c \<Longrightarrow> core_ok c'" "errors_ok c \<Longrightarrow> errors_ok c'" "cycle_ok c \<Longrightarrow> cycle_ok c'"
  using assms gate_home_ok [of c' c 1] gate_fault_ok [of c]
  by (cases rule: start_gate_cases; simp)+

lemma gate_home_ok':
  assumes "srt_gate_initialized c \<noteq> 0"
    and "c' = c\<lparr>srt_state := (srt_state c)\<lparr>srt_gate_state := UART_SORTING_GATE_RETURNING\<rparr>\<rparr>"
  shows "core_ok c \<Longrightarrow> core_ok c'" "errors_ok c \<Longrightarrow> errors_ok c'" "cycle_ok c \<Longrightarrow> cycle_ok c'"
  using assms gate_home_ok [of c' c "srt_gate_initialized c"] by simp_all

lemma move_home_ok:
  assumes "sorting_control_move_gate c hw dest UART_SORTING_GATE_RETURNING = (r, c', hw')"
  shows "core_ok c \<Longrightarrow> core_ok c'" "errors_ok c \<Longrightarrow> errors_ok c'" "cycle_ok c \<Longrightarrow> cycle_ok c'"
  using assms gate_home_ok' [of c c'] gate_fault_ok [of c]
  by (cases rule: move_gate_cases; simp)+

lemma apply_motor_ok:
  assumes "sorting_control_apply_motor c hw st = (r, c', hw')"
    and "srt_speed st \<le> 100" "srt_conveyor st = UART_SORTING_CONVEYOR_RUNNING \<Longrightarrow> srt_speed st \<noteq> 0"
    and "srt_conveyor st \<noteq> UART_SORTING_CONVEYOR_FAULT" "srt_safety_stop_latched c = 0"
  shows "core_ok c \<Longrightarrow> core_ok c'" "errors_ok c \<Longrightarrow> errors_ok c'" "cycle_ok c' \<longleftrightarrow> cycle_ok c"
  using assms(1)
  by (cases rule: apply_motor_cases; use assms in \<open>simp add: motor_fault_ok;
      auto simp: core_ok_def errors_ok_def cycle_ok_def\<close>)+

lemma sorting_okD:
  assumes "sorting_ok c"
  shows "core_ok c" "errors_ok c" "cycle_ok c" "srt_speed (srt_state c) \<le> 100"
  using assms by (simp_all add: sorting_ok_def core_ok_def)

lemma sorting_gate_fault_ok: "sorting_ok c \<Longrightarrow> sorting_ok (sorting_control_set_gate_fault c)"
  by (simp add: sorting_ok_def gate_fault_ok)

lemma sorting_motor_fault_ok: "sorting_ok c \<Longrightarrow> sorting_ok (sorting_control_set_motor_fault c)"
  by (simp add: sorting_ok_def motor_fault_ok)

lemma no_fault:
  assumes "\<not> sorting_any_fault c"
  shows "srt_conveyor (srt_state c) \<noteq> UART_SORTING_CONVEYOR_FAULT"
    "srt_gate_state (srt_state c) \<noteq> UART_SORTING_GATE_FAULT"
    "srt_last_error (srt_state c) = UART_ERROR_NONE"
  using assms by (simp_all add: sorting_any_fault_def)

lemma sorting_start_ok:
  assumes "sorting_ok c" "srt_safety_stop_latched c = 0" and "sorting_start c hw = (r, c', hw')"
  shows "sorting_ok c'"
proof (cases "sorting_any_fault c \<or> srt_speed (srt_state c) = 0")
  case False
  then have "sorting_control_apply_motor c hw ((srt_state c)\<lparr>srt_conveyor := UART_SORTING_CONVEYOR_RUNNING\<rparr>) =
      (r, c', hw')"
    using assms(3) by (simp add: sorting_start_def)
  from apply_motor_ok [OF this] show ?thesis
    using sorting_okD [OF assms(1)] assms(2) False by (simp add: sorting_ok_def)
qed (use assms in \<open>auto simp: sorting_start_def split: if_splits\<close>)

lemma sorting_stop_applies:
  assumes "sorting_stop c hw = (r, c', hw')"
  obtains r1 where "sorting_control_apply_motor c hw
      ((srt_state c)\<lparr>srt_conveyor := UART_SORTING_CONVEYOR_STOPPED\<rparr>) = (r1, c', hw')"
  using assms
  by (cases "sorting_control_apply_motor c hw ((srt_state c)\<lparr>srt_conveyor := UART_SORTING_CONVEYOR_STOPPED\<rparr>)")
    (auto simp: sorting_stop_def Let_def split: if_splits)

lemma sorting_stop_ok:
  assumes "sorting_ok c" "srt_safety_stop_latched c = 0" and "sorting_stop c hw = (r, c', hw')"
  shows "sorting_ok c'"
proof -
  obtain r1 where "sorting_control_apply_motor c hw ((srt_state c)\<lparr>srt_conveyor := UART_SORTING_CONVEYOR_STOPPED\<rparr>) =
      (r1, c', hw')"
    by (rule sorting_stop_applies [OF assms(3)])
  from apply_motor_ok [OF this] show ?thesis
    using sorting_okD [OF assms(1)] assms(2) by (simp add: sorting_ok_def)
qed

lemma sorting_set_speed_cases:
  assumes "sorting_set_speed c hw s = (r, c', hw')"
  obtains (refused) "c' = c" "hw' = hw" "r = SORTING_CONTROL_FAULT_LATCHED"
  | (applied) st where "sorting_control_apply_motor c hw st = (r, c', hw')" "srt_speed st = s"
      "srt_conveyor st = UART_SORTING_CONVEYOR_RUNNING \<Longrightarrow> s \<noteq> 0"
      "srt_conveyor st \<noteq> UART_SORTING_CONVEYOR_FAULT"
proof (cases "sorting_any_fault c")
  case False
  define st where "st = (if s = 0 \<and> srt_conveyor (srt_state c) = UART_SORTING_CONVEYOR_RUNNING
    then (srt_state c)\<lparr>srt_speed := s, srt_conveyor := UART_SORTING_CONVEYOR_STOPPED\<rparr>
    else (srt_state c)\<lparr>srt_speed := s\<rparr>)"
  have "sorting_control_apply_motor c hw st = (r, c', hw')"
    using assms False by (auto simp: sorting_set_speed_def st_def Let_def split: if_splits)
  moreover have "srt_speed st = s" "srt_conveyor st = UART_SORTING_CONVEYOR_RUNNING \<Longrightarrow> s \<noteq> 0"
    "srt_conveyor st \<noteq> UART_SORTING_CONVEYOR_FAULT"
    using no_fault(1) [OF False] by (auto simp: st_def split: if_splits)
  ultimately show ?thesis by (rule applied)
qed (use assms refused in \<open>auto simp: sorting_set_speed_def\<close>)

lemma sorting_set_speed_ok:
  assumes "sorting_ok c" "srt_safety_stop_latched c = 0" "s \<le> 100" and "sorting_set_speed c hw s = (r, c', hw')"
  shows "sorting_ok c'"
  using assms(4)
proof (cases rule: sorting_set_speed_cases)
  case (applied st)
  from apply_motor_ok [OF applied(1)] show ?thesis
    using sorting_okD [OF assms(1)] assms(2,3) applied by (simp add: sorting_ok_def)
qed (use assms in simp)


text \<open>The three operations on the cycle, by their outcome.\<close>

lemma route_cases:
  assumes "sorting_route_item c hw p = (r, c', hw')"
  obtains (refused) "c' = c" "hw' = hw" "r \<noteq> SORTING_CONTROL_OK"
  | (failed) "c' = sorting_control_set_gate_fault c" "r = SORTING_CONTROL_GATE_ERROR"
      "active_cycle_id (srt_state c) = 0"
  | (routed) "r = SORTING_CONTROL_OK" "srt_gate_state (srt_state c) = UART_SORTING_GATE_HOME"
      "active_cycle_id (srt_state c) = 0" "srt_gate_initialized c \<noteq> 0"
      "hw' = snd (gate_move c hw (destination_of (p ! 2)))"
      "fst (gate_move c hw (destination_of (p ! 2))) = SORTING_GATE_OK"
      "c' = c\<lparr>srt_state := (srt_state c)\<lparr>srt_gate_state := UART_SORTING_GATE_MOVING,
                 active_cycle_id := u16_le (p ! 0) (p ! 1), active_destination := destination_of (p ! 2)\<rparr>,
               complete_cycle_on_home := 0\<rparr>"
proof (cases "srt_gate_state (srt_state c) = UART_SORTING_GATE_FAULT
    \<or> srt_last_error (srt_state c) \<noteq> UART_ERROR_NONE \<or> active_cycle_id (srt_state c) \<noteq> 0
    \<or> srt_gate_state (srt_state c) \<noteq> UART_SORTING_GATE_HOME")
  case True
  then show ?thesis
    using assms by (intro refused) (auto simp: sorting_route_item_def split: if_splits)
next
  case False
  obtain r1 c1 hw1 where mv: "sorting_control_move_gate c hw (destination_of (p ! 2)) UART_SORTING_GATE_MOVING =
      (r1, c1, hw1)" by (cases "sorting_control_move_gate c hw (destination_of (p ! 2)) UART_SORTING_GATE_MOVING")
  have eq: "(r, c', hw') =
     (if r1 \<noteq> SORTING_CONTROL_OK then (SORTING_CONTROL_GATE_ERROR, c1, hw1)
      else (SORTING_CONTROL_OK, c1\<lparr>srt_state := (srt_state c1)\<lparr>active_cycle_id := u16_le (p ! 0) (p ! 1),
              active_destination := destination_of (p ! 2)\<rparr>, complete_cycle_on_home := 0\<rparr>, hw1))"
    using assms False mv by (auto simp: sorting_route_item_def Let_def sorting_readers split: if_splits)
  show ?thesis
    using mv
  proof (cases rule: move_gate_cases)
    case failed': failed
    then show ?thesis using eq False by (intro failed) simp_all
  next
    case moved
    then show ?thesis using eq False by (intro routed) simp_all
  qed
qed

lemma return_home_cases:
  assumes "sorting_return_home c hw p = (r, c', hw')"
  obtains (refused) "c' = c" "hw' = hw" "r \<noteq> SORTING_CONTROL_OK"
  | (failed) "c' = sorting_control_set_gate_fault c" "r = SORTING_CONTROL_GATE_ERROR"
      "active_cycle_id (srt_state c) \<noteq> 0"
  | (returning) "r = SORTING_CONTROL_OK" "srt_gate_state (srt_state c) = UART_SORTING_GATE_WAIT_ITEM"
      "active_cycle_id (srt_state c) = u16_le (p ! 0) (p ! 1)" "active_cycle_id (srt_state c) \<noteq> 0"
      "srt_gate_initialized c \<noteq> 0"
      "hw' = snd (gate_move c hw UART_SORTING_DESTINATION_NONE)"
      "fst (gate_move c hw UART_SORTING_DESTINATION_NONE) = SORTING_GATE_OK"
      "c' = c\<lparr>srt_state := (srt_state c)\<lparr>srt_gate_state := UART_SORTING_GATE_RETURNING\<rparr>,
               complete_cycle_on_home := 1\<rparr>"
proof (cases "active_cycle_id (srt_state c) = 0 \<or> u16_le (p ! 0) (p ! 1) \<noteq> active_cycle_id (srt_state c)
    \<or> srt_gate_state (srt_state c) \<noteq> UART_SORTING_GATE_WAIT_ITEM")
  case True
  then show ?thesis
    using assms by (intro refused) (auto simp: sorting_return_home_def sorting_readers split: if_splits)
next
  case False
  obtain r1 c1 hw1 where mv: "sorting_control_move_gate c hw UART_SORTING_DESTINATION_NONE
      UART_SORTING_GATE_RETURNING = (r1, c1, hw1)"
    by (cases "sorting_control_move_gate c hw UART_SORTING_DESTINATION_NONE UART_SORTING_GATE_RETURNING")
  have eq: "(r, c', hw') =
     (if r1 \<noteq> SORTING_CONTROL_OK then (SORTING_CONTROL_GATE_ERROR, c1, hw1)
      else (SORTING_CONTROL_OK, c1\<lparr>complete_cycle_on_home := 1\<rparr>, hw1))"
    using assms False mv by (simp add: sorting_return_home_def Let_def sorting_readers)
  show ?thesis
    using mv
  proof (cases rule: move_gate_cases)
    case failed': failed
    then show ?thesis using eq False by (intro failed) simp_all
  next
    case moved
    then show ?thesis using eq False by (intro returning) simp_all
  qed
qed

lemma cancel_cases:
  assumes "sorting_cancel c hw p = (r, c', hw')"
  obtains (refused) "c' = c" "hw' = hw" "r \<noteq> SORTING_CONTROL_OK"
  | (failed) "c' = sorting_control_set_gate_fault c" "r = SORTING_CONTROL_GATE_ERROR"
      "active_cycle_id (srt_state c) \<noteq> 0"
  | (cancelled) "r = SORTING_CONTROL_OK" "active_cycle_id (srt_state c) = u16_le (p ! 0) (p ! 1)"
      "active_cycle_id (srt_state c) \<noteq> 0" "srt_gate_initialized c \<noteq> 0"
      "hw' = snd (gate_move c hw UART_SORTING_DESTINATION_NONE)"
      "fst (gate_move c hw UART_SORTING_DESTINATION_NONE) = SORTING_GATE_OK"
      "c' = c\<lparr>srt_state := (srt_state c)\<lparr>srt_gate_state := UART_SORTING_GATE_RETURNING\<rparr>,
               complete_cycle_on_home := 0\<rparr>"
proof (cases "active_cycle_id (srt_state c) = 0 \<or> u16_le (p ! 0) (p ! 1) \<noteq> active_cycle_id (srt_state c)")
  case True
  then show ?thesis
    using assms by (intro refused) (auto simp: sorting_cancel_def sorting_readers split: if_splits)
next
  case False
  obtain r1 c1 hw1 where mv: "sorting_control_move_gate c hw UART_SORTING_DESTINATION_NONE
      UART_SORTING_GATE_RETURNING = (r1, c1, hw1)"
    by (cases "sorting_control_move_gate c hw UART_SORTING_DESTINATION_NONE UART_SORTING_GATE_RETURNING")
  have eq: "(r, c', hw') =
     (if r1 \<noteq> SORTING_CONTROL_OK then (SORTING_CONTROL_GATE_ERROR, c1, hw1)
      else (SORTING_CONTROL_OK, c1\<lparr>complete_cycle_on_home := 0\<rparr>, hw1))"
    using assms False mv by (simp add: sorting_cancel_def Let_def sorting_readers)
  show ?thesis
    using mv
  proof (cases rule: move_gate_cases)
    case failed': failed
    then show ?thesis using eq False by (intro failed) simp_all
  next
    case moved
    then show ?thesis using eq False by (intro cancelled) simp_all
  qed
qed


text \<open>What the validated payload of a route holds.\<close>

lemma route_payload:
  assumes "uart_sorting_payload_is_valid (sorting_cmd_code UART_CMD_SORTING_ROUTE_ITEM) (Some p) n"
  shows "u16_le (p ! 0) (p ! 1) \<noteq> 0" and "destination_of (p ! 2) \<noteq> UART_SORTING_DESTINATION_NONE"
    and "to_u32 (p ! 2) = destination_code (destination_of (p ! 2))"
proof -
  have v: "uart_sorting_cycle_id_is_valid (to_u32 (u16_le (p ! 0) (p ! 1)))"
    "uart_sorting_destination_is_valid (to_u32 (p ! 2))"
    using assms by (auto simp: uart_sorting_payload_is_valid_def uart_sorting_command_is_valid_def sorting_readers
        split: if_splits)
  show "u16_le (p ! 0) (p ! 1) \<noteq> 0"
    using v(1) by (auto simp: uart_sorting_cycle_id_is_valid_def to_u32_def)
  have "1 \<le> unat (p ! 2)" "unat (p ! 2) \<le> 3"
    using v(2) by (simp_all add: uart_sorting_destination_is_valid_def word_le_nat_alt)
  then have "unat (p ! 2) \<in> {1, 2, 3}" by auto
  then have "p ! 2 \<in> {1, 2, 3}"
    by (auto simp: word_unat_eq_iff)
  then show "destination_of (p ! 2) \<noteq> UART_SORTING_DESTINATION_NONE"
    "to_u32 (p ! 2) = destination_code (destination_of (p ! 2))"
    by (auto simp: destination_of_def to_u32_def)
qed

lemma speed_payload:
  assumes "uart_sorting_payload_is_valid (sorting_cmd_code UART_CMD_SORTING_CONVEYOR_SET_SPEED) (Some p) n"
  shows "p ! 0 \<le> 100"
  using assms by (auto simp: uart_sorting_payload_is_valid_def uart_sorting_command_is_valid_def split: if_splits)

lemma route_ok:
  assumes "sorting_ok c" "srt_safety_stop_latched c = 0" and "sorting_route_item c hw p = (r, c', hw')"
    and "u16_le (p ! 0) (p ! 1) \<noteq> 0" "destination_of (p ! 2) \<noteq> UART_SORTING_DESTINATION_NONE"
  shows "sorting_ok c'"
  using assms(3)
proof (cases rule: route_cases)
  case routed
  then show ?thesis
    using assms by (simp add: sorting_ok_def core_ok_def errors_ok_def cycle_ok_def)
qed (use assms(1) in \<open>simp_all add: sorting_gate_fault_ok\<close>)

lemma return_home_ok:
  assumes "sorting_ok c" and "sorting_return_home c hw p = (r, c', hw')"
  shows "sorting_ok c'"
  using assms(2)
proof (cases rule: return_home_cases)
  case returning
  then show ?thesis
    using assms by (simp add: sorting_ok_def core_ok_def errors_ok_def cycle_ok_def)
qed (use assms(1) in \<open>simp_all add: sorting_gate_fault_ok\<close>)

lemma cancel_ok:
  assumes "sorting_ok c" and "sorting_cancel c hw p = (r, c', hw')"
  shows "sorting_ok c'"
  using assms(2)
proof (cases rule: cancel_cases)
  case cancelled
  then show ?thesis
    using assms by (simp add: sorting_ok_def core_ok_def errors_ok_def cycle_ok_def)
qed (use assms(1) in \<open>simp_all add: sorting_gate_fault_ok\<close>)

lemma clear_ok:
  assumes "srt_gate_state (srt_state c) \<notin> {UART_SORTING_GATE_MOVING, UART_SORTING_GATE_WAIT_ITEM}"
  shows "cycle_ok (sorting_control_clear_cycle c)"
  using assms by (simp add: cycle_ok_def sorting_helpers)


text \<open>The reset, by the stage it ends in.\<close>

lemma reset_cases:
  assumes "sorting_control_reset c hw = (r, c', hw')"
  obtains (latched) "srt_safety_stop_latched c \<noteq> 0" "c' = c" "hw' = hw" "r \<noteq> SORTING_CONTROL_OK"
  | (no_motor) "srt_safety_stop_latched c = 0" "sorting_ensure_motor c hw = (False, c', hw')"
      "r \<noteq> SORTING_CONTROL_OK"
  | (no_gate) c1 hw1 where "srt_safety_stop_latched c = 0" "sorting_ensure_motor c hw = (True, c1, hw1)"
      "reset_gate c1 hw1 = (False, c', hw')" "r \<noteq> SORTING_CONTROL_OK"
  | (stopped) c1 hw1 c2 hw2 r3 c3 where "srt_safety_stop_latched c = 0"
      "sorting_ensure_motor c hw = (True, c1, hw1)" "reset_gate c1 hw1 = (True, c2, hw2)"
      "sorting_control_apply_motor c2 hw2
         ((srt_state c2)\<lparr>srt_conveyor := UART_SORTING_CONVEYOR_STOPPED\<rparr>) = (r3, c3, hw')"
      "if r3 \<noteq> SORTING_CONTROL_OK then r = SORTING_CONTROL_MOTOR_ERROR \<and> c' = c3
       else r = SORTING_CONTROL_OK \<and>
         c' = (sorting_control_clear_cycle c3)\<lparr>srt_state :=
                (srt_state (sorting_control_clear_cycle c3))\<lparr>srt_last_error := UART_ERROR_NONE\<rparr>\<rparr>"
proof (cases "srt_safety_stop_latched c = 0")
  case False
  then show ?thesis using assms by (intro latched) (simp_all add: sorting_control_reset_def)
next
  case unlatched: True
  obtain ok1 c1 hw1 where m: "sorting_ensure_motor c hw = (ok1, c1, hw1)"
    by (cases "sorting_ensure_motor c hw")
  obtain ok2 c2 hw2 where g: "reset_gate c1 hw1 = (ok2, c2, hw2)"
    by (cases "reset_gate c1 hw1")
  obtain r3 c3 hw3 where a: "sorting_control_apply_motor c2 hw2
      ((srt_state c2)\<lparr>srt_conveyor := UART_SORTING_CONVEYOR_STOPPED\<rparr>) = (r3, c3, hw3)"
    by (cases "sorting_control_apply_motor c2 hw2
      ((srt_state c2)\<lparr>srt_conveyor := UART_SORTING_CONVEYOR_STOPPED\<rparr>)")
  have eq: "(r, c', hw') = (if \<not> ok1 then (SORTING_CONTROL_MOTOR_ERROR, c1, hw1)
     else if \<not> ok2 then (SORTING_CONTROL_GATE_ERROR, c2, hw2)
     else if r3 \<noteq> SORTING_CONTROL_OK then (SORTING_CONTROL_MOTOR_ERROR, c3, hw3)
     else (SORTING_CONTROL_OK, (sorting_control_clear_cycle c3)\<lparr>srt_state :=
                (srt_state (sorting_control_clear_cycle c3))\<lparr>srt_last_error := UART_ERROR_NONE\<rparr>\<rparr>, hw3))"
    using assms unlatched m g a by (auto simp: sorting_control_reset_def Let_def split: if_splits)
  show ?thesis
  proof (cases ok1)
    case True
    show ?thesis
    proof (cases ok2)
      case True
      then show ?thesis
        using eq \<open>ok1\<close> unlatched m g a by (intro stopped [of c1 hw1 c2 hw2 r3 c3]) (auto split: if_splits)
    next
      case False
      then show ?thesis using eq \<open>ok1\<close> unlatched m g by (intro no_gate [of c1 hw1]) auto
    qed
  next
    case False
    then show ?thesis using eq unlatched m by (intro no_motor) auto
  qed
qed


lemma reset_gate_ok:
  assumes "reset_gate c hw = (ok, c', hw')"
  shows "core_ok c \<Longrightarrow> core_ok c'" "errors_ok c \<Longrightarrow> errors_ok c'" "cycle_ok c \<Longrightarrow> cycle_ok c'"
    "srt_safety_stop_latched c' = srt_safety_stop_latched c"
    "ok \<Longrightarrow> srt_gate_state (srt_state c') = UART_SORTING_GATE_RETURNING"
proof -
  have "(core_ok c \<longrightarrow> core_ok c') \<and> (errors_ok c \<longrightarrow> errors_ok c') \<and> (cycle_ok c \<longrightarrow> cycle_ok c') \<and>
    srt_safety_stop_latched c' = srt_safety_stop_latched c \<and>
    (ok \<longrightarrow> srt_gate_state (srt_state c') = UART_SORTING_GATE_RETURNING)"
  proof (cases "srt_gate_initialized c = 0")
    case True
    then have st: "sorting_start_gate c hw = (ok, c', hw')"
      using assms by (simp add: reset_gate_def)
    have "srt_safety_stop_latched c' = srt_safety_stop_latched c \<and>
        (ok \<longrightarrow> srt_gate_state (srt_state c') = UART_SORTING_GATE_RETURNING)"
      using st by (cases rule: start_gate_cases) (simp_all add: sorting_helpers)
    then show ?thesis using start_gate_ok [OF st] by blast
  next
    case False
    then obtain r where mv: "sorting_control_move_gate c hw UART_SORTING_DESTINATION_NONE
        UART_SORTING_GATE_RETURNING = (r, c', hw')" "ok = (r = SORTING_CONTROL_OK)"
      using assms by (cases "sorting_control_move_gate c hw UART_SORTING_DESTINATION_NONE
        UART_SORTING_GATE_RETURNING") (auto simp: reset_gate_def Let_def)
    have "srt_safety_stop_latched c' = srt_safety_stop_latched c \<and>
        (ok \<longrightarrow> srt_gate_state (srt_state c') = UART_SORTING_GATE_RETURNING)"
      using mv(1) by (cases rule: move_gate_cases) (simp_all add: sorting_helpers mv(2))
    then show ?thesis using move_home_ok [OF mv(1)] by blast
  qed
  then show "core_ok c \<Longrightarrow> core_ok c'" "errors_ok c \<Longrightarrow> errors_ok c'" "cycle_ok c \<Longrightarrow> cycle_ok c'"
    "srt_safety_stop_latched c' = srt_safety_stop_latched c"
    "ok \<Longrightarrow> srt_gate_state (srt_state c') = UART_SORTING_GATE_RETURNING"
    by blast+
qed

lemma reset_ok:
  assumes "sorting_ok c" and "sorting_control_reset c hw = (r, c', hw')"
  shows "sorting_ok c'"
  using assms(2)
proof (cases rule: reset_cases)
  case no_motor
  then show ?thesis
    using ensure_motor_ok(1-3) [OF no_motor(2)] sorting_okD [OF assms(1)] by (simp add: sorting_ok_def)
next
  case (no_gate c1 hw1)
  then show ?thesis
    using ensure_motor_ok(1-3) [OF no_gate(2)] reset_gate_ok [OF no_gate(3)] sorting_okD [OF assms(1)]
    by (simp add: sorting_ok_def)
next
  case (stopped c1 hw1 c2 hw2 r3 c3)
  have c2: "core_ok c2" "errors_ok c2" "cycle_ok c2" "srt_safety_stop_latched c2 = 0"
    "srt_gate_state (srt_state c2) = UART_SORTING_GATE_RETURNING"
    using ensure_motor_ok(1-4) [OF stopped(2)] reset_gate_ok [OF stopped(3)] sorting_okD [OF assms(1)] stopped(1)
    by simp_all
  have "srt_speed (srt_state c2) \<le> 100" using c2(1) by (simp add: core_ok_def)
  then have c3: "core_ok c3" "errors_ok c3" "cycle_ok c3"
    using apply_motor_ok [OF stopped(4)] c2 by simp_all
  show ?thesis
  proof (cases "r3 = SORTING_CONTROL_OK")
    case False
    then show ?thesis using stopped(5) c3 by (simp add: sorting_ok_def)
  next
    case True
    have c3eq: "c3 = c2\<lparr>srt_state := (srt_state c2)\<lparr>srt_conveyor := UART_SORTING_CONVEYOR_STOPPED,
        srt_speed := srt_speed (srt_state c2)\<rparr>\<rparr>"
      using stopped(4) by (cases rule: apply_motor_cases) (simp_all add: True)
    have c': "c' = (sorting_control_clear_cycle c3)\<lparr>srt_state :=
                (srt_state (sorting_control_clear_cycle c3))\<lparr>srt_last_error := UART_ERROR_NONE\<rparr>\<rparr>"
      using stopped(5) True by simp
    have "core_ok c'" using c3(1) unfolding c' by (simp add: core_ok_def sorting_helpers)
    moreover have "errors_ok c'" "cycle_ok c'"
      using c2(4,5) unfolding c' c3eq by (simp_all add: errors_ok_def cycle_ok_def sorting_helpers)
    ultimately show ?thesis by (simp add: sorting_ok_def)
  qed
qed (use assms in simp)

text \<open>What a command does, by which one it is.\<close>

lemma process_cases:
  assumes "sorting_control_process_command (Some c) message hw = (r, Some c', hw')"
  obtains (refused) "c' = c" "hw' = hw" "r \<noteq> SORTING_CONTROL_OK"
  | (status) "c' = c" "hw' = hw" "r = SORTING_CONTROL_OK"
  | (start) "srt_safety_stop_latched c = 0" "sorting_start c hw = (r, c', hw')"
  | (stop) "srt_safety_stop_latched c = 0" "sorting_stop c hw = (r, c', hw')"
  | (set_speed) s where "srt_safety_stop_latched c = 0" "sorting_set_speed c hw s = (r, c', hw')" "s \<le> 100"
  | (route) m where "message = Some m" "srt_safety_stop_latched c = 0"
      "sorting_route_item c hw (frame_payload (msg_frame m)) = (r, c', hw')"
      "frame_command (msg_frame m) = sorting_cmd_code UART_CMD_SORTING_ROUTE_ITEM"
      "u16_le (frame_payload (msg_frame m) ! 0) (frame_payload (msg_frame m) ! 1) \<noteq> 0"
      "destination_of (frame_payload (msg_frame m) ! 2) \<noteq> UART_SORTING_DESTINATION_NONE"
  | (return_home) p where "srt_safety_stop_latched c = 0" "sorting_return_home c hw p = (r, c', hw')"
  | (cancel) p where "srt_safety_stop_latched c = 0" "sorting_cancel c hw p = (r, c', hw')"
  | (reset) "sorting_control_reset c hw = (r, c', hw')"
proof (cases message)
  case None
  then show ?thesis using assms refused by (simp add: sorting_control_process_command_def)
next
  case (Some m)
  let ?f = "msg_frame m"
  let ?p = "frame_payload ?f"
  show ?thesis
  proof (cases "msg_source m = APP_UART_CHANNEL_6 \<and> uart_sorting_command_is_valid (to_u32 (frame_command ?f)) \<and>
      uart_sorting_payload_is_valid (to_u32 (frame_command ?f)) (Some ?p) (to_u32 (frame_length ?f)) \<and>
      \<not> (srt_safety_stop_latched c \<noteq> 0 \<and> \<not> sorting_control_is_status_command (frame_command ?f))")
    case False
    then show ?thesis
      using assms by (intro refused) (auto simp: sorting_control_process_command_def Some Let_def split: if_splits)
  next
    case True
    note valid = this
    have run: "sorting_dispatch c hw (frame_command ?f) ?p = (r, c', hw')"
      using assms valid by (simp add: sorting_control_process_command_def Some Let_def split_def prod_eq_iff)
    have speed: "?p ! 0 \<le> 100"
      if "frame_command ?f = sorting_cmd_code UART_CMD_SORTING_CONVEYOR_SET_SPEED"
      using valid that speed_payload [of ?p "to_u32 (frame_length ?f)"] by simp
    have route': "u16_le (?p ! 0) (?p ! 1) \<noteq> 0" "destination_of (?p ! 2) \<noteq> UART_SORTING_DESTINATION_NONE"
      if "frame_command ?f = sorting_cmd_code UART_CMD_SORTING_ROUTE_ITEM"
      using valid that route_payload [of ?p "to_u32 (frame_length ?f)"] by simp_all
    have unlatched: "srt_safety_stop_latched c = 0 \<or> sorting_control_is_status_command (frame_command ?f)"
      using valid by blast
    have "frame_command ?f \<in> {0x30, 0x31, 0x32, 0x33, 0x34, 0x35, 0x36, 0x37, 0x38}"
      using valid by (auto simp: uart_sorting_command_is_valid_def)
    then show ?thesis
    proof (elim insertE emptyE)
      assume "frame_command ?f = 0x30"
      with run route' unlatched show ?thesis
        by (intro route [OF Some]) (simp_all add: sorting_dispatch_def sorting_control_is_status_command_def)
    next
      assume "frame_command ?f = 0x31"
      with run show ?thesis by (intro status) (simp_all add: sorting_dispatch_def)
    next
      assume "frame_command ?f = 0x32"
      with run unlatched show ?thesis
        by (intro cancel [of ?p]) (simp_all add: sorting_dispatch_def sorting_control_is_status_command_def)
    next
      assume "frame_command ?f = 0x33"
      with run show ?thesis by (intro reset) (simp add: sorting_dispatch_def)
    next
      assume "frame_command ?f = 0x34"
      with run unlatched show ?thesis
        by (intro start) (simp_all add: sorting_dispatch_def sorting_control_is_status_command_def)
    next
      assume "frame_command ?f = 0x35"
      with run unlatched show ?thesis
        by (intro stop) (simp_all add: sorting_dispatch_def sorting_control_is_status_command_def)
    next
      assume "frame_command ?f = 0x36"
      with run unlatched speed show ?thesis
        by (intro set_speed [of "?p ! 0"])
          (simp_all add: sorting_dispatch_def sorting_control_is_status_command_def)
    next
      assume "frame_command ?f = 0x37"
      with run show ?thesis by (intro status) (simp_all add: sorting_dispatch_def)
    next
      assume "frame_command ?f = 0x38"
      with run unlatched show ?thesis
        by (intro return_home [of ?p]) (simp_all add: sorting_dispatch_def sorting_control_is_status_command_def)
    qed
  qed
qed


lemma process_ok:
  assumes "sorting_ok c" and "sorting_control_process_command (Some c) message hw = (r, Some c', hw')"
  shows "sorting_ok c'"
  using assms(2)
proof (cases rule: process_cases)
  case start
  then show ?thesis by (rule sorting_start_ok [OF assms(1)])
next
  case stop
  then show ?thesis by (rule sorting_stop_ok [OF assms(1)])
next
  case (set_speed s)
  then show ?thesis using sorting_set_speed_ok [OF assms(1)] by blast
next
  case (route m)
  then show ?thesis using route_ok [OF assms(1)] by blast
next
  case (return_home p)
  then show ?thesis using return_home_ok [OF assms(1)] by blast
next
  case (cancel p)
  then show ?thesis using cancel_ok [OF assms(1)] by blast
next
  case reset
  then show ?thesis using reset_ok [OF assms(1)] by blast
qed (use assms in simp_all)

text \<open>The motion service, by what the gate answers.\<close>

lemma service_cases:
  assumes "sorting_control_service_motion (Some c) (Some d) hw = (r, Some report, Some c', hw')"
  obtains (idle) "r = SORTING_CONTROL_OK" "c' = c" "hw' = hw" "report = zero_cycle_complete"
      "srt_gate_state (srt_state c) \<notin> {UART_SORTING_GATE_MOVING, UART_SORTING_GATE_RETURNING}"
  | (failed) "r = SORTING_CONTROL_GATE_ERROR" "c' = sorting_control_set_gate_fault c" "report = zero_cycle_complete"
      "hw' = hw \<or> hw' = snd (snd (gate_motion_complete c hw (Some 0)))"
      "srt_gate_state (srt_state c) \<in> {UART_SORTING_GATE_MOVING, UART_SORTING_GATE_RETURNING}"
  | (pending) "r = SORTING_CONTROL_MOTION_PENDING" "c' = c" "report = zero_cycle_complete"
      "hw' = snd (snd (gate_motion_complete c hw (Some 0)))" "srt_gate_initialized c \<noteq> 0"
      "srt_gate_state (srt_state c) \<in> {UART_SORTING_GATE_MOVING, UART_SORTING_GATE_RETURNING}"
  | (arrived) "r = SORTING_CONTROL_OK" "hw' = snd (snd (gate_motion_complete c hw (Some 0)))"
      "fst (gate_motion_complete c hw (Some 0)) = SORTING_GATE_OK"
      "fst (snd (gate_motion_complete c hw (Some 0))) \<noteq> Some 0" "srt_gate_initialized c \<noteq> 0"
      "srt_gate_state (srt_state c) = UART_SORTING_GATE_MOVING" "report = zero_cycle_complete"
      "c' = c\<lparr>srt_state := (srt_state c)\<lparr>srt_gate_state := UART_SORTING_GATE_WAIT_ITEM\<rparr>\<rparr>"
  | (home) "r = SORTING_CONTROL_OK" "hw' = snd (snd (gate_motion_complete c hw (Some 0)))"
      "fst (gate_motion_complete c hw (Some 0)) = SORTING_GATE_OK"
      "fst (snd (gate_motion_complete c hw (Some 0))) \<noteq> Some 0" "srt_gate_initialized c \<noteq> 0"
      "srt_gate_state (srt_state c) = UART_SORTING_GATE_RETURNING"
      "c' = sorting_control_clear_cycle
              (c\<lparr>srt_state := (srt_state c)\<lparr>srt_gate_state := UART_SORTING_GATE_HOME\<rparr>\<rparr>)"
      "report = (if complete_cycle_on_home c \<noteq> 0 \<and> active_cycle_id (srt_state c) \<noteq> 0
                  \<and> uart_sorting_destination_is_valid (destination_code (active_destination (srt_state c)))
               then \<lparr>cycle_valid = 1, cycle_id = active_cycle_id (srt_state c),
                     cycle_destination = active_destination (srt_state c)\<rparr>
               else zero_cycle_complete)"
proof (cases "srt_gate_state (srt_state c) \<in> {UART_SORTING_GATE_MOVING, UART_SORTING_GATE_RETURNING}")
  case False
  then show ?thesis
    using assms by (intro idle) (auto simp: sorting_control_service_motion_def)
next
  case moving: True
  obtain r1 w hw1 where ask: "gate_motion_complete c hw (Some 0) = (r1, w, hw1)"
    by (cases "gate_motion_complete c hw (Some 0)")
  consider (dead) "srt_gate_initialized c = 0 \<or> r1 \<noteq> SORTING_GATE_OK"
    | (wait) "srt_gate_initialized c \<noteq> 0" "r1 = SORTING_GATE_OK" "w = Some 0"
    | (there) "srt_gate_initialized c \<noteq> 0" "r1 = SORTING_GATE_OK" "w \<noteq> Some 0"
    by blast
  then show ?thesis
  proof cases
    case dead
    then show ?thesis
      using assms moving ask
      by (intro failed) (auto simp: sorting_control_service_motion_def Let_def split: if_splits)
  next
    case wait
    then show ?thesis
      using assms moving ask by (intro pending) (auto simp: sorting_control_service_motion_def Let_def)
  next
    case there
    then have run: "(report, c') = sorting_motion_done c" "r = SORTING_CONTROL_OK" "hw' = hw1"
      using assms moving ask by (auto simp: sorting_control_service_motion_def Let_def split_def)
    show ?thesis
    proof (cases "srt_gate_state (srt_state c) = UART_SORTING_GATE_MOVING")
      case True
      then show ?thesis
        using run there ask by (intro arrived) (auto simp: sorting_motion_done_def Let_def)
    next
      case False
      then show ?thesis
        using run there ask moving by (intro home) (auto simp: sorting_motion_done_def Let_def)
    qed
  qed
qed

lemma home_ok:
  assumes "srt_gate_initialized c \<noteq> 0"
    and "c' = sorting_control_clear_cycle (c\<lparr>srt_state := (srt_state c)\<lparr>srt_gate_state := UART_SORTING_GATE_HOME\<rparr>\<rparr>)"
  shows "core_ok c \<Longrightarrow> core_ok c'" "errors_ok c \<Longrightarrow> errors_ok c'" "cycle_ok c'"
  using assms by (simp_all add: core_ok_def errors_ok_def cycle_ok_def sorting_helpers)

lemma service_ok:
  assumes "sorting_ok c" and "sorting_control_service_motion (Some c) (Some d) hw = (r, Some report, Some c', hw')"
  shows "sorting_ok c'"
  using assms(2)
proof (cases rule: service_cases)
  case failed
  then show ?thesis using assms(1) by (simp add: sorting_gate_fault_ok)
next
  case arrived
  have "core_ok c'" using sorting_okD(1) [OF assms(1)] arrived by (simp add: core_ok_def)
  moreover have "errors_ok c'" using sorting_okD(2) [OF assms(1)] arrived by (simp add: errors_ok_def)
  moreover have "cycle_ok c'" using sorting_okD(3) [OF assms(1)] arrived by (auto simp: cycle_ok_def)
  ultimately show ?thesis by (simp add: sorting_ok_def)
next
  case home
  from home_ok [OF home(5,7)] show ?thesis
    using sorting_okD [OF assms(1)] by (simp add: sorting_ok_def)
qed (use assms(1) in simp_all)


text \<open>The stages of the safety stop.\<close>

lemma stop_motor_cases:
  assumes "safety_stop_motor c hw = (r, c', hw')"
  obtains (no_motor) "sorting_ensure_motor c hw = (False, c', hw')" "r = SORTING_CONTROL_MOTOR_ERROR"
      "srt_motor_initialized c' = 0"
  | (ready) c1 hw1 where "sorting_ensure_motor c hw = (True, c1, hw1)" "hw' = snd (motor_apply c1 hw1 0 0)"
      "c' = (if fst (motor_apply c1 hw1 0 0) \<noteq> SORTING_MOTOR_OK then sorting_control_set_motor_fault c1 else c1)"
      "srt_motor_initialized c1 \<noteq> 0"
proof -
  obtain ok c1 hw1 where en: "sorting_ensure_motor c hw = (ok, c1, hw1)"
    by (cases "sorting_ensure_motor c hw")
  from en show ?thesis
  proof (cases rule: ensure_motor_cases)
    case failed
    then have "srt_motor_initialized c1 = 0" by (simp add: sorting_helpers)
    then show ?thesis using assms en failed by (intro no_motor) (auto simp: safety_stop_motor_def Let_def)
  next
    case ready': ready
    then show ?thesis
      using assms en by (intro ready [of c1 hw1]) (auto simp: safety_stop_motor_def Let_def split_def split: if_splits)
  qed
qed

lemma stop_motor_ok:
  assumes "safety_stop_motor c hw = (r, c', hw')" and "sorting_ok c"
  shows "sorting_ok c'" "srt_motor c' = srt_motor c" "srt_gate c' = srt_gate c"
    "srt_gate_state (srt_state c') = srt_gate_state (srt_state c)"
    "active_cycle_id (srt_state c') = active_cycle_id (srt_state c)"
    "active_destination (srt_state c') = active_destination (srt_state c)"
    "srt_safety_stop_latched c' = srt_safety_stop_latched c"
proof -
  have "sorting_ok c' \<and> srt_motor c' = srt_motor c \<and> srt_gate c' = srt_gate c \<and>
    srt_gate_state (srt_state c') = srt_gate_state (srt_state c) \<and>
    active_cycle_id (srt_state c') = active_cycle_id (srt_state c) \<and>
    active_destination (srt_state c') = active_destination (srt_state c) \<and>
    srt_safety_stop_latched c' = srt_safety_stop_latched c"
    using assms(1)
  proof (cases rule: stop_motor_cases)
    case no_motor
    then show ?thesis
      using ensure_motor_ok [OF no_motor(1)] assms(2) by (simp add: sorting_ok_def)
  next
    case (ready c1 hw1)
    then show ?thesis
      using ensure_motor_ok [OF ready(1)] assms(2) motor_fault_ok [of c1]
      by (simp add: sorting_ok_def) (simp add: sorting_helpers)
  qed
  then show "sorting_ok c'" "srt_motor c' = srt_motor c" "srt_gate c' = srt_gate c"
    "srt_gate_state (srt_state c') = srt_gate_state (srt_state c)"
    "active_cycle_id (srt_state c') = active_cycle_id (srt_state c)"
    "active_destination (srt_state c') = active_destination (srt_state c)"
    "srt_safety_stop_latched c' = srt_safety_stop_latched c"
    by blast+
qed

text \<open>Between latch and fault only the drives' part holds, and no cycle is left.\<close>

lemma stop_latch_ok:
  assumes "sorting_ok c"
  shows "core_ok (safety_stop_latch c)" "srt_safety_stop_latched (safety_stop_latch c) \<noteq> 0"
    "active_cycle_id (srt_state (safety_stop_latch c)) = 0 \<or> srt_safety_stop_latched c \<noteq> 0"
    "srt_safety_stop_latched c \<noteq> 0 \<Longrightarrow> cycle_ok (safety_stop_latch c)"
    "srt_safety_stop_latched c = 0 \<Longrightarrow> active_cycle_id (srt_state (safety_stop_latch c)) = 0 \<and>
       active_destination (srt_state (safety_stop_latch c)) = UART_SORTING_DESTINATION_NONE \<and>
       complete_cycle_on_home (safety_stop_latch c) = 0"
  using sorting_okD [OF assms] by (simp_all add: safety_stop_latch_def core_ok_def sorting_helpers)

lemma stop_gate_cases:
  assumes "safety_stop_gate r0 c hw = (r, c', hw')"
  obtains (failed) "c' = sorting_control_set_gate_fault c" "r = SORTING_CONTROL_GATE_ERROR"
  | (started) "hw' = snd (gate_initialize c hw)" "fst (gate_initialize c hw) = SORTING_GATE_OK"
      "c' = c\<lparr>srt_gate_initialized := 1,
               srt_state := (srt_state c)\<lparr>srt_gate_state := UART_SORTING_GATE_RETURNING\<rparr>\<rparr>" "r = r0"
  | (moved) "hw' = snd (gate_move c hw UART_SORTING_DESTINATION_NONE)"
      "fst (gate_move c hw UART_SORTING_DESTINATION_NONE) = SORTING_GATE_OK" "srt_gate_initialized c \<noteq> 0"
      "c' = c\<lparr>srt_state := (srt_state c)\<lparr>srt_gate_state := UART_SORTING_GATE_RETURNING\<rparr>\<rparr>" "r = r0"
  | (there) "c' = c" "hw' = hw" "r = r0" "srt_gate_initialized c \<noteq> 0"
      "srt_gate_state (srt_state c) = UART_SORTING_GATE_HOME \<or>
       srt_gate_state (srt_state c) = UART_SORTING_GATE_RETURNING"
proof (cases "srt_gate_initialized c = 0")
  case True
  obtain ok c1 hw1 where st: "sorting_start_gate c hw = (ok, c1, hw1)"
    by (cases "sorting_start_gate c hw")
  from st show ?thesis
  proof (cases rule: start_gate_cases)
    case failed': failed
    then show ?thesis using assms True st by (intro failed) (auto simp: safety_stop_gate_def)
  next
    case started': started
    then show ?thesis using assms True st by (intro started) (auto simp: safety_stop_gate_def)
  qed
next
  case init: False
  show ?thesis
  proof (cases "srt_gate_state (srt_state c) = UART_SORTING_GATE_HOME \<or>
      srt_gate_state (srt_state c) = UART_SORTING_GATE_RETURNING")
    case True
    then show ?thesis using assms init by (intro there) (auto simp: safety_stop_gate_def)
  next
    case False
    obtain r1 c1 hw1 where mv: "sorting_control_move_gate c hw UART_SORTING_DESTINATION_NONE
        UART_SORTING_GATE_RETURNING = (r1, c1, hw1)"
      by (cases "sorting_control_move_gate c hw UART_SORTING_DESTINATION_NONE UART_SORTING_GATE_RETURNING")
    from mv show ?thesis
    proof (cases rule: move_gate_cases)
      case failed': failed
      then show ?thesis using assms init False mv by (intro failed) (auto simp: safety_stop_gate_def)
    next
      case moved': moved
      then show ?thesis using assms init False mv by (intro moved) (auto simp: safety_stop_gate_def)
    qed
  qed
qed


lemma stop_fault_ok:
  assumes "sorting_ok c0" and "safety_stop_gate r0 (safety_stop_latch c0) hw = (r, c', hw')"
  shows "sorting_ok (safety_stop_fault c')" "srt_safety_stop_latched c' \<noteq> 0"
    "srt_gate_state (srt_state c') \<in>
       {UART_SORTING_GATE_FAULT, UART_SORTING_GATE_RETURNING, UART_SORTING_GATE_HOME}"
proof -
  let ?c = "safety_stop_latch c0"
  have core: "core_ok ?c" and latched: "srt_safety_stop_latched ?c \<noteq> 0"
    using stop_latch_ok [OF assms(1)] by simp_all
  have cyc: "(active_cycle_id (srt_state ?c) = 0 \<longleftrightarrow>
        active_destination (srt_state ?c) = UART_SORTING_DESTINATION_NONE) \<and>
      (complete_cycle_on_home ?c \<noteq> 0 \<longrightarrow> active_cycle_id (srt_state ?c) \<noteq> 0) \<and>
      (srt_gate_state (srt_state ?c) = UART_SORTING_GATE_HOME \<longrightarrow> active_cycle_id (srt_state ?c) = 0)"
    using stop_latch_ok(4,5) [OF assms(1)] unfolding cycle_ok_def
    by (cases "srt_safety_stop_latched c0 = 0") blast+
  have "core_ok c' \<and> srt_safety_stop_latched c' \<noteq> 0 \<and>
    srt_gate_state (srt_state c') \<in>
       {UART_SORTING_GATE_FAULT, UART_SORTING_GATE_RETURNING, UART_SORTING_GATE_HOME} \<and>
    active_cycle_id (srt_state c') = active_cycle_id (srt_state ?c) \<and>
    active_destination (srt_state c') = active_destination (srt_state ?c) \<and>
    complete_cycle_on_home c' = complete_cycle_on_home ?c \<and>
    (srt_gate_state (srt_state c') = UART_SORTING_GATE_HOME \<longrightarrow> srt_gate_state (srt_state ?c) = UART_SORTING_GATE_HOME)"
    using assms(2)
  proof (cases rule: stop_gate_cases)
    case failed
    then show ?thesis using core latched by (simp add: gate_fault_ok) (simp add: sorting_helpers)
  next
    case started
    then show ?thesis using gate_home_ok(1) [OF _ started(3) core] latched by simp
  next
    case moved
    then show ?thesis using gate_home_ok'(1) [OF moved(3,4) core] latched by simp
  next
    case there
    then show ?thesis using core latched by auto
  qed
  then show "sorting_ok (safety_stop_fault c')" "srt_safety_stop_latched c' \<noteq> 0"
    "srt_gate_state (srt_state c') \<in>
       {UART_SORTING_GATE_FAULT, UART_SORTING_GATE_RETURNING, UART_SORTING_GATE_HOME}"
    using cyc by (auto simp: sorting_ok_def core_ok_def errors_ok_def cycle_ok_def safety_stop_fault_def)
qed

definition ports_present :: "'hw sorting_control_t \<Rightarrow> bool" where
  "ports_present c \<longleftrightarrow>
     sorting_motor_initialize (srt_motor c) \<noteq> NULL \<and> sorting_motor_apply (srt_motor c) \<noteq> NULL \<and>
     sorting_gate_initialize (srt_gate c) \<noteq> NULL \<and> sorting_gate_move (srt_gate c) \<noteq> NULL \<and>
     sorting_gate_motion_complete (srt_gate c) \<noteq> NULL"

lemma service_some:
  "\<exists>r report c' hw'. sorting_control_service_motion (Some c) (Some d) hw = (r, Some report, Some c', hw')"
  by (simp add: sorting_control_service_motion_def Let_def split_def)

lemma stop_stages:
  assumes "ports_present c" and "sorting_control_handle_safety_stop (Some c) hw = (r, Some c', hw')"
  obtains r1 c1 hw1 r2 c2 hw2 where "safety_stop_motor c hw = (r1, c1, hw1)"
    "safety_stop_gate r1 (safety_stop_latch c1) hw1 = (r2, c2, hw2)"
    "(srt_gate_state (srt_state c2) \<noteq> UART_SORTING_GATE_RETURNING \<and>
       c' = safety_stop_fault c2 \<and> hw' = hw2 \<and> r = r2) \<or>
     (srt_gate_state (srt_state c2) = UART_SORTING_GATE_RETURNING \<and>
       (\<exists>rm report. sorting_control_service_motion (Some (safety_stop_fault c2)) (Some zero_cycle_complete) hw2 =
          (rm, Some report, Some c', hw') \<and> r = (if rm \<noteq> SORTING_CONTROL_OK then rm else r2)))"
proof -
  obtain r1 c1 hw1 where m: "safety_stop_motor c hw = (r1, c1, hw1)" by (cases "safety_stop_motor c hw")
  obtain r2 c2 hw2 where g: "safety_stop_gate r1 (safety_stop_latch c1) hw1 = (r2, c2, hw2)"
    by (cases "safety_stop_gate r1 (safety_stop_latch c1) hw1")
  obtain rm report cm hwm where sv: "sorting_control_service_motion (Some (safety_stop_fault c2))
      (Some zero_cycle_complete) hw2 = (rm, Some report, Some cm, hwm)"
    using service_some [of "safety_stop_fault c2" zero_cycle_complete hw2] by (elim exE)
  have state: "srt_gate_state (srt_state (safety_stop_fault c2)) = srt_gate_state (srt_state c2)"
    by (simp add: safety_stop_fault_def)
  have eq: "(r, Some c', hw') =
     (if srt_gate_state (srt_state c2) = UART_SORTING_GATE_RETURNING
      then (if rm \<noteq> SORTING_CONTROL_OK then (rm, Some cm, hwm) else (r2, Some cm, hwm))
      else (r2, Some (safety_stop_fault c2), hw2))"
    using assms m g sv state unfolding ports_present_def
    by (auto simp: sorting_control_handle_safety_stop_def split: if_splits)
  show ?thesis
    using eq sv by (intro that [OF m g]) (auto split: if_splits)
qed

lemma safety_stop_ok:
  assumes "sorting_ok c" "ports_present c" and "sorting_control_handle_safety_stop (Some c) hw = (r, Some c', hw')"
  shows "sorting_ok c'" "srt_safety_stop_latched c' \<noteq> 0"
proof -
  obtain r1 c1 hw1 r2 c2 hw2 where st: "safety_stop_motor c hw = (r1, c1, hw1)"
    "safety_stop_gate r1 (safety_stop_latch c1) hw1 = (r2, c2, hw2)"
    "(srt_gate_state (srt_state c2) \<noteq> UART_SORTING_GATE_RETURNING \<and>
       c' = safety_stop_fault c2 \<and> hw' = hw2 \<and> r = r2) \<or>
     (srt_gate_state (srt_state c2) = UART_SORTING_GATE_RETURNING \<and>
       (\<exists>rm report. sorting_control_service_motion (Some (safety_stop_fault c2)) (Some zero_cycle_complete) hw2 =
          (rm, Some report, Some c', hw') \<and> r = (if rm \<noteq> SORTING_CONTROL_OK then rm else r2)))"
    by (rule stop_stages [OF assms(2,3)])
  have c1: "sorting_ok c1" by (rule stop_motor_ok [OF st(1) assms(1)])
  note f = stop_fault_ok [OF c1 st(2)]
  have latched: "srt_safety_stop_latched (safety_stop_fault c2) \<noteq> 0"
    using f(2) by (simp add: safety_stop_fault_def)
  have "sorting_ok c' \<and> srt_safety_stop_latched c' \<noteq> 0"
    using st(3)
  proof (elim disjE conjE exE)
    fix rm report
    assume sv: "sorting_control_service_motion (Some (safety_stop_fault c2)) (Some zero_cycle_complete) hw2 =
          (rm, Some report, Some c', hw')"
    have "srt_safety_stop_latched c' = srt_safety_stop_latched (safety_stop_fault c2)"
      using sv by (cases rule: service_cases) (simp_all add: sorting_helpers)
    then show ?thesis using service_ok [OF f(1) sv] latched by simp
  qed (use f latched in simp)
  then show "sorting_ok c'" "srt_safety_stop_latched c' \<noteq> 0" by blast+
qed

lemma release_cases:
  assumes "ports_present c" and "sorting_control_handle_safety_release (Some c) hw = (r, Some c', hw')"
  obtains (unlatched) "c' = c" "hw' = hw" "r = SORTING_CONTROL_OK" "srt_safety_stop_latched c = 0"
  | (pending) "c' = c" "hw' = hw" "r = SORTING_CONTROL_MOTION_PENDING"
  | (no_motor) "sorting_ensure_motor c hw = (False, c', hw')" "r = SORTING_CONTROL_MOTOR_ERROR"
  | (refused) c1 hw1 where "sorting_ensure_motor c hw = (True, c1, hw1)" "hw' = snd (motor_apply c1 hw1 0 0)"
      "c' = sorting_control_set_motor_fault c1" "r = SORTING_CONTROL_MOTOR_ERROR"
  | (released) c1 hw1 where "sorting_ensure_motor c hw = (True, c1, hw1)" "hw' = snd (motor_apply c1 hw1 0 0)"
      "srt_gate_state (srt_state c) = UART_SORTING_GATE_HOME" "r = SORTING_CONTROL_OK"
      "c' = sorting_control_clear_cycle
         (c1\<lparr>srt_state := (srt_state c1)\<lparr>srt_conveyor := UART_SORTING_CONVEYOR_STOPPED,
              srt_last_error := UART_ERROR_NONE\<rparr>, srt_safety_stop_latched := 0\<rparr>)"
proof -
  obtain ok c1 hw1 where en: "sorting_ensure_motor c hw = (ok, c1, hw1)" by (cases "sorting_ensure_motor c hw")
  obtain r2 hw2 where ap: "motor_apply c1 hw1 0 0 = (r2, hw2)" by (cases "motor_apply c1 hw1 0 0")
  have eq: "(r, Some c', hw') =
     (if srt_safety_stop_latched c = 0 then (SORTING_CONTROL_OK, Some c, hw)
      else if srt_gate_state (srt_state c) \<noteq> UART_SORTING_GATE_HOME
      then (SORTING_CONTROL_MOTION_PENDING, Some c, hw)
      else if \<not> ok then (SORTING_CONTROL_MOTOR_ERROR, Some c1, hw1)
      else if r2 \<noteq> SORTING_MOTOR_OK
      then (SORTING_CONTROL_MOTOR_ERROR, Some (sorting_control_set_motor_fault c1), hw2)
      else (SORTING_CONTROL_OK, Some (sorting_control_clear_cycle
         (c1\<lparr>srt_state := (srt_state c1)\<lparr>srt_conveyor := UART_SORTING_CONVEYOR_STOPPED,
              srt_last_error := UART_ERROR_NONE\<rparr>, srt_safety_stop_latched := 0\<rparr>)), hw2))"
    using assms en ap unfolding ports_present_def
    by (auto simp: sorting_control_handle_safety_release_def split: if_splits)
  consider "srt_safety_stop_latched c = 0"
    | "srt_safety_stop_latched c \<noteq> 0" "srt_gate_state (srt_state c) \<noteq> UART_SORTING_GATE_HOME"
    | "srt_safety_stop_latched c \<noteq> 0" "srt_gate_state (srt_state c) = UART_SORTING_GATE_HOME" "\<not> ok"
    | "srt_safety_stop_latched c \<noteq> 0" "srt_gate_state (srt_state c) = UART_SORTING_GATE_HOME" "ok"
      "r2 \<noteq> SORTING_MOTOR_OK"
    | "srt_safety_stop_latched c \<noteq> 0" "srt_gate_state (srt_state c) = UART_SORTING_GATE_HOME" "ok"
      "r2 = SORTING_MOTOR_OK"
    by blast
  then show ?thesis
  proof cases
    case 1
    then show ?thesis using eq by (intro unlatched) simp_all
  next
    case 2
    then show ?thesis using eq by (intro pending) simp_all
  next
    case 3
    then show ?thesis using eq en by (intro no_motor) simp_all
  next
    case 4
    then show ?thesis using eq en ap by (intro refused [of c1 hw1]) simp_all
  next
    case 5
    then show ?thesis using eq en ap by (intro released [of c1 hw1]) simp_all
  qed
qed

lemma safety_release_ok:
  assumes "sorting_ok c" "ports_present c"
    and "sorting_control_handle_safety_release (Some c) hw = (r, Some c', hw')"
  shows "sorting_ok c'"
  using assms(2,3)
proof (cases rule: release_cases)
  case no_motor
  then show ?thesis
    using ensure_motor_ok(1-3) [OF no_motor(1)] sorting_okD [OF assms(1)] by (simp add: sorting_ok_def)
next
  case (refused c1 hw1)
  then show ?thesis
    using ensure_motor_ok(1-3) [OF refused(1)] sorting_okD [OF assms(1)]
    using motor_fault_ok [of c1] by (simp add: sorting_ok_def)
next
  case (released c1 hw1)
  have "srt_motor_initialized c1 \<noteq> 0"
    using released(1) by (cases rule: ensure_motor_cases) simp_all
  moreover have "core_ok c1" "srt_gate_state (srt_state c1) = UART_SORTING_GATE_HOME"
    using ensure_motor_ok [OF released(1)] sorting_okD [OF assms(1)] released(3) by simp_all
  ultimately show ?thesis
    using released(5) by (simp add: sorting_ok_def core_ok_def errors_ok_def cycle_ok_def sorting_helpers)
qed (use assms(1) in simp_all)

end
