(* ===== verification/Sorting_Cycle.thy ===== *)
theory Sorting_Cycle
  imports Sorting_Control
begin

text \<open>
  The sorting controller on its drives: the motor and the gate follow the controller's state
  over every sequence of commands, faults, safety stops and releases, and the completions it
  reports are those of routed items. The contracts of the two ports meet in one locale, which is
  interpreted on the TB6612FNG and MG90S drivers.
\<close>

section \<open>The two ports together\<close>

locale sorting_ports =
  motor: conveyor_motor start_up run SORTING_MOTOR_OK motor_inv duty +
  gate: gate_port start_gate move ask SORTING_GATE_OK pointing settled
  for start_up :: "'hw \<Rightarrow> sorting_motor_result_t \<times> 'hw"
    and run :: "'hw \<Rightarrow> u8 \<Rightarrow> u8 \<Rightarrow> sorting_motor_result_t \<times> 'hw"
    and motor_inv :: "'hw \<Rightarrow> bool"
    and duty :: "'hw \<Rightarrow> nat"
    and start_gate :: "'hw \<Rightarrow> sorting_gate_result_t \<times> 'hw"
    and move :: "'hw \<Rightarrow> uart_sorting_destination_t \<Rightarrow> sorting_gate_result_t \<times> 'hw"
    and ask :: "'hw \<Rightarrow> u8 ptr \<Rightarrow> sorting_gate_result_t \<times> u8 ptr \<times> 'hw"
    and pointing :: "'hw \<Rightarrow> uart_sorting_destination_t \<Rightarrow> bool"
    and settled :: "'hw \<Rightarrow> bool" +
  assumes motor_keeps_gate: "pointing (snd (start_up hw)) dest \<longleftrightarrow> pointing hw dest"
      "pointing (snd (run hw r s)) dest \<longleftrightarrow> pointing hw dest"
    and gate_keeps_motor: "motor_inv (snd (start_gate hw)) \<longleftrightarrow> motor_inv hw"
      "motor_inv (snd (move hw dest)) \<longleftrightarrow> motor_inv hw"
      "motor_inv (snd (snd (ask hw c))) \<longleftrightarrow> motor_inv hw"
      "duty (snd (start_gate hw)) = duty hw" "duty (snd (move hw dest)) = duty hw"
      "duty (snd (snd (ask hw c))) = duty hw"
begin

definition on_ports :: "'hw sorting_control_t \<Rightarrow> 'hw \<Rightarrow> bool" where
  "on_ports c hw \<longleftrightarrow> motor_inv hw \<and>
     srt_motor c = \<lparr>sorting_motor_initialize = Some start_up, sorting_motor_apply = Some run\<rparr> \<and>
     srt_gate c = \<lparr>sorting_gate_initialize = Some start_gate, sorting_gate_move = Some move,
                    sorting_gate_motion_complete = Some ask\<rparr>"

definition driven :: "'hw sorting_control_t \<Rightarrow> 'hw \<Rightarrow> bool" where
  "driven c hw \<longleftrightarrow>
     duty hw = (if srt_conveyor (srt_state c) = UART_SORTING_CONVEYOR_RUNNING
                then 42 * unat (srt_speed (srt_state c)) else 0)"

definition directed_home :: "'hw sorting_control_t \<Rightarrow> 'hw \<Rightarrow> bool" where
  "directed_home c hw \<longleftrightarrow>
     (srt_gate_state (srt_state c) \<in> {UART_SORTING_GATE_HOME, UART_SORTING_GATE_RETURNING} \<longrightarrow>
        pointing hw UART_SORTING_DESTINATION_NONE)"

definition directed :: "'hw sorting_control_t \<Rightarrow> 'hw \<Rightarrow> bool" where
  "directed c hw \<longleftrightarrow> directed_home c hw \<and>
     (srt_gate_state (srt_state c) \<in> {UART_SORTING_GATE_MOVING, UART_SORTING_GATE_WAIT_ITEM} \<longrightarrow>
        pointing hw (active_destination (srt_state c)))"

definition tracks :: "'hw sorting_control_t \<Rightarrow> 'hw \<Rightarrow> bool" where
  "tracks c hw \<longleftrightarrow> on_ports c hw \<and> driven c hw \<and> directed c hw"

lemma port_calls:
  assumes "on_ports c hw"
  shows "motor_initialize c = start_up" "motor_apply c = run" "gate_initialize c = start_gate"
    "gate_move c = move" "gate_motion_complete c = ask" "ports_present c"
  using assms by (simp_all add: on_ports_def motor_initialize_def motor_apply_def gate_initialize_def
      gate_move_def gate_motion_complete_def ports_present_def)

lemma same_gate:
  assumes "srt_gate_state (srt_state c') = srt_gate_state (srt_state c)"
    "active_destination (srt_state c') = active_destination (srt_state c)"
    "\<And>d. pointing hw' d \<longleftrightarrow> pointing hw d"
  shows "directed c' hw' \<longleftrightarrow> directed c hw"
  using assms by (simp add: directed_def directed_home_def)

lemma fault_state:
  "srt_conveyor (srt_state (sorting_control_set_motor_fault c)) = UART_SORTING_CONVEYOR_FAULT"
  "srt_gate_state (srt_state (sorting_control_set_gate_fault c)) = UART_SORTING_GATE_FAULT"
  "srt_gate_state (srt_state (sorting_control_set_motor_fault c)) = srt_gate_state (srt_state c)"
  "active_destination (srt_state (sorting_control_set_motor_fault c)) = active_destination (srt_state c)"
  "srt_motor (sorting_control_set_motor_fault c) = srt_motor c" "srt_gate (sorting_control_set_motor_fault c) = srt_gate c"
  "srt_motor (sorting_control_set_gate_fault c) = srt_motor c" "srt_gate (sorting_control_set_gate_fault c) = srt_gate c"
  "srt_conveyor (srt_state (sorting_control_set_gate_fault c)) = srt_conveyor (srt_state c)"
  "srt_speed (srt_state (sorting_control_set_gate_fault c)) = srt_speed (srt_state c)"
  by (simp_all add: sorting_helpers)

subsection \<open>The motor\<close>

lemma apply_motor_tracks:
  assumes "on_ports c hw" "directed c hw" "srt_speed st \<le> 100"
    and run: "sorting_control_apply_motor c hw st = (r, c', hw')"
  shows "tracks c' hw'"
proof -
  note calls = port_calls [OF assms(1)]
  have inv: "motor_inv hw" using assms(1) by (simp add: on_ports_def)
  let ?running = "if srt_conveyor st = UART_SORTING_CONVEYOR_RUNNING then 1 else 0"
  let ?failed = "srt_motor_initialized c = 0 \<or> fst (run hw ?running (srt_speed st)) \<noteq> SORTING_MOTOR_OK"
  show ?thesis
  proof (cases ?failed)
    case True
    define h where "h = (if srt_motor_initialized c = 0 then hw else snd (run hw ?running (srt_speed st)))"
    have h: "motor_inv h" "hw' = snd (run h 0 0)" "\<And>d. pointing h d \<longleftrightarrow> pointing hw d"
      "c' = sorting_control_set_motor_fault c"
      using True run inv motor.run_inv [OF inv]
      by (auto simp: h_def sorting_control_apply_motor_def calls Let_def split_def motor_keeps_gate split: if_splits)
    have "motor_inv hw'" "duty hw' = 0"
      using motor.run_inv [OF h(1)] motor.run_stands [OF h(1), of 0 0] h(2) by simp_all
    moreover have "directed c' hw'"
      using assms(2) same_gate [of c' c hw' hw] by (simp add: h motor_keeps_gate fault_state)
    ultimately show ?thesis
      using assms(1) by (simp add: tracks_def on_ports_def driven_def h(4) fault_state)
  next
    case False
    then have eq: "c' = c\<lparr>srt_state := (srt_state c)\<lparr>srt_conveyor := srt_conveyor st, srt_speed := srt_speed st\<rparr>\<rparr>"
      "hw' = snd (run hw ?running (srt_speed st))" "fst (run hw ?running (srt_speed st)) = SORTING_MOTOR_OK"
      using run by (auto simp: sorting_control_apply_motor_def calls Let_def split_def split: if_splits)
    have "duty hw' = (if srt_conveyor st = UART_SORTING_CONVEYOR_RUNNING then 42 * unat (srt_speed st) else 0)"
      using motor.run_drives [OF inv eq(3)] motor.run_stands [OF inv _ assms(3), of 0] eq(2) by auto
    moreover have "directed c' hw'"
      using assms(2) same_gate [of c' c hw' hw] by (simp add: eq(1,2) motor_keeps_gate)
    ultimately show ?thesis
      using assms(1) motor.run_inv [OF inv] by (simp add: tracks_def on_ports_def driven_def eq(1,2))
  qed
qed

lemma ensure_motor_tracks:
  assumes "tracks c hw" "core_ok c" and "sorting_ensure_motor c hw = (ok, c', hw')"
  shows "tracks c' hw'"
proof (cases "srt_motor_initialized c = 0")
  case True
  note on = assms(1) [unfolded tracks_def, THEN conjunct1]
  have inv: "motor_inv hw" using on by (simp add: on_ports_def)
  have fault: "srt_conveyor (srt_state c) = UART_SORTING_CONVEYOR_FAULT"
    using True assms(2) by (simp add: core_ok_def)
  have eq: "hw' = snd (start_up hw)" "c' = sorting_control_set_motor_fault c \<or> c' = c\<lparr>srt_motor_initialized := 1\<rparr>"
    using assms(3) True port_calls(1) [OF on]
    by (auto simp: sorting_ensure_motor_def Let_def split_def split: if_splits)
  have "motor_inv hw'" "duty hw' = 0"
    using motor.start_up_inv [OF inv] motor.start_up_stands [OF inv] eq(1) by simp_all
  moreover have "directed c' hw'"
    using assms(1) same_gate [of c' c hw' hw] eq by (auto simp: tracks_def motor_keeps_gate fault_state)
  ultimately show ?thesis
    using on eq(2) fault by (auto simp: tracks_def on_ports_def driven_def fault_state)
qed (use assms in \<open>simp add: sorting_ensure_motor_def\<close>)

lemma stop_motor_tracks:
  assumes "tracks c hw" "core_ok c" and "safety_stop_motor c hw = (r, c', hw')"
  shows "on_ports c' hw'" "directed c' hw'" "duty hw' = 0"
proof -
  have "on_ports c' hw' \<and> directed c' hw' \<and> duty hw' = 0"
    using assms(3)
  proof (cases rule: stop_motor_cases)
    case no_motor
    then have "srt_conveyor (srt_state c') = UART_SORTING_CONVEYOR_FAULT"
      using ensure_motor_ok(1) [OF no_motor(1) assms(2)] by (simp add: core_ok_def)
    then show ?thesis
      using ensure_motor_tracks [OF assms(1,2) no_motor(1)] by (simp add: tracks_def driven_def)
  next
    case (ready c1 hw1)
    have tr: "tracks c1 hw1" by (rule ensure_motor_tracks [OF assms(1,2) ready(1)])
    then have on: "on_ports c1 hw1" "directed c1 hw1" by (simp_all add: tracks_def)
    have inv: "motor_inv hw1" using on by (simp add: on_ports_def)
    have "motor_inv hw'" "duty hw' = 0"
      using ready(2) port_calls(2) [OF on(1)] motor.run_inv [OF inv] motor.run_stands [OF inv, of 0 0] by simp_all
    moreover have "directed c' hw'"
      using on(2) same_gate [of c' c1 hw' hw1] ready(2,3) port_calls(2) [OF on(1)]
      by (auto simp: motor_keeps_gate fault_state)
    ultimately show ?thesis
      using on(1) ready(3) by (auto simp: on_ports_def fault_state)
  qed
  then show "on_ports c' hw'" "directed c' hw'" "duty hw' = 0" by blast+
qed


subsection \<open>The gate\<close>

lemma gate_tracks:
  assumes "on_ports c hw"
    and "hw' = snd (gate_move c hw dest) \<or> hw' = snd (gate_initialize c hw) \<or>
         hw' = snd (snd (gate_motion_complete c hw w)) \<or> hw' = hw"
    and "srt_motor c' = srt_motor c" "srt_gate c' = srt_gate c"
  shows "on_ports c' hw'" and "duty hw' = duty hw"
proof -
  have "hw' = snd (move hw dest) \<or> hw' = snd (start_gate hw) \<or> hw' = snd (snd (ask hw w)) \<or> hw' = hw"
    using assms(2) unfolding port_calls [OF assms(1)] .
  then have "motor_inv hw' \<longleftrightarrow> motor_inv hw" "duty hw' = duty hw"
    by (auto simp: gate_keeps_motor)
  then show "on_ports c' hw'" and "duty hw' = duty hw"
    using assms(1,3,4) by (simp_all add: on_ports_def)
qed

lemma gate_fault_tracks:
  assumes "tracks c hw" and "on_ports c hw'" "duty hw' = duty hw"
  shows "tracks (sorting_control_set_gate_fault c) hw'"
  using assms by (simp add: tracks_def on_ports_def driven_def directed_def directed_home_def fault_state)

lemma move_failed_hw:
  assumes "on_ports c hw" and "sorting_control_move_gate c hw dest st = (r, c', hw')"
  shows "hw' = snd (gate_move c hw dest) \<or> hw' = hw"
  using assms(2) by (auto simp: sorting_control_move_gate_def Let_def split_def split: if_splits)

lemma start_gate_hw:
  assumes "sorting_start_gate c hw = (ok, c', hw')"
  shows "hw' = snd (gate_initialize c hw)"
  using assms by (auto simp: sorting_start_gate_def Let_def split_def split: if_splits)

lemma start_gate_tracks:
  assumes "on_ports c hw" and "sorting_start_gate c hw = (ok, c', hw')"
  shows "on_ports c' hw'" "directed c' hw'" "duty hw' = duty hw"
proof -
  have "srt_motor c' = srt_motor c \<and> srt_gate c' = srt_gate c"
    using assms(2) by (cases rule: start_gate_cases) (simp_all add: fault_state)
  then have eq: "srt_motor c' = srt_motor c" "srt_gate c' = srt_gate c" by simp_all
  show "on_ports c' hw'" "duty hw' = duty hw"
    using gate_tracks [OF assms(1) disjI2 [OF disjI1 [OF start_gate_hw [OF assms(2)]]] eq] .
  show "directed c' hw'"
    using assms(2)
  proof (cases rule: start_gate_cases)
    case started
    then have "pointing hw' UART_SORTING_DESTINATION_NONE"
      using gate.start_gate_home port_calls(3) [OF assms(1)] by simp
    then show ?thesis using started by (simp add: directed_def directed_home_def)
  qed (simp add: directed_def directed_home_def fault_state)
qed

lemma move_home_tracks:
  assumes "on_ports c hw"
    and "sorting_control_move_gate c hw UART_SORTING_DESTINATION_NONE UART_SORTING_GATE_RETURNING = (r, c', hw')"
  shows "on_ports c' hw'" "directed c' hw'" "duty hw' = duty hw"
proof -
  have "srt_motor c' = srt_motor c \<and> srt_gate c' = srt_gate c"
    using assms(2) by (cases rule: move_gate_cases) (simp_all add: fault_state)
  then have eq: "srt_motor c' = srt_motor c" "srt_gate c' = srt_gate c" by simp_all
  show "on_ports c' hw'" "duty hw' = duty hw"
    using gate_tracks [OF assms(1) _ eq, of hw' UART_SORTING_DESTINATION_NONE NULL] move_failed_hw [OF assms]
    by blast+
  show "directed c' hw'"
    using assms(2)
  proof (cases rule: move_gate_cases)
    case moved
    then have "pointing hw' UART_SORTING_DESTINATION_NONE"
      using gate.move_points port_calls(4) [OF assms(1)] by simp
    then show ?thesis using moved by (simp add: directed_def directed_home_def)
  qed (simp add: directed_def directed_home_def fault_state)
qed

lemma gate_keeps_conveyor:
  assumes "sorting_start_gate c hw = (ok, c', hw') \<or>
    sorting_control_move_gate c hw dest st = (r, c', hw')"
  shows "srt_conveyor (srt_state c') = srt_conveyor (srt_state c) \<and>
    srt_speed (srt_state c') = srt_speed (srt_state c)"
  using assms
proof
  assume "sorting_start_gate c hw = (ok, c', hw')"
  then show ?thesis by (cases rule: start_gate_cases) (simp_all add: fault_state)
next
  assume "sorting_control_move_gate c hw dest st = (r, c', hw')"
  then show ?thesis by (cases rule: move_gate_cases) (simp_all add: fault_state)
qed

lemma moved_tracks:
  assumes "tracks c hw" and "fst (gate_move c hw dest) = SORTING_GATE_OK" "hw' = snd (gate_move c hw dest)"
    and "srt_motor c' = srt_motor c" "srt_gate c' = srt_gate c"
    and "srt_conveyor (srt_state c') = srt_conveyor (srt_state c)" "srt_speed (srt_state c') = srt_speed (srt_state c)"
    and "srt_gate_state (srt_state c') = UART_SORTING_GATE_RETURNING \<and> dest = UART_SORTING_DESTINATION_NONE \<or>
         srt_gate_state (srt_state c') = UART_SORTING_GATE_MOVING \<and> active_destination (srt_state c') = dest"
  shows "tracks c' hw'"
proof -
  have on: "on_ports c hw" using assms(1) by (simp add: tracks_def)
  have "pointing hw' dest"
    using gate.move_points assms(2,3) port_calls(4) [OF on] by simp
  then have "directed c' hw'"
    using assms(8) by (auto simp: directed_def directed_home_def)
  then show ?thesis
    using gate_tracks [OF on disjI1 [OF assms(3)] assms(4,5)] assms(1,6,7) by (simp add: tracks_def driven_def)
qed

subsection \<open>Commands\<close>

lemma trackingD:
  assumes "tracks c hw" "sorting_ok c"
  shows "on_ports c hw" "directed c hw" "core_ok c" "srt_speed (srt_state c) \<le> 100"
  using assms by (simp_all add: tracks_def sorting_ok_def core_ok_def)

lemma start_tracks:
  assumes "tracks c hw" "sorting_ok c" and "sorting_start c hw = (r, c', hw')"
  shows "tracks c' hw'"
proof (cases "sorting_any_fault c \<or> srt_speed (srt_state c) = 0")
  case False
  then have run: "sorting_control_apply_motor c hw ((srt_state c)\<lparr>srt_conveyor := UART_SORTING_CONVEYOR_RUNNING\<rparr>) =
      (r, c', hw')"
    using assms(3) by (simp add: sorting_start_def)
  show ?thesis
    by (rule apply_motor_tracks [OF trackingD(1,2) [OF assms(1,2)] _ run]) (use trackingD [OF assms(1,2)] in simp)
qed (use assms in \<open>auto simp: sorting_start_def split: if_splits\<close>)

lemma stop_tracks:
  assumes "tracks c hw" "sorting_ok c" and "sorting_stop c hw = (r, c', hw')"
  shows "tracks c' hw'"
proof -
  obtain r1 where run: "sorting_control_apply_motor c hw
      ((srt_state c)\<lparr>srt_conveyor := UART_SORTING_CONVEYOR_STOPPED\<rparr>) = (r1, c', hw')"
    by (rule sorting_stop_applies [OF assms(3)])
  show ?thesis
    by (rule apply_motor_tracks [OF trackingD(1,2) [OF assms(1,2)] _ run]) (use trackingD [OF assms(1,2)] in simp)
qed

lemma set_speed_tracks:
  assumes "tracks c hw" "sorting_ok c" "s \<le> 100" and "sorting_set_speed c hw s = (r, c', hw')"
  shows "tracks c' hw'"
  using assms(4)
proof (cases rule: sorting_set_speed_cases)
  case (applied st)
  show ?thesis
    by (rule apply_motor_tracks [OF trackingD(1,2) [OF assms(1,2)] _ applied(1)]) (use applied assms(3) in simp)
qed (use assms(1) in simp)

lemma reset_tracks:
  assumes "tracks c hw" "sorting_ok c" and "sorting_control_reset c hw = (r, c', hw')"
  shows "tracks c' hw'"
proof -
  have gate_stage: "on_ports c2 hw2 \<and> directed c2 hw2 \<and> duty hw2 = duty hw1 \<and>
      srt_conveyor (srt_state c2) = srt_conveyor (srt_state c1) \<and> srt_speed (srt_state c2) = srt_speed (srt_state c1)"
    if "on_ports c1 hw1" "reset_gate c1 hw1 = (ok, c2, hw2)" for c1 hw1 ok c2 hw2
  proof (cases "srt_gate_initialized c1 = 0")
    case True
    then have "sorting_start_gate c1 hw1 = (ok, c2, hw2)" using that(2) by (simp add: reset_gate_def)
    then have st: "sorting_start_gate c1 hw1 = (ok, c2, hw2)" .
    show ?thesis using start_gate_tracks [OF that(1) st] gate_keeps_conveyor [OF disjI1 [OF st]] by simp
  next
    case False
    note g = that(2)
    from False obtain r where mv: "sorting_control_move_gate c1 hw1 UART_SORTING_DESTINATION_NONE
        UART_SORTING_GATE_RETURNING = (r, c2, hw2)"
      using g by (cases "sorting_control_move_gate c1 hw1 UART_SORTING_DESTINATION_NONE
        UART_SORTING_GATE_RETURNING") (auto simp: reset_gate_def Let_def)
    show ?thesis using move_home_tracks [OF that(1) mv] gate_keeps_conveyor [OF disjI2 [OF mv]] by simp
  qed
  show ?thesis
    using assms(3)
  proof (cases rule: reset_cases)
    case no_motor
    then show ?thesis using ensure_motor_tracks [OF assms(1) trackingD(3) [OF assms(1,2)]] by blast
  next
    case (no_gate c1 hw1)
    have tr: "tracks c1 hw1" by (rule ensure_motor_tracks [OF assms(1) trackingD(3) [OF assms(1,2)] no_gate(2)])
    then show ?thesis
      using gate_stage [OF _ no_gate(3)] by (simp add: tracks_def driven_def)
  next
    case (stopped c1 hw1 c2 hw2 r3 c3)
    have tr: "tracks c1 hw1" by (rule ensure_motor_tracks [OF assms(1) trackingD(3) [OF assms(1,2)] stopped(2)])
    have "srt_speed (srt_state c1) \<le> 100"
      using ensure_motor_ok(1) [OF stopped(2) trackingD(3) [OF assms(1,2)]] by (simp add: core_ok_def)
    then have tr3: "tracks c3 hw'"
      using gate_stage [OF _ stopped(3)] tr by (intro apply_motor_tracks [OF _ _ _ stopped(4)]) (simp_all add: tracks_def)
    show ?thesis
    proof (cases "r3 = SORTING_CONTROL_OK")
      case True
      have "srt_gate_state (srt_state c3) = srt_gate_state (srt_state c2)"
        using stopped(4) by (cases rule: apply_motor_cases) (simp_all add: True fault_state)
      then have "srt_gate_state (srt_state c3) = UART_SORTING_GATE_RETURNING"
        using reset_gate_ok(5) [OF stopped(3)] by simp
      then show ?thesis
        using tr3 stopped(5) True
        by (simp add: tracks_def on_ports_def driven_def directed_def directed_home_def sorting_control_clear_cycle_def)
    next
      case False
      then show ?thesis using tr3 stopped(5) by simp
    qed
  qed (use assms(1) in simp)
qed


lemma process_tracks:
  assumes "tracks c hw" "sorting_ok c"
    and "sorting_control_process_command (Some c) message hw = (r, Some c', hw')"
  shows "tracks c' hw'"
proof -
  have on: "on_ports c hw" using assms(1) by (simp add: tracks_def)
  have fault: "tracks (sorting_control_set_gate_fault c) h"
    if "h = snd (gate_move c hw dest) \<or> h = hw" for h dest
  proof (rule gate_fault_tracks [OF assms(1)])
    have "h = snd (gate_move c hw dest) \<or> h = snd (gate_initialize c hw) \<or>
         h = snd (snd (gate_motion_complete c hw NULL)) \<or> h = hw" using that by blast
    from gate_tracks [OF on this refl refl] show "on_ports c h" "duty h = duty hw" .
  qed
  show ?thesis
    using assms(3)
  proof (cases rule: process_cases)
    case start
    then show ?thesis by (intro start_tracks [OF assms(1,2)])
  next
    case stop
    then show ?thesis by (intro stop_tracks [OF assms(1,2)])
  next
    case (set_speed s)
    then show ?thesis using set_speed_tracks [OF assms(1,2)] by blast
  next
    case (route m)
    from route(3) show ?thesis
    proof (cases rule: route_cases)
      case failed
      have "hw' = snd (gate_move c hw (destination_of (frame_payload (msg_frame m) ! 2))) \<or> hw' = hw"
        using route(3) failed
        by (auto simp: sorting_route_item_def sorting_control_move_gate_def Let_def split_def split: if_splits)
      then show ?thesis using fault failed by blast
    next
      case routed
      show ?thesis
        by (rule moved_tracks [OF assms(1) routed(6,5)]) (simp_all add: routed)
    qed (use assms(1) in simp)
  next
    case (return_home p)
    from return_home(2) show ?thesis
    proof (cases rule: return_home_cases)
      case failed
      have "hw' = snd (gate_move c hw UART_SORTING_DESTINATION_NONE) \<or> hw' = hw"
        using return_home(2) failed
        by (auto simp: sorting_return_home_def sorting_control_move_gate_def Let_def split_def split: if_splits)
      then show ?thesis using fault failed by blast
    next
      case returning
      show ?thesis
        by (rule moved_tracks [OF assms(1) returning(7,6)]) (simp_all add: returning)
    qed (use assms(1) in simp)
  next
    case (cancel p)
    from cancel(2) show ?thesis
    proof (cases rule: cancel_cases)
      case failed
      have "hw' = snd (gate_move c hw UART_SORTING_DESTINATION_NONE) \<or> hw' = hw"
        using cancel(2) failed
        by (auto simp: sorting_cancel_def sorting_control_move_gate_def Let_def split_def split: if_splits)
      then show ?thesis using fault failed by blast
    next
      case cancelled
      show ?thesis
        by (rule moved_tracks [OF assms(1) cancelled(6,5)]) (simp_all add: cancelled)
    qed (use assms(1) in simp)
  next
    case reset
    then show ?thesis by (intro reset_tracks [OF assms(1,2)])
  qed (use assms(1) in simp_all)
qed

subsection \<open>Motion, stop and release\<close>

lemma service_tracks:
  assumes "tracks c hw" "sorting_ok c"
    and "sorting_control_service_motion (Some c) (Some d) hw = (r, Some report, Some c', hw')"
  shows "tracks c' hw'"
    and "srt_gate_state (srt_state c) \<noteq> srt_gate_state (srt_state c') \<Longrightarrow>
      srt_gate_state (srt_state c') \<noteq> UART_SORTING_GATE_FAULT \<Longrightarrow> settled hw"
proof -
  have on: "on_ports c hw" using assms(1) by (simp add: tracks_def)
  note calls = port_calls [OF on]
  have asked: "on_ports c h" "duty h = duty hw" "\<And>dest. pointing h dest \<longleftrightarrow> pointing hw dest"
    if "h = hw \<or> h = snd (snd (gate_motion_complete c hw (Some 0)))" for h
  proof -
    have "h = snd (gate_move c hw UART_SORTING_DESTINATION_NONE) \<or> h = snd (gate_initialize c hw) \<or>
         h = snd (snd (gate_motion_complete c hw (Some 0))) \<or> h = hw" using that by blast
    from gate_tracks [OF on this refl refl] show "on_ports c h" "duty h = duty hw" .
    show "pointing h dest \<longleftrightarrow> pointing hw dest" for dest
      using that calls(5) gate.ask_points by auto
  qed
  have "tracks c' hw' \<and> (srt_gate_state (srt_state c) \<noteq> srt_gate_state (srt_state c') \<longrightarrow>
      srt_gate_state (srt_state c') \<noteq> UART_SORTING_GATE_FAULT \<longrightarrow> settled hw)"
    using assms(3)
  proof (cases rule: service_cases)
    case failed
    then have h: "hw' = hw \<or> hw' = snd (snd (gate_motion_complete c hw (Some 0)))" by blast
    show ?thesis
      using gate_fault_tracks [OF assms(1) asked(1) [OF h] asked(2) [OF h]] failed by (simp add: fault_state)
  next
    case pending
    then show ?thesis
      using assms(1) asked [of hw'] same_gate [of c c hw' hw] by (simp add: tracks_def driven_def)
  next
    case arrived
    have ans: "settled hw"
      using arrived(3,4) gate.ask_answer [of hw 0] gate.ask_settled [of hw 0] unfolding calls(5) by auto
    have "directed c' hw'"
      using assms(1) asked(3) [of hw'] arrived by (simp add: tracks_def directed_def directed_home_def)
    then show ?thesis
      using assms(1) asked(1,2) [of hw'] arrived ans by (simp add: tracks_def driven_def on_ports_def)
  next
    case home
    have ans: "settled hw"
      using home(3,4) gate.ask_answer [of hw 0] gate.ask_settled [of hw 0] unfolding calls(5) by auto
    have "directed c' hw'"
      using assms(1) asked(3) [of hw'] home
      by (simp add: tracks_def directed_def directed_home_def sorting_control_clear_cycle_def)
    then show ?thesis
      using assms(1) asked(1,2) [of hw'] home(2,7) ans
      by (simp add: tracks_def driven_def on_ports_def sorting_control_clear_cycle_def)
  qed (use assms(1) in simp)
  then show "tracks c' hw'"
    and "srt_gate_state (srt_state c) \<noteq> srt_gate_state (srt_state c') \<Longrightarrow>
      srt_gate_state (srt_state c') \<noteq> UART_SORTING_GATE_FAULT \<Longrightarrow> settled hw"
    by blast+
qed


lemma stop_gate_tracks:
  assumes "on_ports c hw" "directed_home c hw" and "safety_stop_gate r0 c hw = (r, c', hw')"
  shows "on_ports c' hw'" "directed c' hw'" "duty hw' = duty hw"
proof -
  note calls = port_calls [OF assms(1)]
  have "on_ports c' hw' \<and> directed c' hw' \<and> duty hw' = duty hw"
  proof (cases "srt_gate_initialized c = 0")
    case True
    then obtain ok where st: "sorting_start_gate c hw = (ok, c', hw')"
      using assms(3) by (cases "sorting_start_gate c hw") (auto simp: safety_stop_gate_def)
    show ?thesis using start_gate_tracks [OF assms(1) st] by simp
  next
    case init: False
    show ?thesis
    proof (cases "srt_gate_state (srt_state c) = UART_SORTING_GATE_HOME \<or>
        srt_gate_state (srt_state c) = UART_SORTING_GATE_RETURNING")
      case True
      then have "c' = c" "hw' = hw"
        using assms(3) init by (auto simp: safety_stop_gate_def)
      then show ?thesis using assms(1,2) True by (auto simp: directed_def)
    next
      case False
      then obtain r1 where mv: "sorting_control_move_gate c hw UART_SORTING_DESTINATION_NONE
          UART_SORTING_GATE_RETURNING = (r1, c', hw')"
        using assms(3) init
        by (cases "sorting_control_move_gate c hw UART_SORTING_DESTINATION_NONE UART_SORTING_GATE_RETURNING")
          (auto simp: safety_stop_gate_def)
      show ?thesis using move_home_tracks [OF assms(1) mv] by simp
    qed
  qed
  then show "on_ports c' hw'" "directed c' hw'" "duty hw' = duty hw" by blast+
qed

lemma safety_stop_tracks:
  assumes "tracks c hw" "sorting_ok c"
    and "sorting_control_handle_safety_stop (Some c) hw = (r, Some c', hw')"
  shows "tracks c' hw'" "duty hw' = 0"
proof -
  have present: "ports_present c" using port_calls(6) [of c hw] assms(1) by (simp add: tracks_def)
  obtain r1 c1 hw1 r2 c2 hw2 where st: "safety_stop_motor c hw = (r1, c1, hw1)"
    "safety_stop_gate r1 (safety_stop_latch c1) hw1 = (r2, c2, hw2)"
    "(srt_gate_state (srt_state c2) \<noteq> UART_SORTING_GATE_RETURNING \<and>
       c' = safety_stop_fault c2 \<and> hw' = hw2 \<and> r = r2) \<or>
     (srt_gate_state (srt_state c2) = UART_SORTING_GATE_RETURNING \<and>
       (\<exists>rm report. sorting_control_service_motion (Some (safety_stop_fault c2)) (Some zero_cycle_complete) hw2 =
          (rm, Some report, Some c', hw') \<and> r = (if rm \<noteq> SORTING_CONTROL_OK then rm else r2)))"
    by (rule stop_stages [OF present assms(3)])
  note m = stop_motor_tracks [OF assms(1) trackingD(3) [OF assms(1,2)] st(1)]
  have c1: "sorting_ok c1" by (rule stop_motor_ok [OF st(1) assms(2)])
  have "on_ports (safety_stop_latch c1) hw1" "directed_home (safety_stop_latch c1) hw1"
    using m by (simp_all add: safety_stop_latch_def sorting_control_clear_cycle_def on_ports_def
        directed_def directed_home_def)
  from stop_gate_tracks [OF this st(2)] have g: "on_ports c2 hw2" "directed c2 hw2" "duty hw2 = 0"
    using m(3) by simp_all
  then have f: "tracks (safety_stop_fault c2) hw2"
    by (simp add: tracks_def on_ports_def driven_def directed_def directed_home_def safety_stop_fault_def)
  have "tracks c' hw' \<and> srt_conveyor (srt_state c') = UART_SORTING_CONVEYOR_FAULT"
    using st(3)
  proof (elim disjE conjE exE)
    fix rm report
    assume sv: "sorting_control_service_motion (Some (safety_stop_fault c2)) (Some zero_cycle_complete) hw2 =
          (rm, Some report, Some c', hw')"
    have "srt_conveyor (srt_state c') = srt_conveyor (srt_state (safety_stop_fault c2))"
      using sv by (cases rule: service_cases) (simp_all add: sorting_helpers)
    then show ?thesis
      using service_tracks(1) [OF f stop_fault_ok(1) [OF c1 st(2)] sv] by (simp add: safety_stop_fault_def)
  qed (use f in \<open>simp add: safety_stop_fault_def\<close>)
  then show "tracks c' hw'" "duty hw' = 0"
    by (simp_all add: tracks_def driven_def)
qed

lemma stop_apply:
  assumes "tracks c hw"
  shows "on_ports c (snd (motor_apply c hw 0 0))" "directed c (snd (motor_apply c hw 0 0))"
    "duty (snd (motor_apply c hw 0 0)) = 0"
proof -
  have on: "on_ports c hw" "directed c hw" using assms by (simp_all add: tracks_def)
  have inv: "motor_inv hw" using on by (simp add: on_ports_def)
  note calls = port_calls(2) [OF on(1)]
  show "duty (snd (motor_apply c hw 0 0)) = 0"
    using motor.run_stands [OF inv, of 0 0] calls by simp
  show "directed c (snd (motor_apply c hw 0 0))"
    using same_gate [of c c "snd (run hw 0 0)" hw] on(2) calls by (simp add: motor_keeps_gate)
  show "on_ports c (snd (motor_apply c hw 0 0))"
    using on(1) motor.run_inv [OF inv] unfolding calls by (simp add: on_ports_def)
qed

lemma safety_release_tracks:
  assumes "tracks c hw" "sorting_ok c"
    and "sorting_control_handle_safety_release (Some c) hw = (r, Some c', hw')"
  shows "tracks c' hw'"
proof -
  have present: "ports_present c" using port_calls(6) [of c hw] assms(1) by (simp add: tracks_def)
  note ens = ensure_motor_tracks [OF assms(1) trackingD(3) [OF assms(1,2)]]
  from present assms(3) show ?thesis
  proof (cases rule: release_cases)
    case no_motor
    then show ?thesis using ens by blast
  next
    case (refused c1 hw1)
    from stop_apply [OF ens [OF refused(1)]] show ?thesis
      using refused by (simp add: tracks_def on_ports_def driven_def directed_def directed_home_def fault_state)
  next
    case (released c1 hw1)
    have "srt_gate_state (srt_state c1) = UART_SORTING_GATE_HOME"
      using ensure_motor_ok(8) [OF released(1)] released(3) by simp
    with stop_apply [OF ens [OF released(1)]] show ?thesis
      using released by (simp add: tracks_def on_ports_def driven_def directed_def directed_home_def
          sorting_control_clear_cycle_def)
  qed (use assms(1) in simp_all)
qed

subsection \<open>Initialisation\<close>

lemma init_tracks:
  assumes "motor_inv hw"
    and "sorting_control_init (Some c0)
      (Some \<lparr>sorting_motor_initialize = Some start_up, sorting_motor_apply = Some run\<rparr>)
      (Some \<lparr>sorting_gate_initialize = Some start_gate, sorting_gate_move = Some move,
             sorting_gate_motion_complete = Some ask\<rparr>) hw = (r, Some c, hw')"
  shows "tracks c hw'" and "sorting_ok c" and "active_cycle_id (srt_state c) = 0"
proof -
  define b where "b = (zero_sorting_control :: 'hw sorting_control_t)\<lparr>
      srt_motor := \<lparr>sorting_motor_initialize = Some start_up, sorting_motor_apply = Some run\<rparr>,
      srt_gate := \<lparr>sorting_gate_initialize = Some start_gate, sorting_gate_move = Some move,
             sorting_gate_motion_complete = Some ask\<rparr>,
      srt_state := (srt_state (zero_sorting_control :: 'hw sorting_control_t))
        \<lparr>srt_gate_state := UART_SORTING_GATE_RETURNING\<rparr>\<rparr>"
  obtain r1 hw1 where su: "start_up hw = (r1, hw1)" by (cases "start_up hw")
  obtain r2 hw2 where ap: "run hw1 0 0 = (r2, hw2)" by (cases "run hw1 0 0")
  define c1 where "c1 = (if r1 = SORTING_MOTOR_OK
      then (if r2 \<noteq> SORTING_MOTOR_OK then sorting_control_set_motor_fault (b\<lparr>srt_motor_initialized := 1\<rparr>)
            else b\<lparr>srt_motor_initialized := 1\<rparr>)
      else sorting_control_set_motor_fault b)"
  define h where "h = (if r1 = SORTING_MOTOR_OK then hw2 else hw1)"
  obtain ok c2 hw3 where sg: "sorting_start_gate c1 h = (ok, c2, hw3)" by (cases "sorting_start_gate c1 h")
  have eq: "c = c2" "hw' = hw3"
    using assms(2) su ap sg
    by (auto simp: sorting_control_init_def zero_sorting_control_def motor_initialize_def motor_apply_def
        b_def c1_def h_def Let_def split: if_splits)
  have inv1: "motor_inv hw1" "duty hw1 = 0"
    using motor.start_up_inv [OF assms(1)] motor.start_up_stands [OF assms(1)] su by simp_all
  have inv2: "motor_inv hw2" "duty hw2 = 0"
    using motor.run_inv [OF inv1(1), of 0 0] motor.run_stands [OF inv1(1), of 0 0] ap by simp_all
  have on1: "on_ports c1 h" and d: "duty h = 0"
    using inv1 inv2 by (simp_all add: c1_def h_def b_def on_ports_def fault_state)
  have conv: "srt_conveyor (srt_state c1) \<noteq> UART_SORTING_CONVEYOR_RUNNING"
    by (simp add: c1_def b_def zero_sorting_control_def sorting_helpers)
  from start_gate_tracks [OF on1 sg] gate_keeps_conveyor [OF disjI1 [OF sg]]
  show "tracks c hw'" using d conv by (simp add: tracks_def driven_def eq)
  have "sorting_ok c2 \<and> active_cycle_id (srt_state c2) = 0"
    using sg
    by (cases rule: start_gate_cases)
      (auto simp: c1_def b_def zero_sorting_control_def sorting_ok_def core_ok_def errors_ok_def
        cycle_ok_def sorting_helpers)
  then show "sorting_ok c" "active_cycle_id (srt_state c) = 0" by (simp_all add: eq)
qed

end


section \<open>The line: controller, motor and gate\<close>

interpretation line: sorting_ports "sorting_motor_tb6612_initialize (Some ())"
  "sorting_motor_tb6612_apply (Some ())" drives_ok sorting_duty
  "sorting_gate_mg90s_initialize (Some ())" "sorting_gate_mg90s_move (Some ())"
  "sorting_gate_mg90s_motion_complete (Some ())" gate_pointing gate_settled
  by unfold_locales (simp_all add: sorting_motor_frame gate_frame)

type_synonym item = "u16 \<times> uart_sorting_destination_t"

text \<open>The item that an accepted route command names, and the one that a completion names.\<close>

definition routed :: "sorting_control_result_t \<Rightarrow> control_command_t ptr \<Rightarrow> item list" where
  "routed r message =
     (case message of
        None \<Rightarrow> []
      | Some m \<Rightarrow>
          if r = SORTING_CONTROL_OK \<and>
             frame_command (msg_frame m) = sorting_cmd_code UART_CMD_SORTING_ROUTE_ITEM
          then [(uart_sorting_route_cycle_id (Some (frame_payload (msg_frame m))),
                 destination_of (frame_payload (msg_frame m) ! 2))]
          else [])"

definition completed :: "sorting_cycle_complete_t \<Rightarrow> item list" where
  "completed report = (if cycle_valid report \<noteq> 0 then [(cycle_id report, cycle_destination report)] else [])"

text \<open>
  A run of the line with the items routed and completed so far. Between the operations the rest
  of the firmware and the environment may change the drives, not the sorting motor and the gate.
\<close>

inductive sorting_run :: "drives sorting_control_t \<Rightarrow> drives \<Rightarrow> item list \<Rightarrow> item list \<Rightarrow> bool" where
  init: "drives_ok d \<Longrightarrow>
    sorting_control_init (Some c0) (Some sorting_motor_tb6612_port) (Some sorting_gate_mg90s_port) d =
      (r, Some c, d') \<Longrightarrow> sorting_run c d' [] []"
| command: "sorting_run c d routes reports \<Longrightarrow>
    sorting_control_process_command (Some c) message d = (r, Some c', d') \<Longrightarrow>
    sorting_run c' d' (routes @ routed r message) reports"
| service: "sorting_run c d routes reports \<Longrightarrow>
    sorting_control_service_motion (Some c) (Some buffer) d = (r, Some report, Some c', d') \<Longrightarrow>
    sorting_run c' d' routes (reports @ completed report)"
| safety_stop: "sorting_run c d routes reports \<Longrightarrow>
    sorting_control_handle_safety_stop (Some c) d = (r, Some c', d') \<Longrightarrow> sorting_run c' d' routes reports"
| safety_release: "sorting_run c d routes reports \<Longrightarrow>
    sorting_control_handle_safety_release (Some c) d = (r, Some c', d') \<Longrightarrow> sorting_run c' d' routes reports"
| elsewhere: "sorting_run c d routes reports \<Longrightarrow> drives_ok d' \<Longrightarrow> sorting_duty d' = sorting_duty d \<Longrightarrow>
    (\<And>dest. gate_pointing d' dest \<longleftrightarrow> gate_pointing d dest) \<Longrightarrow> sorting_run c d' routes reports"

lemma run_tracks:
  "sorting_run c d routes reports \<Longrightarrow> line.tracks c d \<and> sorting_ok c"
proof (induction rule: sorting_run.induct)
  case (init d c0 r c d')
  then show ?case
    using line.init_tracks [OF init(1), of c0 r c d']
    by (simp add: sorting_motor_tb6612_port_def sorting_gate_mg90s_port_def)
next
  case (command c d routes reports message r c' d')
  then show ?case
    using line.process_tracks [OF _ _ command(2)] process_ok [OF _ command(2)] by simp
next
  case (service c d routes reports buffer r report c' d')
  then show ?case
    using line.service_tracks(1) [OF _ _ service(2)] service_ok [OF _ service(2)] by simp
next
  case (safety_stop c d routes reports r c' d')
  then have ok: "line.tracks c d" "sorting_ok c" "ports_present c"
    using line.port_calls(6) [of c d] by (simp_all add: line.tracks_def)
  show ?case
    using line.safety_stop_tracks(1) [OF ok(1,2) safety_stop(2)] safety_stop_ok(1) [OF ok(2,3) safety_stop(2)] ..
next
  case (safety_release c d routes reports r c' d')
  then have ok: "line.tracks c d" "sorting_ok c" "ports_present c"
    using line.port_calls(6) [of c d] by (simp_all add: line.tracks_def)
  show ?case
    using line.safety_release_tracks [OF ok(1,2) safety_release(2)] safety_release_ok [OF ok(2,3) safety_release(2)] ..
next
  case (elsewhere c d routes reports d')
  then show ?case
    by (simp add: line.tracks_def line.on_ports_def line.driven_def line.directed_def line.directed_home_def)
qed

text \<open>
  C34: In every reachable state of the sorting line the duty cycle of the conveyor motor is the
  configured speed if the controller says RUNNING and zero otherwise, and the gate driver is up
  with its two servos pointing at the active destination while the gate is moving or waiting and
  at home while it returns or is home.
\<close>

theorem sorting_line_follows_state:
  assumes "sorting_run c d routes reports"
  shows "sorting_ok c \<and> drives_ok d \<and>
         sorting_duty d = (if srt_conveyor (srt_state c) = UART_SORTING_CONVEYOR_RUNNING
                           then 42 * unat (srt_speed (srt_state c)) else 0) \<and>
         (case srt_gate_state (srt_state c) of
            UART_SORTING_GATE_HOME \<Rightarrow> gate_pointing d UART_SORTING_DESTINATION_NONE
          | UART_SORTING_GATE_RETURNING \<Rightarrow> gate_pointing d UART_SORTING_DESTINATION_NONE
          | UART_SORTING_GATE_FAULT \<Rightarrow> True
          | _ \<Rightarrow> active_cycle_id (srt_state c) \<noteq> 0 \<and> gate_pointing d (active_destination (srt_state c)))"
proof -
  have t: "line.tracks c d" "sorting_ok c" using run_tracks [OF assms] by simp_all
  have out: "active_cycle_id (srt_state c) \<noteq> 0"
    if "srt_gate_state (srt_state c) \<in> {UART_SORTING_GATE_MOVING, UART_SORTING_GATE_WAIT_ITEM}"
    using t(2) that unfolding sorting_ok_def cycle_ok_def by blast
  have parts: "drives_ok d" "line.driven c d" "line.directed c d"
    using t(1) by (simp_all add: line.tracks_def line.on_ports_def)
  note dir = parts(3) [unfolded line.directed_def line.directed_home_def]
  have gate: "case srt_gate_state (srt_state c) of
            UART_SORTING_GATE_HOME \<Rightarrow> gate_pointing d UART_SORTING_DESTINATION_NONE
          | UART_SORTING_GATE_RETURNING \<Rightarrow> gate_pointing d UART_SORTING_DESTINATION_NONE
          | UART_SORTING_GATE_FAULT \<Rightarrow> True
          | _ \<Rightarrow> active_cycle_id (srt_state c) \<noteq> 0 \<and> gate_pointing d (active_destination (srt_state c))"
  proof (cases "srt_gate_state (srt_state c)")
    case UART_SORTING_GATE_MOVING
    then show ?thesis using dir out by simp
  next
    case UART_SORTING_GATE_WAIT_ITEM
    then show ?thesis using dir out by simp
  qed (use dir in simp_all)
  show ?thesis
    using t(2) parts(1) parts(2) [unfolded line.driven_def] gate by (intro conjI)
qed

section \<open>Every completion is that of a routed item\<close>

definition in_hand :: "'hw sorting_control_t \<Rightarrow> item list" where
  "in_hand c = (if active_cycle_id (srt_state c) = 0 then []
                else [(active_cycle_id (srt_state c), active_destination (srt_state c))])"

lemma in_hand_same:
  "active_cycle_id (srt_state c') = active_cycle_id (srt_state c) \<Longrightarrow>
   active_destination (srt_state c') = active_destination (srt_state c) \<Longrightarrow> in_hand c' = in_hand c"
  by (simp add: in_hand_def)

lemma apply_motor_in_hand:
  "sorting_control_apply_motor c hw st = (r, c', hw') \<Longrightarrow> in_hand c' = in_hand c"
  by (cases rule: apply_motor_cases, assumption) (simp_all add: in_hand_def sorting_helpers)

lemma clear_in_hand: "in_hand (sorting_control_clear_cycle c) = []"
  by (simp add: in_hand_def sorting_helpers)

lemma gate_fault_in_hand: "in_hand (sorting_control_set_gate_fault c) = in_hand c"
  by (simp add: in_hand_def sorting_helpers)

lemma ensure_in_hand:
  assumes "sorting_ensure_motor c hw = (ok, c', hw')"
  shows "in_hand c' = in_hand c"
  by (rule in_hand_same [OF ensure_motor_ok(9,10) [OF assms]])

lemma reset_gate_in_hand:
  assumes "reset_gate c hw = (ok, c', hw')"
  shows "in_hand c' = in_hand c"
proof (cases "srt_gate_initialized c = 0")
  case True
  then have "sorting_start_gate c hw = (ok, c', hw')" using assms by (simp add: reset_gate_def)
  then show ?thesis
    by (cases rule: start_gate_cases) (simp_all add: gate_fault_in_hand, simp add: in_hand_def)
next
  case False
  with assms obtain r where "sorting_control_move_gate c hw UART_SORTING_DESTINATION_NONE
      UART_SORTING_GATE_RETURNING = (r, c', hw')"
    by (cases "sorting_control_move_gate c hw UART_SORTING_DESTINATION_NONE UART_SORTING_GATE_RETURNING")
      (auto simp: reset_gate_def Let_def)
  then show ?thesis
    by (cases rule: move_gate_cases) (simp_all add: gate_fault_in_hand, simp add: in_hand_def)
qed

lemma reset_in_hand:
  assumes "sorting_control_reset c hw = (r, c', hw')"
  shows "in_hand c' = in_hand c \<or> in_hand c' = []"
  using assms
proof (cases rule: reset_cases)
  case no_motor
  then show ?thesis using ensure_in_hand [OF no_motor(2)] by simp
next
  case (no_gate c1 hw1)
  then show ?thesis using ensure_in_hand [OF no_gate(2)] reset_gate_in_hand [OF no_gate(3)] by simp
next
  case (stopped c1 hw1 c2 hw2 r3 c3)
  have "in_hand c3 = in_hand c"
    using ensure_in_hand [OF stopped(2)] reset_gate_in_hand [OF stopped(3)] apply_motor_in_hand [OF stopped(4)]
    by simp
  then show ?thesis
    using stopped(5) by (auto simp: in_hand_def sorting_control_clear_cycle_def split: if_splits)
qed simp


lemma motor_in_hand:
  "sorting_start c hw = (r, c', hw') \<Longrightarrow> in_hand c' = in_hand c"
  "sorting_stop c hw = (r, c', hw') \<Longrightarrow> in_hand c' = in_hand c"
  "sorting_set_speed c hw s = (r, c', hw') \<Longrightarrow> in_hand c' = in_hand c"
proof -
  show "in_hand c' = in_hand c" if "sorting_start c hw = (r, c', hw')"
    using that by (auto simp: sorting_start_def split: if_splits dest: apply_motor_in_hand)
  show "in_hand c' = in_hand c" if run: "sorting_stop c hw = (r, c', hw')"
  proof -
    obtain r1 where "sorting_control_apply_motor c hw
        ((srt_state c)\<lparr>srt_conveyor := UART_SORTING_CONVEYOR_STOPPED\<rparr>) = (r1, c', hw')"
      by (rule sorting_stop_applies [OF run])
    then show ?thesis by (rule apply_motor_in_hand)
  qed
  show "in_hand c' = in_hand c" if "sorting_set_speed c hw s = (r, c', hw')"
    using that by (cases rule: sorting_set_speed_cases) (auto dest: apply_motor_in_hand)
qed

text \<open>A command that routes nothing leaves the item in hand or drops it; a route that is
  accepted takes its item with empty hands.\<close>

lemma process_in_hand:
  assumes "sorting_control_process_command (Some c) message hw = (r, Some c', hw')"
  shows "in_hand c' = in_hand c \<or> in_hand c' = [] \<or> in_hand c = [] \<and> in_hand c' = routed r message"
  using assms
proof (cases rule: process_cases)
  case (route m)
  from route(3) show ?thesis
  proof (cases rule: route_cases)
    case routed'': routed
    then show ?thesis using route by (simp add: in_hand_def routed_def sorting_readers)
  qed (simp_all add: gate_fault_in_hand)
next
  case (return_home p)
  from return_home(2) show ?thesis
    by (cases rule: return_home_cases) (simp_all add: gate_fault_in_hand, simp add: in_hand_def)
next
  case (cancel p)
  from cancel(2) show ?thesis
    by (cases rule: cancel_cases) (simp_all add: gate_fault_in_hand, simp add: in_hand_def)
next
  case reset
  then show ?thesis using reset_in_hand [OF reset] by blast
next
  case start
  then show ?thesis using motor_in_hand(1) [OF start(2)] by simp
next
  case stop
  then show ?thesis using motor_in_hand(2) [OF stop(2)] by simp
next
  case (set_speed s)
  then show ?thesis using motor_in_hand(3) [OF set_speed(2)] by simp
qed simp_all

text \<open>What the motion service reports is the item in hand, and then the hands are empty.\<close>

lemma service_in_hand:
  assumes "sorting_control_service_motion (Some c) (Some d) hw = (r, Some report, Some c', hw')"
  shows "completed report = [] \<and> (in_hand c' = in_hand c \<or> in_hand c' = []) \<or>
         completed report = in_hand c \<and> in_hand c' = []"
  using assms
proof (cases rule: service_cases)
  case failed
  then show ?thesis by (simp add: completed_def zero_cycle_complete_def gate_fault_in_hand)
next
  case arrived
  then show ?thesis by (simp add: completed_def zero_cycle_complete_def) (simp add: in_hand_def)
next
  case home
  then show ?thesis
    by (simp add: clear_in_hand) (simp add: in_hand_def completed_def zero_cycle_complete_def)
qed (simp_all add: completed_def zero_cycle_complete_def)

lemma stop_in_hand:
  assumes "ports_present c" and "sorting_control_handle_safety_stop (Some c) hw = (r, Some c', hw')"
    and "sorting_ok c"
  shows "in_hand c' = in_hand c \<or> in_hand c' = []"
proof -
  obtain r1 c1 hw1 r2 c2 hw2 where st: "safety_stop_motor c hw = (r1, c1, hw1)"
    "safety_stop_gate r1 (safety_stop_latch c1) hw1 = (r2, c2, hw2)"
    "(srt_gate_state (srt_state c2) \<noteq> UART_SORTING_GATE_RETURNING \<and>
       c' = safety_stop_fault c2 \<and> hw' = hw2 \<and> r = r2) \<or>
     (srt_gate_state (srt_state c2) = UART_SORTING_GATE_RETURNING \<and>
       (\<exists>rm report. sorting_control_service_motion (Some (safety_stop_fault c2)) (Some zero_cycle_complete) hw2 =
          (rm, Some report, Some c', hw') \<and> r = (if rm \<noteq> SORTING_CONTROL_OK then rm else r2)))"
    by (rule stop_stages [OF assms(1,2)])
  have 1: "in_hand c1 = in_hand c"
    by (rule in_hand_same) (rule stop_motor_ok(5,6) [OF st(1) assms(3)])+
  have 2: "in_hand (safety_stop_latch c1) = in_hand c1 \<or> in_hand (safety_stop_latch c1) = []"
    by (simp add: safety_stop_latch_def clear_in_hand)
  have 3: "in_hand c2 = in_hand (safety_stop_latch c1)"
    using st(2) by (cases rule: stop_gate_cases) (simp_all add: gate_fault_in_hand, simp_all add: in_hand_def)
  have 4: "in_hand (safety_stop_fault c2) = in_hand c2"
    by (simp add: in_hand_def safety_stop_fault_def)
  have "in_hand c' = in_hand c2 \<or> in_hand c' = []"
    using st(3)
  proof (elim disjE conjE exE)
    fix rm report
    assume sv: "sorting_control_service_motion (Some (safety_stop_fault c2)) (Some zero_cycle_complete) hw2 =
          (rm, Some report, Some c', hw')"
    show ?thesis using service_in_hand [OF sv] 4 by auto
  qed (use 4 in simp)
  then show ?thesis using 1 2 3 by auto
qed

lemma release_in_hand:
  assumes "ports_present c" and "sorting_control_handle_safety_release (Some c) hw = (r, Some c', hw')"
  shows "in_hand c' = in_hand c \<or> in_hand c' = []"
  using assms
proof (cases rule: release_cases)
  case no_motor
  then show ?thesis using ensure_in_hand [OF no_motor(1)] by simp
next
  case (refused c1 hw1)
  then show ?thesis
    using ensure_in_hand [OF refused(1)] in_hand_same [of "sorting_control_set_motor_fault c1" c1]
    by (simp add: sorting_control_set_motor_fault_def)
next
  case (released c1 hw1)
  then show ?thesis by (simp add: clear_in_hand)
qed simp_all

lemma hand_drop: "subseq (reports @ items) routes \<Longrightarrow> subseq reports routes"
  by (meson list_emb_prefix subseq_order.order_refl subseq_order.order_trans)

lemma run_subseq:
  "sorting_run c d routes reports \<Longrightarrow> subseq (reports @ in_hand c) routes"
proof (induction rule: sorting_run.induct)
  case (init d c0 r c d')
  then show ?case
    using line.init_tracks(3) [OF init(1), of c0 r c d']
    by (simp add: sorting_motor_tb6612_port_def sorting_gate_mg90s_port_def in_hand_def)
next
  case (command c d routes reports message r c' d')
  have "subseq (reports @ in_hand c) (routes @ [])"
    "in_hand c = [] \<Longrightarrow> subseq (reports @ routed r message) (routes @ routed r message)"
    using command.IH by simp_all
  then show ?case
    using process_in_hand [OF command.hyps(2)] command.IH hand_drop
    by (elim disjE conjE) (auto intro: subseq_rev_drop_many)
next
  case (service c d routes reports buffer r report c' d')
  then show ?case
    using service_in_hand [OF service.hyps(2)] hand_drop by auto
next
  case (safety_stop c d routes reports r c' d')
  have "ports_present c" "sorting_ok c"
    using run_tracks [OF safety_stop.hyps(1)] line.port_calls(6) [of c d] by (simp_all add: line.tracks_def)
  then show ?case
    using stop_in_hand [OF _ safety_stop.hyps(2)] safety_stop.IH hand_drop by auto
next
  case (safety_release c d routes reports r c' d')
  have "ports_present c"
    using run_tracks [OF safety_release.hyps(1)] line.port_calls(6) [of c d] by (simp add: line.tracks_def)
  then show ?case
    using release_in_hand [OF _ safety_release.hyps(2)] safety_release.IH hand_drop by auto
qed

text \<open>
  C32: Over every run of the sorting line (commands, motion service, safety stops and releases,
  hardware failures and passing time), the completions reported are a subsequence of the
  accepted ROUTE_ITEM commands, same cycle id and destination: no completion is invented,
  repeated, reordered or reported for another destination.
\<close>

theorem completions_of_routed_items:
  assumes "sorting_run c d routes reports"
  shows "subseq reports routes"
  using hand_drop [OF run_subseq [OF assms]] .


section \<open>The safety stop\<close>

text \<open>
  After a safety stop of the sorting line, whatever the hardware answered, the motor has no
  duty, the gate is not out for an item, and any following command leaves controller and
  hardware as they are.
\<close>

theorem sorting_safety_stop_holds:
  assumes "sorting_run c d routes reports"
    and "sorting_control_handle_safety_stop (Some c) d = (r, Some c', d')"
    and "sorting_control_process_command (Some c') message d' = (r2, Some c2, d2)"
  shows "sorting_duty d' = 0 \<and> c2 = c' \<and> d2 = d' \<and> srt_safety_stop_latched c' \<noteq> 0 \<and>
         srt_conveyor (srt_state c') = UART_SORTING_CONVEYOR_FAULT \<and>
         srt_gate_state (srt_state c') \<notin> {UART_SORTING_GATE_MOVING, UART_SORTING_GATE_WAIT_ITEM}"
proof -
  have ok: "line.tracks c d" "sorting_ok c" "ports_present c"
    using run_tracks [OF assms(1)] line.port_calls(6) [of c d] by (simp_all add: line.tracks_def)
  note stop = safety_stop_ok [OF ok(2,3) assms(2)]
  have "c2 = c' \<and> d2 = d'"
    using assms(3)
  proof (cases rule: process_cases)
    case reset
    then show ?thesis using stop(2) by (simp add: sorting_control_reset_def)
  qed (use stop(2) in simp_all)
  moreover have "srt_conveyor (srt_state c') = UART_SORTING_CONVEYOR_FAULT"
    using stop sorting_okD(2) [OF stop(1)] unfolding errors_ok_def by blast
  moreover have "srt_gate_state (srt_state c') \<notin> {UART_SORTING_GATE_MOVING, UART_SORTING_GATE_WAIT_ITEM}"
    using stop sorting_okD(3) [OF stop(1)] unfolding cycle_ok_def by blast
  ultimately show ?thesis
    using line.safety_stop_tracks(2) [OF ok(1,2) assms(2)] stop(2) by simp
qed

section \<open>A cycle completes\<close>

definition sorting_message :: "u8 \<Rightarrow> u8 \<Rightarrow> u8 list \<Rightarrow> control_command_t" where
  "sorting_message command n payload =
     \<lparr>msg_source = APP_UART_CHANNEL_6,
      msg_frame = zero_frame\<lparr>frame_command := command, frame_length := n, frame_payload := payload\<rparr>,
      msg_kind = APP_CONTROL_MESSAGE_UART_COMMAND, msg_safety_epoch = 0\<rparr>"

definition route_message :: "u16 \<Rightarrow> uart_sorting_destination_t \<Rightarrow> control_command_t" where
  "route_message cycle dest =
     sorting_message (sorting_cmd_code UART_CMD_SORTING_ROUTE_ITEM) 3 [lo8 cycle, hi8 cycle, destination_code dest]"

definition return_message :: "u16 \<Rightarrow> control_command_t" where
  "return_message cycle = sorting_message (sorting_cmd_code UART_CMD_SORTING_RETURN_HOME) 2 [lo8 cycle, hi8 cycle]"

lemma destination_of_code: "destination_of (destination_code dest) = dest"
  by (cases dest) (simp_all add: destination_of_def)

lemma cycle_id_valid: "cycle \<noteq> 0 \<Longrightarrow> uart_sorting_cycle_id_is_valid (to_u32 (cycle :: u16))"
proof -
  assume "cycle \<noteq> 0"
  then have "1 \<le> unat cycle" using unat_gt_0 [of cycle] by linarith
  moreover have "unat cycle \<le> 65535" using unat_u16_less [of cycle] by linarith
  ultimately show ?thesis
    by (simp add: uart_sorting_cycle_id_is_valid_def word_le_nat_alt)
qed

lemma route_message_accepted:
  assumes "cycle \<noteq> 0" "dest \<noteq> UART_SORTING_DESTINATION_NONE" "srt_safety_stop_latched c = 0"
  shows "sorting_control_process_command (Some c) (Some (route_message cycle dest)) hw =
    (case sorting_route_item c hw [lo8 cycle, hi8 cycle, destination_code dest] of (r, c, hw) \<Rightarrow> (r, Some c, hw))"
  using assms cycle_id_valid [OF assms(1)]
  by (cases dest) (simp_all add: sorting_control_process_command_def route_message_def sorting_message_def
      uart_sorting_command_is_valid_def uart_sorting_payload_is_valid_def sorting_readers Let_def
      uart_sorting_destination_is_valid_def sorting_dispatch_def to_u32_def)

lemma return_message_accepted:
  assumes "cycle \<noteq> 0" "srt_safety_stop_latched c = 0"
  shows "sorting_control_process_command (Some c) (Some (return_message cycle)) hw =
    (case sorting_return_home c hw [lo8 cycle, hi8 cycle] of (r, c, hw) \<Rightarrow> (r, Some c, hw))"
  using assms cycle_id_valid [OF assms(1)]
  by (simp add: sorting_control_process_command_def return_message_def sorting_message_def
      uart_sorting_command_is_valid_def uart_sorting_payload_is_valid_def sorting_readers Let_def
      sorting_dispatch_def to_u32_def)


lemma gate_moves:
  assumes "gate_initialized (sorting_gate_context d) \<noteq> 0"
  shows "fst (sorting_gate_mg90s_move (Some ()) d dest) = SORTING_GATE_OK"
    and "gate_initialized (sorting_gate_context (snd (sorting_gate_mg90s_move (Some ()) d dest))) \<noteq> 0"
    and "motion_started_at (sorting_gate_context (snd (sorting_gate_mg90s_move (Some ()) d dest))) = hal_tick d"
    and "hal_tick (snd (sorting_gate_mg90s_move (Some ()) d dest)) = hal_tick d"
  using assms by (cases dest; simp add: gate_defs Let_def)+

lemma gate_arrives:
  assumes "gate_initialized (sorting_gate_context d) \<noteq> 0"
    and "500 \<le> hal_tick d - motion_started_at (sorting_gate_context d)"
  shows "fst (sorting_gate_mg90s_motion_complete (Some ()) d (Some 0)) = SORTING_GATE_OK"
    "fst (snd (sorting_gate_mg90s_motion_complete (Some ()) d (Some 0))) = Some 1"
    "gate_initialized (sorting_gate_context (snd (snd (sorting_gate_mg90s_motion_complete (Some ()) d (Some 0))))) \<noteq> 0"
    "hal_tick (snd (snd (sorting_gate_mg90s_motion_complete (Some ()) d (Some 0)))) = hal_tick d"
  using assms by (simp_all add: gate_defs Let_def not_less)

text \<open>The four operations of a cycle, on a line that is home and free of errors.\<close>

definition cycle_runs ::
  "drives sorting_control_t \<Rightarrow> drives \<Rightarrow> u16 \<Rightarrow> uart_sorting_destination_t \<Rightarrow> u32 \<Rightarrow> u32 \<Rightarrow>
     drives sorting_control_t \<Rightarrow> drives \<Rightarrow> bool" where
  "cycle_runs c d cycle dest t1 t2 c4 d4 \<longleftrightarrow> (\<exists>c1 d1 c2 d2 c3 d3.
     sorting_control_process_command (Some c) (Some (route_message cycle dest)) d =
       (SORTING_CONTROL_OK, Some c1, d1) \<and> gate_pointing d1 dest \<and>
     sorting_control_service_motion (Some c1) (Some zero_cycle_complete) (d1\<lparr>hal_tick := t1\<rparr>) =
       (SORTING_CONTROL_OK, Some zero_cycle_complete, Some c2, d2) \<and>
     srt_gate_state (srt_state c2) = UART_SORTING_GATE_WAIT_ITEM \<and>
     sorting_control_process_command (Some c2) (Some (return_message cycle)) d2 =
       (SORTING_CONTROL_OK, Some c3, d3) \<and> gate_pointing d3 UART_SORTING_DESTINATION_NONE \<and>
     sorting_control_service_motion (Some c3) (Some zero_cycle_complete) (d3\<lparr>hal_tick := t2\<rparr>) =
       (SORTING_CONTROL_OK,
        Some \<lparr>cycle_valid = 1, cycle_id = cycle, cycle_destination = dest\<rparr>, Some c4, d4))"

text \<open>The four phases of a cycle, one per operation.\<close>

definition serving :: "drives sorting_control_t \<Rightarrow> drives \<Rightarrow> bool" where
  "serving c d \<longleftrightarrow> srt_gate c = sorting_gate_mg90s_port \<and> srt_gate_initialized c \<noteq> 0 \<and>
     srt_safety_stop_latched c = 0 \<and> gate_initialized (sorting_gate_context d) \<noteq> 0"

lemmas phase_simps = serving_def sorting_gate_mg90s_port_def gate_move_def gate_motion_complete_def
  sorting_control_move_gate_def sorting_readers Let_def split_def

lemma phase_route:
  assumes "serving c d" "srt_gate_state (srt_state c) = UART_SORTING_GATE_HOME"
    and "srt_last_error (srt_state c) = UART_ERROR_NONE" "active_cycle_id (srt_state c) = 0"
    and "cycle \<noteq> 0" "dest \<noteq> UART_SORTING_DESTINATION_NONE"
  obtains d' where "serving c d'" "motion_started_at (sorting_gate_context d') = hal_tick d"
    "gate_pointing d' dest"
    "sorting_control_process_command (Some c) (Some (route_message cycle dest)) d =
       (SORTING_CONTROL_OK,
        Some (c\<lparr>srt_state := (srt_state c)\<lparr>srt_gate_state := UART_SORTING_GATE_MOVING,
                 active_cycle_id := cycle, active_destination := dest\<rparr>, complete_cycle_on_home := 0\<rparr>), d')"
proof -
  have i: "gate_initialized (sorting_gate_context d) \<noteq> 0" and "srt_safety_stop_latched c = 0"
    using assms(1) by (simp_all add: serving_def)
  note m = gate_moves [OF i, of dest]
  show thesis
  proof (rule that [of "snd (sorting_gate_mg90s_move (Some ()) d dest)"])
    show "gate_pointing (snd (sorting_gate_mg90s_move (Some ()) d dest)) dest"
      by (rule mg90s_gate.move_points [OF m(1)])
  qed (use assms m in \<open>simp_all add: phase_simps route_message_accepted sorting_route_item_def destination_of_code\<close>)
qed

lemma phase_arrive:
  assumes "serving c d" "500 \<le> t - motion_started_at (sorting_gate_context d)"
    and "srt_gate_state (srt_state c) \<in> {UART_SORTING_GATE_MOVING, UART_SORTING_GATE_RETURNING}"
  obtains d' where "serving c d'" "hal_tick d' = t"
    "sorting_control_service_motion (Some c) (Some zero_cycle_complete) (d\<lparr>hal_tick := t\<rparr>) =
       (SORTING_CONTROL_OK, Some (fst (sorting_motion_done c)), Some (snd (sorting_motion_done c)), d')"
proof -
  have "gate_initialized (sorting_gate_context (d\<lparr>hal_tick := t\<rparr>)) \<noteq> 0"
    "500 \<le> hal_tick (d\<lparr>hal_tick := t\<rparr>) - motion_started_at (sorting_gate_context (d\<lparr>hal_tick := t\<rparr>))"
    using assms(1,2) by (simp_all add: serving_def)
  note m = gate_arrives [OF this]
  show thesis
    by (rule that [of "snd (snd (sorting_gate_mg90s_motion_complete (Some ()) (d\<lparr>hal_tick := t\<rparr>) (Some 0)))"])
      (use assms m in \<open>auto simp: phase_simps sorting_control_service_motion_def\<close>)
qed

lemma phase_return:
  assumes "serving c d" "srt_gate_state (srt_state c) = UART_SORTING_GATE_WAIT_ITEM"
    and "active_cycle_id (srt_state c) = cycle" "cycle \<noteq> 0"
  obtains d' where "serving c d'" "motion_started_at (sorting_gate_context d') = hal_tick d"
    "gate_pointing d' UART_SORTING_DESTINATION_NONE"
    "sorting_control_process_command (Some c) (Some (return_message cycle)) d =
       (SORTING_CONTROL_OK,
        Some (c\<lparr>srt_state := (srt_state c)\<lparr>srt_gate_state := UART_SORTING_GATE_RETURNING\<rparr>,
                 complete_cycle_on_home := 1\<rparr>), d')"
proof -
  have i: "gate_initialized (sorting_gate_context d) \<noteq> 0" and "srt_safety_stop_latched c = 0"
    using assms(1) by (simp_all add: serving_def)
  note m = gate_moves [OF i, of UART_SORTING_DESTINATION_NONE]
  show thesis
  proof (rule that [of "snd (sorting_gate_mg90s_move (Some ()) d UART_SORTING_DESTINATION_NONE)"])
    show "gate_pointing (snd (sorting_gate_mg90s_move (Some ()) d UART_SORTING_DESTINATION_NONE))
            UART_SORTING_DESTINATION_NONE"
      by (rule mg90s_gate.move_points [OF m(1)])
  qed (use assms m in \<open>simp_all add: phase_simps return_message_accepted sorting_return_home_def\<close>)
qed

lemma run_serving:
  assumes "sorting_run c d routes reports" "srt_gate_state (srt_state c) = UART_SORTING_GATE_HOME"
    and "srt_last_error (srt_state c) = UART_ERROR_NONE"
  shows "serving c d" "active_cycle_id (srt_state c) = 0"
proof -
  have ok: "line.tracks c d" "sorting_ok c" using run_tracks [OF assms(1)] by simp_all
  have "srt_safety_stop_latched c = 0"
    using sorting_okD(2) [OF ok(2)] assms(3) unfolding errors_ok_def by blast
  moreover have "srt_gate_initialized c \<noteq> 0" "active_cycle_id (srt_state c) = 0"
    using sorting_okD [OF ok(2)] assms(2) by (auto simp: core_ok_def cycle_ok_def)
  moreover have "gate_pointing d UART_SORTING_DESTINATION_NONE"
    using ok(1) assms(2) by (simp add: line.tracks_def line.directed_def line.directed_home_def)
  ultimately show "serving c d" "active_cycle_id (srt_state c) = 0"
    using ok(1)
    by (simp_all add: serving_def line.tracks_def line.on_ports_def sorting_gate_mg90s_port_def gate_pointing_def)
qed

text \<open>
  C33: From every reachable state with the gate home and no error, ROUTE_ITEM is accepted and
  points the gate at its destination, after 500 ms (modulo 2^32) the item can be waited for,
  RETURN_HOME is accepted, and 500 ms later the cycle is reported with its id and destination
  and the line is home and free again. That the gate driver is initialised in such a state is
  proved, not assumed.
\<close>

theorem sorting_cycle_completes:
  fixes t1 t2 :: u32
  assumes run: "sorting_run c d routes reports"
    and home: "srt_gate_state (srt_state c) = UART_SORTING_GATE_HOME"
      "srt_last_error (srt_state c) = UART_ERROR_NONE"
    and item: "cycle \<noteq> 0" "dest \<noteq> UART_SORTING_DESTINATION_NONE"
    and time: "500 \<le> t1 - hal_tick d" "500 \<le> t2 - t1"
  shows "\<exists>c4 d4. cycle_runs c d cycle dest t1 t2 c4 d4 \<and>
           srt_gate_state (srt_state c4) = UART_SORTING_GATE_HOME \<and> active_cycle_id (srt_state c4) = 0"
proof -
  note start = run_serving [OF run home]
  define c1 where "c1 = c\<lparr>srt_state := (srt_state c)\<lparr>srt_gate_state := UART_SORTING_GATE_MOVING,
      active_cycle_id := cycle, active_destination := dest\<rparr>, complete_cycle_on_home := 0\<rparr>"
  obtain d1 where d1: "serving c d1" "motion_started_at (sorting_gate_context d1) = hal_tick d"
      "gate_pointing d1 dest" "sorting_control_process_command (Some c) (Some (route_message cycle dest)) d =
         (SORTING_CONTROL_OK, Some c1, d1)"
    using phase_route [OF start(1) home(1,2) start(2) item] unfolding c1_def by metis
  define c2 where "c2 = c1\<lparr>srt_state := (srt_state c1)\<lparr>srt_gate_state := UART_SORTING_GATE_WAIT_ITEM\<rparr>\<rparr>"
  have done1: "sorting_motion_done c1 = (zero_cycle_complete, c2)"
    by (simp add: sorting_motion_done_def c1_def c2_def Let_def)
  have "serving c1 d1" using d1(1) by (simp add: serving_def c1_def)
  then obtain d2 where d2: "serving c1 d2" "hal_tick d2 = t1"
      "sorting_control_service_motion (Some c1) (Some zero_cycle_complete) (d1\<lparr>hal_tick := t1\<rparr>) =
         (SORTING_CONTROL_OK, Some zero_cycle_complete, Some c2, d2)"
    using phase_arrive [of c1 d1 t1] time(1) d1(2) done1 by (auto simp: c1_def)
  define c3 where "c3 = c2\<lparr>srt_state := (srt_state c2)\<lparr>srt_gate_state := UART_SORTING_GATE_RETURNING\<rparr>,
      complete_cycle_on_home := 1\<rparr>"
  have "serving c2 d2" and wait: "srt_gate_state (srt_state c2) = UART_SORTING_GATE_WAIT_ITEM"
      "active_cycle_id (srt_state c2) = cycle"
    using d2(1) by (simp_all add: serving_def c1_def c2_def)
  then obtain d3 where d3: "serving c2 d3" "motion_started_at (sorting_gate_context d3) = t1"
      "gate_pointing d3 UART_SORTING_DESTINATION_NONE"
      "sorting_control_process_command (Some c2) (Some (return_message cycle)) d2 =
         (SORTING_CONTROL_OK, Some c3, d3)"
    using phase_return [of c2 d2 cycle] item(1) d2(2) unfolding c3_def by metis
  define c4 where "c4 = sorting_control_clear_cycle
    (c3\<lparr>srt_state := (srt_state c3)\<lparr>srt_gate_state := UART_SORTING_GATE_HOME\<rparr>\<rparr>)"
  have "uart_sorting_destination_is_valid (destination_code dest)"
    using item(2) by (cases dest) (simp_all add: uart_sorting_destination_is_valid_def)
  then have done3: "sorting_motion_done c3 = (\<lparr>cycle_valid = 1, cycle_id = cycle, cycle_destination = dest\<rparr>, c4)"
    using item(1) by (simp add: sorting_motion_done_def c1_def c2_def c3_def c4_def Let_def)
  have "serving c3 d3" using d3(1) by (simp add: serving_def c3_def)
  then obtain d4 where "sorting_control_service_motion (Some c3) (Some zero_cycle_complete) (d3\<lparr>hal_tick := t2\<rparr>) =
         (SORTING_CONTROL_OK, Some \<lparr>cycle_valid = 1, cycle_id = cycle, cycle_destination = dest\<rparr>, Some c4, d4)"
    using phase_arrive [of c3 d3 t2] time(2) d3(2) done3 by (auto simp: c3_def)
  then have "cycle_runs c d cycle dest t1 t2 c4 d4"
    unfolding cycle_runs_def using d1(3,4) d2(3) wait(1) d3(3,4) by blast
  then show ?thesis
    by (auto simp: c4_def sorting_control_clear_cycle_def)
qed


section \<open>A concrete run\<close>

text \<open>The line starts up, the gate comes home, the speed is set and the conveyor started, an item is
  routed; the last two steps stop the line and try to start it again.\<close>

type_synonym line_state = "sorting_control_result_t \<times> drives sorting_control_t ptr \<times> drives"

definition at_tick :: "u32 \<Rightarrow> drives \<Rightarrow> drives" where
  "at_tick t d = d\<lparr>hal_tick := t\<rparr>"

definition demo_init :: line_state where
  "demo_init = sorting_control_init (Some zero_sorting_control) (Some sorting_motor_tb6612_port)
     (Some sorting_gate_mg90s_port) zero_drives"

definition demo_home :: "sorting_control_result_t \<times> sorting_cycle_complete_t ptr \<times> drives sorting_control_t ptr \<times> drives" where
  "demo_home = sorting_control_service_motion (fst (snd demo_init)) (Some zero_cycle_complete)
     (at_tick 600 (snd (snd demo_init)))"

definition demo_command :: "u8 \<Rightarrow> u8 \<Rightarrow> u8 list \<Rightarrow> drives sorting_control_t ptr \<times> drives \<Rightarrow> line_state" where
  "demo_command command n payload s =
     sorting_control_process_command (fst s) (Some (sorting_message command n payload)) (snd s)"

definition demo_speed :: line_state where
  "demo_speed = demo_command 0x36 1 [50] (snd (snd demo_home))"

definition demo_start :: line_state where
  "demo_start = demo_command 0x34 0 [] (snd demo_speed)"

definition demo_route :: line_state where
  "demo_route = demo_command 0x30 3 [7, 0, 2] (snd demo_start)"

definition demo_wait :: "sorting_control_result_t \<times> sorting_cycle_complete_t ptr \<times> drives sorting_control_t ptr \<times> drives" where
  "demo_wait = sorting_control_service_motion (fst (snd demo_route)) (Some zero_cycle_complete)
     (at_tick 1100 (snd (snd demo_route)))"

definition demo_return :: line_state where
  "demo_return = demo_command 0x38 2 [7, 0] (snd (snd demo_wait))"

definition demo_done :: "sorting_control_result_t \<times> sorting_cycle_complete_t ptr \<times> drives sorting_control_t ptr \<times> drives" where
  "demo_done = sorting_control_service_motion (fst (snd demo_return)) (Some zero_cycle_complete)
     (at_tick 1600 (snd (snd demo_return)))"

definition demo_stop :: line_state where
  "demo_stop = sorting_control_handle_safety_stop (fst (snd demo_route)) (snd (snd demo_route))"

definition demo_restart :: line_state where
  "demo_restart = demo_command 0x34 0 [] (snd demo_stop)"

lemma demo_runs:
  "fst (snd demo_init) \<noteq> None \<and> fst (snd demo_home) \<noteq> None \<and> fst (snd (snd demo_home)) \<noteq> None \<and>
   fst (snd demo_speed) \<noteq> None \<and> fst (snd demo_start) \<noteq> None \<and>
   fst (snd demo_route) \<noteq> None \<and> fst (snd demo_stop) \<noteq> None \<and> fst (snd demo_restart) \<noteq> None \<and>
   cycle_valid (the (fst (snd demo_home))) = 0 \<and> fst demo_route = SORTING_CONTROL_OK"
  by code_simp

lemma demo_states:
  "srt_gate_state (srt_state (the (fst (snd demo_start)))) = UART_SORTING_GATE_HOME \<and>
   srt_last_error (srt_state (the (fst (snd demo_start)))) = UART_ERROR_NONE \<and>
   hal_tick (snd (snd demo_start)) = 600 \<and>
   srt_conveyor (srt_state (the (fst (snd demo_route)))) = UART_SORTING_CONVEYOR_RUNNING \<and>
   srt_speed (srt_state (the (fst (snd demo_route)))) = 50"
  by code_simp


lemma as_triple: "fst (snd t) \<noteq> None \<Longrightarrow> t = (fst t, Some (the (fst (snd t))), snd (snd t))"
  by (cases t) auto

lemma run_command:
  assumes "sorting_run (the (fst s)) (snd s) routes reports" "fst s \<noteq> None"
    and "fst (snd (demo_command command n payload s)) \<noteq> None"
  shows "sorting_run (the (fst (snd (demo_command command n payload s)))) (snd (snd (demo_command command n payload s)))
     (routes @ routed (fst (demo_command command n payload s)) (Some (sorting_message command n payload))) reports"
proof -
  have "sorting_control_process_command (Some (the (fst s))) (Some (sorting_message command n payload)) (snd s) =
      (fst (demo_command command n payload s), Some (the (fst (snd (demo_command command n payload s)))),
       snd (snd (demo_command command n payload s)))"
    using as_triple [OF assms(3)] assms(2) by (simp add: demo_command_def)
  from sorting_run.command [OF assms(1) this] show ?thesis .
qed

lemma run_service:
  fixes c :: "drives sorting_control_t ptr" and d :: drives and tick :: u32
  defines "answer \<equiv> sorting_control_service_motion c (Some zero_cycle_complete) (at_tick tick d)"
  assumes run: "sorting_run (the c) d routes reports" and c: "c \<noteq> None"
    and answer: "fst (snd answer) \<noteq> None" "fst (snd (snd answer)) \<noteq> None"
  shows "sorting_run (the (fst (snd (snd answer)))) (snd (snd (snd answer)))
     routes (reports @ completed (the (fst (snd answer))))"
proof -
  have "drives_ok d" using run_tracks [OF run] by (simp add: line.tracks_def line.on_ports_def)
  then have ok: "drives_ok (at_tick tick d)" by (simp add: at_tick_def drives_ok_def)
  have at: "sorting_run (the c) (at_tick tick d) routes reports"
    using run ok by (rule sorting_run.elsewhere) (simp_all add: at_tick_def sorting_duty_def gate_pointing_def)
  have "sorting_control_service_motion (Some (the c)) (Some zero_cycle_complete) (at_tick tick d) =
      (fst answer, Some (the (fst (snd answer))), Some (the (fst (snd (snd answer)))), snd (snd (snd answer)))"
    using answer c by (cases answer) (auto simp: answer_def)
  with at show ?thesis by (rule sorting_run.service)
qed

lemma demo_run_start: "sorting_run (the (fst (snd demo_start))) (snd (snd demo_start)) [] []"
proof -
  have n: "fst (snd demo_init) \<noteq> None" "fst (snd demo_home) \<noteq> None" "fst (snd (snd demo_home)) \<noteq> None"
    "fst (snd demo_speed) \<noteq> None" "fst (snd demo_start) \<noteq> None" "cycle_valid (the (fst (snd demo_home))) = 0"
    using demo_runs by blast+
  have "sorting_run (the (fst (snd demo_init))) (snd (snd demo_init)) [] []"
    using as_triple [OF n(1)] unfolding demo_init_def by (rule sorting_run.init [OF zero_drives_ok])
  from run_service [OF this n(1), of 600, folded demo_home_def, OF n(2,3)]
  have "sorting_run (the (fst (snd (snd demo_home)))) (snd (snd (snd demo_home)))
      [] ([] @ completed (the (fst (snd demo_home))))" .
  then have "sorting_run (the (fst (snd (snd demo_home)))) (snd (snd (snd demo_home))) [] []"
    using n(6) by (simp add: completed_def)
  from run_command [OF this n(3), where command = "0x36" and n = "1" and payload = "[50]"] n(4)
  have "sorting_run (the (fst (snd demo_speed))) (snd (snd demo_speed)) [] []"
    by (simp add: demo_speed_def routed_def sorting_message_def)
  from run_command [OF this n(4), where command = "0x34" and n = "0" and payload = "[]"] n(5) show ?thesis
    by (simp add: demo_start_def routed_def sorting_message_def)
qed

lemma demo_run_route:
  "sorting_run (the (fst (snd demo_route))) (snd (snd demo_route)) [(7, UART_SORTING_DESTINATION_2)] []"
proof -
  have n: "fst (snd demo_start) \<noteq> None" "fst (snd demo_route) \<noteq> None" "fst demo_route = SORTING_CONTROL_OK"
    using demo_runs by blast+
  have "routed (fst demo_route) (Some (sorting_message 0x30 3 [7, 0, 2])) = [(7, UART_SORTING_DESTINATION_2)]"
    using n(3) by (simp add: routed_def sorting_message_def sorting_readers destination_of_def u16_le_def)
  then show ?thesis
    using run_command [OF demo_run_start n(1), where command = "0x30" and n = "3" and payload = "[7, 0, 2]"] n(2) by (simp add: demo_route_def)
qed

text \<open>The item of the example is waited for at tick 1100, and its cycle is over at tick 1600.\<close>

lemma demo_cycle:
  "fst (snd demo_wait) \<noteq> None \<and> fst (snd (snd demo_wait)) \<noteq> None \<and> fst (snd demo_return) \<noteq> None \<and>
   fst (snd demo_done) \<noteq> None \<and> fst (snd (snd demo_done)) \<noteq> None \<and>
   cycle_valid (the (fst (snd demo_wait))) = 0 \<and>
   the (fst (snd demo_done)) =
     \<lparr>cycle_valid = 1, cycle_id = 7, cycle_destination = UART_SORTING_DESTINATION_2\<rparr>"
  by code_simp

lemma demo_run_done:
  "sorting_run (the (fst (snd (snd demo_done)))) (snd (snd (snd demo_done)))
     [(7, UART_SORTING_DESTINATION_2)] (completed (the (fst (snd demo_done))))"
proof -
  note n = demo_cycle and routed = demo_runs
  have "sorting_run (the (fst (snd (snd demo_wait)))) (snd (snd (snd demo_wait)))
      [(7, UART_SORTING_DESTINATION_2)] ([] @ completed (the (fst (snd demo_wait))))"
    using run_service [OF demo_run_route, of 1100, folded demo_wait_def] n routed by blast
  then have waits: "sorting_run (the (fst (snd (snd demo_wait)))) (snd (snd (snd demo_wait)))
      [(7, UART_SORTING_DESTINATION_2)] []"
    using n by (simp add: completed_def)
  have "sorting_run (the (fst (snd demo_return))) (snd (snd demo_return))
      ([(7, UART_SORTING_DESTINATION_2)] @ routed (fst demo_return) (Some (sorting_message 0x38 2 [7, 0]))) []"
    using run_command [where s = "snd (snd demo_wait)" and command = "0x38" and n = "2" and payload = "[7, 0]",
        folded demo_return_def, OF waits] n by blast
  then have "sorting_run (the (fst (snd demo_return))) (snd (snd demo_return)) [(7, UART_SORTING_DESTINATION_2)] []"
    by (simp add: routed_def sorting_message_def)
  from run_service [OF this, of 1600, folded demo_done_def] n show ?thesis by simp
qed

theorem sorting_line_follows_state_witness:
  "sorting_duty (snd (snd demo_route)) = 2100"
  using sorting_line_follows_state [OF demo_run_route] demo_states by simp

theorem completions_of_routed_items_witness:
  "subseq (completed (the (fst (snd demo_done)))) [(7, UART_SORTING_DESTINATION_2)]
   \<and> completed (the (fst (snd demo_done))) = [(7, UART_SORTING_DESTINATION_2)]"
  using completions_of_routed_items [OF demo_run_done] demo_cycle by (simp add: completed_def)

theorem sorting_safety_stop_holds_witness:
  "sorting_duty (snd (snd demo_stop)) = 0 \<and>
   srt_conveyor (srt_state (the (fst (snd demo_stop)))) = UART_SORTING_CONVEYOR_FAULT"
proof -
  have n: "fst (snd demo_route) \<noteq> None" "fst (snd demo_stop) \<noteq> None" "fst (snd demo_restart) \<noteq> None"
    using demo_runs by blast+
  have "sorting_control_handle_safety_stop (Some (the (fst (snd demo_route)))) (snd (snd demo_route)) =
      (fst demo_stop, Some (the (fst (snd demo_stop))), snd (snd demo_stop))"
    using as_triple [OF n(2)] n(1) by (simp add: demo_stop_def)
  moreover have "sorting_control_process_command (Some (the (fst (snd demo_stop)))) (Some (sorting_message 0x34 0 []))
      (snd (snd demo_stop)) = (fst demo_restart, Some (the (fst (snd demo_restart))), snd (snd demo_restart))"
    using as_triple [OF n(3)] n(2) by (simp add: demo_restart_def demo_command_def)
  ultimately show ?thesis
    using sorting_safety_stop_holds [OF demo_run_route] by blast
qed

theorem sorting_cycle_completes_witness:
  "\<exists>c4 d4. cycle_runs (the (fst (snd demo_start))) (snd (snd demo_start)) 9 UART_SORTING_DESTINATION_1 1100 1600 c4 d4"
proof -
  have "srt_gate_state (srt_state (the (fst (snd demo_start)))) = UART_SORTING_GATE_HOME"
    "srt_last_error (srt_state (the (fst (snd demo_start)))) = UART_ERROR_NONE"
    "500 \<le> 1100 - hal_tick (snd (snd demo_start))"
    using demo_states by simp_all
  from sorting_cycle_completes [OF demo_run_start this(1,2), of 9 UART_SORTING_DESTINATION_1 1100 1600] this(3)
  show ?thesis by auto
qed

end
