(* ===== verification/Conveyor_Tx.thy ===== *)
theory Conveyor_Tx
  imports Uart_Codec Conveyor_Events Rtos_Queue
begin

text \<open>
  The transmit task of the conveyor controller
  (\<open>stm32/conveyor-controller/Application/Src/app_comm_tx.c\<close>). Messages of the other tasks wait
  in a normal and an urgent queue; the task encodes them into a ring of eight frames per UART,
  and the DMA completion interrupts send the ring's frames one after the other. The clocks, what
  the DMA of each UART is doing and whether it accepts the next transfer are fields of the state
  that the environment changes.
\<close>

section \<open>State\<close>

abbreviation (input) COMM_TX_CH_INPUT :: "'a::zero" where "COMM_TX_CH_INPUT \<equiv> 0"
abbreviation (input) COMM_TX_CH_SORTING :: "'a::one" where "COMM_TX_CH_SORTING \<equiv> 1"
abbreviation (input) COMM_TX_CH_COUNT :: "'a::numeral" where "COMM_TX_CH_COUNT \<equiv> 2"

abbreviation (input) COMM_TX_NORMAL_QUEUE_DEPTH :: "'a::numeral" where "COMM_TX_NORMAL_QUEUE_DEPTH \<equiv> 8"
abbreviation (input) COMM_TX_URGENT_QUEUE_DEPTH :: "'a::numeral" where "COMM_TX_URGENT_QUEUE_DEPTH \<equiv> 4"
abbreviation (input) COMM_TX_RING_DEPTH :: "'a::numeral" where "COMM_TX_RING_DEPTH \<equiv> 8"
abbreviation (input) COMM_TX_HEARTBEAT_PERIOD_MS :: "'a::numeral" where "COMM_TX_HEARTBEAT_PERIOD_MS \<equiv> 1000"
abbreviation (input) COMM_TX_TX_TIMEOUT_MS :: "'a::numeral" where "COMM_TX_TX_TIMEOUT_MS \<equiv> 50"
abbreviation (input) COMM_TX_RETRY_INTERVAL_MS :: "'a::numeral" where "COMM_TX_RETRY_INTERVAL_MS \<equiv> 20"
abbreviation (input) COMM_TX_MAX_WAIT_MS :: "'a::numeral" where "COMM_TX_MAX_WAIT_MS \<equiv> 20"
abbreviation (input) APP_HEARTBEAT_PAYLOAD_SIZE :: "'a::numeral" where "APP_HEARTBEAT_PAYLOAD_SIZE \<equiv> 9"

record comm_tx_msg_t =
  cm_channel :: u8
  cm_command :: u8
  cm_length :: u8
  cm_sequence :: u8
  cm_use_provided_sequence :: u8
  cm_payload :: "u8 list" \<comment> \<open>\<open>uint8_t payload[UART_MAX_PAYLOAD_SIZE]\<close>\<close>

text \<open>The two UART handles, and the state of one channel.\<close>

datatype huart = huart1 | huart6

record comm_tx_channel_state_t =
  ch_huart :: "huart ptr"
  ch_sequence :: u8
  retry_count :: u8
  tx_start_tick :: u32
  ch_frames :: "u8 list list" \<comment> \<open>\<open>frames[8][UART_MAX_FRAME_SIZE]\<close>\<close>
  frame_lengths :: "u16 list"
  ring_head :: u8
  ring_tail :: u8
  ring_count :: u8
  dma_busy :: u8
  restart_pending :: u8

datatype comm_tx_route_result_t = COMM_TX_ROUTE_OK | COMM_TX_ROUTE_BUSY | COMM_TX_ROUTE_DROPPED

record comm_tx_stats_t =
  st_enqueued :: u32
  st_enqueued_urgent :: u32
  dropped_queue_full :: u32
  dropped_urgent_queue_full :: u32
  dropped_invalid :: u32
  dropped_encode_error :: u32
  dropped_ring_full :: u32
  ring_full_waits :: u32
  dropped_retry_exhausted :: u32
  init_failures :: u32
  tx_error :: "u32 list"
  tx_timeout :: "u32 list"
  tx_retry :: "u32 list"
  tx_sent :: "u32 list"
  heartbeat_sent :: u32

text \<open>
  The transmitter of one UART: the bytes the DMA is reading, whether the HAL would start another
  transfer, and the transfers completed so far.
\<close>

record uart_line =
  in_flight :: "u8 list option"
  start_ok :: bool
  wire :: "u8 list list"

text \<open>
  The statics of the file, followed by the environment: \<open>tx_notified\<close> is the notification count of
  the task, \<open>hal_tick\<close> and \<open>kernel_tick\<close> the two clocks,
  \<open>stack_frame\<close> what uninitialised frames and payload arrays on the stack happen to hold.
\<close>

record comm_tx =
  comm_tx_normal_queue :: "comm_tx_msg_t os_queue ptr"
  comm_tx_urgent_queue :: "comm_tx_msg_t os_queue ptr"
  comm_tx_next_heartbeat :: u32
  comm_tx_task_handle :: "unit ptr"
  comm_tx_retry_pending :: u8
  comm_tx_channels :: "comm_tx_channel_state_t list"
  comm_tx_device_states :: "u8 list"
  comm_tx_error_codes :: "u8 list"
  comm_tx_sensor_states :: "u8 list"
  comm_tx_stats :: comm_tx_stats_t
  tx_notified :: nat
  hal_tick :: u32
  kernel_tick :: u32
  stack_frame :: uart_frame_t
  uart_lines :: "huart \<Rightarrow> uart_line"

abbreviation (input) stat where
  "stat counter tx \<equiv> comm_tx_stats_update (counter (\<lambda>n. n + 1)) tx"

abbreviation (input) stat_at where
  "stat_at counter i tx \<equiv> comm_tx_stats_update (counter (\<lambda>ns. ns[i := ns ! i + 1])) tx"

abbreviation (input) set_channel :: "nat \<Rightarrow> comm_tx_channel_state_t \<Rightarrow> comm_tx \<Rightarrow> comm_tx" where
  "set_channel i ch tx \<equiv> tx\<lparr>comm_tx_channels := (comm_tx_channels tx)[i := ch]\<rparr>"

section \<open>The HAL and the kernel, as far as the file uses them\<close>

text \<open>A transfer starts only on an idle transmitter; \<open>False\<close> is every result but \<open>HAL_OK\<close>.\<close>

definition HAL_UART_Transmit_DMA :: "huart ptr \<Rightarrow> u8 list \<Rightarrow> u16 \<Rightarrow> comm_tx \<Rightarrow> bool \<times> comm_tx" where
  "HAL_UART_Transmit_DMA h buffer n tx =
     (let line = uart_lines tx (the h)
      in if in_flight line = None \<and> start_ok line
         then (True, tx\<lparr>uart_lines := (uart_lines tx)
                 (the h := line\<lparr>in_flight := Some (take (unat n) buffer)\<rparr>)\<rparr>)
         else (False, tx))"

definition HAL_UART_AbortTransmit :: "huart ptr \<Rightarrow> comm_tx \<Rightarrow> comm_tx" where
  "HAL_UART_AbortTransmit h tx =
     tx\<lparr>uart_lines := (uart_lines tx)(the h := (uart_lines tx (the h))\<lparr>in_flight := None\<rparr>)\<rparr>"

definition xQueueSend :: "'a os_queue \<Rightarrow> 'a \<Rightarrow> bool \<times> 'a os_queue" where
  "xQueueSend q x =
     (if length (queue_items q) < queue_capacity q
      then (True, q\<lparr>queue_items := queue_items q @ [x]\<rparr>) else (False, q))"

definition xQueuePeek :: "'a os_queue \<Rightarrow> 'a option" where
  "xQueuePeek q = (case queue_items q of [] \<Rightarrow> None | x # _ \<Rightarrow> Some x)"

definition xQueueReceive :: "'a os_queue \<Rightarrow> 'a option \<times> 'a os_queue" where
  "xQueueReceive q =
     (case queue_items q of [] \<Rightarrow> (None, q) | x # xs \<Rightarrow> (Some x, q\<lparr>queue_items := xs\<rparr>))"

section \<open>Channels\<close>

fun find_channel :: "huart ptr \<Rightarrow> comm_tx_channel_state_t list \<Rightarrow> nat option" where
  "find_channel h [] = None"
| "find_channel h (ch # chs) = (if ch_huart ch = h then Some 0 else map_option Suc (find_channel h chs))"

definition comm_tx_channel_from_huart :: "huart ptr \<Rightarrow> comm_tx \<Rightarrow> nat option" where
  "comm_tx_channel_from_huart h tx = find_channel h (comm_tx_channels tx)"

definition comm_tx_start_dma :: "nat \<Rightarrow> comm_tx \<Rightarrow> u8 \<times> comm_tx" where
  "comm_tx_start_dma i tx =
     (let ch = (comm_tx_channels tx ! i)\<lparr>tx_start_tick := hal_tick tx\<rparr>;
          tx = set_channel i ch tx;
          (ok, tx) = HAL_UART_Transmit_DMA (ch_huart ch) (ch_frames ch ! unat (ring_tail ch))
                       (frame_lengths ch ! unat (ring_tail ch)) tx
      in if \<not> ok
         then (0, set_channel i (ch\<lparr>dma_busy := 0, restart_pending := 1\<rparr>) (stat_at tx_error_update i tx))
         else (1, set_channel i (ch\<lparr>restart_pending := 0\<rparr>) tx))"

definition comm_tx_frame :: "comm_tx_msg_t \<Rightarrow> comm_tx_channel_state_t \<Rightarrow> uart_frame_t \<Rightarrow> uart_frame_t" where
  "comm_tx_frame msg ch frame =
     (let frame = frame\<lparr>frame_version := UART_PROTOCOL_VERSION,
            frame_sequence := (if cm_use_provided_sequence msg \<noteq> 0 then cm_sequence msg else ch_sequence ch),
            frame_command := cm_command msg, frame_length := cm_length msg\<rparr>
      in if 0 < cm_length msg
         then frame\<lparr>frame_payload := memcpy (frame_payload frame) 0 (cm_payload msg) 0 (unat (cm_length msg))\<rparr>
         else frame)"

text \<open>Encoding into the slot at the ring's head, which only the task touches.\<close>

definition comm_tx_encode ::
  "comm_tx_msg_t \<Rightarrow> uart_frame_t \<Rightarrow> comm_tx_channel_state_t \<Rightarrow> uart_codec_result_t \<times> comm_tx_channel_state_t" where
  "comm_tx_encode msg frame ch =
     (let head = unat (ring_head ch);
          (result, out, n) = uart_encode_frame (Some (comm_tx_frame msg ch frame))
                               (Some (ch_frames ch ! head)) UART_MAX_FRAME_SIZE (Some 0);
          ch = ch\<lparr>ch_frames := (ch_frames ch)[head := the out]\<rparr>
      in if result \<noteq> UART_CODEC_OK then (result, ch)
         else
           (let ch = ch\<lparr>frame_lengths := (frame_lengths ch)[head := of_nat (the n)]\<rparr>
            in (result, if cm_use_provided_sequence msg = 0
                        then ch\<lparr>ch_sequence := ch_sequence ch + 1\<rparr> else ch)))"

text \<open>The critical section of \<open>comm_tx_route\<close>, which says whether a transfer is to be started.\<close>

definition comm_tx_claim :: "comm_tx_channel_state_t \<Rightarrow> bool \<times> comm_tx_channel_state_t" where
  "comm_tx_claim ch =
     (let ch = ch\<lparr>ring_head := (ring_head ch + 1) mod COMM_TX_RING_DEPTH, ring_count := ring_count ch + 1\<rparr>
      in if dma_busy ch = 0 then (True, ch\<lparr>dma_busy := 1\<rparr>) else (False, ch))"

text \<open>\<open>comm_tx_route\<close> up to the end of that section, and the whole function.\<close>

definition comm_tx_append :: "comm_tx_msg_t \<Rightarrow> u8 \<Rightarrow> comm_tx \<Rightarrow> comm_tx_route_result_t \<times> bool \<times> comm_tx" where
  "comm_tx_append msg urgent tx =
     (if cm_channel msg \<ge> COMM_TX_CH_COUNT
      then (COMM_TX_ROUTE_DROPPED, False, stat dropped_invalid_update tx)
      else
        (let i = unat (cm_channel msg); ch = comm_tx_channels tx ! i;
             limit = (if urgent \<noteq> 0 then COMM_TX_RING_DEPTH else COMM_TX_RING_DEPTH - 1)
         in if ring_count ch \<ge> limit then (COMM_TX_ROUTE_BUSY, False, tx)
            else
              (let (result, ch) = comm_tx_encode msg (stack_frame tx) ch
               in if result \<noteq> UART_CODEC_OK
                  then (COMM_TX_ROUTE_DROPPED, False, stat dropped_encode_error_update (set_channel i ch tx))
                  else (let (start_needed, ch) = comm_tx_claim ch
                        in (COMM_TX_ROUTE_OK, start_needed, set_channel i ch tx)))))"

definition comm_tx_route :: "comm_tx_msg_t \<Rightarrow> u8 \<Rightarrow> comm_tx \<Rightarrow> comm_tx_route_result_t \<times> comm_tx" where
  "comm_tx_route msg urgent tx =
     (let (result, start_needed, tx) = comm_tx_append msg urgent tx
      in (result, if start_needed then snd (comm_tx_start_dma (unat (cm_channel msg)) tx) else tx))"

section \<open>Heartbeats\<close>

definition comm_tx_heartbeat_message :: "nat \<Rightarrow> comm_tx \<Rightarrow> comm_tx_msg_t" where
  "comm_tx_heartbeat_message i tx =
     (let uptime = hal_tick tx div 1000
      in \<lparr>cm_channel = of_nat i, cm_command = cmd_code UART_CMD_EVENT,
          cm_length = APP_HEARTBEAT_PAYLOAD_SIZE, cm_sequence = 0, cm_use_provided_sequence = 0,
          cm_payload = (frame_payload (stack_frame tx))
            [UART_EVENT_ID_INDEX := app_event_code APP_EVENT_HEARTBEAT,
             1 := comm_tx_device_states tx ! i, 2 := comm_tx_error_codes tx ! i,
             3 := byte_of_u32 0 uptime, 4 := byte_of_u32 1 uptime, 5 := byte_of_u32 2 uptime,
             6 := byte_of_u32 3 uptime,
             7 := comm_tx_sensor_states tx ! COMM_TX_CH_INPUT,
             8 := comm_tx_sensor_states tx ! COMM_TX_CH_SORTING]\<rparr>)"

definition comm_tx_heartbeat_channel :: "nat \<Rightarrow> comm_tx \<Rightarrow> comm_tx" where
  "comm_tx_heartbeat_channel i tx =
     (let (result, tx) = comm_tx_route (comm_tx_heartbeat_message i tx) 0 tx
      in if result = COMM_TX_ROUTE_OK then stat heartbeat_sent_update tx
         else stat dropped_ring_full_update tx)"

definition comm_tx_send_heartbeat :: "comm_tx \<Rightarrow> comm_tx" where
  "comm_tx_send_heartbeat tx = fold comm_tx_heartbeat_channel [0..<COMM_TX_CH_COUNT] tx"

section \<open>Time-outs and restarts\<close>

text \<open>One turn of each loop; \<open>now\<close> was read before the loop.\<close>

definition comm_tx_check_timeout :: "u32 \<Rightarrow> nat \<Rightarrow> comm_tx \<Rightarrow> comm_tx" where
  "comm_tx_check_timeout now i tx =
     (let ch = comm_tx_channels tx ! i
      in if dma_busy ch \<noteq> 0 \<and> ring_count ch > 0 \<and> now - tx_start_tick ch > COMM_TX_TX_TIMEOUT_MS
         then set_channel i (ch\<lparr>dma_busy := 0, restart_pending := 1, tx_start_tick := now\<rparr>)
                (HAL_UART_AbortTransmit (ch_huart ch) (stat_at tx_timeout_update i tx))
         else tx)"

definition comm_tx_check_timeouts :: "comm_tx \<Rightarrow> comm_tx" where
  "comm_tx_check_timeouts tx = fold (comm_tx_check_timeout (hal_tick tx)) [0..<COMM_TX_CH_COUNT] tx"

text \<open>The critical section of a turn of \<open>comm_tx_service_restarts\<close>, and the turn.\<close>

definition comm_tx_retry :: "u32 \<Rightarrow> nat \<Rightarrow> comm_tx \<Rightarrow> bool \<times> comm_tx" where
  "comm_tx_retry now i tx =
     (let ch = comm_tx_channels tx ! i
      in if dma_busy ch = 0 \<and> ring_count ch > 0
         then
           if restart_pending ch \<noteq> 0 \<and> now - tx_start_tick ch < COMM_TX_RETRY_INTERVAL_MS
           then (False, tx)
           else
             (let (ch, tx) =
                (if restart_pending ch \<noteq> 0
                 then if retry_count ch \<ge> UART_MAX_RETRY_COUNT
                      then (ch\<lparr>ring_tail := (ring_tail ch + 1) mod COMM_TX_RING_DEPTH,
                               ring_count := ring_count ch - 1, retry_count := 0, restart_pending := 0\<rparr>,
                            stat dropped_retry_exhausted_update tx)
                      else (ch\<lparr>retry_count := retry_count ch + 1, restart_pending := 0\<rparr>,
                            stat_at tx_retry_update i tx)
                 else (ch, tx))
              in if ring_count ch > 0 then (True, set_channel i (ch\<lparr>dma_busy := 1\<rparr>) tx)
                 else (False, set_channel i ch tx))
         else (False, tx))"

definition comm_tx_service_restart :: "u32 \<Rightarrow> nat \<Rightarrow> comm_tx \<Rightarrow> comm_tx" where
  "comm_tx_service_restart now i tx =
     (let (start_needed, tx) = comm_tx_retry now i tx
      in if start_needed then snd (comm_tx_start_dma i tx) else tx)"

definition comm_tx_service_restarts :: "comm_tx \<Rightarrow> comm_tx" where
  "comm_tx_service_restarts tx = fold (comm_tx_service_restart (hal_tick tx)) [0..<COMM_TX_CH_COUNT] tx"

section \<open>Requests of the other tasks\<close>

datatype tx_queue_name = NORMAL_QUEUE | URGENT_QUEUE

definition tx_queue :: "tx_queue_name \<Rightarrow> comm_tx \<Rightarrow> comm_tx_msg_t os_queue ptr" where
  "tx_queue name tx =
     (case name of NORMAL_QUEUE \<Rightarrow> comm_tx_normal_queue tx | URGENT_QUEUE \<Rightarrow> comm_tx_urgent_queue tx)"

definition set_tx_queue :: "tx_queue_name \<Rightarrow> comm_tx_msg_t os_queue ptr \<Rightarrow> comm_tx \<Rightarrow> comm_tx" where
  "set_tx_queue name q tx =
     (case name of NORMAL_QUEUE \<Rightarrow> tx\<lparr>comm_tx_normal_queue := q\<rparr>
                 | URGENT_QUEUE \<Rightarrow> tx\<lparr>comm_tx_urgent_queue := q\<rparr>)"

definition xTaskNotifyGive :: "comm_tx \<Rightarrow> comm_tx" where
  "xTaskNotifyGive tx = tx\<lparr>tx_notified := tx_notified tx + 1\<rparr>"

definition comm_tx_enqueue ::
  "tx_queue_name \<Rightarrow> u8 \<Rightarrow> u8 \<Rightarrow> u8 \<Rightarrow> u8 \<Rightarrow> u8 list ptr \<Rightarrow> u8 \<Rightarrow> u8 \<Rightarrow> comm_tx \<Rightarrow> int \<times> comm_tx" where
  "comm_tx_enqueue queue channel sequence use_provided command payload len urgent tx =
     (case tx_queue queue tx of
        None \<Rightarrow> (-1, tx)
      | Some q \<Rightarrow>
          if channel \<ge> COMM_TX_CH_COUNT \<or> \<not> UART_IS_VALID_PAYLOAD_LENGTH len
          then (-2, stat dropped_invalid_update tx)
          else if len > 0 \<and> payload = NULL then (-2, stat dropped_invalid_update tx)
          else
            (let stack = frame_payload (stack_frame tx);
                 msg = \<lparr>cm_channel = channel, cm_command = command, cm_length = len,
                        cm_sequence = sequence, cm_use_provided_sequence = use_provided,
                        cm_payload = (if len > 0 then memcpy stack 0 (the payload) 0 (unat len) else stack)\<rparr>;
                 (sent, q) = xQueueSend q msg
             in if \<not> sent
                then (-3, if urgent \<noteq> 0 then stat dropped_urgent_queue_full_update tx
                          else stat dropped_queue_full_update tx)
                else
                  (let tx = set_tx_queue queue (Some q) tx;
                       tx = (if urgent \<noteq> 0 then stat st_enqueued_urgent_update tx
                             else stat st_enqueued_update tx)
                   in (0, if comm_tx_task_handle tx \<noteq> NULL then xTaskNotifyGive tx else tx))))"

definition CommTx_Send :: "u8 \<Rightarrow> u8 \<Rightarrow> u8 list ptr \<Rightarrow> u8 \<Rightarrow> comm_tx \<Rightarrow> int \<times> comm_tx" where
  "CommTx_Send channel command payload len tx =
     comm_tx_enqueue NORMAL_QUEUE channel 0 0 command payload len 0 tx"

definition CommTx_SendWithSequence ::
  "u8 \<Rightarrow> u8 \<Rightarrow> u8 \<Rightarrow> u8 list ptr \<Rightarrow> u8 \<Rightarrow> comm_tx \<Rightarrow> int \<times> comm_tx" where
  "CommTx_SendWithSequence channel sequence command payload len tx =
     comm_tx_enqueue NORMAL_QUEUE channel sequence 1 command payload len 0 tx"

definition CommTx_SendUrgent :: "u8 \<Rightarrow> u8 \<Rightarrow> u8 list ptr \<Rightarrow> u8 \<Rightarrow> comm_tx \<Rightarrow> int \<times> comm_tx" where
  "CommTx_SendUrgent channel command payload len tx =
     comm_tx_enqueue URGENT_QUEUE channel 0 0 command payload len 1 tx"

definition CommTx_SendUrgentWithSequence ::
  "u8 \<Rightarrow> u8 \<Rightarrow> u8 \<Rightarrow> u8 list ptr \<Rightarrow> u8 \<Rightarrow> comm_tx \<Rightarrow> int \<times> comm_tx" where
  "CommTx_SendUrgentWithSequence channel sequence command payload len tx =
     comm_tx_enqueue URGENT_QUEUE channel sequence 1 command payload len 1 tx"

definition CommTx_SetDeviceStatus :: "u8 \<Rightarrow> u8 \<Rightarrow> comm_tx \<Rightarrow> comm_tx" where
  "CommTx_SetDeviceStatus device_state error tx =
     fold (\<lambda>i tx. tx\<lparr>comm_tx_device_states := (comm_tx_device_states tx)[i := device_state],
                     comm_tx_error_codes := (comm_tx_error_codes tx)[i := error]\<rparr>)
       [0..<COMM_TX_CH_COUNT] tx"

definition CommTx_SetChannelDeviceStatus :: "u8 \<Rightarrow> u8 \<Rightarrow> u8 \<Rightarrow> comm_tx \<Rightarrow> comm_tx" where
  "CommTx_SetChannelDeviceStatus channel device_state error tx =
     (if channel < COMM_TX_CH_COUNT
      then tx\<lparr>comm_tx_device_states := (comm_tx_device_states tx)[unat channel := device_state],
              comm_tx_error_codes := (comm_tx_error_codes tx)[unat channel := error]\<rparr>
      else tx)"

definition CommTx_SetSensorState :: "u8 \<Rightarrow> u8 \<Rightarrow> comm_tx \<Rightarrow> comm_tx" where
  "CommTx_SetSensorState process sensor_state tx =
     (if process < COMM_TX_CH_COUNT
      then tx\<lparr>comm_tx_sensor_states := (comm_tx_sensor_states tx)[unat process := sensor_state]\<rparr>
      else tx)"

section \<open>The task\<close>

text \<open>\<open>memset(comm_tx_channels, 0, sizeof(comm_tx_channels))\<close>\<close>

definition zero_channel :: comm_tx_channel_state_t where
  "zero_channel = \<lparr>ch_huart = NULL, ch_sequence = 0, retry_count = 0, tx_start_tick = 0,
     ch_frames = replicate 8 (replicate 135 0), frame_lengths = replicate 8 0, ring_head = 0,
     ring_tail = 0, ring_count = 0, dma_busy = 0, restart_pending = 0\<rparr>"

definition xQueueCreate :: "bool \<Rightarrow> nat \<Rightarrow> 'a os_queue ptr" where
  "xQueueCreate memory depth =
     (if memory then Some \<lparr>queue_capacity = depth, queue_items = []\<rparr> else None)"

definition comm_tx_cleanup_queues :: "comm_tx \<Rightarrow> comm_tx" where
  "comm_tx_cleanup_queues tx = tx\<lparr>comm_tx_urgent_queue := NULL, comm_tx_normal_queue := NULL\<rparr>"

text \<open>The first two arguments say whether there is memory for the two queues.\<close>

definition CommTx_Init :: "bool \<Rightarrow> bool \<Rightarrow> comm_tx \<Rightarrow> int \<times> comm_tx" where
  "CommTx_Init memory_urgent memory_normal tx =
     (if comm_tx_urgent_queue tx \<noteq> NULL \<and> comm_tx_normal_queue tx \<noteq> NULL then (0, tx)
      else
        (let tx = tx\<lparr>comm_tx_channels := replicate COMM_TX_CH_COUNT zero_channel\<rparr>;
             tx = set_channel COMM_TX_CH_INPUT (zero_channel\<lparr>ch_huart := Some huart1\<rparr>) tx;
             tx = set_channel COMM_TX_CH_SORTING (zero_channel\<lparr>ch_huart := Some huart6\<rparr>) tx;
             tx = tx\<lparr>comm_tx_urgent_queue := xQueueCreate memory_urgent COMM_TX_URGENT_QUEUE_DEPTH,
                     comm_tx_normal_queue := xQueueCreate memory_normal COMM_TX_NORMAL_QUEUE_DEPTH\<rparr>
         in if comm_tx_urgent_queue tx = NULL \<or> comm_tx_normal_queue tx = NULL
            then (-1, comm_tx_cleanup_queues (stat init_failures_update tx))
            else (0, tx\<lparr>comm_tx_task_handle := Some (), comm_tx_retry_pending := 0,
                        comm_tx_next_heartbeat := kernel_tick tx + COMM_TX_HEARTBEAT_PERIOD_MS\<rparr>)))"

definition peek_queue :: "tx_queue_name \<Rightarrow> comm_tx \<Rightarrow> comm_tx_msg_t option" where
  "peek_queue name tx = (case tx_queue name tx of None \<Rightarrow> None | Some q \<Rightarrow> xQueuePeek q)"

definition receive_queue :: "tx_queue_name \<Rightarrow> comm_tx \<Rightarrow> comm_tx" where
  "receive_queue name tx =
     (case tx_queue name tx of None \<Rightarrow> tx | Some q \<Rightarrow> set_tx_queue name (Some (snd (xQueueReceive q))) tx)"

definition waiting :: "tx_queue_name \<Rightarrow> comm_tx \<Rightarrow> comm_tx_msg_t list" where
  "waiting name tx = (case tx_queue name tx of None \<Rightarrow> [] | Some q \<Rightarrow> queue_items q)"

lemma transmit_frame [simp]:
  "comm_tx_normal_queue (snd (HAL_UART_Transmit_DMA h b n tx)) = comm_tx_normal_queue tx"
  "comm_tx_urgent_queue (snd (HAL_UART_Transmit_DMA h b n tx)) = comm_tx_urgent_queue tx"
  by (simp_all add: HAL_UART_Transmit_DMA_def Let_def)

lemma start_frame [simp]:
  "comm_tx_normal_queue (snd (comm_tx_start_dma i tx)) = comm_tx_normal_queue tx"
  "comm_tx_urgent_queue (snd (comm_tx_start_dma i tx)) = comm_tx_urgent_queue tx"
  by (simp_all add: comm_tx_start_dma_def Let_def split_def)

lemma append_frame [simp]:
  "comm_tx_normal_queue (snd (snd (comm_tx_append m u tx))) = comm_tx_normal_queue tx"
  "comm_tx_urgent_queue (snd (snd (comm_tx_append m u tx))) = comm_tx_urgent_queue tx"
  by (simp_all add: comm_tx_append_def Let_def split_def)

lemma route_frame [simp]:
  "comm_tx_normal_queue (snd (comm_tx_route m u tx)) = comm_tx_normal_queue tx"
  "comm_tx_urgent_queue (snd (comm_tx_route m u tx)) = comm_tx_urgent_queue tx"
  by (simp_all add: comm_tx_route_def Let_def split_def)

lemma waiting_route [simp]: "waiting name (snd (comm_tx_route m u tx)) = waiting name tx"
  by (cases name) (simp_all add: waiting_def tx_queue_def)

lemma waiting_receive:
  "waiting name (receive_queue name' tx) = (if name = name' then tl (waiting name tx) else waiting name tx)"
  by (cases name; cases name') (auto simp: waiting_def receive_queue_def tx_queue_def set_tx_queue_def
      xQueueReceive_def split: option.splits list.splits)

lemma peek_waiting: "peek_queue name tx = (case waiting name tx of [] \<Rightarrow> None | m # _ \<Rightarrow> Some m)"
  by (simp add: peek_queue_def waiting_def xQueuePeek_def split: option.split)

function comm_tx_drain_queues :: "comm_tx \<Rightarrow> u8 \<times> comm_tx" where
  "comm_tx_drain_queues tx =
     (case peek_queue URGENT_QUEUE tx of
        Some msg \<Rightarrow>
          (let (result, tx) = comm_tx_route msg 1 tx
           in if result = COMM_TX_ROUTE_BUSY then (1, stat ring_full_waits_update tx)
              else comm_tx_drain_queues (receive_queue URGENT_QUEUE tx))
      | None \<Rightarrow>
          (case peek_queue NORMAL_QUEUE tx of
             Some msg \<Rightarrow>
               (let (result, tx) = comm_tx_route msg 0 tx
                in if result = COMM_TX_ROUTE_BUSY then (1, stat ring_full_waits_update tx)
                   else comm_tx_drain_queues (receive_queue NORMAL_QUEUE tx))
           | None \<Rightarrow> (0, tx)))"
  by pat_completeness auto
termination
proof (relation "measure (\<lambda>tx. length (waiting URGENT_QUEUE tx) + length (waiting NORMAL_QUEUE tx))",
    goal_cases)
  case (3 tx msg route result tx')
  then have "tx' = snd (comm_tx_route msg 1 tx)" "waiting URGENT_QUEUE tx \<noteq> []"
    by (auto simp: peek_waiting prod_eq_iff split: list.splits)
  then show ?case by (simp add: waiting_receive)
next
  case (2 tx msg route result tx')
  then have "tx' = snd (comm_tx_route msg 0 tx)" "waiting NORMAL_QUEUE tx \<noteq> []"
    by (auto simp: peek_waiting prod_eq_iff split: list.splits)
  then show ?case by (simp add: waiting_receive)
qed simp

text \<open>
  One call of \<open>CommTx_ProcessOnce\<close>. \<open>sleep n tx\<close> is the state after the task has slept for up to
  \<open>n\<close> ms: the other tasks, the interrupts and the clocks have moved on.
\<close>

definition comm_tx_wait :: "comm_tx \<Rightarrow> u32" where
  "comm_tx_wait tx =
     (let remaining = sint (comm_tx_next_heartbeat tx - kernel_tick tx);
          wait = (if remaining \<le> 0 then 0
                  else if word_of_int remaining < (COMM_TX_MAX_WAIT_MS :: u32) then word_of_int remaining
                  else COMM_TX_MAX_WAIT_MS)
      in if comm_tx_retry_pending tx \<noteq> 0 then 0 else wait)"

definition ulTaskNotifyTake :: "(u32 \<Rightarrow> comm_tx \<Rightarrow> comm_tx) \<Rightarrow> u32 \<Rightarrow> comm_tx \<Rightarrow> comm_tx" where
  "ulTaskNotifyTake sleep wait tx =
     (let tx = (if tx_notified tx = 0 \<and> wait \<noteq> 0 then sleep wait tx else tx) in tx\<lparr>tx_notified := 0\<rparr>)"

definition comm_tx_service :: "comm_tx \<Rightarrow> u8 \<times> comm_tx" where
  "comm_tx_service tx =
     (let tx = comm_tx_check_timeouts tx;
          tx = comm_tx_service_restarts tx;
          (ring_blocked, tx) = comm_tx_drain_queues tx;
          tx = tx\<lparr>comm_tx_retry_pending := ring_blocked\<rparr>;
          now = kernel_tick tx
      in (ring_blocked,
          if sint (now - comm_tx_next_heartbeat tx) \<ge> 0
          then (comm_tx_send_heartbeat tx)\<lparr>comm_tx_next_heartbeat := now + COMM_TX_HEARTBEAT_PERIOD_MS\<rparr>
          else tx))"

definition CommTx_ProcessOnce :: "(u32 \<Rightarrow> comm_tx \<Rightarrow> comm_tx) \<Rightarrow> comm_tx \<Rightarrow> comm_tx" where
  "CommTx_ProcessOnce sleep tx =
     (if comm_tx_task_handle tx = NULL then sleep COMM_TX_RETRY_INTERVAL_MS tx
      else
        (let tx = ulTaskNotifyTake sleep (comm_tx_wait tx) tx;
             (ring_blocked, tx) = comm_tx_service tx
         in if ring_blocked \<noteq> 0 then sleep 1 tx else tx))"

section \<open>Interrupts\<close>

definition HAL_UART_TxCpltCallback :: "huart ptr \<Rightarrow> comm_tx \<Rightarrow> comm_tx" where
  "HAL_UART_TxCpltCallback h tx =
     (case comm_tx_channel_from_huart h tx of
        None \<Rightarrow> tx
      | Some i \<Rightarrow>
          (let ch = comm_tx_channels tx ! i
           in if dma_busy ch = 0 \<or> ring_count ch = 0 then tx
              else
                (let ch = ch\<lparr>ring_tail := (ring_tail ch + 1) mod COMM_TX_RING_DEPTH,
                             ring_count := ring_count ch - 1, retry_count := 0, restart_pending := 0\<rparr>;
                     tx = stat_at tx_sent_update i (set_channel i ch tx)
                 in if ring_count ch > 0 then snd (comm_tx_start_dma i tx)
                    else set_channel i (ch\<lparr>dma_busy := 0\<rparr>) tx)))"

text \<open>\<open>error_code\<close> and \<open>hdmatx_error\<close> are the fields \<open>ErrorCode\<close> of the handle and of its \<open>hdmatx\<close>.\<close>

abbreviation (input) HAL_UART_ERROR_DMA :: u32 where "HAL_UART_ERROR_DMA \<equiv> 0x10"
abbreviation (input) HAL_DMA_ERROR_NONE :: u32 where "HAL_DMA_ERROR_NONE \<equiv> 0"

definition CommTx_HandleUartError :: "huart ptr \<Rightarrow> u32 \<Rightarrow> u32 ptr \<Rightarrow> comm_tx \<Rightarrow> comm_tx" where
  "CommTx_HandleUartError h error hdmatx_error tx =
     (case comm_tx_channel_from_huart h tx of
        None \<Rightarrow> tx
      | Some i \<Rightarrow>
          if error AND HAL_UART_ERROR_DMA = 0 \<or> hdmatx_error = NULL
             \<or> the hdmatx_error = HAL_DMA_ERROR_NONE then tx
          else
            (let tx = stat_at tx_error_update i tx; ch = comm_tx_channels tx ! i
             in if dma_busy ch \<noteq> 0 \<and> ring_count ch > 0
                then set_channel i (ch\<lparr>dma_busy := 0, restart_pending := 1, tx_start_tick := hal_tick tx\<rparr>) tx
                else tx))"

end
