(* ===== verification/Conveyor_Tx_Ring.thy ===== *)
theory Conveyor_Tx_Ring
  imports Conveyor_Tx
begin

text \<open>
  Correctness of the conveyor's transmit ring: every interleaving of the task's critical sections,
  the interrupts and the other tasks keeps the frames of a channel in order, loses and repeats none
  of them, and never overwrites the frame that the DMA is reading.
\<close>

section \<open>The ring as a list of frames\<close>

definition slot :: "comm_tx_channel_state_t \<Rightarrow> nat \<Rightarrow> u8 list" where
  "slot ch j = take (unat (frame_lengths ch ! j)) (ch_frames ch ! j)"

definition ring :: "comm_tx_channel_state_t \<Rightarrow> u8 list list" where
  "ring ch = map (\<lambda>k. slot ch ((unat (ring_tail ch) + k) mod 8)) [0..<unat (ring_count ch)]"

definition channel_ok :: "comm_tx_channel_state_t \<Rightarrow> bool" where
  "channel_ok ch \<longleftrightarrow>
     length (ch_frames ch) = 8 \<and> (\<forall>f\<in>set (ch_frames ch). length f = 135) \<and>
     length (frame_lengths ch) = 8 \<and>
     unat (ring_tail ch) < 8 \<and> unat (ring_count ch) \<le> 8 \<and>
     unat (ring_head ch) = (unat (ring_tail ch) + unat (ring_count ch)) mod 8"

lemma next_slot: "unat w < 8 \<Longrightarrow> unat ((w + 1) mod (8 :: u8)) = (unat w + 1) mod 8"
  by (simp add: unat_mod unat_word_ariths)

lemma length_ring [simp]: "length (ring ch) = unat (ring_count ch)"
  by (simp add: ring_def)

lemma ring_empty: "ring ch = [] \<longleftrightarrow> ring_count ch = 0"
  by (simp add: ring_def unat_eq_0)

lemma ring_cons:
  assumes "ring_count ch \<noteq> 0"
  shows "ring ch = slot ch (unat (ring_tail ch) mod 8) #
    map (\<lambda>k. slot ch ((unat (ring_tail ch) + 1 + k) mod 8)) [0..<unat (ring_count ch) - 1]"
proof -
  obtain n where n: "unat (ring_count ch) = Suc n"
    using assms by (metis not0_implies_Suc unat_eq_0)
  have "[0..<Suc n] = 0 # map Suc [0..<n]"
    by (simp add: map_Suc_upt upt_conv_Cons del: upt_Suc)
  then show ?thesis
    by (simp add: ring_def n del: upt_Suc)
qed

lemma hd_ring: "channel_ok ch \<Longrightarrow> ring_count ch \<noteq> 0 \<Longrightarrow> hd (ring ch) = slot ch (unat (ring_tail ch))"
  by (simp add: ring_cons channel_ok_def)

lemma unat_pred: "(w :: u8) \<noteq> 0 \<Longrightarrow> unat (w - 1) = unat w - 1"
  by (metis unat_minus_one)

definition popped :: "comm_tx_channel_state_t \<Rightarrow> comm_tx_channel_state_t" where
  "popped ch = ch\<lparr>ring_tail := (ring_tail ch + 1) mod 8, ring_count := ring_count ch - 1\<rparr>"

lemma ring_popped:
  assumes "channel_ok ch" "ring_count ch \<noteq> 0"
  shows "channel_ok (popped ch)" "ring (popped ch) = tl (ring ch)"
proof -
  have t: "unat (ring_tail (popped ch)) = (unat (ring_tail ch) + 1) mod 8"
    "unat (ring_count (popped ch)) = unat (ring_count ch) - 1" "unat (ring_count ch) \<noteq> 0"
    using assms by (simp_all add: popped_def channel_ok_def next_slot unat_pred unat_eq_0)
  have s: "slot (popped ch) = slot ch"
    by (simp add: fun_eq_iff slot_def popped_def)
  have "unat (ring_tail ch) + 1 + (unat (ring_count ch) - 1) = unat (ring_tail ch) + unat (ring_count ch)"
    using t(3) by simp
  then have "((unat (ring_tail ch) + 1) mod 8 + (unat (ring_count ch) - 1)) mod 8 =
      (unat (ring_tail ch) + unat (ring_count ch)) mod 8"
    by (metis mod_add_left_eq)
  then show "channel_ok (popped ch)"
    using assms(1) unfolding channel_ok_def t(1,2) by (auto simp: popped_def)
  show "ring (popped ch) = tl (ring ch)"
    unfolding ring_cons [OF assms(2)] by (simp add: ring_def t s mod_simps)
qed

definition pushed :: "u8 list \<Rightarrow> comm_tx_channel_state_t \<Rightarrow> comm_tx_channel_state_t" where
  "pushed img ch = (let head = unat (ring_head ch) in
     ch\<lparr>ch_frames := (ch_frames ch)[head := img @ drop (length img) (ch_frames ch ! head)],
        frame_lengths := (frame_lengths ch)[head := of_nat (length img)],
        ring_head := (ring_head ch + 1) mod 8, ring_count := ring_count ch + 1\<rparr>)"

lemma ring_pushed:
  assumes "channel_ok ch" "unat (ring_count ch) < 8" "length img \<le> 135"
  shows "channel_ok (pushed img ch)" "ring (pushed img ch) = ring ch @ [img]"
    "\<forall>k<unat (ring_count ch). slot (pushed img ch) ((unat (ring_tail ch) + k) mod 8) =
       slot ch ((unat (ring_tail ch) + k) mod 8)"
proof -
  let ?h = "unat (ring_head ch)" and ?t = "unat (ring_tail ch)" and ?n = "unat (ring_count ch)"
  have h: "?h = (?t + ?n) mod 8" "?h < 8" "length (ch_frames ch) = 8" "length (frame_lengths ch) = 8"
    using assms(1) by (simp_all add: channel_ok_def)
  have c: "unat (ring_count (pushed img ch)) = ?n + 1"
    using assms(2) by (simp add: pushed_def Let_def unat_word_ariths)
  have n: "unat (ring_head (pushed img ch)) = (?h + 1) mod 8"
    using next_slot [OF h(2)] by (simp add: pushed_def Let_def)
  have len: "length (ch_frames ch ! ?h) = 135"
    using assms(1) h by (simp add: channel_ok_def)
  have "unat (of_nat (length img) :: u16) = length img"
    using assms(3) by (simp add: unat_of_nat)
  then have new: "slot (pushed img ch) ?h = img"
    using h len assms(3) by (simp add: slot_def pushed_def Let_def)
  have other: "slot (pushed img ch) j = slot ch j" if "j \<noteq> ?h" for j
    using that by (simp add: slot_def pushed_def Let_def)
  have apart: "(?t + k) mod 8 \<noteq> ?h" if "k < ?n" for k
  proof
    assume "(?t + k) mod 8 = ?h"
    then have "(?t + k) mod 8 = (?t + ?n) mod 8" by (simp add: h(1))
    then have "(?n - k) mod 8 = 0" using that by (metis add_diff_cancel_left less_imp_le mod_eq_dvd_iff_nat dvd_imp_mod_0 nat_add_left_cancel_le)
    moreover have "0 < ?n - k" "?n - k < 8" using that assms(2) by auto
    ultimately show False by simp
  qed
  show "\<forall>k<?n. slot (pushed img ch) ((?t + k) mod 8) = slot ch ((?t + k) mod 8)"
    using other apart by blast
  then show "ring (pushed img ch) = ring ch @ [img]"
    using new h(1) by (simp add: ring_def c) (simp add: pushed_def Let_def)
  have f135: "length f = 135" if "f \<in> set (ch_frames (pushed img ch))" for f
  proof -
    have "f \<in> insert (img @ drop (length img) (ch_frames ch ! ?h)) (set (ch_frames ch))"
      using that set_update_subset_insert [THEN subsetD] by (simp add: pushed_def Let_def)
    then show ?thesis
      using assms(1,3) len by (auto simp: channel_ok_def)
  qed
  have wrap: "((?t + ?n) mod 8 + 1) mod 8 = (?t + (?n + 1)) mod 8"
    by (metis mod_add_left_eq add.assoc)
  have keep: "ring_tail (pushed img ch) = ring_tail ch" "length (ch_frames (pushed img ch)) = 8"
    "length (frame_lengths (pushed img ch)) = 8" "?t < 8"
    using h assms(1) by (simp_all add: pushed_def Let_def channel_ok_def)
  show "channel_ok (pushed img ch)"
    unfolding channel_ok_def c n h(1) keep(1) wrap
    using f135 keep(2-4) assms(2) by (intro conjI ballI) (blast | linarith | simp only:)+
qed

lemma ring_other [simp]:
  "ring (ch\<lparr>ch_sequence := s\<rparr>) = ring ch" "ring (ch\<lparr>dma_busy := b\<rparr>) = ring ch"
  "ring (ch\<lparr>restart_pending := b\<rparr>) = ring ch" "ring (ch\<lparr>retry_count := r\<rparr>) = ring ch"
  "ring (ch\<lparr>tx_start_tick := t\<rparr>) = ring ch"
  by (simp_all add: ring_def slot_def fun_eq_iff)

lemma channel_ok_other [simp]:
  "channel_ok (ch\<lparr>ch_sequence := s\<rparr>) \<longleftrightarrow> channel_ok ch" "channel_ok (ch\<lparr>dma_busy := b\<rparr>) \<longleftrightarrow> channel_ok ch"
  "channel_ok (ch\<lparr>restart_pending := b\<rparr>) \<longleftrightarrow> channel_ok ch" "channel_ok (ch\<lparr>retry_count := r\<rparr>) \<longleftrightarrow> channel_ok ch"
  "channel_ok (ch\<lparr>tx_start_tick := t\<rparr>) \<longleftrightarrow> channel_ok ch"
  by (simp_all add: channel_ok_def)

lemma claim_pushed:
  "ch\<lparr>ch_frames := fs, frame_lengths := ls, ch_sequence := s, ring_head := h, ring_count := n\<rparr> =
     ch\<lparr>ch_frames := fs, frame_lengths := ls, ring_head := h, ring_count := n, ch_sequence := s\<rparr>"
  by (cases ch) simp

lemma not_pending:
  "restart_pending ch = 0 \<Longrightarrow> ch\<lparr>restart_pending := 0\<rparr> = ch"
  by (cases ch) simp

section \<open>What each operation does to a channel\<close>

definition frame_image :: "comm_tx_msg_t \<Rightarrow> comm_tx \<Rightarrow> u8 list" where
  "frame_image msg tx =
     frame_bytes (comm_tx_frame msg (comm_tx_channels tx ! unat (cm_channel msg)) (stack_frame tx))"

lemma comm_tx_frame_array:
  "frame_array_ok stack \<Longrightarrow> length (cm_payload msg) = 128 \<Longrightarrow> cm_length msg \<le> 128 \<Longrightarrow>
     frame_array_ok (comm_tx_frame msg ch stack)"
  by (simp add: comm_tx_frame_def Let_def frame_array_ok_def word_le_nat_alt)

lemma encode_refused_length:
  assumes "\<not> cm_length msg \<le> 128"
  shows "uart_encode_frame (Some (comm_tx_frame msg ch stack)) (Some out) n (Some 0) =
    (UART_CODEC_INVALID_LENGTH, Some out, Some 0)"
  using assms
  by (simp add: uart_encode_frame_def comm_tx_frame_def Let_def payload_length_valid_iff word_le_nat_alt)

lemma encode_cases:
  assumes "channel_ok ch" "frame_array_ok stack" "length (cm_payload msg) = 128"
  obtains (ok) s where "frame_valid (comm_tx_frame msg ch stack)"
      "comm_tx_encode msg stack ch = (UART_CODEC_OK,
         ch\<lparr>ch_frames := (ch_frames ch)[unat (ring_head ch) := frame_bytes (comm_tx_frame msg ch stack) @
                drop (length (frame_bytes (comm_tx_frame msg ch stack))) (ch_frames ch ! unat (ring_head ch))],
            frame_lengths := (frame_lengths ch)
              [unat (ring_head ch) := of_nat (length (frame_bytes (comm_tx_frame msg ch stack)))],
            ch_sequence := s\<rparr>)"
      "s = (if cm_use_provided_sequence msg = 0 then ch_sequence ch + 1 else ch_sequence ch)"
  | (refused) r where "r \<noteq> UART_CODEC_OK" "comm_tx_encode msg stack ch = (r, ch)"
proof -
  let ?f = "comm_tx_frame msg ch stack" and ?h = "unat (ring_head ch)"
  have "?h < 8" "length (ch_frames ch) = 8"
    using assms(1) by (simp_all add: channel_ok_def)
  then have len: "length (ch_frames ch ! ?h) = 135" and same: "(ch_frames ch)[?h := ch_frames ch ! ?h] = ch_frames ch"
    using assms(1) by (simp_all add: channel_ok_def)
  show thesis
  proof (cases "cm_length msg \<le> 128")
    case True
    show thesis
      using comm_tx_frame_array [OF assms(2,3) True, of ch] len
    proof (cases rule: encode_frame_cases [where len = 0])
      case ok
      then show thesis
        using that(1) by (simp add: comm_tx_encode_def Let_def)
    next
      case (refused r)
      then show thesis
        using that(2) [of r] by (simp add: comm_tx_encode_def Let_def same)
    qed
  next
    case False
    then show thesis
      using that(2) [of UART_CODEC_INVALID_LENGTH]
      by (simp add: comm_tx_encode_def Let_def same encode_refused_length)
  qed
qed

lemma append_cases:
  assumes "length (comm_tx_channels tx) = 2" "\<forall>i<2. channel_ok (comm_tx_channels tx ! i)"
    and "frame_array_ok (stack_frame tx)" "length (cm_payload msg) = 128"
    and "comm_tx_append msg urgent tx = (result, needed, tx')"
  obtains (appended) i s where "i = unat (cm_channel msg)" "i < 2" "result = COMM_TX_ROUTE_OK"
      "unat (ring_count (comm_tx_channels tx ! i)) < (if urgent \<noteq> 0 then 8 else 7)"
      "length (frame_image msg tx) \<le> 135" "\<exists>f. frame_valid f \<and> frame_image msg tx = frame_bytes f"
      "needed \<longleftrightarrow> dma_busy (comm_tx_channels tx ! i) = 0"
      "tx' = set_channel i
         (if needed then (pushed (frame_image msg tx) (comm_tx_channels tx ! i))\<lparr>ch_sequence := s, dma_busy := 1\<rparr>
          else (pushed (frame_image msg tx) (comm_tx_channels tx ! i))\<lparr>ch_sequence := s\<rparr>) tx"
  | (kept) "result \<noteq> COMM_TX_ROUTE_OK" "\<not> needed" "comm_tx_channels tx' = comm_tx_channels tx"
      "uart_lines tx' = uart_lines tx" "stack_frame tx' = stack_frame tx"
proof (cases "cm_channel msg < 2")
  case False
  then show thesis
    using assms(5) that(2) by (auto simp: comm_tx_append_def not_less)
next
  case True
  let ?i = "unat (cm_channel msg)" let ?ch = "comm_tx_channels tx ! ?i"
  let ?limit = "(if urgent \<noteq> 0 then 8 else 7) :: u8"
  have i: "?i < 2" using True by (simp add: word_less_nat_alt)
  then have ok: "channel_ok ?ch" using assms(2) by simp
  show thesis
  proof (cases "ring_count ?ch \<ge> ?limit")
    case full: True
    then show thesis
      using assms(5) that(2) True by (auto simp: comm_tx_append_def Let_def not_le split: if_splits)
  next
    case room: False
    show thesis
      using ok assms(3,4)
    proof (cases rule: encode_cases)
      case (ok s)
      have len: "length (frame_image msg tx) \<le> 135"
        using frame_valid_length [OF ok(1)] length_frame_bytes ok(1) by (simp add: frame_image_def)
      have count: "unat (ring_count ?ch) < (if urgent \<noteq> 0 then 8 else 7)"
        using room by (simp add: word_less_nat_alt not_le split: if_splits)
      have eq: "(result, needed, tx') = (COMM_TX_ROUTE_OK, dma_busy ?ch = 0,
          set_channel ?i (if dma_busy ?ch = 0 then (pushed (frame_image msg tx) ?ch)\<lparr>ch_sequence := s, dma_busy := 1\<rparr>
            else (pushed (frame_image msg tx) ?ch)\<lparr>ch_sequence := s\<rparr>) tx)"
        using True room ok(2)
        by (cases "urgent = 0"; simp add: claim_pushed assms(5) [symmetric] comm_tx_append_def comm_tx_claim_def pushed_def
            frame_image_def Let_def not_le)
      show thesis
        by (rule that(1) [of ?i s]) (use i len count ok(1) eq in \<open>auto simp: frame_image_def\<close>)
    next
      case (refused r)
      have "(result, needed, tx') = (COMM_TX_ROUTE_DROPPED, False,
          stat dropped_encode_error_update (set_channel ?i ?ch tx))"
        using True room refused
        by (cases "urgent = 0"; simp add: assms(5) [symmetric] comm_tx_append_def Let_def not_le)
      then show thesis using that(2) by simp
    qed
  qed
qed

lemma start_cases:
  assumes "i < length (comm_tx_channels tx)" "channel_ok (comm_tx_channels tx ! i)"
    and "ring_count (comm_tx_channels tx ! i) \<noteq> 0" "ch_huart (comm_tx_channels tx ! i) = Some h"
    and "in_flight (uart_lines tx h) = None"
  obtains (started) st where "snd (comm_tx_start_dma i tx) = tx\<lparr>comm_tx_stats := st,
       uart_lines := (uart_lines tx)(h := (uart_lines tx h)\<lparr>in_flight := Some (hd (ring (comm_tx_channels tx ! i)))\<rparr>),
       comm_tx_channels := (comm_tx_channels tx)
         [i := (comm_tx_channels tx ! i)\<lparr>tx_start_tick := hal_tick tx, restart_pending := 0\<rparr>]\<rparr>"
      "start_ok (uart_lines tx h)"
  | (refused) st where "snd (comm_tx_start_dma i tx) = tx\<lparr>comm_tx_stats := st, comm_tx_channels := (comm_tx_channels tx)
         [i := (comm_tx_channels tx ! i)\<lparr>tx_start_tick := hal_tick tx, dma_busy := 0, restart_pending := 1\<rparr>]\<rparr>"
      "\<not> start_ok (uart_lines tx h)"
proof (cases "start_ok (uart_lines tx h)")
  case True
  show thesis
    by (rule that(1) [of "comm_tx_stats tx"])
      (use assms True hd_ring [OF assms(2,3)] in
        \<open>simp_all add: comm_tx_start_dma_def HAL_UART_Transmit_DMA_def slot_def Let_def\<close>)
next
  case False
  show thesis
    by (rule that(2) [of "comm_tx_stats (stat_at tx_error_update i tx)"])
      (use assms False in \<open>simp_all add: comm_tx_start_dma_def HAL_UART_Transmit_DMA_def Let_def\<close>)
qed

lemma timeout_cases:
  assumes "ch_huart (comm_tx_channels tx ! i) = Some h"
  obtains (aborted) st where "dma_busy (comm_tx_channels tx ! i) \<noteq> 0" "ring_count (comm_tx_channels tx ! i) \<noteq> 0"
      "50 < now - tx_start_tick (comm_tx_channels tx ! i)"
      "comm_tx_check_timeout now i tx = tx\<lparr>comm_tx_stats := st,
         uart_lines := (uart_lines tx)(h := (uart_lines tx h)\<lparr>in_flight := None\<rparr>),
         comm_tx_channels := (comm_tx_channels tx)[i := (comm_tx_channels tx ! i)
           \<lparr>dma_busy := 0, restart_pending := 1, tx_start_tick := now\<rparr>]\<rparr>"
  | (kept) "comm_tx_check_timeout now i tx = tx"
proof (cases "dma_busy (comm_tx_channels tx ! i) \<noteq> 0 \<and> ring_count (comm_tx_channels tx ! i) > 0 \<and>
    50 < now - tx_start_tick (comm_tx_channels tx ! i)")
  case True
  show thesis
    by (rule that(1) [of "comm_tx_stats (stat_at tx_timeout_update i tx)"])
      (use True assms in \<open>auto simp: comm_tx_check_timeout_def HAL_UART_AbortTransmit_def Let_def word_gt_0\<close>)
next
  case False
  then show thesis
    using that(2) by (auto simp: comm_tx_check_timeout_def Let_def)
qed

lemma retry_cases:
  assumes "comm_tx_retry now i tx = (needed, tx')"
  obtains (kept) "\<not> needed" "tx' = tx"
      "dma_busy (comm_tx_channels tx ! i) \<noteq> 0 \<or> ring_count (comm_tx_channels tx ! i) = 0 \<or>
       restart_pending (comm_tx_channels tx ! i) \<noteq> 0 \<and> now - tx_start_tick (comm_tx_channels tx ! i) < 20"
  | (again) st rc where "needed" "dma_busy (comm_tx_channels tx ! i) = 0" "ring_count (comm_tx_channels tx ! i) \<noteq> 0"
      "tx' = tx\<lparr>comm_tx_stats := st, comm_tx_channels := (comm_tx_channels tx)
        [i := (comm_tx_channels tx ! i)\<lparr>retry_count := rc, restart_pending := 0, dma_busy := 1\<rparr>]\<rparr>"
  | (dropped) st where "retry_count (comm_tx_channels tx ! i) \<ge> 3" "dma_busy (comm_tx_channels tx ! i) = 0"
      "ring_count (comm_tx_channels tx ! i) \<noteq> 0" "needed \<longleftrightarrow> ring_count (comm_tx_channels tx ! i) \<noteq> 1"
      "tx' = tx\<lparr>comm_tx_stats := st, comm_tx_channels := (comm_tx_channels tx)
        [i := if needed then (popped (comm_tx_channels tx ! i))\<lparr>retry_count := 0, restart_pending := 0, dma_busy := 1\<rparr>
              else (popped (comm_tx_channels tx ! i))\<lparr>retry_count := 0, restart_pending := 0\<rparr>]\<rparr>"
proof -
  let ?ch = "comm_tx_channels tx ! i"
  consider (idle) "\<not> (dma_busy ?ch = 0 \<and> ring_count ?ch > 0)"
    | (early) "dma_busy ?ch = 0" "ring_count ?ch > 0" "restart_pending ?ch \<noteq> 0" "now - tx_start_tick ?ch < 20"
    | (fresh) "dma_busy ?ch = 0" "ring_count ?ch > 0" "restart_pending ?ch = 0"
    | (retry) "dma_busy ?ch = 0" "ring_count ?ch > 0" "restart_pending ?ch \<noteq> 0" "\<not> now - tx_start_tick ?ch < 20"
        "\<not> retry_count ?ch \<ge> 3"
    | (drop) "dma_busy ?ch = 0" "ring_count ?ch > 0" "restart_pending ?ch \<noteq> 0" "\<not> now - tx_start_tick ?ch < 20"
        "retry_count ?ch \<ge> 3"
    by blast
  then show thesis
  proof cases
    case fresh
    show thesis
      by (rule that(2) [where st = "comm_tx_stats tx" and rc = "retry_count ?ch"])
        (use assms fresh in \<open>auto simp: comm_tx_retry_def not_pending Let_def word_gt_0\<close>)
  next
    case retry
    show thesis
      by (rule that(2) [where st = "comm_tx_stats (stat_at tx_retry_update i tx)" and rc = "retry_count ?ch + 1"])
        (use assms retry in \<open>auto simp: comm_tx_retry_def Let_def word_gt_0\<close>)
  next
    case drop
    then have "ring_count ?ch - 1 > 0 \<longleftrightarrow> ring_count ?ch \<noteq> 1"
      by (simp add: word_gt_0 eq_iff_diff_eq_0 [symmetric])
    then show thesis
      using that(3) [of "comm_tx_stats (stat dropped_retry_exhausted_update tx)"] assms drop
      by (auto simp: comm_tx_retry_def popped_def Let_def word_gt_0 split: if_splits)
  qed (use assms that(1) in \<open>auto simp: comm_tx_retry_def Let_def word_gt_0\<close>)
qed

section \<open>All interleavings\<close>

text \<open>
  The task's critical sections and starts, the interrupts, and whatever else happens. \<open>pc\<close> is the
  channel whose transfer the task is about to start, between a critical section and
  \<open>comm_tx_start_dma\<close>. \<open>routed\<close> and \<open>departed\<close> record per channel the frames taken into the ring and
  those that left it, with whether their transfer was completed. One order of events is left out
  by the condition of \<open>other_error\<close>: an error callback with a transmit DMA error between the claim of
  a channel and its start. It makes the code send a frame twice, which is the theorem
  \<open>error_in_claim_window_sends_twice\<close> below.
\<close>

definition uart_of :: "nat \<Rightarrow> huart" where
  "uart_of i = (if i = 0 then huart1 else huart6)"

definition line :: "comm_tx \<Rightarrow> nat \<Rightarrow> uart_line" where
  "line tx i = uart_lines tx (uart_of i)"

definition end_transfer :: "huart \<Rightarrow> u8 list list \<Rightarrow> comm_tx \<Rightarrow> comm_tx" where
  "end_transfer h sent tx = tx\<lparr>uart_lines := (uart_lines tx)
     (h := (uart_lines tx h)\<lparr>in_flight := None, wire := wire (uart_lines tx h) @ sent\<rparr>)\<rparr>"

definition rings :: "comm_tx \<Rightarrow> nat \<Rightarrow> u8 list list" where
  "rings tx i = ring (comm_tx_channels tx ! i)"

type_synonym history = "nat \<Rightarrow> (bool \<times> u8 list) list"

inductive tx_run :: "comm_tx \<Rightarrow> nat option \<Rightarrow> (nat \<Rightarrow> u8 list list) \<Rightarrow> history \<Rightarrow> bool" where
  boot: "(\<forall>i. in_flight (line tx i) = None \<and> wire (line tx i) = []) \<Longrightarrow> frame_array_ok (stack_frame tx) \<Longrightarrow>
     comm_tx_urgent_queue tx = NULL \<Longrightarrow>
     CommTx_Init memory_urgent memory_normal tx = (0, tx') \<Longrightarrow> tx_run tx' None (\<lambda>_. []) (\<lambda>_. [])"
| append: "tx_run tx None routed departed \<Longrightarrow> length (cm_payload msg) = 128 \<Longrightarrow>
     comm_tx_append msg urgent tx = (result, needed, tx') \<Longrightarrow>
     tx_run tx' (if needed then Some (unat (cm_channel msg)) else None)
       (if result = COMM_TX_ROUTE_OK
        then routed(unat (cm_channel msg) := routed (unat (cm_channel msg)) @ [frame_image msg tx]) else routed)
       departed"
| start: "tx_run tx (Some i) routed departed \<Longrightarrow>
     tx_run (snd (comm_tx_start_dma i tx)) None routed departed"
| timeout: "tx_run tx None routed departed \<Longrightarrow> i < 2 \<Longrightarrow>
     tx_run (comm_tx_check_timeout now i tx) None routed departed"
| retry: "tx_run tx None routed departed \<Longrightarrow> i < 2 \<Longrightarrow> comm_tx_retry now i tx = (needed, tx') \<Longrightarrow>
     tx_run tx' (if needed then Some i else None) routed
       (if length (rings tx' i) < length (rings tx i)
        then departed(i := departed i @ [(False, hd (rings tx i))]) else departed)"
| completed: "tx_run tx pc routed departed \<Longrightarrow> i < 2 \<Longrightarrow> in_flight (line tx i) = Some b \<Longrightarrow>
     tx_run (HAL_UART_TxCpltCallback (Some (uart_of i)) (end_transfer (uart_of i) [b] tx)) pc routed
       (departed(i := departed i @ [(True, b)]))"
| failed: "tx_run tx pc routed departed \<Longrightarrow> i < 2 \<Longrightarrow> in_flight (line tx i) = Some b \<Longrightarrow>
     error AND HAL_UART_ERROR_DMA \<noteq> 0 \<Longrightarrow> dma_error \<noteq> HAL_DMA_ERROR_NONE \<Longrightarrow>
     tx_run (CommTx_HandleUartError (Some (uart_of i)) error (Some dma_error) (end_transfer (uart_of i) [] tx))
       pc routed departed"
| other_error: "tx_run tx pc routed departed \<Longrightarrow> i < 2 \<Longrightarrow>
     in_flight (line tx i) = None \<and> pc \<noteq> Some i \<or> error AND HAL_UART_ERROR_DMA = 0 \<or>
     dma_error = NULL \<or> dma_error = Some HAL_DMA_ERROR_NONE \<Longrightarrow>
     tx_run (CommTx_HandleUartError (Some (uart_of i)) error dma_error tx) pc routed departed"
| others: "tx_run tx pc routed departed \<Longrightarrow> comm_tx_channels tx' = comm_tx_channels tx \<Longrightarrow>
     (\<forall>i. in_flight (line tx' i) = in_flight (line tx i) \<and> wire (line tx' i) = wire (line tx i)) \<Longrightarrow>
     frame_array_ok (stack_frame tx') \<Longrightarrow> tx_run tx' pc routed departed"

text \<open>What every run keeps of a channel.\<close>

definition link_ok :: "nat option \<Rightarrow> nat \<Rightarrow> comm_tx_channel_state_t \<Rightarrow> uart_line \<Rightarrow> bool" where
  "link_ok pc i ch l \<longleftrightarrow>
     channel_ok ch \<and> ch_huart ch = Some (uart_of i) \<and>
     (dma_busy ch \<noteq> 0 \<longleftrightarrow> in_flight l \<noteq> None \<or> pc = Some i) \<and>
     (pc = Some i \<longrightarrow> in_flight l = None) \<and>
     (dma_busy ch \<noteq> 0 \<longrightarrow> ring_count ch \<noteq> 0) \<and>
     (\<forall>b. in_flight l = Some b \<longrightarrow> b = hd (ring ch))"

definition accounts :: "u8 list list \<Rightarrow> (bool \<times> u8 list) list \<Rightarrow> comm_tx_channel_state_t \<Rightarrow> uart_line \<Rightarrow> bool" where
  "accounts rs ds ch l \<longleftrightarrow> rs = map snd ds @ ring ch \<and> wire l = map snd (filter fst ds) \<and>
     (\<forall>b\<in>set rs. \<exists>f. frame_valid f \<and> b = frame_bytes f)"

definition tx_ok :: "comm_tx \<Rightarrow> nat option \<Rightarrow> (nat \<Rightarrow> u8 list list) \<Rightarrow> history \<Rightarrow> bool" where
  "tx_ok tx pc routed departed \<longleftrightarrow>
     length (comm_tx_channels tx) = 2 \<and> frame_array_ok (stack_frame tx) \<and> (\<forall>i. pc = Some i \<longrightarrow> i < 2) \<and>
     (\<forall>i<2. link_ok pc i (comm_tx_channels tx ! i) (line tx i) \<and>
            accounts (routed i) (departed i) (comm_tx_channels tx ! i) (line tx i))"

lemma uart_of_inj: "i < 2 \<Longrightarrow> j < 2 \<Longrightarrow> uart_of i = uart_of j \<longleftrightarrow> i = j"
  by (auto simp: uart_of_def)

text \<open>A step that touches channel \<open>i\<close> only.\<close>

lemma tx_ok_channel:
  assumes "tx_ok tx pc routed departed" "i < 2"
    and "comm_tx_channels tx' = (comm_tx_channels tx)[i := ch]"
    and "uart_lines tx' = (uart_lines tx)(uart_of i := l)" "stack_frame tx' = stack_frame tx"
    and "\<forall>j. j \<noteq> i \<longrightarrow> (pc' = Some j \<longleftrightarrow> pc = Some j)"
    and "link_ok pc' i ch l" "accounts rs ds ch l"
  shows "tx_ok tx' pc' (routed(i := rs)) (departed(i := ds))"
proof -
  have "link_ok pc' j (comm_tx_channels tx ! j) (line tx j)" if "j < 2" "j \<noteq> i" for j
  proof -
    have "pc' = Some j \<longleftrightarrow> pc = Some j" using assms(6) that(2) by blast
    then show ?thesis
      using assms(1) that(1) by (simp add: tx_ok_def link_ok_def)
  qed
  moreover have "line tx' j = (if j = i then l else line tx j)" if "j < 2" for j
    using assms(2,4) that by (simp add: line_def uart_of_inj)
  moreover have "j < 2" if "pc' = Some j" for j
    using assms(1,2,6) that by (cases "j = i") (auto simp: tx_ok_def)
  ultimately show ?thesis
    using assms unfolding tx_ok_def by (auto simp: nth_list_update)
qed

lemma tx_okD:
  assumes "tx_ok tx pc routed departed" "i < 2"
  shows "i < length (comm_tx_channels tx)" "link_ok pc i (comm_tx_channels tx ! i) (line tx i)"
    "accounts (routed i) (departed i) (comm_tx_channels tx ! i) (line tx i)"
    "channel_ok (comm_tx_channels tx ! i)" "ch_huart (comm_tx_channels tx ! i) = Some (uart_of i)"
  using assms by (simp_all add: tx_ok_def link_ok_def)

lemma tx_ok_same:
  assumes "tx_ok tx pc routed departed" "comm_tx_channels tx' = comm_tx_channels tx"
    and "\<forall>i. in_flight (line tx' i) = in_flight (line tx i) \<and> wire (line tx' i) = wire (line tx i)"
    and "frame_array_ok (stack_frame tx')"
  shows "tx_ok tx' pc routed departed"
  using assms by (simp add: tx_ok_def link_ok_def accounts_def)

lemma tx_ok_append:
  assumes "tx_ok tx None routed departed" "length (cm_payload msg) = 128"
    and "comm_tx_append msg urgent tx = (result, needed, tx')"
  shows "tx_ok tx' (if needed then Some (unat (cm_channel msg)) else None)
       (if result = COMM_TX_ROUTE_OK
        then routed(unat (cm_channel msg) := routed (unat (cm_channel msg)) @ [frame_image msg tx]) else routed)
       departed"
proof -
  have pre: "length (comm_tx_channels tx) = 2" "\<forall>i<2. channel_ok (comm_tx_channels tx ! i)"
    "frame_array_ok (stack_frame tx)"
    using assms(1) by (simp_all add: tx_ok_def link_ok_def)
  show ?thesis
    using pre assms(2,3)
  proof (cases rule: append_cases)
    case (appended i s)
    let ?ch = "comm_tx_channels tx ! i" and ?img = "frame_image msg tx"
    note ok = tx_okD [OF assms(1) appended(2)]
    have "unat (ring_count ?ch) < 8" using appended(4) by (auto split: if_splits)
    note push = ring_pushed [OF ok(4) this appended(5)]
    have count: "ring_count (pushed ?img ?ch) \<noteq> 0"
      using push(2) ring_empty [of "pushed ?img ?ch"] by simp
    have hd: "ring_count ?ch \<noteq> 0 \<Longrightarrow> hd (ring (pushed ?img ?ch)) = hd (ring ?ch)"
      using push(2) ring_empty [of ?ch] by (simp add: hd_append)
    have fields: "ch_huart (pushed ?img ?ch) = ch_huart ?ch" "dma_busy (pushed ?img ?ch) = dma_busy ?ch"
      by (simp_all add: pushed_def Let_def)
    let ?new = "if needed then (pushed ?img ?ch)\<lparr>ch_sequence := s, dma_busy := 1\<rparr>
                else (pushed ?img ?ch)\<lparr>ch_sequence := s\<rparr>"
    have "tx_ok tx' (if needed then Some i else None) (routed(i := routed i @ [?img])) (departed(i := departed i))"
    proof (rule tx_ok_channel [OF assms(1) appended(2), where ch = ?new and l = "line tx i"])
      show "link_ok (if needed then Some i else None) i ?new (line tx i)"
        using ok(2) push(1) count hd fields appended(7) by (auto simp: link_ok_def)
      show "accounts (routed i @ [?img]) (departed i) ?new (line tx i)"
        using ok(3) push(2) appended(6) by (auto simp: accounts_def)
    qed (use appended in \<open>simp_all add: line_def\<close>)
    then show ?thesis using appended(1,3) by (cases needed) simp_all
  next
    case kept
    then show ?thesis
      using tx_ok_same [OF assms(1), of tx'] pre(3) by (simp add: line_def)
  qed
qed

lemma tx_ok_start:
  assumes "tx_ok tx (Some i) routed departed"
  shows "tx_ok (snd (comm_tx_start_dma i tx)) None routed departed"
proof -
  have i: "i < 2" using assms by (simp add: tx_ok_def)
  let ?ch = "comm_tx_channels tx ! i"
  note ok = tx_okD [OF assms i]
  have l: "in_flight (uart_lines tx (uart_of i)) = None" "ring_count ?ch \<noteq> 0"
    using ok(2) by (simp_all add: link_ok_def line_def)
  have keep: "tx_ok (snd (comm_tx_start_dma i tx)) None (routed(i := routed i)) (departed(i := departed i))"
    using ok(1,4) l(2) ok(5) l(1)
  proof (cases rule: start_cases)
    case (started st)
    show ?thesis
    proof (rule tx_ok_channel [OF assms i, where ch = "?ch\<lparr>tx_start_tick := hal_tick tx, restart_pending := 0\<rparr>"
            and l = "(line tx i)\<lparr>in_flight := Some (hd (ring ?ch))\<rparr>"])
      show "link_ok None i (?ch\<lparr>tx_start_tick := hal_tick tx, restart_pending := 0\<rparr>)
              ((line tx i)\<lparr>in_flight := Some (hd (ring ?ch))\<rparr>)"
        using ok(2) by (auto simp: link_ok_def)
    qed (use started ok(3) in \<open>simp_all add: line_def accounts_def\<close>)
  next
    case (refused st)
    show ?thesis
    proof (rule tx_ok_channel [OF assms i, where l = "line tx i" and
            ch = "?ch\<lparr>tx_start_tick := hal_tick tx, dma_busy := 0, restart_pending := 1\<rparr>"])
      show "link_ok None i (?ch\<lparr>tx_start_tick := hal_tick tx, dma_busy := 0, restart_pending := 1\<rparr>) (line tx i)"
        using ok(2) by (auto simp: link_ok_def)
    qed (use refused ok(3) in \<open>simp_all add: line_def accounts_def\<close>)
  qed
  then show ?thesis by simp
qed

lemma tx_ok_timeout:
  assumes "tx_ok tx None routed departed" "i < 2"
  shows "tx_ok (comm_tx_check_timeout now i tx) None routed departed"
proof -
  let ?ch = "comm_tx_channels tx ! i"
  note ok = tx_okD [OF assms]
  have "tx_ok (comm_tx_check_timeout now i tx) None (routed(i := routed i)) (departed(i := departed i))"
    using ok(5)
  proof (cases rule: timeout_cases [where now = now])
    case (aborted st)
    show ?thesis
    proof (rule tx_ok_channel [OF assms, where l = "(line tx i)\<lparr>in_flight := None\<rparr>" and
            ch = "?ch\<lparr>dma_busy := 0, restart_pending := 1, tx_start_tick := now\<rparr>"])
      show "link_ok None i (?ch\<lparr>dma_busy := 0, restart_pending := 1, tx_start_tick := now\<rparr>)
              ((line tx i)\<lparr>in_flight := None\<rparr>)"
        using ok(2) by (auto simp: link_ok_def)
    qed (use aborted ok(3) in \<open>simp_all add: line_def accounts_def\<close>)
  qed (use assms(1) in simp)
  then show ?thesis by simp
qed

lemma ring_count_popped: "ring_count (popped ch) = 0 \<longleftrightarrow> ring_count ch = 1"
  by (simp add: popped_def)

lemma pop_accounts:
  assumes "accounts rs ds ch l" "channel_ok ch" "ring_count ch \<noteq> 0" "ring ch' = tl (ring ch)"
    and "wire l' = wire l @ (if sent then [hd (ring ch)] else [])"
  shows "accounts rs (ds @ [(sent, hd (ring ch))]) ch' l'"
proof -
  have "ring ch = hd (ring ch) # tl (ring ch)"
    using assms(3) ring_empty [of ch] by simp
  then show ?thesis
    using assms(1,4,5) by (auto simp: accounts_def)
qed

lemma tx_ok_retry:
  assumes "tx_ok tx None routed departed" "i < 2" "comm_tx_retry now i tx = (needed, tx')"
  shows "tx_ok tx' (if needed then Some i else None) routed
       (if length (rings tx' i) < length (rings tx i)
        then departed(i := departed i @ [(False, hd (rings tx i))]) else departed)"
proof -
  let ?ch = "comm_tx_channels tx ! i"
  note ok = tx_okD [OF assms(1,2)]
  show ?thesis
    using assms(3)
  proof (cases rule: retry_cases)
    case kept
    then show ?thesis using assms(1) by simp
  next
    case (again st rc)
    let ?new = "?ch\<lparr>retry_count := rc, restart_pending := 0, dma_busy := 1\<rparr>"
    have same: "rings tx' i = rings tx i"
      using again(4) ok(1) by (simp add: rings_def)
    have "tx_ok tx' (Some i) (routed(i := routed i)) (departed(i := departed i))"
    proof (rule tx_ok_channel [OF assms(1,2), where ch = ?new and l = "line tx i"])
      show "link_ok (Some i) i ?new (line tx i)"
        using ok(2) again(2,3) by (auto simp: link_ok_def)
    qed (use again ok(3) in \<open>simp_all add: line_def accounts_def\<close>)
    then show ?thesis using again(1) same by simp
  next
    case (dropped st)
    note pop = ring_popped [OF ok(4) dropped(3)]
    let ?new = "if needed then (popped ?ch)\<lparr>retry_count := 0, restart_pending := 0, dma_busy := 1\<rparr>
                else (popped ?ch)\<lparr>retry_count := 0, restart_pending := 0\<rparr>"
    have fields: "ch_huart (popped ?ch) = ch_huart ?ch" "dma_busy (popped ?ch) = dma_busy ?ch"
      by (simp_all add: popped_def)
    have ring: "ring ?new = tl (ring ?ch)" using pop(2) by simp
    have "tx_ok tx' (if needed then Some i else None) (routed(i := routed i))
        (departed(i := departed i @ [(False, hd (ring ?ch))]))"
    proof (rule tx_ok_channel [OF assms(1,2), where ch = ?new and l = "line tx i"])
      show "link_ok (if needed then Some i else None) i ?new (line tx i)"
        using ok(2) pop(1) dropped(2,4) fields ring_count_popped [of ?ch] by (auto simp: link_ok_def)
      show "accounts (routed i) (departed i @ [(False, hd (ring ?ch))]) ?new (line tx i)"
        by (rule pop_accounts [OF ok(3,4) dropped(3) ring]) simp
    qed (use dropped(5) in \<open>simp_all add: line_def\<close>)
    moreover have "length (rings tx' i) < length (rings tx i)"
      using dropped(3,5) ok(1) by (simp add: rings_def popped_def unat_pred unat_gt_0)
    ultimately show ?thesis by (cases needed) (simp_all add: rings_def)
  qed
qed

lemma channel_lookup:
  assumes "tx_ok tx pc routed departed" "i < 2" "comm_tx_channels tx' = comm_tx_channels tx"
  shows "comm_tx_channel_from_huart (Some (uart_of i)) tx' = Some i"
proof -
  obtain a b where "comm_tx_channels tx = [a, b]"
    using assms(1) list_of_length_2 [of "comm_tx_channels tx"] by (auto simp: tx_ok_def)
  moreover have "ch_huart a = Some huart1" "ch_huart b = Some huart6"
    using tx_okD(5) [OF assms(1), of 0] tx_okD(5) [OF assms(1), of 1] calculation
    by (simp_all add: uart_of_def)
  ultimately show ?thesis
    using assms(2,3) by (auto simp: comm_tx_channel_from_huart_def uart_of_def)
qed

lemma end_transfer_fields [simp]:
  "comm_tx_channels (end_transfer h sent tx) = comm_tx_channels tx"
  "stack_frame (end_transfer h sent tx) = stack_frame tx"
  "uart_lines (end_transfer h sent tx) = (uart_lines tx)
     (h := (uart_lines tx h)\<lparr>in_flight := None, wire := wire (uart_lines tx h) @ sent\<rparr>)"
  by (simp_all add: end_transfer_def)

lemma tx_ok_failed:
  assumes "tx_ok tx pc routed departed" "i < 2" "in_flight (line tx i) = Some b"
    and "error AND HAL_UART_ERROR_DMA \<noteq> 0" "dma_error \<noteq> HAL_DMA_ERROR_NONE"
  shows "tx_ok (CommTx_HandleUartError (Some (uart_of i)) error (Some dma_error) (end_transfer (uart_of i) [] tx))
       pc routed departed"
proof -
  let ?ch = "comm_tx_channels tx ! i"
  note ok = tx_okD [OF assms(1,2)]
  let ?new = "?ch\<lparr>dma_busy := 0, restart_pending := 1, tx_start_tick := hal_tick tx\<rparr>"
  let ?line = "(line tx i)\<lparr>in_flight := None, wire := wire (line tx i) @ []\<rparr>"
  have busy: "dma_busy ?ch \<noteq> 0" "ring_count ?ch \<noteq> 0" "pc \<noteq> Some i"
    using ok(2) assms(3) by (auto simp: link_ok_def)
  have "tx_ok (CommTx_HandleUartError (Some (uart_of i)) error (Some dma_error) (end_transfer (uart_of i) [] tx))
       pc (routed(i := routed i)) (departed(i := departed i))"
  proof (rule tx_ok_channel [OF assms(1,2), where ch = ?new and l = ?line])
    show "link_ok pc i ?new ?line"
      using ok(2) busy(3) by (auto simp: link_ok_def)
  qed (use busy assms(4,5) ok(3) channel_lookup [OF assms(1,2), of "end_transfer (uart_of i) [] tx"] in
      \<open>simp_all add: CommTx_HandleUartError_def end_transfer_def line_def accounts_def word_gt_0 Let_def\<close>)
  then show ?thesis by simp
qed

lemma tx_ok_other_error:
  assumes "tx_ok tx pc routed departed" "i < 2"
    and "in_flight (line tx i) = None \<and> pc \<noteq> Some i \<or> error AND HAL_UART_ERROR_DMA = 0 \<or>
         dma_error = NULL \<or> dma_error = Some HAL_DMA_ERROR_NONE"
  shows "tx_ok (CommTx_HandleUartError (Some (uart_of i)) error dma_error tx) pc routed departed"
proof (rule tx_ok_same [OF assms(1)])
  have "dma_busy (comm_tx_channels tx ! i) = 0" if "in_flight (line tx i) = None" "pc \<noteq> Some i"
    using tx_okD(2) [OF assms(1,2)] that by (auto simp: link_ok_def)
  then show "comm_tx_channels (CommTx_HandleUartError (Some (uart_of i)) error dma_error tx) = comm_tx_channels tx"
    "\<forall>j. in_flight (line (CommTx_HandleUartError (Some (uart_of i)) error dma_error tx) j) = in_flight (line tx j) \<and>
       wire (line (CommTx_HandleUartError (Some (uart_of i)) error dma_error tx) j) = wire (line tx j)"
    "frame_array_ok (stack_frame (CommTx_HandleUartError (Some (uart_of i)) error dma_error tx))"
    using assms(1,3) channel_lookup [OF assms(1,2), of tx]
    by (auto simp: CommTx_HandleUartError_def line_def Let_def tx_ok_def)
qed

lemma completed_cases:
  assumes "tx_ok tx pc routed departed" "i < 2" "in_flight (line tx i) = Some b"
  defines "ch \<equiv> (popped (comm_tx_channels tx ! i))\<lparr>retry_count := 0, restart_pending := 0\<rparr>"
  defines "tx1 \<equiv> end_transfer (uart_of i) [b] tx"
  obtains (next_started) st where "ring_count ch \<noteq> 0"
      "HAL_UART_TxCpltCallback (Some (uart_of i)) tx1 = tx1\<lparr>comm_tx_stats := st,
         uart_lines := (uart_lines tx1)
           (uart_of i := (uart_lines tx1 (uart_of i))\<lparr>in_flight := Some (hd (ring ch))\<rparr>),
         comm_tx_channels := (comm_tx_channels tx)
           [i := ch\<lparr>tx_start_tick := hal_tick tx, restart_pending := 0\<rparr>]\<rparr>"
  | (next_refused) st where "ring_count ch \<noteq> 0"
      "HAL_UART_TxCpltCallback (Some (uart_of i)) tx1 = tx1\<lparr>comm_tx_stats := st,
         comm_tx_channels := (comm_tx_channels tx)
           [i := ch\<lparr>tx_start_tick := hal_tick tx, dma_busy := 0, restart_pending := 1\<rparr>]\<rparr>"
  | (empty) st where "ring_count ch = 0"
      "HAL_UART_TxCpltCallback (Some (uart_of i)) tx1 = tx1\<lparr>comm_tx_stats := st,
         comm_tx_channels := (comm_tx_channels tx)[i := ch\<lparr>dma_busy := 0\<rparr>]\<rparr>"
proof -
  let ?ch = "comm_tx_channels tx ! i"
  note ok = tx_okD [OF assms(1,2)]
  have busy: "dma_busy ?ch \<noteq> 0" "ring_count ?ch \<noteq> 0"
    using ok(2) assms(3) by (auto simp: link_ok_def)
  have look: "comm_tx_channel_from_huart (Some (uart_of i)) tx1 = Some i"
    by (rule channel_lookup [OF assms(1,2)]) (simp add: tx1_def)
  define tx2 where "tx2 = stat_at tx_sent_update i (set_channel i ch tx1)"
  have chs: "comm_tx_channels tx2 = (comm_tx_channels tx)[i := ch]" and tick: "hal_tick tx2 = hal_tick tx"
    by (simp_all add: tx2_def tx1_def end_transfer_def)
  have chs1: "comm_tx_channels tx1 = comm_tx_channels tx" by (simp add: tx1_def)
  have ops: "HAL_UART_TxCpltCallback (Some (uart_of i)) tx1 =
      (if ring_count ch > 0 then snd (comm_tx_start_dma i tx2) else set_channel i (ch\<lparr>dma_busy := 0\<rparr>) tx2)"
    using busy look [unfolded tx1_def]
    by (simp add: HAL_UART_TxCpltCallback_def tx2_def ch_def popped_def tx1_def Let_def)
  show thesis
  proof (cases "ring_count ch = 0")
    case True
    then show thesis
      using that(3) [where st = "comm_tx_stats tx2"] ops by (simp add: tx2_def tx1_def)
  next
    case False
    have "i < length (comm_tx_channels tx2)" "channel_ok (comm_tx_channels tx2 ! i)"
      "ring_count (comm_tx_channels tx2 ! i) \<noteq> 0" "ch_huart (comm_tx_channels tx2 ! i) = Some (uart_of i)"
      "in_flight (uart_lines tx2 (uart_of i)) = None"
      using ok(1,5) ring_popped(1) [OF ok(4) busy(2)] False
      by (simp_all add: chs, simp_all add: ch_def popped_def tx2_def tx1_def)
    then show thesis
    proof (cases rule: start_cases)
      case (started st)
      then show thesis
        using that(1) [where st = st] False ops chs tick chs1 ok(1) by (simp add: word_gt_0 tx2_def)
    next
      case (refused st)
      then show thesis
        using that(2) [where st = st] False ops chs tick chs1 ok(1) by (simp add: word_gt_0 tx2_def)
    qed
  qed
qed

lemma tx_ok_completed:
  assumes "tx_ok tx pc routed departed" "i < 2" "in_flight (line tx i) = Some b"
  shows "tx_ok (HAL_UART_TxCpltCallback (Some (uart_of i)) (end_transfer (uart_of i) [b] tx)) pc routed
       (departed(i := departed i @ [(True, b)]))"
proof -
  let ?old = "comm_tx_channels tx ! i" let ?ch = "(popped ?old)\<lparr>retry_count := 0, restart_pending := 0\<rparr>"
  let ?tx = "HAL_UART_TxCpltCallback (Some (uart_of i)) (end_transfer (uart_of i) [b] tx)"
  note ok = tx_okD [OF assms(1,2)]
  have busy: "dma_busy ?old \<noteq> 0" "ring_count ?old \<noteq> 0" "pc \<noteq> Some i" "b = hd (ring ?old)"
    using ok(2) assms(3) by (auto simp: link_ok_def)
  note pop = ring_popped [OF ok(4) busy(2)]
  have fields: "ch_huart (popped ?old) = Some (uart_of i)" "dma_busy (popped ?old) \<noteq> 0"
    using ok(5) busy(1) by (simp_all add: popped_def)
  let ?line = "(line tx i)\<lparr>in_flight := None, wire := wire (line tx i) @ [b]\<rparr>"
  have acc: "accounts (routed i) (departed i @ [(True, b)]) ch' (?line\<lparr>in_flight := f\<rparr>)"
    if "ring ch' = tl (ring ?old)" for ch' f
    unfolding busy(4) by (rule pop_accounts [OF ok(3,4) busy(2) that]) simp
  have step: "tx_ok ?tx pc (routed(i := routed i)) (departed(i := departed i @ [(True, b)]))"
    if "comm_tx_channels ?tx = (comm_tx_channels tx)[i := ch']" "stack_frame ?tx = stack_frame tx"
      "uart_lines ?tx = (uart_lines tx)(uart_of i := ?line\<lparr>in_flight := f\<rparr>)"
      "link_ok pc i ch' (?line\<lparr>in_flight := f\<rparr>)" "ring ch' = tl (ring ?old)" for ch' f
    by (rule tx_ok_channel [OF assms(1,2) that(1,3,2) _ that(4) acc [OF that(5)]]) simp
  have "tx_ok ?tx pc (routed(i := routed i)) (departed(i := departed i @ [(True, b)]))"
    using assms
  proof (cases rule: completed_cases)
    case (next_started st)
    show ?thesis
      by (rule step [where f = "Some (hd (ring ?ch))" and
            ch' = "?ch\<lparr>tx_start_tick := hal_tick tx, restart_pending := 0\<rparr>"])
        (use next_started pop fields busy(3) in \<open>auto simp: line_def link_ok_def\<close>)
  next
    case (next_refused st)
    show ?thesis
      by (rule step [where f = None and
            ch' = "?ch\<lparr>tx_start_tick := hal_tick tx, dma_busy := 0, restart_pending := 1\<rparr>"])
        (use next_refused pop fields busy(3) in \<open>auto simp: line_def link_ok_def\<close>)
  next
    case (empty st)
    show ?thesis
      by (rule step [where f = None and ch' = "?ch\<lparr>dma_busy := 0\<rparr>"])
        (use empty pop fields busy(3) in \<open>auto simp: line_def link_ok_def\<close>)
  qed
  then show ?thesis by simp
qed

lemma tx_ok_boot:
  assumes "\<forall>i. in_flight (line tx i) = None \<and> wire (line tx i) = []" "frame_array_ok (stack_frame tx)"
    and "comm_tx_urgent_queue tx = NULL" "CommTx_Init memory_urgent memory_normal tx = (0, tx')"
  shows "tx_ok tx' None (\<lambda>_. []) (\<lambda>_. [])"
proof -
  have "comm_tx_channels tx' = [zero_channel\<lparr>ch_huart := Some huart1\<rparr>, zero_channel\<lparr>ch_huart := Some huart6\<rparr>]"
    "uart_lines tx' = uart_lines tx" "stack_frame tx' = stack_frame tx"
    using assms(3,4) by (auto simp: CommTx_Init_def Let_def numeral_2_eq_2 split: if_splits)
  then show ?thesis
    using assms(1,2)
    by (auto simp: tx_ok_def less_2_cases_iff line_def link_ok_def accounts_def channel_ok_def zero_channel_def
        ring_def uart_of_def)
qed

lemma tx_run_ok: "tx_run tx pc routed departed \<Longrightarrow> tx_ok tx pc routed departed"
proof (induction rule: tx_run.induct)
  case (boot tx mu mn tx')
  then show ?case using tx_ok_boot by blast
next
  case (append tx routed departed msg urgent result needed tx')
  then show ?case using tx_ok_append by blast
next
  case (retry tx routed departed i now needed tx')
  then show ?case using tx_ok_retry by blast
next
  case (others tx pc routed departed tx')
  then show ?case using tx_ok_same by blast
qed (blast intro: tx_ok_start tx_ok_timeout tx_ok_completed tx_ok_failed tx_ok_other_error)+

section \<open>What the runs guarantee\<close>

text \<open>
  C38: Over every interleaving of the conveyor's transmit task, its DMA and error interrupts,
  HAL failures and the other tasks, in which no transmit DMA error is reported for a channel
  between its claim and the start of its transfer, the frames taken into a channel's ring leave
  it once each and in order, either as completed transfers or dropped after their retries; what
  is completed on the wire is exactly the former, every frame is a valid wire image, and the
  bytes the DMA is reading are those of the ring's oldest frame, never overwritten. An error in
  that window does make a frame go out twice (error_in_claim_window_sends_twice).
\<close>

theorem tx_frames_in_order:
  assumes "tx_run tx pc routed departed" "i < 2"
  shows "routed i = map snd (departed i) @ rings tx i \<and>
         wire (line tx i) = map snd (filter fst (departed i)) \<and>
         (\<forall>b\<in>set (routed i). \<exists>f. frame_valid f \<and> b = frame_bytes f) \<and>
         (\<forall>b. in_flight (line tx i) = Some b \<longrightarrow> rings tx i \<noteq> [] \<and> b = hd (rings tx i))"
  using tx_okD(2,3) [OF tx_run_ok [OF assms(1)] assms(2)]
  by (auto simp: accounts_def link_ok_def rings_def ring_empty)

text \<open>
  C39: In every reachable state, a channel whose ring holds frames and whose transmitter is idle
  is restarted by the next service at least 20 ms (modulo 2^32) after the last failure: the
  oldest frame is on its way, or, after three retries, is dropped and the next one is.
\<close>

theorem tx_stalled_ring_restarts:
  assumes "tx_run tx None routed departed" "i < 2"
    and "rings tx i \<noteq> []" "in_flight (line tx i) = None" "start_ok (line tx i)"
    and "restart_pending (comm_tx_channels tx ! i) = 0 \<or>
         20 \<le> hal_tick tx - tx_start_tick (comm_tx_channels tx ! i)"
  defines "tx' \<equiv> comm_tx_service_restart (hal_tick tx) i tx"
  shows "in_flight (line tx' i) = (if rings tx' i = [] then None else Some (hd (rings tx' i))) \<and>
         (rings tx' i = rings tx i \<or>
          3 \<le> retry_count (comm_tx_channels tx ! i) \<and> rings tx' i = tl (rings tx i))"
proof -
  let ?ch = "comm_tx_channels tx ! i"
  note ok = tx_okD [OF tx_run_ok [OF assms(1)] assms(2)]
  have idle: "dma_busy ?ch = 0" "ring_count ?ch \<noteq> 0"
    using ok(2) assms(3,4) by (auto simp: link_ok_def rings_def ring_empty)
  obtain needed tx1 where retry: "comm_tx_retry (hal_tick tx) i tx = (needed, tx1)"
    by fastforce
  have lines: "uart_lines tx1 = uart_lines tx" and moved:
      "needed \<or> rings tx1 i = []" "rings tx1 i = rings tx i \<or> 3 \<le> retry_count ?ch \<and> rings tx1 i = tl (rings tx i)"
    using retry
  proof (atomize(full), cases rule: retry_cases)
    case kept
    then show "uart_lines tx1 = uart_lines tx \<and> (needed \<or> rings tx1 i = []) \<and>
        (rings tx1 i = rings tx i \<or> 3 \<le> retry_count ?ch \<and> rings tx1 i = tl (rings tx i))"
      using idle assms(6) by (auto simp: not_le [symmetric])
  next
    case (again st rc)
    then show "uart_lines tx1 = uart_lines tx \<and> (needed \<or> rings tx1 i = []) \<and>
        (rings tx1 i = rings tx i \<or> 3 \<le> retry_count ?ch \<and> rings tx1 i = tl (rings tx i))"
      using ok(1) by (simp add: rings_def)
  next
    case (dropped st)
    then show "uart_lines tx1 = uart_lines tx \<and> (needed \<or> rings tx1 i = []) \<and>
        (rings tx1 i = rings tx i \<or> 3 \<le> retry_count ?ch \<and> rings tx1 i = tl (rings tx i))"
      using ok(1) ring_popped(2) [OF ok(4) idle(2)] ring_count_popped [of ?ch] ring_empty [of "popped ?ch"]
      by (auto simp: rings_def)
  qed
  show ?thesis
  proof (cases needed)
    case False
    then show ?thesis
      using moved assms(4) lines by (simp add: tx'_def comm_tx_service_restart_def retry line_def)
  next
    case True
    have "tx_ok tx1 (Some i) routed (if length (rings tx1 i) < length (rings tx i)
        then departed(i := departed i @ [(False, hd (rings tx i))]) else departed)"
      using tx_ok_retry [OF tx_run_ok [OF assms(1)] assms(2) retry] True by simp
    note ok1 = tx_okD [OF this assms(2)]
    have pre: "ring_count (comm_tx_channels tx1 ! i) \<noteq> 0" "in_flight (uart_lines tx1 (uart_of i)) = None"
      using ok1(2) by (auto simp: link_ok_def line_def)
    have tx': "tx' = snd (comm_tx_start_dma i tx1)"
      by (simp add: tx'_def comm_tx_service_restart_def retry True)
    show ?thesis
      using ok1(1,4) pre(1) ok1(5) pre(2)
    proof (cases rule: start_cases)
      case (started st)
      then show ?thesis
        using moved(2) ok1(1) pre(1) by (simp add: tx' rings_def line_def ring_empty)
    qed (use lines assms(5) in \<open>simp add: line_def\<close>)
  qed
qed

section \<open>An error between the claim and the start\<close>

text \<open>
  The runs leave out one order of events: an error callback that finds a transmit DMA error for a
  channel whose transfer the task has claimed and not yet started. The callback gives the claim
  back, the task starts the transfer nevertheless, its completion is ignored, and the frame, still
  the oldest one, is started and sent a second time.
\<close>

lemma start_claimed:
  assumes "i < length (comm_tx_channels tx)" "channel_ok (comm_tx_channels tx ! i)"
    and "ring_count (comm_tx_channels tx ! i) \<noteq> 0" "ch_huart (comm_tx_channels tx ! i) = Some h"
    and "in_flight (uart_lines tx h) = None" "start_ok (uart_lines tx h)"
  shows "\<exists>st. snd (comm_tx_start_dma i tx) = tx\<lparr>comm_tx_stats := st,
       uart_lines := (uart_lines tx)(h := (uart_lines tx h)\<lparr>in_flight := Some (hd (ring (comm_tx_channels tx ! i)))\<rparr>),
       comm_tx_channels := (comm_tx_channels tx)
         [i := (comm_tx_channels tx ! i)\<lparr>tx_start_tick := hal_tick tx, restart_pending := 0\<rparr>]\<rparr>"
  using assms(1-5)
proof (cases rule: start_cases)
  case (started st)
  then show ?thesis by blast
next
  case (refused st)
  then show ?thesis using assms(6) by simp
qed

definition claim_lost :: "nat \<Rightarrow> u32 \<Rightarrow> u32 \<Rightarrow> comm_tx \<Rightarrow> comm_tx" where
  "claim_lost i error dma_error tx =
     snd (comm_tx_start_dma i (CommTx_HandleUartError (Some (uart_of i)) error (Some dma_error) tx))"

lemma claim_lost_channel:
  assumes "tx_ok tx (Some i) routed departed" "start_ok (line tx i)"
    and "error AND HAL_UART_ERROR_DMA \<noteq> 0" "dma_error \<noteq> HAL_DMA_ERROR_NONE"
  defines "ch \<equiv> comm_tx_channels tx ! i"
  shows "\<exists>st. claim_lost i error dma_error tx = tx\<lparr>comm_tx_stats := st,
       uart_lines := (uart_lines tx)(uart_of i := (line tx i)\<lparr>in_flight := Some (hd (rings tx i))\<rparr>),
       comm_tx_channels := (comm_tx_channels tx)
         [i := ch\<lparr>dma_busy := 0, tx_start_tick := hal_tick tx, restart_pending := 0\<rparr>]\<rparr>"
proof -
  have i: "i < 2" using assms(1) by (simp add: tx_ok_def)
  note ok = tx_okD [OF assms(1) i, folded ch_def]
  have busy: "dma_busy ch \<noteq> 0" "ring_count ch \<noteq> 0" "in_flight (line tx i) = None"
    using ok(2) by (auto simp: link_ok_def)
  define tx1 where "tx1 = CommTx_HandleUartError (Some (uart_of i)) error (Some dma_error) tx"
  have tx1: "tx1 = tx\<lparr>comm_tx_stats := comm_tx_stats (stat_at tx_error_update i tx),
      comm_tx_channels := (comm_tx_channels tx)
        [i := ch\<lparr>dma_busy := 0, restart_pending := 1, tx_start_tick := hal_tick tx\<rparr>]\<rparr>"
    using busy(1,2) assms(3,4) channel_lookup [OF assms(1) i, of tx]
    by (simp add: tx1_def CommTx_HandleUartError_def word_gt_0 Let_def flip: ch_def)
  have "\<exists>st. snd (comm_tx_start_dma i tx1) = tx1\<lparr>comm_tx_stats := st,
       uart_lines := (uart_lines tx1)(uart_of i :=
         (uart_lines tx1 (uart_of i))\<lparr>in_flight := Some (hd (ring (comm_tx_channels tx1 ! i)))\<rparr>),
       comm_tx_channels := (comm_tx_channels tx1)
         [i := (comm_tx_channels tx1 ! i)\<lparr>tx_start_tick := hal_tick tx1, restart_pending := 0\<rparr>]\<rparr>"
    using ok(1,4,5) busy(2,3) assms(2) by (intro start_claimed) (simp_all add: tx1 line_def)
  then show ?thesis
    using ok(1) by (auto simp: claim_lost_def line_def rings_def ch_def tx1 [unfolded ch_def] simp flip: tx1_def)
qed

text \<open>The completion of a transfer whose claim was lost changes nothing but the wire.\<close>

lemma lost_completion:
  assumes "tx_ok tx (Some i) routed departed" "start_ok (line tx i)"
    and "error AND HAL_UART_ERROR_DMA \<noteq> 0" "dma_error \<noteq> HAL_DMA_ERROR_NONE"
  defines "b \<equiv> hd (rings tx i)"
  defines "tx2 \<equiv> HAL_UART_TxCpltCallback (Some (uart_of i)) (end_transfer (uart_of i) [b] (claim_lost i error dma_error tx))"
  shows "tx_ok tx2 None (routed(i := map snd (departed i) @ b # rings tx i)) (departed(i := departed i @ [(True, b)]))"
    "rings tx2 i = rings tx i" "wire (line tx2 i) = wire (line tx i) @ [b]"
    "start_ok (line tx2 i)" "restart_pending (comm_tx_channels tx2 ! i) = 0" "dma_busy (comm_tx_channels tx2 ! i) = 0"
    "in_flight (line tx2 i) = None"
proof -
  have i: "i < 2" using assms(1) by (simp add: tx_ok_def)
  let ?ch = "comm_tx_channels tx ! i"
  let ?new = "?ch\<lparr>dma_busy := 0, tx_start_tick := hal_tick tx, restart_pending := 0\<rparr>"
  let ?line = "(line tx i)\<lparr>in_flight := None, wire := wire (line tx i) @ [b]\<rparr>"
  note ok = tx_okD [OF assms(1) i]
  obtain st where lost: "claim_lost i error dma_error tx = tx\<lparr>comm_tx_stats := st,
       uart_lines := (uart_lines tx)(uart_of i := (line tx i)\<lparr>in_flight := Some b\<rparr>),
       comm_tx_channels := (comm_tx_channels tx)[i := ?new]\<rparr>"
    using claim_lost_channel [OF assms(1-4)] by (auto simp: b_def)
  define tx1 where "tx1 = end_transfer (uart_of i) [b] (claim_lost i error dma_error tx)"
  have tx1: "comm_tx_channels tx1 = (comm_tx_channels tx)[i := ?new]" "stack_frame tx1 = stack_frame tx"
    "uart_lines tx1 = (uart_lines tx)(uart_of i := ?line)"
    by (simp_all add: tx1_def lost end_transfer_def line_def)
  have count: "ring_count ?ch \<noteq> 0" using ok(2) by (auto simp: link_ok_def)
  have busy: "ring_count ?ch \<noteq> 0" "rings tx i = b # tl (rings tx i)"
    using count ring_empty [of ?ch] by (simp_all add: b_def rings_def)
  have "b \<in> set (ring ?ch)" using busy(2) unfolding rings_def by (metis list.set_intros(1))
  then have acc: "accounts (map snd (departed i) @ b # rings tx i) (departed i @ [(True, b)]) ?new ?line"
    using ok(3) by (auto simp: accounts_def rings_def)
  have ok1: "tx_ok tx1 None (routed(i := map snd (departed i) @ b # rings tx i)) (departed(i := departed i @ [(True, b)]))"
  proof (rule tx_ok_channel [OF assms(1) i tx1(1,3,2) _ _ acc])
    show "link_ok None i ?new ?line" using ok(2) by (auto simp: link_ok_def)
  qed simp
  have "tx2 = tx1"
    using channel_lookup [OF ok1 i refl] ok(1) tx1(1)
    by (simp add: tx2_def HAL_UART_TxCpltCallback_def Let_def flip: tx1_def)
  then show "tx_ok tx2 None (routed(i := map snd (departed i) @ b # rings tx i)) (departed(i := departed i @ [(True, b)]))"
    "rings tx2 i = rings tx i" "wire (line tx2 i) = wire (line tx i) @ [b]"
    "start_ok (line tx2 i)" "restart_pending (comm_tx_channels tx2 ! i) = 0" "dma_busy (comm_tx_channels tx2 ! i) = 0"
    "in_flight (line tx2 i) = None"
    using ok1 ok(1) assms(2) by (simp_all add: tx1 rings_def line_def)
qed

text \<open>
  An error callback between the claim of a channel and the start of its transfer, with a transmit
  DMA error still recorded, makes the conveyor send the frame twice: the transfer is started,
  its completion is ignored, and the next service starts the same frame again.
\<close>

theorem error_in_claim_window_sends_twice:
  fixes now :: u32
  assumes "tx_run tx (Some i) routed departed" and "start_ok (line tx i)"
    and "error AND HAL_UART_ERROR_DMA \<noteq> 0" and "dma_error \<noteq> HAL_DMA_ERROR_NONE"
  defines "b \<equiv> hd (rings tx i)" and "tx1 \<equiv> claim_lost i error dma_error tx"
  defines "tx2 \<equiv> HAL_UART_TxCpltCallback (Some (uart_of i)) (end_transfer (uart_of i) [b] tx1)"
  defines "tx3 \<equiv> comm_tx_service_restart now i tx2"
  shows "in_flight (line tx1 i) = Some b \<and> wire (line tx2 i) = wire (line tx i) @ [b] \<and> in_flight (line tx3 i) = Some b"
proof -
  have ok: "tx_ok tx (Some i) routed departed" by (rule tx_run_ok [OF assms(1)])
  then have i: "i < 2" by (simp add: tx_ok_def)
  have started: "in_flight (line tx1 i) = Some b"
    using claim_lost_channel [OF ok assms(2-4)] by (auto simp: tx1_def b_def line_def)
  note lost = lost_completion [OF ok assms(2-4), folded b_def, folded tx1_def, folded tx2_def]
  have filled: "ring_count (comm_tx_channels tx2 ! i) \<noteq> 0"
    using lost(2) tx_okD(2) [OF ok i] ring_empty [of "comm_tx_channels tx2 ! i"] ring_empty [of "comm_tx_channels tx ! i"]
    by (auto simp: rings_def link_ok_def)
  obtain needed tx' where retry: "comm_tx_retry now i tx2 = (needed, tx')" by fastforce
  then have again: "needed" "uart_lines tx' = uart_lines tx2" "rings tx' i = rings tx i"
    using lost(2,5,6) filled tx_okD(1) [OF lost(1) i]
    by (auto simp: comm_tx_retry_def not_pending Let_def word_gt_0 rings_def)
  have "tx_ok tx' (Some i) (routed(i := map snd (departed i) @ b # rings tx i)) (departed(i := departed i @ [(True, b)]))"
    using tx_ok_retry [OF lost(1) i retry] again(1,3) lost(2) by simp
  note claimed = tx_okD [OF this i]
  have "\<exists>st. snd (comm_tx_start_dma i tx') = tx'\<lparr>comm_tx_stats := st,
       uart_lines := (uart_lines tx')(uart_of i :=
         (uart_lines tx' (uart_of i))\<lparr>in_flight := Some (hd (ring (comm_tx_channels tx' ! i)))\<rparr>),
       comm_tx_channels := (comm_tx_channels tx')
         [i := (comm_tx_channels tx' ! i)\<lparr>tx_start_tick := hal_tick tx', restart_pending := 0\<rparr>]\<rparr>"
    using claimed again(2) lost(4) by (intro start_claimed) (auto simp: link_ok_def line_def)
  then have "in_flight (line tx3 i) = Some b"
    using retry again(1,3) by (auto simp: tx3_def comm_tx_service_restart_def line_def b_def rings_def)
  then show ?thesis using started lost(3) by blast
qed

section \<open>The queues\<close>

lemma append_busy:
  assumes "fst (comm_tx_append msg urgent tx) = COMM_TX_ROUTE_BUSY"
  shows "cm_channel msg < 2 \<and>
    ring_count (comm_tx_channels tx ! unat (cm_channel msg)) \<ge> (if urgent \<noteq> 0 then 8 else 7) \<and>
    comm_tx_append msg urgent tx = (COMM_TX_ROUTE_BUSY, False, tx)"
proof (cases "cm_channel msg < 2")
  case valid: True
  let ?limit = "(if urgent \<noteq> 0 then 8 else 7) :: u8"
  have "\<not> ring_count (comm_tx_channels tx ! unat (cm_channel msg)) < ?limit"
  proof
    assume "ring_count (comm_tx_channels tx ! unat (cm_channel msg)) < ?limit"
    then show False
      using assms valid
      by (cases "urgent = 0"; simp add: comm_tx_append_def Let_def split_def leD split: if_splits)
  qed
  then have full: "?limit \<le> ring_count (comm_tx_channels tx ! unat (cm_channel msg))"
    by (simp only: not_less)
  then have "comm_tx_append msg urgent tx = (COMM_TX_ROUTE_BUSY, False, tx)"
    using valid by (cases "urgent = 0"; simp add: comm_tx_append_def Let_def leD)
  then show ?thesis using valid full by blast
qed (use assms in \<open>simp add: comm_tx_append_def not_less\<close>)

lemma route_busy:
  assumes "fst (comm_tx_route msg urgent tx) = COMM_TX_ROUTE_BUSY"
  shows "cm_channel msg < 2 \<and> snd (comm_tx_route msg urgent tx) = tx \<and>
    ring_count (comm_tx_channels tx ! unat (cm_channel msg)) \<ge> (if urgent \<noteq> 0 then 8 else 7)"
proof -
  have "fst (comm_tx_append msg urgent tx) = COMM_TX_ROUTE_BUSY"
    using assms by (simp add: comm_tx_route_def split_def Let_def)
  then show ?thesis
    using append_busy [of msg urgent tx] by (simp add: comm_tx_route_def)
qed

lemma drain_urgent:
  "waiting URGENT_QUEUE tx = m # ms \<Longrightarrow> comm_tx_drain_queues tx =
     (if fst (comm_tx_route m 1 tx) = COMM_TX_ROUTE_BUSY
      then (1, stat ring_full_waits_update (snd (comm_tx_route m 1 tx)))
      else comm_tx_drain_queues (receive_queue URGENT_QUEUE (snd (comm_tx_route m 1 tx))))"
  by (subst comm_tx_drain_queues.simps) (simp add: peek_waiting Let_def split_def)

lemma drain_normal:
  "waiting URGENT_QUEUE tx = [] \<Longrightarrow> waiting NORMAL_QUEUE tx = m # ms \<Longrightarrow> comm_tx_drain_queues tx =
     (if fst (comm_tx_route m 0 tx) = COMM_TX_ROUTE_BUSY
      then (1, stat ring_full_waits_update (snd (comm_tx_route m 0 tx)))
      else comm_tx_drain_queues (receive_queue NORMAL_QUEUE (snd (comm_tx_route m 0 tx))))"
  by (subst comm_tx_drain_queues.simps) (simp add: peek_waiting Let_def split_def)

lemma drain_empty:
  "waiting URGENT_QUEUE tx = [] \<Longrightarrow> waiting NORMAL_QUEUE tx = [] \<Longrightarrow> comm_tx_drain_queues tx = (0, tx)"
  by (subst comm_tx_drain_queues.simps) (simp add: peek_waiting)

definition blocked_at :: "comm_tx \<Rightarrow> comm_tx_msg_t \<Rightarrow> u8 \<Rightarrow> bool" where
  "blocked_at tx msg limit \<longleftrightarrow>
     cm_channel msg < 2 \<and> limit \<le> ring_count (comm_tx_channels tx ! unat (cm_channel msg))"

declare comm_tx_drain_queues.simps [simp del]

definition drained :: "comm_tx \<Rightarrow> u8 \<times> comm_tx \<Rightarrow> bool" where
  "drained tx result \<longleftrightarrow> (case result of (blocked, tx') \<Rightarrow>
     (\<exists>us ns. waiting URGENT_QUEUE tx = us @ waiting URGENT_QUEUE tx' \<and>
        waiting NORMAL_QUEUE tx = ns @ waiting NORMAL_QUEUE tx' \<and>
        (ns \<noteq> [] \<longrightarrow> waiting URGENT_QUEUE tx' = [])) \<and>
     (case waiting URGENT_QUEUE tx' of
        m # _ \<Rightarrow> blocked = 1 \<and> blocked_at tx' m 8
      | [] \<Rightarrow> (case waiting NORMAL_QUEUE tx' of
                 m # _ \<Rightarrow> blocked = 1 \<and> blocked_at tx' m 7
               | [] \<Rightarrow> blocked = 0)))"

lemma drained_cons:
  assumes "drained tx1 result"
    and "waiting URGENT_QUEUE tx = us @ waiting URGENT_QUEUE tx1" "waiting NORMAL_QUEUE tx = ns @ waiting NORMAL_QUEUE tx1"
    and "ns = [] \<or> us = [] \<and> waiting URGENT_QUEUE tx = []"
  shows "drained tx result"
  using assms(1) unfolding drained_def assms(2,3)
  by (elim case_prodE conjE exE, simp only: prod.case)
    (use assms(2-4) in \<open>auto intro: exI [of _ "us @ _"] exI [of _ "ns @ _"]\<close>)

lemma waiting_stats [simp]: "waiting name (comm_tx_stats_update f tx) = waiting name tx"
  by (cases name) (simp_all add: waiting_def tx_queue_def)

lemma drain_drained: "drained tx (comm_tx_drain_queues tx)"
proof (induction "length (waiting URGENT_QUEUE tx) + length (waiting NORMAL_QUEUE tx)" arbitrary: tx
    rule: less_induct)
  case less
  show ?case
  proof (cases "waiting URGENT_QUEUE tx")
    case urgent: (Cons m us)
    show ?thesis
    proof (cases "fst (comm_tx_route m 1 tx) = COMM_TX_ROUTE_BUSY")
      case True
      then show ?thesis
        using urgent route_busy [OF True] by (simp add: drain_urgent [OF urgent] drained_def blocked_at_def)
    next
      case False
      let ?tx1 = "receive_queue URGENT_QUEUE (snd (comm_tx_route m 1 tx))"
      have next1: "waiting URGENT_QUEUE ?tx1 = us" "waiting NORMAL_QUEUE ?tx1 = waiting NORMAL_QUEUE tx"
        using urgent by (simp_all add: waiting_receive)
      have "drained ?tx1 (comm_tx_drain_queues ?tx1)" by (rule less) (simp add: next1 urgent)
      then have "drained tx (comm_tx_drain_queues ?tx1)"
        by (rule drained_cons [where us = "[m]" and ns = "[]"]) (simp_all add: next1 urgent)
      then show ?thesis using False by (simp add: drain_urgent [OF urgent])
    qed
  next
    case no_urgent: Nil
    show ?thesis
    proof (cases "waiting NORMAL_QUEUE tx")
      case Nil
      then show ?thesis using no_urgent by (simp add: drain_empty drained_def)
    next
      case normal: (Cons m ns)
      show ?thesis
      proof (cases "fst (comm_tx_route m 0 tx) = COMM_TX_ROUTE_BUSY")
        case True
        then show ?thesis
          using no_urgent normal route_busy [OF True]
          by (simp add: drain_normal [OF no_urgent normal] drained_def blocked_at_def)
      next
        case False
        let ?tx1 = "receive_queue NORMAL_QUEUE (snd (comm_tx_route m 0 tx))"
        have next1: "waiting NORMAL_QUEUE ?tx1 = ns" "waiting URGENT_QUEUE ?tx1 = []"
          using normal no_urgent by (simp_all add: waiting_receive)
        have "drained ?tx1 (comm_tx_drain_queues ?tx1)" by (rule less) (simp add: next1 normal no_urgent)
        then have "drained tx (comm_tx_drain_queues ?tx1)"
          by (rule drained_cons [where us = "[]" and ns = "[m]"]) (simp_all add: next1 normal no_urgent)
        then show ?thesis using False by (simp add: drain_normal [OF no_urgent normal])
      qed
    qed
  qed
qed

text \<open>
  C40: Draining the two message queues ends, takes messages oldest first, takes no normal
  message while an urgent one waits, and stops early only when the channel of the message at the
  head is full (eight frames for an urgent message, seven for a normal one).
\<close>

theorem drain_urgent_first:
  "case comm_tx_drain_queues tx of (blocked, tx') \<Rightarrow>
     (\<exists>us ns. waiting URGENT_QUEUE tx = us @ waiting URGENT_QUEUE tx' \<and>
        waiting NORMAL_QUEUE tx = ns @ waiting NORMAL_QUEUE tx' \<and>
        (ns = [] \<or> waiting URGENT_QUEUE tx' = [])) \<and>
     (case waiting URGENT_QUEUE tx' of
        m # _ \<Rightarrow> blocked = 1 \<and> blocked_at tx' m 8
      | [] \<Rightarrow> (case waiting NORMAL_QUEUE tx' of
                 m # _ \<Rightarrow> blocked = 1 \<and> blocked_at tx' m 7
               | [] \<Rightarrow> blocked = 0))"
  using drain_drained [of tx] unfolding drained_def by (auto split: list.splits)

section \<open>A round of the task is a run\<close>

definition running :: "comm_tx \<Rightarrow> bool" where
  "running tx \<longleftrightarrow> (\<exists>routed departed. tx_run tx None routed departed)"

lemma runningI: "tx_run tx None routed departed \<Longrightarrow> running tx"
  by (auto simp: running_def)

definition messages_ok :: "comm_tx \<Rightarrow> bool" where
  "messages_ok tx \<longleftrightarrow> (\<forall>name. \<forall>m\<in>set (waiting name tx). length (cm_payload m) = 128)"

lemma running_same:
  assumes "running tx" "comm_tx_channels tx' = comm_tx_channels tx" "uart_lines tx' = uart_lines tx"
    and "stack_frame tx' = stack_frame tx"
  shows "running tx'"
proof -
  obtain routed departed where run: "tx_run tx None routed departed"
    using assms(1) by (auto simp: running_def)
  then have "frame_array_ok (stack_frame tx')"
    using tx_run_ok [OF run] assms(4) by (simp add: tx_ok_def)
  then show ?thesis
    using tx_run.others [OF run assms(2)] assms(3) by (auto simp: running_def line_def)
qed

lemma running_route:
  assumes "running tx" "length (cm_payload msg) = 128"
  shows "running (snd (comm_tx_route msg urgent tx))"
proof -
  obtain routed departed where run: "tx_run tx None routed departed"
    using assms(1) by (auto simp: running_def)
  obtain result needed tx1 where append: "comm_tx_append msg urgent tx = (result, needed, tx1)"
    using prod_cases3 by blast
  note step = tx_run.append [OF run assms(2) append]
  show ?thesis
  proof (cases needed)
    case True
    then show ?thesis
      using runningI [OF tx_run.start [OF step [unfolded if_P [OF True]]]]
      by (simp add: comm_tx_route_def append)
  next
    case False
    then show ?thesis
      using runningI [OF step [unfolded if_not_P [OF False]]] by (simp add: comm_tx_route_def append)
  qed
qed

lemma running_restart: "running tx \<Longrightarrow> i < 2 \<Longrightarrow> running (comm_tx_service_restart now i tx)"
proof -
  assume "running tx" "i < 2"
  then obtain routed departed where run: "tx_run tx None routed departed"
    by (auto simp: running_def)
  obtain needed tx1 where retry: "comm_tx_retry now i tx = (needed, tx1)" by fastforce
  note step = tx_run.retry [OF run \<open>i < 2\<close> retry]
  show ?thesis
  proof (cases needed)
    case True
    then show ?thesis
      using runningI [OF tx_run.start [OF step [unfolded if_P [OF True]]]]
      by (simp add: comm_tx_service_restart_def retry)
  next
    case False
    then show ?thesis
      using runningI [OF step [unfolded if_not_P [OF False]]] by (simp add: comm_tx_service_restart_def retry)
  qed
qed

lemma running_timeout: "running tx \<Longrightarrow> i < 2 \<Longrightarrow> running (comm_tx_check_timeout now i tx)"
  unfolding running_def by (elim exE) (rule exI, rule exI, rule tx_run.timeout)

lemma running_heartbeat:
  assumes "running tx"
  shows "running (comm_tx_heartbeat_channel i tx)"
proof -
  have "length (cm_payload (comm_tx_heartbeat_message i tx)) = 128"
    using assms tx_run_ok by (fastforce simp: running_def tx_ok_def frame_array_ok_def
        comm_tx_heartbeat_message_def Let_def)
  then have "running (snd (comm_tx_route (comm_tx_heartbeat_message i tx) 0 tx))"
    by (rule running_route [OF assms])
  then show ?thesis
    by (auto simp: comm_tx_heartbeat_channel_def split_def Let_def intro: running_same)
qed

lemma set_tl: "x \<in> set (tl xs) \<Longrightarrow> x \<in> set xs"
  by (cases xs) simp_all

lemma running_fields:
  "running tx \<Longrightarrow> running (tx\<lparr>comm_tx_retry_pending := b\<rparr>)"
  "running tx \<Longrightarrow> running (tx\<lparr>comm_tx_next_heartbeat := n\<rparr>)"
  by (rule running_same, assumption, simp_all)+

lemma running_drain: "running tx \<Longrightarrow> messages_ok tx \<Longrightarrow> running (snd (comm_tx_drain_queues tx))"
proof (induction "length (waiting URGENT_QUEUE tx) + length (waiting NORMAL_QUEUE tx)" arbitrary: tx
    rule: less_induct)
  case less
  have step: "running (receive_queue name (snd (comm_tx_route m u tx)))"
      "messages_ok (receive_queue name (snd (comm_tx_route m u tx)))" if "m \<in> set (waiting name tx)" for m u name
  proof -
    have "running (snd (comm_tx_route m u tx))"
      using less.prems that by (auto simp: messages_ok_def intro: running_route)
    then show "running (receive_queue name (snd (comm_tx_route m u tx)))"
      by (rule running_same)
        (auto simp: receive_queue_def set_tx_queue_def split: option.split tx_queue_name.split)
    show "messages_ok (receive_queue name (snd (comm_tx_route m u tx)))"
      using less.prems(2) by (auto simp: messages_ok_def waiting_receive dest: set_tl)
  qed
  show ?case
  proof (cases "waiting URGENT_QUEUE tx")
    case urgent: (Cons m us)
    then show ?thesis
      using less step [of m URGENT_QUEUE 1] running_same [OF less.prems(1)] route_busy [of m 1 tx]
      by (auto simp: drain_urgent [OF urgent] waiting_receive)
  next
    case none: Nil
    show ?thesis
    proof (cases "waiting NORMAL_QUEUE tx")
      case Nil
      then show ?thesis using none less.prems(1) by (simp add: drain_empty)
    next
      case normal: (Cons m ns)
      then show ?thesis
        using less step [of m NORMAL_QUEUE 0] running_same [OF less.prems(1)] route_busy [of m 0 tx] none
        by (auto simp: drain_normal [OF none normal] waiting_receive)
    qed
  qed
qed

lemma timeout_frame [simp]:
  "waiting name (comm_tx_check_timeout now i tx) = waiting name tx"
  "waiting name (comm_tx_service_restart now i tx) = waiting name tx"
proof -
  show "waiting name (comm_tx_check_timeout now i tx) = waiting name tx"
    by (cases name) (simp_all add: waiting_def tx_queue_def comm_tx_check_timeout_def HAL_UART_AbortTransmit_def Let_def)
  have "waiting name (snd (comm_tx_retry now i tx)) = waiting name tx"
    by (cases name) (simp_all add: waiting_def tx_queue_def comm_tx_retry_def Let_def)
  moreover have "waiting name (snd (comm_tx_start_dma i t)) = waiting name t" for t
    by (cases name) (simp_all add: waiting_def tx_queue_def)
  ultimately show "waiting name (comm_tx_service_restart now i tx) = waiting name tx"
    by (simp add: comm_tx_service_restart_def split_def Let_def)
qed

lemma running_service:
  assumes "running tx" "messages_ok tx"
  shows "running (snd (comm_tx_service tx))"
proof -
  have upt: "[0..<2] = [0, 1 :: nat]" by (simp add: numeral_2_eq_2)
  let ?tx1 = "comm_tx_service_restarts (comm_tx_check_timeouts tx)"
  have "running ?tx1" "messages_ok ?tx1"
    using assms by (simp_all add: comm_tx_service_restarts_def comm_tx_check_timeouts_def upt
        running_timeout running_restart messages_ok_def)
  then have "running (snd (comm_tx_drain_queues ?tx1))" by (rule running_drain)
  then show ?thesis
    by (simp add: comm_tx_service_def comm_tx_send_heartbeat_def upt Let_def split_def running_fields running_heartbeat)
qed

text \<open>
  The time of a transfer is compared with a reading of the clock from before the loop. A transfer
  that an interrupt starts in between, one tick later, looks \<open>2 ^ 32 - 1\<close> ms old and is aborted.
\<close>

lemma fresh_transfer_aborted:
  assumes "dma_busy (comm_tx_channels tx ! i) \<noteq> 0" "ring_count (comm_tx_channels tx ! i) \<noteq> 0"
    and "i < length (comm_tx_channels tx)" "ch_huart (comm_tx_channels tx ! i) = Some h"
    and "tx_start_tick (comm_tx_channels tx ! i) = now + 1"
  shows "in_flight (uart_lines (comm_tx_check_timeout now i tx) h) = None \<and>
    restart_pending (comm_tx_channels (comm_tx_check_timeout now i tx) ! i) = 1"
  using assms by (simp add: comm_tx_check_timeout_def HAL_UART_AbortTransmit_def Let_def word_gt_0)

section \<open>A run\<close>

definition demo_cold :: comm_tx where
  "demo_cold = \<lparr>comm_tx_normal_queue = NULL, comm_tx_urgent_queue = NULL, comm_tx_next_heartbeat = 0,
     comm_tx_task_handle = NULL, comm_tx_retry_pending = 0, comm_tx_channels = [],
     comm_tx_device_states = [1, 1], comm_tx_error_codes = [0, 0], comm_tx_sensor_states = [1, 1],
     comm_tx_stats = \<lparr>st_enqueued = 0, st_enqueued_urgent = 0, dropped_queue_full = 0,
       dropped_urgent_queue_full = 0, dropped_invalid = 0, dropped_encode_error = 0,
       dropped_ring_full = 0, ring_full_waits = 0, dropped_retry_exhausted = 0, init_failures = 0,
       tx_error = [0, 0], tx_timeout = [0, 0], tx_retry = [0, 0], tx_sent = [0, 0], heartbeat_sent = 0\<rparr>,
     tx_notified = 0, hal_tick = 100, kernel_tick = 100, stack_frame = zero_frame,
     uart_lines = (\<lambda>_. \<lparr>in_flight = None, start_ok = False, wire = []\<rparr>)\<rparr>"

definition demo_message :: comm_tx_msg_t where
  "demo_message = \<lparr>cm_channel = 1, cm_command = cmd_code UART_CMD_PING, cm_length = 0, cm_sequence = 7,
     cm_use_provided_sequence = 1, cm_payload = replicate 128 0\<rparr>"

definition demo_boot :: comm_tx where
  "demo_boot = snd (CommTx_Init True True demo_cold)"

definition demo_queued :: comm_tx where
  "demo_queued = snd (snd (comm_tx_append demo_message 0 demo_boot))"

definition demo_later :: comm_tx where
  "demo_later = (snd (comm_tx_start_dma 1 demo_queued))
     \<lparr>hal_tick := 120, uart_lines := (\<lambda>_. \<lparr>in_flight = None, start_ok = True, wire = []\<rparr>)\<rparr>"

lemma demo_facts:
  "fst (CommTx_Init True True demo_cold) = 0"
  "fst (comm_tx_append demo_message 0 demo_boot) = COMM_TX_ROUTE_OK"
  "fst (snd (comm_tx_append demo_message 0 demo_boot)) = True"
  "in_flight (uart_lines (snd (comm_tx_start_dma 1 demo_queued)) huart1) = None"
  "in_flight (uart_lines (snd (comm_tx_start_dma 1 demo_queued)) huart6) = None"
  "wire (uart_lines (snd (comm_tx_start_dma 1 demo_queued)) huart1) = []"
  "wire (uart_lines (snd (comm_tx_start_dma 1 demo_queued)) huart6) = []"
  "length (rings demo_later 1) = 1" "restart_pending (comm_tx_channels demo_later ! 1) = 1"
  "tx_start_tick (comm_tx_channels demo_later ! 1) = 100" "retry_count (comm_tx_channels demo_later ! 1) = 0"
  by code_simp+

lemma demo_queued_run:
  "tx_run demo_queued (Some 1) ((\<lambda>_. [])(1 := [frame_image demo_message demo_boot])) (\<lambda>_. [])"
proof -
  have "CommTx_Init True True demo_cold = (0, demo_boot)"
    using demo_facts(1) by (simp add: demo_boot_def prod_eq_iff)
  then have "tx_run demo_boot None (\<lambda>_. []) (\<lambda>_. [])"
    by (rule tx_run.boot [rotated 3]) (simp_all add: demo_cold_def line_def)
  moreover have "comm_tx_append demo_message 0 demo_boot = (COMM_TX_ROUTE_OK, True, demo_queued)"
    using demo_facts(2,3) by (simp add: demo_queued_def prod_eq_iff)
  ultimately show ?thesis
    using tx_run.append [of demo_boot "\<lambda>_. []" "\<lambda>_. []" demo_message 0 COMM_TX_ROUTE_OK True demo_queued]
    by (simp add: demo_message_def)
qed

lemma demo_later_run:
  "tx_run demo_later None ((\<lambda>_. [])(1 := [frame_image demo_message demo_boot])) (\<lambda>_. [])"
proof -
  let ?tx = "snd (comm_tx_start_dma 1 demo_queued)"
  have "tx_run ?tx None ((\<lambda>_. [])(1 := [frame_image demo_message demo_boot])) (\<lambda>_. [])"
    by (rule tx_run.start [OF demo_queued_run])
  moreover have "\<forall>i. in_flight (line demo_later i) = in_flight (line ?tx i) \<and> wire (line demo_later i) = wire (line ?tx i)"
    using demo_facts(4-7) by (auto simp: line_def uart_of_def demo_later_def)
  moreover have "frame_array_ok (stack_frame demo_later)"
    using tx_run_ok [OF calculation(1)] by (simp add: demo_later_def tx_ok_def)
  ultimately show ?thesis
    using tx_run.others [of ?tx None _ _ demo_later] by (simp add: demo_later_def)
qed

theorem tx_frames_in_order_witness:
  "[frame_image demo_message demo_boot] = rings demo_queued 1"
  using tx_frames_in_order [OF demo_queued_run, of 1] by simp

definition demo_ready :: comm_tx where
  "demo_ready = demo_queued\<lparr>uart_lines := (\<lambda>h. (uart_lines demo_queued h)\<lparr>start_ok := True\<rparr>)\<rparr>"

lemma demo_ready_run:
  "tx_run demo_ready (Some 1) ((\<lambda>_. [])(1 := [frame_image demo_message demo_boot])) (\<lambda>_. [])"
proof (rule tx_run.others [OF demo_queued_run])
  show "frame_array_ok (stack_frame demo_ready)"
    using tx_run_ok [OF demo_queued_run] by (simp add: demo_ready_def tx_ok_def)
qed (simp_all add: demo_ready_def line_def)

theorem error_in_claim_window_sends_twice_witness:
  "in_flight (line (claim_lost 1 0x10 1 demo_ready) 1) = Some (hd (rings demo_ready 1))"
proof -
  have "start_ok (line demo_ready 1)" by (simp add: demo_ready_def line_def)
  from error_in_claim_window_sends_twice [OF demo_ready_run this, where error = "0x10" and dma_error = 1] show ?thesis by simp
qed

theorem tx_stalled_ring_restarts_witness:
  "in_flight (line (comm_tx_service_restart 120 1 demo_later) 1) = Some (hd (rings demo_later 1))"
proof -
  have "(1 :: nat) < 2" "rings demo_later 1 \<noteq> []" "in_flight (line demo_later 1) = None"
    "start_ok (line demo_later 1)" "hal_tick demo_later = 120"
    using demo_facts(8) by (auto simp: demo_later_def line_def)
  moreover have "rings demo_later 1 \<noteq> []"
    using demo_facts(8) by auto
  ultimately show ?thesis
    using tx_stalled_ring_restarts [OF demo_later_run, of 1] demo_facts(9-11) by auto
qed

end
