(* ===== verification/Linetracer_Types.thy ===== *)
theory Linetracer_Types
  imports Linetracer_Commands
begin

text \<open>
  The data shared by the tasks of the line tracer firmware
  (\<open>stm32/linetracer-controller/Application/Inc/linetracer_control_types.h\<close> and
  \<open>app_messages.h\<close>). A \<open>uint8_t\<close> field that the firmware only sets to \<open>0U\<close> or \<open>1U\<close> and only
  compares with \<open>0U\<close> is a \<open>bool\<close>.
\<close>

section \<open>Control types\<close>

abbreviation (input) UART_LINETRACER_ROUTE_A :: uart_linetracer_route_t where
  "UART_LINETRACER_ROUTE_A \<equiv> UART_LINETRACER_ROUTE_1"

abbreviation (input) UART_LINETRACER_ROUTE_B :: uart_linetracer_route_t where
  "UART_LINETRACER_ROUTE_B \<equiv> UART_LINETRACER_ROUTE_2"

abbreviation (input) UART_LINETRACER_ROUTE_C :: uart_linetracer_route_t where
  "UART_LINETRACER_ROUTE_C \<equiv> UART_LINETRACER_ROUTE_3"

datatype linetracer_control_state_t =
    LINETRACER_CONTROL_INITIALIZING | LINETRACER_CONTROL_WAITING_AT_DEST
  | LINETRACER_CONTROL_TURNING_FROM_DEST | LINETRACER_CONTROL_MOVING_TO_SOURCE_JUNCTION
  | LINETRACER_CONTROL_MOVING_ON_COMMON_LINE | LINETRACER_CONTROL_TURNING_TO_PICKUP
  | LINETRACER_CONTROL_MOVING_TO_PICKUP | LINETRACER_CONTROL_PICKUP_READY
  | LINETRACER_CONTROL_WAITING_LOAD | LINETRACER_CONTROL_TURNING_AT_PICKUP
  | LINETRACER_CONTROL_MOVING_TO_DEST | LINETRACER_CONTROL_UNLOADING
  | LINETRACER_CONTROL_STOPPED | LINETRACER_CONTROL_OBSTACLE_STOP
  | LINETRACER_CONTROL_ERROR | LINETRACER_CONTROL_EMERGENCY_STOPPED

datatype linetracer_line_state_t =
    LINETRACER_LINE_UNKNOWN | LINETRACER_LINE_CENTERED | LINETRACER_LINE_LEFT_ONLY
  | LINETRACER_LINE_RIGHT_ONLY | LINETRACER_LINE_WHITE_GAP

datatype linetracer_stop_reason_t =
    LINETRACER_STOP_REASON_NONE | LINETRACER_STOP_REASON_COMMAND | LINETRACER_STOP_REASON_OBSTACLE
  | LINETRACER_STOP_REASON_LINE_LOST | LINETRACER_STOP_REASON_LOAD_LOST
  | LINETRACER_STOP_REASON_OVERLOAD | LINETRACER_STOP_REASON_TURN_TIMEOUT
  | LINETRACER_STOP_REASON_MARKER_SEQUENCE | LINETRACER_STOP_REASON_COMM_TIMEOUT
  | LINETRACER_STOP_REASON_EMERGENCY | LINETRACER_STOP_REASON_SENSOR_FAULT
  | LINETRACER_STOP_REASON_HEALTH_FAULT

primrec linetracer_control_state_to_uart_state ::
    "linetracer_control_state_t \<Rightarrow> uart_linetracer_state_t" where
  "linetracer_control_state_to_uart_state LINETRACER_CONTROL_INITIALIZING = UART_LINETRACER_STATE_IDLE"
| "linetracer_control_state_to_uart_state LINETRACER_CONTROL_WAITING_AT_DEST =
     UART_LINETRACER_STATE_IDLE"
| "linetracer_control_state_to_uart_state LINETRACER_CONTROL_TURNING_FROM_DEST =
     UART_LINETRACER_STATE_CORRECTING"
| "linetracer_control_state_to_uart_state LINETRACER_CONTROL_TURNING_TO_PICKUP =
     UART_LINETRACER_STATE_CORRECTING"
| "linetracer_control_state_to_uart_state LINETRACER_CONTROL_TURNING_AT_PICKUP =
     UART_LINETRACER_STATE_CORRECTING"
| "linetracer_control_state_to_uart_state LINETRACER_CONTROL_MOVING_TO_SOURCE_JUNCTION =
     UART_LINETRACER_STATE_FOLLOWING_LINE"
| "linetracer_control_state_to_uart_state LINETRACER_CONTROL_MOVING_ON_COMMON_LINE =
     UART_LINETRACER_STATE_FOLLOWING_LINE"
| "linetracer_control_state_to_uart_state LINETRACER_CONTROL_MOVING_TO_PICKUP =
     UART_LINETRACER_STATE_FOLLOWING_LINE"
| "linetracer_control_state_to_uart_state LINETRACER_CONTROL_MOVING_TO_DEST =
     UART_LINETRACER_STATE_FOLLOWING_LINE"
| "linetracer_control_state_to_uart_state LINETRACER_CONTROL_PICKUP_READY =
     UART_LINETRACER_STATE_LOAD_WAIT"
| "linetracer_control_state_to_uart_state LINETRACER_CONTROL_WAITING_LOAD =
     UART_LINETRACER_STATE_LOAD_WAIT"
| "linetracer_control_state_to_uart_state LINETRACER_CONTROL_UNLOADING =
     UART_LINETRACER_STATE_UNLOADING"
| "linetracer_control_state_to_uart_state LINETRACER_CONTROL_STOPPED = UART_LINETRACER_STATE_STOPPED"
| "linetracer_control_state_to_uart_state LINETRACER_CONTROL_OBSTACLE_STOP =
     UART_LINETRACER_STATE_STOPPED"
| "linetracer_control_state_to_uart_state LINETRACER_CONTROL_ERROR = UART_LINETRACER_STATE_FAULT"
| "linetracer_control_state_to_uart_state LINETRACER_CONTROL_EMERGENCY_STOPPED =
     UART_LINETRACER_STATE_EMERGENCY_STOP"

section \<open>Messages between the tasks\<close>

datatype app_task_id_t =
    APP_TASK_SENSOR | APP_TASK_COMM_RX | APP_TASK_CONTROL | APP_TASK_SAFETY | APP_TASK_COMM_TX
  | APP_TASK_HEALTH | APP_TASK_UNLOAD

datatype app_control_command_type_t =
    APP_CONTROL_COMMAND_NONE | APP_CONTROL_COMMAND_ASSIGN_ROUTE
  | APP_CONTROL_COMMAND_SET_CURRENT_POSITION | APP_CONTROL_COMMAND_STOP_DRIVE
  | APP_CONTROL_COMMAND_RESUME_DRIVE | APP_CONTROL_COMMAND_MANUAL_UNLOAD
  | APP_CONTROL_COMMAND_RESET_SYSTEM | APP_CONTROL_COMMAND_STATUS_REQUEST

record app_control_command_t =
  cmd_type :: app_control_command_type_t
  cmd_received_at_ms :: u32
  cmd_job_id :: u16
  cmd_original_payload_crc :: u16
  cmd_route_id :: uart_linetracer_route_t
  cmd_position :: uart_linetracer_position_t
  cmd_sequence :: u8
  cmd_original_command :: u8
  cmd_original_payload_length :: u8

record app_control_snapshot_t =
  snap_updated_at_ms :: u32
  snap_job_id :: u16
  snap_route_id :: uart_linetracer_route_t
  snap_state :: uart_linetracer_state_t
  snap_load_state :: uart_linetracer_load_state_t
  snap_error_code :: u8
  snap_safety_latched :: bool

datatype app_marker_code_t =
    APP_MARKER_NONE | APP_MARKER_JUNCTION | APP_MARKER_DEST_A | APP_MARKER_DEST_B
  | APP_MARKER_DEST_C | APP_MARKER_INVALID

text \<open>The bits of \<open>event_flags\<close> are fields of their own.\<close>

record app_sensor_snapshot_t =
  snp_sampled_at_ms :: u32
  snp_event_marker :: bool \<comment> \<open>\<open>APP_SENSOR_EVENT_MARKER\<close>\<close>
  snp_event_marker_cleared :: bool \<comment> \<open>\<open>APP_SENSOR_EVENT_MARKER_CLEARED\<close>\<close>
  snp_marker_detected_at_ms :: u32
  snp_marker_cleared_at_ms :: u32
  snp_line_error :: int
  snp_line_state :: linetracer_line_state_t
  snp_load_state :: uart_linetracer_load_state_t
  snp_marker_code :: app_marker_code_t
  snp_line_left :: bool
  snp_line_center :: bool
  snp_line_right :: bool
  snp_fsr_valid :: bool

datatype app_safety_event_type_t =
    APP_SAFETY_EVENT_NONE | APP_SAFETY_EVENT_EMERGENCY_STOP | APP_SAFETY_EVENT_LINE_LOST
  | APP_SAFETY_EVENT_OBSTACLE | APP_SAFETY_EVENT_LOAD_LOST | APP_SAFETY_EVENT_OVERLOAD
  | APP_SAFETY_EVENT_TURN_TIMEOUT | APP_SAFETY_EVENT_MARKER_SEQUENCE | APP_SAFETY_EVENT_COMM_TIMEOUT
  | APP_SAFETY_EVENT_RESET_REQUEST | APP_SAFETY_EVENT_SENSOR_FAULT | APP_SAFETY_EVENT_HEALTH_FAULT

record app_safety_event_t =
  saf_type :: app_safety_event_type_t
  saf_occurred_at_ms :: u32
  saf_reason :: linetracer_stop_reason_t
  saf_original_payload_crc :: u16
  saf_source_task :: app_task_id_t
  saf_error_code :: u8
  saf_active :: bool
  saf_request_sequence :: u8
  saf_original_command :: u8
  saf_original_payload_length :: u8

definition zero_safety_event :: app_safety_event_t where
  "zero_safety_event =
     \<lparr>saf_type = APP_SAFETY_EVENT_NONE, saf_occurred_at_ms = 0,
      saf_reason = LINETRACER_STOP_REASON_NONE, saf_original_payload_crc = 0,
      saf_source_task = APP_TASK_SENSOR, saf_error_code = 0, saf_active = False,
      saf_request_sequence = 0, saf_original_command = 0, saf_original_payload_length = 0\<rparr>"

datatype app_health_event_type_t =
    APP_HEALTH_EVENT_NONE | APP_HEALTH_EVENT_TASK_ALIVE | APP_HEALTH_EVENT_QUEUE_FULL
  | APP_HEALTH_EVENT_UART_RX_TIMEOUT | APP_HEALTH_EVENT_UART_TX_TIMEOUT
  | APP_HEALTH_EVENT_INTERNAL_ERROR | APP_HEALTH_EVENT_UART_RX_RECOVERED
  | APP_HEALTH_EVENT_UART_TX_RECOVERED | APP_HEALTH_EVENT_UART_RX_ERROR
  | APP_HEALTH_EVENT_UART_TX_ERROR

record app_health_event_t =
  hev_type :: app_health_event_type_t
  hev_occurred_at_ms :: u32
  hev_detail :: u32
  hev_source_task :: app_task_id_t

datatype app_control_safety_event_type_t =
    APP_CONTROL_SAFETY_NONE | APP_CONTROL_SAFETY_LATCHED | APP_CONTROL_SAFETY_OBSTACLE_ACTIVE
  | APP_CONTROL_SAFETY_OBSTACLE_CLEARED | APP_CONTROL_SAFETY_RESET_APPROVED
  | APP_CONTROL_SAFETY_RESET_REJECTED

record app_control_safety_event_t =
  sev_type :: app_control_safety_event_type_t
  sev_occurred_at_ms :: u32
  sev_unload_inhibit_generation :: u32
  sev_reason :: linetracer_stop_reason_t
  sev_original_payload_crc :: u16
  sev_error_code :: u8
  sev_request_sequence :: u8
  sev_original_command :: u8
  sev_original_payload_length :: u8

datatype app_unload_command_type_t =
    APP_UNLOAD_COMMAND_NONE | APP_UNLOAD_COMMAND_START | APP_UNLOAD_COMMAND_ABORT
  | APP_UNLOAD_COMMAND_RESET

record app_unload_command_t =
  ucmd_type :: app_unload_command_type_t
  ucmd_requested_at_ms :: u32
  ucmd_inhibit_generation :: u32
  ucmd_request_id :: u32
  ucmd_job_id :: u16
  ucmd_route_id :: uart_linetracer_route_t

datatype app_unload_result_type_t =
    APP_UNLOAD_RESULT_NONE | APP_UNLOAD_RESULT_COMPLETE | APP_UNLOAD_RESULT_FAILED
  | APP_UNLOAD_RESULT_TIMEOUT | APP_UNLOAD_RESULT_ABORTED | APP_UNLOAD_RESULT_RESET_COMPLETE
  | APP_UNLOAD_RESULT_RESET_FAILED

record app_unload_result_t =
  ures_type :: app_unload_result_type_t
  ures_requested_at_ms :: u32
  ures_completed_at_ms :: u32
  ures_inhibit_generation :: u32
  ures_request_id :: u32
  ures_job_id :: u16
  ures_route_id :: uart_linetracer_route_t
  ures_error_code :: u8

datatype app_tx_event_type_t =
    APP_TX_EVENT_NONE | APP_TX_EVENT_COMMAND_ACK | APP_TX_EVENT_STATUS | APP_TX_EVENT_HEARTBEAT
  | APP_TX_EVENT_STARTED | APP_TX_EVENT_ARRIVED | APP_TX_EVENT_LOAD_DETECTED
  | APP_TX_EVENT_UNLOAD_COMPLETE | APP_TX_EVENT_STATE_CHANGED | APP_TX_EVENT_SENSOR_STATUS
  | APP_TX_EVENT_FAULT

datatype app_tx_priority_t =
    APP_TX_PRIORITY_TELEMETRY | APP_TX_PRIORITY_EVENT | APP_TX_PRIORITY_RESPONSE
  | APP_TX_PRIORITY_SAFETY

record app_tx_event_t =
  txe_type :: app_tx_event_type_t
  txe_created_at_ms :: u32
  txe_job_id :: u16
  txe_original_payload_crc :: u16
  txe_route_id :: uart_linetracer_route_t
  txe_state :: uart_linetracer_state_t
  txe_load_state :: uart_linetracer_load_state_t
  txe_request_sequence :: u8
  txe_original_command :: u8
  txe_original_payload_length :: u8
  txe_status :: u8
  txe_error_code :: u8
  txe_sensor_id :: u8
  txe_sensor_state :: u8
  txe_sensor_distance_cm :: u16
  txe_retry_count :: u8

text \<open>The event that \<open>memset(event, 0, sizeof(*event))\<close> leaves.\<close>

definition zero_tx_event :: app_tx_event_t where
  "zero_tx_event =
     \<lparr>txe_type = APP_TX_EVENT_NONE, txe_created_at_ms = 0, txe_job_id = 0,
      txe_original_payload_crc = 0, txe_route_id = UART_LINETRACER_ROUTE_NONE,
      txe_state = UART_LINETRACER_STATE_IDLE, txe_load_state = UART_LINETRACER_LOAD_EMPTY,
      txe_request_sequence = 0, txe_original_command = 0, txe_original_payload_length = 0,
      txe_status = 0, txe_error_code = 0, txe_sensor_id = 0, txe_sensor_state = 0,
      txe_sensor_distance_cm = 0, txe_retry_count = 0\<rparr>"

definition app_tx_event_is_response :: "app_tx_event_type_t \<Rightarrow> bool" where
  "app_tx_event_is_response ty \<longleftrightarrow> ty = APP_TX_EVENT_COMMAND_ACK \<or> ty = APP_TX_EVENT_STATUS"

definition app_tx_event_is_emergency :: "app_tx_event_type_t \<Rightarrow> bool" where
  "app_tx_event_is_emergency ty \<longleftrightarrow> ty = APP_TX_EVENT_FAULT"

fun app_tx_event_priority :: "app_tx_event_type_t \<Rightarrow> app_tx_priority_t" where
  "app_tx_event_priority APP_TX_EVENT_COMMAND_ACK = APP_TX_PRIORITY_RESPONSE"
| "app_tx_event_priority APP_TX_EVENT_STATUS = APP_TX_PRIORITY_RESPONSE"
| "app_tx_event_priority APP_TX_EVENT_FAULT = APP_TX_PRIORITY_SAFETY"
| "app_tx_event_priority APP_TX_EVENT_STARTED = APP_TX_PRIORITY_EVENT"
| "app_tx_event_priority APP_TX_EVENT_ARRIVED = APP_TX_PRIORITY_EVENT"
| "app_tx_event_priority APP_TX_EVENT_LOAD_DETECTED = APP_TX_PRIORITY_EVENT"
| "app_tx_event_priority APP_TX_EVENT_UNLOAD_COMPLETE = APP_TX_PRIORITY_EVENT"
| "app_tx_event_priority APP_TX_EVENT_STATE_CHANGED = APP_TX_PRIORITY_EVENT"
| "app_tx_event_priority APP_TX_EVENT_SENSOR_STATUS = APP_TX_PRIORITY_EVENT"
| "app_tx_event_priority APP_TX_EVENT_HEARTBEAT = APP_TX_PRIORITY_TELEMETRY"
| "app_tx_event_priority APP_TX_EVENT_NONE = APP_TX_PRIORITY_TELEMETRY"

text \<open>The codes that the firmware puts into \<open>uint32_t\<close> details.\<close>

fun unload_command_code :: "app_unload_command_type_t \<Rightarrow> u32" where
  "unload_command_code APP_UNLOAD_COMMAND_NONE = 0"
| "unload_command_code APP_UNLOAD_COMMAND_START = 1"
| "unload_command_code APP_UNLOAD_COMMAND_ABORT = 2"
| "unload_command_code APP_UNLOAD_COMMAND_RESET = 3"

fun tx_event_code :: "app_tx_event_type_t \<Rightarrow> u32" where
  "tx_event_code APP_TX_EVENT_NONE = 0"
| "tx_event_code APP_TX_EVENT_COMMAND_ACK = 1"
| "tx_event_code APP_TX_EVENT_STATUS = 2"
| "tx_event_code APP_TX_EVENT_HEARTBEAT = 3"
| "tx_event_code APP_TX_EVENT_STARTED = 4"
| "tx_event_code APP_TX_EVENT_ARRIVED = 5"
| "tx_event_code APP_TX_EVENT_LOAD_DETECTED = 6"
| "tx_event_code APP_TX_EVENT_UNLOAD_COMPLETE = 7"
| "tx_event_code APP_TX_EVENT_STATE_CHANGED = 8"
| "tx_event_code APP_TX_EVENT_SENSOR_STATUS = 9"
| "tx_event_code APP_TX_EVENT_FAULT = 10"

fun safety_event_code :: "app_safety_event_type_t \<Rightarrow> u32" where
  "safety_event_code APP_SAFETY_EVENT_NONE = 0"
| "safety_event_code APP_SAFETY_EVENT_EMERGENCY_STOP = 1"
| "safety_event_code APP_SAFETY_EVENT_LINE_LOST = 2"
| "safety_event_code APP_SAFETY_EVENT_OBSTACLE = 3"
| "safety_event_code APP_SAFETY_EVENT_LOAD_LOST = 4"
| "safety_event_code APP_SAFETY_EVENT_OVERLOAD = 5"
| "safety_event_code APP_SAFETY_EVENT_TURN_TIMEOUT = 6"
| "safety_event_code APP_SAFETY_EVENT_MARKER_SEQUENCE = 7"
| "safety_event_code APP_SAFETY_EVENT_COMM_TIMEOUT = 8"
| "safety_event_code APP_SAFETY_EVENT_RESET_REQUEST = 9"
| "safety_event_code APP_SAFETY_EVENT_SENSOR_FAULT = 10"
| "safety_event_code APP_SAFETY_EVENT_HEALTH_FAULT = 11"

text \<open>The routes and positions that the validators of the contract accept.\<close>

lemma route_is_valid_iff [simp]:
  "uart_linetracer_route_is_valid (route_code r) \<longleftrightarrow> r \<noteq> UART_LINETRACER_ROUTE_NONE"
  by (cases r) (simp_all add: uart_linetracer_route_is_valid_def)

lemma position_is_valid_iff [simp]:
  "uart_linetracer_position_is_valid (position_code p) \<longleftrightarrow> p \<noteq> UART_LINETRACER_POSITION_NONE"
  by (cases p) (simp_all add: uart_linetracer_position_is_valid_def)

end
