(* ===== verification/Linetracer_Route.thy ===== *)
theory Linetracer_Route
  imports Linetracer_Types
begin

text \<open>
  The route planner of the line tracer
  (\<open>stm32/linetracer-controller/Application/Src/route_planner.c\<close>, \<open>Inc/route_planner.h\<close>): the
  plan of a job from the vehicle's position to the zone of its route, advanced by the markers the
  vehicle crosses and by the load. The second half describes the track and shows that the
  planner's actions bring the vehicle to the zone of its route.
\<close>

section \<open>The plan\<close>

datatype route_phase_t =
    ROUTE_PHASE_IDLE | ROUTE_PHASE_TO_SOURCE_JUNCTION | ROUTE_PHASE_ON_COMMON_LINE
  | ROUTE_PHASE_TO_C_PICKUP_TURN | ROUTE_PHASE_TO_PICKUP | ROUTE_PHASE_WAITING_LOAD
  | ROUTE_PHASE_TO_C_RETURN_JUNCTION | ROUTE_PHASE_TO_TARGET_UNLOAD | ROUTE_PHASE_UNLOADING
  | ROUTE_PHASE_COMPLETE | ROUTE_PHASE_ERROR

datatype route_direction_t = ROUTE_DIRECTION_NONE | ROUTE_DIRECTION_LEFT | ROUTE_DIRECTION_RIGHT

datatype route_expected_marker_t =
    ROUTE_MARKER_NONE | ROUTE_MARKER_DEST_EXIT | ROUTE_MARKER_SOURCE_JUNCTION
  | ROUTE_MARKER_COMMON_JUNCTION | ROUTE_MARKER_C_PICKUP_TURN | ROUTE_MARKER_PICKUP
  | ROUTE_MARKER_C_RETURN_JUNCTION | ROUTE_MARKER_TARGET_JUNCTION | ROUTE_MARKER_PICKUP_EXIT
  | ROUTE_MARKER_RETURN_JUNCTION | ROUTE_MARKER_DEST

datatype route_action_t =
    ROUTE_ACTION_NONE | ROUTE_ACTION_GO_STRAIGHT | ROUTE_ACTION_TURN_LEFT | ROUTE_ACTION_TURN_RIGHT
  | ROUTE_ACTION_TURN_AROUND | ROUTE_ACTION_REVERSE | ROUTE_ACTION_STOP_AT_PICKUP
  | ROUTE_ACTION_STOP_AT_DEST | ROUTE_ACTION_JOB_COMPLETE | ROUTE_ACTION_LOAD_LOST
  | ROUTE_ACTION_ERROR

record route_plan_t =
  plan_phase :: route_phase_t
  common_direction :: route_direction_t
  expected_marker :: route_expected_marker_t
  origin_index :: u8
  target_index :: u8
  junctions_total :: u8
  junctions_remaining :: u8
  plan_loaded :: bool
  plan_valid :: bool

abbreviation (input) ROUTE_PLANNER_INDEX_INVALID :: u8 where "ROUTE_PLANNER_INDEX_INVALID \<equiv> 0xFF"

definition RoutePlanner_PositionIndex :: "uart_linetracer_position_t \<Rightarrow> u8" where
  "RoutePlanner_PositionIndex position =
     (if \<not> uart_linetracer_position_is_valid (position_code position)
      then ROUTE_PLANNER_INDEX_INVALID
      else position_code position - position_code UART_LINETRACER_POSITION_DEST_A)"

definition RoutePlanner_RouteIndex :: "uart_linetracer_route_t \<Rightarrow> u8" where
  "RoutePlanner_RouteIndex route =
     (if \<not> uart_linetracer_route_is_valid (route_code route)
      then ROUTE_PLANNER_INDEX_INVALID
      else route_code route - route_code UART_LINETRACER_ROUTE_1)"

definition RoutePlanner_TargetUsesCBranch :: "route_plan_t \<Rightarrow> bool" where
  "RoutePlanner_TargetUsesCBranch plan \<longleftrightarrow>
     target_index plan = RoutePlanner_RouteIndex UART_LINETRACER_ROUTE_C"

definition RoutePlanner_Fail :: "route_plan_t \<Rightarrow> route_action_t \<times> route_plan_t" where
  "RoutePlanner_Fail plan =
     (ROUTE_ACTION_ERROR,
      plan\<lparr>plan_phase := ROUTE_PHASE_ERROR, expected_marker := ROUTE_MARKER_NONE,
           plan_valid := False\<rparr>)"

definition RoutePlanner_Reset :: "route_plan_t \<Rightarrow> route_plan_t" where
  "RoutePlanner_Reset plan =
     plan\<lparr>plan_phase := ROUTE_PHASE_IDLE, common_direction := ROUTE_DIRECTION_NONE,
          expected_marker := ROUTE_MARKER_NONE, origin_index := ROUTE_PLANNER_INDEX_INVALID,
          target_index := ROUTE_PLANNER_INDEX_INVALID, junctions_total := 0,
          junctions_remaining := 0, plan_loaded := False, plan_valid := False\<rparr>"

definition RoutePlanner_Create ::
    "uart_linetracer_position_t \<Rightarrow> uart_linetracer_route_t \<Rightarrow> route_plan_t \<Rightarrow> bool \<times> route_plan_t" where
  "RoutePlanner_Create current_position target_route plan0 =
     (let plan = RoutePlanner_Reset plan0;
          origin = RoutePlanner_PositionIndex current_position;
          target = RoutePlanner_RouteIndex target_route
      in if origin = ROUTE_PLANNER_INDEX_INVALID \<or> target = ROUTE_PLANNER_INDEX_INVALID
         then (False, plan)
         else
           let plan = plan\<lparr>origin_index := origin, target_index := target\<rparr>;
               plan = (if target > origin
                       then plan\<lparr>common_direction := ROUTE_DIRECTION_RIGHT,
                                 junctions_total := target - origin\<rparr>
                       else if target < origin
                       then plan\<lparr>common_direction := ROUTE_DIRECTION_LEFT,
                                 junctions_total := origin - target\<rparr>
                       else plan\<lparr>common_direction := ROUTE_DIRECTION_NONE, junctions_total := 0\<rparr>);
               plan = plan\<lparr>junctions_remaining := junctions_total plan\<rparr>;
               plan = plan\<lparr>plan_phase := ROUTE_PHASE_TO_SOURCE_JUNCTION,
                           expected_marker := ROUTE_MARKER_SOURCE_JUNCTION\<rparr>
           in (True, plan\<lparr>plan_valid := True\<rparr>))"

text \<open>A marker under the vehicle: one function per phase of \<open>RoutePlanner_OnMarker\<close>.\<close>

definition marker_source_junction :: "route_plan_t \<Rightarrow> route_action_t \<times> route_plan_t" where
  "marker_source_junction plan =
     (if expected_marker plan \<noteq> ROUTE_MARKER_SOURCE_JUNCTION then RoutePlanner_Fail plan
      else if common_direction plan = ROUTE_DIRECTION_NONE
      then (ROUTE_ACTION_GO_STRAIGHT,
            if RoutePlanner_TargetUsesCBranch plan
            then plan\<lparr>plan_phase := ROUTE_PHASE_TO_C_PICKUP_TURN,
                      expected_marker := ROUTE_MARKER_C_PICKUP_TURN\<rparr>
            else plan\<lparr>plan_phase := ROUTE_PHASE_TO_PICKUP, expected_marker := ROUTE_MARKER_PICKUP\<rparr>)
      else (if common_direction plan = ROUTE_DIRECTION_RIGHT then ROUTE_ACTION_TURN_RIGHT
            else ROUTE_ACTION_TURN_LEFT,
            plan\<lparr>plan_phase := ROUTE_PHASE_ON_COMMON_LINE,
                 expected_marker := ROUTE_MARKER_COMMON_JUNCTION\<rparr>))"

definition marker_common_line :: "route_plan_t \<Rightarrow> route_action_t \<times> route_plan_t" where
  "marker_common_line plan =
     (if expected_marker plan \<noteq> ROUTE_MARKER_COMMON_JUNCTION \<or> junctions_remaining plan = 0
      then RoutePlanner_Fail plan
      else
        let plan = plan\<lparr>junctions_remaining := junctions_remaining plan - 1\<rparr>
        in if junctions_remaining plan \<noteq> 0 then (ROUTE_ACTION_GO_STRAIGHT, plan)
           else if RoutePlanner_TargetUsesCBranch plan
           then (ROUTE_ACTION_TURN_LEFT,
                 plan\<lparr>plan_phase := ROUTE_PHASE_TO_C_PICKUP_TURN,
                      expected_marker := ROUTE_MARKER_C_PICKUP_TURN\<rparr>)
           else (if common_direction plan = ROUTE_DIRECTION_RIGHT then ROUTE_ACTION_TURN_LEFT
                 else ROUTE_ACTION_TURN_RIGHT,
                 plan\<lparr>plan_phase := ROUTE_PHASE_TO_PICKUP, expected_marker := ROUTE_MARKER_PICKUP\<rparr>))"

definition marker_c_pickup_turn :: "route_plan_t \<Rightarrow> route_action_t \<times> route_plan_t" where
  "marker_c_pickup_turn plan =
     (if expected_marker plan \<noteq> ROUTE_MARKER_C_PICKUP_TURN then RoutePlanner_Fail plan
      else (ROUTE_ACTION_TURN_LEFT,
            plan\<lparr>plan_phase := ROUTE_PHASE_TO_PICKUP, expected_marker := ROUTE_MARKER_PICKUP\<rparr>))"

definition marker_pickup :: "route_plan_t \<Rightarrow> route_action_t \<times> route_plan_t" where
  "marker_pickup plan =
     (if expected_marker plan \<noteq> ROUTE_MARKER_PICKUP then RoutePlanner_Fail plan
      else (ROUTE_ACTION_STOP_AT_PICKUP,
            plan\<lparr>plan_phase := ROUTE_PHASE_WAITING_LOAD, expected_marker := ROUTE_MARKER_NONE\<rparr>))"

definition marker_c_return :: "route_plan_t \<Rightarrow> route_action_t \<times> route_plan_t" where
  "marker_c_return plan =
     (if expected_marker plan \<noteq> ROUTE_MARKER_C_RETURN_JUNCTION then RoutePlanner_Fail plan
      else (ROUTE_ACTION_TURN_RIGHT,
            plan\<lparr>plan_phase := ROUTE_PHASE_TO_TARGET_UNLOAD,
                 expected_marker := ROUTE_MARKER_TARGET_JUNCTION\<rparr>))"

definition marker_target_unload :: "route_plan_t \<Rightarrow> route_action_t \<times> route_plan_t" where
  "marker_target_unload plan =
     (if expected_marker plan = ROUTE_MARKER_TARGET_JUNCTION
      then (ROUTE_ACTION_GO_STRAIGHT, plan\<lparr>expected_marker := ROUTE_MARKER_DEST\<rparr>)
      else if expected_marker plan = ROUTE_MARKER_DEST
      then (ROUTE_ACTION_STOP_AT_DEST,
            plan\<lparr>plan_phase := ROUTE_PHASE_UNLOADING, expected_marker := ROUTE_MARKER_NONE\<rparr>)
      else RoutePlanner_Fail plan)"

definition RoutePlanner_OnMarker :: "route_plan_t \<Rightarrow> route_action_t \<times> route_plan_t" where
  "RoutePlanner_OnMarker plan =
     (if \<not> plan_valid plan then (ROUTE_ACTION_ERROR, plan)
      else case plan_phase plan of
          ROUTE_PHASE_TO_SOURCE_JUNCTION \<Rightarrow> marker_source_junction plan
        | ROUTE_PHASE_ON_COMMON_LINE \<Rightarrow> marker_common_line plan
        | ROUTE_PHASE_TO_C_PICKUP_TURN \<Rightarrow> marker_c_pickup_turn plan
        | ROUTE_PHASE_TO_PICKUP \<Rightarrow> marker_pickup plan
        | ROUTE_PHASE_TO_C_RETURN_JUNCTION \<Rightarrow> marker_c_return plan
        | ROUTE_PHASE_TO_TARGET_UNLOAD \<Rightarrow> marker_target_unload plan
        | _ \<Rightarrow> RoutePlanner_Fail plan)"

definition RoutePlanner_OnLoadOn :: "route_plan_t \<Rightarrow> route_action_t \<times> route_plan_t" where
  "RoutePlanner_OnLoadOn plan =
     (if \<not> plan_valid plan then (ROUTE_ACTION_ERROR, plan)
      else if plan_phase plan = ROUTE_PHASE_WAITING_LOAD \<and> \<not> plan_loaded plan
      then (ROUTE_ACTION_TURN_AROUND,
            let plan = plan\<lparr>plan_loaded := True\<rparr>
            in if RoutePlanner_TargetUsesCBranch plan
               then plan\<lparr>plan_phase := ROUTE_PHASE_TO_C_RETURN_JUNCTION,
                         expected_marker := ROUTE_MARKER_C_RETURN_JUNCTION\<rparr>
               else plan\<lparr>plan_phase := ROUTE_PHASE_TO_TARGET_UNLOAD,
                         expected_marker := ROUTE_MARKER_TARGET_JUNCTION\<rparr>)
      else (ROUTE_ACTION_NONE, plan))"

definition RoutePlanner_OnLoadOff :: "route_plan_t \<Rightarrow> route_action_t \<times> route_plan_t" where
  "RoutePlanner_OnLoadOff plan =
     (if \<not> plan_valid plan then (ROUTE_ACTION_ERROR, plan)
      else if (plan_phase plan = ROUTE_PHASE_TO_C_RETURN_JUNCTION
               \<or> plan_phase plan = ROUTE_PHASE_TO_TARGET_UNLOAD) \<and> plan_loaded plan
      then (ROUTE_ACTION_LOAD_LOST,
            plan\<lparr>plan_phase := ROUTE_PHASE_ERROR, expected_marker := ROUTE_MARKER_NONE,
                 plan_valid := False\<rparr>)
      else if plan_phase plan = ROUTE_PHASE_UNLOADING \<and> plan_loaded plan
      then (ROUTE_ACTION_JOB_COMPLETE,
            plan\<lparr>plan_loaded := False, plan_phase := ROUTE_PHASE_COMPLETE,
                 expected_marker := ROUTE_MARKER_NONE\<rparr>)
      else (ROUTE_ACTION_NONE, plan))"

definition RoutePlanner_TargetDestination :: "route_plan_t \<Rightarrow> uart_linetracer_position_t" where
  "RoutePlanner_TargetDestination plan =
     (if target_index plan = ROUTE_PLANNER_INDEX_INVALID then UART_LINETRACER_POSITION_NONE
      else
        let destination = position_code UART_LINETRACER_POSITION_DEST_A + to_u32 (target_index plan)
        in if destination = position_code UART_LINETRACER_POSITION_DEST_A
           then UART_LINETRACER_POSITION_DEST_A
           else if destination = position_code UART_LINETRACER_POSITION_DEST_B
           then UART_LINETRACER_POSITION_DEST_B
           else if destination = position_code UART_LINETRACER_POSITION_DEST_C
           then UART_LINETRACER_POSITION_DEST_C
           else UART_LINETRACER_POSITION_NONE)"

section \<open>Well-formed plans\<close>

lemmas route_planner_defs = RoutePlanner_OnMarker_def marker_source_junction_def
  marker_common_line_def marker_c_pickup_turn_def marker_pickup_def marker_c_return_def
  marker_target_unload_def RoutePlanner_OnLoadOn_def RoutePlanner_OnLoadOff_def
  RoutePlanner_Fail_def RoutePlanner_TargetUsesCBranch_def

lemma position_index [simp]:
  "RoutePlanner_PositionIndex UART_LINETRACER_POSITION_NONE = 0xFF"
  "RoutePlanner_PositionIndex UART_LINETRACER_POSITION_DEST_A = 0"
  "RoutePlanner_PositionIndex UART_LINETRACER_POSITION_DEST_B = 1"
  "RoutePlanner_PositionIndex UART_LINETRACER_POSITION_DEST_C = 2"
  by (simp_all add: RoutePlanner_PositionIndex_def uart_linetracer_position_is_valid_def)

lemma route_index [simp]:
  "RoutePlanner_RouteIndex UART_LINETRACER_ROUTE_NONE = 0xFF"
  "RoutePlanner_RouteIndex UART_LINETRACER_ROUTE_1 = 0"
  "RoutePlanner_RouteIndex UART_LINETRACER_ROUTE_2 = 1"
  "RoutePlanner_RouteIndex UART_LINETRACER_ROUTE_3 = 2"
  by (simp_all add: RoutePlanner_RouteIndex_def uart_linetracer_route_is_valid_def)

text \<open>
  What the fields of a plan have to do with each other: the marker that each phase waits for, the
  junctions still to be crossed, the load, and the direction along the common line.
\<close>

fun marker_of_phase :: "route_phase_t \<Rightarrow> route_expected_marker_t set" where
  "marker_of_phase ROUTE_PHASE_TO_SOURCE_JUNCTION = {ROUTE_MARKER_SOURCE_JUNCTION}"
| "marker_of_phase ROUTE_PHASE_ON_COMMON_LINE = {ROUTE_MARKER_COMMON_JUNCTION}"
| "marker_of_phase ROUTE_PHASE_TO_C_PICKUP_TURN = {ROUTE_MARKER_C_PICKUP_TURN}"
| "marker_of_phase ROUTE_PHASE_TO_PICKUP = {ROUTE_MARKER_PICKUP}"
| "marker_of_phase ROUTE_PHASE_TO_C_RETURN_JUNCTION = {ROUTE_MARKER_C_RETURN_JUNCTION}"
| "marker_of_phase ROUTE_PHASE_TO_TARGET_UNLOAD = {ROUTE_MARKER_TARGET_JUNCTION, ROUTE_MARKER_DEST}"
| "marker_of_phase _ = {ROUTE_MARKER_NONE}"

definition loaded_phases :: "route_phase_t set" where
  "loaded_phases = {ROUTE_PHASE_TO_C_RETURN_JUNCTION, ROUTE_PHASE_TO_TARGET_UNLOAD,
                    ROUTE_PHASE_UNLOADING}"

definition plan_counts :: "route_plan_t \<Rightarrow> bool" where
  "plan_counts plan \<longleftrightarrow>
     origin_index plan \<le> 2 \<and> target_index plan \<le> 2
     \<and> common_direction plan = (if target_index plan > origin_index plan then ROUTE_DIRECTION_RIGHT
                                else if target_index plan < origin_index plan
                                then ROUTE_DIRECTION_LEFT else ROUTE_DIRECTION_NONE)
     \<and> junctions_total plan = (if target_index plan > origin_index plan
                               then target_index plan - origin_index plan
                               else origin_index plan - target_index plan)
     \<and> (case plan_phase plan of
          ROUTE_PHASE_TO_SOURCE_JUNCTION \<Rightarrow> junctions_remaining plan = junctions_total plan
        | ROUTE_PHASE_ON_COMMON_LINE \<Rightarrow>
            0 < junctions_remaining plan \<and> junctions_remaining plan \<le> junctions_total plan
        | _ \<Rightarrow> junctions_remaining plan = 0)"

definition plan_typed :: "route_plan_t \<Rightarrow> bool" where
  "plan_typed plan \<longleftrightarrow>
     expected_marker plan \<in> marker_of_phase (plan_phase plan)
     \<and> (plan_valid plan \<longleftrightarrow> plan_phase plan \<notin> {ROUTE_PHASE_IDLE, ROUTE_PHASE_ERROR})
     \<and> (plan_valid plan \<longrightarrow>
          plan_counts plan
          \<and> (plan_loaded plan \<longleftrightarrow> plan_phase plan \<in> loaded_phases)
          \<and> (plan_phase plan \<in> {ROUTE_PHASE_TO_C_PICKUP_TURN, ROUTE_PHASE_TO_C_RETURN_JUNCTION}
             \<longrightarrow> target_index plan = 2))"

text \<open>The plans that the planner's operations produce, in any order.\<close>

inductive plan_reachable :: "route_plan_t \<Rightarrow> bool" where
  plan_reset: "plan_reachable (RoutePlanner_Reset plan)"
| plan_create: "plan_reachable (snd (RoutePlanner_Create position route plan))"
| plan_marker: "plan_reachable plan \<Longrightarrow> plan_reachable (snd (RoutePlanner_OnMarker plan))"
| plan_load_on: "plan_reachable plan \<Longrightarrow> plan_reachable (snd (RoutePlanner_OnLoadOn plan))"
| plan_load_off: "plan_reachable plan \<Longrightarrow> plan_reachable (snd (RoutePlanner_OnLoadOff plan))"

lemma small_u8: "x \<le> (2 :: u8) \<Longrightarrow> x = 0 \<or> x = 1 \<or> x = 2"
proof -
  assume "x \<le> 2"
  then have "unat x \<le> 2" by (simp add: word_le_nat_alt)
  then have "unat x = 0 \<or> unat x = 1 \<or> unat x = 2" by arith
  then show ?thesis by (simp add: word_unat_eq_iff)
qed

lemma typed_reset: "plan_typed (RoutePlanner_Reset plan)"
  by (simp add: plan_typed_def RoutePlanner_Reset_def)

lemma typed_create: "plan_typed (snd (RoutePlanner_Create position route plan))"
  by (cases position; cases route)
     (simp_all add: RoutePlanner_Create_def plan_typed_def plan_counts_def RoutePlanner_Reset_def
        loaded_phases_def)

text \<open>The indices of a valid plan are numerals, which the proofs split.\<close>

lemma typed_indices:
  assumes typed: "plan_typed plan" and valid: "plan_valid plan"
  shows "origin_index plan = 0 \<or> origin_index plan = 1 \<or> origin_index plan = 2"
    and "target_index plan = 0 \<or> target_index plan = 1 \<or> target_index plan = 2"
    and "junctions_remaining plan = 0 \<or> junctions_remaining plan = 1 \<or> junctions_remaining plan = 2"
proof -
  have bounds: "origin_index plan \<le> 2" "target_index plan \<le> 2"
    using typed valid by (simp_all add: plan_typed_def plan_counts_def)
  then show o: "origin_index plan = 0 \<or> origin_index plan = 1 \<or> origin_index plan = 2"
    and t: "target_index plan = 0 \<or> target_index plan = 1 \<or> target_index plan = 2"
    by (blast dest: small_u8)+
  have total: "junctions_total plan \<le> 2"
    using typed valid o t by (auto simp: plan_typed_def plan_counts_def)
  have "junctions_remaining plan = 0 \<or> junctions_remaining plan \<le> junctions_total plan"
    using typed valid by (cases "plan_phase plan") (auto simp: plan_typed_def plan_counts_def)
  then have "junctions_remaining plan \<le> 2" using total by auto
  then show "junctions_remaining plan = 0 \<or> junctions_remaining plan = 1 \<or> junctions_remaining plan = 2"
    by (rule small_u8)
qed

lemma typed_marker:
  assumes typed: "plan_typed plan"
  shows "plan_typed (snd (RoutePlanner_OnMarker plan))"
proof (cases "plan_valid plan")
  case valid: True
  show ?thesis
    using typed valid typed_indices [OF typed valid]
    by (cases "plan_phase plan")
       (auto simp: plan_typed_def plan_counts_def route_planner_defs loaded_phases_def Let_def
             split: if_splits)
qed (use typed in \<open>simp add: RoutePlanner_OnMarker_def\<close>)

lemma typed_load_on:
  assumes typed: "plan_typed plan"
  shows "plan_typed (snd (RoutePlanner_OnLoadOn plan))"
proof (cases "plan_valid plan \<and> plan_phase plan = ROUTE_PHASE_WAITING_LOAD \<and> \<not> plan_loaded plan")
  case waiting: True
  then show ?thesis
    using typed typed_indices [OF typed]
    by (auto simp: plan_typed_def plan_counts_def RoutePlanner_OnLoadOn_def loaded_phases_def
          RoutePlanner_TargetUsesCBranch_def Let_def)
next
  case False
  then have "snd (RoutePlanner_OnLoadOn plan) = plan" by (auto simp: RoutePlanner_OnLoadOn_def)
  then show ?thesis using typed by simp
qed

lemma typed_load_off:
  assumes typed: "plan_typed plan"
  shows "plan_typed (snd (RoutePlanner_OnLoadOff plan))"
proof (cases "plan_valid plan \<and> plan_phase plan = ROUTE_PHASE_UNLOADING \<and> plan_loaded plan")
  case unloading: True
  then show ?thesis
    using typed typed_indices [OF typed]
    by (auto simp: plan_typed_def plan_counts_def RoutePlanner_OnLoadOff_def loaded_phases_def)
next
  case False
  then have "snd (RoutePlanner_OnLoadOff plan) = plan
      \<or> snd (RoutePlanner_OnLoadOff plan) =
          plan\<lparr>plan_phase := ROUTE_PHASE_ERROR, expected_marker := ROUTE_MARKER_NONE, plan_valid := False\<rparr>"
    by (auto simp: RoutePlanner_OnLoadOff_def)
  then show ?thesis using typed by (auto simp: plan_typed_def)
qed

lemma reachable_typed: "plan_reachable plan \<Longrightarrow> plan_typed plan"
  by (induction rule: plan_reachable.induct)
     (simp_all add: typed_reset typed_create typed_marker typed_load_on typed_load_off)

text \<open>A typed plan accepts a marker exactly when it expects one.\<close>

lemma typed_progress:
  assumes typed: "plan_typed plan"
  shows "fst (RoutePlanner_OnMarker plan) = ROUTE_ACTION_ERROR
           \<longleftrightarrow> expected_marker plan = ROUTE_MARKER_NONE"
  using typed
  by (cases "plan_phase plan")
     (auto simp: plan_typed_def plan_counts_def route_planner_defs Let_def)

section \<open>The track\<close>

text \<open>
  The track of the demonstration, as the comments of \<open>route_planner.c\<close> describe it: three zones
  side by side, each with an unload point, a junction of the common line and a pickup point. The
  common line runs from west to east through the junctions; the unload points lie south of it,
  the pickups of A and B north of it, and C's pickup on a branch that turns off west.
\<close>

datatype zone = Zone_A | Zone_B | Zone_C

datatype heading = North | East | South | West

datatype place = Unload_Point zone | Junction zone | C_Turn | Pickup zone

fun next_place :: "place \<Rightarrow> heading \<Rightarrow> place option" where
  "next_place (Unload_Point z) North = Some (Junction z)"
| "next_place (Junction z) South = Some (Unload_Point z)"
| "next_place (Junction Zone_A) East = Some (Junction Zone_B)"
| "next_place (Junction Zone_B) East = Some (Junction Zone_C)"
| "next_place (Junction Zone_C) West = Some (Junction Zone_B)"
| "next_place (Junction Zone_B) West = Some (Junction Zone_A)"
| "next_place (Junction Zone_A) North = Some (Pickup Zone_A)"
| "next_place (Junction Zone_B) North = Some (Pickup Zone_B)"
| "next_place (Junction Zone_C) North = Some C_Turn"
| "next_place C_Turn West = Some (Pickup Zone_C)"
| "next_place C_Turn South = Some (Junction Zone_C)"
| "next_place (Pickup Zone_A) South = Some (Junction Zone_A)"
| "next_place (Pickup Zone_B) South = Some (Junction Zone_B)"
| "next_place (Pickup Zone_C) East = Some C_Turn"
| "next_place _ _ = None"

primrec turn_left :: "heading \<Rightarrow> heading" where
  "turn_left North = West" | "turn_left West = South" | "turn_left South = East"
| "turn_left East = North"

fun turned :: "route_action_t \<Rightarrow> heading \<Rightarrow> heading" where
  "turned ROUTE_ACTION_TURN_LEFT h = turn_left h"
| "turned ROUTE_ACTION_TURN_AROUND h = turn_left (turn_left h)"
| "turned ROUTE_ACTION_TURN_RIGHT h = turn_left (turn_left (turn_left h))"
| "turned _ h = h"

text \<open>The kind of place that a plan takes the next marker for.\<close>

fun expected_place :: "route_expected_marker_t \<Rightarrow> place \<Rightarrow> bool" where
  "expected_place ROUTE_MARKER_SOURCE_JUNCTION (Junction z) = True"
| "expected_place ROUTE_MARKER_COMMON_JUNCTION (Junction z) = True"
| "expected_place ROUTE_MARKER_TARGET_JUNCTION (Junction z) = True"
| "expected_place ROUTE_MARKER_C_PICKUP_TURN C_Turn = True"
| "expected_place ROUTE_MARKER_C_RETURN_JUNCTION C_Turn = True"
| "expected_place ROUTE_MARKER_PICKUP (Pickup z) = True"
| "expected_place ROUTE_MARKER_DEST (Unload_Point z) = True"
| "expected_place _ _ = False"

type_synonym journey = "route_plan_t \<times> place \<times> heading"

text \<open>
  One leg: the vehicle runs to the next marker ahead, the planner takes it and the vehicle turns.
  There is no leg where the track ends, or where the marker is not the one the plan is for.
\<close>

definition drive_leg :: "journey \<Rightarrow> (route_action_t \<times> journey) option" where
  "drive_leg = (\<lambda>(plan, place, h).
     case next_place place h of
       None \<Rightarrow> None
     | Some place' \<Rightarrow>
         if expected_place (expected_marker plan) place'
         then (case RoutePlanner_OnMarker plan of (a, plan') \<Rightarrow> Some (a, plan', place', turned a h))
         else None)"

text \<open>Legs until the planner stops the vehicle, at most \<open>n\<close> of them.\<close>

fun drive :: "nat \<Rightarrow> journey \<Rightarrow> (route_action_t \<times> journey) option" where
  "drive 0 j = None"
| "drive (Suc n) j =
     (case drive_leg j of
        None \<Rightarrow> None
      | Some (a, j') \<Rightarrow>
          if a \<in> {ROUTE_ACTION_GO_STRAIGHT, ROUTE_ACTION_TURN_LEFT, ROUTE_ACTION_TURN_RIGHT}
          then drive n j' else Some (a, j'))"

definition load_vehicle :: "journey \<Rightarrow> route_action_t \<times> journey" where
  "load_vehicle = (\<lambda>(plan, place, h).
     case RoutePlanner_OnLoadOn plan of (a, plan') \<Rightarrow> (a, plan', place, turned a h))"

definition unload_vehicle :: "journey \<Rightarrow> route_action_t \<times> journey" where
  "unload_vehicle = (\<lambda>(plan, place, h).
     case RoutePlanner_OnLoadOff plan of (a, plan') \<Rightarrow> (a, plan', place, h))"

fun zone_of_position :: "uart_linetracer_position_t \<Rightarrow> zone" where
  "zone_of_position UART_LINETRACER_POSITION_DEST_C = Zone_C"
| "zone_of_position UART_LINETRACER_POSITION_DEST_B = Zone_B"
| "zone_of_position _ = Zone_A"

fun zone_of_route :: "uart_linetracer_route_t \<Rightarrow> zone" where
  "zone_of_route UART_LINETRACER_ROUTE_3 = Zone_C"
| "zone_of_route UART_LINETRACER_ROUTE_2 = Zone_B"
| "zone_of_route _ = Zone_A"

primrec destination_of :: "zone \<Rightarrow> uart_linetracer_position_t" where
  "destination_of Zone_A = UART_LINETRACER_POSITION_DEST_A"
| "destination_of Zone_B = UART_LINETRACER_POSITION_DEST_B"
| "destination_of Zone_C = UART_LINETRACER_POSITION_DEST_C"

text \<open>
  A job as the planner sees it: the vehicle leaves the unload point of its position facing the
  common line, drives to the pickup of its route, turns around once it is loaded, drives to the
  unload point and is unloaded. Seven legs reach either stop.
\<close>

definition run_job ::
    "uart_linetracer_position_t \<Rightarrow> uart_linetracer_route_t \<Rightarrow> route_plan_t
     \<Rightarrow> (journey \<times> journey \<times> route_action_t \<times> route_plan_t) option" where
  "run_job position route plan =
     (case drive 7 (snd (RoutePlanner_Create position route plan),
                    Unload_Point (zone_of_position position), North) of
        Some (ROUTE_ACTION_STOP_AT_PICKUP, pickup) \<Rightarrow>
          (case load_vehicle pickup of
             (ROUTE_ACTION_TURN_AROUND, loaded) \<Rightarrow>
               (case drive 7 loaded of
                  Some (ROUTE_ACTION_STOP_AT_DEST, dest) \<Rightarrow>
                    (case unload_vehicle dest of
                       (a, plan', _) \<Rightarrow> Some (pickup, dest, a, plan'))
                | _ \<Rightarrow> None)
           | _ \<Rightarrow> None)
      | _ \<Rightarrow> None)"

lemmas journey_defs = drive_leg_def load_vehicle_def unload_vehicle_def run_job_def
  RoutePlanner_Create_def RoutePlanner_Reset_def

lemma drive_numeral [simp]:
  "drive (numeral k) j =
     (case drive_leg j of
        None \<Rightarrow> None
      | Some (a, j') \<Rightarrow>
          if a \<in> {ROUTE_ACTION_GO_STRAIGHT, ROUTE_ACTION_TURN_LEFT, ROUTE_ACTION_TURN_RIGHT}
          then drive (pred_numeral k) j' else Some (a, j'))"
  by (simp add: numeral_eq_Suc del: One_nat_def)

text \<open>
  C6: For every position and every route the planner's actions, carried out on the map of the
  floor one marker at a time, take the vehicle to the pickup of the route's zone, after loading
  to its unload point, and after unloading the job is complete with the zone's destination: no
  turn is wrong and no junction is missed or invented.
\<close>

theorem route_reaches_its_zone:
  assumes "position \<noteq> UART_LINETRACER_POSITION_NONE" and "route \<noteq> UART_LINETRACER_ROUTE_NONE"
  shows "\<exists>pickup dest plan'.
     run_job position route plan = Some (pickup, dest, ROUTE_ACTION_JOB_COMPLETE, plan')
     \<and> fst (snd pickup) = Pickup (zone_of_route route) \<and> plan_phase (fst pickup) = ROUTE_PHASE_WAITING_LOAD
     \<and> snd dest = (Unload_Point (zone_of_route route), South)
     \<and> plan_phase (fst dest) = ROUTE_PHASE_UNLOADING
     \<and> plan_phase plan' = ROUTE_PHASE_COMPLETE
     \<and> RoutePlanner_TargetDestination plan' = destination_of (zone_of_route route)"
  using assms
  by (cases position; cases route)
     (simp_all add: journey_defs route_planner_defs Let_def RoutePlanner_TargetDestination_def)

theorem route_reaches_its_zone_witness:
  "\<exists>pickup dest plan'.
     run_job UART_LINETRACER_POSITION_DEST_A UART_LINETRACER_ROUTE_3
       \<lparr>plan_phase = ROUTE_PHASE_ERROR, common_direction = ROUTE_DIRECTION_LEFT,
        expected_marker = ROUTE_MARKER_DEST, origin_index = 7, target_index = 1,
        junctions_total = 3, junctions_remaining = 9, plan_loaded = True, plan_valid = False\<rparr>
     = Some (pickup, dest, ROUTE_ACTION_JOB_COMPLETE, plan')
     \<and> snd dest = (Unload_Point Zone_C, South)"
  using route_reaches_its_zone [of UART_LINETRACER_POSITION_DEST_A UART_LINETRACER_ROUTE_3
    "\<lparr>plan_phase = ROUTE_PHASE_ERROR, common_direction = ROUTE_DIRECTION_LEFT,
      expected_marker = ROUTE_MARKER_DEST, origin_index = 7, target_index = 1,
      junctions_total = 3, junctions_remaining = 9, plan_loaded = True, plan_valid = False\<rparr>"]
  by auto

text \<open>
  Every plan reachable through the planner's operations is well formed (phase, expected
  marker and remaining junctions belong together), and a marker is an error for it exactly when
  it expects none.
\<close>

theorem route_plans_well_formed:
  assumes "plan_reachable plan"
  shows "plan_typed plan
     \<and> (fst (RoutePlanner_OnMarker plan) = ROUTE_ACTION_ERROR
           \<longleftrightarrow> expected_marker plan = ROUTE_MARKER_NONE)"
  using reachable_typed [OF assms] typed_progress by blast+

theorem route_plans_well_formed_witness:
  "plan_typed (snd (RoutePlanner_OnMarker (snd (RoutePlanner_Create
     UART_LINETRACER_POSITION_DEST_C UART_LINETRACER_ROUTE_1
       \<lparr>plan_phase = ROUTE_PHASE_ERROR, common_direction = ROUTE_DIRECTION_LEFT,
        expected_marker = ROUTE_MARKER_DEST, origin_index = 7, target_index = 1,
        junctions_total = 3, junctions_remaining = 9, plan_loaded = True, plan_valid = False\<rparr>))))"
  using route_plans_well_formed [OF plan_marker [OF plan_create]] by blast

end
