(* ===== verification/Linetracer_Control.thy ===== *)
theory Linetracer_Control
  imports Linetracer_Route
begin

text \<open>
  The control logic of the line tracer
  (\<open>stm32/linetracer-controller/Application/Src/control_logic.c\<close> and \<open>Inc/control_logic.h\<close>):
  the state machine of a job, the commands of the server, the events of the safety task, the
  markers, and the junction maneuvers driven by the samples of the line sensors. The pointers
  that the functions take are addresses of variables of the control task and never \<open>NULL\<close>.
\<close>

section \<open>State\<close>

abbreviation (input) CONTROL_JUNCTION_CENTER_ADVANCE_MS :: u32 where
  "CONTROL_JUNCTION_CENTER_ADVANCE_MS \<equiv> 450"
abbreviation (input) CONTROL_JUNCTION_CROSS_CLEAR_MS :: u32 where "CONTROL_JUNCTION_CROSS_CLEAR_MS \<equiv> 50"
abbreviation (input) CONTROL_C_JUNCTION_CROSS_CLEAR_MS :: u32 where
  "CONTROL_C_JUNCTION_CROSS_CLEAR_MS \<equiv> 20"
abbreviation (input) CONTROL_TURN_SOURCE_CLEAR_MS :: u32 where "CONTROL_TURN_SOURCE_CLEAR_MS \<equiv> 20"
abbreviation (input) CONTROL_TURN_TARGET_CENTERED_MS :: u32 where
  "CONTROL_TURN_TARGET_CENTERED_MS \<equiv> 10"
abbreviation (input) CONTROL_TURN_REACQUIRE_CENTERED_MS :: u32 where
  "CONTROL_TURN_REACQUIRE_CENTERED_MS \<equiv> 20"
abbreviation (input) CONTROL_TURN_REACQUIRE_MAX_MS :: u32 where "CONTROL_TURN_REACQUIRE_MAX_MS \<equiv> 100"
abbreviation (input) CONTROL_JUNCTION_EXIT_GUARD_MS :: u32 where "CONTROL_JUNCTION_EXIT_GUARD_MS \<equiv> 100"
abbreviation (input) CONTROL_MARKER_APPROACH_HOLD_MS :: u32 where "CONTROL_MARKER_APPROACH_HOLD_MS \<equiv> 20"
abbreviation (input) CONTROL_PICKUP_REVERSE_MS :: u32 where "CONTROL_PICKUP_REVERSE_MS \<equiv> 1000"
abbreviation (input) CONTROL_PICKUP_UTURN_MIN_PIVOT_MS :: u32 where
  "CONTROL_PICKUP_UTURN_MIN_PIVOT_MS \<equiv> 450"
abbreviation (input) UART_COMMAND_TIMEOUT_MS :: u32 where "UART_COMMAND_TIMEOUT_MS \<equiv> 3000"
abbreviation (input) UART_LINETRACER_JOB_ID_NONE :: u16 where "UART_LINETRACER_JOB_ID_NONE \<equiv> 0"

datatype control_junction_phase_t =
    CONTROL_JUNCTION_IDLE | CONTROL_JUNCTION_PICKUP_REVERSE | CONTROL_JUNCTION_APPROACH_CENTER
  | CONTROL_JUNCTION_CROSS_STRAIGHT | CONTROL_JUNCTION_TURN_CLEAR_SOURCE
  | CONTROL_JUNCTION_TURN_SEARCH_TARGET | CONTROL_JUNCTION_TURN_REACQUIRE

datatype control_marker_approach_state_t =
    CONTROL_MARKER_APPROACH_IDLE | CONTROL_MARKER_APPROACH_HOLD | CONTROL_MARKER_APPROACH_REJECTED

record control_context_t =
  ctl_state :: linetracer_control_state_t
  resume_state :: linetracer_control_state_t
  stop_reason :: linetracer_stop_reason_t
  current_position :: uart_linetracer_position_t
  active_route :: uart_linetracer_route_t
  state_entered_at_ms :: u32
  last_command_at_ms :: u32
  marker_wait_started_at_ms :: u32
  last_marker_detected_at_ms :: u32
  junction_phase_started_at_ms :: u32
  junction_turn_started_at_ms :: u32
  junction_condition_since_ms :: u32
  junction_candidate_since_ms :: u32
  junction_guard_until_ms :: u32
  delayed_marker_ignore_before_ms :: u32
  marker_approach_started_at_ms :: u32
  c_marker_rearm_clear_since_ms :: u32
  active_job_id :: u16
  last_marker_code :: app_marker_code_t
  junction_phase :: control_junction_phase_t
  marker_approach_state :: control_marker_approach_state_t
  junction_action :: route_action_t
  route_active :: bool
  resume_valid :: bool
  safety_latched :: bool
  safety_error_code :: u8
  last_marker_valid :: bool
  junction_condition_active :: bool
  junction_candidate_active :: bool
  junction_target_edge_seen :: bool
  junction_guard_active :: bool
  delayed_marker_ignore_valid :: bool
  c_marker_rearm_pending :: bool
  c_marker_rearm_clear_active :: bool
  departure_turn_required :: bool
  load_wait_armed :: bool
  route_plan :: route_plan_t
  pending_route_action :: route_action_t

record control_line_result_t =
  line_action :: route_action_t
  line_action_valid :: bool
  maneuver_completed :: bool
  line_state_changed :: bool

text \<open>The error of a result is kept as its code: a safety event can carry any byte.\<close>

record control_command_result_t =
  res_status :: uart_status_t
  res_error_code :: u8
  res_previous_state :: linetracer_control_state_t
  res_current_state :: linetracer_control_state_t
  res_unload_command :: app_unload_command_type_t
  res_action_job_id :: u16
  res_action_route_id :: uart_linetracer_route_t
  res_accepted :: bool
  res_state_changed :: bool
  res_status_requested :: bool

record control_job_completion_t =
  done_job_id :: u16
  done_route_id :: uart_linetracer_route_t
  done_destination :: uart_linetracer_position_t
  done_completed :: bool

section \<open>Small helpers\<close>

definition ControlLogic_HasActiveJob :: "control_context_t \<Rightarrow> bool" where
  "ControlLogic_HasActiveJob c \<longleftrightarrow>
     route_active c \<and> uart_linetracer_job_id_is_valid (to_u32 (active_job_id c))
     \<and> uart_linetracer_route_is_valid (route_code (active_route c))"

definition ControlLogic_IsNinetyDegreeTurn :: "route_action_t \<Rightarrow> bool" where
  "ControlLogic_IsNinetyDegreeTurn a \<longleftrightarrow> a = ROUTE_ACTION_TURN_LEFT \<or> a = ROUTE_ACTION_TURN_RIGHT"

definition ControlLogic_TimeReached :: "u32 \<Rightarrow> u32 \<Rightarrow> bool" where
  "ControlLogic_TimeReached now deadline \<longleftrightarrow> 0 \<le> sint (now - deadline)"

definition ControlLogic_LineSamplePredatesActiveTurn :: "control_context_t \<Rightarrow> u32 \<Rightarrow> bool" where
  "ControlLogic_LineSamplePredatesActiveTurn c sampled_at \<longleftrightarrow>
     (if junction_turn_started_at_ms c = 0 then False
      else if junction_phase c \<noteq> CONTROL_JUNCTION_TURN_CLEAR_SOURCE
              \<and> junction_phase c \<noteq> CONTROL_JUNCTION_TURN_SEARCH_TARGET
              \<and> junction_phase c \<noteq> CONTROL_JUNCTION_TURN_REACQUIRE then False
      else sint (sampled_at - junction_turn_started_at_ms c) \<le> 0)"

definition ControlLogic_ResetMarkerApproach :: "control_context_t \<Rightarrow> control_context_t" where
  "ControlLogic_ResetMarkerApproach c =
     c\<lparr>marker_approach_started_at_ms := 0, marker_approach_state := CONTROL_MARKER_APPROACH_IDLE\<rparr>"

definition ControlLogic_ResetCMarkerRearm :: "control_context_t \<Rightarrow> control_context_t" where
  "ControlLogic_ResetCMarkerRearm c =
     c\<lparr>c_marker_rearm_clear_since_ms := 0, c_marker_rearm_pending := False,
       c_marker_rearm_clear_active := False\<rparr>"

definition ControlLogic_StartCMarkerRearm :: "control_context_t \<Rightarrow> u32 \<Rightarrow> control_context_t" where
  "ControlLogic_StartCMarkerRearm c now =
     ControlLogic_ResetMarkerApproach
       (c\<lparr>c_marker_rearm_clear_since_ms := now, c_marker_rearm_pending := True,
          c_marker_rearm_clear_active := False\<rparr>)"

definition ControlLogic_UpdateCMarkerRearm ::
    "control_context_t \<Rightarrow> bool \<Rightarrow> u32 \<Rightarrow> bool \<times> control_context_t" where
  "ControlLogic_UpdateCMarkerRearm c both_white now =
     (if \<not> c_marker_rearm_pending c then (False, c)
      else
        let c = ControlLogic_ResetMarkerApproach c
        in if \<not> both_white
           then (True, c\<lparr>c_marker_rearm_clear_since_ms := now, c_marker_rearm_clear_active := False\<rparr>)
           else if \<not> c_marker_rearm_clear_active c
           then (True, c\<lparr>c_marker_rearm_clear_since_ms := now, c_marker_rearm_clear_active := True\<rparr>)
           else if now - c_marker_rearm_clear_since_ms c \<ge> CONTROL_C_JUNCTION_CROSS_CLEAR_MS
           then (True, ControlLogic_ResetCMarkerRearm c)
           else (True, c))"

definition ControlLogic_StateAllowsMarkerApproach :: "linetracer_control_state_t \<Rightarrow> bool" where
  "ControlLogic_StateAllowsMarkerApproach s \<longleftrightarrow>
     s \<in> {LINETRACER_CONTROL_MOVING_TO_SOURCE_JUNCTION, LINETRACER_CONTROL_MOVING_ON_COMMON_LINE,
          LINETRACER_CONTROL_MOVING_TO_PICKUP, LINETRACER_CONTROL_MOVING_TO_DEST}"

definition ControlLogic_StateExpectsMarker :: "linetracer_control_state_t \<Rightarrow> bool" where
  "ControlLogic_StateExpectsMarker s \<longleftrightarrow>
     s = LINETRACER_CONTROL_MOVING_TO_SOURCE_JUNCTION \<or> s = LINETRACER_CONTROL_MOVING_ON_COMMON_LINE
     \<or> s = LINETRACER_CONTROL_MOVING_TO_PICKUP \<or> s = LINETRACER_CONTROL_MOVING_TO_DEST"

definition ControlLogic_MarkerCodeForIndex :: "u8 \<Rightarrow> app_marker_code_t" where
  "ControlLogic_MarkerCodeForIndex index = APP_MARKER_JUNCTION"

definition ControlLogic_ExpectedMarkerCode :: "control_context_t \<Rightarrow> app_marker_code_t" where
  "ControlLogic_ExpectedMarkerCode c =
     (if \<not> plan_valid (route_plan c) then APP_MARKER_NONE
      else case expected_marker (route_plan c) of
          ROUTE_MARKER_DEST_EXIT \<Rightarrow> ControlLogic_MarkerCodeForIndex (origin_index (route_plan c))
        | ROUTE_MARKER_SOURCE_JUNCTION \<Rightarrow> APP_MARKER_JUNCTION
        | ROUTE_MARKER_COMMON_JUNCTION \<Rightarrow> APP_MARKER_JUNCTION
        | ROUTE_MARKER_C_PICKUP_TURN \<Rightarrow> APP_MARKER_JUNCTION
        | ROUTE_MARKER_C_RETURN_JUNCTION \<Rightarrow> APP_MARKER_JUNCTION
        | ROUTE_MARKER_TARGET_JUNCTION \<Rightarrow> APP_MARKER_JUNCTION
        | ROUTE_MARKER_RETURN_JUNCTION \<Rightarrow> APP_MARKER_JUNCTION
        | ROUTE_MARKER_PICKUP \<Rightarrow> ControlLogic_MarkerCodeForIndex (target_index (route_plan c))
        | ROUTE_MARKER_PICKUP_EXIT \<Rightarrow> ControlLogic_MarkerCodeForIndex (target_index (route_plan c))
        | ROUTE_MARKER_DEST \<Rightarrow> ControlLogic_MarkerCodeForIndex (target_index (route_plan c))
        | ROUTE_MARKER_NONE \<Rightarrow> APP_MARKER_NONE)"

definition ControlLogic_UpdateMarkerApproach ::
    "control_context_t \<Rightarrow> bool \<Rightarrow> bool \<Rightarrow> bool \<Rightarrow> u32 \<Rightarrow> control_context_t" where
  "ControlLogic_UpdateMarkerApproach c line_left line_right guard_active now =
     (if junction_phase c \<noteq> CONTROL_JUNCTION_IDLE \<or> guard_active
         \<or> \<not> ControlLogic_StateAllowsMarkerApproach (ctl_state c)
         \<or> ControlLogic_ExpectedMarkerCode c \<noteq> APP_MARKER_JUNCTION
      then ControlLogic_ResetMarkerApproach c
      else if line_left = line_right then ControlLogic_ResetMarkerApproach c
      else if marker_approach_state c = CONTROL_MARKER_APPROACH_IDLE
      then c\<lparr>marker_approach_started_at_ms := now,
             marker_approach_state := CONTROL_MARKER_APPROACH_HOLD\<rparr>
      else if marker_approach_state c = CONTROL_MARKER_APPROACH_HOLD
              \<and> now - marker_approach_started_at_ms c \<ge> CONTROL_MARKER_APPROACH_HOLD_MS
      then c\<lparr>marker_approach_state := CONTROL_MARKER_APPROACH_REJECTED\<rparr>
      else c)"

section \<open>Junction maneuvers\<close>

definition ControlLogic_SetJunctionPhase ::
    "control_context_t \<Rightarrow> control_junction_phase_t \<Rightarrow> u32 \<Rightarrow> control_context_t" where
  "ControlLogic_SetJunctionPhase c phase now =
     (let c = c\<lparr>junction_phase := phase, junction_phase_started_at_ms := now,
                junction_condition_since_ms := now, junction_condition_active := False\<rparr>
      in if phase = CONTROL_JUNCTION_TURN_SEARCH_TARGET
         then c\<lparr>junction_target_edge_seen := False\<rparr> else c)"

definition ControlLogic_ResetJunctionManeuver :: "control_context_t \<Rightarrow> control_context_t" where
  "ControlLogic_ResetJunctionManeuver c =
     ControlLogic_ResetMarkerApproach
       (c\<lparr>junction_phase := CONTROL_JUNCTION_IDLE, junction_action := ROUTE_ACTION_NONE,
          junction_phase_started_at_ms := 0, junction_turn_started_at_ms := 0,
          junction_condition_since_ms := 0, junction_condition_active := False,
          junction_candidate_since_ms := 0, junction_candidate_active := False,
          junction_target_edge_seen := False\<rparr>)"

definition ControlLogic_RejectDelayedMarkersThrough ::
    "control_context_t \<Rightarrow> u32 \<Rightarrow> control_context_t" where
  "ControlLogic_RejectDelayedMarkersThrough c now =
     c\<lparr>delayed_marker_ignore_before_ms := now, delayed_marker_ignore_valid := True\<rparr>"

definition ControlLogic_StartJunctionGuard :: "control_context_t \<Rightarrow> u32 \<Rightarrow> control_context_t" where
  "ControlLogic_StartJunctionGuard c now =
     ControlLogic_RejectDelayedMarkersThrough
       (c\<lparr>junction_guard_until_ms := now + CONTROL_JUNCTION_EXIT_GUARD_MS,
          junction_guard_active := True\<rparr>) now"

definition ControlLogic_JunctionGuardActive ::
    "control_context_t \<Rightarrow> u32 \<Rightarrow> bool \<times> control_context_t" where
  "ControlLogic_JunctionGuardActive c now =
     (if \<not> junction_guard_active c then (False, c)
      else if ControlLogic_TimeReached now (junction_guard_until_ms c)
      then (False, c\<lparr>junction_guard_active := False\<rparr>)
      else (True, c))"

definition ControlLogic_ConditionStable ::
    "control_context_t \<Rightarrow> bool \<Rightarrow> u32 \<Rightarrow> u32 \<Rightarrow> bool \<times> control_context_t" where
  "ControlLogic_ConditionStable c condition now stable_ms =
     (if \<not> condition
      then (False, c\<lparr>junction_condition_active := False, junction_condition_since_ms := now\<rparr>)
      else
        let c = (if \<not> junction_condition_active c
                 then c\<lparr>junction_condition_active := True, junction_condition_since_ms := now\<rparr>
                 else c)
        in (now - junction_condition_since_ms c \<ge> stable_ms, c))"

definition ControlLogic_StartJunctionManeuver ::
    "control_context_t \<Rightarrow> route_action_t \<Rightarrow> bool \<Rightarrow> u32 \<Rightarrow> bool \<times> control_context_t" where
  "ControlLogic_StartJunctionManeuver c action from_junction now =
     (if junction_phase c \<noteq> CONTROL_JUNCTION_IDLE then (False, c)
      else
        let started = (\<lambda>c. (True, ControlLogic_ResetMarkerApproach
                (c\<lparr>junction_action := action, junction_candidate_active := False\<rparr>)))
        in if action = ROUTE_ACTION_GO_STRAIGHT
           then started (ControlLogic_SetJunctionPhase c CONTROL_JUNCTION_CROSS_STRAIGHT now)
           else if ControlLogic_IsNinetyDegreeTurn action
           then (if from_junction
                 then started (ControlLogic_SetJunctionPhase c CONTROL_JUNCTION_APPROACH_CENTER now)
                 else started ((ControlLogic_SetJunctionPhase c CONTROL_JUNCTION_TURN_CLEAR_SOURCE now)
                        \<lparr>junction_turn_started_at_ms := now\<rparr>))
           else if action = ROUTE_ACTION_TURN_AROUND
           then (if ctl_state c = LINETRACER_CONTROL_TURNING_AT_PICKUP
                 then started ((ControlLogic_SetJunctionPhase c CONTROL_JUNCTION_PICKUP_REVERSE now)
                        \<lparr>junction_turn_started_at_ms := 0\<rparr>)
                 else started ((ControlLogic_SetJunctionPhase c CONTROL_JUNCTION_TURN_CLEAR_SOURCE now)
                        \<lparr>junction_turn_started_at_ms := now\<rparr>))
           else (False, c))"

section \<open>Errors, turning and the states\<close>

definition ControlLogic_RouteDestination ::
    "uart_linetracer_route_t \<Rightarrow> uart_linetracer_position_t" where
  "ControlLogic_RouteDestination r =
     (case r of
        UART_LINETRACER_ROUTE_1 \<Rightarrow> UART_LINETRACER_POSITION_DEST_A
      | UART_LINETRACER_ROUTE_2 \<Rightarrow> UART_LINETRACER_POSITION_DEST_B
      | UART_LINETRACER_ROUTE_3 \<Rightarrow> UART_LINETRACER_POSITION_DEST_C
      | UART_LINETRACER_ROUTE_NONE \<Rightarrow> UART_LINETRACER_POSITION_NONE)"

definition ControlLogic_DepartureState :: "control_context_t \<Rightarrow> linetracer_control_state_t" where
  "ControlLogic_DepartureState c =
     (if plan_phase (route_plan c) = ROUTE_PHASE_TO_PICKUP
      then LINETRACER_CONTROL_MOVING_TO_PICKUP
      else LINETRACER_CONTROL_MOVING_TO_SOURCE_JUNCTION)"

definition ControlLogic_SafetyError :: "control_context_t \<Rightarrow> u8" where
  "ControlLogic_SafetyError c =
     (if safety_error_code c \<noteq> error_code UART_ERROR_NONE then safety_error_code c
      else if stop_reason c = LINETRACER_STOP_REASON_EMERGENCY
      then error_code UART_ERROR_EMERGENCY_STOP
      else error_code UART_ERROR_BUSY)"

definition ControlLogic_CurrentError :: "control_context_t \<Rightarrow> u8" where
  "ControlLogic_CurrentError c =
     (if safety_error_code c \<noteq> error_code UART_ERROR_NONE
      then (if uart_linetracer_fault_error_is_valid (to_u32 (safety_error_code c))
            then safety_error_code c else error_code UART_ERROR_INTERNAL)
      else if stop_reason c = LINETRACER_STOP_REASON_EMERGENCY
      then error_code UART_ERROR_EMERGENCY_STOP
      else if stop_reason c \<in> {LINETRACER_STOP_REASON_TURN_TIMEOUT, LINETRACER_STOP_REASON_COMM_TIMEOUT}
      then error_code UART_ERROR_TIMEOUT
      else if stop_reason c \<in> {LINETRACER_STOP_REASON_OBSTACLE, LINETRACER_STOP_REASON_LINE_LOST,
                LINETRACER_STOP_REASON_LOAD_LOST, LINETRACER_STOP_REASON_OVERLOAD,
                LINETRACER_STOP_REASON_MARKER_SEQUENCE, LINETRACER_STOP_REASON_SENSOR_FAULT}
      then error_code UART_ERROR_SENSOR
      else if ctl_state c = LINETRACER_CONTROL_ERROR then error_code UART_ERROR_INTERNAL
      else error_code UART_ERROR_NONE)"

definition ControlLogic_SafetyState :: "linetracer_stop_reason_t \<Rightarrow> linetracer_control_state_t" where
  "ControlLogic_SafetyState reason =
     (if reason = LINETRACER_STOP_REASON_EMERGENCY then LINETRACER_CONTROL_EMERGENCY_STOPPED
      else if reason = LINETRACER_STOP_REASON_OBSTACLE then LINETRACER_CONTROL_OBSTACLE_STOP
      else LINETRACER_CONTROL_ERROR)"

definition ControlLogic_IsTurning :: "control_context_t \<Rightarrow> bool" where
  "ControlLogic_IsTurning c \<longleftrightarrow>
     ctl_state c = LINETRACER_CONTROL_TURNING_FROM_DEST
     \<or> ctl_state c = LINETRACER_CONTROL_TURNING_TO_PICKUP
     \<or> ctl_state c = LINETRACER_CONTROL_TURNING_AT_PICKUP
     \<or> (ctl_state c = LINETRACER_CONTROL_MOVING_ON_COMMON_LINE
        \<and> (pending_route_action c = ROUTE_ACTION_TURN_LEFT
           \<or> pending_route_action c = ROUTE_ACTION_TURN_RIGHT))
     \<or> (ctl_state c = LINETRACER_CONTROL_MOVING_TO_DEST
        \<and> (pending_route_action c = ROUTE_ACTION_TURN_LEFT
           \<or> pending_route_action c = ROUTE_ACTION_TURN_RIGHT))"

definition ControlLogic_IsTurnAroundActive :: "control_context_t \<Rightarrow> bool" where
  "ControlLogic_IsTurnAroundActive c \<longleftrightarrow>
     (if junction_phase c \<noteq> CONTROL_JUNCTION_IDLE \<and> junction_action c = ROUTE_ACTION_TURN_AROUND
      then True
      else if pending_route_action c \<noteq> ROUTE_ACTION_TURN_AROUND then False
      else if ControlLogic_IsTurning c then True
      else ctl_state c = LINETRACER_CONTROL_OBSTACLE_STOP \<and> resume_valid c
           \<and> resume_state c \<in> {LINETRACER_CONTROL_TURNING_FROM_DEST,
                LINETRACER_CONTROL_TURNING_TO_PICKUP, LINETRACER_CONTROL_TURNING_AT_PICKUP})"

definition ControlLogic_JunctionManeuverActive :: "control_context_t \<Rightarrow> bool" where
  "ControlLogic_JunctionManeuverActive c \<longleftrightarrow> junction_phase c \<noteq> CONTROL_JUNCTION_IDLE"

definition ControlLogic_JunctionReacquireActive :: "control_context_t \<Rightarrow> bool" where
  "ControlLogic_JunctionReacquireActive c \<longleftrightarrow> junction_phase c = CONTROL_JUNCTION_TURN_REACQUIRE"

definition ControlLogic_MarkerApproachHoldActive :: "control_context_t \<Rightarrow> bool" where
  "ControlLogic_MarkerApproachHoldActive c \<longleftrightarrow> marker_approach_state c = CONTROL_MARKER_APPROACH_HOLD"

definition ControlLogic_StartPendingManeuver :: "control_context_t \<Rightarrow> u32 \<Rightarrow> bool \<times> control_context_t" where
  "ControlLogic_StartPendingManeuver c now =
     (if \<not> ControlLogic_HasActiveJob c \<or> ControlLogic_JunctionManeuverActive c
         \<or> \<not> ControlLogic_IsTurning c then (False, c)
      else if pending_route_action c \<noteq> ROUTE_ACTION_TURN_LEFT
              \<and> pending_route_action c \<noteq> ROUTE_ACTION_TURN_RIGHT
              \<and> pending_route_action c \<noteq> ROUTE_ACTION_TURN_AROUND then (False, c)
      else ControlLogic_StartJunctionManeuver c (pending_route_action c)
             (ControlLogic_IsNinetyDegreeTurn (pending_route_action c)) now)"

definition ControlLogic_UpdateTimedManeuver :: "control_context_t \<Rightarrow> u32 \<Rightarrow> bool \<times> control_context_t" where
  "ControlLogic_UpdateTimedManeuver c now =
     (if \<not> ControlLogic_HasActiveJob c \<or> safety_latched c
         \<or> ctl_state c \<noteq> LINETRACER_CONTROL_TURNING_AT_PICKUP
         \<or> junction_phase c \<noteq> CONTROL_JUNCTION_PICKUP_REVERSE
         \<or> junction_action c \<noteq> ROUTE_ACTION_TURN_AROUND then (False, c)
      else if now - junction_phase_started_at_ms c < CONTROL_PICKUP_REVERSE_MS then (False, c)
      else (True, ControlLogic_SetJunctionPhase (c\<lparr>junction_turn_started_at_ms := now\<rparr>)
                    CONTROL_JUNCTION_TURN_CLEAR_SOURCE now))"

definition ControlLogic_JunctionMotorAction :: "control_context_t \<Rightarrow> route_action_t" where
  "ControlLogic_JunctionMotorAction c =
     (case junction_phase c of
        CONTROL_JUNCTION_PICKUP_REVERSE \<Rightarrow> ROUTE_ACTION_REVERSE
      | CONTROL_JUNCTION_APPROACH_CENTER \<Rightarrow> ROUTE_ACTION_GO_STRAIGHT
      | CONTROL_JUNCTION_CROSS_STRAIGHT \<Rightarrow> ROUTE_ACTION_GO_STRAIGHT
      | CONTROL_JUNCTION_TURN_CLEAR_SOURCE \<Rightarrow> junction_action c
      | CONTROL_JUNCTION_TURN_SEARCH_TARGET \<Rightarrow> junction_action c
      | CONTROL_JUNCTION_TURN_REACQUIRE \<Rightarrow> ROUTE_ACTION_GO_STRAIGHT
      | CONTROL_JUNCTION_IDLE \<Rightarrow> ROUTE_ACTION_NONE)"

definition ControlLogic_ShouldIgnoreMarker ::
    "control_context_t \<Rightarrow> app_marker_code_t \<Rightarrow> u32 \<Rightarrow> u32 \<Rightarrow> bool" where
  "ControlLogic_ShouldIgnoreMarker c marker_code detected_at now \<longleftrightarrow>
     (if ControlLogic_JunctionManeuverActive c then True
      else if c_marker_rearm_pending c then True
      else if junction_guard_active c \<and> \<not> ControlLogic_TimeReached now (junction_guard_until_ms c)
      then True
      else delayed_marker_ignore_valid c \<and> detected_at \<noteq> 0
           \<and> sint (detected_at - delayed_marker_ignore_before_ms c) \<le> 0)"

definition ControlLogic_StateCanResume :: "linetracer_control_state_t \<Rightarrow> bool" where
  "ControlLogic_StateCanResume s \<longleftrightarrow>
     s \<in> {LINETRACER_CONTROL_TURNING_FROM_DEST, LINETRACER_CONTROL_MOVING_TO_SOURCE_JUNCTION,
          LINETRACER_CONTROL_MOVING_ON_COMMON_LINE, LINETRACER_CONTROL_TURNING_TO_PICKUP,
          LINETRACER_CONTROL_MOVING_TO_PICKUP, LINETRACER_CONTROL_PICKUP_READY,
          LINETRACER_CONTROL_WAITING_LOAD, LINETRACER_CONTROL_TURNING_AT_PICKUP,
          LINETRACER_CONTROL_MOVING_TO_DEST}"

definition ControlLogic_StateCanPauseForObstacle :: "linetracer_control_state_t \<Rightarrow> bool" where
  "ControlLogic_StateCanPauseForObstacle s \<longleftrightarrow>
     (if s = LINETRACER_CONTROL_INITIALIZING \<or> s = LINETRACER_CONTROL_WAITING_AT_DEST
         \<or> s = LINETRACER_CONTROL_UNLOADING then True
      else ControlLogic_StateCanResume s)"

definition ControlLogic_CanResumeAfterEmergency :: "control_context_t \<Rightarrow> bool" where
  "ControlLogic_CanResumeAfterEmergency c \<longleftrightarrow>
     (if \<not> ControlLogic_HasActiveJob c then False
      else if ControlLogic_StateCanResume (ctl_state c) then True
      else safety_latched c \<and> resume_valid c \<and> ControlLogic_StateCanResume (resume_state c))"

definition ControlLogic_RestartResumeTimers :: "control_context_t \<Rightarrow> u32 \<Rightarrow> control_context_t" where
  "ControlLogic_RestartResumeTimers c now =
     (let c = ControlLogic_ResetMarkerApproach
                (c\<lparr>state_entered_at_ms := now, junction_condition_since_ms := now,
                   junction_condition_active := False, junction_candidate_since_ms := now,
                   junction_candidate_active := False\<rparr>);
          c = (if ControlLogic_StateExpectsMarker (ctl_state c)
               then c\<lparr>marker_wait_started_at_ms := now\<rparr> else c);
          c = (if ControlLogic_IsTurning c
               then c\<lparr>junction_phase_started_at_ms := now, junction_turn_started_at_ms := now\<rparr>
               else c);
          c = (if junction_guard_active c
               then c\<lparr>junction_guard_until_ms := now + CONTROL_JUNCTION_EXIT_GUARD_MS\<rparr> else c)
      in c\<lparr>delayed_marker_ignore_before_ms := now, delayed_marker_ignore_valid := True\<rparr>)"

section \<open>Transitions\<close>

fun ControlLogic_NormalTransitionIsAllowed ::
    "linetracer_control_state_t \<Rightarrow> linetracer_control_state_t \<Rightarrow> bool" where
  "ControlLogic_NormalTransitionIsAllowed LINETRACER_CONTROL_INITIALIZING next_state =
     (next_state = LINETRACER_CONTROL_WAITING_AT_DEST)"
| "ControlLogic_NormalTransitionIsAllowed LINETRACER_CONTROL_WAITING_AT_DEST next_state =
     (next_state = LINETRACER_CONTROL_TURNING_FROM_DEST
      \<or> next_state = LINETRACER_CONTROL_MOVING_TO_SOURCE_JUNCTION
      \<or> next_state = LINETRACER_CONTROL_MOVING_TO_PICKUP
      \<or> next_state = LINETRACER_CONTROL_UNLOADING)"
| "ControlLogic_NormalTransitionIsAllowed LINETRACER_CONTROL_TURNING_FROM_DEST next_state =
     (next_state = LINETRACER_CONTROL_MOVING_TO_SOURCE_JUNCTION
      \<or> next_state = LINETRACER_CONTROL_MOVING_TO_PICKUP)"
| "ControlLogic_NormalTransitionIsAllowed LINETRACER_CONTROL_MOVING_TO_SOURCE_JUNCTION next_state =
     (next_state = LINETRACER_CONTROL_MOVING_ON_COMMON_LINE
      \<or> next_state = LINETRACER_CONTROL_MOVING_TO_PICKUP)"
| "ControlLogic_NormalTransitionIsAllowed LINETRACER_CONTROL_MOVING_ON_COMMON_LINE next_state =
     (next_state = LINETRACER_CONTROL_TURNING_TO_PICKUP)"
| "ControlLogic_NormalTransitionIsAllowed LINETRACER_CONTROL_TURNING_TO_PICKUP next_state =
     (next_state = LINETRACER_CONTROL_MOVING_TO_PICKUP)"
| "ControlLogic_NormalTransitionIsAllowed LINETRACER_CONTROL_MOVING_TO_PICKUP next_state =
     (next_state = LINETRACER_CONTROL_PICKUP_READY)"
| "ControlLogic_NormalTransitionIsAllowed LINETRACER_CONTROL_PICKUP_READY next_state =
     (next_state = LINETRACER_CONTROL_WAITING_LOAD)"
| "ControlLogic_NormalTransitionIsAllowed LINETRACER_CONTROL_WAITING_LOAD next_state =
     (next_state = LINETRACER_CONTROL_TURNING_AT_PICKUP
      \<or> next_state = LINETRACER_CONTROL_MOVING_TO_DEST)"
| "ControlLogic_NormalTransitionIsAllowed LINETRACER_CONTROL_TURNING_AT_PICKUP next_state =
     (next_state = LINETRACER_CONTROL_MOVING_TO_DEST)"
| "ControlLogic_NormalTransitionIsAllowed LINETRACER_CONTROL_MOVING_TO_DEST next_state =
     (next_state = LINETRACER_CONTROL_UNLOADING)"
| "ControlLogic_NormalTransitionIsAllowed LINETRACER_CONTROL_UNLOADING next_state =
     (next_state = LINETRACER_CONTROL_WAITING_AT_DEST)"
| "ControlLogic_NormalTransitionIsAllowed LINETRACER_CONTROL_STOPPED next_state =
     ControlLogic_StateCanResume next_state"
| "ControlLogic_NormalTransitionIsAllowed LINETRACER_CONTROL_OBSTACLE_STOP next_state =
     ControlLogic_StateCanPauseForObstacle next_state"
| "ControlLogic_NormalTransitionIsAllowed LINETRACER_CONTROL_ERROR next_state =
     (next_state = LINETRACER_CONTROL_INITIALIZING)"
| "ControlLogic_NormalTransitionIsAllowed LINETRACER_CONTROL_EMERGENCY_STOPPED next_state = False"

definition ControlLogic_Transition ::
    "control_context_t \<Rightarrow> linetracer_control_state_t \<Rightarrow> u32 \<Rightarrow> bool \<times> control_context_t" where
  "ControlLogic_Transition c next_state now =
     (if ctl_state c = next_state then (True, c)
      else if next_state = LINETRACER_CONTROL_EMERGENCY_STOPPED
              \<or> next_state = LINETRACER_CONTROL_OBSTACLE_STOP
              \<or> next_state = LINETRACER_CONTROL_ERROR
      then (True, c\<lparr>ctl_state := next_state, state_entered_at_ms := now\<rparr>)
      else if next_state = LINETRACER_CONTROL_STOPPED
              \<and> (ControlLogic_StateCanResume (ctl_state c) \<or> ctl_state c = LINETRACER_CONTROL_UNLOADING)
      then (True, c\<lparr>ctl_state := next_state, state_entered_at_ms := now\<rparr>)
      else if \<not> ControlLogic_NormalTransitionIsAllowed (ctl_state c) next_state then (False, c)
      else
        let c = c\<lparr>ctl_state := next_state, state_entered_at_ms := now\<rparr>
        in (True, if ControlLogic_StateExpectsMarker next_state
                  then c\<lparr>marker_wait_started_at_ms := now\<rparr> else c))"

definition ControlLogic_Init :: "control_context_t \<Rightarrow> u32 \<Rightarrow> control_context_t" where
  "ControlLogic_Init c now =
     (let c = c\<lparr>ctl_state := LINETRACER_CONTROL_INITIALIZING,
                resume_state := LINETRACER_CONTROL_INITIALIZING,
                stop_reason := LINETRACER_STOP_REASON_NONE,
                current_position := UART_LINETRACER_POSITION_NONE,
                active_route := UART_LINETRACER_ROUTE_NONE, state_entered_at_ms := now,
                last_command_at_ms := now, marker_wait_started_at_ms := now,
                last_marker_detected_at_ms := 0, junction_guard_until_ms := 0\<rparr>;
          c = ControlLogic_ResetCMarkerRearm c;
          c = c\<lparr>active_job_id := UART_LINETRACER_JOB_ID_NONE, last_marker_code := APP_MARKER_NONE,
                route_active := False, resume_valid := False, safety_latched := False,
                safety_error_code := error_code UART_ERROR_NONE, last_marker_valid := False,
                junction_guard_active := False, departure_turn_required := False,
                load_wait_armed := False\<rparr>;
          c = c\<lparr>route_plan := RoutePlanner_Reset (route_plan c)\<rparr>
      in ControlLogic_ResetJunctionManeuver (c\<lparr>pending_route_action := ROUTE_ACTION_NONE\<rparr>))"

section \<open>Events of the safety task\<close>

definition safety_latch :: "control_context_t \<Rightarrow> app_control_safety_event_t \<Rightarrow> control_context_t" where
  "safety_latch c event =
     (let reason = (if sev_reason event = LINETRACER_STOP_REASON_NONE then stop_reason c
                    else sev_reason event);
          c = c\<lparr>safety_latched := True, stop_reason := reason\<rparr>
      in c\<lparr>safety_error_code :=
             (if sev_error_code event \<noteq> error_code UART_ERROR_NONE then sev_error_code event
              else if reason = LINETRACER_STOP_REASON_EMERGENCY
              then error_code UART_ERROR_EMERGENCY_STOP
              else error_code UART_ERROR_BUSY)\<rparr>)"

definition safety_obstacle_active :: "control_context_t \<Rightarrow> u32 \<Rightarrow> bool \<times> control_context_t" where
  "safety_obstacle_active c now =
     (if safety_latched c \<or> \<not> ControlLogic_StateCanPauseForObstacle (ctl_state c) then (False, c)
      else
        let c = c\<lparr>resume_state := ctl_state c, resume_valid := True,
                  stop_reason := LINETRACER_STOP_REASON_OBSTACLE,
                  safety_error_code := error_code UART_ERROR_SENSOR,
                  junction_condition_active := False, junction_candidate_active := False\<rparr>
        in ControlLogic_Transition (ControlLogic_ResetMarkerApproach c)
             LINETRACER_CONTROL_OBSTACLE_STOP now)"

definition safety_obstacle_cleared :: "control_context_t \<Rightarrow> u32 \<Rightarrow> bool \<times> control_context_t" where
  "safety_obstacle_cleared c now =
     (if safety_latched c \<or> ctl_state c \<noteq> LINETRACER_CONTROL_OBSTACLE_STOP \<or> \<not> resume_valid c
      then (False, c)
      else
        let c = c\<lparr>stop_reason := LINETRACER_STOP_REASON_NONE,
                  safety_error_code := error_code UART_ERROR_NONE\<rparr>
        in case ControlLogic_Transition c (resume_state c) now of
             (False, c) \<Rightarrow> (False, c\<lparr>stop_reason := LINETRACER_STOP_REASON_OBSTACLE,
                                      safety_error_code := error_code UART_ERROR_SENSOR\<rparr>)
           | (True, c) \<Rightarrow>
               let c = c\<lparr>resume_valid := False\<rparr>
               in (True, if ControlLogic_IsTurning c
                         then c\<lparr>junction_phase_started_at_ms := now,
                                junction_turn_started_at_ms := now\<rparr>
                         else c))"

definition safety_latched_event ::
    "control_context_t \<Rightarrow> app_control_safety_event_t \<Rightarrow> u32 \<Rightarrow> bool \<times> control_context_t" where
  "safety_latched_event c0 event now =
     (let c = ControlLogic_ResetMarkerApproach c0;
          reason = (if sev_reason event = LINETRACER_STOP_REASON_NONE then stop_reason c
                    else sev_reason event);
          c = (if reason = LINETRACER_STOP_REASON_EMERGENCY \<and> ControlLogic_CanResumeAfterEmergency c
               then
                 let c = (if ControlLogic_StateCanResume (ctl_state c)
                          then c\<lparr>resume_state := ctl_state c, resume_valid := True\<rparr> else c)
                 in c\<lparr>junction_condition_active := False, junction_candidate_active := False\<rparr>
               else ControlLogic_ResetJunctionManeuver (c\<lparr>resume_valid := False\<rparr>))
      in ControlLogic_Transition (safety_latch c event) (ControlLogic_SafetyState reason) now)"

definition safety_reset_rejected ::
    "control_context_t \<Rightarrow> app_control_safety_event_t \<Rightarrow> u32 \<Rightarrow> bool \<times> control_context_t" where
  "safety_reset_rejected c event now =
     (let c = safety_latch c event
      in ControlLogic_Transition c (ControlLogic_SafetyState (stop_reason c)) now)"

definition safety_reset_approved :: "control_context_t \<Rightarrow> u32 \<Rightarrow> bool \<times> control_context_t" where
  "safety_reset_approved c now =
     (if safety_latched c \<and> stop_reason c = LINETRACER_STOP_REASON_EMERGENCY \<and> resume_valid c
         \<and> ControlLogic_HasActiveJob c \<and> ControlLogic_StateCanResume (resume_state c)
      then (True, ControlLogic_RestartResumeTimers
                    (c\<lparr>ctl_state := resume_state c, resume_valid := False, safety_latched := False,
                       stop_reason := LINETRACER_STOP_REASON_NONE,
                       safety_error_code := error_code UART_ERROR_NONE\<rparr>) now)
      else (True, ControlLogic_Init c now))"

definition ControlLogic_ApplySafetyEvent ::
    "control_context_t \<Rightarrow> app_control_safety_event_t \<Rightarrow> u32 \<Rightarrow> bool \<times> control_context_t" where
  "ControlLogic_ApplySafetyEvent c event now =
     (case sev_type event of
        APP_CONTROL_SAFETY_OBSTACLE_ACTIVE \<Rightarrow> safety_obstacle_active c now
      | APP_CONTROL_SAFETY_OBSTACLE_CLEARED \<Rightarrow> safety_obstacle_cleared c now
      | APP_CONTROL_SAFETY_LATCHED \<Rightarrow> safety_latched_event c event now
      | APP_CONTROL_SAFETY_RESET_REJECTED \<Rightarrow> safety_reset_rejected c event now
      | APP_CONTROL_SAFETY_RESET_APPROVED \<Rightarrow> safety_reset_approved c now
      | APP_CONTROL_SAFETY_NONE \<Rightarrow> (False, c))"

section \<open>Reports to the server\<close>

definition ControlLogic_MakeSnapshot ::
    "control_context_t \<Rightarrow> uart_linetracer_load_state_t \<Rightarrow> u32 \<Rightarrow> app_control_snapshot_t" where
  "ControlLogic_MakeSnapshot c load now =
     \<lparr>snap_updated_at_ms = now, snap_job_id = active_job_id c, snap_route_id = active_route c,
      snap_state = linetracer_control_state_to_uart_state (ctl_state c), snap_load_state = load,
      snap_error_code = ControlLogic_CurrentError c, snap_safety_latched = safety_latched c\<rparr>"

definition ControlLogic_BuildStartedEvent ::
    "control_context_t \<Rightarrow> app_control_command_t \<Rightarrow> control_command_result_t
     \<Rightarrow> uart_linetracer_load_state_t \<Rightarrow> u32 \<Rightarrow> app_tx_event_t option" where
  "ControlLogic_BuildStartedEvent c command result load now =
     (if cmd_type command \<noteq> APP_CONTROL_COMMAND_ASSIGN_ROUTE \<or> \<not> res_accepted result
         \<or> res_status result \<noteq> UART_STATUS_ACK \<or> \<not> res_state_changed result \<or> \<not> route_active c
         \<or> \<not> uart_linetracer_job_id_is_valid (to_u32 (active_job_id c))
         \<or> \<not> uart_linetracer_route_is_valid (route_code (active_route c))
      then None
      else Some (zero_tx_event
        \<lparr>txe_type := APP_TX_EVENT_STARTED, txe_created_at_ms := now, txe_job_id := active_job_id c,
         txe_route_id := active_route c,
         txe_state := linetracer_control_state_to_uart_state (ctl_state c),
         txe_load_state := load, txe_status := status_code UART_STATUS_SUCCESS,
         txe_error_code := error_code UART_ERROR_NONE\<rparr>))"

definition ControlLogic_BuildSafetyFaultEvent ::
    "control_context_t \<Rightarrow> app_control_safety_event_t \<Rightarrow> uart_linetracer_load_state_t \<Rightarrow> u32
     \<Rightarrow> app_tx_event_t option" where
  "ControlLogic_BuildSafetyFaultEvent c safety_event load now =
     (if sev_type safety_event \<noteq> APP_CONTROL_SAFETY_LATCHED then None
      else
        let known = uart_linetracer_job_id_is_valid (to_u32 (active_job_id c))
                    \<and> uart_linetracer_route_is_valid (route_code (active_route c));
            err = ControlLogic_CurrentError c;
            err = (if err = error_code UART_ERROR_NONE
                      \<and> uart_linetracer_fault_error_is_valid (to_u32 (sev_error_code safety_event))
                   then sev_error_code safety_event else err)
        in Some (zero_tx_event
             \<lparr>txe_type := APP_TX_EVENT_FAULT, txe_created_at_ms := now,
              txe_job_id := (if known then active_job_id c else UART_LINETRACER_JOB_ID_NONE),
              txe_route_id := (if known then active_route c else UART_LINETRACER_ROUTE_NONE),
              txe_state := linetracer_control_state_to_uart_state (ctl_state c),
              txe_load_state := load, txe_status := status_code UART_STATUS_ERROR,
              txe_error_code := (if err \<noteq> error_code UART_ERROR_NONE then err
                                 else error_code UART_ERROR_INTERNAL)\<rparr>))"

fun ControlLogic_CommandToUartCommand :: "app_control_command_type_t \<Rightarrow> u8" where
  "ControlLogic_CommandToUartCommand APP_CONTROL_COMMAND_ASSIGN_ROUTE =
     linetracer_cmd_code UART_CMD_LINETRACER_START_ROUTE"
| "ControlLogic_CommandToUartCommand APP_CONTROL_COMMAND_SET_CURRENT_POSITION =
     linetracer_cmd_code UART_CMD_LINETRACER_SET_CURRENT_POSITION"
| "ControlLogic_CommandToUartCommand APP_CONTROL_COMMAND_STOP_DRIVE =
     linetracer_cmd_code UART_CMD_LINETRACER_STOP"
| "ControlLogic_CommandToUartCommand APP_CONTROL_COMMAND_RESUME_DRIVE =
     linetracer_cmd_code UART_CMD_LINETRACER_RESUME_DRIVE"
| "ControlLogic_CommandToUartCommand APP_CONTROL_COMMAND_MANUAL_UNLOAD =
     linetracer_cmd_code UART_CMD_LINETRACER_MANUAL_UNLOAD"
| "ControlLogic_CommandToUartCommand APP_CONTROL_COMMAND_RESET_SYSTEM =
     linetracer_cmd_code UART_CMD_LINETRACER_RESET"
| "ControlLogic_CommandToUartCommand APP_CONTROL_COMMAND_STATUS_REQUEST =
     linetracer_cmd_code UART_CMD_LINETRACER_GET_STATUS"
| "ControlLogic_CommandToUartCommand APP_CONTROL_COMMAND_NONE = 0"

section \<open>Commands\<close>

type_synonym handled = "control_context_t \<times> control_command_result_t"

definition ControlLogic_MakeResult :: "control_context_t \<Rightarrow> control_command_result_t" where
  "ControlLogic_MakeResult c =
     \<lparr>res_status = UART_STATUS_NACK, res_error_code = error_code UART_ERROR_INTERNAL,
      res_previous_state = ctl_state c, res_current_state = ctl_state c,
      res_unload_command = APP_UNLOAD_COMMAND_NONE, res_action_job_id = 0,
      res_action_route_id = UART_LINETRACER_ROUTE_NONE, res_accepted = False,
      res_state_changed = False, res_status_requested = False\<rparr>"

definition ControlLogic_Accept :: "control_command_result_t \<Rightarrow> control_command_result_t" where
  "ControlLogic_Accept r =
     r\<lparr>res_accepted := True, res_status := UART_STATUS_ACK,
       res_error_code := error_code UART_ERROR_NONE\<rparr>"

definition ControlLogic_Reject ::
    "control_command_result_t \<Rightarrow> uart_status_t \<Rightarrow> u8 \<Rightarrow> control_command_result_t" where
  "ControlLogic_Reject r status err =
     r\<lparr>res_accepted := False, res_status := status, res_error_code := err\<rparr>"

definition ControlLogic_UpdateResultState ::
    "control_command_result_t \<Rightarrow> control_context_t \<Rightarrow> control_command_result_t" where
  "ControlLogic_UpdateResultState r c =
     r\<lparr>res_current_state := ctl_state c, res_state_changed := (res_previous_state r \<noteq> ctl_state c)\<rparr>"

definition ControlLogic_CommandTimedOut :: "app_control_command_t \<Rightarrow> u32 \<Rightarrow> bool" where
  "ControlLogic_CommandTimedOut command now \<longleftrightarrow> now - cmd_received_at_ms command > UART_COMMAND_TIMEOUT_MS"

definition ControlLogic_HandleSetPosition ::
    "control_context_t \<Rightarrow> app_control_command_t \<Rightarrow> u32 \<Rightarrow> control_command_result_t \<Rightarrow> handled" where
  "ControlLogic_HandleSetPosition c command now result =
     (if \<not> uart_linetracer_position_is_valid (position_code (cmd_position command))
      then (c, ControlLogic_Reject result UART_STATUS_NACK (error_code UART_ERROR_INVALID_PAYLOAD))
      else if ctl_state c \<noteq> LINETRACER_CONTROL_INITIALIZING
              \<and> ctl_state c \<noteq> LINETRACER_CONTROL_WAITING_AT_DEST \<or> route_active c
      then (c, ControlLogic_Reject result UART_STATUS_BUSY (error_code UART_ERROR_BUSY))
      else
        let c = c\<lparr>current_position := cmd_position command\<rparr>;
            c = ControlLogic_ResetCMarkerRearm (ControlLogic_ResetMarkerApproach c);
            c = c\<lparr>departure_turn_required := False\<rparr>
        in case ControlLogic_Transition c LINETRACER_CONTROL_WAITING_AT_DEST now of
             (False, c) \<Rightarrow>
               (c, ControlLogic_Reject result UART_STATUS_ERROR (error_code UART_ERROR_INTERNAL))
           | (True, c) \<Rightarrow> (c, ControlLogic_Accept result))"

definition clear_assignment :: "control_context_t \<Rightarrow> control_context_t" where
  "clear_assignment c =
     c\<lparr>active_job_id := UART_LINETRACER_JOB_ID_NONE, active_route := UART_LINETRACER_ROUTE_NONE,
       route_active := False\<rparr>"

definition assign_job :: "control_context_t \<Rightarrow> app_control_command_t \<Rightarrow> control_context_t" where
  "assign_job c command =
     ControlLogic_ResetCMarkerRearm (ControlLogic_ResetMarkerApproach
       (c\<lparr>active_job_id := cmd_job_id command, active_route := cmd_route_id command,
          route_active := True, resume_valid := False, stop_reason := LINETRACER_STOP_REASON_NONE,
          last_marker_code := APP_MARKER_NONE, last_marker_detected_at_ms := 0,
          last_marker_valid := False\<rparr>))"

definition ControlLogic_HandleAssignRoute ::
    "control_context_t \<Rightarrow> app_control_command_t \<Rightarrow> u32 \<Rightarrow> control_command_result_t \<Rightarrow> handled" where
  "ControlLogic_HandleAssignRoute c command now result =
     (if \<not> uart_linetracer_job_id_is_valid (to_u32 (cmd_job_id command))
         \<or> \<not> uart_linetracer_route_is_valid (route_code (cmd_route_id command))
      then (c, ControlLogic_Reject result UART_STATUS_NACK (error_code UART_ERROR_INVALID_PAYLOAD))
      else if ctl_state c \<noteq> LINETRACER_CONTROL_WAITING_AT_DEST \<or> route_active c
              \<or> \<not> uart_linetracer_position_is_valid (position_code (current_position c))
      then (c, ControlLogic_Reject result UART_STATUS_BUSY (error_code UART_ERROR_BUSY))
      else
        let turn_before_departure = departure_turn_required c;
            c = assign_job c command
        in case RoutePlanner_Create (current_position c) (active_route c) (route_plan c) of
             (False, plan) \<Rightarrow>
               (clear_assignment (c\<lparr>route_plan := plan\<rparr>),
                ControlLogic_Reject result UART_STATUS_ERROR (error_code UART_ERROR_INTERNAL))
           | (True, plan) \<Rightarrow>
               let c = c\<lparr>route_plan := plan\<rparr>;
                   c = c\<lparr>pending_route_action :=
                           (if turn_before_departure then ROUTE_ACTION_TURN_AROUND
                            else ROUTE_ACTION_GO_STRAIGHT)\<rparr>
               in case ControlLogic_Transition c
                         (if turn_before_departure then LINETRACER_CONTROL_TURNING_FROM_DEST
                          else ControlLogic_DepartureState c) now of
                    (False, c) \<Rightarrow>
                      ((clear_assignment c)\<lparr>route_plan := RoutePlanner_Reset (route_plan c),
                                            pending_route_action := ROUTE_ACTION_NONE\<rparr>,
                       ControlLogic_Reject result UART_STATUS_ERROR (error_code UART_ERROR_INTERNAL))
                  | (True, c) \<Rightarrow>
                      (c\<lparr>departure_turn_required := False\<rparr>, ControlLogic_Accept result))"

definition ControlLogic_HandleStop ::
    "control_context_t \<Rightarrow> app_control_command_t \<Rightarrow> u32 \<Rightarrow> control_command_result_t \<Rightarrow> handled" where
  "ControlLogic_HandleStop c command now result =
     (if \<not> uart_linetracer_job_id_is_valid (to_u32 (cmd_job_id command))
         \<or> \<not> ControlLogic_HasActiveJob c \<or> cmd_job_id command \<noteq> active_job_id c
      then (c, ControlLogic_Reject result UART_STATUS_NACK (error_code UART_ERROR_INVALID_PAYLOAD))
      else if ctl_state c = LINETRACER_CONTROL_STOPPED \<and> stop_reason c = LINETRACER_STOP_REASON_COMMAND
      then (c, ControlLogic_Accept result)
      else if \<not> ControlLogic_StateCanResume (ctl_state c) \<and> ctl_state c \<noteq> LINETRACER_CONTROL_UNLOADING
      then (c, ControlLogic_Reject result UART_STATUS_BUSY (error_code UART_ERROR_BUSY))
      else
        let previous = ctl_state c;
            c = (if previous = LINETRACER_CONTROL_UNLOADING
                 then c\<lparr>resume_state := LINETRACER_CONTROL_INITIALIZING, resume_valid := False\<rparr>
                 else c\<lparr>resume_state := ctl_state c, resume_valid := True\<rparr>);
            c = c\<lparr>stop_reason := LINETRACER_STOP_REASON_COMMAND\<rparr>;
            c = ControlLogic_ResetJunctionManeuver c
        in case ControlLogic_Transition c LINETRACER_CONTROL_STOPPED now of
             (False, c) \<Rightarrow>
               (c\<lparr>resume_valid := False, stop_reason := LINETRACER_STOP_REASON_NONE\<rparr>,
                ControlLogic_Reject result UART_STATUS_ERROR (error_code UART_ERROR_INTERNAL))
           | (True, c) \<Rightarrow>
               (c, ControlLogic_Accept
                     (if previous = LINETRACER_CONTROL_UNLOADING
                      then result\<lparr>res_unload_command := APP_UNLOAD_COMMAND_ABORT,
                                  res_action_job_id := active_job_id c,
                                  res_action_route_id := active_route c\<rparr>
                      else result)))"

definition ControlLogic_HandleResume ::
    "control_context_t \<Rightarrow> u32 \<Rightarrow> control_command_result_t \<Rightarrow> handled" where
  "ControlLogic_HandleResume c now result =
     (if ctl_state c \<noteq> LINETRACER_CONTROL_STOPPED \<or> stop_reason c \<noteq> LINETRACER_STOP_REASON_COMMAND
         \<or> \<not> resume_valid c \<or> \<not> ControlLogic_HasActiveJob c
         \<or> \<not> ControlLogic_StateCanResume (resume_state c)
      then (c, ControlLogic_Reject result UART_STATUS_BUSY (error_code UART_ERROR_BUSY))
      else case ControlLogic_Transition c (resume_state c) now of
          (False, c) \<Rightarrow> (c, ControlLogic_Reject result UART_STATUS_ERROR (error_code UART_ERROR_INTERNAL))
        | (True, c) \<Rightarrow>
            (c\<lparr>resume_valid := False, stop_reason := LINETRACER_STOP_REASON_NONE\<rparr>,
             ControlLogic_Accept result))"

definition ControlLogic_HandleReset ::
    "control_context_t \<Rightarrow> u32 \<Rightarrow> control_command_result_t \<Rightarrow> handled" where
  "ControlLogic_HandleReset c now result =
     (if safety_latched c
      then (c, ControlLogic_Reject result UART_STATUS_NACK (ControlLogic_SafetyError c))
      else if ctl_state c = LINETRACER_CONTROL_EMERGENCY_STOPPED
      then (c, ControlLogic_Reject result UART_STATUS_ERROR (error_code UART_ERROR_EMERGENCY_STOP))
      else if ctl_state c = LINETRACER_CONTROL_OBSTACLE_STOP
      then (c, ControlLogic_Reject result UART_STATUS_BUSY (error_code UART_ERROR_SENSOR))
      else (ControlLogic_Init c now,
            ControlLogic_Accept
              (result\<lparr>res_unload_command := APP_UNLOAD_COMMAND_RESET,
                      res_action_job_id := active_job_id c, res_action_route_id := active_route c,
                      res_previous_state := ctl_state c\<rparr>)))"

definition dispatch_command ::
    "control_context_t \<Rightarrow> app_control_command_t \<Rightarrow> u32 \<Rightarrow> control_command_result_t \<Rightarrow> handled" where
  "dispatch_command c command now result =
     (case cmd_type command of
        APP_CONTROL_COMMAND_SET_CURRENT_POSITION \<Rightarrow> ControlLogic_HandleSetPosition c command now result
      | APP_CONTROL_COMMAND_ASSIGN_ROUTE \<Rightarrow> ControlLogic_HandleAssignRoute c command now result
      | APP_CONTROL_COMMAND_STOP_DRIVE \<Rightarrow> ControlLogic_HandleStop c command now result
      | APP_CONTROL_COMMAND_RESUME_DRIVE \<Rightarrow> ControlLogic_HandleResume c now result
      | APP_CONTROL_COMMAND_RESET_SYSTEM \<Rightarrow> ControlLogic_HandleReset c now result
      | APP_CONTROL_COMMAND_STATUS_REQUEST \<Rightarrow>
          (c, ControlLogic_Accept (result\<lparr>res_status_requested := True\<rparr>))
      | APP_CONTROL_COMMAND_MANUAL_UNLOAD \<Rightarrow>
          (c, ControlLogic_Reject result UART_STATUS_NACK (error_code UART_ERROR_UNSUPPORTED_COMMAND))
      | APP_CONTROL_COMMAND_NONE \<Rightarrow>
          (c, ControlLogic_Reject result UART_STATUS_NACK (error_code UART_ERROR_INVALID_COMMAND)))"

definition ControlLogic_HandleCommand ::
    "control_context_t \<Rightarrow> app_control_command_t \<Rightarrow> u32 \<Rightarrow> handled" where
  "ControlLogic_HandleCommand c command now =
     (let result = ControlLogic_MakeResult c;
          c = c\<lparr>last_command_at_ms := now\<rparr>
      in if ControlLogic_CommandTimedOut command now
         then (c, ControlLogic_Reject result UART_STATUS_ERROR (error_code UART_ERROR_TIMEOUT))
         else if safety_latched c \<and> (cmd_type command = APP_CONTROL_COMMAND_ASSIGN_ROUTE
                                     \<or> cmd_type command = APP_CONTROL_COMMAND_RESUME_DRIVE)
         then (c, ControlLogic_Reject result UART_STATUS_NACK (ControlLogic_SafetyError c))
         else case dispatch_command c command now result of
                (c, result) \<Rightarrow> (c, ControlLogic_UpdateResultState result c))"

definition ControlLogic_CommandResponseEventType :: "control_command_result_t \<Rightarrow> app_tx_event_type_t" where
  "ControlLogic_CommandResponseEventType result =
     (if res_accepted result \<and> res_status_requested result then APP_TX_EVENT_STATUS
      else APP_TX_EVENT_COMMAND_ACK)"

section \<open>Turns and markers\<close>

definition complete_turn_into ::
    "control_context_t \<Rightarrow> linetracer_control_state_t \<Rightarrow> u32 \<Rightarrow> bool \<times> control_context_t" where
  "complete_turn_into c next_state now =
     (case ControlLogic_Transition c next_state now of
        (False, c) \<Rightarrow> (False, c)
      | (True, c) \<Rightarrow> (True, c\<lparr>pending_route_action := ROUTE_ACTION_GO_STRAIGHT\<rparr>))"

definition complete_turn_on_line :: "control_context_t \<Rightarrow> u32 \<Rightarrow> bool \<times> control_context_t" where
  "complete_turn_on_line c now =
     (if pending_route_action c \<noteq> ROUTE_ACTION_TURN_LEFT
         \<and> pending_route_action c \<noteq> ROUTE_ACTION_TURN_RIGHT then (False, c)
      else (True, c\<lparr>pending_route_action := ROUTE_ACTION_GO_STRAIGHT, marker_wait_started_at_ms := now\<rparr>))"

definition ControlLogic_CompleteTurn :: "control_context_t \<Rightarrow> u32 \<Rightarrow> bool \<times> control_context_t" where
  "ControlLogic_CompleteTurn c now =
     (if \<not> ControlLogic_HasActiveJob c then (False, c)
      else case ctl_state c of
          LINETRACER_CONTROL_MOVING_ON_COMMON_LINE \<Rightarrow> complete_turn_on_line c now
        | LINETRACER_CONTROL_MOVING_TO_DEST \<Rightarrow> complete_turn_on_line c now
        | LINETRACER_CONTROL_TURNING_FROM_DEST \<Rightarrow>
            complete_turn_into c (ControlLogic_DepartureState c) now
        | LINETRACER_CONTROL_TURNING_TO_PICKUP \<Rightarrow>
            complete_turn_into c LINETRACER_CONTROL_MOVING_TO_PICKUP now
        | LINETRACER_CONTROL_TURNING_AT_PICKUP \<Rightarrow>
            complete_turn_into c LINETRACER_CONTROL_MOVING_TO_DEST now
        | _ \<Rightarrow> (False, c))"

definition ControlLogic_RouteError ::
    "control_context_t \<Rightarrow> linetracer_stop_reason_t \<Rightarrow> route_action_t \<Rightarrow> u32
     \<Rightarrow> route_action_t \<times> control_context_t" where
  "ControlLogic_RouteError c reason action now =
     (let c = c\<lparr>stop_reason := reason, resume_valid := False, pending_route_action := action\<rparr>;
          c = ControlLogic_ResetCMarkerRearm (ControlLogic_ResetJunctionManeuver c)
      in (action, snd (ControlLogic_Transition c LINETRACER_CONTROL_ERROR now)))"

definition ControlLogic_MarkerIsDuplicate ::
    "control_context_t \<Rightarrow> app_marker_code_t \<Rightarrow> u32 \<Rightarrow> bool" where
  "ControlLogic_MarkerIsDuplicate c marker_code detected_at \<longleftrightarrow>
     (if \<not> last_marker_valid c \<or> marker_code \<noteq> last_marker_code c then False
      else detected_at = last_marker_detected_at_ms c)"

definition remember_marker ::
    "control_context_t \<Rightarrow> app_marker_code_t \<Rightarrow> u32 \<Rightarrow> control_context_t" where
  "remember_marker c marker_code event_time =
     c\<lparr>last_marker_code := marker_code, last_marker_detected_at_ms := event_time,
       last_marker_valid := True\<rparr>"

text \<open>The change of state that an accepted marker brings.\<close>

definition marker_transition ::
    "control_context_t \<Rightarrow> route_action_t \<Rightarrow> u32 \<Rightarrow> bool \<times> control_context_t" where
  "marker_transition c action now =
     (case ctl_state c of
        LINETRACER_CONTROL_MOVING_TO_SOURCE_JUNCTION \<Rightarrow>
          (if action = ROUTE_ACTION_GO_STRAIGHT
           then (if plan_phase (route_plan c) = ROUTE_PHASE_TO_PICKUP
                 then ControlLogic_Transition c LINETRACER_CONTROL_MOVING_TO_PICKUP now
                 else if plan_phase (route_plan c) = ROUTE_PHASE_TO_C_PICKUP_TURN
                 then ControlLogic_Transition c LINETRACER_CONTROL_MOVING_ON_COMMON_LINE now
                 else (plan_phase (route_plan c) = ROUTE_PHASE_TO_SOURCE_JUNCTION, c))
           else if action = ROUTE_ACTION_TURN_LEFT \<or> action = ROUTE_ACTION_TURN_RIGHT
           then ControlLogic_Transition c LINETRACER_CONTROL_MOVING_ON_COMMON_LINE now
           else (False, c))
      | LINETRACER_CONTROL_MOVING_ON_COMMON_LINE \<Rightarrow>
          (if action = ROUTE_ACTION_TURN_LEFT \<or> action = ROUTE_ACTION_TURN_RIGHT
           then (if plan_phase (route_plan c) \<noteq> ROUTE_PHASE_TO_C_PICKUP_TURN
                 then ControlLogic_Transition c LINETRACER_CONTROL_TURNING_TO_PICKUP now
                 else (True, c))
           else (action = ROUTE_ACTION_GO_STRAIGHT, c))
      | LINETRACER_CONTROL_MOVING_TO_PICKUP \<Rightarrow>
          (if action \<noteq> ROUTE_ACTION_STOP_AT_PICKUP then (False, c)
           else case ControlLogic_Transition c LINETRACER_CONTROL_PICKUP_READY now of
                  (False, c) \<Rightarrow> (False, c)
                | (True, c) \<Rightarrow>
                    (case ControlLogic_Transition c LINETRACER_CONTROL_WAITING_LOAD now of
                       (False, c) \<Rightarrow> (False, c)
                     | (True, c) \<Rightarrow> (True, c\<lparr>load_wait_armed := False\<rparr>)))
      | LINETRACER_CONTROL_MOVING_TO_DEST \<Rightarrow>
          (if action = ROUTE_ACTION_STOP_AT_DEST
           then ControlLogic_Transition c LINETRACER_CONTROL_UNLOADING now
           else (action = ROUTE_ACTION_GO_STRAIGHT \<or> action = ROUTE_ACTION_TURN_LEFT
                 \<or> action = ROUTE_ACTION_TURN_RIGHT, c))
      | _ \<Rightarrow> (False, c))"

definition ControlLogic_HandleMarker ::
    "control_context_t \<Rightarrow> app_marker_code_t \<Rightarrow> u32 \<Rightarrow> u32 \<Rightarrow> route_action_t \<times> control_context_t" where
  "ControlLogic_HandleMarker c marker_code detected_at now =
     (if \<not> ControlLogic_HasActiveJob c then (ROUTE_ACTION_ERROR, c)
      else if ctl_state c = LINETRACER_CONTROL_UNLOADING then (ROUTE_ACTION_NONE, c)
      else
        let expected = ControlLogic_ExpectedMarkerCode c;
            event_time = (if detected_at \<noteq> 0 then detected_at else now)
        in if ControlLogic_MarkerIsDuplicate c marker_code event_time then (ROUTE_ACTION_NONE, c)
           else if ctl_state c = LINETRACER_CONTROL_PICKUP_READY
                   \<or> ctl_state c = LINETRACER_CONTROL_WAITING_LOAD
                   \<or> ctl_state c = LINETRACER_CONTROL_UNLOADING
           then (ROUTE_ACTION_NONE, remember_marker c marker_code event_time)
           else if expected = APP_MARKER_NONE \<or> marker_code = APP_MARKER_INVALID
                   \<or> marker_code \<noteq> expected
           then ControlLogic_RouteError c LINETRACER_STOP_REASON_MARKER_SEQUENCE ROUTE_ACTION_ERROR now
           else case RoutePlanner_OnMarker (route_plan c) of
               (action, plan) \<Rightarrow>
                 let c = c\<lparr>route_plan := plan, pending_route_action := action\<rparr>
                 in if action = ROUTE_ACTION_ERROR
                    then ControlLogic_RouteError c LINETRACER_STOP_REASON_MARKER_SEQUENCE action now
                    else case marker_transition (remember_marker c marker_code event_time) action now of
                        (False, c) \<Rightarrow>
                          ControlLogic_RouteError c LINETRACER_STOP_REASON_MARKER_SEQUENCE
                            ROUTE_ACTION_ERROR now
                      | (True, c) \<Rightarrow>
                          (action, if ControlLogic_StateExpectsMarker (ctl_state c)
                                   then c\<lparr>marker_wait_started_at_ms := now\<rparr> else c))"

end
