(* ===== verification/Linetracer_Line.thy ===== *)
theory Linetracer_Line
  imports Linetracer_Control
begin

text \<open>
  The second half of the line tracer's control logic (\<open>control_logic.c\<close>): the samples of the line
  sensors, which recognise the junctions and carry the maneuvers through, the load, the route
  timeouts and the end of a job.
\<close>

section \<open>Samples of the line sensors\<close>

definition ControlLogic_TargetEdgeDetected ::
    "control_context_t \<Rightarrow> bool \<Rightarrow> bool \<Rightarrow> bool \<Rightarrow> bool" where
  "ControlLogic_TargetEdgeDetected c line_left line_center line_right \<longleftrightarrow>
     (if junction_action c \<noteq> ROUTE_ACTION_TURN_LEFT \<and> junction_action c \<noteq> ROUTE_ACTION_TURN_RIGHT
         \<and> junction_action c \<noteq> ROUTE_ACTION_TURN_AROUND then False
      else if junction_action c = ROUTE_ACTION_TURN_LEFT then line_left \<and> \<not> line_right
      else if junction_action c = ROUTE_ACTION_TURN_RIGHT then \<not> line_left \<and> line_right
      else line_left \<and> \<not> line_right)"

definition ControlLogic_TargetAligned ::
    "control_context_t \<Rightarrow> bool \<Rightarrow> bool \<Rightarrow> bool \<Rightarrow> bool" where
  "ControlLogic_TargetAligned c line_left line_center line_right \<longleftrightarrow>
     (if \<not> junction_target_edge_seen c \<or> \<not> line_center then False
      else if junction_action c = ROUTE_ACTION_TURN_LEFT then \<not> line_right
      else if junction_action c = ROUTE_ACTION_TURN_AROUND then \<not> line_right
      else \<not> line_left)"

definition ControlLogic_CompleteDetectedTurn ::
    "control_context_t \<Rightarrow> u32 \<Rightarrow> bool \<times> control_context_t" where
  "ControlLogic_CompleteDetectedTurn c now = ControlLogic_CompleteTurn c now"

definition no_line_result :: control_line_result_t where
  "no_line_result =
     \<lparr>line_action = ROUTE_ACTION_NONE, line_action_valid = False, maneuver_completed = False,
      line_state_changed = False\<rparr>"

type_synonym sampled = "control_line_result_t \<times> control_context_t"

text \<open>A sample while no maneuver is under way: it may show the next junction.\<close>

definition line_junction ::
    "control_context_t \<Rightarrow> u32 \<Rightarrow> sampled" where
  "line_junction c now =
     (let c = (if \<not> junction_candidate_active c
               then c\<lparr>junction_candidate_active := True, junction_candidate_since_ms := now\<rparr> else c);
          previous = ctl_state c
      in case ControlLogic_HandleMarker c APP_MARKER_JUNCTION (junction_candidate_since_ms c) now of
           (action, c) \<Rightarrow>
             let result = no_line_result\<lparr>line_action := action, line_action_valid := True,
                                         line_state_changed := (previous \<noteq> ctl_state c)\<rparr>;
                 c = c\<lparr>junction_candidate_active := False\<rparr>
             in if action = ROUTE_ACTION_GO_STRAIGHT \<or> action = ROUTE_ACTION_TURN_LEFT
                   \<or> action = ROUTE_ACTION_TURN_RIGHT
                then (case ControlLogic_StartJunctionManeuver c action True now of
                        (True, c) \<Rightarrow> (result, c)
                      | (False, c) \<Rightarrow>
                          (case ControlLogic_RouteError c LINETRACER_STOP_REASON_MARKER_SEQUENCE
                                  ROUTE_ACTION_ERROR now of
                             (action, c) \<Rightarrow> (result\<lparr>line_action := action\<rparr>, c)))
                else (result, c))"

definition line_idle :: "control_context_t \<Rightarrow> bool \<Rightarrow> bool \<Rightarrow> u32 \<Rightarrow> sampled" where
  "line_idle c line_left line_right now =
     (case ControlLogic_UpdateCMarkerRearm c (\<not> line_left \<and> \<not> line_right) now of
        (True, c) \<Rightarrow> (no_line_result, c\<lparr>junction_candidate_active := False\<rparr>)
      | (False, c) \<Rightarrow>
          (case ControlLogic_JunctionGuardActive c now of
             (guard_active, c) \<Rightarrow>
               let c = ControlLogic_UpdateMarkerApproach c line_left line_right guard_active now
               in if guard_active \<or> ControlLogic_ExpectedMarkerCode c \<noteq> APP_MARKER_JUNCTION
                  then (no_line_result, c\<lparr>junction_candidate_active := False\<rparr>)
                  else if \<not> (line_left \<and> line_right)
                  then (no_line_result, c\<lparr>junction_candidate_active := False\<rparr>)
                  else line_junction c now))"

text \<open>A sample during a maneuver, one function per phase.\<close>

definition line_approach_center :: "control_context_t \<Rightarrow> bool \<Rightarrow> u32 \<Rightarrow> sampled" where
  "line_approach_center c both_black now =
     (no_line_result,
      if now - junction_phase_started_at_ms c \<ge> CONTROL_JUNCTION_CENTER_ADVANCE_MS \<and> \<not> both_black
      then ControlLogic_SetJunctionPhase (c\<lparr>junction_turn_started_at_ms := now\<rparr>)
             CONTROL_JUNCTION_TURN_CLEAR_SOURCE now
      else c)"

definition finish_crossing :: "control_context_t \<Rightarrow> u32 \<Rightarrow> control_context_t" where
  "finish_crossing c0 now =
     (let c = ControlLogic_ResetJunctionManeuver c0
      in if plan_phase (route_plan c) = ROUTE_PHASE_TO_C_PICKUP_TURN
            \<and> expected_marker (route_plan c) = ROUTE_MARKER_C_PICKUP_TURN
         then ControlLogic_RejectDelayedMarkersThrough
                (ControlLogic_StartCMarkerRearm
                   (c\<lparr>junction_guard_active := False, junction_guard_until_ms := 0\<rparr>) now) now
         else ControlLogic_StartJunctionGuard c now)"

definition line_cross_straight :: "control_context_t \<Rightarrow> bool \<Rightarrow> u32 \<Rightarrow> sampled" where
  "line_cross_straight c both_black now =
     (let clear_ms = (if plan_phase (route_plan c) = ROUTE_PHASE_TO_C_PICKUP_TURN then 0
                      else CONTROL_JUNCTION_CROSS_CLEAR_MS)
      in case ControlLogic_ConditionStable c (\<not> both_black) now clear_ms of
           (False, c) \<Rightarrow> (no_line_result, c)
         | (True, c) \<Rightarrow> (no_line_result\<lparr>maneuver_completed := True\<rparr>, finish_crossing c now))"

definition line_clear_source :: "control_context_t \<Rightarrow> bool \<Rightarrow> u32 \<Rightarrow> sampled" where
  "line_clear_source c all_white now =
     (no_line_result,
      if ControlLogic_IsNinetyDegreeTurn (junction_action c)
         \<or> junction_action c = ROUTE_ACTION_TURN_AROUND
      then (if junction_action c = ROUTE_ACTION_TURN_AROUND
               \<and> ctl_state c = LINETRACER_CONTROL_TURNING_AT_PICKUP
               \<and> now - junction_turn_started_at_ms c < CONTROL_PICKUP_UTURN_MIN_PIVOT_MS
            then snd (ControlLogic_ConditionStable c False now CONTROL_TURN_SOURCE_CLEAR_MS)
            else case ControlLogic_ConditionStable c all_white now CONTROL_TURN_SOURCE_CLEAR_MS of
                (True, c) \<Rightarrow> ControlLogic_SetJunctionPhase c CONTROL_JUNCTION_TURN_SEARCH_TARGET now
              | (False, c) \<Rightarrow> c)
      else c)"

text \<open>The turn has found its line: the state of the drive follows, or the route fails.\<close>

definition finish_turn :: "control_context_t \<Rightarrow> u32 \<Rightarrow> sampled" where
  "finish_turn c now =
     (let previous = ctl_state c
      in case ControlLogic_CompleteDetectedTurn c now of
           (False, c) \<Rightarrow>
             (case ControlLogic_RouteError c LINETRACER_STOP_REASON_MARKER_SEQUENCE
                     ROUTE_ACTION_ERROR now of
                (action, c) \<Rightarrow> (no_line_result\<lparr>line_action := action, line_action_valid := True\<rparr>, c))
         | (True, c) \<Rightarrow>
             (let c = ControlLogic_StartJunctionGuard (ControlLogic_ResetJunctionManeuver c) now
              in (no_line_result\<lparr>maneuver_completed := True,
                                 line_state_changed := (previous \<noteq> ctl_state c)\<rparr>, c)))"

definition line_search_target ::
    "control_context_t \<Rightarrow> bool \<Rightarrow> bool \<Rightarrow> bool \<Rightarrow> u32 \<Rightarrow> sampled" where
  "line_search_target c line_left line_center line_right now =
     (if ControlLogic_IsNinetyDegreeTurn (junction_action c)
         \<or> junction_action c = ROUTE_ACTION_TURN_AROUND
      then (if \<not> ControlLogic_TargetEdgeDetected c line_left line_center line_right
            then (no_line_result, c)
            else finish_turn (c\<lparr>junction_target_edge_seen := True\<rparr>) now)
      else if \<not> junction_target_edge_seen c
              \<and> \<not> ControlLogic_TargetEdgeDetected c line_left line_center line_right
      then (no_line_result, c)
      else
        let c = (if \<not> junction_target_edge_seen c
                 then c\<lparr>junction_target_edge_seen := True, junction_condition_active := False\<rparr>
                 else c);
            aligned = ControlLogic_TargetAligned c line_left line_center line_right
        in case ControlLogic_ConditionStable c aligned now CONTROL_TURN_TARGET_CENTERED_MS of
             (False, c) \<Rightarrow> (no_line_result, c)
           | (True, c) \<Rightarrow> finish_turn c now)"

definition line_reacquire ::
    "control_context_t \<Rightarrow> bool \<Rightarrow> bool \<Rightarrow> bool \<Rightarrow> u32 \<Rightarrow> sampled" where
  "line_reacquire c line_left line_center line_right now =
     (let aligned = ControlLogic_TargetAligned c line_left line_center line_right
      in case ControlLogic_ConditionStable c aligned now CONTROL_TURN_REACQUIRE_CENTERED_MS of
           (steady, c) \<Rightarrow>
             if steady \<or> now - junction_phase_started_at_ms c \<ge> CONTROL_TURN_REACQUIRE_MAX_MS
             then (no_line_result\<lparr>maneuver_completed := True\<rparr>,
                   ControlLogic_StartJunctionGuard (ControlLogic_ResetJunctionManeuver c) now)
             else (no_line_result, c))"

definition line_maneuver ::
    "control_context_t \<Rightarrow> bool \<Rightarrow> bool \<Rightarrow> bool \<Rightarrow> u32 \<Rightarrow> sampled" where
  "line_maneuver c line_left line_center line_right now =
     (case junction_phase c of
        CONTROL_JUNCTION_APPROACH_CENTER \<Rightarrow> line_approach_center c (line_left \<and> line_right) now
      | CONTROL_JUNCTION_CROSS_STRAIGHT \<Rightarrow> line_cross_straight c (line_left \<and> line_right) now
      | CONTROL_JUNCTION_TURN_CLEAR_SOURCE \<Rightarrow>
          line_clear_source c (\<not> line_left \<and> \<not> line_right \<and> \<not> line_center) now
      | CONTROL_JUNCTION_TURN_SEARCH_TARGET \<Rightarrow> line_search_target c line_left line_center line_right now
      | CONTROL_JUNCTION_TURN_REACQUIRE \<Rightarrow> line_reacquire c line_left line_center line_right now
      | CONTROL_JUNCTION_PICKUP_REVERSE \<Rightarrow> (no_line_result, c)
      | CONTROL_JUNCTION_IDLE \<Rightarrow> (no_line_result, c))"

definition ControlLogic_ProcessLineSampleWithCenter ::
    "control_context_t \<Rightarrow> bool \<Rightarrow> bool \<Rightarrow> bool \<Rightarrow> u32 \<Rightarrow> sampled" where
  "ControlLogic_ProcessLineSampleWithCenter c line_left line_center line_right now =
     (if \<not> ControlLogic_HasActiveJob c \<or> safety_latched c
      then (no_line_result, ControlLogic_ResetMarkerApproach c)
      else if ControlLogic_LineSamplePredatesActiveTurn c now then (no_line_result, c)
      else if junction_phase c = CONTROL_JUNCTION_IDLE then line_idle c line_left line_right now
      else line_maneuver (ControlLogic_ResetMarkerApproach c) line_left line_center line_right now)"

definition ControlLogic_ProcessLineSample ::
    "control_context_t \<Rightarrow> bool \<Rightarrow> bool \<Rightarrow> u32 \<Rightarrow> sampled" where
  "ControlLogic_ProcessLineSample c line_left line_right now =
     ControlLogic_ProcessLineSampleWithCenter c line_left True line_right now"

section \<open>Timeouts, the load and the end of a job\<close>

text \<open>The timeouts are switched off by \<open>CONTROL_ROUTE_TIMEOUTS_ENABLED\<close>, the code behind it is dead.\<close>

abbreviation (input) CONTROL_ROUTE_TIMEOUTS_ENABLED :: u32 where "CONTROL_ROUTE_TIMEOUTS_ENABLED \<equiv> 0"
abbreviation (input) CONTROL_MARKER_TIMEOUT_MS :: u32 where "CONTROL_MARKER_TIMEOUT_MS \<equiv> 15000"
abbreviation (input) CONTROL_TURN_TIMEOUT_MS :: u32 where "CONTROL_TURN_TIMEOUT_MS \<equiv> 3000"
abbreviation (input) CONTROL_UTURN_TIMEOUT_MS :: u32 where "CONTROL_UTURN_TIMEOUT_MS \<equiv> 5000"
abbreviation (input) CONTROL_JUNCTION_CROSS_TIMEOUT_MS :: u32 where
  "CONTROL_JUNCTION_CROSS_TIMEOUT_MS \<equiv> 1000"

text \<open>The reason, the start and the length of the timeout that runs, if one does.\<close>

definition running_timeout :: "control_context_t \<Rightarrow> (linetracer_stop_reason_t \<times> u32 \<times> u32) option" where
  "running_timeout c =
     (if junction_phase c = CONTROL_JUNCTION_CROSS_STRAIGHT
      then Some (LINETRACER_STOP_REASON_MARKER_SEQUENCE, junction_phase_started_at_ms c,
                 CONTROL_JUNCTION_CROSS_TIMEOUT_MS)
      else if ControlLogic_JunctionManeuverActive c
              \<and> (junction_action c = ROUTE_ACTION_TURN_LEFT \<or> junction_action c = ROUTE_ACTION_TURN_RIGHT
                 \<or> junction_action c = ROUTE_ACTION_TURN_AROUND)
      then Some (LINETRACER_STOP_REASON_TURN_TIMEOUT,
                 if junction_turn_started_at_ms c \<noteq> 0 then junction_turn_started_at_ms c
                 else junction_phase_started_at_ms c,
                 if junction_action c = ROUTE_ACTION_TURN_AROUND then CONTROL_UTURN_TIMEOUT_MS
                 else CONTROL_TURN_TIMEOUT_MS)
      else if ControlLogic_IsTurning c
      then Some (LINETRACER_STOP_REASON_TURN_TIMEOUT, state_entered_at_ms c,
                 if pending_route_action c = ROUTE_ACTION_TURN_AROUND then CONTROL_UTURN_TIMEOUT_MS
                 else CONTROL_TURN_TIMEOUT_MS)
      else if ControlLogic_StateExpectsMarker (ctl_state c)
              \<and> ControlLogic_ExpectedMarkerCode c \<noteq> APP_MARKER_NONE
      then Some (LINETRACER_STOP_REASON_MARKER_SEQUENCE, marker_wait_started_at_ms c,
                 CONTROL_MARKER_TIMEOUT_MS)
      else None)"

definition ControlLogic_CheckRouteTimeout ::
    "control_context_t \<Rightarrow> u32 \<Rightarrow> linetracer_stop_reason_t \<times> control_context_t" where
  "ControlLogic_CheckRouteTimeout c now =
     (if \<not> ControlLogic_HasActiveJob c \<or> safety_latched c then (LINETRACER_STOP_REASON_NONE, c)
      else if CONTROL_ROUTE_TIMEOUTS_ENABLED = 0 then (LINETRACER_STOP_REASON_NONE, c)
      else case running_timeout c of
          None \<Rightarrow> (LINETRACER_STOP_REASON_NONE, c)
        | Some (reason, started_at, timeout_ms) \<Rightarrow>
            if now - started_at < timeout_ms then (LINETRACER_STOP_REASON_NONE, c)
            else (reason, snd (ControlLogic_RouteError c reason ROUTE_ACTION_ERROR now)))"

definition load_on_into ::
    "control_context_t \<Rightarrow> linetracer_control_state_t \<Rightarrow> route_action_t \<Rightarrow> u32
     \<Rightarrow> route_action_t \<times> control_context_t" where
  "load_on_into c next_state action now =
     (let failed = (\<lambda>c. ControlLogic_RouteError c LINETRACER_STOP_REASON_MARKER_SEQUENCE
                          ROUTE_ACTION_ERROR now)
      in if ctl_state c \<noteq> LINETRACER_CONTROL_WAITING_LOAD then failed c
         else case ControlLogic_Transition c next_state now of
             (False, c) \<Rightarrow> failed c
           | (True, c) \<Rightarrow> (action, c\<lparr>pending_route_action := action, load_wait_armed := False\<rparr>))"

definition ControlLogic_HandleLoadOn ::
    "control_context_t \<Rightarrow> u32 \<Rightarrow> route_action_t \<times> control_context_t" where
  "ControlLogic_HandleLoadOn c now =
     (if \<not> ControlLogic_HasActiveJob c then (ROUTE_ACTION_ERROR, c)
      else case RoutePlanner_OnLoadOn (route_plan c) of
          (action, plan) \<Rightarrow>
            let c = c\<lparr>route_plan := plan\<rparr>
            in if action = ROUTE_ACTION_GO_STRAIGHT
               then load_on_into c LINETRACER_CONTROL_MOVING_TO_DEST action now
               else if action = ROUTE_ACTION_TURN_AROUND
               then load_on_into c LINETRACER_CONTROL_TURNING_AT_PICKUP action now
               else (action, c))"

definition no_completion :: control_job_completion_t where
  "no_completion =
     \<lparr>done_job_id = 0, done_route_id = UART_LINETRACER_ROUTE_NONE,
      done_destination = UART_LINETRACER_POSITION_NONE, done_completed = False\<rparr>"

definition ControlLogic_HandleLoadOff ::
    "control_context_t \<Rightarrow> u32 \<Rightarrow> route_action_t \<times> control_job_completion_t \<times> control_context_t" where
  "ControlLogic_HandleLoadOff c now =
     (if \<not> ControlLogic_HasActiveJob c then (ROUTE_ACTION_ERROR, no_completion, c)
      else if ctl_state c = LINETRACER_CONTROL_UNLOADING then (ROUTE_ACTION_NONE, no_completion, c)
      else case RoutePlanner_OnLoadOff (route_plan c) of
          (action, plan) \<Rightarrow>
            let c = c\<lparr>route_plan := plan\<rparr>
            in if action = ROUTE_ACTION_LOAD_LOST
               then (case ControlLogic_RouteError c LINETRACER_STOP_REASON_LOAD_LOST action now of
                       (action, c) \<Rightarrow> (action, no_completion, c))
               else (action, no_completion, c))"

definition ControlLogic_CompleteJob ::
    "control_context_t \<Rightarrow> u32 \<Rightarrow> control_job_completion_t \<times> control_context_t" where
  "ControlLogic_CompleteJob c now =
     (if ctl_state c \<noteq> LINETRACER_CONTROL_UNLOADING \<or> \<not> ControlLogic_HasActiveJob c
      then (no_completion, c)
      else
        let destination = ControlLogic_RouteDestination (active_route c)
        in if destination = UART_LINETRACER_POSITION_NONE then (no_completion, c)
           else case ControlLogic_Transition c LINETRACER_CONTROL_WAITING_AT_DEST now of
               (False, c) \<Rightarrow> (no_completion, c)
             | (True, c) \<Rightarrow>
                 (\<lparr>done_job_id = active_job_id c, done_route_id = active_route c,
                   done_destination = destination, done_completed = True\<rparr>,
                  (ControlLogic_ResetCMarkerRearm
                     (c\<lparr>current_position := destination,
                        active_job_id := UART_LINETRACER_JOB_ID_NONE,
                        active_route := UART_LINETRACER_ROUTE_NONE, route_active := False,
                        resume_state := LINETRACER_CONTROL_WAITING_AT_DEST, resume_valid := False,
                        stop_reason := LINETRACER_STOP_REASON_NONE,
                        last_marker_code := APP_MARKER_NONE, last_marker_detected_at_ms := 0,
                        last_marker_valid := False, departure_turn_required := True\<rparr>))
                    \<lparr>route_plan := RoutePlanner_Reset (route_plan c),
                     pending_route_action := ROUTE_ACTION_NONE\<rparr>))"

definition ControlLogic_HandleUnloadResult ::
    "control_context_t \<Rightarrow> app_unload_result_t \<Rightarrow> u32
     \<Rightarrow> control_job_completion_t \<times> control_context_t" where
  "ControlLogic_HandleUnloadResult c unload_result now =
     (if ures_type unload_result \<noteq> APP_UNLOAD_RESULT_COMPLETE
         \<or> ctl_state c \<noteq> LINETRACER_CONTROL_UNLOADING
         \<or> active_job_id c \<noteq> ures_job_id unload_result
         \<or> active_route c \<noteq> ures_route_id unload_result
      then (no_completion, c)
      else ControlLogic_CompleteJob c now)"

end
