(* ===== verification/Linetracer_Motor.thy ===== *)
theory Linetracer_Motor
  imports Linetracer_Route Complex_Main
begin

text \<open>
  The drive of the line tracer (\<open>stm32/linetracer-controller/Application/Src\<close>): the wheel speeds
  of each action (\<open>motor_control_logic.c\<close>), the line-following controller
  (\<open>line_follow_pid.c\<close>) and the driver of the TB6612FNG (\<open>motor_control.c\<close>). The \<open>int16_t\<close> and
  \<open>int32_t\<close> intermediate values are \<open>int\<close>: all of them are far below the limits of their types.
\<close>

section \<open>Wheel speeds\<close>

abbreviation (input) MOTOR_CONTROL_PWM_MAX :: "'a::numeral" where "MOTOR_CONTROL_PWM_MAX \<equiv> 999"
abbreviation (input) MOTOR_CONTROL_LEFT_BASE_PWM :: "'a::numeral" where "MOTOR_CONTROL_LEFT_BASE_PWM \<equiv> 230"
abbreviation (input) MOTOR_CONTROL_RIGHT_BASE_PWM :: "'a::numeral" where "MOTOR_CONTROL_RIGHT_BASE_PWM \<equiv> 230"
abbreviation (input) MOTOR_CONTROL_CB_BA_COMMON_LINE_PWM :: "'a::numeral" where
  "MOTOR_CONTROL_CB_BA_COMMON_LINE_PWM \<equiv> 230"
abbreviation (input) MOTOR_CONTROL_TRACKING_MIN_PWM :: "'a::numeral" where "MOTOR_CONTROL_TRACKING_MIN_PWM \<equiv> 180"
abbreviation (input) MOTOR_CONTROL_LEFT_TRACKING_FAST_BOOST_PWM :: "'a::numeral" where
  "MOTOR_CONTROL_LEFT_TRACKING_FAST_BOOST_PWM \<equiv> 180"
abbreviation (input) MOTOR_CONTROL_RIGHT_TRACKING_FAST_BOOST_PWM :: "'a::numeral" where
  "MOTOR_CONTROL_RIGHT_TRACKING_FAST_BOOST_PWM \<equiv> 180"
abbreviation (input) MOTOR_CONTROL_LINE_RECOVERY_CORRECTION_PWM :: "'a::numeral" where
  "MOTOR_CONTROL_LINE_RECOVERY_CORRECTION_PWM \<equiv> 180"
abbreviation (input) MOTOR_CONTROL_LEFT_PIVOT_PWM :: "'a::numeral" where "MOTOR_CONTROL_LEFT_PIVOT_PWM \<equiv> 330"
abbreviation (input) MOTOR_CONTROL_RIGHT_PIVOT_PWM :: "'a::numeral" where "MOTOR_CONTROL_RIGHT_PIVOT_PWM \<equiv> 330"
abbreviation (input) MOTOR_CONTROL_LEFT_TURN_RIGHT_BOOST_PWM :: "'a::numeral" where
  "MOTOR_CONTROL_LEFT_TURN_RIGHT_BOOST_PWM \<equiv> 120"
abbreviation (input) MOTOR_CONTROL_RIGHT_TURN_LEFT_BOOST_PWM :: "'a::numeral" where
  "MOTOR_CONTROL_RIGHT_TURN_LEFT_BOOST_PWM \<equiv> 120"
abbreviation (input) MOTOR_CONTROL_LEFT_UTURN_PWM :: "'a::numeral" where "MOTOR_CONTROL_LEFT_UTURN_PWM \<equiv> 340"
abbreviation (input) MOTOR_CONTROL_RIGHT_UTURN_PWM :: "'a::numeral" where "MOTOR_CONTROL_RIGHT_UTURN_PWM \<equiv> 310"
abbreviation (input) MOTOR_CONTROL_AB_LEFT_UTURN_PWM :: "'a::numeral" where "MOTOR_CONTROL_AB_LEFT_UTURN_PWM \<equiv> 340"
abbreviation (input) MOTOR_CONTROL_AB_RIGHT_UTURN_PWM :: "'a::numeral" where
  "MOTOR_CONTROL_AB_RIGHT_UTURN_PWM \<equiv> 340"
abbreviation (input) MOTOR_CONTROL_LEFT_PICKUP_REVERSE_PWM :: "'a::numeral" where
  "MOTOR_CONTROL_LEFT_PICKUP_REVERSE_PWM \<equiv> 240"
abbreviation (input) MOTOR_CONTROL_RIGHT_PICKUP_REVERSE_PWM :: "'a::numeral" where
  "MOTOR_CONTROL_RIGHT_PICKUP_REVERSE_PWM \<equiv> 240"
abbreviation (input) MOTOR_CONTROL_LEFT_TRIM :: int where "MOTOR_CONTROL_LEFT_TRIM \<equiv> 0"
abbreviation (input) MOTOR_CONTROL_RIGHT_TRIM :: int where "MOTOR_CONTROL_RIGHT_TRIM \<equiv> 0"

datatype motor_direction_t = MOTOR_DIRECTION_COAST | MOTOR_DIRECTION_FORWARD | MOTOR_DIRECTION_REVERSE

record motor_output_t =
  left_pwm :: u16
  right_pwm :: u16
  left_direction :: motor_direction_t
  right_direction :: motor_direction_t
  standby :: bool

definition MotorControlLogic_ClampPwm :: "int \<Rightarrow> u16" where
  "MotorControlLogic_ClampPwm pwm =
     (if pwm \<le> 0 then 0 else if pwm \<ge> MOTOR_CONTROL_PWM_MAX then MOTOR_CONTROL_PWM_MAX
      else word_of_int pwm)"

definition MotorControlLogic_MakeForward :: "int \<Rightarrow> int \<Rightarrow> motor_output_t" where
  "MotorControlLogic_MakeForward left right =
     \<lparr>left_pwm = (if left > 0 then MotorControlLogic_ClampPwm (left + MOTOR_CONTROL_LEFT_TRIM) else 0),
      right_pwm = (if right > 0 then MotorControlLogic_ClampPwm (right + MOTOR_CONTROL_RIGHT_TRIM) else 0),
      left_direction = MOTOR_DIRECTION_FORWARD, right_direction = MOTOR_DIRECTION_FORWARD,
      standby = True\<rparr>"

definition MotorControlLogic_MakePivot ::
    "motor_direction_t \<Rightarrow> motor_direction_t \<Rightarrow> u16 \<Rightarrow> u16 \<Rightarrow> motor_output_t" where
  "MotorControlLogic_MakePivot left_dir right_dir left right =
     \<lparr>left_pwm = MotorControlLogic_ClampPwm (uint left + MOTOR_CONTROL_LEFT_TRIM),
      right_pwm = MotorControlLogic_ClampPwm (uint right + MOTOR_CONTROL_RIGHT_TRIM),
      left_direction = left_dir, right_direction = right_dir, standby = True\<rparr>"

definition MotorControlLogic_ClampTrackingPwm :: "int \<Rightarrow> int" where
  "MotorControlLogic_ClampTrackingPwm pwm =
     (if pwm < MOTOR_CONTROL_TRACKING_MIN_PWM then MOTOR_CONTROL_TRACKING_MIN_PWM else pwm)"

definition MotorControlLogic_MakeSafeStop :: motor_output_t where
  "MotorControlLogic_MakeSafeStop =
     \<lparr>left_pwm = 0, right_pwm = 0, left_direction = MOTOR_DIRECTION_COAST,
      right_direction = MOTOR_DIRECTION_COAST, standby = False\<rparr>"

definition MotorControlLogic_ApplyForwardPwmFloors ::
    "u16 \<Rightarrow> u16 \<Rightarrow> motor_output_t \<Rightarrow> bool \<times> motor_output_t" where
  "MotorControlLogic_ApplyForwardPwmFloors left_floor right_floor out =
     (if left_floor > MOTOR_CONTROL_PWM_MAX \<or> right_floor > MOTOR_CONTROL_PWM_MAX \<or> \<not> standby out
         \<or> left_direction out \<noteq> MOTOR_DIRECTION_FORWARD
         \<or> right_direction out \<noteq> MOTOR_DIRECTION_FORWARD then (False, out)
      else
        let out = (if left_pwm out \<noteq> 0 \<and> left_pwm out < left_floor
                   then out\<lparr>left_pwm := left_floor\<rparr> else out);
            out = (if right_pwm out \<noteq> 0 \<and> right_pwm out < right_floor
                   then out\<lparr>right_pwm := right_floor\<rparr> else out)
        in (True, out))"

definition MotorControlLogic_ComputeDifferentialForward :: "u16 \<Rightarrow> u16 \<Rightarrow> int \<Rightarrow> motor_output_t" where
  "MotorControlLogic_ComputeDifferentialForward left_base right_base correction =
     (if correction > 0
      then MotorControlLogic_MakeForward
             (MotorControlLogic_ClampTrackingPwm (uint left_base - correction))
             (uint right_base + min correction MOTOR_CONTROL_RIGHT_TRACKING_FAST_BOOST_PWM)
      else if correction < 0
      then MotorControlLogic_MakeForward
             (uint left_base + min (- correction) MOTOR_CONTROL_LEFT_TRACKING_FAST_BOOST_PWM)
             (MotorControlLogic_ClampTrackingPwm (uint right_base + correction))
      else MotorControlLogic_MakeForward (uint left_base) (uint right_base))"

text \<open>\<open>None\<close> is the answer \<open>0U\<close>, with which the previous output stays.\<close>

fun MotorControlLogic_ComputeLineFollow :: "linetracer_line_state_t \<Rightarrow> motor_output_t option" where
  "MotorControlLogic_ComputeLineFollow LINETRACER_LINE_CENTERED =
     Some (MotorControlLogic_MakeForward MOTOR_CONTROL_LEFT_BASE_PWM MOTOR_CONTROL_RIGHT_BASE_PWM)"
| "MotorControlLogic_ComputeLineFollow LINETRACER_LINE_LEFT_ONLY =
     Some (MotorControlLogic_ComputeDifferentialForward MOTOR_CONTROL_LEFT_BASE_PWM
             MOTOR_CONTROL_RIGHT_BASE_PWM MOTOR_CONTROL_LINE_RECOVERY_CORRECTION_PWM)"
| "MotorControlLogic_ComputeLineFollow LINETRACER_LINE_RIGHT_ONLY =
     Some (MotorControlLogic_ComputeDifferentialForward MOTOR_CONTROL_LEFT_BASE_PWM
             MOTOR_CONTROL_RIGHT_BASE_PWM (- MOTOR_CONTROL_LINE_RECOVERY_CORRECTION_PWM))"
| "MotorControlLogic_ComputeLineFollow LINETRACER_LINE_UNKNOWN = None"
| "MotorControlLogic_ComputeLineFollow LINETRACER_LINE_WHITE_GAP = None"

fun MotorControlLogic_ComputeRouteAction :: "route_action_t \<Rightarrow> motor_output_t option" where
  "MotorControlLogic_ComputeRouteAction ROUTE_ACTION_GO_STRAIGHT =
     Some (MotorControlLogic_MakeForward MOTOR_CONTROL_LEFT_BASE_PWM MOTOR_CONTROL_RIGHT_BASE_PWM)"
| "MotorControlLogic_ComputeRouteAction ROUTE_ACTION_TURN_LEFT =
     Some (MotorControlLogic_MakePivot MOTOR_DIRECTION_REVERSE MOTOR_DIRECTION_FORWARD
             MOTOR_CONTROL_LEFT_PIVOT_PWM
             (MOTOR_CONTROL_RIGHT_PIVOT_PWM + MOTOR_CONTROL_LEFT_TURN_RIGHT_BOOST_PWM))"
| "MotorControlLogic_ComputeRouteAction ROUTE_ACTION_TURN_RIGHT =
     Some (MotorControlLogic_MakePivot MOTOR_DIRECTION_FORWARD MOTOR_DIRECTION_REVERSE
             (MOTOR_CONTROL_LEFT_PIVOT_PWM + MOTOR_CONTROL_RIGHT_TURN_LEFT_BOOST_PWM)
             MOTOR_CONTROL_RIGHT_PIVOT_PWM)"
| "MotorControlLogic_ComputeRouteAction ROUTE_ACTION_TURN_AROUND =
     Some (MotorControlLogic_MakePivot MOTOR_DIRECTION_FORWARD MOTOR_DIRECTION_REVERSE
             MOTOR_CONTROL_LEFT_UTURN_PWM MOTOR_CONTROL_RIGHT_UTURN_PWM)"
| "MotorControlLogic_ComputeRouteAction ROUTE_ACTION_REVERSE =
     Some (MotorControlLogic_MakePivot MOTOR_DIRECTION_REVERSE MOTOR_DIRECTION_REVERSE
             MOTOR_CONTROL_LEFT_PICKUP_REVERSE_PWM MOTOR_CONTROL_RIGHT_PICKUP_REVERSE_PWM)"
| "MotorControlLogic_ComputeRouteAction ROUTE_ACTION_STOP_AT_PICKUP = Some MotorControlLogic_MakeSafeStop"
| "MotorControlLogic_ComputeRouteAction ROUTE_ACTION_STOP_AT_DEST = Some MotorControlLogic_MakeSafeStop"
| "MotorControlLogic_ComputeRouteAction ROUTE_ACTION_JOB_COMPLETE = Some MotorControlLogic_MakeSafeStop"
| "MotorControlLogic_ComputeRouteAction ROUTE_ACTION_LOAD_LOST = Some MotorControlLogic_MakeSafeStop"
| "MotorControlLogic_ComputeRouteAction ROUTE_ACTION_ERROR = Some MotorControlLogic_MakeSafeStop"
| "MotorControlLogic_ComputeRouteAction ROUTE_ACTION_NONE = None"

definition MotorControlLogic_ComputePickupUTurn ::
    "uart_linetracer_position_t \<Rightarrow> uart_linetracer_route_t \<Rightarrow> motor_output_t" where
  "MotorControlLogic_ComputePickupUTurn position route =
     (if position = UART_LINETRACER_POSITION_DEST_A \<and> route = UART_LINETRACER_ROUTE_A
         \<or> position = UART_LINETRACER_POSITION_DEST_B \<and> route = UART_LINETRACER_ROUTE_B
      then MotorControlLogic_MakePivot MOTOR_DIRECTION_FORWARD MOTOR_DIRECTION_REVERSE
             MOTOR_CONTROL_AB_LEFT_UTURN_PWM MOTOR_CONTROL_AB_RIGHT_UTURN_PWM
      else MotorControlLogic_MakePivot MOTOR_DIRECTION_FORWARD MOTOR_DIRECTION_REVERSE
             MOTOR_CONTROL_LEFT_UTURN_PWM MOTOR_CONTROL_RIGHT_UTURN_PWM)"

definition MotorControlLogic_ComputeControlOutput ::
    "linetracer_control_state_t \<Rightarrow> route_action_t \<Rightarrow> linetracer_line_state_t \<Rightarrow> bool \<Rightarrow> bool
     \<Rightarrow> motor_output_t option" where
  "MotorControlLogic_ComputeControlOutput st pending line is_active latched =
     (if latched \<or> \<not> is_active then Some MotorControlLogic_MakeSafeStop
      else if st \<in> {LINETRACER_CONTROL_TURNING_FROM_DEST, LINETRACER_CONTROL_TURNING_TO_PICKUP,
                    LINETRACER_CONTROL_TURNING_AT_PICKUP}
      then (case MotorControlLogic_ComputeRouteAction pending of
              None \<Rightarrow> Some MotorControlLogic_MakeSafeStop
            | Some out \<Rightarrow> Some out)
      else if st = LINETRACER_CONTROL_MOVING_ON_COMMON_LINE
      then (if pending = ROUTE_ACTION_TURN_LEFT \<or> pending = ROUTE_ACTION_TURN_RIGHT
            then MotorControlLogic_ComputeRouteAction pending
            else MotorControlLogic_ComputeLineFollow line)
      else if st \<in> {LINETRACER_CONTROL_MOVING_TO_SOURCE_JUNCTION, LINETRACER_CONTROL_MOVING_TO_PICKUP,
                    LINETRACER_CONTROL_MOVING_TO_DEST}
      then MotorControlLogic_ComputeLineFollow line
      else Some MotorControlLogic_MakeSafeStop)"

section \<open>The line-following controller\<close>

text \<open>
  Floating-point numbers are rationals; \<open>rnd\<close> is the rounding of the processor's single-precision
  unit, applied after every operation whose result it may round. No operation here can overflow
  or divide by zero, so there are no infinities and no NaNs.
\<close>

record line_follow_pid_t =
  pid_previous_error :: int
  pid_integral :: rat
  pid_last_update_ms :: u32
  pid_initialized :: bool

abbreviation (input) LINE_FOLLOW_PID_UPDATE_PERIOD_MS :: "'a::numeral" where
  "LINE_FOLLOW_PID_UPDATE_PERIOD_MS \<equiv> 10"
abbreviation (input) LINE_FOLLOW_PID_KP :: rat where "LINE_FOLLOW_PID_KP \<equiv> 3 / 8"
abbreviation (input) LINE_FOLLOW_PID_KI :: rat where "LINE_FOLLOW_PID_KI \<equiv> 0"
abbreviation (input) LINE_FOLLOW_PID_KD :: rat where "LINE_FOLLOW_PID_KD \<equiv> 1 / 32"
abbreviation (input) LINE_FOLLOW_PID_CORRECTION_LIMIT :: rat where "LINE_FOLLOW_PID_CORRECTION_LIMIT \<equiv> 200"
abbreviation (input) LINE_FOLLOW_PID_INTEGRAL_LIMIT :: rat where "LINE_FOLLOW_PID_INTEGRAL_LIMIT \<equiv> 250"

definition LineFollowPid_Clamp :: "rat \<Rightarrow> rat \<Rightarrow> rat" where
  "LineFollowPid_Clamp x limit = (if x > limit then limit else if x < - limit then - limit else x)"

definition LineFollowPid_Reset :: "line_follow_pid_t \<Rightarrow> line_follow_pid_t" where
  "LineFollowPid_Reset pid =
     pid\<lparr>pid_previous_error := 0, pid_integral := 0, pid_last_update_ms := 0, pid_initialized := False\<rparr>"

definition LineFollowPid_Init :: "line_follow_pid_t \<Rightarrow> line_follow_pid_t" where
  "LineFollowPid_Init pid = LineFollowPid_Reset pid"

text \<open>The conversion \<open>(int16_t)correction\<close> drops the fraction.\<close>

definition truncated :: "rat \<Rightarrow> int" where
  "truncated x = (if x < 0 then - \<lfloor>- x\<rfloor> else \<lfloor>x\<rfloor>)"

definition pid_terms :: "(rat \<Rightarrow> rat) \<Rightarrow> line_follow_pid_t \<Rightarrow> int \<Rightarrow> u32 \<Rightarrow> rat \<times> rat" where
  "pid_terms rnd pid err now =
     (if pid_initialized pid then
        let elapsed = now - pid_last_update_ms pid;
            elapsed = (if elapsed = 0 then LINE_FOLLOW_PID_UPDATE_PERIOD_MS else elapsed);
            period_scale = rnd (rnd (of_int (uint elapsed)) / LINE_FOLLOW_PID_UPDATE_PERIOD_MS)
        in (LineFollowPid_Clamp
              (rnd (pid_integral pid + rnd (rnd (LINE_FOLLOW_PID_KI * of_int err) * period_scale)))
              LINE_FOLLOW_PID_INTEGRAL_LIMIT,
            rnd (rnd (LINE_FOLLOW_PID_KD * rnd (of_int err - of_int (pid_previous_error pid)))
                 / period_scale))
      else (LineFollowPid_Clamp (rnd (LINE_FOLLOW_PID_KI * of_int err)) LINE_FOLLOW_PID_INTEGRAL_LIMIT, 0))"

definition LineFollowPid_Update ::
    "(rat \<Rightarrow> rat) \<Rightarrow> line_follow_pid_t \<Rightarrow> int \<Rightarrow> u32 \<Rightarrow> int \<times> line_follow_pid_t" where
  "LineFollowPid_Update rnd pid err now =
     (let proportional = rnd (LINE_FOLLOW_PID_KP * of_int err)
      in case pid_terms rnd pid err now of
           (integral, derivative) \<Rightarrow>
             let correction = rnd (rnd (proportional + integral) + derivative);
                 correction = LineFollowPid_Clamp correction LINE_FOLLOW_PID_CORRECTION_LIMIT
             in (truncated correction,
                 pid\<lparr>pid_previous_error := err, pid_integral := integral, pid_last_update_ms := now,
                     pid_initialized := True\<rparr>))"

section \<open>The driver\<close>

datatype wheel_channel = TIM3_Channel_1 | TIM3_Channel_2

datatype gpioc_pin = MOTOR_RIGHT_IN1 | MOTOR_RIGHT_IN2 | MOTOR_LEFT_IN1 | MOTOR_LEFT_IN2 | MOTOR_STBY_PIN

record wheel_drive =
  motorControlInitialized :: bool
  motorControlLastOutput :: motor_output_t
  wheel_compare :: "wheel_channel \<Rightarrow> u16" \<comment> \<open>compare register, in units of the PWM period\<close>
  wheel_running :: "wheel_channel \<Rightarrow> bool"
  gpioc :: "gpioc_pin \<Rightarrow> bool"
  wheel_start_ok :: "wheel_channel \<Rightarrow> bool" \<comment> \<open>whether \<open>HAL_TIM_PWM_Start\<close> succeeds\<close>

definition set_wheel_compare :: "wheel_channel \<Rightarrow> u16 \<Rightarrow> wheel_drive \<Rightarrow> wheel_drive" where
  "set_wheel_compare ch pulse d = d\<lparr>wheel_compare := (wheel_compare d)(ch := pulse)\<rparr>"

definition write_gpioc :: "gpioc_pin \<Rightarrow> bool \<Rightarrow> wheel_drive \<Rightarrow> wheel_drive" where
  "write_gpioc pin level d = d\<lparr>gpioc := (gpioc d)(pin := level)\<rparr>"

definition MotorControl_PhysicalDirection :: "motor_direction_t \<Rightarrow> u8 \<Rightarrow> motor_direction_t" where
  "MotorControl_PhysicalDirection direction reversed =
     (if reversed = 0 \<or> direction = MOTOR_DIRECTION_COAST then direction
      else if direction = MOTOR_DIRECTION_FORWARD then MOTOR_DIRECTION_REVERSE
      else MOTOR_DIRECTION_FORWARD)"

definition MotorControl_WriteDirection ::
    "gpioc_pin \<Rightarrow> gpioc_pin \<Rightarrow> motor_direction_t \<Rightarrow> wheel_drive \<Rightarrow> wheel_drive" where
  "MotorControl_WriteDirection in1 in2 direction d =
     write_gpioc in2 (direction = MOTOR_DIRECTION_REVERSE)
       (write_gpioc in1 (direction = MOTOR_DIRECTION_FORWARD) d)"

definition MotorControl_OutputIsValid :: "motor_output_t \<Rightarrow> bool" where
  "MotorControl_OutputIsValid out \<longleftrightarrow>
     \<not> (left_pwm out > MOTOR_CONTROL_PWM_MAX \<or> right_pwm out > MOTOR_CONTROL_PWM_MAX)"

definition MotorControl_DirectionChanged :: "wheel_drive \<Rightarrow> motor_output_t \<Rightarrow> bool" where
  "MotorControl_DirectionChanged d out \<longleftrightarrow>
     left_direction out \<noteq> left_direction (motorControlLastOutput d)
     \<or> right_direction out \<noteq> right_direction (motorControlLastOutput d)
     \<or> standby out \<noteq> standby (motorControlLastOutput d)"

definition MotorControl_ForceStop :: "wheel_drive \<Rightarrow> wheel_drive" where
  "MotorControl_ForceStop d =
     (let d = set_wheel_compare TIM3_Channel_2 0 d;
          d = set_wheel_compare TIM3_Channel_1 0 d;
          d = write_gpioc MOTOR_STBY_PIN False d;
          d = MotorControl_WriteDirection MOTOR_LEFT_IN1 MOTOR_LEFT_IN2 MOTOR_DIRECTION_COAST d;
          d = MotorControl_WriteDirection MOTOR_RIGHT_IN1 MOTOR_RIGHT_IN2 MOTOR_DIRECTION_COAST d
      in d\<lparr>motorControlLastOutput := MotorControlLogic_MakeSafeStop\<rparr>)"

definition wheel_pwm_start :: "wheel_channel \<Rightarrow> wheel_drive \<Rightarrow> bool \<times> wheel_drive" where
  "wheel_pwm_start ch d =
     (if wheel_start_ok d ch then (True, d\<lparr>wheel_running := (wheel_running d)(ch := True)\<rparr>)
      else (False, d))"

definition MotorControl_Init :: "wheel_drive \<Rightarrow> bool \<times> wheel_drive" where
  "MotorControl_Init d =
     (let d = MotorControl_ForceStop (d\<lparr>motorControlInitialized := False\<rparr>)
      in case wheel_pwm_start TIM3_Channel_1 d of
           (False, d) \<Rightarrow> (False, d)
         | (True, d) \<Rightarrow>
             (case wheel_pwm_start TIM3_Channel_2 d of
                (False, d) \<Rightarrow>
                  (False, MotorControl_ForceStop
                            (d\<lparr>wheel_running := (wheel_running d)(TIM3_Channel_1 := False)\<rparr>))
              | (True, d) \<Rightarrow> (True, MotorControl_ForceStop (d\<lparr>motorControlInitialized := True\<rparr>))))"

definition MotorControl_Apply :: "motor_output_t \<Rightarrow> wheel_drive \<Rightarrow> bool \<times> wheel_drive" where
  "MotorControl_Apply out d =
     (if \<not> motorControlInitialized d \<or> \<not> MotorControl_OutputIsValid out
      then (False, MotorControl_ForceStop d)
      else if \<not> standby out \<or> left_pwm out = 0 \<and> right_pwm out = 0
      then (True, MotorControl_ForceStop d)
      else
        let left = MotorControl_PhysicalDirection (left_direction out) 0;
            right = MotorControl_PhysicalDirection (right_direction out) 0;
            d = (if MotorControl_DirectionChanged d out
                 then (let d = set_wheel_compare TIM3_Channel_2 0 d;
                           d = set_wheel_compare TIM3_Channel_1 0 d;
                           d = write_gpioc MOTOR_STBY_PIN False d;
                           d = MotorControl_WriteDirection MOTOR_LEFT_IN1 MOTOR_LEFT_IN2 left d
                       in MotorControl_WriteDirection MOTOR_RIGHT_IN1 MOTOR_RIGHT_IN2 right d)
                 else d);
            d = set_wheel_compare TIM3_Channel_2 (left_pwm out) d;
            d = set_wheel_compare TIM3_Channel_1 (right_pwm out) d;
            d = write_gpioc MOTOR_STBY_PIN True d
        in (True, d\<lparr>motorControlLastOutput := out\<rparr>))"

section \<open>What the drive keeps\<close>

text \<open>The wheels stand still when the driver's standby pin is low, whatever else it is told.\<close>

definition wheels_still :: "wheel_drive \<Rightarrow> bool" where
  "wheels_still d \<longleftrightarrow> \<not> gpioc d MOTOR_STBY_PIN \<and> wheel_compare d TIM3_Channel_1 = 0
     \<and> wheel_compare d TIM3_Channel_2 = 0 \<and> (\<forall>pin. \<not> gpioc d pin)"

text \<open>A wheel's direction inputs agree with a direction.\<close>

definition wheel_pins :: "wheel_drive \<Rightarrow> gpioc_pin \<Rightarrow> gpioc_pin \<Rightarrow> motor_direction_t \<Rightarrow> bool" where
  "wheel_pins d in1 in2 direction \<longleftrightarrow>
     gpioc d in1 = (direction = MOTOR_DIRECTION_FORWARD)
     \<and> gpioc d in2 = (direction = MOTOR_DIRECTION_REVERSE)"

text \<open>
  The hardware shows the last output: the compare registers and the standby pin hold it and the
  direction pins, whose writes are skipped while the directions stay the same, agree with it.
\<close>

definition drive_ok :: "wheel_drive \<Rightarrow> bool" where
  "drive_ok d \<longleftrightarrow>
     wheel_compare d TIM3_Channel_2 = left_pwm (motorControlLastOutput d)
     \<and> wheel_compare d TIM3_Channel_1 = right_pwm (motorControlLastOutput d)
     \<and> gpioc d MOTOR_STBY_PIN = standby (motorControlLastOutput d)
     \<and> wheel_pins d MOTOR_LEFT_IN1 MOTOR_LEFT_IN2 (left_direction (motorControlLastOutput d))
     \<and> wheel_pins d MOTOR_RIGHT_IN1 MOTOR_RIGHT_IN2 (right_direction (motorControlLastOutput d))
     \<and> MotorControl_OutputIsValid (motorControlLastOutput d)"

lemmas drive_writes = set_wheel_compare_def write_gpioc_def MotorControl_WriteDirection_def

lemma force_stop_still: "wheels_still (MotorControl_ForceStop d)"
proof -
  have "\<not> gpioc (MotorControl_ForceStop d) pin" for pin
    by (cases pin) (simp_all add: MotorControl_ForceStop_def drive_writes Let_def)
  then show ?thesis
    by (simp add: wheels_still_def MotorControl_ForceStop_def drive_writes Let_def)
qed

lemma force_stop_ok: "drive_ok (MotorControl_ForceStop d)"
  by (simp add: drive_ok_def MotorControl_ForceStop_def drive_writes Let_def wheel_pins_def
      MotorControlLogic_MakeSafeStop_def MotorControl_OutputIsValid_def)

lemma physical_direction [simp]: "MotorControl_PhysicalDirection direction 0 = direction"
  by (simp add: MotorControl_PhysicalDirection_def)

lemma apply_ok:
  assumes ok: "drive_ok d"
  shows "drive_ok (snd (MotorControl_Apply out d))"
proof (cases "\<not> motorControlInitialized d \<or> \<not> MotorControl_OutputIsValid out \<or> \<not> standby out
              \<or> left_pwm out = 0 \<and> right_pwm out = 0")
  case True
  then show ?thesis by (simp add: MotorControl_Apply_def force_stop_ok)
next
  case False
  then have driven: "motorControlInitialized d" "MotorControl_OutputIsValid out" "standby out"
      "(left_pwm out = 0 \<and> right_pwm out = 0) = False"
    by blast+
  show ?thesis
  proof (cases "MotorControl_DirectionChanged d out")
    case True
    then show ?thesis
      using driven
      by (cases "left_pwm out = 0")
         (simp_all add: MotorControl_Apply_def Let_def drive_writes drive_ok_def wheel_pins_def)
  next
    case False
    then have same: "left_direction (motorControlLastOutput d) = left_direction out"
        "right_direction (motorControlLastOutput d) = right_direction out"
      by (simp_all add: MotorControl_DirectionChanged_def)
    show ?thesis
      using driven False ok unfolding drive_ok_def wheel_pins_def same
      by (cases "left_pwm out = 0") (simp_all add: MotorControl_Apply_def Let_def drive_writes)
  qed
qed

lemma apply_stop_still:
  "\<not> standby out \<Longrightarrow> wheels_still (snd (MotorControl_Apply out d))"
  by (simp add: MotorControl_Apply_def force_stop_still)

lemma lt_init_ok: "drive_ok (snd (MotorControl_Init d))"
  by (simp add: MotorControl_Init_def Let_def wheel_pwm_start_def force_stop_ok)

text \<open>Every output that the firmware computes is one that the driver accepts.\<close>

lemma clamp_pwm_le [simp]: "MotorControlLogic_ClampPwm x \<le> 999"
proof (cases "0 < x \<and> x < 999")
  case True
  then have "unat (word_of_int x :: u16) = nat x" by (simp add: unat_eq_nat_uint uint_word_of_int)
  then show ?thesis using True by (simp add: MotorControlLogic_ClampPwm_def word_le_nat_alt) arith
qed (auto simp: MotorControlLogic_ClampPwm_def)

lemma not_above_clamp [simp]: "\<not> 999 < MotorControlLogic_ClampPwm x"
  by (simp add: not_less)

lemma forward_valid [simp]: "MotorControl_OutputIsValid (MotorControlLogic_MakeForward l r)"
  by (simp add: MotorControl_OutputIsValid_def MotorControlLogic_MakeForward_def)

lemma pivot_valid [simp]: "MotorControl_OutputIsValid (MotorControlLogic_MakePivot a b l r)"
  by (simp add: MotorControl_OutputIsValid_def MotorControlLogic_MakePivot_def)

lemma stop_valid [simp]: "MotorControl_OutputIsValid MotorControlLogic_MakeSafeStop"
  by (simp add: MotorControl_OutputIsValid_def MotorControlLogic_MakeSafeStop_def)

lemma differential_valid [simp]:
  "MotorControl_OutputIsValid (MotorControlLogic_ComputeDifferentialForward l r k)"
  by (simp add: MotorControlLogic_ComputeDifferentialForward_def)

lemma line_follow_valid:
  "MotorControlLogic_ComputeLineFollow line = Some out \<Longrightarrow> MotorControl_OutputIsValid out"
  by (cases line) auto

lemma route_action_valid:
  "MotorControlLogic_ComputeRouteAction a = Some out \<Longrightarrow> MotorControl_OutputIsValid out"
  by (cases a) auto

lemma control_output_valid:
  "MotorControlLogic_ComputeControlOutput st a line is_active latched = Some out
     \<Longrightarrow> MotorControl_OutputIsValid out"
  by (auto simp: MotorControlLogic_ComputeControlOutput_def line_follow_valid route_action_valid
      split: if_splits option.splits)

lemma floors_valid:
  "MotorControl_OutputIsValid out \<Longrightarrow>
     MotorControl_OutputIsValid (snd (MotorControlLogic_ApplyForwardPwmFloors l r out))"
  by (auto simp: MotorControlLogic_ApplyForwardPwmFloors_def MotorControl_OutputIsValid_def Let_def)

text \<open>The correction of the line-following controller is limited, however the unit rounds.\<close>

lemma pid_bounds: "\<bar>fst (LineFollowPid_Update rnd pid err now)\<bar> \<le> 200"
proof -
  have trunc: "\<bar>truncated x\<bar> \<le> 200" if "- 200 \<le> x" "x \<le> 200" for x
  proof (cases "x < 0")
    case True
    have "\<lfloor>- x\<rfloor> \<le> 200" "0 \<le> \<lfloor>- x\<rfloor>" using that True by (simp_all add: floor_le_iff)
    then show ?thesis using True by (simp add: truncated_def)
  next
    case False
    have "\<lfloor>x\<rfloor> \<le> 200" "0 \<le> \<lfloor>x\<rfloor>" using that False by (simp_all add: floor_le_iff)
    then show ?thesis using False by (simp add: truncated_def)
  qed
  have clamp: "- 200 \<le> LineFollowPid_Clamp x 200" "LineFollowPid_Clamp x 200 \<le> 200" for x
    by (simp_all add: LineFollowPid_Clamp_def)
  show ?thesis
    by (simp add: LineFollowPid_Update_def Let_def split_def trunc clamp)
qed

text \<open>
  The steering keeps the vehicle moving and turns it towards the line: both wheels run forward
  within the timer's period, and the wheel on the side of the line is never the faster one.
\<close>

lemma clamp_pwm_uint: "uint (MotorControlLogic_ClampPwm x) = (if x \<le> 0 then 0 else min x 999)"
  by (auto simp: MotorControlLogic_ClampPwm_def uint_word_of_int)

lemma differential_steers:
  assumes "uint lb \<le> 800" "180 \<le> uint lb" "uint rb = uint lb"
  shows "let out = MotorControlLogic_ComputeDifferentialForward lb rb k in
     180 \<le> uint (left_pwm out) \<and> 180 \<le> uint (right_pwm out)
     \<and> (0 < k \<longrightarrow> uint (left_pwm out) \<le> uint lb \<and> uint lb < uint (right_pwm out))
     \<and> (k < 0 \<longrightarrow> uint (right_pwm out) \<le> uint lb \<and> uint lb < uint (left_pwm out))
     \<and> (k = 0 \<longrightarrow> left_pwm out = right_pwm out)"
  using assms
  by (auto simp: MotorControlLogic_ComputeDifferentialForward_def MotorControlLogic_MakeForward_def
      MotorControlLogic_ClampTrackingPwm_def clamp_pwm_uint Let_def)

end
