(* ===== verification/Linetracer_Queues.thy ===== *)
theory Linetracer_Queues
  imports Linetracer_Types Rtos_Queue
begin

text \<open>
  The queues between the tasks of the line tracer
  (\<open>stm32/linetracer-controller/Application/Src/app_queues.c\<close>): their creation, the three transmit
  queues behind one put and one get, and the health queue with its drop counters.
\<close>

abbreviation (input) APP_CONTROL_COMMAND_QUEUE_DEPTH :: nat where "APP_CONTROL_COMMAND_QUEUE_DEPTH \<equiv> 8"
abbreviation (input) APP_SENSOR_SNAPSHOT_QUEUE_DEPTH :: nat where "APP_SENSOR_SNAPSHOT_QUEUE_DEPTH \<equiv> 4"
abbreviation (input) APP_SAFETY_EVENT_QUEUE_DEPTH :: nat where "APP_SAFETY_EVENT_QUEUE_DEPTH \<equiv> 8"
abbreviation (input) APP_CONTROL_SAFETY_QUEUE_DEPTH :: nat where "APP_CONTROL_SAFETY_QUEUE_DEPTH \<equiv> 4"
abbreviation (input) APP_UNLOAD_COMMAND_QUEUE_DEPTH :: nat where "APP_UNLOAD_COMMAND_QUEUE_DEPTH \<equiv> 4"
abbreviation (input) APP_UNLOAD_RESULT_QUEUE_DEPTH :: nat where "APP_UNLOAD_RESULT_QUEUE_DEPTH \<equiv> 4"
abbreviation (input) APP_TX_RESPONSE_QUEUE_DEPTH :: nat where "APP_TX_RESPONSE_QUEUE_DEPTH \<equiv> 8"
abbreviation (input) APP_TX_SAFETY_QUEUE_DEPTH :: nat where "APP_TX_SAFETY_QUEUE_DEPTH \<equiv> 4"
abbreviation (input) APP_TX_EVENT_QUEUE_DEPTH :: nat where "APP_TX_EVENT_QUEUE_DEPTH \<equiv> 16"
abbreviation (input) APP_HEALTH_EVENT_QUEUE_DEPTH :: nat where "APP_HEALTH_EVENT_QUEUE_DEPTH \<equiv> 8"

text \<open>\<open>tx_notified\<close> is the flag that \<open>CommTxTask_NotifyQueueReady\<close> sets for the transmit task.\<close>

record app_queues =
  controlCommandQueue :: "app_control_command_t os_queue ptr"
  sensorSnapshotQueue :: "app_sensor_snapshot_t os_queue ptr"
  safetyEventQueue :: "app_safety_event_t os_queue ptr"
  controlSafetyQueue :: "app_control_safety_event_t os_queue ptr"
  unloadCommandQueue :: "app_unload_command_t os_queue ptr"
  unloadResultQueue :: "app_unload_result_t os_queue ptr"
  txSafetyQueue :: "app_tx_event_t os_queue ptr"
  txResponseQueue :: "app_tx_event_t os_queue ptr"
  txEventQueue :: "app_tx_event_t os_queue ptr"
  healthEventQueue :: "app_health_event_t os_queue ptr"
  healthEventDropCounts :: "app_task_id_t \<Rightarrow> u32"
  tx_notified :: bool

definition AppQueues_AreReady :: "app_queues \<Rightarrow> bool" where
  "AppQueues_AreReady q \<longleftrightarrow>
     controlCommandQueue q \<noteq> NULL \<and> sensorSnapshotQueue q \<noteq> NULL \<and> safetyEventQueue q \<noteq> NULL
     \<and> controlSafetyQueue q \<noteq> NULL \<and> unloadCommandQueue q \<noteq> NULL \<and> unloadResultQueue q \<noteq> NULL
     \<and> txSafetyQueue q \<noteq> NULL \<and> txResponseQueue q \<noteq> NULL \<and> txEventQueue q \<noteq> NULL
     \<and> healthEventQueue q \<noteq> NULL"

text \<open>\<open>heap i\<close>: the kernel's heap had room for the \<open>i\<close>-th queue.\<close>

definition AppQueues_Init :: "(nat \<Rightarrow> bool) \<Rightarrow> app_queues \<Rightarrow> bool \<times> app_queues" where
  "AppQueues_Init heap q =
     (if AppQueues_AreReady q then (True, q)
      else
        let q = q\<lparr>healthEventDropCounts := \<lambda>_. 0,
                  controlCommandQueue := osMessageQueueNew (heap 0) APP_CONTROL_COMMAND_QUEUE_DEPTH,
                  sensorSnapshotQueue := osMessageQueueNew (heap 1) APP_SENSOR_SNAPSHOT_QUEUE_DEPTH,
                  safetyEventQueue := osMessageQueueNew (heap 2) APP_SAFETY_EVENT_QUEUE_DEPTH,
                  controlSafetyQueue := osMessageQueueNew (heap 3) APP_CONTROL_SAFETY_QUEUE_DEPTH,
                  unloadCommandQueue := osMessageQueueNew (heap 4) APP_UNLOAD_COMMAND_QUEUE_DEPTH,
                  unloadResultQueue := osMessageQueueNew (heap 5) APP_UNLOAD_RESULT_QUEUE_DEPTH,
                  txSafetyQueue := osMessageQueueNew (heap 6) APP_TX_SAFETY_QUEUE_DEPTH,
                  txResponseQueue := osMessageQueueNew (heap 7) APP_TX_RESPONSE_QUEUE_DEPTH,
                  txEventQueue := osMessageQueueNew (heap 8) APP_TX_EVENT_QUEUE_DEPTH,
                  healthEventQueue := osMessageQueueNew (heap 9) APP_HEALTH_EVENT_QUEUE_DEPTH\<rparr>
        in (AppQueues_AreReady q, q))"

primrec priority_code :: "app_tx_priority_t \<Rightarrow> u8" where
  "priority_code APP_TX_PRIORITY_TELEMETRY = 0"
| "priority_code APP_TX_PRIORITY_EVENT = 1"
| "priority_code APP_TX_PRIORITY_RESPONSE = 2"
| "priority_code APP_TX_PRIORITY_SAFETY = 3"

definition AppQueues_TryPutTx :: "app_tx_event_t \<Rightarrow> app_queues \<Rightarrow> osStatus_t \<times> app_queues" where
  "AppQueues_TryPutTx event q =
     (let prio = priority_code (app_tx_event_priority (txe_type event));
          notified = (\<lambda>status q. (status, if status = osOK then q\<lparr>tx_notified := True\<rparr> else q))
      in if app_tx_event_is_emergency (txe_type event)
         then (if txSafetyQueue q = NULL then (osErrorResource, q)
               else case osMessageQueuePut (txSafetyQueue q) event prio of
                   (status, mq) \<Rightarrow> notified status (q\<lparr>txSafetyQueue := mq\<rparr>))
         else if app_tx_event_is_response (txe_type event)
         then (if txResponseQueue q = NULL then (osErrorResource, q)
               else case osMessageQueuePut (txResponseQueue q) event prio of
                   (status, mq) \<Rightarrow> notified status (q\<lparr>txResponseQueue := mq\<rparr>))
         else (if txEventQueue q = NULL then (osErrorResource, q)
               else case osMessageQueuePut (txEventQueue q) event prio of
                   (status, mq) \<Rightarrow> notified status (q\<lparr>txEventQueue := mq\<rparr>)))"

definition AppQueues_TryGetNextTx :: "app_queues \<Rightarrow> osStatus_t \<times> app_tx_event_t option \<times> app_queues" where
  "AppQueues_TryGetNextTx q =
     (if txSafetyQueue q = NULL \<or> txResponseQueue q = NULL \<or> txEventQueue q = NULL
      then (osErrorResource, None, q)
      else case osMessageQueueGet (txSafetyQueue q) 0 of
          (osOK, event, mq) \<Rightarrow> (osOK, event, q\<lparr>txSafetyQueue := mq\<rparr>)
        | (_, _, mq) \<Rightarrow>
            (let q = q\<lparr>txSafetyQueue := mq\<rparr>
             in case osMessageQueueGet (txResponseQueue q) 0 of
                 (osOK, event, mq) \<Rightarrow> (osOK, event, q\<lparr>txResponseQueue := mq\<rparr>)
               | (_, _, mq) \<Rightarrow>
                   (let q = q\<lparr>txResponseQueue := mq\<rparr>
                    in case osMessageQueueGet (txEventQueue q) 0 of
                        (status, event, mq) \<Rightarrow> (status, event, q\<lparr>txEventQueue := mq\<rparr>))))"

definition AppQueues_TryPutHealth :: "app_health_event_t \<Rightarrow> app_queues \<Rightarrow> osStatus_t \<times> app_queues" where
  "AppQueues_TryPutHealth event q =
     (let src = hev_source_task event;
          dropped = (\<lambda>q. q\<lparr>healthEventDropCounts :=
                              (healthEventDropCounts q)(src := healthEventDropCounts q src + 1)\<rparr>)
      in if healthEventQueue q = NULL then (osErrorResource, dropped q)
         else case osMessageQueuePut (healthEventQueue q) event 0 of
             (status, mq) \<Rightarrow>
               let q = q\<lparr>healthEventQueue := mq\<rparr>
               in (status, if status \<noteq> osOK then dropped q else q))"

definition AppQueues_GetHealthDropCount :: "app_task_id_t \<Rightarrow> app_queues \<Rightarrow> u32" where
  "AppQueues_GetHealthDropCount src q = healthEventDropCounts q src"

section \<open>Priorities of the transmit queues\<close>

definition tx_queued :: "app_tx_event_t os_queue ptr \<Rightarrow> app_tx_event_t list" where
  "tx_queued mq = (case mq of None \<Rightarrow> [] | Some q \<Rightarrow> queue_items q)"

text \<open>What the transmit task still has to fetch, in the order in which it will get it.\<close>

definition tx_backlog :: "app_queues \<Rightarrow> app_tx_event_t list" where
  "tx_backlog q = tx_queued (txSafetyQueue q) @ tx_queued (txResponseQueue q) @ tx_queued (txEventQueue q)"

lemma next_tx:
  assumes "txSafetyQueue q \<noteq> NULL" "txResponseQueue q \<noteq> NULL" "txEventQueue q \<noteq> NULL"
  shows "case AppQueues_TryGetNextTx q of (status, event, q') \<Rightarrow>
     (status = osOK \<longleftrightarrow> tx_backlog q \<noteq> [])
     \<and> (tx_backlog q \<noteq> [] \<longrightarrow> event = Some (hd (tx_backlog q)) \<and> tx_backlog q' = tl (tx_backlog q))
     \<and> (tx_backlog q = [] \<longrightarrow> q' = q)"
  using assms
  by (auto simp: AppQueues_TryGetNextTx_def osMessageQueueGet_def tx_backlog_def tx_queued_def Let_def
      split: option.splits list.splits)

end
