(* ===== verification/Linetracer_Control_Task.thy ===== *)
theory Linetracer_Control_Task
  imports Linetracer_Line Linetracer_Motor Linetracer_Queues
begin

text \<open>
  The control task of the line tracer
  (\<open>stm32/linetracer-controller/Application/Src/control_task.c\<close>): one cycle fetches the events of
  the safety task, the results of the unloading, the samples of the sensors and the commands of
  the server, passes them to the control logic and drives the wheels. The trace of the steering
  on the debug UART is left out, and with it the raw readings kept for it.
\<close>

section \<open>State\<close>

abbreviation (input) CONTROL_TASK_MAX_COMMANDS_PER_CYCLE :: nat where "CONTROL_TASK_MAX_COMMANDS_PER_CYCLE \<equiv> 4"
abbreviation (input) CONTROL_TASK_ALIVE_INTERVAL_MS :: u32 where "CONTROL_TASK_ALIVE_INTERVAL_MS \<equiv> 500"
abbreviation (input) CONTROL_TASK_PENDING_RESPONSE_CAPACITY :: nat where
  "CONTROL_TASK_PENDING_RESPONSE_CAPACITY \<equiv> 8"
abbreviation (input) CONTROL_TASK_UNLOAD_RESET_TIMEOUT_MS :: u32 where "CONTROL_TASK_UNLOAD_RESET_TIMEOUT_MS \<equiv> 500"
abbreviation (input) CONTROL_ROUTE_MARKER_REARM_MS :: u32 where "CONTROL_ROUTE_MARKER_REARM_MS \<equiv> 30"
abbreviation (input) CONTROL_TURN_EXIT_BOOST_MS :: u32 where "CONTROL_TURN_EXIT_BOOST_MS \<equiv> 100"
abbreviation (input) CONTROL_TURN_REACQUIRE_BASE_PWM :: u16 where "CONTROL_TURN_REACQUIRE_BASE_PWM \<equiv> 280"
abbreviation (input) CONTROL_TURN_REACQUIRE_START_PWM :: u16 where "CONTROL_TURN_REACQUIRE_START_PWM \<equiv> 400"
abbreviation (input) CONTROL_TURN_REACQUIRE_START_MS :: u32 where "CONTROL_TURN_REACQUIRE_START_MS \<equiv> 100"
abbreviation (input) CONTROL_TURN_REACQUIRE_PID_CORRECTION_LIMIT :: int where
  "CONTROL_TURN_REACQUIRE_PID_CORRECTION_LIMIT \<equiv> 100"
abbreviation (input) MOTOR_CONTROL_START_BOOST_PWM :: u16 where "MOTOR_CONTROL_START_BOOST_PWM \<equiv> 400"
abbreviation (input) MOTOR_CONTROL_START_BOOST_MS :: u32 where "MOTOR_CONTROL_START_BOOST_MS \<equiv> 180"
abbreviation (input) MOTOR_CONTROL_TURN_EXIT_MIN_PWM :: u16 where "MOTOR_CONTROL_TURN_EXIT_MIN_PWM \<equiv> 330"
abbreviation (input) MOTOR_CONTROL_RIGHT_TURN_EXIT_RESTART_PWM :: u16 where
  "MOTOR_CONTROL_RIGHT_TURN_EXIT_RESTART_PWM \<equiv> 400"
abbreviation (input) APP_TX_RESPONSE_MAX_RETRIES :: u8 where "APP_TX_RESPONSE_MAX_RETRIES \<equiv> 3"
abbreviation (input) APP_TX_RESPONSE_RETRY_DELAY_MS :: u32 where "APP_TX_RESPONSE_RETRY_DELAY_MS \<equiv> 10"
abbreviation (input) CONTROL_HEALTH_MOTOR_INIT_FAILED :: u32 where "CONTROL_HEALTH_MOTOR_INIT_FAILED \<equiv> 0x4D000001"
abbreviation (input) CONTROL_HEALTH_MOTOR_OUTPUT_FAILED :: u32 where
  "CONTROL_HEALTH_MOTOR_OUTPUT_FAILED \<equiv> 0x4D000002"
abbreviation (input) CONTROL_HEALTH_UNLOAD_RESET_TIMEOUT :: u32 where
  "CONTROL_HEALTH_UNLOAD_RESET_TIMEOUT \<equiv> 0x4D000003"
abbreviation (input) CONTROL_HEALTH_UNLOAD_RESET_RESULT_MISMATCH :: u32 where
  "CONTROL_HEALTH_UNLOAD_RESET_RESULT_MISMATCH \<equiv> 0x4D000004"

fun ctl_state_code :: "linetracer_control_state_t \<Rightarrow> u32" where
  "ctl_state_code LINETRACER_CONTROL_INITIALIZING = 0"
| "ctl_state_code LINETRACER_CONTROL_WAITING_AT_DEST = 1"
| "ctl_state_code LINETRACER_CONTROL_TURNING_FROM_DEST = 2"
| "ctl_state_code LINETRACER_CONTROL_MOVING_TO_SOURCE_JUNCTION = 3"
| "ctl_state_code LINETRACER_CONTROL_MOVING_ON_COMMON_LINE = 4"
| "ctl_state_code LINETRACER_CONTROL_TURNING_TO_PICKUP = 5"
| "ctl_state_code LINETRACER_CONTROL_MOVING_TO_PICKUP = 6"
| "ctl_state_code LINETRACER_CONTROL_PICKUP_READY = 7"
| "ctl_state_code LINETRACER_CONTROL_WAITING_LOAD = 8"
| "ctl_state_code LINETRACER_CONTROL_TURNING_AT_PICKUP = 9"
| "ctl_state_code LINETRACER_CONTROL_MOVING_TO_DEST = 10"
| "ctl_state_code LINETRACER_CONTROL_UNLOADING = 11"
| "ctl_state_code LINETRACER_CONTROL_STOPPED = 12"
| "ctl_state_code LINETRACER_CONTROL_OBSTACLE_STOP = 13"
| "ctl_state_code LINETRACER_CONTROL_ERROR = 14"
| "ctl_state_code LINETRACER_CONTROL_EMERGENCY_STOPPED = 15"

record control_pending_response_t =
  pend_event :: app_tx_event_t
  pend_retry_at_ms :: u32
  pend_active :: bool

text \<open>
  The statics of the task, the queues, the drive of the wheels and what the task sets or reads
  of its neighbours: the requests to the sensor task, the abort flag and the inhibit generation
  of the unload task. \<open>ctk_ticks\<close> are the readings that \<open>osKernelGetTickCount\<close> will return.
\<close>

record control_task =
  ctk :: control_context_t
  ctk_pid :: line_follow_pid_t
  ctk_load_state :: uart_linetracer_load_state_t
  ctk_line_state :: linetracer_line_state_t
  ctk_line_error :: int
  ctk_motor_ready :: bool
  start_boost_until_ms :: u32
  turn_exit_boost_until_ms :: u32
  turn_exit_boost_action :: route_action_t
  ctk_initialized :: bool
  pending_unload_reset :: app_control_safety_event_t
  pending_unload_reset_active :: bool
  pending_unload_reset_deadline_ms :: u32
  pending_unload_reset_request_id :: u32
  next_unload_request_id :: u32
  route_sensor_epoch_ms :: u32
  route_marker_clear_since_ms :: u32
  route_marker_clear_active :: bool
  route_marker_armed :: bool
  pending_responses :: "control_pending_response_t list"
  ctk_queues :: app_queues
  ctk_drive :: wheel_drive
  line_tracking_reset_requested :: bool
  fsr_baseline_requested :: bool
  unload_abort_requested :: bool
  unload_inhibit_generation :: u32
  ctk_last_alive :: u32
  ctk_ticks :: "nat \<Rightarrow> u32"

definition tick :: "control_task \<Rightarrow> u32 \<times> control_task" where
  "tick t = (ctk_ticks t 0, t\<lparr>ctk_ticks := \<lambda>i. ctk_ticks t (Suc i)\<rparr>)"

definition with_ctx :: "(control_context_t \<Rightarrow> 'r \<times> control_context_t) \<Rightarrow> control_task \<Rightarrow> 'r \<times> control_task" where
  "with_ctx f t = (case f (ctk t) of (r, c) \<Rightarrow> (r, t\<lparr>ctk := c\<rparr>))"

definition reset_pid :: "control_task \<Rightarrow> control_task" where
  "reset_pid t = t\<lparr>ctk_pid := LineFollowPid_Reset (ctk_pid t)\<rparr>"

definition force_stop :: "control_task \<Rightarrow> control_task" where
  "force_stop t = t\<lparr>ctk_drive := MotorControl_ForceStop (ctk_drive t)\<rparr>"

section \<open>What other tasks ask\<close>

definition ControlTask_GetLatest :: "control_task \<Rightarrow> app_control_snapshot_t option \<times> control_task" where
  "ControlTask_GetLatest t =
     (case tick t of (now, t) \<Rightarrow>
        (if ctk_initialized t then Some (ControlLogic_MakeSnapshot (ctk t) (ctk_load_state t) now)
         else None, t))"

definition ControlTask_IsTurning :: "control_task \<Rightarrow> bool" where
  "ControlTask_IsTurning t \<longleftrightarrow> ctk_initialized t \<and> ControlLogic_IsTurning (ctk t)"

definition ControlTask_StateRequiresUltrasonic :: "linetracer_control_state_t \<Rightarrow> bool" where
  "ControlTask_StateRequiresUltrasonic s \<longleftrightarrow>
     s \<in> {LINETRACER_CONTROL_TURNING_FROM_DEST, LINETRACER_CONTROL_MOVING_TO_SOURCE_JUNCTION,
          LINETRACER_CONTROL_MOVING_ON_COMMON_LINE, LINETRACER_CONTROL_TURNING_TO_PICKUP,
          LINETRACER_CONTROL_MOVING_TO_PICKUP, LINETRACER_CONTROL_TURNING_AT_PICKUP,
          LINETRACER_CONTROL_MOVING_TO_DEST}"

definition ControlTask_ShouldMonitorUltrasonic :: "control_task \<Rightarrow> bool" where
  "ControlTask_ShouldMonitorUltrasonic t \<longleftrightarrow>
     (if ctk_initialized t \<and> \<not> safety_latched (ctk t) \<and> \<not> ControlLogic_IsTurnAroundActive (ctk t)
      then (if ctl_state (ctk t) = LINETRACER_CONTROL_OBSTACLE_STOP
            then resume_valid (ctk t) \<and> ControlTask_StateRequiresUltrasonic (resume_state (ctk t))
            else ControlTask_StateRequiresUltrasonic (ctl_state (ctk t)))
      else False)"

section \<open>Messages of the task\<close>

definition ControlTask_PublishHealthEvent ::
    "app_health_event_type_t \<Rightarrow> u32 \<Rightarrow> u32 \<Rightarrow> control_task \<Rightarrow> control_task" where
  "ControlTask_PublishHealthEvent ty detail now t =
     t\<lparr>ctk_queues := snd (AppQueues_TryPutHealth
         \<lparr>hev_type = ty, hev_occurred_at_ms = now, hev_detail = detail,
          hev_source_task = APP_TASK_CONTROL\<rparr> (ctk_queues t))\<rparr>"

definition ControlTask_TimeReached :: "u32 \<Rightarrow> u32 \<Rightarrow> bool" where
  "ControlTask_TimeReached now deadline \<longleftrightarrow> 0 \<le> sint (now - deadline)"

definition ControlTask_TimeAfter :: "u32 \<Rightarrow> u32 \<Rightarrow> bool" where
  "ControlTask_TimeAfter value_ms reference_ms \<longleftrightarrow> 0 < sint (value_ms - reference_ms)"

text \<open>The first free slot takes the response.\<close>

fun schedule_response ::
    "app_tx_event_t \<Rightarrow> u32 \<Rightarrow> control_pending_response_t list \<Rightarrow> bool \<times> control_pending_response_t list" where
  "schedule_response event now [] = (False, [])"
| "schedule_response event now (p # ps) =
     (if \<not> pend_active p
      then (True, \<lparr>pend_event = event\<lparr>txe_retry_count := 0\<rparr>,
                   pend_retry_at_ms = now + APP_TX_RESPONSE_RETRY_DELAY_MS, pend_active = True\<rparr> # ps)
      else case schedule_response event now ps of (ok, ps') \<Rightarrow> (ok, p # ps'))"

definition ControlTask_ScheduleResponseRetry ::
    "app_tx_event_t \<Rightarrow> u32 \<Rightarrow> control_task \<Rightarrow> bool \<times> control_task" where
  "ControlTask_ScheduleResponseRetry event now t =
     (case schedule_response event now (pending_responses t) of
        (ok, ps) \<Rightarrow> (ok, t\<lparr>pending_responses := ps\<rparr>))"

definition ControlTask_PublishTxEvent :: "app_tx_event_t \<Rightarrow> u32 \<Rightarrow> control_task \<Rightarrow> control_task" where
  "ControlTask_PublishTxEvent event now t =
     (case AppQueues_TryPutTx event (ctk_queues t) of
        (status, q) \<Rightarrow>
          let t = t\<lparr>ctk_queues := q\<rparr>;
              failed = ControlTask_PublishHealthEvent APP_HEALTH_EVENT_QUEUE_FULL
                         (tx_event_code (txe_type event)) now
          in if status = osOK then t
             else if app_tx_event_is_response (txe_type event)
             then (case ControlTask_ScheduleResponseRetry event now t of
                     (True, t) \<Rightarrow> t
                   | (False, t) \<Rightarrow> failed t)
             else failed t)"

text \<open>One pending response: sent, given up after three retries, or due again later.\<close>

definition retry_response ::
    "u32 \<Rightarrow> control_pending_response_t \<Rightarrow> control_task \<Rightarrow> control_pending_response_t \<times> control_task" where
  "retry_response now p t =
     (if \<not> pend_active p \<or> \<not> ControlTask_TimeReached now (pend_retry_at_ms p) then (p, t)
      else
        let p = p\<lparr>pend_event := (pend_event p)\<lparr>txe_retry_count := txe_retry_count (pend_event p) + 1\<rparr>\<rparr>
        in case AppQueues_TryPutTx (pend_event p) (ctk_queues t) of
             (status, q) \<Rightarrow>
               let t = t\<lparr>ctk_queues := q\<rparr>
               in if status = osOK then (p\<lparr>pend_active := False\<rparr>, t)
                  else if txe_retry_count (pend_event p) \<ge> APP_TX_RESPONSE_MAX_RETRIES
                  then (p\<lparr>pend_active := False\<rparr>,
                        ControlTask_PublishHealthEvent APP_HEALTH_EVENT_UART_TX_TIMEOUT
                          (tx_event_code (txe_type (pend_event p))) now t)
                  else (p\<lparr>pend_retry_at_ms := now + APP_TX_RESPONSE_RETRY_DELAY_MS\<rparr>, t))"

fun retry_responses ::
    "u32 \<Rightarrow> control_pending_response_t list \<Rightarrow> control_task
     \<Rightarrow> control_pending_response_t list \<times> control_task" where
  "retry_responses now [] t = ([], t)"
| "retry_responses now (p # ps) t =
     (case retry_response now p t of
        (p', t) \<Rightarrow> (case retry_responses now ps t of (ps', t) \<Rightarrow> (p' # ps', t)))"

definition ControlTask_ProcessPendingResponses :: "u32 \<Rightarrow> control_task \<Rightarrow> control_task" where
  "ControlTask_ProcessPendingResponses now t =
     (case retry_responses now (pending_responses t) t of (ps, t) \<Rightarrow> t\<lparr>pending_responses := ps\<rparr>)"

text \<open>An event about the current job.\<close>

definition job_event :: "control_task \<Rightarrow> app_tx_event_type_t \<Rightarrow> u32 \<Rightarrow> app_tx_event_t" where
  "job_event t ty now =
     zero_tx_event\<lparr>txe_type := ty, txe_created_at_ms := now, txe_job_id := active_job_id (ctk t),
       txe_route_id := active_route (ctk t),
       txe_state := linetracer_control_state_to_uart_state (ctl_state (ctk t)),
       txe_load_state := ctk_load_state t\<rparr>"

definition ControlTask_MakeTxEvent ::
    "app_tx_event_type_t \<Rightarrow> app_control_command_t \<Rightarrow> control_command_result_t \<Rightarrow> u32 \<Rightarrow> control_task
     \<Rightarrow> app_tx_event_t" where
  "ControlTask_MakeTxEvent ty command result now t =
     (job_event t ty now)
       \<lparr>txe_original_payload_crc := cmd_original_payload_crc command,
        txe_request_sequence := cmd_sequence command,
        txe_original_command := (if cmd_original_command command = 0
                                 then ControlLogic_CommandToUartCommand (cmd_type command)
                                 else cmd_original_command command),
        txe_original_payload_length := cmd_original_payload_length command,
        txe_status := status_code (res_status result), txe_error_code := res_error_code result\<rparr>"

definition ControlTask_PublishSafetyResetResult ::
    "app_control_safety_event_t \<Rightarrow> u32 \<Rightarrow> control_task \<Rightarrow> control_task" where
  "ControlTask_PublishSafetyResetResult sev now t =
     (if sev_type sev \<noteq> APP_CONTROL_SAFETY_RESET_APPROVED
         \<and> sev_type sev \<noteq> APP_CONTROL_SAFETY_RESET_REJECTED then t
      else
        let approved = (sev_type sev = APP_CONTROL_SAFETY_RESET_APPROVED);
            err = (if approved then error_code UART_ERROR_NONE
                   else if sev_error_code sev \<noteq> error_code UART_ERROR_NONE then sev_error_code sev
                   else if safety_error_code (ctk t) \<noteq> error_code UART_ERROR_NONE
                   then safety_error_code (ctk t) else error_code UART_ERROR_BUSY)
        in ControlTask_PublishTxEvent
             ((job_event t APP_TX_EVENT_COMMAND_ACK now)
                \<lparr>txe_original_payload_crc := sev_original_payload_crc sev,
                 txe_request_sequence := sev_request_sequence sev,
                 txe_original_command := (if sev_original_command sev = 0
                                          then linetracer_cmd_code UART_CMD_LINETRACER_RESET
                                          else sev_original_command sev),
                 txe_original_payload_length := sev_original_payload_length sev,
                 txe_status := (if approved then status_code UART_STATUS_ACK
                                else status_code UART_STATUS_NACK),
                 txe_error_code := err\<rparr>) now t)"

definition ControlTask_PublishLifecycleEvent ::
    "app_tx_event_type_t \<Rightarrow> u16 \<Rightarrow> uart_linetracer_route_t \<Rightarrow> uart_status_t \<Rightarrow> uart_error_t \<Rightarrow> u32
     \<Rightarrow> control_task \<Rightarrow> control_task" where
  "ControlTask_PublishLifecycleEvent ty job route status err now t =
     ControlTask_PublishTxEvent
       ((job_event t ty now)\<lparr>txe_job_id := job, txe_route_id := route,
          txe_status := status_code status, txe_error_code := error_code err\<rparr>) now t"

definition ControlTask_PublishStateChanged :: "u32 \<Rightarrow> control_task \<Rightarrow> control_task" where
  "ControlTask_PublishStateChanged now t =
     (if \<not> uart_linetracer_job_id_is_valid (to_u32 (active_job_id (ctk t)))
         \<or> \<not> uart_linetracer_route_is_valid (route_code (active_route (ctk t))) then t
      else ControlTask_PublishLifecycleEvent APP_TX_EVENT_STATE_CHANGED (active_job_id (ctk t))
             (active_route (ctk t)) UART_STATUS_SUCCESS UART_ERROR_NONE now t)"

definition put_safety_event :: "app_safety_event_t \<Rightarrow> u32 \<Rightarrow> control_task \<Rightarrow> control_task" where
  "put_safety_event event now t =
     (case osMessageQueuePut (safetyEventQueue (ctk_queues t)) event 0 of
        (status, mq) \<Rightarrow>
          let t = t\<lparr>ctk_queues := (ctk_queues t)\<lparr>safetyEventQueue := mq\<rparr>\<rparr>
          in if status \<noteq> osOK
             then ControlTask_PublishHealthEvent APP_HEALTH_EVENT_QUEUE_FULL
                    (safety_event_code (saf_type event)) now t
             else t)"

definition ControlTask_PublishSafetyFault ::
    "linetracer_stop_reason_t \<Rightarrow> u32 \<Rightarrow> control_task \<Rightarrow> control_task" where
  "ControlTask_PublishSafetyFault reason now t =
     (let (ty, err) = (if reason = LINETRACER_STOP_REASON_LOAD_LOST
                       then (APP_SAFETY_EVENT_LOAD_LOST, UART_ERROR_SENSOR)
                       else if reason = LINETRACER_STOP_REASON_TURN_TIMEOUT
                       then (APP_SAFETY_EVENT_TURN_TIMEOUT, UART_ERROR_TIMEOUT)
                       else (APP_SAFETY_EVENT_MARKER_SEQUENCE, UART_ERROR_SENSOR));
          t = put_safety_event
                (zero_safety_event\<lparr>saf_type := ty, saf_occurred_at_ms := now, saf_reason := reason,
                   saf_source_task := APP_TASK_CONTROL, saf_error_code := error_code err,
                   saf_active := True\<rparr>) now t
      in ControlTask_PublishLifecycleEvent APP_TX_EVENT_FAULT (active_job_id (ctk t))
           (active_route (ctk t)) UART_STATUS_ERROR err now t)"

section \<open>Unloading\<close>

text \<open>\<open>PublishUnloadFailure\<close> reads the error, the job and the route of the result.\<close>

definition ControlTask_PublishUnloadFailure ::
    "u8 \<Rightarrow> u16 \<Rightarrow> uart_linetracer_route_t \<Rightarrow> u32 \<Rightarrow> control_task \<Rightarrow> control_task" where
  "ControlTask_PublishUnloadFailure err job route now t =
     (let known = [UART_ERROR_TIMEOUT, UART_ERROR_SERVO, UART_ERROR_BUSY, UART_ERROR_INTERNAL];
          err = (case filter (\<lambda>e. error_code e = err) known of [] \<Rightarrow> UART_ERROR_INTERNAL | e # _ \<Rightarrow> e);
          t = put_safety_event
                (zero_safety_event\<lparr>saf_type := APP_SAFETY_EVENT_HEALTH_FAULT,
                   saf_occurred_at_ms := now, saf_reason := LINETRACER_STOP_REASON_HEALTH_FAULT,
                   saf_source_task := APP_TASK_UNLOAD, saf_error_code := error_code err,
                   saf_active := True\<rparr>) now t
      in ControlTask_PublishLifecycleEvent APP_TX_EVENT_FAULT job route UART_STATUS_ERROR err now t)"

definition put_unload_command ::
    "app_unload_command_t \<Rightarrow> u32 \<Rightarrow> control_task \<Rightarrow> bool \<times> control_task" where
  "put_unload_command command now t =
     (case osMessageQueuePut (unloadCommandQueue (ctk_queues t)) command 0 of
        (status, mq) \<Rightarrow>
          let t = t\<lparr>ctk_queues := (ctk_queues t)\<lparr>unloadCommandQueue := mq\<rparr>\<rparr>
          in if status \<noteq> osOK
             then (False, ControlTask_PublishHealthEvent APP_HEALTH_EVENT_QUEUE_FULL
                            (unload_command_code (ucmd_type command)) now t)
             else (True, t))"

definition ControlTask_StartUnload :: "u32 \<Rightarrow> control_task \<Rightarrow> control_task" where
  "ControlTask_StartUnload now t =
     (let command = \<lparr>ucmd_type = APP_UNLOAD_COMMAND_START, ucmd_requested_at_ms = now,
                     ucmd_inhibit_generation = unload_inhibit_generation t, ucmd_request_id = 0,
                     ucmd_job_id = active_job_id (ctk t), ucmd_route_id = active_route (ctk t)\<rparr>
      in case put_unload_command command now t of
           (True, t) \<Rightarrow> t
         | (False, t) \<Rightarrow>
             ControlTask_PublishUnloadFailure (error_code UART_ERROR_BUSY) (ucmd_job_id command)
               (ucmd_route_id command) now t)"

definition ControlTask_RequestUnloadReset ::
    "u32 \<Rightarrow> u32 \<Rightarrow> control_task \<Rightarrow> u32 option \<times> control_task" where
  "ControlTask_RequestUnloadReset now generation t =
     (let rid = next_unload_request_id t + 1;
          rid = (if rid = 0 then 1 else rid);
          t = t\<lparr>next_unload_request_id := rid\<rparr>
      in case put_unload_command
                \<lparr>ucmd_type = APP_UNLOAD_COMMAND_RESET, ucmd_requested_at_ms = now,
                 ucmd_inhibit_generation = generation, ucmd_request_id = rid, ucmd_job_id = 0,
                 ucmd_route_id = UART_LINETRACER_ROUTE_NONE\<rparr> now t of
           (False, t) \<Rightarrow> (None, t)
         | (True, t) \<Rightarrow> (Some rid, t))"

definition zero_control_safety_event :: app_control_safety_event_t where
  "zero_control_safety_event =
     \<lparr>sev_type = APP_CONTROL_SAFETY_NONE, sev_occurred_at_ms = 0, sev_unload_inhibit_generation = 0,
      sev_reason = LINETRACER_STOP_REASON_NONE, sev_original_payload_crc = 0, sev_error_code = 0,
      sev_request_sequence = 0, sev_original_command = 0, sev_original_payload_length = 0\<rparr>"

definition ControlTask_ClearPendingUnloadReset :: "control_task \<Rightarrow> control_task" where
  "ControlTask_ClearPendingUnloadReset t =
     t\<lparr>pending_unload_reset := zero_control_safety_event, pending_unload_reset_deadline_ms := 0,
       pending_unload_reset_request_id := 0, pending_unload_reset_active := False\<rparr>"

definition ControlTask_RejectPendingUnloadReset :: "u8 \<Rightarrow> u32 \<Rightarrow> control_task \<Rightarrow> control_task" where
  "ControlTask_RejectPendingUnloadReset err now t =
     (if \<not> pending_unload_reset_active t then t
      else
        let sev = (pending_unload_reset t)
                    \<lparr>sev_type := APP_CONTROL_SAFETY_RESET_REJECTED,
                     sev_error_code := (if err \<noteq> error_code UART_ERROR_NONE then err
                                        else error_code UART_ERROR_BUSY)\<rparr>;
            t = force_stop t;
            t = snd (with_ctx (\<lambda>c. ControlLogic_ApplySafetyEvent c sev now) t)
        in ControlTask_ClearPendingUnloadReset (ControlTask_PublishSafetyResetResult sev now t))"

definition ControlTask_CheckPendingUnloadResetTimeout :: "u32 \<Rightarrow> control_task \<Rightarrow> control_task" where
  "ControlTask_CheckPendingUnloadResetTimeout now t =
     (if \<not> pending_unload_reset_active t
         \<or> \<not> ControlTask_TimeReached now (pending_unload_reset_deadline_ms t) then t
      else ControlTask_RejectPendingUnloadReset (error_code UART_ERROR_TIMEOUT) now
             (ControlTask_PublishHealthEvent APP_HEALTH_EVENT_INTERNAL_ERROR
                CONTROL_HEALTH_UNLOAD_RESET_TIMEOUT now t))"

definition unload_reset_result :: "app_unload_result_t \<Rightarrow> u32 \<Rightarrow> control_task \<Rightarrow> control_task" where
  "unload_reset_result result now t =
     (if pending_unload_reset_active t \<and> ures_request_id result = pending_unload_reset_request_id t
         \<and> ures_inhibit_generation result = sev_unload_inhibit_generation (pending_unload_reset t)
      then (if ures_type result = APP_UNLOAD_RESULT_RESET_FAILED
            then ControlTask_RejectPendingUnloadReset (ures_error_code result) now t
            else
              let sev = pending_unload_reset t
              in case with_ctx (\<lambda>c. ControlLogic_ApplySafetyEvent c sev now) t of
                   (changed, t) \<Rightarrow>
                     let t = (if changed then ControlTask_PublishStateChanged now t else t)
                     in ControlTask_ClearPendingUnloadReset
                          (ControlTask_PublishSafetyResetResult sev now t))
      else ControlTask_PublishHealthEvent APP_HEALTH_EVENT_INTERNAL_ERROR
             CONTROL_HEALTH_UNLOAD_RESET_RESULT_MISMATCH now t)"

definition unload_job_result :: "app_unload_result_t \<Rightarrow> u32 \<Rightarrow> control_task \<Rightarrow> control_task" where
  "unload_job_result result now t =
     (if \<not> (ctl_state (ctk t) = LINETRACER_CONTROL_UNLOADING
             \<and> active_job_id (ctk t) = ures_job_id result
             \<and> active_route (ctk t) = ures_route_id result) then t
      else if ures_type result = APP_UNLOAD_RESULT_COMPLETE
      then (case with_ctx (\<lambda>c. ControlLogic_HandleUnloadResult c result now) t of
              (completion, t) \<Rightarrow>
                if done_completed completion
                then ControlTask_PublishLifecycleEvent APP_TX_EVENT_UNLOAD_COMPLETE
                       (done_job_id completion) (done_route_id completion) UART_STATUS_SUCCESS
                       UART_ERROR_NONE now (t\<lparr>ctk_load_state := UART_LINETRACER_LOAD_EMPTY\<rparr>)
                else t)
      else if ures_type result = APP_UNLOAD_RESULT_FAILED
              \<or> ures_type result = APP_UNLOAD_RESULT_TIMEOUT
      then ControlTask_PublishUnloadFailure (ures_error_code result) (ures_job_id result)
             (ures_route_id result) now t
      else t)"

definition unload_result :: "app_unload_result_t \<Rightarrow> control_task \<Rightarrow> control_task" where
  "unload_result result t =
     (case tick t of (now, t) \<Rightarrow>
        if ures_type result = APP_UNLOAD_RESULT_RESET_COMPLETE
           \<or> ures_type result = APP_UNLOAD_RESULT_RESET_FAILED
        then unload_reset_result result now t
        else unload_job_result result now t)"

text \<open>The loops fetch at most as many messages as their queue holds.\<close>

fun process_unload_results :: "nat \<Rightarrow> control_task \<Rightarrow> control_task" where
  "process_unload_results 0 t = t"
| "process_unload_results (Suc n) t =
     (case osMessageQueueGet (unloadResultQueue (ctk_queues t)) 0 of
        (osOK, Some result, mq) \<Rightarrow>
          process_unload_results n
            (unload_result result (t\<lparr>ctk_queues := (ctk_queues t)\<lparr>unloadResultQueue := mq\<rparr>\<rparr>))
      | _ \<Rightarrow> t)"

definition ControlTask_ProcessUnloadResults :: "control_task \<Rightarrow> control_task" where
  "ControlTask_ProcessUnloadResults t =
     (if unloadResultQueue (ctk_queues t) = NULL then t
      else process_unload_results APP_UNLOAD_RESULT_QUEUE_DEPTH t)"

section \<open>Events of the safety task\<close>

text \<open>
  An approved reset is kept back: the unload task must confirm that it has released its inhibit
  before the control logic leaves its latch.
\<close>

definition hold_reset :: "app_control_safety_event_t \<Rightarrow> u32 \<Rightarrow> control_task
     \<Rightarrow> app_control_safety_event_t option \<times> control_task" where
  "hold_reset event now t =
     (let event = (if sev_reason event = LINETRACER_STOP_REASON_NONE
                   then event\<lparr>sev_reason := stop_reason (ctk t)\<rparr> else event);
          rejected = event\<lparr>sev_type := APP_CONTROL_SAFETY_RESET_REJECTED,
                           sev_error_code := error_code UART_ERROR_BUSY\<rparr>
      in if pending_unload_reset_active t then (Some rejected, t)
         else case ControlTask_RequestUnloadReset now (sev_unload_inhibit_generation event) t of
             (None, t) \<Rightarrow> (Some rejected, t)
           | (Some rid, t) \<Rightarrow>
               (None, t\<lparr>pending_unload_reset := event, pending_unload_reset_request_id := rid,
                        pending_unload_reset_deadline_ms := now + CONTROL_TASK_UNLOAD_RESET_TIMEOUT_MS,
                        pending_unload_reset_active := True\<rparr>))"

definition report_safety_event :: "app_control_safety_event_t \<Rightarrow> u32 \<Rightarrow> control_task \<Rightarrow> control_task" where
  "report_safety_event event now t =
     (let t = (if sev_type event = APP_CONTROL_SAFETY_LATCHED
                  \<or> sev_type event = APP_CONTROL_SAFETY_RESET_REJECTED
               then (case ControlLogic_BuildSafetyFaultEvent (ctk t) event (ctk_load_state t) now of
                       None \<Rightarrow> t
                     | Some fault \<Rightarrow> ControlTask_PublishTxEvent fault now t)
               else if sev_type event = APP_CONTROL_SAFETY_RESET_APPROVED
                       \<or> sev_type event = APP_CONTROL_SAFETY_OBSTACLE_ACTIVE
                       \<or> sev_type event = APP_CONTROL_SAFETY_OBSTACLE_CLEARED
               then ControlTask_PublishStateChanged now t else t)
      in ControlTask_PublishSafetyResetResult event now t)"

definition safety_event :: "app_control_safety_event_t \<Rightarrow> control_task \<Rightarrow> control_task" where
  "safety_event event t =
     (case tick t of (now, t) \<Rightarrow>
        let t = (reset_pid t)\<lparr>start_boost_until_ms := 0, turn_exit_boost_until_ms := 0,
                              turn_exit_boost_action := ROUTE_ACTION_NONE\<rparr>;
            t = force_stop t
        in case (if sev_type event = APP_CONTROL_SAFETY_RESET_APPROVED then hold_reset event now t
                 else (Some event, t)) of
             (None, t) \<Rightarrow> t
           | (Some event, t) \<Rightarrow>
               (case with_ctx (\<lambda>c. ControlLogic_ApplySafetyEvent c event now) t of
                  (changed, t) \<Rightarrow> if changed then report_safety_event event now t else t))"

fun process_safety_events :: "nat \<Rightarrow> control_task \<Rightarrow> control_task" where
  "process_safety_events 0 t = t"
| "process_safety_events (Suc n) t =
     (case osMessageQueueGet (controlSafetyQueue (ctk_queues t)) 0 of
        (osOK, Some event, mq) \<Rightarrow>
          process_safety_events n
            (safety_event event (t\<lparr>ctk_queues := (ctk_queues t)\<lparr>controlSafetyQueue := mq\<rparr>\<rparr>))
      | _ \<Rightarrow> t)"

definition ControlTask_ProcessSafetyEvents :: "control_task \<Rightarrow> control_task" where
  "ControlTask_ProcessSafetyEvents t = process_safety_events APP_CONTROL_SAFETY_QUEUE_DEPTH t"

section \<open>The wheels\<close>

definition ControlTask_ApplyStartBoost ::
    "motor_output_t \<Rightarrow> u32 \<Rightarrow> control_task \<Rightarrow> motor_output_t \<times> control_task" where
  "ControlTask_ApplyStartBoost out now t =
     (let same_direction =
            (left_direction out = MOTOR_DIRECTION_FORWARD \<and> right_direction out = MOTOR_DIRECTION_FORWARD
             \<or> left_direction out = MOTOR_DIRECTION_REVERSE \<and> right_direction out = MOTOR_DIRECTION_REVERSE)
      in if \<not> standby out \<or> \<not> same_direction \<or> left_pwm out = 0 \<and> right_pwm out = 0
         then (out, t\<lparr>start_boost_until_ms := 0\<rparr>)
         else
           let last_out = motorControlLastOutput (ctk_drive t);
               t = (if \<not> standby last_out \<or> left_pwm last_out = 0 \<and> right_pwm last_out = 0
                    then t\<lparr>start_boost_until_ms := now + MOTOR_CONTROL_START_BOOST_MS\<rparr> else t)
           in if start_boost_until_ms t \<noteq> 0
                 \<and> \<not> ControlTask_TimeReached now (start_boost_until_ms t)
              then (let faster = (if left_pwm out > right_pwm out then left_pwm out else right_pwm out)
                    in if faster < MOTOR_CONTROL_START_BOOST_PWM
                       then (let delta = MOTOR_CONTROL_START_BOOST_PWM - faster
                             in (out\<lparr>left_pwm := MotorControlLogic_ClampPwm (uint (left_pwm out) + uint delta),
                                     right_pwm := MotorControlLogic_ClampPwm (uint (right_pwm out) + uint delta)\<rparr>,
                                 t))
                       else (out, t))
              else (out, t))"

definition cancel_turn_exit_boost :: "control_task \<Rightarrow> control_task" where
  "cancel_turn_exit_boost t =
     t\<lparr>turn_exit_boost_until_ms := 0, turn_exit_boost_action := ROUTE_ACTION_NONE\<rparr>"

definition ControlTask_ApplyTurnExitBoost ::
    "motor_output_t \<Rightarrow> u32 \<Rightarrow> control_task \<Rightarrow> motor_output_t \<times> control_task" where
  "ControlTask_ApplyTurnExitBoost out now t =
     (if turn_exit_boost_until_ms t = 0 then (out, t)
      else if ControlTask_TimeReached now (turn_exit_boost_until_ms t)
      then (out, cancel_turn_exit_boost t)
      else if turn_exit_boost_action t \<noteq> ROUTE_ACTION_TURN_RIGHT
              \<and> turn_exit_boost_action t \<noteq> ROUTE_ACTION_TURN_LEFT
      then (out, cancel_turn_exit_boost t)
      else
        let right_floor = (if turn_exit_boost_action t = ROUTE_ACTION_TURN_RIGHT
                           then MOTOR_CONTROL_RIGHT_TURN_EXIT_RESTART_PWM
                           else MOTOR_CONTROL_TURN_EXIT_MIN_PWM)
        in case MotorControlLogic_ApplyForwardPwmFloors MOTOR_CONTROL_TURN_EXIT_MIN_PWM right_floor out of
             (True, out) \<Rightarrow> (out, t)
           | (False, out) \<Rightarrow> (out, cancel_turn_exit_boost t))"

definition ControlTask_ApplyMotorOutput :: "motor_output_t \<Rightarrow> u32 \<Rightarrow> control_task \<Rightarrow> bool \<times> control_task" where
  "ControlTask_ApplyMotorOutput out now t =
     (if \<not> ctk_motor_ready t then (False, force_stop t)
      else case ControlTask_ApplyStartBoost out now t of
          (out, t) \<Rightarrow>
            (case ControlTask_ApplyTurnExitBoost out now t of
               (out, t) \<Rightarrow>
                 (case MotorControl_Apply out (ctk_drive t) of
                    (ok, d) \<Rightarrow>
                      let t = t\<lparr>ctk_drive := d\<rparr>
                      in if \<not> ok
                         then (False, ControlTask_PublishHealthEvent APP_HEALTH_EVENT_INTERNAL_ERROR
                                 CONTROL_HEALTH_MOTOR_OUTPUT_FAILED now
                                 (force_stop (t\<lparr>ctk_motor_ready := False\<rparr>)))
                         else (True, t))))"

definition ControlTask_ApplyRouteActionMotor :: "route_action_t \<Rightarrow> u32 \<Rightarrow> control_task \<Rightarrow> bool \<times> control_task" where
  "ControlTask_ApplyRouteActionMotor action now t =
     (case MotorControlLogic_ComputeRouteAction action of
        Some out \<Rightarrow> ControlTask_ApplyMotorOutput out now t
      | None \<Rightarrow> (False, t))"

definition ControlTask_PidLineFollowEnabled :: "control_context_t \<Rightarrow> bool" where
  "ControlTask_PidLineFollowEnabled c \<longleftrightarrow>
     (if safety_latched c \<or> \<not> route_active c then False
      else if ctl_state c \<in> {LINETRACER_CONTROL_MOVING_TO_SOURCE_JUNCTION,
                LINETRACER_CONTROL_MOVING_TO_PICKUP, LINETRACER_CONTROL_MOVING_TO_DEST} then True
      else ctl_state c = LINETRACER_CONTROL_MOVING_ON_COMMON_LINE
           \<and> pending_route_action c \<noteq> ROUTE_ACTION_TURN_LEFT
           \<and> pending_route_action c \<noteq> ROUTE_ACTION_TURN_RIGHT)"

definition ControlTask_RouteMotionEnabled :: "control_context_t \<Rightarrow> bool" where
  "ControlTask_RouteMotionEnabled c \<longleftrightarrow>
     \<not> (safety_latched c \<or> \<not> route_active c \<or> ctl_state c = LINETRACER_CONTROL_STOPPED
        \<or> ctl_state c = LINETRACER_CONTROL_OBSTACLE_STOP \<or> ctl_state c = LINETRACER_CONTROL_ERROR
        \<or> ctl_state c = LINETRACER_CONTROL_EMERGENCY_STOPPED)"

definition ControlTask_RouteSensorEventsEnabled :: "control_context_t \<Rightarrow> bool" where
  "ControlTask_RouteSensorEventsEnabled c = ControlTask_RouteMotionEnabled c"

definition ControlTask_LimitTurnReacquireCorrection :: "int \<Rightarrow> int" where
  "ControlTask_LimitTurnReacquireCorrection k =
     (if k > CONTROL_TURN_REACQUIRE_PID_CORRECTION_LIMIT then CONTROL_TURN_REACQUIRE_PID_CORRECTION_LIMIT
      else if k < - CONTROL_TURN_REACQUIRE_PID_CORRECTION_LIMIT
      then - CONTROL_TURN_REACQUIRE_PID_CORRECTION_LIMIT else k)"

definition ControlTask_CToBOrBToARouteActive :: "control_context_t \<Rightarrow> bool" where
  "ControlTask_CToBOrBToARouteActive c \<longleftrightarrow>
     current_position c = UART_LINETRACER_POSITION_DEST_C \<and> active_route c = UART_LINETRACER_ROUTE_B
     \<or> current_position c = UART_LINETRACER_POSITION_DEST_B \<and> active_route c = UART_LINETRACER_ROUTE_A"

definition ControlTask_SameLocationRouteActive :: "control_context_t \<Rightarrow> bool" where
  "ControlTask_SameLocationRouteActive c \<longleftrightarrow>
     current_position c = UART_LINETRACER_POSITION_DEST_A \<and> active_route c = UART_LINETRACER_ROUTE_A
     \<or> current_position c = UART_LINETRACER_POSITION_DEST_B \<and> active_route c = UART_LINETRACER_ROUTE_B
     \<or> current_position c = UART_LINETRACER_POSITION_DEST_C \<and> active_route c = UART_LINETRACER_ROUTE_C"

definition ControlTask_CToBOrBToACommonLinePidActive :: "control_context_t \<Rightarrow> bool" where
  "ControlTask_CToBOrBToACommonLinePidActive c \<longleftrightarrow>
     ControlTask_CToBOrBToARouteActive c \<and> ctl_state c = LINETRACER_CONTROL_MOVING_ON_COMMON_LINE
     \<and> plan_phase (route_plan c) = ROUTE_PHASE_ON_COMMON_LINE"

definition ControlTask_CToBOrBToARightTurnApproachActive :: "control_context_t \<Rightarrow> bool" where
  "ControlTask_CToBOrBToARightTurnApproachActive c \<longleftrightarrow>
     ControlTask_CToBOrBToARouteActive c \<and> junction_phase c = CONTROL_JUNCTION_APPROACH_CENTER
     \<and> junction_action c = ROUTE_ACTION_TURN_RIGHT"

definition update_pid :: "(rat \<Rightarrow> rat) \<Rightarrow> u32 \<Rightarrow> control_task \<Rightarrow> int \<times> control_task" where
  "update_pid rnd now t =
     (case LineFollowPid_Update rnd (ctk_pid t) (ctk_line_error t) now of
        (k, pid) \<Rightarrow> (k, t\<lparr>ctk_pid := pid\<rparr>))"

text \<open>The four branches of \<open>ControlTask_UpdateMotorOutput\<close>.\<close>

definition advance_maneuver :: "u32 \<Rightarrow> control_task \<Rightarrow> control_task" where
  "advance_maneuver now t =
     (if \<not> ControlTask_RouteMotionEnabled (ctk t) then t
      else
        let t = snd (with_ctx (\<lambda>c. ControlLogic_StartPendingManeuver c now) t)
        in case with_ctx (\<lambda>c. ControlLogic_UpdateTimedManeuver c now) t of
             (True, t) \<Rightarrow> (reset_pid (t\<lparr>route_sensor_epoch_ms := now\<rparr>))
                            \<lparr>line_tracking_reset_requested := True\<rparr>
           | (False, t) \<Rightarrow> t)"

definition drive_reacquire :: "(rat \<Rightarrow> rat) \<Rightarrow> u32 \<Rightarrow> control_task \<Rightarrow> control_task" where
  "drive_reacquire rnd now t =
     (let base = (if now - junction_phase_started_at_ms (ctk t) < CONTROL_TURN_REACQUIRE_START_MS
                  then CONTROL_TURN_REACQUIRE_START_PWM else CONTROL_TURN_REACQUIRE_BASE_PWM)
      in case (if ctk_line_state t = LINETRACER_LINE_WHITE_GAP then (0, reset_pid t)
               else update_pid rnd now t) of
           (k, t) \<Rightarrow>
             snd (ControlTask_ApplyMotorOutput
                    (MotorControlLogic_ComputeDifferentialForward base base
                       (ControlTask_LimitTurnReacquireCorrection k)) now t))"

definition drive_maneuver :: "u32 \<Rightarrow> control_task \<Rightarrow> control_task" where
  "drive_maneuver now t0 =
     (let t = reset_pid t0;
          c = ctk t;
          action = ControlLogic_JunctionMotorAction c
      in if action = ROUTE_ACTION_GO_STRAIGHT \<and> ControlTask_CToBOrBToARightTurnApproachActive c
         then snd (ControlTask_ApplyMotorOutput
                     (MotorControlLogic_ComputeDifferentialForward MOTOR_CONTROL_CB_BA_COMMON_LINE_PWM
                        MOTOR_CONTROL_CB_BA_COMMON_LINE_PWM 0) now t)
         else if action = ROUTE_ACTION_TURN_AROUND \<and> ctl_state c = LINETRACER_CONTROL_TURNING_AT_PICKUP
         then snd (ControlTask_ApplyMotorOutput
                     (MotorControlLogic_ComputePickupUTurn (current_position c) (active_route c)) now t)
         else case MotorControlLogic_ComputeRouteAction action of
             Some out \<Rightarrow> snd (ControlTask_ApplyMotorOutput out now t)
           | None \<Rightarrow> t)"

definition drive_line :: "(rat \<Rightarrow> rat) \<Rightarrow> u32 \<Rightarrow> control_task \<Rightarrow> control_task" where
  "drive_line rnd now t =
     (case update_pid rnd now t of
        (k, t) \<Rightarrow>
          let (left, right) = (if ControlTask_CToBOrBToACommonLinePidActive (ctk t)
                               then (MOTOR_CONTROL_CB_BA_COMMON_LINE_PWM, MOTOR_CONTROL_CB_BA_COMMON_LINE_PWM)
                               else (MOTOR_CONTROL_LEFT_BASE_PWM, MOTOR_CONTROL_RIGHT_BASE_PWM))
          in snd (ControlTask_ApplyMotorOutput
                    (MotorControlLogic_ComputeDifferentialForward left right k) now t))"

definition drive_state :: "u32 \<Rightarrow> control_task \<Rightarrow> control_task" where
  "drive_state now t0 =
     (let t = reset_pid t0;
          c = ctk t
      in case MotorControlLogic_ComputeControlOutput (ctl_state c) (pending_route_action c)
                (ctk_line_state t) (route_active c) (safety_latched c) of
           Some out \<Rightarrow> snd (ControlTask_ApplyMotorOutput out now t)
         | None \<Rightarrow> t)"

definition ControlTask_UpdateMotorOutput :: "(rat \<Rightarrow> rat) \<Rightarrow> u32 \<Rightarrow> control_task \<Rightarrow> control_task" where
  "ControlTask_UpdateMotorOutput rnd now t =
     (if \<not> ctk_motor_ready t then force_stop (reset_pid t)
      else
        let t = advance_maneuver now t;
            c = ctk t
        in if ControlTask_RouteMotionEnabled c \<and> ControlLogic_JunctionReacquireActive c
           then drive_reacquire rnd now t
           else if ControlTask_RouteMotionEnabled c \<and> ControlLogic_JunctionManeuverActive c
           then drive_maneuver now t
           else if ControlTask_PidLineFollowEnabled c
                   \<and> ctk_line_state t \<in> {LINETRACER_LINE_CENTERED, LINETRACER_LINE_LEFT_ONLY,
                                         LINETRACER_LINE_RIGHT_ONLY, LINETRACER_LINE_WHITE_GAP}
           then drive_line rnd now t
           else drive_state now t)"

section \<open>Samples of the sensors\<close>

definition ControlTask_ResetRouteSensorPipeline :: "u32 \<Rightarrow> control_task \<Rightarrow> control_task" where
  "ControlTask_ResetRouteSensorPipeline now t =
     (let q = ctk_queues t;
          q = (case sensorSnapshotQueue q of
                 None \<Rightarrow> q
               | Some mq \<Rightarrow> q\<lparr>sensorSnapshotQueue := Some (mq\<lparr>queue_items := []\<rparr>)\<rparr>)
      in reset_pid (t\<lparr>ctk_queues := q, route_sensor_epoch_ms := now, route_marker_clear_since_ms := 0,
                      route_marker_clear_active := False, route_marker_armed := False,
                      turn_exit_boost_until_ms := 0, turn_exit_boost_action := ROUTE_ACTION_NONE\<rparr>))"

definition ControlTask_UpdateRouteMarkerArm ::
    "app_sensor_snapshot_t \<Rightarrow> u32 \<Rightarrow> control_task \<Rightarrow> bool \<times> control_task" where
  "ControlTask_UpdateRouteMarkerArm snapshot sampled_at t =
     (if \<not> ControlTask_TimeAfter sampled_at (route_sensor_epoch_ms t) then (False, t)
      else if route_marker_armed t then (True, t)
      else if snp_line_left snapshot \<and> snp_line_right snapshot
      then (False, t\<lparr>route_marker_clear_since_ms := 0, route_marker_clear_active := False\<rparr>)
      else if \<not> route_marker_clear_active t
      then (False, t\<lparr>route_marker_clear_since_ms := sampled_at, route_marker_clear_active := True\<rparr>)
      else if sampled_at - route_marker_clear_since_ms t < CONTROL_ROUTE_MARKER_REARM_MS then (False, t)
      else (True, t\<lparr>route_marker_armed := True, route_sensor_epoch_ms := sampled_at\<rparr>))"

definition ControlTask_MarkerEventIsCurrent :: "u32 \<Rightarrow> control_task \<Rightarrow> bool" where
  "ControlTask_MarkerEventIsCurrent detected_at t \<longleftrightarrow>
     route_marker_armed t \<and> detected_at \<noteq> 0
     \<and> ControlTask_TimeAfter detected_at (route_sensor_epoch_ms t)"

definition publish_job :: "app_tx_event_type_t \<Rightarrow> u32 \<Rightarrow> control_task \<Rightarrow> control_task" where
  "publish_job ty now t =
     ControlTask_PublishLifecycleEvent ty (active_job_id (ctk t)) (active_route (ctk t))
       UART_STATUS_SUCCESS UART_ERROR_NONE now t"

text \<open>The reports of an action; \<open>motor_applied\<close> is the answer of the wheels.\<close>

definition report_route_action ::
    "route_action_t \<Rightarrow> bool \<Rightarrow> control_job_completion_t option \<Rightarrow> u32 \<Rightarrow> control_task \<Rightarrow> control_task" where
  "report_route_action action motor_applied completion now t =
     (case action of
        ROUTE_ACTION_STOP_AT_PICKUP \<Rightarrow>
          (publish_job APP_TX_EVENT_ARRIVED now t)\<lparr>fsr_baseline_requested := True\<rparr>
      | ROUTE_ACTION_TURN_AROUND \<Rightarrow> publish_job APP_TX_EVENT_LOAD_DETECTED now t
      | ROUTE_ACTION_STOP_AT_DEST \<Rightarrow>
          (let t = publish_job APP_TX_EVENT_ARRIVED now t
           in if \<not> motor_applied
              then ControlTask_PublishUnloadFailure (error_code UART_ERROR_INTERNAL)
                     (active_job_id (ctk t)) (active_route (ctk t)) now t
              else ControlTask_StartUnload now t)
      | ROUTE_ACTION_JOB_COMPLETE \<Rightarrow>
          (case completion of
             Some fin \<Rightarrow>
               (if done_completed fin
                then ControlTask_PublishLifecycleEvent APP_TX_EVENT_UNLOAD_COMPLETE (done_job_id fin)
                       (done_route_id fin) UART_STATUS_SUCCESS UART_ERROR_NONE now t
                else t)
           | None \<Rightarrow> t)
      | ROUTE_ACTION_LOAD_LOST \<Rightarrow>
          ControlTask_PublishSafetyFault LINETRACER_STOP_REASON_LOAD_LOST now t
      | ROUTE_ACTION_ERROR \<Rightarrow>
          ControlTask_PublishSafetyFault
            (if stop_reason (ctk t) \<noteq> LINETRACER_STOP_REASON_NONE then stop_reason (ctk t)
             else LINETRACER_STOP_REASON_MARKER_SEQUENCE) now t
      | _ \<Rightarrow> t)"

definition ControlTask_ProcessRouteAction ::
    "route_action_t \<Rightarrow> linetracer_control_state_t \<Rightarrow> control_job_completion_t option \<Rightarrow> u32
     \<Rightarrow> control_task \<Rightarrow> control_task" where
  "ControlTask_ProcessRouteAction action previous completion now t =
     (let t = (if action \<in> {ROUTE_ACTION_TURN_LEFT, ROUTE_ACTION_TURN_RIGHT, ROUTE_ACTION_TURN_AROUND}
               then snd (with_ctx (\<lambda>c. ControlLogic_StartPendingManeuver c now) t) else t)
      in case (if \<not> ControlLogic_JunctionManeuverActive (ctk t)
                  \<or> action \<in> {ROUTE_ACTION_STOP_AT_PICKUP, ROUTE_ACTION_STOP_AT_DEST,
                              ROUTE_ACTION_JOB_COMPLETE, ROUTE_ACTION_LOAD_LOST, ROUTE_ACTION_ERROR}
               then ControlTask_ApplyRouteActionMotor action now t else (True, t)) of
           (motor_applied, t) \<Rightarrow>
             let t = (if previous \<noteq> ctl_state (ctk t) \<and> action \<noteq> ROUTE_ACTION_JOB_COMPLETE
                      then ControlTask_PublishStateChanged now t else t)
             in report_route_action action motor_applied completion now t)"

definition ControlTask_ProcessLineInput ::
    "bool \<Rightarrow> bool \<Rightarrow> bool \<Rightarrow> u32 \<Rightarrow> u32 \<Rightarrow> control_task \<Rightarrow> bool \<times> control_task" where
  "ControlTask_ProcessLineInput line_left line_center line_right sampled_at now t0 =
     (let previous = ctl_state (ctk t0);
          previous_phase = junction_phase (ctk t0);
          previous_action = junction_action (ctk t0)
      in case with_ctx (\<lambda>c. ControlLogic_ProcessLineSampleWithCenter c line_left line_center line_right
                              sampled_at) t0 of
           (result, t) \<Rightarrow>
             let turn_completed = (maneuver_completed result
                    \<and> (previous_phase = CONTROL_JUNCTION_TURN_SEARCH_TARGET
                       \<or> previous_phase = CONTROL_JUNCTION_TURN_REACQUIRE));
                 t = (if previous_phase \<noteq> CONTROL_JUNCTION_TURN_REACQUIRE
                         \<and> junction_phase (ctk t) = CONTROL_JUNCTION_TURN_REACQUIRE
                      then (reset_pid t)\<lparr>line_tracking_reset_requested := True\<rparr> else t);
                 t = (if maneuver_completed result then
                        let t = reset_pid t
                        in if turn_completed then
                             let t = t\<lparr>line_tracking_reset_requested := True\<rparr>
                             in if previous_action = ROUTE_ACTION_TURN_LEFT
                                   \<or> previous_action = ROUTE_ACTION_TURN_RIGHT
                                then t\<lparr>turn_exit_boost_until_ms := now + CONTROL_TURN_EXIT_BOOST_MS,
                                       turn_exit_boost_action := previous_action\<rparr>
                                else t
                           else t
                      else t);
                 t = (if line_action_valid result
                      then ControlTask_ProcessRouteAction (line_action result) previous None now
                             (reset_pid t)
                      else if line_state_changed result then ControlTask_PublishStateChanged now t
                      else t)
             in (turn_completed, t))"

text \<open>The parts of a snapshot: what the line says, the load at the pickup, the marker, the load lost.\<close>

definition store_snapshot :: "app_sensor_snapshot_t \<Rightarrow> control_task \<Rightarrow> control_task" where
  "store_snapshot snapshot t =
     t\<lparr>ctk_line_state := snp_line_state snapshot, ctk_line_error := snp_line_error snapshot,
       ctk_load_state := snp_load_state snapshot\<rparr>"

definition snapshot_load_on :: "app_sensor_snapshot_t \<Rightarrow> u32 \<Rightarrow> control_task \<Rightarrow> control_task" where
  "snapshot_load_on snapshot now t =
     (if ctl_state (ctk t) \<noteq> LINETRACER_CONTROL_WAITING_LOAD then t
      else if snp_load_state snapshot = UART_LINETRACER_LOAD_EMPTY
      then t\<lparr>ctk := (ctk t)\<lparr>load_wait_armed := True\<rparr>\<rparr>
      else if snp_load_state snapshot = UART_LINETRACER_LOAD_PRESENT \<and> load_wait_armed (ctk t)
      then (let previous = ctl_state (ctk t)
            in case with_ctx (\<lambda>c. ControlLogic_HandleLoadOn c now) t of
                 (action, t) \<Rightarrow> ControlTask_ProcessRouteAction action previous None now t)
      else t)"

definition snapshot_marker_cleared ::
    "app_sensor_snapshot_t \<Rightarrow> u32 \<Rightarrow> u32 \<Rightarrow> control_task \<Rightarrow> control_task" where
  "snapshot_marker_cleared snapshot sampled_at now t =
     (if junction_phase (ctk t) = CONTROL_JUNCTION_CROSS_STRAIGHT \<and> snp_event_marker_cleared snapshot
         \<and> snp_marker_cleared_at_ms snapshot \<noteq> 0 \<and> snp_line_left snapshot \<and> snp_line_right snapshot
         \<and> 0 \<le> sint (snp_marker_cleared_at_ms snapshot - junction_phase_started_at_ms (ctk t))
         \<and> 0 \<le> sint (sampled_at - snp_marker_cleared_at_ms snapshot)
      then snd (ControlTask_ProcessLineInput False False False (snp_marker_cleared_at_ms snapshot) now t)
      else t)"

definition snapshot_marker :: "app_sensor_snapshot_t \<Rightarrow> u32 \<Rightarrow> control_task \<Rightarrow> control_task" where
  "snapshot_marker snapshot now t =
     (if snp_event_marker snapshot \<and> route_active (ctk t)
         \<and> ControlTask_MarkerEventIsCurrent (snp_marker_detected_at_ms snapshot) t
         \<and> \<not> ControlLogic_ShouldIgnoreMarker (ctk t) (snp_marker_code snapshot)
              (snp_marker_detected_at_ms snapshot) now
      then (let previous = ctl_state (ctk t)
            in case with_ctx (\<lambda>c. ControlLogic_HandleMarker c (snp_marker_code snapshot)
                                   (snp_marker_detected_at_ms snapshot) now) (reset_pid t) of
                 (action, t) \<Rightarrow> ControlTask_ProcessRouteAction action previous None now t)
      else t)"

definition snapshot_load_off :: "app_sensor_snapshot_t \<Rightarrow> u32 \<Rightarrow> control_task \<Rightarrow> control_task" where
  "snapshot_load_off snapshot now t =
     (if ctl_state (ctk t) = LINETRACER_CONTROL_MOVING_TO_DEST
         \<and> snp_load_state snapshot = UART_LINETRACER_LOAD_EMPTY
      then (let previous = ctl_state (ctk t)
            in case with_ctx (\<lambda>c. case ControlLogic_HandleLoadOff c now of
                                    (action, completion, c) \<Rightarrow> ((action, completion), c)) t of
                 ((action, completion), t) \<Rightarrow>
                   ControlTask_ProcessRouteAction action previous (Some completion) now t)
      else t)"

text \<open>\<open>True\<close>: a turn has found its line, and the other snapshots wait for the next cycle.\<close>

definition sensor_snapshot :: "app_sensor_snapshot_t \<Rightarrow> control_task \<Rightarrow> bool \<times> control_task" where
  "sensor_snapshot snapshot t =
     (case tick t of (now, t) \<Rightarrow>
        let sampled_at = (if snp_sampled_at_ms snapshot \<noteq> 0 then snp_sampled_at_ms snapshot else now);
            t = store_snapshot snapshot t
        in if \<not> ControlTask_RouteSensorEventsEnabled (ctk t) then (False, t)
           else if \<not> ControlTask_TimeAfter sampled_at (route_sensor_epoch_ms t) then (False, t)
           else
             let t = snapshot_load_on snapshot now t
             in case ControlTask_UpdateRouteMarkerArm snapshot sampled_at t of
                  (armed, t) \<Rightarrow>
                    if \<not> armed \<and> \<not> ControlLogic_JunctionManeuverActive (ctk t) then (False, t)
                    else
                      let t = snapshot_marker_cleared snapshot sampled_at now t
                      in case ControlTask_ProcessLineInput (snp_line_left snapshot)
                                (snp_line_center snapshot) (snp_line_right snapshot) sampled_at now t of
                           (True, t) \<Rightarrow> (True, t)
                         | (False, t) \<Rightarrow>
                             (False, snapshot_load_off snapshot now (snapshot_marker snapshot now t)))"

fun process_snapshots :: "nat \<Rightarrow> control_task \<Rightarrow> control_task" where
  "process_snapshots 0 t = t"
| "process_snapshots (Suc n) t =
     (case osMessageQueueGet (sensorSnapshotQueue (ctk_queues t)) 0 of
        (osOK, Some snapshot, mq) \<Rightarrow>
          (case sensor_snapshot snapshot
                  (t\<lparr>ctk_queues := (ctk_queues t)\<lparr>sensorSnapshotQueue := mq\<rparr>\<rparr>) of
             (True, t) \<Rightarrow> t
           | (False, t) \<Rightarrow> process_snapshots n t)
      | _ \<Rightarrow> t)"

definition ControlTask_ProcessSensorSnapshots :: "control_task \<Rightarrow> control_task" where
  "ControlTask_ProcessSensorSnapshots t = process_snapshots APP_SENSOR_SNAPSHOT_QUEUE_DEPTH t"

definition ControlTask_CheckRouteTimeout :: "u32 \<Rightarrow> control_task \<Rightarrow> control_task" where
  "ControlTask_CheckRouteTimeout now t =
     (let previous = ctl_state (ctk t)
      in case with_ctx (\<lambda>c. ControlLogic_CheckRouteTimeout c now) t of
           (reason, t) \<Rightarrow>
             if reason \<noteq> LINETRACER_STOP_REASON_NONE
             then ControlTask_ProcessRouteAction ROUTE_ACTION_ERROR previous None now t
             else t)"

section \<open>Commands\<close>

definition ControlTask_PublishCommandResult ::
    "app_control_command_t \<Rightarrow> control_command_result_t \<Rightarrow> u32 \<Rightarrow> control_task \<Rightarrow> control_task" where
  "ControlTask_PublishCommandResult command result now t0 =
     (let response = ControlLogic_CommandResponseEventType result;
          event = ControlTask_MakeTxEvent response command result now t0;
          t = ControlTask_PublishTxEvent event now t0
      in if response = APP_TX_EVENT_STATUS then t
         else
           let t = (case ControlLogic_BuildStartedEvent (ctk t) command result (ctk_load_state t) now of
                      Some started \<Rightarrow> ControlTask_PublishTxEvent started now t
                    | None \<Rightarrow> t)
           in if res_state_changed result
                 \<and> uart_linetracer_job_id_is_valid (to_u32 (active_job_id (ctk t)))
                 \<and> uart_linetracer_route_is_valid (route_code (active_route (ctk t)))
              then ControlTask_PublishTxEvent
                     (event\<lparr>txe_type := APP_TX_EVENT_STATE_CHANGED,
                            txe_status := status_code UART_STATUS_SUCCESS\<rparr>) now t
              else t)"

definition ControlTask_PublishUnloadCommand ::
    "control_command_result_t \<Rightarrow> u32 \<Rightarrow> control_task \<Rightarrow> control_task" where
  "ControlTask_PublishUnloadCommand result now t =
     (if res_unload_command result = APP_UNLOAD_COMMAND_NONE then t
      else snd (put_unload_command
                  \<lparr>ucmd_type = res_unload_command result, ucmd_requested_at_ms = now,
                   ucmd_inhibit_generation = unload_inhibit_generation t, ucmd_request_id = 0,
                   ucmd_job_id = res_action_job_id result,
                   ucmd_route_id = res_action_route_id result\<rparr> now t))"

definition control_command :: "app_control_command_t \<Rightarrow> control_task \<Rightarrow> control_task" where
  "control_command command t =
     (case tick t of (now, t) \<Rightarrow>
      case ControlLogic_HandleCommand (ctk t) command now of
        (c, result) \<Rightarrow>
          let t = t\<lparr>ctk := c\<rparr>;
              t = (if res_accepted result
                      \<and> cmd_type command \<in> {APP_CONTROL_COMMAND_SET_CURRENT_POSITION,
                           APP_CONTROL_COMMAND_ASSIGN_ROUTE, APP_CONTROL_COMMAND_RESET_SYSTEM}
                   then ControlTask_ResetRouteSensorPipeline now t else t);
              t = (if res_accepted result \<and> cmd_type command = APP_CONTROL_COMMAND_ASSIGN_ROUTE
                      \<and> ControlTask_SameLocationRouteActive (ctk t)
                   then t\<lparr>start_boost_until_ms := now + MOTOR_CONTROL_START_BOOST_MS\<rparr> else t);
              t = (if cmd_type command = APP_CONTROL_COMMAND_STOP_DRIVE \<and> res_accepted result
                      \<and> res_unload_command result = APP_UNLOAD_COMMAND_ABORT
                   then (force_stop t)
                          \<lparr>unload_abort_requested := True,
                           unload_inhibit_generation := unload_inhibit_generation t + 1\<rparr>
                   else t);
              t = ControlTask_PublishCommandResult command result now t
          in ControlTask_PublishUnloadCommand result now t)"

fun process_commands :: "nat \<Rightarrow> control_task \<Rightarrow> control_task" where
  "process_commands 0 t = t"
| "process_commands (Suc n) t =
     (case osMessageQueueGet (controlCommandQueue (ctk_queues t)) 0 of
        (osOK, Some command, mq) \<Rightarrow>
          process_commands n
            (control_command command (t\<lparr>ctk_queues := (ctk_queues t)\<lparr>controlCommandQueue := mq\<rparr>\<rparr>))
      | _ \<Rightarrow> t)"

definition ControlTask_ProcessCommands :: "control_task \<Rightarrow> control_task" where
  "ControlTask_ProcessCommands t = process_commands CONTROL_TASK_MAX_COMMANDS_PER_CYCLE t"

section \<open>The task\<close>

definition start_control_task :: "control_task \<Rightarrow> control_task" where
  "start_control_task t =
     (let t = t\<lparr>ctk_initialized := False, pending_unload_reset := zero_control_safety_event,
                pending_unload_reset_active := False, pending_unload_reset_deadline_ms := 0,
                pending_unload_reset_request_id := 0, next_unload_request_id := 0,
                route_sensor_epoch_ms := 0, route_marker_clear_since_ms := 0,
                route_marker_clear_active := False, route_marker_armed := False,
                start_boost_until_ms := 0, turn_exit_boost_until_ms := 0,
                turn_exit_boost_action := ROUTE_ACTION_NONE\<rparr>
      in case tick t of (now, t) \<Rightarrow>
           let t = t\<lparr>ctk_last_alive := now, ctk := ControlLogic_Init (ctk t) now,
                     ctk_pid := LineFollowPid_Init (ctk_pid t),
                     ctk_load_state := UART_LINETRACER_LOAD_EMPTY,
                     ctk_line_state := LINETRACER_LINE_UNKNOWN, ctk_line_error := 0\<rparr>
           in case MotorControl_Init (ctk_drive t) of
                (ready, d) \<Rightarrow>
                  let t = t\<lparr>ctk_motor_ready := ready, ctk_drive := d\<rparr>;
                      t = (if \<not> ready
                           then ControlTask_PublishHealthEvent APP_HEALTH_EVENT_INTERNAL_ERROR
                                  CONTROL_HEALTH_MOTOR_INIT_FAILED now
                                  (snd (with_ctx (\<lambda>c. ControlLogic_ApplySafetyEvent c
                                     (zero_control_safety_event
                                        \<lparr>sev_type := APP_CONTROL_SAFETY_LATCHED,
                                         sev_reason := LINETRACER_STOP_REASON_EMERGENCY,
                                         sev_occurred_at_ms := now,
                                         sev_error_code := error_code UART_ERROR_INTERNAL\<rparr>) now) t))
                           else t)
                  in t\<lparr>ctk_initialized := True\<rparr>)"

definition control_cycle :: "(rat \<Rightarrow> rat) \<Rightarrow> control_task \<Rightarrow> control_task" where
  "control_cycle rnd t =
     (let t = ControlTask_ProcessSafetyEvents t
      in case tick t of (now, t) \<Rightarrow>
         (let t = ControlTask_ProcessPendingResponses now t;
              t = ControlTask_ProcessUnloadResults t
          in case tick t of (now, t) \<Rightarrow>
             (let t = ControlTask_CheckPendingUnloadResetTimeout now t;
                  t = ControlTask_ProcessSensorSnapshots t;
                  t = ControlTask_ProcessCommands t
              in case tick t of (now, t) \<Rightarrow>
                 (let t = ControlTask_CheckRouteTimeout now t;
                      t = ControlTask_UpdateMotorOutput rnd now t
                  in if now - ctk_last_alive t \<ge> CONTROL_TASK_ALIVE_INTERVAL_MS
                     then (ControlTask_PublishHealthEvent APP_HEALTH_EVENT_TASK_ALIVE
                             (ctl_state_code (ctl_state (ctk t))) now t)\<lparr>ctk_last_alive := now\<rparr>
                     else t))))"

end
