(* ===== verification/Linetracer_Latch.thy ===== *)
theory Linetracer_Latch
  imports Linetracer_Control_Task
begin

text \<open>
  The safety latch of the line tracer's control task: while it is set the wheels stand still, no
  command, sample or event releases it, and only the unload task's confirmation of an approved
  reset does.
\<close>

section \<open>What the reports leave alone\<close>

text \<open>The messages of the task change its output queues and pending responses only.\<close>

lemma health_frame [simp]:
  "ctk (ControlTask_PublishHealthEvent ty detail now t) = ctk t
   \<and> ctk_drive (ControlTask_PublishHealthEvent ty detail now t) = ctk_drive t
   \<and> ctk_motor_ready (ControlTask_PublishHealthEvent ty detail now t) = ctk_motor_ready t
   \<and> unloadResultQueue (ctk_queues (ControlTask_PublishHealthEvent ty detail now t))
       = unloadResultQueue (ctk_queues t)"
  by (simp add: ControlTask_PublishHealthEvent_def AppQueues_TryPutHealth_def Let_def split: prod.splits)

lemma try_put_tx_frame [simp]:
  "unloadResultQueue (snd (AppQueues_TryPutTx event q)) = unloadResultQueue q"
  by (simp add: AppQueues_TryPutTx_def Let_def split: prod.splits)

lemma tx_frame [simp]:
  "ctk (ControlTask_PublishTxEvent event now t) = ctk t
   \<and> ctk_drive (ControlTask_PublishTxEvent event now t) = ctk_drive t
   \<and> ctk_motor_ready (ControlTask_PublishTxEvent event now t) = ctk_motor_ready t
   \<and> unloadResultQueue (ctk_queues (ControlTask_PublishTxEvent event now t))
       = unloadResultQueue (ctk_queues t)"
  using try_put_tx_frame [of event "ctk_queues t"]
  by (auto simp: ControlTask_PublishTxEvent_def ControlTask_ScheduleResponseRetry_def Let_def
      simp del: try_put_tx_frame split: prod.splits bool.splits)

lemma retry_frame [simp]:
  "ctk (snd (retry_responses now ps t)) = ctk t
   \<and> ctk_drive (snd (retry_responses now ps t)) = ctk_drive t
   \<and> unloadResultQueue (ctk_queues (snd (retry_responses now ps t))) = unloadResultQueue (ctk_queues t)"
proof (induction now ps t rule: retry_responses.induct)
  case (2 now p ps t)
  have "ctk (snd (retry_response now p t)) = ctk t
      \<and> ctk_drive (snd (retry_response now p t)) = ctk_drive t
      \<and> unloadResultQueue (ctk_queues (snd (retry_response now p t))) = unloadResultQueue (ctk_queues t)"
    using try_put_tx_frame [of "(pend_event p)\<lparr>txe_retry_count := txe_retry_count (pend_event p) + 1\<rparr>" "ctk_queues t"]
    by (auto simp: retry_response_def Let_def simp del: try_put_tx_frame split: prod.splits)
  then show ?case using 2 by (auto split: prod.splits)
qed simp

lemma pending_frame [simp]:
  "ctk (ControlTask_ProcessPendingResponses now t) = ctk t
   \<and> ctk_drive (ControlTask_ProcessPendingResponses now t) = ctk_drive t
   \<and> unloadResultQueue (ctk_queues (ControlTask_ProcessPendingResponses now t))
       = unloadResultQueue (ctk_queues t)"
  by (simp add: ControlTask_ProcessPendingResponses_def split_def)

lemma lifecycle_frame [simp]:
  "ctk (ControlTask_PublishLifecycleEvent ty job r st e now t) = ctk t
   \<and> ctk_drive (ControlTask_PublishLifecycleEvent ty job r st e now t) = ctk_drive t
   \<and> unloadResultQueue (ctk_queues (ControlTask_PublishLifecycleEvent ty job r st e now t))
       = unloadResultQueue (ctk_queues t)"
  by (simp add: ControlTask_PublishLifecycleEvent_def)

lemma state_changed_frame [simp]:
  "ctk (ControlTask_PublishStateChanged now t) = ctk t
   \<and> ctk_drive (ControlTask_PublishStateChanged now t) = ctk_drive t
   \<and> unloadResultQueue (ctk_queues (ControlTask_PublishStateChanged now t))
       = unloadResultQueue (ctk_queues t)"
  by (simp add: ControlTask_PublishStateChanged_def)

lemma put_safety_frame [simp]:
  "ctk (put_safety_event event now t) = ctk t
   \<and> ctk_drive (put_safety_event event now t) = ctk_drive t
   \<and> unloadResultQueue (ctk_queues (put_safety_event event now t)) = unloadResultQueue (ctk_queues t)"
  by (simp add: put_safety_event_def Let_def split: prod.splits)

lemma unload_failure_frame [simp]:
  "ctk (ControlTask_PublishUnloadFailure err job r now t) = ctk t
   \<and> ctk_drive (ControlTask_PublishUnloadFailure err job r now t) = ctk_drive t
   \<and> unloadResultQueue (ctk_queues (ControlTask_PublishUnloadFailure err job r now t))
       = unloadResultQueue (ctk_queues t)"
  by (simp add: ControlTask_PublishUnloadFailure_def Let_def)

lemma safety_fault_frame [simp]:
  "ctk (ControlTask_PublishSafetyFault reason now t) = ctk t
   \<and> ctk_drive (ControlTask_PublishSafetyFault reason now t) = ctk_drive t
   \<and> unloadResultQueue (ctk_queues (ControlTask_PublishSafetyFault reason now t))
       = unloadResultQueue (ctk_queues t)"
  by (simp add: ControlTask_PublishSafetyFault_def Let_def)

lemma put_unload_frame [simp]:
  "ctk (snd (put_unload_command command now t)) = ctk t
   \<and> ctk_drive (snd (put_unload_command command now t)) = ctk_drive t
   \<and> unloadResultQueue (ctk_queues (snd (put_unload_command command now t)))
       = unloadResultQueue (ctk_queues t)"
  by (simp add: put_unload_command_def Let_def split: prod.splits)

lemma start_unload_frame [simp]:
  "ctk (ControlTask_StartUnload now t) = ctk t
   \<and> ctk_drive (ControlTask_StartUnload now t) = ctk_drive t
   \<and> unloadResultQueue (ctk_queues (ControlTask_StartUnload now t)) = unloadResultQueue (ctk_queues t)"
  by (simp add: ControlTask_StartUnload_def Let_def split_def split: bool.splits)

lemma reset_result_frame [simp]:
  "ctk (ControlTask_PublishSafetyResetResult sev now t) = ctk t
   \<and> ctk_drive (ControlTask_PublishSafetyResetResult sev now t) = ctk_drive t
   \<and> unloadResultQueue (ctk_queues (ControlTask_PublishSafetyResetResult sev now t))
       = unloadResultQueue (ctk_queues t)"
  by (simp add: ControlTask_PublishSafetyResetResult_def Let_def)

lemma report_safety_frame [simp]:
  "ctk (report_safety_event event now t) = ctk t
   \<and> ctk_drive (report_safety_event event now t) = ctk_drive t
   \<and> unloadResultQueue (ctk_queues (report_safety_event event now t)) = unloadResultQueue (ctk_queues t)"
  by (simp add: report_safety_event_def Let_def split: option.splits)

lemma command_result_frame [simp]:
  "ctk (ControlTask_PublishCommandResult command result now t) = ctk t
   \<and> ctk_drive (ControlTask_PublishCommandResult command result now t) = ctk_drive t
   \<and> unloadResultQueue (ctk_queues (ControlTask_PublishCommandResult command result now t))
       = unloadResultQueue (ctk_queues t)"
  by (simp add: ControlTask_PublishCommandResult_def Let_def split: option.splits)

lemma unload_command_frame [simp]:
  "ctk (ControlTask_PublishUnloadCommand result now t) = ctk t
   \<and> ctk_drive (ControlTask_PublishUnloadCommand result now t) = ctk_drive t
   \<and> unloadResultQueue (ctk_queues (ControlTask_PublishUnloadCommand result now t))
       = unloadResultQueue (ctk_queues t)"
  by (simp add: ControlTask_PublishUnloadCommand_def)

lemma small_frames [simp]:
  "ctk (force_stop t) = ctk t" "ctk (reset_pid t) = ctk t"
  "ctk_drive (reset_pid t) = ctk_drive t" "ctk_queues (force_stop t) = ctk_queues t"
  "ctk_queues (reset_pid t) = ctk_queues t" "ctk (snd (tick t)) = ctk t"
  "ctk_queues (snd (tick t)) = ctk_queues t" "ctk_drive (snd (tick t)) = ctk_drive t"
  "ctk (ControlTask_ClearPendingUnloadReset t) = ctk t"
  "ctk_queues (ControlTask_ClearPendingUnloadReset t) = ctk_queues t"
  by (simp_all add: force_stop_def reset_pid_def tick_def ControlTask_ClearPendingUnloadReset_def)

lemma with_ctx_simps [simp]:
  "fst (with_ctx f t) = fst (f (ctk t))" "ctk (snd (with_ctx f t)) = snd (f (ctk t))"
  "ctk_queues (snd (with_ctx f t)) = ctk_queues t" "ctk_drive (snd (with_ctx f t)) = ctk_drive t"
  by (simp_all add: with_ctx_def split: prod.splits)

section \<open>The latch in the control logic\<close>

definition stop_states :: "linetracer_control_state_t set" where
  "stop_states = {LINETRACER_CONTROL_ERROR, LINETRACER_CONTROL_EMERGENCY_STOPPED,
                  LINETRACER_CONTROL_OBSTACLE_STOP}"

definition latched :: "control_context_t \<Rightarrow> bool" where
  "latched c \<longleftrightarrow> safety_latched c \<and> ctl_state c \<in> stop_states"

lemma transition_stop:
  assumes "s \<in> stop_states"
  shows "ControlLogic_Transition c s now
           = (True, if ctl_state c = s then c else c\<lparr>ctl_state := s, state_entered_at_ms := now\<rparr>)"
  using assms by (auto simp: ControlLogic_Transition_def stop_states_def)

lemma safety_state_stops [simp]: "ControlLogic_SafetyState reason \<in> stop_states"
  by (simp add: ControlLogic_SafetyState_def stop_states_def)

lemma lt_latch_event:
  assumes "sev_type event = APP_CONTROL_SAFETY_LATCHED \<or> sev_type event = APP_CONTROL_SAFETY_RESET_REJECTED"
  shows "fst (ControlLogic_ApplySafetyEvent c event now)
         \<and> latched (snd (ControlLogic_ApplySafetyEvent c event now))"
  using assms safety_state_stops
  by (auto simp: ControlLogic_ApplySafetyEvent_def safety_latched_event_def safety_reset_rejected_def
      transition_stop safety_latch_def latched_def Let_def)

lemma latched_event:
  assumes "latched c" "sev_type event \<noteq> APP_CONTROL_SAFETY_RESET_APPROVED"
  shows "latched (snd (ControlLogic_ApplySafetyEvent c event now))"
proof (cases "sev_type event = APP_CONTROL_SAFETY_LATCHED
              \<or> sev_type event = APP_CONTROL_SAFETY_RESET_REJECTED")
  case True
  then show ?thesis by (rule conjunct2 [OF lt_latch_event])
next
  case False
  then have "snd (ControlLogic_ApplySafetyEvent c event now) = c"
    using assms
    by (cases "sev_type event")
       (simp_all add: ControlLogic_ApplySafetyEvent_def safety_obstacle_active_def
          safety_obstacle_cleared_def latched_def)
  then show ?thesis using assms(1) by simp
qed

text \<open>A latched controller refuses what would set it in motion and forgets nothing.\<close>

lemma latched_command:
  assumes "latched c"
  shows "fst (ControlLogic_HandleCommand c command now) = c\<lparr>last_command_at_ms := now\<rparr>"
proof -
  have "ctl_state c \<noteq> LINETRACER_CONTROL_INITIALIZING" "ctl_state c \<noteq> LINETRACER_CONTROL_WAITING_AT_DEST"
      "ctl_state c \<noteq> LINETRACER_CONTROL_STOPPED" "ctl_state c \<noteq> LINETRACER_CONTROL_UNLOADING"
      "\<not> ControlLogic_StateCanResume (ctl_state c)" "safety_latched c"
    using assms by (auto simp: latched_def stop_states_def ControlLogic_StateCanResume_def)
  then show ?thesis
    by (cases "cmd_type command")
       (simp_all add: ControlLogic_HandleCommand_def dispatch_command_def Let_def
          ControlLogic_HandleSetPosition_def ControlLogic_HandleStop_def ControlLogic_HandleReset_def)
qed

lemma latched_field_update [simp]: "latched (c\<lparr>last_command_at_ms := now\<rparr>) = latched c"
  by (simp add: latched_def)

lemma latched_no_motion: "latched c \<Longrightarrow> \<not> ControlTask_RouteMotionEnabled c"
  by (simp add: latched_def ControlTask_RouteMotionEnabled_def)

section \<open>The latch in the task\<close>

definition unconfirmed :: "control_task \<Rightarrow> bool" where
  "unconfirmed t \<longleftrightarrow>
     (case unloadResultQueue (ctk_queues t) of
        None \<Rightarrow> True
      | Some q \<Rightarrow> \<forall>r\<in>set (queue_items q). ures_type r \<noteq> APP_UNLOAD_RESULT_RESET_COMPLETE)"

lemma unconfirmed_cong:
  "unloadResultQueue (ctk_queues t') = unloadResultQueue (ctk_queues t) \<Longrightarrow> unconfirmed t' = unconfirmed t"
  by (simp add: unconfirmed_def)

text \<open>The latch is set, and no confirmation is waiting.\<close>

definition held :: "control_task \<Rightarrow> bool" where
  "held t \<longleftrightarrow> latched (ctk t) \<and> unconfirmed t"

lemma held_cong:
  "ctk t' = ctk t \<Longrightarrow> unloadResultQueue (ctk_queues t') = unloadResultQueue (ctk_queues t)
     \<Longrightarrow> held t' = held t"
  by (simp add: held_def unconfirmed_def)

lemma heldI:
  "held t \<Longrightarrow> latched (ctk t') \<Longrightarrow> unloadResultQueue (ctk_queues t') = unloadResultQueue (ctk_queues t)
     \<Longrightarrow> held t'"
  by (simp add: held_def unconfirmed_def)

lemma request_reset_frame [simp]:
  "ctk (snd (ControlTask_RequestUnloadReset now g t)) = ctk t
   \<and> unloadResultQueue (ctk_queues (snd (ControlTask_RequestUnloadReset now g t)))
       = unloadResultQueue (ctk_queues t)"
  by (simp add: ControlTask_RequestUnloadReset_def Let_def split_def split: bool.splits)

lemma hold_reset_cases:
  "ctk (snd (hold_reset event now t)) = ctk t
   \<and> unloadResultQueue (ctk_queues (snd (hold_reset event now t))) = unloadResultQueue (ctk_queues t)
   \<and> (\<forall>e. fst (hold_reset event now t) = Some e \<longrightarrow> sev_type e = APP_CONTROL_SAFETY_RESET_REJECTED)"
  by (simp add: hold_reset_def Let_def split_def split: option.splits)

lemma safety_event_result_queue [simp]:
  "unloadResultQueue (ctk_queues (safety_event event t)) = unloadResultQueue (ctk_queues t)"
  by (simp add: safety_event_def Let_def split_def hold_reset_cases split: option.splits)

lemma safety_event_latched:
  assumes "latched (ctk t)"
  shows "latched (ctk (safety_event event t))"
proof (cases "sev_type event = APP_CONTROL_SAFETY_RESET_APPROVED")
  case True
  then show ?thesis
    using assms hold_reset_cases
    by (auto simp: safety_event_def Let_def split_def latched_event lt_latch_event split: option.splits)
next
  case False
  then show ?thesis
    using assms by (simp add: safety_event_def Let_def split_def latched_event)
qed

lemma process_safety_events_held: "held t \<Longrightarrow> held (process_safety_events n t)"
proof (induction n t rule: process_safety_events.induct)
  case (2 n t)
  show ?case
  proof (cases "osMessageQueueGet (controlSafetyQueue (ctk_queues t)) 0")
    case (fields status msg mq)
    let ?t = "\<lambda>event. safety_event event (t\<lparr>ctk_queues := (ctk_queues t)\<lparr>controlSafetyQueue := mq\<rparr>\<rparr>)"
    have "held (?t event)" for event
      using 2(2) by (intro heldI [OF 2(2)] safety_event_latched) (simp_all add: held_def)
    then show ?thesis
      using 2 fields by (auto split: osStatus_t.splits option.splits)
  qed
qed simp

lemma reject_reset_held:
  assumes "held t"
  shows "held (ControlTask_RejectPendingUnloadReset err now t)"
proof -
  have "latched (ctk (ControlTask_RejectPendingUnloadReset err now t))"
    using assms by (simp add: ControlTask_RejectPendingUnloadReset_def Let_def held_def latched_event)
  moreover have "unloadResultQueue (ctk_queues (ControlTask_RejectPendingUnloadReset err now t))
      = unloadResultQueue (ctk_queues t)"
    by (simp add: ControlTask_RejectPendingUnloadReset_def Let_def)
  ultimately show ?thesis by (rule heldI [OF assms])
qed

lemma reset_timeout_held:
  assumes "held t"
  shows "held (ControlTask_CheckPendingUnloadResetTimeout now t)"
proof -
  have "held (ControlTask_PublishHealthEvent ty detail now t)" for ty detail
    by (rule heldI [OF assms]) (use assms in \<open>simp_all add: held_def\<close>)
  then show ?thesis
    using assms by (simp add: ControlTask_CheckPendingUnloadResetTimeout_def reject_reset_held)
qed

lemma unload_result_held:
  assumes "held t" "ures_type result \<noteq> APP_UNLOAD_RESULT_RESET_COMPLETE"
  shows "held (unload_result result t)"
proof -
  have ticked: "held (snd (tick t))"
    by (rule heldI [OF assms(1)]) (use assms in \<open>simp_all add: held_def\<close>)
  have health: "held (ControlTask_PublishHealthEvent ty detail now (snd (tick t)))" for ty detail now
    by (rule heldI [OF ticked]) (use ticked in \<open>simp_all add: held_def\<close>)
  have "ctl_state (ctk t) \<noteq> LINETRACER_CONTROL_UNLOADING"
    using assms(1) by (auto simp: held_def latched_def stop_states_def)
  then show ?thesis
    using assms(2) ticked health
    by (auto simp: unload_result_def split_def unload_reset_result_def unload_job_result_def Let_def
        reject_reset_held)
qed

lemma process_unload_results_held: "held t \<Longrightarrow> held (process_unload_results n t)"
proof (induction n t rule: process_unload_results.induct)
  case (2 n t)
  show ?case
  proof (cases "\<exists>q r rs. unloadResultQueue (ctk_queues t) = Some q \<and> queue_items q = r # rs")
    case True
    then obtain q r rs where q: "unloadResultQueue (ctk_queues t) = Some q" "queue_items q = r # rs" by blast
    let ?q = "Some (q\<lparr>queue_items := rs\<rparr>)"
    let ?t = "t\<lparr>ctk_queues := (ctk_queues t)\<lparr>unloadResultQueue := ?q\<rparr>\<rparr>"
    have "held ?t" "ures_type r \<noteq> APP_UNLOAD_RESULT_RESET_COMPLETE"
      using 2(2) q by (simp_all add: held_def unconfirmed_def)
    then have "held (unload_result r ?t)" by (rule unload_result_held)
    then have "held (process_unload_results n (unload_result r ?t))"
      using 2(1) [of osOK "(Some r, ?q)" "Some r" ?q r] q
      by (simp add: osMessageQueueGet_def)
    then show ?thesis using q by (simp add: osMessageQueueGet_def)
  next
    case False
    then have "process_unload_results (Suc n) t = t"
      by (auto simp: osMessageQueueGet_def split: option.splits list.splits)
    then show ?thesis using 2(2) by simp
  qed
qed simp

lemma sensor_snapshot_held:
  assumes "held t"
  shows "held (snd (sensor_snapshot snapshot t)) \<and> \<not> fst (sensor_snapshot snapshot t)"
proof -
  have "\<not> ControlTask_RouteSensorEventsEnabled (ctk t)"
    using assms by (simp add: held_def ControlTask_RouteSensorEventsEnabled_def latched_no_motion)
  then have "snd (sensor_snapshot snapshot t) = store_snapshot snapshot (snd (tick t))
      \<and> \<not> fst (sensor_snapshot snapshot t)"
    by (simp add: sensor_snapshot_def split_def Let_def store_snapshot_def)
  moreover have "held (store_snapshot snapshot (snd (tick t)))"
    by (rule heldI [OF assms]) (use assms in \<open>simp_all add: held_def store_snapshot_def\<close>)
  ultimately show ?thesis by simp
qed

lemma process_snapshots_held: "held t \<Longrightarrow> held (process_snapshots n t)"
proof (induction n t rule: process_snapshots.induct)
  case (2 n t)
  show ?case
  proof (cases "osMessageQueueGet (sensorSnapshotQueue (ctk_queues t)) 0")
    case (fields status msg mq)
    have "held (t\<lparr>ctk_queues := (ctk_queues t)\<lparr>sensorSnapshotQueue := mq\<rparr>\<rparr>)"
      by (rule heldI [OF 2(2)]) (use 2(2) in \<open>simp_all add: held_def\<close>)
    then show ?thesis
      using 2 fields sensor_snapshot_held
      by (auto split: osStatus_t.splits option.splits prod.splits bool.splits) (metis fst_conv snd_conv)+
  qed
qed simp

lemma reset_pipeline_frame [simp]:
  "ctk (ControlTask_ResetRouteSensorPipeline now t) = ctk t
   \<and> ctk_drive (ControlTask_ResetRouteSensorPipeline now t) = ctk_drive t
   \<and> unloadResultQueue (ctk_queues (ControlTask_ResetRouteSensorPipeline now t))
       = unloadResultQueue (ctk_queues t)"
  by (simp add: ControlTask_ResetRouteSensorPipeline_def Let_def split: option.splits)

lemma control_command_frame [simp]:
  "ctk (control_command command t) = fst (ControlLogic_HandleCommand (ctk t) command (fst (tick t)))
   \<and> unloadResultQueue (ctk_queues (control_command command t)) = unloadResultQueue (ctk_queues t)"
  by (simp add: control_command_def Let_def split_def)

lemma process_commands_held: "held t \<Longrightarrow> held (process_commands n t)"
proof (induction n t rule: process_commands.induct)
  case (2 n t)
  show ?case
  proof (cases "osMessageQueueGet (controlCommandQueue (ctk_queues t)) 0")
    case (fields status msg mq)
    let ?t = "t\<lparr>ctk_queues := (ctk_queues t)\<lparr>controlCommandQueue := mq\<rparr>\<rparr>"
    have "held (control_command command ?t)" for command
      by (rule heldI [OF 2(2)]) (use 2(2) in \<open>simp_all add: held_def latched_command\<close>)
    then show ?thesis
      using 2 fields by (auto split: osStatus_t.splits option.splits)
  qed
qed simp

section \<open>The wheels\<close>

text \<open>The stop output passes both boosts unchanged.\<close>

lemma boosts_keep_stop:
  "\<not> standby out \<Longrightarrow> fst (ControlTask_ApplyStartBoost out now t) = out"
  "\<not> standby out \<Longrightarrow> fst (ControlTask_ApplyTurnExitBoost out now t) = out"
  by (simp_all add: ControlTask_ApplyStartBoost_def ControlTask_ApplyTurnExitBoost_def Let_def
      MotorControlLogic_ApplyForwardPwmFloors_def)

lemma start_boost_frame [simp]:
  "ctk (snd (ControlTask_ApplyStartBoost out now t)) = ctk t
   \<and> ctk_queues (snd (ControlTask_ApplyStartBoost out now t)) = ctk_queues t
   \<and> ctk_drive (snd (ControlTask_ApplyStartBoost out now t)) = ctk_drive t"
  by (simp add: ControlTask_ApplyStartBoost_def Let_def)

lemma turn_exit_boost_frame [simp]:
  "ctk (snd (ControlTask_ApplyTurnExitBoost out now t)) = ctk t
   \<and> ctk_queues (snd (ControlTask_ApplyTurnExitBoost out now t)) = ctk_queues t
   \<and> ctk_drive (snd (ControlTask_ApplyTurnExitBoost out now t)) = ctk_drive t"
  by (simp add: ControlTask_ApplyTurnExitBoost_def cancel_turn_exit_boost_def Let_def
      split: prod.splits bool.splits)

lemma apply_output_frame [simp]:
  "ctk (snd (ControlTask_ApplyMotorOutput out now t)) = ctk t
   \<and> unloadResultQueue (ctk_queues (snd (ControlTask_ApplyMotorOutput out now t)))
       = unloadResultQueue (ctk_queues t)"
  by (simp add: ControlTask_ApplyMotorOutput_def Let_def split_def)

lemma apply_output_stop:
  assumes "\<not> standby out"
  shows "wheels_still (ctk_drive (snd (ControlTask_ApplyMotorOutput out now t)))"
  using assms
  by (simp add: ControlTask_ApplyMotorOutput_def Let_def split_def boosts_keep_stop apply_stop_still
      force_stop_def force_stop_still)

lemma drive_state_stopped:
  assumes "\<not> ControlTask_RouteMotionEnabled (ctk t)"
  shows "wheels_still (ctk_drive (drive_state now t))"
proof -
  let ?c = "ctk t"
  have "MotorControlLogic_ComputeControlOutput (ctl_state ?c) (pending_route_action ?c)
      (ctk_line_state (reset_pid t)) (route_active ?c) (safety_latched ?c) = Some MotorControlLogic_MakeSafeStop"
    using assms
    by (auto simp: ControlTask_RouteMotionEnabled_def MotorControlLogic_ComputeControlOutput_def)
  then show ?thesis
    by (simp add: drive_state_def Let_def apply_output_stop MotorControlLogic_MakeSafeStop_def)
qed

lemma maneuver_motion:
  assumes "ControlTask_RouteMotionEnabled c"
  shows "ControlTask_RouteMotionEnabled (snd (ControlLogic_StartPendingManeuver c now))
         \<and> ControlTask_RouteMotionEnabled (snd (ControlLogic_UpdateTimedManeuver c now))"
  using assms
  by (simp add: ControlTask_RouteMotionEnabled_def ControlLogic_StartPendingManeuver_def
      ControlLogic_StartJunctionManeuver_def ControlLogic_UpdateTimedManeuver_def
      ControlLogic_SetJunctionPhase_def ControlLogic_ResetMarkerApproach_def Let_def)

lemma advance_motion:
  "ControlTask_RouteMotionEnabled (ctk (advance_maneuver now t)) = ControlTask_RouteMotionEnabled (ctk t)"
  using maneuver_motion [of "ctk t" now]
    maneuver_motion [of "snd (ControlLogic_StartPendingManeuver (ctk t) now)" now]
  by (auto simp: advance_maneuver_def Let_def split_def split: bool.splits)

lemma pid_follow_moves: "ControlTask_PidLineFollowEnabled c \<Longrightarrow> ControlTask_RouteMotionEnabled c"
  by (auto simp: ControlTask_PidLineFollowEnabled_def ControlTask_RouteMotionEnabled_def split: if_splits)

lemma reacquire_frame [simp]: "ctk (drive_reacquire rnd now t) = ctk t"
  by (simp add: drive_reacquire_def Let_def split_def update_pid_def)

lemma drive_maneuver_frame [simp]: "ctk (drive_maneuver now t) = ctk t"
  by (simp add: drive_maneuver_def Let_def split: option.splits)

lemma drive_line_frame [simp]: "ctk (drive_line rnd now t) = ctk t"
  by (simp add: drive_line_def Let_def split_def update_pid_def)

lemma drive_state_frame [simp]: "ctk (drive_state now t) = ctk t"
  by (simp add: drive_state_def Let_def split: option.splits)

lemma motor_output_ctx:
  "ctk (ControlTask_UpdateMotorOutput rnd now t)
     = (if ctk_motor_ready t then ctk (advance_maneuver now t) else ctk t)"
  by (simp add: ControlTask_UpdateMotorOutput_def Let_def)

lemma motor_output_still:
  assumes "\<not> ControlTask_RouteMotionEnabled (ctk (ControlTask_UpdateMotorOutput rnd now t))"
  shows "wheels_still (ctk_drive (ControlTask_UpdateMotorOutput rnd now t))"
proof (cases "ctk_motor_ready t")
  case False
  then show ?thesis
    by (simp add: ControlTask_UpdateMotorOutput_def force_stop_def force_stop_still)
next
  case True
  then have "\<not> ControlTask_RouteMotionEnabled (ctk (advance_maneuver now t))"
    using assms by (simp add: motor_output_ctx)
  then show ?thesis
    using True pid_follow_moves
    by (auto simp: ControlTask_UpdateMotorOutput_def Let_def drive_state_stopped)
qed

section \<open>One cycle\<close>

text \<open>A cycle is what happens before the wheels are driven, then the wheels, then the report.\<close>

definition cycle_inputs :: "control_task \<Rightarrow> u32 \<times> control_task" where
  "cycle_inputs t =
     (let t = ControlTask_ProcessSafetyEvents t;
          (now, t) = tick t;
          t = ControlTask_ProcessUnloadResults (ControlTask_ProcessPendingResponses now t);
          (now, t) = tick t;
          t = ControlTask_CheckPendingUnloadResetTimeout now t;
          t = ControlTask_ProcessCommands (ControlTask_ProcessSensorSnapshots t);
          (now, t) = tick t
      in (now, ControlTask_CheckRouteTimeout now t))"

lemma check_timeout_id [simp]: "ControlTask_CheckRouteTimeout now t = t"
  by (simp add: ControlTask_CheckRouteTimeout_def ControlLogic_CheckRouteTimeout_def with_ctx_def Let_def)

lemma cycle_split:
  "ctk (control_cycle rnd t)
     = ctk (case cycle_inputs t of (now, t) \<Rightarrow> ControlTask_UpdateMotorOutput rnd now t)"
  "ctk_drive (control_cycle rnd t)
     = ctk_drive (case cycle_inputs t of (now, t) \<Rightarrow> ControlTask_UpdateMotorOutput rnd now t)"
  by (simp_all add: control_cycle_def cycle_inputs_def Let_def split_def)

lemma cycle_inputs_after_safety:
  assumes "held (ControlTask_ProcessSafetyEvents t)"
  shows "held (snd (cycle_inputs t))"
proof -
  have ticked: "held (snd (tick u)) = held u" for u
    by (rule held_cong) simp_all
  have pending: "held (ControlTask_ProcessPendingResponses now u) = held u" for u now
    by (rule held_cong) simp_all
  show ?thesis
    using assms
    by (simp add: cycle_inputs_def Let_def split_def ticked pending ControlTask_ProcessUnloadResults_def
        process_unload_results_held reset_timeout_held ControlTask_ProcessSensorSnapshots_def
        process_snapshots_held ControlTask_ProcessCommands_def process_commands_held)
qed

lemma cycle_inputs_held: "held t \<Longrightarrow> held (snd (cycle_inputs t))"
  by (rule cycle_inputs_after_safety)
     (simp add: ControlTask_ProcessSafetyEvents_def process_safety_events_held)

lemma cycle_held:
  assumes "held t"
  shows "latched (ctk (control_cycle rnd t))"
proof -
  have "latched (ctk (snd (cycle_inputs t)))"
    using cycle_inputs_held [OF assms] by (simp add: held_def)
  then show ?thesis
    by (simp add: cycle_split split_def motor_output_ctx advance_maneuver_def latched_no_motion)
qed

lemma cycle_still:
  "\<not> ControlTask_RouteMotionEnabled (ctk (control_cycle rnd t)) \<Longrightarrow> wheels_still (ctk_drive (control_cycle rnd t))"
  by (simp add: cycle_split split_def motor_output_still)

section \<open>Properties\<close>

text \<open>The safety task's latch events that one cycle will take.\<close>

definition latch_waiting :: "nat \<Rightarrow> control_task \<Rightarrow> bool" where
  "latch_waiting n t \<longleftrightarrow>
     (case controlSafetyQueue (ctk_queues t) of
        None \<Rightarrow> False
      | Some q \<Rightarrow> \<exists>event\<in>set (take n (queue_items q)).
                   sev_type event = APP_CONTROL_SAFETY_LATCHED
                   \<or> sev_type event = APP_CONTROL_SAFETY_RESET_REJECTED)"

lemma safety_queue_frames [simp]:
  "controlSafetyQueue (snd (AppQueues_TryPutTx event q)) = controlSafetyQueue q"
  "controlSafetyQueue (snd (AppQueues_TryPutHealth h q)) = controlSafetyQueue q"
  by (simp_all add: AppQueues_TryPutTx_def AppQueues_TryPutHealth_def Let_def split: prod.splits)

lemma publish_safety_queue [simp]:
  "controlSafetyQueue (ctk_queues (ControlTask_PublishHealthEvent ty detail now t))
     = controlSafetyQueue (ctk_queues t)"
  "controlSafetyQueue (ctk_queues (ControlTask_PublishTxEvent event now t))
     = controlSafetyQueue (ctk_queues t)"
  by (simp_all add: ControlTask_PublishHealthEvent_def ControlTask_PublishTxEvent_def
      ControlTask_ScheduleResponseRetry_def Let_def split_def split: bool.splits)

lemma report_safety_queue [simp]:
  "controlSafetyQueue (ctk_queues (report_safety_event event now t)) = controlSafetyQueue (ctk_queues t)"
proof -
  have "controlSafetyQueue (ctk_queues (ControlTask_PublishStateChanged now t))
      = controlSafetyQueue (ctk_queues t)"
    by (simp add: ControlTask_PublishStateChanged_def ControlTask_PublishLifecycleEvent_def)
  then show ?thesis
    by (simp add: report_safety_event_def ControlTask_PublishSafetyResetResult_def Let_def
        split: option.splits)
qed

lemma put_unload_safety_queue [simp]:
  "controlSafetyQueue (ctk_queues (snd (put_unload_command command now t))) = controlSafetyQueue (ctk_queues t)"
  by (simp add: put_unload_command_def Let_def split: prod.splits)

lemma hold_reset_safety_queue [simp]:
  "controlSafetyQueue (ctk_queues (snd (hold_reset event now t))) = controlSafetyQueue (ctk_queues t)"
proof -
  have "controlSafetyQueue (ctk_queues (snd (ControlTask_RequestUnloadReset now g t)))
      = controlSafetyQueue (ctk_queues t)" for g
    by (simp add: ControlTask_RequestUnloadReset_def Let_def split_def split: bool.splits)
  then show ?thesis by (simp add: hold_reset_def Let_def split_def split: option.splits)
qed

lemma safety_event_queue [simp]:
  "controlSafetyQueue (ctk_queues (safety_event event t)) = controlSafetyQueue (ctk_queues t)"
  by (simp add: safety_event_def Let_def split_def split: option.splits)

lemma process_safety_events_latches:
  "unconfirmed t \<Longrightarrow> latch_waiting n t \<Longrightarrow> held (process_safety_events n t)"
proof (induction n t rule: process_safety_events.induct)
  case (2 n t)
  obtain q where some: "controlSafetyQueue (ctk_queues t) = Some q"
    using 2(3) by (cases "controlSafetyQueue (ctk_queues t)") (simp_all add: latch_waiting_def)
  then have "queue_items q \<noteq> []"
    using 2(3) by (auto simp: latch_waiting_def)
  then obtain e es where q: "controlSafetyQueue (ctk_queues t) = Some q" "queue_items q = e # es"
    using some by (cases "queue_items q") auto
  let ?q = "Some (q\<lparr>queue_items := es\<rparr>)"
  let ?t = "safety_event e (t\<lparr>ctk_queues := (ctk_queues t)\<lparr>controlSafetyQueue := ?q\<rparr>\<rparr>)"
  have step: "process_safety_events (Suc n) t = process_safety_events n ?t"
    using q by (simp add: osMessageQueueGet_def)
  have unc: "unconfirmed ?t"
    using 2(2) by (simp add: unconfirmed_def)
  show ?case
  proof (cases "sev_type e = APP_CONTROL_SAFETY_LATCHED \<or> sev_type e = APP_CONTROL_SAFETY_RESET_REJECTED")
    case True
    then have "latched (ctk ?t)"
      by (auto simp: safety_event_def Let_def split_def lt_latch_event)
    then show ?thesis using unc process_safety_events_held [of ?t n] step by (simp add: held_def)
  next
    case False
    then have "latch_waiting n ?t"
      using 2(3) q by (auto simp: latch_waiting_def)
    then show ?thesis
      using 2(1) [of osOK "(Some e, ?q)" "Some e" ?q e] q unc step
      by (simp add: osMessageQueueGet_def)
  qed
qed (simp add: latch_waiting_def split: option.splits)

text \<open>
  The task between its cycles: the other tasks put messages, raise requests and may stop the
  wheels; \<open>unconfirmed_run\<close> is a history in which the unload task never confirms a reset.
\<close>

inductive unconfirmed_run :: "(rat \<Rightarrow> rat) \<Rightarrow> control_task \<Rightarrow> control_task \<Rightarrow> bool" for rnd where
  run_start: "unconfirmed t \<Longrightarrow> unconfirmed_run rnd t t"
| run_others: "unconfirmed_run rnd t u \<Longrightarrow> ctk v = ctk u
     \<Longrightarrow> ctk_drive v = ctk_drive u \<or> ctk_drive v = MotorControl_ForceStop (ctk_drive u)
     \<Longrightarrow> unconfirmed v \<Longrightarrow> unconfirmed_run rnd t v"
| run_cycle: "unconfirmed_run rnd t u \<Longrightarrow> unconfirmed (control_cycle rnd u)
     \<Longrightarrow> unconfirmed_run rnd t (control_cycle rnd u)"

lemma run_held: "unconfirmed_run rnd t u \<Longrightarrow> latched (ctk t) \<Longrightarrow> held u"
  by (induction rule: unconfirmed_run.induct) (simp_all add: held_def cycle_held)

text \<open>The statics of the firmware at power-on, with the queues that \<open>AppQueues_Init\<close> has made.\<close>

definition zero_plan :: route_plan_t where
  "zero_plan =
     \<lparr>plan_phase = ROUTE_PHASE_IDLE, common_direction = ROUTE_DIRECTION_NONE,
      expected_marker = ROUTE_MARKER_NONE, origin_index = 0, target_index = 0, junctions_total = 0,
      junctions_remaining = 0, plan_loaded = False, plan_valid = False\<rparr>"

definition zero_context :: control_context_t where
  "zero_context =
     \<lparr>ctl_state = LINETRACER_CONTROL_INITIALIZING, resume_state = LINETRACER_CONTROL_INITIALIZING,
      stop_reason = LINETRACER_STOP_REASON_NONE, current_position = UART_LINETRACER_POSITION_NONE,
      active_route = UART_LINETRACER_ROUTE_NONE, state_entered_at_ms = 0, last_command_at_ms = 0,
      marker_wait_started_at_ms = 0, last_marker_detected_at_ms = 0,
      junction_phase_started_at_ms = 0, junction_turn_started_at_ms = 0,
      junction_condition_since_ms = 0, junction_candidate_since_ms = 0, junction_guard_until_ms = 0,
      delayed_marker_ignore_before_ms = 0, marker_approach_started_at_ms = 0,
      c_marker_rearm_clear_since_ms = 0, active_job_id = 0, last_marker_code = APP_MARKER_NONE,
      junction_phase = CONTROL_JUNCTION_IDLE, marker_approach_state = CONTROL_MARKER_APPROACH_IDLE,
      junction_action = ROUTE_ACTION_NONE, route_active = False, resume_valid = False,
      safety_latched = False, safety_error_code = 0, last_marker_valid = False,
      junction_condition_active = False, junction_candidate_active = False,
      junction_target_edge_seen = False, junction_guard_active = False,
      delayed_marker_ignore_valid = False, c_marker_rearm_pending = False,
      c_marker_rearm_clear_active = False, departure_turn_required = False,
      load_wait_armed = False, route_plan = zero_plan, pending_route_action = ROUTE_ACTION_NONE\<rparr>"

definition zero_drive :: wheel_drive where
  "zero_drive =
     \<lparr>motorControlInitialized = False, motorControlLastOutput = MotorControlLogic_MakeSafeStop,
      wheel_compare = \<lambda>_. 0, wheel_running = \<lambda>_. False, gpioc = \<lambda>_. False,
      wheel_start_ok = \<lambda>_. True\<rparr>"

definition zero_queues :: app_queues where
  "zero_queues =
     \<lparr>controlCommandQueue = NULL, sensorSnapshotQueue = NULL, safetyEventQueue = NULL,
      controlSafetyQueue = NULL, unloadCommandQueue = NULL, unloadResultQueue = NULL,
      txSafetyQueue = NULL, txResponseQueue = NULL, txEventQueue = NULL, healthEventQueue = NULL,
      healthEventDropCounts = \<lambda>_. 0, tx_notified = False\<rparr>"

definition power_on :: control_task where
  "power_on =
     \<lparr>ctk = zero_context,
      ctk_pid = \<lparr>pid_previous_error = 0, pid_integral = 0, pid_last_update_ms = 0, pid_initialized = False\<rparr>,
      ctk_load_state = UART_LINETRACER_LOAD_EMPTY, ctk_line_state = LINETRACER_LINE_UNKNOWN,
      ctk_line_error = 0, ctk_motor_ready = False, start_boost_until_ms = 0,
      turn_exit_boost_until_ms = 0, turn_exit_boost_action = ROUTE_ACTION_NONE,
      ctk_initialized = False, pending_unload_reset = zero_control_safety_event,
      pending_unload_reset_active = False, pending_unload_reset_deadline_ms = 0,
      pending_unload_reset_request_id = 0, next_unload_request_id = 0, route_sensor_epoch_ms = 0,
      route_marker_clear_since_ms = 0, route_marker_clear_active = False,
      route_marker_armed = False,
      pending_responses = replicate CONTROL_TASK_PENDING_RESPONSE_CAPACITY
        \<lparr>pend_event = zero_tx_event, pend_retry_at_ms = 0, pend_active = False\<rparr>,
      ctk_queues = snd (AppQueues_Init (\<lambda>_. True) zero_queues), ctk_drive = zero_drive,
      line_tracking_reset_requested = False, fsr_baseline_requested = False,
      unload_abort_requested = False, unload_inhibit_generation = 0, ctk_last_alive = 0,
      ctk_ticks = of_nat\<rparr>"

definition with_latch_event :: "control_task \<Rightarrow> control_task" where
  "with_latch_event t =
     t\<lparr>ctk_queues := (ctk_queues t)\<lparr>controlSafetyQueue := Some \<lparr>queue_capacity = 4, queue_items =
         [zero_control_safety_event\<lparr>sev_type := APP_CONTROL_SAFETY_LATCHED,
            sev_reason := LINETRACER_STOP_REASON_EMERGENCY\<rparr>]\<rparr>\<rparr>\<rparr>"

lemma power_on_queues:
  "unloadResultQueue (ctk_queues power_on) = Some \<lparr>queue_capacity = 4, queue_items = []\<rparr>"
  by (simp add: power_on_def zero_queues_def AppQueues_Init_def AppQueues_AreReady_def
      osMessageQueueNew_def Let_def)

lemma stops_within_a_cycle:
  assumes "latch_waiting APP_CONTROL_SAFETY_QUEUE_DEPTH t" and "unconfirmed t"
  shows "latched (ctk (control_cycle rnd t)) \<and> wheels_still (ctk_drive (control_cycle rnd t))"
proof -
  have "held (ControlTask_ProcessSafetyEvents t)"
    using assms by (simp add: ControlTask_ProcessSafetyEvents_def process_safety_events_latches)
  then have "held (snd (cycle_inputs t))"
    by (rule cycle_inputs_after_safety)
  then have "latched (ctk (control_cycle rnd t))"
    by (simp add: cycle_split split_def motor_output_ctx advance_maneuver_def latched_no_motion held_def)
  then show ?thesis using cycle_still latched_no_motion by blast
qed

text \<open>With nothing to take and no permission to move, a round leaves the control logic alone.\<close>

definition nothing_waits :: "control_task \<Rightarrow> bool" where
  "nothing_waits t \<longleftrightarrow>
     (\<forall>q\<in>set_option (controlSafetyQueue (ctk_queues t)). queue_items q = [])
     \<and> (\<forall>q\<in>set_option (unloadResultQueue (ctk_queues t)). queue_items q = [])
     \<and> (\<forall>q\<in>set_option (sensorSnapshotQueue (ctk_queues t)). queue_items q = [])
     \<and> (\<forall>q\<in>set_option (controlCommandQueue (ctk_queues t)). queue_items q = [])
     \<and> (\<forall>p\<in>set (pending_responses t). \<not> pend_active p) \<and> \<not> pending_unload_reset_active t"

lemma get_empty:
  "\<forall>q\<in>set_option mq. queue_items q = [] \<Longrightarrow> osMessageQueueGet mq timeout = (a, Some x, mq') \<Longrightarrow> a \<noteq> osOK"
  by (auto simp: osMessageQueueGet_def split: option.splits if_splits)

lemma takes_nothing:
  "\<forall>q\<in>set_option (controlSafetyQueue (ctk_queues t)). queue_items q = [] \<Longrightarrow> process_safety_events n t = t"
  "\<forall>q\<in>set_option (unloadResultQueue (ctk_queues t)). queue_items q = [] \<Longrightarrow> process_unload_results n t = t"
  "\<forall>q\<in>set_option (sensorSnapshotQueue (ctk_queues t)). queue_items q = [] \<Longrightarrow> process_snapshots n t = t"
  "\<forall>q\<in>set_option (controlCommandQueue (ctk_queues t)). queue_items q = [] \<Longrightarrow> process_commands n t = t"
  by (cases n; auto split: prod.splits osStatus_t.splits option.splits dest: get_empty)+

lemma retries_nothing: "\<forall>p\<in>set ps. \<not> pend_active p \<Longrightarrow> retry_responses now ps t = (ps, t)"
  by (induction ps) (simp_all add: retry_response_def)

lemma nothing_waits_ticked:
  assumes "nothing_waits t"
  shows "nothing_waits (snd (tick t))"
proof -
  have "ctk_queues (snd (tick t)) = ctk_queues t" "pending_responses (snd (tick t)) = pending_responses t"
      "pending_unload_reset_active (snd (tick t)) = pending_unload_reset_active t"
    by (simp_all add: tick_def)
  then show ?thesis using assms by (simp add: nothing_waits_def)
qed

lemma nothing_processed:
  assumes "nothing_waits t"
  shows "ControlTask_ProcessSafetyEvents t = t" "ControlTask_ProcessPendingResponses now t = t"
    "ControlTask_ProcessUnloadResults t = t" "ControlTask_CheckPendingUnloadResetTimeout now t = t"
    "ControlTask_ProcessSensorSnapshots t = t" "ControlTask_ProcessCommands t = t"
  using assms
  by (simp_all add: nothing_waits_def takes_nothing retries_nothing ControlTask_ProcessSafetyEvents_def
      ControlTask_ProcessPendingResponses_def ControlTask_ProcessUnloadResults_def
      ControlTask_CheckPendingUnloadResetTimeout_def ControlTask_ProcessSensorSnapshots_def
      ControlTask_ProcessCommands_def)

lemma quiet_cycle:
  assumes "nothing_waits t" and "\<not> ControlTask_RouteMotionEnabled (ctk t)"
  shows "ctk (control_cycle rnd t) = ctk t"
proof -
  have "ctk (snd (cycle_inputs t)) = ctk t"
    using assms(1) by (simp add: cycle_inputs_def Let_def split_def nothing_processed nothing_waits_ticked)
  then show ?thesis
    using assms(2) by (simp add: cycle_split split_def motor_output_ctx advance_maneuver_def)
qed

text \<open>A vehicle that an obstacle has stopped in the middle of a crossing.\<close>

definition blocked_crossing :: "control_task \<Rightarrow> control_task" where
  "blocked_crossing t = t\<lparr>ctk := (ctk t)\<lparr>ctl_state := LINETRACER_CONTROL_OBSTACLE_STOP, route_active := True,
     stop_reason := LINETRACER_STOP_REASON_OBSTACLE, junction_phase := CONTROL_JUNCTION_CROSS_STRAIGHT\<rparr>\<rparr>"

lemma blocked_cycle:
  "ctl_state (ctk (control_cycle rnd (blocked_crossing power_on))) = LINETRACER_CONTROL_OBSTACLE_STOP"
proof -
  have "nothing_waits (blocked_crossing power_on)"
    by (simp add: nothing_waits_def blocked_crossing_def power_on_def zero_queues_def AppQueues_Init_def
        AppQueues_AreReady_def osMessageQueueNew_def Let_def)
  then show ?thesis
    by (simp add: quiet_cycle ControlTask_RouteMotionEnabled_def blocked_crossing_def)
qed

text \<open>
  C7: When a latching event of the safety task waits in the queue and the unload task has not
  confirmed a reset, one round of the linetracer's control task ends with the latch set and the
  wheels still (standby low, no duty), whatever else waits and whatever maneuver is under way.
\<close>

theorem emergency_stops_within_a_cycle:
  assumes "latch_waiting APP_CONTROL_SAFETY_QUEUE_DEPTH t" and "unconfirmed t"
  shows "latched (ctk (control_cycle rnd t)) \<and> wheels_still (ctk_drive (control_cycle rnd t))"
  using assms by (rule stops_within_a_cycle)

theorem emergency_stops_within_a_cycle_witness:
  "latched (ctk (control_cycle (\<lambda>x. x) (with_latch_event power_on)))
   \<and> wheels_still (ctk_drive (control_cycle (\<lambda>x. x) (with_latch_event power_on)))"
  by (rule emergency_stops_within_a_cycle)
     (simp_all add: latch_waiting_def with_latch_event_def unconfirmed_def power_on_queues
        zero_control_safety_event_def)

text \<open>
  C9: Once the safety latch of the linetracer is set it stays set and the wheels stay still over
  every history in which the unload task confirms no reset: no command, sample, marker, load
  change, timeout or approved reset releases it.
\<close>

theorem latch_holds_until_unload_confirms:
  assumes "latched (ctk t)" and "unconfirmed_run rnd t u"
  shows "latched (ctk u) \<and> wheels_still (ctk_drive (control_cycle rnd u))"
proof -
  have "held u" by (rule run_held [OF assms(2,1)])
  then show ?thesis
    using cycle_held cycle_still latched_no_motion by (blast intro: held_def [THEN iffD1, THEN conjunct1])
qed

theorem latch_holds_until_unload_confirms_witness:
  "wheels_still (ctk_drive (control_cycle (\<lambda>x. x)
     (power_on\<lparr>ctk := zero_context\<lparr>safety_latched := True, ctl_state := LINETRACER_CONTROL_ERROR\<rparr>\<rparr>)))"
  by (rule conjunct2 [OF latch_holds_until_unload_confirms
        [where t = "power_on\<lparr>ctk := zero_context\<lparr>safety_latched := True,
           ctl_state := LINETRACER_CONTROL_ERROR\<rparr>\<rparr>"]], rule_tac [2] run_start)
     (simp_all add: latched_def stop_states_def unconfirmed_def power_on_queues)

text \<open>
  C17: After any round of the linetracer's control task that ends with the safety latch set,
  without an active job, or in one of the states STOPPED, OBSTACLE_STOP, ERROR and
  EMERGENCY_STOPPED, the wheels stand still (standby low, no duty), whatever maneuver was under
  way.
\<close>

theorem wheels_stop_without_permission:
  fixes rnd and t :: control_task
  defines "c \<equiv> ctk (control_cycle rnd t)"
  assumes "safety_latched c \<or> \<not> route_active c
     \<or> ctl_state c \<in> {LINETRACER_CONTROL_STOPPED, LINETRACER_CONTROL_OBSTACLE_STOP, LINETRACER_CONTROL_ERROR,
                       LINETRACER_CONTROL_EMERGENCY_STOPPED}"
  shows "wheels_still (ctk_drive (control_cycle rnd t))"
proof -
  have "\<not> ControlTask_RouteMotionEnabled c"
    using assms(2) by (auto simp: ControlTask_RouteMotionEnabled_def)
  then show ?thesis by (simp add: c_def cycle_still)
qed

theorem wheels_stop_without_permission_witness:
  "wheels_still (ctk_drive (control_cycle (\<lambda>x. x) (blocked_crossing power_on)))"
  by (intro wheels_stop_without_permission) (simp add: blocked_cycle)

end
