(* ===== verification/Linetracer_Job.thy ===== *)
theory Linetracer_Job
  imports Linetracer_Latch
begin

text \<open>
  The life of a job in the line tracer's control task. Every change that a cycle makes to the
  control context is a step of the control logic (\<open>ctx_step\<close>), and every step keeps the state of
  the drive, the plan of the route and the active job consistent (\<open>job_ok\<close>). From this follow the
  progress along the route, the report of a finished job and the effect of the server's stop.
\<close>

section \<open>The invariant of the control context\<close>

definition paused_states :: "linetracer_control_state_t set" where
  "paused_states = {LINETRACER_CONTROL_STOPPED, LINETRACER_CONTROL_OBSTACLE_STOP,
                    LINETRACER_CONTROL_ERROR, LINETRACER_CONTROL_EMERGENCY_STOPPED}"

text \<open>The phases of the plan that go with a state of the drive; none where no job is driven.\<close>

fun phases_of :: "linetracer_control_state_t \<Rightarrow> route_phase_t set" where
  "phases_of LINETRACER_CONTROL_TURNING_FROM_DEST = {ROUTE_PHASE_TO_SOURCE_JUNCTION}"
| "phases_of LINETRACER_CONTROL_MOVING_TO_SOURCE_JUNCTION = {ROUTE_PHASE_TO_SOURCE_JUNCTION}"
| "phases_of LINETRACER_CONTROL_MOVING_ON_COMMON_LINE =
     {ROUTE_PHASE_ON_COMMON_LINE, ROUTE_PHASE_TO_C_PICKUP_TURN}"
| "phases_of LINETRACER_CONTROL_TURNING_TO_PICKUP = {ROUTE_PHASE_TO_PICKUP}"
| "phases_of LINETRACER_CONTROL_MOVING_TO_PICKUP = {ROUTE_PHASE_TO_PICKUP}"
| "phases_of LINETRACER_CONTROL_PICKUP_READY = {ROUTE_PHASE_WAITING_LOAD}"
| "phases_of LINETRACER_CONTROL_WAITING_LOAD = {ROUTE_PHASE_WAITING_LOAD}"
| "phases_of LINETRACER_CONTROL_TURNING_AT_PICKUP =
     {ROUTE_PHASE_TO_C_RETURN_JUNCTION, ROUTE_PHASE_TO_TARGET_UNLOAD}"
| "phases_of LINETRACER_CONTROL_MOVING_TO_DEST =
     {ROUTE_PHASE_TO_C_RETURN_JUNCTION, ROUTE_PHASE_TO_TARGET_UNLOAD}"
| "phases_of LINETRACER_CONTROL_UNLOADING = {ROUTE_PHASE_UNLOADING}"
| "phases_of _ = {}"

definition driving :: "linetracer_control_state_t \<Rightarrow> bool" where
  "driving s \<longleftrightarrow> s \<notin> paused_states
     \<and> s \<notin> {LINETRACER_CONTROL_INITIALIZING, LINETRACER_CONTROL_WAITING_AT_DEST}"

definition job_at :: "control_context_t \<Rightarrow> linetracer_control_state_t \<Rightarrow> bool" where
  "job_at c s \<longleftrightarrow> ControlLogic_HasActiveJob c \<and> plan_valid (route_plan c)
     \<and> target_index (route_plan c) = RoutePlanner_RouteIndex (active_route c)
     \<and> plan_phase (route_plan c) \<in> phases_of s"

definition at_rest :: "control_context_t \<Rightarrow> linetracer_control_state_t \<Rightarrow> bool" where
  "at_rest c s \<longleftrightarrow>
     (s \<in> {LINETRACER_CONTROL_INITIALIZING, LINETRACER_CONTROL_WAITING_AT_DEST} \<longrightarrow> \<not> route_active c)
     \<and> (s = LINETRACER_CONTROL_WAITING_AT_DEST \<longrightarrow> current_position c \<noteq> UART_LINETRACER_POSITION_NONE)"

text \<open>What holds in a state also holds in the state that a pause will resume.\<close>

definition job_ok :: "control_context_t \<Rightarrow> bool" where
  "job_ok c \<longleftrightarrow>
     plan_typed (route_plan c)
     \<and> (driving (ctl_state c) \<longrightarrow> job_at c (ctl_state c)) \<and> at_rest c (ctl_state c)
     \<and> (resume_valid c \<longrightarrow> ctl_state c \<in> paused_states \<and> resume_state c \<notin> paused_states
          \<and> (driving (resume_state c) \<longrightarrow> job_at c (resume_state c)) \<and> at_rest c (resume_state c))
     \<and> (safety_latched c \<longrightarrow> ctl_state c \<in> stop_states)"

lemmas state_sets = paused_states_def stop_states_def driving_def at_rest_def

text \<open>
  The steps of the control logic, which the task takes: the events of the safety task, the results
  of the unload task, the commands, the samples and markers, the load and the maneuvers.
\<close>

inductive ctx_step :: "control_context_t \<Rightarrow> control_context_t \<Rightarrow> bool" where
  step_safety: "ctx_step c (snd (ControlLogic_ApplySafetyEvent c event now))"
| step_unload: "ctx_step c (snd (ControlLogic_HandleUnloadResult c result now))"
| step_command: "ctx_step c (fst (ControlLogic_HandleCommand c command now))"
| step_arm: "ctx_step c (c\<lparr>load_wait_armed := True\<rparr>)"
| step_load_on: "ctx_step c (snd (ControlLogic_HandleLoadOn c now))"
| step_load_off: "ctl_state c = LINETRACER_CONTROL_MOVING_TO_DEST \<Longrightarrow>
     ctx_step c (snd (snd (ControlLogic_HandleLoadOff c now)))"
| step_line: "ctx_step c (snd (ControlLogic_ProcessLineSampleWithCenter c l m r ts))"
| step_marker: "ctx_step c (snd (ControlLogic_HandleMarker c code ts now))"
| step_pending: "ctx_step c (snd (ControlLogic_StartPendingManeuver c now))"
| step_timed: "ctx_step c (snd (ControlLogic_UpdateTimedManeuver c now))"

section \<open>Every step keeps the invariant\<close>

lemma has_job: "ControlLogic_HasActiveJob c \<Longrightarrow> route_active c \<and> active_route c \<noteq> UART_LINETRACER_ROUTE_NONE"
  by (simp add: ControlLogic_HasActiveJob_def)

text \<open>The fields that the invariant reads.\<close>

definition job_view where
  "job_view c = (route_plan c, ctl_state c, resume_state c, resume_valid c, safety_latched c,
     route_active c, active_job_id c, active_route c, current_position c)"

lemma job_ok_cong: "job_view c' = job_view c \<Longrightarrow> job_ok c' = job_ok c"
  by (simp add: job_view_def job_ok_def job_at_def at_rest_def ControlLogic_HasActiveJob_def)

lemma view_helpers [simp]:
  "job_view (ControlLogic_ResetMarkerApproach c) = job_view c"
  "job_view (ControlLogic_ResetCMarkerRearm c) = job_view c"
  "job_view (ControlLogic_StartCMarkerRearm c now) = job_view c"
  "job_view (ControlLogic_ResetJunctionManeuver c) = job_view c"
  "job_view (ControlLogic_SetJunctionPhase c phase now) = job_view c"
  "job_view (ControlLogic_StartJunctionGuard c now) = job_view c"
  "job_view (ControlLogic_RejectDelayedMarkersThrough c now) = job_view c"
  by (simp_all add: job_view_def ControlLogic_ResetMarkerApproach_def ControlLogic_ResetCMarkerRearm_def
      ControlLogic_StartCMarkerRearm_def ControlLogic_ResetJunctionManeuver_def
      ControlLogic_SetJunctionPhase_def ControlLogic_StartJunctionGuard_def
      ControlLogic_RejectDelayedMarkersThrough_def Let_def)

lemma view_conditions [simp]:
  "job_view (snd (ControlLogic_UpdateCMarkerRearm c white now)) = job_view c"
  "job_view (snd (ControlLogic_JunctionGuardActive c now)) = job_view c"
  "job_view (ControlLogic_UpdateMarkerApproach c l r guard now) = job_view c"
  "job_view (snd (ControlLogic_ConditionStable c condition now ms)) = job_view c"
  "job_view (snd (ControlLogic_StartJunctionManeuver c a from_junction now)) = job_view c"
  by (simp_all add: job_view_def ControlLogic_UpdateCMarkerRearm_def ControlLogic_JunctionGuardActive_def
      ControlLogic_UpdateMarkerApproach_def ControlLogic_ConditionStable_def
      ControlLogic_StartJunctionManeuver_def ControlLogic_ResetMarkerApproach_def
      ControlLogic_ResetCMarkerRearm_def ControlLogic_SetJunctionPhase_def Let_def)

lemma pending_view [simp]: "job_view (snd (ControlLogic_StartPendingManeuver c now)) = job_view c"
  by (simp add: ControlLogic_StartPendingManeuver_def)

lemma timed_view [simp]: "job_view (snd (ControlLogic_UpdateTimedManeuver c now)) = job_view c"
  by (simp add: ControlLogic_UpdateTimedManeuver_def job_view_def ControlLogic_SetJunctionPhase_def Let_def)

lemma route_error_ok:
  assumes "plan_typed (route_plan c)"
  shows "job_ok (snd (ControlLogic_RouteError c reason action now))"
proof -
  let ?c = "ControlLogic_ResetCMarkerRearm (ControlLogic_ResetJunctionManeuver
     (c\<lparr>stop_reason := reason, resume_valid := False, pending_route_action := action\<rparr>))"
  have "job_view ?c = job_view (c\<lparr>resume_valid := False\<rparr>)"
    by (simp add: job_view_def [of "c\<lparr>stop_reason := reason, resume_valid := False, pending_route_action := action\<rparr>"])
       (simp add: job_view_def)
  then have "plan_typed (route_plan ?c)" "\<not> resume_valid ?c"
    using assms by (simp_all add: job_view_def)
  then show ?thesis
    by (auto simp: ControlLogic_RouteError_def Let_def transition_stop stop_states_def job_ok_def
        paused_states_def driving_def at_rest_def)
qed

text \<open>Stopping in a safety state keeps the plan and what a pause would resume.\<close>

lemma lt_stop_ok:
  assumes "s \<in> stop_states" "plan_typed (route_plan c)"
    and "resume_valid c \<longrightarrow> resume_state c \<notin> paused_states
          \<and> (driving (resume_state c) \<longrightarrow> job_at c (resume_state c)) \<and> at_rest c (resume_state c)"
  shows "job_ok (snd (ControlLogic_Transition c s now))"
  using assms
  by (auto simp: transition_stop job_ok_def state_sets job_at_def ControlLogic_HasActiveJob_def)

lemma pauses_iff:
  "ControlLogic_StateCanPauseForObstacle s \<longleftrightarrow> s \<notin> paused_states"
  by (cases s) (simp_all add: ControlLogic_StateCanPauseForObstacle_def ControlLogic_StateCanResume_def
      paused_states_def)

lemma resumes_iff:
  "ControlLogic_StateCanResume s \<longleftrightarrow> driving s \<and> s \<noteq> LINETRACER_CONTROL_UNLOADING"
  by (cases s) (simp_all add: ControlLogic_StateCanResume_def state_sets)

lemma obstacle_active_ok:
  assumes "job_ok c"
  shows "job_ok (snd (safety_obstacle_active c now))"
proof (cases "safety_latched c \<or> ctl_state c \<in> paused_states")
  case True
  then show ?thesis using assms by (auto simp: safety_obstacle_active_def pauses_iff)
next
  case False
  let ?d = "ControlLogic_ResetMarkerApproach
     (c\<lparr>resume_state := ctl_state c, resume_valid := True,
        stop_reason := LINETRACER_STOP_REASON_OBSTACLE,
        safety_error_code := error_code UART_ERROR_SENSOR,
        junction_condition_active := False, junction_candidate_active := False\<rparr>)"
  have "plan_typed (route_plan ?d) \<and> (resume_valid ?d \<longrightarrow> resume_state ?d \<notin> paused_states
          \<and> (driving (resume_state ?d) \<longrightarrow> job_at ?d (resume_state ?d)) \<and> at_rest ?d (resume_state ?d))"
    using assms False
    by (simp add: job_ok_def ControlLogic_ResetMarkerApproach_def job_at_def at_rest_def
        ControlLogic_HasActiveJob_def)
  then have "job_ok (snd (ControlLogic_Transition ?d LINETRACER_CONTROL_OBSTACLE_STOP now))"
    by (intro lt_stop_ok) (simp_all add: stop_states_def)
  moreover have "snd (safety_obstacle_active c now)
      = snd (ControlLogic_Transition ?d LINETRACER_CONTROL_OBSTACLE_STOP now)"
    using False by (simp add: safety_obstacle_active_def pauses_iff Let_def)
  ultimately show ?thesis by simp
qed

text \<open>Leaving a pause for the state it interrupted.\<close>

lemma resumed_ok:
  assumes "job_ok c" "resume_valid c" "\<not> safety_latched c"
    and "job_view c' = job_view (c\<lparr>ctl_state := resume_state c, resume_valid := False\<rparr>)"
  shows "job_ok c'"
proof -
  have "job_ok (c\<lparr>ctl_state := resume_state c, resume_valid := False\<rparr>)"
    using assms(1-3) by (auto simp: job_ok_def at_rest_def job_at_def ControlLogic_HasActiveJob_def)
  then show ?thesis using job_ok_cong [OF assms(4)] by simp
qed

lemma transition_view:
  "fst (ControlLogic_Transition c s now) \<Longrightarrow>
     job_view (snd (ControlLogic_Transition c s now)) = job_view (c\<lparr>ctl_state := s\<rparr>)"
  by (auto simp: ControlLogic_Transition_def job_view_def Let_def split: if_splits)

lemma transition_failed: "\<not> fst (ControlLogic_Transition c s now) \<Longrightarrow> snd (ControlLogic_Transition c s now) = c"
  by (auto simp: ControlLogic_Transition_def Let_def split: if_splits)

lemma view_update:
  "job_view c' = job_view c \<Longrightarrow> job_view (c'\<lparr>resume_valid := b\<rparr>) = job_view (c\<lparr>resume_valid := b\<rparr>)"
  by (simp add: job_view_def)

lemma obstacle_cleared_ok:
  assumes "job_ok c"
  shows "job_ok (snd (safety_obstacle_cleared c now))"
proof (cases "safety_latched c \<or> ctl_state c \<noteq> LINETRACER_CONTROL_OBSTACLE_STOP \<or> \<not> resume_valid c")
  case True
  then show ?thesis using assms by (auto simp: safety_obstacle_cleared_def)
next
  case paused: False
  let ?c = "c\<lparr>stop_reason := LINETRACER_STOP_REASON_NONE, safety_error_code := error_code UART_ERROR_NONE\<rparr>"
  let ?tr = "ControlLogic_Transition ?c (resume_state ?c) now"
  have "resume_state c \<notin> paused_states" using assms paused by (simp add: job_ok_def)
  then have moved: "fst ?tr"
    using paused by (auto simp: ControlLogic_Transition_def pauses_iff paused_states_def Let_def)
  have view: "job_view (snd ?tr) = job_view (c\<lparr>ctl_state := resume_state c\<rparr>)"
    using transition_view [OF moved] by (simp add: job_view_def)
  have "job_view (snd (safety_obstacle_cleared c now))
      = job_view (c\<lparr>ctl_state := resume_state c, resume_valid := False\<rparr>)"
    using paused moved view
    by (auto simp: safety_obstacle_cleared_def Let_def split_def) (simp_all add: job_view_def)
  then show ?thesis using resumed_ok [OF assms] paused by blast
qed

lemma latched_event_ok:
  assumes "job_ok c"
  shows "job_ok (snd (safety_latched_event c event now))"
proof -
  define r where "r = ControlLogic_ResetMarkerApproach c"
  define reason where "reason = (if sev_reason event = LINETRACER_STOP_REASON_NONE then stop_reason r
                                  else sev_reason event)"
  define d where "d = (if reason = LINETRACER_STOP_REASON_EMERGENCY \<and> ControlLogic_CanResumeAfterEmergency r
       then (if ControlLogic_StateCanResume (ctl_state r)
             then r\<lparr>resume_state := ctl_state r, resume_valid := True\<rparr> else r)
            \<lparr>junction_condition_active := False, junction_candidate_active := False\<rparr>
       else ControlLogic_ResetJunctionManeuver (r\<lparr>resume_valid := False\<rparr>))"
  have ok: "job_ok r" using assms job_ok_cong [of r c] by (simp add: r_def)
  have "plan_typed (route_plan d) \<and> (resume_valid d \<longrightarrow> resume_state d \<notin> paused_states
          \<and> (driving (resume_state d) \<longrightarrow> job_at d (resume_state d)) \<and> at_rest d (resume_state d))"
    using ok
    by (auto simp: d_def job_ok_def resumes_iff driving_def job_at_def at_rest_def
        ControlLogic_HasActiveJob_def ControlLogic_ResetJunctionManeuver_def
        ControlLogic_ResetMarkerApproach_def)
  then have "job_ok (snd (ControlLogic_Transition (safety_latch d event) (ControlLogic_SafetyState reason) now))"
    by (intro lt_stop_ok)
       (simp_all add: safety_latch_def Let_def job_at_def at_rest_def ControlLogic_HasActiveJob_def)
  then show ?thesis
    by (simp add: safety_latched_event_def Let_def d_def reason_def r_def cong: if_cong)
qed

lemma reset_rejected_ok:
  assumes "job_ok c"
  shows "job_ok (snd (safety_reset_rejected c event now))"
proof -
  let ?d = "safety_latch c event"
  have "plan_typed (route_plan ?d) \<and> (resume_valid ?d \<longrightarrow> resume_state ?d \<notin> paused_states
          \<and> (driving (resume_state ?d) \<longrightarrow> job_at ?d (resume_state ?d)) \<and> at_rest ?d (resume_state ?d))"
    using assms
    by (simp add: job_ok_def safety_latch_def Let_def job_at_def at_rest_def ControlLogic_HasActiveJob_def)
  then show ?thesis
    by (simp add: safety_reset_rejected_def Let_def) (intro lt_stop_ok; simp)
qed

lemma init_ok_job [simp]: "job_ok (ControlLogic_Init c now)"
  by (simp add: job_ok_def ControlLogic_Init_def Let_def ControlLogic_ResetJunctionManeuver_def
      ControlLogic_ResetMarkerApproach_def ControlLogic_ResetCMarkerRearm_def typed_reset state_sets)

lemma restart_timers_view [simp]: "job_view (ControlLogic_RestartResumeTimers c now) = job_view c"
  by (simp add: ControlLogic_RestartResumeTimers_def job_view_def Let_def ControlLogic_ResetMarkerApproach_def)

lemma reset_approved_ok:
  assumes "job_ok c"
  shows "job_ok (snd (safety_reset_approved c now))"
proof -
  let ?c = "c\<lparr>ctl_state := resume_state c, resume_valid := False, safety_latched := False,
              stop_reason := LINETRACER_STOP_REASON_NONE, safety_error_code := error_code UART_ERROR_NONE\<rparr>"
  have "job_ok ?c" if "resume_valid c"
    using assms that by (auto simp: job_ok_def at_rest_def job_at_def ControlLogic_HasActiveJob_def)
  then show ?thesis
    using job_ok_cong [of "ControlLogic_RestartResumeTimers ?c now" ?c]
    by (simp add: safety_reset_approved_def)
qed

lemma safety_ok: "job_ok c \<Longrightarrow> job_ok (snd (ControlLogic_ApplySafetyEvent c event now))"
  by (cases "sev_type event")
     (simp_all add: ControlLogic_ApplySafetyEvent_def obstacle_active_ok obstacle_cleared_ok
        latched_event_ok reset_rejected_ok reset_approved_ok)

text \<open>Commands.\<close>

lemma set_position_ok:
  assumes "job_ok c"
  shows "job_ok (fst (ControlLogic_HandleSetPosition c command now result))"
proof (cases "cmd_position command = UART_LINETRACER_POSITION_NONE
              \<or> ctl_state c \<noteq> LINETRACER_CONTROL_INITIALIZING \<and> ctl_state c \<noteq> LINETRACER_CONTROL_WAITING_AT_DEST
              \<or> route_active c")
  case True
  then show ?thesis using assms by (auto simp: ControlLogic_HandleSetPosition_def)
next
  case False
  let ?d = "(ControlLogic_ResetCMarkerRearm (ControlLogic_ResetMarkerApproach
               (c\<lparr>current_position := cmd_position command\<rparr>)))\<lparr>departure_turn_required := False\<rparr>"
  have view: "job_view ?d = job_view (c\<lparr>current_position := cmd_position command\<rparr>)"
    by (simp add: job_view_def ControlLogic_ResetCMarkerRearm_def ControlLogic_ResetMarkerApproach_def)
  let ?tr = "ControlLogic_Transition ?d LINETRACER_CONTROL_WAITING_AT_DEST now"
  have moved: "fst ?tr"
    using False view by (auto simp: ControlLogic_Transition_def job_view_def Let_def)
  have "\<not> resume_valid c" using assms False by (auto simp: job_ok_def paused_states_def)
  then have "job_ok (snd ?tr)"
    using job_ok_cong [of "snd ?tr" "c\<lparr>current_position := cmd_position command,
        ctl_state := LINETRACER_CONTROL_WAITING_AT_DEST\<rparr>"] transition_view [OF moved] view assms False
    by (auto simp: job_view_def job_ok_def state_sets)
  then show ?thesis
    using False moved by (auto simp: ControlLogic_HandleSetPosition_def Let_def split_def split: bool.splits)
qed

text \<open>What a created plan looks like.\<close>

lemma created_plan:
  assumes "position \<noteq> UART_LINETRACER_POSITION_NONE" "r \<noteq> UART_LINETRACER_ROUTE_NONE"
  shows "fst (RoutePlanner_Create position r plan)
     \<and> plan_valid (snd (RoutePlanner_Create position r plan))
     \<and> target_index (snd (RoutePlanner_Create position r plan)) = RoutePlanner_RouteIndex r
     \<and> plan_phase (snd (RoutePlanner_Create position r plan)) = ROUTE_PHASE_TO_SOURCE_JUNCTION"
  using assms by (cases position; cases r) (simp_all add: RoutePlanner_Create_def Let_def RoutePlanner_Reset_def)

lemma assigned_fields:
  "resume_valid (assign_job c command) = False" "route_active (assign_job c command) = True"
  "active_job_id (assign_job c command) = cmd_job_id command"
  "active_route (assign_job c command) = cmd_route_id command"
  "safety_latched (assign_job c command) = safety_latched c"
  "ctl_state (assign_job c command) = ctl_state c"
  "current_position (assign_job c command) = current_position c"
  "route_plan (assign_job c command) = route_plan c"
  by (simp_all add: assign_job_def ControlLogic_ResetCMarkerRearm_def ControlLogic_ResetMarkerApproach_def)

lemma departs:
  "ctl_state d = LINETRACER_CONTROL_WAITING_AT_DEST
     \<Longrightarrow> s = LINETRACER_CONTROL_TURNING_FROM_DEST \<or> s = LINETRACER_CONTROL_MOVING_TO_SOURCE_JUNCTION
     \<Longrightarrow> fst (ControlLogic_Transition d s now)"
  by (auto simp: ControlLogic_Transition_def Let_def)

lemma assign_ok:
  assumes "job_ok c"
  shows "job_ok (fst (ControlLogic_HandleAssignRoute c command now result))"
proof (cases "cmd_job_id command = 0 \<or> cmd_route_id command = UART_LINETRACER_ROUTE_NONE
    \<or> ctl_state c \<noteq> LINETRACER_CONTROL_WAITING_AT_DEST \<or> route_active c
    \<or> current_position c = UART_LINETRACER_POSITION_NONE")
  case True
  then show ?thesis
    using assms by (auto simp: ControlLogic_HandleAssignRoute_def job_id_valid_u16)
next
  case False
  obtain plan where created:
      "RoutePlanner_Create (current_position c) (cmd_route_id command) (route_plan c) = (True, plan)"
    using created_plan [of "current_position c" "cmd_route_id command" "route_plan c"] False
    by (cases "RoutePlanner_Create (current_position c) (cmd_route_id command) (route_plan c)") simp
  let ?d = "(assign_job c command)\<lparr>route_plan := plan, pending_route_action :=
      (if departure_turn_required c then ROUTE_ACTION_TURN_AROUND else ROUTE_ACTION_GO_STRAIGHT)\<rparr>"
  let ?s = "if departure_turn_required c then LINETRACER_CONTROL_TURNING_FROM_DEST
            else LINETRACER_CONTROL_MOVING_TO_SOURCE_JUNCTION"
  have plan: "plan_typed plan" "plan_valid plan" "target_index plan = RoutePlanner_RouteIndex (cmd_route_id command)"
      "plan_phase plan = ROUTE_PHASE_TO_SOURCE_JUNCTION"
    using created_plan [of "current_position c" "cmd_route_id command" "route_plan c"] False created
      typed_create [of "current_position c" "cmd_route_id command" "route_plan c"] by simp_all
  have dep: "ControlLogic_DepartureState ?d = LINETRACER_CONTROL_MOVING_TO_SOURCE_JUNCTION"
    using plan False by (simp add: ControlLogic_DepartureState_def)
  have fields: "ctl_state ?d = LINETRACER_CONTROL_WAITING_AT_DEST" "\<not> safety_latched c"
    using False assms by (auto simp: assigned_fields job_ok_def stop_states_def)
  have moved: "fst (ControlLogic_Transition ?d ?s now)"
    by (rule departs [OF fields(1)]) simp
  have "plan_typed (route_plan (?d\<lparr>ctl_state := ?s\<rparr>))"
    by (simp add: plan)
  moreover have "\<not> resume_valid (?d\<lparr>ctl_state := ?s\<rparr>)" "\<not> safety_latched (?d\<lparr>ctl_state := ?s\<rparr>)"
    using fields by (simp_all add: assigned_fields)
  moreover have "job_at (?d\<lparr>ctl_state := ?s\<rparr>) ?s"
    using plan False
    by (simp add: job_at_def ControlLogic_HasActiveJob_def assigned_fields job_id_valid_u16)
  moreover have "at_rest (?d\<lparr>ctl_state := ?s\<rparr>) ?s" by (simp add: at_rest_def)
  ultimately have "job_ok (?d\<lparr>ctl_state := ?s\<rparr>)" unfolding job_ok_def by simp
  then have ok: "job_ok (snd (ControlLogic_Transition ?d ?s now))"
    using job_ok_cong [OF transition_view [OF moved]] by blast
  have "fst (ControlLogic_HandleAssignRoute c command now result)
      = (snd (ControlLogic_Transition ?d ?s now))\<lparr>departure_turn_required := False\<rparr>"
    using False dep moved
    by (cases "departure_turn_required c")
       (simp_all add: ControlLogic_HandleAssignRoute_def Let_def assigned_fields job_id_valid_u16
          split_def created split: bool.splits)
  then show ?thesis
    using ok job_ok_cong [of "(snd (ControlLogic_Transition ?d ?s now))\<lparr>departure_turn_required := False\<rparr>"
        "snd (ControlLogic_Transition ?d ?s now)"]
    by (simp add: job_view_def)
qed


lemma can_stop:
  "ControlLogic_StateCanResume s \<or> s = LINETRACER_CONTROL_UNLOADING
     \<Longrightarrow> driving s \<and> s \<notin> paused_states \<and> s \<notin> stop_states"
  by (cases s) (simp_all add: ControlLogic_StateCanResume_def state_sets)

lemma lt_stopped_ok:
  assumes "plan_typed (route_plan d)" and "\<not> safety_latched d"
    and "resume_valid d \<Longrightarrow> resume_state d \<notin> paused_states
          \<and> (driving (resume_state d) \<longrightarrow> job_at d (resume_state d)) \<and> at_rest d (resume_state d)"
  shows "job_ok (d\<lparr>ctl_state := LINETRACER_CONTROL_STOPPED\<rparr>)"
  using assms
  by (simp add: job_ok_def paused_states_def driving_def at_rest_def job_at_def
      ControlLogic_HasActiveJob_def)

lemma stop_command_ok:
  assumes "job_ok c"
  shows "job_ok (fst (ControlLogic_HandleStop c command now result))"
proof (cases "\<not> uart_linetracer_job_id_is_valid (to_u32 (cmd_job_id command))
         \<or> \<not> ControlLogic_HasActiveJob c \<or> cmd_job_id command \<noteq> active_job_id c
         \<or> ctl_state c = LINETRACER_CONTROL_STOPPED \<and> stop_reason c = LINETRACER_STOP_REASON_COMMAND
         \<or> \<not> ControlLogic_StateCanResume (ctl_state c) \<and> ctl_state c \<noteq> LINETRACER_CONTROL_UNLOADING")
  case True
  then show ?thesis using assms by (auto simp: ControlLogic_HandleStop_def)
next
  case False
  define r where "r = (if ctl_state c = LINETRACER_CONTROL_UNLOADING
      then c\<lparr>resume_state := LINETRACER_CONTROL_INITIALIZING, resume_valid := False\<rparr>
      else c\<lparr>resume_state := ctl_state c, resume_valid := True\<rparr>)"
  define d where "d = ControlLogic_ResetJunctionManeuver (r\<lparr>stop_reason := LINETRACER_STOP_REASON_COMMAND\<rparr>)"
  have r: "ctl_state r = ctl_state c" "route_plan r = route_plan c" "safety_latched r = safety_latched c"
      "job_at r s = job_at c s" "at_rest r s = at_rest c s" "resume_valid r \<Longrightarrow> resume_state r = ctl_state c" for s
    by (simp_all add: r_def job_at_def at_rest_def ControlLogic_HasActiveJob_def split: if_splits)
  have view: "job_view d = job_view r"
    using view_helpers(4) [of "r\<lparr>stop_reason := LINETRACER_STOP_REASON_COMMAND\<rparr>"]
    by (simp add: d_def job_view_def)
  then have "ctl_state d = ctl_state c" using r by (simp add: job_view_def)
  then have moved: "fst (ControlLogic_Transition d LINETRACER_CONTROL_STOPPED now)"
    using False by (auto simp: ControlLogic_Transition_def)
  have stops: "driving (ctl_state c) \<and> ctl_state c \<notin> paused_states \<and> ctl_state c \<notin> stop_states"
    using False by (intro can_stop) blast
  have ok: "job_at c (ctl_state c)" "at_rest c (ctl_state c)" "plan_typed (route_plan c)" "\<not> safety_latched c"
    using assms stops unfolding job_ok_def by blast+
  have "job_ok (r\<lparr>ctl_state := LINETRACER_CONTROL_STOPPED\<rparr>)"
    using ok stops r by (intro lt_stopped_ok) simp_all
  moreover have "job_view (snd (ControlLogic_Transition d LINETRACER_CONTROL_STOPPED now))
      = job_view (r\<lparr>ctl_state := LINETRACER_CONTROL_STOPPED\<rparr>)"
    using transition_view [OF moved] view by (simp add: job_view_def)
  ultimately have "job_ok (snd (ControlLogic_Transition d LINETRACER_CONTROL_STOPPED now))"
    using job_ok_cong by blast
  moreover have "fst (ControlLogic_HandleStop c command now result)
      = snd (ControlLogic_Transition d LINETRACER_CONTROL_STOPPED now)"
    using False moved by (auto simp: ControlLogic_HandleStop_def Let_def split_def d_def r_def)
  ultimately show ?thesis by simp
qed

lemma resume_command_ok:
  assumes "job_ok c"
  shows "job_ok (fst (ControlLogic_HandleResume c now result))"
proof (cases "ctl_state c \<noteq> LINETRACER_CONTROL_STOPPED \<or> stop_reason c \<noteq> LINETRACER_STOP_REASON_COMMAND
         \<or> \<not> resume_valid c \<or> \<not> ControlLogic_HasActiveJob c
         \<or> \<not> ControlLogic_StateCanResume (resume_state c)")
  case True
  then show ?thesis using assms by (auto simp: ControlLogic_HandleResume_def)
next
  case False
  let ?tr = "ControlLogic_Transition c (resume_state c) now"
  have moved: "fst ?tr" using False by (auto simp: ControlLogic_Transition_def Let_def)
  have latch: "\<not> safety_latched c" using False assms by (auto simp: job_ok_def stop_states_def)
  have "job_ok ((snd ?tr)\<lparr>resume_valid := False, stop_reason := LINETRACER_STOP_REASON_NONE\<rparr>)"
    by (rule resumed_ok [OF assms _ latch])
       (use False transition_view [OF moved] in \<open>simp_all add: job_view_def\<close>)
  then show ?thesis
    using False moved by (simp add: ControlLogic_HandleResume_def split_def)
qed

lemma command_ok:
  assumes "job_ok c"
  shows "job_ok (fst (ControlLogic_HandleCommand c command now))"
proof -
  let ?c = "c\<lparr>last_command_at_ms := now\<rparr>"
  have ok: "job_ok ?c" using job_ok_cong [of ?c c] assms by (simp add: job_view_def)
  have "job_ok (fst (ControlLogic_HandleReset ?c now result))" for result
    using ok by (simp add: ControlLogic_HandleReset_def)
  then have "job_ok (fst (dispatch_command ?c command now result))" for result
    using ok set_position_ok [OF ok] assign_ok [OF ok] stop_command_ok [OF ok] resume_command_ok [OF ok]
    by (simp add: dispatch_command_def split: app_control_command_type_t.splits)
  then show ?thesis
    using ok by (simp add: ControlLogic_HandleCommand_def Let_def split_def)
qed


text \<open>Markers. A plan that takes a marker stays valid and keeps its target.\<close>

lemma marker_keeps:
  assumes "fst (RoutePlanner_OnMarker plan) \<noteq> ROUTE_ACTION_ERROR"
  shows "plan_valid (snd (RoutePlanner_OnMarker plan))
     \<and> target_index (snd (RoutePlanner_OnMarker plan)) = target_index plan"
  using assms by (cases "plan_phase plan") (auto simp: route_planner_defs Let_def split: if_splits)

lemma driving_ok:
  assumes "plan_typed (route_plan c)" "ControlLogic_HasActiveJob c" "plan_valid (route_plan c)"
    and "target_index (route_plan c) = RoutePlanner_RouteIndex (active_route c)"
    and "plan_phase (route_plan c) \<in> phases_of (ctl_state c)"
    and "\<not> resume_valid c" "\<not> safety_latched c"
  shows "job_ok c"
  using assms by (cases "ctl_state c") (simp_all add: job_ok_def job_at_def at_rest_def)

text \<open>The drive's state goes to one that the new phase belongs to.\<close>

definition enters :: "control_context_t \<Rightarrow> route_phase_t \<Rightarrow> control_context_t \<Rightarrow> bool" where
  "enters d phase e \<longleftrightarrow> (\<exists>s. job_view e = job_view (d\<lparr>ctl_state := s\<rparr>) \<and> phase \<in> phases_of s)"

lemma enters_transition:
  "fst (ControlLogic_Transition d s now) \<Longrightarrow> phase \<in> phases_of s \<Longrightarrow>
     enters d phase (snd (ControlLogic_Transition d s now))"
  using transition_view enters_def by blast

lemma enters_stay: "phase \<in> phases_of (ctl_state d) \<Longrightarrow> enters d phase d"
  by (rule enters_def [THEN iffD2], rule exI [of _ "ctl_state d"]) simp

lemma enters_pickup:
  assumes "ctl_state d = LINETRACER_CONTROL_MOVING_TO_PICKUP"
  shows "marker_transition d ROUTE_ACTION_STOP_AT_PICKUP now
     = (True, d\<lparr>ctl_state := LINETRACER_CONTROL_WAITING_LOAD, state_entered_at_ms := now, load_wait_armed := False\<rparr>)"
  using assms
  by (simp add: marker_transition_def ControlLogic_Transition_def ControlLogic_StateExpectsMarker_def Let_def)

lemma marker_enters:
  assumes typed: "plan_typed plan" and a: "fst (RoutePlanner_OnMarker plan) \<noteq> ROUTE_ACTION_ERROR"
    and phase: "plan_phase plan \<in> phases_of (ctl_state d)"
    and d: "route_plan d = snd (RoutePlanner_OnMarker plan)"
    and ok: "fst (marker_transition d (fst (RoutePlanner_OnMarker plan)) now)"
  shows "enters d (plan_phase (route_plan d)) (snd (marker_transition d (fst (RoutePlanner_OnMarker plan)) now))"
proof (cases "ctl_state d")
  case LINETRACER_CONTROL_MOVING_TO_PICKUP
  then have "fst (RoutePlanner_OnMarker plan) = ROUTE_ACTION_STOP_AT_PICKUP
      \<and> plan_phase (route_plan d) = ROUTE_PHASE_WAITING_LOAD"
    using phase a d by (auto simp: route_planner_defs split: if_splits)
  then show ?thesis
    using enters_pickup [OF LINETRACER_CONTROL_MOVING_TO_PICKUP] by (auto simp: enters_def job_view_def)
qed (use phase a d ok in \<open>auto simp: marker_transition_def route_planner_defs Let_def
       intro!: enters_transition enters_stay split: if_splits\<close>)


lemma entered_ok:
  assumes "enters d (plan_phase (route_plan d)) e" and "plan_typed (route_plan d)"
    and "ControlLogic_HasActiveJob d" "plan_valid (route_plan d)"
    and "target_index (route_plan d) = RoutePlanner_RouteIndex (active_route d)"
    and "\<not> resume_valid d" "\<not> safety_latched d"
  shows "job_ok e"
proof -
  obtain s where "job_view e = job_view (d\<lparr>ctl_state := s\<rparr>)" "plan_phase (route_plan d) \<in> phases_of s"
    using assms(1) by (auto simp: enters_def)
  then show ?thesis
    using assms(2-7) by (intro driving_ok) (simp_all add: job_view_def ControlLogic_HasActiveJob_def)
qed

lemma phase_drives: "p \<in> phases_of s \<Longrightarrow> driving s \<and> s \<notin> paused_states \<and> s \<notin> stop_states"
  by (cases s) (simp_all add: state_sets)

text \<open>A driving vehicle is not paused and not latched.\<close>

lemma driving_facts:
  assumes "job_ok c" "driving (ctl_state c)"
  shows "ControlLogic_HasActiveJob c" "plan_valid (route_plan c)" "plan_typed (route_plan c)"
    "target_index (route_plan c) = RoutePlanner_RouteIndex (active_route c)"
    "plan_phase (route_plan c) \<in> phases_of (ctl_state c)" "\<not> resume_valid c" "\<not> safety_latched c"
proof -
  have at: "job_at c (ctl_state c)" using assms by (simp add: job_ok_def)
  then show "ControlLogic_HasActiveJob c" "plan_valid (route_plan c)"
      "target_index (route_plan c) = RoutePlanner_RouteIndex (active_route c)"
      "plan_phase (route_plan c) \<in> phases_of (ctl_state c)"
    by (simp_all add: job_at_def)
  then have "ctl_state c \<notin> paused_states" "ctl_state c \<notin> stop_states"
    using phase_drives by blast+
  then show "plan_typed (route_plan c)" "\<not> resume_valid c" "\<not> safety_latched c"
    using assms unfolding job_ok_def by blast+
qed

lemma marker_transition_moves:
  "fst (marker_transition d a now) \<Longrightarrow> driving (ctl_state d)"
  by (cases "ctl_state d") (simp_all add: marker_transition_def state_sets)

lemma transition_plan [simp]: "route_plan (snd (ControlLogic_Transition c s now)) = route_plan c"
  by (simp add: ControlLogic_Transition_def Let_def)

lemma marker_transition_plan [simp]: "route_plan (snd (marker_transition d a now)) = route_plan d"
  by (simp add: marker_transition_def split_def split: linetracer_control_state_t.splits bool.splits)

lemma remember_view [simp]: "job_view (remember_marker c code t) = job_view c"
  by (simp add: remember_marker_def job_view_def)

lemma lt_marker_ok:
  assumes "job_ok c"
  shows "job_ok (snd (ControlLogic_HandleMarker c code detected_at now))"
proof -
  define t where "t = (if detected_at \<noteq> 0 then detected_at else now)"
  define a where "a = fst (RoutePlanner_OnMarker (route_plan c))"
  define p where "p = snd (RoutePlanner_OnMarker (route_plan c))"
  define d where "d = remember_marker (c\<lparr>route_plan := p, pending_route_action := a\<rparr>) code t"
  define m where "m = marker_transition d a now"
  have typed: "plan_typed (route_plan c)" using assms by (simp add: job_ok_def)
  then have typed': "plan_typed p" unfolding p_def by (rule typed_marker)
  have d: "job_view d = job_view (c\<lparr>route_plan := p\<rparr>)"
    unfolding d_def remember_view by (simp add: job_view_def)
  then have d': "ctl_state d = ctl_state c" "route_plan d = p" "active_route d = active_route c"
      "ControlLogic_HasActiveJob d = ControlLogic_HasActiveJob c"
      "resume_valid d = resume_valid c" "safety_latched d = safety_latched c"
    by (simp_all add: job_view_def ControlLogic_HasActiveJob_def)
  have taken: "job_ok (snd m)" if a': "a \<noteq> ROUTE_ACTION_ERROR" and ok: "fst m"
  proof -
    have "driving (ctl_state c)" using ok d' marker_transition_moves unfolding m_def by metis
    note facts = driving_facts [OF assms this]
    have "enters d (plan_phase (route_plan d)) (snd m)"
      using marker_enters [OF typed, of d now] a' facts(5) d' ok unfolding m_def a_def p_def by simp
    then show ?thesis
      using typed' marker_keeps [of "route_plan c"] a' facts d'
      by (intro entered_ok [of d]) (simp_all add: a_def p_def)
  qed
  have wait: "job_view (if ControlLogic_StateExpectsMarker (ctl_state e) then e\<lparr>marker_wait_started_at_ms := now\<rparr> else e)
      = job_view e" for e by (simp add: job_view_def)
  have refused: "plan_typed (route_plan (snd m))" using typed' d' by (simp add: m_def)
  let ?failed = "\<lambda>e. snd (ControlLogic_RouteError e LINETRACER_STOP_REASON_MARKER_SEQUENCE ROUTE_ACTION_ERROR now)"
  have "snd (ControlLogic_HandleMarker c code detected_at now) \<in>
      {c, remember_marker c code t, ?failed c, ?failed (c\<lparr>route_plan := p, pending_route_action := a\<rparr>)}
      \<union> (if a = ROUTE_ACTION_ERROR then {} else if fst m
          then {if ControlLogic_StateExpectsMarker (ctl_state (snd m))
                then (snd m)\<lparr>marker_wait_started_at_ms := now\<rparr> else snd m}
          else {?failed (snd m)})"
    unfolding ControlLogic_HandleMarker_def Let_def split_def
      t_def [symmetric] a_def [symmetric] p_def [symmetric] d_def [symmetric] m_def [symmetric]
    by (cases "fst m") simp_all
  moreover have "job_ok (?failed c)" "job_ok (?failed (c\<lparr>route_plan := p, pending_route_action := a\<rparr>))"
      "job_ok (?failed (snd m))" "job_ok (remember_marker c code t)"
    using assms typed typed' refused job_ok_cong [OF remember_view] by (simp_all add: route_error_ok)
  ultimately show ?thesis
    using assms taken job_ok_cong [OF wait, of "snd m"] by (auto split: if_splits)
qed


text \<open>The end of a turn.\<close>

lemma into_ok:
  assumes "job_ok c" "driving (ctl_state c)" "plan_phase (route_plan c) \<in> phases_of s"
    and "fst (complete_turn_into c s now)"
  shows "job_ok (snd (complete_turn_into c s now))"
proof -
  have moved: "fst (ControlLogic_Transition c s now)"
    using assms(4) by (auto simp: complete_turn_into_def split_def split: bool.splits)
  have "job_ok (snd (ControlLogic_Transition c s now))"
    using enters_transition [OF moved assms(3)] driving_facts [OF assms(1,2)]
    by (intro entered_ok [of c]) simp_all
  then show ?thesis
    using moved job_ok_cong [of "(snd (ControlLogic_Transition c s now))\<lparr>pending_route_action := ROUTE_ACTION_GO_STRAIGHT\<rparr>"
        "snd (ControlLogic_Transition c s now)"]
    by (simp add: complete_turn_into_def split_def job_view_def)
qed

lemma on_line_ok: "job_ok c \<Longrightarrow> job_ok (snd (complete_turn_on_line c now))"
  using job_ok_cong [of "snd (complete_turn_on_line c now)" c]
  by (simp add: complete_turn_on_line_def job_view_def)

lemma refused_into: "\<not> fst (complete_turn_into c s now) \<Longrightarrow> snd (complete_turn_into c s now) = c"
  by (cases "fst (ControlLogic_Transition c s now)")
     (simp_all add: complete_turn_into_def split_def transition_failed)

lemma refused_turn: "\<not> fst (ControlLogic_CompleteTurn c now) \<Longrightarrow> snd (ControlLogic_CompleteTurn c now) = c"
  by (cases "ctl_state c")
     (auto simp: ControlLogic_CompleteTurn_def refused_into complete_turn_on_line_def split: if_splits)

lemma turn_drives: "fst (ControlLogic_CompleteTurn c now) \<Longrightarrow> driving (ctl_state c)"
  by (cases "ctl_state c") (auto simp: ControlLogic_CompleteTurn_def state_sets split: if_splits)

lemma complete_turn_ok:
  assumes "job_ok c" "fst (ControlLogic_CompleteTurn c now)"
  shows "job_ok (snd (ControlLogic_CompleteTurn c now))"
proof -
  have "driving (ctl_state c)" using assms(2) by (rule turn_drives)
  note phase = driving_facts(1,5) [OF assms(1) this] and into = into_ok [OF assms(1) this]
  show ?thesis
    using assms phase into on_line_ok [OF assms(1)]
    by (cases "ctl_state c") (simp_all add: ControlLogic_CompleteTurn_def ControlLogic_DepartureState_def)
qed

lemma finish_turn_ok:
  assumes "job_ok c"
  shows "job_ok (snd (finish_turn c now))"
proof -
  define e where "e = snd (ControlLogic_CompleteTurn c now)"
  have ok: "job_ok e"
    using assms complete_turn_ok refused_turn by (cases "fst (ControlLogic_CompleteTurn c now)") (simp_all add: e_def)
  then have "plan_typed (route_plan e)" by (simp add: job_ok_def)
  then show ?thesis
    using ok job_ok_cong [of "ControlLogic_StartJunctionGuard (ControlLogic_ResetJunctionManeuver e) now" e]
    by (simp add: finish_turn_def ControlLogic_CompleteDetectedTurn_def Let_def split_def route_error_ok
        flip: e_def split: bool.splits)
qed

text \<open>Samples of the line sensors.\<close>

lemma junction_ok:
  assumes "job_ok c"
  shows "job_ok (snd (line_junction c now))"
proof -
  define d where "d = (if \<not> junction_candidate_active c
     then c\<lparr>junction_candidate_active := True, junction_candidate_since_ms := now\<rparr> else c)"
  define e where "e = snd (ControlLogic_HandleMarker d APP_MARKER_JUNCTION (junction_candidate_since_ms d) now)"
  define a where "a = fst (ControlLogic_HandleMarker d APP_MARKER_JUNCTION (junction_candidate_since_ms d) now)"
  define f where "f = e\<lparr>junction_candidate_active := False\<rparr>"
  define g where "g = snd (ControlLogic_StartJunctionManeuver f a True now)"
  have "job_ok d" using assms job_ok_cong [of d c] by (simp add: d_def job_view_def)
  then have "job_ok e" unfolding e_def by (rule lt_marker_ok)
  then have f: "job_ok f" using job_ok_cong [of f e] by (simp add: f_def job_view_def)
  then have g: "job_ok g" using job_ok_cong [of g f] by (simp add: g_def)
  then have "plan_typed (route_plan g)" by (simp add: job_ok_def)
  then have r: "job_ok (snd (ControlLogic_RouteError g reason action now))" for reason action
    by (rule route_error_ok)
  have "snd (line_junction c now)
      \<in> {f, g, snd (ControlLogic_RouteError g LINETRACER_STOP_REASON_MARKER_SEQUENCE ROUTE_ACTION_ERROR now)}"
    unfolding line_junction_def Let_def split_def d_def [symmetric] e_def [symmetric] a_def [symmetric]
      f_def [symmetric] g_def [symmetric]
    by (simp split: bool.splits)
  then show ?thesis using f g r by auto
qed

lemma idle_ok:
  assumes "job_ok c"
  shows "job_ok (snd (line_idle c l r now))"
proof -
  define d where "d = snd (ControlLogic_UpdateCMarkerRearm c (\<not> l \<and> \<not> r) now)"
  define e where "e = snd (ControlLogic_JunctionGuardActive d now)"
  define f where "f = ControlLogic_UpdateMarkerApproach e l r (fst (ControlLogic_JunctionGuardActive d now)) now"
  have "job_view d = job_view c" "job_view f = job_view c" by (simp_all add: d_def e_def f_def)
  then have ok: "job_ok d" "job_ok f" using assms job_ok_cong by blast+
  have drop: "job_ok (x\<lparr>junction_candidate_active := False\<rparr>) = job_ok x" for x
    by (rule job_ok_cong) (simp add: job_view_def)
  have "snd (line_idle c l r now) \<in> {d\<lparr>junction_candidate_active := False\<rparr>,
      f\<lparr>junction_candidate_active := False\<rparr>, snd (line_junction f now)}"
    unfolding line_idle_def Let_def split_def d_def [symmetric] e_def [symmetric] f_def [symmetric]
    by (simp split: bool.splits)
  then show ?thesis using ok drop junction_ok [OF ok(2)] by auto
qed

lemma maneuver_views:
  "job_view (snd (line_approach_center c both now)) = job_view c"
  "job_view (snd (line_cross_straight c both now)) = job_view c"
  "job_view (snd (line_clear_source c white now)) = job_view c"
  "job_view (snd (line_reacquire c l m r now)) = job_view c"
proof -
  have turning: "job_view (c\<lparr>junction_turn_started_at_ms := now\<rparr>) = job_view c" for c
    by (simp add: job_view_def)
  have guard: "job_view (x\<lparr>junction_guard_active := False, junction_guard_until_ms := 0\<rparr>) = job_view x" for x
    by (simp add: job_view_def)
  have crossed: "job_view (finish_crossing x now) = job_view x" for x
    by (simp add: finish_crossing_def Let_def guard)
  show "job_view (snd (line_approach_center c both now)) = job_view c"
    by (simp add: line_approach_center_def turning)
  show "job_view (snd (line_cross_straight c both now)) = job_view c"
    by (simp add: line_cross_straight_def Let_def split_def crossed split: bool.splits)
  show "job_view (snd (line_clear_source c white now)) = job_view c"
    by (simp add: line_clear_source_def split_def split: bool.splits)
  show "job_view (snd (line_reacquire c l m r now)) = job_view c"
    by (simp add: line_reacquire_def Let_def split_def split: bool.splits)
qed


lemma search_ok:
  assumes "job_ok c"
  shows "job_ok (snd (line_search_target c l m r now))"
proof -
  define d where "d = (if \<not> junction_target_edge_seen c
      then c\<lparr>junction_target_edge_seen := True, junction_condition_active := False\<rparr> else c)"
  define e where "e = snd (ControlLogic_ConditionStable d (ControlLogic_TargetAligned d l m r) now
                             CONTROL_TURN_TARGET_CENTERED_MS)"
  have "job_view d = job_view c" "job_view (c\<lparr>junction_target_edge_seen := True\<rparr>) = job_view c"
    by (simp_all add: d_def job_view_def)
  moreover have "job_view e = job_view d" by (simp add: e_def)
  ultimately have ok: "job_ok e" "job_ok (c\<lparr>junction_target_edge_seen := True\<rparr>)"
    using assms job_ok_cong by metis+
  have "snd (line_search_target c l m r now)
      \<in> {c, e, snd (finish_turn e now), snd (finish_turn (c\<lparr>junction_target_edge_seen := True\<rparr>) now)}"
    unfolding line_search_target_def Let_def split_def d_def [symmetric] e_def [symmetric]
    by (simp split: bool.splits)
  then show ?thesis using assms ok finish_turn_ok by auto
qed

lemma line_ok:
  assumes "job_ok c"
  shows "job_ok (snd (ControlLogic_ProcessLineSampleWithCenter c l m r now))"
proof -
  let ?c = "ControlLogic_ResetMarkerApproach c"
  have ok: "job_ok ?c" using assms job_ok_cong [of ?c c] by simp
  have "job_ok (snd (line_maneuver ?c l m r now))"
    using ok search_ok [OF ok] maneuver_views [of ?c, THEN job_ok_cong]
    by (simp add: line_maneuver_def split: control_junction_phase_t.splits)
  then show ?thesis
    using assms ok idle_ok [OF assms] by (simp add: ControlLogic_ProcessLineSampleWithCenter_def)
qed

text \<open>The load and the end of the job.\<close>

lemma load_on_plan:
  "snd (RoutePlanner_OnLoadOn plan) = plan
   \<or> fst (RoutePlanner_OnLoadOn plan) = ROUTE_ACTION_TURN_AROUND
     \<and> plan_valid (snd (RoutePlanner_OnLoadOn plan))
     \<and> target_index (snd (RoutePlanner_OnLoadOn plan)) = target_index plan
     \<and> plan_phase (snd (RoutePlanner_OnLoadOn plan)) \<in> phases_of LINETRACER_CONTROL_TURNING_AT_PICKUP"
  by (simp add: RoutePlanner_OnLoadOn_def Let_def)

lemma load_on_ok:
  assumes "job_ok c"
  shows "job_ok (snd (ControlLogic_HandleLoadOn c now))"
proof (cases "\<not> ControlLogic_HasActiveJob c \<or> snd (RoutePlanner_OnLoadOn (route_plan c)) = route_plan c")
  case True
  have "fst (RoutePlanner_OnLoadOn (route_plan c)) \<noteq> ROUTE_ACTION_TURN_AROUND" if "ControlLogic_HasActiveJob c"
    using True that by (auto simp: RoutePlanner_OnLoadOn_def Let_def dest: arg_cong [of _ _ plan_loaded] split: if_splits)
  moreover have "fst (RoutePlanner_OnLoadOn (route_plan c)) \<noteq> ROUTE_ACTION_GO_STRAIGHT"
    by (simp add: RoutePlanner_OnLoadOn_def)
  ultimately show ?thesis using assms True by (auto simp: ControlLogic_HandleLoadOn_def split_def Let_def)
next
  case False
  define d where "d = c\<lparr>route_plan := snd (RoutePlanner_OnLoadOn (route_plan c))\<rparr>"
  define tr where "tr = ControlLogic_Transition d LINETRACER_CONTROL_TURNING_AT_PICKUP now"
  have plan: "fst (RoutePlanner_OnLoadOn (route_plan c)) = ROUTE_ACTION_TURN_AROUND" "plan_valid (route_plan d)"
      "target_index (route_plan d) = target_index (route_plan c)"
      "plan_phase (route_plan d) \<in> phases_of LINETRACER_CONTROL_TURNING_AT_PICKUP"
    using load_on_plan [of "route_plan c"] False unfolding d_def by simp_all
  have typed: "plan_typed (route_plan d)" "plan_typed (route_plan (snd tr))"
    using assms by (simp_all add: d_def tr_def job_ok_def typed_load_on)
  have moved: "job_ok (snd tr)" if "ctl_state c = LINETRACER_CONTROL_WAITING_LOAD" "fst tr"
  proof -
    have "driving (ctl_state c)" using that by (simp add: state_sets)
    note facts = driving_facts [OF assms this]
    show ?thesis
      using enters_transition [OF that(2) [unfolded tr_def] plan(4)] typed plan facts
      by (intro entered_ok [of d]) (simp_all add: tr_def d_def ControlLogic_HasActiveJob_def)
  qed
  have view: "job_ok ((snd tr)\<lparr>pending_route_action := a, load_wait_armed := False\<rparr>) = job_ok (snd tr)" for a
    by (rule job_ok_cong) (simp add: job_view_def)
  have state: "ctl_state d = ctl_state c" by (simp add: d_def)
  show ?thesis
    using False plan(1) moved typed view state
    by (simp add: ControlLogic_HandleLoadOn_def load_on_into_def Let_def split_def route_error_ok
        flip: d_def tr_def split: bool.splits)
qed


lemma load_off_ok:
  assumes "job_ok c" "ctl_state c = LINETRACER_CONTROL_MOVING_TO_DEST"
  shows "job_ok (snd (snd (ControlLogic_HandleLoadOff c now)))"
proof -
  have "driving (ctl_state c)" using assms by (simp add: state_sets)
  note facts = driving_facts [OF assms(1) this]
  have "plan_loaded (route_plan c)"
    using facts assms(2) by (auto simp: plan_typed_def loaded_phases_def)
  then have "fst (RoutePlanner_OnLoadOff (route_plan c)) = ROUTE_ACTION_LOAD_LOST"
    using facts assms(2) by (auto simp: RoutePlanner_OnLoadOff_def)
  moreover have "plan_typed (snd (RoutePlanner_OnLoadOff (route_plan c)))"
    using facts(3) by (rule typed_load_off)
  ultimately show ?thesis
    using facts(1) assms(2) by (simp add: ControlLogic_HandleLoadOff_def Let_def split_def route_error_ok)
qed

lemma complete_job_ok:
  assumes "job_ok c"
  shows "job_ok (snd (ControlLogic_CompleteJob c now))"
proof (cases "ctl_state c \<noteq> LINETRACER_CONTROL_UNLOADING \<or> \<not> ControlLogic_HasActiveJob c")
  case True
  then show ?thesis using assms by (auto simp: ControlLogic_CompleteJob_def)
next
  case False
  then have known: "ControlLogic_RouteDestination (active_route c) \<noteq> UART_LINETRACER_POSITION_NONE"
    using has_job by (cases "active_route c") (auto simp: ControlLogic_RouteDestination_def ControlLogic_HasActiveJob_def
        uart_linetracer_route_is_valid_def)
  have latch: "\<not> safety_latched c" using False assms by (auto simp: job_ok_def stop_states_def)
  have tr: "ControlLogic_Transition c LINETRACER_CONTROL_WAITING_AT_DEST now
      = (True, c\<lparr>ctl_state := LINETRACER_CONTROL_WAITING_AT_DEST, state_entered_at_ms := now\<rparr>)"
    using False by (simp add: ControlLogic_Transition_def ControlLogic_StateExpectsMarker_def Let_def)
  show ?thesis
    using False known latch
    by (simp add: ControlLogic_CompleteJob_def Let_def tr ControlLogic_ResetCMarkerRearm_def)
       (simp add: job_ok_def at_rest_def driving_def typed_reset)
qed

lemma unload_ok: "job_ok c \<Longrightarrow> job_ok (snd (ControlLogic_HandleUnloadResult c result now))"
  by (simp add: ControlLogic_HandleUnloadResult_def complete_job_ok)

lemma ctx_step_ok: "ctx_step c c' \<Longrightarrow> job_ok c \<Longrightarrow> job_ok c'"
proof (induction rule: ctx_step.induct)
  case (step_arm c)
  have "job_ok (c\<lparr>load_wait_armed := True\<rparr>) = job_ok c" by (rule job_ok_cong) (simp add: job_view_def)
  then show ?case using step_arm by blast
next
  case (step_pending c now)
  then show ?case using job_ok_cong [OF pending_view] by blast
next
  case (step_timed c now)
  then show ?case using job_ok_cong [OF timed_view] by blast
qed (simp_all add: safety_ok unload_ok command_ok load_on_ok load_off_ok line_ok lt_marker_ok)

end
