(* ===== verification/Linetracer_Progress.thy ===== *)
theory Linetracer_Progress
  imports Linetracer_Job
begin

text \<open>
  The control task's cycles as steps of the control logic: whatever a cycle does to the control
  context is a sequence of \<open>ctx_step\<close>s, so the invariant of the job holds in every state that the
  running firmware reaches.
\<close>

section \<open>A cycle is a sequence of steps\<close>

abbreviation ctx_steps :: "control_context_t \<Rightarrow> control_context_t \<Rightarrow> bool" where
  "ctx_steps \<equiv> ctx_step\<^sup>*\<^sup>*"

lemma ctx_steps_ok: "ctx_steps c c' \<Longrightarrow> job_ok c \<Longrightarrow> job_ok c'"
  by (induction rule: rtranclp_induct) (auto intro: ctx_step_ok)

lemmas one_step = ctx_step.intros [THEN r_into_rtranclp [of ctx_step]]

lemma safety_event_steps: "ctx_steps (ctk t) (ctk (safety_event event t))"
proof -
  have "ctk (safety_event event t) = ctk t
      \<or> (\<exists>e now. ctk (safety_event event t) = snd (ControlLogic_ApplySafetyEvent (ctk t) e now))"
    by (auto simp: safety_event_def Let_def split_def hold_reset_cases split: option.splits)
  then show ?thesis by (auto intro: one_step)
qed

lemma process_safety_steps: "ctx_steps (ctk t) (ctk (process_safety_events n t))"
proof (induction n t rule: process_safety_events.induct)
  case (2 n t)
  obtain status msg mq where get: "osMessageQueueGet (controlSafetyQueue (ctk_queues t)) 0 = (status, msg, mq)"
    by (cases "osMessageQueueGet (controlSafetyQueue (ctk_queues t)) 0")
  let ?t = "t\<lparr>ctk_queues := (ctk_queues t)\<lparr>controlSafetyQueue := mq\<rparr>\<rparr>"
  show ?case
  proof (cases "\<exists>x. status = osOK \<and> msg = Some x")
    case True
    then obtain x where x: "status = osOK" "msg = Some x" by blast
    have "ctx_steps (ctk t) (ctk (safety_event x ?t))" using safety_event_steps [of ?t x] by simp
    moreover have "ctx_steps (ctk (safety_event x ?t)) (ctk (process_safety_events n (safety_event x ?t)))"
      by (rule 2 [OF get [symmetric] x(1) refl x(2)])
    ultimately show ?thesis using get x by (simp del: control_command_frame)
  next
    case False
    then show ?thesis using get by (auto split: osStatus_t.splits option.splits)
  qed
qed simp

lemma reject_steps: "ctx_steps (ctk t) (ctk (ControlTask_RejectPendingUnloadReset err now t))"
  by (auto simp: ControlTask_RejectPendingUnloadReset_def Let_def intro: one_step)

lemma timeout_steps: "ctx_steps (ctk t) (ctk (ControlTask_CheckPendingUnloadResetTimeout now t))"
  using reject_steps [of "ControlTask_PublishHealthEvent APP_HEALTH_EVENT_INTERNAL_ERROR
     CONTROL_HEALTH_UNLOAD_RESET_TIMEOUT now t"]
  by (simp add: ControlTask_CheckPendingUnloadResetTimeout_def)

lemma unload_result_steps: "ctx_steps (ctk t) (ctk (unload_result result t))"
proof -
  have reject: "ctx_steps (ctk t) (ctk (ControlTask_RejectPendingUnloadReset err now (snd (tick t))))" for err now
    using reject_steps [of "snd (tick t)"] by simp
  show ?thesis
    by (auto simp: unload_result_def unload_reset_result_def unload_job_result_def Let_def split_def
        intro: one_step reject)
qed

lemma process_unload_steps: "ctx_steps (ctk t) (ctk (process_unload_results n t))"
proof (induction n t rule: process_unload_results.induct)
  case (2 n t)
  obtain status msg mq where get: "osMessageQueueGet (unloadResultQueue (ctk_queues t)) 0 = (status, msg, mq)"
    by (cases "osMessageQueueGet (unloadResultQueue (ctk_queues t)) 0")
  let ?t = "t\<lparr>ctk_queues := (ctk_queues t)\<lparr>unloadResultQueue := mq\<rparr>\<rparr>"
  show ?case
  proof (cases "\<exists>x. status = osOK \<and> msg = Some x")
    case True
    then obtain x where x: "status = osOK" "msg = Some x" by blast
    have "ctx_steps (ctk t) (ctk (unload_result x ?t))" using unload_result_steps [of ?t x] by simp
    moreover have "ctx_steps (ctk (unload_result x ?t)) (ctk (process_unload_results n (unload_result x ?t)))"
      by (rule 2 [OF get [symmetric] x(1) refl x(2)])
    ultimately show ?thesis using get x by (simp del: control_command_frame)
  next
    case False
    then show ?thesis using get by (auto split: osStatus_t.splits option.splits)
  qed
qed simp

text \<open>Samples of the sensors.\<close>

lemma report_action_frame [simp]: "ctk (report_route_action action ok fin now t) = ctk t"
  by (simp add: report_route_action_def publish_job_def Let_def split: route_action_t.splits option.splits)

lemma route_action_motor_frame [simp]: "ctk (snd (ControlTask_ApplyRouteActionMotor action now t)) = ctk t"
  by (simp add: ControlTask_ApplyRouteActionMotor_def split: option.splits)

lemma route_action_ctx:
  "ctk (ControlTask_ProcessRouteAction action previous fin now t)
     = (if action \<in> {ROUTE_ACTION_TURN_LEFT, ROUTE_ACTION_TURN_RIGHT, ROUTE_ACTION_TURN_AROUND}
        then snd (ControlLogic_StartPendingManeuver (ctk t) now) else ctk t)"
  by (simp add: ControlTask_ProcessRouteAction_def Let_def split_def)

lemma route_action_steps: "ctx_steps (ctk t) (ctk (ControlTask_ProcessRouteAction action previous fin now t))"
  by (auto simp: route_action_ctx intro: one_step)

lemma route_action_after:
  "ctx_step c (ctk t) \<Longrightarrow> ctx_steps c (ctk (ControlTask_ProcessRouteAction action previous fin now t))"
  using route_action_steps converse_rtranclp_into_rtranclp by metis

lemma line_input_steps:
  "ctx_steps (ctk t) (ctk (snd (ControlTask_ProcessLineInput l m r sampled_at now t)))"
proof -
  define u where "u = snd (with_ctx (\<lambda>c. ControlLogic_ProcessLineSampleWithCenter c l m r sampled_at) t)"
  have u: "ctx_step (ctk t) (ctk u)" by (simp add: u_def step_line)
  define result where "result = fst (with_ctx (\<lambda>c. ControlLogic_ProcessLineSampleWithCenter c l m r sampled_at) t)"
  obtain v where v: "ctk v = ctk u" "snd (ControlTask_ProcessLineInput l m r sampled_at now t)
      = (if line_action_valid result
         then ControlTask_ProcessRouteAction (line_action result) (ctl_state (ctk t)) None now (reset_pid v)
         else if line_state_changed result then ControlTask_PublishStateChanged now v else v)"
  proof (atomize_elim)
    show "\<exists>v. ctk v = ctk u \<and> snd (ControlTask_ProcessLineInput l m r sampled_at now t)
      = (if line_action_valid result
         then ControlTask_ProcessRouteAction (line_action result) (ctl_state (ctk t)) None now (reset_pid v)
         else if line_state_changed result then ControlTask_PublishStateChanged now v else v)"
      unfolding ControlTask_ProcessLineInput_def Let_def split_def snd_conv
        u_def [symmetric] result_def [symmetric]
      by (rule exI, rule conjI [rotated], rule refl) simp
  qed
  show ?thesis
    using route_action_after [of "ctk t" "reset_pid v"] u v by (simp add: r_into_rtranclp)
qed

lemma load_on_steps: "ctx_steps (ctk t) (ctk (snapshot_load_on snapshot now t))"
proof -
  have arm: "ctx_steps (ctk t) ((ctk t)\<lparr>load_wait_armed := True\<rparr>)" by (rule one_step)
  have on: "ctx_step (ctk t) (ctk (snd (with_ctx (\<lambda>c. ControlLogic_HandleLoadOn c now) t)))"
    by (simp add: step_load_on)
  show ?thesis
    using arm route_action_after [OF on] by (simp add: snapshot_load_on_def Let_def split_def)
qed

lemma marker_steps: "ctx_steps (ctk t) (ctk (snapshot_marker snapshot now t))"
proof -
  have "ctx_step (ctk t) (ctk (snd (with_ctx (\<lambda>c. ControlLogic_HandleMarker c (snp_marker_code snapshot)
      (snp_marker_detected_at_ms snapshot) now) (reset_pid t))))"
    by (simp add: step_marker)
  then show ?thesis using route_action_after by (simp add: snapshot_marker_def Let_def split_def)
qed

lemma load_off_steps: "ctx_steps (ctk t) (ctk (snapshot_load_off snapshot now t))"
proof (cases "ctl_state (ctk t) = LINETRACER_CONTROL_MOVING_TO_DEST")
  case True
  then have "ctx_step (ctk t) (ctk (snd (with_ctx (\<lambda>c. case ControlLogic_HandleLoadOff c now of
      (action, completion, c) \<Rightarrow> ((action, completion), c)) t)))"
    by (simp add: split_def step_load_off)
  then show ?thesis using route_action_after by (simp add: snapshot_load_off_def Let_def split_def)
qed (simp add: snapshot_load_off_def)

lemma arm_ctx [simp]: "ctk (snd (ControlTask_UpdateRouteMarkerArm snapshot sampled_at t)) = ctk t"
  by (simp add: ControlTask_UpdateRouteMarkerArm_def)

lemma store_ctx [simp]: "ctk (store_snapshot snapshot t) = ctk t"
  by (simp add: store_snapshot_def)

lemma cleared_steps: "ctx_steps (ctk t) (ctk (snapshot_marker_cleared snapshot sampled_at now t))"
  using line_input_steps by (simp add: snapshot_marker_cleared_def)

lemma snapshot_steps: "ctx_steps (ctk t) (ctk (snd (sensor_snapshot snapshot t)))"
proof -
  define now where "now = fst (tick t)"
  define ts where "ts = (if snp_sampled_at_ms snapshot \<noteq> 0 then snp_sampled_at_ms snapshot else now)"
  define t1 where "t1 = store_snapshot snapshot (snd (tick t))"
  define t2 where "t2 = snapshot_load_on snapshot now t1"
  define t3 where "t3 = snd (ControlTask_UpdateRouteMarkerArm snapshot ts t2)"
  define t4 where "t4 = snapshot_marker_cleared snapshot ts now t3"
  define t5 where "t5 = snd (ControlTask_ProcessLineInput (snp_line_left snapshot)
     (snp_line_center snapshot) (snp_line_right snapshot) ts now t4)"
  define t6 where "t6 = snapshot_marker snapshot now t5"
  have s: "ctk t1 = ctk t" "ctk t3 = ctk t2" by (simp_all add: t1_def t3_def)
  have s2: "ctx_steps (ctk t) (ctk t2)" using load_on_steps [of t1] s by (simp add: t2_def)
  have s4: "ctx_steps (ctk t) (ctk t4)"
    using s2 cleared_steps [of t3] s unfolding t4_def by (metis rtranclp_trans)
  have s5: "ctx_steps (ctk t) (ctk t5)"
    using s4 line_input_steps [of t4] unfolding t5_def by (metis rtranclp_trans)
  have s6: "ctx_steps (ctk t) (ctk (snapshot_load_off snapshot now t6))"
    using s5 marker_steps [of t5] load_off_steps [of t6] unfolding t6_def by (metis rtranclp_trans)
  have "snd (sensor_snapshot snapshot t) \<in> {t1, t3, t5, snapshot_load_off snapshot now t6}"
    unfolding sensor_snapshot_def Let_def split_def now_def [symmetric] ts_def [symmetric] t1_def [symmetric]
      t2_def [symmetric] t3_def [symmetric] t4_def [symmetric] t5_def [symmetric] t6_def [symmetric]
    by (simp split: bool.splits)
  then show ?thesis using s s2 s5 s6 by auto
qed

lemma process_snapshots_steps: "ctx_steps (ctk t) (ctk (process_snapshots n t))"
proof (induction n t rule: process_snapshots.induct)
  case (2 n t)
  show ?case
  proof (cases "osMessageQueueGet (sensorSnapshotQueue (ctk_queues t)) 0")
    case (fields status msg mq)
    let ?t = "t\<lparr>ctk_queues := (ctk_queues t)\<lparr>sensorSnapshotQueue := mq\<rparr>\<rparr>"
    have "ctx_steps (ctk t) (ctk (snd (sensor_snapshot snapshot ?t)))" for snapshot
      using snapshot_steps [of ?t] by simp
    then show ?thesis
      using 2 fields
      by (auto split: osStatus_t.splits option.splits prod.splits bool.splits)
        (metis rtranclp_trans snd_conv)+
  qed
qed simp

lemma command_steps: "ctx_steps (ctk t) (ctk (control_command command t))"
  by (simp add: one_step)

lemma process_commands_steps: "ctx_steps (ctk t) (ctk (process_commands n t))"
proof (induction n t rule: process_commands.induct)
  case (2 n t)
  obtain status msg mq where get: "osMessageQueueGet (controlCommandQueue (ctk_queues t)) 0 = (status, msg, mq)"
    by (cases "osMessageQueueGet (controlCommandQueue (ctk_queues t)) 0")
  let ?t = "t\<lparr>ctk_queues := (ctk_queues t)\<lparr>controlCommandQueue := mq\<rparr>\<rparr>"
  show ?case
  proof (cases "\<exists>x. status = osOK \<and> msg = Some x")
    case True
    then obtain x where x: "status = osOK" "msg = Some x" by blast
    have "ctx_steps (ctk t) (ctk (control_command x ?t))" using command_steps [of ?t x] by simp
    moreover have "ctx_steps (ctk (control_command x ?t)) (ctk (process_commands n (control_command x ?t)))"
      by (rule 2 [OF get [symmetric] x(1) refl x(2)])
    ultimately show ?thesis using get x by (simp del: control_command_frame)
  next
    case False
    then show ?thesis using get by (auto split: osStatus_t.splits option.splits)
  qed
qed simp

lemma inputs_steps: "ctx_steps (ctk t) (ctk (snd (cycle_inputs t)))"
proof -
  define t1 where "t1 = ControlTask_ProcessSafetyEvents t"
  define t2 where "t2 = ControlTask_ProcessUnloadResults
     (ControlTask_ProcessPendingResponses (fst (tick t1)) (snd (tick t1)))"
  define t3 where "t3 = ControlTask_CheckPendingUnloadResetTimeout (fst (tick t2)) (snd (tick t2))"
  define t4 where "t4 = ControlTask_ProcessSensorSnapshots t3"
  define t5 where "t5 = ControlTask_ProcessCommands t4"
  have "ctx_steps (ctk t) (ctk t1)"
    by (simp add: t1_def ControlTask_ProcessSafetyEvents_def process_safety_steps)
  also have "ctx_steps (ctk t1) (ctk t2)"
    using process_unload_steps [of "ControlTask_ProcessPendingResponses (fst (tick t1)) (snd (tick t1))"]
    by (simp add: t2_def ControlTask_ProcessUnloadResults_def)
  also have "ctx_steps (ctk t2) (ctk t3)"
    using timeout_steps [of "snd (tick t2)"] by (simp add: t3_def)
  also have "ctx_steps (ctk t3) (ctk t4)"
    by (simp add: t4_def ControlTask_ProcessSensorSnapshots_def process_snapshots_steps)
  also have "ctx_steps (ctk t4) (ctk t5)"
    by (simp add: t5_def ControlTask_ProcessCommands_def process_commands_steps)
  finally show ?thesis
    by (simp add: cycle_inputs_def Let_def split_def t1_def t2_def t3_def t4_def t5_def)
qed

lemma cycle_steps: "ctx_steps (ctk t) (ctk (control_cycle rnd t))"
proof -
  define u where "u = snd (cycle_inputs t)"
  define now where "now = fst (cycle_inputs t)"
  define p where "p = snd (ControlLogic_StartPendingManeuver (ctk u) now)"
  have "ctx_steps (ctk u) p" "ctx_steps p (snd (ControlLogic_UpdateTimedManeuver p now))"
    unfolding p_def by (blast intro: step_pending step_timed)+
  then have "ctx_steps (ctk u) (ctk (advance_maneuver now u))"
    by (auto simp: advance_maneuver_def Let_def split_def simp flip: p_def split: bool.splits)
  then show ?thesis
    using inputs_steps [of t]
    by (auto simp: cycle_split split_def motor_output_ctx simp flip: u_def now_def)
qed

section \<open>Every state of the running task\<close>

text \<open>
  The runs of the task: the start-up, then cycles, between which the other tasks change anything
  but the control context.
\<close>

inductive task_run :: "(rat \<Rightarrow> rat) \<Rightarrow> control_task \<Rightarrow> bool" for rnd where
  task_start: "task_run rnd (start_control_task t)"
| task_others: "task_run rnd t \<Longrightarrow> ctk u = ctk t \<Longrightarrow> task_run rnd u"
| task_cycle: "task_run rnd t \<Longrightarrow> task_run rnd (control_cycle rnd t)"

lemma lt_start_ok: "job_ok (ctk (start_control_task t))"
  by (simp add: start_control_task_def Let_def split_def safety_ok)

lemma run_ok: "task_run rnd t \<Longrightarrow> job_ok (ctk t)"
  by (induction rule: task_run.induct) (simp_all add: lt_start_ok ctx_steps_ok [OF cycle_steps])

lemma consistent:
  assumes "job_ok c"
  shows "(driving (ctl_state c) \<longrightarrow>
            ControlLogic_HasActiveJob c \<and> \<not> safety_latched c \<and> plan_valid (route_plan c)
            \<and> target_index (route_plan c) = RoutePlanner_RouteIndex (active_route c)
            \<and> plan_phase (route_plan c) \<in> phases_of (ctl_state c))
       \<and> (safety_latched c \<longrightarrow> ctl_state c \<in> stop_states)
       \<and> (resume_valid c \<longrightarrow> ctl_state c \<in> paused_states
            \<and> (driving (resume_state c) \<longrightarrow> job_at c (resume_state c)))"
  using driving_facts [OF assms] assms by (simp add: job_ok_def)

text \<open>
  C10: Over every run of the linetracer's control task: while the vehicle drives there is an
  active job, no latch, and a valid plan for the job's route whose phase is one of the drive
  state; a latched controller is in a stop state; what a pause will resume is consistent with
  the job in the same way; and each round is a sequence of operations of the control logic.
\<close>

theorem job_consistent_in_every_run:
  assumes "task_run rnd t"
  shows "(driving (ctl_state (ctk t)) \<longrightarrow>
            ControlLogic_HasActiveJob (ctk t) \<and> \<not> safety_latched (ctk t)
            \<and> plan_valid (route_plan (ctk t))
            \<and> target_index (route_plan (ctk t)) = RoutePlanner_RouteIndex (active_route (ctk t))
            \<and> plan_phase (route_plan (ctk t)) \<in> phases_of (ctl_state (ctk t)))
       \<and> (safety_latched (ctk t) \<longrightarrow> ctl_state (ctk t) \<in> stop_states)
       \<and> (resume_valid (ctk t) \<longrightarrow> ctl_state (ctk t) \<in> paused_states
            \<and> (driving (resume_state (ctk t)) \<longrightarrow> job_at (ctk t) (resume_state (ctk t))))
       \<and> ctx_steps (ctk t) (ctk (control_cycle rnd t))"
  using consistent [OF run_ok [OF assms]] cycle_steps by blast

theorem job_consistent_in_every_run_witness:
  "ctx_steps (ctk (start_control_task power_on))
     (ctk (control_cycle (\<lambda>x. x) (start_control_task power_on)))"
  using job_consistent_in_every_run [OF task_start [of "\<lambda>x. x" power_on]] by simp

end
