(* ===== verification/Linetracer_Junction.thy ===== *)
theory Linetracer_Junction
  imports Linetracer_Job
begin

text \<open>
  The junctions of a job: a junction that the vehicle meets on its way is taken by the plan, the
  maneuver that follows ends on the next line, and a stop in the middle of a crossing makes the
  control logic take the same junction twice.
\<close>

section \<open>On the line\<close>

definition on_line :: "control_context_t \<Rightarrow> bool" where
  "on_line c \<longleftrightarrow> job_ok c \<and> ControlLogic_StateExpectsMarker (ctl_state c)
     \<and> junction_phase c = CONTROL_JUNCTION_IDLE"

text \<open>The junction under the sensors at \<open>ts\<close> is a new one, and nothing keeps it from being seen.\<close>

definition sees_junction :: "control_context_t \<Rightarrow> u32 \<Rightarrow> bool" where
  "sees_junction c ts \<longleftrightarrow> \<not> c_marker_rearm_pending c \<and> \<not> fst (ControlLogic_JunctionGuardActive c ts)
     \<and> \<not> junction_candidate_active c \<and> ts \<noteq> 0 \<and> \<not> ControlLogic_MarkerIsDuplicate c APP_MARKER_JUNCTION ts"

text \<open>A sample: what the left, the center and the right sensor see, and when.\<close>

type_synonym line_sample = "bool \<times> bool \<times> bool \<times> u32"

definition on_stripe :: "line_sample \<Rightarrow> bool" where
  "on_stripe = (\<lambda>(l, m, r, ts). l \<and> r)"

definition all_white :: "line_sample \<Rightarrow> bool" where
  "all_white = (\<lambda>(l, m, r, ts). \<not> l \<and> \<not> m \<and> \<not> r)"

definition taken_at :: "line_sample \<Rightarrow> u32" where
  "taken_at = (\<lambda>(l, m, r, ts). ts)"

lemmas sample_views = on_stripe_def all_white_def taken_at_def

definition sample :: "line_sample \<Rightarrow> control_context_t \<Rightarrow> control_context_t" where
  "sample = (\<lambda>(l, m, r, ts) c. snd (ControlLogic_ProcessLineSampleWithCenter c l m r ts))"

abbreviation samples :: "line_sample list \<Rightarrow> control_context_t \<Rightarrow> control_context_t" where
  "samples ss c \<equiv> fold sample ss c"

lemma on_line_facts:
  assumes "on_line c"
  shows "ControlLogic_HasActiveJob c" "plan_valid (route_plan c)" "plan_typed (route_plan c)"
    "plan_phase (route_plan c) \<in> phases_of (ctl_state c)" "\<not> resume_valid c" "\<not> safety_latched c"
    "target_index (route_plan c) = RoutePlanner_RouteIndex (active_route c)"
proof -
  have "driving (ctl_state c)"
    using assms by (auto simp: on_line_def ControlLogic_StateExpectsMarker_def state_sets)
  then show "ControlLogic_HasActiveJob c" "plan_valid (route_plan c)" "plan_typed (route_plan c)"
    "plan_phase (route_plan c) \<in> phases_of (ctl_state c)" "\<not> resume_valid c" "\<not> safety_latched c"
    "target_index (route_plan c) = RoutePlanner_RouteIndex (active_route c)"
    using assms driving_facts [of c] by (simp_all add: on_line_def)
qed

lemma expects_junction:
  assumes "on_line c"
  shows "ControlLogic_ExpectedMarkerCode c = APP_MARKER_JUNCTION \<and> expected_marker (route_plan c) \<noteq> ROUTE_MARKER_NONE"
proof -
  note facts = on_line_facts [OF assms]
  have "expected_marker (route_plan c) \<in> marker_of_phase (plan_phase (route_plan c))"
    using facts(3) by (simp add: plan_typed_def)
  then have "expected_marker (route_plan c) \<noteq> ROUTE_MARKER_NONE"
    using facts(4) assms by (auto simp: on_line_def ControlLogic_StateExpectsMarker_def)
  then show ?thesis
    using facts(2) by (simp add: ControlLogic_ExpectedMarkerCode_def ControlLogic_MarkerCodeForIndex_def
        split: route_expected_marker_t.splits)
qed

lemma takes_junction:
  assumes "on_line c"
  shows "fst (RoutePlanner_OnMarker (route_plan c)) \<noteq> ROUTE_ACTION_ERROR"
  using typed_progress [OF on_line_facts(3) [OF assms]] expects_junction [OF assms] by blast

text \<open>Where the drive goes with an action of the plan.\<close>

definition follows :: "control_context_t \<Rightarrow> route_action_t \<Rightarrow> bool" where
  "follows c action \<longleftrightarrow>
     (case action of
        ROUTE_ACTION_GO_STRAIGHT \<Rightarrow> ControlLogic_StateExpectsMarker (ctl_state c)
      | ROUTE_ACTION_TURN_LEFT \<Rightarrow> ControlLogic_IsTurning c
      | ROUTE_ACTION_TURN_RIGHT \<Rightarrow> ControlLogic_IsTurning c
      | ROUTE_ACTION_STOP_AT_PICKUP \<Rightarrow> ctl_state c = LINETRACER_CONTROL_WAITING_LOAD
      | ROUTE_ACTION_STOP_AT_DEST \<Rightarrow> ctl_state c = LINETRACER_CONTROL_UNLOADING
      | _ \<Rightarrow> False)"

lemma transition_follows:
  assumes typed: "plan_typed plan" and valid: "plan_valid plan" and state: "ControlLogic_StateExpectsMarker (ctl_state d)"
    and phase: "plan_phase plan \<in> phases_of (ctl_state d)"
    and a: "fst (RoutePlanner_OnMarker plan) \<noteq> ROUTE_ACTION_ERROR"
    and d: "route_plan d = snd (RoutePlanner_OnMarker plan)" "pending_route_action d = fst (RoutePlanner_OnMarker plan)"
  shows "fst (marker_transition d (fst (RoutePlanner_OnMarker plan)) now)
    \<and> follows (snd (marker_transition d (fst (RoutePlanner_OnMarker plan)) now)) (fst (RoutePlanner_OnMarker plan))"
proof -
  have moved: "fst (ControlLogic_Transition e s n) \<Longrightarrow> ctl_state (snd (ControlLogic_Transition e s n)) = s
      \<and> pending_route_action (snd (ControlLogic_Transition e s n)) = pending_route_action e" for e s n
    by (auto simp: ControlLogic_Transition_def Let_def split: if_splits)
  show ?thesis
  proof (cases "ctl_state d = LINETRACER_CONTROL_MOVING_TO_PICKUP")
    case True
    then have "fst (RoutePlanner_OnMarker plan) = ROUTE_ACTION_STOP_AT_PICKUP"
      using phase a by (auto simp: route_planner_defs split: if_splits)
    then show ?thesis using enters_pickup [OF True] by (simp add: follows_def)
  next
    case False
    then show ?thesis
      using phase a d valid state
      by (cases "ctl_state d")
         (auto simp: marker_transition_def route_planner_defs Let_def follows_def ControlLogic_IsTurning_def
            ControlLogic_StateExpectsMarker_def ControlLogic_Transition_def split: if_splits)
  qed
qed


section \<open>A junction is taken\<close>

lemma transition_phase [simp]:
  "junction_phase (snd (ControlLogic_Transition c s now)) = junction_phase c"
  "pending_route_action (snd (ControlLogic_Transition c s now)) = pending_route_action c"
  by (simp_all add: ControlLogic_Transition_def Let_def)

lemma marker_transition_phase [simp]:
  "junction_phase (snd (marker_transition d a now)) = junction_phase d"
  "pending_route_action (snd (marker_transition d a now)) = pending_route_action d"
  by (simp_all add: marker_transition_def split_def split: linetracer_control_state_t.splits bool.splits)

lemma follows_cong:
  "ctl_state c' = ctl_state c \<Longrightarrow> pending_route_action c' = pending_route_action c \<Longrightarrow> follows c' a = follows c a"
  by (simp add: follows_def ControlLogic_IsTurning_def split: route_action_t.splits)

lemma marker_taken:
  fixes c :: control_context_t and now ts :: u32
  defines "a \<equiv> fst (RoutePlanner_OnMarker (route_plan c))"
  defines "e \<equiv> snd (ControlLogic_HandleMarker c APP_MARKER_JUNCTION ts now)"
  assumes line: "on_line c" and new: "ts \<noteq> 0" "\<not> ControlLogic_MarkerIsDuplicate c APP_MARKER_JUNCTION ts"
  shows "fst (ControlLogic_HandleMarker c APP_MARKER_JUNCTION ts now) = a"
    and "route_plan e = snd (RoutePlanner_OnMarker (route_plan c))" and "pending_route_action e = a"
    and "follows e a" and "junction_phase e = CONTROL_JUNCTION_IDLE"
proof -
  define d where "d = remember_marker (c\<lparr>route_plan := snd (RoutePlanner_OnMarker (route_plan c)),
      pending_route_action := a\<rparr>) APP_MARKER_JUNCTION ts"
  define m where "m = marker_transition d a now"
  note facts = on_line_facts [OF line] and junction = expects_junction [OF line]
  have d: "ctl_state d = ctl_state c" "route_plan d = snd (RoutePlanner_OnMarker (route_plan c))"
      "pending_route_action d = a" "junction_phase d = junction_phase c"
    by (simp_all add: d_def remember_marker_def)
  have expects: "ControlLogic_StateExpectsMarker (ctl_state c)" using line by (simp add: on_line_def)
  have a: "a \<noteq> ROUTE_ACTION_ERROR" using takes_junction [OF line] by (simp add: a_def)
  have m: "fst m" "follows (snd m) a"
    using transition_follows [OF facts(3,2), of d now] expects facts(4) a d by (simp_all add: m_def a_def)
  have states: "ctl_state c \<noteq> LINETRACER_CONTROL_UNLOADING" "ctl_state c \<noteq> LINETRACER_CONTROL_PICKUP_READY"
      "ctl_state c \<noteq> LINETRACER_CONTROL_WAITING_LOAD"
    using expects by (auto simp: ControlLogic_StateExpectsMarker_def)
  have marker: "ControlLogic_HandleMarker c APP_MARKER_JUNCTION ts now =
      (a, if ControlLogic_StateExpectsMarker (ctl_state (snd m))
          then (snd m)\<lparr>marker_wait_started_at_ms := now\<rparr> else snd m)"
    using facts(1) states new junction a m
    by (simp add: ControlLogic_HandleMarker_def Let_def split_def flip: a_def d_def m_def)
  show "fst (ControlLogic_HandleMarker c APP_MARKER_JUNCTION ts now) = a" by (simp add: marker)
  show "route_plan e = snd (RoutePlanner_OnMarker (route_plan c))" "pending_route_action e = a"
      "junction_phase e = CONTROL_JUNCTION_IDLE"
    using d line by (simp_all add: e_def marker m_def on_line_def)
  show "follows e a"
    using m(2) follows_cong [of e "snd m" a] by (simp add: e_def marker)
qed

lemma idle_sees:
  assumes "on_line c" "sees_junction c ts"
  shows "line_idle c True True ts
     = line_junction (ControlLogic_ResetMarkerApproach (snd (ControlLogic_JunctionGuardActive c ts))) ts"
proof -
  define d where "d = ControlLogic_ResetMarkerApproach (snd (ControlLogic_JunctionGuardActive c ts))"
  have approach: "ControlLogic_UpdateMarkerApproach e True True False ts = ControlLogic_ResetMarkerApproach e" for e
    by (simp add: ControlLogic_UpdateMarkerApproach_def)
  have plan: "route_plan d = route_plan c"
    by (simp add: d_def ControlLogic_ResetMarkerApproach_def ControlLogic_JunctionGuardActive_def)
  have "ControlLogic_ExpectedMarkerCode d = ControlLogic_ExpectedMarkerCode c"
    unfolding ControlLogic_ExpectedMarkerCode_def plan by (rule refl)
  then have "ControlLogic_ExpectedMarkerCode d = APP_MARKER_JUNCTION"
    using expects_junction [OF assms(1)] by simp
  moreover have "\<not> fst (ControlLogic_JunctionGuardActive c ts)" "\<not> c_marker_rearm_pending c"
    using assms(2) by (simp_all add: sees_junction_def)
  ultimately show ?thesis
    by (simp add: line_idle_def ControlLogic_UpdateCMarkerRearm_def split_def Let_def approach flip: d_def)
qed

lemma on_line_cong:
  "job_view c' = job_view c \<Longrightarrow> junction_phase c' = junction_phase c \<Longrightarrow> on_line c' = on_line c"
  using job_ok_cong [of c' c] by (simp add: on_line_def job_view_def)

text \<open>The maneuver that an action of the plan starts.\<close>

definition maneuver_of :: "route_action_t \<Rightarrow> control_junction_phase_t" where
  "maneuver_of action =
     (if action = ROUTE_ACTION_GO_STRAIGHT then CONTROL_JUNCTION_CROSS_STRAIGHT
      else if ControlLogic_IsNinetyDegreeTurn action then CONTROL_JUNCTION_APPROACH_CENTER
      else CONTROL_JUNCTION_IDLE)"

lemma started_maneuver:
  assumes "junction_phase c = CONTROL_JUNCTION_IDLE" "a = ROUTE_ACTION_GO_STRAIGHT \<or> ControlLogic_IsNinetyDegreeTurn a"
  shows "fst (ControlLogic_StartJunctionManeuver c a True now)
    \<and> junction_phase (snd (ControlLogic_StartJunctionManeuver c a True now)) = maneuver_of a
    \<and> junction_action (snd (ControlLogic_StartJunctionManeuver c a True now)) = a
    \<and> junction_phase_started_at_ms (snd (ControlLogic_StartJunctionManeuver c a True now)) = now
    \<and> \<not> junction_condition_active (snd (ControlLogic_StartJunctionManeuver c a True now))
    \<and> route_plan (snd (ControlLogic_StartJunctionManeuver c a True now)) = route_plan c
    \<and> ctl_state (snd (ControlLogic_StartJunctionManeuver c a True now)) = ctl_state c
    \<and> pending_route_action (snd (ControlLogic_StartJunctionManeuver c a True now)) = pending_route_action c"
  using assms
  by (auto simp: ControlLogic_StartJunctionManeuver_def ControlLogic_SetJunctionPhase_def Let_def maneuver_of_def
      ControlLogic_ResetMarkerApproach_def ControlLogic_IsNinetyDegreeTurn_def)

lemma idle_keeps:
  "junction_phase (snd (ControlLogic_JunctionGuardActive c ts)) = junction_phase c"
  "junction_candidate_active (snd (ControlLogic_JunctionGuardActive c ts)) = junction_candidate_active c"
  "ControlLogic_MarkerIsDuplicate (ControlLogic_ResetMarkerApproach (snd (ControlLogic_JunctionGuardActive c ts))) k t
     = ControlLogic_MarkerIsDuplicate c k t"
  "ControlLogic_MarkerIsDuplicate (c\<lparr>junction_candidate_active := b, junction_candidate_since_ms := s\<rparr>) k t
     = ControlLogic_MarkerIsDuplicate c k t"
  by (simp_all add: ControlLogic_JunctionGuardActive_def ControlLogic_MarkerIsDuplicate_def
      ControlLogic_ResetMarkerApproach_def)


text \<open>Under way: the plan's action is being carried out.\<close>

definition maneuvering ::
    "control_context_t \<Rightarrow> control_junction_phase_t \<Rightarrow> route_action_t \<Rightarrow> route_plan_t \<Rightarrow> bool" where
  "maneuvering c phase a plan \<longleftrightarrow> job_ok c \<and> junction_phase c = phase \<and> pending_route_action c = a
     \<and> follows c a \<and> route_plan c = plan"

lemma junction_outcome:
  assumes "\<not> junction_candidate_active c"
  shows "snd (line_junction c ts) =
    (let (a, e) = ControlLogic_HandleMarker
           (c\<lparr>junction_candidate_active := True, junction_candidate_since_ms := ts\<rparr>) APP_MARKER_JUNCTION ts ts;
         f = e\<lparr>junction_candidate_active := False\<rparr>;
         g = snd (ControlLogic_StartJunctionManeuver f a True ts)
     in if maneuver_of a \<noteq> CONTROL_JUNCTION_IDLE
        then (if fst (ControlLogic_StartJunctionManeuver f a True ts) then g
              else snd (ControlLogic_RouteError g LINETRACER_STOP_REASON_MARKER_SEQUENCE ROUTE_ACTION_ERROR ts))
        else f)"
  using assms
  by (simp add: line_junction_def Let_def split_def maneuver_of_def ControlLogic_IsNinetyDegreeTurn_def
      split: bool.splits)

lemma junction_taken:
  fixes c :: control_context_t and ts :: u32 and m :: bool
  defines "a \<equiv> fst (RoutePlanner_OnMarker (route_plan c))"
  defines "e \<equiv> sample (True, m, True, ts) c"
  assumes line: "on_line c" and sees: "sees_junction c ts"
  shows "maneuvering e (maneuver_of a) a (snd (RoutePlanner_OnMarker (route_plan c)))"
    and "maneuver_of a \<noteq> CONTROL_JUNCTION_IDLE \<Longrightarrow>
       junction_action e = a \<and> junction_phase_started_at_ms e = ts \<and> \<not> junction_condition_active e"
proof -
  define d where "d = (ControlLogic_ResetMarkerApproach (snd (ControlLogic_JunctionGuardActive c ts)))
     \<lparr>junction_candidate_active := True, junction_candidate_since_ms := ts\<rparr>"
  define f where "f = (snd (ControlLogic_HandleMarker d APP_MARKER_JUNCTION ts ts))\<lparr>junction_candidate_active := False\<rparr>"
  define g where "g = snd (ControlLogic_StartJunctionManeuver f a True ts)"
  have view: "job_view d = job_view c"
    by (simp add: d_def job_view_def [of "_\<lparr>junction_candidate_active := True, junction_candidate_since_ms := ts\<rparr>"])
       (simp flip: job_view_def)
  have phase: "junction_phase d = junction_phase c"
    by (simp add: d_def ControlLogic_ResetMarkerApproach_def idle_keeps)
  have plan: "route_plan d = route_plan c" using view by (simp add: job_view_def)
  have dline: "on_line d" using line on_line_cong [OF view phase] by simp
  have "ControlLogic_MarkerIsDuplicate d APP_MARKER_JUNCTION ts = ControlLogic_MarkerIsDuplicate c APP_MARKER_JUNCTION ts"
    by (simp add: d_def idle_keeps)
  then have new: "ts \<noteq> 0" "\<not> ControlLogic_MarkerIsDuplicate d APP_MARKER_JUNCTION ts"
    using sees by (simp_all add: sees_junction_def)
  note taken = marker_taken [OF dline new, of ts, unfolded plan, folded a_def]
  have f: "junction_phase f = CONTROL_JUNCTION_IDLE" "pending_route_action f = a"
      "route_plan f = snd (RoutePlanner_OnMarker (route_plan c))" "follows f a"
    using taken follows_cong [of f "snd (ControlLogic_HandleMarker d APP_MARKER_JUNCTION ts ts)" a]
    by (simp_all add: f_def)
  have facts: "ControlLogic_HasActiveJob c" "\<not> safety_latched c" "junction_phase c = CONTROL_JUNCTION_IDLE"
    using on_line_facts [OF line] line by (simp_all add: on_line_def)
  have cand: "\<not> junction_candidate_active (ControlLogic_ResetMarkerApproach (snd (ControlLogic_JunctionGuardActive c ts)))"
    using sees by (simp add: sees_junction_def ControlLogic_ResetMarkerApproach_def idle_keeps)
  have started: "fst (ControlLogic_StartJunctionManeuver f a True ts)"
    if "maneuver_of a \<noteq> CONTROL_JUNCTION_IDLE"
    using started_maneuver [OF f(1), of a ts] that by (simp add: maneuver_of_def split: if_splits)
  have "e = snd (line_idle c True True ts)"
    using facts by (simp add: e_def sample_def ControlLogic_ProcessLineSampleWithCenter_def
        ControlLogic_LineSamplePredatesActiveTurn_def)
  then have "e = (if maneuver_of a \<noteq> CONTROL_JUNCTION_IDLE
      then (if fst (ControlLogic_StartJunctionManeuver f a True ts) then g
            else snd (ControlLogic_RouteError g LINETRACER_STOP_REASON_MARKER_SEQUENCE ROUTE_ACTION_ERROR ts))
      else f)"
    unfolding idle_sees [OF line sees] junction_outcome [OF cand] Let_def split_def d_def [symmetric] taken(1)
      f_def [symmetric] g_def [symmetric] by blast
  then have e: "e = (if maneuver_of a \<noteq> CONTROL_JUNCTION_IDLE then g else f)" using started by simp
  have "job_ok c" using line by (simp add: on_line_def)
  then have ok: "job_ok e" by (simp add: e_def sample_def line_ok)
  have started': "a = ROUTE_ACTION_GO_STRAIGHT \<or> ControlLogic_IsNinetyDegreeTurn a"
    if "maneuver_of a \<noteq> CONTROL_JUNCTION_IDLE" using that by (simp add: maneuver_of_def split: if_splits)
  note g = started_maneuver [OF f(1) started', of ts, folded g_def]
  show "maneuvering e (maneuver_of a) a (snd (RoutePlanner_OnMarker (route_plan c)))"
    using ok e f g follows_cong [of g f a] by (auto simp: maneuvering_def)
  show "junction_action e = a \<and> junction_phase_started_at_ms e = ts \<and> \<not> junction_condition_active e"
    if "maneuver_of a \<noteq> CONTROL_JUNCTION_IDLE" using e g that by simp
qed


section \<open>The maneuver ends on the next line\<close>

lemma under_way:
  assumes "maneuvering c p a plan" "a = ROUTE_ACTION_GO_STRAIGHT \<or> ControlLogic_IsNinetyDegreeTurn a"
  shows "ControlLogic_HasActiveJob c" "\<not> safety_latched c" "job_ok c"
proof -
  show ok: "job_ok c" using assms(1) by (simp add: maneuvering_def)
  have "driving (ctl_state c)"
    using assms
    by (auto simp: maneuvering_def follows_def ControlLogic_IsNinetyDegreeTurn_def state_sets
        ControlLogic_StateExpectsMarker_def ControlLogic_IsTurning_def)
  then show "ControlLogic_HasActiveJob c" "\<not> safety_latched c"
    using driving_facts [OF ok] by blast+
qed

lemma sample_maneuver:
  assumes "maneuvering c p a plan" "a = ROUTE_ACTION_GO_STRAIGHT \<or> ControlLogic_IsNinetyDegreeTurn a"
    and "p \<noteq> CONTROL_JUNCTION_IDLE" "\<not> ControlLogic_LineSamplePredatesActiveTurn c ts"
  shows "sample (l, m, r, ts) c = snd (line_maneuver (ControlLogic_ResetMarkerApproach c) l m r ts)"
  using under_way [OF assms(1,2)] assms(1,3,4)
  by (simp add: sample_def ControlLogic_ProcessLineSampleWithCenter_def maneuvering_def)

lemma sampled_ok: "job_ok c \<Longrightarrow> job_ok (sample (l, m, r, ts) c)"
  by (simp add: sample_def line_ok)

lemma reset_approach_fields [simp]:
  "junction_phase (ControlLogic_ResetMarkerApproach c) = junction_phase c"
  "junction_action (ControlLogic_ResetMarkerApproach c) = junction_action c"
  "junction_phase_started_at_ms (ControlLogic_ResetMarkerApproach c) = junction_phase_started_at_ms c"
  "junction_turn_started_at_ms (ControlLogic_ResetMarkerApproach c) = junction_turn_started_at_ms c"
  "junction_condition_active (ControlLogic_ResetMarkerApproach c) = junction_condition_active c"
  "junction_condition_since_ms (ControlLogic_ResetMarkerApproach c) = junction_condition_since_ms c"
  "pending_route_action (ControlLogic_ResetMarkerApproach c) = pending_route_action c"
  "route_plan (ControlLogic_ResetMarkerApproach c) = route_plan c"
  "ctl_state (ControlLogic_ResetMarkerApproach c) = ctl_state c"
  by (simp_all add: ControlLogic_ResetMarkerApproach_def)

text \<open>What a maneuver may change.\<close>

definition leg_view where
  "leg_view c = (ctl_state c, junction_phase c, pending_route_action c, route_plan c)"

lemma leg_view_cond: "leg_view (snd (ControlLogic_ConditionStable (ControlLogic_ResetMarkerApproach c) b ts ms)) = leg_view c"
  by (simp add: leg_view_def ControlLogic_ConditionStable_def ControlLogic_ResetMarkerApproach_def Let_def)

lemma leg_view_idle:
  "leg_view (snd (ControlLogic_UpdateCMarkerRearm c white ts)) = leg_view c"
  "leg_view (snd (ControlLogic_JunctionGuardActive c ts)) = leg_view c"
  "leg_view (ControlLogic_UpdateMarkerApproach c l r guard ts) = leg_view c"
  "leg_view (c\<lparr>junction_candidate_active := b\<rparr>) = leg_view c"
  by (simp_all add: leg_view_def ControlLogic_UpdateCMarkerRearm_def ControlLogic_JunctionGuardActive_def
      ControlLogic_UpdateMarkerApproach_def ControlLogic_ResetMarkerApproach_def
      ControlLogic_ResetCMarkerRearm_def Let_def)

lemma idle_keeps_leg:
  assumes "\<not> (l \<and> r)"
  shows "leg_view (snd (line_idle c l r ts)) = leg_view c"
proof -
  define d where "d = snd (ControlLogic_UpdateCMarkerRearm c (\<not> l \<and> \<not> r) ts)"
  define e where "e = snd (ControlLogic_JunctionGuardActive d ts)"
  define f where "f = ControlLogic_UpdateMarkerApproach e l r (fst (ControlLogic_JunctionGuardActive d ts)) ts"
  have "snd (line_idle c l r ts) \<in> {d\<lparr>junction_candidate_active := False\<rparr>, f\<lparr>junction_candidate_active := False\<rparr>}"
    using assms
    unfolding line_idle_def Let_def split_def d_def [symmetric] e_def [symmetric] f_def [symmetric]
    by (simp split: bool.splits)
  moreover have "leg_view d = leg_view c" "leg_view f = leg_view c"
    by (simp_all add: d_def e_def f_def leg_view_idle)
  ultimately show ?thesis by (auto simp: leg_view_idle)
qed

text \<open>Straight across: the crossing ends with the second sample off the stripe.\<close>

lemma finish_crossing_fields:
  "junction_phase (finish_crossing c now) = CONTROL_JUNCTION_IDLE
   \<and> pending_route_action (finish_crossing c now) = pending_route_action c
   \<and> route_plan (finish_crossing c now) = route_plan c \<and> ctl_state (finish_crossing c now) = ctl_state c"
  by (simp add: finish_crossing_def Let_def ControlLogic_ResetJunctionManeuver_def
      ControlLogic_StartJunctionGuard_def ControlLogic_RejectDelayedMarkersThrough_def
      ControlLogic_StartCMarkerRearm_def)

lemma crossing_step:
  assumes c: "maneuvering c CONTROL_JUNCTION_CROSS_STRAIGHT ROUTE_ACTION_GO_STRAIGHT plan" and off: "\<not> (l \<and> r)"
  shows "maneuvering (sample (l, m, r, ts) c) CONTROL_JUNCTION_IDLE ROUTE_ACTION_GO_STRAIGHT plan
    \<or> (maneuvering (sample (l, m, r, ts) c) CONTROL_JUNCTION_CROSS_STRAIGHT ROUTE_ACTION_GO_STRAIGHT plan
       \<and> junction_condition_active (sample (l, m, r, ts) c)
       \<and> junction_condition_since_ms (sample (l, m, r, ts) c)
           = (if junction_condition_active c then junction_condition_since_ms c else ts)
       \<and> ts - junction_condition_since_ms (sample (l, m, r, ts) c) < CONTROL_JUNCTION_CROSS_CLEAR_MS)"
proof -
  let ?e = "sample (l, m, r, ts) c"
  have "\<not> ControlLogic_LineSamplePredatesActiveTurn c ts"
    using c by (simp add: ControlLogic_LineSamplePredatesActiveTurn_def maneuvering_def)
  then have e: "?e = snd (line_cross_straight (ControlLogic_ResetMarkerApproach c) False ts)"
    using sample_maneuver [OF c] c off by (cases l; cases r) (simp_all add: line_maneuver_def maneuvering_def)
  have ok: "job_ok ?e" using under_way(3) [OF c] by (simp add: sampled_ok)
  define ms where "ms = (if plan_phase plan = ROUTE_PHASE_TO_C_PICKUP_TURN then 0 else CONTROL_JUNCTION_CROSS_CLEAR_MS)"
  define cs where "cs = ControlLogic_ConditionStable (ControlLogic_ResetMarkerApproach c) True ts ms"
  have plan: "route_plan c = plan" using c by (simp add: maneuvering_def)
  have "?e = (if fst cs then finish_crossing (snd cs) ts else snd cs)"
    unfolding e line_cross_straight_def reset_approach_fields plan
    by (simp add: Let_def split_def flip: ms_def cs_def split: bool.splits)
  moreover have view: "leg_view (snd cs) = leg_view c" by (simp add: cs_def leg_view_cond)
  moreover have "leg_view (finish_crossing (snd cs) ts)
      = (ctl_state c, CONTROL_JUNCTION_IDLE, pending_route_action c, plan)"
    using view plan by (simp add: leg_view_def finish_crossing_fields)
  moreover have "junction_condition_active (snd cs) \<and> junction_condition_since_ms (snd cs)
      = (if junction_condition_active c then junction_condition_since_ms c else ts)
      \<and> fst cs = (ts - junction_condition_since_ms (snd cs) \<ge> ms)"
    by (simp add: cs_def ControlLogic_ConditionStable_def Let_def)
  moreover have "ms \<le> CONTROL_JUNCTION_CROSS_CLEAR_MS" by (simp add: ms_def)
  ultimately show ?thesis
    using ok c
    by (cases "fst cs") (auto simp: leg_view_def maneuvering_def follows_def not_le)
qed

lemma crossed_step:
  assumes "maneuvering c CONTROL_JUNCTION_IDLE ROUTE_ACTION_GO_STRAIGHT plan" and "\<not> (l \<and> r)"
  shows "maneuvering (sample (l, m, r, ts) c) CONTROL_JUNCTION_IDLE ROUTE_ACTION_GO_STRAIGHT plan"
proof -
  let ?e = "sample (l, m, r, ts) c"
  have "?e = snd (line_idle c l r ts)"
    using under_way [OF assms(1)] assms(1)
    by (simp add: sample_def ControlLogic_ProcessLineSampleWithCenter_def maneuvering_def
        ControlLogic_LineSamplePredatesActiveTurn_def)
  moreover have "leg_view (snd (line_idle c l r ts)) = leg_view c"
    by (rule idle_keeps_leg [OF assms(2)])
  moreover have "job_ok ?e" using assms(1) by (simp add: maneuvering_def sampled_ok)
  ultimately show ?thesis
    using assms(1) by (simp add: maneuvering_def follows_def leg_view_def)
qed

text \<open>On the stripe the crossing goes on and the plan stays, however many samples show it.\<close>

lemma crossing_stays:
  assumes c: "maneuvering c CONTROL_JUNCTION_CROSS_STRAIGHT ROUTE_ACTION_GO_STRAIGHT plan" and on: "on_stripe s"
  shows "maneuvering (sample s c) CONTROL_JUNCTION_CROSS_STRAIGHT ROUTE_ACTION_GO_STRAIGHT plan
    \<and> \<not> junction_condition_active (sample s c)"
proof -
  obtain m ts where s: "s = (True, m, True, ts)" using on by (cases s) (auto simp: on_stripe_def)
  have "\<not> ControlLogic_LineSamplePredatesActiveTurn c ts"
    using c by (simp add: ControlLogic_LineSamplePredatesActiveTurn_def maneuvering_def)
  then have e: "sample s c = snd (line_cross_straight (ControlLogic_ResetMarkerApproach c) True ts)"
    using sample_maneuver [OF c] c unfolding s by (simp add: line_maneuver_def maneuvering_def)
  have "job_ok (sample s c)" using under_way(3) [OF c] by (simp add: sampled_ok s)
  then show ?thesis
    using c unfolding e
    by (simp add: maneuvering_def follows_def line_cross_straight_def ControlLogic_ConditionStable_def Let_def)
qed

lemma crossing_stays_on_stripe:
  "maneuvering c CONTROL_JUNCTION_CROSS_STRAIGHT ROUTE_ACTION_GO_STRAIGHT plan \<Longrightarrow> \<not> junction_condition_active c
   \<Longrightarrow> \<forall>s\<in>set ss. on_stripe s
   \<Longrightarrow> maneuvering (samples ss c) CONTROL_JUNCTION_CROSS_STRAIGHT ROUTE_ACTION_GO_STRAIGHT plan
     \<and> \<not> junction_condition_active (samples ss c)"
  by (induction ss arbitrary: c) (simp_all add: crossing_stays)

lemma crossed_steps:
  "maneuvering c CONTROL_JUNCTION_IDLE ROUTE_ACTION_GO_STRAIGHT plan \<Longrightarrow> \<forall>s\<in>set ws. \<not> on_stripe s
   \<Longrightarrow> maneuvering (samples ws c) CONTROL_JUNCTION_IDLE ROUTE_ACTION_GO_STRAIGHT plan"
proof (induction ws arbitrary: c)
  case (Cons w ws)
  obtain l m r ts where w: "w = (l, m, r, ts)" by (cases w)
  show ?case
    using Cons.IH [OF crossed_step [OF Cons.prems(1)]] Cons.prems(2) by (simp add: w on_stripe_def)
qed simp

text \<open>Off the stripe since \<open>t\<close>: the crossing has ended, or it is not yet time.\<close>

lemma crossing_off:
  "(maneuvering c CONTROL_JUNCTION_CROSS_STRAIGHT ROUTE_ACTION_GO_STRAIGHT plan
      \<and> junction_condition_active c \<and> junction_condition_since_ms c = t)
     \<or> maneuvering c CONTROL_JUNCTION_IDLE ROUTE_ACTION_GO_STRAIGHT plan
   \<Longrightarrow> \<forall>s\<in>set ws. \<not> on_stripe s \<Longrightarrow> ws \<noteq> [] \<Longrightarrow> CONTROL_JUNCTION_CROSS_CLEAR_MS \<le> taken_at (last ws) - t
   \<Longrightarrow> maneuvering (samples ws c) CONTROL_JUNCTION_IDLE ROUTE_ACTION_GO_STRAIGHT plan"
proof (induction ws arbitrary: c)
  case (Cons w ws)
  obtain l m r ts where w: "w = (l, m, r, ts)" by (cases w)
  have off: "\<not> (l \<and> r)" using Cons.prems(2) by (simp add: w on_stripe_def)
  let ?d = "sample (l, m, r, ts) c"
  have step: "maneuvering ?d CONTROL_JUNCTION_IDLE ROUTE_ACTION_GO_STRAIGHT plan
      \<or> (maneuvering ?d CONTROL_JUNCTION_CROSS_STRAIGHT ROUTE_ACTION_GO_STRAIGHT plan
          \<and> junction_condition_active ?d \<and> junction_condition_since_ms ?d = t
          \<and> ts - t < CONTROL_JUNCTION_CROSS_CLEAR_MS)"
    using Cons.prems(1) crossing_step [OF _ off] crossed_step [OF _ off] by fastforce
  show ?case
  proof (cases ws)
    case Nil
    then show ?thesis using step Cons.prems(4) by (auto simp: w taken_at_def not_less)
  next
    case (Cons w' ws')
    then have "maneuvering (samples ws ?d) CONTROL_JUNCTION_IDLE ROUTE_ACTION_GO_STRAIGHT plan"
      using step Cons.prems(2,4) by (intro Cons.IH) auto
    then show ?thesis by (simp add: w)
  qed
qed simp

lemma crossing_ends:
  assumes c: "maneuvering c CONTROL_JUNCTION_CROSS_STRAIGHT ROUTE_ACTION_GO_STRAIGHT plan"
    and fresh: "\<not> junction_condition_active c"
    and ss: "\<forall>s\<in>set ss. on_stripe s" and ws: "\<forall>s\<in>set (w # ws). \<not> on_stripe s"
    and apart: "CONTROL_JUNCTION_CROSS_CLEAR_MS \<le> taken_at (last (w # ws)) - taken_at w"
  shows "maneuvering (samples (ss @ w # ws) c) CONTROL_JUNCTION_IDLE ROUTE_ACTION_GO_STRAIGHT plan"
proof -
  define d where "d = samples ss c"
  note d = crossing_stays_on_stripe [OF c fresh ss, folded d_def]
  obtain l m r ts where w: "w = (l, m, r, ts)" by (cases w)
  have "(maneuvering (sample w d) CONTROL_JUNCTION_CROSS_STRAIGHT ROUTE_ACTION_GO_STRAIGHT plan
        \<and> junction_condition_active (sample w d) \<and> junction_condition_since_ms (sample w d) = taken_at w)
      \<or> maneuvering (sample w d) CONTROL_JUNCTION_IDLE ROUTE_ACTION_GO_STRAIGHT plan"
    using crossing_step [of d plan l r m ts] d ws by (auto simp: w sample_views)
  moreover have "ws \<noteq> []" using apart by auto
  ultimately have "maneuvering (samples ws (sample w d)) CONTROL_JUNCTION_IDLE ROUTE_ACTION_GO_STRAIGHT plan"
    using ws apart by (intro crossing_off [where t = "taken_at w"]) auto
  then show ?thesis by (simp add: d_def)
qed

text \<open>A turn: forward to the center, off the old line, onto the new one.\<close>

definition later :: "u32 \<Rightarrow> u32 \<Rightarrow> bool" where
  "later s t \<longleftrightarrow> 0 < sint (t - s)"

lemma turn_not_predated:
  "later (junction_turn_started_at_ms c) ts \<Longrightarrow> \<not> ControlLogic_LineSamplePredatesActiveTurn c ts"
  by (simp add: later_def ControlLogic_LineSamplePredatesActiveTurn_def)

lemma turning_follow:
  "ctl_state e = ctl_state c \<Longrightarrow> pending_route_action e = pending_route_action c \<Longrightarrow> follows e a = follows c a"
  by (rule follows_cong)

lemma approach_step:
  assumes c: "maneuvering c CONTROL_JUNCTION_APPROACH_CENTER a plan" and a: "ControlLogic_IsNinetyDegreeTurn a"
    and act: "junction_action c = a" and off: "\<not> (l \<and> r)"
    and far: "t1 - junction_phase_started_at_ms c \<ge> CONTROL_JUNCTION_CENTER_ADVANCE_MS"
  shows "maneuvering (sample (l, m, r, t1) c) CONTROL_JUNCTION_TURN_CLEAR_SOURCE a plan
    \<and> junction_action (sample (l, m, r, t1) c) = a \<and> junction_turn_started_at_ms (sample (l, m, r, t1) c) = t1
    \<and> \<not> junction_condition_active (sample (l, m, r, t1) c)"
proof -
  let ?e = "sample (l, m, r, t1) c"
  have "\<not> ControlLogic_LineSamplePredatesActiveTurn c t1"
    using c by (simp add: ControlLogic_LineSamplePredatesActiveTurn_def maneuvering_def)
  then have e: "?e = snd (line_approach_center (ControlLogic_ResetMarkerApproach c) False t1)"
    using sample_maneuver [OF c] c a off by (cases l; cases r) (simp_all add: line_maneuver_def maneuvering_def)
  have "job_ok ?e" using c by (simp add: maneuvering_def sampled_ok)
  then show ?thesis
    using c act far follows_cong [of ?e c a] unfolding e
    by (auto simp: line_approach_center_def maneuvering_def ControlLogic_SetJunctionPhase_def Let_def)
qed

text \<open>Until then, whatever the sensors see, the approach goes on and the plan stays.\<close>

lemma approach_stays:
  assumes c: "maneuvering c CONTROL_JUNCTION_APPROACH_CENTER a plan" and a: "ControlLogic_IsNinetyDegreeTurn a"
    and wait: "on_stripe s \<or> taken_at s - junction_phase_started_at_ms c < CONTROL_JUNCTION_CENTER_ADVANCE_MS"
  shows "maneuvering (sample s c) CONTROL_JUNCTION_APPROACH_CENTER a plan
    \<and> junction_action (sample s c) = junction_action c
    \<and> junction_phase_started_at_ms (sample s c) = junction_phase_started_at_ms c"
proof -
  obtain l m r ts where s: "s = (l, m, r, ts)" by (cases s)
  have "\<not> ControlLogic_LineSamplePredatesActiveTurn c ts"
    using c by (simp add: ControlLogic_LineSamplePredatesActiveTurn_def maneuvering_def)
  then have e: "sample s c = ControlLogic_ResetMarkerApproach c"
    using sample_maneuver [OF c] c a wait unfolding s
    by (auto simp: line_maneuver_def maneuvering_def line_approach_center_def sample_views)
  have "job_ok (sample s c)" using c by (simp add: maneuvering_def sampled_ok s)
  then show ?thesis
    using c follows_cong [of "ControlLogic_ResetMarkerApproach c" c a] unfolding e by (simp add: maneuvering_def)
qed

lemma approaching:
  "maneuvering c CONTROL_JUNCTION_APPROACH_CENTER a plan \<Longrightarrow> ControlLogic_IsNinetyDegreeTurn a
   \<Longrightarrow> \<forall>s\<in>set ss. on_stripe s \<or> taken_at s - junction_phase_started_at_ms c < CONTROL_JUNCTION_CENTER_ADVANCE_MS
   \<Longrightarrow> maneuvering (samples ss c) CONTROL_JUNCTION_APPROACH_CENTER a plan
     \<and> junction_action (samples ss c) = junction_action c
     \<and> junction_phase_started_at_ms (samples ss c) = junction_phase_started_at_ms c"
  by (induction ss arbitrary: c) (simp_all add: approach_stays)

lemma clear_step:
  assumes c: "maneuvering c CONTROL_JUNCTION_TURN_CLEAR_SOURCE a plan" and a: "ControlLogic_IsNinetyDegreeTurn a"
    and act: "junction_action c = a" and time: "later (junction_turn_started_at_ms c) ts"
  shows "(let e = sample (False, False, False, ts) c;
              since = (if junction_condition_active c then junction_condition_since_ms c else ts)
     in maneuvering e (if ts - since \<ge> CONTROL_TURN_SOURCE_CLEAR_MS then CONTROL_JUNCTION_TURN_SEARCH_TARGET
                       else CONTROL_JUNCTION_TURN_CLEAR_SOURCE) a plan
        \<and> junction_action e = a \<and> junction_turn_started_at_ms e = junction_turn_started_at_ms c
        \<and> (ts - since < CONTROL_TURN_SOURCE_CLEAR_MS \<longrightarrow>
             junction_condition_active e \<and> junction_condition_since_ms e = since))"
proof -
  let ?e = "sample (False, False, False, ts) c"
  have e: "?e = snd (line_clear_source (ControlLogic_ResetMarkerApproach c) True ts)"
    using sample_maneuver [OF c _ _ turn_not_predated [OF time]] c a
    by (simp add: line_maneuver_def maneuvering_def)
  have "job_ok ?e" using c by (simp add: maneuvering_def sampled_ok)
  moreover have "a \<noteq> ROUTE_ACTION_TURN_AROUND" using a by (auto simp: ControlLogic_IsNinetyDegreeTurn_def)
  ultimately show ?thesis
    using c a act follows_cong [of ?e c a] unfolding e
    by (auto simp: line_clear_source_def maneuvering_def ControlLogic_SetJunctionPhase_def Let_def split_def
        ControlLogic_ConditionStable_def split: bool.splits)
qed


definition new_line :: "route_action_t \<Rightarrow> bool \<Rightarrow> bool \<Rightarrow> bool" where
  "new_line a l r \<longleftrightarrow> a = ROUTE_ACTION_TURN_LEFT \<and> l \<and> \<not> r \<or> a = ROUTE_ACTION_TURN_RIGHT \<and> \<not> l \<and> r"

definition shows_line :: "route_action_t \<Rightarrow> line_sample \<Rightarrow> bool" where
  "shows_line a = (\<lambda>(l, m, r, ts). new_line a l r)"

lemma turn_ends:
  assumes "ControlLogic_HasActiveJob c" "ControlLogic_IsTurning c"
  shows "fst (ControlLogic_CompleteTurn c now)
     \<and> pending_route_action (snd (ControlLogic_CompleteTurn c now)) = ROUTE_ACTION_GO_STRAIGHT
     \<and> ControlLogic_StateExpectsMarker (ctl_state (snd (ControlLogic_CompleteTurn c now)))
     \<and> route_plan (snd (ControlLogic_CompleteTurn c now)) = route_plan c"
  using assms
  by (cases "ctl_state c")
     (simp_all add: ControlLogic_CompleteTurn_def ControlLogic_IsTurning_def complete_turn_into_def
        complete_turn_on_line_def ControlLogic_Transition_def ControlLogic_StateExpectsMarker_def
        ControlLogic_DepartureState_def Let_def)

lemma search_step:
  assumes c: "maneuvering c CONTROL_JUNCTION_TURN_SEARCH_TARGET a plan" and a: "ControlLogic_IsNinetyDegreeTurn a"
    and act: "junction_action c = a" and time: "later (junction_turn_started_at_ms c) ts"
    and edge: "new_line a l r"
  shows "maneuvering (sample (l, m, r, ts) c) CONTROL_JUNCTION_IDLE ROUTE_ACTION_GO_STRAIGHT plan"
proof -
  let ?e = "sample (l, m, r, ts) c"
  define d where "d = (ControlLogic_ResetMarkerApproach c)\<lparr>junction_target_edge_seen := True\<rparr>"
  have "ControlLogic_TargetEdgeDetected (ControlLogic_ResetMarkerApproach c) l m r"
    using edge act by (auto simp: new_line_def ControlLogic_TargetEdgeDetected_def)
  then have e: "?e = snd (finish_turn d ts)"
    using sample_maneuver [OF c _ _ turn_not_predated [OF time]] c a act
    by (simp add: line_maneuver_def maneuvering_def line_search_target_def d_def)
  have "follows c a" "a = ROUTE_ACTION_TURN_LEFT \<or> a = ROUTE_ACTION_TURN_RIGHT"
    using c a by (simp_all add: maneuvering_def ControlLogic_IsNinetyDegreeTurn_def)
  then have "ControlLogic_IsTurning c" by (auto simp: follows_def)
  then have "ControlLogic_HasActiveJob d" "ControlLogic_IsTurning d"
    using under_way(1) [OF c] a
    by (simp_all add: d_def ControlLogic_HasActiveJob_def ControlLogic_IsTurning_def ControlLogic_ResetMarkerApproach_def)
  note turned = turn_ends [OF this, of ts]
  have plan: "route_plan d = plan" using c by (simp add: d_def maneuvering_def)
  have "job_ok ?e" using c by (simp add: maneuvering_def sampled_ok)
  then show ?thesis
    using turned plan unfolding e
    by (simp add: maneuvering_def finish_turn_def ControlLogic_CompleteDetectedTurn_def Let_def split_def follows_def
        ControlLogic_StartJunctionGuard_def ControlLogic_RejectDelayedMarkersThrough_def
        ControlLogic_ResetJunctionManeuver_def split: bool.splits)
qed

text \<open>A turn that began at \<open>t1\<close>, in one of its phases.\<close>

definition turning_in ::
    "control_context_t \<Rightarrow> control_junction_phase_t \<Rightarrow> route_action_t \<Rightarrow> route_plan_t \<Rightarrow> u32 \<Rightarrow> bool" where
  "turning_in c p a plan t1 \<longleftrightarrow> maneuvering c p a plan \<and> ControlLogic_IsNinetyDegreeTurn a
     \<and> junction_action c = a \<and> junction_turn_started_at_ms c = t1"

lemma clear_stays:
  assumes c: "turning_in c CONTROL_JUNCTION_TURN_CLEAR_SOURCE a plan t1"
    and dark: "\<not> all_white s" and time: "later t1 (taken_at s)"
  shows "turning_in (sample s c) CONTROL_JUNCTION_TURN_CLEAR_SOURCE a plan t1
    \<and> \<not> junction_condition_active (sample s c)"
proof -
  obtain l m r ts where s: "s = (l, m, r, ts)" by (cases s)
  have way: "maneuvering c CONTROL_JUNCTION_TURN_CLEAR_SOURCE a plan" "ControlLogic_IsNinetyDegreeTurn a"
      "junction_action c = a" "junction_turn_started_at_ms c = t1"
    using c by (simp_all add: turning_in_def)
  have "\<not> ControlLogic_LineSamplePredatesActiveTurn c ts"
    using time way(4) by (intro turn_not_predated) (simp add: s taken_at_def)
  then have e: "sample s c = snd (line_clear_source (ControlLogic_ResetMarkerApproach c) False ts)"
    using sample_maneuver [OF way(1)] way dark unfolding s
    by (cases l; cases m; cases r) (simp_all add: line_maneuver_def maneuvering_def all_white_def)
  have "job_ok (sample s c)" using way(1) by (simp add: maneuvering_def sampled_ok s)
  moreover have "a \<noteq> ROUTE_ACTION_TURN_AROUND" using way(2) by (auto simp: ControlLogic_IsNinetyDegreeTurn_def)
  ultimately show ?thesis
    using way follows_cong [of "sample s c" c a] unfolding e
    by (simp add: turning_in_def line_clear_source_def maneuvering_def ControlLogic_ConditionStable_def)
qed

lemma clearing:
  "turning_in c CONTROL_JUNCTION_TURN_CLEAR_SOURCE a plan t1 \<Longrightarrow> \<not> junction_condition_active c
   \<Longrightarrow> \<forall>s\<in>set ss. \<not> all_white s \<and> later t1 (taken_at s)
   \<Longrightarrow> turning_in (samples ss c) CONTROL_JUNCTION_TURN_CLEAR_SOURCE a plan t1
     \<and> \<not> junction_condition_active (samples ss c)"
  by (induction ss arbitrary: c) (simp_all add: clear_stays)

lemma search_stays:
  assumes c: "turning_in c CONTROL_JUNCTION_TURN_SEARCH_TARGET a plan t1"
    and none: "\<not> new_line a l r" and time: "later t1 ts"
  shows "turning_in (sample (l, m, r, ts) c) CONTROL_JUNCTION_TURN_SEARCH_TARGET a plan t1"
proof -
  have way: "maneuvering c CONTROL_JUNCTION_TURN_SEARCH_TARGET a plan" "ControlLogic_IsNinetyDegreeTurn a"
      "junction_action c = a" "junction_turn_started_at_ms c = t1"
    using c by (simp_all add: turning_in_def)
  have "\<not> ControlLogic_TargetEdgeDetected (ControlLogic_ResetMarkerApproach c) l m r"
    using none way(2,3) by (auto simp: new_line_def ControlLogic_TargetEdgeDetected_def ControlLogic_IsNinetyDegreeTurn_def)
  moreover have "\<not> ControlLogic_LineSamplePredatesActiveTurn c ts"
    using time way(4) by (intro turn_not_predated) simp
  ultimately have e: "sample (l, m, r, ts) c = ControlLogic_ResetMarkerApproach c"
    using sample_maneuver [OF way(1)] way
    by (simp add: line_maneuver_def maneuvering_def line_search_target_def)
  have "job_ok (sample (l, m, r, ts) c)" using way(1) by (simp add: maneuvering_def sampled_ok)
  then show ?thesis
    using way follows_cong [of "ControlLogic_ResetMarkerApproach c" c a] unfolding e
    by (simp add: turning_in_def maneuvering_def)
qed

lemma searching:
  "turning_in c CONTROL_JUNCTION_TURN_SEARCH_TARGET a plan t1
   \<Longrightarrow> \<forall>s\<in>set ss. \<not> shows_line a s \<and> later t1 (taken_at s)
   \<Longrightarrow> turning_in (samples ss c) CONTROL_JUNCTION_TURN_SEARCH_TARGET a plan t1"
proof (induction ss arbitrary: c)
  case (Cons s ss)
  obtain l m r ts where s: "s = (l, m, r, ts)" by (cases s)
  show ?case using Cons.IH [OF search_stays [OF Cons.prems(1)]] Cons.prems(2)
    by (simp add: s shows_line_def taken_at_def)
qed simp

lemma white_step:
  assumes c: "(turning_in c CONTROL_JUNCTION_TURN_CLEAR_SOURCE a plan t1
        \<and> (if junction_condition_active c then junction_condition_since_ms c else ts) = t)
      \<or> turning_in c CONTROL_JUNCTION_TURN_SEARCH_TARGET a plan t1"
    and time: "later t1 ts"
  defines "e \<equiv> sample (False, False, False, ts) c"
  shows "turning_in e CONTROL_JUNCTION_TURN_SEARCH_TARGET a plan t1
      \<or> (turning_in e CONTROL_JUNCTION_TURN_CLEAR_SOURCE a plan t1 \<and> junction_condition_active e
          \<and> junction_condition_since_ms e = t \<and> ts - t < CONTROL_TURN_SOURCE_CLEAR_MS)"
  using c
proof
  assume c: "turning_in c CONTROL_JUNCTION_TURN_CLEAR_SOURCE a plan t1
        \<and> (if junction_condition_active c then junction_condition_since_ms c else ts) = t"
  then show ?thesis
    using clear_step [of c a plan ts, folded e_def] time
    by (cases "CONTROL_TURN_SOURCE_CLEAR_MS \<le> ts - t") (simp_all add: turning_in_def Let_def not_le)
next
  assume "turning_in c CONTROL_JUNCTION_TURN_SEARCH_TARGET a plan t1"
  then show ?thesis
    using search_stays [of c a plan t1 False False ts False] time by (simp add: e_def new_line_def)
qed

lemma whites:
  "(turning_in c CONTROL_JUNCTION_TURN_CLEAR_SOURCE a plan t1
        \<and> junction_condition_active c \<and> junction_condition_since_ms c = t)
      \<or> turning_in c CONTROL_JUNCTION_TURN_SEARCH_TARGET a plan t1
   \<Longrightarrow> \<forall>s\<in>set ws. all_white s \<and> later t1 (taken_at s) \<Longrightarrow> ws \<noteq> []
   \<Longrightarrow> CONTROL_TURN_SOURCE_CLEAR_MS \<le> taken_at (last ws) - t
   \<Longrightarrow> turning_in (samples ws c) CONTROL_JUNCTION_TURN_SEARCH_TARGET a plan t1"
proof (induction ws arbitrary: c)
  case (Cons w ws)
  obtain ts where w: "w = (False, False, False, ts)" using Cons.prems(2) by (cases w) (auto simp: all_white_def)
  have time: "later t1 ts" using Cons.prems(2) by (simp add: w taken_at_def)
  have c: "(turning_in c CONTROL_JUNCTION_TURN_CLEAR_SOURCE a plan t1
        \<and> (if junction_condition_active c then junction_condition_since_ms c else ts) = t)
      \<or> turning_in c CONTROL_JUNCTION_TURN_SEARCH_TARGET a plan t1" using Cons.prems(1) by auto
  note step = white_step [OF c time]
  show ?case
  proof (cases ws)
    case Nil
    then show ?thesis using step Cons.prems(4) by (auto simp: w taken_at_def not_less)
  next
    case (Cons w' ws')
    then have "turning_in (samples ws (sample w c)) CONTROL_JUNCTION_TURN_SEARCH_TARGET a plan t1"
      using step Cons.prems(2,4) by (intro Cons.IH) (auto simp: w)
    then show ?thesis by simp
  qed
qed simp

text \<open>
  The samples of a turn that the junction at \<open>t0\<close> starts: up to the center of the junction
  anything, then the first one off the stripe at \<open>t1\<close>, the old line, 20 ms of white floor, anything
  but the edge of the new line, and the edge.
\<close>

definition turn_leg :: "route_action_t \<Rightarrow> u32 \<Rightarrow> line_sample list \<Rightarrow> line_sample \<Rightarrow> line_sample list \<Rightarrow>
    line_sample list \<Rightarrow> line_sample list \<Rightarrow> line_sample \<Rightarrow> bool" where
  "turn_leg a t0 ahead first old white search edge \<longleftrightarrow>
     (\<forall>s\<in>set ahead. on_stripe s \<or> taken_at s - t0 < CONTROL_JUNCTION_CENTER_ADVANCE_MS)
     \<and> \<not> on_stripe first \<and> CONTROL_JUNCTION_CENTER_ADVANCE_MS \<le> taken_at first - t0
     \<and> (\<forall>s\<in>set (old @ white @ search @ [edge]). later (taken_at first) (taken_at s))
     \<and> (\<forall>s\<in>set old. \<not> all_white s) \<and> (\<forall>s\<in>set white. all_white s) \<and> white \<noteq> []
     \<and> CONTROL_TURN_SOURCE_CLEAR_MS \<le> taken_at (last white) - taken_at (hd white)
     \<and> (\<forall>s\<in>set search. \<not> shows_line a s) \<and> shows_line a edge"

lemma turn_ends_on_line:
  assumes c: "maneuvering c CONTROL_JUNCTION_APPROACH_CENTER a plan" and a: "ControlLogic_IsNinetyDegreeTurn a"
    and act: "junction_action c = a" and leg: "turn_leg a (junction_phase_started_at_ms c) ahead first old white search edge"
  shows "maneuvering (samples (ahead @ first # old @ white @ search @ [edge]) c)
           CONTROL_JUNCTION_IDLE ROUTE_ACTION_GO_STRAIGHT plan"
proof -
  define t1 where "t1 = taken_at first"
  define c0 where "c0 = samples ahead c"
  define c1 where "c1 = sample first c0"
  define c2 where "c2 = samples old c1"
  define c3 where "c3 = samples white c2"
  define c4 where "c4 = samples search c3"
  have c0: "maneuvering c0 CONTROL_JUNCTION_APPROACH_CENTER a plan" "junction_action c0 = a"
      "junction_phase_started_at_ms c0 = junction_phase_started_at_ms c"
    using approaching [OF c a, of ahead] leg act by (simp_all add: turn_leg_def c0_def)
  obtain l1 m1 r1 where first: "first = (l1, m1, r1, t1)" by (cases first) (simp add: t1_def taken_at_def)
  have c1: "turning_in c1 CONTROL_JUNCTION_TURN_CLEAR_SOURCE a plan t1" "\<not> junction_condition_active c1"
    using approach_step [OF c0(1) a c0(2), of l1 r1 t1 m1] leg a c0(3)
    by (simp_all add: turn_leg_def c1_def first turning_in_def sample_views)
  have time: "\<forall>s\<in>set (old @ white @ search @ [edge]). later t1 (taken_at s)"
    using leg by (simp add: turn_leg_def t1_def)
  have c2: "turning_in c2 CONTROL_JUNCTION_TURN_CLEAR_SOURCE a plan t1" "\<not> junction_condition_active c2"
    using clearing [OF c1, of old] leg time by (simp_all add: turn_leg_def c2_def)
  obtain w ws where white: "white = w # ws" using leg by (cases white) (simp_all add: turn_leg_def)
  have w: "w = (False, False, False, taken_at w)" using leg white by (cases w) (simp add: turn_leg_def sample_views)
  have c3: "turning_in c3 CONTROL_JUNCTION_TURN_SEARCH_TARGET a plan t1"
  proof -
    have "ws \<noteq> []" using leg by (auto simp: turn_leg_def white)
    moreover note white_step [of c2 a plan t1 "taken_at w" "taken_at w"]
    ultimately have "turning_in (samples ws (sample w c2)) CONTROL_JUNCTION_TURN_SEARCH_TARGET a plan t1"
      using leg time c2 w by (intro whites [where t = "taken_at w"]) (auto simp: turn_leg_def white)
    then show ?thesis by (simp add: c3_def white)
  qed
  have "turning_in c4 CONTROL_JUNCTION_TURN_SEARCH_TARGET a plan t1"
    using searching [OF c3, of search] leg time by (simp add: turn_leg_def c4_def)
  then have "maneuvering (sample edge c4) CONTROL_JUNCTION_IDLE ROUTE_ACTION_GO_STRAIGHT plan"
    using search_step [of c4 a plan] leg time
    by (cases edge) (simp add: turning_in_def turn_leg_def taken_at_def shows_line_def)
  then show ?thesis by (simp add: c0_def c1_def c2_def c3_def c4_def)
qed

lemma ended_on_line:
  "maneuvering e CONTROL_JUNCTION_IDLE ROUTE_ACTION_GO_STRAIGHT plan \<Longrightarrow> on_line e \<and> route_plan e = plan"
  by (simp add: maneuvering_def on_line_def follows_def)

text \<open>After an arrival nothing under the sensors moves the plan.\<close>

definition arrived :: "control_context_t \<Rightarrow> linetracer_control_state_t \<Rightarrow> route_plan_t \<Rightarrow> bool" where
  "arrived c st plan \<longleftrightarrow> job_ok c \<and> junction_phase c = CONTROL_JUNCTION_IDLE \<and> ctl_state c = st \<and> route_plan c = plan
     \<and> st \<in> {LINETRACER_CONTROL_WAITING_LOAD, LINETRACER_CONTROL_UNLOADING}"

lemma arrived_stays:
  assumes c: "arrived c st plan"
  shows "arrived (sample s c) st plan"
proof -
  obtain l m r ts where s: "s = (l, m, r, ts)" by (cases s)
  have ok: "job_ok c" and driving: "driving (ctl_state c)" using c by (auto simp: arrived_def state_sets)
  note facts = driving_facts [OF ok driving]
  have "expected_marker (route_plan c) = ROUTE_MARKER_NONE"
    using facts(3,5) c by (auto simp: plan_typed_def arrived_def)
  then have code: "ControlLogic_ExpectedMarkerCode e \<noteq> APP_MARKER_JUNCTION" if "leg_view e = leg_view c" for e
    using that by (simp add: ControlLogic_ExpectedMarkerCode_def leg_view_def)
  have "sample s c = snd (line_idle c l r ts)"
    using c facts(1,7)
    by (simp add: s sample_def ControlLogic_ProcessLineSampleWithCenter_def arrived_def
        ControlLogic_LineSamplePredatesActiveTurn_def)
  moreover have "leg_view (snd (line_idle c l r ts)) = leg_view c"
  proof -
    define d where "d = snd (ControlLogic_UpdateCMarkerRearm c (\<not> l \<and> \<not> r) ts)"
    define e where "e = snd (ControlLogic_JunctionGuardActive d ts)"
    define f where "f = ControlLogic_UpdateMarkerApproach e l r (fst (ControlLogic_JunctionGuardActive d ts)) ts"
    have views: "leg_view d = leg_view c" "leg_view f = leg_view c"
      by (simp_all add: d_def e_def f_def leg_view_idle)
    have "snd (line_idle c l r ts) \<in> {d\<lparr>junction_candidate_active := False\<rparr>, f\<lparr>junction_candidate_active := False\<rparr>}"
      using code [OF views(2)]
      unfolding line_idle_def Let_def split_def d_def [symmetric] e_def [symmetric] f_def [symmetric]
      by (simp split: bool.splits)
    then show ?thesis using views by (auto simp: leg_view_idle)
  qed
  moreover have "job_ok (sample s c)" using ok by (simp add: s sampled_ok)
  ultimately show ?thesis using c by (simp add: arrived_def leg_view_def)
qed

lemma arrived_waits: "arrived c st plan \<Longrightarrow> arrived (samples ss c) st plan"
  by (induction ss arbitrary: c) (simp_all add: arrived_stays)

section \<open>A stop on the junction\<close>

lemma stopped:
  assumes "ControlLogic_StateExpectsMarker (ctl_state c)" "ControlLogic_HasActiveJob c"
    and "cmd_type stop = APP_CONTROL_COMMAND_STOP_DRIVE" "cmd_job_id stop = active_job_id c"
    and "now - cmd_received_at_ms stop \<le> UART_COMMAND_TIMEOUT_MS"
  shows "fst (ControlLogic_HandleCommand c stop now) =
    (ControlLogic_ResetJunctionManeuver (c\<lparr>last_command_at_ms := now, resume_state := ctl_state c,
       resume_valid := True, stop_reason := LINETRACER_STOP_REASON_COMMAND\<rparr>))
      \<lparr>ctl_state := LINETRACER_CONTROL_STOPPED, state_entered_at_ms := now\<rparr>"
proof -
  have "ControlLogic_StateCanResume (ctl_state c)" "ctl_state c \<noteq> LINETRACER_CONTROL_UNLOADING"
      "ctl_state c \<noteq> LINETRACER_CONTROL_STOPPED"
    using assms(1) by (auto simp: ControlLogic_StateExpectsMarker_def ControlLogic_StateCanResume_def)
  moreover have "uart_linetracer_job_id_is_valid (to_u32 (active_job_id c))"
    using assms(2) by (simp add: ControlLogic_HasActiveJob_def)
  moreover have "ControlLogic_HasActiveJob (c\<lparr>last_command_at_ms := now\<rparr>)"
    using assms(2) by (simp add: ControlLogic_HasActiveJob_def)
  ultimately show ?thesis
    using assms
    by (simp add: ControlLogic_HandleCommand_def ControlLogic_CommandTimedOut_def dispatch_command_def
        ControlLogic_HandleStop_def ControlLogic_Transition_def ControlLogic_ResetJunctionManeuver_def
        ControlLogic_ResetMarkerApproach_def Let_def not_less split_def)
qed


lemma resumed:
  assumes "ctl_state s = LINETRACER_CONTROL_STOPPED" "stop_reason s = LINETRACER_STOP_REASON_COMMAND"
    and "resume_valid s" "ControlLogic_HasActiveJob s" "\<not> safety_latched s"
    and "ControlLogic_StateExpectsMarker (resume_state s)"
    and "cmd_type resume = APP_CONTROL_COMMAND_RESUME_DRIVE"
    and "now - cmd_received_at_ms resume \<le> UART_COMMAND_TIMEOUT_MS"
  shows "fst (ControlLogic_HandleCommand s resume now) =
    s\<lparr>last_command_at_ms := now, ctl_state := resume_state s, state_entered_at_ms := now,
      marker_wait_started_at_ms := now, resume_valid := False, stop_reason := LINETRACER_STOP_REASON_NONE\<rparr>"
proof -
  have "ControlLogic_StateCanResume (resume_state s)" "resume_state s \<noteq> LINETRACER_CONTROL_STOPPED"
      "resume_state s \<noteq> LINETRACER_CONTROL_EMERGENCY_STOPPED" "resume_state s \<noteq> LINETRACER_CONTROL_OBSTACLE_STOP"
      "resume_state s \<noteq> LINETRACER_CONTROL_ERROR"
    using assms(6) by (auto simp: ControlLogic_StateExpectsMarker_def ControlLogic_StateCanResume_def)
  moreover have "ControlLogic_HasActiveJob (s\<lparr>last_command_at_ms := now\<rparr>)"
    using assms(4) by (simp add: ControlLogic_HasActiveJob_def)
  ultimately show ?thesis
    using assms
    by (simp add: ControlLogic_HandleCommand_def ControlLogic_CommandTimedOut_def dispatch_command_def
        ControlLogic_HandleResume_def ControlLogic_Transition_def Let_def not_less split_def)
qed

text \<open>A stop and the resume after it, taken in time and for the job at hand.\<close>

definition stop_and_resume ::
    "control_context_t \<Rightarrow> app_control_command_t \<Rightarrow> u32 \<Rightarrow> app_control_command_t \<Rightarrow> u32 \<Rightarrow> control_context_t" where
  "stop_and_resume c stop now1 resume now2 =
     fst (ControlLogic_HandleCommand (fst (ControlLogic_HandleCommand c stop now1)) resume now2)"

definition in_time :: "app_control_command_t \<Rightarrow> u32 \<Rightarrow> bool" where
  "in_time command now \<longleftrightarrow> now - cmd_received_at_ms command \<le> UART_COMMAND_TIMEOUT_MS"

lemma stop_resume_fields:
  assumes "ControlLogic_StateExpectsMarker (ctl_state c)" "ControlLogic_HasActiveJob c" "\<not> safety_latched c"
    and "cmd_type stop = APP_CONTROL_COMMAND_STOP_DRIVE" "cmd_job_id stop = active_job_id c" "in_time stop now1"
    and "cmd_type resume = APP_CONTROL_COMMAND_RESUME_DRIVE" "in_time resume now2"
  shows "ctl_state (stop_and_resume c stop now1 resume now2) = ctl_state c
    \<and> junction_phase (stop_and_resume c stop now1 resume now2) = CONTROL_JUNCTION_IDLE
    \<and> route_plan (stop_and_resume c stop now1 resume now2) = route_plan c
    \<and> c_marker_rearm_pending (stop_and_resume c stop now1 resume now2) = c_marker_rearm_pending c
    \<and> junction_guard_active (stop_and_resume c stop now1 resume now2) = junction_guard_active c
    \<and> \<not> junction_candidate_active (stop_and_resume c stop now1 resume now2)
    \<and> ControlLogic_MarkerIsDuplicate (stop_and_resume c stop now1 resume now2) k t
        = ControlLogic_MarkerIsDuplicate c k t"
proof -
  have stop: "now1 - cmd_received_at_ms stop \<le> UART_COMMAND_TIMEOUT_MS"
    and resume: "now2 - cmd_received_at_ms resume \<le> UART_COMMAND_TIMEOUT_MS"
    using assms(6,8) by (simp_all add: in_time_def)
  define s where "s = fst (ControlLogic_HandleCommand c stop now1)"
  note s = s_def [unfolded stopped [OF assms(1,2,4,5) stop]]
  have "ctl_state s = LINETRACER_CONTROL_STOPPED" "stop_reason s = LINETRACER_STOP_REASON_COMMAND" "resume_valid s"
      "ControlLogic_HasActiveJob s" "\<not> safety_latched s" "resume_state s = ctl_state c"
    using assms(2,3) by (simp_all add: s ControlLogic_ResetJunctionManeuver_def ControlLogic_ResetMarkerApproach_def
        ControlLogic_HasActiveJob_def)
  then show ?thesis
    using resumed [of s resume now2] assms(1,7) resume
    by (simp add: stop_and_resume_def flip: s_def)
       (simp add: s ControlLogic_ResetJunctionManeuver_def ControlLogic_ResetMarkerApproach_def
          ControlLogic_MarkerIsDuplicate_def)
qed

lemma stop_resume_on_line:
  assumes "job_ok c" "ControlLogic_StateExpectsMarker (ctl_state c)" "ControlLogic_HasActiveJob c" "\<not> safety_latched c"
    and "cmd_type stop = APP_CONTROL_COMMAND_STOP_DRIVE" "cmd_job_id stop = active_job_id c" "in_time stop now1"
    and "cmd_type resume = APP_CONTROL_COMMAND_RESUME_DRIVE" "in_time resume now2"
  shows "on_line (stop_and_resume c stop now1 resume now2)"
proof -
  have "job_ok (stop_and_resume c stop now1 resume now2)"
    using command_ok [OF command_ok [OF assms(1)]] by (simp add: stop_and_resume_def)
  then show ?thesis
    using stop_resume_fields [OF assms(2-9)] assms(2) by (simp add: on_line_def)
qed

section \<open>A job for the examples\<close>

definition server_command :: "app_control_command_type_t \<Rightarrow> app_control_command_t" where
  "server_command ty =
     \<lparr>cmd_type = ty, cmd_received_at_ms = 0, cmd_job_id = 7, cmd_original_payload_crc = 0,
      cmd_route_id = UART_LINETRACER_ROUTE_A, cmd_position = UART_LINETRACER_POSITION_DEST_A, cmd_sequence = 0,
      cmd_original_command = 0, cmd_original_payload_length = 0\<rparr>"

definition departed :: control_context_t where
  "departed = fst (ControlLogic_HandleCommand (fst (ControlLogic_HandleCommand (ControlLogic_Init zero_context 0)
     (server_command APP_CONTROL_COMMAND_SET_CURRENT_POSITION) 0))
     (server_command APP_CONTROL_COMMAND_ASSIGN_ROUTE) 0)"


lemma departed_fields:
  "ctl_state departed = LINETRACER_CONTROL_MOVING_TO_SOURCE_JUNCTION
   \<and> junction_phase departed = CONTROL_JUNCTION_IDLE \<and> \<not> c_marker_rearm_pending departed
   \<and> \<not> junction_guard_active departed \<and> \<not> junction_candidate_active departed \<and> \<not> last_marker_valid departed
   \<and> active_job_id departed = 7
   \<and> fst (RoutePlanner_OnMarker (route_plan departed)) = ROUTE_ACTION_GO_STRAIGHT"
  by (simp add: departed_def server_command_def ControlLogic_HandleCommand_def ControlLogic_Init_def
      ControlLogic_CommandTimedOut_def dispatch_command_def ControlLogic_HandleSetPosition_def
      ControlLogic_HandleAssignRoute_def assign_job_def ControlLogic_Transition_def ControlLogic_DepartureState_def
      ControlLogic_ResetCMarkerRearm_def ControlLogic_ResetMarkerApproach_def zero_context_def zero_plan_def
      ControlLogic_ResetJunctionManeuver_def RoutePlanner_Reset_def RoutePlanner_Create_def route_planner_defs
      job_id_valid_u16 uart_linetracer_route_is_valid_def uart_linetracer_position_is_valid_def
      ControlLogic_StateExpectsMarker_def Let_def split_def)

lemma departed_on_line: "on_line departed"
  using departed_fields command_ok [OF command_ok [OF init_ok_job]]
  by (simp add: on_line_def departed_def ControlLogic_StateExpectsMarker_def)

lemma departed_sees: "ts \<noteq> 0 \<Longrightarrow> sees_junction departed ts"
  using departed_fields
  by (simp add: sees_junction_def ControlLogic_JunctionGuardActive_def ControlLogic_MarkerIsDuplicate_def)

text \<open>The vehicle of the example on the first junction.\<close>

definition crossing :: control_context_t where
  "crossing = sample (True, True, True, 1000) departed"

lemma crossing_fields:
  "\<not> c_marker_rearm_pending crossing \<and> \<not> junction_guard_active crossing
   \<and> last_marker_detected_at_ms crossing = 1000 \<and> active_job_id crossing = 7"
  by code_simp

lemma crossing_maneuver:
  "maneuvering crossing CONTROL_JUNCTION_CROSS_STRAIGHT ROUTE_ACTION_GO_STRAIGHT
     (snd (RoutePlanner_OnMarker (route_plan departed)))"
  using junction_taken(1) [OF departed_on_line departed_sees [of 1000], of True] departed_fields
  by (simp add: maneuver_of_def crossing_def)

section \<open>Properties\<close>

text \<open>
  C12: A new junction under the sensors is taken exactly once, by the plan, however many samples
  show its stripe. On straight ahead the vehicle is back on its line after any number of further
  samples on the stripe and samples off it for 50 ms; on a turn it is on its new line after
  anything up to the center of the junction, the first sample off the stripe, anything of the
  old line, 20 ms of white floor, and anything up to the edge of the new line; on an arrival it
  waits for its load or unloads whatever the sensors see. The plan has advanced by exactly this
  marker.
\<close>

theorem legs_follow_the_plan:
  fixes c :: control_context_t
  defines "a \<equiv> fst (RoutePlanner_OnMarker (route_plan c))" and "plan \<equiv> snd (RoutePlanner_OnMarker (route_plan c))"
  assumes "on_line c" and "sees_junction c t0"
  shows "(a = ROUTE_ACTION_GO_STRAIGHT \<longrightarrow> (\<forall>s\<in>set stripe. on_stripe s) \<longrightarrow> (\<forall>s\<in>set (w # off). \<not> on_stripe s)
            \<longrightarrow> CONTROL_JUNCTION_CROSS_CLEAR_MS \<le> taken_at (last (w # off)) - taken_at w
            \<longrightarrow> (let e = samples ((True, m, True, t0) # stripe @ w # off) c in on_line e \<and> route_plan e = plan))
    \<and> (ControlLogic_IsNinetyDegreeTurn a \<longrightarrow> turn_leg a t0 ahead first old white search edge
            \<longrightarrow> (let e = samples ((True, m, True, t0) # ahead @ first # old @ white @ search @ [edge]) c
                 in on_line e \<and> route_plan e = plan))
    \<and> (a \<noteq> ROUTE_ACTION_GO_STRAIGHT \<longrightarrow> \<not> ControlLogic_IsNinetyDegreeTurn a
            \<longrightarrow> (let e = samples ((True, m, True, t0) # anything) c
                 in route_plan e = plan \<and> (a, ctl_state e) \<in>
                      {(ROUTE_ACTION_STOP_AT_PICKUP, LINETRACER_CONTROL_WAITING_LOAD),
                       (ROUTE_ACTION_STOP_AT_DEST, LINETRACER_CONTROL_UNLOADING)}))"
proof -
  define e where "e = sample (True, m, True, t0) c"
  note taken = junction_taken [OF assms(3,4), of m, folded a_def plan_def e_def]
  have "on_line (samples (stripe @ w # off) e) \<and> route_plan (samples (stripe @ w # off) e) = plan"
    if "a = ROUTE_ACTION_GO_STRAIGHT" "\<forall>s\<in>set stripe. on_stripe s" "\<forall>s\<in>set (w # off). \<not> on_stripe s"
      "CONTROL_JUNCTION_CROSS_CLEAR_MS \<le> taken_at (last (w # off)) - taken_at w"
    by (intro ended_on_line crossing_ends) (use taken that in \<open>simp_all add: maneuver_of_def\<close>)
  moreover have "on_line (samples (ahead @ first # old @ white @ search @ [edge]) e)
      \<and> route_plan (samples (ahead @ first # old @ white @ search @ [edge]) e) = plan"
    if "ControlLogic_IsNinetyDegreeTurn a" "turn_leg a t0 ahead first old white search edge"
  proof -
    have "a \<noteq> ROUTE_ACTION_GO_STRAIGHT" using that(1) by (auto simp: ControlLogic_IsNinetyDegreeTurn_def)
    then show ?thesis
      by (intro ended_on_line turn_ends_on_line [where a = a]) (use taken that in \<open>simp_all add: maneuver_of_def\<close>)
  qed
  moreover have "route_plan (samples anything e) = plan \<and> (a, ctl_state (samples anything e)) \<in>
      {(ROUTE_ACTION_STOP_AT_PICKUP, LINETRACER_CONTROL_WAITING_LOAD),
       (ROUTE_ACTION_STOP_AT_DEST, LINETRACER_CONTROL_UNLOADING)}"
    if "a \<noteq> ROUTE_ACTION_GO_STRAIGHT" "\<not> ControlLogic_IsNinetyDegreeTurn a"
  proof -
    have "arrived e (ctl_state e) plan"
      using taken(1) that
      by (cases a) (simp_all add: maneuvering_def follows_def ControlLogic_IsNinetyDegreeTurn_def maneuver_of_def arrived_def)
    note arrived_waits [OF this, of anything]
    then show ?thesis
      using taken(1) that
      by (cases a) (simp_all add: maneuvering_def follows_def ControlLogic_IsNinetyDegreeTurn_def arrived_def)
  qed
  ultimately show ?thesis
    by (simp add: Let_def flip: e_def)
qed

theorem legs_follow_the_plan_witness:
  "on_line (samples [(True, True, True, 1000), (True, True, True, 1010), (True, False, True, 1020),
      (False, True, False, 1200), (True, True, False, 1230), (False, True, False, 1260)] departed)"
  using legs_follow_the_plan [OF departed_on_line departed_sees [of 1000],
      of "[(True, True, True, 1010), (True, False, True, 1020)]" "(False, True, False, 1200)"
        "[(True, True, False, 1230), (False, True, False, 1260)]"]
    departed_fields by (simp add: Let_def sample_views)

text \<open>
  C15: A STOP and RESUME of the linetracer while it is crossing a junction makes the next sample
  on the same stripe advance the route plan a second time, although without the stop it does
  not: the count of junctions is off by one and the vehicle turns or stops at the wrong one.
\<close>

theorem stop_on_a_junction_counts_it_twice:
  assumes "maneuvering c CONTROL_JUNCTION_CROSS_STRAIGHT ROUTE_ACTION_GO_STRAIGHT plan"
    and "\<not> c_marker_rearm_pending c" and "\<not> junction_guard_active c"
    and "ts \<noteq> 0" and "\<not> ControlLogic_MarkerIsDuplicate c APP_MARKER_JUNCTION ts"
    and "cmd_type stop = APP_CONTROL_COMMAND_STOP_DRIVE" "cmd_job_id stop = active_job_id c" "in_time stop now1"
    and "cmd_type resume = APP_CONTROL_COMMAND_RESUME_DRIVE" "in_time resume now2"
  shows "route_plan (sample (True, m, True, ts) c) = plan
    \<and> route_plan (sample (True, m, True, ts) (stop_and_resume c stop now1 resume now2))
        = snd (RoutePlanner_OnMarker plan)"
proof -
  let ?e = "stop_and_resume c stop now1 resume now2"
  have way: "ControlLogic_HasActiveJob c" "\<not> safety_latched c" "job_ok c"
    using under_way [OF assms(1)] by simp_all
  have c: "ControlLogic_StateExpectsMarker (ctl_state c)" "route_plan c = plan"
    using assms(1) by (simp_all add: maneuvering_def follows_def)
  have "\<not> ControlLogic_LineSamplePredatesActiveTurn c ts"
    using assms(1) by (simp add: ControlLogic_LineSamplePredatesActiveTurn_def maneuvering_def)
  then have "sample (True, m, True, ts) c = snd (line_cross_straight (ControlLogic_ResetMarkerApproach c) True ts)"
    using sample_maneuver [OF assms(1)] assms(1) by (simp add: line_maneuver_def maneuvering_def)
  then have same: "route_plan (sample (True, m, True, ts) c) = plan"
    using c(2) by (simp add: line_cross_straight_def ControlLogic_ConditionStable_def Let_def)
  note fields = stop_resume_fields [OF c(1) way(1,2) assms(6-10)]
  have seen: "sees_junction ?e ts"
    using fields assms(2-5) by (simp add: sees_junction_def ControlLogic_JunctionGuardActive_def)
  have "on_line ?e" by (rule stop_resume_on_line [OF way(3) c(1) way(1,2) assms(6-10)])
  then have "route_plan (sample (True, m, True, ts) ?e) = snd (RoutePlanner_OnMarker plan)"
    using junction_taken(1) [of ?e ts m] seen fields c(2) by (simp add: maneuvering_def)
  then show ?thesis using same by simp
qed

theorem stop_on_a_junction_counts_it_twice_witness:
  "route_plan (sample (True, True, True, 1500) crossing) \<noteq>
   route_plan (sample (True, True, True, 1500)
     (stop_and_resume crossing (server_command APP_CONTROL_COMMAND_STOP_DRIVE) 1200
        (server_command APP_CONTROL_COMMAND_RESUME_DRIVE) 1400))"
proof -
  have "\<not> ControlLogic_MarkerIsDuplicate crossing APP_MARKER_JUNCTION 1500"
    using crossing_fields by (simp add: ControlLogic_MarkerIsDuplicate_def)
  moreover have "snd (RoutePlanner_OnMarker (route_plan departed)) \<noteq>
      snd (RoutePlanner_OnMarker (snd (RoutePlanner_OnMarker (route_plan departed))))"
    by code_simp
  ultimately show ?thesis
    using stop_on_a_junction_counts_it_twice [OF crossing_maneuver, of 1500
      "server_command APP_CONTROL_COMMAND_STOP_DRIVE" 1200 "server_command APP_CONTROL_COMMAND_RESUME_DRIVE" 1400 True]
      crossing_fields by (simp add: in_time_def server_command_def)
qed

end
