(* ===== verification/Linetracer_Wheels.thy ===== *)
theory Linetracer_Wheels
  imports Linetracer_Latch
begin

text \<open>
  The wheels over the runs of the line tracer's control task: whatever the task computes, the motor
  driver shows the last output that was applied, within the timer's period and with a definite
  direction for each wheel.
\<close>

section \<open>Every operation keeps the driver consistent\<close>

text \<open>The outputs reach the driver only through the drive functions of the motor controller.\<close>

abbreviation wheels_ok :: "control_task \<Rightarrow> bool" where
  "wheels_ok t \<equiv> drive_ok (ctk_drive t)"

lemma force_stop_wheels [simp]: "wheels_ok (force_stop t)"
  by (simp add: force_stop_def force_stop_ok)

lemma clear_reset_drive [simp]: "ctk_drive (ControlTask_ClearPendingUnloadReset t) = ctk_drive t"
  by (simp add: ControlTask_ClearPendingUnloadReset_def)

lemma apply_output_wheels [simp]:
  "wheels_ok t \<Longrightarrow> wheels_ok (snd (ControlTask_ApplyMotorOutput out now t))"
  by (simp add: ControlTask_ApplyMotorOutput_def Let_def split_def apply_ok)

lemma route_motor_wheels [simp]:
  "wheels_ok t \<Longrightarrow> wheels_ok (snd (ControlTask_ApplyRouteActionMotor a now t))"
  by (simp add: ControlTask_ApplyRouteActionMotor_def split: option.splits)

lemma request_reset_drive [simp]:
  "ctk_drive (snd (ControlTask_RequestUnloadReset now g t)) = ctk_drive t"
  by (simp add: ControlTask_RequestUnloadReset_def Let_def split_def split: bool.splits)

lemma hold_reset_drive [simp]: "ctk_drive (snd (hold_reset event now t)) = ctk_drive t"
  by (simp add: hold_reset_def Let_def split_def split: option.splits)

lemma safety_event_wheels [simp]: "wheels_ok (safety_event event t)"
  by (simp add: safety_event_def Let_def split_def split: option.splits)

lemma process_safety_wheels [simp]: "wheels_ok t \<Longrightarrow> wheels_ok (process_safety_events n t)"
proof (induction n t rule: process_safety_events.induct)
  case (2 n t)
  then show ?case
    by (cases "osMessageQueueGet (controlSafetyQueue (ctk_queues t)) 0")
       (auto split: osStatus_t.splits option.splits)
qed simp

lemma publish_job_drive [simp]: "ctk_drive (publish_job ty now t) = ctk_drive t"
  by (simp add: publish_job_def)

lemma report_route_drive [simp]:
  "ctk_drive (report_route_action action applied completion now t) = ctk_drive t"
  by (simp add: report_route_action_def Let_def split: route_action_t.splits option.splits)

lemma route_action_wheels [simp]:
  "wheels_ok t \<Longrightarrow> wheels_ok (ControlTask_ProcessRouteAction action previous completion now t)"
  by (simp add: ControlTask_ProcessRouteAction_def Let_def split_def)

lemma line_input_wheels [simp]:
  "wheels_ok t \<Longrightarrow> wheels_ok (snd (ControlTask_ProcessLineInput l m r ts now t))"
  by (simp add: ControlTask_ProcessLineInput_def Let_def split_def)

lemma reject_reset_wheels [simp]: "wheels_ok t \<Longrightarrow> wheels_ok (ControlTask_RejectPendingUnloadReset err now t)"
  by (simp add: ControlTask_RejectPendingUnloadReset_def Let_def)

lemma reset_timeout_wheels [simp]:
  "wheels_ok t \<Longrightarrow> wheels_ok (ControlTask_CheckPendingUnloadResetTimeout now t)"
  by (simp add: ControlTask_CheckPendingUnloadResetTimeout_def)

lemma unload_result_wheels [simp]: "wheels_ok t \<Longrightarrow> wheels_ok (unload_result result t)"
  by (simp add: unload_result_def split_def unload_reset_result_def unload_job_result_def Let_def)

lemma process_unload_wheels [simp]: "wheels_ok t \<Longrightarrow> wheels_ok (process_unload_results n t)"
proof (induction n t rule: process_unload_results.induct)
  case (2 n t)
  then show ?case
    by (cases "osMessageQueueGet (unloadResultQueue (ctk_queues t)) 0")
       (auto split: osStatus_t.splits option.splits)
qed simp

lemma snapshot_parts_wheels [simp]:
  "ctk_drive (store_snapshot snapshot t) = ctk_drive t"
  "wheels_ok t \<Longrightarrow> wheels_ok (snapshot_load_on snapshot now t)"
  "wheels_ok t \<Longrightarrow> wheels_ok (snapshot_marker_cleared snapshot ts now t)"
  "wheels_ok t \<Longrightarrow> wheels_ok (snapshot_marker snapshot now t)"
  "wheels_ok t \<Longrightarrow> wheels_ok (snapshot_load_off snapshot now t)"
  "ctk_drive (snd (ControlTask_UpdateRouteMarkerArm snapshot ts t)) = ctk_drive t"
  by (simp_all add: store_snapshot_def snapshot_load_on_def snapshot_marker_cleared_def snapshot_marker_def
      snapshot_load_off_def ControlTask_UpdateRouteMarkerArm_def Let_def split_def)

lemma snapshot_wheels [simp]: "wheels_ok t \<Longrightarrow> wheels_ok (snd (sensor_snapshot snapshot t))"
  by (simp add: sensor_snapshot_def Let_def split_def split: bool.splits)

lemma process_snapshots_wheels [simp]: "wheels_ok t \<Longrightarrow> wheels_ok (process_snapshots n t)"
proof (induction n t rule: process_snapshots.induct)
  case (2 n t)
  obtain status msg mq where get: "osMessageQueueGet (sensorSnapshotQueue (ctk_queues t)) 0 = (status, msg, mq)"
    by (cases "osMessageQueueGet (sensorSnapshotQueue (ctk_queues t)) 0")
  let ?t = "t\<lparr>ctk_queues := (ctk_queues t)\<lparr>sensorSnapshotQueue := mq\<rparr>\<rparr>"
  show ?case
  proof (cases "\<exists>x. status = osOK \<and> msg = Some x")
    case True
    then obtain x where x: "status = osOK" "msg = Some x" by blast
    obtain found u where step: "sensor_snapshot x ?t = (found, u)" by (cases "sensor_snapshot x ?t")
    have "wheels_ok u" using snapshot_wheels [of ?t x] 2(2) step by simp
    then have "\<not> found \<Longrightarrow> wheels_ok (process_snapshots n u)"
      using 2(1) [OF get [symmetric] x(1) refl x(2) step [symmetric]] by simp
    then show ?thesis using \<open>wheels_ok u\<close> get x step by (cases found) simp_all
  next
    case False
    then show ?thesis using get 2(2) by (auto split: osStatus_t.splits option.splits)
  qed
qed simp

lemma command_wheels [simp]: "wheels_ok t \<Longrightarrow> wheels_ok (control_command command t)"
  by (simp add: control_command_def Let_def split_def)

lemma process_commands_wheels [simp]: "wheels_ok t \<Longrightarrow> wheels_ok (process_commands n t)"
proof (induction n t rule: process_commands.induct)
  case (2 n t)
  then show ?case
    by (cases "osMessageQueueGet (controlCommandQueue (ctk_queues t)) 0")
       (auto simp del: control_command_frame split: osStatus_t.splits option.splits)
qed simp

lemma motor_output_wheels [simp]:
  "wheels_ok t \<Longrightarrow> wheels_ok (ControlTask_UpdateMotorOutput rnd now t)"
proof -
  assume ok: "wheels_ok t"
  have advanced: "ctk_drive (advance_maneuver now t) = ctk_drive t"
    by (auto simp: advance_maneuver_def Let_def split_def split: bool.splits)
  have "wheels_ok u \<Longrightarrow> wheels_ok (drive_reacquire rnd now u) \<and> wheels_ok (drive_maneuver now u)
      \<and> wheels_ok (drive_line rnd now u) \<and> wheels_ok (drive_state now u)" for u
    by (simp add: drive_reacquire_def drive_maneuver_def drive_line_def drive_state_def update_pid_def
        Let_def split_def split: option.splits)
  then show ?thesis
    using ok advanced by (simp add: ControlTask_UpdateMotorOutput_def Let_def)
qed

lemma cycle_wheels: "wheels_ok t \<Longrightarrow> wheels_ok (control_cycle rnd t)"
  by (simp add: cycle_split cycle_inputs_def split_def Let_def ControlTask_ProcessSafetyEvents_def
      ControlTask_ProcessUnloadResults_def ControlTask_ProcessSensorSnapshots_def ControlTask_ProcessCommands_def)

section \<open>Every state of the wheels\<close>

text \<open>
  The runs of the task as the wheels see them: the start-up, then cycles, between which the other
  tasks may stop the wheels and change anything else.
\<close>

inductive wheel_run :: "(rat \<Rightarrow> rat) \<Rightarrow> control_task \<Rightarrow> bool" for rnd where
  wheels_start: "wheel_run rnd (start_control_task t)"
| wheels_others: "wheel_run rnd t \<Longrightarrow>
     ctk_drive u = ctk_drive t \<or> ctk_drive u = MotorControl_ForceStop (ctk_drive t) \<Longrightarrow> wheel_run rnd u"
| wheels_cycle: "wheel_run rnd t \<Longrightarrow> wheel_run rnd (control_cycle rnd t)"

lemma start_wheels: "wheels_ok (start_control_task t)"
  by (simp add: start_control_task_def Let_def split_def lt_init_ok)

lemma wheel_run_ok: "wheel_run rnd t \<Longrightarrow> wheels_ok t"
  by (induction rule: wheel_run.induct) (auto simp: start_wheels cycle_wheels force_stop_ok)

text \<open>
  C16: Over every run of the linetracer's control task, whatever the floating-point unit rounds
  to, both PWM compare values stay within the timer's period, the two inputs of a wheel's bridge
  are never high together, and the standby pin agrees with the last applied output.
\<close>

theorem wheels_within_limits:
  assumes "wheel_run rnd t"
  shows "wheel_compare (ctk_drive t) TIM3_Channel_1 \<le> 999 \<and> wheel_compare (ctk_drive t) TIM3_Channel_2 \<le> 999
    \<and> \<not> (gpioc (ctk_drive t) MOTOR_LEFT_IN1 \<and> gpioc (ctk_drive t) MOTOR_LEFT_IN2)
    \<and> \<not> (gpioc (ctk_drive t) MOTOR_RIGHT_IN1 \<and> gpioc (ctk_drive t) MOTOR_RIGHT_IN2)
    \<and> gpioc (ctk_drive t) MOTOR_STBY_PIN = standby (motorControlLastOutput (ctk_drive t))"
  using wheel_run_ok [OF assms]
  by (auto simp: drive_ok_def wheel_pins_def MotorControl_OutputIsValid_def not_less)

theorem wheels_within_limits_witness:
  "wheel_compare (ctk_drive (control_cycle (\<lambda>x. x) (start_control_task power_on))) TIM3_Channel_1 \<le> 999"
  using wheels_within_limits [OF wheels_cycle [OF wheels_start [of "\<lambda>x. x" power_on]]] by simp

end
