(* ===== verification/Linetracer_Unload.thy ===== *)
theory Linetracer_Unload
  imports Linetracer_Queues
begin

text \<open>
  The unload task of the line tracer (\<open>stm32/linetracer-controller/Application/Src/unload_logic.c\<close>,
  \<open>unload_hw.c\<close>, \<open>unload_task.c\<close>): the sequence of one unloading, the two servos that tilt the
  platform with the safety gate in front of them, and the round of the task.
\<close>

abbreviation (input) UNLOAD_SERVO_DEPLOY_MS :: u32 where "UNLOAD_SERVO_DEPLOY_MS \<equiv> 700"
abbreviation (input) UNLOAD_SERVO_HOME_MS :: u32 where "UNLOAD_SERVO_HOME_MS \<equiv> 500"
abbreviation (input) UNLOAD_OPERATION_TIMEOUT_MS :: u32 where "UNLOAD_OPERATION_TIMEOUT_MS \<equiv> 5000"
abbreviation (input) UNLOAD_SENSOR_SNAPSHOT_MAX_AGE_MS :: u32 where
  "UNLOAD_SENSOR_SNAPSHOT_MAX_AGE_MS \<equiv> 100"
abbreviation (input) UNLOAD_SERVO_RAMP_STEP_US :: u32 where "UNLOAD_SERVO_RAMP_STEP_US \<equiv> 40"
abbreviation (input) APP_TIMING_HEALTH_PERIOD_MS :: u32 where "APP_TIMING_HEALTH_PERIOD_MS \<equiv> 500"

definition UNLOAD_SERVO_RELEASE_PULSE_DELTA_US :: u32 where
  "UNLOAD_SERVO_RELEASE_PULSE_DELTA_US = (1000 * 50 + 90 div 2) div 90"

definition UNLOAD_SERVO_1_HOME_PULSE_US :: u32 where "UNLOAD_SERVO_1_HOME_PULSE_US = 2000"

definition UNLOAD_SERVO_1_RELEASE_PULSE_US :: u32 where
  "UNLOAD_SERVO_1_RELEASE_PULSE_US = UNLOAD_SERVO_1_HOME_PULSE_US - UNLOAD_SERVO_RELEASE_PULSE_DELTA_US"

definition UNLOAD_SERVO_2_HOME_PULSE_US :: u32 where "UNLOAD_SERVO_2_HOME_PULSE_US = 1000"

definition UNLOAD_SERVO_2_RELEASE_PULSE_US :: u32 where
  "UNLOAD_SERVO_2_RELEASE_PULSE_US = UNLOAD_SERVO_2_HOME_PULSE_US + UNLOAD_SERVO_RELEASE_PULSE_DELTA_US"

lemmas unload_pulses =
  UNLOAD_SERVO_RELEASE_PULSE_DELTA_US_def UNLOAD_SERVO_1_HOME_PULSE_US_def
  UNLOAD_SERVO_1_RELEASE_PULSE_US_def UNLOAD_SERVO_2_HOME_PULSE_US_def UNLOAD_SERVO_2_RELEASE_PULSE_US_def

section \<open>The sequence of an unloading\<close>

datatype unload_logic_state_t =
    UNLOAD_LOGIC_IDLE | UNLOAD_LOGIC_MOVING_TO_RELEASE | UNLOAD_LOGIC_MOVING_HOME | UNLOAD_LOGIC_FAILED

datatype unload_servo_output_t =
    UNLOAD_SERVO_OUTPUT_DISABLE | UNLOAD_SERVO_OUTPUT_HOME | UNLOAD_SERVO_OUTPUT_RELEASE

record unload_logic_context_t =
  ul_state :: unload_logic_state_t
  ul_active_command :: app_unload_command_t
  ul_pending_result :: app_unload_result_t
  ul_started_at_ms :: u32
  ul_state_entered_at_ms :: u32
  ul_active :: bool
  ul_result_pending :: bool

definition zero_unload_command :: app_unload_command_t where
  "zero_unload_command =
     \<lparr>ucmd_type = APP_UNLOAD_COMMAND_NONE, ucmd_requested_at_ms = 0, ucmd_inhibit_generation = 0,
      ucmd_request_id = 0, ucmd_job_id = 0, ucmd_route_id = UART_LINETRACER_ROUTE_NONE\<rparr>"

definition zero_unload_result :: app_unload_result_t where
  "zero_unload_result =
     \<lparr>ures_type = APP_UNLOAD_RESULT_NONE, ures_requested_at_ms = 0, ures_completed_at_ms = 0,
      ures_inhibit_generation = 0, ures_request_id = 0, ures_job_id = 0,
      ures_route_id = UART_LINETRACER_ROUTE_NONE, ures_error_code = 0\<rparr>"

definition UnloadLogic_TimeReached :: "u32 \<Rightarrow> u32 \<Rightarrow> bool" where
  "UnloadLogic_TimeReached now deadline \<longleftrightarrow> 0 \<le> sint (now - deadline)"

definition UnloadLogic_PublishResult ::
    "unload_logic_context_t \<Rightarrow> app_unload_result_type_t \<Rightarrow> u32 \<Rightarrow> uart_error_t \<Rightarrow> unload_logic_context_t" where
  "UnloadLogic_PublishResult c ty now err =
     (if ul_result_pending c then c
      else c\<lparr>ul_pending_result :=
               \<lparr>ures_type = ty, ures_requested_at_ms = ucmd_requested_at_ms (ul_active_command c),
                ures_completed_at_ms = now,
                ures_inhibit_generation = ucmd_inhibit_generation (ul_active_command c),
                ures_request_id = ucmd_request_id (ul_active_command c),
                ures_job_id = ucmd_job_id (ul_active_command c),
                ures_route_id = ucmd_route_id (ul_active_command c), ures_error_code = error_code err\<rparr>,
             ul_result_pending := True\<rparr>)"

definition UnloadLogic_Init :: "u32 \<Rightarrow> unload_logic_context_t" where
  "UnloadLogic_Init now =
     \<lparr>ul_state = UNLOAD_LOGIC_IDLE, ul_active_command = zero_unload_command,
      ul_pending_result = zero_unload_result, ul_started_at_ms = 0, ul_state_entered_at_ms = now,
      ul_active = False, ul_result_pending = False\<rparr>"

definition UnloadLogic_Start ::
    "unload_logic_context_t \<Rightarrow> app_unload_command_t \<Rightarrow> u32 \<Rightarrow> bool \<times> unload_logic_context_t" where
  "UnloadLogic_Start c command now =
     (if ucmd_type command \<noteq> APP_UNLOAD_COMMAND_START \<or> ul_active c \<or> ul_state c \<noteq> UNLOAD_LOGIC_IDLE
         \<or> ul_result_pending c \<or> \<not> uart_linetracer_job_id_is_valid (to_u32 (ucmd_job_id command))
         \<or> \<not> uart_linetracer_route_is_valid (route_code (ucmd_route_id command))
      then (False, c)
      else (True, c\<lparr>ul_active_command := command, ul_state := UNLOAD_LOGIC_MOVING_TO_RELEASE,
                    ul_started_at_ms := now, ul_state_entered_at_ms := now, ul_active := True,
                    ul_result_pending := False\<rparr>))"

definition UnloadLogic_Abort :: "unload_logic_context_t \<Rightarrow> u32 \<Rightarrow> uart_error_t \<Rightarrow> unload_logic_context_t" where
  "UnloadLogic_Abort c now err =
     (if \<not> ul_active c then c
      else UnloadLogic_PublishResult
             (c\<lparr>ul_active := False, ul_state := UNLOAD_LOGIC_IDLE, ul_started_at_ms := now,
                ul_state_entered_at_ms := now\<rparr>) APP_UNLOAD_RESULT_ABORTED now err)"

definition UnloadLogic_Fail :: "unload_logic_context_t \<Rightarrow> u32 \<Rightarrow> uart_error_t \<Rightarrow> unload_logic_context_t" where
  "UnloadLogic_Fail c now err =
     (if \<not> ul_active c then c
      else UnloadLogic_PublishResult
             (c\<lparr>ul_active := False, ul_state := UNLOAD_LOGIC_FAILED, ul_started_at_ms := now,
                ul_state_entered_at_ms := now\<rparr>) APP_UNLOAD_RESULT_FAILED now err)"

definition UnloadLogic_Reset :: "unload_logic_context_t \<Rightarrow> u32 \<Rightarrow> unload_logic_context_t" where
  "UnloadLogic_Reset c now =
     c\<lparr>ul_active := False, ul_state := UNLOAD_LOGIC_IDLE, ul_started_at_ms := now,
       ul_state_entered_at_ms := now, ul_result_pending := False, ul_active_command := zero_unload_command\<rparr>"

text \<open>The load state is an argument that the code ignores.\<close>

definition UnloadLogic_Update ::
    "unload_logic_context_t \<Rightarrow> uart_linetracer_load_state_t \<Rightarrow> u32 \<Rightarrow> unload_logic_context_t" where
  "UnloadLogic_Update c load now =
     (if \<not> ul_active c then c
      else if UnloadLogic_TimeReached now (ul_started_at_ms c + UNLOAD_OPERATION_TIMEOUT_MS)
      then UnloadLogic_PublishResult
             (c\<lparr>ul_active := False, ul_state := UNLOAD_LOGIC_FAILED, ul_state_entered_at_ms := now\<rparr>)
             APP_UNLOAD_RESULT_TIMEOUT now UART_ERROR_TIMEOUT
      else case ul_state c of
          UNLOAD_LOGIC_MOVING_TO_RELEASE \<Rightarrow>
            (if UnloadLogic_TimeReached now (ul_state_entered_at_ms c + UNLOAD_SERVO_DEPLOY_MS)
             then c\<lparr>ul_state := UNLOAD_LOGIC_MOVING_HOME, ul_state_entered_at_ms := now\<rparr> else c)
        | UNLOAD_LOGIC_MOVING_HOME \<Rightarrow>
            (if UnloadLogic_TimeReached now (ul_state_entered_at_ms c + UNLOAD_SERVO_HOME_MS)
             then UnloadLogic_PublishResult
                    (c\<lparr>ul_active := False, ul_state := UNLOAD_LOGIC_IDLE, ul_state_entered_at_ms := now\<rparr>)
                    APP_UNLOAD_RESULT_COMPLETE now UART_ERROR_NONE
             else c)
        | _ \<Rightarrow> c)"

definition UnloadLogic_GetServoOutput :: "unload_logic_context_t \<Rightarrow> unload_servo_output_t" where
  "UnloadLogic_GetServoOutput c =
     (case ul_state c of
        UNLOAD_LOGIC_MOVING_TO_RELEASE \<Rightarrow> UNLOAD_SERVO_OUTPUT_RELEASE
      | UNLOAD_LOGIC_MOVING_HOME \<Rightarrow> UNLOAD_SERVO_OUTPUT_HOME
      | _ \<Rightarrow> UNLOAD_SERVO_OUTPUT_DISABLE)"

definition UnloadLogic_GetPendingResult :: "unload_logic_context_t \<Rightarrow> app_unload_result_t option" where
  "UnloadLogic_GetPendingResult c = (if ul_result_pending c then Some (ul_pending_result c) else None)"

definition UnloadLogic_AcknowledgeResult :: "unload_logic_context_t \<Rightarrow> unload_logic_context_t" where
  "UnloadLogic_AcknowledgeResult c = c\<lparr>ul_result_pending := False\<rparr>"

section \<open>The servos and the safety gate\<close>

text \<open>
  The statics of \<open>unload_hw.c\<close> and the compare registers of TIM4. \<open>pwm_start_ok\<close> and \<open>pwm_stop_ok\<close>
  are what the HAL will answer for the two channels.
\<close>

record unload_hw =
  s_safety_inhibited :: bool
  s_safety_inhibit_generation :: u32
  s_pwm_started :: bool
  s_servo_1_pulse_us :: u32
  s_servo_2_pulse_us :: u32
  tim4_compare_1 :: u32
  tim4_compare_2 :: u32
  pwm_start_ok :: "bool \<times> bool"
  pwm_stop_ok :: "bool \<times> bool"

definition UnloadHw_RampPulse :: "u32 \<Rightarrow> u32 \<Rightarrow> u32" where
  "UnloadHw_RampPulse current target =
     (if current < target
      then current + (if target - current < UNLOAD_SERVO_RAMP_STEP_US then target - current
                      else UNLOAD_SERVO_RAMP_STEP_US)
      else if current > target
      then current - (if current - target < UNLOAD_SERVO_RAMP_STEP_US then current - target
                      else UNLOAD_SERVO_RAMP_STEP_US)
      else current)"

definition servo_compares_off :: "unload_hw \<Rightarrow> unload_hw" where
  "servo_compares_off h = h\<lparr>tim4_compare_1 := 0, tim4_compare_2 := 0\<rparr>"

definition UnloadHw_StopPwm :: "unload_hw \<Rightarrow> bool \<times> unload_hw" where
  "UnloadHw_StopPwm h0 =
     (let h = servo_compares_off h0
      in if \<not> s_pwm_started h then (True, h)
         else
           let status = (fst (pwm_stop_ok h) \<and> snd (pwm_stop_ok h))
           in (status, if status then h\<lparr>s_pwm_started := False\<rparr> else h))"

definition UnloadHw_Init :: "unload_hw \<Rightarrow> bool \<times> unload_hw" where
  "UnloadHw_Init h =
     UnloadHw_StopPwm
       (h\<lparr>s_pwm_started := False, s_servo_1_pulse_us := UNLOAD_SERVO_1_HOME_PULSE_US,
          s_servo_2_pulse_us := UNLOAD_SERVO_2_HOME_PULSE_US\<rparr>)"

text \<open>The critical section: the ramps, the compare registers and the start of the channels.\<close>

definition drive_servos :: "u32 \<Rightarrow> u32 \<Rightarrow> unload_hw \<Rightarrow> bool \<times> unload_hw" where
  "drive_servos pulse_1 pulse_2 h0 =
     (let h = h0\<lparr>s_servo_1_pulse_us := UnloadHw_RampPulse (s_servo_1_pulse_us h0) pulse_1\<rparr>;
          h = h\<lparr>s_servo_2_pulse_us := UnloadHw_RampPulse (s_servo_2_pulse_us h) pulse_2\<rparr>;
          h = h\<lparr>tim4_compare_1 := s_servo_1_pulse_us h, tim4_compare_2 := s_servo_2_pulse_us h\<rparr>;
          started = (s_pwm_started h \<or> fst (pwm_start_ok h) \<and> snd (pwm_start_ok h))
      in if started then (True, h\<lparr>s_pwm_started := True\<rparr>) else (False, servo_compares_off h))"

definition UnloadHw_Apply :: "unload_servo_output_t \<Rightarrow> unload_hw \<Rightarrow> bool \<times> unload_hw" where
  "UnloadHw_Apply out h =
     (if out = UNLOAD_SERVO_OUTPUT_DISABLE then UnloadHw_StopPwm h
      else if s_safety_inhibited h then UnloadHw_StopPwm h
      else drive_servos
             (if out = UNLOAD_SERVO_OUTPUT_RELEASE then UNLOAD_SERVO_1_RELEASE_PULSE_US
              else UNLOAD_SERVO_1_HOME_PULSE_US)
             (if out = UNLOAD_SERVO_OUTPUT_RELEASE then UNLOAD_SERVO_2_RELEASE_PULSE_US
              else UNLOAD_SERVO_2_HOME_PULSE_US) h)"

definition UnloadHw_SetSafetyInhibit :: "bool \<Rightarrow> unload_hw \<Rightarrow> unload_hw" where
  "UnloadHw_SetSafetyInhibit inhibited h =
     (if inhibited
      then servo_compares_off
             (h\<lparr>s_safety_inhibit_generation := s_safety_inhibit_generation h + 1,
                s_safety_inhibited := True\<rparr>)
      else h\<lparr>s_safety_inhibited := False\<rparr>)"

definition UnloadHw_IsSafetyInhibited :: "unload_hw \<Rightarrow> bool" where
  "UnloadHw_IsSafetyInhibited h = s_safety_inhibited h"

definition UnloadHw_GetSafetyInhibitGeneration :: "unload_hw \<Rightarrow> u32" where
  "UnloadHw_GetSafetyInhibitGeneration h = s_safety_inhibit_generation h"

definition UnloadHw_ReleaseSafetyInhibit :: "u32 \<Rightarrow> unload_hw \<Rightarrow> bool \<times> unload_hw" where
  "UnloadHw_ReleaseSafetyInhibit expected h =
     (if s_safety_inhibit_generation h = expected then (True, h\<lparr>s_safety_inhibited := False\<rparr>)
      else (False, h))"

section \<open>The task\<close>

text \<open>
  The statics of the task, the gate and servos, the queues, and what the task asks of its
  environment: the thread flags raised for it, the latest snapshot of the sensor task, whether the
  kernel runs the task, and the readings of the clock.
\<close>

record unload_task =
  un_logic :: unload_logic_context_t
  unloadTaskSafetyStopRequested :: bool
  unloadTaskAbortStopRequested :: bool
  unloadTaskResultQueueFaultReported :: bool
  unloadTaskResetResult :: app_unload_result_t
  unloadTaskResetResultPending :: bool
  un_hw :: unload_hw
  un_queues :: app_queues
  notify_safety_stop :: bool
  notify_abort :: bool
  un_flags_ok :: bool
  un_task_running :: bool
  un_snapshot :: "app_sensor_snapshot_t option"
  un_last_alive :: u32
  un_ticks :: "nat \<Rightarrow> u32"

definition unload_tick :: "unload_task \<Rightarrow> u32 \<times> unload_task" where
  "unload_tick u = (un_ticks u 0, u\<lparr>un_ticks := \<lambda>i. un_ticks u (Suc i)\<rparr>)"

primrec unload_result_code :: "app_unload_result_type_t \<Rightarrow> u32" where
  "unload_result_code APP_UNLOAD_RESULT_NONE = 0"
| "unload_result_code APP_UNLOAD_RESULT_COMPLETE = 1"
| "unload_result_code APP_UNLOAD_RESULT_FAILED = 2"
| "unload_result_code APP_UNLOAD_RESULT_TIMEOUT = 3"
| "unload_result_code APP_UNLOAD_RESULT_ABORTED = 4"
| "unload_result_code APP_UNLOAD_RESULT_RESET_COMPLETE = 5"
| "unload_result_code APP_UNLOAD_RESULT_RESET_FAILED = 6"

primrec unload_state_code :: "unload_logic_state_t \<Rightarrow> u32" where
  "unload_state_code UNLOAD_LOGIC_IDLE = 0"
| "unload_state_code UNLOAD_LOGIC_MOVING_TO_RELEASE = 1"
| "unload_state_code UNLOAD_LOGIC_MOVING_HOME = 2"
| "unload_state_code UNLOAD_LOGIC_FAILED = 3"

definition UnloadTask_PublishHealthEvent ::
    "app_health_event_type_t \<Rightarrow> u32 \<Rightarrow> u32 \<Rightarrow> unload_task \<Rightarrow> unload_task" where
  "UnloadTask_PublishHealthEvent ty detail now u =
     u\<lparr>un_queues := snd (AppQueues_TryPutHealth
         \<lparr>hev_type = ty, hev_occurred_at_ms = now, hev_detail = detail,
          hev_source_task = APP_TASK_UNLOAD\<rparr> (un_queues u))\<rparr>"

definition UnloadTask_TryPublishResult :: "app_unload_result_t \<Rightarrow> unload_task \<Rightarrow> bool \<times> unload_task" where
  "UnloadTask_TryPublishResult result u =
     (case unload_tick u of (now, u) \<Rightarrow>
        (case osMessageQueuePut (unloadResultQueue (un_queues u)) result 0 of
           (status, mq) \<Rightarrow>
             let u = u\<lparr>un_queues := (un_queues u)\<lparr>unloadResultQueue := mq\<rparr>\<rparr>
             in if status \<noteq> osOK
                then (False,
                      if \<not> unloadTaskResultQueueFaultReported u
                      then (UnloadTask_PublishHealthEvent APP_HEALTH_EVENT_QUEUE_FULL
                              (unload_result_code (ures_type result)) now u)
                             \<lparr>unloadTaskResultQueueFaultReported := True\<rparr>
                      else u)
                else (True, u\<lparr>unloadTaskResultQueueFaultReported := False\<rparr>)))"

definition UnloadTask_SetResetResult ::
    "app_unload_command_t \<Rightarrow> app_unload_result_type_t \<Rightarrow> u32 \<Rightarrow> uart_error_t \<Rightarrow> unload_task \<Rightarrow> unload_task" where
  "UnloadTask_SetResetResult command ty now err u =
     u\<lparr>unloadTaskResetResult :=
         zero_unload_result
           \<lparr>ures_type := ty, ures_requested_at_ms := ucmd_requested_at_ms command,
            ures_completed_at_ms := now, ures_inhibit_generation := ucmd_inhibit_generation command,
            ures_request_id := ucmd_request_id command, ures_error_code := error_code err\<rparr>,
       unloadTaskResetResultPending := True\<rparr>"

definition publish_reset_result :: "unload_task \<Rightarrow> unload_task" where
  "publish_reset_result u =
     (if unloadTaskResetResultPending u
      then (case UnloadTask_TryPublishResult (unloadTaskResetResult u) u of
              (True, u) \<Rightarrow> u\<lparr>unloadTaskResetResultPending := False\<rparr>
            | (False, u) \<Rightarrow> u)
      else u)"

definition UnloadTask_PublishResult :: "unload_task \<Rightarrow> unload_task" where
  "UnloadTask_PublishResult u =
     (case UnloadLogic_GetPendingResult (un_logic u) of
        None \<Rightarrow> publish_reset_result u
      | Some result \<Rightarrow>
          (case UnloadTask_TryPublishResult result u of
             (False, u) \<Rightarrow> u
           | (True, u) \<Rightarrow> publish_reset_result (u\<lparr>un_logic := UnloadLogic_AcknowledgeResult (un_logic u)\<rparr>)))"

definition inhibit_servos :: "unload_task \<Rightarrow> unload_task" where
  "inhibit_servos u =
     (if \<not> UnloadHw_IsSafetyInhibited (un_hw u)
      then u\<lparr>un_hw := UnloadHw_SetSafetyInhibit True (un_hw u)\<rparr> else u)"

definition abort_unload :: "uart_error_t \<Rightarrow> u32 \<Rightarrow> unload_task \<Rightarrow> unload_task" where
  "abort_unload err now u0 =
     (let u = inhibit_servos u0 in u\<lparr>un_logic := UnloadLogic_Abort (un_logic u) now err\<rparr>)"

definition handle_unload_reset :: "app_unload_command_t \<Rightarrow> u32 \<Rightarrow> unload_task \<Rightarrow> unload_task" where
  "handle_unload_reset command now u0 =
     (let u = u0\<lparr>unloadTaskSafetyStopRequested := False, unloadTaskAbortStopRequested := False\<rparr>
      in case UnloadHw_ReleaseSafetyInhibit (ucmd_inhibit_generation command) (un_hw u) of
           (False, _) \<Rightarrow>
             UnloadTask_SetResetResult command APP_UNLOAD_RESULT_RESET_FAILED now UART_ERROR_BUSY
               (u\<lparr>unloadTaskSafetyStopRequested := True\<rparr>)
         | (True, h) \<Rightarrow>
             UnloadTask_SetResetResult command APP_UNLOAD_RESULT_RESET_COMPLETE now UART_ERROR_NONE
               (u\<lparr>un_hw := h, unloadTaskResultQueueFaultReported := False,
                  un_logic := UnloadLogic_Reset (un_logic u) now\<rparr>))"

definition UnloadTask_HandleCommand :: "app_unload_command_t \<Rightarrow> u32 \<Rightarrow> unload_task \<Rightarrow> unload_task" where
  "UnloadTask_HandleCommand command now u =
     (case ucmd_type command of
        APP_UNLOAD_COMMAND_START \<Rightarrow>
          (if unloadTaskSafetyStopRequested u \<or> unloadTaskAbortStopRequested u
              \<or> UnloadHw_IsSafetyInhibited (un_hw u)
           then u
           else case UnloadLogic_Start (un_logic u) command now of
               (False, _) \<Rightarrow>
                 UnloadTask_PublishHealthEvent APP_HEALTH_EVENT_INTERNAL_ERROR
                   (unload_command_code (ucmd_type command)) now u
             | (True, c) \<Rightarrow> u\<lparr>un_logic := c\<rparr>)
      | APP_UNLOAD_COMMAND_ABORT \<Rightarrow>
          abort_unload UART_ERROR_BUSY now (u\<lparr>unloadTaskAbortStopRequested := True\<rparr>)
      | APP_UNLOAD_COMMAND_RESET \<Rightarrow> handle_unload_reset command now u
      | APP_UNLOAD_COMMAND_NONE \<Rightarrow> u)"

text \<open>\<open>n\<close> is the number of commands that the round may still take.\<close>

fun process_unload_commands :: "nat \<Rightarrow> u32 \<Rightarrow> unload_task \<Rightarrow> unload_task" where
  "process_unload_commands 0 now u = u"
| "process_unload_commands (Suc n) now u =
     (case osMessageQueueGet (unloadCommandQueue (un_queues u)) 0 of
        (osOK, Some command, mq) \<Rightarrow>
          process_unload_commands n now
            (UnloadTask_HandleCommand command now
               (u\<lparr>un_queues := (un_queues u)\<lparr>unloadCommandQueue := mq\<rparr>\<rparr>))
      | _ \<Rightarrow> u)"

definition UnloadTask_ProcessCommands :: "u32 \<Rightarrow> unload_task \<Rightarrow> unload_task" where
  "UnloadTask_ProcessCommands now u = process_unload_commands APP_UNLOAD_COMMAND_QUEUE_DEPTH now u"

text \<open>
  \<open>osThreadFlagsWait\<close> without a time limit: an error (\<open>un_flags_ok\<close> false, or no flag raised) is
  read as no request; the flags that are returned are cleared.
\<close>

definition UnloadTask_ProcessStopRequests :: "u32 \<Rightarrow> unload_task \<Rightarrow> unload_task" where
  "UnloadTask_ProcessStopRequests now u0 =
     (let stop = (un_flags_ok u0 \<and> notify_safety_stop u0);
          abort_requested = (un_flags_ok u0 \<and> notify_abort u0);
          u = (if un_flags_ok u0 then u0\<lparr>notify_safety_stop := False, notify_abort := False\<rparr> else u0);
          u = (if stop then u\<lparr>unloadTaskSafetyStopRequested := True\<rparr> else u)
      in if unloadTaskSafetyStopRequested u then abort_unload UART_ERROR_EMERGENCY_STOP now u
         else if abort_requested
         then abort_unload UART_ERROR_BUSY now (u\<lparr>unloadTaskAbortStopRequested := True\<rparr>)
         else u)"

definition UnloadTask_RequestSafetyStop :: "unload_task \<Rightarrow> bool \<times> unload_task" where
  "UnloadTask_RequestSafetyStop u0 =
     (let u = u0\<lparr>unloadTaskSafetyStopRequested := True,
                un_hw := UnloadHw_SetSafetyInhibit True (un_hw u0)\<rparr>
      in if \<not> un_task_running u then (False, u)
         else (un_flags_ok u, if un_flags_ok u then u\<lparr>notify_safety_stop := True\<rparr> else u))"

definition UnloadTask_RequestAbort :: "unload_task \<Rightarrow> bool \<times> unload_task" where
  "UnloadTask_RequestAbort u0 =
     (let u = u0\<lparr>unloadTaskAbortStopRequested := True,
                un_hw := UnloadHw_SetSafetyInhibit True (un_hw u0)\<rparr>
      in if \<not> un_task_running u then (False, u)
         else (un_flags_ok u, if un_flags_ok u then u\<lparr>notify_abort := True\<rparr> else u))"

definition start_unload_task :: "unload_task \<Rightarrow> unload_task" where
  "start_unload_task u0 =
     (let u = u0\<lparr>unloadTaskResultQueueFaultReported := False, unloadTaskResetResult := zero_unload_result,
                unloadTaskResetResultPending := False\<rparr>
      in case unload_tick u of (now, u) \<Rightarrow>
         let u = u\<lparr>un_last_alive := now, un_logic := UnloadLogic_Init now\<rparr>
         in case UnloadHw_Init (un_hw u) of (ok, h) \<Rightarrow>
              let u = u\<lparr>un_hw := h\<rparr>;
                  u = (if \<not> ok then UnloadTask_PublishHealthEvent APP_HEALTH_EVENT_INTERNAL_ERROR 1 now u
                       else u)
              in u\<lparr>notify_safety_stop := False, notify_abort := False\<rparr>)"

definition snapshot_load_state :: "u32 \<Rightarrow> unload_task \<Rightarrow> uart_linetracer_load_state_t" where
  "snapshot_load_state now u =
     (case un_snapshot u of
        Some snapshot \<Rightarrow>
          (if snp_fsr_valid snapshot
              \<and> uart_linetracer_load_state_is_valid (load_code (snp_load_state snapshot))
              \<and> now - snp_sampled_at_ms snapshot \<le> UNLOAD_SENSOR_SNAPSHOT_MAX_AGE_MS
           then snp_load_state snapshot else UART_LINETRACER_LOAD_UNLOADING)
      | None \<Rightarrow> UART_LINETRACER_LOAD_UNLOADING)"

definition drive_unload :: "u32 \<Rightarrow> unload_task \<Rightarrow> unload_task" where
  "drive_unload now u =
     (if \<not> unloadTaskSafetyStopRequested u \<and> \<not> unloadTaskAbortStopRequested u
         \<and> \<not> UnloadHw_IsSafetyInhibited (un_hw u)
      then
        let c = UnloadLogic_Update (un_logic u) (snapshot_load_state now u) now
        in case UnloadHw_Apply (UnloadLogic_GetServoOutput c) (un_hw u) of
             (ok, h) \<Rightarrow>
               u\<lparr>un_hw := h, un_logic := (if \<not> ok then UnloadLogic_Fail c now UART_ERROR_SERVO else c)\<rparr>
      else u\<lparr>un_hw := snd (UnloadHw_Apply UNLOAD_SERVO_OUTPUT_DISABLE (un_hw u))\<rparr>)"

text \<open>One round of the loop, up to the delay.\<close>

definition unload_cycle :: "unload_task \<Rightarrow> unload_task" where
  "unload_cycle u =
     (case unload_tick u of (now, u) \<Rightarrow>
        let u = UnloadTask_ProcessCommands now (UnloadTask_ProcessStopRequests now u);
            u = UnloadTask_PublishResult (drive_unload now u)
        in if now - un_last_alive u \<ge> APP_TIMING_HEALTH_PERIOD_MS
           then (UnloadTask_PublishHealthEvent APP_HEALTH_EVENT_TASK_ALIVE
                   (unload_state_code (ul_state (un_logic u))) now u)\<lparr>un_last_alive := now\<rparr>
           else u)"

end
