(* ===== verification/Linetracer_Safety.thy ===== *)
theory Linetracer_Safety
  imports Linetracer_Unload Linetracer_Control_Task
begin

text \<open>
  The safety task of the line tracer (\<open>stm32/linetracer-controller/Application/Src/safety_task.c\<close>,
  \<open>safety_policy.c\<close>): hazards become active and inactive, the first one latches, and the control
  task is told through its queue; every activation shuts the gate of the unload servos first.
\<close>

abbreviation (input) APP_TIMING_EMERGENCY_STOP_DEBOUNCE_MS :: u32 where
  "APP_TIMING_EMERGENCY_STOP_DEBOUNCE_MS \<equiv> 30"

section \<open>Policy\<close>

definition SafetyPolicy_LineLossApplies :: "app_control_snapshot_t \<Rightarrow> bool" where
  "SafetyPolicy_LineLossApplies snapshot \<longleftrightarrow>
     uart_linetracer_job_id_is_valid (to_u32 (snap_job_id snapshot))
     \<and> uart_linetracer_route_is_valid (route_code (snap_route_id snapshot))
     \<and> snap_state snapshot = UART_LINETRACER_STATE_FOLLOWING_LINE"

definition SafetyPolicy_IsMomentaryRemoteEstop :: "app_safety_event_t \<Rightarrow> bool" where
  "SafetyPolicy_IsMomentaryRemoteEstop event \<longleftrightarrow>
     saf_type event = APP_SAFETY_EVENT_EMERGENCY_STOP \<and> saf_source_task event = APP_TASK_COMM_RX
     \<and> saf_active event"

section \<open>Hazards, reasons and errors\<close>

abbreviation (input) SAFETY_HAZARD_ESTOP :: u32 where "SAFETY_HAZARD_ESTOP \<equiv> push_bit 0 1"
abbreviation (input) SAFETY_HAZARD_LINE_LOST :: u32 where "SAFETY_HAZARD_LINE_LOST \<equiv> push_bit 1 1"
abbreviation (input) SAFETY_HAZARD_OBSTACLE :: u32 where "SAFETY_HAZARD_OBSTACLE \<equiv> push_bit 2 1"
abbreviation (input) SAFETY_HAZARD_LOAD_LOST :: u32 where "SAFETY_HAZARD_LOAD_LOST \<equiv> push_bit 3 1"
abbreviation (input) SAFETY_HAZARD_OVERLOAD :: u32 where "SAFETY_HAZARD_OVERLOAD \<equiv> push_bit 4 1"
abbreviation (input) SAFETY_HAZARD_TURN_TIMEOUT :: u32 where "SAFETY_HAZARD_TURN_TIMEOUT \<equiv> push_bit 5 1"
abbreviation (input) SAFETY_HAZARD_MARKER_SEQUENCE :: u32 where "SAFETY_HAZARD_MARKER_SEQUENCE \<equiv> push_bit 6 1"
abbreviation (input) SAFETY_HAZARD_COMM_TIMEOUT :: u32 where "SAFETY_HAZARD_COMM_TIMEOUT \<equiv> push_bit 7 1"
abbreviation (input) SAFETY_HAZARD_SENSOR_FAULT :: u32 where "SAFETY_HAZARD_SENSOR_FAULT \<equiv> push_bit 8 1"
abbreviation (input) SAFETY_HAZARD_HEALTH_FAULT :: u32 where "SAFETY_HAZARD_HEALTH_FAULT \<equiv> push_bit 9 1"

primrec SafetyTask_EventToHazardMask :: "app_safety_event_type_t \<Rightarrow> u32" where
  "SafetyTask_EventToHazardMask APP_SAFETY_EVENT_EMERGENCY_STOP = SAFETY_HAZARD_ESTOP"
| "SafetyTask_EventToHazardMask APP_SAFETY_EVENT_LINE_LOST = SAFETY_HAZARD_LINE_LOST"
| "SafetyTask_EventToHazardMask APP_SAFETY_EVENT_OBSTACLE = SAFETY_HAZARD_OBSTACLE"
| "SafetyTask_EventToHazardMask APP_SAFETY_EVENT_LOAD_LOST = SAFETY_HAZARD_LOAD_LOST"
| "SafetyTask_EventToHazardMask APP_SAFETY_EVENT_OVERLOAD = SAFETY_HAZARD_OVERLOAD"
| "SafetyTask_EventToHazardMask APP_SAFETY_EVENT_TURN_TIMEOUT = SAFETY_HAZARD_TURN_TIMEOUT"
| "SafetyTask_EventToHazardMask APP_SAFETY_EVENT_MARKER_SEQUENCE = SAFETY_HAZARD_MARKER_SEQUENCE"
| "SafetyTask_EventToHazardMask APP_SAFETY_EVENT_COMM_TIMEOUT = SAFETY_HAZARD_COMM_TIMEOUT"
| "SafetyTask_EventToHazardMask APP_SAFETY_EVENT_SENSOR_FAULT = SAFETY_HAZARD_SENSOR_FAULT"
| "SafetyTask_EventToHazardMask APP_SAFETY_EVENT_HEALTH_FAULT = SAFETY_HAZARD_HEALTH_FAULT"
| "SafetyTask_EventToHazardMask APP_SAFETY_EVENT_NONE = 0"
| "SafetyTask_EventToHazardMask APP_SAFETY_EVENT_RESET_REQUEST = 0"

primrec SafetyTask_EventToReason :: "app_safety_event_type_t \<Rightarrow> linetracer_stop_reason_t" where
  "SafetyTask_EventToReason APP_SAFETY_EVENT_EMERGENCY_STOP = LINETRACER_STOP_REASON_EMERGENCY"
| "SafetyTask_EventToReason APP_SAFETY_EVENT_LINE_LOST = LINETRACER_STOP_REASON_LINE_LOST"
| "SafetyTask_EventToReason APP_SAFETY_EVENT_OBSTACLE = LINETRACER_STOP_REASON_OBSTACLE"
| "SafetyTask_EventToReason APP_SAFETY_EVENT_LOAD_LOST = LINETRACER_STOP_REASON_LOAD_LOST"
| "SafetyTask_EventToReason APP_SAFETY_EVENT_OVERLOAD = LINETRACER_STOP_REASON_OVERLOAD"
| "SafetyTask_EventToReason APP_SAFETY_EVENT_TURN_TIMEOUT = LINETRACER_STOP_REASON_TURN_TIMEOUT"
| "SafetyTask_EventToReason APP_SAFETY_EVENT_MARKER_SEQUENCE = LINETRACER_STOP_REASON_MARKER_SEQUENCE"
| "SafetyTask_EventToReason APP_SAFETY_EVENT_COMM_TIMEOUT = LINETRACER_STOP_REASON_COMM_TIMEOUT"
| "SafetyTask_EventToReason APP_SAFETY_EVENT_SENSOR_FAULT = LINETRACER_STOP_REASON_SENSOR_FAULT"
| "SafetyTask_EventToReason APP_SAFETY_EVENT_HEALTH_FAULT = LINETRACER_STOP_REASON_HEALTH_FAULT"
| "SafetyTask_EventToReason APP_SAFETY_EVENT_NONE = LINETRACER_STOP_REASON_NONE"
| "SafetyTask_EventToReason APP_SAFETY_EVENT_RESET_REQUEST = LINETRACER_STOP_REASON_NONE"

primrec SafetyTask_ReasonPriority :: "linetracer_stop_reason_t \<Rightarrow> u8" where
  "SafetyTask_ReasonPriority LINETRACER_STOP_REASON_EMERGENCY = 10"
| "SafetyTask_ReasonPriority LINETRACER_STOP_REASON_HEALTH_FAULT = 9"
| "SafetyTask_ReasonPriority LINETRACER_STOP_REASON_SENSOR_FAULT = 8"
| "SafetyTask_ReasonPriority LINETRACER_STOP_REASON_COMM_TIMEOUT = 7"
| "SafetyTask_ReasonPriority LINETRACER_STOP_REASON_TURN_TIMEOUT = 6"
| "SafetyTask_ReasonPriority LINETRACER_STOP_REASON_MARKER_SEQUENCE = 6"
| "SafetyTask_ReasonPriority LINETRACER_STOP_REASON_LINE_LOST = 5"
| "SafetyTask_ReasonPriority LINETRACER_STOP_REASON_OBSTACLE = 4"
| "SafetyTask_ReasonPriority LINETRACER_STOP_REASON_OVERLOAD = 3"
| "SafetyTask_ReasonPriority LINETRACER_STOP_REASON_LOAD_LOST = 2"
| "SafetyTask_ReasonPriority LINETRACER_STOP_REASON_COMMAND = 1"
| "SafetyTask_ReasonPriority LINETRACER_STOP_REASON_NONE = 0"

primrec SafetyTask_ReasonToUartError :: "linetracer_stop_reason_t \<Rightarrow> u8" where
  "SafetyTask_ReasonToUartError LINETRACER_STOP_REASON_EMERGENCY = error_code UART_ERROR_EMERGENCY_STOP"
| "SafetyTask_ReasonToUartError LINETRACER_STOP_REASON_TURN_TIMEOUT = error_code UART_ERROR_TIMEOUT"
| "SafetyTask_ReasonToUartError LINETRACER_STOP_REASON_COMM_TIMEOUT = error_code UART_ERROR_TIMEOUT"
| "SafetyTask_ReasonToUartError LINETRACER_STOP_REASON_MARKER_SEQUENCE = error_code UART_ERROR_SEQUENCE"
| "SafetyTask_ReasonToUartError LINETRACER_STOP_REASON_LINE_LOST = error_code UART_ERROR_SENSOR"
| "SafetyTask_ReasonToUartError LINETRACER_STOP_REASON_OBSTACLE = error_code UART_ERROR_SENSOR"
| "SafetyTask_ReasonToUartError LINETRACER_STOP_REASON_LOAD_LOST = error_code UART_ERROR_SENSOR"
| "SafetyTask_ReasonToUartError LINETRACER_STOP_REASON_OVERLOAD = error_code UART_ERROR_SENSOR"
| "SafetyTask_ReasonToUartError LINETRACER_STOP_REASON_SENSOR_FAULT = error_code UART_ERROR_SENSOR"
| "SafetyTask_ReasonToUartError LINETRACER_STOP_REASON_COMMAND = error_code UART_ERROR_BUSY"
| "SafetyTask_ReasonToUartError LINETRACER_STOP_REASON_NONE = error_code UART_ERROR_NONE"
| "SafetyTask_ReasonToUartError LINETRACER_STOP_REASON_HEALTH_FAULT = error_code UART_ERROR_INTERNAL"

definition SafetyTask_HealthErrorCode :: "u8 \<Rightarrow> u8" where
  "SafetyTask_HealthErrorCode err =
     (if err \<in> {error_code UART_ERROR_SERVO, error_code UART_ERROR_BUSY, error_code UART_ERROR_TIMEOUT,
                error_code UART_ERROR_INTERNAL}
      then err else error_code UART_ERROR_INTERNAL)"

definition SafetyTask_HealthErrorPriority :: "u8 \<Rightarrow> u8" where
  "SafetyTask_HealthErrorPriority err =
     (if err = error_code UART_ERROR_SERVO then 4 else if err = error_code UART_ERROR_INTERNAL then 3
      else if err = error_code UART_ERROR_TIMEOUT then 2 else if err = error_code UART_ERROR_BUSY then 1 else 0)"

definition SafetyTask_EventToUartError :: "app_safety_event_t \<Rightarrow> linetracer_stop_reason_t \<Rightarrow> u8" where
  "SafetyTask_EventToUartError event reason =
     (if saf_type event = APP_SAFETY_EVENT_HEALTH_FAULT
      then SafetyTask_HealthErrorCode (saf_error_code event) else SafetyTask_ReasonToUartError reason)"

section \<open>The state of the task\<close>

record safety_task_context_t =
  active_hazard_mask :: u32
  latched_hazard_mask :: u32
  latched_reason :: linetracer_stop_reason_t
  latched_at_ms :: u32
  sfc_error_code :: u8
  sfc_latched :: bool

definition zero_safety_context :: safety_task_context_t where
  "zero_safety_context =
     \<lparr>active_hazard_mask = 0, latched_hazard_mask = 0, latched_reason = LINETRACER_STOP_REASON_NONE,
      latched_at_ms = 0, sfc_error_code = error_code UART_ERROR_NONE, sfc_latched = False\<rparr>"

text \<open>
  The statics, the neighbours that the task calls (the unload task, the queues) and what it reads:
  the snapshot and turning flag of the control task, the pin of the stop button, the clock.
\<close>

record safety_task =
  s_safety_context :: safety_task_context_t
  s_latest_control_event :: app_control_safety_event_t
  s_latest_control_event_valid :: bool
  s_control_event_count :: u32
  s_control_event_drop_count :: u32
  s_duplicate_event_count :: u32
  s_invalid_event_count :: u32
  s_emergency_stop_interrupt_count :: u32
  s_emergency_stop_input_changed_at_ms :: u32
  s_emergency_stop_input_active :: bool
  s_emergency_stop_input_reported :: bool
  s_line_lost_sensor_active :: bool
  sf_unload :: unload_task
  sf_queues :: app_queues
  sf_notified :: bool
  sf_snapshot :: "app_control_snapshot_t option"
  sf_turning :: bool
  sf_stop_pin_low :: bool
  sf_last_alive :: u32
  sf_ticks :: "nat \<Rightarrow> u32"

definition safety_tick :: "safety_task \<Rightarrow> u32 \<times> safety_task" where
  "safety_tick s = (sf_ticks s 0, s\<lparr>sf_ticks := \<lambda>i. sf_ticks s (Suc i)\<rparr>)"

definition with_safety_context ::
    "(safety_task_context_t \<Rightarrow> safety_task_context_t) \<Rightarrow> safety_task \<Rightarrow> safety_task" where
  "with_safety_context f s = s\<lparr>s_safety_context := f (s_safety_context s)\<rparr>"

definition count_duplicate :: "safety_task \<Rightarrow> safety_task" where
  "count_duplicate s = s\<lparr>s_duplicate_event_count := s_duplicate_event_count s + 1\<rparr>"

definition count_invalid :: "safety_task \<Rightarrow> safety_task" where
  "count_invalid s = s\<lparr>s_invalid_event_count := s_invalid_event_count s + 1\<rparr>"

section \<open>Messages to the control task\<close>

primrec control_safety_code :: "app_control_safety_event_type_t \<Rightarrow> u32" where
  "control_safety_code APP_CONTROL_SAFETY_NONE = 0"
| "control_safety_code APP_CONTROL_SAFETY_LATCHED = 1"
| "control_safety_code APP_CONTROL_SAFETY_OBSTACLE_ACTIVE = 2"
| "control_safety_code APP_CONTROL_SAFETY_OBSTACLE_CLEARED = 3"
| "control_safety_code APP_CONTROL_SAFETY_RESET_APPROVED = 4"
| "control_safety_code APP_CONTROL_SAFETY_RESET_REJECTED = 5"

definition SafetyTask_PublishHealthEvent ::
    "app_health_event_type_t \<Rightarrow> u32 \<Rightarrow> u32 \<Rightarrow> safety_task \<Rightarrow> safety_task" where
  "SafetyTask_PublishHealthEvent ty detail now s =
     s\<lparr>sf_queues := snd (AppQueues_TryPutHealth
         \<lparr>hev_type = ty, hev_occurred_at_ms = now, hev_detail = detail,
          hev_source_task = APP_TASK_SAFETY\<rparr> (sf_queues s))\<rparr>"

definition SafetyTask_StoreLatestControlEvent :: "app_control_safety_event_t \<Rightarrow> safety_task \<Rightarrow> safety_task" where
  "SafetyTask_StoreLatestControlEvent event s =
     s\<lparr>s_latest_control_event := event, s_latest_control_event_valid := True,
       s_control_event_count := s_control_event_count s + 1\<rparr>"

definition SafetyTask_PublishControlEvent ::
    "app_control_safety_event_t \<Rightarrow> safety_task \<Rightarrow> bool \<times> safety_task" where
  "SafetyTask_PublishControlEvent event s =
     (if controlSafetyQueue (sf_queues s) = NULL
      then (False, s\<lparr>s_control_event_drop_count := s_control_event_drop_count s + 1\<rparr>)
      else
        let queued_event = event\<lparr>sev_unload_inhibit_generation :=
                                    UnloadHw_GetSafetyInhibitGeneration (un_hw (sf_unload s))\<rparr>
        in case osMessageQueuePut (controlSafetyQueue (sf_queues s)) queued_event 0 of
             (status, mq) \<Rightarrow>
               let s = s\<lparr>sf_queues := (sf_queues s)\<lparr>controlSafetyQueue := mq\<rparr>\<rparr>
               in if status \<noteq> osOK
                  then (False, SafetyTask_PublishHealthEvent APP_HEALTH_EVENT_QUEUE_FULL
                                 (control_safety_code (sev_type event)) (sev_occurred_at_ms event)
                                 (s\<lparr>s_control_event_drop_count := s_control_event_drop_count s + 1\<rparr>))
                  else (True, SafetyTask_StoreLatestControlEvent queued_event s))"

definition SafetyTask_CopyRequestMetadata ::
    "app_control_safety_event_t \<Rightarrow> app_safety_event_t \<Rightarrow> app_control_safety_event_t" where
  "SafetyTask_CopyRequestMetadata destination request =
     destination\<lparr>sev_original_payload_crc := saf_original_payload_crc request,
       sev_request_sequence := saf_request_sequence request,
       sev_original_command := saf_original_command request,
       sev_original_payload_length := saf_original_payload_length request\<rparr>"

definition SafetyTask_PublishLatched :: "app_safety_event_t \<Rightarrow> safety_task \<Rightarrow> safety_task" where
  "SafetyTask_PublishLatched source s =
     snd (SafetyTask_PublishControlEvent
       (zero_control_safety_event
          \<lparr>sev_type := APP_CONTROL_SAFETY_LATCHED, sev_occurred_at_ms := saf_occurred_at_ms source,
           sev_reason := latched_reason (s_safety_context s),
           sev_error_code := sfc_error_code (s_safety_context s)\<rparr>) s)"

definition SafetyTask_PublishObstacleState :: "app_safety_event_t \<Rightarrow> bool \<Rightarrow> safety_task \<Rightarrow> safety_task" where
  "SafetyTask_PublishObstacleState source is_active s =
     snd (SafetyTask_PublishControlEvent
       (zero_control_safety_event
          \<lparr>sev_type := (if is_active then APP_CONTROL_SAFETY_OBSTACLE_ACTIVE else APP_CONTROL_SAFETY_OBSTACLE_CLEARED),
           sev_occurred_at_ms := saf_occurred_at_ms source,
           sev_reason := (if is_active then LINETRACER_STOP_REASON_OBSTACLE else LINETRACER_STOP_REASON_NONE),
           sev_error_code := (if is_active then error_code UART_ERROR_SENSOR else error_code UART_ERROR_NONE)\<rparr>) s)"

definition SafetyTask_PublishResetResult :: "app_safety_event_t \<Rightarrow> bool \<Rightarrow> safety_task \<Rightarrow> bool \<times> safety_task" where
  "SafetyTask_PublishResetResult request approved s =
     (let c = s_safety_context s;
          err = (if approved then error_code UART_ERROR_NONE else sfc_error_code c);
          event = zero_control_safety_event
            \<lparr>sev_type := (if approved then APP_CONTROL_SAFETY_RESET_APPROVED else APP_CONTROL_SAFETY_RESET_REJECTED),
             sev_occurred_at_ms := saf_occurred_at_ms request,
             sev_reason := (if approved then LINETRACER_STOP_REASON_NONE else latched_reason c),
             sev_error_code := (if \<not> approved \<and> err = error_code UART_ERROR_NONE then error_code UART_ERROR_BUSY
                                else err)\<rparr>
      in SafetyTask_PublishControlEvent (SafetyTask_CopyRequestMetadata event request) s)"

section \<open>Hazards\<close>

definition SafetyTask_ClearLatch :: "safety_task \<Rightarrow> safety_task" where
  "SafetyTask_ClearLatch s = s\<lparr>s_safety_context := zero_safety_context\<rparr>"

definition hazard_active :: "u32 \<Rightarrow> safety_task \<Rightarrow> bool" where
  "hazard_active hazard s \<longleftrightarrow> active_hazard_mask (s_safety_context s) AND hazard \<noteq> 0"

text \<open>A hazard that is already active: only a health fault of a higher priority is reported again.\<close>

definition hazard_again :: "app_safety_event_t \<Rightarrow> linetracer_stop_reason_t \<Rightarrow> u8 \<Rightarrow> safety_task \<Rightarrow> safety_task" where
  "hazard_again event reason err s =
     (if reason = LINETRACER_STOP_REASON_HEALTH_FAULT
         \<and> latched_reason (s_safety_context s) = LINETRACER_STOP_REASON_HEALTH_FAULT
         \<and> SafetyTask_HealthErrorPriority err > SafetyTask_HealthErrorPriority (sfc_error_code (s_safety_context s))
      then SafetyTask_PublishLatched event (with_safety_context (\<lambda>c. c\<lparr>sfc_error_code := err\<rparr>) s)
      else count_duplicate s)"

text \<open>A new hazard: it latches, and takes over the reason if it has a higher priority.\<close>

definition hazard_new ::
    "app_safety_event_t \<Rightarrow> u32 \<Rightarrow> linetracer_stop_reason_t \<Rightarrow> u8 \<Rightarrow> safety_task \<Rightarrow> safety_task" where
  "hazard_new event hazard reason err s0 =
     (let was_latched = sfc_latched (s_safety_context s0);
          s = with_safety_context (\<lambda>c. c\<lparr>active_hazard_mask := active_hazard_mask c OR hazard,
                latched_hazard_mask := latched_hazard_mask c OR hazard, sfc_latched := True\<rparr>) s0;
          s = (if \<not> was_latched \<or> SafetyTask_ReasonPriority reason
                    > SafetyTask_ReasonPriority (latched_reason (s_safety_context s))
               then with_safety_context (\<lambda>c. c\<lparr>latched_reason := reason, sfc_error_code := err\<rparr>) s else s);
          s = (if \<not> was_latched
               then with_safety_context (\<lambda>c. c\<lparr>latched_at_ms := saf_occurred_at_ms event\<rparr>) s else s)
      in SafetyTask_PublishLatched event s)"

definition SafetyTask_ActivateHazard :: "app_safety_event_t \<Rightarrow> safety_task \<Rightarrow> safety_task" where
  "SafetyTask_ActivateHazard event s0 =
     (let hazard = SafetyTask_EventToHazardMask (saf_type event);
          reason = SafetyTask_EventToReason (saf_type event);
          err = SafetyTask_EventToUartError event reason
      in if hazard = 0 \<or> reason = LINETRACER_STOP_REASON_NONE then count_invalid s0
         else
           let s = s0\<lparr>sf_unload := snd (UnloadTask_RequestSafetyStop (sf_unload s0))\<rparr>
           in if hazard_active hazard s then hazard_again event reason err s
              else hazard_new event hazard reason err s)"

definition SafetyTask_DeactivateHazard :: "app_safety_event_t \<Rightarrow> safety_task \<Rightarrow> safety_task" where
  "SafetyTask_DeactivateHazard event s =
     (let hazard = SafetyTask_EventToHazardMask (saf_type event)
      in if hazard = 0 then count_invalid s
         else if \<not> hazard_active hazard s then count_duplicate s
         else with_safety_context (\<lambda>c. c\<lparr>active_hazard_mask := active_hazard_mask c AND NOT hazard\<rparr>) s)"

definition SafetyTask_ProcessObstacle :: "app_safety_event_t \<Rightarrow> safety_task \<Rightarrow> safety_task" where
  "SafetyTask_ProcessObstacle event s =
     (if saf_active event
      then (if hazard_active SAFETY_HAZARD_OBSTACLE s then count_duplicate s
            else SafetyTask_PublishObstacleState event True
                   (with_safety_context (\<lambda>c. c\<lparr>active_hazard_mask := active_hazard_mask c OR SAFETY_HAZARD_OBSTACLE\<rparr>) s))
      else (if \<not> hazard_active SAFETY_HAZARD_OBSTACLE s then count_duplicate s
            else SafetyTask_PublishObstacleState event False
                   (with_safety_context
                      (\<lambda>c. c\<lparr>active_hazard_mask := active_hazard_mask c AND NOT SAFETY_HAZARD_OBSTACLE\<rparr>) s)))"

definition SafetyTask_HandleReset :: "app_safety_event_t \<Rightarrow> safety_task \<Rightarrow> safety_task" where
  "SafetyTask_HandleReset request s =
     (if active_hazard_mask (s_safety_context s) \<noteq> 0 then snd (SafetyTask_PublishResetResult request False s)
      else case SafetyTask_PublishResetResult request True s of
          (True, s) \<Rightarrow> SafetyTask_ClearLatch s
        | (False, s) \<Rightarrow> s)"

definition SafetyTask_LineLossApplies :: "safety_task \<Rightarrow> bool" where
  "SafetyTask_LineLossApplies s \<longleftrightarrow>
     (if sf_turning s then False
      else case sf_snapshot s of None \<Rightarrow> False | Some snapshot \<Rightarrow> SafetyPolicy_LineLossApplies snapshot)"

definition activate_or_deactivate :: "app_safety_event_t \<Rightarrow> safety_task \<Rightarrow> safety_task" where
  "activate_or_deactivate event s0 =
     (if saf_active event
      then (let s = SafetyTask_ActivateHazard event s0
            in if SafetyPolicy_IsMomentaryRemoteEstop event
               then SafetyTask_DeactivateHazard (event\<lparr>saf_active := False\<rparr>) s else s)
      else SafetyTask_DeactivateHazard event s0)"

definition SafetyTask_ProcessEvent :: "app_safety_event_t \<Rightarrow> safety_task \<Rightarrow> safety_task" where
  "SafetyTask_ProcessEvent event s =
     (if saf_type event = APP_SAFETY_EVENT_RESET_REQUEST then SafetyTask_HandleReset event s
      else if saf_type event = APP_SAFETY_EVENT_OBSTACLE then SafetyTask_ProcessObstacle event s
      else if saf_type event = APP_SAFETY_EVENT_LINE_LOST
      then (let s = s\<lparr>s_line_lost_sensor_active := saf_active event\<rparr>
            in if saf_active event \<and> \<not> SafetyTask_LineLossApplies s then s
               else if \<not> saf_active event \<and> \<not> hazard_active SAFETY_HAZARD_LINE_LOST s then s
               else activate_or_deactivate event s)
      else activate_or_deactivate event s)"

definition SafetyTask_ReconcileLineLoss :: "u32 \<Rightarrow> safety_task \<Rightarrow> safety_task" where
  "SafetyTask_ReconcileLineLoss now s =
     (if \<not> s_line_lost_sensor_active s \<or> hazard_active SAFETY_HAZARD_LINE_LOST s
         \<or> \<not> SafetyTask_LineLossApplies s
      then s
      else SafetyTask_ActivateHazard
             (zero_safety_event
                \<lparr>saf_type := APP_SAFETY_EVENT_LINE_LOST, saf_occurred_at_ms := now,
                 saf_reason := LINETRACER_STOP_REASON_LINE_LOST, saf_source_task := APP_TASK_SENSOR,
                 saf_error_code := error_code UART_ERROR_SENSOR, saf_active := True\<rparr>) s)"

section \<open>The stop button\<close>

definition stop_button_event :: "bool \<Rightarrow> u32 \<Rightarrow> app_safety_event_t" where
  "stop_button_event pressed now =
     zero_safety_event
       \<lparr>saf_type := APP_SAFETY_EVENT_EMERGENCY_STOP, saf_occurred_at_ms := now,
        saf_reason := LINETRACER_STOP_REASON_EMERGENCY, saf_source_task := APP_TASK_SAFETY,
        saf_error_code := error_code UART_ERROR_EMERGENCY_STOP, saf_active := pressed\<rparr>"

definition SafetyTask_ProcessEmergencyStopInput :: "u32 \<Rightarrow> safety_task \<Rightarrow> safety_task" where
  "SafetyTask_ProcessEmergencyStopInput now s0 =
     (let s = s0\<lparr>sf_notified := False\<rparr>;
          s = (if sf_stop_pin_low s \<noteq> s_emergency_stop_input_active s
               then s\<lparr>s_emergency_stop_input_active := sf_stop_pin_low s,
                      s_emergency_stop_input_changed_at_ms := now\<rparr>
               else s);
          debounced = (now - s_emergency_stop_input_changed_at_ms s \<ge> APP_TIMING_EMERGENCY_STOP_DEBOUNCE_MS);
          s = (if s_emergency_stop_input_active s \<and> \<not> s_emergency_stop_input_reported s \<and> debounced
               then (SafetyTask_ProcessEvent (stop_button_event True now) s)\<lparr>s_emergency_stop_input_reported := True\<rparr>
               else s)
      in if \<not> s_emergency_stop_input_active s \<and> s_emergency_stop_input_reported s \<and> debounced
         then (SafetyTask_ProcessEvent (stop_button_event False now) s)\<lparr>s_emergency_stop_input_reported := False\<rparr>
         else s)"

definition linetracer_EXTI_Callback :: "bool \<Rightarrow> bool \<Rightarrow> safety_task \<Rightarrow> safety_task" where
  "linetracer_EXTI_Callback is_pin_12 kernel_runs s =
     (if \<not> is_pin_12 then s
      else
        let s = s\<lparr>s_emergency_stop_interrupt_count := s_emergency_stop_interrupt_count s + 1\<rparr>
        in if kernel_runs then s\<lparr>sf_notified := True\<rparr> else s)"

section \<open>The round\<close>

fun process_safety_queue :: "nat \<Rightarrow> safety_task \<Rightarrow> safety_task" where
  "process_safety_queue 0 s = s"
| "process_safety_queue (Suc n) s =
     (case osMessageQueueGet (safetyEventQueue (sf_queues s)) 0 of
        (osOK, Some event, mq) \<Rightarrow>
          process_safety_queue n
            (SafetyTask_ProcessEvent event (s\<lparr>sf_queues := (sf_queues s)\<lparr>safetyEventQueue := mq\<rparr>\<rparr>))
      | _ \<Rightarrow> s)"

definition SafetyTask_ProcessQueue :: "safety_task \<Rightarrow> safety_task" where
  "SafetyTask_ProcessQueue s = process_safety_queue APP_SAFETY_EVENT_QUEUE_DEPTH s"

definition SafetyTask_Initialize :: "safety_task \<Rightarrow> safety_task" where
  "SafetyTask_Initialize s =
     (SafetyTask_ClearLatch s)
       \<lparr>s_latest_control_event := zero_control_safety_event, s_latest_control_event_valid := False,
        s_control_event_count := 0, s_control_event_drop_count := 0, s_duplicate_event_count := 0,
        s_invalid_event_count := 0, s_emergency_stop_interrupt_count := 0,
        s_emergency_stop_input_changed_at_ms := 0, s_emergency_stop_input_active := False,
        s_emergency_stop_input_reported := False, s_line_lost_sensor_active := False, sf_notified := False\<rparr>"

definition start_safety_task :: "safety_task \<Rightarrow> safety_task" where
  "start_safety_task s0 =
     (case safety_tick (SafetyTask_Initialize s0) of (now, s) \<Rightarrow> s\<lparr>sf_last_alive := now\<rparr>)"

definition safety_cycle :: "safety_task \<Rightarrow> safety_task" where
  "safety_cycle s0 =
     (case safety_tick s0 of (now, s) \<Rightarrow>
        let s = SafetyTask_ProcessEmergencyStopInput now s;
            s = SafetyTask_ProcessQueue s;
            s = SafetyTask_ReconcileLineLoss now s
        in if now - sf_last_alive s \<ge> APP_TIMING_HEALTH_PERIOD_MS
           then (SafetyTask_PublishHealthEvent APP_HEALTH_EVENT_TASK_ALIVE
                   (latched_hazard_mask (s_safety_context s)) now s)\<lparr>sf_last_alive := now\<rparr>
           else s)"

end
