(* ===== verification/Linetracer_Unload_Gate.thy ===== *)
theory Linetracer_Unload_Gate
  imports Linetracer_Unload
begin

text \<open>
  The unload task over its runs: the safety gate keeps the servos off, and the pulses stay within
  the travel of the platform.
\<close>

section \<open>Steps of the task and its neighbours\<close>

text \<open>
  The pieces of a round between which other tasks may run, the two requests that other tasks make,
  and changes of the environment: the queues, the thread flags' error, the snapshot, the clock and
  the answers of the HAL.
\<close>

inductive unload_step :: "unload_task \<Rightarrow> unload_task \<Rightarrow> bool" where
  stop_requests: "unload_step u (UnloadTask_ProcessStopRequests now u)"
| command: "unload_step u (UnloadTask_HandleCommand command now u)"
| drive: "unload_step u (drive_unload now u)"
| publish: "unload_step u (UnloadTask_PublishResult u)"
| safety_stop: "unload_step u (snd (UnloadTask_RequestSafetyStop u))"
| abort: "unload_step u (snd (UnloadTask_RequestAbort u))"
| environment: "unload_step u (u\<lparr>un_queues := q, un_flags_ok := ok, un_task_running := runs,
     un_snapshot := snapshot, un_last_alive := alive, un_ticks := ticks,
     un_hw := (un_hw u)\<lparr>pwm_start_ok := starts, pwm_stop_ok := stops\<rparr>\<rparr>)"

text \<open>A round is a sequence of these steps.\<close>

abbreviation unload_steps :: "unload_task \<Rightarrow> unload_task \<Rightarrow> bool" where
  "unload_steps \<equiv> unload_step\<^sup>*\<^sup>*"

lemma environment_frame:
  assumes "un_logic v = un_logic u" "unloadTaskSafetyStopRequested v = unloadTaskSafetyStopRequested u"
    "unloadTaskAbortStopRequested v = unloadTaskAbortStopRequested u"
    "unloadTaskResultQueueFaultReported v = unloadTaskResultQueueFaultReported u"
    "unloadTaskResetResult v = unloadTaskResetResult u" "unloadTaskResetResultPending v = unloadTaskResetResultPending u"
    "un_hw v = un_hw u" "notify_safety_stop v = notify_safety_stop u" "notify_abort v = notify_abort u"
  shows "unload_step u v"
proof -
  have "v = u\<lparr>un_queues := un_queues v, un_flags_ok := un_flags_ok v, un_task_running := un_task_running v,
     un_snapshot := un_snapshot v, un_last_alive := un_last_alive v, un_ticks := un_ticks v,
     un_hw := (un_hw u)\<lparr>pwm_start_ok := pwm_start_ok (un_hw u), pwm_stop_ok := pwm_stop_ok (un_hw u)\<rparr>\<rparr>"
    using assms by (cases v) (cases u, simp)
  then show ?thesis by (metis environment)
qed

lemma health_step: "unload_step u (UnloadTask_PublishHealthEvent ty detail now u)"
  by (rule environment_frame) (simp_all add: UnloadTask_PublishHealthEvent_def)

lemma process_unload_commands_steps: "unload_steps u (process_unload_commands n now u)"
proof (induction n now u rule: process_unload_commands.induct)
  case (2 n now u)
  obtain status msg mq where get: "osMessageQueueGet (unloadCommandQueue (un_queues u)) 0 = (status, msg, mq)"
    by (cases "osMessageQueueGet (unloadCommandQueue (un_queues u)) 0")
  let ?u = "u\<lparr>un_queues := (un_queues u)\<lparr>unloadCommandQueue := mq\<rparr>\<rparr>"
  show ?case
  proof (cases "\<exists>x. status = osOK \<and> msg = Some x")
    case True
    then obtain x where x: "status = osOK" "msg = Some x" by blast
    have "unload_step u ?u" by (rule environment_frame) simp_all
    moreover have "unload_step ?u (UnloadTask_HandleCommand x now ?u)" by (rule command)
    moreover have "unload_steps (UnloadTask_HandleCommand x now ?u)
        (process_unload_commands n now (UnloadTask_HandleCommand x now ?u))"
      by (rule 2 [OF get [symmetric] x(1) refl x(2)])
    ultimately show ?thesis using get x by (simp add: converse_rtranclp_into_rtranclp)
  next
    case False
    then show ?thesis using get by (auto split: osStatus_t.splits option.splits)
  qed
qed simp

lemma unload_cycle_steps: "unload_steps u (unload_cycle u)"
proof -
  define now u1 where "now = fst (unload_tick u)" and "u1 = snd (unload_tick u)"
  define u2 where "u2 = UnloadTask_ProcessCommands now (UnloadTask_ProcessStopRequests now u1)"
  define u3 where "u3 = UnloadTask_PublishResult (drive_unload now u2)"
  define u4 where "u4 = UnloadTask_PublishHealthEvent APP_HEALTH_EVENT_TASK_ALIVE
    (unload_state_code (ul_state (un_logic u3))) now u3"
  have "unload_step u u1" by (rule environment_frame) (simp_all add: u1_def unload_tick_def)
  moreover have "unload_step u1 (UnloadTask_ProcessStopRequests now u1)" by (rule stop_requests)
  moreover have "unload_steps (UnloadTask_ProcessStopRequests now u1) u2"
    by (simp add: u2_def UnloadTask_ProcessCommands_def process_unload_commands_steps)
  moreover have "unload_step u2 (drive_unload now u2)" "unload_step (drive_unload now u2) u3"
    unfolding u3_def by (rule drive, rule publish)
  ultimately have u3: "unload_steps u u3" by (meson converse_rtranclp_into_rtranclp r_into_rtranclp rtranclp_trans)
  moreover have "unload_step u3 (u4\<lparr>un_last_alive := now\<rparr>)"
    by (rule environment_frame) (simp_all add: u4_def UnloadTask_PublishHealthEvent_def)
  ultimately have "unload_steps u (u4\<lparr>un_last_alive := now\<rparr>)" by (rule rtranclp.rtrancl_into_rtrancl)
  then show ?thesis
    using u3 by (simp add: unload_cycle_def Let_def split_def flip: now_def u1_def u2_def u3_def u4_def)
qed

section \<open>The servos\<close>

text \<open>Where the gate and the ramps keep the servos.\<close>

definition travel_1 :: "u32 \<Rightarrow> bool" where
  "travel_1 p \<longleftrightarrow> UNLOAD_SERVO_1_RELEASE_PULSE_US \<le> p \<and> p \<le> UNLOAD_SERVO_1_HOME_PULSE_US"

definition travel_2 :: "u32 \<Rightarrow> bool" where
  "travel_2 p \<longleftrightarrow> UNLOAD_SERVO_2_HOME_PULSE_US \<le> p \<and> p \<le> UNLOAD_SERVO_2_RELEASE_PULSE_US"

definition servos_off :: "unload_hw \<Rightarrow> bool" where
  "servos_off h \<longleftrightarrow> tim4_compare_1 h = 0 \<and> tim4_compare_2 h = 0"

definition servo_ok :: "unload_hw \<Rightarrow> bool" where
  "servo_ok h \<longleftrightarrow> travel_1 (s_servo_1_pulse_us h) \<and> travel_2 (s_servo_2_pulse_us h)
     \<and> (tim4_compare_1 h = 0 \<or> travel_1 (tim4_compare_1 h)) \<and> (tim4_compare_2 h = 0 \<or> travel_2 (tim4_compare_2 h))
     \<and> (s_safety_inhibited h \<longrightarrow> servos_off h)"

lemma ramp_between:
  fixes lo hi p t :: u32
  assumes "lo \<le> p" "p \<le> hi" "lo \<le> t" "t \<le> hi"
  shows "lo \<le> UnloadHw_RampPulse p t \<and> UnloadHw_RampPulse p t \<le> hi"
proof -
  consider "p < t" | "t < p" | "p = t" by fastforce
  then show ?thesis
  proof cases
    case 1
    define d where "d = (if t - p < 40 then t - p else 40)"
    have "unat (t - p) = unat t - unat p" using 1 by (simp add: unat_sub order_less_imp_le)
    then have d: "unat d \<le> unat t - unat p" by (auto simp: d_def word_le_nat_alt not_less)
    moreover have pt: "unat p < unat t" using 1 by (simp add: word_less_nat_alt)
    ultimately have "unat p + unat d < 4294967296" using unat_u32_less [of t] by linarith
    then have "unat (p + d) = unat p + unat d" by (simp add: unat_plus_if')
    then show ?thesis
      using assms 1 d pt by (simp add: UnloadHw_RampPulse_def word_le_nat_alt flip: d_def)
  next
    case 2
    define d where "d = (if p - t < 40 then p - t else 40)"
    have "unat (p - t) = unat p - unat t" using 2 by (simp add: unat_sub order_less_imp_le)
    then have d: "unat d \<le> unat p - unat t" by (auto simp: d_def word_le_nat_alt not_less)
    moreover have pt: "unat t < unat p" using 2 by (simp add: word_less_nat_alt)
    ultimately have "unat (p - d) = unat p - unat d" by (intro unat_sub) (simp add: word_le_nat_alt)
    moreover have "\<not> p < t" using 2 by simp
    ultimately show ?thesis
      using assms 2 d pt by (simp add: UnloadHw_RampPulse_def word_le_nat_alt flip: d_def) arith
  next
    case 3
    then show ?thesis using assms by (simp add: UnloadHw_RampPulse_def)
  qed
qed

lemma ramp_travel:
  assumes "travel_1 p" "t = UNLOAD_SERVO_1_RELEASE_PULSE_US \<or> t = UNLOAD_SERVO_1_HOME_PULSE_US"
  shows "travel_1 (UnloadHw_RampPulse p t)"
  using assms ramp_between [of UNLOAD_SERVO_1_RELEASE_PULSE_US p UNLOAD_SERVO_1_HOME_PULSE_US t]
  by (auto simp: travel_1_def unload_pulses)

lemma ramp_travel_2:
  assumes "travel_2 p" "t = UNLOAD_SERVO_2_RELEASE_PULSE_US \<or> t = UNLOAD_SERVO_2_HOME_PULSE_US"
  shows "travel_2 (UnloadHw_RampPulse p t)"
  using assms ramp_between [of UNLOAD_SERVO_2_HOME_PULSE_US p UNLOAD_SERVO_2_RELEASE_PULSE_US t]
  by (auto simp: travel_2_def unload_pulses)

lemma stop_pwm_ok: "servo_ok h \<Longrightarrow> servo_ok (snd (UnloadHw_StopPwm h)) \<and> servos_off (snd (UnloadHw_StopPwm h))"
  by (simp add: servo_ok_def UnloadHw_StopPwm_def servo_compares_off_def servos_off_def Let_def)

lemma inhibit_ok: "servo_ok h \<Longrightarrow> servo_ok (UnloadHw_SetSafetyInhibit True h)"
  by (simp add: servo_ok_def UnloadHw_SetSafetyInhibit_def servo_compares_off_def servos_off_def)

lemma apply_servo_ok:
  assumes "servo_ok h"
  shows "servo_ok (snd (UnloadHw_Apply out h))"
proof (cases "out = UNLOAD_SERVO_OUTPUT_DISABLE \<or> s_safety_inhibited h")
  case True
  then show ?thesis using stop_pwm_ok [OF assms] by (auto simp: UnloadHw_Apply_def)
next
  case False
  then show ?thesis
    using assms
    by (auto simp: UnloadHw_Apply_def drive_servos_def servo_compares_off_def servo_ok_def servos_off_def Let_def
        intro!: ramp_travel ramp_travel_2)
qed

lemma init_servo_ok: "servo_ok (snd (UnloadHw_Init h))"
  by (simp add: UnloadHw_Init_def UnloadHw_StopPwm_def servo_compares_off_def servo_ok_def servos_off_def
      travel_1_def travel_2_def unload_pulses Let_def)

lemma release_servo_ok: "servo_ok h \<Longrightarrow> servo_ok (snd (UnloadHw_ReleaseSafetyInhibit g h))"
  by (simp add: UnloadHw_ReleaseSafetyInhibit_def servo_ok_def servos_off_def)

text \<open>What the steps do to the hardware.\<close>

lemma publish_hw [simp]: "un_hw (UnloadTask_PublishResult u) = un_hw u"
proof -
  have "un_hw (snd (UnloadTask_TryPublishResult result v)) = un_hw v" for result v
    by (simp add: UnloadTask_TryPublishResult_def unload_tick_def UnloadTask_PublishHealthEvent_def Let_def
        split: prod.splits)
  then have tried: "UnloadTask_TryPublishResult result v = (ok, w) \<Longrightarrow> un_hw w = un_hw v" for result v ok w
    by (metis snd_conv)
  then have "un_hw (publish_reset_result v) = un_hw v" for v
    by (auto simp: publish_reset_result_def split: prod.splits bool.splits)
  then show ?thesis
    by (auto simp: UnloadTask_PublishResult_def dest!: tried split: option.splits prod.splits bool.splits)
qed

lemma inhibit_servos_hw:
  "un_hw (inhibit_servos u) =
     (if s_safety_inhibited (un_hw u) then un_hw u else UnloadHw_SetSafetyInhibit True (un_hw u))"
  by (simp add: inhibit_servos_def UnloadHw_IsSafetyInhibited_def)

lemma abort_unload_hw [simp]: "un_hw (abort_unload err now u) = un_hw (inhibit_servos u)"
  by (simp add: abort_unload_def Let_def)

lemma stop_requests_hw:
  "un_hw (UnloadTask_ProcessStopRequests now u) = un_hw u
   \<or> un_hw (UnloadTask_ProcessStopRequests now u) = un_hw (inhibit_servos u)"
  by (simp add: UnloadTask_ProcessStopRequests_def inhibit_servos_def UnloadHw_IsSafetyInhibited_def Let_def)

lemma reset_hw:
  "un_hw (handle_unload_reset command now u) = snd (UnloadHw_ReleaseSafetyInhibit (ucmd_inhibit_generation command) (un_hw u))"
  by (simp add: handle_unload_reset_def UnloadTask_SetResetResult_def UnloadHw_ReleaseSafetyInhibit_def Let_def)

lemma command_hw:
  "un_hw (UnloadTask_HandleCommand command now u) =
     (case ucmd_type command of
        APP_UNLOAD_COMMAND_ABORT \<Rightarrow> un_hw (inhibit_servos u)
      | APP_UNLOAD_COMMAND_RESET \<Rightarrow> snd (UnloadHw_ReleaseSafetyInhibit (ucmd_inhibit_generation command) (un_hw u))
      | _ \<Rightarrow> un_hw u)"
  by (simp add: UnloadTask_HandleCommand_def reset_hw UnloadTask_PublishHealthEvent_def inhibit_servos_def
      UnloadHw_IsSafetyInhibited_def split: app_unload_command_type_t.splits prod.splits bool.splits)

lemma drive_unload_hw: "\<exists>out. un_hw (drive_unload now u) = snd (UnloadHw_Apply out (un_hw u))"
  by (auto simp: drive_unload_def Let_def split_def)

lemma request_hw [simp]:
  "un_hw (snd (UnloadTask_RequestSafetyStop u)) = UnloadHw_SetSafetyInhibit True (un_hw u)"
  "un_hw (snd (UnloadTask_RequestAbort u)) = UnloadHw_SetSafetyInhibit True (un_hw u)"
  by (simp_all add: UnloadTask_RequestSafetyStop_def UnloadTask_RequestAbort_def Let_def)

lemma hal_answers_ok [simp]:
  "servo_ok (h\<lparr>pwm_start_ok := starts, pwm_stop_ok := stops\<rparr>) = servo_ok h"
  by (simp add: servo_ok_def servos_off_def)

lemma step_servo_ok:
  assumes "unload_step u v" "servo_ok (un_hw u)"
  shows "servo_ok (un_hw v)"
proof -
  have inhibit: "servo_ok (un_hw (inhibit_servos u))"
    using assms(2) by (simp add: inhibit_servos_hw inhibit_ok)
  show ?thesis
    using assms(1)
  proof cases
    case (stop_requests now)
    then show ?thesis using stop_requests_hw [of now u] inhibit assms(2) by metis
  next
    case (command command now)
    then show ?thesis
      using inhibit assms(2) release_servo_ok [OF assms(2)]
      by (simp add: command_hw split: app_unload_command_type_t.splits)
  next
    case (drive now)
    then show ?thesis using drive_unload_hw [of now u] apply_servo_ok [OF assms(2)] by metis
  qed (simp_all add: assms(2) inhibit_ok)
qed

text \<open>
  The runs of the task from its start: whatever state the statics had, and whatever other tasks do.
\<close>

inductive unload_run :: "unload_task \<Rightarrow> bool" where
  run_unload_start: "unload_run (start_unload_task u)"
| run_unload_step: "unload_run u \<Longrightarrow> unload_step u v \<Longrightarrow> unload_run v"

lemma unload_run_ok: "unload_run u \<Longrightarrow> servo_ok (un_hw u)"
proof (induction rule: unload_run.induct)
  case (run_unload_start u)
  show ?case
    by (simp add: start_unload_task_def unload_tick_def UnloadTask_PublishHealthEvent_def Let_def split_def init_servo_ok)
qed (rule step_servo_ok)

lemma gate_opens:
  assumes "unload_step u v" "s_safety_inhibited (un_hw u)" "\<not> s_safety_inhibited (un_hw v)"
  shows "\<exists>command now. v = UnloadTask_HandleCommand command now u \<and> ucmd_type command = APP_UNLOAD_COMMAND_RESET
    \<and> ucmd_inhibit_generation command = s_safety_inhibit_generation (un_hw u)"
proof -
  have inhibit: "un_hw (inhibit_servos u) = un_hw u" using assms(2) by (simp add: inhibit_servos_hw)
  have set: "s_safety_inhibited (UnloadHw_SetSafetyInhibit True h)" for h
    by (simp add: UnloadHw_SetSafetyInhibit_def servo_compares_off_def)
  have applied: "s_safety_inhibited (snd (UnloadHw_Apply out (un_hw u)))" for out
    using assms(2) by (simp add: UnloadHw_Apply_def UnloadHw_StopPwm_def servo_compares_off_def Let_def)
  show ?thesis
    using assms(1)
  proof cases
    case (stop_requests now)
    then show ?thesis using stop_requests_hw [of now u] inhibit assms(2,3) by metis
  next
    case (command command now)
    then show ?thesis
      using assms(2,3) inhibit
      by (auto simp: command_hw UnloadHw_ReleaseSafetyInhibit_def split: app_unload_command_type_t.splits if_splits)
  next
    case (drive now)
    then show ?thesis using drive_unload_hw [of now u] applied assms(3) by metis
  qed (use assms(2,3) set in simp_all)
qed

text \<open>A task with an idle gate, an empty command queue and a START for job 7, at a round every 20 ms.\<close>

definition unload_start_command :: app_unload_command_t where
  "unload_start_command =
     \<lparr>ucmd_type = APP_UNLOAD_COMMAND_START, ucmd_requested_at_ms = 0, ucmd_inhibit_generation = 0,
      ucmd_request_id = 1, ucmd_job_id = 7, ucmd_route_id = UART_LINETRACER_ROUTE_A\<rparr>"

definition unload_started :: unload_task where
  "unload_started =
     \<lparr>un_logic = snd (UnloadLogic_Start (UnloadLogic_Init 0) unload_start_command 0),
      unloadTaskSafetyStopRequested = False, unloadTaskAbortStopRequested = False,
      unloadTaskResultQueueFaultReported = False, unloadTaskResetResult = zero_unload_result,
      unloadTaskResetResultPending = False,
      un_hw = \<lparr>s_safety_inhibited = False, s_safety_inhibit_generation = 0, s_pwm_started = False,
               s_servo_1_pulse_us = 2000, s_servo_2_pulse_us = 1000, tim4_compare_1 = 0, tim4_compare_2 = 0,
               pwm_start_ok = (True, True), pwm_stop_ok = (True, True)\<rparr>,
      un_queues = snd (AppQueues_Init (\<lambda>_. True)
        \<lparr>controlCommandQueue = None, sensorSnapshotQueue = None, safetyEventQueue = None,
         controlSafetyQueue = None, unloadCommandQueue = None, unloadResultQueue = None, txSafetyQueue = None,
         txResponseQueue = None, txEventQueue = None, healthEventQueue = None,
         healthEventDropCounts = (\<lambda>_. 0), tx_notified = False\<rparr>),
      notify_safety_stop = False, notify_abort = False, un_flags_ok = True, un_task_running = True,
      un_snapshot = None, un_last_alive = 0, un_ticks = (\<lambda>i. of_nat (20 * i))\<rparr>"

text \<open>
  C13: In every step of every run of the unload task, stop requests of other tasks and HAL
  failures included, the pulses of the two servos are off or within their travel, and once the
  safety gate is shut it stays shut with both pulses off until a RESET command that carries the
  gate's current generation.
\<close>

theorem unload_servos_gated:
  assumes "unload_run u" and "unload_step u v"
  shows "(tim4_compare_1 (un_hw v) = 0 \<or> 1444 \<le> tim4_compare_1 (un_hw v) \<and> tim4_compare_1 (un_hw v) \<le> 2000)
    \<and> (tim4_compare_2 (un_hw v) = 0 \<or> 1000 \<le> tim4_compare_2 (un_hw v) \<and> tim4_compare_2 (un_hw v) \<le> 1556)
    \<and> (s_safety_inhibited (un_hw u) \<longrightarrow>
          s_safety_inhibited (un_hw v) \<and> servos_off (un_hw v)
          \<or> (\<exists>command now. v = UnloadTask_HandleCommand command now u
                \<and> ucmd_type command = APP_UNLOAD_COMMAND_RESET
                \<and> ucmd_inhibit_generation command = s_safety_inhibit_generation (un_hw u)))"
proof -
  have "servo_ok (un_hw v)" by (rule step_servo_ok [OF assms(2) unload_run_ok [OF assms(1)]])
  moreover have "s_safety_inhibited (un_hw u) \<Longrightarrow> s_safety_inhibited (un_hw v)
      \<or> (\<exists>command now. v = UnloadTask_HandleCommand command now u
                \<and> ucmd_type command = APP_UNLOAD_COMMAND_RESET
                \<and> ucmd_inhibit_generation command = s_safety_inhibit_generation (un_hw u))"
    using gate_opens [OF assms(2)] by blast
  ultimately show ?thesis
    unfolding servo_ok_def travel_1_def travel_2_def unload_pulses by auto
qed

theorem unload_servos_gated_witness:
  "let u = snd (UnloadTask_RequestSafetyStop (start_unload_task unload_started));
       v = drive_unload 0 u
   in tim4_compare_1 (un_hw v) = 0 \<or> 1444 \<le> tim4_compare_1 (un_hw v) \<and> tim4_compare_1 (un_hw v) \<le> 2000"
  unfolding Let_def
  by (rule unload_servos_gated [THEN conjunct1, OF run_unload_step [OF run_unload_start safety_stop] drive])

end
