(* ===== verification/Linetracer_Safety_Run.thy ===== *)
theory Linetracer_Safety_Run
  imports Linetracer_Safety Linetracer_Unload_Gate
begin

text \<open>
  The safety task over its runs: its latch, reason and hazards stay consistent, a hazard shuts the
  gate of the unload servos before anything is queued, and only an approved reset with no active
  hazard clears the latch.
\<close>

section \<open>Sets of hazards\<close>

definition has_hazard :: "u32 \<Rightarrow> app_safety_event_type_t \<Rightarrow> bool" where
  "has_hazard m ty \<longleftrightarrow> m AND SafetyTask_EventToHazardMask ty \<noteq> 0"

lemma hazards_distinct:
  "SafetyTask_EventToHazardMask ty AND SafetyTask_EventToHazardMask ty' \<noteq> 0
     \<longleftrightarrow> ty = ty' \<and> SafetyTask_EventToHazardMask ty \<noteq> 0"
  by (cases ty; cases ty') simp_all


lemma has_hazard_0 [simp]: "\<not> has_hazard 0 ty"
  by (simp add: has_hazard_def)

lemma has_hazard_or:
  "has_hazard (m OR SafetyTask_EventToHazardMask ty) ty'
     \<longleftrightarrow> has_hazard m ty' \<or> ty = ty' \<and> SafetyTask_EventToHazardMask ty \<noteq> 0"
  unfolding has_hazard_def hazards_distinct [symmetric]
  by (simp add: bit.conj_disj_distrib2 or_eq_0_iff)


section \<open>The invariant\<close>

definition safety_consistent :: "safety_task_context_t \<Rightarrow> bool" where
  "safety_consistent c \<longleftrightarrow>
     (\<forall>ty. has_hazard (active_hazard_mask c) ty \<and> ty \<noteq> APP_SAFETY_EVENT_OBSTACLE
        \<longrightarrow> has_hazard (latched_hazard_mask c) ty)
     \<and> \<not> has_hazard (latched_hazard_mask c) APP_SAFETY_EVENT_OBSTACLE
     \<and> (if sfc_latched c
        then (\<exists>ty. has_hazard (latched_hazard_mask c) ty \<and> SafetyTask_EventToReason ty = latched_reason c)
          \<and> (\<forall>ty. has_hazard (latched_hazard_mask c) ty \<longrightarrow>
               SafetyTask_ReasonPriority (SafetyTask_EventToReason ty) \<le> SafetyTask_ReasonPriority (latched_reason c))
          \<and> sfc_error_code c \<noteq> error_code UART_ERROR_NONE
        else (\<forall>ty. \<not> has_hazard (latched_hazard_mask c) ty) \<and> latched_reason c = LINETRACER_STOP_REASON_NONE
          \<and> sfc_error_code c = error_code UART_ERROR_NONE)"

lemma zero_consistent [simp]: "safety_consistent zero_safety_context"
  by (simp add: safety_consistent_def zero_safety_context_def)

text \<open>Messages do not touch the context, the gate, or the queue of safety events.\<close>

lemma published [simp]:
  "s_safety_context (snd (SafetyTask_PublishControlEvent e s)) = s_safety_context s"
  "sf_unload (snd (SafetyTask_PublishControlEvent e s)) = sf_unload s"
  "safetyEventQueue (sf_queues (snd (SafetyTask_PublishControlEvent e s))) = safetyEventQueue (sf_queues s)"
  by (simp_all add: SafetyTask_PublishControlEvent_def SafetyTask_PublishHealthEvent_def AppQueues_TryPutHealth_def
      SafetyTask_StoreLatestControlEvent_def Let_def split_def)

lemma published_frames [simp]:
  "s_safety_context (SafetyTask_PublishLatched e s) = s_safety_context s"
  "sf_unload (SafetyTask_PublishLatched e s) = sf_unload s"
  "safetyEventQueue (sf_queues (SafetyTask_PublishLatched e s)) = safetyEventQueue (sf_queues s)"
  "s_safety_context (SafetyTask_PublishObstacleState e b s) = s_safety_context s"
  "sf_unload (SafetyTask_PublishObstacleState e b s) = sf_unload s"
  "safetyEventQueue (sf_queues (SafetyTask_PublishObstacleState e b s)) = safetyEventQueue (sf_queues s)"
  "s_safety_context (snd (SafetyTask_PublishResetResult e b s)) = s_safety_context s"
  "sf_unload (snd (SafetyTask_PublishResetResult e b s)) = sf_unload s"
  "safetyEventQueue (sf_queues (snd (SafetyTask_PublishResetResult e b s))) = safetyEventQueue (sf_queues s)"
  by (simp_all add: SafetyTask_PublishLatched_def SafetyTask_PublishObstacleState_def
      SafetyTask_PublishResetResult_def Let_def)

lemma counted [simp]:
  "s_safety_context (count_duplicate s) = s_safety_context s" "sf_unload (count_duplicate s) = sf_unload s"
  "sf_queues (count_duplicate s) = sf_queues s"
  "s_safety_context (count_invalid s) = s_safety_context s" "sf_unload (count_invalid s) = sf_unload s"
  "sf_queues (count_invalid s) = sf_queues s"
  by (simp_all add: count_duplicate_def count_invalid_def)

lemma with_context [simp]:
  "s_safety_context (with_safety_context f s) = f (s_safety_context s)"
  "sf_unload (with_safety_context f s) = sf_unload s" "sf_queues (with_safety_context f s) = sf_queues s"
  by (simp_all add: with_safety_context_def)

lemma hazard_active_has:
  "hazard_active (SafetyTask_EventToHazardMask ty) s \<longleftrightarrow> has_hazard (active_hazard_mask (s_safety_context s)) ty"
  by (simp add: hazard_active_def has_hazard_def)













section \<open>What a hazard does\<close>

definition gate_shut :: "unload_hw \<Rightarrow> bool" where
  "gate_shut h \<longleftrightarrow> s_safety_inhibited h \<and> servos_off h"

lemma stop_request_shuts [simp]: "gate_shut (UnloadHw_SetSafetyInhibit True h)"
  by (simp add: gate_shut_def UnloadHw_SetSafetyInhibit_def servo_compares_off_def servos_off_def)

text \<open>
  From one state to a later one: what has latched stays latched, and a hazard that is newly latched
  has shut the gate; the gate is not opened.
\<close>

definition hazards_guarded :: "safety_task \<Rightarrow> safety_task \<Rightarrow> bool" where
  "hazards_guarded s s' \<longleftrightarrow>
     (sfc_latched (s_safety_context s) \<longrightarrow> sfc_latched (s_safety_context s'))
     \<and> (\<forall>ty. has_hazard (latched_hazard_mask (s_safety_context s')) ty \<longrightarrow>
          has_hazard (latched_hazard_mask (s_safety_context s)) ty
          \<or> gate_shut (un_hw (sf_unload s')) \<and> sfc_latched (s_safety_context s'))
     \<and> (gate_shut (un_hw (sf_unload s)) \<longrightarrow> gate_shut (un_hw (sf_unload s')))"

lemma guarded_refl [simp]: "hazards_guarded s s"
  by (simp add: hazards_guarded_def)




lemma new_frame:
  "sfc_latched (s_safety_context (hazard_new event h reason err s))"
  "sf_unload (hazard_new event h reason err s) = sf_unload s"
  by (simp_all add: hazard_new_def Let_def)








section \<open>Runs\<close>

text \<open>
  The pieces of a round, and the environment: the queues, the unload task's own steps, the snapshot
  and flag of the control task, the pin, the interrupt of the button and the clock.
\<close>

inductive safety_step :: "safety_task \<Rightarrow> safety_task \<Rightarrow> bool" where
  safety_event_taken: "safety_step s (SafetyTask_ProcessEvent event s)"
| safety_button: "safety_step s (SafetyTask_ProcessEmergencyStopInput now s)"
| safety_reconciled: "safety_step s (SafetyTask_ReconcileLineLoss now s)"
| safety_interrupt: "safety_step s (linetracer_EXTI_Callback is_pin runs s)"
| safety_environment: "unload_steps (sf_unload s) u \<Longrightarrow>
     safety_step s (s\<lparr>sf_queues := q, sf_unload := u, sf_snapshot := snapshot, sf_turning := turning,
       sf_stop_pin_low := pin, sf_last_alive := alive, sf_ticks := ticks\<rparr>)"

abbreviation safety_steps :: "safety_task \<Rightarrow> safety_task \<Rightarrow> bool" where
  "safety_steps \<equiv> safety_step\<^sup>*\<^sup>*"

lemma safety_neutral:
  assumes "s' = s\<lparr>sf_queues := sf_queues s', sf_last_alive := sf_last_alive s', sf_ticks := sf_ticks s'\<rparr>"
  shows "safety_step s s'"
proof -
  have "safety_step s (s\<lparr>sf_queues := sf_queues s', sf_unload := sf_unload s, sf_snapshot := sf_snapshot s,
      sf_turning := sf_turning s, sf_stop_pin_low := sf_stop_pin_low s, sf_last_alive := sf_last_alive s',
      sf_ticks := sf_ticks s'\<rparr>)"
    by (rule safety_environment) simp
  then show ?thesis using assms by simp
qed

lemma process_safety_queue_steps: "safety_steps s (process_safety_queue n s)"
proof (induction n s rule: process_safety_queue.induct)
  case (2 n s)
  obtain status msg mq where get: "osMessageQueueGet (safetyEventQueue (sf_queues s)) 0 = (status, msg, mq)"
    by (cases "osMessageQueueGet (safetyEventQueue (sf_queues s)) 0")
  let ?s = "s\<lparr>sf_queues := (sf_queues s)\<lparr>safetyEventQueue := mq\<rparr>\<rparr>"
  show ?case
  proof (cases "\<exists>x. status = osOK \<and> msg = Some x")
    case True
    then obtain x where x: "status = osOK" "msg = Some x" by blast
    have "safety_step s ?s" by (rule safety_neutral) simp
    moreover have "safety_step ?s (SafetyTask_ProcessEvent x ?s)" by (rule safety_event_taken)
    moreover have "safety_steps (SafetyTask_ProcessEvent x ?s) (process_safety_queue n (SafetyTask_ProcessEvent x ?s))"
      by (rule 2 [OF get [symmetric] x(1) refl x(2)])
    ultimately show ?thesis using get x by (simp add: converse_rtranclp_into_rtranclp)
  next
    case False
    then show ?thesis using get by (auto split: osStatus_t.splits option.splits)
  qed
qed simp

lemma safety_cycle_steps: "safety_steps s (safety_cycle s)"
proof -
  define now s1 where "now = fst (safety_tick s)" and "s1 = snd (safety_tick s)"
  define s2 where "s2 = SafetyTask_ProcessEmergencyStopInput now s1"
  define s3 where "s3 = SafetyTask_ProcessQueue s2"
  define s4 where "s4 = SafetyTask_ReconcileLineLoss now s3"
  define s5 where "s5 = (SafetyTask_PublishHealthEvent APP_HEALTH_EVENT_TASK_ALIVE
      (latched_hazard_mask (s_safety_context s4)) now s4)\<lparr>sf_last_alive := now\<rparr>"
  have "safety_step s s1" by (rule safety_neutral) (simp add: s1_def safety_tick_def)
  moreover have "safety_step s1 s2" unfolding s2_def by (rule safety_button)
  moreover have "safety_steps s2 s3" unfolding s3_def SafetyTask_ProcessQueue_def by (rule process_safety_queue_steps)
  moreover have "safety_step s3 s4" unfolding s4_def by (rule safety_reconciled)
  moreover have "safety_step s4 s5"
    by (rule safety_neutral) (simp add: s5_def SafetyTask_PublishHealthEvent_def)
  moreover have "safety_cycle s = s4 \<or> safety_cycle s = s5"
    by (simp add: safety_cycle_def Let_def split_def s5_def flip: now_def s1_def s2_def s3_def s4_def)
  ultimately show ?thesis
    by (metis converse_rtranclp_into_rtranclp rtranclp.rtrancl_into_rtrancl rtranclp_trans)
qed







text \<open>A task whose neighbours have just started: nothing is queued and the button is released.\<close>

definition safety_power_on :: safety_task where
  "safety_power_on =
     \<lparr>s_safety_context = zero_safety_context, s_latest_control_event = zero_control_safety_event,
      s_latest_control_event_valid = False, s_control_event_count = 0, s_control_event_drop_count = 0,
      s_duplicate_event_count = 0, s_invalid_event_count = 0, s_emergency_stop_interrupt_count = 0,
      s_emergency_stop_input_changed_at_ms = 0, s_emergency_stop_input_active = False,
      s_emergency_stop_input_reported = False, s_line_lost_sensor_active = False,
      sf_unload = unload_started, sf_queues = un_queues unload_started, sf_notified = False,
      sf_snapshot = None, sf_turning = False, sf_stop_pin_low = False, sf_last_alive = 0,
      sf_ticks = (\<lambda>i. of_nat (5 * i))\<rparr>"

definition remote_estop_event :: app_safety_event_t where
  "remote_estop_event =
     zero_safety_event
       \<lparr>saf_type := APP_SAFETY_EVENT_EMERGENCY_STOP, saf_reason := LINETRACER_STOP_REASON_EMERGENCY,
        saf_source_task := APP_TASK_COMM_RX, saf_active := True\<rparr>"



text \<open>
  A LATCHED message that finds the queue of the control task full is lost for good: the safety task
  has latched, the same hazard reported again counts as a duplicate, and the control task is not told.
\<close>

theorem latch_message_lost_when_full:
  assumes "controlSafetyQueue (sf_queues s) = Some q" "length (queue_items q) = queue_capacity q"
    and "SafetyTask_EventToHazardMask (saf_type event) \<noteq> 0" "saf_type event \<noteq> APP_SAFETY_EVENT_HEALTH_FAULT"
    and "\<not> has_hazard (active_hazard_mask (s_safety_context s)) (saf_type event)"
  shows "let s' = SafetyTask_ActivateHazard event s
    in sfc_latched (s_safety_context s') \<and> controlSafetyQueue (sf_queues s') = Some q
       \<and> (\<forall>later. sf_queues (SafetyTask_ActivateHazard event (s'\<lparr>sf_queues := later\<rparr>)) = later)"
proof -
  let ?h = "SafetyTask_EventToHazardMask (saf_type event)" and ?r = "SafetyTask_EventToReason (saf_type event)"
  have r: "?r \<noteq> LINETRACER_STOP_REASON_NONE" "?r \<noteq> LINETRACER_STOP_REASON_HEALTH_FAULT"
    using assms(3,4) by (cases "saf_type event"; simp)+
  define t where "t = s\<lparr>sf_unload := snd (UnloadTask_RequestSafetyStop (sf_unload s))\<rparr>"
  define err where "err = SafetyTask_EventToUartError event ?r"
  have act: "SafetyTask_ActivateHazard event s = hazard_new event ?h ?r err t"
    using assms(3,5) r
    by (simp add: SafetyTask_ActivateHazard_def hazard_active_has Let_def t_def err_def)
  have full: "sf_queues u = sf_queues s \<Longrightarrow>
      controlSafetyQueue (sf_queues (SafetyTask_PublishLatched event u)) = Some q" for u
    using assms(1,2)
    by (simp add: SafetyTask_PublishLatched_def SafetyTask_PublishControlEvent_def osMessageQueuePut_def
        SafetyTask_PublishHealthEvent_def AppQueues_TryPutHealth_def Let_def split_def)
  have kept: "controlSafetyQueue (sf_queues (hazard_new event ?h ?r err t)) = Some q"
    unfolding hazard_new_def Let_def by (rule full) (simp add: t_def)
  have on: "has_hazard (active_hazard_mask (s_safety_context (hazard_new event ?h ?r err t))) (saf_type event)"
    using assms(3) by (simp add: hazard_new_def has_hazard_or Let_def)
  have "sf_queues (SafetyTask_ActivateHazard event (u\<lparr>sf_queues := later\<rparr>)) = later"
    if "has_hazard (active_hazard_mask (s_safety_context u)) (saf_type event)" for u later
    using that assms(3) r
    by (simp add: SafetyTask_ActivateHazard_def hazard_active_has hazard_again_def Let_def)
  then show ?thesis using act kept on by (simp add: new_frame Let_def)
qed

theorem latch_message_lost_when_full_witness:
  "let q = \<lparr>queue_capacity = 4, queue_items = replicate 4 zero_control_safety_event\<rparr>;
       s = SafetyTask_ActivateHazard remote_estop_event
             (safety_power_on\<lparr>sf_queues := (sf_queues safety_power_on)\<lparr>controlSafetyQueue := Some q\<rparr>\<rparr>)
   in sfc_latched (s_safety_context s) \<and> controlSafetyQueue (sf_queues s) = Some q"
  using latch_message_lost_when_full
    [of "safety_power_on\<lparr>sf_queues := (sf_queues safety_power_on)\<lparr>controlSafetyQueue :=
         Some \<lparr>queue_capacity = 4, queue_items = replicate 4 zero_control_safety_event\<rparr>\<rparr>\<rparr>"
        "\<lparr>queue_capacity = 4, queue_items = replicate 4 zero_control_safety_event\<rparr>" remote_estop_event]
  by (simp add: remote_estop_event_def zero_safety_event_def safety_power_on_def zero_safety_context_def Let_def)

end
