(* ===== verification/Linetracer_Comm_Rx.thy ===== *)
theory Linetracer_Comm_Rx
  imports Linetracer_Queues Uart_Crc16
begin

text \<open>
  The reception of the line tracer
  (\<open>stm32/linetracer-controller/Application/Src/comm_rx_logic.c\<close>, \<open>comm_rx_dispatch.c\<close>): the history
  of sequence numbers, the link monitor, the translation of frames into commands and events, and
  their dispatch with the responses that could not be queued yet.
\<close>

abbreviation (input) COMM_RX_SEQUENCE_REPLAY_WINDOW_MS :: u32 where "COMM_RX_SEQUENCE_REPLAY_WINDOW_MS \<equiv> 3000"
abbreviation (input) COMM_RX_DISPATCH_PENDING_CAPACITY :: nat where "COMM_RX_DISPATCH_PENDING_CAPACITY \<equiv> 8"
abbreviation (input) COMM_RX_DISPATCH_RESPONSE_RETRY_DELAY_MS :: u32 where
  "COMM_RX_DISPATCH_RESPONSE_RETRY_DELAY_MS \<equiv> 10"
abbreviation (input) COMM_RX_DISPATCH_RESPONSE_MAX_RETRIES :: u8 where "COMM_RX_DISPATCH_RESPONSE_MAX_RETRIES \<equiv> 3"
abbreviation (input) COMM_RX_HEALTH_CONTROL_QUEUE_FULL :: u32 where "COMM_RX_HEALTH_CONTROL_QUEUE_FULL \<equiv> 0x06000000"
abbreviation (input) COMM_RX_HEALTH_SAFETY_QUEUE_FULL :: u32 where "COMM_RX_HEALTH_SAFETY_QUEUE_FULL \<equiv> 0x07000000"
abbreviation (input) COMM_RX_HEALTH_TX_RESPONSE_QUEUE_FULL :: u32 where
  "COMM_RX_HEALTH_TX_RESPONSE_QUEUE_FULL \<equiv> 0x08000000"

section \<open>Sequence numbers\<close>

text \<open>\<open>sequence_valid\<close> is the bitmap of 32 bytes, one bit per sequence number.\<close>

record comm_rx_sequence_history_t =
  accepted_at_ms :: "u8 \<Rightarrow> u32"
  sequence_valid :: "u8 \<Rightarrow> u8"

definition CommRxLogic_Init :: comm_rx_sequence_history_t where
  "CommRxLogic_Init = \<lparr>accepted_at_ms = (\<lambda>_. 0), sequence_valid = (\<lambda>_. 0)\<rparr>"

definition CommRxLogic_SequenceIsValid :: "comm_rx_sequence_history_t \<Rightarrow> u8 \<Rightarrow> bool" where
  "CommRxLogic_SequenceIsValid history sequence \<longleftrightarrow>
     sequence_valid history (sequence div 8) AND push_bit (unat (sequence mod 8)) 1 \<noteq> 0"

definition CommRxLogic_IsDuplicate :: "comm_rx_sequence_history_t \<Rightarrow> u8 \<Rightarrow> u32 \<Rightarrow> bool" where
  "CommRxLogic_IsDuplicate history sequence now \<longleftrightarrow>
     CommRxLogic_SequenceIsValid history sequence
     \<and> now - accepted_at_ms history sequence \<le> COMM_RX_SEQUENCE_REPLAY_WINDOW_MS"

definition CommRxLogic_CommitSequence ::
    "comm_rx_sequence_history_t \<Rightarrow> u8 \<Rightarrow> u32 \<Rightarrow> comm_rx_sequence_history_t" where
  "CommRxLogic_CommitSequence history sequence now =
     history\<lparr>accepted_at_ms := (accepted_at_ms history)(sequence := now),
       sequence_valid := (sequence_valid history)
         (sequence div 8 := sequence_valid history (sequence div 8) OR push_bit (unat (sequence mod 8)) 1)\<rparr>"

section \<open>The link monitor\<close>

record comm_rx_link_monitor_t =
  last_raw_activity_ms :: u32
  last_valid_frame_ms :: u32
  timeout_reported :: bool
  monitoring_required :: bool

definition CommRxLogic_LinkInit :: "u32 \<Rightarrow> comm_rx_link_monitor_t" where
  "CommRxLogic_LinkInit now =
     \<lparr>last_raw_activity_ms = now, last_valid_frame_ms = now, timeout_reported = False,
      monitoring_required = False\<rparr>"

definition CommRxLogic_LinkRecordRaw :: "comm_rx_link_monitor_t \<Rightarrow> u32 \<Rightarrow> comm_rx_link_monitor_t" where
  "CommRxLogic_LinkRecordRaw monitor now = monitor\<lparr>last_raw_activity_ms := now\<rparr>"

definition CommRxLogic_LinkRecordValidFrame :: "comm_rx_link_monitor_t \<Rightarrow> u32 \<Rightarrow> comm_rx_link_monitor_t" where
  "CommRxLogic_LinkRecordValidFrame monitor now = monitor\<lparr>last_valid_frame_ms := now, timeout_reported := False\<rparr>"

definition CommRxLogic_LinkMonitoringRequired :: "app_control_snapshot_t \<Rightarrow> bool" where
  "CommRxLogic_LinkMonitoringRequired snapshot \<longleftrightarrow>
     uart_linetracer_job_id_is_valid (to_u32 (snap_job_id snapshot))
     \<and> uart_linetracer_route_is_valid (route_code (snap_route_id snapshot))
     \<and> (snap_state snapshot = UART_LINETRACER_STATE_FOLLOWING_LINE
        \<or> snap_state snapshot = UART_LINETRACER_STATE_CORRECTING)"

definition CommRxLogic_LinkSetMonitoringRequired ::
    "comm_rx_link_monitor_t \<Rightarrow> bool \<Rightarrow> u32 \<Rightarrow> bool \<times> comm_rx_link_monitor_t" where
  "CommRxLogic_LinkSetMonitoringRequired monitor required now =
     (if monitoring_required monitor = required then (False, monitor)
      else (\<not> required \<and> timeout_reported monitor,
            monitor\<lparr>monitoring_required := required, last_valid_frame_ms := now, timeout_reported := False\<rparr>))"

definition CommRxLogic_LinkCheckTimeout ::
    "comm_rx_link_monitor_t \<Rightarrow> u32 \<Rightarrow> u32 \<Rightarrow> bool \<times> comm_rx_link_monitor_t" where
  "CommRxLogic_LinkCheckTimeout monitor now timeout_ms =
     (if \<not> monitoring_required monitor \<or> timeout_reported monitor \<or> timeout_ms = 0 then (False, monitor)
      else if now - last_valid_frame_ms monitor < timeout_ms then (False, monitor)
      else (True, monitor\<lparr>timeout_reported := True\<rparr>))"

section \<open>From frames to commands and events\<close>

datatype comm_rx_decode_result_t =
    COMM_RX_DECODE_ACCEPTED | COMM_RX_DECODE_DUPLICATE | COMM_RX_DECODE_INVALID_FRAME
  | COMM_RX_DECODE_INVALID_PAYLOAD | COMM_RX_DECODE_UNSUPPORTED_COMMAND

datatype comm_rx_destination_t =
    COMM_RX_DESTINATION_NONE | COMM_RX_DESTINATION_CONTROL | COMM_RX_DESTINATION_SAFETY
  | COMM_RX_DESTINATION_LOCAL_ACK

record comm_rx_decoded_command_t =
  rx_destination :: comm_rx_destination_t
  rx_control_command :: app_control_command_t
  rx_safety_event :: app_safety_event_t

definition zero_control_command :: app_control_command_t where
  "zero_control_command =
     \<lparr>cmd_type = APP_CONTROL_COMMAND_NONE, cmd_received_at_ms = 0, cmd_job_id = 0, cmd_original_payload_crc = 0,
      cmd_route_id = UART_LINETRACER_ROUTE_NONE, cmd_position = UART_LINETRACER_POSITION_NONE,
      cmd_sequence = 0, cmd_original_command = 0, cmd_original_payload_length = 0\<rparr>"

definition zero_decoded :: comm_rx_decoded_command_t where
  "zero_decoded =
     \<lparr>rx_destination = COMM_RX_DESTINATION_NONE, rx_control_command = zero_control_command,
      rx_safety_event = zero_safety_event\<rparr>"

definition CommRxLogic_PayloadCrc :: "uart_frame_t \<Rightarrow> u16" where
  "CommRxLogic_PayloadCrc frame = uart_crc16_ccitt (Some (frame_payload frame)) (unat (frame_length frame))"

definition CommRxLogic_SetControlMetadata ::
    "app_control_command_t \<Rightarrow> uart_frame_t \<Rightarrow> u32 \<Rightarrow> app_control_command_t" where
  "CommRxLogic_SetControlMetadata command frame now =
     command\<lparr>cmd_received_at_ms := now, cmd_original_payload_crc := CommRxLogic_PayloadCrc frame,
       cmd_route_id := UART_LINETRACER_ROUTE_NONE, cmd_position := UART_LINETRACER_POSITION_NONE,
       cmd_sequence := frame_sequence frame, cmd_original_command := frame_command frame,
       cmd_original_payload_length := frame_length frame\<rparr>"

definition CommRxLogic_SetSafetyMetadata :: "app_safety_event_t \<Rightarrow> uart_frame_t \<Rightarrow> u32 \<Rightarrow> app_safety_event_t" where
  "CommRxLogic_SetSafetyMetadata event frame now =
     event\<lparr>saf_occurred_at_ms := now, saf_original_payload_crc := CommRxLogic_PayloadCrc frame,
       saf_source_task := APP_TASK_COMM_RX, saf_error_code := error_code UART_ERROR_NONE,
       saf_request_sequence := frame_sequence frame, saf_original_command := frame_command frame,
       saf_original_payload_length := frame_length frame\<rparr>"

text \<open>The events that a reset request and a remote emergency stop bring.\<close>

definition decoded_reset :: "uart_frame_t \<Rightarrow> u32 \<Rightarrow> comm_rx_decoded_command_t" where
  "decoded_reset frame now =
     zero_decoded\<lparr>rx_destination := COMM_RX_DESTINATION_SAFETY,
       rx_safety_event := CommRxLogic_SetSafetyMetadata
         (zero_safety_event\<lparr>saf_type := APP_SAFETY_EVENT_RESET_REQUEST,
            saf_reason := LINETRACER_STOP_REASON_NONE, saf_active := False\<rparr>) frame now\<rparr>"

definition decoded_estop :: "uart_frame_t \<Rightarrow> u32 \<Rightarrow> comm_rx_decoded_command_t" where
  "decoded_estop frame now =
     zero_decoded\<lparr>rx_destination := COMM_RX_DESTINATION_SAFETY,
       rx_safety_event := CommRxLogic_SetSafetyMetadata
         (zero_safety_event\<lparr>saf_type := APP_SAFETY_EVENT_EMERGENCY_STOP,
            saf_reason := LINETRACER_STOP_REASON_EMERGENCY, saf_active := True\<rparr>) frame now\<rparr>"

definition decoded_control ::
    "app_control_command_type_t \<Rightarrow> uart_frame_t \<Rightarrow> u32 \<Rightarrow> comm_rx_decoded_command_t" where
  "decoded_control ty frame now =
     zero_decoded\<lparr>rx_destination := COMM_RX_DESTINATION_CONTROL,
       rx_control_command :=
         (CommRxLogic_SetControlMetadata zero_control_command frame now)\<lparr>cmd_type := ty\<rparr>\<rparr>"

definition CommRxLogic_DecodeCommonCommand ::
    "uart_frame_t \<Rightarrow> u32 \<Rightarrow> comm_rx_decode_result_t \<times> comm_rx_decoded_command_t" where
  "CommRxLogic_DecodeCommonCommand frame now =
     (if \<not> UART_IS_VALID_COMMAND_PAYLOAD_LENGTH (frame_command frame) (frame_length frame)
      then (COMM_RX_DECODE_INVALID_PAYLOAD, zero_decoded)
      else if frame_command frame = cmd_code UART_CMD_PING
      then (COMM_RX_DECODE_ACCEPTED, zero_decoded\<lparr>rx_destination := COMM_RX_DESTINATION_LOCAL_ACK\<rparr>)
      else if frame_command frame = cmd_code UART_CMD_GET_STATUS
      then (COMM_RX_DECODE_ACCEPTED, decoded_control APP_CONTROL_COMMAND_STATUS_REQUEST frame now)
      else if frame_command frame = cmd_code UART_CMD_RESET_DEVICE
      then (COMM_RX_DECODE_ACCEPTED, decoded_reset frame now)
      else if frame_command frame = cmd_code UART_CMD_EMERGENCY_STOP
      then (COMM_RX_DECODE_ACCEPTED, decoded_estop frame now)
      else (COMM_RX_DECODE_UNSUPPORTED_COMMAND, zero_decoded))"

text \<open>The casts of a payload byte to the enumerations; the validators have checked the byte.\<close>

definition route_of_byte :: "u8 \<Rightarrow> uart_linetracer_route_t" where
  "route_of_byte b =
     (if b = 1 then UART_LINETRACER_ROUTE_1 else if b = 2 then UART_LINETRACER_ROUTE_2
      else if b = 3 then UART_LINETRACER_ROUTE_3 else UART_LINETRACER_ROUTE_NONE)"

definition position_of_byte :: "u8 \<Rightarrow> uart_linetracer_position_t" where
  "position_of_byte b =
     (if b = 1 then UART_LINETRACER_POSITION_DEST_A else if b = 2 then UART_LINETRACER_POSITION_DEST_B
      else if b = 3 then UART_LINETRACER_POSITION_DEST_C else UART_LINETRACER_POSITION_NONE)"

definition CommRxLogic_DecodeLineTracerCommand ::
    "uart_frame_t \<Rightarrow> u32 \<Rightarrow> comm_rx_decode_result_t \<times> comm_rx_decoded_command_t" where
  "CommRxLogic_DecodeLineTracerCommand frame now =
     (let command = frame_command frame; payload = Some (frame_payload frame);
          control = (\<lambda>ty. decoded_control ty frame now);
          with_command = (\<lambda>f d. d\<lparr>rx_control_command := f (rx_control_command d)\<rparr>)
      in if \<not> uart_linetracer_command_is_valid (to_u32 command)
         then (COMM_RX_DECODE_UNSUPPORTED_COMMAND, zero_decoded)
         else if \<not> uart_linetracer_payload_is_valid (to_u32 command) payload (to_u32 (frame_length frame))
         then (COMM_RX_DECODE_INVALID_PAYLOAD, zero_decoded)
         else if command = linetracer_cmd_code UART_CMD_LINETRACER_RESET
         then (COMM_RX_DECODE_ACCEPTED, decoded_reset frame now)
         else if command = linetracer_cmd_code UART_CMD_LINETRACER_START_ROUTE
         then (COMM_RX_DECODE_ACCEPTED, with_command
                 (\<lambda>c. c\<lparr>cmd_job_id := uart_linetracer_start_job_id payload,
                         cmd_route_id := route_of_byte (frame_payload frame ! 2)\<rparr>)
                 (control APP_CONTROL_COMMAND_ASSIGN_ROUTE))
         else if command = linetracer_cmd_code UART_CMD_LINETRACER_STOP
         then (COMM_RX_DECODE_ACCEPTED, with_command
                 (\<lambda>c. c\<lparr>cmd_job_id := uart_linetracer_stop_job_id payload\<rparr>)
                 (control APP_CONTROL_COMMAND_STOP_DRIVE))
         else if command = linetracer_cmd_code UART_CMD_LINETRACER_GET_STATUS
         then (COMM_RX_DECODE_ACCEPTED, control APP_CONTROL_COMMAND_STATUS_REQUEST)
         else if command = linetracer_cmd_code UART_CMD_LINETRACER_SET_CURRENT_POSITION
         then (COMM_RX_DECODE_ACCEPTED, with_command
                 (\<lambda>c. c\<lparr>cmd_position := position_of_byte (frame_payload frame ! 0)\<rparr>)
                 (control APP_CONTROL_COMMAND_SET_CURRENT_POSITION))
         else if command = linetracer_cmd_code UART_CMD_LINETRACER_RESUME_DRIVE
         then (COMM_RX_DECODE_ACCEPTED, control APP_CONTROL_COMMAND_RESUME_DRIVE)
         else if command = linetracer_cmd_code UART_CMD_LINETRACER_MANUAL_UNLOAD
         then (COMM_RX_DECODE_ACCEPTED, control APP_CONTROL_COMMAND_MANUAL_UNLOAD)
         else (COMM_RX_DECODE_UNSUPPORTED_COMMAND, control APP_CONTROL_COMMAND_NONE))"

definition CommRxLogic_DecodeFrame ::
    "comm_rx_sequence_history_t \<Rightarrow> uart_frame_t \<Rightarrow> u32
     \<Rightarrow> comm_rx_decode_result_t \<times> comm_rx_decoded_command_t" where
  "CommRxLogic_DecodeFrame history frame now =
     (if frame_version frame \<noteq> UART_PROTOCOL_VERSION \<or> \<not> UART_IS_VALID_PAYLOAD_LENGTH (frame_length frame)
      then (COMM_RX_DECODE_INVALID_FRAME, zero_decoded)
      else if CommRxLogic_IsDuplicate history (frame_sequence frame) now
      then (COMM_RX_DECODE_DUPLICATE, zero_decoded)
      else if 0x40 \<le> frame_command frame \<and> frame_command frame \<le> 0x4F
      then CommRxLogic_DecodeLineTracerCommand frame now
      else CommRxLogic_DecodeCommonCommand frame now)"

end
