(* ===== verification/Linetracer_Dispatch.thy ===== *)
theory Linetracer_Dispatch
  imports Linetracer_Comm_Rx "HOL-Library.Multiset"
begin

text \<open>
  The dispatch of received frames
  (\<open>stm32/linetracer-controller/Application/Src/comm_rx_dispatch.c\<close>, and the port of
  \<open>comm_rx_task.c\<close>): every frame is queued for the task it is for or answered, once.
\<close>

section \<open>The port\<close>

text \<open>Function pointers, which may be \<open>NULL\<close>, over the state \<open>'p\<close> of whoever implements them.\<close>

record 'p comm_rx_dispatch_port_t =
  put_control :: "(app_control_command_t \<Rightarrow> 'p \<Rightarrow> bool \<times> 'p) ptr"
  put_safety :: "(app_safety_event_t \<Rightarrow> u8 \<Rightarrow> 'p \<Rightarrow> bool \<times> 'p) ptr"
  put_response :: "(app_tx_event_t \<Rightarrow> 'p \<Rightarrow> bool \<times> 'p) ptr"
  report_health :: "(app_health_event_type_t \<Rightarrow> u32 \<Rightarrow> u32 \<Rightarrow> 'p \<Rightarrow> 'p) ptr"

record comm_rx_pending_response_t =
  rxp_event :: app_tx_event_t
  rxp_retry_at_ms :: u32
  rxp_active :: bool

record comm_rx_dispatch_t =
  sequence_history :: comm_rx_sequence_history_t
  rx_pending_responses :: "comm_rx_pending_response_t list" \<comment> \<open>eight slots\<close>

record comm_rx_dispatch_effects_t =
  fx_control_commands :: u32
  fx_safety_commands :: u32
  fx_local_responses :: u32
  fx_duplicate_sequences :: u32
  fx_invalid_payloads :: u32
  fx_unsupported_commands :: u32
  fx_queue_drops :: u32
  fx_response_retries :: u32
  fx_response_timeouts :: u32

definition zero_effects :: comm_rx_dispatch_effects_t where
  "zero_effects =
     \<lparr>fx_control_commands = 0, fx_safety_commands = 0, fx_local_responses = 0, fx_duplicate_sequences = 0,
      fx_invalid_payloads = 0, fx_unsupported_commands = 0, fx_queue_drops = 0, fx_response_retries = 0,
      fx_response_timeouts = 0\<rparr>"

text \<open>What a call of the dispatcher works on: the dispatcher, the effects and the port's state.\<close>

record 'p dispatching =
  dsp :: comm_rx_dispatch_t
  dsp_effects :: comm_rx_dispatch_effects_t
  dsp_port :: 'p

definition zero_pending :: comm_rx_pending_response_t where
  "zero_pending = \<lparr>rxp_event = zero_tx_event, rxp_retry_at_ms = 0, rxp_active = False\<rparr>"

definition CommRxDispatch_Init :: comm_rx_dispatch_t where
  "CommRxDispatch_Init =
     \<lparr>sequence_history = CommRxLogic_Init,
      rx_pending_responses = replicate COMM_RX_DISPATCH_PENDING_CAPACITY zero_pending\<rparr>"

definition CommRxDispatch_TimeReached :: "u32 \<Rightarrow> u32 \<Rightarrow> bool" where
  "CommRxDispatch_TimeReached now deadline \<longleftrightarrow> 0 \<le> sint (now - deadline)"

definition CommRxDispatch_ReportHealth ::
    "'p comm_rx_dispatch_port_t \<Rightarrow> app_health_event_type_t \<Rightarrow> u32 \<Rightarrow> u32 \<Rightarrow> 'p dispatching \<Rightarrow> 'p dispatching" where
  "CommRxDispatch_ReportHealth port ty detail now d =
     (case report_health port of None \<Rightarrow> d | Some report \<Rightarrow> d\<lparr>dsp_port := report ty detail now (dsp_port d)\<rparr>)"

text \<open>A call through a pointer that answers \<open>0U\<close> where it is missing.\<close>

definition call_port :: "('p \<Rightarrow> bool \<times> 'p) ptr \<Rightarrow> 'p dispatching \<Rightarrow> bool \<times> 'p dispatching" where
  "call_port f d =
     (case f of
        None \<Rightarrow> (False, d)
      | Some g \<Rightarrow> (case g (dsp_port d) of (ok, p) \<Rightarrow> (ok, d\<lparr>dsp_port := p\<rparr>)))"

definition count_effect ::
    "(comm_rx_dispatch_effects_t \<Rightarrow> comm_rx_dispatch_effects_t) \<Rightarrow> 'p dispatching \<Rightarrow> 'p dispatching" where
  "count_effect f d = d\<lparr>dsp_effects := f (dsp_effects d)\<rparr>"

section \<open>Responses\<close>

fun schedule_rx_response ::
    "app_tx_event_t \<Rightarrow> u32 \<Rightarrow> comm_rx_pending_response_t list \<Rightarrow> bool \<times> comm_rx_pending_response_t list" where
  "schedule_rx_response event now [] = (False, [])"
| "schedule_rx_response event now (p # ps) =
     (if \<not> rxp_active p
      then (True, \<lparr>rxp_event = event\<lparr>txe_retry_count := 0\<rparr>,
                   rxp_retry_at_ms = now + COMM_RX_DISPATCH_RESPONSE_RETRY_DELAY_MS, rxp_active = True\<rparr> # ps)
      else case schedule_rx_response event now ps of (ok, ps') \<Rightarrow> (ok, p # ps'))"

definition CommRxDispatch_ScheduleResponse ::
    "app_tx_event_t \<Rightarrow> u32 \<Rightarrow> 'p dispatching \<Rightarrow> bool \<times> 'p dispatching" where
  "CommRxDispatch_ScheduleResponse event now d =
     (case schedule_rx_response event now (rx_pending_responses (dsp d)) of
        (ok, ps) \<Rightarrow> (ok, d\<lparr>dsp := (dsp d)\<lparr>rx_pending_responses := ps\<rparr>\<rparr>))"

definition rx_response :: "uart_frame_t \<Rightarrow> uart_status_t \<Rightarrow> uart_error_t \<Rightarrow> u32 \<Rightarrow> app_tx_event_t" where
  "rx_response frame status err now =
     zero_tx_event
       \<lparr>txe_type := APP_TX_EVENT_COMMAND_ACK, txe_created_at_ms := now,
        txe_original_payload_crc := uart_crc16_ccitt (Some (frame_payload frame)) (unat (frame_length frame)),
        txe_request_sequence := frame_sequence frame, txe_original_command := frame_command frame,
        txe_original_payload_length := frame_length frame, txe_status := status_code status,
        txe_error_code := error_code err\<rparr>"

definition CommRxDispatch_PublishResponse ::
    "'p comm_rx_dispatch_port_t \<Rightarrow> uart_frame_t \<Rightarrow> uart_status_t \<Rightarrow> uart_error_t \<Rightarrow> u32
     \<Rightarrow> 'p dispatching \<Rightarrow> bool \<times> 'p dispatching" where
  "CommRxDispatch_PublishResponse port frame status err now d0 =
     (let event = rx_response frame status err now
      in case call_port (map_option (\<lambda>f. f event) (put_response port)) d0 of
           (True, d) \<Rightarrow> (True, count_effect (\<lambda>e. e\<lparr>fx_local_responses := fx_local_responses e + 1\<rparr>) d)
         | (False, d) \<Rightarrow>
             (case CommRxDispatch_ScheduleResponse event now d of
                (True, d) \<Rightarrow> (True, d)
              | (False, d) \<Rightarrow>
                  (False, CommRxDispatch_ReportHealth port APP_HEALTH_EVENT_QUEUE_FULL
                            (COMM_RX_HEALTH_TX_RESPONSE_QUEUE_FULL OR ucast (txe_request_sequence event)) now
                            (count_effect (\<lambda>e. e\<lparr>fx_queue_drops := fx_queue_drops e + 1\<rparr>) d))))"

definition CommRxDispatch_ReportQueueFull ::
    "'p comm_rx_dispatch_port_t \<Rightarrow> u32 \<Rightarrow> uart_frame_t \<Rightarrow> u32 \<Rightarrow> 'p dispatching \<Rightarrow> 'p dispatching" where
  "CommRxDispatch_ReportQueueFull port detail frame now d =
     snd (CommRxDispatch_PublishResponse port frame UART_STATUS_BUSY UART_ERROR_BUSY now
       (CommRxDispatch_ReportHealth port APP_HEALTH_EVENT_QUEUE_FULL detail now
         (count_effect (\<lambda>e. e\<lparr>fx_queue_drops := fx_queue_drops e + 1\<rparr>) d)))"

section \<open>A frame\<close>

text \<open>\<open>True\<close>: the frame is handled and its sequence number is remembered.\<close>

definition dispatch_accepted ::
    "'p comm_rx_dispatch_port_t \<Rightarrow> comm_rx_decoded_command_t \<Rightarrow> uart_frame_t \<Rightarrow> u32
     \<Rightarrow> 'p dispatching \<Rightarrow> bool \<times> 'p dispatching" where
  "dispatch_accepted port decoded frame now d0 =
     (case rx_destination decoded of
        COMM_RX_DESTINATION_CONTROL \<Rightarrow>
          (case call_port (map_option (\<lambda>f. f (rx_control_command decoded)) (put_control port)) d0 of
             (False, d) \<Rightarrow> (False, CommRxDispatch_ReportQueueFull port COMM_RX_HEALTH_CONTROL_QUEUE_FULL frame now d)
           | (True, d) \<Rightarrow> (True, count_effect (\<lambda>e. e\<lparr>fx_control_commands := fx_control_commands e + 1\<rparr>) d))
      | COMM_RX_DESTINATION_SAFETY \<Rightarrow>
          (let prio = (if saf_type (rx_safety_event decoded) = APP_SAFETY_EVENT_EMERGENCY_STOP
                       then priority_code APP_TX_PRIORITY_SAFETY else 0)
           in case call_port (map_option (\<lambda>f. f (rx_safety_event decoded) prio) (put_safety port)) d0 of
                (False, d) \<Rightarrow> (False, CommRxDispatch_ReportQueueFull port COMM_RX_HEALTH_SAFETY_QUEUE_FULL frame now d)
              | (True, d) \<Rightarrow> (True, count_effect (\<lambda>e. e\<lparr>fx_safety_commands := fx_safety_commands e + 1\<rparr>) d))
      | COMM_RX_DESTINATION_LOCAL_ACK \<Rightarrow>
          CommRxDispatch_PublishResponse port frame UART_STATUS_ACK UART_ERROR_NONE now d0
      | COMM_RX_DESTINATION_NONE \<Rightarrow>
          (False, snd (CommRxDispatch_PublishResponse port frame UART_STATUS_NACK UART_ERROR_UNSUPPORTED_COMMAND now
                    (count_effect (\<lambda>e. e\<lparr>fx_unsupported_commands := fx_unsupported_commands e + 1\<rparr>) d0))))"

definition CommRxDispatch_Frame ::
    "'p comm_rx_dispatch_port_t \<Rightarrow> uart_frame_t \<Rightarrow> u32 \<Rightarrow> 'p dispatching \<Rightarrow> 'p dispatching" where
  "CommRxDispatch_Frame port frame now d0 =
     (let d = d0\<lparr>dsp_effects := zero_effects\<rparr>;
          refuse = (\<lambda>err count. snd (CommRxDispatch_PublishResponse port frame UART_STATUS_NACK err now
                                       (count_effect count d)))
      in case CommRxLogic_DecodeFrame (sequence_history (dsp d)) frame now of
           (COMM_RX_DECODE_ACCEPTED, decoded) \<Rightarrow>
             (case dispatch_accepted port decoded frame now d of
                (False, d) \<Rightarrow> d
              | (True, d) \<Rightarrow>
                  d\<lparr>dsp := (dsp d)\<lparr>sequence_history :=
                      CommRxLogic_CommitSequence (sequence_history (dsp d)) (frame_sequence frame) now\<rparr>\<rparr>)
         | (COMM_RX_DECODE_DUPLICATE, _) \<Rightarrow>
             refuse UART_ERROR_SEQUENCE (\<lambda>e. e\<lparr>fx_duplicate_sequences := fx_duplicate_sequences e + 1\<rparr>)
         | (COMM_RX_DECODE_INVALID_FRAME, _) \<Rightarrow>
             refuse UART_ERROR_INVALID_PAYLOAD (\<lambda>e. e\<lparr>fx_invalid_payloads := fx_invalid_payloads e + 1\<rparr>)
         | (COMM_RX_DECODE_INVALID_PAYLOAD, _) \<Rightarrow>
             refuse UART_ERROR_INVALID_PAYLOAD (\<lambda>e. e\<lparr>fx_invalid_payloads := fx_invalid_payloads e + 1\<rparr>)
         | (COMM_RX_DECODE_UNSUPPORTED_COMMAND, _) \<Rightarrow>
             refuse UART_ERROR_UNSUPPORTED_COMMAND
               (\<lambda>e. e\<lparr>fx_unsupported_commands := fx_unsupported_commands e + 1\<rparr>))"

section \<open>Pending responses\<close>

definition retry_rx_response ::
    "'p comm_rx_dispatch_port_t \<Rightarrow> u32 \<Rightarrow> comm_rx_pending_response_t \<Rightarrow> 'p dispatching
     \<Rightarrow> comm_rx_pending_response_t \<times> 'p dispatching" where
  "retry_rx_response port now p d0 =
     (if \<not> rxp_active p \<or> \<not> CommRxDispatch_TimeReached now (rxp_retry_at_ms p) then (p, d0)
      else
        let p = p\<lparr>rxp_event := (rxp_event p)\<lparr>txe_retry_count := txe_retry_count (rxp_event p) + 1\<rparr>\<rparr>;
            d = count_effect (\<lambda>e. e\<lparr>fx_response_retries := fx_response_retries e + 1\<rparr>) d0
        in case call_port (map_option (\<lambda>f. f (rxp_event p)) (put_response port)) d of
             (True, d) \<Rightarrow>
               (p\<lparr>rxp_active := False\<rparr>, count_effect (\<lambda>e. e\<lparr>fx_local_responses := fx_local_responses e + 1\<rparr>) d)
           | (False, d) \<Rightarrow>
               (if txe_retry_count (rxp_event p) \<ge> COMM_RX_DISPATCH_RESPONSE_MAX_RETRIES
                then (p\<lparr>rxp_active := False\<rparr>,
                      CommRxDispatch_ReportHealth port APP_HEALTH_EVENT_UART_TX_TIMEOUT
                        (COMM_RX_HEALTH_TX_RESPONSE_QUEUE_FULL OR ucast (txe_request_sequence (rxp_event p))) now
                        (count_effect (\<lambda>e. e\<lparr>fx_queue_drops := fx_queue_drops e + 1,
                                            fx_response_timeouts := fx_response_timeouts e + 1\<rparr>) d))
                else (p\<lparr>rxp_retry_at_ms := now + COMM_RX_DISPATCH_RESPONSE_RETRY_DELAY_MS\<rparr>, d)))"

fun retry_rx_responses ::
    "'p comm_rx_dispatch_port_t \<Rightarrow> u32 \<Rightarrow> comm_rx_pending_response_t list \<Rightarrow> 'p dispatching
     \<Rightarrow> comm_rx_pending_response_t list \<times> 'p dispatching" where
  "retry_rx_responses port now [] d = ([], d)"
| "retry_rx_responses port now (p # ps) d =
     (case retry_rx_response port now p d of
        (p', d) \<Rightarrow> (case retry_rx_responses port now ps d of (ps', d) \<Rightarrow> (p' # ps', d)))"

definition CommRxDispatch_ProcessPending ::
    "'p comm_rx_dispatch_port_t \<Rightarrow> u32 \<Rightarrow> 'p dispatching \<Rightarrow> 'p dispatching" where
  "CommRxDispatch_ProcessPending port now d0 =
     (case retry_rx_responses port now (rx_pending_responses (dsp d0)) (d0\<lparr>dsp_effects := zero_effects\<rparr>) of
        (ps, d) \<Rightarrow> d\<lparr>dsp := (dsp d)\<lparr>rx_pending_responses := ps\<rparr>\<rparr>)"

definition CommRxDispatch_PendingCount :: "comm_rx_dispatch_t \<Rightarrow> nat" where
  "CommRxDispatch_PendingCount dispatcher = length (filter rxp_active (rx_pending_responses dispatcher))"

section \<open>The port of the receive task\<close>

definition CommRxTask_PublishHealthEvent ::
    "app_health_event_type_t \<Rightarrow> u32 \<Rightarrow> u32 \<Rightarrow> app_queues \<Rightarrow> app_queues" where
  "CommRxTask_PublishHealthEvent ty detail now q =
     snd (AppQueues_TryPutHealth
       \<lparr>hev_type = ty, hev_occurred_at_ms = now, hev_detail = detail, hev_source_task = APP_TASK_COMM_RX\<rparr> q)"

definition CommRxTask_PutControl :: "app_control_command_t \<Rightarrow> app_queues \<Rightarrow> bool \<times> app_queues" where
  "CommRxTask_PutControl command q =
     (if controlCommandQueue q = NULL then (False, q)
      else case osMessageQueuePut (controlCommandQueue q) command 0 of
          (status, mq) \<Rightarrow> (status = osOK, q\<lparr>controlCommandQueue := mq\<rparr>))"

definition CommRxTask_PutSafety :: "app_safety_event_t \<Rightarrow> u8 \<Rightarrow> app_queues \<Rightarrow> bool \<times> app_queues" where
  "CommRxTask_PutSafety event prio q =
     (if safetyEventQueue q = NULL then (False, q)
      else case osMessageQueuePut (safetyEventQueue q) event prio of
          (status, mq) \<Rightarrow> (status = osOK, q\<lparr>safetyEventQueue := mq\<rparr>))"

definition CommRxTask_PutResponse :: "app_tx_event_t \<Rightarrow> app_queues \<Rightarrow> bool \<times> app_queues" where
  "CommRxTask_PutResponse event q =
     (case AppQueues_TryPutTx event q of (status, q) \<Rightarrow> (status = osOK, q))"

definition commRxDispatchPort :: "app_queues comm_rx_dispatch_port_t" where
  "commRxDispatchPort =
     \<lparr>put_control = Some CommRxTask_PutControl, put_safety = Some CommRxTask_PutSafety,
      put_response = Some CommRxTask_PutResponse, report_health = Some CommRxTask_PublishHealthEvent\<rparr>"

section \<open>What a frame is answered with\<close>

text \<open>
  The answer that a frame gets at once, or none because it was queued for the task it is meant for;
  \<open>control_room\<close> and \<open>safety_room\<close> say whether the queues of the two tasks have room.
\<close>

definition immediate_reply ::
    "comm_rx_decode_result_t \<Rightarrow> comm_rx_decoded_command_t \<Rightarrow> bool \<Rightarrow> bool \<Rightarrow> (uart_status_t \<times> uart_error_t) option" where
  "immediate_reply decision decoded control_room safety_room =
     (case decision of
        COMM_RX_DECODE_ACCEPTED \<Rightarrow>
          (case rx_destination decoded of
             COMM_RX_DESTINATION_CONTROL \<Rightarrow> if control_room then None else Some (UART_STATUS_BUSY, UART_ERROR_BUSY)
           | COMM_RX_DESTINATION_SAFETY \<Rightarrow> if safety_room then None else Some (UART_STATUS_BUSY, UART_ERROR_BUSY)
           | COMM_RX_DESTINATION_LOCAL_ACK \<Rightarrow> Some (UART_STATUS_ACK, UART_ERROR_NONE)
           | COMM_RX_DESTINATION_NONE \<Rightarrow> Some (UART_STATUS_NACK, UART_ERROR_UNSUPPORTED_COMMAND))
      | COMM_RX_DECODE_DUPLICATE \<Rightarrow> Some (UART_STATUS_NACK, UART_ERROR_SEQUENCE)
      | COMM_RX_DECODE_INVALID_FRAME \<Rightarrow> Some (UART_STATUS_NACK, UART_ERROR_INVALID_PAYLOAD)
      | COMM_RX_DECODE_INVALID_PAYLOAD \<Rightarrow> Some (UART_STATUS_NACK, UART_ERROR_INVALID_PAYLOAD)
      | COMM_RX_DECODE_UNSUPPORTED_COMMAND \<Rightarrow> Some (UART_STATUS_NACK, UART_ERROR_UNSUPPORTED_COMMAND))"

definition answer_given ::
    "(uart_status_t \<times> uart_error_t) option \<Rightarrow> bool \<Rightarrow> uart_frame_t \<Rightarrow> u32 \<Rightarrow> app_tx_event_t multiset" where
  "answer_given reply room frame now =
     (case reply of None \<Rightarrow> {#} | Some (st, err) \<Rightarrow> if room then {#rx_response frame st err now#} else {#})"

text \<open>The sequence number of a frame is remembered when the frame was queued or acknowledged.\<close>

definition history_after :: "(uart_status_t \<times> uart_error_t) option \<Rightarrow> bool \<Rightarrow> uart_frame_t \<Rightarrow> u32
    \<Rightarrow> comm_rx_sequence_history_t \<Rightarrow> comm_rx_sequence_history_t" where
  "history_after reply room frame now history =
     (if reply = None \<or> reply = Some (UART_STATUS_ACK, UART_ERROR_NONE) \<and> room
      then CommRxLogic_CommitSequence history (frame_sequence frame) now else history)"

definition drops_counted :: "(uart_status_t \<times> uart_error_t) option \<Rightarrow> bool \<Rightarrow> u32" where
  "drops_counted reply room =
     (if reply = Some (UART_STATUS_BUSY, UART_ERROR_BUSY) then 1 else 0) + (if reply \<noteq> None \<and> \<not> room then 1 else 0)"

lemmas reply_defs = immediate_reply_def answer_given_def history_after_def drops_counted_def

section \<open>What the dispatcher relies on\<close>

text \<open>
  The contract of a port: a put appends its message to what waits for the control task, the safety
  task or the transmission exactly if there is room, and otherwise answers no and changes nothing of
  these; reports of health change nothing of these.
\<close>

locale dispatch_port =
  fixes port_control :: "app_control_command_t \<Rightarrow> 'p \<Rightarrow> bool \<times> 'p"
    and port_safety :: "app_safety_event_t \<Rightarrow> u8 \<Rightarrow> 'p \<Rightarrow> bool \<times> 'p"
    and port_response :: "app_tx_event_t \<Rightarrow> 'p \<Rightarrow> bool \<times> 'p"
    and port_health :: "app_health_event_type_t \<Rightarrow> u32 \<Rightarrow> u32 \<Rightarrow> 'p \<Rightarrow> 'p"
    and controls :: "'p \<Rightarrow> app_control_command_t list"
    and safeties :: "'p \<Rightarrow> app_safety_event_t list"
    and responses :: "'p \<Rightarrow> app_tx_event_t list"
    and control_room :: "'p \<Rightarrow> bool"
    and safety_room :: "'p \<Rightarrow> bool"
    and response_room :: "'p \<Rightarrow> bool"
  assumes control_put: "port_control c p = (ok, p') \<Longrightarrow> (ok \<longleftrightarrow> control_room p)
      \<and> controls p' = (if ok then controls p @ [c] else controls p) \<and> safeties p' = safeties p
      \<and> responses p' = responses p \<and> (response_room p' \<longleftrightarrow> response_room p)"
    and safety_put: "port_safety e prio p = (ok, p') \<Longrightarrow> (ok \<longleftrightarrow> safety_room p)
      \<and> safeties p' = (if ok then safeties p @ [e] else safeties p) \<and> controls p' = controls p
      \<and> responses p' = responses p \<and> (response_room p' \<longleftrightarrow> response_room p)"
    and response_put: "port_response r p = (ok, p') \<Longrightarrow> txe_type r = APP_TX_EVENT_COMMAND_ACK \<Longrightarrow>
      (ok \<longleftrightarrow> response_room p)
      \<and> responses p' = (if ok then responses p @ [r] else responses p) \<and> controls p' = controls p
      \<and> safeties p' = safeties p"
    and health_reported: "controls (port_health ty detail now p) = controls p"
      "safeties (port_health ty detail now p) = safeties p" "responses (port_health ty detail now p) = responses p"
      "response_room (port_health ty detail now p) \<longleftrightarrow> response_room p"
begin

text \<open>The port of the code, and what waits to be sent: in the queue or in a slot.\<close>

abbreviation the_port :: "'p comm_rx_dispatch_port_t" where
  "the_port \<equiv> \<lparr>put_control = Some port_control, put_safety = Some port_safety,
     put_response = Some port_response, report_health = Some port_health\<rparr>"

definition answers :: "'p dispatching \<Rightarrow> app_tx_event_t multiset" where
  "answers d = mset (responses (dsp_port d)) + mset (map rxp_event (filter rxp_active (rx_pending_responses (dsp d))))"

text \<open>An answer finds room in the queue or in a free slot.\<close>

definition answer_room :: "'p dispatching \<Rightarrow> bool" where
  "answer_room d \<longleftrightarrow> response_room (dsp_port d) \<or> (\<exists>p\<in>set (rx_pending_responses (dsp d)). \<not> rxp_active p)"

definition books where
  "books d = (controls (dsp_port d), safeties (dsp_port d), answers d, sequence_history (dsp d))"

lemma count_books [simp]:
  "books (count_effect f d) = books d" "answer_room (count_effect f d) = answer_room d"
  "dsp_effects (count_effect f d) = f (dsp_effects d)" "dsp (count_effect f d) = dsp d"
  by (simp_all add: books_def answers_def answer_room_def count_effect_def)

lemma commit_books:
  "rx_pending_responses x = rx_pending_responses (dsp d) \<Longrightarrow>
     books (d\<lparr>dsp := x\<lparr>sequence_history := h\<rparr>\<rparr>) = (case books d of (c, s, a, _) \<Rightarrow> (c, s, a, h))"
  by (simp_all add: books_def answers_def)

lemma health_books [simp]:
  "books (CommRxDispatch_ReportHealth the_port ty detail now d) = books d"
  "answer_room (CommRxDispatch_ReportHealth the_port ty detail now d) = answer_room d"
  "dsp_effects (CommRxDispatch_ReportHealth the_port ty detail now d) = dsp_effects d"
  using health_reported
  by (simp_all add: CommRxDispatch_ReportHealth_def books_def answers_def answer_room_def)

lemma schedule_rx_response_active:
  assumes "txe_retry_count event = 0"
  shows "mset (map rxp_event (filter rxp_active (snd (schedule_rx_response event now ps))))
    = mset (map rxp_event (filter rxp_active ps)) + (if fst (schedule_rx_response event now ps) then {#event#} else {#})"
    and "fst (schedule_rx_response event now ps) \<longleftrightarrow> (\<exists>p\<in>set ps. \<not> rxp_active p)"
  using assms by (induction event now ps rule: schedule_rx_response.induct) (auto split: prod.splits)

lemma response_published:
  fixes frame st err now d
  defines "e \<equiv> CommRxDispatch_PublishResponse the_port frame st err now d"
    and "given \<equiv> if answer_room d then {#rx_response frame st err now#} else {#}"
  shows "books (snd e) = (controls (dsp_port d), safeties (dsp_port d), answers d + given, sequence_history (dsp d))"
    and "fst e \<longleftrightarrow> answer_room d"
    and "fx_queue_drops (dsp_effects (snd e)) = fx_queue_drops (dsp_effects d) + (if answer_room d then 0 else 1)"
proof -
  let ?r = "rx_response frame st err now" and ?ps = "rx_pending_responses (dsp d)"
  have r: "txe_type ?r = APP_TX_EVENT_COMMAND_ACK" "txe_retry_count ?r = 0"
    by (simp_all add: rx_response_def zero_tx_event_def)
  obtain ok p where put: "port_response ?r (dsp_port d) = (ok, p)" by fastforce
  note put' = response_put [OF put r(1)]
  define f where "f = snd (CommRxDispatch_ScheduleResponse ?r now (d\<lparr>dsp_port := p\<rparr>))"
  have sch: "CommRxDispatch_ScheduleResponse ?r now (d\<lparr>dsp_port := p\<rparr>) = (\<exists>q\<in>set ?ps. \<not> rxp_active q, f)"
    using schedule_rx_response_active(2) [OF r(2), of now ?ps]
    by (auto simp: f_def CommRxDispatch_ScheduleResponse_def split: prod.splits)
  have f: "dsp_effects f = dsp_effects d" "dsp_port f = p" "sequence_history (dsp f) = sequence_history (dsp d)"
    "mset (map rxp_event (filter rxp_active (rx_pending_responses (dsp f)))) = mset (map rxp_event (filter rxp_active ?ps))
       + (if \<exists>q\<in>set ?ps. \<not> rxp_active q then {#?r#} else {#})"
    using schedule_rx_response_active [OF r(2), of now ?ps]
    by (simp_all add: f_def CommRxDispatch_ScheduleResponse_def split_def)
  have e: "e = (if ok then (True, count_effect (\<lambda>e. e\<lparr>fx_local_responses := fx_local_responses e + 1\<rparr>) (d\<lparr>dsp_port := p\<rparr>))
      else if \<exists>q\<in>set ?ps. \<not> rxp_active q then (True, f)
      else (False, CommRxDispatch_ReportHealth the_port APP_HEALTH_EVENT_QUEUE_FULL
             (COMM_RX_HEALTH_TX_RESPONSE_QUEUE_FULL OR ucast (txe_request_sequence ?r)) now
             (count_effect (\<lambda>e. e\<lparr>fx_queue_drops := fx_queue_drops e + 1\<rparr>) f)))"
    by (simp add: e_def CommRxDispatch_PublishResponse_def call_port_def put Let_def sch)
  show "books (snd e) = (controls (dsp_port d), safeties (dsp_port d), answers d + given, sequence_history (dsp d))"
    "fst e \<longleftrightarrow> answer_room d"
    "fx_queue_drops (dsp_effects (snd e)) = fx_queue_drops (dsp_effects d) + (if answer_room d then 0 else 1)"
  proof -
    have sent: "books (d\<lparr>dsp_port := p\<rparr>) = (controls (dsp_port d), safeties (dsp_port d),
        answers d + (if ok then {#?r#} else {#}), sequence_history (dsp d))"
      using put' by (simp add: books_def answers_def)
    have kept: "books f = (controls (dsp_port d), safeties (dsp_port d),
        answers d + (if ok then {#?r#} else {#}) + (if \<exists>q\<in>set ?ps. \<not> rxp_active q then {#?r#} else {#}),
        sequence_history (dsp d))"
      using put' f unfolding books_def answers_def by simp
    have room: "answer_room d \<longleftrightarrow> ok \<or> (\<exists>q\<in>set ?ps. \<not> rxp_active q)" using put' by (simp add: answer_room_def)
    show "books (snd e) = (controls (dsp_port d), safeties (dsp_port d), answers d + given, sequence_history (dsp d))"
      "fst e \<longleftrightarrow> answer_room d"
      "fx_queue_drops (dsp_effects (snd e)) = fx_queue_drops (dsp_effects d) + (if answer_room d then 0 else 1)"
      unfolding e given_def room
      by (cases ok; cases "\<exists>q\<in>set ?ps. \<not> rxp_active q"; simp only: if_True if_False snd_conv fst_conv count_books health_books
          sent kept HOL.simp_thms add.right_neutral; simp add: f(1))+
  qed
qed

lemma queue_full_published:
  fixes detail frame now d
  defines "e \<equiv> CommRxDispatch_ReportQueueFull the_port detail frame now d"
  shows "books e = (controls (dsp_port d), safeties (dsp_port d), answers d +
      (if answer_room d then {#rx_response frame UART_STATUS_BUSY UART_ERROR_BUSY now#} else {#}), sequence_history (dsp d))"
    and "fx_queue_drops (dsp_effects e) = fx_queue_drops (dsp_effects d) + 1 + (if answer_room d then 0 else 1)"
proof -
  define f where "f = CommRxDispatch_ReportHealth the_port APP_HEALTH_EVENT_QUEUE_FULL detail now
    (count_effect (\<lambda>e. e\<lparr>fx_queue_drops := fx_queue_drops e + 1\<rparr>) d)"
  have f: "books f = books d" "answer_room f = answer_room d" "fx_queue_drops (dsp_effects f) = fx_queue_drops (dsp_effects d) + 1"
    by (simp_all add: f_def)
  have e: "e = snd (CommRxDispatch_PublishResponse the_port frame UART_STATUS_BUSY UART_ERROR_BUSY now f)"
    by (simp add: e_def CommRxDispatch_ReportQueueFull_def f_def)
  note pub = response_published [of frame UART_STATUS_BUSY UART_ERROR_BUSY now f, folded e]
  show "books e = (controls (dsp_port d), safeties (dsp_port d), answers d +
      (if answer_room d then {#rx_response frame UART_STATUS_BUSY UART_ERROR_BUSY now#} else {#}), sequence_history (dsp d))"
    using pub(1) f(1,2) by (simp add: books_def)
  show "fx_queue_drops (dsp_effects e) = fx_queue_drops (dsp_effects d) + 1 + (if answer_room d then 0 else 1)"
    using pub(3) f(2,3) by simp
qed

text \<open>What a frame does to the queues, the answers, the history and the count of drops.\<close>

definition handled_once :: "uart_frame_t \<Rightarrow> u32 \<Rightarrow> 'p dispatching \<Rightarrow> 'p dispatching \<Rightarrow> bool" where
  "handled_once frame now d e \<longleftrightarrow>
     (let (decision, decoded) = CommRxLogic_DecodeFrame (sequence_history (dsp d)) frame now;
          reply = immediate_reply decision decoded (control_room (dsp_port d)) (safety_room (dsp_port d))
      in controls (dsp_port e) = controls (dsp_port d)
           @ (if reply = None \<and> rx_destination decoded = COMM_RX_DESTINATION_CONTROL then [rx_control_command decoded] else [])
         \<and> safeties (dsp_port e) = safeties (dsp_port d)
           @ (if reply = None \<and> rx_destination decoded = COMM_RX_DESTINATION_SAFETY then [rx_safety_event decoded] else [])
         \<and> answers e = answers d + answer_given reply (answer_room d) frame now
         \<and> sequence_history (dsp e) = history_after reply (answer_room d) frame now (sequence_history (dsp d))
         \<and> fx_queue_drops (dsp_effects e) = drops_counted reply (answer_room d))"

lemma booked_once:
  assumes "CommRxLogic_DecodeFrame (sequence_history (dsp d)) frame now = (decision, decoded)"
    and "immediate_reply decision decoded (control_room (dsp_port d)) (safety_room (dsp_port d)) = reply"
    and "books e = (controls (dsp_port d)
        @ (if reply = None \<and> rx_destination decoded = COMM_RX_DESTINATION_CONTROL then [rx_control_command decoded] else []),
      safeties (dsp_port d)
        @ (if reply = None \<and> rx_destination decoded = COMM_RX_DESTINATION_SAFETY then [rx_safety_event decoded] else []),
      answers d + answer_given reply (answer_room d) frame now,
      history_after reply (answer_room d) frame now (sequence_history (dsp d)))"
    and "fx_queue_drops (dsp_effects e) = drops_counted reply (answer_room d)"
  shows "handled_once frame now d e"
  using assms by (simp add: handled_once_def books_def)

lemma accepted_once:
  fixes d :: "'p dispatching"
  assumes zero: "dsp_effects d = zero_effects"
    and dec: "CommRxLogic_DecodeFrame (sequence_history (dsp d)) frame now = (COMM_RX_DECODE_ACCEPTED, decoded)"
  shows "handled_once frame now d (case dispatch_accepted the_port decoded frame now d of
      (False, e) \<Rightarrow> e
    | (True, e) \<Rightarrow> e\<lparr>dsp := (dsp e)\<lparr>sequence_history :=
        CommRxLogic_CommitSequence (sequence_history (dsp e)) (frame_sequence frame) now\<rparr>\<rparr>)"
proof (cases "rx_destination decoded")
  case COMM_RX_DESTINATION_NONE
  define d1 where "d1 = count_effect (\<lambda>e. e\<lparr>fx_unsupported_commands := fx_unsupported_commands e + 1\<rparr>) d"
  have d1: "books d1 = books d" "answer_room d1 = answer_room d" "fx_queue_drops (dsp_effects d1) = 0"
    using zero by (simp_all add: d1_def zero_effects_def)
  note pub = response_published [of frame UART_STATUS_NACK UART_ERROR_UNSUPPORTED_COMMAND now d1]
  show ?thesis
    by (rule booked_once [OF dec refl])
      (use COMM_RX_DESTINATION_NONE pub d1 in \<open>simp_all add: dispatch_accepted_def reply_defs books_def flip: d1_def\<close>)
next
  case COMM_RX_DESTINATION_CONTROL
  obtain ok p where put: "port_control (rx_control_command decoded) (dsp_port d) = (ok, p)" by fastforce
  note put' = control_put [OF put]
  have d1: "answer_room (d\<lparr>dsp_port := p\<rparr>) = answer_room d" "answers (d\<lparr>dsp_port := p\<rparr>) = answers d"
    using put' by (simp_all add: answer_room_def answers_def)
  note full = queue_full_published [of COMM_RX_HEALTH_CONTROL_QUEUE_FULL frame now "d\<lparr>dsp_port := p\<rparr>"]
  have e: "dispatch_accepted the_port decoded frame now d = (if ok
      then (True, count_effect (\<lambda>e. e\<lparr>fx_control_commands := fx_control_commands e + 1\<rparr>) (d\<lparr>dsp_port := p\<rparr>))
      else (False, CommRxDispatch_ReportQueueFull the_port COMM_RX_HEALTH_CONTROL_QUEUE_FULL frame now (d\<lparr>dsp_port := p\<rparr>)))"
    using COMM_RX_DESTINATION_CONTROL by (simp add: dispatch_accepted_def call_port_def put)
  have b: "books (d\<lparr>dsp_port := p\<rparr>) = (if ok then controls (dsp_port d) @ [rx_control_command decoded] else controls (dsp_port d),
      safeties (dsp_port d), answers d, sequence_history (dsp d))"
    using put' d1(2) by (simp add: books_def)
  show ?thesis
  proof (cases ok)
    case True
    then show ?thesis
      using put' COMM_RX_DESTINATION_CONTROL zero
      by (intro booked_once [OF dec refl])
        (simp_all add: e commit_books b reply_defs zero_effects_def)
  next
    case False
    then show ?thesis
      using put' COMM_RX_DESTINATION_CONTROL zero full d1
      by (intro booked_once [OF dec refl]) (simp_all add: e reply_defs zero_effects_def)
  qed
next
  case COMM_RX_DESTINATION_SAFETY
  define prio where "prio = (if saf_type (rx_safety_event decoded) = APP_SAFETY_EVENT_EMERGENCY_STOP
    then priority_code APP_TX_PRIORITY_SAFETY else 0)"
  obtain ok p where put: "port_safety (rx_safety_event decoded) prio (dsp_port d) = (ok, p)" by fastforce
  note put' = safety_put [OF put]
  have d1: "answer_room (d\<lparr>dsp_port := p\<rparr>) = answer_room d" "answers (d\<lparr>dsp_port := p\<rparr>) = answers d"
    using put' by (simp_all add: answer_room_def answers_def)
  note full = queue_full_published [of COMM_RX_HEALTH_SAFETY_QUEUE_FULL frame now "d\<lparr>dsp_port := p\<rparr>"]
  have e: "dispatch_accepted the_port decoded frame now d = (if ok
      then (True, count_effect (\<lambda>e. e\<lparr>fx_safety_commands := fx_safety_commands e + 1\<rparr>) (d\<lparr>dsp_port := p\<rparr>))
      else (False, CommRxDispatch_ReportQueueFull the_port COMM_RX_HEALTH_SAFETY_QUEUE_FULL frame now (d\<lparr>dsp_port := p\<rparr>)))"
    using COMM_RX_DESTINATION_SAFETY by (simp add: dispatch_accepted_def call_port_def put Let_def flip: prio_def)
  have b: "books (d\<lparr>dsp_port := p\<rparr>) = (controls (dsp_port d),
      if ok then safeties (dsp_port d) @ [rx_safety_event decoded] else safeties (dsp_port d), answers d, sequence_history (dsp d))"
    using put' d1(2) by (simp add: books_def)
  show ?thesis
  proof (cases ok)
    case True
    then show ?thesis
      using put' COMM_RX_DESTINATION_SAFETY zero
      by (intro booked_once [OF dec refl]) (simp_all add: e commit_books b reply_defs zero_effects_def)
  next
    case False
    then show ?thesis
      using put' COMM_RX_DESTINATION_SAFETY zero full d1
      by (intro booked_once [OF dec refl]) (simp_all add: e reply_defs zero_effects_def)
  qed
next
  case COMM_RX_DESTINATION_LOCAL_ACK
  define e where "e = CommRxDispatch_PublishResponse the_port frame UART_STATUS_ACK UART_ERROR_NONE now d"
  note pub = response_published [of frame UART_STATUS_ACK UART_ERROR_NONE now d, folded e_def]
  have history: "sequence_history (dsp (snd e)) = sequence_history (dsp d)" using pub(1) by (simp add: books_def)
  have e: "e = (answer_room d, snd e)" using pub(2) by (simp add: prod_eq_iff)
  have e': "dispatch_accepted the_port decoded frame now d = (answer_room d, snd e)"
    using COMM_RX_DESTINATION_LOCAL_ACK e by (simp add: dispatch_accepted_def e_def)
  show ?thesis
  proof (cases "answer_room d")
    case True
    then show ?thesis
      using COMM_RX_DESTINATION_LOCAL_ACK pub zero
      by (intro booked_once [OF dec refl]) (simp_all add: e' commit_books history reply_defs zero_effects_def)
  next
    case False
    then show ?thesis
      using COMM_RX_DESTINATION_LOCAL_ACK pub zero
      by (intro booked_once [OF dec refl]) (simp_all add: e' reply_defs zero_effects_def)
  qed
qed

lemma frame_once:
  "handled_once frame now d (CommRxDispatch_Frame the_port frame now d)"
proof -
  define d0 where "d0 = d\<lparr>dsp_effects := zero_effects\<rparr>"
  have d0: "dsp_effects d0 = zero_effects" "dsp d0 = dsp d" "dsp_port d0 = dsp_port d" "answers d0 = answers d"
      "answer_room d0 = answer_room d"
    by (simp_all add: d0_def answers_def answer_room_def)
  then have here: "handled_once frame now d e = handled_once frame now d0 e" for e
    by (simp add: handled_once_def)
  obtain r decoded where dec: "CommRxLogic_DecodeFrame (sequence_history (dsp d)) frame now = (r, decoded)" by fastforce
  show ?thesis
  proof (cases "r = COMM_RX_DECODE_ACCEPTED")
    case True
    then show ?thesis
      using accepted_once [OF d0(1), of frame now decoded] dec d0(2) unfolding here
      by (simp add: CommRxDispatch_Frame_def Let_def flip: d0_def)
  next
    case False
    have nack: "books (snd (CommRxDispatch_PublishResponse the_port frame UART_STATUS_NACK err now (count_effect f d0)))
        = (controls (dsp_port d0), safeties (dsp_port d0), answers d0 +
            (if answer_room d0 then {#rx_response frame UART_STATUS_NACK err now#} else {#}), sequence_history (dsp d0))"
      "fx_queue_drops (dsp_effects (snd (CommRxDispatch_PublishResponse the_port frame UART_STATUS_NACK err now (count_effect f d0))))
        = fx_queue_drops (f zero_effects) + (if answer_room d0 then 0 else 1)" for err f
      using response_published [of frame UART_STATUS_NACK err now "count_effect f d0"] count_books(1) [of f d0] d0(1)
      by (simp_all add: books_def)
    have refuse: "\<exists>err f. immediate_reply r decoded (control_room (dsp_port d0)) (safety_room (dsp_port d0)) = Some (UART_STATUS_NACK, err)
        \<and> CommRxDispatch_Frame the_port frame now d
            = snd (CommRxDispatch_PublishResponse the_port frame UART_STATUS_NACK err now (count_effect f d0))
        \<and> fx_queue_drops (f zero_effects) = 0"
    proof (cases r)
      case COMM_RX_DECODE_DUPLICATE
      then show ?thesis
        by (intro exI [of _ UART_ERROR_SEQUENCE] exI [of _ "\<lambda>e. e\<lparr>fx_duplicate_sequences := fx_duplicate_sequences e + 1\<rparr>"])
          (simp add: CommRxDispatch_Frame_def dec immediate_reply_def zero_effects_def d0_def)
    next
      case COMM_RX_DECODE_UNSUPPORTED_COMMAND
      then show ?thesis
        by (intro exI [of _ UART_ERROR_UNSUPPORTED_COMMAND]
            exI [of _ "\<lambda>e. e\<lparr>fx_unsupported_commands := fx_unsupported_commands e + 1\<rparr>"])
          (simp add: CommRxDispatch_Frame_def dec immediate_reply_def zero_effects_def d0_def)
    next
      case COMM_RX_DECODE_INVALID_FRAME
      then show ?thesis
        by (intro exI [of _ UART_ERROR_INVALID_PAYLOAD] exI [of _ "\<lambda>e. e\<lparr>fx_invalid_payloads := fx_invalid_payloads e + 1\<rparr>"])
          (simp add: CommRxDispatch_Frame_def dec immediate_reply_def zero_effects_def d0_def)
    next
      case COMM_RX_DECODE_INVALID_PAYLOAD
      then show ?thesis
        by (intro exI [of _ UART_ERROR_INVALID_PAYLOAD] exI [of _ "\<lambda>e. e\<lparr>fx_invalid_payloads := fx_invalid_payloads e + 1\<rparr>"])
          (simp add: CommRxDispatch_Frame_def dec immediate_reply_def zero_effects_def d0_def)
    qed (use False in simp)
    then obtain err f where e: "immediate_reply r decoded (control_room (dsp_port d0)) (safety_room (dsp_port d0)) = Some (UART_STATUS_NACK, err)"
      "CommRxDispatch_Frame the_port frame now d
         = snd (CommRxDispatch_PublishResponse the_port frame UART_STATUS_NACK err now (count_effect f d0))"
      "fx_queue_drops (f zero_effects) = 0" by blast
    have dec0: "CommRxLogic_DecodeFrame (sequence_history (dsp d0)) frame now = (r, decoded)" using dec d0(2) by simp
    show ?thesis
      unfolding here
      by (rule booked_once [OF dec0 e(1)])
        (simp_all add: e(2,3) nack answer_given_def history_after_def drops_counted_def)
  qed
qed

end

section \<open>The port of the task keeps the contract\<close>

definition queued_items :: "'a os_queue ptr \<Rightarrow> 'a list" where
  "queued_items mq = (case mq of None \<Rightarrow> [] | Some q \<Rightarrow> queue_items q)"

lemma put_queued_items:
  assumes "osMessageQueuePut mq x prio = (status, mq')"
  shows "queued_items mq' = (if status = osOK then queued_items mq @ [x] else queued_items mq)"
  using assms by (auto simp: osMessageQueuePut_def queued_items_def split: option.splits if_splits)

lemma health_queues [simp]:
  "controlCommandQueue (CommRxTask_PublishHealthEvent ty detail now q) = controlCommandQueue q"
  "safetyEventQueue (CommRxTask_PublishHealthEvent ty detail now q) = safetyEventQueue q"
  "txResponseQueue (CommRxTask_PublishHealthEvent ty detail now q) = txResponseQueue q"
  by (simp_all add: CommRxTask_PublishHealthEvent_def AppQueues_TryPutHealth_def Let_def split_def)

definition has_room :: "'a os_queue ptr \<Rightarrow> bool" where
  "has_room mq = (case mq of None \<Rightarrow> False | Some q \<Rightarrow> length (queue_items q) < queue_capacity q)"

lemma put_has_room:
  assumes "osMessageQueuePut mq x prio = (status, mq')"
  shows "status = osOK \<longleftrightarrow> has_room mq"
  using assms by (auto simp: osMessageQueuePut_def has_room_def split: option.splits if_splits)

interpretation crx: dispatch_port CommRxTask_PutControl CommRxTask_PutSafety CommRxTask_PutResponse
  CommRxTask_PublishHealthEvent "\<lambda>q. queued_items (controlCommandQueue q)"
  "\<lambda>q. queued_items (safetyEventQueue q)" "\<lambda>q. queued_items (txResponseQueue q)"
  "\<lambda>q. has_room (controlCommandQueue q)" "\<lambda>q. has_room (safetyEventQueue q)" "\<lambda>q. has_room (txResponseQueue q)"
proof
  fix c q ok q'
  assume "CommRxTask_PutControl c q = (ok, q')"
  then show "(ok \<longleftrightarrow> has_room (controlCommandQueue q))
      \<and> queued_items (controlCommandQueue q')
        = (if ok then queued_items (controlCommandQueue q) @ [c] else queued_items (controlCommandQueue q))
      \<and> queued_items (safetyEventQueue q') = queued_items (safetyEventQueue q)
      \<and> queued_items (txResponseQueue q') = queued_items (txResponseQueue q)
      \<and> (has_room (txResponseQueue q') \<longleftrightarrow> has_room (txResponseQueue q))"
    by (cases "controlCommandQueue q = NULL")
      (auto simp: CommRxTask_PutControl_def has_room_def [of None] dest: put_queued_items put_has_room split: if_splits prod.splits)
next
  fix e prio q ok q'
  assume "CommRxTask_PutSafety e prio q = (ok, q')"
  then show "(ok \<longleftrightarrow> has_room (safetyEventQueue q))
      \<and> queued_items (safetyEventQueue q')
        = (if ok then queued_items (safetyEventQueue q) @ [e] else queued_items (safetyEventQueue q))
      \<and> queued_items (controlCommandQueue q') = queued_items (controlCommandQueue q)
      \<and> queued_items (txResponseQueue q') = queued_items (txResponseQueue q)
      \<and> (has_room (txResponseQueue q') \<longleftrightarrow> has_room (txResponseQueue q))"
    by (cases "safetyEventQueue q = NULL")
      (auto simp: CommRxTask_PutSafety_def has_room_def [of None] dest: put_queued_items put_has_room split: if_splits prod.splits)
next
  fix r q ok q'
  assume "CommRxTask_PutResponse r q = (ok, q')" "txe_type r = APP_TX_EVENT_COMMAND_ACK"
  then show "(ok \<longleftrightarrow> has_room (txResponseQueue q))
      \<and> queued_items (txResponseQueue q')
        = (if ok then queued_items (txResponseQueue q) @ [r] else queued_items (txResponseQueue q))
      \<and> queued_items (controlCommandQueue q') = queued_items (controlCommandQueue q)
      \<and> queued_items (safetyEventQueue q') = queued_items (safetyEventQueue q)"
    by (cases "txResponseQueue q = NULL")
      (auto simp: CommRxTask_PutResponse_def AppQueues_TryPutTx_def Let_def app_tx_event_is_emergency_def
        app_tx_event_is_response_def has_room_def [of None] dest: put_queued_items put_has_room split: if_splits prod.splits)
qed simp_all

text \<open>What waits to be sent as an answer: in the queue of the transmit task, or in one of the slots.\<close>

definition rx_answers :: "app_queues dispatching \<Rightarrow> app_tx_event_t multiset" where
  "rx_answers d = mset (queued_items (txResponseQueue (dsp_port d)))
     + mset (map rxp_event (filter rxp_active (rx_pending_responses (dsp d))))"

definition rx_controls :: "app_queues dispatching \<Rightarrow> app_control_command_t list" where
  "rx_controls d = queued_items (controlCommandQueue (dsp_port d))"

definition rx_safeties :: "app_queues dispatching \<Rightarrow> app_safety_event_t list" where
  "rx_safeties d = queued_items (safetyEventQueue (dsp_port d))"

text \<open>
  C19: A frame for the linetracer is either queued exactly once, for the control or the safety
  task, when it is accepted and that queue has room, or answered exactly once (BUSY without
  room, ACK for a PING, the NACK of its refusal otherwise); the answer waits in the response
  queue or in one of the eight slots, and is counted as dropped only if both are full; its
  sequence number is remembered exactly if it was queued or acknowledged, so a command that was
  refused may be sent again.
\<close>

theorem linetracer_frame_handled_once:
  "let e = CommRxDispatch_Frame commRxDispatchPort frame now d;
       (decision, decoded) = CommRxLogic_DecodeFrame (sequence_history (dsp d)) frame now;
       reply = immediate_reply decision decoded (has_room (controlCommandQueue (dsp_port d)))
                 (has_room (safetyEventQueue (dsp_port d)));
       room = (has_room (txResponseQueue (dsp_port d)) \<or> (\<exists>p\<in>set (rx_pending_responses (dsp d)). \<not> rxp_active p))
   in rx_controls e = rx_controls d
        @ (if reply = None \<and> rx_destination decoded = COMM_RX_DESTINATION_CONTROL then [rx_control_command decoded] else [])
    \<and> rx_safeties e = rx_safeties d
        @ (if reply = None \<and> rx_destination decoded = COMM_RX_DESTINATION_SAFETY then [rx_safety_event decoded] else [])
    \<and> rx_answers e = rx_answers d + answer_given reply room frame now
    \<and> sequence_history (dsp e) = history_after reply room frame now (sequence_history (dsp d))
    \<and> fx_queue_drops (dsp_effects e) = drops_counted reply room"
  using crx.frame_once [of frame now d]
  unfolding crx.handled_once_def crx.answers_def crx.answer_room_def commRxDispatchPort_def rx_answers_def
    rx_controls_def rx_safeties_def Let_def split_def
  by blast

end
