(* ===== verification/Linetracer_Vehicle.thy ===== *)
theory Linetracer_Vehicle
  imports Linetracer_Safety_Run Linetracer_Dispatch Linetracer_Latch
begin

text \<open>
  The vehicle: the receive, safety, unload and control tasks over one set of queues. An emergency
  stop is followed from the frame that asks for it to the wheels and the servos.
\<close>

section \<open>The tasks together\<close>

text \<open>
  Every task works on the queues \<open>veh_queues\<close>. The unload task is the one the safety task calls.
  The control task asks it for an abort through a direct call, which takes effect here at the end of
  the control task's round, and reads the generation of its gate.
\<close>

record vehicle =
  veh_queues :: app_queues
  veh_rx :: comm_rx_dispatch_t
  veh_effects :: comm_rx_dispatch_effects_t
  veh_safety :: safety_task
  veh_control :: control_task



definition unload_round :: "vehicle \<Rightarrow> vehicle" where
  "unload_round v =
     (let u = unload_cycle ((sf_unload (veh_safety v))\<lparr>un_queues := veh_queues v\<rparr>)
      in v\<lparr>veh_safety := (veh_safety v)\<lparr>sf_unload := u\<rparr>, veh_queues := un_queues u\<rparr>)"


section \<open>From the frame to the queue of the safety task\<close>





section \<open>The safety task tells the control task\<close>

text \<open>What the safety task does to the queues: it appends to the control task's.\<close>

definition queues_extend :: "app_queues \<Rightarrow> app_queues \<Rightarrow> bool" where
  "queues_extend q q' \<longleftrightarrow>
     unloadResultQueue q' = unloadResultQueue q \<and> safetyEventQueue q' = safetyEventQueue q
     \<and> (\<forall>cq. controlSafetyQueue q = Some cq \<longrightarrow>
          (\<exists>xs. controlSafetyQueue q' = Some (cq\<lparr>queue_items := queue_items cq @ xs\<rparr>)))"


lemma extend_refl [simp]: "queues_extend q q"
  by (auto simp: queues_extend_def intro: exI [of _ "[]"])









lemma deactivate_queues [simp]: "sf_queues (SafetyTask_DeactivateHazard event s) = sf_queues s"
  by (simp add: SafetyTask_DeactivateHazard_def Let_def)









section \<open>The round of the safety task\<close>




section \<open>From the frame to the wheels\<close>






end
