(* ===== verification/Linetracer_Unload_Run.thy ===== *)
theory Linetracer_Unload_Run
  imports Linetracer_Unload_Gate
begin

text \<open>
  An unloading that nobody disturbs: round after round the platform is raised, lowered and switched
  off, and the result is reported once.
\<close>

section \<open>Time\<close>


section \<open>A round without requests\<close>




lemma apply_hw_frame [simp]:
  "s_safety_inhibited (snd (UnloadHw_Apply out h)) = s_safety_inhibited h"
  "pwm_start_ok (snd (UnloadHw_Apply out h)) = pwm_start_ok h"
  by (simp_all add: UnloadHw_Apply_def UnloadHw_StopPwm_def drive_servos_def servo_compares_off_def Let_def)



lemma put_health_queues [simp]:
  "unloadResultQueue (snd (AppQueues_TryPutHealth event q)) = unloadResultQueue q"
  "unloadCommandQueue (snd (AppQueues_TryPutHealth event q)) = unloadCommandQueue q"
  by (simp_all add: AppQueues_TryPutHealth_def Let_def split: prod.splits)


section \<open>The phases\<close>









section \<open>The unloading\<close>







end
