(* ===== verification/Spec2Isabelle.thy ===== *)
theory Spec2Isabelle
  imports Uart_Parser Linetracer_Commands Sorting_Commands Input_Commands Conveyor_Events
    Rtos_Queue Gripper_Reception
    Conveyor_Filter Conveyor_Echo Input_Control Sorting_Cycle Conveyor_Tx_Ring
    Linetracer_Progress Linetracer_Junction Linetracer_Wheels Linetracer_Vehicle
    Linetracer_Unload_Run
begin

text \<open>
  Verification of the C code of the logistics automation system: the wire protocol that all
  controllers share, and the firmware of the STM32 controllers.

  \<^bold>\<open>The program.\<close> A Raspberry Pi per station talks over a UART to an STM32 controller. Frames
  (\<open>src/shared/contracts/uart\<close>, \<open>src/shared/include/logistics/contracts\<close>) carry commands to the
  controller and responses and events back. The gripper firmware
  (\<open>src/stm32/gripper-controller/Application\<close>) has five FreeRTOS tasks: the receive task parses
  the bytes that the circular DMA delivers and routes each frame to the control task or to the
  safety task through a message queue; the control task runs commands and the motion; the safety
  task owns the emergency-stop latch; the transmit task encodes and sends responses, events and
  heartbeats; the health task derives the device status. The conveyor firmware
  (\<open>src/stm32/conveyor-controller/Application\<close>) drives two conveyors with one board: the input
  conveyor, a motor commanded over UART 1, and the sorting line, a motor and a two-servo gate
  commanded over UART 6, each with ultrasonic sensors. The linetracer firmware
  (\<open>src/stm32/linetracer-controller/Application\<close>) drives a vehicle that follows lines on the floor
  from a loading zone to an unloading zone: the control task takes commands, samples of the line
  and load sensors, events of the safety task and results of the unload task from queues, steps the
  control logic with its route planner, and drives the two wheels; the safety task latches hazards,
  tells the control task and shuts the gate of the servos of the unload task, which tilts the
  platform; the receive task decodes frames and dispatches them to the control and safety tasks.

  \<^bold>\<open>Theories.\<close>
  \<^item> \<open>Prelude\<close>: words, bytes, C pointers as options, \<open>memcpy\<close>.
  \<^item> \<open>Uart_Protocol\<close>, \<open>Uart_Crc16\<close>, \<open>Uart_Codec\<close>, \<open>Uart_Parser\<close>: \<open>uart_protocol.h\<close>,
    \<open>uart_crc16.c\<close>, \<open>uart_codec.c\<close>, \<open>uart_parser.c\<close>. The codec is proved against the wire image
    \<open>frame_bytes\<close> of a frame, the parser against an abstract parser that keeps the bytes since the
    start byte (\<open>abs_feed\<close>, \<open>parser_rel\<close>).
  \<^item> \<open>Device_Contract\<close>, \<open>Gripper_Commands\<close>, \<open>Linetracer_Commands\<close>, \<open>Sorting_Commands\<close>,
    \<open>Input_Commands\<close>, \<open>Conveyor_Events\<close>: the command headers of the devices; each payload
    validator is proved equal to the set of wire images of the contract's requests.
  \<^item> \<open>Rtos_Queue\<close>: the CMSIS-RTOS2 message queue as the firmware uses it; the contract
    \<open>message_queue\<close> is a locale, interpreted on the model.
  \<^item> \<open>Gripper_Servo\<close>, \<open>Gripper_Control\<close>, \<open>Gripper_System\<close>: \<open>gripper_servo.c\<close>,
    \<open>gripper_control.c\<close>. The controller calls the servos through a record of functions; what it
    relies on is the locale of servo ports, interpreted on the MG90S driver. \<open>gripper_step\<close> is one
    call of a controller operation, \<open>system_ok\<close> its invariant.
  \<^item> \<open>Gripper_Messages\<close>, \<open>Gripper_Tx\<close>, \<open>Gripper_Uart_Rx\<close>: \<open>app_messages.h\<close>, \<open>app_queues.c\<close>,
    \<open>app_comm_tx.c\<close>, \<open>uart_rx.c\<close>. An attempt to transmit is given by what the HAL returns and the
    interrupts that arrive while the task waits.
  \<^item> \<open>Gripper_App\<close>: the statics of all tasks as one record \<open>gripper_app\<close>.
  \<^item> \<open>Gripper_Task\<close>, \<open>Gripper_Transactions\<close>: \<open>gripper_control_task.c\<close>; \<open>outbox\<close> is what is queued
    for transmission together with the response and the event kept for a retry.
  \<^item> \<open>Gripper_Safety\<close>, \<open>Gripper_Latch\<close>: \<open>safety_task.c\<close>, \<open>health_task.c\<close>; the five booleans of the
    distributed emergency stop and their latch machine.
  \<^item> \<open>Gripper_Rx\<close>, \<open>Gripper_Reception\<close>: \<open>comm_rx_task.c\<close>.
  \<^item> \<open>Gripper_Firmware\<close>, \<open>Gripper_Emergency\<close>: the tasks together. \<open>app_step\<close> interleaves their
    operations, \<open>app_reachable\<close> starts from the statics at reset and \<open>firmware_ok\<close> is the
    conjunction of the tasks' invariants.
  \<^item> \<open>Conveyor_Filter\<close>, \<open>Conveyor_Echo\<close>: \<open>sensor_filter.c\<close>, \<open>hc_sr04.c\<close>. The filter is proved
    against the history of its measurements; the ultrasonic driver against the times of the two
    edges, on a counter of 32 bits and of 16 bits.
  \<^item> \<open>Conveyor_Drives\<close>: \<open>conveyor_motor_power.c\<close>, \<open>input_motor_tb6612.c\<close>,
    \<open>sorting_motor_tb6612.c\<close>, \<open>sorting_gate_mg90s.c\<close>: one record \<open>drives\<close> of their statics, the
    pins and the PWM outputs. What the controllers rely on are the locales \<open>conveyor_motor\<close> and
    \<open>gate_port\<close>, interpreted on the drivers.
  \<^item> \<open>Conveyor_Messages\<close>, \<open>Input_Control\<close>: \<open>app_messages.h\<close>, \<open>input_control.c\<close>; the locale
    \<open>input_motor\<close> proves that the motor follows the controller's state for every motor port.
  \<^item> \<open>Sorting_Control\<close>, \<open>Sorting_Cycle\<close>: \<open>sorting_control.c\<close>; its invariant \<open>sorting_ok\<close>, the
    locale \<open>sorting_ports\<close> for motor and gate, and \<open>sorting_run\<close>, the runs of the line with the
    items routed and the completions reported so far.
  \<^item> \<open>Conveyor_Tx\<close>, \<open>Conveyor_Tx_Ring\<close>: the conveyor's \<open>app_comm_tx.c\<close>, a ring of frames per UART
    that the task fills and the completion interrupts empty. \<open>tx_run\<close> interleaves critical sections,
    starts and interrupts, without the runs in which a transmit DMA error is reported for a channel
    between its claim and the start of its transfer: there a frame is sent twice
    (\<open>error_in_claim_window_sends_twice\<close>). \<open>ring\<close> is the abstract content of a channel.
  \<^item> \<open>Linetracer_Types\<close>, \<open>Linetracer_Route\<close>: \<open>linetracer_control_types.h\<close>, \<open>app_messages.h\<close>,
    \<open>route_planner.c\<close>; the planner is run on a map of the floor (zones, junctions, headings), and
    \<open>plan_typed\<close> is the invariant of its plans.
  \<^item> \<open>Linetracer_Control\<close>, \<open>Linetracer_Line\<close>: \<open>control_logic.c\<close>, in two halves: the state machine
    of jobs with commands, safety events and markers, and the samples of the line with the
    maneuvers at junctions, loads and completions.
  \<^item> \<open>Linetracer_Motor\<close>: \<open>motor_control_logic.c\<close>, \<open>line_follow_pid.c\<close>, \<open>motor_control.c\<close>; the
    record \<open>wheel_drive\<close> has the statics, the pins and the compare registers.
  \<^item> \<open>Linetracer_Queues\<close>, \<open>Linetracer_Control_Task\<close>: \<open>app_queues.c\<close>, \<open>control_task.c\<close>;
    \<open>control_cycle\<close> is one round of the task's loop over the record \<open>control_task\<close>.
  \<^item> \<open>Linetracer_Latch\<close>: the safety latch over runs of the task, and the states in which the wheels
    stand still.
  \<^item> \<open>Linetracer_Wheels\<close>: the invariant \<open>drive_ok\<close> of the motor driver over all runs.
  \<^item> \<open>Linetracer_Job\<close>, \<open>Linetracer_Progress\<close>: \<open>job_ok\<close>, the invariant that ties the state of the
    drive, the job and the phase of the plan; \<open>ctx_step\<close> is one operation of the control logic, a
    cycle is a sequence of them, and \<open>task_run\<close> are the runs of the task.
  \<^item> \<open>Linetracer_Junction\<close>: the legs between junctions as sequences of line samples: crossing,
    turning and arriving with any number of samples in each part, and what a stop on a junction does.
  \<^item> \<open>Linetracer_Unload\<close>, \<open>Linetracer_Unload_Gate\<close>, \<open>Linetracer_Unload_Run\<close>: \<open>unload_logic.c\<close>,
    \<open>unload_hw.c\<close>, \<open>unload_task.c\<close>. \<open>unload_step\<close> are the pieces of a round with what other tasks and
    the environment do in between; the safety gate keeps the servos off over all its runs, and an
    unloading that nobody disturbs completes.
  \<^item> \<open>Linetracer_Safety\<close>, \<open>Linetracer_Safety_Run\<close>: \<open>safety_policy.c\<close>, \<open>safety_task.c\<close>;
    \<open>safety_consistent\<close> ties the latch, its reason and the masks of hazards over every run, and
    \<open>latch_message_lost_when_full\<close> shows how a full queue loses the message of a latch.
  \<^item> \<open>Linetracer_Comm_Rx\<close>, \<open>Linetracer_Dispatch\<close>: \<open>comm_rx_logic.c\<close>, \<open>comm_rx_dispatch.c\<close> and the
    port of \<open>comm_rx_task.c\<close>. What the dispatcher needs of its port is the locale
    \<open>dispatch_port\<close>, interpreted on that port.
  \<^item> \<open>Linetracer_Vehicle\<close>: the four tasks over one set of queues; an emergency stop is followed from
    its frame to the wheels and the servos.

  \<^bold>\<open>How the code is read.\<close> Machine integers are words of their width, with C's promotions
  written out where they matter (the interpolation is signed 32-bit). A pointer argument is an
  option, \<open>NULL\<close> its \<open>None\<close>. Structures are records, a function that changes statics takes and
  returns the record. Critical sections and atomic accesses make each operation between two
  blocking calls one step (the conveyor's motor drivers among them, although their pin and PWM
  writes are not protected as a whole); the statistics counters, which tasks update without protection, are
  modelled as if updates were not lost. Results of the HAL, contents of uninitialised buffers
  and readings of the clock are arguments, for the conveyor's drivers the fields \<open>hal_tick\<close> and
  \<open>hal_pwm_ok\<close> of \<open>drives\<close>, which steps of the environment change. In the linetracer's control task
  the clock is the stream \<open>ctk_ticks\<close> of readings, and the single-precision arithmetic of the
  line-following controller is exact arithmetic followed by a rounding \<open>rnd\<close>, an arbitrary function:
  what is proved holds for every rounding. Loops of tasks are modelled as one round, the start
  loop of the receive task by the list of outcomes, the transmit attempts by their bound of four.

  \<^bold>\<open>Not modelled.\<close> The vendored HAL, CMSIS and FreeRTOS code beyond the queue and flag calls,
  the generated start-up code, and the C++ programs of the server, the control center and the
  device nodes. The tasks of the conveyor firmware around its controllers and the linetracer's
  sensor, transmit and health tasks are not modelled: for the modelled tasks they are steps that
  change the queues and flags they read. Of the linetracer's \<open>comm_rx_task.c\<close> only the port of the
  dispatcher is modelled, not its DMA buffer and loop. The debug trace of the control task
  (\<open>ControlTask_TracePid\<close>, output only) and the kernel driver \<open>vedauart.c\<close> are left out as well.
\<close>

end
